(* ===== verification/CoreErrors.thy ===== *)
theory CoreErrors
  imports Prelude
begin

text \<open>
  \<open>lxcup-core/src/error.rs\<close>: the stable error categories, the bounded retry policy (machine
  integers at their width) and the domain errors every other component returns.
\<close>

section \<open>Error categories\<close>

datatype error_code =
    InvalidRequest | NotFound | Unauthorized | Forbidden | Conflict
  | DependencyUnavailable | Timeout | Internal

fun error_code_as_str :: "error_code \<Rightarrow> str" where
  "error_code_as_str InvalidRequest = lit ''invalid_request''"
| "error_code_as_str NotFound = lit ''not_found''"
| "error_code_as_str Unauthorized = lit ''unauthorized''"
| "error_code_as_str Forbidden = lit ''forbidden''"
| "error_code_as_str Conflict = lit ''conflict''"
| "error_code_as_str DependencyUnavailable = lit ''dependency_unavailable''"
| "error_code_as_str Timeout = lit ''timeout''"
| "error_code_as_str Internal = lit ''internal_error''"

lemma error_code_as_str_inj: "error_code_as_str a = error_code_as_str b \<longleftrightarrow> a = b"
  by (cases a; cases b) simp_all

section \<open>Retry policy\<close>

record retry_policy =
  max_attempts :: u8
  initial_backoff_ms :: u64
  max_backoff_ms :: u64

definition conservative :: retry_policy where
  "conservative = \<lparr>max_attempts = 3, initial_backoff_ms = 100, max_backoff_ms = 2000\<rparr>"

text \<open>\<open>u64::saturating_mul\<close> and \<open>u8::saturating_add\<close>.\<close>

definition saturating_mul_u64 :: "u64 \<Rightarrow> u64 \<Rightarrow> u64" where
  "saturating_mul_u64 a b = (if unat a * unat b < 2 ^ 64 then a * b else - 1)"

definition saturating_add_u8 :: "u8 \<Rightarrow> u8 \<Rightarrow> u8" where
  "saturating_add_u8 a b = (if unat a + unat b < 2 ^ 8 then a + b else - 1)"

definition delay_ms :: "retry_policy \<Rightarrow> u8 \<Rightarrow> u64" where
  "delay_ms p retry_number =
     (let shift = unat (if 6 < retry_number then 6 else retry_number);
          value = saturating_mul_u64 (initial_backoff_ms p) (push_bit shift 1)
      in if max_backoff_ms p < value then max_backoff_ms p else value)"

definition allows_retry :: "retry_policy \<Rightarrow> u8 \<Rightarrow> bool" where
  "allows_retry p attempts_completed \<longleftrightarrow>
     saturating_add_u8 attempts_completed 1 < max_attempts p"

lemma unat_minus_one_u64: "unat (- 1 :: u64) = 2 ^ 64 - 1"
  by (simp add: unsigned_minus_1_eq_mask mask_eq_exp_minus_1)

lemma unat_minus_one_u8: "unat (- 1 :: u8) = 255"
  by (simp add: unsigned_minus_1_eq_mask mask_eq_exp_minus_1)

lemma unat_saturating_mul_u64:
  "unat (saturating_mul_u64 a b) = min (unat a * unat b) (2 ^ 64 - 1)"
proof (cases "unat a * unat b < 2 ^ 64")
  case True
  then have "unat (a * b) = unat a * unat b"
    by (simp add: unat_word_ariths)
  with True show ?thesis by (simp add: saturating_mul_u64_def)
next
  case False
  then show ?thesis by (simp add: saturating_mul_u64_def unat_minus_one_u64)
qed

lemma unat_saturating_add_u8:
  "unat (saturating_add_u8 a b) = min (unat a + unat b) 255"
proof (cases "unat a + unat b < 2 ^ 8")
  case True
  then have "unat (a + b) = unat a + unat b"
    by (simp add: unat_word_ariths)
  with True show ?thesis by (simp add: saturating_add_u8_def)
next
  case False
  then show ?thesis by (simp add: saturating_add_u8_def unat_minus_one_u8)
qed

lemma unat_shifted_one: "n \<le> 6 \<Longrightarrow> unat (push_bit n 1 :: u64) = 2 ^ n"
proof -
  assume "n \<le> 6"
  then have "n \<in> {0, 1, 2, 3, 4, 5, 6}" by auto
  then show ?thesis by auto
qed

text \<open>The delay in exact arithmetic: doubling per retry, at most six doublings, capped.\<close>

lemma unat_delay_ms:
  "unat (delay_ms p n) =
     min (unat (initial_backoff_ms p) * 2 ^ min (unat n) 6) (unat (max_backoff_ms p))"
proof -
  let ?s = "unat (if 6 < n then 6 else n)"
  have s: "?s = min (unat n) 6"
    by (simp add: word_less_nat_alt)
  have sh: "unat (push_bit ?s 1 :: u64) = 2 ^ ?s"
    by (rule unat_shifted_one) (simp add: s)
  have v: "unat (saturating_mul_u64 (initial_backoff_ms p) (push_bit ?s 1)) =
      min (unat (initial_backoff_ms p) * 2 ^ min (unat n) 6) (2 ^ 64 - 1)"
    using sh s by (simp only: unat_saturating_mul_u64)
  have m: "unat (max_backoff_ms p) \<le> 2 ^ 64 - 1"
    using unsigned_less [of "max_backoff_ms p", where 'a = nat] by simp
  show ?thesis
    unfolding delay_ms_def Let_def
    using v m by (auto simp: word_less_nat_alt min_def)
qed

lemma allows_retry_iff: "allows_retry p n \<longleftrightarrow> min (unat n + 1) 255 < unat (max_attempts p)"
  by (simp add: allows_retry_def word_less_nat_alt unat_saturating_add_u8)

section \<open>Domain errors\<close>

datatype domain_error =
    EmptyValue str
  | InvalidPackageName
  | InvalidEnvironmentEndpoint
  | InvalidStateTransition str
  | PermissionDenied
  | ConfirmationRequired

fun domain_error_to_string :: "domain_error \<Rightarrow> str" where
  "domain_error_to_string (EmptyValue field) = field @ lit '' must not be empty''"
| "domain_error_to_string InvalidPackageName = lit ''package name must not contain whitespace''"
| "domain_error_to_string InvalidEnvironmentEndpoint =
     lit ''environment endpoint must be a valid https URL without whitespace''"
| "domain_error_to_string (InvalidStateTransition d) =
     lit ''invalid domain state transition: '' @ d"
| "domain_error_to_string PermissionDenied = lit ''permission denied''"
| "domain_error_to_string ConfirmationRequired = lit ''explicit confirmation is required''"

text \<open>
  \<open>LxcupError\<close> joins domain errors and infrastructure errors; of an infrastructure error only the
  operation name is visible, the boxed technical source is of any type.
\<close>

record 'src infrastructure_error =
  operation :: str
  source :: 'src

datatype 'src lxcup_error = Domain domain_error | Infrastructure "'src infrastructure_error"

fun lxcup_error_code :: "'src lxcup_error \<Rightarrow> str" where
  "lxcup_error_code (Domain _) = lit ''domain_error''"
| "lxcup_error_code (Infrastructure _) = lit ''infrastructure_error''"

fun public_message :: "'src lxcup_error \<Rightarrow> str" where
  "public_message (Domain _) = lit ''The requested domain operation is not valid.''"
| "public_message (Infrastructure _) = lit ''A required infrastructure operation failed.''"

type_synonym 'a domain_result = "domain_error + 'a"

end
