(* ===== verification/Lifecycle.thy ===== *)
theory Lifecycle
  imports CoreErrors
begin

text \<open>
  The contract that every status machine of lxcup shares: a record with a status, the table
  \<open>can_transition_to\<close> and the guarded operation \<open>transition_to\<close>. The components interpret the
  locale on their own records and obtain what a sequence of transitions can reach.
\<close>

locale status_machine =
  fixes status :: "'r \<Rightarrow> 's"
    and can :: "'s \<Rightarrow> 's \<Rightarrow> bool"
    and transition :: "'s \<Rightarrow> 't \<Rightarrow> 'r \<Rightarrow> 'e + 'r"
  assumes transition_allowed:
      "can (status r) n \<Longrightarrow> \<exists>r'. transition n t r = Inr r' \<and> status r' = n"
    and transition_refused: "\<not> can (status r) n \<Longrightarrow> \<exists>e. transition n t r = Inl e"
begin

lemma transition_ok_iff: "is_ok (transition n t r) \<longleftrightarrow> can (status r) n"
  using transition_allowed [of r n t] transition_refused [of r n t]
  by (cases "can (status r) n") auto

lemma transition_InrD: "transition n t r = Inr r' \<Longrightarrow> can (status r) n \<and> status r' = n"
  using transition_allowed [of r n t] transition_refused [of r n t]
  by (cases "can (status r) n") auto

text \<open>A sequence of transitions follows the table.\<close>

lemma run_path:
  "fold_result (\<lambda>(n, t). transition n t) xs r = Inr r' \<Longrightarrow> can\<^sup>*\<^sup>* (status r) (status r')"
proof (induction xs arbitrary: r)
  case Nil
  then show ?case by simp
next
  case (Cons x xs)
  obtain n t where x: "x = (n, t)" by fastforce
  with Cons.prems obtain r1
    where 1: "transition n t r = Inr r1"
      and 2: "fold_result (\<lambda>(n, t). transition n t) xs r1 = Inr r'"
    by (auto simp: bindR_Inr_iff)
  have "can (status r) (status r1)" using transition_InrD [OF 1] by simp
  then show ?case using Cons.IH [OF 2] by (rule converse_rtranclp_into_rtranclp)
qed

text \<open>A set of statuses closed under the table is never left.\<close>

lemma run_closed:
  assumes run: "fold_result (\<lambda>(n, t). transition n t) xs r = Inr r'"
    and closed: "\<And>s n. s \<in> S \<Longrightarrow> can s n \<Longrightarrow> n \<in> S"
    and start: "status r \<in> S"
  shows "status r' \<in> S"
  using run_path [OF run] start
  by (induction rule: rtranclp_induct) (auto intro: closed)

text \<open>A status with no successor is final: only the empty sequence succeeds from it.\<close>

lemma run_terminal:
  assumes "fold_result (\<lambda>(n, t). transition n t) xs r = Inr r'"
    and "\<And>n. \<not> can (status r) n"
  shows "xs = [] \<and> r' = r"
proof (cases xs)
  case Nil
  with assms(1) show ?thesis by simp
next
  case (Cons x ys)
  obtain n t where "x = (n, t)" by fastforce
  with assms(1) Cons obtain r1 where "transition n t r = Inr r1"
    by (auto simp: bindR_Inr_iff)
  with transition_InrD assms(2) show ?thesis by blast
qed

text \<open>
  What one transition keeps, every sequence keeps: the rule behind the record invariants of the
  components.
\<close>

lemma run_invariant:
  assumes "fold_result (\<lambda>(n, t). transition n t) xs r = Inr r'"
    and "\<And>n t r r'. I r \<Longrightarrow> transition n t r = Inr r' \<Longrightarrow> I r'"
    and "I r"
  shows "I r'"
  using assms(1,3)
proof (induction xs arbitrary: r)
  case Nil
  then show ?case by simp
next
  case (Cons x xs)
  obtain n t where "x = (n, t)" by fastforce
  with Cons.prems(1) obtain r1
    where "transition n t r = Inr r1"
      and "fold_result (\<lambda>(n, t). transition n t) xs r1 = Inr r'"
    by (auto simp: bindR_Inr_iff)
  then show ?case using Cons.IH assms(2) Cons.prems(2) by blast
qed

end

end
