(* ===== verification/Resources.thy ===== *)
theory Resources
  imports Lifecycle
begin

text \<open>
  The managed resources of \<open>lxcup-core\<close>: \<open>resource.rs\<close> (roles, permissions and the central
  \<open>validate_action\<close>), \<open>target.rs\<close> and \<open>container.rs\<close>. Ids made of a UUID are \<open>uuid\<close>; a
  \<open>ContainerId\<close> is a \<open>u64\<close>. A constructor that draws a fresh id or reads the clock takes both as
  arguments.
\<close>

section \<open>Roles, permissions and resource actions (resource.rs)\<close>

datatype resource_target = Target uuid | Node uuid | Container u64

datatype resource_lifecycle = Pending | Discovered | Managed | Failed | Disabled

fun resource_can_transition_to :: "resource_lifecycle \<Rightarrow> resource_lifecycle \<Rightarrow> bool" where
  "resource_can_transition_to Pending n \<longleftrightarrow> n \<in> {Pending, Discovered, Failed}"
| "resource_can_transition_to Discovered n \<longleftrightarrow> n \<in> {Discovered, Managed, Disabled, Failed}"
| "resource_can_transition_to Managed n \<longleftrightarrow> n \<in> {Managed, Pending, Disabled, Failed}"
| "resource_can_transition_to Failed n \<longleftrightarrow> n \<in> {Failed, Pending, Disabled}"
| "resource_can_transition_to Disabled n \<longleftrightarrow> n \<in> {Disabled, Pending}"

datatype permission = Read | Configure | PermDeployAgent | Update | Destructive

datatype actor_role = Viewer | Operator | Admin

fun grants :: "actor_role \<Rightarrow> permission \<Rightarrow> bool" where
  "grants Viewer p \<longleftrightarrow> p = Read"
| "grants Operator p \<longleftrightarrow> p \<in> {Read, Configure, PermDeployAgent, Update}"
| "grants Admin p \<longleftrightarrow> True"

datatype resource_action =
    Discover | HealthCheck | ConfigureTarget | DeployAgent | UpdateAgent | RepairAgent
  | UpdatePackages | CollectPackageInventory | DisableResource | DeleteResource

fun action_permission :: "resource_action \<Rightarrow> permission" where
  "action_permission Discover = Read"
| "action_permission HealthCheck = Read"
| "action_permission CollectPackageInventory = Read"
| "action_permission ConfigureTarget = Configure"
| "action_permission DeployAgent = PermDeployAgent"
| "action_permission UpdateAgent = Update"
| "action_permission RepairAgent = Update"
| "action_permission UpdatePackages = Update"
| "action_permission DisableResource = Destructive"
| "action_permission DeleteResource = Destructive"

definition is_destructive :: "resource_action \<Rightarrow> bool" where
  "is_destructive a \<longleftrightarrow> a \<in> {DisableResource, DeleteResource}"

fun action_supports :: "resource_action \<Rightarrow> resource_target \<Rightarrow> bool" where
  "action_supports a (Target _) \<longleftrightarrow> True"
| "action_supports a (Node _) \<longleftrightarrow>
     a \<in> {Discover, HealthCheck, ConfigureTarget, DisableResource, DeleteResource}"
| "action_supports a (Container _) \<longleftrightarrow> True"

definition validate_action ::
  "actor_role \<Rightarrow> resource_target \<Rightarrow> resource_lifecycle \<Rightarrow> resource_action \<Rightarrow> bool \<Rightarrow> str
     \<Rightarrow> unit domain_result" where
  "validate_action role target lifecycle action confirmed idempotency_key =
     (if \<not> action_supports action target then
        Inl (InvalidStateTransition (lit ''action is not supported for resource target''))
      else if \<not> grants role (action_permission action) then Inl PermissionDenied
      else if lifecycle = Disabled \<and> \<not> (action = Discover \<or> action = HealthCheck) then
        Inl (InvalidStateTransition (lit ''disabled resource cannot run this action''))
      else if is_destructive action \<and> \<not> confirmed then Inl ConfirmationRequired
      else if trim idempotency_key = [] then Inl (EmptyValue (lit ''idempotency key''))
      else if 200 < length idempotency_key then
        Inl (InvalidStateTransition (lit ''idempotency key is too long''))
      else Inr ())"

lemma validate_action_ok_iff:
  "is_ok (validate_action role target lifecycle action confirmed key) \<longleftrightarrow>
     action_supports action target \<and> grants role (action_permission action)
     \<and> (lifecycle = Disabled \<longrightarrow> action = Discover \<or> action = HealthCheck)
     \<and> (is_destructive action \<longrightarrow> confirmed) \<and> trim key \<noteq> [] \<and> length key \<le> 200"
  by (auto simp: validate_action_def)

lemma is_destructive_permission: "is_destructive a \<longleftrightarrow> action_permission a = Destructive"
  by (cases a) (auto simp: is_destructive_def)

lemma grants_destructive: "grants role Destructive \<longleftrightarrow> role = Admin"
  by (cases role) auto

lemma grants_mono:
  "grants Viewer p \<Longrightarrow> grants Operator p" "grants Operator p \<Longrightarrow> grants Admin p"
  by auto

section \<open>Targets (target.rs)\<close>

datatype target_kind = Lxc | LinuxServer | WindowsServer

datatype target_transport = Ssh | Winrm | Agent

fun transport_supports :: "target_transport \<Rightarrow> target_kind \<Rightarrow> bool" where
  "transport_supports Ssh k \<longleftrightarrow> k \<in> {Lxc, LinuxServer}"
| "transport_supports Winrm k \<longleftrightarrow> k = WindowsServer"
| "transport_supports Agent k \<longleftrightarrow> k = WindowsServer"

datatype target_state = TargetPending | TargetManaged | TargetDisabled

record target =
  tg_id :: uuid
  tg_name :: str
  tg_kind :: target_kind
  tg_address :: str
  tg_transport :: target_transport
  tg_ssh_user :: "str option"
  tg_credential_secret_ref :: "uuid option"
  tg_ssh_known_hosts_secret_ref :: "uuid option"
  tg_agent_secret_ref :: uuid
  tg_state :: target_state
  tg_created_at :: timestamp
  tg_updated_at :: timestamp

definition new_with_credentials ::
  "uuid \<Rightarrow> timestamp \<Rightarrow> str \<Rightarrow> target_kind \<Rightarrow> str \<Rightarrow> target_transport \<Rightarrow> uuid option \<Rightarrow> uuid
     \<Rightarrow> target domain_result" where
  "new_with_credentials fresh now name0 kind address0 transport credential agent_secret =
     (let name = trim name0; address = trim address0 in
      if name = [] then Inl (EmptyValue (lit ''target name''))
      else if address = [] then Inl (EmptyValue (lit ''target address''))
      else if \<not> transport_supports transport kind then
        Inl (InvalidStateTransition (lit ''target kind does not support transport''))
      else if (transport = Agent) \<noteq> (credential = None) then
        Inl (InvalidStateTransition
          (lit ''agent transport must not require deployment credentials''))
      else Inr \<lparr>tg_id = fresh, tg_name = name, tg_kind = kind, tg_address = address,
        tg_transport = transport, tg_ssh_user = None, tg_credential_secret_ref = credential,
        tg_ssh_known_hosts_secret_ref = None, tg_agent_secret_ref = agent_secret,
        tg_state = TargetPending, tg_created_at = now, tg_updated_at = now\<rparr>)"

definition target_new ::
  "uuid \<Rightarrow> timestamp \<Rightarrow> str \<Rightarrow> target_kind \<Rightarrow> str \<Rightarrow> target_transport \<Rightarrow> uuid \<Rightarrow> uuid
     \<Rightarrow> target domain_result" where
  "target_new fresh now name kind address transport credential agent_secret =
     new_with_credentials fresh now name kind address transport (Some credential) agent_secret"

definition new_agent_only ::
  "uuid \<Rightarrow> timestamp \<Rightarrow> str \<Rightarrow> target_kind \<Rightarrow> str \<Rightarrow> uuid \<Rightarrow> target domain_result" where
  "new_agent_only fresh now name kind address agent_secret =
     new_with_credentials fresh now name kind address Agent None agent_secret"

definition mark_managed :: "timestamp \<Rightarrow> target \<Rightarrow> target" where
  "mark_managed now t = t\<lparr>tg_state := TargetManaged, tg_updated_at := now\<rparr>"

definition workflow_auth_secret_ref :: "target \<Rightarrow> uuid option" where
  "workflow_auth_secret_ref t =
     (if tg_transport t = Agent then Some (tg_agent_secret_ref t)
      else tg_credential_secret_ref t)"

definition deployment_secret_refs :: "target \<Rightarrow> uuid list" where
  "deployment_secret_refs t =
     (case tg_credential_secret_ref t of None \<Rightarrow> [] | Some c \<Rightarrow> [c]) @ [tg_agent_secret_ref t]"

text \<open>The invariant every constructor establishes and \<open>mark_managed\<close> keeps.\<close>

definition target_ok :: "target \<Rightarrow> bool" where
  "target_ok t \<longleftrightarrow> tg_name t \<noteq> [] \<and> trim (tg_name t) = tg_name t
     \<and> tg_address t \<noteq> [] \<and> trim (tg_address t) = tg_address t
     \<and> transport_supports (tg_transport t) (tg_kind t)
     \<and> (tg_transport t = Agent \<longleftrightarrow> tg_credential_secret_ref t = None)"

lemma new_with_credentials_ok:
  "new_with_credentials fresh now n k a tr c s = Inr t \<Longrightarrow> target_ok t"
  by (auto simp: new_with_credentials_def target_ok_def Let_def split: if_splits)

lemma mark_managed_ok: "target_ok t \<Longrightarrow> target_ok (mark_managed now t)"
  by (simp add: target_ok_def mark_managed_def)

lemma target_ok_auth: "target_ok t \<Longrightarrow> \<exists>s. workflow_auth_secret_ref t = Some s"
  by (auto simp: target_ok_def workflow_auth_secret_ref_def)

lemma target_auth_deployed:
  assumes "target_ok t" "workflow_auth_secret_ref t = Some s"
  shows "s \<in> set (deployment_secret_refs t)"
  using assms by (auto simp: target_ok_def workflow_auth_secret_ref_def deployment_secret_refs_def
      split: if_splits option.splits)

section \<open>Containers (container.rs)\<close>

datatype container_status = ContainerRunning | ContainerStopped | ContainerUnknown

datatype container_management_state = CMDiscovered | CMManaged | CMIgnored | CMDisabled

datatype container_action =
    Start | Stop | Shutdown | Reboot | Refresh | Clone | Backup | Restore | Delete

definition requires_confirmation :: "container_action \<Rightarrow> bool" where
  "requires_confirmation a \<longleftrightarrow> a \<in> {Clone, Backup, Restore, Delete}"

fun is_supported_for :: "container_action \<Rightarrow> container_status \<Rightarrow> bool" where
  "is_supported_for Start s \<longleftrightarrow> s = ContainerStopped"
| "is_supported_for Stop s \<longleftrightarrow> s = ContainerRunning"
| "is_supported_for Shutdown s \<longleftrightarrow> s = ContainerRunning"
| "is_supported_for Reboot s \<longleftrightarrow> s = ContainerRunning"
| "is_supported_for Refresh s \<longleftrightarrow> True"
| "is_supported_for Clone s \<longleftrightarrow> True"
| "is_supported_for Backup s \<longleftrightarrow> True"
| "is_supported_for Restore s \<longleftrightarrow> True"
| "is_supported_for Delete s \<longleftrightarrow> True"

fun management_can_transition_to ::
  "container_management_state \<Rightarrow> container_management_state \<Rightarrow> bool" where
  "management_can_transition_to CMDiscovered n \<longleftrightarrow> n \<in> {CMManaged, CMIgnored, CMDisabled}"
| "management_can_transition_to CMManaged n \<longleftrightarrow> n \<in> {CMIgnored, CMDisabled}"
| "management_can_transition_to CMIgnored n \<longleftrightarrow> n \<in> {CMManaged, CMDisabled}"
| "management_can_transition_to CMDisabled n \<longleftrightarrow> n = CMManaged"

datatype operating_system = Debian | Ubuntu | UnknownOs str

record container =
  ct_id :: u64
  ct_node_id :: uuid
  ct_name :: str
  ct_operating_system :: operating_system
  ct_status :: container_status
  ct_management_state :: container_management_state
  ct_discovered_at :: timestamp

definition container_new ::
  "timestamp \<Rightarrow> u64 \<Rightarrow> uuid \<Rightarrow> str \<Rightarrow> operating_system \<Rightarrow> container_status
     \<Rightarrow> container domain_result" where
  "container_new now cid node_id name os status =
     (if trim name = [] then Inl (EmptyValue (lit ''container name''))
      else Inr \<lparr>ct_id = cid, ct_node_id = node_id, ct_name = name, ct_operating_system = os,
        ct_status = status, ct_management_state = CMDiscovered, ct_discovered_at = now\<rparr>)"

definition transition_management_to ::
  "container_management_state \<Rightarrow> container \<Rightarrow> container domain_result" where
  "transition_management_to next c =
     (if \<not> management_can_transition_to (ct_management_state c) next then
        Inl (InvalidStateTransition (lit ''container management state''))
      else Inr (c\<lparr>ct_management_state := next\<rparr>))"

definition container_validate_action ::
  "container \<Rightarrow> container_action \<Rightarrow> bool \<Rightarrow> str \<Rightarrow> unit domain_result" where
  "container_validate_action c action confirmed idempotency_key =
     (if ct_management_state c = CMDisabled \<and> action \<noteq> Refresh then
        Inl (InvalidStateTransition (lit ''disabled container cannot run lifecycle actions''))
      else if \<not> is_supported_for action (ct_status c) then
        Inl (InvalidStateTransition (lit ''container status does not support this action''))
      else if requires_confirmation action \<and> \<not> confirmed then Inl ConfirmationRequired
      else if trim idempotency_key = [] then Inl (EmptyValue (lit ''idempotency key''))
      else Inr ())"

interpretation container_lc: status_machine ct_management_state management_can_transition_to
  "\<lambda>n (_ :: unit) c. transition_management_to n c"
  by unfold_locales (auto simp: transition_management_to_def)

lemma container_validate_action_ok_iff:
  "is_ok (container_validate_action c a confirmed key) \<longleftrightarrow>
     (ct_management_state c = CMDisabled \<longrightarrow> a = Refresh) \<and> is_supported_for a (ct_status c)
     \<and> (requires_confirmation a \<longrightarrow> confirmed) \<and> trim key \<noteq> []"
  by (auto simp: container_validate_action_def)

end
