(* ===== verification/Connections.thy ===== *)
theory Connections
  imports Resources
begin

text \<open>
  The connection records of \<open>lxcup-core\<close>: \<open>node.rs\<close>, \<open>environment.rs\<close>, \<open>enrollment.rs\<close>,
  \<open>agent.rs\<close> and \<open>secret.rs\<close>, with the invariant each of them keeps.
\<close>

section \<open>Nodes (node.rs)\<close>

datatype node_status = NodeUnknown | NodeConnected | NodeDisconnected

record node =
  nd_id :: uuid
  nd_name :: str
  nd_address :: str
  nd_status :: node_status
  nd_proxmox_version :: "str option"
  nd_capabilities :: "str list"
  nd_last_checked_at :: "timestamp option"
  nd_last_check_error :: "str option"
  nd_created_at :: timestamp

definition node_new :: "uuid \<Rightarrow> timestamp \<Rightarrow> str \<Rightarrow> str \<Rightarrow> node domain_result" where
  "node_new fresh now name address =
     (if trim name = [] then Inl (EmptyValue (lit ''node name''))
      else if trim address = [] then Inl (EmptyValue (lit ''node address''))
      else Inr \<lparr>nd_id = fresh, nd_name = name, nd_address = address, nd_status = NodeUnknown,
        nd_proxmox_version = None, nd_capabilities = [], nd_last_checked_at = None,
        nd_last_check_error = None, nd_created_at = now\<rparr>)"

definition node_record_check_success :: "str \<Rightarrow> str list \<Rightarrow> timestamp \<Rightarrow> node \<Rightarrow> node" where
  "node_record_check_success version capabilities checked_at n =
     n\<lparr>nd_status := NodeConnected, nd_proxmox_version := Some version,
       nd_capabilities := capabilities, nd_last_checked_at := Some checked_at,
       nd_last_check_error := None\<rparr>"

definition node_record_check_failure :: "str \<Rightarrow> timestamp \<Rightarrow> node \<Rightarrow> node" where
  "node_record_check_failure err checked_at n =
     n\<lparr>nd_status := NodeDisconnected, nd_last_checked_at := Some checked_at,
       nd_last_check_error := Some err\<rparr>"

text \<open>The status records the last check: an error is stored exactly after a failed one.\<close>

definition node_ok :: "node \<Rightarrow> bool" where
  "node_ok n \<longleftrightarrow> trim (nd_name n) \<noteq> [] \<and> trim (nd_address n) \<noteq> []
     \<and> (nd_last_check_error n \<noteq> None \<longleftrightarrow> nd_status n = NodeDisconnected)
     \<and> (nd_last_checked_at n = None \<longleftrightarrow> nd_status n = NodeUnknown)
     \<and> (nd_status n = NodeConnected \<longrightarrow> nd_proxmox_version n \<noteq> None)"

lemma node_ok_ops:
  "node_new fresh now name address = Inr n \<Longrightarrow> node_ok n"
  "node_ok n \<Longrightarrow> node_ok (node_record_check_success v cs t n)"
  "node_ok n \<Longrightarrow> node_ok (node_record_check_failure e t n)"
  by (auto simp: node_ok_def node_new_def node_record_check_success_def
      node_record_check_failure_def split: if_splits)

section \<open>Proxmox environments (environment.rs)\<close>

datatype environment_status = EnvConfigured | EnvConnected | EnvFailed | EnvDisabled

fun environment_can_transition_to :: "environment_status \<Rightarrow> environment_status \<Rightarrow> bool" where
  "environment_can_transition_to EnvConfigured n \<longleftrightarrow> n \<in> {EnvConnected, EnvFailed, EnvDisabled}"
| "environment_can_transition_to EnvConnected n \<longleftrightarrow> n \<in> {EnvConnected, EnvFailed, EnvDisabled}"
| "environment_can_transition_to EnvFailed n \<longleftrightarrow> n \<in> {EnvConnected, EnvFailed, EnvDisabled}"
| "environment_can_transition_to EnvDisabled n \<longleftrightarrow> n \<in> {EnvConfigured, EnvDisabled}"

record proxmox_environment =
  env_id :: uuid
  env_name :: str
  env_endpoint :: str
  env_api_secret_ref :: uuid
  env_ca_secret_ref :: "uuid option"
  env_status :: environment_status
  env_last_checked_at :: "timestamp option"
  env_last_check_error :: "str option"
  env_created_at :: timestamp
  env_updated_at :: timestamp

definition environment_new ::
  "uuid \<Rightarrow> str \<Rightarrow> str \<Rightarrow> uuid \<Rightarrow> uuid option \<Rightarrow> timestamp
     \<Rightarrow> proxmox_environment domain_result" where
  "environment_new eid name0 endpoint0 api_secret_ref ca_secret_ref now =
     (let name = trim name0 in
      if name = [] \<or> 100 < str_len name then Inl (EmptyValue (lit ''environment name''))
      else
        (let endpoint = trim_end_matches (ch CHR ''/'') endpoint0;
             is_https = (case strip_prefix endpoint (lit ''https://'') of
                 None \<Rightarrow> False
               | Some host \<Rightarrow> host \<noteq> [] \<and> \<not> list_ex is_whitespace host)
         in if \<not> is_https then Inl InvalidEnvironmentEndpoint
         else Inr \<lparr>env_id = eid, env_name = name, env_endpoint = endpoint,
           env_api_secret_ref = api_secret_ref, env_ca_secret_ref = ca_secret_ref,
           env_status = EnvConfigured, env_last_checked_at = None, env_last_check_error = None,
           env_created_at = now, env_updated_at = now\<rparr>))"

definition update_configuration ::
  "str \<Rightarrow> str \<Rightarrow> uuid \<Rightarrow> uuid option \<Rightarrow> timestamp \<Rightarrow> proxmox_environment
     \<Rightarrow> proxmox_environment domain_result" where
  "update_configuration name endpoint api_secret_ref ca_secret_ref now e =
     bindR (environment_new (env_id e) name endpoint api_secret_ref ca_secret_ref now)
       (\<lambda>replacement. Inr (e\<lparr>env_name := env_name replacement,
          env_endpoint := env_endpoint replacement,
          env_api_secret_ref := env_api_secret_ref replacement,
          env_ca_secret_ref := env_ca_secret_ref replacement,
          env_status := EnvConfigured, env_last_checked_at := None,
          env_last_check_error := None, env_updated_at := now\<rparr>))"

definition environment_transition_to ::
  "environment_status \<Rightarrow> timestamp \<Rightarrow> proxmox_environment
     \<Rightarrow> proxmox_environment domain_result" where
  "environment_transition_to next now e =
     (if \<not> environment_can_transition_to (env_status e) next then
        Inl (InvalidStateTransition (lit ''proxmox environment lifecycle transition''))
      else Inr (e\<lparr>env_status := next, env_updated_at := now\<rparr>))"

definition environment_record_check_success ::
  "timestamp \<Rightarrow> proxmox_environment \<Rightarrow> proxmox_environment domain_result" where
  "environment_record_check_success checked_at e =
     bindR (environment_transition_to EnvConnected checked_at e)
       (\<lambda>e'. Inr (e'\<lparr>env_last_checked_at := Some checked_at, env_last_check_error := None\<rparr>))"

definition environment_record_check_failure ::
  "timestamp \<Rightarrow> str \<Rightarrow> proxmox_environment \<Rightarrow> proxmox_environment domain_result" where
  "environment_record_check_failure checked_at message e =
     bindR (environment_transition_to EnvFailed checked_at e)
       (\<lambda>e'. Inr (e'\<lparr>env_last_checked_at := Some checked_at,
          env_last_check_error := Some message\<rparr>))"

interpretation environment_lc:
  status_machine env_status environment_can_transition_to environment_transition_to
  by unfold_locales (auto simp: environment_transition_to_def)

text \<open>The endpoint is an https URL with a host, free of white space and of a trailing slash.\<close>

definition environment_ok :: "proxmox_environment \<Rightarrow> bool" where
  "environment_ok e \<longleftrightarrow> env_name e \<noteq> [] \<and> str_len (env_name e) \<le> 100
     \<and> trim (env_name e) = env_name e
     \<and> (\<exists>host. env_endpoint e = lit ''https://'' @ host \<and> host \<noteq> []
          \<and> (\<forall>c \<in> set host. \<not> is_whitespace c) \<and> last host \<noteq> ch CHR ''/'')"

lemma trim_end_matches_last:
  assumes "trim_end_matches c s \<noteq> []"
  shows "last (trim_end_matches c s) \<noteq> c"
proof -
  let ?d = "dropWhile (\<lambda>x. x = c) (rev s)"
  have "?d \<noteq> []" using assms by (simp add: trim_end_matches_def)
  then have "hd ?d \<noteq> c" by (rule hd_dropWhile)
  then show ?thesis by (simp add: trim_end_matches_def last_rev)
qed

lemma environment_new_ok:
  "environment_new i n ep a c now = Inr e \<Longrightarrow> environment_ok e"
proof -
  assume h: "environment_new i n ep a c now = Inr e"
  then obtain host where
    host: "env_endpoint e = lit ''https://'' @ host" "host \<noteq> []" "\<not> list_ex is_whitespace host"
    and ep: "env_endpoint e = trim_end_matches (ch CHR ''/'') ep"
    and nm: "env_name e = trim n" "trim n \<noteq> []" "str_len (trim n) \<le> 100"
    by (auto simp: environment_new_def Let_def strip_prefix_Some_iff
        split: if_splits option.splits)
  have "last (env_endpoint e) \<noteq> ch CHR ''/''"
    unfolding ep by (rule trim_end_matches_last) (metis ep host(1,2) append_is_Nil_conv)
  with host nm show ?thesis
    by (auto simp: environment_ok_def list_ex_iff)
qed

lemma environment_ok_frame:
  "env_name e' = env_name e \<Longrightarrow> env_endpoint e' = env_endpoint e \<Longrightarrow>
     environment_ok e \<Longrightarrow> environment_ok e'"
  by (simp add: environment_ok_def)

lemma environment_ok_ops:
  "environment_ok e \<Longrightarrow> environment_transition_to s t e = Inr e' \<Longrightarrow> environment_ok e'"
  "environment_ok e \<Longrightarrow> environment_record_check_success t e = Inr e' \<Longrightarrow> environment_ok e'"
  "environment_ok e \<Longrightarrow> environment_record_check_failure t m e = Inr e' \<Longrightarrow> environment_ok e'"
  by (auto simp: environment_transition_to_def environment_record_check_success_def
      environment_record_check_failure_def bindR_Inr_iff split: if_splits
      elim!: environment_ok_frame [rotated -1])

lemma update_configuration_ok:
  assumes "update_configuration n ep a c now e = Inr e'"
  shows "environment_ok e' \<and> env_status e' = EnvConfigured \<and> env_last_check_error e' = None
     \<and> env_id e' = env_id e \<and> env_created_at e' = env_created_at e"
proof -
  obtain r where r: "environment_new (env_id e) n ep a c now = Inr r"
    and e': "e' = e\<lparr>env_name := env_name r, env_endpoint := env_endpoint r,
          env_api_secret_ref := env_api_secret_ref r, env_ca_secret_ref := env_ca_secret_ref r,
          env_status := EnvConfigured, env_last_checked_at := None,
          env_last_check_error := None, env_updated_at := now\<rparr>"
    using assms by (auto simp: update_configuration_def bindR_Inr_iff)
  have "environment_ok e'"
    by (rule environment_ok_frame [OF _ _ environment_new_ok [OF r]]) (simp_all add: e')
  then show ?thesis by (simp add: e')
qed

lemma disabled_environment_rejects_checks:
  "env_status e = EnvDisabled \<Longrightarrow> \<not> is_ok (environment_record_check_success t e)"
  "env_status e = EnvDisabled \<Longrightarrow> \<not> is_ok (environment_record_check_failure t m e)"
  by (simp_all add: environment_record_check_success_def environment_record_check_failure_def
      environment_transition_to_def)

section \<open>Enrollments (enrollment.rs)\<close>

datatype enrollment_state =
    Requested | Discovering | InstallingAgent | RegisteringAgent
  | EnrollConnected | EnrollFailed | EnrollDisabled

fun enrollment_can_transition_to :: "enrollment_state \<Rightarrow> enrollment_state \<Rightarrow> bool" where
  "enrollment_can_transition_to Requested n \<longleftrightarrow> n \<in> {Requested, Discovering, EnrollFailed}"
| "enrollment_can_transition_to Discovering n \<longleftrightarrow>
     n \<in> {Discovering, InstallingAgent, EnrollFailed}"
| "enrollment_can_transition_to InstallingAgent n \<longleftrightarrow>
     n \<in> {InstallingAgent, RegisteringAgent, EnrollFailed}"
| "enrollment_can_transition_to RegisteringAgent n \<longleftrightarrow>
     n \<in> {RegisteringAgent, EnrollConnected, EnrollFailed}"
| "enrollment_can_transition_to EnrollConnected n \<longleftrightarrow>
     n \<in> {EnrollConnected, EnrollDisabled, Discovering}"
| "enrollment_can_transition_to EnrollFailed n \<longleftrightarrow> n \<in> {EnrollFailed, Discovering}"
| "enrollment_can_transition_to EnrollDisabled n \<longleftrightarrow> n \<in> {EnrollDisabled, Discovering}"

definition enrollment_is_active :: "enrollment_state \<Rightarrow> bool" where
  "enrollment_is_active s \<longleftrightarrow> s \<in> {Requested, Discovering, InstallingAgent, RegisteringAgent}"

record enrollment =
  en_id :: uuid
  en_container_id :: u64
  en_target_id :: "uuid option"
  en_state :: enrollment_state
  en_idempotency_key :: str
  en_failure_reason :: "str option"
  en_created_at :: timestamp
  en_updated_at :: timestamp

definition enrollment_new :: "uuid \<Rightarrow> timestamp \<Rightarrow> u64 \<Rightarrow> str \<Rightarrow> enrollment domain_result" where
  "enrollment_new fresh now container_id key =
     (if trim key = [] then Inl (EmptyValue (lit ''enrollment idempotency key''))
      else if 200 < length key then
        Inl (InvalidStateTransition (lit ''enrollment idempotency key is too long''))
      else Inr \<lparr>en_id = fresh, en_container_id = container_id, en_target_id = None,
        en_state = Requested, en_idempotency_key = key, en_failure_reason = None,
        en_created_at = now, en_updated_at = now\<rparr>)"

definition enrollment_transition_to ::
  "enrollment_state \<Rightarrow> timestamp \<Rightarrow> enrollment \<Rightarrow> enrollment domain_result" where
  "enrollment_transition_to next now e =
     (if \<not> enrollment_can_transition_to (en_state e) next then
        Inl (InvalidStateTransition (lit ''enrollment state''))
      else Inr (e\<lparr>en_state := next,
        en_failure_reason := (if next \<noteq> EnrollFailed then None else en_failure_reason e),
        en_updated_at := now\<rparr>))"

definition enrollment_fail :: "str \<Rightarrow> timestamp \<Rightarrow> enrollment \<Rightarrow> enrollment" where
  "enrollment_fail reason now e =
     e\<lparr>en_state := EnrollFailed, en_failure_reason := Some reason, en_updated_at := now\<rparr>"

interpretation enrollment_lc:
  status_machine en_state enrollment_can_transition_to enrollment_transition_to
  by unfold_locales (auto simp: enrollment_transition_to_def)

text \<open>A stored failure reason belongs to a failed enrollment, and the key stays usable.\<close>

definition enrollment_ok :: "enrollment \<Rightarrow> bool" where
  "enrollment_ok e \<longleftrightarrow> (en_failure_reason e \<noteq> None \<longrightarrow> en_state e = EnrollFailed)
     \<and> trim (en_idempotency_key e) \<noteq> [] \<and> length (en_idempotency_key e) \<le> 200"

lemma enrollment_ok_ops:
  "enrollment_new f now c k = Inr e \<Longrightarrow> enrollment_ok e"
  "enrollment_ok e \<Longrightarrow> enrollment_transition_to s t e = Inr e' \<Longrightarrow> enrollment_ok e'"
  "enrollment_ok e \<Longrightarrow> enrollment_ok (enrollment_fail r t e)"
  by (auto simp: enrollment_ok_def enrollment_new_def enrollment_transition_to_def
      enrollment_fail_def split: if_splits)

section \<open>Agent registrations (agent.rs)\<close>

datatype agent_connection_state = AgentConnected | AgentDegraded | AgentUnreachable

record agent_registration =
  ar_id :: uuid
  ar_container_id :: u64
  ar_agent_id :: str
  ar_endpoint :: str
  ar_secret_ref :: uuid
  ar_ca_secret_ref :: "uuid option"
  ar_state :: agent_connection_state
  ar_last_checked_at :: "timestamp option"
  ar_last_error :: "str option"
  ar_created_at :: timestamp
  ar_updated_at :: timestamp

definition agent_registration_new ::
  "uuid \<Rightarrow> u64 \<Rightarrow> str \<Rightarrow> str \<Rightarrow> uuid \<Rightarrow> uuid option \<Rightarrow> timestamp
     \<Rightarrow> agent_registration domain_result" where
  "agent_registration_new fresh container_id agent_id0 endpoint0 secret_ref ca_secret_ref now =
     (let agent_id = trim agent_id0;
          endpoint = trim_end_matches (ch CHR ''/'') endpoint0 in
      if agent_id = [] \<or> 200 < str_len agent_id then Inl (EmptyValue (lit ''agent id''))
      else if \<not> (starts_with endpoint (lit ''https://'')
                \<or> starts_with endpoint (lit ''http://127.0.0.1'')
                \<or> starts_with endpoint (lit ''http://localhost'')) then
        Inl InvalidEnvironmentEndpoint
      else Inr \<lparr>ar_id = fresh, ar_container_id = container_id, ar_agent_id = agent_id,
        ar_endpoint = endpoint, ar_secret_ref = secret_ref, ar_ca_secret_ref = ca_secret_ref,
        ar_state = AgentConnected, ar_last_checked_at = Some now, ar_last_error = None,
        ar_created_at = now, ar_updated_at = now\<rparr>)"

definition record_health ::
  "bool \<Rightarrow> timestamp \<Rightarrow> str option \<Rightarrow> agent_registration \<Rightarrow> agent_registration" where
  "record_health healthy now err r =
     r\<lparr>ar_state := (if healthy then AgentConnected else AgentDegraded),
       ar_last_checked_at := Some now, ar_last_error := err, ar_updated_at := now\<rparr>"

definition record_unreachable ::
  "timestamp \<Rightarrow> str \<Rightarrow> agent_registration \<Rightarrow> agent_registration" where
  "record_unreachable now err r =
     r\<lparr>ar_state := AgentUnreachable, ar_last_checked_at := Some now,
       ar_last_error := Some err, ar_updated_at := now\<rparr>"

section \<open>Secret metadata and values (secret.rs)\<close>

datatype secret_kind =
    SshPrivateKey | SshPassword | SshKnownHosts | WinrmPassword | AgentToken
  | BackupPassphrase | Generic

datatype secret_scope = GlobalScope | ContainerScope u64

record secret_metadata =
  sm_id :: uuid
  sm_name :: str
  sm_kind :: secret_kind
  sm_scope :: secret_scope
  sm_created_at :: timestamp
  sm_updated_at :: timestamp

definition secret_metadata_new ::
  "uuid \<Rightarrow> timestamp \<Rightarrow> str \<Rightarrow> secret_kind \<Rightarrow> secret_scope \<Rightarrow> secret_metadata domain_result" where
  "secret_metadata_new fresh now name kind scope =
     (if trim name = [] then Inl (EmptyValue (lit ''secret name''))
      else if 100 < length name then
        Inl (InvalidStateTransition (lit ''secret name is too long''))
      else Inr \<lparr>sm_id = fresh, sm_name = name, sm_kind = kind, sm_scope = scope,
        sm_created_at = now, sm_updated_at = now\<rparr>)"

datatype secret_value = SecretValue (expose: str)

definition secret_value_new :: "str \<Rightarrow> secret_value domain_result" where
  "secret_value_new value =
     (if value = [] then Inl (EmptyValue (lit ''secret value''))
      else if 16384 < length value then
        Inl (InvalidStateTransition (lit ''secret value is too long''))
      else Inr (SecretValue value))"

text \<open>Both \<open>Debug\<close> and \<open>Display\<close> of a secret value print the same constant.\<close>

definition secret_value_display :: "secret_value \<Rightarrow> str" where
  "secret_value_display v = lit ''[REDACTED]''"

lemma secret_value_new_Inr_iff:
  "secret_value_new s = Inr v \<longleftrightarrow> v = SecretValue s \<and> s \<noteq> [] \<and> length s \<le> 16384"
  by (auto simp: secret_value_new_def)

end
