(* ===== verification/Updates.thy ===== *)
theory Updates
  imports Connections
    "HOL-Library.List_Lexorder" "HOL-Library.Product_Lexorder" "HOL-Library.Option_ord"
begin

text \<open>
  Packages, scans, executions and update plans of \<open>lxcup-core\<close> (\<open>update.rs\<close>,
  \<open>package_inventory.rs\<close>, \<open>scan.rs\<close>, \<open>execution.rs\<close>, \<open>plan.rs\<close>). The plan hash is SHA-256 of the
  JSON text of the canonical plan; both come from external crates and are the two functions of
  the record \<open>hash_env\<close>. Rust orders strings by their UTF-8 bytes, which is the lexicographic
  order of the scalar values; \<open>None\<close> is below every \<open>Some\<close>, and tuples are ordered
  lexicographically.
\<close>

section \<open>Packages (update.rs, package\_inventory.rs)\<close>

datatype package_name = PackageName (package_name_as_str: str)

definition package_name_new :: "str \<Rightarrow> package_name domain_result" where
  "package_name_new value =
     (if trim value = [] then Inl (EmptyValue (lit ''package name''))
      else if list_ex is_whitespace value then Inl InvalidPackageName
      else Inr (PackageName value))"

datatype package_version = PackageVersion (package_version_as_str: str)

definition package_version_new :: "str \<Rightarrow> package_version domain_result" where
  "package_version_new value =
     (if trim value = [] then Inl (EmptyValue (lit ''package version''))
      else Inr (PackageVersion value))"

datatype update_classification = Security | Normal | UnknownClass

record available_update =
  au_package :: package_name
  au_installed_version :: package_version
  au_candidate_version :: package_version
  au_classification :: update_classification
  au_held :: bool

record installed_package =
  ip_name :: package_name
  ip_version :: package_version
  ip_candidate_version :: "package_version option"
  ip_architecture :: "str option"
  ip_source :: "str option"

record package_inventory_snapshot =
  pis_target_id :: uuid
  pis_collected_at :: timestamp
  pis_packages :: "installed_package list"

lemma package_name_new_Inr_iff:
  "package_name_new s = Inr p \<longleftrightarrow>
     p = PackageName s \<and> s \<noteq> [] \<and> (\<forall>c \<in> set s. \<not> is_whitespace c)"
  by (auto simp: package_name_new_def trim_empty_iff list_ex_iff)

lemma package_version_new_Inr_iff:
  "package_version_new s = Inr v \<longleftrightarrow> v = PackageVersion s \<and> trim s \<noteq> []"
  by (auto simp: package_version_new_def)

section \<open>Scans (scan.rs)\<close>

datatype scan_status = ScanPending | ScanRunning | ScanSucceeded | ScanFailed

fun scan_can_transition_to :: "scan_status \<Rightarrow> scan_status \<Rightarrow> bool" where
  "scan_can_transition_to ScanPending n \<longleftrightarrow> n = ScanRunning"
| "scan_can_transition_to ScanRunning n \<longleftrightarrow> n \<in> {ScanSucceeded, ScanFailed}"
| "scan_can_transition_to _ n \<longleftrightarrow> False"

record scan =
  sc_id :: uuid
  sc_container_id :: u64
  sc_status :: scan_status
  sc_updates :: "available_update list"
  sc_created_at :: timestamp
  sc_completed_at :: "timestamp option"

definition scan_new :: "uuid \<Rightarrow> timestamp \<Rightarrow> u64 \<Rightarrow> scan" where
  "scan_new fresh now container_id =
     \<lparr>sc_id = fresh, sc_container_id = container_id, sc_status = ScanPending, sc_updates = [],
      sc_created_at = now, sc_completed_at = None\<rparr>"

definition scan_transition_to :: "scan_status \<Rightarrow> timestamp \<Rightarrow> scan \<Rightarrow> scan domain_result" where
  "scan_transition_to next at s =
     (if \<not> scan_can_transition_to (sc_status s) next then
        Inl (InvalidStateTransition (lit ''scan status''))
      else Inr (s\<lparr>sc_status := next,
        sc_completed_at := (if next \<in> {ScanSucceeded, ScanFailed} then Some at
                            else sc_completed_at s)\<rparr>))"

interpretation scan_lc: status_machine sc_status scan_can_transition_to scan_transition_to
  by unfold_locales (auto simp: scan_transition_to_def)

text \<open>A scan has a completion time exactly when it is finished.\<close>

definition scan_ok :: "scan \<Rightarrow> bool" where
  "scan_ok s \<longleftrightarrow> (sc_completed_at s \<noteq> None \<longleftrightarrow> sc_status s \<in> {ScanSucceeded, ScanFailed})"

lemma scan_new_ok: "scan_ok (scan_new f now c)"
  by (simp add: scan_ok_def scan_new_def)

lemma scan_transition_ok: "scan_ok s \<Longrightarrow> scan_transition_to n t s = Inr s' \<Longrightarrow> scan_ok s'"
  by (cases "sc_status s"; cases n)
     (auto simp: scan_ok_def scan_transition_to_def split: if_splits)

section \<open>Executions (execution.rs)\<close>

datatype execution_status = Queued | Running | Succeeded | ExFailed | Aborted | Unknown

fun execution_can_transition_to :: "execution_status \<Rightarrow> execution_status \<Rightarrow> bool" where
  "execution_can_transition_to Queued n \<longleftrightarrow> n \<in> {Running, Aborted}"
| "execution_can_transition_to Running n \<longleftrightarrow> n \<in> {Succeeded, ExFailed, Aborted, Unknown}"
| "execution_can_transition_to Unknown n \<longleftrightarrow> n \<in> {Succeeded, ExFailed, Aborted}"
| "execution_can_transition_to _ n \<longleftrightarrow> False"

definition execution_terminal :: "execution_status \<Rightarrow> bool" where
  "execution_terminal s \<longleftrightarrow> s \<in> {Succeeded, ExFailed, Aborted}"

record execution =
  ex_id :: uuid
  ex_plan_id :: uuid
  ex_status :: execution_status
  ex_started_at :: "timestamp option"
  ex_finished_at :: "timestamp option"

definition execution_new :: "uuid \<Rightarrow> uuid \<Rightarrow> execution" where
  "execution_new fresh plan_id =
     \<lparr>ex_id = fresh, ex_plan_id = plan_id, ex_status = Queued, ex_started_at = None,
      ex_finished_at = None\<rparr>"

definition execution_transition_to ::
  "execution_status \<Rightarrow> timestamp \<Rightarrow> execution \<Rightarrow> execution domain_result" where
  "execution_transition_to next at e =
     (if \<not> execution_can_transition_to (ex_status e) next then
        Inl (InvalidStateTransition (lit ''execution status''))
      else Inr (e\<lparr>ex_status := next,
        ex_started_at := (if next = Running \<and> ex_started_at e = None then Some at
                          else ex_started_at e),
        ex_finished_at := (if execution_terminal next then Some at else ex_finished_at e)\<rparr>))"

interpretation execution_lc:
  status_machine ex_status execution_can_transition_to execution_transition_to
  by unfold_locales (auto simp: execution_transition_to_def)

lemma execution_terminal_iff: "execution_terminal s \<longleftrightarrow> (\<forall>n. \<not> execution_can_transition_to s n)"
proof (cases s)
  case Queued
  then show ?thesis by (auto simp: execution_terminal_def intro: exI [of _ Running])
next
  case Running
  then show ?thesis by (auto simp: execution_terminal_def intro: exI [of _ Succeeded])
next
  case Unknown
  then show ?thesis by (auto simp: execution_terminal_def intro: exI [of _ Succeeded])
qed (simp_all add: execution_terminal_def)

text \<open>
  The two time stamps follow the status: finished exactly in a terminal status; not started
  while queued, started while running, unknown, succeeded or failed (an aborted execution may
  have been aborted in the queue).
\<close>

definition execution_ok :: "execution \<Rightarrow> bool" where
  "execution_ok e \<longleftrightarrow> (ex_finished_at e \<noteq> None \<longleftrightarrow> execution_terminal (ex_status e))
     \<and> (ex_status e = Queued \<longrightarrow> ex_started_at e = None)
     \<and> (ex_status e \<in> {Running, Unknown, Succeeded, ExFailed} \<longrightarrow> ex_started_at e \<noteq> None)"

lemma execution_new_ok: "execution_ok (execution_new f p)"
  by (simp add: execution_ok_def execution_new_def execution_terminal_def)

lemma execution_transition_ok:
  "execution_ok e \<Longrightarrow> execution_transition_to n t e = Inr e' \<Longrightarrow> execution_ok e'"
  by (cases "ex_status e"; cases n)
     (auto simp: execution_ok_def execution_transition_to_def execution_terminal_def
       split: if_splits)

lemma execution_transition_ids:
  "execution_transition_to n t e = Inr e' \<Longrightarrow> ex_id e' = ex_id e \<and> ex_plan_id e' = ex_plan_id e"
  by (auto simp: execution_transition_to_def split: if_splits)

section \<open>Plans (plan.rs)\<close>

datatype plan_status = Draft | Blocked | Ready | Confirmed | Invalidated

fun plan_can_transition_to :: "plan_status \<Rightarrow> plan_status \<Rightarrow> bool" where
  "plan_can_transition_to Draft n \<longleftrightarrow> n \<in> {Blocked, Ready, Invalidated}"
| "plan_can_transition_to Blocked n \<longleftrightarrow> n \<in> {Draft, Invalidated}"
| "plan_can_transition_to Ready n \<longleftrightarrow> n \<in> {Confirmed, Invalidated}"
| "plan_can_transition_to Confirmed n \<longleftrightarrow> n = Invalidated"
| "plan_can_transition_to Invalidated n \<longleftrightarrow> False"

datatype package_change_kind = Install | Upgrade | Remove | Downgrade

record resolved_package_change =
  rc_package :: package_name
  rc_from_version :: "package_version option"
  rc_to_version :: "package_version option"
  rc_kind :: package_change_kind

record canonical_package_change =
  cc_package :: str
  cc_from_version :: "str option"
  cc_to_version :: "str option"
  cc_kind :: package_change_kind

record canonical_plan =
  cp_container_id :: u64
  cp_requested_packages :: "str list"
  cp_resolved_changes :: "canonical_package_change list"

fun change_kind_rank :: "package_change_kind \<Rightarrow> nat" where
  "change_kind_rank Install = 0"
| "change_kind_rank Upgrade = 1"
| "change_kind_rank Remove = 2"
| "change_kind_rank Downgrade = 3"

definition change_sort_key ::
  "canonical_package_change \<Rightarrow> str \<times> str option \<times> str option \<times> nat" where
  "change_sort_key c =
     (cc_package c, cc_from_version c, cc_to_version c, change_kind_rank (cc_kind c))"

record update_plan =
  up_id :: uuid
  up_container_id :: u64
  up_requested_packages :: "package_name list"
  up_resolved_changes :: "resolved_package_change list"
  up_status :: plan_status
  up_created_at :: timestamp
  up_plan_hash :: "str option"

definition update_plan_new ::
  "uuid \<Rightarrow> timestamp \<Rightarrow> u64 \<Rightarrow> package_name list \<Rightarrow> resolved_package_change list
     \<Rightarrow> update_plan domain_result" where
  "update_plan_new fresh now container_id requested resolved =
     (if requested = [] then Inl (EmptyValue (lit ''requested packages''))
      else Inr \<lparr>up_id = fresh, up_container_id = container_id,
        up_requested_packages = requested, up_resolved_changes = resolved, up_status = Draft,
        up_created_at = now, up_plan_hash = None\<rparr>)"

definition plan_transition_to :: "plan_status \<Rightarrow> update_plan \<Rightarrow> update_plan domain_result" where
  "plan_transition_to next p =
     (if \<not> plan_can_transition_to (up_status p) next then
        Inl (InvalidStateTransition (lit ''update plan status''))
      else Inr (p\<lparr>up_status := next\<rparr>))"

definition canonical_change :: "resolved_package_change \<Rightarrow> canonical_package_change" where
  "canonical_change c = \<lparr>cc_package = package_name_as_str (rc_package c),
     cc_from_version = map_option package_version_as_str (rc_from_version c),
     cc_to_version = map_option package_version_as_str (rc_to_version c),
     cc_kind = rc_kind c\<rparr>"

definition canonical_representation :: "update_plan \<Rightarrow> canonical_plan" where
  "canonical_representation p = \<lparr>cp_container_id = up_container_id p,
     cp_requested_packages = sort (map package_name_as_str (up_requested_packages p)),
     cp_resolved_changes =
       sort_key change_sort_key (map canonical_change (up_resolved_changes p))\<rparr>"

text \<open>\<open>serde_json::to_vec\<close> on the canonical plan and \<open>Sha256::digest\<close>.\<close>

record hash_env =
  to_vec :: "canonical_plan \<Rightarrow> u8 list"
  sha256 :: "u8 list \<Rightarrow> u8 list"

definition hex_digit :: "nat \<Rightarrow> rchar" where
  "hex_digit n = (if n < 10 then 48 + n else 87 + n)"

definition hex_byte :: "u8 \<Rightarrow> str" where
  "hex_byte b = [hex_digit (unat b div 16), hex_digit (unat b mod 16)]"

definition calculate_hash :: "hash_env \<Rightarrow> update_plan \<Rightarrow> str" where
  "calculate_hash h p = concat (map hex_byte (sha256 h (to_vec h (canonical_representation p))))"

definition refresh_hash :: "hash_env \<Rightarrow> update_plan \<Rightarrow> update_plan" where
  "refresh_hash h p = p\<lparr>up_plan_hash := Some (calculate_hash h p)\<rparr>"

definition has_same_content_as :: "hash_env \<Rightarrow> update_plan \<Rightarrow> update_plan \<Rightarrow> bool" where
  "has_same_content_as h p q \<longleftrightarrow> calculate_hash h p = calculate_hash h q"

interpretation plan_lc: status_machine up_status plan_can_transition_to
  "\<lambda>n (_ :: unit) p. plan_transition_to n p"
  by unfold_locales (auto simp: plan_transition_to_def)

text \<open>Two plans with the same meaning: order and bookkeeping fields do not matter.\<close>

definition same_plan_content :: "update_plan \<Rightarrow> update_plan \<Rightarrow> bool" where
  "same_plan_content p q \<longleftrightarrow> up_container_id p = up_container_id q
     \<and> mset (up_requested_packages p) = mset (up_requested_packages q)
     \<and> mset (up_resolved_changes p) = mset (up_resolved_changes q)"

lemma inj_package_name_as_str: "inj package_name_as_str"
  by (rule injI) (metis package_name.expand)

lemma inj_package_version_as_str: "inj package_version_as_str"
  by (rule injI) (metis package_version.expand)

lemma inj_change_kind_rank: "change_kind_rank a = change_kind_rank b \<Longrightarrow> a = b"
  by (cases a; cases b) simp_all

lemma inj_change_sort_key: "inj change_sort_key"
  by (rule injI) (auto simp: change_sort_key_def dest: inj_change_kind_rank
      intro: canonical_package_change.equality)

lemma inj_canonical_change: "inj canonical_change"
proof (rule injI)
  fix a b assume h: "canonical_change a = canonical_change b"
  have inj: "inj (map_option package_version_as_str)"
    by (rule option.inj_map [OF inj_package_version_as_str])
  from h have "rc_package a = rc_package b" "rc_kind a = rc_kind b"
    "map_option package_version_as_str (rc_from_version a) =
       map_option package_version_as_str (rc_from_version b)"
    "map_option package_version_as_str (rc_to_version a) =
       map_option package_version_as_str (rc_to_version b)"
    by (auto simp: canonical_change_def dest: injD [OF inj_package_name_as_str])
  then show "a = b"
    using injD [OF inj] by (auto intro: resolved_package_change.equality)
qed

lemma sort_key_mset_iff:
  assumes "inj f"
  shows "sort_key f xs = sort_key f ys \<longleftrightarrow> mset xs = mset ys"
proof
  assume "sort_key f xs = sort_key f ys"
  then show "mset xs = mset ys" by (metis mset_sort)
next
  assume "mset xs = mset ys"
  then show "sort_key f xs = sort_key f ys"
    by (intro sort_key_inj_key_eq) (auto intro: inj_on_subset [OF assms] simp: sorted_sort_key)
qed

lemma mset_map_inj_iff: "inj f \<Longrightarrow> mset (map f xs) = mset (map f ys) \<longleftrightarrow> mset xs = mset ys"
  using multiset.inj_map [of f] by (metis injD mset_map)

text \<open>The canonical form identifies exactly the plans with the same content.\<close>

lemma canonical_representation_eq_iff:
  "canonical_representation p = canonical_representation q \<longleftrightarrow> same_plan_content p q"
proof -
  have "inj (\<lambda>x :: str. x)" by (rule injI)
  then have "sort (map package_name_as_str xs) = sort (map package_name_as_str ys) \<longleftrightarrow>
      mset xs = mset ys" for xs ys
    by (metis (full_types) sort_key_mset_iff mset_map_inj_iff inj_package_name_as_str)
  moreover have "sort_key change_sort_key (map canonical_change xs) =
      sort_key change_sort_key (map canonical_change ys) \<longleftrightarrow> mset xs = mset ys" for xs ys
    by (simp only: sort_key_mset_iff [OF inj_change_sort_key]
        mset_map_inj_iff [OF inj_canonical_change])
  ultimately show ?thesis
    by (simp add: canonical_representation_def same_plan_content_def)
qed

lemma hex_digit_inj: "a < 16 \<Longrightarrow> b < 16 \<Longrightarrow> hex_digit a = hex_digit b \<Longrightarrow> a = b"
  by (auto simp: hex_digit_def split: if_splits)

lemma hex_byte_inj: "hex_byte a = hex_byte b \<Longrightarrow> a = b"
proof -
  assume h: "hex_byte a = hex_byte b"
  have b: "unat x div 16 < 16 \<and> unat x mod 16 < 16" for x :: u8
    using unsigned_less [of x, where 'a = nat] by (simp add: less_mult_imp_div_less)
  from h have "hex_digit (unat a div 16) = hex_digit (unat b div 16)"
    "hex_digit (unat a mod 16) = hex_digit (unat b mod 16)"
    by (simp_all add: hex_byte_def)
  with b have "unat a div 16 = unat b div 16" "unat a mod 16 = unat b mod 16"
    by (blast intro: hex_digit_inj)+
  then have "unat a = unat b" by (metis div_mult_mod_eq)
  then show "a = b" by (rule unsigned_word_eqI)
qed

lemma length_hex_byte: "length (hex_byte b) = 2"
  by (simp add: hex_byte_def)

lemma concat_hex_byte_inj: "concat (map hex_byte xs) = concat (map hex_byte ys) \<Longrightarrow> xs = ys"
proof (induction xs arbitrary: ys)
  case Nil
  then show ?case by (cases ys) (auto simp: hex_byte_def)
next
  case (Cons x xs)
  then obtain y ys' where ys: "ys = y # ys'" by (cases ys) (auto simp: hex_byte_def)
  with Cons.prems have "hex_byte x = hex_byte y"
    "concat (map hex_byte xs) = concat (map hex_byte ys')"
    by (auto simp: append_eq_append_conv length_hex_byte)
  with Cons.IH ys show ?case by (auto dest: hex_byte_inj)
qed

lemma same_content_same_hash: "same_plan_content p q \<Longrightarrow> has_same_content_as h p q"
  by (simp add: has_same_content_as_def calculate_hash_def
      flip: canonical_representation_eq_iff)

lemma same_hash_same_content:
  assumes "has_same_content_as h p q"
    and "inj_on (to_vec h) {canonical_representation p, canonical_representation q}"
    and "inj_on (sha256 h)
           {to_vec h (canonical_representation p), to_vec h (canonical_representation q)}"
  shows "same_plan_content p q"
proof -
  have "sha256 h (to_vec h (canonical_representation p)) =
      sha256 h (to_vec h (canonical_representation q))"
    using assms(1) unfolding has_same_content_as_def calculate_hash_def
    by (rule concat_hex_byte_inj)
  then have "canonical_representation p = canonical_representation q"
    using inj_onD [OF assms(3)] inj_onD [OF assms(2)] by blast
  then show ?thesis by (simp only: canonical_representation_eq_iff)
qed

section \<open>Properties\<close>

text \<open>
  C5. The plan hash identifies plans by content. Two plans compare equal by \<open>has_same_content_as\<close>
  if and only if they are for the same container and have the same requested packages and the
  same resolved changes, in any order; ids, status, creation time and a stored hash do not matter.
  The only hypotheses are that the external JSON serializer and SHA-256 do not map the two
  canonical forms at hand to the same value.
\<close>

theorem plan_hash_identifies_content:
  assumes "inj_on (to_vec h) {canonical_representation p, canonical_representation q}"
    and "inj_on (sha256 h)
           {to_vec h (canonical_representation p), to_vec h (canonical_representation q)}"
  shows "has_same_content_as h p q \<longleftrightarrow>
     up_container_id p = up_container_id q
   \<and> mset (up_requested_packages p) = mset (up_requested_packages q)
   \<and> mset (up_resolved_changes p) = mset (up_resolved_changes q)"
  using same_hash_same_content [OF _ assms] same_content_same_hash [of p q h]
  unfolding same_plan_content_def by blast

text \<open>Two plans that differ in the order of two requested packages, and a third one.\<close>

definition plan_example :: "package_name list \<Rightarrow> update_plan" where
  "plan_example names = \<lparr>up_id = 1, up_container_id = 101, up_requested_packages = names,
     up_resolved_changes = [\<lparr>rc_package = PackageName (lit ''openssl''),
       rc_from_version = Some (PackageVersion (lit ''3.0'')),
       rc_to_version = Some (PackageVersion (lit ''3.1'')), rc_kind = Upgrade\<rparr>],
     up_status = Draft, up_created_at = 0, up_plan_hash = None\<rparr>"

definition hash_example :: hash_env where
  "hash_example = \<lparr>to_vec = (\<lambda>c. if cp_requested_packages c = [lit ''a'', lit ''b''] then [1] else [2]),
     sha256 = (\<lambda>bs. bs)\<rparr>"

theorem plan_hash_identifies_content_witness:
  "has_same_content_as hash_example
      (plan_example [PackageName (lit ''a''), PackageName (lit ''b'')])
      (plan_example [PackageName (lit ''b''), PackageName (lit ''a'')])
   \<and> \<not> has_same_content_as hash_example
      (plan_example [PackageName (lit ''a''), PackageName (lit ''b'')])
      (plan_example [PackageName (lit ''a'')])"
proof -
  let ?p = "plan_example [PackageName (lit ''a''), PackageName (lit ''b'')]"
  let ?q = "plan_example [PackageName (lit ''b''), PackageName (lit ''a'')]"
  let ?r = "plan_example [PackageName (lit ''a'')]"
  have "canonical_representation ?p = canonical_representation ?q" by code_simp
  then have pq: "inj_on (to_vec hash_example)
      {canonical_representation ?p, canonical_representation ?q}"
    "inj_on (sha256 hash_example) {to_vec hash_example (canonical_representation ?p),
      to_vec hash_example (canonical_representation ?q)}"
    by simp_all
  have "to_vec hash_example (canonical_representation ?p) = [1]"
    "to_vec hash_example (canonical_representation ?r) = [2]" by code_simp+
  then have pr: "inj_on (to_vec hash_example)
      {canonical_representation ?p, canonical_representation ?r}"
    "inj_on (sha256 hash_example) {to_vec hash_example (canonical_representation ?p),
      to_vec hash_example (canonical_representation ?r)}"
    by (auto simp: inj_on_def hash_example_def)
  show ?thesis
    using plan_hash_identifies_content [OF pq] plan_hash_identifies_content [OF pr]
    by (simp add: plan_example_def)
qed

text \<open>
  A plan is only ever confirmed from Ready: whenever a sequence of transitions turns a plan
  that is not confirmed into a confirmed one, the last transition was the one to Confirmed and it
  was made from the status Ready.
\<close>

theorem confirmed_only_from_ready:
  assumes "fold_result (\<lambda>(n, _ :: unit). plan_transition_to n) steps p = Inr p'"
    and "up_status p' = Confirmed" and "up_status p \<noteq> Confirmed"
  shows "\<exists>before q. steps = before @ [(Confirmed, ())]
     \<and> fold_result (\<lambda>(n, _ :: unit). plan_transition_to n) before p = Inr q
     \<and> up_status q = Ready \<and> p' = q\<lparr>up_status := Confirmed\<rparr>"
  using assms(1,3)
proof (induction steps arbitrary: p)
  case Nil
  with assms(2) show ?case by simp
next
  case (Cons x xs)
  obtain n where x: "x = (n, ())" by (cases x) auto
  from Cons.prems x obtain q
    where q: "plan_transition_to n p = Inr q"
      and rest: "fold_result (\<lambda>(n, _ :: unit). plan_transition_to n) xs q = Inr p'"
    by (auto simp: bindR_Inr_iff)
  have can: "plan_can_transition_to (up_status p) n" and n: "up_status q = n"
    using plan_lc.transition_InrD [of n p q] q by simp_all
  show ?case
  proof (cases "n = Confirmed")
    case False
    with Cons.IH [OF rest] n obtain before r where
      "xs = before @ [(Confirmed, ())]"
      "fold_result (\<lambda>(n, _ :: unit). plan_transition_to n) before q = Inr r"
      "up_status r = Ready \<and> p' = r\<lparr>up_status := Confirmed\<rparr>" by auto
    then show ?thesis using x q
      by (intro exI [of _ "x # before"] exI [of _ r]) auto
  next
    case True
    have "xs = []"
    proof (rule ccontr)
      assume "xs \<noteq> []"
      then obtain m ys where "xs = (m, ()) # ys" by (cases xs) auto
      with rest n True have "m = Invalidated"
        and r2: "fold_result (\<lambda>(n, _ :: unit). plan_transition_to n) ys
            (q\<lparr>up_status := Invalidated\<rparr>) = Inr p'"
        by (auto simp: bindR_Inr_iff plan_transition_to_def split: if_splits)
      have "p' = q\<lparr>up_status := Invalidated\<rparr>"
        using plan_lc.run_terminal [of ys "q\<lparr>up_status := Invalidated\<rparr>" p'] r2 by simp
      with assms(2) show False by simp
    qed
    moreover have "up_status p = Ready" using can True by (cases "up_status p") auto
    moreover have "q = p\<lparr>up_status := Confirmed\<rparr>"
      using q True by (auto simp: plan_transition_to_def split: if_splits)
    ultimately show ?thesis using rest x True
      by (intro exI [of _ "[]"] exI [of _ p]) auto
  qed
qed

theorem confirmed_only_from_ready_witness:
  "\<exists>before q. [(Ready, ()), (Confirmed, ())] = before @ [(Confirmed, ())]
     \<and> fold_result (\<lambda>(n, _ :: unit). plan_transition_to n) before (plan_example []) = Inr q
     \<and> up_status q = Ready
     \<and> (plan_example [])\<lparr>up_status := Confirmed\<rparr> = q\<lparr>up_status := Confirmed\<rparr>"
  by (rule confirmed_only_from_ready) (simp_all add: plan_transition_to_def plan_example_def)

text \<open>
  Executions keep their time stamps consistent with their status: after any sequence of
  permitted transitions of a new execution, a finish time is recorded exactly in a terminal
  status, a queued execution has no start time, and a running, unknown, succeeded or failed one
  has a start time.
\<close>

theorem execution_timestamps_consistent:
  assumes "fold_result (\<lambda>(n, t). execution_transition_to n t) steps (execution_new i plan) = Inr e"
  shows "(ex_finished_at e \<noteq> None \<longleftrightarrow> ex_status e \<in> {Succeeded, ExFailed, Aborted})
   \<and> (ex_status e = Queued \<longrightarrow> ex_started_at e = None)
   \<and> (ex_status e \<in> {Running, Unknown, Succeeded, ExFailed} \<longrightarrow> ex_started_at e \<noteq> None)"
  using execution_lc.run_invariant [where I = execution_ok, OF assms execution_transition_ok
      execution_new_ok]
  by (simp add: execution_ok_def execution_terminal_def)

theorem execution_timestamps_consistent_witness:
  "\<exists>e. fold_result (\<lambda>(n, t). execution_transition_to n t) [(Running, 5), (Succeeded, 9)]
       (execution_new 1 2) = Inr e \<and> ex_started_at e \<noteq> None \<and> ex_finished_at e \<noteq> None"
proof -
  obtain e where e: "fold_result (\<lambda>(n, t). execution_transition_to n t)
      [(Running, 5), (Succeeded, 9)] (execution_new 1 2) = Inr e" and "ex_status e = Succeeded"
    by (simp add: execution_transition_to_def execution_new_def execution_terminal_def)
  with execution_timestamps_consistent [OF e] show ?thesis by auto
qed

end
