(* ===== verification/Planner.thy ===== *)
theory Planner
  imports Updates
begin

text \<open>
  \<open>lxcup-planner/src/lib.rs\<close>: building an update plan from a dry run and revalidating a
  confirmed plan against a fresh one. \<open>build\<close> takes the fresh plan id and the time it reads;
  \<open>revalidate\<close>, which mutates the plan it is given, returns the plan after the call.
\<close>

section \<open>Data\<close>

record dry_run_change =
  dr_package :: str
  dr_from_version :: "str option"
  dr_to_version :: "str option"
  dr_kind :: package_change_kind
  dr_held :: bool
  dr_authenticated :: bool

record planner_input =
  pi_container_id :: u64
  pi_requested_packages :: "str list"
  pi_dry_run_changes :: "dry_run_change list"
  pi_distribution_upgrade :: bool

datatype revalidation = Unchanged | Changed

datatype planner_error =
    PlannerDomain domain_error | HeldPackage str | UnauthenticatedPackage str

section \<open>Operations\<close>

definition normalize_change :: "dry_run_change \<Rightarrow> planner_error + resolved_package_change" where
  "normalize_change c =
     (if dr_held c then Inl (HeldPackage (dr_package c))
      else if \<not> dr_authenticated c then Inl (UnauthenticatedPackage (dr_package c))
      else bindR (map_err PlannerDomain (package_name_new (dr_package c))) (\<lambda>p.
        bindR (map_err PlannerDomain (transpose_result package_version_new (dr_from_version c)))
          (\<lambda>f. bindR (map_err PlannerDomain
                  (transpose_result package_version_new (dr_to_version c))) (\<lambda>t.
            Inr \<lparr>rc_package = p, rc_from_version = f, rc_to_version = t,
              rc_kind = dr_kind c\<rparr>))))"

definition is_unsafe_change :: "resolved_package_change \<Rightarrow> bool" where
  "is_unsafe_change c \<longleftrightarrow> rc_kind c \<in> {Remove, Downgrade}"

definition build ::
  "hash_env \<Rightarrow> uuid \<Rightarrow> timestamp \<Rightarrow> planner_input \<Rightarrow> planner_error + update_plan" where
  "build h fresh now input =
     bindR (map_err PlannerDomain (map_result package_name_new (pi_requested_packages input)))
       (\<lambda>requested. bindR (map_result normalize_change (pi_dry_run_changes input))
       (\<lambda>resolved. bindR (map_err PlannerDomain
            (update_plan_new fresh now (pi_container_id input) requested resolved))
       (\<lambda>plan.
          let blocked = (pi_distribution_upgrade input
                \<or> list_ex is_unsafe_change (up_resolved_changes plan))
          in bindR (map_err PlannerDomain
               (plan_transition_to (if blocked then Blocked else Ready) plan))
             (\<lambda>plan'. Inr (refresh_hash h plan')))))"

definition revalidate ::
  "hash_env \<Rightarrow> uuid \<Rightarrow> timestamp \<Rightarrow> update_plan \<Rightarrow> planner_input
     \<Rightarrow> planner_error + (revalidation \<times> update_plan)" where
  "revalidate h fresh now confirmed_plan current =
     bindR (build h fresh now current) (\<lambda>fresh_plan.
       if has_same_content_as h confirmed_plan fresh_plan then Inr (Unchanged, confirmed_plan)
       else bindR (map_err PlannerDomain (plan_transition_to Invalidated confirmed_plan))
         (\<lambda>p. Inr (Changed, p)))"

section \<open>What a built plan guarantees\<close>

text \<open>The resolved change of an accepted dry-run change.\<close>

definition change_of :: "dry_run_change \<Rightarrow> resolved_package_change" where
  "change_of c = \<lparr>rc_package = PackageName (dr_package c),
     rc_from_version = map_option PackageVersion (dr_from_version c),
     rc_to_version = map_option PackageVersion (dr_to_version c), rc_kind = dr_kind c\<rparr>"

text \<open>A dry-run change the planner accepts.\<close>

definition change_acceptable :: "dry_run_change \<Rightarrow> bool" where
  "change_acceptable c \<longleftrightarrow> \<not> dr_held c \<and> dr_authenticated c
     \<and> is_ok (package_name_new (dr_package c))
     \<and> opt_all (\<lambda>v. is_ok (package_version_new v)) (dr_from_version c)
     \<and> opt_all (\<lambda>v. is_ok (package_version_new v)) (dr_to_version c)"

lemma transpose_version:
  "transpose_result package_version_new x = Inr y \<longleftrightarrow>
     y = map_option PackageVersion x \<and> opt_all (\<lambda>v. is_ok (package_version_new v)) x"
  by (cases x) (auto simp: bindR_Inr_iff package_version_new_Inr_iff is_ok_iff)

lemma normalize_change_Inr_iff:
  "normalize_change c = Inr r \<longleftrightarrow> change_acceptable c \<and> r = change_of c"
  by (auto simp: normalize_change_def change_acceptable_def change_of_def bindR_Inr_iff
      transpose_version package_name_new_Inr_iff is_ok_iff)

lemma map_result_pure:
  assumes "\<And>x y. f x = Inr y \<longleftrightarrow> P x \<and> y = g x"
  shows "map_result f xs = Inr ys \<longleftrightarrow> list_all P xs \<and> ys = map g xs"
  by (induction xs arbitrary: ys) (auto simp: bindR_Inr_iff assms)

lemma map_result_normalize:
  "map_result normalize_change cs = Inr rs \<longleftrightarrow>
     list_all change_acceptable cs \<and> rs = map change_of cs"
  by (rule map_result_pure) (rule normalize_change_Inr_iff)

lemma map_result_package_name:
  "map_result package_name_new ns = Inr ps \<longleftrightarrow>
     list_all (\<lambda>n. is_ok (package_name_new n)) ns \<and> ps = map PackageName ns"
  by (rule map_result_pure) (auto simp: package_name_new_Inr_iff is_ok_iff)

text \<open>The blocking rule of the planner on its input.\<close>

definition input_blocked :: "planner_input \<Rightarrow> bool" where
  "input_blocked i \<longleftrightarrow> pi_distribution_upgrade i
     \<or> (\<exists>c \<in> set (pi_dry_run_changes i). dr_kind c \<in> {Remove, Downgrade})"

definition input_acceptable :: "planner_input \<Rightarrow> bool" where
  "input_acceptable i \<longleftrightarrow> pi_requested_packages i \<noteq> []
     \<and> list_all (\<lambda>n. is_ok (package_name_new n)) (pi_requested_packages i)
     \<and> list_all change_acceptable (pi_dry_run_changes i)"

text \<open>The plan \<open>build\<close> returns, before its hash is stored.\<close>

definition built_plan :: "uuid \<Rightarrow> timestamp \<Rightarrow> planner_input \<Rightarrow> update_plan" where
  "built_plan fresh now i = \<lparr>up_id = fresh, up_container_id = pi_container_id i,
     up_requested_packages = map PackageName (pi_requested_packages i),
     up_resolved_changes = map change_of (pi_dry_run_changes i),
     up_status = (if input_blocked i then Blocked else Ready), up_created_at = now,
     up_plan_hash = None\<rparr>"

lemma unsafe_change_of: "list_ex is_unsafe_change (map change_of cs) \<longleftrightarrow>
    (\<exists>c \<in> set cs. dr_kind c \<in> {Remove, Downgrade})"
  by (auto simp: list_ex_iff is_unsafe_change_def change_of_def)

lemma build_Inr_iff:
  "build h fresh now i = Inr p \<longleftrightarrow>
     input_acceptable i \<and> p = refresh_hash h (built_plan fresh now i)"
  by (auto simp: build_def bindR_Inr_iff map_result_normalize map_result_package_name
      update_plan_new_def plan_transition_to_def Let_def input_acceptable_def built_plan_def
      input_blocked_def unsafe_change_of)

lemma build_ok_iff: "is_ok (build h fresh now i) \<longleftrightarrow> input_acceptable i"
  by (auto simp: is_ok_iff build_Inr_iff)

lemma build_fails_closed:
  assumes "c \<in> set (pi_dry_run_changes i)" "dr_held c \<or> \<not> dr_authenticated c"
  shows "\<not> is_ok (build h fresh now i)"
  using assms by (auto simp: build_ok_iff input_acceptable_def list_all_iff change_acceptable_def)

lemma calculate_hash_content:
  "up_container_id p = up_container_id q \<Longrightarrow>
   up_requested_packages p = up_requested_packages q \<Longrightarrow>
   up_resolved_changes p = up_resolved_changes q \<Longrightarrow> calculate_hash h p = calculate_hash h q"
  by (simp add: calculate_hash_def canonical_representation_def)

lemma refresh_hash_stores: "up_plan_hash (refresh_hash h p) = Some (calculate_hash h p)"
  by (simp add: refresh_hash_def)

lemma has_same_content_refresh [simp]:
  "has_same_content_as h p (refresh_hash h q) = has_same_content_as h p q"
  by (simp add: has_same_content_as_def calculate_hash_def canonical_representation_def
      refresh_hash_def)

text \<open>The dry run's distribution-upgrade flag is not part of the plan's content.\<close>

lemma has_same_content_distribution:
  "has_same_content_as h p (built_plan f t (i\<lparr>pi_distribution_upgrade := b\<rparr>)) =
     has_same_content_as h p (built_plan f t i)"
  by (simp add: has_same_content_as_def calculate_hash_def canonical_representation_def
      built_plan_def)

lemma revalidate_InrD:
  assumes "revalidate h fresh now p i = Inr (v, p')"
  shows "input_acceptable i
     \<and> (v = Unchanged \<longrightarrow> p' = p \<and> has_same_content_as h p (built_plan fresh now i))
     \<and> (v = Changed \<longrightarrow> p' = p\<lparr>up_status := Invalidated\<rparr>
          \<and> \<not> has_same_content_as h p (built_plan fresh now i))"
  using assms
  by (auto simp: revalidate_def bindR_Inr_iff build_Inr_iff plan_transition_to_def
      split: if_splits)

lemma revalidate_confirmed:
  assumes "up_status p = Confirmed" "input_acceptable i"
  shows "revalidate h fresh now p i =
     (if has_same_content_as h p (built_plan fresh now i) then Inr (Unchanged, p)
      else Inr (Changed, p\<lparr>up_status := Invalidated\<rparr>))"
proof -
  have "build h fresh now i = Inr (refresh_hash h (built_plan fresh now i))"
    using assms(2) by (simp add: build_Inr_iff)
  then show ?thesis
    using assms(1) by (simp add: revalidate_def plan_transition_to_def)
qed

section \<open>Properties\<close>

text \<open>
  C6. The planner's verdict, on every input: a plan is built if and only if at least one package
  is requested, every requested name is a valid package name, and no dry-run change is held,
  unauthenticated or malformed. The built plan lists exactly the requested packages and the
  dry-run changes, is Blocked if the dry run is a distribution upgrade or removes or downgrades a
  package and Ready otherwise, and carries the hash of its own content.
\<close>

theorem build_verdict:
  "(\<exists>p. build h fresh now i = Inr p) = input_acceptable i
   \<and> (\<forall>p. build h fresh now i = Inr p \<longrightarrow>
        up_requested_packages p = map PackageName (pi_requested_packages i)
      \<and> up_resolved_changes p = map change_of (pi_dry_run_changes i)
      \<and> (up_status p = Blocked \<longleftrightarrow> pi_distribution_upgrade i
           \<or> (\<exists>c \<in> set (pi_dry_run_changes i). dr_kind c = Remove \<or> dr_kind c = Downgrade))
      \<and> (up_status p \<noteq> Blocked \<longrightarrow> up_status p = Ready)
      \<and> up_plan_hash p = Some (calculate_hash h p)
      \<and> (\<forall>c \<in> set (pi_dry_run_changes i). \<not> dr_held c \<and> dr_authenticated c))"
  by (auto simp: build_Inr_iff refresh_hash_def built_plan_def input_blocked_def
      input_acceptable_def list_all_iff change_acceptable_def intro!: calculate_hash_content)

definition change_example :: dry_run_change where
  "change_example = \<lparr>dr_package = lit ''openssl'', dr_from_version = Some (lit ''3.0''),
     dr_to_version = Some (lit ''3.1''), dr_kind = Upgrade, dr_held = False,
     dr_authenticated = True\<rparr>"

definition input_example :: planner_input where
  "input_example = \<lparr>pi_container_id = 101, pi_requested_packages = [lit ''openssl''],
     pi_dry_run_changes = [change_example], pi_distribution_upgrade = False\<rparr>"

theorem build_verdict_witness:
  "\<exists>p. build hash_example 1 0 input_example = Inr p \<and> up_status p = Ready
     \<and> up_plan_hash p = Some (calculate_hash hash_example p)"
proof -
  have "input_acceptable input_example" by code_simp
  then obtain p where p: "build hash_example 1 0 input_example = Inr p"
    using build_verdict [of hash_example 1 0 input_example] by blast
  then show ?thesis
    using build_verdict [of hash_example 1 0 input_example]
    by (auto simp: input_example_def change_example_def)
qed

text \<open>
  Revalidation of a confirmed plan against a fresh dry run: it fails exactly when the fresh
  input cannot be planned; otherwise it answers Unchanged and keeps the plan if and only if the
  fresh dry run has the same content, and else invalidates the plan. (Hypotheses: the plan is
  confirmed, and serializer and hash do not collide on the two canonical forms.)
\<close>

theorem revalidate_confirmed_plan:
  assumes "up_status p = Confirmed"
    and "inj_on (to_vec h) {canonical_representation p, canonical_representation (built_plan fresh now i)}"
    and "inj_on (sha256 h) {to_vec h (canonical_representation p),
           to_vec h (canonical_representation (built_plan fresh now i))}"
  shows "(is_ok (revalidate h fresh now p i) \<longleftrightarrow> input_acceptable i)
   \<and> (input_acceptable i \<longrightarrow> revalidate h fresh now p i =
        (if up_container_id p = pi_container_id i
            \<and> mset (up_requested_packages p) = mset (map PackageName (pi_requested_packages i))
            \<and> mset (up_resolved_changes p) = mset (map change_of (pi_dry_run_changes i))
         then Inr (Unchanged, p) else Inr (Changed, p\<lparr>up_status := Invalidated\<rparr>)))"
proof -
  have same: "has_same_content_as h p (built_plan fresh now i) \<longleftrightarrow>
      up_container_id p = pi_container_id i
      \<and> mset (up_requested_packages p) = mset (map PackageName (pi_requested_packages i))
      \<and> mset (up_resolved_changes p) = mset (map change_of (pi_dry_run_changes i))"
    (is "_ \<longleftrightarrow> ?same")
  proof -
    have "same_plan_content p (built_plan fresh now i) \<longleftrightarrow> ?same"
      by (simp add: same_plan_content_def built_plan_def)
    then show ?thesis
      using same_hash_same_content [OF _ assms(2,3)] same_content_same_hash by blast
  qed
  have "\<not> is_ok (revalidate h fresh now p i)" if "\<not> input_acceptable i"
    using that build_ok_iff [of h fresh now i]
    by (cases "build h fresh now i") (auto simp: revalidate_def)
  then show ?thesis
    using revalidate_confirmed [OF assms(1), of i h fresh now] unfolding same
    by (cases "input_acceptable i") auto
qed

definition confirmed_example :: update_plan where
  "confirmed_example = (plan_example [PackageName (lit ''openssl'')])\<lparr>up_status := Confirmed\<rparr>"

theorem revalidate_confirmed_plan_witness:
  "revalidate hash_example 1 0 confirmed_example input_example = Inr (Unchanged, confirmed_example)"
proof -
  have eq: "canonical_representation confirmed_example =
      canonical_representation (built_plan 1 0 input_example)" by code_simp
  have "input_acceptable input_example" by code_simp
  moreover have "up_status confirmed_example = Confirmed" by (simp add: confirmed_example_def)
  moreover have "up_container_id confirmed_example = pi_container_id input_example"
    "mset (up_requested_packages confirmed_example) =
       mset (map PackageName (pi_requested_packages input_example))"
    "mset (up_resolved_changes confirmed_example) =
       mset (map change_of (pi_dry_run_changes input_example))"
    by (simp_all add: confirmed_example_def plan_example_def input_example_def
        change_example_def change_of_def)
  ultimately show ?thesis
    using revalidate_confirmed_plan [of confirmed_example hash_example 1 0 input_example]
    by (simp add: eq)
qed

text \<open>
  Revalidation does not look at the status of the plan it rebuilds: for a confirmed plan,
  a fresh dry run that is flagged as a distribution upgrade (which \<open>build\<close> blocks) gets the same
  answer as the same dry run without the flag, so an otherwise unchanged plan passes.
\<close>

theorem revalidate_ignores_distribution_upgrade:
  "revalidate h fresh now p (i\<lparr>pi_distribution_upgrade := True\<rparr>) =
   revalidate h fresh now p (i\<lparr>pi_distribution_upgrade := False\<rparr>)"
proof -
  have acc: "input_acceptable (i\<lparr>pi_distribution_upgrade := b\<rparr>) = input_acceptable i" for b
    by (simp add: input_acceptable_def)
  have err: "build h fresh now (i\<lparr>pi_distribution_upgrade := True\<rparr>) =
      build h fresh now (i\<lparr>pi_distribution_upgrade := False\<rparr>)" if "\<not> input_acceptable i"
  proof -
    have n: "\<not> is_ok (build h fresh now (i\<lparr>pi_distribution_upgrade := b\<rparr>))" for b
      using that by (simp add: build_ok_iff acc)
    show ?thesis using n [of True] n [of False]
      unfolding build_def Let_def update_plan_new_def plan_transition_to_def
      by (cases "map_result package_name_new (pi_requested_packages i)";
          cases "map_result normalize_change (pi_dry_run_changes i)") auto
  qed
  show ?thesis
  proof (cases "input_acceptable i")
    case True
    then have b: "build h fresh now (i\<lparr>pi_distribution_upgrade := b\<rparr>) =
        Inr (refresh_hash h (built_plan fresh now (i\<lparr>pi_distribution_upgrade := b\<rparr>)))" for b
      by (simp add: build_Inr_iff acc)
    show ?thesis
      unfolding revalidate_def b bindR.simps has_same_content_refresh
        has_same_content_distribution ..
  next
    case False
    then show ?thesis by (simp add: revalidate_def err)
  qed
qed

end
