(* ===== verification/EventLog.thy ===== *)
theory EventLog
  imports Prelude
begin

text \<open>
  Both coordinators (update executions and Ansible jobs) keep a log per id whose entries carry
  the sequence number \<open>events.len() as u64 + 1\<close>. A vector never holds \<open>2 ^ 63\<close> elements, so the
  number is a \<open>nat\<close>. The locale states the contract of the private append operation and proves
  that every log is numbered 1, 2, 3, ... and only grows.
\<close>

definition numbered :: "('ev \<Rightarrow> nat) \<Rightarrow> 'ev list \<Rightarrow> bool" where
  "numbered sequence es \<longleftrightarrow> map sequence es = [1..<Suc (length es)]"

lemma numbered_Nil [simp]: "numbered f []"
  by (simp add: numbered_def)

lemma numbered_snoc: "numbered f es \<Longrightarrow> f e = Suc (length es) \<Longrightarrow> numbered f (es @ [e])"
  by (simp add: numbered_def)

lemma numbered_nth: "numbered f es \<Longrightarrow> n < length es \<Longrightarrow> f (es ! n) = n + 1"
  unfolding numbered_def by (metis length_map map_eq_conv nth_map nth_upt add.commute
      length_upt add_diff_cancel_right' less_diff_conv plus_1_eq_Suc)

locale event_log =
  fixes sequence :: "'ev \<Rightarrow> nat"
    and events :: "'st \<Rightarrow> 'id \<Rightarrow> 'ev list"
    and append :: "'id \<Rightarrow> 'entry \<Rightarrow> 'st \<Rightarrow> 'st"
  assumes append_same:
      "\<exists>e. events (append i x s) i = events s i @ [e] \<and> sequence e = length (events s i) + 1"
    and append_other: "j \<noteq> i \<Longrightarrow> events (append i x s) j = events s j"
begin

lemma append_numbered:
  "numbered sequence (events s j) \<Longrightarrow> numbered sequence (events (append i x s) j)"
  using append_same [of i x s] append_other [of j i x s]
  by (cases "j = i") (auto intro: numbered_snoc)

lemma append_grows: "\<exists>es. events (append i x s) j = events s j @ es"
  using append_same [of i x s] append_other [of j i x s]
  by (cases "j = i") auto

lemma append_nonempty: "events (append i x s) i \<noteq> []"
  using append_same [of i x s] by auto

end

end
