(* ===== verification/Coordinator.thy ===== *)
theory Coordinator
  imports Planner EventLog
begin

text \<open>
  \<open>lxcup-execution/src/lib.rs\<close>: the execution coordinator, its in-memory maps as the record
  \<open>coordinator\<close>, one definition per method. A method that may fail after it changed the state
  returns the pair of its result and the state after the call. The clock, the fresh ids and the
  package executor (a trait object) are arguments; an operation reads the clock once.
\<close>

section \<open>Data\<close>

record execution_event =
  ev_sequence :: nat
  ev_event_type :: str
  ev_message :: str
  ev_created_at :: timestamp

datatype audit_details = AuditDetails (details_plan_id: uuid) (details_plan_hash: "str option")

record audit_record =
  ad_event_type :: str
  ad_actor :: str
  ad_execution_id :: uuid
  ad_details :: audit_details
  ad_created_at :: timestamp

record execution_request =
  rq_plan :: update_plan
  rq_current_plan_input :: planner_input
  rq_actor :: str
  rq_idempotency_key :: str

record execution_result =
  er_exit_code :: i32
  er_stdout :: str
  er_stderr :: str

datatype observed_execution_state = ObsRunning | ObsSucceeded | ObsFailed | ObsUnknown

datatype reconciliation_action = KeepRunning | MarkSucceeded | MarkFailed | RequireManualReview

datatype execution_error =
    MissingRequestIdentity | PlanNotConfirmed | PlanChanged | InvalidState | UnknownExecution
  | EmptyPlan | UnsafePackageArgument | NotConfigured | ExecPlanner planner_error

datatype execution_start = Created execution | Duplicate uuid

fun planner_error_to_string :: "planner_error \<Rightarrow> str" where
  "planner_error_to_string (PlannerDomain e) = domain_error_to_string e"
| "planner_error_to_string (HeldPackage p) = lit ''held package cannot be planned: '' @ p"
| "planner_error_to_string (UnauthenticatedPackage p) =
     lit ''unauthenticated package cannot be planned: '' @ p"

fun execution_error_to_string :: "execution_error \<Rightarrow> str" where
  "execution_error_to_string MissingRequestIdentity =
     lit ''execution actor and idempotency key are required''"
| "execution_error_to_string PlanNotConfirmed = lit ''plan must be explicitly confirmed''"
| "execution_error_to_string PlanChanged = lit ''plan changed during pre-execution validation''"
| "execution_error_to_string InvalidState =
     lit ''execution has already reached a terminal state or has an invalid state''"
| "execution_error_to_string UnknownExecution = lit ''execution does not exist''"
| "execution_error_to_string EmptyPlan =
     lit ''execution plan must contain at least one package change''"
| "execution_error_to_string UnsafePackageArgument =
     lit ''plan contains an unsafe package argument''"
| "execution_error_to_string NotConfigured = lit ''the package executor is not configured''"
| "execution_error_to_string (ExecPlanner e) = planner_error_to_string e"

record coordinator =
  co_executions :: "(uuid, execution) hashmap"
  co_plans :: "(uuid, update_plan) hashmap"
  co_idempotency :: "(str, uuid) hashmap"
  co_events :: "(uuid, execution_event list) hashmap"
  co_audit :: "audit_record list"

definition coordinator_default :: coordinator where
  "coordinator_default = \<lparr>co_executions = [], co_plans = [], co_idempotency = [],
     co_events = [], co_audit = []\<rparr>"

section \<open>The validated APT command\<close>

definition apt_command :: "update_plan \<Rightarrow> execution_error + str list" where
  "apt_command plan =
     (if up_status plan \<noteq> Confirmed then Inl PlanNotConfirmed
      else
        (let packages = map (\<lambda>c. package_name_as_str (rc_package c)) (up_resolved_changes plan)
         in if packages = [] then Inl EmptyPlan
         else if list_ex (\<lambda>p. p = [] \<or> list_ex is_whitespace p
                     \<or> starts_with p (lit ''-'')) packages then Inl UnsafePackageArgument
         else Inr ([lit ''apt-get'', lit ''--yes'', lit ''--only-upgrade'', lit ''install'']
                   @ packages)))"

definition apt_execute :: "update_plan \<Rightarrow> execution_error + execution_result" where
  "apt_execute plan = bindR (apt_command plan) (\<lambda>_. Inl NotConfigured)"

section \<open>Operations of the coordinator\<close>

definition co_find :: "coordinator \<Rightarrow> uuid \<Rightarrow> execution option" where
  "co_find s i = hm_get (co_executions s) i"

definition co_plan :: "coordinator \<Rightarrow> uuid \<Rightarrow> update_plan option" where
  "co_plan s i = hm_get (co_plans s) i"

definition co_events_of :: "coordinator \<Rightarrow> uuid \<Rightarrow> execution_event list" where
  "co_events_of s i = (case hm_get (co_events s) i of None \<Rightarrow> [] | Some es \<Rightarrow> es)"

definition append_event :: "timestamp \<Rightarrow> uuid \<Rightarrow> str \<Rightarrow> str \<Rightarrow> coordinator \<Rightarrow> coordinator" where
  "append_event now i event_type message s =
     (let events = co_events_of s i
      in s\<lparr>co_events := hm_insert i (events @ [\<lparr>ev_sequence = length events + 1,
           ev_event_type = event_type, ev_message = message, ev_created_at = now\<rparr>])
           (co_events s)\<rparr>)"

text \<open>
  The block every method repeats: \<open>executions.get_mut(&id)\<close>, \<open>transition_to\<close>, the two error
  mappings. It yields the changed execution and the new state.
\<close>

definition transition_execution ::
  "uuid \<Rightarrow> execution_status \<Rightarrow> timestamp \<Rightarrow> coordinator
     \<Rightarrow> execution_error + (execution \<times> coordinator)" where
  "transition_execution i next now s =
     bindR (ok_or UnknownExecution (hm_get (co_executions s) i)) (\<lambda>e.
       bindR (map_err (\<lambda>_. InvalidState) (execution_transition_to next now e)) (\<lambda>e'.
         Inr (e', s\<lparr>co_executions := hm_insert i e' (co_executions s)\<rparr>)))"

definition start ::
  "hash_env \<Rightarrow> uuid \<Rightarrow> uuid \<Rightarrow> timestamp \<Rightarrow> execution_request \<Rightarrow> coordinator
     \<Rightarrow> (execution_error + execution_start) \<times> coordinator" where
  "start h fresh_plan_id fresh_id now request s =
     (if trim (rq_actor request) = [] \<or> trim (rq_idempotency_key request) = [] then
        (Inl MissingRequestIdentity, s)
      else case hm_get (co_idempotency s) (rq_idempotency_key request) of
        Some existing \<Rightarrow> (Inr (Duplicate existing), s)
      | None \<Rightarrow>
          if up_status (rq_plan request) \<noteq> Confirmed then (Inl PlanNotConfirmed, s)
          else case revalidate h fresh_plan_id now (rq_plan request)
                      (rq_current_plan_input request) of
            Inl e \<Rightarrow> (Inl (ExecPlanner e), s)
          | Inr (Changed, _) \<Rightarrow> (Inl PlanChanged, s)
          | Inr (Unchanged, plan) \<Rightarrow>
              (let execution = execution_new fresh_id (up_id plan);
                   i = ex_id execution;
                   s1 = s\<lparr>co_idempotency :=
                          hm_insert (rq_idempotency_key request) i (co_idempotency s),
                        co_plans := hm_insert i plan (co_plans s),
                        co_executions := hm_insert i execution (co_executions s)\<rparr>;
                   s2 = append_event now i (lit ''queued'') (lit ''execution queued'') s1;
                   s3 = s2\<lparr>co_audit := co_audit s2 @ [\<lparr>ad_event_type = lit ''execution_queued'',
                          ad_actor = rq_actor request, ad_execution_id = i,
                          ad_details = AuditDetails (up_id plan) (up_plan_hash plan),
                          ad_created_at = now\<rparr>]\<rparr>
               in (Inr (Created execution), s3)))"

fun execution_status_debug :: "execution_status \<Rightarrow> str" where
  "execution_status_debug Queued = lit ''Queued''"
| "execution_status_debug Running = lit ''Running''"
| "execution_status_debug Succeeded = lit ''Succeeded''"
| "execution_status_debug ExFailed = lit ''Failed''"
| "execution_status_debug Aborted = lit ''Aborted''"
| "execution_status_debug Unknown = lit ''Unknown''"

definition finish ::
  "timestamp \<Rightarrow> uuid \<Rightarrow> execution_result \<Rightarrow> coordinator
     \<Rightarrow> (execution_error + execution) \<times> coordinator" where
  "finish now i result s =
     (let next = (if er_exit_code result = 0 then Succeeded else ExFailed)
      in case transition_execution i next now s of
           Inl e \<Rightarrow> (Inl e, s)
         | Inr (finished, s1) \<Rightarrow>
             (let message = (if er_exit_code result = 0 then lit ''execution succeeded''
                             else lit ''execution failed'')
              in (Inr finished,
                  append_event now i (to_ascii_lowercase (execution_status_debug next))
                    message s1)))"

definition abort ::
  "timestamp \<Rightarrow> uuid \<Rightarrow> coordinator \<Rightarrow> (execution_error + execution) \<times> coordinator" where
  "abort now i s =
     (case transition_execution i Aborted now s of
        Inl e \<Rightarrow> (Inl e, s)
      | Inr (aborted, s1) \<Rightarrow>
          (Inr aborted, append_event now i (lit ''aborted'') (lit ''execution aborted'') s1))"

definition begin_execution ::
  "timestamp \<Rightarrow> uuid \<Rightarrow> coordinator \<Rightarrow> (execution_error + update_plan) \<times> coordinator" where
  "begin_execution now i s =
     (case co_plan s i of
        None \<Rightarrow> (Inl UnknownExecution, s)
      | Some plan \<Rightarrow>
          (case transition_execution i Running now s of
             Inl e \<Rightarrow> (Inl e, s)
           | Inr (_, s1) \<Rightarrow>
               (Inr plan, append_event now i (lit ''running'') (lit ''execution started'') s1)))"

text \<open>
  The executor acts on the world outside the coordinator, which is threaded through: it is the
  argument \<open>world\<close> and a component of the result. \<open>begin_execution\<close> and \<open>finish\<close> read the clock
  each.
\<close>

definition run ::
  "(update_plan \<Rightarrow> 'w \<Rightarrow> (execution_error + execution_result) \<times> 'w) \<Rightarrow> timestamp \<Rightarrow> timestamp \<Rightarrow> uuid
     \<Rightarrow> 'w \<Rightarrow> coordinator \<Rightarrow> (execution_error + execution) \<times> 'w \<times> coordinator" where
  "run executor begun finished i world s =
     (case co_plan s i of
        None \<Rightarrow> (Inl UnknownExecution, world, s)
      | Some plan \<Rightarrow>
          (case begin_execution begun i s of
             (Inl e, s1) \<Rightarrow> (Inl e, world, s1)
           | (Inr _, s1) \<Rightarrow>
               (case executor plan world of
                  (Inr result, world1) \<Rightarrow>
                    (case finish finished i result s1 of (r, s2) \<Rightarrow> (r, world1, s2))
                | (Inl err, world1) \<Rightarrow>
                    (Inl err, world1, snd (finish finished i \<lparr>er_exit_code = 1, er_stdout = [],
                       er_stderr = execution_error_to_string err\<rparr> s1)))))"

definition mark_connection_lost ::
  "timestamp \<Rightarrow> uuid \<Rightarrow> coordinator \<Rightarrow> (execution_error + execution) \<times> coordinator" where
  "mark_connection_lost now i s =
     (case hm_get (co_executions s) i of
        None \<Rightarrow> (Inl UnknownExecution, s)
      | Some e \<Rightarrow>
          if ex_status e = Running then
            (case transition_execution i Unknown now s of
               Inl err \<Rightarrow> (Inl err, s)
             | Inr (_, s1) \<Rightarrow>
                 (let s2 = append_event now i (lit ''unknown'')
                        (lit ''remote agent connection lost; reconciliation required'') s1
                  in (ok_or UnknownExecution (co_find s2 i), s2)))
          else (ok_or UnknownExecution (co_find s i), s))"

definition reconcile ::
  "timestamp \<Rightarrow> uuid \<Rightarrow> observed_execution_state \<Rightarrow> coordinator
     \<Rightarrow> (execution_error + (execution \<times> reconciliation_action)) \<times> coordinator" where
  "reconcile now i observed s =
     (case hm_get (co_executions s) i of
        None \<Rightarrow> (Inl UnknownExecution, s)
      | Some current \<Rightarrow>
          if execution_terminal (ex_status current) then
            (Inr (current, RequireManualReview), s)
          else (case observed of
            ObsRunning \<Rightarrow> (Inr (current, KeepRunning), s)
          | ObsSucceeded \<Rightarrow>
              (case finish now i \<lparr>er_exit_code = 0, er_stdout = [], er_stderr = []\<rparr> s of
                 (Inl e, s1) \<Rightarrow> (Inl e, s1)
               | (Inr x, s1) \<Rightarrow> (Inr (x, MarkSucceeded), s1))
          | ObsFailed \<Rightarrow>
              (case finish now i \<lparr>er_exit_code = 1, er_stdout = [],
                   er_stderr = lit ''remote agent reported failure''\<rparr> s of
                 (Inl e, s1) \<Rightarrow> (Inl e, s1)
               | (Inr x, s1) \<Rightarrow> (Inr (x, MarkFailed), s1))
          | ObsUnknown \<Rightarrow> (Inr (current, RequireManualReview), s)))"

section \<open>Executions as a numbered, growing log\<close>

lemma co_events_of_append:
  "co_events_of (append_event t i ty m s) j =
     (if j = i then co_events_of s i @ [\<lparr>ev_sequence = length (co_events_of s i) + 1,
        ev_event_type = ty, ev_message = m, ev_created_at = t\<rparr>]
      else co_events_of s j)"
  by (simp add: append_event_def co_events_of_def Let_def)

interpretation coordinator_log: event_log ev_sequence co_events_of
  "\<lambda>i (t, ty, m). append_event t i ty m"
  by unfold_locales (auto simp: co_events_of_append split: prod.splits)

lemma append_event_frame [simp]:
  "co_executions (append_event t i ty m s) = co_executions s"
  "co_plans (append_event t i ty m s) = co_plans s"
  "co_idempotency (append_event t i ty m s) = co_idempotency s"
  "co_audit (append_event t i ty m s) = co_audit s"
  by (simp_all add: append_event_def Let_def)

lemma append_event_hm_ok: "hm_ok (co_events s) \<Longrightarrow> hm_ok (co_events (append_event t i ty m s))"
  by (simp add: append_event_def Let_def)

section \<open>Every method but start is a sequence of status steps\<close>

text \<open>One status step: a permitted transition of one execution, recorded as one event.\<close>

inductive status_step :: "coordinator \<Rightarrow> coordinator \<Rightarrow> bool" where
  status_stepI: "transition_execution i n t s = Inr (e, s1) \<Longrightarrow>
     status_step s (append_event t i ty m s1)"

lemma transition_execution_Inr_iff:
  "transition_execution i n t s = Inr (e', s1) \<longleftrightarrow>
     (\<exists>e. hm_get (co_executions s) i = Some e \<and> execution_transition_to n t e = Inr e'
        \<and> s1 = s\<lparr>co_executions := hm_insert i e' (co_executions s)\<rparr>)"
  by (auto simp: transition_execution_def bindR_Inr_iff)

lemma finish_steps: "status_step\<^sup>*\<^sup>* s (snd (finish t i r s))"
  unfolding finish_def Let_def
  by (auto split: sum.splits intro!: r_into_rtranclp status_stepI)

lemma abort_steps: "status_step\<^sup>*\<^sup>* s (snd (abort t i s))"
  unfolding abort_def
  by (auto split: sum.splits intro!: r_into_rtranclp status_stepI)

lemma begin_steps: "status_step\<^sup>*\<^sup>* s (snd (begin_execution t i s))"
  unfolding begin_execution_def
  by (auto split: sum.splits option.splits intro!: r_into_rtranclp status_stepI)

lemma run_steps: "status_step\<^sup>*\<^sup>* s (snd (snd (run x t t' i w s)))"
proof -
  obtain r s1 where b: "begin_execution t i s = (r, s1)" by fastforce
  have 1: "status_step\<^sup>*\<^sup>* s s1" using begin_steps [of s t i] by (simp add: b)
  have 2: "status_step\<^sup>*\<^sup>* s (snd (finish t' i q s1))" for q
    using 1 finish_steps by (rule rtranclp_trans)
  show ?thesis using 1 2 unfolding run_def b
    by (auto split: option.splits sum.splits prod.splits) (metis snd_conv)
qed

lemma mark_connection_lost_steps: "status_step\<^sup>*\<^sup>* s (snd (mark_connection_lost t i s))"
  unfolding mark_connection_lost_def Let_def
  by (auto split: option.splits sum.splits intro!: r_into_rtranclp status_stepI)

lemma reconcile_steps: "status_step\<^sup>*\<^sup>* s (snd (reconcile t i obs s))"
proof -
  have fin: "finish t i r s = (x, s1) \<Longrightarrow> status_step\<^sup>*\<^sup>* s s1" for r x s1
    using finish_steps [of s t i r] by simp
  show ?thesis unfolding reconcile_def
    by (auto split: option.splits observed_execution_state.splits sum.splits prod.splits
        dest!: fin)
qed

lemmas operation_steps =
  finish_steps abort_steps begin_steps run_steps mark_connection_lost_steps reconcile_steps

section \<open>The coordinator's invariant\<close>

text \<open>
  Each execution is stored under its own id with time stamps that match its status, together
  with the confirmed plan it runs; each idempotency key names a stored execution, and no two
  keys the same one; each log is numbered from 1 and nonempty; there is exactly one audit record
  per execution.
\<close>

definition coordinator_ok :: "coordinator \<Rightarrow> bool" where
  "coordinator_ok s \<longleftrightarrow>
     hm_ok (co_executions s) \<and> hm_ok (co_plans s) \<and> hm_ok (co_idempotency s) \<and> hm_ok (co_events s)
   \<and> (\<forall>i e. co_find s i = Some e \<longrightarrow> ex_id e = i \<and> execution_ok e \<and> co_events_of s i \<noteq> []
        \<and> (\<exists>p. co_plan s i = Some p \<and> up_status p = Confirmed \<and> up_id p = ex_plan_id e))
   \<and> (\<forall>i. co_plan s i \<noteq> None \<longrightarrow> co_find s i \<noteq> None)
   \<and> (\<forall>k i. hm_get (co_idempotency s) k = Some i \<longrightarrow> co_find s i \<noteq> None)
   \<and> (\<forall>k k' i. hm_get (co_idempotency s) k = Some i \<longrightarrow>
        hm_get (co_idempotency s) k' = Some i \<longrightarrow> k = k')
   \<and> (\<forall>i. numbered ev_sequence (co_events_of s i))
   \<and> distinct (map ad_execution_id (co_audit s))
   \<and> (\<forall>i. i \<in> ad_execution_id ` set (co_audit s) \<longleftrightarrow> co_find s i \<noteq> None)"

text \<open>
  How a state may evolve: nothing recorded is lost, a stored plan or key never changes, a status
  only follows the transition table, and a terminal execution is frozen.
\<close>

definition coordinator_extends :: "coordinator \<Rightarrow> coordinator \<Rightarrow> bool" where
  "coordinator_extends s s' \<longleftrightarrow>
     (\<forall>k i. hm_get (co_idempotency s) k = Some i \<longrightarrow> hm_get (co_idempotency s') k = Some i)
   \<and> (\<forall>i p. co_plan s i = Some p \<longrightarrow> co_plan s' i = Some p)
   \<and> (\<forall>i e. co_find s i = Some e \<longrightarrow> (\<exists>e'. co_find s' i = Some e'
        \<and> ex_plan_id e' = ex_plan_id e
        \<and> execution_can_transition_to\<^sup>*\<^sup>* (ex_status e) (ex_status e')
        \<and> (execution_terminal (ex_status e) \<longrightarrow> e' = e)))
   \<and> (\<forall>i. \<exists>es. co_events_of s' i = co_events_of s i @ es)
   \<and> (\<exists>as. co_audit s' = co_audit s @ as)"

lemma coordinator_extends_refl [simp]: "coordinator_extends s s"
  by (simp add: coordinator_extends_def)

lemma coordinator_extends_trans:
  assumes "coordinator_extends a b" "coordinator_extends b c"
  shows "coordinator_extends a c"
  unfolding coordinator_extends_def
proof (intro conjI allI impI)
  fix i e assume "co_find a i = Some e"
  then obtain e1 where 1: "co_find b i = Some e1" "ex_plan_id e1 = ex_plan_id e"
      "execution_can_transition_to\<^sup>*\<^sup>* (ex_status e) (ex_status e1)"
      "execution_terminal (ex_status e) \<longrightarrow> e1 = e"
    using assms(1) unfolding coordinator_extends_def by blast
  then obtain e2 where 2: "co_find c i = Some e2" "ex_plan_id e2 = ex_plan_id e1"
      "execution_can_transition_to\<^sup>*\<^sup>* (ex_status e1) (ex_status e2)"
      "execution_terminal (ex_status e1) \<longrightarrow> e2 = e1"
    using assms(2) unfolding coordinator_extends_def by blast
  show "\<exists>e'. co_find c i = Some e' \<and> ex_plan_id e' = ex_plan_id e
      \<and> execution_can_transition_to\<^sup>*\<^sup>* (ex_status e) (ex_status e')
      \<and> (execution_terminal (ex_status e) \<longrightarrow> e' = e)"
    using 1 2 by (intro exI [of _ e2]) (auto intro: rtranclp_trans)
next
  fix i
  obtain x y where "co_events_of b i = co_events_of a i @ x" "co_events_of c i = co_events_of b i @ y"
    using assms unfolding coordinator_extends_def by blast
  then show "\<exists>es. co_events_of c i = co_events_of a i @ es" by simp
next
  obtain x y where "co_audit b = co_audit a @ x" "co_audit c = co_audit b @ y"
    using assms unfolding coordinator_extends_def by blast
  then show "\<exists>as. co_audit c = co_audit a @ as" by simp
qed (use assms in \<open>auto simp: coordinator_extends_def\<close>)

lemma execution_can_terminal: "execution_terminal s \<Longrightarrow> \<not> execution_can_transition_to s n"
  by (simp add: execution_terminal_iff)

lemma status_step_extends: "status_step s s' \<Longrightarrow> coordinator_extends s s'"
proof (induction rule: status_step.induct)
  case (status_stepI i n t s e1 s1 ty m)
  then obtain e where e: "co_find s i = Some e" "execution_transition_to n t e = Inr e1"
    and s1: "s1 = s\<lparr>co_executions := hm_insert i e1 (co_executions s)\<rparr>"
    by (auto simp: transition_execution_Inr_iff co_find_def)
  have can: "execution_can_transition_to (ex_status e) (ex_status e1)"
    using execution_lc.transition_InrD [OF e(2)] by simp
  have ids: "ex_plan_id e1 = ex_plan_id e" using execution_transition_ids [OF e(2)] by simp
  have nt: "\<not> execution_terminal (ex_status e)" using can execution_can_terminal by blast
  have ev: "co_events_of s1 j = co_events_of s j" for j by (simp add: s1 co_events_of_def)
  have find: "co_find (append_event t i ty m s1) j = (if j = i then Some e1 else co_find s j)"
    for j by (simp add: co_find_def s1)
  show ?case
    unfolding coordinator_extends_def find
    using e(1) can ids nt
    by (auto simp: s1 co_plan_def co_events_of_append ev [unfolded s1])
qed

lemma status_step_ok: "status_step s s' \<Longrightarrow> coordinator_ok s \<Longrightarrow> coordinator_ok s'"
proof (induction rule: status_step.induct)
  case (status_stepI i n t s e1 s1 ty m)
  then obtain e where e: "co_find s i = Some e" "execution_transition_to n t e = Inr e1"
    and s1: "s1 = s\<lparr>co_executions := hm_insert i e1 (co_executions s)\<rparr>"
    by (auto simp: transition_execution_Inr_iff co_find_def)
  let ?s = "append_event t i ty m s1"
  note ok = status_stepI.prems
  have find: "co_find ?s j = (if j = i then Some e1 else co_find s j)" for j
    by (simp add: co_find_def s1)
  have plan: "co_plan ?s j = co_plan s j" for j by (simp add: co_plan_def s1)
  have ev: "co_events_of s1 = co_events_of s" by (simp add: s1 co_events_of_def fun_eq_iff)
  have num: "numbered ev_sequence (co_events_of ?s j)" for j
    using coordinator_log.append_numbered [of s1 j i "(t, ty, m)"] ok
    by (simp add: ev coordinator_ok_def)
  have ne: "co_events_of ?s j \<noteq> []" if "co_events_of s j \<noteq> [] \<or> j = i" for j
    using that by (auto simp: co_events_of_append ev)
  have e1: "ex_id e1 = i" "ex_plan_id e1 = ex_plan_id e" "execution_ok e1"
    using ok e execution_transition_ids [OF e(2)] execution_transition_ok [OF _ e(2)]
    by (auto simp: coordinator_ok_def)
  have hm: "hm_ok (co_events ?s)"
    by (rule append_event_hm_ok) (use ok in \<open>simp add: s1 coordinator_ok_def\<close>)
  show ?case
    using ok e(1) e1 hm num ne
    unfolding coordinator_ok_def find plan
    by (auto simp: s1)
qed

lemma status_steps_ok:
  "status_step\<^sup>*\<^sup>* s s' \<Longrightarrow> coordinator_ok s \<Longrightarrow> coordinator_ok s' \<and> coordinator_extends s s'"
proof (induction rule: rtranclp_induct)
  case base
  then show ?case by simp
next
  case (step y z)
  then show ?case
    using status_step_ok status_step_extends coordinator_extends_trans by blast
qed

section \<open>Starting an execution\<close>

text \<open>What \<open>start\<close> returns tells exactly what it did.\<close>

lemma start_cases:
  obtains (failed) err where "start h fp fi t rq s = (Inl err, s)"
  | (duplicate) i where "start h fp fi t rq s = (Inr (Duplicate i), s)"
      "hm_get (co_idempotency s) (rq_idempotency_key rq) = Some i"
  | (created) s3 where
      "start h fp fi t rq s = (Inr (Created (execution_new fi (up_id (rq_plan rq)))), s3)"
      "hm_get (co_idempotency s) (rq_idempotency_key rq) = None"
      "trim (rq_actor rq) \<noteq> []" "trim (rq_idempotency_key rq) \<noteq> []"
      "up_status (rq_plan rq) = Confirmed" "input_acceptable (rq_current_plan_input rq)"
      "has_same_content_as h (rq_plan rq) (built_plan fp t (rq_current_plan_input rq))"
      "s3 = (append_event t fi (lit ''queued'') (lit ''execution queued'')
          (s\<lparr>co_idempotency := hm_insert (rq_idempotency_key rq) fi (co_idempotency s),
             co_plans := hm_insert fi (rq_plan rq) (co_plans s),
             co_executions := hm_insert fi (execution_new fi (up_id (rq_plan rq)))
               (co_executions s)\<rparr>))\<lparr>co_audit := co_audit s @
           [\<lparr>ad_event_type = lit ''execution_queued'', ad_actor = rq_actor rq,
             ad_execution_id = fi,
             ad_details = AuditDetails (up_id (rq_plan rq)) (up_plan_hash (rq_plan rq)),
             ad_created_at = t\<rparr>]\<rparr>"
proof (cases "trim (rq_actor rq) = [] \<or> trim (rq_idempotency_key rq) = []")
  case True
  then show ?thesis by (intro failed) (auto simp: start_def)
next
  case ids: False
  show ?thesis
  proof (cases "hm_get (co_idempotency s) (rq_idempotency_key rq)")
    case (Some i)
    with ids show ?thesis by (intro duplicate) (auto simp: start_def)
  next
    case None
    show ?thesis
    proof (cases "up_status (rq_plan rq) = Confirmed
        \<and> (\<exists>p. revalidate h fp t (rq_plan rq) (rq_current_plan_input rq) = Inr (Unchanged, p))")
      case False
      with ids None have "\<exists>err. start h fp fi t rq s = (Inl err, s)"
        by (auto simp: start_def split: sum.splits prod.splits revalidation.splits)
      then show ?thesis using failed by blast
    next
      case True
      then obtain p where p: "up_status (rq_plan rq) = Confirmed"
        "revalidate h fp t (rq_plan rq) (rq_current_plan_input rq) = Inr (Unchanged, p)" by auto
      with revalidate_InrD [OF p(2)] ids None show ?thesis
        by (intro created) (auto simp: start_def execution_new_def Let_def)
    qed
  qed
qed

lemma start_ok:
  assumes "coordinator_ok s" and fresh: "co_find s fi = None"
  shows "coordinator_ok (snd (start h fp fi t rq s))"
proof (cases rule: start_cases [of h fp fi t rq s])
  case (created s3)
  let ?s = "snd (start h fp fi t rq s)"
  note ok = assms(1) [unfolded coordinator_ok_def]
  have find: "co_find ?s j = (if j = fi then Some (execution_new fi (up_id (rq_plan rq)))
      else co_find s j)" for j
    by (simp add: created(1,8) co_find_def)
  have plan: "co_plan ?s j = (if j = fi then Some (rq_plan rq) else co_plan s j)" for j
    by (simp add: created(1,8) co_plan_def)
  have idem: "hm_get (co_idempotency ?s) k =
      (if k = rq_idempotency_key rq then Some fi else hm_get (co_idempotency s) k)" for k
    by (simp add: created(1,8))
  have ev: "co_events_of ?s j = co_events_of (append_event t fi (lit ''queued'')
      (lit ''execution queued'') s) j" for j
    by (simp add: created(1,8) co_events_of_def append_event_def Let_def)
  have num: "numbered ev_sequence (co_events_of ?s j)" for j
    using coordinator_log.append_numbered [of s j fi "(t, lit ''queued'', lit ''execution queued'')"] ok
    by (simp add: ev)
  have ne: "co_events_of ?s j \<noteq> []" if "co_events_of s j \<noteq> [] \<or> j = fi" for j
    using that by (auto simp: ev co_events_of_append)
  have hm: "hm_ok (co_executions ?s)" "hm_ok (co_plans ?s)" "hm_ok (co_idempotency ?s)"
    "hm_ok (co_events ?s)"
    using ok by (auto simp: created(1,8) append_event_def Let_def)
  have new: "ex_id (execution_new fi q) = fi \<and> ex_plan_id (execution_new fi q) = q" for q
    by (simp add: execution_new_def)
  have nk: "hm_get (co_idempotency s) k \<noteq> Some fi" for k using ok fresh by blast
  have audit: "map ad_execution_id (co_audit ?s) = map ad_execution_id (co_audit s) @ [fi]"
    by (simp add: created(1,8))
  have audit_set: "ad_execution_id ` set (co_audit ?s) = insert fi (ad_execution_id ` set (co_audit s))"
    using audit by (metis image_set list.simps(15) set_append Un_insert_right empty_set sup_bot.right_neutral)
  have nf: "fi \<notin> ad_execution_id ` set (co_audit s)" using ok fresh by blast
  show ?thesis
    unfolding coordinator_ok_def find plan idem audit audit_set
    using ok hm num ne new nk nf execution_new_ok created(5)
    by (auto simp: created(2))
qed (use assms(1) in simp_all)

lemma start_extends:
  assumes "co_find s fi = None" "co_plan s fi = None"
  shows "coordinator_extends s (snd (start h fp fi t rq s))"
proof (cases rule: start_cases [of h fp fi t rq s])
  case (created s3)
  let ?s = "snd (start h fp fi t rq s)"
  have "co_events_of ?s j = co_events_of (append_event t fi (lit ''queued'')
      (lit ''execution queued'') s) j" for j
    by (simp add: created(1,8) co_events_of_def append_event_def Let_def)
  then have ev: "\<exists>es. co_events_of ?s j = co_events_of s j @ es" for j
    by (simp add: co_events_of_append)
  show ?thesis
    unfolding coordinator_extends_def
    using assms ev created(2)
    by (auto simp: created(1,8) co_find_def co_plan_def)
qed simp_all

section \<open>Reachable coordinator states\<close>

text \<open>
  A step is one method call with any arguments; of the world of an executor only its answer matters
  here, so it is left out. The fresh execution id of \<open>start\<close> is a version-4
  UUID: the rule asks that it is not in use.
\<close>

inductive coord_step :: "hash_env \<Rightarrow> coordinator \<Rightarrow> coordinator \<Rightarrow> bool" for h where
  cs_start: "co_find s fi = None \<Longrightarrow> coord_step h s (snd (start h fp fi t rq s))"
| cs_begin: "coord_step h s (snd (begin_execution t i s))"
| cs_run: "coord_step h s (snd (snd (run x t t' i () s)))"
| cs_finish: "coord_step h s (snd (finish t i r s))"
| cs_abort: "coord_step h s (snd (abort t i s))"
| cs_lost: "coord_step h s (snd (mark_connection_lost t i s))"
| cs_reconcile: "coord_step h s (snd (reconcile t i obs s))"

inductive coord_reachable :: "hash_env \<Rightarrow> coordinator \<Rightarrow> bool" for h where
  cr_init: "coord_reachable h coordinator_default"
| cr_step: "coord_reachable h s \<Longrightarrow> coord_step h s s' \<Longrightarrow> coord_reachable h s'"

lemma coordinator_default_ok: "coordinator_ok coordinator_default"
  by (simp add: coordinator_ok_def coordinator_default_def co_find_def co_plan_def co_events_of_def)

lemma coord_step_ok:
  assumes "coord_step h s s'" "coordinator_ok s"
  shows "coordinator_ok s' \<and> coordinator_extends s s'"
  using assms
proof (induction rule: coord_step.induct)
  case (cs_start s fi fp t rq)
  then have "co_plan s fi = None" by (auto simp: coordinator_ok_def)
  with cs_start show ?case using start_ok start_extends by blast
qed (rule status_steps_ok, rule operation_steps, assumption)+

lemma coord_reachable_ok: "coord_reachable h s \<Longrightarrow> coordinator_ok s"
  by (induction rule: coord_reachable.induct) (use coordinator_default_ok coord_step_ok in blast)+

lemma coord_steps_extend:
  "(coord_step h)\<^sup>*\<^sup>* s s' \<Longrightarrow> coordinator_ok s \<Longrightarrow> coordinator_ok s' \<and> coordinator_extends s s'"
proof (induction rule: rtranclp_induct)
  case base
  then show ?case by simp
next
  case (step y z)
  then show ?case using coord_step_ok coordinator_extends_trans by blast
qed

lemma apt_command_Inr_iff:
  "apt_command p = Inr cmd \<longleftrightarrow>
     (let ps = map (\<lambda>c. package_name_as_str (rc_package c)) (up_resolved_changes p)
      in up_status p = Confirmed \<and> ps \<noteq> []
       \<and> (\<forall>q \<in> set ps. q \<noteq> [] \<and> hd q \<noteq> ch CHR ''-'' \<and> (\<forall>c \<in> set q. \<not> is_whitespace c))
       \<and> cmd = [lit ''apt-get'', lit ''--yes'', lit ''--only-upgrade'', lit ''install''] @ ps)"
proof -
  have "starts_with q (lit ''-'') \<longleftrightarrow> q \<noteq> [] \<and> hd q = ch CHR ''-''" for q
    by (cases q) (auto simp: starts_with_def lit_Cons)
  then show ?thesis
    by (auto simp: apt_command_def Let_def list_ex_iff)
qed

section \<open>Properties\<close>

text \<open>
  C3. Whatever sequence of coordinator calls is made, with any requests, executors, exit codes
  and observations, the coordinator's maps stay consistent: every execution is stored under its
  own id with the confirmed plan it belongs to and with time stamps matching its status; every
  idempotency key names a stored execution and no two keys share one; every event log is nonempty
  and numbered 1, 2, 3, ...; there is exactly one audit record per execution.
\<close>

theorem coordinator_invariant:
  "coord_reachable h s \<Longrightarrow> coordinator_ok s"
  by (rule coord_reachable_ok)

definition request_example :: execution_request where
  "request_example = \<lparr>rq_plan = confirmed_example, rq_current_plan_input = input_example,
     rq_actor = lit ''operator'', rq_idempotency_key = lit ''key-1''\<rparr>"

definition started_example :: coordinator where
  "started_example = snd (start hash_example 1 7 0 request_example coordinator_default)"

lemma start_example:
  "start hash_example 1 7 0 request_example coordinator_default =
     (Inr (Created (execution_new 7 1)), started_example)"
proof -
  have "fst (start hash_example 1 7 0 request_example coordinator_default) =
      Inr (Created (execution_new 7 1))" by code_simp
  then show ?thesis by (simp add: started_example_def prod_eq_iff)
qed

lemma co_find_default [simp]: "co_find coordinator_default i = None"
  by (simp add: co_find_def coordinator_default_def)

lemma started_example_reachable: "coord_reachable hash_example started_example"
  unfolding started_example_def
  by (rule cr_step [OF cr_init]) (rule cs_start, simp)

theorem coordinator_invariant_witness:
  "coordinator_ok started_example \<and> co_find started_example 7 = Some (execution_new 7 1)"
proof
  show "coordinator_ok started_example"
    by (rule coordinator_invariant [OF started_example_reachable])
  show "co_find started_example 7 = Some (execution_new 7 1)" by code_simp
qed

text \<open>
  C4. History is never lost or rewritten: from any reachable state, any further calls keep every
  idempotency key, every stored plan, every event and every audit record; the status of an
  execution only moves along the transition table, and an execution that has succeeded, failed or
  been aborted never changes again.
\<close>

theorem coordinator_history_preserved:
  assumes "coord_reachable h s" and "(coord_step h)\<^sup>*\<^sup>* s s'"
  shows "coordinator_extends s s'
    \<and> (\<forall>i e. co_find s i = Some e \<longrightarrow> ex_status e \<in> {Succeeded, ExFailed, Aborted} \<longrightarrow>
       co_find s' i = Some e)"
proof -
  have ext: "coordinator_extends s s'"
    using coord_steps_extend [OF assms(2) coord_reachable_ok [OF assms(1)]] by blast
  moreover have "co_find s' i = Some e"
    if "co_find s i = Some e" "ex_status e \<in> {Succeeded, ExFailed, Aborted}" for i e
    using ext that by (auto simp: coordinator_extends_def execution_terminal_def)
  ultimately show ?thesis by blast
qed

definition aborted_example :: coordinator where
  "aborted_example = snd (abort 3 7 started_example)"

lemma aborted_example_find:
  "co_find aborted_example 7 =
     Some ((execution_new 7 1)\<lparr>ex_status := Aborted, ex_finished_at := Some 3\<rparr>)"
  by code_simp

lemma aborted_example_reachable: "coord_reachable hash_example aborted_example"
  unfolding aborted_example_def by (rule cr_step [OF started_example_reachable]) (rule cs_abort)

theorem coordinator_history_preserved_witness:
  "co_find (snd (reconcile 4 7 ObsSucceeded aborted_example)) 7 = co_find aborted_example 7
   \<and> map_option ex_status (co_find aborted_example 7) = Some Aborted"
proof -
  have "(coord_step hash_example)\<^sup>*\<^sup>* aborted_example
      (snd (reconcile 4 7 ObsSucceeded aborted_example))"
    by (rule r_into_rtranclp) (rule cs_reconcile)
  from coordinator_history_preserved [OF aborted_example_reachable this] aborted_example_find
  show ?thesis by simp
qed

text \<open>
  Starting is idempotent: once a request has created an execution, every later request with
  the same idempotency key and a nonblank actor, after any number of other calls and whatever
  plan it carries, returns that execution as a duplicate and changes nothing.
\<close>

theorem start_idempotent:
  assumes "coord_reachable h s" and "co_find s fi = None"
    and "start h fp fi t rq s = (Inr (Created e), s1)"
    and "(coord_step h)\<^sup>*\<^sup>* s1 s2"
    and "rq_idempotency_key rq2 = rq_idempotency_key rq" and "trim (rq_actor rq2) \<noteq> []"
  shows "start h fp2 fi2 t2 rq2 s2 = (Inr (Duplicate (ex_id e)), s2)"
proof -
  have ok1: "coordinator_ok s1"
    using start_ok [OF coord_reachable_ok [OF assms(1)] assms(2), of h fp t rq] assms(3) by simp
  have k: "hm_get (co_idempotency s1) (rq_idempotency_key rq) = Some fi" "ex_id e = fi"
    "trim (rq_idempotency_key rq) \<noteq> []"
    using assms(3) start_cases [of h fp fi t rq s]
    by (fastforce simp: execution_new_def)+
  then have "hm_get (co_idempotency s2) (rq_idempotency_key rq) = Some fi"
    using coord_steps_extend [OF assms(4) ok1] by (auto simp: coordinator_extends_def)
  with k assms(5,6) show ?thesis by (simp add: start_def)
qed

theorem start_idempotent_witness:
  "start hash_example 2 8 5 (request_example\<lparr>rq_actor := lit ''someone else''\<rparr>) started_example =
     (Inr (Duplicate 7), started_example)"
proof -
  have a: "trim (rq_actor (request_example\<lparr>rq_actor := lit ''someone else''\<rparr>)) \<noteq> []" by code_simp
  have k: "rq_idempotency_key (request_example\<lparr>rq_actor := lit ''someone else''\<rparr>) =
      rq_idempotency_key request_example" by simp
  have "start hash_example 2 8 5 (request_example\<lparr>rq_actor := lit ''someone else''\<rparr>)
      started_example = (Inr (Duplicate (ex_id (execution_new 7 1))), started_example)"
    by (rule start_idempotent [OF cr_init _ start_example rtranclp.rtrancl_refl k a]) simp
  then show ?thesis by (simp add: execution_new_def)
qed

text \<open>
  C1. Only confirmed, revalidated plans are executed: if \<open>start\<close> creates an execution then the
  request named an actor and a key, the key was new, the plan was confirmed and the fresh dry run
  was accepted by the planner and has the same content hash as the plan; every other outcome
  leaves the coordinator untouched.
\<close>

theorem start_only_confirmed_revalidated:
  "case start h fp fi t rq s of
     (Inr (Created e), s') \<Rightarrow>
       trim (rq_actor rq) \<noteq> [] \<and> trim (rq_idempotency_key rq) \<noteq> []
       \<and> hm_get (co_idempotency s) (rq_idempotency_key rq) = None
       \<and> up_status (rq_plan rq) = Confirmed
       \<and> (\<exists>fresh. build h fp t (rq_current_plan_input rq) = Inr fresh
            \<and> calculate_hash h fresh = calculate_hash h (rq_plan rq))
       \<and> e = execution_new fi (up_id (rq_plan rq))
       \<and> co_plan s' fi = Some (rq_plan rq) \<and> co_find s' fi = Some e
   | (_, s') \<Rightarrow> s' = s"
proof (cases rule: start_cases [of h fp fi t rq s])
  case (created s3)
  have "calculate_hash h (refresh_hash h q) = calculate_hash h q" for q
    by (rule calculate_hash_content) (simp_all add: refresh_hash_def)
  then show ?thesis
    using created by (auto simp: build_Inr_iff has_same_content_as_def co_plan_def co_find_def)
qed simp_all

section \<open>One run\<close>

lemma run_refused:
  assumes "co_plan s i = Some p" "hm_get (co_executions s) i = Some e" "ex_status e \<noteq> Queued"
  shows "run x t t' i w s = (Inl InvalidState, w, s)"
proof -
  have "\<not> execution_can_transition_to (ex_status e) Running" using assms(3) by (cases "ex_status e") auto
  then show ?thesis
    using assms by (simp add: run_def begin_execution_def transition_execution_def execution_transition_to_def)
qed

definition begun_execution :: "timestamp \<Rightarrow> execution \<Rightarrow> execution" where
  "begun_execution t e = e\<lparr>ex_status := Running, ex_started_at := Some t, ex_finished_at := None\<rparr>"

lemma begin_queued_execution:
  assumes "co_plan s i = Some p" "hm_get (co_executions s) i = Some e" "ex_status e = Queued" "execution_ok e"
  shows "begin_execution t i s = (Inr p, append_event t i (lit ''running'') (lit ''execution started'')
     (s\<lparr>co_executions := hm_insert i (begun_execution t e) (co_executions s)\<rparr>))"
proof -
  have "ex_started_at e = None" "ex_finished_at e = None"
    using assms(3,4) by (auto simp: execution_ok_def execution_terminal_def)
  then show ?thesis
    using assms by (simp add: begin_execution_def transition_execution_def execution_transition_to_def
        execution_terminal_def begun_execution_def)
qed

lemma finish_begun:
  assumes "co_plan s i = Some p"
    and s1_def: "s1 = append_event t i (lit ''running'') (lit ''execution started'')
     (s\<lparr>co_executions := hm_insert i (begun_execution t e) (co_executions s)\<rparr>)"
  shows "\<exists>e'. co_find (snd (finish t' i r s1)) i = Some e'
    \<and> ex_status e' = (if er_exit_code r = 0 then Succeeded else ExFailed)
    \<and> ex_started_at e' = Some t \<and> ex_finished_at e' = Some t'
    \<and> length (co_events_of (snd (finish t' i r s1)) i) = length (co_events_of s i) + 2
    \<and> (\<forall>y u u' v. run y u u' i v (snd (finish t' i r s1)) = (Inl InvalidState, v, snd (finish t' i r s1)))"
proof -
  let ?e = "(begun_execution t e)\<lparr>ex_status := if er_exit_code r = 0 then Succeeded else ExFailed,
    ex_finished_at := Some t'\<rparr>"
  let ?s = "snd (finish t' i r s1)"
  have ev: "co_events_of s1 i = co_events_of s i @ [\<lparr>ev_sequence = length (co_events_of s i) + 1,
      ev_event_type = lit ''running'', ev_message = lit ''execution started'', ev_created_at = t\<rparr>]"
    unfolding s1_def co_events_of_append by (simp add: co_events_of_def)
  have b: "hm_get (co_executions s1) i = Some (begun_execution t e)" "co_plan s1 i = Some p"
    using assms(1) by (simp_all add: s1_def co_plan_def)
  have z: "co_events_of (s1\<lparr>co_executions := z\<rparr>) i = co_events_of s1 i" for z by (simp add: co_events_of_def)
  have f: "co_find ?s i = Some ?e" "length (co_events_of ?s i) = length (co_events_of s i) + 2"
    using b(1) z by (simp_all add: finish_def transition_execution_def execution_transition_to_def
        begun_execution_def execution_terminal_def co_find_def co_events_of_append ev)
  have "co_plan ?s i = Some p"
    using b by (simp add: finish_def transition_execution_def execution_transition_to_def
        begun_execution_def co_plan_def)
  then have "run y u u' i v ?s = (Inl InvalidState, v, ?s)" for y u u' v
    using f(1) by (intro run_refused) (auto simp: co_find_def split: if_splits)
  then show ?thesis using f by (auto simp: begun_execution_def)
qed

text \<open>
  C2. The package executor runs at most once per execution, and its run always reaches a final
  status. In a reachable state, \<open>run\<close> on an execution that is not queued is refused with
  \<open>InvalidState\<close> and changes neither the coordinator nor the world, whatever the executor would do
  to it. On a queued one it acts on the world exactly as one call of the executor on the confirmed
  plan does, leaves the execution Succeeded if the executor returned exit code 0 and Failed
  otherwise, with the start time of the first clock reading, the finish time of the second and
  exactly two new events; and no later run of the execution, with any executor, acts on the world again.
\<close>

theorem run_at_most_once:
  assumes "coord_reachable h s" and "co_find s i = Some e"
  shows "(ex_status e \<noteq> Queued \<longrightarrow> run x t t' i w s = (Inl InvalidState, w, s))
   \<and> (ex_status e = Queued \<longrightarrow> (\<exists>p e' w' s'. co_plan s i = Some p \<and> up_status p = Confirmed
        \<and> snd (run x t t' i w s) = (w', s') \<and> w' = snd (x p w)
        \<and> co_find s' i = Some e'
        \<and> ex_status e' = (case fst (x p w) of Inr r \<Rightarrow> if er_exit_code r = 0 then Succeeded else ExFailed
                          | Inl _ \<Rightarrow> ExFailed)
        \<and> ex_started_at e' = Some t \<and> ex_finished_at e' = Some t'
        \<and> length (co_events_of s' i) = length (co_events_of s i) + 2
        \<and> (\<forall>y u u' v. run y u u' i v s' = (Inl InvalidState, v, s'))))"
proof -
  obtain p where p: "co_plan s i = Some p" "up_status p = Confirmed" and eo: "execution_ok e"
    using coord_reachable_ok [OF assms(1)] assms(2) by (auto simp: coordinator_ok_def)
  have e: "hm_get (co_executions s) i = Some e" using assms(2) by (simp add: co_find_def)
  show ?thesis
  proof (cases "ex_status e = Queued")
    case False
    then have "run x t t' i w s = (Inl InvalidState, w, s)" using p e by (intro run_refused) auto
    with False show ?thesis by simp
  next
    case True
    define s1 where "s1 = append_event t i (lit ''running'') (lit ''execution started'')
       (s\<lparr>co_executions := hm_insert i (begun_execution t e) (co_executions s)\<rparr>)"
    have b: "begin_execution t i s = (Inr p, s1)"
      unfolding s1_def by (rule begin_queued_execution [OF p(1) e True eo])
    have fin: "\<exists>e'. co_find (snd (finish t' i r s1)) i = Some e'
        \<and> ex_status e' = (if er_exit_code r = 0 then Succeeded else ExFailed)
        \<and> ex_started_at e' = Some t \<and> ex_finished_at e' = Some t'
        \<and> length (co_events_of (snd (finish t' i r s1)) i) = length (co_events_of s i) + 2
        \<and> (\<forall>y u u' v. run y u u' i v (snd (finish t' i r s1)) = (Inl InvalidState, v, snd (finish t' i r s1)))" for r
      by (rule finish_begun [OF p(1) s1_def])
    show ?thesis
    proof (cases "x p w")
      case (Pair o' w')
      show ?thesis
      proof (cases o')
        case (Inl err)
        let ?r = "\<lparr>er_exit_code = 1, er_stdout = [], er_stderr = execution_error_to_string err\<rparr>"
        have "snd (run x t t' i w s) = (w', snd (finish t' i ?r s1))" by (simp add: run_def p b Pair Inl)
        then show ?thesis using True p Pair Inl fin [of ?r] by simp
      next
        case (Inr r)
        have "snd (run x t t' i w s) = (w', snd (finish t' i r s1))"
          by (simp add: run_def p b Pair Inr split: prod.split)
        then show ?thesis using True p Pair Inr fin [of r] by simp
      qed
    qed
  qed
qed

text \<open>An executor that installs something each time it is called, and the only run of an execution.\<close>

definition counting_executor :: "update_plan \<Rightarrow> nat \<Rightarrow> (execution_error + execution_result) \<times> nat" where
  "counting_executor p n = (Inr \<lparr>er_exit_code = 0, er_stdout = [], er_stderr = []\<rparr>, n + 1)"

theorem run_at_most_once_witness:
  "fst (snd (run counting_executor 5 9 7 0 started_example)) = 1
   \<and> run counting_executor 5 9 7 0 aborted_example = (Inl InvalidState, 0, aborted_example)"
proof -
  have f: "co_find started_example 7 = Some (execution_new 7 1)" by code_simp
  have "fst (snd (run counting_executor 5 9 7 0 started_example)) = 1"
    using run_at_most_once [OF started_example_reachable f, of counting_executor 5 9 0]
    by (auto simp: execution_new_def counting_executor_def)
  then show ?thesis
    using run_at_most_once [OF aborted_example_reachable aborted_example_find, of counting_executor 5 9 0]
    by simp
qed

text \<open>
  Reconciliation never invents an outcome: with a terminal execution, or an unknown
  observation, it asks for manual review and changes nothing; an observed running state changes
  nothing; an observed success or failure finishes a running or unknown execution accordingly and
  is refused for an execution that was never begun.
\<close>

theorem reconcile_safe:
  assumes "co_find s i = Some e"
  shows "(ex_status e \<in> {Succeeded, ExFailed, Aborted} \<longrightarrow>
            reconcile t i obs s = (Inr (e, RequireManualReview), s))
   \<and> (ex_status e \<notin> {Succeeded, ExFailed, Aborted} \<longrightarrow>
        reconcile t i ObsUnknown s = (Inr (e, RequireManualReview), s)
      \<and> reconcile t i ObsRunning s = (Inr (e, KeepRunning), s))
   \<and> (ex_status e = Queued \<longrightarrow> obs \<in> {ObsSucceeded, ObsFailed} \<longrightarrow>
        reconcile t i obs s = (Inl InvalidState, s))
   \<and> (ex_status e \<in> {Running, Unknown} \<longrightarrow> obs \<in> {ObsSucceeded, ObsFailed} \<longrightarrow>
        (\<exists>e' act s'. reconcile t i obs s = (Inr (e', act), s') \<and> co_find s' i = Some e'
           \<and> ex_finished_at e' = Some t
           \<and> ex_status e' = (if obs = ObsSucceeded then Succeeded else ExFailed)
           \<and> act = (if obs = ObsSucceeded then MarkSucceeded else MarkFailed)))"
proof -
  have e: "hm_get (co_executions s) i = Some e" using assms by (simp add: co_find_def)
  note defs = reconcile_def finish_def transition_execution_def execution_transition_to_def
    execution_terminal_def co_find_def
  show ?thesis
    by (cases "ex_status e"; cases obs) (simp_all add: e defs)
qed

theorem reconcile_safe_witness:
  "reconcile 5 7 ObsSucceeded started_example = (Inl InvalidState, started_example)"
proof -
  have f: "co_find started_example 7 = Some (execution_new 7 1)" by code_simp
  show ?thesis using reconcile_safe [OF f, of 5 ObsSucceeded] by (simp add: execution_new_def)
qed

text \<open>
  The update command cannot be turned into another one: when \<open>ValidatedAptExecutor\<close> produces
  a command, the plan was confirmed and nonempty, the command is \<open>apt-get --yes --only-upgrade
  install\<close> followed by exactly the plan's package names, and no package argument is empty, starts
  with a dash or contains white space; in all other cases it is an error.
\<close>

theorem apt_command_safe:
  "apt_command p = Inr cmd \<longleftrightarrow>
     (let ps = map (\<lambda>c. package_name_as_str (rc_package c)) (up_resolved_changes p)
      in up_status p = Confirmed \<and> ps \<noteq> []
       \<and> (\<forall>q \<in> set ps. q \<noteq> [] \<and> hd q \<noteq> ch CHR ''-'' \<and> (\<forall>c \<in> set q. \<not> is_whitespace c))
       \<and> cmd = [lit ''apt-get'', lit ''--yes'', lit ''--only-upgrade'', lit ''install''] @ ps)"
  by (rule apt_command_Inr_iff)

theorem apt_command_safe_witness:
  "apt_command confirmed_example = Inr [lit ''apt-get'', lit ''--yes'', lit ''--only-upgrade'',
     lit ''install'', lit ''openssl'']"
proof -
  have w: "\<forall>c \<in> set (lit ''openssl''). \<not> is_whitespace c" "hd (lit ''openssl'') \<noteq> ch CHR ''-''"
    by code_simp+
  show ?thesis unfolding apt_command_safe
    using w by (simp add: confirmed_example_def plan_example_def)
qed

end
