(* ===== verification/AnsibleJobs.thy ===== *)
theory AnsibleJobs
  imports Updates EventLog
begin

text \<open>
  \<open>lxcup-ansible/src/lib.rs\<close>: the allowlisted operations, the validated job contract
  (\<open>AnsibleJob::from_request\<close>), the job status machine and the in-process job coordinator with
  its idempotency keys and target locks. SHA-256, the JSON text of the hashed parameters and the
  text form of UUIDs come from external crates: they are the functions of \<open>ansible_env\<close>.
\<close>

section \<open>Operations, modes and the registry\<close>

datatype ansible_operation =
    OpDeployAgent | OpUpdateAgent | OpUpdatePackages | OpRepairAgent | OpConfigureTarget
  | OpHealthCheck | OpCollectPackageInventory

datatype execution_mode = ModeCheck | ModePlan | ModeApply | ModeReconcile

definition can_reconcile_apply :: "ansible_operation \<Rightarrow> bool" where
  "can_reconcile_apply op \<longleftrightarrow>
     op \<in> {OpDeployAgent, OpUpdateAgent, OpRepairAgent, OpUpdatePackages}"

text \<open>The contract file \<open>frontend/workflow-modes.json\<close>, embedded at compile time.\<close>

fun supported_modes :: "ansible_operation \<Rightarrow> execution_mode list" where
  "supported_modes OpDeployAgent = [ModeCheck, ModePlan, ModeApply]"
| "supported_modes OpUpdateAgent = [ModeCheck, ModePlan, ModeApply]"
| "supported_modes OpUpdatePackages = [ModePlan, ModeApply]"
| "supported_modes OpRepairAgent = [ModeCheck, ModePlan, ModeApply]"
| "supported_modes OpConfigureTarget = [ModeCheck, ModeApply]"
| "supported_modes OpHealthCheck = [ModeCheck]"
| "supported_modes OpCollectPackageInventory = [ModeCheck]"

definition supports_mode :: "ansible_operation \<Rightarrow> execution_mode \<Rightarrow> bool" where
  "supports_mode op mode \<longleftrightarrow> mode \<in> set (supported_modes op)"

datatype ansible_job_status =
    JQueued | JChecking | JPlanned | JApplying | JReconcileRequired | JSucceeded | JFailed
  | JAborted

fun job_can_transition_to :: "ansible_job_status \<Rightarrow> ansible_job_status \<Rightarrow> bool" where
  "job_can_transition_to JQueued n \<longleftrightarrow> n \<in> {JChecking, JPlanned, JAborted}"
| "job_can_transition_to JChecking n \<longleftrightarrow> n \<in> {JPlanned, JFailed, JAborted}"
| "job_can_transition_to JPlanned n \<longleftrightarrow> n \<in> {JApplying, JSucceeded, JFailed, JAborted}"
| "job_can_transition_to JApplying n \<longleftrightarrow> n \<in> {JSucceeded, JFailed, JReconcileRequired}"
| "job_can_transition_to JReconcileRequired n \<longleftrightarrow> n \<in> {JSucceeded, JFailed}"
| "job_can_transition_to JFailed n \<longleftrightarrow> n = JQueued"
| "job_can_transition_to _ n \<longleftrightarrow> False"

datatype ansible_parameters =
    ParamDeployAgent str
  | ParamUpdateAgent str
  | ParamUpdatePackages "str list"
  | ParamRepairAgent
  | ParamConfigureTarget "str option"
  | ParamHealthCheck
  | ParamCollectPackageInventory

datatype ansible_contract_error =
    Invalid | ContractPermissionDenied | ContractConfirmationRequired | UnsupportedTarget
  | UnsupportedMode | MissingSecretReference | ContractInvalidTransition

fun parameters_operation :: "ansible_parameters \<Rightarrow> ansible_operation" where
  "parameters_operation (ParamDeployAgent _) = OpDeployAgent"
| "parameters_operation (ParamUpdateAgent _) = OpUpdateAgent"
| "parameters_operation (ParamUpdatePackages _) = OpUpdatePackages"
| "parameters_operation ParamRepairAgent = OpRepairAgent"
| "parameters_operation (ParamConfigureTarget _) = OpConfigureTarget"
| "parameters_operation ParamHealthCheck = OpHealthCheck"
| "parameters_operation ParamCollectPackageInventory = OpCollectPackageInventory"

definition agent_version_valid :: "str \<Rightarrow> bool" where
  "agent_version_valid v \<longleftrightarrow> \<not> (trim v = [] \<or> 50 < str_len v)"

fun parameters_validate :: "ansible_parameters \<Rightarrow> ansible_contract_error + unit" where
  "parameters_validate (ParamDeployAgent v) =
     (if \<not> agent_version_valid v then Inl Invalid else Inr ())"
| "parameters_validate (ParamUpdateAgent v) =
     (if \<not> agent_version_valid v then Inl Invalid else Inr ())"
| "parameters_validate (ParamUpdatePackages packages) =
     (if packages = [] \<or> 100 < length packages
         \<or> (list_ex (\<lambda>p. p = lit ''*'') packages \<and> packages \<noteq> [lit ''*'']) then Inl Invalid
      else if list_ex (\<lambda>p. trim p = [] \<or> 100 < length p) packages then Inl Invalid
      else Inr ())"
| "parameters_validate (ParamConfigureTarget (Some hostname)) =
     (if trim hostname = [] \<or> 253 < length hostname then Inl Invalid else Inr ())"
| "parameters_validate _ = Inr ()"

record playbook_spec =
  ps_operation :: ansible_operation
  ps_playbook :: str
  ps_version :: str
  ps_action :: resource_action
  ps_requires_secret :: bool

fun resolve :: "ansible_operation \<Rightarrow> playbook_spec" where
  "resolve OpDeployAgent = \<lparr>ps_operation = OpDeployAgent, ps_playbook = lit ''agent/deploy.yml'',
     ps_version = lit ''1'', ps_action = DeployAgent, ps_requires_secret = True\<rparr>"
| "resolve OpUpdateAgent = \<lparr>ps_operation = OpUpdateAgent, ps_playbook = lit ''agent/update.yml'',
     ps_version = lit ''1'', ps_action = UpdateAgent, ps_requires_secret = True\<rparr>"
| "resolve OpUpdatePackages = \<lparr>ps_operation = OpUpdatePackages,
     ps_playbook = lit ''packages/update.yml'', ps_version = lit ''1'',
     ps_action = UpdatePackages, ps_requires_secret = True\<rparr>"
| "resolve OpRepairAgent = \<lparr>ps_operation = OpRepairAgent, ps_playbook = lit ''agent/repair.yml'',
     ps_version = lit ''1'', ps_action = RepairAgent, ps_requires_secret = True\<rparr>"
| "resolve OpConfigureTarget = \<lparr>ps_operation = OpConfigureTarget,
     ps_playbook = lit ''target/configure.yml'', ps_version = lit ''1'',
     ps_action = ConfigureTarget, ps_requires_secret = True\<rparr>"
| "resolve OpHealthCheck = \<lparr>ps_operation = OpHealthCheck,
     ps_playbook = lit ''target/health-check.yml'', ps_version = lit ''1'',
     ps_action = HealthCheck, ps_requires_secret = False\<rparr>"
| "resolve OpCollectPackageInventory = \<lparr>ps_operation = OpCollectPackageInventory,
     ps_playbook = lit ''inventory/packages.yml'', ps_version = lit ''1'',
     ps_action = CollectPackageInventory, ps_requires_secret = True\<rparr>"

section \<open>Requests and jobs\<close>

record ansible_job_request =
  jr_operation :: ansible_operation
  jr_target :: resource_target
  jr_lifecycle :: resource_lifecycle
  jr_mode :: execution_mode
  jr_parameters :: ansible_parameters
  jr_secret_refs :: "uuid list"
  jr_idempotency_key :: str
  jr_confirmed :: bool
  jr_actor_role :: actor_role

record ansible_job =
  aj_id :: uuid
  aj_operation :: ansible_operation
  aj_playbook :: str
  aj_playbook_version :: str
  aj_target :: resource_target
  aj_mode :: execution_mode
  aj_parameters :: ansible_parameters
  aj_secret_refs :: "uuid list"
  aj_idempotency_key :: str
  aj_parameter_hash :: str
  aj_status :: ansible_job_status
  aj_created_at :: timestamp
  aj_updated_at :: timestamp

text \<open>The JSON object the parameter hash is taken of.\<close>

record parameter_document =
  pd_operation :: ansible_operation
  pd_playbook :: str
  pd_playbook_version :: str
  pd_target :: resource_target
  pd_mode :: execution_mode
  pd_parameters :: ansible_parameters
  pd_secret_refs :: "uuid list"

record ansible_env =
  ae_to_vec :: "parameter_document \<Rightarrow> u8 list"
  ae_sha256 :: "u8 list \<Rightarrow> u8 list"
  ae_uuid_to_string :: "uuid \<Rightarrow> str"
  ae_uuid_parse :: "str \<Rightarrow> uuid option"

definition parameter_hash :: "ansible_env \<Rightarrow> ansible_job_request \<Rightarrow> playbook_spec \<Rightarrow> str" where
  "parameter_hash env r spec =
     concat (map hex_byte (ae_sha256 env (ae_to_vec env
       \<lparr>pd_operation = jr_operation r, pd_playbook = ps_playbook spec,
        pd_playbook_version = ps_version spec, pd_target = jr_target r, pd_mode = jr_mode r,
        pd_parameters = jr_parameters r, pd_secret_refs = jr_secret_refs r\<rparr>)))"

definition reconcile_idempotency_key :: "ansible_env \<Rightarrow> uuid \<Rightarrow> str" where
  "reconcile_idempotency_key env source_job_id =
     lit ''reconcile-job:'' @ ae_uuid_to_string env source_job_id"

definition reconciliation_source_job_id :: "ansible_env \<Rightarrow> str \<Rightarrow> uuid option" where
  "reconciliation_source_job_id env key =
     (case strip_prefix key (lit ''reconcile-job:'') of
        None \<Rightarrow> None
      | Some rest \<Rightarrow> ae_uuid_parse env rest)"

definition can_be_reconciled :: "ansible_job \<Rightarrow> bool" where
  "can_be_reconciled j \<longleftrightarrow> aj_status j = JReconcileRequired \<and> aj_mode j = ModeApply
     \<and> can_reconcile_apply (aj_operation j)"

fun contract_of_domain_error :: "domain_error \<Rightarrow> ansible_contract_error" where
  "contract_of_domain_error PermissionDenied = ContractPermissionDenied"
| "contract_of_domain_error ConfirmationRequired = ContractConfirmationRequired"
| "contract_of_domain_error (InvalidStateTransition _) = UnsupportedTarget"
| "contract_of_domain_error _ = Invalid"

definition from_request ::
  "ansible_env \<Rightarrow> uuid \<Rightarrow> timestamp \<Rightarrow> ansible_job_request
     \<Rightarrow> ansible_contract_error + ansible_job" where
  "from_request env fresh now r =
     (if parameters_operation (jr_parameters r) \<noteq> jr_operation r then Inl Invalid
      else bindR (parameters_validate (jr_parameters r)) (\<lambda>_.
        if trim (jr_idempotency_key r) = [] \<or> 200 < str_len (jr_idempotency_key r) then
          Inl Invalid
        else
         (let spec = resolve (jr_operation r) in
          if \<not> supports_mode (jr_operation r) (jr_mode r) then Inl UnsupportedMode
          else if \<not> action_supports (ps_action spec) (jr_target r) then Inl UnsupportedTarget
          else bindR (map_err contract_of_domain_error
                 (validate_action (jr_actor_role r) (jr_target r) (jr_lifecycle r)
                    (ps_action spec) (jr_confirmed r) (jr_idempotency_key r))) (\<lambda>_.
            if jr_mode r = ModeApply \<and> action_permission (ps_action spec) \<noteq> Read
               \<and> \<not> jr_confirmed r then Inl ContractConfirmationRequired
            else if ps_requires_secret spec \<and> jr_secret_refs r = [] then
              Inl MissingSecretReference
            else if \<not> distinct (jr_secret_refs r) then Inl Invalid
            else Inr \<lparr>aj_id = fresh, aj_operation = jr_operation r,
              aj_playbook = ps_playbook spec, aj_playbook_version = ps_version spec,
              aj_target = jr_target r, aj_mode = jr_mode r, aj_parameters = jr_parameters r,
              aj_secret_refs = jr_secret_refs r, aj_idempotency_key = jr_idempotency_key r,
              aj_parameter_hash = parameter_hash env r spec, aj_status = JQueued,
              aj_created_at = now, aj_updated_at = now\<rparr>))))"

definition job_transition_to ::
  "ansible_job_status \<Rightarrow> timestamp \<Rightarrow> ansible_job \<Rightarrow> ansible_contract_error + ansible_job" where
  "job_transition_to next now j =
     (if \<not> job_can_transition_to (aj_status j) next then Inl ContractInvalidTransition
      else Inr (j\<lparr>aj_status := next, aj_updated_at := now\<rparr>))"

interpretation job_lc: status_machine aj_status job_can_transition_to job_transition_to
  by unfold_locales (auto simp: job_transition_to_def)

section \<open>The coordinator\<close>

datatype job_failure_code =
    WorkerUnavailable | InvalidCredentials | HostKeyChanged | Unreachable | JobTimeout
  | PlaybookFailed | WorkerRestarted

datatype job_event_kind =
    EvQueued
  | EvStatusChanged ansible_job_status
  | EvTaskStarted str
  | EvTaskFinished str bool
  | EvFailed job_failure_code
  | EvReconcileRequired
  | EvWorkerLog str str

record job_event =
  je_sequence :: nat
  je_job_id :: uuid
  je_event :: job_event_kind
  je_created_at :: timestamp

datatype job_submission = JobCreated ansible_job | JobDuplicate ansible_job

datatype coordinator_error =
    TargetBusy | CoNotFound | RetryNotAllowed | ReconcileNotAllowed | CoInvalidTransition
  | Terminal | Contract ansible_contract_error

record job_coordinator =
  jc_jobs :: "(uuid, ansible_job) hashmap"
  jc_idempotency :: "(resource_target \<times> str, uuid) hashmap"
  jc_active_targets :: "(resource_target, uuid) hashmap"
  jc_events :: "(uuid, job_event list) hashmap"

definition job_coordinator_default :: job_coordinator where
  "job_coordinator_default =
     \<lparr>jc_jobs = [], jc_idempotency = [], jc_active_targets = [], jc_events = []\<rparr>"

definition jc_events_of :: "job_coordinator \<Rightarrow> uuid \<Rightarrow> job_event list" where
  "jc_events_of s i = (case hm_get (jc_events s) i of None \<Rightarrow> [] | Some es \<Rightarrow> es)"

definition record_internal ::
  "timestamp \<Rightarrow> uuid \<Rightarrow> job_event_kind \<Rightarrow> job_coordinator \<Rightarrow> job_coordinator" where
  "record_internal now i event s =
     (let events = jc_events_of s i
      in s\<lparr>jc_events := hm_insert i (events @ [\<lparr>je_sequence = length events + 1, je_job_id = i,
           je_event = event, je_created_at = now\<rparr>]) (jc_events s)\<rparr>)"

definition target_has_active_jobs :: "job_coordinator \<Rightarrow> uuid \<Rightarrow> bool" where
  "target_has_active_jobs s target_id \<longleftrightarrow>
     (let target = Target target_id
      in hm_contains_key (jc_active_targets s) target
       \<or> list_ex (\<lambda>j. aj_target j = target
            \<and> aj_status j \<in> {JChecking, JPlanned, JApplying, JReconcileRequired})
           (hm_values (jc_jobs s)))"

definition remove_target_jobs ::
  "uuid \<Rightarrow> job_coordinator \<Rightarrow> coordinator_error + job_coordinator" where
  "remove_target_jobs target_id s =
     (let target = Target target_id in
      if target_has_active_jobs s target_id then Inl TargetBusy
      else
        (let removed_ids = map aj_id (filter (\<lambda>j. aj_target j = target) (hm_values (jc_jobs s)))
         in Inr (s\<lparr>jc_jobs := hm_retain (\<lambda>i _. i \<notin> set removed_ids) (jc_jobs s),
              jc_events := hm_retain (\<lambda>i _. i \<notin> set removed_ids) (jc_events s),
              jc_idempotency := hm_retain
                (\<lambda>(job_target, _) i. job_target \<noteq> target \<and> i \<notin> set removed_ids)
                (jc_idempotency s)\<rparr>)))"

definition submit ::
  "ansible_env \<Rightarrow> uuid \<Rightarrow> timestamp \<Rightarrow> ansible_job_request \<Rightarrow> job_coordinator
     \<Rightarrow> coordinator_error + (job_submission \<times> job_coordinator)" where
  "submit env fresh now r s =
     (let key = (jr_target r, jr_idempotency_key r) in
      case hm_get (jc_idempotency s) key of
        Some existing_id \<Rightarrow>
          bindR (ok_or CoNotFound (hm_get (jc_jobs s) existing_id))
            (\<lambda>existing. Inr (JobDuplicate existing, s))
      | None \<Rightarrow>
          bindR (map_err Contract (from_request env fresh now r)) (\<lambda>job.
            let s1 = s\<lparr>jc_idempotency := hm_insert key (aj_id job) (jc_idempotency s)\<rparr>;
                s2 = record_internal now (aj_id job) EvQueued s1;
                s3 = s2\<lparr>jc_jobs := hm_insert (aj_id job) job (jc_jobs s2)\<rparr>
            in Inr (JobCreated job, s3)))"

definition submit_reconciliation_with_lock ::
  "ansible_env \<Rightarrow> uuid \<Rightarrow> timestamp \<Rightarrow> ansible_job \<Rightarrow> bool \<Rightarrow> job_coordinator
     \<Rightarrow> coordinator_error + (job_submission \<times> job_coordinator)" where
  "submit_reconciliation_with_lock env fresh now src enforce_memory_lock s =
     (if \<not> can_be_reconciled src then Inl ReconcileNotAllowed
      else
       (let key = reconcile_idempotency_key env (aj_id src) in
        case hm_get (jc_idempotency s) (aj_target src, key) of
          Some existing_id \<Rightarrow>
            bindR (ok_or CoNotFound (hm_get (jc_jobs s) existing_id))
              (\<lambda>existing. Inr (JobDuplicate existing, s))
        | None \<Rightarrow>
            if enforce_memory_lock
               \<and> (case hm_get (jc_active_targets s) (aj_target src) of
                    None \<Rightarrow> False | Some active_job_id \<Rightarrow> active_job_id \<noteq> aj_id src)
            then Inl TargetBusy
            else
             (let job = src\<lparr>aj_id := fresh, aj_mode := ModeReconcile, aj_idempotency_key := key,
                    aj_status := JQueued, aj_created_at := now, aj_updated_at := now\<rparr>;
                  s1 = s\<lparr>jc_active_targets :=
                         hm_insert (aj_target job) (aj_id job) (jc_active_targets s),
                       jc_idempotency :=
                         hm_insert (aj_target job, key) (aj_id job) (jc_idempotency s)\<rparr>;
                  s2 = record_internal now (aj_id job) EvQueued s1;
                  s3 = s2\<lparr>jc_jobs := hm_insert (aj_id job) job (jc_jobs s2)\<rparr>
              in Inr (JobCreated job, s3))))"

definition submit_reconciliation ::
  "ansible_env \<Rightarrow> uuid \<Rightarrow> timestamp \<Rightarrow> ansible_job \<Rightarrow> job_coordinator
     \<Rightarrow> coordinator_error + (job_submission \<times> job_coordinator)" where
  "submit_reconciliation env fresh now src s =
     submit_reconciliation_with_lock env fresh now src True s"

definition submit_persisted_reconciliation ::
  "ansible_env \<Rightarrow> uuid \<Rightarrow> timestamp \<Rightarrow> ansible_job \<Rightarrow> job_coordinator
     \<Rightarrow> coordinator_error + (job_submission \<times> job_coordinator)" where
  "submit_persisted_reconciliation env fresh now src s =
     submit_reconciliation_with_lock env fresh now src False s"

definition jc_job :: "uuid \<Rightarrow> job_coordinator \<Rightarrow> coordinator_error + ansible_job" where
  "jc_job i s = ok_or CoNotFound (hm_get (jc_jobs s) i)"

definition jc_jobs_list :: "job_coordinator \<Rightarrow> ansible_job list" where
  "jc_jobs_list s = sort_key (\<lambda>j. - aj_created_at j) (hm_values (jc_jobs s))"

definition jc_job_events :: "uuid \<Rightarrow> job_coordinator \<Rightarrow> coordinator_error + job_event list" where
  "jc_job_events i s =
     (if \<not> hm_contains_key (jc_jobs s) i then Inl CoNotFound else Inr (jc_events_of s i))"

definition job_terminal :: "ansible_job_status \<Rightarrow> bool" where
  "job_terminal st \<longleftrightarrow> st \<in> {JSucceeded, JFailed, JAborted}"

definition transition ::
  "timestamp \<Rightarrow> uuid \<Rightarrow> ansible_job_status \<Rightarrow> job_coordinator
     \<Rightarrow> coordinator_error + (ansible_job \<times> job_coordinator)" where
  "transition now i next s =
     bindR (ok_or CoNotFound (hm_get (jc_jobs s) i)) (\<lambda>job0.
       let target = aj_target job0 in
       if next = JChecking
          \<and> (case hm_get (jc_active_targets s) target of
               None \<Rightarrow> False | Some active \<Rightarrow> active \<noteq> i) then Inl TargetBusy
       else bindR (map_err (\<lambda>_. CoInvalidTransition) (job_transition_to next now job0)) (\<lambda>job.
         let s1 = s\<lparr>jc_jobs := hm_insert i job (jc_jobs s)\<rparr>;
             s2 = (if next = JChecking then
                     s1\<lparr>jc_active_targets := hm_insert target i (jc_active_targets s1)\<rparr>
                   else s1);
             s3 = (if job_terminal next then
                     s2\<lparr>jc_active_targets := hm_remove target (jc_active_targets s2)\<rparr>
                   else s2);
             s4 = record_internal now i (EvStatusChanged next) s3;
             s5 = (if next = JReconcileRequired then record_internal now i EvReconcileRequired s4
                   else s4)
         in Inr (job, s5)))"

definition record_event ::
  "timestamp \<Rightarrow> uuid \<Rightarrow> job_event_kind \<Rightarrow> job_coordinator
     \<Rightarrow> coordinator_error + job_coordinator" where
  "record_event now i event s =
     bindR (ok_or CoNotFound (hm_get (jc_jobs s) i)) (\<lambda>job.
       if job_terminal (aj_status job) then Inl Terminal
       else Inr (record_internal now i event s))"

definition retry ::
  "timestamp \<Rightarrow> uuid \<Rightarrow> job_coordinator
     \<Rightarrow> coordinator_error + (ansible_job \<times> job_coordinator)" where
  "retry now i s =
     bindR (ok_or CoNotFound (hm_get (jc_jobs s) i)) (\<lambda>job.
       if (case hm_get (jc_active_targets s) (aj_target job) of
             None \<Rightarrow> False | Some active \<Rightarrow> active \<noteq> i) then Inl TargetBusy
       else if aj_status job \<noteq> JFailed
          \<or> (aj_operation job = OpUpdatePackages \<and> aj_mode job = ModeApply) then
         Inl RetryNotAllowed
       else bindR (map_err (\<lambda>_. CoInvalidTransition) (job_transition_to JQueued now job))
         (\<lambda>job'. Inr (job', record_internal now i (EvStatusChanged JQueued)
            (s\<lparr>jc_jobs := hm_insert i job' (jc_jobs s)\<rparr>))))"

end
