(* ===== verification/AnsibleInvariants.thy ===== *)
theory AnsibleInvariants
  imports AnsibleJobs
begin

text \<open>
  Invariants of the Ansible job coordinator: the consistency of its four maps in every reachable
  state, and mutual exclusion per target for call sequences that release a target's lock only
  from the job that holds it.
\<close>

section \<open>The job contract\<close>

lemma agent_contract_ok_iff:
  "is_ok (from_request env f t r) \<longleftrightarrow>
     parameters_operation (jr_parameters r) = jr_operation r
   \<and> is_ok (parameters_validate (jr_parameters r))
   \<and> trim (jr_idempotency_key r) \<noteq> [] \<and> str_len (jr_idempotency_key r) \<le> 200
   \<and> supports_mode (jr_operation r) (jr_mode r)
   \<and> is_ok (validate_action (jr_actor_role r) (jr_target r) (jr_lifecycle r)
        (ps_action (resolve (jr_operation r))) (jr_confirmed r) (jr_idempotency_key r))
   \<and> (jr_mode r = ModeApply \<and> action_permission (ps_action (resolve (jr_operation r))) \<noteq> Read
        \<longrightarrow> jr_confirmed r)
   \<and> (ps_requires_secret (resolve (jr_operation r)) \<longrightarrow> jr_secret_refs r \<noteq> [])
   \<and> distinct (jr_secret_refs r)"
proof -
  have "is_ok (validate_action role t l a c k) \<Longrightarrow> action_supports a t" for role t l a c k
    by (simp add: validate_action_ok_iff)
  then show ?thesis
    unfolding from_request_def Let_def is_ok_if is_ok_bindR_const is_ok_map_err is_ok.simps
      not_less de_Morgan_disj not_not
    by blast
qed

lemma from_request_Inr:
  assumes "from_request env f t r = Inr j"
  shows "aj_id j = f" "aj_status j = JQueued" "aj_target j = jr_target r"
    "aj_idempotency_key j = jr_idempotency_key r" "aj_operation j = jr_operation r"
    "aj_mode j = jr_mode r" "aj_playbook j = ps_playbook (resolve (jr_operation r))"
    "aj_secret_refs j = jr_secret_refs r" "aj_parameters j = jr_parameters r"
  using assms
  by (auto simp: from_request_def bindR_Inr_iff Let_def split: if_splits)

section \<open>The event log\<close>

lemma jc_events_of_record:
  "jc_events_of (record_internal t i ev s) j =
     (if j = i then jc_events_of s i @ [\<lparr>je_sequence = length (jc_events_of s i) + 1,
        je_job_id = i, je_event = ev, je_created_at = t\<rparr>]
      else jc_events_of s j)"
  by (simp add: record_internal_def jc_events_of_def Let_def)

interpretation job_log: event_log je_sequence jc_events_of
  "\<lambda>i (t, ev). record_internal t i ev"
  by unfold_locales (auto simp: jc_events_of_record split: prod.splits)

lemma record_internal_frame [simp]:
  "jc_jobs (record_internal t i ev s) = jc_jobs s"
  "jc_idempotency (record_internal t i ev s) = jc_idempotency s"
  "jc_active_targets (record_internal t i ev s) = jc_active_targets s"
  by (simp_all add: record_internal_def Let_def)

lemma hm_ok_record_internal [simp]:
  "hm_ok (jc_events s) \<Longrightarrow> hm_ok (jc_events (record_internal t i ev s))"
  by (simp add: record_internal_def Let_def)

lemma numbered_record_internal [simp]:
  "numbered je_sequence (jc_events_of s j) \<Longrightarrow>
     numbered je_sequence (jc_events_of (record_internal t i ev s) j)"
  using job_log.append_numbered [of s j i "(t, ev)"] by simp

lemma jc_events_of_cong: "jc_events s = jc_events s' \<Longrightarrow> jc_events_of s = jc_events_of s'"
  by (simp add: jc_events_of_def fun_eq_iff)

section \<open>Consistency\<close>

text \<open>
  Each job is stored under its own id with a nonempty log; the idempotency map and the jobs
  determine each other; a lock names a stored job of the locked target; logs are numbered.
\<close>

definition jobs_ok :: "job_coordinator \<Rightarrow> bool" where
  "jobs_ok s \<longleftrightarrow>
     (\<forall>i j. hm_get (jc_jobs s) i = Some j \<longrightarrow> aj_id j = i
        \<and> hm_get (jc_idempotency s) (aj_target j, aj_idempotency_key j) = Some i)
   \<and> (\<forall>t k i. hm_get (jc_idempotency s) (t, k) = Some i \<longrightarrow>
        (\<exists>j. hm_get (jc_jobs s) i = Some j \<and> aj_target j = t \<and> aj_idempotency_key j = k))
   \<and> (\<forall>t i. hm_get (jc_active_targets s) t = Some i \<longrightarrow>
        (\<exists>j. hm_get (jc_jobs s) i = Some j \<and> aj_target j = t))"

definition maps_ok :: "job_coordinator \<Rightarrow> bool" where
  "maps_ok s \<longleftrightarrow> hm_ok (jc_jobs s) \<and> hm_ok (jc_idempotency s) \<and> hm_ok (jc_active_targets s)
     \<and> hm_ok (jc_events s)"

definition logs_ok :: "job_coordinator \<Rightarrow> bool" where
  "logs_ok s \<longleftrightarrow> (\<forall>i. numbered je_sequence (jc_events_of s i))
     \<and> (\<forall>i. hm_get (jc_jobs s) i \<noteq> None \<longrightarrow> jc_events_of s i \<noteq> [])"

definition job_coordinator_ok :: "job_coordinator \<Rightarrow> bool" where
  "job_coordinator_ok s \<longleftrightarrow> jobs_ok s \<and> maps_ok s \<and> logs_ok s"

lemma jobs_ok_idem:
  "jobs_ok s \<Longrightarrow> hm_get (jc_idempotency s) (t, k) = Some i \<Longrightarrow> hm_get (jc_jobs s) i = Some j \<Longrightarrow>
     aj_target j = t \<and> aj_idempotency_key j = k"
  unfolding jobs_ok_def by fastforce

lemma jobs_ok_lock:
  "jobs_ok s \<Longrightarrow> hm_get (jc_active_targets s) t = Some i \<Longrightarrow> hm_get (jc_jobs s) i = Some j \<Longrightarrow>
     aj_target j = t"
  unfolding jobs_ok_def by fastforce

lemma jobs_okI:
  assumes "\<And>i j. hm_get (jc_jobs s) i = Some j \<Longrightarrow> aj_id j = i
        \<and> hm_get (jc_idempotency s) (aj_target j, aj_idempotency_key j) = Some i"
    and "\<And>t k i. hm_get (jc_idempotency s) (t, k) = Some i \<Longrightarrow>
        \<exists>j. hm_get (jc_jobs s) i = Some j \<and> aj_target j = t \<and> aj_idempotency_key j = k"
    and "\<And>t i. hm_get (jc_active_targets s) t = Some i \<Longrightarrow>
        \<exists>j. hm_get (jc_jobs s) i = Some j \<and> aj_target j = t"
  shows "jobs_ok s"
  using assms unfolding jobs_ok_def by blast

lemma job_coordinator_default_ok: "job_coordinator_ok job_coordinator_default"
  by (simp add: job_coordinator_ok_def jobs_ok_def maps_ok_def logs_ok_def
      job_coordinator_default_def jc_events_of_def)

text \<open>Adding a queued job under a fresh id and an unused key, with or without taking its lock.\<close>

definition add_job :: "timestamp \<Rightarrow> bool \<Rightarrow> ansible_job \<Rightarrow> job_coordinator \<Rightarrow> job_coordinator" where
  "add_job now lock job s =
     (let s1 = s\<lparr>jc_active_targets := (if lock then
              hm_insert (aj_target job) (aj_id job) (jc_active_targets s)
              else jc_active_targets s),
            jc_idempotency := hm_insert (aj_target job, aj_idempotency_key job) (aj_id job)
              (jc_idempotency s)\<rparr>;
          s2 = record_internal now (aj_id job) EvQueued s1
      in s2\<lparr>jc_jobs := hm_insert (aj_id job) job (jc_jobs s2)\<rparr>)"

lemma add_job_simps:
  "jc_jobs (add_job t l j s) = hm_insert (aj_id j) j (jc_jobs s)"
  "jc_idempotency (add_job t l j s) =
     hm_insert (aj_target j, aj_idempotency_key j) (aj_id j) (jc_idempotency s)"
  "jc_active_targets (add_job t l j s) =
     (if l then hm_insert (aj_target j) (aj_id j) (jc_active_targets s)
      else jc_active_targets s)"
  "jc_events_of (add_job t l j s) i = jc_events_of (record_internal t (aj_id j) EvQueued s) i"
  "jc_events (add_job t l j s) = jc_events (record_internal t (aj_id j) EvQueued s)"
  by (simp_all add: add_job_def Let_def jc_events_of_def record_internal_def)

lemma add_job_ok:
  assumes ok: "job_coordinator_ok s"
    and fresh: "hm_get (jc_jobs s) (aj_id j) = None"
    and key: "hm_get (jc_idempotency s) (aj_target j, aj_idempotency_key j) = None"
  shows "job_coordinator_ok (add_job t l j s)"
proof -
  have "hm_get (jc_idempotency s) k \<noteq> Some (aj_id j)" for k
    using ok fresh by (cases k) (fastforce simp: job_coordinator_ok_def jobs_ok_def)
  moreover have "hm_get (jc_active_targets s) k \<noteq> Some (aj_id j)" for k
    using ok fresh by (fastforce simp: job_coordinator_ok_def jobs_ok_def)
  ultimately have "jobs_ok (add_job t l j s)"
    using ok fresh key unfolding job_coordinator_ok_def jobs_ok_def add_job_simps
    by (auto split: if_splits) (metis option.distinct(1))
  moreover have "maps_ok (add_job t l j s)"
    using ok by (simp add: job_coordinator_ok_def maps_ok_def add_job_simps)
  moreover have "logs_ok (add_job t l j s)"
    using ok by (auto simp: job_coordinator_ok_def logs_ok_def add_job_simps
        jc_events_of_record intro: numbered_snoc)
  ultimately show ?thesis by (simp add: job_coordinator_ok_def)
qed

text \<open>What the two submissions return.\<close>

lemma submit_Inr_cases:
  assumes "submit env f t r s = Inr (sub, s')"
  obtains (duplicate) i j where "hm_get (jc_idempotency s) (jr_target r, jr_idempotency_key r) = Some i"
      "hm_get (jc_jobs s) i = Some j" "sub = JobDuplicate j" "s' = s"
  | (created) j where "hm_get (jc_idempotency s) (jr_target r, jr_idempotency_key r) = None"
      "from_request env f t r = Inr j" "sub = JobCreated j" "s' = add_job t False j s"
proof (cases "hm_get (jc_idempotency s) (jr_target r, jr_idempotency_key r)")
  case None
  with assms obtain j where j: "from_request env f t r = Inr j" "sub = JobCreated j"
    and s': "s' = (record_internal t (aj_id j) EvQueued
       (s\<lparr>jc_idempotency := hm_insert (jr_target r, jr_idempotency_key r) (aj_id j)
          (jc_idempotency s)\<rparr>))\<lparr>jc_jobs := hm_insert (aj_id j) j (jc_jobs s)\<rparr>"
    by (auto simp: submit_def bindR_Inr_iff Let_def)
  have "s' = add_job t False j s"
    unfolding s' add_job_def Let_def using from_request_Inr [OF j(1)] by simp
  with None j show ?thesis using created by blast
next
  case (Some i)
  with assms show ?thesis using duplicate by (auto simp: submit_def bindR_Inr_iff)
qed

lemma submit_reconciliation_Inr_cases:
  assumes "submit_reconciliation_with_lock env f t src l s = Inr (sub, s')"
  obtains (duplicate) i j where
      "hm_get (jc_idempotency s) (aj_target src, reconcile_idempotency_key env (aj_id src)) = Some i"
      "hm_get (jc_jobs s) i = Some j" "sub = JobDuplicate j" "s' = s"
  | (created) j where
      "hm_get (jc_idempotency s) (aj_target src, reconcile_idempotency_key env (aj_id src)) = None"
      "j = src\<lparr>aj_id := f, aj_mode := ModeReconcile,
         aj_idempotency_key := reconcile_idempotency_key env (aj_id src),
         aj_status := JQueued, aj_created_at := t, aj_updated_at := t\<rparr>"
      "can_be_reconciled src"
      "l \<longrightarrow> hm_get (jc_active_targets s) (aj_target src) \<in> {None, Some (aj_id src)}"
      "sub = JobCreated j" "s' = add_job t True j s"
proof (cases "hm_get (jc_idempotency s) (aj_target src, reconcile_idempotency_key env (aj_id src))")
  case None
  with assms show ?thesis
    by (intro created)
       (auto simp: submit_reconciliation_with_lock_def add_job_def Let_def
         split: if_splits option.splits)
next
  case (Some i)
  with assms show ?thesis using duplicate
    by (auto simp: submit_reconciliation_with_lock_def bindR_Inr_iff Let_def split: if_splits)
qed

section \<open>Every operation keeps consistency\<close>

text \<open>Replacing a stored job by one with the same id, target and key, and releasing locks.\<close>

lemma jobs_ok_update:
  assumes "jobs_ok s" "hm_get (jc_jobs s) i = Some j0"
    and j: "aj_id j = aj_id j0" "aj_target j = aj_target j0"
      "aj_idempotency_key j = aj_idempotency_key j0"
    and s': "jc_jobs s' = hm_insert i j (jc_jobs s)" "jc_idempotency s' = jc_idempotency s"
    and locks: "\<And>t k. hm_get (jc_active_targets s') t = Some k \<Longrightarrow>
        hm_get (jc_active_targets s) t = Some k \<or> (t = aj_target j0 \<and> k = i)"
  shows "jobs_ok s'"
proof -
  have "\<exists>j'. hm_get (jc_jobs s') k = Some j' \<and> aj_target j' = t"
    if "hm_get (jc_active_targets s') t = Some k" for t k
    using locks [OF that] assms(1,2) j
    by (auto simp: jobs_ok_def s') (metis option.inject)+
  then show ?thesis
    using assms(1,2) j unfolding jobs_ok_def s' by auto (metis option.inject)+
qed

lemma logs_ok_record:
  assumes "logs_ok s" "hm_get (jc_jobs s) i \<noteq> None"
    and "jc_jobs s' = hm_insert i j (jc_jobs s)" "jc_events s' = jc_events s"
  shows "logs_ok (record_internal t i ev s')"
  using assms jc_events_of_cong [OF assms(4)]
  by (auto simp: logs_ok_def jc_events_of_record intro: numbered_snoc)

lemma logs_ok_record_more:
  "logs_ok s \<Longrightarrow> logs_ok (record_internal t i ev s)"
  by (auto simp: logs_ok_def jc_events_of_record intro: numbered_snoc)

text \<open>The state after a successful transition, with the log entries split off.\<close>

definition moved :: "uuid \<Rightarrow> ansible_job \<Rightarrow> ansible_job_status \<Rightarrow> job_coordinator \<Rightarrow> job_coordinator" where
  "moved i job next s =
     s\<lparr>jc_jobs := hm_insert i job (jc_jobs s),
       jc_active_targets :=
         (if next = JChecking then hm_insert (aj_target job) i (jc_active_targets s)
          else if job_terminal next then hm_remove (aj_target job) (jc_active_targets s)
          else jc_active_targets s)\<rparr>"

definition lock_free :: "uuid \<Rightarrow> resource_target \<Rightarrow> job_coordinator \<Rightarrow> bool" where
  "lock_free i tgt s \<longleftrightarrow> hm_get (jc_active_targets s) tgt \<in> {None, Some i}"

lemma lock_check:
  "(case hm_get (jc_active_targets s) tgt of None \<Rightarrow> False | Some active \<Rightarrow> active \<noteq> i) \<longleftrightarrow>
     \<not> lock_free i tgt s"
  by (auto simp: lock_free_def split: option.splits)

definition transitioned ::
  "timestamp \<Rightarrow> uuid \<Rightarrow> ansible_job_status \<Rightarrow> ansible_job \<Rightarrow> job_coordinator \<Rightarrow> job_coordinator" where
  "transitioned t i n job s =
     (let s4 = record_internal t i (EvStatusChanged n) (moved i job n s)
      in if n = JReconcileRequired then record_internal t i EvReconcileRequired s4 else s4)"

lemma transition_unfold:
  "transition t i n s =
     (case hm_get (jc_jobs s) i of
        None \<Rightarrow> Inl CoNotFound
      | Some job0 \<Rightarrow>
          if n = JChecking \<and> \<not> lock_free i (aj_target job0) s then Inl TargetBusy
          else if \<not> job_can_transition_to (aj_status job0) n then Inl CoInvalidTransition
          else (let job = job0\<lparr>aj_status := n, aj_updated_at := t\<rparr>
                in Inr (job, transitioned t i n job s)))"
proof (cases "hm_get (jc_jobs s) i")
  case None
  then show ?thesis by (simp add: transition_def)
next
  case (Some job0)
  then show ?thesis
    unfolding transition_def Some ok_or.simps bindR.simps lock_check
    by (cases n) (simp_all add: job_transition_to_def transitioned_def moved_def
        job_terminal_def Let_def)
qed

lemma transition_Inr_iff:
  "transition t i n s = Inr (job, s') \<longleftrightarrow>
     (\<exists>job0. hm_get (jc_jobs s) i = Some job0 \<and> job_can_transition_to (aj_status job0) n
        \<and> (n = JChecking \<longrightarrow> lock_free i (aj_target job0) s)
        \<and> job = job0\<lparr>aj_status := n, aj_updated_at := t\<rparr> \<and> s' = transitioned t i n job s)"
  unfolding transition_unfold Let_def by (cases "hm_get (jc_jobs s) i") auto

lemma transitioned_simps:
  "jc_jobs (transitioned t i n job s) = hm_insert i job (jc_jobs s)"
  "jc_idempotency (transitioned t i n job s) = jc_idempotency s"
  "jc_active_targets (transitioned t i n job s) =
     (if n = JChecking then hm_insert (aj_target job) i (jc_active_targets s)
      else if job_terminal n then hm_remove (aj_target job) (jc_active_targets s)
      else jc_active_targets s)"
  by (simp_all add: transitioned_def moved_def Let_def)

lemma transition_ok:
  assumes "transition t i n s = Inr (job, s')" "job_coordinator_ok s"
  shows "job_coordinator_ok s'"
proof -
  obtain job0 where j0: "hm_get (jc_jobs s) i = Some job0"
    and job: "job = job0\<lparr>aj_status := n, aj_updated_at := t\<rparr>"
    and s': "s' = transitioned t i n job s"
    using assms(1) unfolding transition_Inr_iff by blast
  let ?s4 = "record_internal t i (EvStatusChanged n) (moved i job n s)"
  have "logs_ok ?s4"
    by (rule logs_ok_record [of s])
       (use assms(2) j0 in \<open>simp_all add: moved_def job_coordinator_ok_def\<close>)
  then have "logs_ok s'" unfolding s' transitioned_def
    by (auto simp: Let_def intro: logs_ok_record_more)
  moreover have "jobs_ok s'"
    by (rule jobs_ok_update [of s i job0 job])
       (use assms(2) j0 in \<open>simp_all add: s' transitioned_simps job job_coordinator_ok_def
          split: if_splits\<close>)
  moreover have "maps_ok s'"
    using assms(2) by (simp add: s' transitioned_def moved_def Let_def maps_ok_def
        job_coordinator_ok_def)
  ultimately show ?thesis by (simp add: job_coordinator_ok_def)
qed

lemma retry_unfold:
  "retry t i s =
     (case hm_get (jc_jobs s) i of
        None \<Rightarrow> Inl CoNotFound
      | Some job0 \<Rightarrow>
          if \<not> lock_free i (aj_target job0) s then Inl TargetBusy
          else if aj_status job0 \<noteq> JFailed
             \<or> (aj_operation job0 = OpUpdatePackages \<and> aj_mode job0 = ModeApply) then
            Inl RetryNotAllowed
          else (let job = job0\<lparr>aj_status := JQueued, aj_updated_at := t\<rparr>
                in Inr (job, record_internal t i (EvStatusChanged JQueued)
                     (s\<lparr>jc_jobs := hm_insert i job (jc_jobs s)\<rparr>))))"
proof (cases "hm_get (jc_jobs s) i")
  case None
  then show ?thesis by (simp add: retry_def)
next
  case (Some job0)
  then show ?thesis
    unfolding retry_def Some ok_or.simps bindR.simps lock_check
    by (simp add: job_transition_to_def Let_def)
qed

lemma retry_Inr_iff:
  "retry t i s = Inr (job, s') \<longleftrightarrow>
     (\<exists>job0. hm_get (jc_jobs s) i = Some job0 \<and> aj_status job0 = JFailed
        \<and> \<not> (aj_operation job0 = OpUpdatePackages \<and> aj_mode job0 = ModeApply)
        \<and> lock_free i (aj_target job0) s
        \<and> job = job0\<lparr>aj_status := JQueued, aj_updated_at := t\<rparr>
        \<and> s' = record_internal t i (EvStatusChanged JQueued)
             (s\<lparr>jc_jobs := hm_insert i job (jc_jobs s)\<rparr>))"
  unfolding retry_unfold Let_def by (cases "hm_get (jc_jobs s) i") auto

lemma retry_ok:
  assumes "retry t i s = Inr (job, s')" "job_coordinator_ok s"
  shows "job_coordinator_ok s'"
proof -
  obtain job0 where j0: "hm_get (jc_jobs s) i = Some job0"
    and job: "job = job0\<lparr>aj_status := JQueued, aj_updated_at := t\<rparr>"
    and s': "s' = record_internal t i (EvStatusChanged JQueued)
             (s\<lparr>jc_jobs := hm_insert i job (jc_jobs s)\<rparr>)"
    using assms(1) unfolding retry_Inr_iff by blast
  have "logs_ok s'" unfolding s'
    by (rule logs_ok_record [of s]) (use assms(2) j0 in \<open>simp_all add: job_coordinator_ok_def\<close>)
  moreover have "jobs_ok s'"
    by (rule jobs_ok_update [of s i job0 job])
       (use assms(2) j0 in \<open>simp_all add: s' job job_coordinator_ok_def\<close>)
  moreover have "maps_ok s'"
    using assms(2) by (simp add: s' maps_ok_def job_coordinator_ok_def)
  ultimately show ?thesis by (simp add: job_coordinator_ok_def)
qed

lemma record_event_ok:
  assumes "record_event t i ev s = Inr s'" "job_coordinator_ok s"
  shows "job_coordinator_ok s'"
proof -
  have s': "s' = record_internal t i ev s"
    using assms(1) by (auto simp: record_event_def bindR_Inr_iff split: if_splits)
  show ?thesis
    using assms(2) logs_ok_record_more [of s t i ev]
    by (simp add: s' job_coordinator_ok_def jobs_ok_def maps_ok_def)
qed

text \<open>Removing the jobs of one target.\<close>

lemma remove_target_jobs_Inr:
  assumes "remove_target_jobs tid s = Inr s'" "job_coordinator_ok s"
  shows "hm_get (jc_jobs s') i =
      (case hm_get (jc_jobs s) i of None \<Rightarrow> None
       | Some j \<Rightarrow> if aj_target j = Target tid then None else Some j)"
    and "hm_get (jc_idempotency s') k =
      (if fst k = Target tid then None else hm_get (jc_idempotency s) k)"
    and "jc_active_targets s' = jc_active_targets s"
    and "\<not> target_has_active_jobs s tid"
    and "hm_get (jc_events s') i = (case hm_get (jc_jobs s) i of
        Some j \<Rightarrow> (if aj_target j = Target tid then None else hm_get (jc_events s) i)
      | None \<Rightarrow> hm_get (jc_events s) i)"
    and "maps_ok s'"
proof -
  define R where "R = aj_id ` {j \<in> set (hm_values (jc_jobs s)). aj_target j = Target tid}"
  have maps: "hm_ok (jc_jobs s)" "hm_ok (jc_idempotency s)" "hm_ok (jc_events s)"
    "hm_ok (jc_active_targets s)"
    using assms(2) by (simp_all add: job_coordinator_ok_def maps_ok_def)
  have jobs: "jobs_ok s" using assms(2) by (simp add: job_coordinator_ok_def)
  have R: "x \<in> R \<longleftrightarrow> (\<exists>j. hm_get (jc_jobs s) x = Some j \<and> aj_target j = Target tid)" for x
    using jobs unfolding R_def jobs_ok_def by (auto simp: hm_get_values [OF maps(1)])
  show busy: "\<not> target_has_active_jobs s tid"
    using assms(1) by (auto simp: remove_target_jobs_def Let_def split: if_splits)
  have s': "s' = s\<lparr>jc_jobs := hm_retain (\<lambda>i _. i \<notin> R) (jc_jobs s),
              jc_events := hm_retain (\<lambda>i _. i \<notin> R) (jc_events s),
              jc_idempotency := hm_retain
                (\<lambda>(job_target, _) i. job_target \<noteq> Target tid \<and> i \<notin> R) (jc_idempotency s)\<rparr>"
    using assms(1) busy by (simp add: remove_target_jobs_def Let_def R_def)
  show "hm_get (jc_jobs s') i = (case hm_get (jc_jobs s) i of None \<Rightarrow> None
       | Some j \<Rightarrow> if aj_target j = Target tid then None else Some j)"
    by (simp add: s' hm_get_retain [OF maps(1)] R split: option.splits)
  show "hm_get (jc_idempotency s') k =
      (if fst k = Target tid then None else hm_get (jc_idempotency s) k)"
    using jobs_ok_idem [OF jobs]
    by (cases k) (auto simp: s' hm_get_retain [OF maps(2)] R split: option.splits)
  show "hm_get (jc_events s') i = (case hm_get (jc_jobs s) i of
        Some j \<Rightarrow> (if aj_target j = Target tid then None else hm_get (jc_events s) i)
      | None \<Rightarrow> hm_get (jc_events s) i)"
    by (auto simp: s' hm_get_retain [OF maps(3)] R split: option.splits)
  show "jc_active_targets s' = jc_active_targets s" by (simp add: s')
  show "maps_ok s'" using maps by (simp add: s' maps_ok_def)
qed

lemma no_active_jobs_lock:
  "\<not> target_has_active_jobs s tid \<Longrightarrow> hm_get (jc_active_targets s) (Target tid) = None"
  by (simp add: target_has_active_jobs_def hm_contains_key_def Let_def)

lemma remove_target_jobs_ok:
  assumes "remove_target_jobs tid s = Inr s'" "job_coordinator_ok s"
  shows "job_coordinator_ok s'"
proof -
  note r = remove_target_jobs_Inr [OF assms]
  have jobs: "jobs_ok s" and logs: "logs_ok s"
    using assms(2) by (simp_all add: job_coordinator_ok_def)
  have lock: "hm_get (jc_active_targets s) (Target tid) = None"
    by (rule no_active_jobs_lock [OF r(4)])
  have active: "t \<noteq> Target tid" if "hm_get (jc_active_targets s) t = Some i" for t i
    using that lock by auto
  have keep: "hm_get (jc_jobs s') i = Some j \<longleftrightarrow>
      hm_get (jc_jobs s) i = Some j \<and> aj_target j \<noteq> Target tid" for i j
    by (auto simp: r(1) split: option.splits)
  have "jobs_ok s'"
  proof (rule jobs_okI)
    fix i j assume "hm_get (jc_jobs s') i = Some j"
    with jobs show "aj_id j = i
        \<and> hm_get (jc_idempotency s') (aj_target j, aj_idempotency_key j) = Some i"
      by (simp add: keep r(2) jobs_ok_def)
  next
    fix t k i assume "hm_get (jc_idempotency s') (t, k) = Some i"
    then have "hm_get (jc_idempotency s) (t, k) = Some i" "t \<noteq> Target tid"
      by (auto simp: r(2) split: if_splits)
    with jobs show "\<exists>j. hm_get (jc_jobs s') i = Some j \<and> aj_target j = t
        \<and> aj_idempotency_key j = k"
      unfolding keep jobs_ok_def by blast
  next
    fix t i assume "hm_get (jc_active_targets s') t = Some i"
    then have "hm_get (jc_active_targets s) t = Some i" by (simp add: r(3))
    with jobs active show "\<exists>j. hm_get (jc_jobs s') i = Some j \<and> aj_target j = t"
      unfolding keep jobs_ok_def by blast
  qed
  moreover have "logs_ok s'"
    using logs unfolding logs_ok_def jc_events_of_def r(1,5)
    by (auto split: option.splits if_splits)
  ultimately show ?thesis using r(6) by (simp add: job_coordinator_ok_def)
qed

section \<open>Reachable coordinator states\<close>

text \<open>One call of any method; fresh job ids are not in use.\<close>

inductive job_step :: "ansible_env \<Rightarrow> job_coordinator \<Rightarrow> job_coordinator \<Rightarrow> bool" for env where
  js_submit: "hm_get (jc_jobs s) f = None \<Longrightarrow> submit env f t r s = Inr (sub, s') \<Longrightarrow>
     job_step env s s'"
| js_reconcile: "hm_get (jc_jobs s) f = None \<Longrightarrow>
     submit_reconciliation_with_lock env f t src l s = Inr (sub, s') \<Longrightarrow> job_step env s s'"
| js_transition: "transition t i n s = Inr (job, s') \<Longrightarrow> job_step env s s'"
| js_retry: "retry t i s = Inr (job, s') \<Longrightarrow> job_step env s s'"
| js_record: "record_event t i ev s = Inr s' \<Longrightarrow> job_step env s s'"
| js_remove: "remove_target_jobs tid s = Inr s' \<Longrightarrow> job_step env s s'"

inductive jobs_reachable :: "ansible_env \<Rightarrow> job_coordinator \<Rightarrow> bool" for env where
  jr_init: "jobs_reachable env job_coordinator_default"
| jr_step: "jobs_reachable env s \<Longrightarrow> job_step env s s' \<Longrightarrow> jobs_reachable env s'"

lemma submit_ok:
  assumes "submit env f t r s = Inr (sub, s')" "job_coordinator_ok s" "hm_get (jc_jobs s) f = None"
  shows "job_coordinator_ok s'"
  using assms(1)
proof (cases rule: submit_Inr_cases)
  case (created j)
  note f = from_request_Inr [OF created(2)]
  show ?thesis unfolding created(4)
    by (rule add_job_ok) (use assms(2,3) created(1) f in simp_all)
qed (use assms(2) in simp)

lemma submit_reconciliation_ok:
  assumes "submit_reconciliation_with_lock env f t src l s = Inr (sub, s')"
    "job_coordinator_ok s" "hm_get (jc_jobs s) f = None"
  shows "job_coordinator_ok s'"
  using assms(1)
proof (cases rule: submit_reconciliation_Inr_cases)
  case (created j)
  show ?thesis unfolding created(6)
    by (rule add_job_ok) (use assms(2,3) created(1,2) in simp_all)
qed (use assms(2) in simp)

lemma job_step_ok: "job_step env s s' \<Longrightarrow> job_coordinator_ok s \<Longrightarrow> job_coordinator_ok s'"
  by (induction rule: job_step.induct)
     (blast intro: submit_ok submit_reconciliation_ok transition_ok retry_ok record_event_ok
       remove_target_jobs_ok)+

lemma jobs_reachable_ok: "jobs_reachable env s \<Longrightarrow> job_coordinator_ok s"
  by (induction rule: jobs_reachable.induct)
     (blast intro: job_coordinator_default_ok job_step_ok)+

section \<open>Mutual exclusion per target\<close>

definition job_active :: "ansible_job_status \<Rightarrow> bool" where
  "job_active st \<longleftrightarrow> st \<in> {JChecking, JPlanned, JApplying}"

text \<open>Every active job holds the lock of its target.\<close>

definition locks_held :: "job_coordinator \<Rightarrow> bool" where
  "locks_held s \<longleftrightarrow> (\<forall>i j. hm_get (jc_jobs s) i = Some j \<longrightarrow> job_active (aj_status j) \<longrightarrow>
     hm_get (jc_active_targets s) (aj_target j) = Some i)"

text \<open>
  A transition that respects the lock: a queued job is not moved to Planned past Checking, and
  a job is only finished while no other job holds its target's lock.
\<close>

definition disciplined :: "job_coordinator \<Rightarrow> uuid \<Rightarrow> ansible_job_status \<Rightarrow> bool" where
  "disciplined s i n \<longleftrightarrow> (\<forall>j. hm_get (jc_jobs s) i = Some j \<longrightarrow>
     \<not> (aj_status j = JQueued \<and> n = JPlanned)
     \<and> (job_terminal n \<longrightarrow> lock_free i (aj_target j) s))"

inductive disciplined_step ::
  "ansible_env \<Rightarrow> job_coordinator \<Rightarrow> job_coordinator \<Rightarrow> bool" for env where
  ds_submit: "hm_get (jc_jobs s) f = None \<Longrightarrow> submit env f t r s = Inr (sub, s') \<Longrightarrow>
     disciplined_step env s s'"
| ds_reconcile: "hm_get (jc_jobs s) f = None \<Longrightarrow> hm_get (jc_jobs s) (aj_id src) = Some src \<Longrightarrow>
     submit_reconciliation env f t src s = Inr (sub, s') \<Longrightarrow> disciplined_step env s s'"
| ds_transition: "disciplined s i n \<Longrightarrow> transition t i n s = Inr (job, s') \<Longrightarrow>
     disciplined_step env s s'"
| ds_retry: "retry t i s = Inr (job, s') \<Longrightarrow> disciplined_step env s s'"
| ds_record: "record_event t i ev s = Inr s' \<Longrightarrow> disciplined_step env s s'"
| ds_remove: "remove_target_jobs tid s = Inr s' \<Longrightarrow> disciplined_step env s s'"

lemma disciplined_step_job_step: "disciplined_step env s s' \<Longrightarrow> job_step env s s'"
  by (induction rule: disciplined_step.induct)
     (auto simp: submit_reconciliation_def intro: job_step.intros)

lemma locks_heldI:
  "(\<And>i j. hm_get (jc_jobs s) i = Some j \<Longrightarrow> job_active (aj_status j) \<Longrightarrow>
     hm_get (jc_active_targets s) (aj_target j) = Some i) \<Longrightarrow> locks_held s"
  by (simp add: locks_held_def)

lemma locks_heldD:
  "locks_held s \<Longrightarrow> hm_get (jc_jobs s) i = Some j \<Longrightarrow> job_active (aj_status j) \<Longrightarrow>
     hm_get (jc_active_targets s) (aj_target j) = Some i"
  by (simp add: locks_held_def)

text \<open>A new queued job may take the lock when no job of its target is active.\<close>

lemma add_job_locks:
  assumes "locks_held s" "aj_status j = JQueued" "hm_get (jc_jobs s) (aj_id j) = None"
    and free: "\<And>i k. l \<Longrightarrow> hm_get (jc_jobs s) i = Some k \<Longrightarrow> aj_target k = aj_target j \<Longrightarrow>
        \<not> job_active (aj_status k)"
  shows "locks_held (add_job t l j s)"
proof (rule locks_heldI)
  fix i k assume k: "hm_get (jc_jobs (add_job t l j s)) i = Some k" "job_active (aj_status k)"
  then have "i \<noteq> aj_id j" "hm_get (jc_jobs s) i = Some k"
    using assms(2) by (auto simp: add_job_simps job_active_def split: if_splits)
  with assms(1) k(2) free show "hm_get (jc_active_targets (add_job t l j s)) (aj_target k) = Some i"
    by (auto simp: add_job_simps dest: locks_heldD)
qed

lemma job_can_transition_active:
  "job_can_transition_to a n \<Longrightarrow> job_active n \<Longrightarrow> n \<noteq> JChecking \<Longrightarrow> \<not> (a = JQueued \<and> n = JPlanned)
     \<Longrightarrow> job_active a"
  by (cases a) (auto simp: job_active_def)

lemma transition_locks:
  assumes "transition t i n s = Inr (job, s')" "locks_held s" "disciplined s i n"
  shows "locks_held s'"
proof -
  obtain job0 where j0: "hm_get (jc_jobs s) i = Some job0"
      "job_can_transition_to (aj_status job0) n" "n = JChecking \<longrightarrow> lock_free i (aj_target job0) s"
    and job: "job = job0\<lparr>aj_status := n, aj_updated_at := t\<rparr>"
    and s': "s' = transitioned t i n job s"
    using assms(1) unfolding transition_Inr_iff by blast
  have d: "\<not> (aj_status job0 = JQueued \<and> n = JPlanned)"
      "job_terminal n \<longrightarrow> lock_free i (aj_target job0) s"
    using assms(3) j0(1) by (auto simp: disciplined_def)
  have jt: "aj_target job = aj_target job0" "aj_status job = n" by (simp_all add: job)
  show ?thesis
  proof (rule locks_heldI)
    fix x k assume k: "hm_get (jc_jobs s') x = Some k" "job_active (aj_status k)"
    show "hm_get (jc_active_targets s') (aj_target k) = Some x"
    proof (cases "x = i")
      case True
      then have "k = job" using k(1) by (simp add: s' transitioned_simps)
      then have an: "job_active n" using k(2) jt by simp
      then have nt: "\<not> job_terminal n" by (auto simp: job_active_def job_terminal_def)
      show ?thesis
      proof (cases "n = JChecking")
        case True
        then show ?thesis using \<open>k = job\<close> \<open>x = i\<close> by (simp add: s' transitioned_simps)
      next
        case False
        have "job_active (aj_status job0)"
          by (rule job_can_transition_active [OF j0(2) an False d(1)])
        then show ?thesis using locks_heldD [OF assms(2) j0(1)] False nt \<open>k = job\<close> \<open>x = i\<close> jt
          by (simp add: s' transitioned_simps)
      qed
    next
      case False
      then have sk: "hm_get (jc_jobs s) x = Some k" using k(1) by (simp add: s' transitioned_simps)
      have lk: "hm_get (jc_active_targets s) (aj_target k) = Some x"
        by (rule locks_heldD [OF assms(2) sk k(2)])
      have "aj_target k \<noteq> aj_target job0" if "n = JChecking \<or> job_terminal n"
        using that lk j0(3) d(2) False by (auto simp: lock_free_def)
      then show ?thesis using lk jt by (auto simp: s' transitioned_simps)
    qed
  qed
qed

lemma retry_locks:
  assumes "retry t i s = Inr (job, s')" "locks_held s"
  shows "locks_held s'"
proof -
  obtain job0 where job: "job = job0\<lparr>aj_status := JQueued, aj_updated_at := t\<rparr>"
    and s': "s' = record_internal t i (EvStatusChanged JQueued)
             (s\<lparr>jc_jobs := hm_insert i job (jc_jobs s)\<rparr>)"
    using assms(1) unfolding retry_Inr_iff by blast
  have "aj_status job = JQueued" by (simp add: job)
  then show ?thesis using assms(2)
    by (auto simp: s' locks_held_def job_active_def)
qed

lemma record_event_locks:
  "record_event t i ev s = Inr s' \<Longrightarrow> locks_held s \<Longrightarrow> locks_held s'"
  by (auto simp: record_event_def bindR_Inr_iff locks_held_def split: if_splits)

lemma remove_target_jobs_locks:
  assumes "remove_target_jobs tid s = Inr s'" "job_coordinator_ok s" "locks_held s"
  shows "locks_held s'"
proof (rule locks_heldI)
  note r = remove_target_jobs_Inr [OF assms(1,2)]
  fix i j assume "hm_get (jc_jobs s') i = Some j" "job_active (aj_status j)"
  then have "hm_get (jc_jobs s) i = Some j" "job_active (aj_status j)"
    by (auto simp: r(1) split: option.splits if_splits)
  then show "hm_get (jc_active_targets s') (aj_target j) = Some i"
    using assms(3) by (simp add: r(3) locks_heldD)
qed

lemma disciplined_step_locks:
  assumes "disciplined_step env s s'" "job_coordinator_ok s" "locks_held s"
  shows "locks_held s'"
  using assms
proof (induction rule: disciplined_step.induct)
  case (ds_submit s f t r sub s')
  from ds_submit.hyps(2) show ?case
  proof (cases rule: submit_Inr_cases)
    case (created j)
    show ?thesis unfolding created(4)
      by (rule add_job_locks) (use ds_submit from_request_Inr [OF created(2)] in simp_all)
  qed (use ds_submit in simp)
next
  case (ds_reconcile s f src t sub s')
  from ds_reconcile.hyps(3) [unfolded submit_reconciliation_def] show ?case
  proof (cases rule: submit_reconciliation_Inr_cases)
    case (created j)
    have jt: "aj_target j = aj_target src" by (simp add: created(2))
    have nact: "\<not> job_active (aj_status src)"
      using created(3) by (simp add: can_be_reconciled_def job_active_def)
    have "\<not> job_active (aj_status k)"
      if k: "hm_get (jc_jobs s) i = Some k" "aj_target k = aj_target j" for i k
    proof
      assume "job_active (aj_status k)"
      then have "hm_get (jc_active_targets s) (aj_target src) = Some i"
        using locks_heldD [OF ds_reconcile.prems(2) k(1)] k(2) jt by simp
      with created(4) have "i = aj_id src" by auto
      with k(1) ds_reconcile.hyps(2) nact \<open>job_active (aj_status k)\<close> show False by simp
    qed
    then show ?thesis unfolding created(6)
      by (intro add_job_locks) (use ds_reconcile created(2) in simp_all)
  qed (use ds_reconcile in simp)
next
  case (ds_transition s i n t job s')
  then show ?case using transition_locks by blast
next
  case (ds_retry t i s job s')
  then show ?case using retry_locks by blast
next
  case (ds_record t i ev s s')
  then show ?case using record_event_locks by blast
next
  case (ds_remove tid s s')
  then show ?case using remove_target_jobs_locks by blast
qed

inductive disciplined_reachable :: "ansible_env \<Rightarrow> job_coordinator \<Rightarrow> bool" for env where
  dr_init: "disciplined_reachable env job_coordinator_default"
| dr_step: "disciplined_reachable env s \<Longrightarrow> disciplined_step env s s' \<Longrightarrow>
     disciplined_reachable env s'"

lemma disciplined_reachable_ok:
  "disciplined_reachable env s \<Longrightarrow> job_coordinator_ok s \<and> locks_held s"
proof (induction rule: disciplined_reachable.induct)
  case dr_init
  show ?case
    using job_coordinator_default_ok
    by (simp add: locks_held_def job_coordinator_default_def)
next
  case (dr_step s s')
  then show ?case
    using disciplined_step_locks job_step_ok disciplined_step_job_step by blast
qed

end
