(* ===== verification/AnsibleSafety.thy ===== *)
theory AnsibleSafety
  imports AnsibleInvariants "HOL-Library.Sublist"
begin

text \<open>
  What \<open>lxcup-ansible\<close> guarantees: the contract of a job, idempotent submission, the error table of
  a transition, retry and removal, consistency of every reachable coordinator, the mutual
  exclusion of jobs per target under lock-respecting calls, and the call that breaks it.
\<close>

section \<open>A concrete environment and requests\<close>

definition ansible_example :: ansible_env where
  "ansible_example = \<lparr>ae_to_vec = (\<lambda>_. [7]), ae_sha256 = (\<lambda>x. x),
     ae_uuid_to_string = (\<lambda>u. [unat u]),
     ae_uuid_parse = (\<lambda>s. case s of [n] \<Rightarrow> Some (of_nat n) | _ \<Rightarrow> None)\<rparr>"

definition job_request_example :: "str \<Rightarrow> execution_mode \<Rightarrow> ansible_job_request" where
  "job_request_example key mode = \<lparr>jr_operation = OpUpdatePackages, jr_target = Target 5,
     jr_lifecycle = Managed, jr_mode = mode,
     jr_parameters = ParamUpdatePackages [lit ''curl''], jr_secret_refs = [9],
     jr_idempotency_key = key, jr_confirmed = True, jr_actor_role = Operator\<rparr>"

definition job_example :: "uuid \<Rightarrow> str \<Rightarrow> ansible_job_status \<Rightarrow> timestamp \<Rightarrow> ansible_job" where
  "job_example i key st t = \<lparr>aj_id = i, aj_operation = OpUpdatePackages,
     aj_playbook = lit ''packages/update.yml'', aj_playbook_version = lit ''1'',
     aj_target = Target 5, aj_mode = ModeApply,
     aj_parameters = ParamUpdatePackages [lit ''curl''], aj_secret_refs = [9],
     aj_idempotency_key = key, aj_parameter_hash = lit ''07'', aj_status = st,
     aj_created_at = 0, aj_updated_at = t\<rparr>"

lemma from_request_example:
  "from_request ansible_example i 0 (job_request_example (lit ''a'') ModeApply) =
     Inr (job_example i (lit ''a'') JQueued 0)"
  "from_request ansible_example i 0 (job_request_example (lit ''b'') ModeApply) =
     Inr (job_example i (lit ''b'') JQueued 0)"
  "from_request ansible_example i 0 (job_request_example (lit ''c'') ModeApply) =
     Inr (job_example i (lit ''c'') JQueued 0)"
  by code_simp+

definition submitted :: "uuid \<Rightarrow> str \<Rightarrow> job_coordinator \<Rightarrow> job_coordinator" where
  "submitted i key s =
     (case submit ansible_example i 0 (job_request_example key ModeApply) s of
        Inr (_, s') \<Rightarrow> s' | Inl _ \<Rightarrow> s)"

definition moved_to :: "uuid \<Rightarrow> ansible_job_status \<Rightarrow> job_coordinator \<Rightarrow> job_coordinator" where
  "moved_to i n s = (case transition 1 i n s of Inr (_, s') \<Rightarrow> s' | Inl _ \<Rightarrow> s)"

lemma submitted_reachable:
  "jobs_reachable ansible_example s \<Longrightarrow> hm_get (jc_jobs s) i = None \<Longrightarrow>
     jobs_reachable ansible_example (submitted i key s)"
  by (auto simp: submitted_def intro: jr_step js_submit split: sum.splits)

lemma moved_to_reachable:
  "jobs_reachable ansible_example s \<Longrightarrow> jobs_reachable ansible_example (moved_to i n s)"
  by (auto simp: moved_to_def intro: jr_step js_transition split: sum.splits)

section \<open>The job contract\<close>

text \<open>Within a job, the parameter limits of each operation.\<close>

lemma parameters_validate_ok_iff:
  "is_ok (parameters_validate p) \<longleftrightarrow>
     (case p of
        ParamDeployAgent v \<Rightarrow> trim v \<noteq> [] \<and> str_len v \<le> 50
      | ParamUpdateAgent v \<Rightarrow> trim v \<noteq> [] \<and> str_len v \<le> 50
      | ParamUpdatePackages ps \<Rightarrow>
          ps \<noteq> [] \<and> length ps \<le> 100 \<and> (lit ''*'' \<in> set ps \<longrightarrow> ps = [lit ''*''])
          \<and> (\<forall>q\<in>set ps. trim q \<noteq> [] \<and> length q \<le> 100)
      | ParamConfigureTarget (Some h) \<Rightarrow> trim h \<noteq> [] \<and> length h \<le> 253
      | _ \<Rightarrow> True)"
  by (cases p rule: parameters_validate.cases)
     (auto simp: agent_version_valid_def list_ex_iff not_less)

text \<open>
  The job contract: a request becomes a job exactly when its parameters belong to its
  operation and are within their limits, its idempotency key is a nonblank text of at most 200
  bytes, the mode is one the operation supports, the role, target, lifecycle and confirmation
  pass the central action check, an applied change is confirmed, and the secret references are
  distinct and present where the playbook needs them. The job then runs the allowlisted playbook
  of its operation, is queued, and is never in reconcile mode.
\<close>

theorem from_request_contract:
  "case from_request env f t r of
     Inl _ \<Rightarrow> \<not> (parameters_operation (jr_parameters r) = jr_operation r
        \<and> is_ok (parameters_validate (jr_parameters r))
        \<and> trim (jr_idempotency_key r) \<noteq> [] \<and> str_len (jr_idempotency_key r) \<le> 200
        \<and> supports_mode (jr_operation r) (jr_mode r)
        \<and> is_ok (validate_action (jr_actor_role r) (jr_target r) (jr_lifecycle r)
             (ps_action (resolve (jr_operation r))) (jr_confirmed r) (jr_idempotency_key r))
        \<and> (jr_mode r \<noteq> ModeApply \<or> action_permission (ps_action (resolve (jr_operation r))) = Read
             \<or> jr_confirmed r)
        \<and> (jr_secret_refs r = [] \<longrightarrow> jr_operation r = OpHealthCheck)
        \<and> distinct (jr_secret_refs r))
   | Inr j \<Rightarrow> parameters_operation (jr_parameters r) = jr_operation r
        \<and> is_ok (parameters_validate (jr_parameters r))
        \<and> trim (jr_idempotency_key r) \<noteq> [] \<and> str_len (jr_idempotency_key r) \<le> 200
        \<and> is_ok (validate_action (jr_actor_role r) (jr_target r) (jr_lifecycle r)
             (ps_action (resolve (jr_operation r))) (jr_confirmed r) (jr_idempotency_key r))
        \<and> (jr_mode r = ModeApply \<longrightarrow> jr_operation r = OpHealthCheck \<or> jr_confirmed r)
        \<and> (jr_secret_refs r = [] \<longrightarrow> jr_operation r = OpHealthCheck)
        \<and> distinct (jr_secret_refs r)
        \<and> aj_id j = f \<and> aj_status j = JQueued \<and> aj_target j = jr_target r
        \<and> aj_operation j = jr_operation r
        \<and> aj_playbook j = ps_playbook (resolve (jr_operation r))
        \<and> aj_mode j \<in> set (supported_modes (jr_operation r)) \<and> aj_mode j \<noteq> ModeReconcile"
proof -
  have sec: "ps_requires_secret (resolve op) \<longleftrightarrow> op \<noteq> OpHealthCheck" for op
    by (cases op) auto
  have nore: "ModeReconcile \<notin> set (supported_modes op)" for op
    by (cases op) auto
  have perm: "action_permission (ps_action (resolve op)) = Read \<Longrightarrow> supports_mode op ModeApply \<Longrightarrow>
      op = OpHealthCheck" for op
    by (cases op) (auto simp: supports_mode_def)
  note iff = agent_contract_ok_iff [of env f t r, unfolded sec]
  show ?thesis
  proof (cases "from_request env f t r")
    case (Inl a)
    then show ?thesis using iff by auto
  next
    case (Inr j)
    then have ok: "is_ok (from_request env f t r)" by simp
    note c = iff [THEN iffD1, OF ok]
    have m: "jr_mode r \<in> set (supported_modes (jr_operation r))" using c by (simp add: supports_mode_def)
    with nore have "jr_mode r \<noteq> ModeReconcile" by metis
    moreover have "jr_mode r = ModeApply \<Longrightarrow> jr_operation r = OpHealthCheck \<or> jr_confirmed r"
      using c perm by auto
    ultimately show ?thesis
      unfolding Inr sum.case from_request_Inr [OF Inr] using c m by blast
  qed
qed

theorem from_request_contract_witness:
  "from_request ansible_example 1 0 (job_request_example (lit ''a'') ModeApply) =
     Inr (job_example 1 (lit ''a'') JQueued 0)
   \<and> distinct (jr_secret_refs (job_request_example (lit ''a'') ModeApply))
   \<and> aj_mode (job_example 1 (lit ''a'') JQueued 0) \<noteq> ModeReconcile"
  using from_request_contract [where env = ansible_example and f = 1 and t = 0
      and r = "job_request_example (lit ''a'') ModeApply"]
  unfolding from_request_example sum.case by blast

section \<open>Every reachable coordinator\<close>

text \<open>
  Whatever calls have been made, the coordinator is consistent: every job is stored under its
  own id and its (target, key) pair leads back to it, every used pair and every held lock belongs
  to a stored job of that target, and the events of every job are numbered 1, 2, 3, ... without
  gaps, with at least one event per job.
\<close>

theorem job_coordinator_invariant:
  assumes "jobs_reachable env s"
  shows "job_coordinator_ok s"
  by (rule jobs_reachable_ok [OF assms])

theorem job_coordinator_invariant_witness:
  "job_coordinator_ok (submitted 1 (lit ''a'') job_coordinator_default)
   \<and> hm_get (jc_jobs (submitted 1 (lit ''a'') job_coordinator_default)) 1 =
       Some (job_example 1 (lit ''a'') JQueued 0)"
proof
  have "hm_get (jc_jobs job_coordinator_default) 1 = None" by code_simp
  from job_coordinator_invariant [OF submitted_reachable [OF jr_init this]]
  show "job_coordinator_ok (submitted 1 (lit ''a'') job_coordinator_default)" .
  show "hm_get (jc_jobs (submitted 1 (lit ''a'') job_coordinator_default)) 1 =
       Some (job_example 1 (lit ''a'') JQueued 0)" by code_simp
qed

text \<open>The same job, possibly moved along the transition table.\<close>

definition same_contract :: "ansible_job \<Rightarrow> ansible_job \<Rightarrow> bool" where
  "same_contract j j' \<longleftrightarrow> j' = j\<lparr>aj_status := aj_status j', aj_updated_at := aj_updated_at j'\<rparr>
     \<and> (aj_status j' = aj_status j \<or> job_can_transition_to (aj_status j) (aj_status j'))"

lemma same_contract_refl [simp]: "same_contract j j"
  by (simp add: same_contract_def)

lemma same_contract_move:
  "job_can_transition_to (aj_status j) n \<Longrightarrow> same_contract j (j\<lparr>aj_status := n, aj_updated_at := t\<rparr>)"
  by (simp add: same_contract_def)

lemma add_job_keeps:
  "hm_get (jc_jobs s) i = Some j \<Longrightarrow> hm_get (jc_jobs s) (aj_id k) = None \<Longrightarrow>
     hm_get (jc_jobs (add_job t l k s)) i = Some j
     \<and> prefix (jc_events_of s i) (jc_events_of (add_job t l k s) i)"
  by (auto simp: add_job_simps jc_events_of_record)

lemma record_internal_prefix: "prefix (jc_events_of s i) (jc_events_of (record_internal t k ev s) i)"
  by (simp add: jc_events_of_record)

lemma transitioned_events:
  "prefix (jc_events_of s i) (jc_events_of (transitioned t k n job s) i)"
proof -
  have "jc_events_of (moved k job m s) = jc_events_of s" for m
    by (rule jc_events_of_cong) (simp add: moved_def)
  then show ?thesis
    by (simp add: transitioned_def Let_def jc_events_of_record)
qed

lemma hm_get_insert_keeps:
  assumes "hm_get m k = Some j" "hm_get m i = Some i0" "same_contract j j'" "hm_get (hm_insert k j' m) i = Some i1"
  shows "same_contract i0 i1"
  using assms by (auto split: if_splits)

lemma job_step_same_contract:
  assumes "jobs_reachable env s" and "job_step env s s'"
    and "hm_get (jc_jobs s) i = Some j" and "hm_get (jc_jobs s') i = Some j'"
  shows "same_contract j j' \<and> prefix (jc_events_of s i) (jc_events_of s' i)"
  using assms(2,3,4)
proof (cases rule: job_step.cases)
  case (js_submit f t r sub)
  from js_submit(2) show ?thesis
  proof (cases rule: submit_Inr_cases)
    case (created k)
    then show ?thesis
      using add_job_keeps [OF assms(3), of k t False] js_submit(1) assms(4) from_request_Inr(1)
      by auto
  qed (use assms(3,4) in simp)
next
  case (js_reconcile f t src l sub)
  from js_reconcile(2) show ?thesis
  proof (cases rule: submit_reconciliation_Inr_cases)
    case (created k)
    then show ?thesis
      using add_job_keeps [OF assms(3), of k t True] js_reconcile(1) assms(4) by auto
  qed (use assms(3,4) in simp)
next
  case (js_transition t k n job)
  then obtain job0 where "hm_get (jc_jobs s) k = Some job0" "job_can_transition_to (aj_status job0) n"
    "job = job0\<lparr>aj_status := n, aj_updated_at := t\<rparr>" "s' = transitioned t k n job s"
    unfolding transition_Inr_iff by blast
  with assms(3,4) show ?thesis
    using hm_get_insert_keeps [OF _ assms(3) same_contract_move]
    by (simp add: transitioned_simps transitioned_events)
next
  case (js_retry t k job)
  then obtain job0 where j0: "hm_get (jc_jobs s) k = Some job0" "aj_status job0 = JFailed"
    and job: "job = job0\<lparr>aj_status := JQueued, aj_updated_at := t\<rparr>"
    and s': "s' = record_internal t k (EvStatusChanged JQueued)
             (s\<lparr>jc_jobs := hm_insert k job (jc_jobs s)\<rparr>)"
    unfolding retry_Inr_iff by blast
  have "same_contract job0 job" unfolding job by (rule same_contract_move) (simp add: j0)
  moreover have "jc_events_of (s\<lparr>jc_jobs := m\<rparr>) = jc_events_of s" for m
    by (rule jc_events_of_cong) simp
  ultimately show ?thesis
    using hm_get_insert_keeps [OF j0(1) assms(3)] assms(4)
    by (simp add: s' jc_events_of_record del: hm_get_insert)
next
  case (js_record t k ev)
  then have "s' = record_internal t k ev s"
    by (auto simp: record_event_def bindR_Inr_iff split: if_splits)
  with assms(3,4) show ?thesis by (simp add: record_internal_prefix)
next
  case (js_remove tid)
  note r = remove_target_jobs_Inr [OF js_remove jobs_reachable_ok [OF assms(1)]]
  have "j' = j" "hm_get (jc_events s') i = hm_get (jc_events s) i"
    using r(1) [of i] r(5) [of i] assms(3,4) by (auto split: if_splits)
  then show ?thesis by (simp add: jc_events_of_def)
qed

text \<open>
  A job's contract is immutable: as long as the job exists, a call only changes its status,
  along the transition table, and its update time, and only appends to its events.
\<close>

theorem job_contract_immutable:
  assumes "jobs_reachable env s" and "job_step env s s'"
    and "hm_get (jc_jobs s) i = Some j" and "hm_get (jc_jobs s') i = Some j'"
  shows "same_contract j j' \<and> prefix (jc_events_of s i) (jc_events_of s' i)"
  by (rule job_step_same_contract [OF assms])

definition two_jobs :: job_coordinator where
  "two_jobs = submitted 2 (lit ''b'') (submitted 1 (lit ''a'') job_coordinator_default)"

lemma two_jobs_reachable: "jobs_reachable ansible_example two_jobs"
  unfolding two_jobs_def
  by (intro submitted_reachable jr_init) code_simp+

lemma two_jobs_checking:
  "transition 1 1 JChecking two_jobs =
     Inr (job_example 1 (lit ''a'') JChecking 1, moved_to 1 JChecking two_jobs)"
  by code_simp

theorem job_contract_immutable_witness:
  "same_contract (job_example 1 (lit ''a'') JQueued 0) (job_example 1 (lit ''a'') JChecking 1)
   \<and> length (jc_events_of (moved_to 1 JChecking two_jobs) 1) = 2"
proof -
  have "hm_get (jc_jobs two_jobs) 1 = Some (job_example 1 (lit ''a'') JQueued 0)"
    "hm_get (jc_jobs (moved_to 1 JChecking two_jobs)) 1 =
       Some (job_example 1 (lit ''a'') JChecking 1)"
    "length (jc_events_of (moved_to 1 JChecking two_jobs) 1) = 2"
    by code_simp+
  with job_contract_immutable [OF two_jobs_reachable js_transition [OF two_jobs_checking]]
  show ?thesis by blast
qed

section \<open>Mutual exclusion per target\<close>

text \<open>
  C7. As long as callers respect the lock (a queued job goes through Checking, and a job is only
  finished while no other job holds its target), two different jobs of one target are never
  checking, planned or applying at the same time, and the active one holds the target's lock.
\<close>

theorem target_mutual_exclusion:
  assumes "disciplined_reachable env s"
    and "hm_get (jc_jobs s) i = Some j" and "hm_get (jc_jobs s) k = Some l"
    and "aj_target j = aj_target l"
    and "aj_status j \<in> {JChecking, JPlanned, JApplying}"
    and "aj_status l \<in> {JChecking, JPlanned, JApplying}"
  shows "i = k \<and> hm_get (jc_active_targets s) (aj_target j) = Some i"
proof -
  have held: "locks_held s" using disciplined_reachable_ok [OF assms(1)] by blast
  from locks_heldD [OF held assms(2)] locks_heldD [OF held assms(3)] assms(4-6)
  show ?thesis by (simp add: job_active_def)
qed

lemma submitted_disciplined:
  "disciplined_reachable ansible_example s \<Longrightarrow> hm_get (jc_jobs s) i = None \<Longrightarrow>
     disciplined_reachable ansible_example (submitted i key s)"
  by (auto simp: submitted_def intro: dr_step ds_submit split: sum.splits)

lemma two_jobs_checking_disciplined:
  "disciplined_reachable ansible_example (moved_to 1 JChecking two_jobs)"
proof (rule dr_step [OF _ ds_transition [OF _ two_jobs_checking]])
  show "disciplined_reachable ansible_example two_jobs"
    unfolding two_jobs_def by (intro submitted_disciplined dr_init) code_simp+
  show "disciplined two_jobs 1 JChecking"
    by (auto simp: disciplined_def job_terminal_def)
qed

theorem target_mutual_exclusion_witness:
  "hm_get (jc_active_targets (moved_to 1 JChecking two_jobs)) (Target 5) = Some 1
   \<and> transition 2 2 JChecking (moved_to 1 JChecking two_jobs) = Inl TargetBusy"
proof
  have j: "hm_get (jc_jobs (moved_to 1 JChecking two_jobs)) 1 =
       Some (job_example 1 (lit ''a'') JChecking 1)"
    by code_simp
  from target_mutual_exclusion [OF two_jobs_checking_disciplined j j]
  show "hm_get (jc_active_targets (moved_to 1 JChecking two_jobs)) (Target 5) = Some 1"
    by (simp add: job_example_def)
  show "transition 2 2 JChecking (moved_to 1 JChecking two_jobs) = Inl TargetBusy" by code_simp
qed

text \<open>
  Three jobs of one target: the first is checked, the second aborted while it is queued, and the
  third then asks for Checking.
\<close>

definition third_admitted :: job_coordinator where
  "third_admitted = moved_to 3 JChecking (moved_to 2 JAborted (moved_to 1 JChecking
     (submitted 3 (lit ''c'') two_jobs)))"

text \<open>
  The coordinator itself does not enforce that discipline. While job 1 checks a target,
  aborting the queued job 2 of the same target releases job 1's lock, so a third job is admitted
  to Checking beside job 1; and a queued job moved straight to Planned never asks for the lock.
\<close>

theorem abort_releases_foreign_lock:
  "jobs_reachable ansible_example third_admitted
   \<and> hm_get (jc_jobs third_admitted) 1 = Some (job_example 1 (lit ''a'') JChecking 1)
   \<and> hm_get (jc_jobs third_admitted) 3 = Some (job_example 3 (lit ''c'') JChecking 1)
   \<and> aj_target (job_example 1 (lit ''a'') JChecking 1) = aj_target (job_example 3 (lit ''c'') JChecking 1)
   \<and> hm_get (jc_jobs (moved_to 2 JApplying (moved_to 2 JPlanned (moved_to 1 JChecking two_jobs)))) 2 =
       Some (job_example 2 (lit ''b'') JApplying 1)"
proof (intro conjI)
  have "hm_get (jc_jobs two_jobs) 3 = None" by code_simp
  then show "jobs_reachable ansible_example third_admitted"
    unfolding third_admitted_def by (intro moved_to_reachable submitted_reachable two_jobs_reachable)
qed code_simp+

section \<open>Idempotent submission, retry, removal\<close>

text \<open>The call does not remove the job.\<close>

definition keeps_target :: "uuid \<Rightarrow> job_coordinator \<Rightarrow> job_coordinator \<Rightarrow> bool" where
  "keeps_target i s s' \<longleftrightarrow> (hm_get (jc_jobs s) i \<noteq> None \<longrightarrow> hm_get (jc_jobs s') i \<noteq> None)"

lemma jobs_ok_job:
  "jobs_ok s \<Longrightarrow> hm_get (jc_jobs s) i = Some j \<Longrightarrow>
     aj_id j = i \<and> hm_get (jc_idempotency s) (aj_target j, aj_idempotency_key j) = Some i"
  by (simp add: jobs_ok_def)

text \<open>
  Submission is idempotent per target: after a request has created a job, and while that
  target's jobs are not removed, every later request for the same target with the same key gets
  the stored job back, in its current status, as a duplicate, and changes nothing.
\<close>

theorem submit_idempotent:
  assumes "jobs_reachable env s" and "hm_get (jc_jobs s) f = None"
    and "submit env f t r s = Inr (JobCreated j, s1)"
    and "(\<lambda>a b. job_step env a b \<and> keeps_target f a b)\<^sup>*\<^sup>* s1 s2"
    and "jr_target r2 = jr_target r" and "jr_idempotency_key r2 = jr_idempotency_key r"
  shows "\<exists>j2. submit env f2 t2 r2 s2 = Inr (JobDuplicate j2, s2) \<and> aj_id j2 = f
     \<and> aj_parameter_hash j2 = aj_parameter_hash j \<and> aj_playbook j2 = aj_playbook j"
proof -
  have j: "from_request env f t r = Inr j" "s1 = add_job t False j s"
    using assms(3) by (cases rule: submit_Inr_cases; auto)+
  have r1: "jobs_reachable env s1" by (rule jr_step [OF assms(1) js_submit [OF assms(2,3)]])
  have "jobs_reachable env s2 \<and> (\<exists>j2. hm_get (jc_jobs s2) f = Some j2
      \<and> aj_target j2 = aj_target j \<and> aj_idempotency_key j2 = aj_idempotency_key j
      \<and> aj_parameter_hash j2 = aj_parameter_hash j \<and> aj_playbook j2 = aj_playbook j)"
    using assms(4)
  proof (induction rule: rtranclp_induct)
    case base
    then show ?case using r1 from_request_Inr(1) [OF j(1)] by (simp add: j(2) add_job_simps)
  next
    case (step a b)
    then obtain j2 where j2: "hm_get (jc_jobs a) f = Some j2"
      and eq: "aj_target j2 = aj_target j" "aj_idempotency_key j2 = aj_idempotency_key j"
        "aj_parameter_hash j2 = aj_parameter_hash j" "aj_playbook j2 = aj_playbook j" by blast
    with step(2) obtain j3 where j3: "hm_get (jc_jobs b) f = Some j3"
      by (auto simp: keeps_target_def)
    have "same_contract j2 j3"
      using job_step_same_contract [OF _ _ j2 j3] step by blast
    then have "aj_target j3 = aj_target j2 \<and> aj_idempotency_key j3 = aj_idempotency_key j2
        \<and> aj_parameter_hash j3 = aj_parameter_hash j2 \<and> aj_playbook j3 = aj_playbook j2"
      unfolding same_contract_def
      by (metis ansible_job.select_convs(3,5,9,10) ansible_job.surjective
          ansible_job.update_convs(11,13))
    then show ?case using step j3 eq jr_step by auto
  qed
  then obtain j2 where j2: "hm_get (jc_jobs s2) f = Some j2" "jobs_ok s2"
    "aj_target j2 = aj_target j" "aj_idempotency_key j2 = aj_idempotency_key j"
    "aj_parameter_hash j2 = aj_parameter_hash j" "aj_playbook j2 = aj_playbook j"
    using jobs_reachable_ok by (auto simp: job_coordinator_ok_def)
  have "hm_get (jc_idempotency s2) (jr_target r2, jr_idempotency_key r2) = Some f"
    and "aj_id j2 = f"
    using jobs_ok_job [OF j2(2,1)] j2(3,4) from_request_Inr [OF j(1)] assms(5,6) by simp_all
  with j2 show ?thesis by (simp add: submit_def)
qed

theorem submit_idempotent_witness:
  "\<exists>j2. submit ansible_example 8 9 (job_request_example (lit ''a'') ModePlan)
       (moved_to 1 JChecking (submitted 1 (lit ''a'') job_coordinator_default)) =
       Inr (JobDuplicate j2, moved_to 1 JChecking (submitted 1 (lit ''a'') job_coordinator_default))
     \<and> aj_id j2 = 1
     \<and> aj_parameter_hash j2 = aj_parameter_hash (job_example 1 (lit ''a'') JQueued 0)
     \<and> aj_playbook j2 = aj_playbook (job_example 1 (lit ''a'') JQueued 0)"
proof (rule submit_idempotent [OF jr_init])
  let ?s1 = "submitted 1 (lit ''a'') job_coordinator_default"
  show "submit ansible_example 1 0 (job_request_example (lit ''a'') ModeApply) job_coordinator_default =
      Inr (JobCreated (job_example 1 (lit ''a'') JQueued 0), ?s1)" by code_simp
  have "transition 1 1 JChecking ?s1 =
      Inr (job_example 1 (lit ''a'') JChecking 1, moved_to 1 JChecking ?s1)" by code_simp
  moreover have "keeps_target 1 ?s1 (moved_to 1 JChecking ?s1)" by code_simp
  ultimately show "(\<lambda>a b. job_step ansible_example a b \<and> keeps_target 1 a b)\<^sup>*\<^sup>* ?s1
      (moved_to 1 JChecking ?s1)"
    by (blast intro: js_transition)
qed (code_simp | simp add: job_request_example_def)+

text \<open>
  Retrying: a job is put back in the queue exactly when it has failed, no other job holds its
  target and it is not an applied package update, which is never repeated; the target's lock is
  not taken by a retry, and each refusal names its reason.
\<close>

lemma retry_conditions:
  "case retry t i s of
     Inr (job, s') \<Rightarrow> (\<exists>job0. hm_get (jc_jobs s) i = Some job0 \<and> aj_status job0 = JFailed
        \<and> hm_get (jc_active_targets s) (aj_target job0) \<in> {None, Some i}
        \<and> (aj_operation job0 \<noteq> OpUpdatePackages \<or> aj_mode job0 \<noteq> ModeApply)
        \<and> job = job0\<lparr>aj_status := JQueued, aj_updated_at := t\<rparr>
        \<and> hm_get (jc_jobs s') i = Some job \<and> jc_active_targets s' = jc_active_targets s)
   | Inl err \<Rightarrow> (case hm_get (jc_jobs s) i of
        None \<Rightarrow> err = CoNotFound
      | Some job0 \<Rightarrow>
          err = (if hm_get (jc_active_targets s) (aj_target job0) \<in> {None, Some i}
                 then RetryNotAllowed else TargetBusy)
          \<and> (err = TargetBusy \<or> aj_status job0 \<noteq> JFailed
             \<or> aj_operation job0 = OpUpdatePackages \<and> aj_mode job0 = ModeApply))"
  unfolding retry_unfold lock_free_def Let_def by (cases "hm_get (jc_jobs s) i") auto

text \<open>
  Removing a target's jobs: refused with \<open>TargetBusy\<close> while a job of the target is active or
  the target is locked; otherwise exactly the jobs of that target, their idempotency keys and
  their events disappear, every other job keeps its record, key and events, and no lock changes.
\<close>

theorem remove_target_jobs_exact:
  assumes "jobs_reachable env s"
  shows "case remove_target_jobs tid s of
     Inl err \<Rightarrow> err = TargetBusy \<and> target_has_active_jobs s tid
   | Inr s' \<Rightarrow> (\<forall>i j. hm_get (jc_jobs s') i = Some j \<longleftrightarrow>
          hm_get (jc_jobs s) i = Some j \<and> aj_target j \<noteq> Target tid)
      \<and> (\<forall>tgt key. hm_get (jc_idempotency s') (tgt, key) =
          (if tgt = Target tid then None else hm_get (jc_idempotency s) (tgt, key)))
      \<and> (\<forall>i j. hm_get (jc_jobs s) i = Some j \<longrightarrow>
          jc_events_of s' i = (if aj_target j = Target tid then [] else jc_events_of s i))
      \<and> jc_active_targets s' = jc_active_targets s
      \<and> (\<forall>i j. hm_get (jc_jobs s) i = Some j \<longrightarrow> aj_target j = Target tid \<longrightarrow>
          aj_status j \<notin> {JChecking, JPlanned, JApplying, JReconcileRequired})"
proof (cases "remove_target_jobs tid s")
  case (Inl err)
  then show ?thesis by (auto simp: remove_target_jobs_def Let_def split: if_splits)
next
  case (Inr s')
  have ok: "job_coordinator_ok s" by (rule jobs_reachable_ok [OF assms])
  note r = remove_target_jobs_Inr [OF Inr ok]
  have idle: "aj_status j \<notin> {JChecking, JPlanned, JApplying, JReconcileRequired}"
    if "hm_get (jc_jobs s) i = Some j" "aj_target j = Target tid" for i j
  proof -
    have "j \<in> set (hm_values (jc_jobs s))"
      using ok that(1) by (auto simp: hm_get_values job_coordinator_ok_def maps_ok_def)
    with r(4) that(2) show ?thesis
      by (auto simp: target_has_active_jobs_def Let_def list_ex_iff)
  qed
  have jobs: "hm_get (jc_jobs s') i = Some j \<longleftrightarrow>
      hm_get (jc_jobs s) i = Some j \<and> aj_target j \<noteq> Target tid" for i j
    unfolding r(1) by (auto split: option.splits)
  have ev: "jc_events_of s' i = (if aj_target j = Target tid then [] else jc_events_of s i)"
    if "hm_get (jc_jobs s) i = Some j" for i j
    using that by (simp add: jc_events_of_def r(5))
  show ?thesis unfolding Inr sum.case using jobs r(2) ev r(3) idle by simp
qed

theorem remove_target_jobs_exact_witness:
  "remove_target_jobs 5 (moved_to 1 JChecking two_jobs) = Inl TargetBusy
   \<and> is_ok (remove_target_jobs 5 two_jobs)
   \<and> target_has_active_jobs (moved_to 1 JChecking two_jobs) 5"
proof -
  have b: "remove_target_jobs 5 (moved_to 1 JChecking two_jobs) = Inl TargetBusy"
    "is_ok (remove_target_jobs 5 two_jobs)" by code_simp+
  from remove_target_jobs_exact [OF moved_to_reachable [OF two_jobs_reachable, of 1 JChecking],
      of 5] b show ?thesis by simp
qed

lemma strip_prefix_append: "strip_prefix (p @ r) p = Some r"
  by (simp add: strip_prefix_Some_iff)

text \<open>
  The reconciliation key leads back to its source: with a UUID text form that parses back,
  the key of a reconciliation job names exactly the job that it reconciles, different source jobs
  never share a key, and a created reconciliation job is queued in reconcile mode on the same
  target with the same playbook and holds the target's lock.
\<close>

theorem reconciliation_key_roundtrip:
  assumes "\<And>u. ae_uuid_parse env (ae_uuid_to_string env u) = Some u"
  shows "reconciliation_source_job_id env (reconcile_idempotency_key env u) = Some u
    \<and> (reconcile_idempotency_key env u = reconcile_idempotency_key env v \<longleftrightarrow> u = v)
    \<and> (\<forall>f t src l s j s'. submit_reconciliation_with_lock env f t src l s = Inr (JobCreated j, s')
         \<longrightarrow> can_be_reconciled src \<and> aj_mode j = ModeReconcile \<and> aj_status j = JQueued
           \<and> aj_target j = aj_target src \<and> aj_playbook j = aj_playbook src
           \<and> reconciliation_source_job_id env (aj_idempotency_key j) = Some (aj_id src)
           \<and> hm_get (jc_active_targets s') (aj_target j) = Some (aj_id j))"
proof -
  have src: "reconciliation_source_job_id env (reconcile_idempotency_key env w) = Some w" for w
    by (simp add: reconciliation_source_job_id_def reconcile_idempotency_key_def assms
        strip_prefix_append)
  have inj: "reconcile_idempotency_key env u = reconcile_idempotency_key env v \<longleftrightarrow> u = v"
    using src [of u] src [of v] by (metis option.inject)
  have "can_be_reconciled c \<and> aj_mode j = ModeReconcile \<and> aj_status j = JQueued
           \<and> aj_target j = aj_target c \<and> aj_playbook j = aj_playbook c
           \<and> reconciliation_source_job_id env (aj_idempotency_key j) = Some (aj_id c)
           \<and> hm_get (jc_active_targets s') (aj_target j) = Some (aj_id j)"
    if "submit_reconciliation_with_lock env f t c l s = Inr (JobCreated j, s')"
    for f t c l s j s'
    using that
    by (cases rule: submit_reconciliation_Inr_cases) (auto simp: src add_job_simps)
  with src inj show ?thesis by blast
qed

theorem reconciliation_key_roundtrip_witness:
  "reconciliation_source_job_id ansible_example (reconcile_idempotency_key ansible_example 77) = Some 77"
proof -
  have "ae_uuid_parse ansible_example (ae_uuid_to_string ansible_example u) = Some u" for u
    by (simp add: ansible_example_def)
  from reconciliation_key_roundtrip [OF this, of 77] show ?thesis by blast
qed

end
