(* ===== verification/Schedule.thy ===== *)
theory Schedule
  imports Resources
begin

text \<open>
  The scheduling, maintenance-window and telemetry-alert decisions of \<open>lxcup-core\<close>:
  \<open>schedule.rs\<close>, \<open>policy.rs\<close> and \<open>telemetry_alerts.rs\<close>. Instants and durations are nanoseconds.
  The lemmas show that a schedule advances to the first slot of its own grid after the poll,
  that the maintenance window is the cyclic minute interval, and that an alert fires exactly
  when an unbroken run of recent samples stays above a threshold for long enough.
\<close>

section \<open>Schedules (schedule.rs)\<close>

definition seconds :: "int \<Rightarrow> int" where
  "seconds n = n * 1000000000"

definition minutes :: "int \<Rightarrow> int" where
  "minutes n = n * 60000000000"

datatype schedule_frequency = EveryMinutes u32

fun schedule_interval :: "schedule_frequency \<Rightarrow> int" where
  "schedule_interval (EveryMinutes m) = minutes (uint (max m 1))"

datatype threshold_metric =
  CpuBasisPoints | MemoryBasisPoints | StorageBasisPoints | HeartbeatAgeSeconds

datatype threshold_operator = GreaterThanOrEqual | LessThanOrEqual

record threshold_rule =
  tr_metric :: threshold_metric
  tr_operator :: threshold_operator
  tr_value :: u64

definition triggered :: "threshold_rule \<Rightarrow> u64 option \<Rightarrow> bool" where
  "triggered r actual =
     (case actual of
        None \<Rightarrow> False
      | Some a \<Rightarrow> (case tr_operator r of
            GreaterThanOrEqual \<Rightarrow> a \<ge> tr_value r
          | LessThanOrEqual \<Rightarrow> a \<le> tr_value r))"

record job_schedule =
  sd_id :: str
  sd_operation :: str
  sd_timezone :: str
  sd_target_ids :: "uuid list"
  sd_frequency :: schedule_frequency
  sd_enabled :: bool
  sd_threshold :: "threshold_rule option"
  sd_policy_id :: "str option"
  sd_backup_secret_ref :: "uuid option"
  sd_last_run_at :: "timestamp option"
  sd_next_run_at :: timestamp
  sd_last_error :: "str option"

definition is_due :: "job_schedule \<Rightarrow> timestamp \<Rightarrow> bool" where
  "is_due s now \<longleftrightarrow> sd_enabled s \<and> sd_next_run_at s \<le> now"

lemma schedule_interval_pos: "0 < schedule_interval f"
proof (cases f)
  case (EveryMinutes m)
  have "(1::u32) \<le> max m 1" by simp
  then have "1 \<le> uint (max m 1)" unfolding word_le_def by simp
  then show ?thesis by (simp add: EveryMinutes minutes_def)
qed

text \<open>The loop \<open>while next <= now { next += interval }\<close>.\<close>

function advance_loop :: "schedule_frequency \<Rightarrow> timestamp \<Rightarrow> timestamp \<Rightarrow> timestamp" where
  "advance_loop f now next =
     (if next \<le> now then advance_loop f now (next + schedule_interval f) else next)"
  by pat_completeness auto

termination
proof (relation "measure (\<lambda>(f, now, next). nat (now + 1 - next))")
  fix f :: schedule_frequency and now "next" :: timestamp
  assume "next \<le> now"
  then show "((f, now, next + schedule_interval f), f, now, next)
      \<in> measure (\<lambda>(f, now, next). nat (now + 1 - next))"
    using schedule_interval_pos [of f] by auto
qed simp

declare advance_loop.simps [simp del]

definition advance_after_run :: "timestamp \<Rightarrow> str option \<Rightarrow> job_schedule \<Rightarrow> job_schedule" where
  "advance_after_run now error s =
     s\<lparr>sd_last_run_at := Some now, sd_last_error := error,
       sd_next_run_at := advance_loop (sd_frequency s) now
         (sd_next_run_at s + schedule_interval (sd_frequency s))\<rparr>"

lemma advance_loop_slot:
  "\<exists>k. advance_loop f now next = next + int k * schedule_interval f
     \<and> now < advance_loop f now next
     \<and> (k = 0 \<or> advance_loop f now next - schedule_interval f \<le> now)"
proof (induction f now "next" rule: advance_loop.induct)
  case (1 f now "next")
  show ?case
  proof (cases "next \<le> now")
    case False
    then show ?thesis by (intro exI [of _ 0]) (simp add: advance_loop.simps)
  next
    case True
    with 1 obtain k where
      k: "advance_loop f now (next + schedule_interval f) =
            next + schedule_interval f + int k * schedule_interval f"
        "now < advance_loop f now (next + schedule_interval f)"
        "k = 0 \<or> advance_loop f now (next + schedule_interval f) - schedule_interval f \<le> now"
      by blast
    have eq: "advance_loop f now next = advance_loop f now (next + schedule_interval f)"
      using True by (subst advance_loop.simps) simp
    show ?thesis
      unfolding eq using k True by (intro exI [of _ "Suc k"]) (auto simp: algebra_simps)
  qed
qed

text \<open>
  C40. A schedule advances on its own grid: after a run the next slot lies strictly after the poll
  time, is the old slot plus a positive whole number of intervals (of at least one minute), and
  is the first such slot after the poll; so however many slots were missed, the schedule is not
  due again before it, and it is due again then exactly if it is enabled.
\<close>

theorem advance_after_run_grid:
  "let s' = advance_after_run now err s; i = schedule_interval (sd_frequency s) in
     minutes 1 \<le> i
   \<and> (\<exists>k\<ge>1. sd_next_run_at s' = sd_next_run_at s + int k * i)
   \<and> now < sd_next_run_at s'
   \<and> (\<forall>k\<ge>1. now < sd_next_run_at s + int k * i \<longrightarrow>
        sd_next_run_at s' \<le> sd_next_run_at s + int k * i)
   \<and> (\<forall>t. is_due s' t \<longleftrightarrow> sd_enabled s \<and> sd_next_run_at s' \<le> t)
   \<and> \<not> is_due s' now \<and> sd_last_run_at s' = Some now \<and> sd_last_error s' = err"
proof -
  define i where "i = schedule_interval (sd_frequency s)"
  define n where "n = sd_next_run_at (advance_after_run now err s)"
  have i: "minutes 1 \<le> i" "0 < i"
    unfolding i_def using schedule_interval_pos [of "sd_frequency s"]
    by (cases "sd_frequency s"; simp add: minutes_def)+
  have n: "n = advance_loop (sd_frequency s) now (sd_next_run_at s + i)"
    by (simp add: n_def advance_after_run_def i_def)
  obtain k where k: "n = sd_next_run_at s + i + int k * i" "now < n" "k = 0 \<or> n - i \<le> now"
    using advance_loop_slot [of "sd_frequency s" now "sd_next_run_at s + i"]
    unfolding n i_def [symmetric] by blast
  have grid: "\<exists>k\<ge>1. n = sd_next_run_at s + int k * i"
    using k(1) by (intro exI [of _ "Suc k"]) (simp add: algebra_simps)
  have least: "n \<le> sd_next_run_at s + int m * i"
    if "1 \<le> m" "now < sd_next_run_at s + int m * i" for m :: nat
  proof (rule ccontr)
    assume "\<not> ?thesis"
    then have "int m * i < int (Suc k) * i" using k(1) by (simp add: algebra_simps)
    then have "int m < int (Suc k)" using i(2) by (simp only: mult_less_cancel_right)
    with that(1) have m: "1 \<le> k" "int m * i \<le> int k * i"
      using i(2) by (auto intro: mult_right_mono)
    have "n - i = sd_next_run_at s + int k * i" using k(1) by simp
    with m k(3) that(2) show False by linarith
  qed
  have "is_due (advance_after_run now err s) t \<longleftrightarrow> sd_enabled s \<and> n \<le> t" for t
    by (simp add: is_due_def n_def advance_after_run_def)
  with i(1) grid k(2) least show ?thesis
    unfolding Let_def i_def [symmetric] n_def [symmetric]
    by (simp add: advance_after_run_def)
qed

definition schedule_example :: job_schedule where
  "schedule_example = \<lparr>sd_id = lit ''inventory'', sd_operation = lit ''collect_package_inventory'',
     sd_timezone = lit ''Europe/Berlin'', sd_target_ids = [5], sd_frequency = EveryMinutes 5,
     sd_enabled = True, sd_threshold = None, sd_policy_id = None, sd_backup_secret_ref = None,
     sd_last_run_at = None, sd_next_run_at = minutes 10, sd_last_error = None\<rparr>"

theorem advance_after_run_grid_witness:
  "sd_next_run_at (advance_after_run (minutes 27) None schedule_example) = minutes 30
   \<and> minutes 27 < sd_next_run_at (advance_after_run (minutes 27) None schedule_example)"
proof
  show "sd_next_run_at (advance_after_run (minutes 27) None schedule_example) = minutes 30"
    by code_simp
  show "minutes 27 < sd_next_run_at (advance_after_run (minutes 27) None schedule_example)"
    using advance_after_run_grid [of "minutes 27" None schedule_example] unfolding Let_def by blast
qed

section \<open>Update policies (policy.rs)\<close>

datatype update_risk = Low | Medium | High

fun risk_rank :: "update_risk \<Rightarrow> nat" where
  "risk_rank Low = 0"
| "risk_rank Medium = 1"
| "risk_rank High = 2"

instantiation update_risk :: linorder
begin

definition less_eq_update_risk :: "update_risk \<Rightarrow> update_risk \<Rightarrow> bool" where
  "less_eq_update_risk a b \<longleftrightarrow> risk_rank a \<le> risk_rank b"

definition less_update_risk :: "update_risk \<Rightarrow> update_risk \<Rightarrow> bool" where
  "less_update_risk a b \<longleftrightarrow> risk_rank a < risk_rank b"

instance
proof
  fix x y z :: update_risk
  show "x < y \<longleftrightarrow> x \<le> y \<and> \<not> y \<le> x"
    by (auto simp: less_eq_update_risk_def less_update_risk_def)
  show "x \<le> x" by (simp add: less_eq_update_risk_def)
  show "x \<le> y \<Longrightarrow> y \<le> z \<Longrightarrow> x \<le> z" by (simp add: less_eq_update_risk_def)
  show "x \<le> y \<Longrightarrow> y \<le> x \<Longrightarrow> x = y"
    by (cases x; cases y) (simp_all add: less_eq_update_risk_def)
  show "x \<le> y \<or> y \<le> x" by (auto simp: less_eq_update_risk_def)
qed

end

record update_policy =
  po_id :: str
  po_allowed_targets :: "uuid list"
  po_allowed_packages :: "str list"
  po_maintenance_start_minute :: u16
  po_maintenance_end_minute :: u16
  po_timezone :: str
  po_maximum_risk :: update_risk
  po_enabled :: bool

text \<open>\<open>chrono::Timelike\<close> on a UTC instant.\<close>

definition utc_hour :: "timestamp \<Rightarrow> int" where
  "utc_hour at = (at div minutes 60) mod 24"

definition utc_minute :: "timestamp \<Rightarrow> int" where
  "utc_minute at = (at div minutes 1) mod 60"

definition policy_allows :: "update_policy \<Rightarrow> uuid \<Rightarrow> str \<Rightarrow> update_risk \<Rightarrow> timestamp \<Rightarrow> bool" where
  "policy_allows p target package risk at =
     (if \<not> po_enabled p \<or> target \<notin> set (po_allowed_targets p) \<or> risk > po_maximum_risk p
         \<or> (po_allowed_packages p \<noteq> []
            \<and> \<not> list_ex (\<lambda>item. item = package) (po_allowed_packages p)) then False
      else
        (let minute = (word_of_int (utc_hour at * 60 + utc_minute at) :: u16) in
         if po_maintenance_start_minute p \<le> po_maintenance_end_minute p then
           po_maintenance_start_minute p \<le> minute \<and> minute \<le> po_maintenance_end_minute p
         else
           minute \<ge> po_maintenance_start_minute p \<or> minute \<le> po_maintenance_end_minute p))"

text \<open>The minute of the day, and the specification of a maintenance window: cyclic intervals.\<close>

definition minute_of_day :: "timestamp \<Rightarrow> int" where
  "minute_of_day at = (at div minutes 1) mod 1440"

lemma minute_of_day_range: "0 \<le> minute_of_day at" "minute_of_day at < 1440"
  by (simp_all add: minute_of_day_def)

lemma utc_minute_of_day: "utc_hour at * 60 + utc_minute at = minute_of_day at"
proof -
  have "at div minutes 60 = at div minutes 1 div 60"
    by (simp add: minutes_def zdiv_zmult2_eq)
  then show ?thesis
    using zmod_zmult2_eq [of 24 "at div minutes 1" 60]
    by (simp add: utc_hour_def utc_minute_def minute_of_day_def)
qed

lemma uint_minute_word: "uint (word_of_int (minute_of_day at) :: u16) = minute_of_day at"
  using minute_of_day_range [of at] by (simp add: uint_word_of_int take_bit_int_eq_self)

definition in_window :: "int \<Rightarrow> int \<Rightarrow> int \<Rightarrow> bool" where
  "in_window start stop m \<longleftrightarrow> (m - start) mod 1440 \<le> (stop - start) mod 1440"

lemma in_window_iff:
  assumes "0 \<le> start" "start < 1440" "0 \<le> stop" "stop < 1440" "0 \<le> m" "m < 1440"
  shows "in_window start stop m \<longleftrightarrow>
     (if start \<le> stop then start \<le> m \<and> m \<le> stop else start \<le> m \<or> m \<le> stop)"
proof -
  have w: "(a - b) mod 1440 = (if b \<le> a then a - b else a - b + 1440)"
    if "0 \<le> a" "a < 1440" "0 \<le> b" "b < 1440" for a b :: int
  proof (cases "b \<le> a")
    case True
    with that show ?thesis by simp
  next
    case False
    have "(a - b) mod 1440 = (a - b + 1440) mod 1440" by simp
    also have "\<dots> = a - b + 1440" using False that by (intro mod_pos_pos_trivial) auto
    finally show ?thesis using False by simp
  qed
  show ?thesis
    unfolding in_window_def w [OF assms(5,6,1,2)] w [OF assms(3,4,1,2)] using assms by auto
qed

text \<open>
  A policy allows an update exactly when it is enabled, lists the target, tolerates the risk,
  lists the package (or lists none at all), and the UTC minute of the day lies in the cyclic
  maintenance window from its first to its last minute, both included, across midnight too; the
  policy's time zone has no influence.
\<close>

theorem policy_allows_iff:
  assumes "po_maintenance_start_minute p < 1440" and "po_maintenance_end_minute p < 1440"
  shows "policy_allows (p\<lparr>po_timezone := tz\<rparr>) target package risk at \<longleftrightarrow>
     po_enabled p \<and> target \<in> set (po_allowed_targets p) \<and> risk \<le> po_maximum_risk p
     \<and> (po_allowed_packages p = [] \<or> package \<in> set (po_allowed_packages p))
     \<and> in_window (uint (po_maintenance_start_minute p)) (uint (po_maintenance_end_minute p))
          (minute_of_day at)"
proof -
  have b: "uint (po_maintenance_start_minute p) < 1440" "uint (po_maintenance_end_minute p) < 1440"
    using assms by (simp_all add: word_less_def)
  have w: "in_window (uint (po_maintenance_start_minute p)) (uint (po_maintenance_end_minute p))
      (minute_of_day at) \<longleftrightarrow>
     (let minute = (word_of_int (minute_of_day at) :: u16) in
      if po_maintenance_start_minute p \<le> po_maintenance_end_minute p then
        po_maintenance_start_minute p \<le> minute \<and> minute \<le> po_maintenance_end_minute p
      else minute \<ge> po_maintenance_start_minute p \<or> minute \<le> po_maintenance_end_minute p)"
    using in_window_iff [OF _ b(1) _ b(2) minute_of_day_range [of at]]
    by (simp add: Let_def word_le_def uint_minute_word)
  show ?thesis
    unfolding w by (auto simp: policy_allows_def utc_minute_of_day list_ex_iff not_less)
qed

definition policy_example :: update_policy where
  "policy_example = \<lparr>po_id = lit ''overnight'', po_allowed_targets = [5], po_allowed_packages = [],
     po_maintenance_start_minute = 1380, po_maintenance_end_minute = 60,
     po_timezone = lit ''UTC'', po_maximum_risk = Medium, po_enabled = True\<rparr>"

theorem policy_allows_iff_witness:
  "policy_allows (policy_example\<lparr>po_timezone := lit ''Europe/Berlin''\<rparr>) 5 (lit ''curl'') Low (minutes 30)
   \<and> \<not> policy_allows (policy_example\<lparr>po_timezone := lit ''Europe/Berlin''\<rparr>) 5 (lit ''curl'') Low
        (minutes 600)"
proof -
  have "po_maintenance_start_minute policy_example < 1440"
    "po_maintenance_end_minute policy_example < 1440" by (simp_all add: policy_example_def)
  note iff = policy_allows_iff [OF this]
  show ?thesis
    unfolding iff
    by (simp add: policy_example_def in_window_def minute_of_day_def minutes_def
        less_eq_update_risk_def)
qed

section \<open>Telemetry alerts (telemetry\_alerts.rs)\<close>

record telemetry_load_sample =
  ls_collected_at :: timestamp
  ls_cpu_basis_points :: "u16 option"
  ls_memory_basis_points :: "u16 option"
  ls_storage_basis_points :: "u16 option"

datatype telemetry_metric = Cpu | Memory | Storage

fun metric_label :: "telemetry_metric \<Rightarrow> str" where
  "metric_label Cpu = lit ''CPU''"
| "metric_label Memory = lit ''RAM''"
| "metric_label Storage = lit ''Speicher''"

datatype telemetry_alert_severity = Warning | Critical

fun severity_label :: "telemetry_alert_severity \<Rightarrow> str" where
  "severity_label Warning = lit ''Warnung''"
| "severity_label Critical = lit ''Kritisch''"

record telemetry_threshold_alert =
  ta_metric :: telemetry_metric
  ta_severity :: telemetry_alert_severity
  ta_value_basis_points :: u16
  ta_threshold_basis_points :: u16
  ta_triggered_at :: timestamp
  ta_observed_at :: timestamp

record threshold =
  th_value :: u16
  th_duration :: int

record alert_rule =
  ru_metric :: telemetry_metric
  ru_warning :: threshold
  ru_critical :: threshold

definition alert_rules :: "alert_rule list" where
  "alert_rules =
     [\<lparr>ru_metric = Cpu, ru_warning = \<lparr>th_value = 9000, th_duration = minutes 5\<rparr>,
       ru_critical = \<lparr>th_value = 9800, th_duration = minutes 2\<rparr>\<rparr>,
      \<lparr>ru_metric = Memory, ru_warning = \<lparr>th_value = 9000, th_duration = minutes 5\<rparr>,
       ru_critical = \<lparr>th_value = 9500, th_duration = minutes 2\<rparr>\<rparr>,
      \<lparr>ru_metric = Storage, ru_warning = \<lparr>th_value = 8500, th_duration = minutes 10\<rparr>,
       ru_critical = \<lparr>th_value = 9500, th_duration = minutes 5\<rparr>\<rparr>]"

definition max_sample_gap :: int where
  "max_sample_gap = seconds 7"

fun metric_value :: "telemetry_load_sample \<Rightarrow> telemetry_metric \<Rightarrow> u16 option" where
  "metric_value s Cpu = ls_cpu_basis_points s"
| "metric_value s Memory = ls_memory_basis_points s"
| "metric_value s Storage = ls_storage_basis_points s"

text \<open>The loop of \<open>sustained_start\<close> over the samples from the newest to the oldest.\<close>

fun sustained_loop ::
  "telemetry_metric \<Rightarrow> u16 \<Rightarrow> timestamp option \<Rightarrow> timestamp option \<Rightarrow> telemetry_load_sample list
     \<Rightarrow> timestamp option" where
  "sustained_loop m th streak_start previous [] = streak_start"
| "sustained_loop m th streak_start previous (s # rest) =
     (case metric_value s m of
        None \<Rightarrow> streak_start
      | Some value \<Rightarrow>
          if value < th then streak_start
          else if (case previous of None \<Rightarrow> False
                   | Some time \<Rightarrow> time - ls_collected_at s > max_sample_gap) then streak_start
          else sustained_loop m th (Some (ls_collected_at s)) (Some (ls_collected_at s)) rest)"

definition sustained_start ::
  "telemetry_load_sample list \<Rightarrow> telemetry_metric \<Rightarrow> u16 \<Rightarrow> timestamp option" where
  "sustained_start samples m th = sustained_loop m th None None (rev samples)"

definition evaluate_rule ::
  "alert_rule \<Rightarrow> telemetry_load_sample list \<Rightarrow> telemetry_load_sample
     \<Rightarrow> telemetry_threshold_alert option" where
  "evaluate_rule r samples latest =
     (case metric_value latest (ru_metric r) of
        None \<Rightarrow> None
      | Some latest_value \<Rightarrow>
         (let alert = (\<lambda>severity th start. \<lparr>ta_metric = ru_metric r, ta_severity = severity,
                ta_value_basis_points = latest_value, ta_threshold_basis_points = th_value th,
                ta_triggered_at = start + th_duration th,
                ta_observed_at = ls_collected_at latest\<rparr>);
              sustained = (\<lambda>th start. ls_collected_at latest - start \<ge> th_duration th)
          in case sustained_start samples (ru_metric r) (th_value (ru_critical r)) of
               Some start \<Rightarrow>
                 if sustained (ru_critical r) start then Some (alert Critical (ru_critical r) start)
                 else (case sustained_start samples (ru_metric r) (th_value (ru_warning r)) of
                     None \<Rightarrow> None
                   | Some wstart \<Rightarrow>
                       if sustained (ru_warning r) wstart
                       then Some (alert Warning (ru_warning r) wstart) else None)
             | None \<Rightarrow>
                 (case sustained_start samples (ru_metric r) (th_value (ru_warning r)) of
                     None \<Rightarrow> None
                   | Some wstart \<Rightarrow>
                       if sustained (ru_warning r) wstart
                       then Some (alert Warning (ru_warning r) wstart) else None)))"

definition evaluate_telemetry_thresholds ::
  "telemetry_load_sample list \<Rightarrow> telemetry_threshold_alert list" where
  "evaluate_telemetry_thresholds samples =
     (let ordered = sort_key ls_collected_at samples in
      if ordered = [] then []
      else List.map_filter (\<lambda>r. evaluate_rule r ordered (last ordered)) alert_rules)"

text \<open>The specification: an unbroken run of samples at or above a threshold.\<close>

definition above :: "telemetry_metric \<Rightarrow> u16 \<Rightarrow> telemetry_load_sample \<Rightarrow> bool" where
  "above m th s \<longleftrightarrow> (case metric_value s m of None \<Rightarrow> False | Some v \<Rightarrow> th \<le> v)"

definition sustained_run :: "telemetry_metric \<Rightarrow> u16 \<Rightarrow> telemetry_load_sample list \<Rightarrow> bool" where
  "sustained_run m th zs \<longleftrightarrow> zs \<noteq> [] \<and> list_all (above m th) zs
     \<and> successively (\<lambda>a b. ls_collected_at b - ls_collected_at a \<le> max_sample_gap) zs"

definition load_sustained ::
  "telemetry_load_sample list \<Rightarrow> telemetry_metric \<Rightarrow> threshold \<Rightarrow> bool" where
  "load_sustained samples m th \<longleftrightarrow>
     (\<exists>ys zs. sort_key ls_collected_at samples = ys @ zs \<and> sustained_run m (th_value th) zs
        \<and> th_duration th \<le> ls_collected_at (last zs) - ls_collected_at (hd zs))"

text \<open>The same run read from the newest sample, after an earlier one at \<open>previous\<close>.\<close>

fun back_run :: "telemetry_metric \<Rightarrow> u16 \<Rightarrow> timestamp option \<Rightarrow> telemetry_load_sample list \<Rightarrow> bool" where
  "back_run m th p [] \<longleftrightarrow> True"
| "back_run m th p (s # ss) \<longleftrightarrow> above m th s
     \<and> (case p of None \<Rightarrow> True | Some t \<Rightarrow> t - ls_collected_at s \<le> max_sample_gap)
     \<and> back_run m th (Some (ls_collected_at s)) ss"

lemma back_run_iff:
  "back_run m th p rs \<longleftrightarrow> list_all (above m th) rs
     \<and> successively (\<lambda>b a. ls_collected_at b - ls_collected_at a \<le> max_sample_gap) rs
     \<and> (case p of Some t \<Rightarrow> rs = [] \<or> t - ls_collected_at (hd rs) \<le> max_sample_gap | None \<Rightarrow> True)"
  by (induction rs arbitrary: p) (auto simp: successively_Cons split: option.splits)

lemma sustained_run_back: "sustained_run m th zs \<longleftrightarrow> zs \<noteq> [] \<and> back_run m th None (rev zs)"
  by (auto simp: sustained_run_def back_run_iff list_all_iff)

lemma sustained_loop_step:
  "sustained_loop m th st p (s # rest) =
     (if above m th s \<and> (case p of None \<Rightarrow> True | Some t \<Rightarrow> t - ls_collected_at s \<le> max_sample_gap)
      then sustained_loop m th (Some (ls_collected_at s)) (Some (ls_collected_at s)) rest
      else st)"
  by (auto simp: above_def split: option.splits)

lemma sustained_loop_sound:
  "sustained_loop m th st p rs = Some t \<Longrightarrow>
     st = Some t \<or> (\<exists>as bs. rs = as @ bs \<and> as \<noteq> [] \<and> back_run m th p as
        \<and> ls_collected_at (last as) = t)"
proof (induction rs arbitrary: st p)
  case Nil
  then show ?case by simp
next
  case (Cons s rs)
  show ?case
  proof (cases "back_run m th p [s]")
    case False
    with Cons.prems show ?thesis by (auto simp: sustained_loop_step simp del: sustained_loop.simps)
  next
    case True
    with Cons.prems have "sustained_loop m th (Some (ls_collected_at s)) (Some (ls_collected_at s)) rs
        = Some t"
      by (simp add: sustained_loop_step del: sustained_loop.simps)
    from Cons.IH [OF this] consider "ls_collected_at s = t"
      | as bs where "rs = as @ bs" "as \<noteq> []" "back_run m th (Some (ls_collected_at s)) as"
        "ls_collected_at (last as) = t"
      by auto
    then show ?thesis
    proof cases
      case 1
      with True show ?thesis by (intro disjI2 exI [of _ "[s]"] exI [of _ rs]) simp
    next
      case (2 as bs)
      with True show ?thesis by (intro disjI2 exI [of _ "s # as"] exI [of _ bs]) simp
    qed
  qed
qed

lemma sustained_loop_earlier:
  "\<forall>s\<in>set rs. ls_collected_at s \<le> x \<Longrightarrow> sorted_wrt (\<lambda>a b. ls_collected_at b \<le> ls_collected_at a) rs \<Longrightarrow>
     \<exists>t\<le>x. sustained_loop m th (Some x) p rs = Some t"
proof (induction rs arbitrary: x p)
  case (Cons s rs)
  then have "\<exists>t\<le>ls_collected_at s. sustained_loop m th (Some (ls_collected_at s))
      (Some (ls_collected_at s)) rs = Some t" by simp
  with Cons.prems(1) show ?case
    by (auto simp: sustained_loop_step simp del: sustained_loop.simps)
qed simp

lemma sustained_loop_complete:
  "back_run m th p as \<Longrightarrow> as \<noteq> [] \<Longrightarrow>
     sorted_wrt (\<lambda>a b. ls_collected_at b \<le> ls_collected_at a) (as @ bs) \<Longrightarrow>
     \<exists>t\<le>ls_collected_at (last as). sustained_loop m th st p (as @ bs) = Some t"
proof (induction as arbitrary: p st)
  case (Cons s as)
  then have step: "sustained_loop m th st p ((s # as) @ bs) =
      sustained_loop m th (Some (ls_collected_at s)) (Some (ls_collected_at s)) (as @ bs)"
    by (simp add: sustained_loop_step del: sustained_loop.simps)
  show ?case
  proof (cases "as = []")
    case True
    with Cons.prems(3) show ?thesis
      unfolding step using sustained_loop_earlier [of bs "ls_collected_at s"] by auto
  next
    case False
    with Cons show ?thesis unfolding step by simp
  qed
qed simp

lemma sort_key_nonempty: "sort_key f xs = [] \<longleftrightarrow> xs = []"
  by (metis length_0_conv length_sort)

lemma sorted_rev_samples:
  "sorted_wrt (\<lambda>a b. ls_collected_at b \<le> ls_collected_at a) (rev (sort_key ls_collected_at xs))"
  using sorted_sort_key [of ls_collected_at xs] by (simp add: sorted_map sorted_wrt_rev)

text \<open>The start found by the loop is early enough exactly when the load is sustained.\<close>

lemma sustained_start_iff:
  assumes "xs \<noteq> []"
  defines "ordered \<equiv> sort_key ls_collected_at xs"
  shows "(\<exists>t. sustained_start ordered m (th_value th) = Some t
            \<and> th_duration th \<le> ls_collected_at (last ordered) - t) \<longleftrightarrow> load_sustained xs m th"
proof
  assume "\<exists>t. sustained_start ordered m (th_value th) = Some t
            \<and> th_duration th \<le> ls_collected_at (last ordered) - t"
  then obtain t where t: "sustained_loop m (th_value th) None None (rev ordered) = Some t"
    "th_duration th \<le> ls_collected_at (last ordered) - t"
    unfolding sustained_start_def by blast
  from sustained_loop_sound [OF t(1)] t(2)
  obtain as bs where r: "rev ordered = as @ bs" "as \<noteq> []" "back_run m (th_value th) None as"
    and d: "th_duration th \<le> ls_collected_at (last ordered) - ls_collected_at (last as)"
    by auto
  have "ordered = rev bs @ rev as" using r(1) by (metis rev_append rev_rev_ident)
  moreover have "sustained_run m (th_value th) (rev as)" using r by (simp add: sustained_run_back)
  moreover have "ls_collected_at (hd (rev as)) = ls_collected_at (last as)"
    using r(2) by (simp add: hd_rev)
  moreover have "last ordered = last (rev as)" using calculation(1) r(2) by simp
  ultimately show "load_sustained xs m th"
    unfolding load_sustained_def ordered_def [symmetric] using d by metis
next
  assume "load_sustained xs m th"
  then obtain ys zs where z: "ordered = ys @ zs" "zs \<noteq> []" "back_run m (th_value th) None (rev zs)"
    "th_duration th \<le> ls_collected_at (last zs) - ls_collected_at (hd zs)"
    unfolding load_sustained_def ordered_def [symmetric] by (auto simp: sustained_run_back)
  obtain t where "t \<le> ls_collected_at (last (rev zs))"
    "sustained_loop m (th_value th) None None (rev zs @ rev ys) = Some t"
    using sustained_loop_complete [OF z(3), of "rev ys" None] z(1,2) sorted_rev_samples [of xs]
    by (auto simp: ordered_def)
  with z show "\<exists>t. sustained_start ordered m (th_value th) = Some t
            \<and> th_duration th \<le> ls_collected_at (last ordered) - t"
    by (intro exI [of _ t]) (simp add: sustained_start_def last_rev)
qed

lemma sustained_start_above:
  "ordered \<noteq> [] \<Longrightarrow> sustained_start ordered m th = Some t \<Longrightarrow> above m th (last ordered)"
  by (cases ordered rule: rev_cases)
     (auto simp: sustained_start_def sustained_loop_step simp del: sustained_loop.simps split: if_splits)

text \<open>The verdict of one rule.\<close>

definition rule_verdict :: "telemetry_load_sample list \<Rightarrow> alert_rule \<Rightarrow> telemetry_alert_severity option" where
  "rule_verdict samples r =
     (if load_sustained samples (ru_metric r) (ru_critical r) then Some Critical
      else if load_sustained samples (ru_metric r) (ru_warning r) then Some Warning
      else None)"

definition alert_sound :: "alert_rule \<Rightarrow> telemetry_threshold_alert \<Rightarrow> bool" where
  "alert_sound r a \<longleftrightarrow> ta_metric a = ru_metric r
     \<and> ta_threshold_basis_points a \<le> ta_value_basis_points a
     \<and> ta_triggered_at a \<le> ta_observed_at a"

lemma evaluate_rule_verdict:
  assumes "xs \<noteq> []"
  shows "map_option ta_severity (evaluate_rule r (sort_key ls_collected_at xs)
           (last (sort_key ls_collected_at xs))) = rule_verdict xs r"
    and "evaluate_rule r (sort_key ls_collected_at xs) (last (sort_key ls_collected_at xs)) = Some a
         \<Longrightarrow> alert_sound r a"
proof -
  define ordered where "ordered = sort_key ls_collected_at xs"
  have ne: "ordered \<noteq> []" using assms by (simp add: ordered_def sort_key_nonempty)
  note iff = sustained_start_iff [OF assms, folded ordered_def]
  have crit: "load_sustained xs (ru_metric r) (ru_critical r) \<longleftrightarrow>
      (case sustained_start ordered (ru_metric r) (th_value (ru_critical r)) of None \<Rightarrow> False
       | Some t \<Rightarrow> th_duration (ru_critical r) \<le> ls_collected_at (last ordered) - t)"
    unfolding iff [symmetric] by (auto split: option.splits)
  have warn: "load_sustained xs (ru_metric r) (ru_warning r) \<longleftrightarrow>
      (case sustained_start ordered (ru_metric r) (th_value (ru_warning r)) of None \<Rightarrow> False
       | Some t \<Rightarrow> th_duration (ru_warning r) \<le> ls_collected_at (last ordered) - t)"
    unfolding iff [symmetric] by (auto split: option.splits)
  have top: "sustained_start ordered (ru_metric r) th = Some t \<Longrightarrow>
      \<exists>v. metric_value (last ordered) (ru_metric r) = Some v \<and> th \<le> v" for th t
    using sustained_start_above [OF ne] by (force simp: above_def split: option.splits)
  show "map_option ta_severity (evaluate_rule r (sort_key ls_collected_at xs)
           (last (sort_key ls_collected_at xs))) = rule_verdict xs r"
    unfolding ordered_def [symmetric] rule_verdict_def crit warn
    using top by (auto simp: evaluate_rule_def Let_def split: option.splits)
  show "alert_sound r a"
    if "evaluate_rule r (sort_key ls_collected_at xs) (last (sort_key ls_collected_at xs)) = Some a"
    using that top unfolding ordered_def [symmetric]
    by (force simp: evaluate_rule_def Let_def alert_sound_def split: option.splits if_splits)
qed

text \<open>
  Telemetry alerts are exact: there is one alert per rule whose verdict asks for one, in the
  order of the rules, and the verdict is Critical exactly when some unbroken run of samples up to
  the newest one (no value missing, no gap over seven seconds) stays at or above the critical
  threshold for the critical duration, and otherwise Warning exactly when such a run exists for
  the warning threshold and duration. Every alert reports a value at or above its threshold and
  a trigger time no later than the newest sample.
\<close>

theorem telemetry_alerts_exact:
  "map (\<lambda>a. (ta_metric a, ta_severity a)) (evaluate_telemetry_thresholds samples) =
     List.map_filter (\<lambda>r. map_option (\<lambda>v. (ru_metric r, v)) (rule_verdict samples r)) alert_rules
   \<and> list_all (\<lambda>a. ta_threshold_basis_points a \<le> ta_value_basis_points a
        \<and> ta_triggered_at a \<le> ta_observed_at a) (evaluate_telemetry_thresholds samples)"
proof (cases "samples = []")
  case True
  then have "\<not> load_sustained samples m th" for m th
    by (simp add: load_sustained_def sustained_run_def)
  with True show ?thesis
    by (simp add: evaluate_telemetry_thresholds_def rule_verdict_def alert_rules_def
        List.map_filter_def Let_def)
next
  case False
  note v = evaluate_rule_verdict [OF False]
  define ev where "ev r = evaluate_rule r (sort_key ls_collected_at samples)
     (last (sort_key ls_collected_at samples))" for r
  have e: "evaluate_telemetry_thresholds samples = List.map_filter ev alert_rules"
    using False
    by (simp add: evaluate_telemetry_thresholds_def ev_def [abs_def] Let_def sort_key_nonempty)
  have sev: "rule_verdict samples r = map_option ta_severity (ev r)" for r
    using v(1) by (simp add: ev_def)
  have sound: "ev r = Some a \<Longrightarrow> alert_sound r a" for r a
    using v(2) by (simp add: ev_def)
  have "map (\<lambda>a. (ta_metric a, ta_severity a)) (List.map_filter ev rs) =
     List.map_filter (\<lambda>r. map_option (\<lambda>v. (ru_metric r, v)) (rule_verdict samples r)) rs" for rs
    by (induction rs)
       (auto simp: sev map_filter_simps dest: sound simp: alert_sound_def split: option.splits)
  moreover have "list_all (\<lambda>a. ta_threshold_basis_points a \<le> ta_value_basis_points a
        \<and> ta_triggered_at a \<le> ta_observed_at a) (List.map_filter ev rs)" for rs
    by (induction rs)
       (auto simp: map_filter_simps dest: sound simp: alert_sound_def split: option.splits)
  ultimately show ?thesis unfolding e by blast
qed

end
