(* ===== verification/Apt.thy ===== *)
theory Apt
  imports Updates
begin

text \<open>
  \<open>lxcup-apt/src/lib.rs\<close>: the read-only inspection command, the parser of the line-oriented
  scanner output and the scan built from one execution. The lemmas show a print/parse round trip,
  how every record is classified, and that a scan always ends in a final status or a parse error.
\<close>

section \<open>Model\<close>

record apt_inspection_request =
  ir_container_id :: u64
  ir_operating_system :: operating_system

datatype apt_parse_error =
    MalformedLine str
  | MissingField str
  | InvalidBoolean str
  | AptInvalidPackageName
  | AptInvalidPackageVersion

datatype apt_error =
    InvalidContainerId
  | UnsupportedOperatingSystem
  | AptParse apt_parse_error

definition command_arguments :: "apt_inspection_request \<Rightarrow> apt_error + str list" where
  "command_arguments r =
     (if ir_container_id r = 0 then Inl InvalidContainerId
      else (case ir_operating_system r of
          Debian \<Rightarrow> Inr [lit ''apt-cache'', lit ''policy'']
        | Ubuntu \<Rightarrow> Inr [lit ''apt-cache'', lit ''policy'']
        | UnknownOs _ \<Rightarrow> Inl UnsupportedOperatingSystem))"

record apt_execution_result =
  ax_stdout :: str
  ax_stderr :: str
  ax_exit_code :: "i32 option"

record apt_package_record =
  ap_package :: str
  ap_installed_version :: str
  ap_candidate_version :: "str option"
  ap_classification :: update_classification
  ap_held :: bool
  ap_authenticated :: bool

definition into_available_update :: "apt_package_record \<Rightarrow> apt_parse_error + available_update" where
  "into_available_update r =
     bindR (ok_or (MissingField (lit ''Candidate'')) (ap_candidate_version r)) (\<lambda>candidate.
     bindR (map_err (\<lambda>_. AptInvalidPackageName) (package_name_new (ap_package r))) (\<lambda>package.
     bindR (map_err (\<lambda>_. AptInvalidPackageVersion) (package_version_new (ap_installed_version r)))
       (\<lambda>installed.
     bindR (map_err (\<lambda>_. AptInvalidPackageVersion) (package_version_new candidate)) (\<lambda>cv.
       Inr \<lparr>au_package = package, au_installed_version = installed, au_candidate_version = cv,
            au_classification = ap_classification r, au_held = ap_held r\<rparr>))))"

definition parse_bool :: "str \<Rightarrow> apt_parse_error + bool" where
  "parse_bool value =
     (let v = to_ascii_lowercase value in
      if v \<in> {lit ''yes'', lit ''true'', lit ''1''} then Inr True
      else if v \<in> {lit ''no'', lit ''false'', lit ''0''} then Inr False
      else Inl (InvalidBoolean value))"

text \<open>The local variables of the parser's loop over one block.\<close>

record apt_fields =
  fl_package :: "str option"
  fl_installed :: "str option"
  fl_candidate :: "str option"
  fl_security :: bool
  fl_held :: bool
  fl_authenticated :: bool

definition fields_init :: apt_fields where
  "fields_init = \<lparr>fl_package = None, fl_installed = None, fl_candidate = None,
     fl_security = False, fl_held = False, fl_authenticated = True\<rparr>"

definition parse_line :: "str \<Rightarrow> apt_fields \<Rightarrow> apt_parse_error + apt_fields" where
  "parse_line line f =
     bindR (ok_or (MalformedLine line) (split_once (ch CHR '':'') line)) (\<lambda>(key, raw).
       let value = trim raw; k = trim key in
       if k = lit ''Package'' then Inr (f\<lparr>fl_package := Some value\<rparr>)
       else if k = lit ''Installed'' then Inr (f\<lparr>fl_installed := Some value\<rparr>)
       else if k = lit ''Candidate'' then
         Inr (f\<lparr>fl_candidate := (if value \<noteq> [] then Some value else None)\<rparr>)
       else if k = lit ''Security'' then
         bindR (parse_bool value) (\<lambda>b. Inr (f\<lparr>fl_security := b\<rparr>))
       else if k = lit ''Held'' then bindR (parse_bool value) (\<lambda>b. Inr (f\<lparr>fl_held := b\<rparr>))
       else if k = lit ''Authenticated'' then
         bindR (parse_bool value) (\<lambda>b. Inr (f\<lparr>fl_authenticated := b\<rparr>))
       else Inr f)"

definition nonempty :: "str option \<Rightarrow> str option" where
  "nonempty v = (case v of None \<Rightarrow> None | Some x \<Rightarrow> if x \<noteq> [] then Some x else None)"

definition finish_block :: "apt_fields \<Rightarrow> apt_parse_error + apt_package_record" where
  "finish_block f =
     bindR (ok_or (MissingField (lit ''Package'')) (nonempty (fl_package f))) (\<lambda>package.
     bindR (ok_or (MissingField (lit ''Installed'')) (nonempty (fl_installed f))) (\<lambda>installed.
       let classification =
         (if \<not> fl_authenticated f \<or> fl_candidate f = None then UnknownClass
          else if fl_security f then Security else Normal)
       in Inr \<lparr>ap_package = package, ap_installed_version = installed,
            ap_candidate_version = fl_candidate f, ap_classification = classification,
            ap_held = fl_held f, ap_authenticated = fl_authenticated f\<rparr>))"

definition parse_block :: "str \<Rightarrow> apt_parse_error + apt_package_record" where
  "parse_block block = bindR (fold_result parse_line (lines block) fields_init) finish_block"

definition parse_output :: "str \<Rightarrow> apt_parse_error + apt_package_record list" where
  "parse_output output =
     map_result parse_block (filter (\<lambda>block. trim block \<noteq> []) (split2 10 10 output))"

record apt_scan_result =
  as_scan :: scan
  as_diagnostics :: str

text \<open>
  \<open>build_scan\<close>: \<open>None\<close> is the panic of one of its \<open>expect\<close> calls. \<open>now0\<close>, \<open>now1\<close> and \<open>now2\<close> are
  the clock readings in program order.
\<close>

definition build_scan ::
  "uuid \<Rightarrow> timestamp \<Rightarrow> timestamp \<Rightarrow> timestamp \<Rightarrow> u64 \<Rightarrow> apt_execution_result
     \<Rightarrow> (apt_error + apt_scan_result) option" where
  "build_scan fresh now0 now1 now2 container_id execution =
     (case scan_transition_to ScanRunning now1 (scan_new fresh now0 container_id) of
        Inl _ \<Rightarrow> None
      | Inr sc \<Rightarrow>
          if ax_exit_code execution \<noteq> Some 0 then
            (case scan_transition_to ScanFailed now2 sc of
               Inl _ \<Rightarrow> None
             | Inr sc' \<Rightarrow> Some (Inr \<lparr>as_scan = sc', as_diagnostics = ax_stderr execution\<rparr>))
          else
            (case map_err AptParse (bindR (parse_output (ax_stdout execution))
                (map_result into_available_update)) of
               Inl e \<Rightarrow> Some (Inl e)
             | Inr updates \<Rightarrow>
                 (case scan_transition_to ScanSucceeded now2 (sc\<lparr>sc_updates := updates\<rparr>) of
                    Inl _ \<Rightarrow> None
                  | Inr sc' \<Rightarrow> Some (Inr \<lparr>as_scan = sc', as_diagnostics = ax_stderr execution\<rparr>))))"

section \<open>Printing\<close>

text \<open>The record format the scanner writes: one \<open>Key: value\<close> line per field.\<close>

fun join_lines :: "str list \<Rightarrow> str" where
  "join_lines [] = []"
| "join_lines [l] = l"
| "join_lines (l # ls) = l @ 10 # join_lines ls"

fun join_blocks :: "str list \<Rightarrow> str" where
  "join_blocks [] = []"
| "join_blocks [b] = b"
| "join_blocks (b # bs) = b @ 10 # 10 # join_blocks bs"

definition field_line :: "string \<Rightarrow> str \<Rightarrow> str" where
  "field_line key v = lit key @ ch CHR '':'' # 32 # v"

definition yes_no :: "bool \<Rightarrow> str" where
  "yes_no b = (if b then lit ''yes'' else lit ''no'')"

definition record_lines :: "apt_package_record \<Rightarrow> str list" where
  "record_lines r =
     [field_line ''Package'' (ap_package r), field_line ''Installed'' (ap_installed_version r),
      field_line ''Candidate'' (case ap_candidate_version r of None \<Rightarrow> [] | Some c \<Rightarrow> c),
      field_line ''Security'' (yes_no (ap_classification r = Security)),
      field_line ''Held'' (yes_no (ap_held r)),
      field_line ''Authenticated'' (yes_no (ap_authenticated r))]"

definition print_records :: "apt_package_record list \<Rightarrow> str" where
  "print_records rs = join_blocks (map (join_lines \<circ> record_lines) rs)"

text \<open>A value that can stand in a field, and a record the parser can produce from such values.\<close>

definition field_value :: "str \<Rightarrow> bool" where
  "field_value v \<longleftrightarrow> v \<noteq> [] \<and> trim v = v \<and> 10 \<notin> set v"

definition record_ok :: "apt_package_record \<Rightarrow> bool" where
  "record_ok r \<longleftrightarrow> field_value (ap_package r) \<and> field_value (ap_installed_version r)
     \<and> opt_all field_value (ap_candidate_version r)
     \<and> (ap_classification r = UnknownClass \<longleftrightarrow>
          \<not> ap_authenticated r \<or> ap_candidate_version r = None)"

section \<open>Splitting what was joined\<close>

definition clean_line :: "str \<Rightarrow> bool" where
  "clean_line l \<longleftrightarrow> l \<noteq> [] \<and> 10 \<notin> set l \<and> last l \<noteq> 13"

lemma split_char_join_lines:
  "ls \<noteq> [] \<Longrightarrow> list_all clean_line ls \<Longrightarrow> split_char 10 (join_lines ls) = ls"
  by (induction ls rule: join_lines.induct)
     (simp_all add: clean_line_def split_char_no_sep split_char_append_sep)

lemma strip_cr_clean: "clean_line l \<Longrightarrow> strip_cr l = l"
  by (simp add: clean_line_def strip_cr_def)

lemma lines_join_lines:
  assumes "ls \<noteq> []" "list_all clean_line ls"
  shows "lines (join_lines ls) = ls"
proof -
  have "map strip_cr (butlast ls) = butlast ls"
    using assms(2) by (intro map_idI) (auto simp: list_all_iff strip_cr_clean dest: in_set_butlastD)
  moreover have "last ls \<noteq> []"
    using assms by (auto simp: list_all_iff clean_line_def)
  ultimately show ?thesis
    using assms(1) by (simp add: lines_def split_char_join_lines [OF assms])
qed

text \<open>A block holds no blank line and does not end with a line feed.\<close>

definition solid :: "str \<Rightarrow> bool" where
  "solid b \<longleftrightarrow> b \<noteq> [] \<and> last b \<noteq> 10 \<and> successively (\<lambda>x y. x \<noteq> 10 \<or> y \<noteq> 10) b"

lemma split2_solid_append:
  "successively (\<lambda>x y. x \<noteq> 10 \<or> y \<noteq> 10) b \<Longrightarrow> b \<noteq> [] \<Longrightarrow> last b \<noteq> 10 \<Longrightarrow>
     split2 10 10 (b @ 10 # 10 # s) = b # split2 10 10 s"
proof (induction b rule: induct_list012)
  case (3 x y zs)
  then show ?case by (cases "zs = []") (auto split: list.splits)
qed auto

lemma split2_solid:
  "successively (\<lambda>x y. x \<noteq> 10 \<or> y \<noteq> 10) b \<Longrightarrow> split2 10 10 b = [b]"
  by (induction b rule: induct_list012) auto

lemma split2_join_blocks:
  "bs \<noteq> [] \<Longrightarrow> list_all solid bs \<Longrightarrow> split2 10 10 (join_blocks bs) = bs"
  by (induction bs rule: join_blocks.induct)
     (simp_all add: solid_def split2_solid split2_solid_append)

lemma successively_no_newline:
  "10 \<notin> set l \<Longrightarrow> successively (\<lambda>x y. x \<noteq> 10 \<or> y \<noteq> (10::nat)) l"
  by (induction l rule: induct_list012) auto

lemma solid_join_lines:
  "ls \<noteq> [] \<Longrightarrow> list_all clean_line ls \<Longrightarrow> solid (join_lines ls) \<and> hd (join_lines ls) \<noteq> 10"
proof (induction ls rule: join_lines.induct)
  case (2 l)
  then have "10 \<notin> set l" "l \<noteq> []" by (auto simp: clean_line_def)
  then show ?case
    using last_in_set [of l] hd_in_set [of l] successively_no_newline [of l]
    unfolding solid_def by (metis join_lines.simps(2))
next
  case (3 l l' ls)
  then have IH: "solid (join_lines (l' # ls))" "hd (join_lines (l' # ls)) \<noteq> 10"
    and l: "10 \<notin> set l" "l \<noteq> []" by (auto simp: clean_line_def)
  moreover have "last l \<noteq> 10" "hd l \<noteq> 10" using l last_in_set hd_in_set by metis+
  ultimately show ?case
    using successively_no_newline [OF l(1)]
    by (simp add: solid_def successively_append_iff successively_Cons)
qed simp

section \<open>The round trip\<close>

lemma trim_field: "trim v = v \<Longrightarrow> trim (32 # v) = v"
  by (simp add: trim_def trim_start_def is_whitespace_def)

lemma field_last: "trim v = v \<Longrightarrow> v \<noteq> [] \<Longrightarrow> last v \<noteq> 13"
  using trim_ends [of v] by (auto simp: is_whitespace_def)

lemma split_field:
  "ch CHR '':'' \<notin> set (lit key) \<Longrightarrow>
     split_once (ch CHR '':'') (field_line key v) = Some (lit key, 32 # v)"
  by (simp add: split_once_Some_iff field_line_def)

lemma field_keys:
  "ch CHR '':'' \<notin> set (lit ''Package'')" "ch CHR '':'' \<notin> set (lit ''Installed'')"
  "ch CHR '':'' \<notin> set (lit ''Candidate'')" "ch CHR '':'' \<notin> set (lit ''Security'')"
  "ch CHR '':'' \<notin> set (lit ''Held'')" "ch CHR '':'' \<notin> set (lit ''Authenticated'')"
  "trim (lit ''Package'') = lit ''Package''" "trim (lit ''Installed'') = lit ''Installed''"
  "trim (lit ''Candidate'') = lit ''Candidate''" "trim (lit ''Security'') = lit ''Security''"
  "trim (lit ''Held'') = lit ''Held''" "trim (lit ''Authenticated'') = lit ''Authenticated''"
  by code_simp+

lemma parse_bool_yes_no [simp]: "parse_bool (yes_no b) = Inr b" "trim (yes_no b) = yes_no b"
proof -
  have "parse_bool (yes_no True) = Inr True" "parse_bool (yes_no False) = Inr False"
    "trim (yes_no True) = yes_no True" "trim (yes_no False) = yes_no False" by code_simp+
  then show "parse_bool (yes_no b) = Inr b" "trim (yes_no b) = yes_no b" by (cases b; simp)+
qed

lemma parse_record_lines:
  assumes "record_ok r"
  shows "bindR (fold_result parse_line (record_lines r) fields_init) finish_block = Inr r"
proof -
  define cand where "cand = (case ap_candidate_version r of None \<Rightarrow> [] | Some c \<Rightarrow> c)"
  have c: "trim cand = cand" "(if cand = [] then None else Some cand) = ap_candidate_version r"
    using assms by (auto simp: cand_def record_ok_def field_value_def split: option.splits)
  have t: "trim (ap_package r) = ap_package r" "trim (ap_installed_version r) = ap_installed_version r"
    "ap_package r \<noteq> []" "ap_installed_version r \<noteq> []"
    using assms by (auto simp: record_ok_def field_value_def)
  have "fold_result parse_line (record_lines r) fields_init =
      Inr \<lparr>fl_package = Some (ap_package r), fl_installed = Some (ap_installed_version r),
        fl_candidate = ap_candidate_version r, fl_security = (ap_classification r = Security),
        fl_held = ap_held r, fl_authenticated = ap_authenticated r\<rparr>"
    unfolding record_lines_def cand_def [symmetric] c(2) [symmetric]
    by (simp add: parse_line_def split_field field_keys trim_field t c(1) fields_init_def Let_def)
  then show ?thesis
    using assms
    by (cases r; cases "ap_classification r")
       (auto simp: finish_block_def nonempty_def record_ok_def field_value_def Let_def)
qed

lemma clean_field:
  "10 \<notin> set (lit key) \<Longrightarrow> 10 \<notin> set v \<Longrightarrow> v = [] \<or> last v \<noteq> 13 \<Longrightarrow> clean_line (field_line key v)"
  by (auto simp: clean_line_def field_line_def ch_def)

lemma yes_no_clean: "10 \<notin> set (yes_no b)" "yes_no b = [] \<or> last (yes_no b) \<noteq> 13"
proof -
  have "10 \<notin> set (yes_no True)" "10 \<notin> set (yes_no False)" "last (yes_no True) \<noteq> 13"
    "last (yes_no False) \<noteq> 13" by code_simp+
  then show "10 \<notin> set (yes_no b)" "yes_no b = [] \<or> last (yes_no b) \<noteq> 13" by (cases b; simp)+
qed

lemma record_lines_clean:
  assumes "record_ok r"
  shows "list_all clean_line (record_lines r)"
proof -
  have k: "10 \<notin> set (lit ''Package'')" "10 \<notin> set (lit ''Installed'')" "10 \<notin> set (lit ''Candidate'')"
    "10 \<notin> set (lit ''Security'')" "10 \<notin> set (lit ''Held'')" "10 \<notin> set (lit ''Authenticated'')"
    by code_simp+
  have v: "field_value w \<Longrightarrow> 10 \<notin> set w" "field_value w \<Longrightarrow> last w \<noteq> 13" for w
    using field_last by (auto simp: field_value_def)
  show ?thesis
    using assms v unfolding record_lines_def
    by (auto simp: record_ok_def intro!: clean_field k yes_no_clean split: option.splits)
qed

lemma parse_printed_block:
  assumes "record_ok r"
  shows "parse_block (join_lines (record_lines r)) = Inr r"
  using parse_record_lines [OF assms] lines_join_lines [OF _ record_lines_clean [OF assms]]
  by (simp add: parse_block_def record_lines_def)

lemma printed_block_not_blank: "trim (join_lines (record_lines r)) \<noteq> []"
proof -
  have "ch CHR ''P'' \<in> set (join_lines (record_lines r))"
    by (simp add: record_lines_def field_line_def lit_Cons)
  moreover have "\<not> is_whitespace (ch CHR ''P'')" by code_simp
  ultimately show ?thesis by (auto simp: trim_empty_iff)
qed

lemma parse_printed:
  assumes "list_all record_ok rs"
  shows "parse_output (print_records rs) = Inr rs"
proof (cases "rs = []")
  case True
  then show ?thesis by (simp add: print_records_def parse_output_def)
next
  case False
  have "list_all solid (map (join_lines \<circ> record_lines) rs)"
    using assms solid_join_lines [OF _ record_lines_clean]
    by (auto simp: list_all_iff record_lines_def)
  then have "split2 10 10 (print_records rs) = map (join_lines \<circ> record_lines) rs"
    using False by (simp add: print_records_def split2_join_blocks)
  moreover have "map_result parse_block (map (join_lines \<circ> record_lines) rs) = Inr rs"
    using assms by (induction rs) (simp_all add: parse_printed_block)
  moreover have "filter (\<lambda>b. trim b \<noteq> []) (map (join_lines \<circ> record_lines) rs) =
      map (join_lines \<circ> record_lines) rs"
    by (intro filter_True) (auto simp: printed_block_not_blank)
  ultimately show ?thesis by (simp only: parse_output_def)
qed

text \<open>
  C39. Printing and parsing scanner output are inverse: any list of records whose values are
  nonempty, trimmed and free of line feeds, and whose classification is unknown exactly when the
  package is unauthenticated or has no candidate, is read back exactly.
\<close>

theorem parse_print_roundtrip:
  assumes "list_all record_ok rs"
  shows "parse_output (print_records rs) = Inr rs"
  by (rule parse_printed [OF assms])

definition record_example :: apt_package_record where
  "record_example = \<lparr>ap_package = lit ''openssl'', ap_installed_version = lit ''1.0'',
     ap_candidate_version = Some (lit ''1.1''), ap_classification = Security, ap_held = False,
     ap_authenticated = True\<rparr>"

theorem parse_print_roundtrip_witness:
  "parse_output (print_records [record_example, record_example\<lparr>ap_held := True\<rparr>]) =
     Inr [record_example, record_example\<lparr>ap_held := True\<rparr>]"
proof (rule parse_print_roundtrip)
  show "list_all record_ok [record_example, record_example\<lparr>ap_held := True\<rparr>]" by code_simp
qed

section \<open>Classification and scans\<close>

lemma finish_block_Inr:
  "finish_block f = Inr r \<longleftrightarrow>
     (\<exists>p v. nonempty (fl_package f) = Some p \<and> nonempty (fl_installed f) = Some v
        \<and> r = \<lparr>ap_package = p, ap_installed_version = v, ap_candidate_version = fl_candidate f,
            ap_classification = (if \<not> fl_authenticated f \<or> fl_candidate f = None then UnknownClass
               else if fl_security f then Security else Normal),
            ap_held = fl_held f, ap_authenticated = fl_authenticated f\<rparr>)"
  unfolding finish_block_def Let_def bindR_Inr_iff ok_or_Inr_iff by blast

lemma finish_block_class:
  "finish_block f = Inr r \<Longrightarrow>
     ap_classification r \<noteq> UnknownClass \<longleftrightarrow> ap_authenticated r \<and> ap_candidate_version r \<noteq> None"
  by (auto simp: finish_block_Inr split: if_splits)

lemma parse_output_records:
  assumes "parse_output out = Inr rs" "r \<in> set rs"
  obtains f where "finish_block f = Inr r"
proof -
  obtain b where "parse_block b = Inr r"
    using assms unfolding parse_output_def map_result_Inr_iff
    by (auto simp: list_all2_conv_all_nth in_set_conv_nth)
  then show ?thesis using that by (auto simp: parse_block_def bindR_Inr_iff)
qed

lemma into_available_update_Inr:
  "into_available_update r = Inr u \<longleftrightarrow>
     (\<exists>c. ap_candidate_version r = Some c \<and> package_name_new (ap_package r) = Inr (au_package u)
        \<and> package_version_new (ap_installed_version r) = Inr (au_installed_version u)
        \<and> package_version_new c = Inr (au_candidate_version u)
        \<and> au_classification u = ap_classification r \<and> au_held u = ap_held r)"
  by (cases u) (auto simp: into_available_update_def bindR_Inr_iff)

lemma build_scan_unfold:
  "build_scan fresh t0 t1 t2 cid x = Some
     (if ax_exit_code x \<noteq> Some 0 then
        Inr \<lparr>as_scan = \<lparr>sc_id = fresh, sc_container_id = cid, sc_status = ScanFailed,
               sc_updates = [], sc_created_at = t0, sc_completed_at = Some t2\<rparr>,
             as_diagnostics = ax_stderr x\<rparr>
      else map_err AptParse (bindR (parse_output (ax_stdout x)) (\<lambda>rs.
        bindR (map_result into_available_update rs) (\<lambda>us.
          Inr \<lparr>as_scan = \<lparr>sc_id = fresh, sc_container_id = cid, sc_status = ScanSucceeded,
               sc_updates = us, sc_created_at = t0, sc_completed_at = Some t2\<rparr>,
             as_diagnostics = ax_stderr x\<rparr>))))"
proof -
  let ?sc = "\<lparr>sc_id = fresh, sc_container_id = cid, sc_status = ScanRunning, sc_updates = [],
      sc_created_at = t0, sc_completed_at = None\<rparr>"
  have r: "scan_transition_to ScanRunning t1 (scan_new fresh t0 cid) = Inr ?sc"
    by (simp add: scan_transition_to_def scan_new_def)
  have f: "scan_transition_to ScanFailed t2 ?sc =
      Inr (?sc\<lparr>sc_status := ScanFailed, sc_completed_at := Some t2\<rparr>)"
    by (simp add: scan_transition_to_def)
  have o: "scan_transition_to ScanSucceeded t2 (?sc\<lparr>sc_updates := us\<rparr>) =
      Inr (?sc\<lparr>sc_updates := us, sc_status := ScanSucceeded, sc_completed_at := Some t2\<rparr>)" for us
    by (simp add: scan_transition_to_def)
  show ?thesis
  proof (cases "parse_output (ax_stdout x)")
    case (Inl e)
    then show ?thesis unfolding build_scan_def r sum.case f o by simp
  next
    case (Inr rs)
    then show ?thesis
      unfolding build_scan_def r sum.case f o
      by (cases "map_result into_available_update rs") simp_all
  qed
qed

text \<open>
  Building a scan never panics, and its outcome is exact: a process that did not exit with 0
  gives a failed scan without updates; exit 0 gives either a parse error or a succeeded scan with
  one update per parsed record in order, every package name free of white space, and no update
  classified Security or Normal unless its record was authenticated.
\<close>

theorem build_scan_outcome:
  "case build_scan fresh t0 t1 t2 cid x of
     None \<Rightarrow> False
   | Some (Inl e) \<Rightarrow> ax_exit_code x = Some 0 \<and> e \<noteq> InvalidContainerId
       \<and> e \<noteq> UnsupportedOperatingSystem
   | Some (Inr res) \<Rightarrow>
       scan_ok (as_scan res) \<and> as_diagnostics res = ax_stderr x
       \<and> sc_container_id (as_scan res) = cid
       \<and> (if ax_exit_code x = Some 0 then
            sc_status (as_scan res) = ScanSucceeded
            \<and> (\<exists>rs. parse_output (ax_stdout x) = Inr rs
                 \<and> list_all2 (\<lambda>r u. ap_candidate_version r \<noteq> None
                      \<and> package_name_as_str (au_package u) = ap_package r
                      \<and> list_all (\<lambda>c. \<not> is_whitespace c) (ap_package r)
                      \<and> (au_classification u \<noteq> UnknownClass \<longleftrightarrow> ap_authenticated r))
                    rs (sc_updates (as_scan res)))
          else sc_status (as_scan res) = ScanFailed \<and> sc_updates (as_scan res) = [])"
proof (cases "ax_exit_code x = Some 0")
  case False
  then show ?thesis by (simp add: build_scan_unfold scan_ok_def)
next
  case True
  show ?thesis
  proof (cases "bindR (parse_output (ax_stdout x)) (map_result into_available_update)")
    case (Inl e)
    then have "build_scan fresh t0 t1 t2 cid x = Some (Inl (AptParse e))"
      using True by (auto simp: build_scan_unfold bindR_Inl_iff)
    with True show ?thesis by simp
  next
    case (Inr us)
    then obtain rs where rs: "parse_output (ax_stdout x) = Inr rs"
      "list_all2 (\<lambda>r u. into_available_update r = Inr u) rs us"
      by (auto simp: bindR_Inr_iff map_result_Inr_iff)
    have rec: "ap_candidate_version r \<noteq> None \<and> package_name_as_str (au_package u) = ap_package r
        \<and> list_all (\<lambda>c. \<not> is_whitespace c) (ap_package r)
        \<and> (au_classification u \<noteq> UnknownClass \<longleftrightarrow> ap_authenticated r)"
      if r: "r \<in> set rs" and u: "into_available_update r = Inr u" for r u
    proof -
      obtain f where "finish_block f = Inr r" by (rule parse_output_records [OF rs(1) r])
      from finish_block_class [OF this] u show ?thesis
        by (auto simp: into_available_update_Inr package_name_new_def list_all_iff list_ex_iff
            split: if_splits dest!: arg_cong [where f = package_name_as_str])
    qed
    have "build_scan fresh t0 t1 t2 cid x = Some (Inr
        \<lparr>as_scan = \<lparr>sc_id = fresh, sc_container_id = cid, sc_status = ScanSucceeded,
           sc_updates = us, sc_created_at = t0, sc_completed_at = Some t2\<rparr>,
         as_diagnostics = ax_stderr x\<rparr>)"
      using True rs(1) Inr by (simp add: build_scan_unfold bindR_Inr_iff)
    moreover have "list_all2 (\<lambda>r u. ap_candidate_version r \<noteq> None
        \<and> package_name_as_str (au_package u) = ap_package r
        \<and> list_all (\<lambda>c. \<not> is_whitespace c) (ap_package r)
        \<and> (au_classification u \<noteq> UnknownClass \<longleftrightarrow> ap_authenticated r)) rs us"
      by (rule list.rel_mono_strong [OF rs(2)]) (rule rec)
    ultimately show ?thesis
      using True rs(1) by (simp add: scan_ok_def)
  qed
qed

text \<open>
  One package without a candidate version discards the whole scan: although the parser
  accepts such a record, a successful execution whose output holds it is reported as a parse
  error, whatever other updates were found.
\<close>

theorem scan_fails_on_missing_candidate:
  assumes "ax_exit_code x = Some 0" and "parse_output (ax_stdout x) = Inr (rs @ r # rs')"
    and "ap_candidate_version r = None"
  shows "\<exists>e. build_scan fresh t0 t1 t2 cid x = Some (Inl (AptParse e))"
proof -
  have "\<not> is_ok (map_result into_available_update (rs @ r # rs'))"
    using assms(3) by (auto simp: is_ok_map_result into_available_update_def)
  then obtain e where "map_result into_available_update (rs @ r # rs') = Inl e"
    by (cases "map_result into_available_update (rs @ r # rs')") auto
  with assms(1,2) show ?thesis by (simp add: build_scan_unfold)
qed

theorem scan_fails_on_missing_candidate_witness:
  "parse_output (print_records [record_example,
       record_example\<lparr>ap_candidate_version := None, ap_classification := UnknownClass\<rparr>]) =
     Inr ([record_example] @
       record_example\<lparr>ap_candidate_version := None, ap_classification := UnknownClass\<rparr> # [])
   \<and> (\<exists>e. build_scan 1 0 0 1 101 \<lparr>ax_stdout = print_records [record_example,
       record_example\<lparr>ap_candidate_version := None, ap_classification := UnknownClass\<rparr>],
       ax_stderr = [], ax_exit_code = Some 0\<rparr> = Some (Inl (AptParse e)))"
proof -
  let ?r = "record_example\<lparr>ap_candidate_version := None, ap_classification := UnknownClass\<rparr>"
  have p: "parse_output (print_records [record_example, ?r]) = Inr ([record_example] @ ?r # [])"
    by code_simp
  have "\<exists>e. build_scan 1 0 0 1 101 \<lparr>ax_stdout = print_records [record_example, ?r],
       ax_stderr = [], ax_exit_code = Some 0\<rparr> = Some (Inl (AptParse e))"
    by (rule scan_fails_on_missing_candidate [where rs = "[record_example]" and r = ?r and rs' = "[]"])
       (simp_all add: p [simplified])
  with p show ?thesis by blast
qed

end
