(* ===== verification/Json.thy ===== *)
theory Json
  imports Prelude
begin

text \<open>
  \<open>serde_json::Value\<close> and the accessors the sources call. Numbers are the integers the sources read;
  an object is the list of its members, a later duplicate of a name is not visible.
\<close>

datatype json =
    JNull
  | JBool bool
  | JNumber int
  | JString str
  | JArray "json list"
  | JObject "(str \<times> json) list"

fun json_get :: "str \<Rightarrow> json \<Rightarrow> json option" where
  "json_get key (JObject fs) = map_of fs key"
| "json_get key _ = None"

fun json_as_str :: "json \<Rightarrow> str option" where
  "json_as_str (JString s) = Some s"
| "json_as_str _ = None"

fun json_as_bool :: "json \<Rightarrow> bool option" where
  "json_as_bool (JBool b) = Some b"
| "json_as_bool _ = None"

fun json_as_u64 :: "json \<Rightarrow> u64 option" where
  "json_as_u64 (JNumber n) = (if 0 \<le> n \<and> n < 2 ^ 64 then Some (of_int n) else None)"
| "json_as_u64 _ = None"

fun json_as_array :: "json \<Rightarrow> json list option" where
  "json_as_array (JArray xs) = Some xs"
| "json_as_array _ = None"

text \<open>\<open>pointer("/a/b")\<close> with two names that are not array indices.\<close>

definition json_pointer2 :: "str \<Rightarrow> str \<Rightarrow> json \<Rightarrow> json option" where
  "json_pointer2 a b v = Option.bind (json_get a v) (json_get b)"

fun or_else :: "'a option \<Rightarrow> 'a option \<Rightarrow> 'a option" where
  "or_else None y = y"
| "or_else (Some x) y = Some x"

definition unwrap_or :: "'a \<Rightarrow> 'a option \<Rightarrow> 'a" where
  "unwrap_or d x = (case x of None \<Rightarrow> d | Some y \<Rightarrow> y)"

text \<open>\<open>jsonb_set(v, '{key}', x, TRUE)\<close>: sets a member of an object, other values are unchanged.\<close>

fun json_set :: "str \<Rightarrow> json \<Rightarrow> json \<Rightarrow> json" where
  "json_set key x (JObject fs) = JObject (AList.update key x fs)"
| "json_set key x v = v"

lemma json_get_set:
  "json_get k (json_set key x (JObject fs)) = (if k = key then Some x else json_get k (JObject fs))"
  by (simp add: update_conv)

end
