(* ===== verification/AgentParsers.thy ===== *)
theory AgentParsers
  imports Apt Json
begin

text \<open>
  The agent's parsers of untrusted command output, \<open>lxcup-agent/src/parsers.rs\<close> and
  \<open>lxcup-agent/src/package_inventory.rs\<close>: package names and ids, dpkg, winget, apt and docker
  listings. The two routines that read floating-point numbers (docker statistics) are left out.
  Parsing a JSON text is a function argument, with its result as a \<open>json\<close> value.
\<close>

section \<open>Safe names\<close>

definition safe_package :: "str \<Rightarrow> bool" where
  "safe_package value \<longleftrightarrow>
     value \<noteq> [] \<and> str_len value \<le> 128
     \<and> list_all (\<lambda>c. is_ascii_alphanumeric c \<or> c \<in> set (lit ''.+_:@/-'')) value
     \<and> \<not> starts_with value (lit ''-'')"

definition is_safe_docker_container_id :: "str \<Rightarrow> bool" where
  "is_safe_docker_container_id value \<longleftrightarrow>
     12 \<le> str_len value \<and> str_len value \<le> 64 \<and> list_all is_ascii_hexdigit value"

definition safe_detail :: "str \<Rightarrow> str" where
  "safe_detail value = take 240 (replace_newlines value)"

definition safe_docker_container_id :: "str \<Rightarrow> str option" where
  "safe_docker_container_id value =
     (if 12 \<le> str_len value \<and> str_len value \<le> 64 \<and> list_all is_ascii_hexdigit value
      then Some value else None)"

definition safe_image_id :: "str \<Rightarrow> str option" where
  "safe_image_id value =
     (case strip_prefix value (lit ''sha256:'') of
        None \<Rightarrow> None
      | Some digest \<Rightarrow>
          if str_len digest = 64 \<and> list_all is_ascii_hexdigit digest then Some value else None)"

definition winget_char :: "rchar \<Rightarrow> bool" where
  "winget_char c \<longleftrightarrow> is_ascii_alphanumeric c \<or> c \<in> {ch CHR ''-'', ch CHR ''_'', ch CHR ''+''}"

text \<open>The loop of \<open>safe_winget_id\<close>: \<open>None\<close> is its early return of false.\<close>

fun winget_loop :: "bool \<Rightarrow> str \<Rightarrow> bool option" where
  "winget_loop segment_has_character [] = Some segment_has_character"
| "winget_loop segment_has_character (c # s) =
     (if c = ch CHR ''.'' \<and> segment_has_character then winget_loop False s
      else if winget_char c then winget_loop True s
      else None)"

definition safe_winget_id :: "str \<Rightarrow> bool" where
  "safe_winget_id value =
     (if value = [] \<or> 128 < str_len value \<or> starts_with value (lit ''-'') then False
      else (case winget_loop False value of
          None \<Rightarrow> False
        | Some has \<Rightarrow> has \<and> ch CHR ''.'' \<in> set value))"

definition safe_msstore_id :: "str \<Rightarrow> bool" where
  "safe_msstore_id value \<longleftrightarrow>
     value \<noteq> [] \<and> str_len value \<le> 128 \<and> is_ascii_alphanumeric (hd value)
     \<and> list_all (\<lambda>c. is_ascii_alphanumeric c \<or> c \<in> set (lit ''._-+'')) value"

definition read_only_prefix :: "str \<Rightarrow> str option" where
  "read_only_prefix src =
     (if src = lit ''arp'' then Some (lit ''ARP'' @ [92])
      else if src = lit ''msix'' then Some (lit ''MSIX'' @ [92])
      else None)"

text \<open>
  The prefix is compared on bytes; it is ASCII, so a match is a match of as many characters.
\<close>

definition safe_read_only_windows_package_id :: "str \<Rightarrow> str \<Rightarrow> bool" where
  "safe_read_only_windows_package_id value src =
     (case read_only_prefix src of
        None \<Rightarrow> False
      | Some prefix \<Rightarrow>
          str_len value \<le> 128
          \<and> to_ascii_lowercase (take (length prefix) value) = to_ascii_lowercase prefix
          \<and> list_all (\<lambda>c. is_ascii_alphanumeric c \<or> c = 92 \<or> c \<in> set (lit ''_-.{}''))
               (drop (length prefix) value)
          \<and> length prefix < length value)"

section \<open>Package listings\<close>

record agent_installed_package =
  aip_name :: str
  aip_installed_version :: str
  aip_candidate_version :: "str option"
  aip_architecture :: "str option"
  aip_source :: "str option"

definition parse_dpkg_line :: "str \<Rightarrow> agent_installed_package option" where
  "parse_dpkg_line line =
     (case splitn 3 9 line of
        name # version # rest \<Rightarrow>
         (let package = \<lparr>aip_name = trim name, aip_installed_version = trim version,
                aip_candidate_version = None,
                aip_architecture = nonempty (case rest of [] \<Rightarrow> None | a # _ \<Rightarrow> Some (trim a)),
                aip_source = Some (lit ''dpkg'')\<rparr>
          in if aip_name package \<noteq> [] \<and> aip_installed_version package \<noteq> [] then Some package
             else None)
      | _ \<Rightarrow> None)"

definition parse_dpkg_packages :: "str \<Rightarrow> agent_installed_package list" where
  "parse_dpkg_packages output = List.map_filter parse_dpkg_line (lines output)"

datatype windows_package_parse_error = WinInvalidOutput

definition is_winget_table_separator :: "str \<Rightarrow> bool" where
  "is_winget_table_separator line \<longleftrightarrow> 3 \<le> str_len line \<and> list_all (\<lambda>c. c = ch CHR ''-'') line"

text \<open>
  The column splitter: \<open>column\<close> is the text from \<open>column_start\<close> to the current run of white space,
  \<open>run\<close> that run; a run of two bytes or more ends the column.
\<close>

fun winget_columns_loop :: "str list \<Rightarrow> str option \<Rightarrow> str \<Rightarrow> str \<Rightarrow> str list" where
  "winget_columns_loop columns column run [] =
     (case column of None \<Rightarrow> columns | Some t \<Rightarrow> columns @ [trim (t @ run)])"
| "winget_columns_loop columns column run (c # s) =
     (if is_whitespace c then
        (if 2 \<le> str_len (run @ [c]) then
           (case column of
              None \<Rightarrow> winget_columns_loop columns None (run @ [c]) s
            | Some t \<Rightarrow> winget_columns_loop (columns @ [trim t]) None (run @ [c]) s)
         else winget_columns_loop columns column (run @ [c]) s)
      else
        (case column of
           None \<Rightarrow> winget_columns_loop columns (Some [c]) [] s
         | Some t \<Rightarrow> winget_columns_loop columns (Some (t @ run @ [c])) [] s))"

definition split_winget_columns :: "str \<Rightarrow> str list" where
  "split_winget_columns line = winget_columns_loop [] None [] line"

definition parse_winget_package ::
  "str \<Rightarrow> windows_package_parse_error + agent_installed_package option" where
  "parse_winget_package line =
     (let columns = split_winget_columns line in
      if length columns < 4 then Inr None
      else if \<not> safe_winget_id (columns ! 1) \<or> columns ! 0 = [] \<or> 256 < str_len (columns ! 0)
         \<or> columns ! 2 = [] \<or> 128 < str_len (columns ! 2) then Inl WinInvalidOutput
      else
       (let candidate = trim (columns ! 3); src = trim (last columns)
        in Inr (Some \<lparr>aip_name = columns ! 1, aip_installed_version = columns ! 2,
          aip_candidate_version =
            (if 5 \<le> length columns \<and> candidate \<noteq> []
                \<and> candidate \<notin> {lit ''-'', lit ''Unknown'', lit ''N/A''} \<and> str_len candidate \<le> 128
             then Some candidate else None),
          aip_architecture = None,
          aip_source = (if src \<noteq> [] \<and> str_len src \<le> 128 then Some src else None)\<rparr>)))"

fun windows_packages_loop ::
  "bool \<Rightarrow> agent_installed_package list \<Rightarrow> str list
     \<Rightarrow> windows_package_parse_error + bool \<times> agent_installed_package list" where
  "windows_packages_loop has_table_separator packages [] = Inr (has_table_separator, packages)"
| "windows_packages_loop has_table_separator packages (line # rest) =
     (if is_winget_table_separator (trim line) then windows_packages_loop True packages rest
      else if \<not> has_table_separator then windows_packages_loop False packages rest
      else bindR (parse_winget_package line) (\<lambda>p.
        let packages' = (case p of None \<Rightarrow> packages | Some q \<Rightarrow> packages @ [q]) in
        if 50000 < length packages' then Inl WinInvalidOutput
        else windows_packages_loop True packages' rest))"

definition parse_windows_packages ::
  "str \<Rightarrow> windows_package_parse_error + agent_installed_package list" where
  "parse_windows_packages output =
     (if trim output = [] then Inl WinInvalidOutput
      else bindR (windows_packages_loop False [] (lines output)) (\<lambda>(has_table_separator, packages).
        if \<not> has_table_separator then Inl WinInvalidOutput else Inr packages))"

section \<open>The structured winget inventory (package\_inventory.rs)\<close>

datatype package_inventory_error = ManagerUnavailable | InvTimeout | TooLarge | InvalidOutput

fun inventory_error_code :: "package_inventory_error \<Rightarrow> str" where
  "inventory_error_code ManagerUnavailable = lit ''package_manager_unavailable''"
| "inventory_error_code InvTimeout = lit ''package_inventory_timeout''"
| "inventory_error_code TooLarge = lit ''package_inventory_too_large''"
| "inventory_error_code InvalidOutput = lit ''package_inventory_invalid''"

definition inventory_error_from_code :: "str \<Rightarrow> package_inventory_error option" where
  "inventory_error_from_code code =
     (if code = lit ''package_manager_unavailable'' then Some ManagerUnavailable
      else if code = lit ''package_inventory_timeout'' then Some InvTimeout
      else if code = lit ''package_inventory_too_large'' then Some TooLarge
      else if code = lit ''package_inventory_invalid'' then Some InvalidOutput
      else None)"

record winget_package =
  wp_id :: "str option"
  wp_name :: "str option"
  wp_version :: "str option"
  wp_candidate_version :: "str option"
  wp_source :: "str option"

definition winget_origin :: "winget_package \<Rightarrow> str \<Rightarrow> (str \<times> str option) option" where
  "winget_origin p i =
     (let reported = map_option (\<lambda>s. to_ascii_lowercase (trim s)) (wp_source p) in
      if reported = Some (lit ''winget'') \<and> safe_winget_id i then
        Some (lit ''winget'', wp_candidate_version p)
      else if reported = Some (lit ''msstore'') \<and> safe_msstore_id i then
        Some (lit ''msstore'', wp_candidate_version p)
      else if safe_read_only_windows_package_id i (lit ''arp'') then Some (lit ''arp'', None)
      else if safe_read_only_windows_package_id i (lit ''msix'') then Some (lit ''msix'', None)
      else None)"

text \<open>One iteration of the loop; \<open>entry\<close> is \<open>None\<close> if the JSON value has another shape.\<close>

definition winget_entry ::
  "winget_package option \<Rightarrow> str list \<times> agent_installed_package list
     \<Rightarrow> str list \<times> agent_installed_package list" where
  "winget_entry entry st =
     (case st of (seen_ids, packages) \<Rightarrow>
       (case entry of
          None \<Rightarrow> st
        | Some p \<Rightarrow>
           (case (wp_id p, wp_name p, wp_version p) of
              (Some i, Some name, Some version) \<Rightarrow>
               (case winget_origin p i of
                  None \<Rightarrow> st
                | Some (src, candidate) \<Rightarrow>
                    if trim name = [] \<or> 256 < str_len name \<or> trim version = [] \<or> 128 < str_len version
                       \<or> (case candidate of None \<Rightarrow> False
                          | Some v \<Rightarrow> trim v = [] \<or> 128 < str_len v) then st
                    else if to_ascii_lowercase i \<in> set seen_ids then st
                    else (to_ascii_lowercase i # seen_ids,
                      packages @ [\<lparr>aip_name = i, aip_installed_version = version,
                        aip_candidate_version = candidate, aip_architecture = None,
                        aip_source = Some src\<rparr>]))
            | _ \<Rightarrow> st)))"

definition parse_windows_packages_json ::
  "(str \<Rightarrow> 'v list option) \<Rightarrow> ('v \<Rightarrow> winget_package option) \<Rightarrow> str
     \<Rightarrow> package_inventory_error + agent_installed_package list" where
  "parse_windows_packages_json from_str from_value output =
     bindR (ok_or InvalidOutput (from_str output)) (\<lambda>entries.
       if 50000 < length entries then Inl TooLarge
       else
        (let packages = snd (fold (\<lambda>e. winget_entry (from_value e)) entries ([], []))
         in if 0 < length entries \<and> packages = [] then Inl InvalidOutput else Inr packages))"

section \<open>Docker listings\<close>

record docker_container_info =
  di_id :: str
  di_name :: str
  di_image :: str
  di_state :: str
  di_status :: str
  di_ports :: "str list"
  di_started_at :: "str option"
  di_created_at :: "str option"
  di_image_id :: "str option"
  di_restart_count :: "u64 option"
  di_health :: "str option"
  di_oom_killed :: "bool option"
  di_labels :: "str list"

definition sensitive_terms :: "str list" where
  "sensitive_terms = [lit ''secret'', lit ''token'', lit ''password'', lit ''credential'',
     lit ''private_key'']"

definition label_name :: "str \<Rightarrow> str" where
  "label_name label =
     to_ascii_lowercase (case split_once (ch CHR ''='') label of None \<Rightarrow> label | Some (n, _) \<Rightarrow> n)"

definition sanitize_docker_labels :: "str \<Rightarrow> str list" where
  "sanitize_docker_labels labels =
     filter (\<lambda>label. \<not> list_ex (\<lambda>term. contains_str (label_name label) term) sensitive_terms)
       (filter (\<lambda>label. label \<noteq> []) (map trim (split_char (ch CHR '','') labels)))"

definition parse_docker_line :: "str \<Rightarrow> docker_container_info option" where
  "parse_docker_line line =
     (case splitn 7 9 line of
        raw_id # fs \<Rightarrow>
         (case safe_docker_container_id raw_id of
            None \<Rightarrow> None
          | Some i \<Rightarrow>
             (case fs of
                name # img # state # status # rest \<Rightarrow>
                 (let ports = (case rest of [] \<Rightarrow> [] | p # _ \<Rightarrow> p);
                      labels = (case rest of _ # l # _ \<Rightarrow> l | _ \<Rightarrow> [])
                  in Some \<lparr>di_id = i, di_name = name, di_image = img, di_state = state,
                    di_status = status,
                    di_ports = filter (\<lambda>p. p \<noteq> []) (split2 (ch CHR '','') 32 ports),
                    di_started_at = None, di_created_at = None, di_image_id = None,
                    di_restart_count = None, di_health = None, di_oom_killed = None,
                    di_labels = sanitize_docker_labels labels\<rparr>)
              | _ \<Rightarrow> None))
      | [] \<Rightarrow> None)"

definition parse_docker_containers :: "str \<Rightarrow> docker_container_info list" where
  "parse_docker_containers output = List.map_filter parse_docker_line (lines output)"

text \<open>\<open>stderr\<close> is the text that \<open>String::from_utf8_lossy\<close> makes of the process's bytes.\<close>

definition docker_failure_reason :: "str \<Rightarrow> bool \<Rightarrow> str" where
  "docker_failure_reason stderr spawn_not_found =
     (if contains_str (to_ascii_lowercase stderr) (lit ''permission denied'') then
        lit ''docker_permission_denied''
      else if spawn_not_found then lit ''docker_cli_unavailable''
      else lit ''docker_unavailable'')"

section \<open>JSON answers of docker\<close>

definition platform_text :: "json \<Rightarrow> str" where
  "platform_text v =
     unwrap_or [] (Option.bind (json_get (lit ''os'') v) json_as_str) @ ch CHR ''/''
     # unwrap_or [] (Option.bind (json_get (lit ''architecture'') v) json_as_str)"

definition descriptor_platform :: "json \<Rightarrow> json option" where
  "descriptor_platform entry =
     or_else (json_pointer2 (lit ''Descriptor'') (lit ''platform'') entry)
       (or_else (json_pointer2 (lit ''descriptor'') (lit ''platform'') entry)
         (or_else (json_get (lit ''Platform'') entry) (json_get (lit ''platform'') entry)))"

definition manifest_digest :: "json \<Rightarrow> str option" where
  "manifest_digest entry =
     (let manifest = unwrap_or entry
        (or_else (json_get (lit ''SchemaV2Manifest'') entry)
          (or_else (json_get (lit ''schema2Manifest'') entry) (json_get (lit ''manifest'') entry)))
      in Option.bind (or_else (json_pointer2 (lit ''config'') (lit ''digest'') manifest)
            (json_pointer2 (lit ''Config'') (lit ''Digest'') manifest)) json_as_str)"

fun digest_loop :: "str \<Rightarrow> json list \<Rightarrow> str option" where
  "digest_loop platform [] = None"
| "digest_loop platform (entry # entries) =
     (if \<not> (case descriptor_platform entry of None \<Rightarrow> True | Some v \<Rightarrow> platform_text v = platform)
      then digest_loop platform entries
      else (case manifest_digest entry of
          None \<Rightarrow> None
        | Some digest \<Rightarrow> if safe_image_id digest \<noteq> None then Some digest
            else digest_loop platform entries))"

definition parse_remote_image_config_digest ::
  "(str \<Rightarrow> json option) \<Rightarrow> str \<Rightarrow> str \<Rightarrow> str option" where
  "parse_remote_image_config_digest from_str output platform =
     (case from_str output of
        None \<Rightarrow> None
      | Some v \<Rightarrow> digest_loop platform (unwrap_or [v] (json_as_array v)))"

record docker_inspect_metadata =
  dm_created_at :: "str option"
  dm_image_id :: "str option"
  dm_restart_count :: "u64 option"
  dm_health :: "str option"
  dm_oom_killed :: "bool option"
  dm_started_at :: "str option"

definition safe_docker_timestamp :: "json option \<Rightarrow> str option" where
  "safe_docker_timestamp v =
     (case Option.bind v json_as_str of
        None \<Rightarrow> None
      | Some t \<Rightarrow> if t \<noteq> [] \<and> str_len t \<le> 64 then Some t else None)"

definition inspect_entry :: "json \<Rightarrow> (str \<times> docker_inspect_metadata) option" where
  "inspect_entry entry =
     (case Option.bind (Option.bind (json_get (lit ''Id'') entry) json_as_str)
         safe_docker_container_id of
        None \<Rightarrow> None
      | Some i \<Rightarrow>
         (let state = json_get (lit ''State'') entry;
              health = Option.bind (Option.bind (Option.bind state (json_get (lit ''Health'')))
                 (json_get (lit ''Status''))) json_as_str
          in Some (i, \<lparr>
            dm_created_at = safe_docker_timestamp (json_get (lit ''Created'') entry),
            dm_image_id = Option.bind (Option.bind (json_get (lit ''Image'') entry) json_as_str)
              safe_image_id,
            dm_restart_count = Option.bind (json_get (lit ''RestartCount'') entry) json_as_u64,
            dm_health = (case health of None \<Rightarrow> None
              | Some h \<Rightarrow> if h \<in> {lit ''starting'', lit ''healthy'', lit ''unhealthy''} then Some h
                  else None),
            dm_oom_killed = Option.bind (Option.bind state (json_get (lit ''OOMKilled'')))
              json_as_bool,
            dm_started_at = Option.bind state
              (\<lambda>v. safe_docker_timestamp (json_get (lit ''StartedAt'') v))\<rparr>)))"

definition parse_docker_inspect_metadata ::
  "(str \<Rightarrow> json list option) \<Rightarrow> str \<Rightarrow> (str, docker_inspect_metadata) hashmap" where
  "parse_docker_inspect_metadata from_str output =
     (case from_str output of
        None \<Rightarrow> []
      | Some entries \<Rightarrow>
          fold (\<lambda>(i, m) acc. hm_insert i m acc) (List.map_filter inspect_entry entries) [])"

section \<open>The apt listing\<close>

text \<open>The two pieces of a text around the first occurrence of a pattern.\<close>

fun split_once_str :: "str \<Rightarrow> str \<Rightarrow> (str \<times> str) option" where
  "split_once_str p [] = (if p = [] then Some ([], []) else None)"
| "split_once_str p (c # s) =
     (if starts_with (c # s) p then Some ([], drop (length p) (c # s))
      else map_option (\<lambda>(a, b). (c # a, b)) (split_once_str p s))"

text \<open>\<open>line.split(marker).nth(1)\<close>.\<close>

definition second_piece :: "str \<Rightarrow> str \<Rightarrow> str option" where
  "second_piece marker line =
     (case split_once_str marker line of
        None \<Rightarrow> None
      | Some (_, rest) \<Rightarrow>
          (case split_once_str marker rest of None \<Rightarrow> Some rest | Some (a, _) \<Rightarrow> Some a))"

definition upgradable_marker :: str where
  "upgradable_marker = lit ''[upgradable from: ''"

definition normalize_apt_line :: "str \<Rightarrow> str option" where
  "normalize_apt_line line0 =
     (let line = trim line0 in
      if line = [] \<or> starts_with line (lit ''Listing'') then None
      else (case split_once (ch CHR ''/'') line of
          None \<Rightarrow> None
        | Some (package, _) \<Rightarrow>
           (case split_whitespace line of
              _ # candidate # _ \<Rightarrow>
               (case second_piece upgradable_marker line of
                  None \<Rightarrow> None
                | Some piece \<Rightarrow>
                   (let installed = trim_end_matches (ch CHR '']'') piece;
                        security = contains_str line (lit ''security'')
                    in Some (join_lines [field_line ''Package'' package,
                      field_line ''Installed'' installed, field_line ''Candidate'' candidate,
                      field_line ''Security'' (yes_no security), field_line ''Held'' (lit ''no''),
                      field_line ''Authenticated'' (lit ''yes'')])))
            | _ \<Rightarrow> None)))"

definition normalize_apt_list :: "str \<Rightarrow> str" where
  "normalize_apt_list output = join_blocks (List.map_filter normalize_apt_line (lines output))"

end
