(* ===== verification/AgentSafety.thy ===== *)
theory AgentSafety
  imports AgentParsers
begin

text \<open>
  What the agent's parsers guarantee about untrusted output: the shape of accepted ids, that a
  listing only yields safe ids, unique packages and labels without secrets, and that the apt
  listing which the agent normalizes is exactly what the scan parser reads.
\<close>

section \<open>Winget ids\<close>

lemma winget_char_dot: "\<not> winget_char (ch CHR ''.'')"
  by code_simp

lemma winget_loop_iff:
  "winget_loop has s = Some True \<longleftrightarrow>
     (case split_char (ch CHR ''.'') s of
        [] \<Rightarrow> False
      | p # ps \<Rightarrow> (has \<or> p \<noteq> []) \<and> list_all winget_char p
          \<and> list_all (\<lambda>q. q \<noteq> [] \<and> list_all winget_char q) ps)"
proof (induction s arbitrary: has)
  case Nil
  then show ?case by simp
next
  case (Cons c s)
  then show ?case
    using winget_char_dot
    by (cases "split_char (ch CHR ''.'') s") auto
qed

lemma split_char_length: "2 \<le> length (split_char c s) \<longleftrightarrow> c \<in> set s"
proof (induction s)
  case (Cons x s)
  have "split_char c s \<noteq> []" by simp
  with Cons show ?case by (cases "split_char c s") auto
qed simp

text \<open>
  A winget id is accepted exactly when it has at most 128 bytes, does not look like an
  option, and consists of at least two nonempty segments, separated by dots, of letters, digits,
  dashes, underscores and plus signs; an accepted package name is likewise never an option and
  holds no white space, quote, dollar, semicolon or backslash.
\<close>

theorem safe_ids:
  "(safe_winget_id v \<longleftrightarrow> str_len v \<le> 128 \<and> \<not> starts_with v (lit ''-'')
      \<and> 2 \<le> length (split_char (ch CHR ''.'') v)
      \<and> list_all (\<lambda>seg. seg \<noteq> [] \<and> list_all winget_char seg) (split_char (ch CHR ''.'') v))
   \<and> (safe_package p \<longrightarrow> p \<noteq> [] \<and> length p \<le> 128 \<and> hd p \<noteq> ch CHR ''-''
      \<and> list_all (\<lambda>c. \<not> is_whitespace c \<and> c \<notin> {34, 36, 39, 59, 92, 96}) p)"
proof (rule conjI)
  have "winget_loop False v = Some True \<longleftrightarrow>
      list_all (\<lambda>seg. seg \<noteq> [] \<and> list_all winget_char seg) (split_char (ch CHR ''.'') v)"
    unfolding winget_loop_iff by (cases "split_char (ch CHR ''.'') v") auto
  then show "safe_winget_id v \<longleftrightarrow> str_len v \<le> 128 \<and> \<not> starts_with v (lit ''-'')
      \<and> 2 \<le> length (split_char (ch CHR ''.'') v)
      \<and> list_all (\<lambda>seg. seg \<noteq> [] \<and> list_all winget_char seg) (split_char (ch CHR ''.'') v)"
    by (auto simp: safe_winget_id_def split_char_length split: option.splits)
  have c: "\<not> is_whitespace c \<and> c \<notin> {34, 36, 39, 59, 92, 96}"
    if "is_ascii_alphanumeric c \<or> c \<in> set (lit ''.+_:@/-'')" for c
    using that by (auto simp: str_simps char_class_defs)
  show "safe_package p \<longrightarrow> p \<noteq> [] \<and> length p \<le> 128 \<and> hd p \<noteq> ch CHR ''-''
      \<and> list_all (\<lambda>c. \<not> is_whitespace c \<and> c \<notin> {34, 36, 39, 59, 92, 96}) p"
  proof
    assume p: "safe_package p"
    then have "hd p \<noteq> ch CHR ''-''"
      by (cases p) (auto simp: safe_package_def starts_with_def str_simps)
    moreover have "length p \<le> 128"
      using p length_le_str_len [of p] by (simp add: safe_package_def)
    moreover have "list_all (\<lambda>c. \<not> is_whitespace c \<and> c \<notin> {34, 36, 39, 59, 92, 96}) p"
      using p c unfolding safe_package_def list_all_iff by blast
    ultimately show "p \<noteq> [] \<and> length p \<le> 128 \<and> hd p \<noteq> ch CHR ''-''
      \<and> list_all (\<lambda>c. \<not> is_whitespace c \<and> c \<notin> {34, 36, 39, 59, 92, 96}) p"
      using p by (simp add: safe_package_def)
  qed
qed

theorem safe_ids_witness:
  "safe_winget_id (lit ''Git.Git'') \<and> \<not> safe_winget_id (lit ''Git..Git'') \<and> safe_package (lit ''libc6:amd64'')
   \<and> length (lit ''libc6:amd64'') \<le> 128"
proof (intro conjI)
  show p: "safe_package (lit ''libc6:amd64'')" by (simp add: safe_package_def str_len_def len_utf8_def
        str_simps char_class_defs starts_with_def)
  show "length (lit ''libc6:amd64'') \<le> 128" using safe_ids [of "[]" "lit ''libc6:amd64''"] p by blast
  show "safe_winget_id (lit ''Git.Git'')" "\<not> safe_winget_id (lit ''Git..Git'')"
    unfolding safe_ids [THEN conjunct1]
    by (simp_all add: str_len_def len_utf8_def str_simps char_class_defs starts_with_def winget_char_def)
qed

section \<open>Windows inventories\<close>

text \<open>An entry of the result, safe for the source it names.\<close>

definition inventory_entry_ok :: "agent_installed_package \<Rightarrow> bool" where
  "inventory_entry_ok p \<longleftrightarrow>
     (aip_source p = Some (lit ''winget'') \<and> safe_winget_id (aip_name p)
      \<or> aip_source p = Some (lit ''msstore'') \<and> safe_msstore_id (aip_name p)
      \<or> aip_source p = Some (lit ''arp'') \<and> aip_candidate_version p = None
          \<and> safe_read_only_windows_package_id (aip_name p) (lit ''arp'')
      \<or> aip_source p = Some (lit ''msix'') \<and> aip_candidate_version p = None
          \<and> safe_read_only_windows_package_id (aip_name p) (lit ''msix''))
     \<and> trim (aip_installed_version p) \<noteq> [] \<and> str_len (aip_installed_version p) \<le> 128"

definition inventory_state_ok :: "str list \<times> agent_installed_package list \<Rightarrow> bool" where
  "inventory_state_ok st \<longleftrightarrow>
     (case st of (seen, packages) \<Rightarrow>
       distinct seen \<and> rev seen = map (\<lambda>p. to_ascii_lowercase (aip_name p)) packages
       \<and> list_all inventory_entry_ok packages)"

lemma winget_origin_Some:
  "winget_origin p i = Some (src, cand) \<Longrightarrow>
     src = lit ''winget'' \<and> safe_winget_id i
     \<or> src = lit ''msstore'' \<and> safe_msstore_id i
     \<or> src = lit ''arp'' \<and> cand = None \<and> safe_read_only_windows_package_id i (lit ''arp'')
     \<or> src = lit ''msix'' \<and> cand = None \<and> safe_read_only_windows_package_id i (lit ''msix'')"
  by (auto simp: winget_origin_def Let_def split: if_splits)

text \<open>An iteration keeps the state or adds one entry.\<close>

lemma winget_entry_cases:
  obtains (same) "winget_entry e (seen, ps) = (seen, ps)"
  | (added) i version src cand where
      "winget_entry e (seen, ps) = (to_ascii_lowercase i # seen, ps @ [\<lparr>aip_name = i,
         aip_installed_version = version, aip_candidate_version = cand, aip_architecture = None,
         aip_source = Some src\<rparr>])"
      "to_ascii_lowercase i \<notin> set seen" "trim version \<noteq> []" "str_len version \<le> 128"
      "src = lit ''winget'' \<and> safe_winget_id i
       \<or> src = lit ''msstore'' \<and> safe_msstore_id i
       \<or> src = lit ''arp'' \<and> cand = None \<and> safe_read_only_windows_package_id i (lit ''arp'')
       \<or> src = lit ''msix'' \<and> cand = None \<and> safe_read_only_windows_package_id i (lit ''msix'')"
proof (cases "winget_entry e (seen, ps) = (seen, ps)")
  case False
  then obtain p i name version src cand where e: "e = Some p" "wp_id p = Some i"
      "wp_name p = Some name" "wp_version p = Some version" "winget_origin p i = Some (src, cand)"
    by (auto simp: winget_entry_def split: option.splits prod.splits)
  from False have c: "\<not> (trim name = [] \<or> 256 < str_len name \<or> trim version = [] \<or> 128 < str_len version
      \<or> (case cand of None \<Rightarrow> False | Some v \<Rightarrow> trim v = [] \<or> 128 < str_len v))"
    "to_ascii_lowercase i \<notin> set seen"
    by (auto simp: winget_entry_def e split: if_splits)
  show ?thesis
    by (rule added [of i version cand src])
       (use c winget_origin_Some [OF e(5)] in \<open>auto simp: winget_entry_def e\<close>)
qed (rule same)

lemma winget_entry_ok:
  assumes "inventory_state_ok st"
  shows "inventory_state_ok (winget_entry e st)"
proof -
  obtain seen ps where st: "st = (seen, ps)" by (cases st)
  show ?thesis
  proof (cases rule: winget_entry_cases [of e seen ps])
    case same
    with assms st show ?thesis by simp
  next
    case (added i version src cand)
    then show ?thesis
      using assms by (auto simp: st inventory_state_ok_def inventory_entry_ok_def)
  qed
qed

lemma winget_fold_ok:
  "inventory_state_ok st \<Longrightarrow>
     inventory_state_ok (fold (\<lambda>e. winget_entry (f e)) es st)
     \<and> length (snd (fold (\<lambda>e. winget_entry (f e)) es st)) \<le> length (snd st) + length es"
proof (induction es arbitrary: st)
  case (Cons e es)
  have "length (snd (winget_entry (f e) st)) \<le> Suc (length (snd st))"
    by (cases st; cases rule: winget_entry_cases [of "f e" "fst st" "snd st"]) simp_all
  with Cons.IH [OF winget_entry_ok [OF Cons.prems, of "f e"]] show ?case by simp
qed simp

text \<open>
  A structured Windows inventory is safe whatever the JSON holds: it has at most 50,000
  packages, no two ids that differ only in case, every id has the shape its source requires, an
  entry without a catalog is read-only, versions are nonblank, and an inventory that reported
  entries but kept none is an error instead of an empty list.
\<close>

theorem windows_inventory_safe:
  assumes "parse_windows_packages_json from_str from_value output = Inr packages"
  shows "length packages \<le> 50000
    \<and> distinct (map (\<lambda>p. to_ascii_lowercase (aip_name p)) packages)
    \<and> list_all inventory_entry_ok packages
    \<and> (packages = [] \<longrightarrow> from_str output = Some [])"
proof -
  obtain entries where e: "from_str output = Some entries" "length entries \<le> 50000"
    and p: "packages = snd (fold (\<lambda>e. winget_entry (from_value e)) entries ([], []))"
    and ne: "\<not> (0 < length entries \<and> packages = [])"
    using assms by (auto simp: parse_windows_packages_json_def bindR_Inr_iff Let_def split: if_splits)
  have "inventory_state_ok ([], [])" by (simp add: inventory_state_ok_def)
  from winget_fold_ok [OF this, of from_value entries] e p ne show ?thesis
    by (auto simp: inventory_state_ok_def split: prod.splits)
       (metis distinct_rev)
qed

definition winget_example :: "nat \<Rightarrow> winget_package option" where
  "winget_example n = (if n = 0 then None else Some \<lparr>wp_id = Some (lit ''Git.Git''),
     wp_name = Some (lit ''Git''), wp_version = Some (lit ''2.4''), wp_candidate_version = None,
     wp_source = Some (lit '' WinGet '')\<rparr>)"

theorem windows_inventory_safe_witness:
  "list_all inventory_entry_ok [\<lparr>aip_name = lit ''Git.Git'', aip_installed_version = lit ''2.4'',
     aip_candidate_version = None, aip_architecture = None, aip_source = Some (lit ''winget'')\<rparr>]
   \<and> parse_windows_packages_json (\<lambda>_. Some [0]) winget_example [] = Inl InvalidOutput"
proof
  have "parse_windows_packages_json (\<lambda>_. Some [0, 1, 2]) winget_example [] =
    Inr [\<lparr>aip_name = lit ''Git.Git'', aip_installed_version = lit ''2.4'',
     aip_candidate_version = None, aip_architecture = None, aip_source = Some (lit ''winget'')\<rparr>]"
    by (simp add: parse_windows_packages_json_def winget_entry_def winget_example_def winget_origin_def
        safe_winget_id_def str_len_def len_utf8_def str_simps char_class_defs starts_with_def
        winget_char_def to_ascii_lowercase_def ascii_lower_def trim_def trim_start_def trim_end_def)
  from windows_inventory_safe [OF this]
  show "list_all inventory_entry_ok [\<lparr>aip_name = lit ''Git.Git'', aip_installed_version = lit ''2.4'',
     aip_candidate_version = None, aip_architecture = None, aip_source = Some (lit ''winget'')\<rparr>]" by blast
  show "parse_windows_packages_json (\<lambda>_. Some [0]) winget_example [] = Inl InvalidOutput"
    by (simp add: parse_windows_packages_json_def winget_entry_def winget_example_def)
qed

section \<open>The apt listing, from the agent to the scan\<close>

text \<open>One line of \<open>apt list --upgradable\<close>.\<close>

record apt_entry =
  ae_name :: str
  ae_suite :: str
  ae_candidate :: str
  ae_architecture :: str
  ae_installed :: str

definition token :: "str \<Rightarrow> bool" where
  "token s \<longleftrightarrow> s \<noteq> [] \<and> list_all (\<lambda>c. \<not> is_whitespace c \<and> c \<noteq> ch CHR ''['') s"

definition apt_line :: "apt_entry \<Rightarrow> str" where
  "apt_line e = ae_name e @ ch CHR ''/'' # ae_suite e @ 32 # ae_candidate e @ 32 # ae_architecture e
     @ 32 # upgradable_marker @ ae_installed e @ [ch CHR '']'']"

definition apt_entry_ok :: "apt_entry \<Rightarrow> bool" where
  "apt_entry_ok e \<longleftrightarrow> token (ae_name e) \<and> token (ae_suite e) \<and> token (ae_candidate e)
     \<and> token (ae_architecture e) \<and> token (ae_installed e) \<and> ch CHR ''/'' \<notin> set (ae_name e)
     \<and> last (ae_installed e) \<noteq> ch CHR '']'' \<and> \<not> starts_with (apt_line e) (lit ''Listing'')"

definition apt_entry_record :: "apt_entry \<Rightarrow> apt_package_record" where
  "apt_entry_record e = \<lparr>ap_package = ae_name e, ap_installed_version = ae_installed e,
     ap_candidate_version = Some (ae_candidate e),
     ap_classification = (if contains_str (apt_line e) (lit ''security'') then Security else Normal),
     ap_held = False, ap_authenticated = True\<rparr>"

lemma ws_chars: "is_whitespace 10" "is_whitespace 13" "is_whitespace 32"
  "\<not> is_whitespace (ch CHR ''/'')" "\<not> is_whitespace (ch CHR '']'')"
  by (simp_all add: is_whitespace_def ch_def)

lemma token_field:
  assumes "token s"
  shows "field_value s"
proof -
  have "trim s = s" using assms by (intro trim_noop) (auto simp: token_def list_all_iff)
  moreover have "10 \<notin> set s" using assms ws_chars(1) by (auto simp: token_def list_all_iff)
  ultimately show ?thesis using assms by (simp add: field_value_def token_def)
qed

lemma split_whitespace_aux_token:
  "list_all (\<lambda>c. \<not> is_whitespace c) a \<Longrightarrow>
     split_whitespace_aux w (a @ s) = split_whitespace_aux (rev a @ w) s"
  by (induction a arbitrary: w) simp_all

lemma split_whitespace_token:
  assumes "a \<noteq> []" "list_all (\<lambda>c. \<not> is_whitespace c) a"
  shows "split_whitespace (a @ 32 # s) = a # split_whitespace s"
  using assms by (simp add: split_whitespace_def split_whitespace_aux_token is_whitespace_def)

lemma split_once_str_marker:
  assumes "ch CHR ''['' \<notin> set a"
  shows "split_once_str upgradable_marker (a @ upgradable_marker @ r) = Some (a, r)"
  using assms
proof (induction a)
  case Nil
  then show ?case by (simp add: upgradable_marker_def str_simps starts_with_def)
next
  case (Cons c a)
  then have "\<not> starts_with (c # a @ upgradable_marker @ r) upgradable_marker"
    by (simp add: upgradable_marker_def str_simps starts_with_def)
  with Cons show ?case by simp
qed

lemma split_once_str_no_marker: "ch CHR ''['' \<notin> set s \<Longrightarrow> split_once_str upgradable_marker s = None"
  by (induction s) (auto simp: upgradable_marker_def str_simps starts_with_def)

lemma bracket_chars: "ch CHR ''['' \<noteq> ch CHR ''/''" "ch CHR ''['' \<noteq> ch CHR '']''" "ch CHR ''['' \<noteq> 32"
  by (simp_all add: ch_def)

lemma normalize_apt_entry:
  assumes "apt_entry_ok e"
  shows "normalize_apt_line (apt_line e) = Some (join_lines (record_lines (apt_entry_record e)))"
proof -
  note tok = assms [unfolded apt_entry_ok_def token_def list_all_iff]
  let ?pre = "ae_name e @ ch CHR ''/'' # ae_suite e @ 32 # ae_candidate e @ 32 # ae_architecture e @ [32]"
  have line: "apt_line e = ?pre @ upgradable_marker @ ae_installed e @ [ch CHR '']'']"
    by (simp add: apt_line_def)
  have tr: "trim (apt_line e) = apt_line e"
    using tok ws_chars by (intro trim_fixed) (simp_all add: apt_line_def)
  have ne: "apt_line e \<noteq> []" by (simp add: apt_line_def)
  have pkg: "split_once (ch CHR ''/'') (apt_line e) = Some (ae_name e, ae_suite e @ 32 # ae_candidate e
      @ 32 # ae_architecture e @ 32 # upgradable_marker @ ae_installed e @ [ch CHR '']''])"
    using tok by (simp add: split_once_Some_iff apt_line_def)
  have "split_whitespace (apt_line e) = (ae_name e @ ch CHR ''/'' # ae_suite e)
      # split_whitespace (ae_candidate e @ 32 # ae_architecture e @ 32 # upgradable_marker
          @ ae_installed e @ [ch CHR '']''])"
  proof -
    have "list_all (\<lambda>c. \<not> is_whitespace c) (ae_name e @ ch CHR ''/'' # ae_suite e)"
      using tok ws_chars by (auto simp: list_all_iff)
    from split_whitespace_token [OF _ this, of "ae_candidate e @ 32 # ae_architecture e @ 32 #
        upgradable_marker @ ae_installed e @ [ch CHR '']'']"]
    show ?thesis by (simp add: apt_line_def)
  qed
  then have ws: "split_whitespace (apt_line e) = (ae_name e @ ch CHR ''/'' # ae_suite e) # ae_candidate e
      # split_whitespace (ae_architecture e @ 32 # upgradable_marker @ ae_installed e @ [ch CHR '']''])"
    using split_whitespace_token [of "ae_candidate e"] tok by (simp add: list_all_iff)
  have pre: "ch CHR ''['' \<notin> set ?pre"
    "ch CHR ''['' \<notin> set (ae_installed e @ [ch CHR '']''])"
    using tok bracket_chars by auto
  have sp: "second_piece upgradable_marker (apt_line e) = Some (ae_installed e @ [ch CHR '']''])"
    unfolding second_piece_def line split_once_str_marker [OF pre(1)]
    by (simp add: split_once_str_no_marker [OF pre(2)] del: split_once_str.simps)
  have inst: "trim_end_matches (ch CHR '']'') (ae_installed e @ [ch CHR '']'']) = ae_installed e"
    using tok by (simp add: trim_end_matches_def dropWhile_noop hd_rev)
  show ?thesis
    using assms ne
    unfolding normalize_apt_line_def Let_def tr pkg ws sp option.case list.case prod.case inst
    by (simp add: apt_entry_ok_def apt_entry_record_def record_lines_def yes_no_def)
qed

lemma apt_entry_record_ok: "apt_entry_ok e \<Longrightarrow> record_ok (apt_entry_record e)"
  by (simp add: apt_entry_ok_def apt_entry_record_def record_ok_def token_field)

lemma apt_line_clean:
  assumes "apt_entry_ok e"
  shows "clean_line (apt_line e)"
proof -
  have m: "10 \<notin> set upgradable_marker" "10 \<noteq> ch CHR ''/''" "10 \<noteq> ch CHR '']''" "ch CHR '']'' \<noteq> 13"
    by (simp_all add: upgradable_marker_def str_simps ch_def)
  have "10 \<notin> set s" if "token s" for s using that ws_chars(1) by (auto simp: token_def list_all_iff)
  with assms m show ?thesis by (simp add: apt_entry_ok_def clean_line_def apt_line_def)
qed

text \<open>
  From the agent to the scan: whatever upgradable packages \<open>apt\<close> lists, after its heading
  line, the text the agent makes of the listing is parsed by the controller into exactly one
  record per package with its name, installed version and candidate. The classification follows
  from the word "security" anywhere in the line, so a package whose own name contains it is
  taken for a security update from any archive.
\<close>

theorem apt_listing_end_to_end:
  assumes "list_all apt_entry_ok es"
  shows "parse_output (normalize_apt_list (join_lines (lit ''Listing...'' # map apt_line es))) =
      Inr (map apt_entry_record es)"
proof -
  have "list_all clean_line (lit ''Listing...'' # map apt_line es)"
  proof -
    have "clean_line (lit ''Listing...'')" by code_simp
    then show ?thesis using assms apt_line_clean by (auto simp: list_all_iff)
  qed
  then have l: "lines (join_lines (lit ''Listing...'' # map apt_line es)) =
      lit ''Listing...'' # map apt_line es" by (intro lines_join_lines) simp_all
  have "normalize_apt_line (lit ''Listing...'') = None" by code_simp
  moreover have "List.map_filter normalize_apt_line (map apt_line es) =
      map (join_lines \<circ> record_lines) (map apt_entry_record es)"
    using assms
    by (induction es) (simp_all add: map_filter_simps normalize_apt_entry)
  ultimately have "normalize_apt_list (join_lines (lit ''Listing...'' # map apt_line es)) =
      print_records (map apt_entry_record es)"
    by (simp add: normalize_apt_list_def l map_filter_simps print_records_def)
  moreover have "list_all record_ok (map apt_entry_record es)"
    using assms apt_entry_record_ok by (simp add: list_all_iff)
  ultimately show ?thesis by (simp add: parse_printed)
qed

definition apt_entry_example :: apt_entry where
  "apt_entry_example = \<lparr>ae_name = lit ''modsecurity-crs'', ae_suite = lit ''stable'',
     ae_candidate = lit ''3.3'', ae_architecture = lit ''all'', ae_installed = lit ''3.2''\<rparr>"

theorem apt_listing_end_to_end_witness:
  "parse_output (normalize_apt_list (join_lines [lit ''Listing...'', apt_line apt_entry_example])) =
     Inr [apt_entry_record apt_entry_example]
   \<and> ap_classification (apt_entry_record apt_entry_example) = Security"
proof
  have "list_all apt_entry_ok [apt_entry_example]" by code_simp
  from apt_listing_end_to_end [OF this]
  show "parse_output (normalize_apt_list (join_lines [lit ''Listing...'', apt_line apt_entry_example])) =
     Inr [apt_entry_record apt_entry_example]" by simp
  show "ap_classification (apt_entry_record apt_entry_example) = Security" by code_simp
qed

section \<open>Docker listings\<close>

lemma sanitize_docker_labels_iff:
  "l \<in> set (sanitize_docker_labels ls) \<longleftrightarrow>
     l \<noteq> [] \<and> l \<in> trim ` set (split_char (ch CHR '','') ls)
     \<and> list_all (\<lambda>term. \<not> contains_str (label_name l) term) sensitive_terms"
  by (auto simp: sanitize_docker_labels_def list_ex_iff list_all_iff)

lemma parse_docker_line_Some:
  assumes "parse_docker_line line = Some c"
  shows "is_safe_docker_container_id (di_id c) \<and> [] \<notin> set (di_ports c)
    \<and> (\<exists>raw. di_labels c = sanitize_docker_labels raw)"
  using assms
  by (auto simp: parse_docker_line_def safe_docker_container_id_def is_safe_docker_container_id_def
      Let_def split: list.splits option.splits if_splits)

text \<open>
  A docker listing exposes no secrets and no unsafe ids: every container that is reported
  has a hexadecimal id of 12 to 64 characters, no empty port entry, and no label whose name
  contains one of the sensitive terms in any letter case.
\<close>

lemma docker_listing_sanitized:
  "list_all (\<lambda>c. 12 \<le> length (di_id c) \<and> length (di_id c) \<le> 64 \<and> list_all is_ascii_hexdigit (di_id c)
       \<and> [] \<notin> set (di_ports c)
       \<and> list_all (\<lambda>l. l \<noteq> [] \<and> list_all (\<lambda>term. \<not> contains_str (label_name l) term)
            [lit ''secret'', lit ''token'', lit ''password'', lit ''credential'', lit ''private_key''])
          (di_labels c))
     (parse_docker_containers output)"
proof -
  have hex: "length i = str_len i" if "list_all is_ascii_hexdigit i" for i
    using that
    by (intro str_len_ascii [symmetric]) (auto simp: list_all_iff is_ascii_hexdigit_def is_ascii_digit_def)
  have "12 \<le> length (di_id c) \<and> length (di_id c) \<le> 64 \<and> list_all is_ascii_hexdigit (di_id c)
       \<and> [] \<notin> set (di_ports c)
       \<and> list_all (\<lambda>l. l \<noteq> [] \<and> list_all (\<lambda>term. \<not> contains_str (label_name l) term) sensitive_terms)
          (di_labels c)" if "parse_docker_line line = Some c" for line c
    using parse_docker_line_Some [OF that] hex
    by (auto simp: is_safe_docker_container_id_def list_all_iff [of _ "di_labels c"]
        sanitize_docker_labels_iff)
  then show ?thesis
    unfolding sensitive_terms_def parse_docker_containers_def
    by (auto simp: List.map_filter_def list_all_iff [of _ "map _ _"])
qed

end
