(* ===== verification/Utf8.thy ===== *)
theory Utf8
  imports Prelude
begin

text \<open>
  The UTF-8 conversions of the standard library that the secret stores use: \<open>str::as_bytes\<close> and
  \<open>String::from_utf8\<close>. The decoder rejects what the library rejects: stray continuation bytes,
  overlong forms, surrogates and values above 10FFFF. Decoding an encoded string gives it back.
\<close>

definition is_scalar :: "rchar \<Rightarrow> bool" where
  "is_scalar c \<longleftrightarrow> c < 55296 \<or> (57344 \<le> c \<and> c < 1114112)"

definition encode_char :: "rchar \<Rightarrow> nat list" where
  "encode_char c =
     (if c < 128 then [c]
      else if c < 2048 then [192 + c div 64, 128 + c mod 64]
      else if c < 65536 then [224 + c div 4096, 128 + c div 64 mod 64, 128 + c mod 64]
      else [240 + c div 262144, 128 + c div 4096 mod 64, 128 + c div 64 mod 64, 128 + c mod 64])"

definition as_bytes :: "str \<Rightarrow> u8 list" where
  "as_bytes s = map of_nat (concat (map encode_char s))"

definition continuation :: "nat \<Rightarrow> bool" where
  "continuation b \<longleftrightarrow> 128 \<le> b \<and> b < 192"

text \<open>The first scalar value of a byte sequence and the rest of it.\<close>

fun decode_char :: "nat list \<Rightarrow> (rchar \<times> nat list) option" where
  "decode_char [] = None"
| "decode_char (a # bs) =
     (if a < 128 then Some (a, bs)
      else if 194 \<le> a \<and> a < 224 then
        (case bs of
           b # rest \<Rightarrow>
             if continuation b then Some ((a - 192) * 64 + (b - 128), rest) else None
         | _ \<Rightarrow> None)
      else if 224 \<le> a \<and> a < 240 then
        (case bs of
           b # c # rest \<Rightarrow>
             (let v = (a - 224) * 4096 + (b - 128) * 64 + (c - 128) in
              if continuation b \<and> continuation c \<and> 2048 \<le> v \<and> is_scalar v
              then Some (v, rest) else None)
         | _ \<Rightarrow> None)
      else if 240 \<le> a \<and> a < 245 then
        (case bs of
           b # c # d # rest \<Rightarrow>
             (let v = (a - 240) * 262144 + (b - 128) * 4096 + (c - 128) * 64 + (d - 128) in
              if continuation b \<and> continuation c \<and> continuation d \<and> 65536 \<le> v \<and> is_scalar v
              then Some (v, rest) else None)
         | _ \<Rightarrow> None)
      else None)"

lemma decode_char_shorter: "decode_char bs = Some (c, rest) \<Longrightarrow> length rest < length bs"
  by (cases bs) (auto simp: Let_def split: if_splits list.splits)

function decode_bytes :: "nat list \<Rightarrow> str option" where
  "decode_bytes bs =
     (if bs = [] then Some []
      else (case decode_char bs of
          None \<Rightarrow> None
        | Some (c, rest) \<Rightarrow> map_option (\<lambda>s. c # s) (decode_bytes rest)))"
  by pat_completeness auto

termination
  by (relation "measure length") (auto dest: decode_char_shorter)

declare decode_bytes.simps [simp del]

definition from_utf8 :: "u8 list \<Rightarrow> str option" where
  "from_utf8 bs = decode_bytes (map unat bs)"

definition valid_str :: "str \<Rightarrow> bool" where
  "valid_str s \<longleftrightarrow> list_all is_scalar s"

section \<open>Decoding inverts encoding\<close>

lemma digit_decomp:
  fixes c :: nat
  shows "c div 64 * 64 + c mod 64 = c"
    and "c div 4096 * 4096 + c div 64 mod 64 * 64 + c mod 64 = c"
    and "c div 262144 * 262144 + c div 4096 mod 64 * 4096 + c div 64 mod 64 * 64 + c mod 64 = c"
proof -
  have 1: "x div 64 * 64 + x mod 64 = x" for x :: nat by simp
  have 2: "c div 4096 = c div 64 div 64" "c div 262144 = c div 64 div 64 div 64"
    by (simp_all add: div_mult2_eq [symmetric])
  show "c div 64 * 64 + c mod 64 = c" by simp
  show "c div 4096 * 4096 + c div 64 mod 64 * 64 + c mod 64 = c"
    using 1 [of c] 1 [of "c div 64"] unfolding 2 by linarith
  show "c div 262144 * 262144 + c div 4096 mod 64 * 4096 + c div 64 mod 64 * 64 + c mod 64 = c"
    using 1 [of c] 1 [of "c div 64"] 1 [of "c div 64 div 64"] unfolding 2 by linarith
qed

lemma continuation_mod: "continuation (128 + x mod 64)"
  by (simp add: continuation_def)

lemma decode_encode_char:
  assumes "is_scalar c"
  shows "decode_char (encode_char c @ rest) = Some (c, rest)"
proof -
  have lt: "c < 1114112" using assms by (auto simp: is_scalar_def)
  consider "c < 128" | "128 \<le> c" "c < 2048" | "2048 \<le> c" "c < 65536"
    | "65536 \<le> c" "c < 1114112"
    by (meson lt not_le)
  then show ?thesis
  proof cases
    case 1
    then show ?thesis by (simp add: encode_char_def)
  next
    case 2
    then have "2 \<le> c div 64" "c div 64 < 32" by auto
    then show ?thesis
      using 2 digit_decomp(1) [of c] by (simp add: encode_char_def continuation_mod) linarith
  next
    case 3
    then have "c div 4096 < 16" by auto
    then show ?thesis
      using 3 assms digit_decomp(2) [of c]
      by (simp add: encode_char_def continuation_mod Let_def)
  next
    case 4
    then have "c div 262144 < 5" by auto
    then show ?thesis
      using 4 assms digit_decomp(3) [of c]
      by (simp add: encode_char_def continuation_mod Let_def)
  qed
qed

lemma encode_char_bytes: "is_scalar c \<Longrightarrow> b \<in> set (encode_char c) \<Longrightarrow> b < 256"
  by (auto simp: encode_char_def is_scalar_def split: if_splits)

lemma encode_char_ne: "encode_char c \<noteq> []"
  by (simp add: encode_char_def)

lemma decode_encode:
  "valid_str s \<Longrightarrow> decode_bytes (concat (map encode_char s)) = Some s"
proof (induction s)
  case Nil
  then show ?case by (simp add: decode_bytes.simps)
next
  case (Cons c s)
  then show ?case
    by (subst decode_bytes.simps) (simp add: valid_str_def decode_encode_char encode_char_ne)
qed

lemma unat_as_bytes:
  "valid_str s \<Longrightarrow> map unat (as_bytes s) = concat (map encode_char s)"
proof -
  assume v: "valid_str s"
  have "unat (of_nat b :: u8) = b" if "b \<in> set (concat (map encode_char s))" for b
  proof -
    have "b < 256" using that v encode_char_bytes by (auto simp: valid_str_def list_all_iff)
    then show ?thesis by (simp add: unat_of_nat)
  qed
  then show ?thesis unfolding as_bytes_def map_map by (intro map_idI) auto
qed

lemma from_utf8_as_bytes [simp]: "valid_str s \<Longrightarrow> from_utf8 (as_bytes s) = Some s"
  by (simp add: from_utf8_def unat_as_bytes decode_encode)

lemma length_as_bytes: "valid_str s \<Longrightarrow> length (as_bytes s) = str_len s"
  by (induction s)
     (auto simp: as_bytes_def str_len_def len_utf8_def encode_char_def valid_str_def)

end
