(* ===== verification/Secrets.thy ===== *)
theory Secrets
  imports Connections Utf8 "HOL-Library.List_Lexorder"
begin

text \<open>
  \<open>lxcup-secrets/src/lib.rs\<close>: the in-memory, plain-file, encrypted-file and Docker secret stores.
  The file system is an explicit map from (directory, entry name) to files, with the errors each
  call may meet given by \<open>io_faults\<close>. The text form of UUIDs, the JSON form of metadata and the
  XChaCha20-Poly1305 cipher come from external crates: they are the functions of \<open>secret_env\<close>.
\<close>

section \<open>Data\<close>

datatype secret_status = SecActive | SecRevoked

record stored_secret_metadata =
  st_metadata :: secret_metadata
  st_status :: secret_status

record create_secret =
  cr_name :: str
  cr_kind :: secret_kind
  cr_scope :: secret_scope
  cr_value :: secret_value

datatype secret_store_error = SecMissing | SecDenied | SecInvalid | SecUnavailable

fun secret_store_error_to_string :: "secret_store_error \<Rightarrow> str" where
  "secret_store_error_to_string SecMissing = lit ''secret is missing''"
| "secret_store_error_to_string SecDenied = lit ''secret access is denied''"
| "secret_store_error_to_string SecInvalid = lit ''secret request is invalid''"
| "secret_store_error_to_string SecUnavailable = lit ''secret provider is unavailable''"

type_synonym 'a secret_result = "secret_store_error + 'a"

definition new_metadata ::
  "uuid \<Rightarrow> timestamp \<Rightarrow> create_secret \<Rightarrow> stored_secret_metadata secret_result" where
  "new_metadata fresh now r =
     bindR (map_err (\<lambda>_. SecInvalid) (secret_metadata_new fresh now (cr_name r) (cr_kind r) (cr_scope r)))
       (\<lambda>m. Inr \<lparr>st_metadata = m, st_status = SecActive\<rparr>)"

definition touch :: "timestamp \<Rightarrow> stored_secret_metadata \<Rightarrow> stored_secret_metadata" where
  "touch now m = m\<lparr>st_metadata := (st_metadata m)\<lparr>sm_updated_at := now\<rparr>\<rparr>"

definition sort_by_name :: "stored_secret_metadata list \<Rightarrow> stored_secret_metadata list" where
  "sort_by_name ms = sort_key (\<lambda>m. sm_name (st_metadata m)) ms"

section \<open>The in-memory store\<close>

record secret_record =
  sr_metadata :: stored_secret_metadata
  sr_value :: secret_value

text \<open>\<open>Arc<RwLock<HashMap>>\<close>: a lock that was poisoned by a panicking writer makes every call fail.\<close>

record in_memory_secret_store =
  im_poisoned :: bool
  im_records :: "(uuid, secret_record) hashmap"

definition im_list_metadata :: "in_memory_secret_store \<Rightarrow> stored_secret_metadata list secret_result" where
  "im_list_metadata s =
     (if im_poisoned s then Inl SecUnavailable
      else Inr (sort_by_name (map sr_metadata (hm_values (im_records s)))))"

definition im_create ::
  "uuid \<Rightarrow> timestamp \<Rightarrow> create_secret \<Rightarrow> in_memory_secret_store
     \<Rightarrow> stored_secret_metadata secret_result \<times> in_memory_secret_store" where
  "im_create fresh now r s =
     (case new_metadata fresh now r of
        Inl e \<Rightarrow> (Inl e, s)
      | Inr stored \<Rightarrow>
          if im_poisoned s then (Inl SecUnavailable, s)
          else (Inr stored, s\<lparr>im_records := hm_insert (sm_id (st_metadata stored))
                  \<lparr>sr_metadata = stored, sr_value = cr_value r\<rparr> (im_records s)\<rparr>))"

definition im_read :: "uuid \<Rightarrow> in_memory_secret_store \<Rightarrow> secret_value secret_result" where
  "im_read i s =
     (if im_poisoned s then Inl SecUnavailable
      else bindR (ok_or SecMissing (hm_get (im_records s) i)) (\<lambda>record.
        if st_status (sr_metadata record) \<noteq> SecActive then Inl SecDenied
        else Inr (sr_value record)))"

definition im_metadata :: "uuid \<Rightarrow> in_memory_secret_store \<Rightarrow> stored_secret_metadata secret_result" where
  "im_metadata i s =
     (if im_poisoned s then Inl SecUnavailable
      else ok_or SecMissing (map_option sr_metadata (hm_get (im_records s) i)))"

definition im_update ::
  "timestamp \<Rightarrow> uuid \<Rightarrow> secret_value \<Rightarrow> in_memory_secret_store
     \<Rightarrow> unit secret_result \<times> in_memory_secret_store" where
  "im_update now i v s =
     (if im_poisoned s then (Inl SecUnavailable, s)
      else (case hm_get (im_records s) i of
          None \<Rightarrow> (Inl SecMissing, s)
        | Some record \<Rightarrow>
            if st_status (sr_metadata record) \<noteq> SecActive then (Inl SecDenied, s)
            else (Inr (), s\<lparr>im_records := hm_insert i
                    \<lparr>sr_metadata = touch now (sr_metadata record), sr_value = v\<rparr>
                    (im_records s)\<rparr>)))"

definition im_rotate ::
  "timestamp \<Rightarrow> uuid \<Rightarrow> secret_value \<Rightarrow> in_memory_secret_store
     \<Rightarrow> unit secret_result \<times> in_memory_secret_store" where
  "im_rotate now i v s = im_update now i v s"

definition im_revoke ::
  "timestamp \<Rightarrow> uuid \<Rightarrow> in_memory_secret_store \<Rightarrow> unit secret_result \<times> in_memory_secret_store" where
  "im_revoke now i s =
     (if im_poisoned s then (Inl SecUnavailable, s)
      else (case hm_get (im_records s) i of
          None \<Rightarrow> (Inl SecMissing, s)
        | Some record \<Rightarrow> (Inr (), s\<lparr>im_records := hm_insert i
            (record\<lparr>sr_metadata := touch now ((sr_metadata record)\<lparr>st_status := SecRevoked\<rparr>)\<rparr>)
            (im_records s)\<rparr>)))"

definition im_delete ::
  "uuid \<Rightarrow> in_memory_secret_store \<Rightarrow> unit secret_result \<times> in_memory_secret_store" where
  "im_delete i s =
     (if im_poisoned s then (Inl SecUnavailable, s)
      else (case hm_get (im_records s) i of
          None \<Rightarrow> (Inl SecMissing, s)
        | Some _ \<Rightarrow> (Inr (), s\<lparr>im_records := hm_remove i (im_records s)\<rparr>)))"

section \<open>The file system\<close>

datatype io_kind = IoNotFound | IoPermissionDenied | IoOther

fun map_io_error :: "io_kind \<Rightarrow> secret_store_error" where
  "map_io_error IoNotFound = SecMissing"
| "map_io_error IoPermissionDenied = SecDenied"
| "map_io_error IoOther = SecUnavailable"

record disk_file =
  fi_bytes :: "u8 list"
  fi_private :: bool

type_synonym path = "str \<times> str"

type_synonym disk = "(path, disk_file) hashmap"

text \<open>
  The error each kind of call meets, if any. A failing write may leave other bytes in the file.
\<close>

record io_faults =
  ft_create_dir :: "str \<Rightarrow> bool"
  ft_read_dir :: "str \<Rightarrow> io_kind option"
  ft_read :: "path \<Rightarrow> io_kind option"
  ft_write :: "path \<Rightarrow> (io_kind \<times> u8 list option) option"
  ft_permissions :: "path \<Rightarrow> io_kind option"
  ft_remove :: "path \<Rightarrow> io_kind option"

definition no_faults :: io_faults where
  "no_faults = \<lparr>ft_create_dir = (\<lambda>_. False), ft_read_dir = (\<lambda>_. None), ft_read = (\<lambda>_. None),
     ft_write = (\<lambda>_. None), ft_permissions = (\<lambda>_. None), ft_remove = (\<lambda>_. None)\<rparr>"

definition fs_read :: "io_faults \<Rightarrow> path \<Rightarrow> disk \<Rightarrow> io_kind + u8 list" where
  "fs_read ft p d =
     (case ft_read ft p of
        Some k \<Rightarrow> Inl k
      | None \<Rightarrow> (case hm_get d p of None \<Rightarrow> Inl IoNotFound | Some f \<Rightarrow> Inr (fi_bytes f)))"

definition put_bytes :: "path \<Rightarrow> u8 list \<Rightarrow> disk \<Rightarrow> disk" where
  "put_bytes p bs d =
     hm_insert p \<lparr>fi_bytes = bs,
       fi_private = (case hm_get d p of None \<Rightarrow> False | Some f \<Rightarrow> fi_private f)\<rparr> d"

definition fs_write :: "io_faults \<Rightarrow> path \<Rightarrow> u8 list \<Rightarrow> disk \<Rightarrow> (io_kind + unit) \<times> disk" where
  "fs_write ft p bs d =
     (case ft_write ft p of
        Some (k, None) \<Rightarrow> (Inl k, d)
      | Some (k, Some torn) \<Rightarrow> (Inl k, put_bytes p torn d)
      | None \<Rightarrow> (Inr (), put_bytes p bs d))"

definition fs_remove_file :: "io_faults \<Rightarrow> path \<Rightarrow> disk \<Rightarrow> (io_kind + unit) \<times> disk" where
  "fs_remove_file ft p d =
     (case ft_remove ft p of
        Some k \<Rightarrow> (Inl k, d)
      | None \<Rightarrow> (case hm_get d p of
            None \<Rightarrow> (Inl IoNotFound, d)
          | Some _ \<Rightarrow> (Inr (), hm_remove p d)))"

definition set_private_permissions :: "io_faults \<Rightarrow> path \<Rightarrow> disk \<Rightarrow> unit secret_result \<times> disk" where
  "set_private_permissions ft p d =
     (case ft_permissions ft p of
        Some k \<Rightarrow> (Inl (map_io_error k), d)
      | None \<Rightarrow> (case hm_get d p of
            None \<Rightarrow> (Inl (map_io_error IoNotFound), d)
          | Some f \<Rightarrow> (Inr (), hm_insert p (f\<lparr>fi_private := True\<rparr>) d)))"

definition write_secret_bytes ::
  "io_faults \<Rightarrow> path \<Rightarrow> u8 list \<Rightarrow> disk \<Rightarrow> unit secret_result \<times> disk" where
  "write_secret_bytes ft p bs d =
     (case fs_write ft p bs d of
        (Inl k, d1) \<Rightarrow> (Inl (map_io_error k), d1)
      | (Inr _, d1) \<Rightarrow> set_private_permissions ft p d1)"

section \<open>What the two file stores share\<close>

type_synonym master_key = "u8 list"

record secret_env =
  se_uuid_to_string :: "uuid \<Rightarrow> str"
  se_to_vec :: "stored_secret_metadata \<Rightarrow> u8 list option"
  se_from_slice :: "u8 list \<Rightarrow> stored_secret_metadata option"
  se_encrypt :: "master_key \<Rightarrow> u8 list \<Rightarrow> u8 list \<Rightarrow> u8 list option"
  se_decrypt :: "master_key \<Rightarrow> u8 list \<Rightarrow> u8 list \<Rightarrow> u8 list option"

text \<open>How a store keeps a value: its file extension, and how a value becomes bytes and back.\<close>

record value_codec =
  vc_extension :: str
  vc_encode :: "secret_value \<Rightarrow> u8 list secret_result"
  vc_decode :: "u8 list \<Rightarrow> secret_value secret_result"

definition store_new :: "io_faults \<Rightarrow> str \<Rightarrow> str secret_result" where
  "store_new ft root =
     (if root = [] then Inl SecInvalid
      else if ft_create_dir ft root then Inl SecUnavailable
      else Inr root)"

definition value_path :: "secret_env \<Rightarrow> value_codec \<Rightarrow> str \<Rightarrow> uuid \<Rightarrow> path" where
  "value_path env c root i = (root, se_uuid_to_string env i @ vc_extension c)"

definition metadata_path :: "secret_env \<Rightarrow> str \<Rightarrow> uuid \<Rightarrow> path" where
  "metadata_path env root i = (root, se_uuid_to_string env i @ lit ''.json'')"

definition read_metadata ::
  "secret_env \<Rightarrow> io_faults \<Rightarrow> str \<Rightarrow> uuid \<Rightarrow> disk \<Rightarrow> stored_secret_metadata secret_result" where
  "read_metadata env ft root i d =
     bindR (map_err map_io_error (fs_read ft (metadata_path env root i) d))
       (\<lambda>bytes. ok_or SecInvalid (se_from_slice env bytes))"

definition write_metadata ::
  "secret_env \<Rightarrow> io_faults \<Rightarrow> str \<Rightarrow> stored_secret_metadata \<Rightarrow> disk \<Rightarrow> unit secret_result \<times> disk" where
  "write_metadata env ft root m d =
     (case se_to_vec env m of
        None \<Rightarrow> (Inl SecInvalid, d)
      | Some bytes \<Rightarrow>
          (case fs_write ft (metadata_path env root (sm_id (st_metadata m))) bytes d of
             (r, d1) \<Rightarrow> (map_err map_io_error r, d1)))"

definition write_value ::
  "secret_env \<Rightarrow> value_codec \<Rightarrow> io_faults \<Rightarrow> str \<Rightarrow> uuid \<Rightarrow> secret_value \<Rightarrow> disk
     \<Rightarrow> unit secret_result \<times> disk" where
  "write_value env c ft root i v d =
     (case vc_encode c v of
        Inl e \<Rightarrow> (Inl e, d)
      | Inr payload \<Rightarrow> write_secret_bytes ft (value_path env c root i) payload d)"

text \<open>\<open>Path::extension\<close> of an entry name.\<close>

definition extension :: "str \<Rightarrow> str option" where
  "extension name =
     (case split_once (ch CHR ''.'') (rev name) of
        None \<Rightarrow> None
      | Some (ext, before) \<Rightarrow> if before = [] \<or> name = lit ''..'' then None else Some (rev ext))"

definition store_list_metadata ::
  "secret_env \<Rightarrow> io_faults \<Rightarrow> str \<Rightarrow> disk \<Rightarrow> stored_secret_metadata list secret_result" where
  "store_list_metadata env ft root d =
     (case ft_read_dir ft root of
        Some k \<Rightarrow> Inl (map_io_error k)
      | None \<Rightarrow>
         bindR (map_result
             (\<lambda>p. bindR (map_err map_io_error (fs_read ft p d))
                (\<lambda>bytes. ok_or SecInvalid (se_from_slice env bytes)))
             (filter (\<lambda>p. fst p = root \<and> extension (snd p) = Some (lit ''json'')) (map fst d)))
           (\<lambda>values. Inr (sort_by_name values)))"

definition store_create ::
  "secret_env \<Rightarrow> value_codec \<Rightarrow> io_faults \<Rightarrow> str \<Rightarrow> uuid \<Rightarrow> timestamp \<Rightarrow> create_secret \<Rightarrow> disk
     \<Rightarrow> stored_secret_metadata secret_result \<times> disk" where
  "store_create env c ft root fresh now r d =
     (case new_metadata fresh now r of
        Inl e \<Rightarrow> (Inl e, d)
      | Inr stored \<Rightarrow>
          (case write_metadata env ft root stored d of
             (Inl e, d1) \<Rightarrow> (Inl e, d1)
           | (Inr _, d1) \<Rightarrow>
               (case write_value env c ft root (sm_id (st_metadata stored)) (cr_value r) d1 of
                  (Inl e, d2) \<Rightarrow>
                    (Inl e, snd (fs_remove_file ft
                       (metadata_path env root (sm_id (st_metadata stored))) d2))
                | (Inr _, d2) \<Rightarrow> (Inr stored, d2))))"

definition store_read ::
  "secret_env \<Rightarrow> value_codec \<Rightarrow> io_faults \<Rightarrow> str \<Rightarrow> uuid \<Rightarrow> disk \<Rightarrow> secret_value secret_result" where
  "store_read env c ft root i d =
     bindR (read_metadata env ft root i d) (\<lambda>m.
       if st_status m \<noteq> SecActive then Inl SecDenied
       else bindR (map_err map_io_error (fs_read ft (value_path env c root i) d)) (vc_decode c))"

definition store_metadata ::
  "secret_env \<Rightarrow> io_faults \<Rightarrow> str \<Rightarrow> uuid \<Rightarrow> disk \<Rightarrow> stored_secret_metadata secret_result" where
  "store_metadata env ft root i d = read_metadata env ft root i d"

definition store_update ::
  "secret_env \<Rightarrow> value_codec \<Rightarrow> io_faults \<Rightarrow> str \<Rightarrow> timestamp \<Rightarrow> uuid \<Rightarrow> secret_value \<Rightarrow> disk
     \<Rightarrow> unit secret_result \<times> disk" where
  "store_update env c ft root now i v d =
     (case read_metadata env ft root i d of
        Inl e \<Rightarrow> (Inl e, d)
      | Inr m \<Rightarrow>
          if st_status m \<noteq> SecActive then (Inl SecDenied, d)
          else (case write_value env c ft root i v d of
              (Inl e, d1) \<Rightarrow> (Inl e, d1)
            | (Inr _, d1) \<Rightarrow> write_metadata env ft root (touch now m) d1))"

definition store_rotate ::
  "secret_env \<Rightarrow> value_codec \<Rightarrow> io_faults \<Rightarrow> str \<Rightarrow> timestamp \<Rightarrow> uuid \<Rightarrow> secret_value \<Rightarrow> disk
     \<Rightarrow> unit secret_result \<times> disk" where
  "store_rotate env c ft root now i v d = store_update env c ft root now i v d"

definition store_revoke ::
  "secret_env \<Rightarrow> io_faults \<Rightarrow> str \<Rightarrow> timestamp \<Rightarrow> uuid \<Rightarrow> disk \<Rightarrow> unit secret_result \<times> disk" where
  "store_revoke env ft root now i d =
     (case read_metadata env ft root i d of
        Inl e \<Rightarrow> (Inl e, d)
      | Inr m \<Rightarrow> write_metadata env ft root (touch now (m\<lparr>st_status := SecRevoked\<rparr>)) d)"

definition store_delete ::
  "secret_env \<Rightarrow> value_codec \<Rightarrow> io_faults \<Rightarrow> str \<Rightarrow> uuid \<Rightarrow> disk \<Rightarrow> unit secret_result \<times> disk" where
  "store_delete env c ft root i d =
     (case read_metadata env ft root i d of
        Inl e \<Rightarrow> (Inl e, d)
      | Inr _ \<Rightarrow>
          (case fs_remove_file ft (value_path env c root i) d of
             (Inl k, d1) \<Rightarrow> (Inl (map_io_error k), d1)
           | (Inr _, d1) \<Rightarrow>
               (case fs_remove_file ft (metadata_path env root i) d1 of
                  (r, d2) \<Rightarrow> (map_err map_io_error r, d2))))"

section \<open>The plain-file store\<close>

definition plain_codec :: value_codec where
  "plain_codec = \<lparr>vc_extension = lit ''.secret'',
     vc_encode = (\<lambda>v. Inr (as_bytes (expose v))),
     vc_decode = (\<lambda>bytes. bindR (ok_or (map_io_error IoOther) (from_utf8 bytes))
        (\<lambda>value. map_err (\<lambda>_. SecInvalid) (secret_value_new value)))\<rparr>"

definition file_create ::
  "secret_env \<Rightarrow> io_faults \<Rightarrow> str \<Rightarrow> uuid \<Rightarrow> timestamp \<Rightarrow> create_secret \<Rightarrow> disk
     \<Rightarrow> stored_secret_metadata secret_result \<times> disk" where
  "file_create env = store_create env plain_codec"

definition file_read ::
  "secret_env \<Rightarrow> io_faults \<Rightarrow> str \<Rightarrow> uuid \<Rightarrow> disk \<Rightarrow> secret_value secret_result" where
  "file_read env = store_read env plain_codec"

definition file_update ::
  "secret_env \<Rightarrow> io_faults \<Rightarrow> str \<Rightarrow> timestamp \<Rightarrow> uuid \<Rightarrow> secret_value \<Rightarrow> disk
     \<Rightarrow> unit secret_result \<times> disk" where
  "file_update env = store_update env plain_codec"

definition file_delete ::
  "secret_env \<Rightarrow> io_faults \<Rightarrow> str \<Rightarrow> uuid \<Rightarrow> disk \<Rightarrow> unit secret_result \<times> disk" where
  "file_delete env = store_delete env plain_codec"

section \<open>Master keys\<close>

text \<open>\<open>u8::from_str_radix(text, 16)\<close>: digits after an optional plus sign, no overflow.\<close>

definition hex_value :: "rchar \<Rightarrow> nat option" where
  "hex_value c =
     (if is_ascii_digit c then Some (c - 48)
      else if 97 \<le> c \<and> c \<le> 102 then Some (c - 87)
      else if 65 \<le> c \<and> c \<le> 70 then Some (c - 55)
      else None)"

fun radix16 :: "nat \<Rightarrow> str \<Rightarrow> u8 option" where
  "radix16 acc [] = Some (of_nat acc)"
| "radix16 acc (c # s) =
     (case hex_value c of
        None \<Rightarrow> None
      | Some n \<Rightarrow> if 255 < acc * 16 + n then None else radix16 (acc * 16 + n) s)"

definition u8_from_str_radix16 :: "str \<Rightarrow> u8 option" where
  "u8_from_str_radix16 s =
     (let digits = (case s of c # rest \<Rightarrow> if c = ch CHR ''+'' then rest else s | [] \<Rightarrow> [])
      in if digits = [] then None else radix16 0 digits)"

fun chunks_exact2 :: "u8 list \<Rightarrow> u8 list list" where
  "chunks_exact2 (a # b # rest) = [a, b] # chunks_exact2 rest"
| "chunks_exact2 _ = []"

definition from_hex :: "str \<Rightarrow> master_key secret_result" where
  "from_hex value0 =
     (let value = trim value0 in
      if str_len value \<noteq> 64 then Inl SecInvalid
      else map_result (\<lambda>chunk. bindR (ok_or SecInvalid (from_utf8 chunk))
          (\<lambda>text. ok_or SecInvalid (u8_from_str_radix16 text)))
        (chunks_exact2 (as_bytes value)))"

definition from_env :: "(str \<Rightarrow> str option) \<Rightarrow> str \<Rightarrow> master_key secret_result" where
  "from_env vars name = bindR (ok_or SecUnavailable (vars name)) from_hex"

definition master_key_debug :: "master_key \<Rightarrow> str" where
  "master_key_debug k = lit ''SecretMasterKey([REDACTED])''"

section \<open>The encrypted store\<close>

record encrypted_store =
  es_root :: str
  es_current_key :: master_key
  es_previous_keys :: "master_key list"

definition encrypted_new ::
  "io_faults \<Rightarrow> str \<Rightarrow> master_key \<Rightarrow> master_key list \<Rightarrow> encrypted_store secret_result" where
  "encrypted_new ft root current_key previous_keys =
     bindR (store_new ft root) (\<lambda>r. Inr \<lparr>es_root = r, es_current_key = current_key,
       es_previous_keys = previous_keys\<rparr>)"

definition header :: "u8 list" where
  "header = as_bytes (lit ''LXCUPENC1'')"

definition encrypt_payload ::
  "secret_env \<Rightarrow> encrypted_store \<Rightarrow> u8 list \<Rightarrow> secret_value \<Rightarrow> u8 list secret_result" where
  "encrypt_payload env s nonce v =
     bindR (ok_or SecUnavailable
         (se_encrypt env (es_current_key s) nonce (as_bytes (expose v))))
       (\<lambda>ciphertext. Inr (header @ nonce @ ciphertext))"

text \<open>The loop over the current and the previous keys: the first key that authenticates decides.\<close>

fun try_keys ::
  "secret_env \<Rightarrow> u8 list \<Rightarrow> u8 list \<Rightarrow> master_key list \<Rightarrow> secret_value secret_result" where
  "try_keys env nonce ciphertext [] = Inl SecDenied"
| "try_keys env nonce ciphertext (key # keys) =
     (case se_decrypt env key nonce ciphertext of
        Some bytes \<Rightarrow> bindR (ok_or SecInvalid (from_utf8 bytes))
          (\<lambda>value. map_err (\<lambda>_. SecInvalid) (secret_value_new value))
      | None \<Rightarrow> try_keys env nonce ciphertext keys)"

definition decrypt :: "secret_env \<Rightarrow> encrypted_store \<Rightarrow> u8 list \<Rightarrow> secret_value secret_result" where
  "decrypt env s payload =
     (if take (length header) payload \<noteq> header \<or> length payload \<le> length header + 24
      then Inl SecInvalid
      else
        (let nonce = take 24 (drop (length header) payload);
             ciphertext = drop (length header + 24) payload
         in try_keys env nonce ciphertext (es_current_key s # es_previous_keys s)))"

text \<open>The nonce is drawn from the operating system's generator: it is an argument.\<close>

definition encrypted_codec :: "secret_env \<Rightarrow> encrypted_store \<Rightarrow> u8 list \<Rightarrow> value_codec" where
  "encrypted_codec env s nonce = \<lparr>vc_extension = lit ''.enc'',
     vc_encode = encrypt_payload env s nonce, vc_decode = decrypt env s\<rparr>"

definition enc_create ::
  "secret_env \<Rightarrow> io_faults \<Rightarrow> encrypted_store \<Rightarrow> u8 list \<Rightarrow> uuid \<Rightarrow> timestamp \<Rightarrow> create_secret \<Rightarrow> disk
     \<Rightarrow> stored_secret_metadata secret_result \<times> disk" where
  "enc_create env ft s nonce = store_create env (encrypted_codec env s nonce) ft (es_root s)"

definition enc_read ::
  "secret_env \<Rightarrow> io_faults \<Rightarrow> encrypted_store \<Rightarrow> uuid \<Rightarrow> disk \<Rightarrow> secret_value secret_result" where
  "enc_read env ft s = store_read env (encrypted_codec env s []) ft (es_root s)"

definition enc_update ::
  "secret_env \<Rightarrow> io_faults \<Rightarrow> encrypted_store \<Rightarrow> u8 list \<Rightarrow> timestamp \<Rightarrow> uuid \<Rightarrow> secret_value \<Rightarrow> disk
     \<Rightarrow> unit secret_result \<times> disk" where
  "enc_update env ft s nonce = store_update env (encrypted_codec env s nonce) ft (es_root s)"

definition enc_delete ::
  "secret_env \<Rightarrow> io_faults \<Rightarrow> encrypted_store \<Rightarrow> uuid \<Rightarrow> disk \<Rightarrow> unit secret_result \<times> disk" where
  "enc_delete env ft s = store_delete env (encrypted_codec env s []) ft (es_root s)"

definition rewrap ::
  "secret_env \<Rightarrow> io_faults \<Rightarrow> encrypted_store \<Rightarrow> u8 list \<Rightarrow> uuid \<Rightarrow> disk
     \<Rightarrow> unit secret_result \<times> disk" where
  "rewrap env ft s nonce i d =
     (case enc_read env ft s i d of
        Inl e \<Rightarrow> (Inl e, d)
      | Inr v \<Rightarrow> write_value env (encrypted_codec env s nonce) ft (es_root s) i v d)"

section \<open>The Docker store\<close>

record docker_secret_definition =
  dd_name :: str
  dd_file_name :: str
  dd_kind :: secret_kind
  dd_scope :: secret_scope

type_synonym docker_secret_store = "(uuid, stored_secret_metadata \<times> path) hashmap"

definition unsafe_file_name :: "str \<Rightarrow> bool" where
  "unsafe_file_name f \<longleftrightarrow>
     f = [] \<or> list_ex (\<lambda>c. c \<in> {ch CHR ''/'', 92, ch CHR '':''}) f
     \<or> f = lit ''.'' \<or> f = lit ''..''"

text \<open>One iteration of the constructor's loop; each definition comes with its fresh id.\<close>

definition docker_add ::
  "str \<Rightarrow> timestamp \<Rightarrow> uuid \<times> docker_secret_definition \<Rightarrow> docker_secret_store
     \<Rightarrow> docker_secret_store secret_result" where
  "docker_add root now x entries =
     (case x of (fresh, df) \<Rightarrow>
       if unsafe_file_name (dd_file_name df) then Inl SecInvalid
       else bindR (map_err (\<lambda>_. SecInvalid)
           (secret_metadata_new fresh now (dd_name df) (dd_kind df) (dd_scope df))) (\<lambda>m.
         Inr (hm_insert (sm_id m)
           (\<lparr>st_metadata = m, st_status = SecActive\<rparr>, (root, dd_file_name df)) entries)))"

definition docker_new ::
  "str \<Rightarrow> timestamp \<Rightarrow> (uuid \<times> docker_secret_definition) list \<Rightarrow> docker_secret_store secret_result" where
  "docker_new root now definitions =
     (if root = [] then Inl SecInvalid else fold_result (docker_add root now) definitions [])"

definition docker_entry ::
  "docker_secret_store \<Rightarrow> uuid \<Rightarrow> (stored_secret_metadata \<times> path) secret_result" where
  "docker_entry s i = ok_or SecMissing (hm_get s i)"

definition docker_list_metadata :: "docker_secret_store \<Rightarrow> stored_secret_metadata list secret_result" where
  "docker_list_metadata s = Inr (sort_by_name (map fst (hm_values s)))"

definition docker_read ::
  "io_faults \<Rightarrow> docker_secret_store \<Rightarrow> uuid \<Rightarrow> disk \<Rightarrow> secret_value secret_result" where
  "docker_read ft s i d =
     bindR (docker_entry s i) (\<lambda>(m, p).
       if st_status m \<noteq> SecActive then Inl SecDenied
       else bindR (map_err map_io_error (fs_read ft p d)) (vc_decode plain_codec))"

definition docker_metadata :: "docker_secret_store \<Rightarrow> uuid \<Rightarrow> stored_secret_metadata secret_result" where
  "docker_metadata s i = bindR (docker_entry s i) (\<lambda>e. Inr (fst e))"

definition docker_create ::
  "create_secret \<Rightarrow> docker_secret_store \<Rightarrow> stored_secret_metadata secret_result \<times> docker_secret_store" where
  "docker_create r s = (Inl SecDenied, s)"

definition docker_update ::
  "uuid \<Rightarrow> secret_value \<Rightarrow> docker_secret_store \<Rightarrow> unit secret_result \<times> docker_secret_store" where
  "docker_update i v s = (Inl SecDenied, s)"

definition docker_revoke ::
  "uuid \<Rightarrow> docker_secret_store \<Rightarrow> unit secret_result \<times> docker_secret_store" where
  "docker_revoke i s = (Inl SecDenied, s)"

definition docker_delete ::
  "uuid \<Rightarrow> docker_secret_store \<Rightarrow> unit secret_result \<times> docker_secret_store" where
  "docker_delete i s = (Inl SecDenied, s)"

end
