(* ===== verification/SecretLaws.thy ===== *)
theory SecretLaws
  imports Secrets
begin

text \<open>
  The contract of the \<open>SecretStore\<close> trait: every provider behaves, call by call, like a map from
  ids to metadata and value. The contract is the locale \<open>secret_store\<close>; the in-memory store
  interprets it, and the two file stores satisfy it on a file system without faults, for every
  JSON form and cipher that is inverted by its reader.
\<close>

section \<open>The abstract store\<close>

type_synonym secret_view = "uuid \<Rightarrow> (stored_secret_metadata \<times> secret_value) option"

datatype store_op =
    DoCreate uuid timestamp create_secret
  | DoRead uuid
  | DoMetadata uuid
  | DoUpdate timestamp uuid secret_value
  | DoRevoke timestamp uuid
  | DoDelete uuid

datatype store_out =
    OutMetadata "stored_secret_metadata secret_result"
  | OutValue "secret_value secret_result"
  | OutUnit "unit secret_result"

fun spec_step :: "store_op \<Rightarrow> secret_view \<Rightarrow> store_out \<times> secret_view" where
  "spec_step (DoCreate i t r) m =
     (case new_metadata i t r of
        Inl e \<Rightarrow> (OutMetadata (Inl e), m)
      | Inr stored \<Rightarrow> (OutMetadata (Inr stored), m(i := Some (stored, cr_value r))))"
| "spec_step (DoRead i) m =
     (OutValue (case m i of None \<Rightarrow> Inl SecMissing
        | Some (d, v) \<Rightarrow> if st_status d = SecActive then Inr v else Inl SecDenied), m)"
| "spec_step (DoMetadata i) m = (OutMetadata (ok_or SecMissing (map_option fst (m i))), m)"
| "spec_step (DoUpdate t i v) m =
     (case m i of
        None \<Rightarrow> (OutUnit (Inl SecMissing), m)
      | Some (d, w) \<Rightarrow> if st_status d = SecActive
          then (OutUnit (Inr ()), m(i := Some (touch t d, v)))
          else (OutUnit (Inl SecDenied), m))"
| "spec_step (DoRevoke t i) m =
     (case m i of
        None \<Rightarrow> (OutUnit (Inl SecMissing), m)
      | Some (d, w) \<Rightarrow>
          (OutUnit (Inr ()), m(i := Some (touch t (d\<lparr>st_status := SecRevoked\<rparr>), w))))"
| "spec_step (DoDelete i) m =
     (case m i of
        None \<Rightarrow> (OutUnit (Inl SecMissing), m)
      | Some _ \<Rightarrow> (OutUnit (Inr ()), m(i := None)))"

text \<open>A value the \<open>SecretValue\<close> constructor accepts, made of Unicode scalar values.\<close>

definition secret_ok :: "secret_value \<Rightarrow> bool" where
  "secret_ok v \<longleftrightarrow> secret_value_new (expose v) = Inr v \<and> valid_str (expose v)"

text \<open>Ids are drawn fresh, and values are values.\<close>

fun op_ok :: "store_op \<Rightarrow> secret_view \<Rightarrow> bool" where
  "op_ok (DoCreate i t r) m \<longleftrightarrow> m i = None \<and> secret_ok (cr_value r)"
| "op_ok (DoUpdate t i v) m \<longleftrightarrow> secret_ok v"
| "op_ok _ m \<longleftrightarrow> True"

fun run_ops :: "('r \<Rightarrow> store_op \<Rightarrow> 's \<Rightarrow> store_out \<times> 's) \<Rightarrow> ('r \<times> store_op) list \<Rightarrow> 's \<Rightarrow> store_out list \<times> 's" where
  "run_ops step [] s = ([], s)"
| "run_ops step ((r, op) # ops) s =
     (let (out, s1) = step r op s; (outs, s2) = run_ops step ops s1 in (out # outs, s2))"

definition spec_run :: "store_op list \<Rightarrow> secret_view \<Rightarrow> store_out list \<times> secret_view" where
  "spec_run ops m = run_ops (\<lambda>_. spec_step) (map (Pair ()) ops) m"

lemma spec_run_Nil [simp]: "spec_run [] m = ([], m)"
  by (simp add: spec_run_def)

lemma spec_run_Cons [simp]:
  "spec_run (op # ops) m =
     (let (out, m1) = spec_step op m; (outs, m2) = spec_run ops m1 in (out # outs, m2))"
  by (simp add: spec_run_def)

fun ops_ok :: "store_op list \<Rightarrow> secret_view \<Rightarrow> bool" where
  "ops_ok [] m \<longleftrightarrow> True"
| "ops_ok (op # ops) m \<longleftrightarrow> op_ok op m \<and> ops_ok ops (snd (spec_step op m))"

section \<open>The contract\<close>

locale secret_store =
  fixes step :: "'r \<Rightarrow> store_op \<Rightarrow> 's \<Rightarrow> store_out \<times> 's"
    and view :: "'s \<Rightarrow> secret_view"
    and inv :: "'s \<Rightarrow> bool"
    and good :: "'r \<Rightarrow> bool"
  assumes step_out: "inv s \<Longrightarrow> good r \<Longrightarrow> op_ok op (view s) \<Longrightarrow>
      fst (step r op s) = fst (spec_step op (view s))"
    and step_view: "inv s \<Longrightarrow> good r \<Longrightarrow> op_ok op (view s) \<Longrightarrow>
      view (snd (step r op s)) = snd (spec_step op (view s))"
    and step_inv: "inv s \<Longrightarrow> good r \<Longrightarrow> op_ok op (view s) \<Longrightarrow> inv (snd (step r op s))"
begin

lemma run_refines:
  assumes "inv s" "list_all good (map fst ops)" "ops_ok (map snd ops) (view s)"
  shows "fst (run_ops step ops s) = fst (spec_run (map snd ops) (view s))
    \<and> view (snd (run_ops step ops s)) = snd (spec_run (map snd ops) (view s))
    \<and> inv (snd (run_ops step ops s))"
  using assms
proof (induction ops arbitrary: s)
  case (Cons x ops)
  obtain r op where x: "x = (r, op)" by (cases x)
  obtain out s1 where st: "step r op s = (out, s1)" by (cases "step r op s")
  have 1: "spec_step op (view s) = (out, view s1)" "inv s1"
    using step_out [of s r op] step_view [of s r op] step_inv [of s r op] Cons.prems
    by (simp_all add: x st prod_eq_iff)
  with Cons show ?case by (simp add: x st Let_def split_beta)
qed simp

end

section \<open>The in-memory store\<close>

fun im_step :: "unit \<Rightarrow> store_op \<Rightarrow> in_memory_secret_store \<Rightarrow> store_out \<times> in_memory_secret_store" where
  "im_step u (DoCreate i t r) s = (case im_create i t r s of (x, s') \<Rightarrow> (OutMetadata x, s'))"
| "im_step u (DoRead i) s = (OutValue (im_read i s), s)"
| "im_step u (DoMetadata i) s = (OutMetadata (im_metadata i s), s)"
| "im_step u (DoUpdate t i v) s = (case im_rotate t i v s of (x, s') \<Rightarrow> (OutUnit x, s'))"
| "im_step u (DoRevoke t i) s = (case im_revoke t i s of (x, s') \<Rightarrow> (OutUnit x, s'))"
| "im_step u (DoDelete i) s = (case im_delete i s of (x, s') \<Rightarrow> (OutUnit x, s'))"

definition im_view :: "in_memory_secret_store \<Rightarrow> secret_view" where
  "im_view s i = map_option (\<lambda>r. (sr_metadata r, sr_value r)) (hm_get (im_records s) i)"

lemma new_metadata_id: "new_metadata i t r = Inr m \<Longrightarrow> sm_id (st_metadata m) = i \<and> st_status m = SecActive"
  by (auto simp: new_metadata_def bindR_Inr_iff secret_metadata_new_def split: if_splits)

lemma im_step_sim:
  assumes "\<not> im_poisoned s"
  shows "fst (im_step u op s) = fst (spec_step op (im_view s))
    \<and> im_view (snd (im_step u op s)) = snd (spec_step op (im_view s))
    \<and> \<not> im_poisoned (snd (im_step u op s))"
proof (cases op)
  case (DoCreate i t r)
  then show ?thesis
    using assms new_metadata_id [of i t r]
    by (cases "new_metadata i t r") (auto simp: im_create_def im_view_def)
qed (use assms in \<open>auto simp: im_read_def im_metadata_def im_rotate_def im_update_def
    im_revoke_def im_delete_def im_view_def option.map_comp o_def fun_eq_iff split: option.splits\<close>)

interpretation im: secret_store im_step im_view "\<lambda>s. \<not> im_poisoned s" "\<lambda>_. True"
  by unfold_locales (use im_step_sim in blast)+

text \<open>
  The in-memory store is the abstract store: any sequence of calls on a store whose lock is
  not poisoned returns exactly the results of the abstract map and leaves exactly its content.
\<close>

theorem in_memory_store_refines:
  assumes "\<not> im_poisoned s" and "ops_ok (map snd ops) (im_view s)"
  shows "fst (run_ops im_step ops s) = fst (spec_run (map snd ops) (im_view s))
    \<and> im_view (snd (run_ops im_step ops s)) = snd (spec_run (map snd ops) (im_view s))"
proof -
  have "list_all (\<lambda>_. True) (map fst ops)" by (induction ops) simp_all
  from im.run_refines [OF assms(1) this assms(2)] show ?thesis by blast
qed

definition create_example :: create_secret where
  "create_example = \<lparr>cr_name = lit ''connection-test'', cr_kind = Generic, cr_scope = GlobalScope,
     cr_value = SecretValue (lit ''top-secret'')\<rparr>"

definition ops_example :: "store_op list" where
  "ops_example = [DoCreate 1 0 create_example, DoRead 1, DoRevoke 2 1, DoRead 1, DoDelete 1, DoRead 1]"

definition outs_example :: "store_out list" where
  "outs_example = [OutMetadata (new_metadata 1 0 create_example),
     OutValue (Inr (SecretValue (lit ''top-secret''))), OutUnit (Inr ()),
     OutValue (Inl SecDenied), OutUnit (Inr ()), OutValue (Inl SecMissing)]"

lemma secret_example_ok: "secret_ok (SecretValue (lit ''top-secret''))"
  by (simp add: secret_ok_def secret_value_new_def valid_str_def str_simps ch_def is_scalar_def)

lemma create_example_value: "cr_value create_example = SecretValue (lit ''top-secret'')"
  by (simp add: create_example_def)

lemma ops_example_run:
  "ops_ok ops_example Map.empty" "fst (spec_run ops_example Map.empty) = outs_example"
proof -
  have "is_ok (new_metadata 1 0 create_example)" by code_simp
  then obtain m where m: "new_metadata 1 0 create_example = Inr m" "st_status m = SecActive"
    using new_metadata_id by (auto simp: is_ok_iff)
  show "ops_ok ops_example Map.empty"
    by (simp add: ops_example_def m create_example_value secret_example_ok)
  show "fst (spec_run ops_example Map.empty) = outs_example"
    by (simp add: ops_example_def outs_example_def m create_example_value touch_def Let_def)
qed

theorem in_memory_store_refines_witness:
  "fst (run_ops im_step (map (Pair ()) ops_example) \<lparr>im_poisoned = False, im_records = []\<rparr>) = outs_example"
proof -
  let ?s = "\<lparr>im_poisoned = False, im_records = []\<rparr>"
  have v: "im_view ?s = Map.empty" by (simp add: im_view_def fun_eq_iff)
  have p: "map snd (map (Pair ()) ops_example) = ops_example" by (simp add: o_def)
  from in_memory_store_refines [of ?s "map (Pair ()) ops_example", unfolded v p] ops_example_run
  show ?thesis by simp
qed

section \<open>The file stores\<close>

fun store_step ::
  "secret_env \<Rightarrow> value_codec \<Rightarrow> io_faults \<Rightarrow> str \<Rightarrow> store_op \<Rightarrow> disk \<Rightarrow> store_out \<times> disk" where
  "store_step env c ft root (DoCreate i t r) d =
     (case store_create env c ft root i t r d of (x, d') \<Rightarrow> (OutMetadata x, d'))"
| "store_step env c ft root (DoRead i) d = (OutValue (store_read env c ft root i d), d)"
| "store_step env c ft root (DoMetadata i) d = (OutMetadata (store_metadata env ft root i d), d)"
| "store_step env c ft root (DoUpdate t i v) d =
     (case store_rotate env c ft root t i v d of (x, d') \<Rightarrow> (OutUnit x, d'))"
| "store_step env c ft root (DoRevoke t i) d =
     (case store_revoke env ft root t i d of (x, d') \<Rightarrow> (OutUnit x, d'))"
| "store_step env c ft root (DoDelete i) d =
     (case store_delete env c ft root i d of (x, d') \<Rightarrow> (OutUnit x, d'))"

text \<open>
  What the file stores rely on: different ids have different texts, and JSON written for metadata
  is read back.
\<close>

definition env_ok :: "secret_env \<Rightarrow> bool" where
  "env_ok env \<longleftrightarrow> inj (se_uuid_to_string env)
     \<and> (\<forall>m. \<exists>b. se_to_vec env m = Some b \<and> se_from_slice env b = Some m)"

text \<open>
  A codec whose values are read back by the reference codec \<open>c0\<close>, with the same extension (which
  ends differently from \<open>.json\<close>).
\<close>

definition codec_ok :: "value_codec \<Rightarrow> value_codec \<Rightarrow> bool" where
  "codec_ok c0 c \<longleftrightarrow> vc_extension c = vc_extension c0 \<and> vc_decode c = vc_decode c0
     \<and> vc_extension c0 \<noteq> [] \<and> last (vc_extension c0) \<noteq> ch CHR ''n''
     \<and> (\<forall>v. secret_ok v \<longrightarrow> (\<exists>b. vc_encode c v = Inr b \<and> vc_decode c0 b = Inr v))"

text \<open>The content of a directory, and when it is complete: every metadata file has a value file.\<close>

definition entry_view ::
  "secret_env \<Rightarrow> value_codec \<Rightarrow> disk_file option \<Rightarrow> disk_file option
     \<Rightarrow> (stored_secret_metadata \<times> secret_value) option" where
  "entry_view env c mf vf =
     (case (mf, vf) of
        (Some f, Some g) \<Rightarrow>
          (case (se_from_slice env (fi_bytes f), vc_decode c (fi_bytes g)) of
             (Some m, Inr v) \<Rightarrow> Some (m, v)
           | _ \<Rightarrow> None)
      | _ \<Rightarrow> None)"

definition dir_view :: "secret_env \<Rightarrow> value_codec \<Rightarrow> str \<Rightarrow> disk \<Rightarrow> secret_view" where
  "dir_view env c root d i =
     entry_view env c (hm_get d (metadata_path env root i)) (hm_get d (value_path env c root i))"

definition entry_ok ::
  "secret_env \<Rightarrow> value_codec \<Rightarrow> uuid \<Rightarrow> disk_file option \<Rightarrow> disk_file option \<Rightarrow> bool" where
  "entry_ok env c i mf vf \<longleftrightarrow>
     (case (mf, vf) of
        (None, None) \<Rightarrow> True
      | (Some f, Some g) \<Rightarrow> fi_private g \<and> is_ok (vc_decode c (fi_bytes g))
          \<and> (case se_from_slice env (fi_bytes f) of None \<Rightarrow> False
             | Some m \<Rightarrow> sm_id (st_metadata m) = i)
      | _ \<Rightarrow> False)"

definition dir_ok :: "secret_env \<Rightarrow> value_codec \<Rightarrow> str \<Rightarrow> disk \<Rightarrow> bool" where
  "dir_ok env c root d \<longleftrightarrow>
     (\<forall>i. entry_ok env c i (hm_get d (metadata_path env root i)) (hm_get d (value_path env c root i)))"

lemma dir_ok_cases:
  assumes "dir_ok env c root d"
  obtains (absent) "hm_get d (metadata_path env root i) = None"
      "hm_get d (value_path env c root i) = None" "dir_view env c root d i = None"
  | (present) f g m v where "hm_get d (metadata_path env root i) = Some f"
      "hm_get d (value_path env c root i) = Some g" "fi_private g"
      "vc_decode c (fi_bytes g) = Inr v" "se_from_slice env (fi_bytes f) = Some m"
      "sm_id (st_metadata m) = i" "dir_view env c root d i = Some (m, v)"
proof -
  have "entry_ok env c i (hm_get d (metadata_path env root i)) (hm_get d (value_path env c root i))"
    using assms by (simp add: dir_ok_def)
  then show ?thesis
    using absent present
    by (auto simp: entry_ok_def dir_view_def entry_view_def is_ok_iff split: option.splits)
qed

lemma paths_distinct:
  assumes "env_ok env" "codec_ok c0 c"
  shows "metadata_path env root i = metadata_path env root j \<longleftrightarrow> i = j"
    and "value_path env c0 root i = value_path env c0 root j \<longleftrightarrow> i = j"
    and "value_path env c0 root i \<noteq> metadata_path env root j"
    and "value_path env c root = value_path env c0 root"
proof -
  have "last (x @ vc_extension c0) \<noteq> last (y @ lit ''.json'')" for x y
    using assms(2) by (simp add: codec_ok_def str_simps)
  then show "value_path env c0 root i \<noteq> metadata_path env root j"
    by (metis metadata_path_def value_path_def prod.inject)
qed (use assms in \<open>auto simp: env_ok_def codec_ok_def value_path_def metadata_path_def inj_def\<close>)

lemma dir_set:
  assumes env: "env_ok env" "codec_ok c0 c"
    and d': "hm_get d' = (hm_get d)(metadata_path env root i := mf, value_path env c0 root i := vf)"
  shows "dir_view env c0 root d' = (dir_view env c0 root d)(i := entry_view env c0 mf vf)"
    and "dir_ok env c0 root d \<Longrightarrow> entry_ok env c0 i mf vf \<Longrightarrow> dir_ok env c0 root d'"
proof -
  note p = paths_distinct [OF env]
  have m: "hm_get d' (metadata_path env root j) =
      (if j = i then mf else hm_get d (metadata_path env root j))" for j
    using p(1) [of root j i] p(3) [of root i j] by (auto simp: d')
  have v: "hm_get d' (value_path env c0 root j) =
      (if j = i then vf else hm_get d (value_path env c0 root j))" for j
    using p(2) [of root j i] p(3) [of root j i] by (auto simp: d')
  show "dir_view env c0 root d' = (dir_view env c0 root d)(i := entry_view env c0 mf vf)"
    by (auto simp: dir_view_def fun_eq_iff m v)
  show "dir_ok env c0 root d'" if "dir_ok env c0 root d" "entry_ok env c0 i mf vf"
    using that by (simp add: dir_ok_def m v)
qed

text \<open>The fault-free primitives.\<close>

lemma no_faults_simps [simp]:
  "ft_create_dir no_faults x = False" "ft_read_dir no_faults x = None"
  "ft_read no_faults p = None" "ft_write no_faults p = None"
  "ft_permissions no_faults p = None" "ft_remove no_faults p = None"
  by (simp_all add: no_faults_def)

lemma write_metadata_no_faults:
  assumes "se_to_vec env m = Some b"
  shows "write_metadata env no_faults root m d =
    (Inr (), put_bytes (metadata_path env root (sm_id (st_metadata m))) b d)"
  using assms by (simp add: write_metadata_def fs_write_def)

lemma write_secret_bytes_no_faults:
  "write_secret_bytes no_faults p bs d =
     (Inr (), hm_insert p \<lparr>fi_bytes = bs, fi_private = True\<rparr> (put_bytes p bs d))"
  by (simp add: write_secret_bytes_def fs_write_def set_private_permissions_def put_bytes_def)

lemma write_value_no_faults:
  assumes "vc_encode c v = Inr b"
  shows "write_value env c no_faults root i v d =
    (Inr (), hm_insert (value_path env c root i) \<lparr>fi_bytes = b, fi_private = True\<rparr>
       (put_bytes (value_path env c root i) b d))"
  using assms by (simp add: write_value_def write_secret_bytes_no_faults)

lemma read_metadata_no_faults:
  "read_metadata env no_faults root i d =
     (case hm_get d (metadata_path env root i) of
        None \<Rightarrow> Inl SecMissing
      | Some f \<Rightarrow> ok_or SecInvalid (se_from_slice env (fi_bytes f)))"
  by (simp add: read_metadata_def fs_read_def split: option.splits)

lemma hm_get_put_bytes:
  "hm_get (put_bytes p bs d) = (hm_get d)(p \<mapsto> \<lparr>fi_bytes = bs,
     fi_private = (case hm_get d p of None \<Rightarrow> False | Some f \<Rightarrow> fi_private f)\<rparr>)"
  by (auto simp: put_bytes_def fun_eq_iff)

text \<open>One call of a file store, without faults, is one call of the abstract store.\<close>

definition step_sim :: "secret_env \<Rightarrow> value_codec \<Rightarrow> value_codec \<Rightarrow> str \<Rightarrow> store_op \<Rightarrow> disk \<Rightarrow> bool" where
  "step_sim env c0 c root op d \<longleftrightarrow>
     fst (store_step env c no_faults root op d) = fst (spec_step op (dir_view env c0 root d))
     \<and> dir_view env c0 root (snd (store_step env c no_faults root op d)) =
         snd (spec_step op (dir_view env c0 root d))
     \<and> dir_ok env c0 root (snd (store_step env c no_faults root op d))"

lemma step_simI:
  assumes "store_step env c no_faults root op d = (out, d')"
    and "spec_step op (dir_view env c0 root d) = (out, dir_view env c0 root d')"
    and "dir_ok env c0 root d'"
  shows "step_sim env c0 c root op d"
  using assms by (simp add: step_sim_def)

lemma to_vec_ex:
  assumes "env_ok env"
  obtains b where "se_to_vec env m = Some b" "se_from_slice env b = Some m"
  using assms by (auto simp: env_ok_def)

lemma encode_ex:
  assumes "codec_ok c0 c" "secret_ok v"
  obtains b where "vc_encode c v = Inr b" "vc_decode c0 b = Inr v"
  using assms by (auto simp: codec_ok_def)

lemma sim_create:
  assumes env: "env_ok env" "codec_ok c0 c" and dir: "dir_ok env c0 root d"
    and op: "op_ok (DoCreate i t r) (dir_view env c0 root d)"
  shows "step_sim env c0 c root (DoCreate i t r) d"
proof (cases "new_metadata i t r")
  case (Inl e)
  then show ?thesis using dir by (intro step_simI) (simp_all add: store_create_def)
next
  case (Inr m)
  have id: "sm_id (st_metadata m) = i" using new_metadata_id [OF Inr] by simp
  obtain b where b: "se_to_vec env m = Some b" "se_from_slice env b = Some m" by (rule to_vec_ex [OF env(1)])
  obtain w where w: "vc_encode c (cr_value r) = Inr w" "vc_decode c0 w = Inr (cr_value r)"
    using encode_ex [OF env(2)] op by auto
  let ?g = "\<lparr>fi_bytes = w, fi_private = True\<rparr>"
  define mf where "mf = \<lparr>fi_bytes = b, fi_private =
     (case hm_get d (metadata_path env root i) of None \<Rightarrow> False | Some f \<Rightarrow> fi_private f)\<rparr>"
  define d' where "d' = hm_insert (value_path env c0 root i) ?g
     (put_bytes (value_path env c0 root i) w (put_bytes (metadata_path env root i) b d))"
  have get: "hm_get d' = (hm_get d)(metadata_path env root i := Some mf,
      value_path env c0 root i := Some ?g)"
    by (auto simp: d'_def hm_get_put_bytes mf_def fun_eq_iff)
  have "store_step env c no_faults root (DoCreate i t r) d = (OutMetadata (Inr m), d')"
    by (simp add: store_create_def Inr id write_metadata_no_faults [OF b(1)]
        write_value_no_faults [OF w(1)] paths_distinct(4) [OF env] d'_def)
  then show ?thesis
    using dir_set [OF env get] dir b w id
    by (intro step_simI) (simp_all add: Inr entry_view_def entry_ok_def mf_def)
qed

lemma sim_rewrite:
  assumes env: "env_ok env" "codec_ok c0 c" and dir: "dir_ok env c0 root d"
    and old: "hm_get d (metadata_path env root i) = Some f" "hm_get d (value_path env c0 root i) = Some g"
    and m: "se_to_vec env m = Some b" "se_from_slice env b = Some m" "sm_id (st_metadata m) = i"
    and g': "fi_private g'" "vc_decode c0 (fi_bytes g') = Inr v"
    and d': "hm_get d' = (hm_get d)(value_path env c0 root i := Some g')"
  shows "dir_view env c0 root (put_bytes (metadata_path env root i) b d') =
      (dir_view env c0 root d)(i := Some (m, v))"
    and "dir_ok env c0 root (put_bytes (metadata_path env root i) b d')"
proof -
  let ?f = "\<lparr>fi_bytes = b, fi_private = fi_private f\<rparr>"
  have get: "hm_get (put_bytes (metadata_path env root i) b d') =
      (hm_get d)(metadata_path env root i := Some ?f, value_path env c0 root i := Some g')"
    using old paths_distinct(3) [OF env, of root i i]
    by (auto simp: hm_get_put_bytes d' fun_eq_iff)
  show "dir_view env c0 root (put_bytes (metadata_path env root i) b d') =
      (dir_view env c0 root d)(i := Some (m, v))"
    using dir_set(1) [OF env get] m g' by (simp add: entry_view_def)
  show "dir_ok env c0 root (put_bytes (metadata_path env root i) b d')"
    using dir_set(2) [OF env get dir] m g' by (simp add: entry_ok_def)
qed

lemma sim_update:
  assumes env: "env_ok env" "codec_ok c0 c" and dir: "dir_ok env c0 root d"
    and op: "op_ok (DoUpdate t i v) (dir_view env c0 root d)"
  shows "step_sim env c0 c root (DoUpdate t i v) d"
  using dir
proof (cases rule: dir_ok_cases [where i = i])
  case absent
  then show ?thesis
    using dir by (intro step_simI) (simp_all add: store_rotate_def store_update_def read_metadata_no_faults)
next
  case (present f g m w)
  show ?thesis
  proof (cases "st_status m = SecActive")
    case False
    then show ?thesis
      using dir present
      by (intro step_simI) (simp_all add: store_rotate_def store_update_def read_metadata_no_faults)
  next
    case True
    obtain b where b: "se_to_vec env (touch t m) = Some b" "se_from_slice env b = Some (touch t m)"
      by (rule to_vec_ex [OF env(1)])
    obtain x where x: "vc_encode c v = Inr x" "vc_decode c0 x = Inr v"
      using encode_ex [OF env(2)] op by auto
    have id: "sm_id (st_metadata (touch t m)) = i" using present(6) by (simp add: touch_def)
    let ?g = "\<lparr>fi_bytes = x, fi_private = True\<rparr>"
    let ?d1 = "hm_insert (value_path env c0 root i) ?g (put_bytes (value_path env c0 root i) x d)"
    have d1: "hm_get ?d1 = (hm_get d)(value_path env c0 root i := Some ?g)"
      by (auto simp: hm_get_put_bytes fun_eq_iff)
    have g: "fi_private ?g" "vc_decode c0 (fi_bytes ?g) = Inr v" using x by simp_all
    note r = sim_rewrite [OF env dir present(1,2) b id g d1]
    have "store_step env c no_faults root (DoUpdate t i v) d =
        (OutUnit (Inr ()), put_bytes (metadata_path env root i) b ?d1)"
      using present True
      by (simp add: store_rotate_def store_update_def read_metadata_no_faults
          write_value_no_faults [OF x(1)] write_metadata_no_faults [OF b(1)] id
          paths_distinct(4) [OF env])
    then show ?thesis by (rule step_simI) (simp_all add: present True r)
  qed
qed

lemma sim_revoke:
  assumes env: "env_ok env" "codec_ok c0 c" and dir: "dir_ok env c0 root d"
  shows "step_sim env c0 c root (DoRevoke t i) d"
  using dir
proof (cases rule: dir_ok_cases [where i = i])
  case absent
  then show ?thesis
    using dir by (intro step_simI) (simp_all add: store_revoke_def read_metadata_no_faults)
next
  case (present f g m w)
  let ?m = "touch t (m\<lparr>st_status := SecRevoked\<rparr>)"
  obtain b where b: "se_to_vec env ?m = Some b" "se_from_slice env b = Some ?m"
    by (rule to_vec_ex [OF env(1)])
  have id: "sm_id (st_metadata ?m) = i" using present(6) by (simp add: touch_def)
  have d1: "hm_get d = (hm_get d)(value_path env c0 root i := Some g)"
    using present(2) by (auto simp: fun_eq_iff)
  note r = sim_rewrite [OF env dir present(1,2) b id present(3,4) d1]
  have "store_step env c no_faults root (DoRevoke t i) d =
      (OutUnit (Inr ()), put_bytes (metadata_path env root i) b d)"
    using present by (simp add: store_revoke_def read_metadata_no_faults
        write_metadata_no_faults [OF b(1)] id)
  then show ?thesis by (rule step_simI) (simp_all add: present r)
qed

lemma sim_delete:
  assumes env: "env_ok env" "codec_ok c0 c" and dir: "dir_ok env c0 root d"
  shows "step_sim env c0 c root (DoDelete i) d"
  using dir
proof (cases rule: dir_ok_cases [where i = i])
  case absent
  then show ?thesis
    using dir by (intro step_simI) (simp_all add: store_delete_def read_metadata_no_faults)
next
  case (present f g m w)
  let ?d = "hm_remove (metadata_path env root i) (hm_remove (value_path env c0 root i) d)"
  have get: "hm_get ?d = (hm_get d)(metadata_path env root i := None, value_path env c0 root i := None)"
    by (auto simp: fun_eq_iff)
  have "store_step env c no_faults root (DoDelete i) d = (OutUnit (Inr ()), ?d)"
    using present paths_distinct(3) [OF env, of root i i]
    by (simp add: store_delete_def read_metadata_no_faults fs_remove_file_def
        paths_distinct(4) [OF env])
  then show ?thesis
    using dir_set [OF env get] dir
    by (intro step_simI) (simp_all add: present entry_view_def entry_ok_def)
qed

lemma store_step_sim:
  assumes env: "env_ok env" "codec_ok c0 c" and dir: "dir_ok env c0 root d"
    and op: "op_ok op (dir_view env c0 root d)"
  shows "step_sim env c0 c root op d"
proof (cases op)
  case (DoRead i)
  have dec: "vc_decode c = vc_decode c0" using env(2) by (simp add: codec_ok_def)
  from dir show ?thesis
    by (cases rule: dir_ok_cases [where i = i])
       (auto simp: step_sim_def DoRead store_read_def read_metadata_no_faults fs_read_def dec
         paths_distinct(4) [OF env] intro: dir)
next
  case (DoMetadata i)
  from dir show ?thesis
    by (cases rule: dir_ok_cases [where i = i])
       (auto simp: step_sim_def DoMetadata store_metadata_def read_metadata_no_faults intro: dir)
next
  case (DoCreate i t r)
  with op sim_create [OF env dir] show ?thesis by simp
next
  case (DoUpdate t i v)
  with op sim_update [OF env dir] show ?thesis by simp
next
  case (DoRevoke t i)
  with sim_revoke [OF env dir] show ?thesis by simp
next
  case (DoDelete i)
  with sim_delete [OF env dir] show ?thesis by simp
qed

section \<open>The plain and the encrypted store satisfy the contract\<close>

fun file_step ::
  "secret_env \<Rightarrow> io_faults \<Rightarrow> str \<Rightarrow> unit \<Rightarrow> store_op \<Rightarrow> disk \<Rightarrow> store_out \<times> disk" where
  "file_step env ft root u (DoCreate i t r) d =
     (case file_create env ft root i t r d of (x, d') \<Rightarrow> (OutMetadata x, d'))"
| "file_step env ft root u (DoRead i) d = (OutValue (file_read env ft root i d), d)"
| "file_step env ft root u (DoMetadata i) d = (OutMetadata (store_metadata env ft root i d), d)"
| "file_step env ft root u (DoUpdate t i v) d =
     (case file_update env ft root t i v d of (x, d') \<Rightarrow> (OutUnit x, d'))"
| "file_step env ft root u (DoRevoke t i) d =
     (case store_revoke env ft root t i d of (x, d') \<Rightarrow> (OutUnit x, d'))"
| "file_step env ft root u (DoDelete i) d =
     (case file_delete env ft root i d of (x, d') \<Rightarrow> (OutUnit x, d'))"

fun enc_step ::
  "secret_env \<Rightarrow> io_faults \<Rightarrow> encrypted_store \<Rightarrow> u8 list \<Rightarrow> store_op \<Rightarrow> disk \<Rightarrow> store_out \<times> disk" where
  "enc_step env ft s nonce (DoCreate i t r) d =
     (case enc_create env ft s nonce i t r d of (x, d') \<Rightarrow> (OutMetadata x, d'))"
| "enc_step env ft s nonce (DoRead i) d = (OutValue (enc_read env ft s i d), d)"
| "enc_step env ft s nonce (DoMetadata i) d =
     (OutMetadata (store_metadata env ft (es_root s) i d), d)"
| "enc_step env ft s nonce (DoUpdate t i v) d =
     (case enc_update env ft s nonce t i v d of (x, d') \<Rightarrow> (OutUnit x, d'))"
| "enc_step env ft s nonce (DoRevoke t i) d =
     (case store_revoke env ft (es_root s) t i d of (x, d') \<Rightarrow> (OutUnit x, d'))"
| "enc_step env ft s nonce (DoDelete i) d =
     (case enc_delete env ft s i d of (x, d') \<Rightarrow> (OutUnit x, d'))"

lemma file_step_eq: "file_step env ft root u = store_step env plain_codec ft root"
proof (intro ext)
  fix op d
  show "file_step env ft root u op d = store_step env plain_codec ft root op d"
    by (cases op) (simp_all add: file_create_def file_read_def file_update_def file_delete_def
        store_rotate_def)
qed

lemma encrypted_codec_simps:
  "value_path env (encrypted_codec env s n) root i = (root, se_uuid_to_string env i @ lit ''.enc'')"
  "vc_decode (encrypted_codec env s n) = decrypt env s"
  "vc_encode (encrypted_codec env s n) = encrypt_payload env s n"
  by (simp_all add: encrypted_codec_def value_path_def)

lemma enc_step_eq: "enc_step env ft s n = store_step env (encrypted_codec env s n) ft (es_root s)"
proof (intro ext)
  fix op d
  have r: "store_read env (encrypted_codec env s []) = store_read env (encrypted_codec env s n)"
    by (intro ext) (unfold store_read_def encrypted_codec_simps, rule refl)
  have x: "store_delete env (encrypted_codec env s []) = store_delete env (encrypted_codec env s n)"
    by (intro ext) (unfold store_delete_def encrypted_codec_simps, rule refl)
  show "enc_step env ft s n op d = store_step env (encrypted_codec env s n) ft (es_root s) op d"
    by (cases op) (simp_all add: enc_create_def enc_read_def enc_update_def enc_delete_def
        store_rotate_def r x)
qed

lemma plain_codec_ok: "codec_ok plain_codec plain_codec"
  by (auto simp: codec_ok_def plain_codec_def secret_ok_def str_simps ch_def)

text \<open>
  What is relied on of the cipher: what is encrypted under a key and nonce decrypts under them
  (and is not empty: it carries a tag), and is rejected under every other key.
\<close>

definition cipher_ok :: "secret_env \<Rightarrow> bool" where
  "cipher_ok env \<longleftrightarrow> (\<forall>k n p. length k = 32 \<longrightarrow> length n = 24 \<longrightarrow>
     (\<exists>c. se_encrypt env k n p = Some c \<and> c \<noteq> [] \<and> se_decrypt env k n c = Some p))"

definition cipher_authentic :: "secret_env \<Rightarrow> bool" where
  "cipher_authentic env \<longleftrightarrow> (\<forall>k k' n p c. length k = 32 \<longrightarrow> length k' = 32 \<longrightarrow> k \<noteq> k' \<longrightarrow>
     se_encrypt env k n p = Some c \<longrightarrow> se_decrypt env k' n c = None)"

definition keys_ok :: "encrypted_store \<Rightarrow> bool" where
  "keys_ok s \<longleftrightarrow> list_all (\<lambda>k. length k = 32) (es_current_key s # es_previous_keys s)"

lemma length_header: "length header = 9"
  by code_simp

lemma decrypt_payload:
  assumes "length n = 24" "c \<noteq> []"
  shows "decrypt env s (header @ n @ c) = try_keys env n c (es_current_key s # es_previous_keys s)"
  using assms by (cases c) (simp_all add: decrypt_def length_header Let_def)

lemma try_keys_found:
  assumes "cipher_ok env" "cipher_authentic env" "secret_ok v" "length n = 24"
    and "se_encrypt env k n (as_bytes (expose v)) = Some c"
    and "k \<in> set ks" "list_all (\<lambda>k. length k = 32) ks"
  shows "try_keys env n c ks = Inr v"
  using assms(6,7)
proof (induction ks)
  case (Cons k' ks)
  show ?case
  proof (cases "k' = k")
    case True
    moreover have "length k' = 32" using Cons.prems by simp
    ultimately have "se_decrypt env k' n c = Some (as_bytes (expose v))"
      using assms(1,4,5) unfolding cipher_ok_def by (metis option.inject)
    then show ?thesis using assms(3) by (simp add: secret_ok_def)
  next
    case False
    with Cons.prems have k: "length k = 32" "length k' = 32" by (auto simp: list_all_iff)
    with False have "se_decrypt env k' n c = None"
      using assms(2,5) unfolding cipher_authentic_def by metis
    with Cons False show ?thesis by simp
  qed
qed simp

lemma try_keys_none:
  assumes "cipher_authentic env" "se_encrypt env k n p = Some c" "length k = 32"
    and "k \<notin> set ks" "list_all (\<lambda>k. length k = 32) ks"
  shows "try_keys env n c ks = Inl SecDenied"
  using assms(4,5)
proof (induction ks)
  case (Cons k' ks)
  then have "k \<noteq> k'" "length k' = 32" by auto
  then have "se_decrypt env k' n c = None"
    using assms(1-3) unfolding cipher_authentic_def by metis
  with Cons show ?case by simp
qed simp

lemma encrypt_payload_ex:
  assumes "cipher_ok env" "length (es_current_key s) = 32" "length n = 24"
  obtains c where "encrypt_payload env s n v = Inr (header @ n @ c)" "c \<noteq> []"
    "se_encrypt env (es_current_key s) n (as_bytes (expose v)) = Some c"
    "se_decrypt env (es_current_key s) n c = Some (as_bytes (expose v))"
proof -
  obtain c where "se_encrypt env (es_current_key s) n (as_bytes (expose v)) = Some c" "c \<noteq> []"
    "se_decrypt env (es_current_key s) n c = Some (as_bytes (expose v))"
    using assms unfolding cipher_ok_def by blast
  with that show ?thesis by (simp add: encrypt_payload_def)
qed

lemma encrypted_codec_ok:
  assumes "cipher_ok env" "length (es_current_key s) = 32" "length n = 24"
  shows "codec_ok (encrypted_codec env s []) (encrypted_codec env s n)"
proof -
  have "\<exists>b. encrypt_payload env s n v = Inr b \<and> decrypt env s b = Inr v" if v: "secret_ok v" for v
  proof -
    obtain c where "encrypt_payload env s n v = Inr (header @ n @ c)" "c \<noteq> []"
      "se_decrypt env (es_current_key s) n c = Some (as_bytes (expose v))"
      by (rule encrypt_payload_ex [OF assms, of v])
    with v assms(3) show ?thesis by (simp add: decrypt_payload secret_ok_def)
  qed
  then show ?thesis by (simp add: codec_ok_def encrypted_codec_def str_simps ch_def)
qed

lemma file_secret_store:
  assumes "env_ok env"
  shows "secret_store (file_step env no_faults root) (dir_view env plain_codec root)
      (dir_ok env plain_codec root) (\<lambda>_. True)"
  by unfold_locales
     (use store_step_sim [OF assms plain_codec_ok] in \<open>auto simp: step_sim_def file_step_eq\<close>)

lemma enc_secret_store:
  assumes "env_ok env" "cipher_ok env" "length (es_current_key s) = 32"
  shows "secret_store (enc_step env no_faults s) (dir_view env (encrypted_codec env s []) (es_root s))
      (dir_ok env (encrypted_codec env s []) (es_root s)) (\<lambda>n. length n = 24)"
  by unfold_locales
     (use store_step_sim [OF assms(1) encrypted_codec_ok [OF assms(2,3)]]
      in \<open>auto simp: step_sim_def enc_step_eq\<close>)

section \<open>A concrete environment\<close>

text \<open>Numbers in unary, ended by a zero byte, and metadata as a list of numbers.\<close>

definition bytes_of_nats :: "nat list \<Rightarrow> u8 list" where
  "bytes_of_nats ns = concat (map (\<lambda>n. replicate n 1 @ [0]) ns)"

fun nats_of_bytes :: "nat \<Rightarrow> u8 list \<Rightarrow> nat list" where
  "nats_of_bytes acc [] = []"
| "nats_of_bytes acc (b # bs) =
     (if b = 0 then acc # nats_of_bytes 0 bs else nats_of_bytes (Suc acc) bs)"

lemma nats_of_bytes_replicate:
  "nats_of_bytes acc (replicate n 1 @ 0 # bs) = (acc + n) # nats_of_bytes 0 bs"
  by (induction n arbitrary: acc) simp_all

lemma nats_of_bytes_inverse: "nats_of_bytes 0 (bytes_of_nats ns) = ns"
  by (induction ns) (simp_all add: bytes_of_nats_def nats_of_bytes_replicate)

definition kinds :: "secret_kind list" where
  "kinds = [SshPrivateKey, SshPassword, SshKnownHosts, WinrmPassword, AgentToken, BackupPassphrase,
     Generic]"

definition index_of_kind :: "secret_kind \<Rightarrow> nat" where
  "index_of_kind k = length (takeWhile (\<lambda>x. x \<noteq> k) kinds)"

lemma kinds_index: "kinds ! index_of_kind k = k"
  by (cases k) (simp_all add: kinds_def index_of_kind_def)

definition nats_of_stored :: "stored_secret_metadata \<Rightarrow> nat list" where
  "nats_of_stored s = (let m = st_metadata s in
     [unat (sm_id m), index_of_kind (sm_kind m),
      (case sm_scope m of GlobalScope \<Rightarrow> 0 | ContainerScope c \<Rightarrow> Suc (unat c)),
      nat (sm_created_at m), nat (- sm_created_at m), nat (sm_updated_at m), nat (- sm_updated_at m),
      (if st_status s = SecActive then 1 else 0)] @ sm_name m)"

definition stored_of_nats :: "nat list \<Rightarrow> stored_secret_metadata option" where
  "stored_of_nats ns =
     (case ns of
        i # k # sc # c1 # c2 # u1 # u2 # st # name \<Rightarrow>
          Some \<lparr>st_metadata = \<lparr>sm_id = of_nat i, sm_name = name, sm_kind = kinds ! k,
              sm_scope = (if sc = 0 then GlobalScope else ContainerScope (of_nat (sc - 1))),
              sm_created_at = int c1 - int c2, sm_updated_at = int u1 - int u2\<rparr>,
            st_status = (if st = 1 then SecActive else SecRevoked)\<rparr>
      | _ \<Rightarrow> None)"

lemma int_nat_diff: "int (nat x) - int (nat (- x)) = x"
  by simp

lemma stored_of_nats_inverse: "stored_of_nats (nats_of_stored s) = Some s"
proof (cases s)
  case (fields m st)
  then show ?thesis
    by (cases m; cases "sm_scope m"; cases st)
       (simp_all add: stored_of_nats_def nats_of_stored_def Let_def kinds_index)
qed

text \<open>A cipher that marks the text with its key.\<close>

definition secret_env_example :: secret_env where
  "secret_env_example = \<lparr>se_uuid_to_string = (\<lambda>u. [unat u]),
     se_to_vec = (\<lambda>m. Some (bytes_of_nats (nats_of_stored m))),
     se_from_slice = (\<lambda>b. stored_of_nats (nats_of_bytes 0 b)),
     se_encrypt = (\<lambda>k n p. Some (k @ p)),
     se_decrypt = (\<lambda>k n c. if take (length k) c = k then Some (drop (length k) c) else None)\<rparr>"

lemma env_example_ok:
  "env_ok secret_env_example" "cipher_ok secret_env_example" "cipher_authentic secret_env_example"
  by (auto simp: secret_env_example_def env_ok_def cipher_ok_def cipher_authentic_def inj_def
      nats_of_bytes_inverse stored_of_nats_inverse intro: unsigned_word_eqI)

lemma empty_dir_ok: "dir_ok env c root []" "dir_view env c root [] = Map.empty"
  by (simp_all add: dir_ok_def entry_ok_def dir_view_def entry_view_def fun_eq_iff)

section \<open>Properties of the file stores\<close>

text \<open>
  The plain-file store is the abstract store: on a file system without faults, starting from
  a directory in which every metadata file has its value file, any sequence of calls returns the
  results of the abstract map, leaves its content, and keeps the directory complete.
\<close>

theorem file_store_refines:
  assumes "env_ok env" and "dir_ok env plain_codec root d"
    and "ops_ok (map snd ops) (dir_view env plain_codec root d)"
  shows "fst (run_ops (file_step env no_faults root) ops d) =
      fst (spec_run (map snd ops) (dir_view env plain_codec root d))
    \<and> dir_view env plain_codec root (snd (run_ops (file_step env no_faults root) ops d)) =
      snd (spec_run (map snd ops) (dir_view env plain_codec root d))
    \<and> dir_ok env plain_codec root (snd (run_ops (file_step env no_faults root) ops d))"
proof -
  have "list_all (\<lambda>_. True) (map fst ops)" by (induction ops) simp_all
  from secret_store.run_refines [OF file_secret_store [OF assms(1)] assms(2) this assms(3)]
  show ?thesis .
qed

theorem file_store_refines_witness:
  "fst (run_ops (file_step secret_env_example no_faults (lit ''/srv'')) (map (Pair ()) ops_example) []) =
     outs_example"
proof -
  have p: "map snd (map (Pair ()) ops_example) = ops_example" by (simp add: o_def)
  from file_store_refines [OF env_example_ok(1) empty_dir_ok(1),
      of "map (Pair ()) ops_example" "lit ''/srv''", unfolded p empty_dir_ok(2)] ops_example_run
  show ?thesis by simp
qed

text \<open>
  C38. Without faults of the file system, and on a directory that holds every secret completely, the
  encrypted store is the abstract store as well: for every cipher that decrypts what it
  encrypted under the same key and nonce, any sequence of calls that create, read, update, revoke
  and delete secrets or read their metadata, each with its own 24-byte nonce, returns the results of
  the abstract map and leaves its content and a complete directory. Listing all metadata is not among
  the calls.
\<close>

theorem encrypted_store_refines:
  assumes "env_ok env" and "cipher_ok env" and "length (es_current_key s) = 32"
    and "dir_ok env (encrypted_codec env s []) (es_root s) d"
    and "list_all (\<lambda>n. length n = 24) (map fst ops)"
    and "ops_ok (map snd ops) (dir_view env (encrypted_codec env s []) (es_root s) d)"
  shows "fst (run_ops (enc_step env no_faults s) ops d) =
      fst (spec_run (map snd ops) (dir_view env (encrypted_codec env s []) (es_root s) d))
    \<and> dir_view env (encrypted_codec env s []) (es_root s)
        (snd (run_ops (enc_step env no_faults s) ops d)) =
      snd (spec_run (map snd ops) (dir_view env (encrypted_codec env s []) (es_root s) d))
    \<and> dir_ok env (encrypted_codec env s []) (es_root s)
        (snd (run_ops (enc_step env no_faults s) ops d))"
  by (rule secret_store.run_refines [OF enc_secret_store [OF assms(1-3)] assms(4-6)])

definition key_example :: "u8 \<Rightarrow> master_key" where
  "key_example b = replicate 32 b"

definition store_example :: "u8 \<Rightarrow> u8 list \<Rightarrow> encrypted_store" where
  "store_example current previous = \<lparr>es_root = lit ''/srv'', es_current_key = key_example current,
     es_previous_keys = map key_example previous\<rparr>"

theorem encrypted_store_refines_witness:
  "fst (run_ops (enc_step secret_env_example no_faults (store_example 7 []))
     (map (Pair (replicate 24 1)) ops_example) []) = outs_example"
proof -
  have p: "map snd (map (Pair (replicate 24 (1 :: u8))) ops_example) = ops_example"
    by (simp add: o_def)
  have k: "length (es_current_key (store_example 7 [])) = 32"
    by (simp add: store_example_def key_example_def)
  have n: "list_all (\<lambda>n. length n = 24) (map fst (map (Pair (replicate 24 (1 :: u8))) ops_example))"
    by (simp add: list_all_iff)
  from encrypted_store_refines [OF env_example_ok(1,2) k empty_dir_ok(1) n,
      unfolded p empty_dir_ok(2)] ops_example_run
  show ?thesis by simp
qed

section \<open>Key rotation\<close>

lemma store_create_files:
  assumes "env_ok env" "vc_encode c (cr_value r) = Inr w"
    and "value_path env c root i \<noteq> metadata_path env root i"
    and "store_create env c no_faults root i t r d = (Inr m, d')"
  shows "hm_get d' (value_path env c root i) = Some \<lparr>fi_bytes = w, fi_private = True\<rparr>"
    and "read_metadata env no_faults root i d' = Inr m" and "st_status m = SecActive"
proof -
  have nm: "new_metadata i t r = Inr m"
    using assms(4) by (auto simp: store_create_def split: sum.splits prod.splits)
  have id: "sm_id (st_metadata m) = i" and act: "st_status m = SecActive"
    using new_metadata_id [OF nm] by simp_all
  obtain b where b: "se_to_vec env m = Some b" "se_from_slice env b = Some m"
    by (rule to_vec_ex [OF assms(1)])
  have d': "d' = hm_insert (value_path env c root i) \<lparr>fi_bytes = w, fi_private = True\<rparr>
     (put_bytes (value_path env c root i) w (put_bytes (metadata_path env root i) b d))"
    using assms(4) by (simp add: store_create_def nm id write_metadata_no_faults [OF b(1)]
        write_value_no_faults [OF assms(2)])
  show "hm_get d' (value_path env c root i) = Some \<lparr>fi_bytes = w, fi_private = True\<rparr>"
    by (simp add: d')
  show "read_metadata env no_faults root i d' = Inr m"
    using assms(3) b(2) by (simp add: d' read_metadata_no_faults hm_get_put_bytes)
  show "st_status m = SecActive" by (rule act)
qed

lemma enc_read_file:
  assumes "read_metadata env no_faults (es_root s) i d = Inr m" "st_status m = SecActive"
    and "hm_get d (es_root s, se_uuid_to_string env i @ lit ''.enc'') = Some g"
  shows "enc_read env no_faults s i d = decrypt env s (fi_bytes g)"
  using assms by (simp add: enc_read_def store_read_def encrypted_codec_simps fs_read_def)

lemma enc_path_neq: "(root, x @ lit ''.enc'') \<noteq> metadata_path env root i"
proof -
  have "last (x @ lit ''.enc'') \<noteq> last (se_uuid_to_string env i @ lit ''.json'')"
    by (simp add: str_simps ch_def)
  then show ?thesis by (metis metadata_path_def prod.inject)
qed

text \<open>
  Key rotation keeps secrets: a secret created under one master key is read by a store that
  keeps this key among its previous keys, and after \<open>rewrap\<close> it is read by a store that knows the
  new key only; a store that does not know the key at all is denied, never given a wrong value.
\<close>

theorem key_rotation:
  assumes env: "env_ok env" "cipher_ok env" "cipher_authentic env"
    and keys: "keys_ok s1" "keys_ok s2" "keys_ok s3" "length n1 = 24" "length n2 = 24"
    and roots: "es_root s2 = es_root s1" "es_root s3 = es_root s1"
    and v: "secret_ok (cr_value r)"
    and created: "enc_create env no_faults s1 n1 i t r d = (Inr m, d1)"
    and known: "es_current_key s1 \<in> set (es_previous_keys s2)"
    and new: "es_current_key s3 = es_current_key s2"
  shows "enc_read env no_faults s2 i d1 = Inr (cr_value r)
    \<and> fst (rewrap env no_faults s2 n2 i d1) = Inr ()
    \<and> enc_read env no_faults s3 i (snd (rewrap env no_faults s2 n2 i d1)) = Inr (cr_value r)
    \<and> (es_current_key s1 \<notin> set (es_current_key s3 # es_previous_keys s3) \<longrightarrow>
        enc_read env no_faults s3 i d1 = Inl SecDenied)"
proof -
  have l: "length (es_current_key s1) = 32" "length (es_current_key s2) = 32"
    using keys(1,2) by (simp_all add: keys_ok_def)
  let ?p = "(es_root s1, se_uuid_to_string env i @ lit ''.enc'')"
  obtain c1 where c1: "encrypt_payload env s1 n1 (cr_value r) = Inr (header @ n1 @ c1)" "c1 \<noteq> []"
    "se_encrypt env (es_current_key s1) n1 (as_bytes (expose (cr_value r))) = Some c1"
    by (rule encrypt_payload_ex [OF env(2) l(1) keys(4), of "cr_value r"])
  obtain c2 where c2: "encrypt_payload env s2 n2 (cr_value r) = Inr (header @ n2 @ c2)" "c2 \<noteq> []"
    "se_encrypt env (es_current_key s2) n2 (as_bytes (expose (cr_value r))) = Some c2"
    by (rule encrypt_payload_ex [OF env(2) l(2) keys(5), of "cr_value r"])
  have f: "hm_get d1 ?p = Some \<lparr>fi_bytes = header @ n1 @ c1, fi_private = True\<rparr>"
    and md: "read_metadata env no_faults (es_root s1) i d1 = Inr m" "st_status m = SecActive"
    using store_create_files [OF env(1), of "encrypted_codec env s1 n1" r _ "es_root s1" i t d m d1]
      created c1(1) enc_path_neq
    by (simp_all add: enc_create_def encrypted_codec_simps)
  have r2: "enc_read env no_faults s2 i d1 = Inr (cr_value r)"
    using enc_read_file [of env s2 i d1 m] md f roots(1) known keys(2)
      try_keys_found [OF env(2,3) v keys(4) c1(3), of "es_current_key s2 # es_previous_keys s2"]
    by (simp add: decrypt_payload [OF keys(4) c1(2)] keys_ok_def)
  have d3: "enc_read env no_faults s3 i d1 = Inl SecDenied"
    if "es_current_key s1 \<notin> set (es_current_key s3 # es_previous_keys s3)"
    using enc_read_file [of env s3 i d1 m] md f roots(2) keys(3) that
      try_keys_none [OF env(3) c1(3) l(1), of "es_current_key s3 # es_previous_keys s3"]
    by (simp add: decrypt_payload [OF keys(4) c1(2)] keys_ok_def)
  define d2 where "d2 = hm_insert ?p \<lparr>fi_bytes = header @ n2 @ c2, fi_private = True\<rparr>
     (put_bytes ?p (header @ n2 @ c2) d1)"
  have rw: "rewrap env no_faults s2 n2 i d1 = (Inr (), d2)"
    using write_value_no_faults [of "encrypted_codec env s2 n2" "cr_value r"] c2(1) roots(1)
    by (simp add: rewrap_def r2 encrypted_codec_simps d2_def)
  have md2: "read_metadata env no_faults (es_root s3) i d2 = Inr m"
    using md(1) roots(2) enc_path_neq [of "es_root s1" _ env i, THEN not_sym]
    by (simp add: d2_def read_metadata_no_faults hm_get_put_bytes)
  have "enc_read env no_faults s3 i d2 = Inr (cr_value r)"
    using enc_read_file [OF md2 md(2)] roots(2) keys(3) new
      try_keys_found [OF env(2,3) v keys(5) c2(3), of "es_current_key s3 # es_previous_keys s3"]
    by (simp add: decrypt_payload [OF keys(5) c2(2)] keys_ok_def d2_def)
  with r2 rw d3 show ?thesis by simp
qed

theorem key_rotation_witness:
  "let d1 = snd (enc_create secret_env_example no_faults (store_example 7 []) (replicate 24 1) 1 0
         create_example []);
       d2 = snd (rewrap secret_env_example no_faults (store_example 8 [7]) (replicate 24 2) 1 d1)
   in enc_read secret_env_example no_faults (store_example 8 [7]) 1 d1 =
        Inr (SecretValue (lit ''top-secret''))
    \<and> enc_read secret_env_example no_faults (store_example 8 []) 1 d2 =
        Inr (SecretValue (lit ''top-secret''))
    \<and> enc_read secret_env_example no_faults (store_example 8 []) 1 d1 = Inl SecDenied"
proof -
  let ?c = "enc_create secret_env_example no_faults (store_example 7 []) (replicate 24 1) 1 0
      create_example []"
  have "is_ok (fst ?c)" by code_simp
  then obtain m where m: "?c = (Inr m, snd ?c)" by (metis is_ok_iff prod.collapse)
  have k: "keys_ok (store_example 7 [])" "keys_ok (store_example 8 [7])" "keys_ok (store_example 8 [])"
    "key_example 7 \<noteq> key_example 8"
    by (simp_all add: keys_ok_def store_example_def key_example_def)
  have v: "secret_ok (cr_value create_example)"
    by (simp add: create_example_value secret_example_ok)
  from key_rotation [OF env_example_ok k(1-3) _ _ _ _ v m, of "replicate 24 2"] k(4)
  show ?thesis
    unfolding Let_def by (simp add: store_example_def create_example_value)
qed

section \<open>Faults\<close>

text \<open>
  Reading is safe under every file-system fault: whatever errors occur, a value is only ever
  returned for metadata that is stored as active, and it is exactly what the value file decodes
  to; a revoked secret is denied or reported with an I/O error.
\<close>

lemma read_never_releases_revoked:
  "case store_read env c ft root i d of
     Inr v \<Rightarrow> (\<exists>m g. read_metadata env ft root i d = Inr m \<and> st_status m = SecActive
        \<and> hm_get d (value_path env c root i) = Some g \<and> vc_decode c (fi_bytes g) = Inr v)
   | Inl _ \<Rightarrow> True"
proof (cases "store_read env c ft root i d")
  case (Inr v)
  then show ?thesis
    by (auto simp: store_read_def bindR_Inr_iff fs_read_def split: if_splits option.splits)
qed simp

text \<open>
  A failed creation can leave the secret behind: if the value is written but its permissions
  cannot be restricted, \<open>create\<close> reports the error and removes the metadata, but the plain text
  stays on disk in a file that is not private and that no operation of the store reaches again.
\<close>

theorem failed_create_leaves_plaintext:
  assumes "env_ok env" and "new_metadata i t r = Inr m"
    and "ft_write ft = (\<lambda>_. None)" and "ft_remove ft = (\<lambda>_. None)" and "ft_read ft = (\<lambda>_. None)"
    and "ft_permissions ft (value_path env plain_codec root i) = Some k"
    and "hm_get d (value_path env plain_codec root i) = None"
  shows "\<exists>d'. file_create env ft root i t r d = (Inl (map_io_error k), d')
     \<and> hm_get d' (value_path env plain_codec root i) =
         Some \<lparr>fi_bytes = as_bytes (expose (cr_value r)), fi_private = False\<rparr>
     \<and> file_read env ft root i d' = Inl SecMissing
     \<and> file_delete env ft root i d' = (Inl SecMissing, d')"
proof -
  have id: "sm_id (st_metadata m) = i" using new_metadata_id [OF assms(2)] by simp
  obtain b where b: "se_to_vec env m = Some b" by (rule to_vec_ex [OF assms(1)])
  note ne = paths_distinct(3) [OF assms(1) plain_codec_ok, of root i i]
  let ?m = "metadata_path env root i" and ?v = "value_path env plain_codec root i"
  have e: "vc_encode plain_codec (cr_value r) = Inr (as_bytes (expose (cr_value r)))"
    by (simp add: plain_codec_def)
  define d2 where "d2 = hm_remove ?m
     (put_bytes ?v (as_bytes (expose (cr_value r))) (put_bytes ?m b d))"
  have c: "file_create env ft root i t r d = (Inl (map_io_error k), d2)"
    using ne assms(3-6)
    by (simp add: file_create_def store_create_def assms(2) write_metadata_def b id fs_write_def
        write_value_def e write_secret_bytes_def set_private_permissions_def fs_remove_file_def
        hm_get_put_bytes d2_def)
  have v: "hm_get d2 ?v = Some \<lparr>fi_bytes = as_bytes (expose (cr_value r)), fi_private = False\<rparr>"
    using ne assms(7) by (simp add: d2_def hm_get_put_bytes)
  have rm: "read_metadata env ft root i d2 = Inl SecMissing"
    using assms(5) by (simp add: read_metadata_def fs_read_def d2_def)
  show ?thesis
    by (intro exI [of _ d2] conjI c v)
       (simp_all add: file_read_def store_read_def file_delete_def store_delete_def rm)
qed

theorem failed_create_leaves_plaintext_witness:
  "\<exists>d'. file_create secret_env_example (no_faults\<lparr>ft_permissions := (\<lambda>_. Some IoOther)\<rparr>) (lit ''/srv'')
       1 0 create_example [] = (Inl SecUnavailable, d')
     \<and> hm_get d' (value_path secret_env_example plain_codec (lit ''/srv'') 1) =
         Some \<lparr>fi_bytes = as_bytes (lit ''top-secret''), fi_private = False\<rparr>
     \<and> file_read secret_env_example (no_faults\<lparr>ft_permissions := (\<lambda>_. Some IoOther)\<rparr>) (lit ''/srv'') 1 d' =
         Inl SecMissing"
proof -
  have "is_ok (new_metadata 1 0 create_example)" by code_simp
  then obtain m where m: "new_metadata 1 0 create_example = Inr m" by (auto simp: is_ok_iff)
  from failed_create_leaves_plaintext [OF env_example_ok(1) m,
      of "no_faults\<lparr>ft_permissions := (\<lambda>_. Some IoOther)\<rparr>" "lit ''/srv''" IoOther "[]"]
  show ?thesis by (auto simp: create_example_value no_faults_def)
qed

section \<open>Master keys and Docker entries\<close>

text \<open>The usual text form of a key: two lower-case hexadecimal digits per byte.\<close>

definition hex_char :: "nat \<Rightarrow> rchar" where
  "hex_char n = (if n < 10 then 48 + n else 87 + n)"

definition to_hex :: "master_key \<Rightarrow> str" where
  "to_hex k = concat (map (\<lambda>b. [hex_char (unat b div 16), hex_char (unat b mod 16)]) k)"

lemma hex_char_props:
  assumes "n < 16"
  shows "hex_value (hex_char n) = Some n" "hex_char n \<noteq> ch CHR ''+''" "hex_char n < 128"
    "\<not> is_whitespace (hex_char n)" "encode_char (hex_char n) = [hex_char n]"
  using assms
  by (auto simp: hex_value_def hex_char_def is_ascii_digit_def ch_def is_whitespace_def encode_char_def)

lemma hex_pair:
  assumes "x < 16" "y < 16"
  shows "u8_from_str_radix16 [hex_char x, hex_char y] = Some (of_nat (x * 16 + y))"
  using assms hex_char_props [of x] hex_char_props [of y]
  by (simp add: u8_from_str_radix16_def)

lemma from_utf8_ascii:
  assumes "x < 128" "y < 128"
  shows "from_utf8 [of_nat x, of_nat y] = Some [x, y]"
proof -
  have "unat (of_nat x :: u8) = x" "unat (of_nat y :: u8) = y" using assms by (simp_all add: unat_of_nat)
  then show ?thesis
    using assms by (simp add: from_utf8_def decode_bytes.simps)
qed

lemma to_hex_Cons:
  "to_hex (b # k) = hex_char (unat b div 16) # hex_char (unat b mod 16) # to_hex k"
  by (simp add: to_hex_def)

lemma nibbles: "unat (b :: u8) div 16 < 16" "unat b mod 16 < 16" "of_nat (unat b div 16 * 16 + unat b mod 16) = b"
proof -
  have "unat b < 256" using unsigned_less [of b] by simp
  then show "unat b div 16 < 16" by linarith
  show "unat b mod 16 < 16" by simp
  show "of_nat (unat b div 16 * 16 + unat b mod 16) = b" by simp
qed

lemma from_hex_chunks:
  "map_result (\<lambda>chunk. bindR (ok_or SecInvalid (from_utf8 chunk))
      (\<lambda>text. ok_or SecInvalid (u8_from_str_radix16 text))) (chunks_exact2 (as_bytes (to_hex k))) = Inr k"
proof (induction k)
  case Nil
  then show ?case by (simp add: to_hex_def as_bytes_def)
next
  case (Cons b k)
  note h = hex_char_props [OF nibbles(1) [of b]] hex_char_props [OF nibbles(2) [of b]]
  have "as_bytes (to_hex (b # k)) =
      of_nat (hex_char (unat b div 16)) # of_nat (hex_char (unat b mod 16)) # as_bytes (to_hex k)"
    using h(5,10) by (simp add: to_hex_Cons as_bytes_def)
  with Cons h show ?case
    by (simp add: from_utf8_ascii hex_pair nibbles del: of_nat_add of_nat_mult)
qed

lemma to_hex_chars: "c \<in> set (to_hex k) \<Longrightarrow> \<not> is_whitespace c \<and> c < 128"
  using hex_char_props(3,4) nibbles(1,2) by (auto simp: to_hex_def)

lemma length_to_hex: "length (to_hex k) = 2 * length k"
  by (induction k) (simp_all add: to_hex_Cons to_hex_def)

lemma length_chunks_exact2: "length (chunks_exact2 bs) = length bs div 2"
  by (induction bs rule: chunks_exact2.induct) simp_all

text \<open>
  Master keys: the hexadecimal text of a 256-bit key is read back, with or without blanks
  around it, and every accepted text gives exactly 32 bytes. Digits are not all that is accepted:
  each pair may start with a plus sign, so a text of 32 times \<open>+f\<close> is taken for a key.
\<close>

theorem master_key_hex:
  assumes "length k = 32" and "valid_str str"
  shows "from_hex (to_hex k) = Inr k \<and> from_hex (32 # to_hex k @ [10]) = Inr k
    \<and> (\<forall>key. from_hex str = Inr key \<longrightarrow> length key = 32)
    \<and> from_hex (concat (replicate 32 (lit ''+f''))) = Inr (replicate 32 15)"
proof (intro conjI allI impI)
  have ne: "to_hex k \<noteq> []" using assms(1) length_to_hex [of k] by auto
  have t: "trim (to_hex k) = to_hex k" by (rule trim_noop) (use to_hex_chars in blast)
  have len: "str_len (to_hex k) = 64"
    using str_len_ascii [of "to_hex k"] to_hex_chars assms(1) by (simp add: length_to_hex)
  show "from_hex (to_hex k) = Inr k"
    unfolding from_hex_def Let_def t by (simp add: len from_hex_chunks)
  have "trim (32 # to_hex k @ [10]) = to_hex k"
  proof -
    have w: "is_whitespace 32" "is_whitespace 10" by (simp_all add: is_whitespace_def)
    have "\<not> is_whitespace (hd (to_hex k))" "\<not> is_whitespace (last (to_hex k))"
      using ne to_hex_chars by (meson hd_in_set last_in_set)+
    then show ?thesis
      using ne w by (simp add: trim_def trim_end_def trim_start_def dropWhile_noop hd_rev)
  qed
  then show "from_hex (32 # to_hex k @ [10]) = Inr k"
    unfolding from_hex_def Let_def by (simp add: len from_hex_chunks)
  show "length key = 32" if "from_hex str = Inr key" for key
  proof -
    have "valid_str (trim str)"
      using assms(2) set_trim_subset [of str] by (auto simp: valid_str_def list_all_iff)
    with that show ?thesis
      by (auto simp: from_hex_def Let_def length_as_bytes length_chunks_exact2
          split: if_splits dest!: map_result_length)
  qed
  show "from_hex (concat (replicate 32 (lit ''+f''))) = Inr (replicate 32 15)" by code_simp
qed

theorem master_key_hex_witness:
  "from_hex (to_hex (replicate 32 171)) = Inr (replicate 32 171)
   \<and> to_hex [171] = lit ''ab'' \<and> from_hex (lit ''ab'') = Inl SecInvalid"
proof (intro conjI)
  have "valid_str []" by (simp add: valid_str_def)
  then show "from_hex (to_hex (replicate 32 171)) = Inr (replicate 32 171)"
    using master_key_hex [of "replicate 32 171" "[]"] by simp
  show "to_hex [171] = lit ''ab''" by code_simp
  show "from_hex (lit ''ab'') = Inl SecInvalid" by code_simp
qed

lemma docker_add_safe:
  assumes "docker_add root now x s = Inr s'"
    and "\<And>i m p. hm_get s i = Some (m, p) \<Longrightarrow> fst p = root \<and> \<not> unsafe_file_name (snd p) \<and> sm_id (st_metadata m) = i"
    and "hm_get s' i = Some (m, p)"
  shows "fst p = root \<and> \<not> unsafe_file_name (snd p) \<and> sm_id (st_metadata m) = i"
  using assms(1,3) assms(2) [of i m p]
  by (auto simp: docker_add_def bindR_Inr_iff secret_metadata_new_def split: prod.splits if_splits)

lemma docker_fold_safe:
  assumes "fold_result (docker_add root now) xs s = Inr s'"
    and "\<And>i m p. hm_get s i = Some (m, p) \<Longrightarrow> fst p = root \<and> \<not> unsafe_file_name (snd p) \<and> sm_id (st_metadata m) = i"
    and "hm_get s' i = Some (m, p)"
  shows "fst p = root \<and> \<not> unsafe_file_name (snd p) \<and> sm_id (st_metadata m) = i"
  using assms
proof (induction xs arbitrary: s)
  case (Cons x xs)
  then obtain s1 where "docker_add root now x s = Inr s1" "fold_result (docker_add root now) xs s1 = Inr s'"
    by (auto simp: bindR_Inr_iff)
  with Cons show ?case using docker_add_safe by blast
qed auto

text \<open>
  A Docker store never leaves its directory: every entry of a constructed store names a file
  directly below the root, with no separator, no drive colon and no dot component, so a value it
  returns was read from that directory; and it refuses every modification.
\<close>

theorem docker_paths_confined:
  assumes "docker_new root now definitions = Inr s"
  shows "(\<forall>i m p. hm_get s i = Some (m, p) \<longrightarrow> fst p = root \<and> snd p \<noteq> []
       \<and> ch CHR ''/'' \<notin> set (snd p) \<and> 92 \<notin> set (snd p) \<and> snd p \<noteq> lit ''..'')
    \<and> (\<forall>ft i d v. docker_read ft s i d = Inr v \<longrightarrow>
         (\<exists>name g. ch CHR ''/'' \<notin> set name \<and> hm_get d (root, name) = Some g
            \<and> from_utf8 (fi_bytes g) = Some (expose v)))
    \<and> fst (docker_create r s) = Inl SecDenied \<and> fst (docker_update i v s) = Inl SecDenied
    \<and> fst (docker_revoke i s) = Inl SecDenied \<and> fst (docker_delete i s) = Inl SecDenied"
proof -
  have safe: "fst p = root \<and> snd p \<noteq> [] \<and> ch CHR ''/'' \<notin> set (snd p) \<and> 92 \<notin> set (snd p)
      \<and> snd p \<noteq> lit ''..''" if "hm_get s i = Some (m, p)" for i m p
  proof -
    have "fold_result (docker_add root now) definitions [] = Inr s"
      using assms by (simp add: docker_new_def split: if_splits)
    from docker_fold_safe [OF this _ that] show ?thesis
      by (auto simp: unsafe_file_name_def list_ex_iff)
  qed
  have rd: "\<exists>name g. ch CHR ''/'' \<notin> set name \<and> hm_get d (root, name) = Some g
      \<and> from_utf8 (fi_bytes g) = Some (expose v)" if "docker_read ft s i d = Inr v" for ft i d v
  proof -
    from that obtain m root' name where e: "hm_get s i = Some (m, (root', name))"
      and r: "bindR (map_err map_io_error (fs_read ft (root', name) d)) (vc_decode plain_codec) = Inr v"
      by (auto simp: docker_read_def docker_entry_def bindR_Inr_iff split: if_splits)
    from r obtain g where "hm_get d (root', name) = Some g" "from_utf8 (fi_bytes g) = Some (expose v)"
      by (auto simp: bindR_Inr_iff fs_read_def plain_codec_def secret_value_new_Inr_iff
          split: option.splits)
    with safe [OF e] show ?thesis by auto
  qed
  show ?thesis
    unfolding docker_create_def docker_update_def docker_revoke_def docker_delete_def fst_conv
    using safe rd by blast
qed

theorem docker_paths_confined_witness:
  "docker_new (lit ''/run/secrets'') 0 [(1, \<lparr>dd_name = lit ''db'', dd_file_name = lit ''../outside'',
       dd_kind = Generic, dd_scope = GlobalScope\<rparr>)] = Inl SecInvalid
   \<and> (\<exists>s name g. docker_new (lit ''/run/secrets'') 0 [(1, \<lparr>dd_name = lit ''db'',
         dd_file_name = lit ''token'', dd_kind = Generic, dd_scope = GlobalScope\<rparr>)] = Inr s
       \<and> ch CHR ''/'' \<notin> set name
       \<and> hm_get [((lit ''/run/secrets'', lit ''token''), \<lparr>fi_bytes = [120], fi_private = True\<rparr>)]
           (lit ''/run/secrets'', name) = Some g
       \<and> from_utf8 (fi_bytes g) = Some (lit ''x'') \<and> fst (docker_delete 1 s) = Inl SecDenied)"
proof
  let ?new = "docker_new (lit ''/run/secrets'') 0 [(1, \<lparr>dd_name = lit ''db'',
      dd_file_name = lit ''token'', dd_kind = Generic, dd_scope = GlobalScope\<rparr>)]"
  let ?disk = "[((lit ''/run/secrets'', lit ''token''), \<lparr>fi_bytes = [120], fi_private = True\<rparr>)]"
  have "bindR ?new (\<lambda>s. docker_read no_faults s 1 ?disk) = Inr (SecretValue (lit ''x''))"
    by code_simp
  then obtain s where n: "?new = Inr s"
    and r: "docker_read no_faults s 1 ?disk = Inr (SecretValue (lit ''x''))"
    by (auto simp: bindR_Inr_iff)
  note confined = docker_paths_confined [OF n]
  from confined r obtain name g where "ch CHR ''/'' \<notin> set name"
    "hm_get ?disk (lit ''/run/secrets'', name) = Some g" "from_utf8 (fi_bytes g) = Some (lit ''x'')"
    by (metis secret_value.sel)
  with n confined show "\<exists>s name g. ?new = Inr s \<and> ch CHR ''/'' \<notin> set name
      \<and> hm_get ?disk (lit ''/run/secrets'', name) = Some g
      \<and> from_utf8 (fi_bytes g) = Some (lit ''x'') \<and> fst (docker_delete 1 s) = Inl SecDenied"
    by blast
qed code_simp

end
