(* ===== verification/Safety.thy ===== *)
theory Safety
  imports Prelude
begin

text \<open>
  \<open>lxcup-safety/src/lib.rs\<close>: the snapshot gate, the reboot probe and the health checks. The
  network (an HTTP request, a TCP connect) is a function argument that gives its outcome.
\<close>

datatype snapshot_state = NotRequested | SnapSucceeded str | SnapFailed str

definition evaluate_snapshot :: "bool \<Rightarrow> str + str \<Rightarrow> snapshot_state" where
  "evaluate_snapshot requested result =
     (if \<not> requested then NotRequested
      else (case result of
          Inr task_id \<Rightarrow> if trim task_id \<noteq> [] then SnapSucceeded task_id
            else SnapFailed (lit ''snapshot task id was empty'')
        | Inl reason \<Rightarrow> SnapFailed reason))"

fun snapshot_allows_execution :: "snapshot_state \<Rightarrow> bool" where
  "snapshot_allows_execution NotRequested \<longleftrightarrow> True"
| "snapshot_allows_execution (SnapSucceeded _) \<longleftrightarrow> True"
| "snapshot_allows_execution (SnapFailed _) \<longleftrightarrow> False"

datatype health_check_spec = HcHttp str | HcTcp str u16 | HcSystemd str

record health_check_result =
  hr_check :: health_check_spec
  hr_healthy :: bool
  hr_detail :: str
  hr_checked_at :: timestamp

datatype reboot_requirement = RebootRequired | RebootNotRequired | RebootUnknown

definition parse_reboot_requirement :: "str \<Rightarrow> i32 option \<Rightarrow> reboot_requirement" where
  "parse_reboot_requirement stdout exit_code =
     (if exit_code \<noteq> Some 0 then RebootUnknown
      else
        (let v = to_ascii_lowercase (trim stdout) in
         if v \<in> {lit ''required'', lit ''yes'', lit ''true'', lit ''1''} then RebootRequired
         else if v \<in> {lit ''not_required'', lit ''no'', lit ''false'', lit ''0''} then RebootNotRequired
         else RebootUnknown))"

definition safe_error_detail :: "str \<Rightarrow> str" where
  "safe_error_detail detail = take 240 (replace_newlines detail)"

datatype safety_error = InvalidTimeout | ClientBuild

record health_checker =
  hc_timeout_ms :: nat

text \<open>\<open>builds\<close> tells whether the HTTP client can be constructed.\<close>

definition health_checker_new :: "bool \<Rightarrow> nat \<Rightarrow> safety_error + health_checker" where
  "health_checker_new builds timeout =
     (if timeout = 0 then Inl InvalidTimeout
      else if \<not> builds then Inl ClientBuild
      else Inr \<lparr>hc_timeout_ms = timeout\<rparr>)"

datatype tcp_outcome = TcpConnected | TcpError str | TcpTimedOut

record health_network =
  hn_http :: "str \<Rightarrow> str + nat"
  hn_tcp :: "nat \<Rightarrow> str \<Rightarrow> u16 \<Rightarrow> tcp_outcome"

text \<open>Decimal digits, as in \<open>format!("{}", n)\<close>.\<close>

fun digits :: "nat \<Rightarrow> str" where
  "digits n = (if n < 10 then [48 + n] else digits (n div 10) @ [48 + n mod 10])"

definition probe :: "health_network \<Rightarrow> health_checker \<Rightarrow> health_check_spec \<Rightarrow> bool \<times> str" where
  "probe net hc check =
     (case check of
        HcHttp url \<Rightarrow>
          (case hn_http net url of
             Inr status \<Rightarrow> (200 \<le> status \<and> status < 300, lit ''HTTP '' @ digits status)
           | Inl error \<Rightarrow> (False, safe_error_detail error))
      | HcTcp host port \<Rightarrow>
          (case hn_tcp net (hc_timeout_ms hc) host port of
             TcpConnected \<Rightarrow> (True, lit ''TCP connection established'')
           | TcpError error \<Rightarrow> (False, safe_error_detail error)
           | TcpTimedOut \<Rightarrow> (False, lit ''TCP healthcheck timed out''))
      | HcSystemd unit \<Rightarrow> (False, lit ''systemd probe requires an agent: '' @ unit))"

definition health_run ::
  "health_network \<Rightarrow> timestamp \<Rightarrow> health_checker \<Rightarrow> health_check_spec \<Rightarrow> health_check_result" where
  "health_run net now hc check =
     (case probe net hc check of (healthy, detail) \<Rightarrow>
       \<lparr>hr_check = check, hr_healthy = healthy, hr_detail = detail, hr_checked_at = now\<rparr>)"

lemma set_safe_error_detail: "c \<in> set (safe_error_detail d) \<Longrightarrow> c \<noteq> 10 \<and> c \<noteq> 13"
  by (auto simp: safe_error_detail_def replace_newlines_def dest!: in_set_takeD)

text \<open>
  The safety gates fail closed: execution is allowed exactly when no snapshot was requested
  or the snapshot task succeeded with a nonblank id; a reboot is only reported as required or not
  required by a probe that exited with 0; and a health check is only healthy on a 2xx response or
  an established connection, never for a systemd unit, while error details fit one line of 240
  characters.
\<close>

lemma safety_gates_fail_closed:
  "(snapshot_allows_execution (evaluate_snapshot requested result) \<longleftrightarrow>
      \<not> requested \<or> (case result of Inr task \<Rightarrow> trim task \<noteq> [] | Inl _ \<Rightarrow> False))
   \<and> (parse_reboot_requirement stdout code = RebootUnknown \<or> code = Some 0)
   \<and> hr_healthy (health_run net now hc check) =
       (case check of
          HcHttp url \<Rightarrow> (case hn_http net url of Inr st \<Rightarrow> st \<in> {200..299} | Inl _ \<Rightarrow> False)
        | HcTcp host port \<Rightarrow> hn_tcp net (hc_timeout_ms hc) host port = TcpConnected
        | HcSystemd _ \<Rightarrow> False)
   \<and> length (safe_error_detail d) \<le> 240 \<and> 10 \<notin> set (safe_error_detail d)
   \<and> 13 \<notin> set (safe_error_detail d)"
proof (intro conjI)
  show "hr_healthy (health_run net now hc check) =
       (case check of
          HcHttp url \<Rightarrow> (case hn_http net url of Inr st \<Rightarrow> st \<in> {200..299} | Inl _ \<Rightarrow> False)
        | HcTcp host port \<Rightarrow> hn_tcp net (hc_timeout_ms hc) host port = TcpConnected
        | HcSystemd _ \<Rightarrow> False)"
    by (auto simp: health_run_def probe_def split: health_check_spec.splits sum.splits
        tcp_outcome.splits)
  show "length (safe_error_detail d) \<le> 240" by (simp add: safe_error_detail_def)
  show "10 \<notin> set (safe_error_detail d)" "13 \<notin> set (safe_error_detail d)"
    using set_safe_error_detail by blast+
  show "snapshot_allows_execution (evaluate_snapshot requested result) \<longleftrightarrow>
      \<not> requested \<or> (case result of Inr task \<Rightarrow> trim task \<noteq> [] | Inl _ \<Rightarrow> False)"
    by (auto simp: evaluate_snapshot_def split: sum.splits)
  show "parse_reboot_requirement stdout code = RebootUnknown \<or> code = Some 0"
    by (simp add: parse_reboot_requirement_def)
qed

end
