(* ===== verification/CoreSafety.thy ===== *)
theory CoreSafety
  imports Connections
begin

text \<open>
  Properties of \<open>lxcup-core\<close>'s decisions: who may run which action, the bounded retry delays, the
  path every enrollment takes, the endpoints of environments and agents.
\<close>

section \<open>Authorization\<close>

text \<open>
  The central action check: an action passes exactly when the target supports it, the role
  holds its permission, a disabled resource is only discovered or health-checked, a destructive
  action is confirmed, and the idempotency key is nonblank and at most 200 characters long. In
  particular only an administrator who confirms disables or deletes a resource, a viewer changes
  nothing, and whatever a viewer or operator may do an administrator may do as well.
\<close>

theorem action_authorized:
  "(is_ok (validate_action role target lifecycle action confirmed key) \<longleftrightarrow>
      action_supports action target \<and> grants role (action_permission action)
      \<and> (lifecycle = Disabled \<longrightarrow> action \<in> {Discover, HealthCheck})
      \<and> (action \<in> {DisableResource, DeleteResource} \<longrightarrow> confirmed)
      \<and> trim key \<noteq> [] \<and> length key \<le> 200)
   \<and> (is_ok (validate_action role target lifecycle action confirmed key) \<longrightarrow>
        (action \<in> {DisableResource, DeleteResource} \<longrightarrow> role = Admin \<and> confirmed)
        \<and> (role = Viewer \<longrightarrow> action \<in> {Discover, HealthCheck, CollectPackageInventory})
        \<and> is_ok (validate_action Admin target lifecycle action confirmed key))"
proof -
  have d: "is_destructive action \<longleftrightarrow> action \<in> {DisableResource, DeleteResource}"
    by (simp add: is_destructive_def)
  have v: "grants Viewer (action_permission action) \<Longrightarrow>
      action \<in> {Discover, HealthCheck, CollectPackageInventory}"
    by (cases action) auto
  have a: "action \<in> {DisableResource, DeleteResource} \<Longrightarrow> grants role (action_permission action) \<Longrightarrow>
      role = Admin"
    using is_destructive_permission [of action] grants_destructive [of role] d by auto
  show ?thesis
    unfolding validate_action_ok_iff d using v a by auto
qed

theorem action_authorized_witness:
  "is_ok (validate_action Admin (Target 5) Managed DeleteResource True (lit ''k''))
   \<and> \<not> is_ok (validate_action Operator (Target 5) Managed DeleteResource True (lit ''k''))
   \<and> \<not> is_ok (validate_action Admin (Target 5) Managed DeleteResource False (lit ''k''))"
proof -
  have k: "trim (lit ''k'') \<noteq> []" "length (lit ''k'') \<le> 200" by code_simp+
  show ?thesis
    unfolding action_authorized [THEN conjunct1] using k by simp
qed

section \<open>Retry delays\<close>

text \<open>
  Retry delays are bounded and never decrease: the delay before retry \<open>n\<close> is the initial
  backoff doubled \<open>n\<close> times, at most six times, and cut off at the maximum, computed without
  overflow for every initial backoff; and a policy never allows as many retries as it has
  attempts, so that retrying always ends.
\<close>

theorem retry_delays_bounded:
  "unat (delay_ms p n) =
     min (unat (initial_backoff_ms p) * 2 ^ min (unat n) 6) (unat (max_backoff_ms p))
   \<and> delay_ms p n \<le> max_backoff_ms p
   \<and> (m \<le> n \<longrightarrow> delay_ms p m \<le> delay_ms p n)
   \<and> (allows_retry p n \<longrightarrow> unat n + 1 < unat (max_attempts p))"
proof (intro conjI impI)
  show "unat (delay_ms p n) =
     min (unat (initial_backoff_ms p) * 2 ^ min (unat n) 6) (unat (max_backoff_ms p))"
    by (rule unat_delay_ms)
  show "delay_ms p n \<le> max_backoff_ms p" by (simp add: word_le_nat_alt unat_delay_ms)
  show "delay_ms p m \<le> delay_ms p n" if "m \<le> n"
  proof -
    have "unat m \<le> unat n" using that by (simp add: word_le_nat_alt)
    then have "unat (initial_backoff_ms p) * 2 ^ min (unat m) 6 \<le>
        unat (initial_backoff_ms p) * 2 ^ min (unat n) 6"
      by (intro mult_le_mono2 power_increasing) auto
    then show ?thesis by (simp add: word_le_nat_alt unat_delay_ms min_le_iff_disj)
  qed
  show "unat n + 1 < unat (max_attempts p)" if "allows_retry p n"
  proof -
    have "unat (max_attempts p) < 256" using unsigned_less [of "max_attempts p"] by simp
    with that show ?thesis by (auto simp: allows_retry_iff min_def split: if_splits)
  qed
qed

theorem retry_delays_bounded_witness:
  "unat (delay_ms conservative 6) = 2000 \<and> delay_ms conservative 1 \<le> delay_ms conservative 6
   \<and> allows_retry conservative 1 \<and> \<not> allows_retry conservative 2"
proof -
  have "unat (delay_ms conservative 6) = 2000"
    using retry_delays_bounded [of conservative 6 1] by (simp add: conservative_def)
  moreover have "delay_ms conservative 1 \<le> delay_ms conservative 6"
    using retry_delays_bounded [of conservative 6 1] by simp
  moreover have "allows_retry conservative 1" "\<not> allows_retry conservative 2"
    by (simp_all add: allows_retry_iff conservative_def)
  ultimately show ?thesis by simp
qed

section \<open>Enrollment\<close>

text \<open>An enrollment with the states it has been in, newest first.\<close>

inductive enrolled :: "enrollment \<Rightarrow> enrollment_state list \<Rightarrow> bool" where
  en_new: "enrollment_new f t c k = Inr e \<Longrightarrow> enrolled e [Requested]"
| en_move: "enrolled e vs \<Longrightarrow> enrollment_transition_to s t e = Inr e' \<Longrightarrow> enrolled e' (s # vs)"
| en_fail: "enrolled e vs \<Longrightarrow> enrolled (enrollment_fail r t e) (EnrollFailed # vs)"

text \<open>The states that must have been passed to be in a state.\<close>

fun passed :: "enrollment_state \<Rightarrow> enrollment_state set" where
  "passed InstallingAgent = {Discovering}"
| "passed RegisteringAgent = {Discovering, InstallingAgent}"
| "passed EnrollConnected = {Discovering, InstallingAgent, RegisteringAgent}"
| "passed EnrollDisabled = {Discovering, InstallingAgent, RegisteringAgent, EnrollConnected}"
| "passed _ = {}"

lemma passed_step:
  "enrollment_can_transition_to a b \<Longrightarrow> passed a \<subseteq> V \<Longrightarrow> a \<in> V \<Longrightarrow> passed b \<subseteq> insert b V"
  by (cases a; cases b) auto

lemma enrolled_invariant:
  "enrolled e vs \<Longrightarrow> enrollment_ok e \<and> hd vs = en_state e \<and> en_state e \<in> set vs
     \<and> passed (en_state e) \<subseteq> set vs"
proof (induction rule: enrolled.induct)
  case (en_new f t c k e)
  then show ?case
    using enrollment_ok_ops(1) by (auto simp: enrollment_new_def split: if_splits)
next
  case (en_move e vs s t e')
  from enrollment_lc.transition_InrD [OF en_move.hyps(2)]
  have "enrollment_can_transition_to (en_state e) s" "en_state e' = s" by simp_all
  with en_move passed_step [of "en_state e" s "set vs"] enrollment_ok_ops(2) show ?case by auto
next
  case (en_fail e vs r t)
  then show ?case using enrollment_ok_ops(3) by (auto simp: enrollment_fail_def)
qed

text \<open>
  No enrollment takes a short cut: whatever transitions and failures an enrollment goes
  through, when it is connected its agent has been discovered, installed and registered, it is
  only disabled after having been connected, and a failure reason is only kept while it is
  failed.
\<close>

theorem enrollment_path:
  assumes "enrolled e vs"
  shows "(en_state e = EnrollConnected \<longrightarrow> {Discovering, InstallingAgent, RegisteringAgent} \<subseteq> set vs)
    \<and> (en_state e = EnrollDisabled \<longrightarrow> EnrollConnected \<in> set vs)
    \<and> (en_failure_reason e \<noteq> None \<longrightarrow> en_state e = EnrollFailed)"
  using enrolled_invariant [OF assms] by (auto simp: enrollment_ok_def)

definition enrollment_example :: "enrollment_state \<Rightarrow> enrollment" where
  "enrollment_example s = \<lparr>en_id = 1, en_container_id = 101, en_target_id = None, en_state = s,
     en_idempotency_key = lit ''k'', en_failure_reason = None, en_created_at = 0, en_updated_at = 0\<rparr>"

theorem enrollment_path_witness:
  "enrolled (enrollment_example EnrollConnected)
     [EnrollConnected, RegisteringAgent, InstallingAgent, Discovering, Requested]
   \<and> {Discovering, InstallingAgent, RegisteringAgent} \<subseteq>
     set [EnrollConnected, RegisteringAgent, InstallingAgent, Discovering, Requested]"
proof -
  have new: "enrollment_new 1 0 101 (lit ''k'') = Inr (enrollment_example Requested)" by code_simp
  have step: "enrollment_transition_to s 0 (enrollment_example a) = Inr (enrollment_example s)"
    if "enrollment_can_transition_to a s" for a s
    using that by (simp add: enrollment_transition_to_def enrollment_example_def)
  have "enrolled (enrollment_example EnrollConnected)
     [EnrollConnected, RegisteringAgent, InstallingAgent, Discovering, Requested]"
    by (rule en_move [OF en_move [OF en_move [OF en_move [OF en_new [OF new] step] step] step] step])
       simp_all
  with enrollment_path [OF this] show ?thesis by (simp add: enrollment_example_def)
qed

section \<open>Endpoints\<close>

text \<open>Every environment that the constructors and operations produce has a canonical endpoint.\<close>

inductive environment_reachable :: "proxmox_environment \<Rightarrow> bool" where
  ev_new: "environment_new i n ep a c t = Inr e \<Longrightarrow> environment_reachable e"
| ev_update: "environment_reachable e \<Longrightarrow> update_configuration n ep a c t e = Inr e' \<Longrightarrow>
     environment_reachable e'"
| ev_move: "environment_reachable e \<Longrightarrow> environment_transition_to s t e = Inr e' \<Longrightarrow>
     environment_reachable e'"
| ev_success: "environment_reachable e \<Longrightarrow> environment_record_check_success t e = Inr e' \<Longrightarrow>
     environment_reachable e'"
| ev_failure: "environment_reachable e \<Longrightarrow> environment_record_check_failure t m e = Inr e' \<Longrightarrow>
     environment_reachable e'"

lemma environment_reachable_ok: "environment_reachable e \<Longrightarrow> environment_ok e"
  by (induction rule: environment_reachable.induct)
     (blast intro: environment_new_ok environment_ok_ops
        update_configuration_ok [THEN conjunct1])+

text \<open>
  The agent endpoint is only compared with prefixes: a plain-http endpoint is accepted for every
  host whose name begins with \<open>localhost\<close> or \<open>127.0.0.1\<close>.
\<close>

lemma agent_endpoint_prefix:
  "map_option ar_endpoint (case agent_registration_new 1 101 (lit ''agent'')
       (lit ''http://localhost.attacker.example:8080'') 2 None 0 of Inr r \<Rightarrow> Some r | Inl _ \<Rightarrow> None) =
     Some (lit ''http://localhost.attacker.example:8080'')
   \<and> is_ok (agent_registration_new 1 101 (lit ''agent'') (lit ''http://127.0.0.1.attacker.example'') 2 None 0)"
  by code_simp

end
