(* ===== verification/Strings.thy ===== *)
theory Strings
  imports Prelude
begin

text \<open>
  More of \<open>str\<close> and of number formatting, used by the server and the worker: suffixes, substring
  replacement, splitting from the right, decimal numbers.
\<close>

definition ends_with :: "str \<Rightarrow> str \<Rightarrow> bool" where
  "ends_with s p \<longleftrightarrow> starts_with (rev s) (rev p)"

lemma ends_with_iff: "ends_with s p \<longleftrightarrow> (\<exists>r. s = r @ p)"
  unfolding ends_with_def starts_with_iff by (metis rev_append rev_rev_ident)

definition rsplit_once :: "rchar \<Rightarrow> str \<Rightarrow> (str \<times> str) option" where
  "rsplit_once c s = map_option (\<lambda>(a, b). (rev b, rev a)) (split_once c (rev s))"

definition eq_ignore_ascii_case :: "str \<Rightarrow> str \<Rightarrow> bool" where
  "eq_ignore_ascii_case a b \<longleftrightarrow> to_ascii_lowercase a = to_ascii_lowercase b"

text \<open>\<open>str::replace(p, r)\<close> for a nonempty pattern: leftmost matches, never overlapping.\<close>

function replace_str :: "str \<Rightarrow> str \<Rightarrow> str \<Rightarrow> str" where
  "replace_str p r [] = []"
| "replace_str p r (c # s) =
     (if p \<noteq> [] \<and> starts_with (c # s) p then r @ replace_str p r (drop (length p - 1) s)
      else c # replace_str p r s)"
  by pat_completeness auto

termination
  by (relation "measure (\<lambda>(p, r, s). length s)") auto

text \<open>
  \<open>str::parse\<close> for an unsigned type with values below \<open>bound\<close>: decimal digits with an optional plus
  sign.
\<close>

fun digits_value :: "int \<Rightarrow> str \<Rightarrow> int" where
  "digits_value acc [] = acc"
| "digits_value acc (c # s) = digits_value (acc * 10 + (int c - 48)) s"

definition parse_unsigned :: "int \<Rightarrow> str \<Rightarrow> int option" where
  "parse_unsigned bound s =
     (let ds = (case s of c # r \<Rightarrow> if c = ch CHR ''+'' then r else s | [] \<Rightarrow> [])
      in if ds = [] \<or> \<not> list_all is_ascii_digit ds then None
         else if digits_value 0 ds < bound then Some (digits_value 0 ds) else None)"

definition parse_u32 :: "str \<Rightarrow> int option" where
  "parse_u32 s = parse_unsigned 4294967296 s"

definition parse_u64 :: "str \<Rightarrow> int option" where
  "parse_u64 s = parse_unsigned 18446744073709551616 s"

lemma digits_value_nonneg: "0 \<le> acc \<Longrightarrow> list_all is_ascii_digit s \<Longrightarrow> 0 \<le> digits_value acc s"
  by (induction s arbitrary: acc) (auto simp: is_ascii_digit_def)

lemma parse_unsigned_bounds: "parse_unsigned b s = Some n \<Longrightarrow> 0 \<le> n \<and> n < b"
  using digits_value_nonneg [of 0]
  by (auto simp: parse_unsigned_def Let_def simp del: digits_value.simps split: if_splits list.splits)

text \<open>Decimal output of a nonnegative number.\<close>

function dec_digits :: "nat \<Rightarrow> str" where
  "dec_digits n = (if n < 10 then [48 + n] else dec_digits (n div 10) @ [48 + n mod 10])"
  by pat_completeness auto

termination
  by (relation "measure id") auto

declare dec_digits.simps [simp del]

lemma dec_digits_digits: "list_all is_ascii_digit (dec_digits n)"
proof (induction n rule: dec_digits.induct)
  case (1 n)
  then show ?case
    by (cases "n < 10"; subst dec_digits.simps) (simp_all add: is_ascii_digit_def [of "48 + k" for k])
qed

lemma digits_value_append:
  "digits_value acc (s @ t) = digits_value (digits_value acc s) t"
  by (induction s arbitrary: acc) auto

lemma digits_value_dec: "digits_value 0 (dec_digits n) = int n"
proof (induction n rule: dec_digits.induct)
  case (1 n)
  show ?case
  proof (cases "n < 10")
    case True
    then show ?thesis by (subst dec_digits.simps) simp
  next
    case False
    with 1 have "digits_value 0 (dec_digits n) = int (n div 10) * 10 + int (n mod 10)"
      by (subst dec_digits.simps) (simp add: digits_value_append)
    also have "\<dots> = int n" by (metis add.commute div_mod_decomp of_nat_add of_nat_mult of_nat_numeral)
    finally show ?thesis .
  qed
qed

lemma dec_digits_ne [simp]: "dec_digits n \<noteq> []"
  by (subst dec_digits.simps) simp

lemma parse_dec_digits: "int n < b \<Longrightarrow> parse_unsigned b (dec_digits n) = Some (int n)"
proof -
  assume b: "int n < b"
  obtain c s where cs: "dec_digits n = c # s" by (cases "dec_digits n") auto
  have "c \<noteq> ch CHR ''+''"
    using dec_digits_digits [of n] by (auto simp: cs is_ascii_digit_def ch_def)
  then show ?thesis
    using b dec_digits_digits [of n] digits_value_dec [of n]
    by (simp add: parse_unsigned_def Let_def cs)
qed

section \<open>Substrings\<close>

lemma contains_str_iff: "contains_str s p \<longleftrightarrow> (\<exists>a b. s = a @ p @ b)"
proof (induction s)
  case (Cons c s)
  show ?case
  proof
    assume "contains_str (c # s) p"
    then consider "starts_with (c # s) p" | "contains_str s p" by auto
    then show "\<exists>a b. c # s = a @ p @ b"
    proof cases
      case 1
      then show ?thesis by (metis append_Nil starts_with_iff)
    next
      case 2
      then show ?thesis using Cons.IH by (metis append_Cons)
    qed
  next
    assume "\<exists>a b. c # s = a @ p @ b"
    then obtain a b where ab: "c # s = a @ p @ b" by blast
    show "contains_str (c # s) p"
    proof (cases a)
      case Nil
      then have "starts_with (c # s) p" using ab by (auto simp: starts_with_iff)
      then show ?thesis by simp
    next
      case (Cons x a')
      then show ?thesis using ab Cons.IH by auto
    qed
  qed
qed auto

end
