(* ===== verification/ServerBase.thy ===== *)
theory ServerBase
  imports Resources Json Utf8 Strings
begin

text \<open>
  What the handlers of \<open>lxcup-server\<close> share: \<open>errors.rs\<close> (API errors with their HTTP status),
  \<open>RepositoryError\<close> of \<open>lxcup-persistence\<close>, the header and method types of the HTTP library, and the
  availability of the database. A repository call that the database does not answer is an error
  and changes nothing (every writing method of several statements runs in one transaction); which
  calls are answered is an argument of the handlers.
\<close>

section \<open>API errors (errors.rs)\<close>

record blocking_job_info =
  bj_id :: uuid
  bj_status :: str

record api_error =
  ae_status :: nat
  ae_code :: str
  ae_message :: str
  ae_blocking_job :: "blocking_job_info option"

definition bad_request :: "str \<Rightarrow> str \<Rightarrow> api_error" where
  "bad_request code message = \<lparr>ae_status = 400, ae_code = code, ae_message = message,
     ae_blocking_job = None\<rparr>"

definition conflict_with_blocking_job :: "str \<Rightarrow> str \<Rightarrow> uuid \<Rightarrow> str \<Rightarrow> api_error" where
  "conflict_with_blocking_job code message i status = \<lparr>ae_status = 409, ae_code = code,
     ae_message = message, ae_blocking_job = Some \<lparr>bj_id = i, bj_status = status\<rparr>\<rparr>"

definition conflict :: "str \<Rightarrow> str \<Rightarrow> api_error" where
  "conflict code message = \<lparr>ae_status = 409, ae_code = code, ae_message = message,
     ae_blocking_job = None\<rparr>"

definition not_found :: "str \<Rightarrow> api_error" where
  "not_found resource = \<lparr>ae_status = 404, ae_code = lit ''not_found'', ae_message = resource,
     ae_blocking_job = None\<rparr>"

definition unauthorized :: api_error where
  "unauthorized = \<lparr>ae_status = 401, ae_code = lit ''unauthorized'',
     ae_message = lit ''authentication is required'', ae_blocking_job = None\<rparr>"

definition forbidden :: "str \<Rightarrow> str \<Rightarrow> api_error" where
  "forbidden code message = \<lparr>ae_status = 403, ae_code = code, ae_message = message,
     ae_blocking_job = None\<rparr>"

definition dependency :: "str \<Rightarrow> str \<Rightarrow> api_error" where
  "dependency code message = \<lparr>ae_status = 502, ae_code = code, ae_message = message,
     ae_blocking_job = None\<rparr>"

definition storage :: api_error where
  "storage = \<lparr>ae_status = 500, ae_code = lit ''storage_error'',
     ae_message = lit ''the operation could not be persisted'', ae_blocking_job = None\<rparr>"

lemmas api_error_defs =
  bad_request_def conflict_with_blocking_job_def conflict_def not_found_def unauthorized_def
  forbidden_def dependency_def storage_def

type_synonym 'a api_result = "api_error + 'a"

definition require_permission :: "actor_role \<Rightarrow> permission \<Rightarrow> unit api_result" where
  "require_permission role p =
     (if grants role p then Inr ()
      else Inl (forbidden (lit ''permission_denied'') (lit ''the role cannot change this resource'')))"

lemma require_permission_ok [simp]: "is_ok (require_permission role p) \<longleftrightarrow> grants role p"
  by (simp add: require_permission_def)

lemma require_permission_Inr [simp]: "require_permission role p = Inr u \<longleftrightarrow> grants role p"
  by (simp add: require_permission_def)

section \<open>Repository results\<close>

datatype repository_error =
  RepDatabase | RepInvalidValue str | RepSerialization | RepTargetBusy | RepLastAdmin | RepUsernameExists

type_synonym 'a repo_result = "repository_error + 'a"

text \<open>A read and a write against the database; \<open>up\<close> says whether the database answers.\<close>

definition db_read :: "bool \<Rightarrow> 'a repo_result \<Rightarrow> 'a repo_result" where
  "db_read up r = (if up then r else Inl RepDatabase)"

definition db_write :: "bool \<Rightarrow> 'db \<Rightarrow> 'a repo_result \<times> 'db \<Rightarrow> 'a repo_result \<times> 'db" where
  "db_write up db r = (if up then r else (Inl RepDatabase, db))"

lemma db_read_Inr [simp]: "db_read up r = Inr x \<longleftrightarrow> up \<and> r = Inr x"
  by (simp add: db_read_def)

lemma db_write_True [simp]: "db_write True db r = r"
  by (simp add: db_write_def)

lemma db_write_False [simp]: "db_write False db r = (Inl RepDatabase, db)"
  by (simp add: db_write_def)

lemma db_write_Inr [simp]: "fst (db_write up db r) = Inr x \<longleftrightarrow> up \<and> fst r = Inr x"
  by (simp add: db_write_def)

section \<open>HTTP requests\<close>

datatype http_method =
  MGet | MHead | MOptions | MPost | MPut | MPatch | MDelete | MOther (method_name: str)

fun method_as_str :: "http_method \<Rightarrow> str" where
  "method_as_str MGet = lit ''GET''"
| "method_as_str MHead = lit ''HEAD''"
| "method_as_str MOptions = lit ''OPTIONS''"
| "method_as_str MPost = lit ''POST''"
| "method_as_str MPut = lit ''PUT''"
| "method_as_str MPatch = lit ''PATCH''"
| "method_as_str MDelete = lit ''DELETE''"
| "method_as_str (MOther n) = n"

text \<open>
  A header map: the pairs of a lower-case name and the bytes of a value, in the order received.
  \<open>get\<close> returns the first value of a name, \<open>to_str\<close> fails on a value with bytes that are not
  visible ASCII (or a tab).
\<close>

type_synonym headers = "(str \<times> nat list) list"

definition visible_ascii :: "nat \<Rightarrow> bool" where
  "visible_ascii b \<longleftrightarrow> (32 \<le> b \<and> b < 127) \<or> b = 9"

definition header_get :: "headers \<Rightarrow> str \<Rightarrow> nat list option" where
  "header_get hs n = map_of hs n"

definition header_get_all :: "headers \<Rightarrow> str \<Rightarrow> nat list list" where
  "header_get_all hs n = map snd (filter (\<lambda>h. fst h = n) hs)"

definition header_to_str :: "nat list \<Rightarrow> str option" where
  "header_to_str v = (if list_all visible_ascii v then Some v else None)"

text \<open>\<open>headers.get("authorization")\<close>, \<open>to_str().ok()\<close>, \<open>strip_prefix("Bearer ")\<close>.\<close>

definition bearer_token :: "headers \<Rightarrow> str option" where
  "bearer_token hs =
     Option.bind (Option.bind (header_get hs (lit ''authorization'')) header_to_str)
       (\<lambda>v. strip_prefix v (lit ''Bearer ''))"

end
