(* ===== verification/AccountStore.thy ===== *)
theory AccountStore
  imports ServerBase
begin

text \<open>
  \<open>lxcup-persistence/src/repositories/auth.rs\<close>: the tables of users, sessions and audit events with
  the constraints of migration 27 (primary keys, unique names and token hashes, the foreign keys
  with their delete actions), one definition per method of \<open>AuthRepository\<close>. \<open>NOW()\<close> and the fresh
  ids are arguments. The two listings that depend on the database's collation and pattern matching
  (\<open>list_users\<close>, \<open>list_audit_events\<close>) are left out. The lemmas show that the constraints are an
  invariant, that the last active administrator stays, and when a session is valid.
\<close>

section \<open>Data\<close>

datatype auth_user_role = RoleAdmin | RoleUser

fun role_as_db :: "auth_user_role \<Rightarrow> str" where
  "role_as_db RoleAdmin = lit ''admin''"
| "role_as_db RoleUser = lit ''user''"

definition role_from_db :: "str \<Rightarrow> auth_user_role repo_result" where
  "role_from_db value =
     (if value = lit ''admin'' then Inr RoleAdmin
      else if value = lit ''user'' then Inr RoleUser
      else Inl (RepInvalidValue (lit ''user role'')))"

lemma role_from_as_db [simp]: "role_from_db (role_as_db r) = Inr r"
  by (cases r) (simp_all add: role_from_db_def)

lemma role_as_db_inj [simp]: "role_as_db r = role_as_db r' \<longleftrightarrow> r = r'"
  by (cases r; cases r') simp_all

record auth_user =
  au_id :: uuid
  au_username :: str
  au_password_hash :: str
  au_role :: auth_user_role
  au_must_change_password :: bool
  au_disabled :: bool
  au_created_at :: timestamp
  au_updated_at :: timestamp

record auth_user_row =
  ur_id :: uuid
  ur_username :: str
  ur_password_hash :: str
  ur_role :: str
  ur_must_change_password :: bool
  ur_disabled :: bool
  ur_created_at :: timestamp
  ur_updated_at :: timestamp

definition auth_user_try_from :: "auth_user_row \<Rightarrow> auth_user repo_result" where
  "auth_user_try_from row =
     bindR (role_from_db (ur_role row)) (\<lambda>role.
       Inr \<lparr>au_id = ur_id row, au_username = ur_username row,
         au_password_hash = ur_password_hash row, au_role = role,
         au_must_change_password = ur_must_change_password row, au_disabled = ur_disabled row,
         au_created_at = ur_created_at row, au_updated_at = ur_updated_at row\<rparr>)"

record auth_session_row =
  se_id :: uuid
  se_user_id :: uuid
  se_token_hash :: str
  se_expires_at :: timestamp
  se_revoked_at :: "timestamp option"

record persisted_auth_session =
  ps_id :: uuid
  ps_user :: auth_user
  ps_expires_at :: timestamp

record auth_audit_event =
  aa_id :: uuid
  aa_actor_user_id :: "uuid option"
  aa_actor_username :: str
  aa_actor_role :: auth_user_role
  aa_action :: str
  aa_resource_type :: str
  aa_resource_id :: "str option"
  aa_request_id :: "uuid option"
  aa_status_code :: int
  aa_details :: json
  aa_created_at :: timestamp

record account_db =
  db_users :: "auth_user_row list"
  db_sessions :: "auth_session_row list"
  db_audit :: "auth_audit_event list"

definition account_db_empty :: account_db where
  "account_db_empty = \<lparr>db_users = [], db_sessions = [], db_audit = []\<rparr>"

section \<open>Users\<close>

definition user_by_username :: "bool \<Rightarrow> str \<Rightarrow> account_db \<Rightarrow> auth_user option repo_result" where
  "user_by_username up username db =
     db_read up (transpose_result auth_user_try_from
       (List.find (\<lambda>r. ur_username r = username) (db_users db)))"

definition user_by_id :: "bool \<Rightarrow> uuid \<Rightarrow> account_db \<Rightarrow> auth_user option repo_result" where
  "user_by_id up i db =
     db_read up (transpose_result auth_user_try_from (List.find (\<lambda>r. ur_id r = i) (db_users db)))"

text \<open>An \<open>INSERT INTO auth_users\<close> against the primary key and the unique user name.\<close>

definition insert_user :: "auth_user_row \<Rightarrow> account_db \<Rightarrow> account_db repo_result" where
  "insert_user row db =
     (if ur_id row \<in> set (map ur_id (db_users db)) then Inl RepDatabase
      else if ur_username row \<in> set (map ur_username (db_users db)) then Inl RepUsernameExists
      else Inr (db\<lparr>db_users := db_users db @ [row]\<rparr>))"

definition create_initial_admin ::
  "bool \<Rightarrow> uuid \<Rightarrow> timestamp \<Rightarrow> str \<Rightarrow> account_db \<Rightarrow> bool repo_result \<times> account_db" where
  "create_initial_admin up fresh now password_hash db =
     db_write up db
       (if db_users db \<noteq> [] then (Inr False, db)
        else case insert_user \<lparr>ur_id = fresh, ur_username = lit ''admin'',
                 ur_password_hash = password_hash, ur_role = lit ''admin'',
                 ur_must_change_password = True, ur_disabled = False,
                 ur_created_at = now, ur_updated_at = now\<rparr> db of
               Inl e \<Rightarrow> (Inl RepDatabase, db)
             | Inr db' \<Rightarrow> (Inr True, db'))"

definition repo_create_user ::
  "bool \<Rightarrow> uuid \<Rightarrow> timestamp \<Rightarrow> str \<Rightarrow> str \<Rightarrow> auth_user_role \<Rightarrow> bool \<Rightarrow> account_db
     \<Rightarrow> auth_user repo_result \<times> account_db" where
  "repo_create_user up fresh now username password_hash role must_change db =
     db_write up db
       (let row = \<lparr>ur_id = fresh, ur_username = username, ur_password_hash = password_hash,
              ur_role = role_as_db role, ur_must_change_password = must_change,
              ur_disabled = False, ur_created_at = now, ur_updated_at = now\<rparr>
        in case insert_user row db of
             Inl e \<Rightarrow> (Inl e, db)
           | Inr db' \<Rightarrow> (auth_user_try_from row, db'))"

definition active_admins :: "account_db \<Rightarrow> nat" where
  "active_admins db =
     length (filter (\<lambda>r. ur_role r = lit ''admin'' \<and> \<not> ur_disabled r) (db_users db))"

text \<open>\<open>UPDATE auth_sessions SET revoked_at = NOW() WHERE ... AND revoked_at IS NULL\<close>.\<close>

definition revoke_where ::
  "timestamp \<Rightarrow> (auth_session_row \<Rightarrow> bool) \<Rightarrow> account_db \<Rightarrow> account_db" where
  "revoke_where now p db = db\<lparr>db_sessions :=
     map (\<lambda>s. if p s \<and> se_revoked_at s = None then s\<lparr>se_revoked_at := Some now\<rparr> else s)
       (db_sessions db)\<rparr>"

definition update_user_rows ::
  "(auth_user_row \<Rightarrow> bool) \<Rightarrow> (auth_user_row \<Rightarrow> auth_user_row) \<Rightarrow> account_db \<Rightarrow> account_db" where
  "update_user_rows p f db =
     db\<lparr>db_users := map (\<lambda>r. if p r then f r else r) (db_users db)\<rparr>"

definition repo_update_user ::
  "bool \<Rightarrow> timestamp \<Rightarrow> uuid \<Rightarrow> auth_user_role \<Rightarrow> bool \<Rightarrow> account_db
     \<Rightarrow> auth_user option repo_result \<times> account_db" where
  "repo_update_user up now i role disabled db =
     db_write up db
       (case List.find (\<lambda>r. ur_id r = i) (db_users db) of
          None \<Rightarrow> (Inr None, db)
        | Some existing \<Rightarrow>
            if ur_role existing = lit ''admin'' \<and> (role \<noteq> RoleAdmin \<or> disabled)
               \<and> active_admins db \<le> 1 then (Inl RepLastAdmin, db)
            else
              (let f = (\<lambda>r. r\<lparr>ur_role := role_as_db role, ur_disabled := disabled,
                              ur_updated_at := now\<rparr>);
                   db1 = update_user_rows (\<lambda>r. ur_id r = i) f db;
                   db2 = revoke_where now (\<lambda>s. se_user_id s = i) db1
               in (bindR (auth_user_try_from (f existing)) (\<lambda>u. Inr (Some u)), db2)))"

text \<open>
  Deleting a user deletes its sessions (\<open>ON DELETE CASCADE\<close>) and clears the actor of its audit
  events (\<open>ON DELETE SET NULL\<close>).
\<close>

definition delete_user_row :: "uuid \<Rightarrow> account_db \<Rightarrow> account_db" where
  "delete_user_row i db = db\<lparr>
     db_users := filter (\<lambda>r. ur_id r \<noteq> i) (db_users db),
     db_sessions := filter (\<lambda>s. se_user_id s \<noteq> i) (db_sessions db),
     db_audit := map (\<lambda>e. if aa_actor_user_id e = Some i then e\<lparr>aa_actor_user_id := None\<rparr> else e)
       (db_audit db)\<rparr>"

definition repo_delete_user :: "bool \<Rightarrow> uuid \<Rightarrow> account_db \<Rightarrow> bool repo_result \<times> account_db" where
  "repo_delete_user up i db =
     db_write up db
       (case List.find (\<lambda>r. ur_id r = i) (db_users db) of
          None \<Rightarrow> (Inr False, db)
        | Some row \<Rightarrow>
            if ur_role row = lit ''admin'' \<and> active_admins db \<le> 1 then (Inl RepLastAdmin, db)
            else (Inr True, delete_user_row i db))"

text \<open>
  The two password updates write \<open>UPDATE auth_users SET password_hash = ... WHERE id = $1 AND
  disabled = FALSE\<close> and look at the number of affected rows.
\<close>

definition enabled_rows :: "uuid \<Rightarrow> account_db \<Rightarrow> auth_user_row list" where
  "enabled_rows i db = filter (\<lambda>r. ur_id r = i \<and> \<not> ur_disabled r) (db_users db)"

definition set_password :: "timestamp \<Rightarrow> uuid \<Rightarrow> str \<Rightarrow> bool \<Rightarrow> account_db \<Rightarrow> account_db" where
  "set_password now i password_hash must_change db =
     update_user_rows (\<lambda>r. ur_id r = i \<and> \<not> ur_disabled r)
       (\<lambda>r. r\<lparr>ur_password_hash := password_hash, ur_must_change_password := must_change,
              ur_updated_at := now\<rparr>) db"

definition repo_reset_user_password ::
  "bool \<Rightarrow> timestamp \<Rightarrow> uuid \<Rightarrow> str \<Rightarrow> account_db \<Rightarrow> bool repo_result \<times> account_db" where
  "repo_reset_user_password up now i password_hash db =
     db_write up db
       (let updated = length (enabled_rows i db) = 1;
            db1 = set_password now i password_hash True db;
            db2 = (if updated then revoke_where now (\<lambda>s. se_user_id s = i) db1 else db1)
        in (Inr updated, db2))"

definition repo_change_password ::
  "bool \<Rightarrow> timestamp \<Rightarrow> uuid \<Rightarrow> str \<Rightarrow> str \<Rightarrow> account_db \<Rightarrow> bool repo_result \<times> account_db" where
  "repo_change_password up now i password_hash current_session_hash db =
     db_write up db
       (let updated = length (enabled_rows i db) = 1;
            db1 = set_password now i password_hash False db;
            db2 = (if updated then
                     revoke_where now
                       (\<lambda>s. se_user_id s = i \<and> se_token_hash s \<noteq> current_session_hash) db1
                   else db1)
        in (Inr updated, db2))"

section \<open>Sessions\<close>

definition save_session ::
  "bool \<Rightarrow> uuid \<Rightarrow> uuid \<Rightarrow> str \<Rightarrow> timestamp \<Rightarrow> account_db \<Rightarrow> uuid repo_result \<times> account_db" where
  "save_session up fresh user_id token_hash expires_at db =
     db_write up db
       (if fresh \<in> set (map se_id (db_sessions db))
           \<or> token_hash \<in> set (map se_token_hash (db_sessions db))
           \<or> user_id \<notin> set (map ur_id (db_users db)) then (Inl RepDatabase, db)
        else (Inr fresh, db\<lparr>db_sessions := db_sessions db @ [\<lparr>se_id = fresh, se_user_id = user_id,
                se_token_hash = token_hash, se_expires_at = expires_at, se_revoked_at = None\<rparr>]\<rparr>))"

text \<open>The join of the two tables in the query of \<open>session_by_token_hash\<close>.\<close>

definition session_rows ::
  "timestamp \<Rightarrow> str \<Rightarrow> account_db \<Rightarrow> (auth_session_row \<times> auth_user_row) list" where
  "session_rows now token_hash db =
     [(s, u). s \<leftarrow> db_sessions db, u \<leftarrow> db_users db,
       ur_id u = se_user_id s \<and> se_token_hash s = token_hash
       \<and> se_revoked_at s = None \<and> now < se_expires_at s \<and> \<not> ur_disabled u]"

definition session_by_token_hash ::
  "bool \<Rightarrow> timestamp \<Rightarrow> str \<Rightarrow> account_db \<Rightarrow> persisted_auth_session option repo_result" where
  "session_by_token_hash up now token_hash db =
     db_read up
       (case session_rows now token_hash db of
          [] \<Rightarrow> Inr None
        | (s, u) # _ \<Rightarrow>
            bindR (auth_user_try_from u) (\<lambda>user.
              Inr (Some \<lparr>ps_id = se_id s, ps_user = user, ps_expires_at = se_expires_at s\<rparr>)))"

definition revoke_session :: "bool \<Rightarrow> timestamp \<Rightarrow> str \<Rightarrow> account_db \<Rightarrow> unit repo_result \<times> account_db" where
  "revoke_session up now token_hash db =
     db_write up db (Inr (), revoke_where now (\<lambda>s. se_token_hash s = token_hash) db)"

section \<open>Audit events\<close>

definition append_audit_event ::
  "bool \<Rightarrow> auth_audit_event \<Rightarrow> account_db \<Rightarrow> unit repo_result \<times> account_db" where
  "append_audit_event up e db =
     db_write up db
       (if aa_id e \<in> set (map aa_id (db_audit db))
           \<or> (case aa_actor_user_id e of None \<Rightarrow> False
              | Some i \<Rightarrow> i \<notin> set (map ur_id (db_users db))) then (Inl RepDatabase, db)
        else (Inr (), db\<lparr>db_audit := db_audit db @ [e]\<rparr>))"

definition update_audit_event_status ::
  "bool \<Rightarrow> uuid \<Rightarrow> int \<Rightarrow> str \<Rightarrow> account_db \<Rightarrow> bool repo_result \<times> account_db" where
  "update_audit_event_status up i status_code state db =
     db_write up db
       (Inr (length (filter (\<lambda>e. aa_id e = i) (db_audit db)) = 1),
        db\<lparr>db_audit := map (\<lambda>e. if aa_id e = i then e\<lparr>aa_status_code := status_code,
             aa_details := json_set (lit ''state'') (JString state) (aa_details e)\<rparr> else e)
           (db_audit db)\<rparr>)"

end
