(* ===== verification/AccountLaws.thy ===== *)
theory AccountLaws
  imports AccountStore
begin

text \<open>
  What the account tables guarantee under any sequence of repository calls: the constraints hold,
  the last active administrator stays, and a revoked session never becomes valid again.
\<close>

section \<open>Sequences of repository calls\<close>

datatype account_op =
    AcInitialAdmin uuid timestamp str
  | AcCreateUser uuid timestamp str str auth_user_role bool
  | AcUpdateUser timestamp uuid auth_user_role bool
  | AcDeleteUser uuid
  | AcResetPassword timestamp uuid str
  | AcChangePassword timestamp uuid str str
  | AcSaveSession uuid uuid str timestamp
  | AcRevokeSession timestamp str
  | AcAppendAudit auth_audit_event
  | AcUpdateAudit uuid int str

fun account_step :: "bool \<Rightarrow> account_op \<Rightarrow> account_db \<Rightarrow> account_db" where
  "account_step up (AcInitialAdmin f t h) db = snd (create_initial_admin up f t h db)"
| "account_step up (AcCreateUser f t n h r m) db = snd (repo_create_user up f t n h r m db)"
| "account_step up (AcUpdateUser t i r d) db = snd (repo_update_user up t i r d db)"
| "account_step up (AcDeleteUser i) db = snd (repo_delete_user up i db)"
| "account_step up (AcResetPassword t i h) db = snd (repo_reset_user_password up t i h db)"
| "account_step up (AcChangePassword t i h c) db = snd (repo_change_password up t i h c db)"
| "account_step up (AcSaveSession f u th e) db = snd (save_session up f u th e db)"
| "account_step up (AcRevokeSession t th) db = snd (revoke_session up t th db)"
| "account_step up (AcAppendAudit e) db = snd (append_audit_event up e db)"
| "account_step up (AcUpdateAudit i c st) db = snd (update_audit_event_status up i c st db)"

definition run_account_ops :: "(bool \<times> account_op) list \<Rightarrow> account_db \<Rightarrow> account_db" where
  "run_account_ops ops db = fold (\<lambda>(up, op). account_step up op) ops db"

lemma run_account_ops_simps [simp]:
  "run_account_ops [] db = db"
  "run_account_ops ((up, op) # ops) db = run_account_ops ops (account_step up op db)"
  by (simp_all add: run_account_ops_def)

lemmas account_op_defs =
  create_initial_admin_def repo_create_user_def repo_update_user_def repo_delete_user_def
  repo_reset_user_password_def repo_change_password_def save_session_def revoke_session_def
  append_audit_event_def update_audit_event_status_def

lemmas account_table_defs =
  insert_user_def update_user_rows_def revoke_where_def delete_user_row_def set_password_def

section \<open>The constraints are an invariant\<close>

definition user_ids :: "account_db \<Rightarrow> uuid set" where
  "user_ids db = ur_id ` set (db_users db)"

definition account_ok :: "account_db \<Rightarrow> bool" where
  "account_ok db \<longleftrightarrow>
     distinct (map ur_id (db_users db)) \<and> distinct (map ur_username (db_users db))
     \<and> (\<forall>r \<in> set (db_users db). ur_role r \<in> range role_as_db)
     \<and> distinct (map se_token_hash (db_sessions db))
     \<and> (\<forall>s \<in> set (db_sessions db). se_user_id s \<in> user_ids db)
     \<and> (\<forall>e \<in> set (db_audit db). \<forall>i. aa_actor_user_id e = Some i \<longrightarrow> i \<in> user_ids db)"

lemma admin_role_valid [simp]: "lit ''admin'' \<in> range role_as_db"
  by (metis range_eqI role_as_db.simps(1))

lemma account_db_empty_ok: "account_ok account_db_empty"
  by (simp add: account_ok_def account_db_empty_def)

lemma revoke_where_ok:
  assumes "account_ok db"
  shows "account_ok (revoke_where now p db)"
proof -
  have u: "user_ids (revoke_where now p db) = user_ids db"
    by (simp add: user_ids_def revoke_where_def)
  have h: "map se_token_hash (db_sessions (revoke_where now p db)) = map se_token_hash (db_sessions db)"
    by (simp add: revoke_where_def)
  show ?thesis
    using assms unfolding account_ok_def u h by (auto simp: revoke_where_def)
qed

lemma update_user_rows_ok:
  assumes "account_ok db"
    and f: "\<And>r. ur_id (f r) = ur_id r" "\<And>r. ur_username (f r) = ur_username r"
    and role: "\<And>r. ur_role r \<in> range role_as_db \<Longrightarrow> ur_role (f r) \<in> range role_as_db"
  shows "account_ok (update_user_rows p f db)"
proof -
  have keep: "ur_id (if p r then f r else r) = ur_id r"
      "ur_username (if p r then f r else r) = ur_username r" for r
    using f by simp_all
  have m: "map ur_id (db_users (update_user_rows p f db)) = map ur_id (db_users db)"
      "map ur_username (db_users (update_user_rows p f db)) = map ur_username (db_users db)"
    by (simp_all add: update_user_rows_def comp_def keep)
  have u: "user_ids (update_user_rows p f db) = user_ids db"
    unfolding user_ids_def by (metis m(1) set_map)
  have r: "\<forall>r \<in> set (db_users (update_user_rows p f db)). ur_role r \<in> range role_as_db"
    using assms(1) role unfolding account_ok_def
    by (auto simp: update_user_rows_def simp del: role_as_db.simps)
  show ?thesis
    using assms(1) r unfolding account_ok_def u m by (simp add: update_user_rows_def)
qed

lemma insert_user_ok:
  assumes "account_ok db" "insert_user row db = Inr db'" "ur_role row \<in> range role_as_db"
  shows "account_ok db'"
  using assms by (auto simp: insert_user_def account_ok_def user_ids_def split: if_splits)

lemma delete_user_row_ok:
  assumes "account_ok db"
  shows "account_ok (delete_user_row i db)"
  using assms unfolding account_ok_def user_ids_def delete_user_row_def
  by (force simp: distinct_map_filter)

lemma account_step_ok:
  assumes "account_ok db"
  shows "account_ok (account_step up op db)"
proof (cases up)
  case False
  then show ?thesis using assms by (cases op) (simp_all add: account_op_defs)
next
  case up: True
  show ?thesis
  proof (cases op)
    case (AcInitialAdmin f t h)
    then show ?thesis using assms up
      by (auto simp: create_initial_admin_def split: sum.splits elim: insert_user_ok)
  next
    case (AcCreateUser f t n h r m)
    then show ?thesis using assms up
      by (auto simp: repo_create_user_def Let_def split: sum.splits elim: insert_user_ok)
  next
    case (AcUpdateUser t i r d)
    then show ?thesis using assms up
      by (auto simp: repo_update_user_def Let_def split: option.splits
          intro!: revoke_where_ok update_user_rows_ok)
  next
    case (AcDeleteUser i)
    then show ?thesis using assms up
      by (auto simp: repo_delete_user_def split: option.splits intro: delete_user_row_ok)
  next
    case (AcResetPassword t i h)
    then show ?thesis using assms up
      by (auto simp: repo_reset_user_password_def set_password_def Let_def
          intro!: revoke_where_ok update_user_rows_ok)
  next
    case (AcChangePassword t i h c)
    then show ?thesis using assms up
      by (auto simp: repo_change_password_def set_password_def Let_def
          intro!: revoke_where_ok update_user_rows_ok)
  next
    case (AcSaveSession f u th e)
    then show ?thesis using assms up
      by (auto simp: save_session_def account_ok_def user_ids_def)
  next
    case (AcRevokeSession t th)
    then show ?thesis using assms up by (simp add: revoke_session_def revoke_where_ok)
  next
    case (AcAppendAudit e)
    then show ?thesis using assms up
      by (auto simp: append_audit_event_def account_ok_def user_ids_def split: option.splits)
  next
    case (AcUpdateAudit i c st)
    then show ?thesis using assms up
      by (auto simp: update_audit_event_status_def account_ok_def user_ids_def)
  qed
qed

section \<open>The last active administrator\<close>

definition is_active_admin :: "auth_user_row \<Rightarrow> bool" where
  "is_active_admin r \<longleftrightarrow> ur_role r = lit ''admin'' \<and> \<not> ur_disabled r"

lemma active_admins_pos: "1 \<le> active_admins db \<longleftrightarrow> (\<exists>r \<in> set (db_users db). is_active_admin r)"
  by (auto simp: active_admins_def is_active_admin_def Suc_le_eq filter_empty_conv)

text \<open>With two active administrators there is one beside any given user.\<close>

lemma another_admin:
  assumes "distinct (map ur_id (db_users db))" "1 < active_admins db"
  shows "\<exists>r \<in> set (db_users db). is_active_admin r \<and> ur_id r \<noteq> i"
proof (rule ccontr)
  let ?as = "filter is_active_admin (db_users db)"
  assume "\<not> ?thesis"
  then have sub: "set (map ur_id ?as) \<subseteq> {i}" by auto
  have "distinct (map ur_id ?as)" using assms(1) by (rule distinct_map_filter)
  then have "length ?as = card (set (map ur_id ?as))" by (metis distinct_card length_map)
  also have "\<dots> \<le> 1" using card_mono [OF _ sub] by simp
  finally show False using assms(2) by (simp add: active_admins_def is_active_admin_def [abs_def])
qed

lemma find_by_id:
  assumes "List.find (\<lambda>r. ur_id r = i) (db_users db) = Some row"
  shows "row \<in> set (db_users db)" "ur_id row = i"
  using assms by (auto simp: find_Some_iff)

lemma same_id: "distinct (map ur_id rs) \<Longrightarrow> r \<in> set rs \<Longrightarrow> r' \<in> set rs \<Longrightarrow> ur_id r = ur_id r' \<Longrightarrow> r = r'"
  by (auto simp: distinct_map dest: inj_onD)

lemma admin_kept_elsewhere:
  assumes "r \<in> set (db_users db)" "is_active_admin r" "ur_id r \<noteq> i"
  shows "1 \<le> active_admins (update_user_rows (\<lambda>r. ur_id r = i) f db)"
    "1 \<le> active_admins (delete_user_row i db)"
  unfolding active_admins_pos
  using assms by (auto simp: update_user_rows_def delete_user_row_def image_iff intro!: bexI [of _ r])

lemma admin_kept_rows:
  assumes "1 \<le> active_admins db" "\<And>r. is_active_admin r \<Longrightarrow> is_active_admin (f r)"
  shows "1 \<le> active_admins (update_user_rows p f db)"
proof -
  from assms(1) obtain r where r: "r \<in> set (db_users db)" "is_active_admin r"
    unfolding active_admins_pos by blast
  have "(if p r then f r else r) \<in> set (db_users (update_user_rows p f db))"
    using r(1) by (simp add: update_user_rows_def)
  with r(2) assms(2) show ?thesis unfolding active_admins_pos by (metis (full_types))
qed

lemma active_admins_revoke [simp]: "active_admins (revoke_where now p db) = active_admins db"
  by (simp add: active_admins_def revoke_where_def)

lemma update_user_keeps_admin:
  assumes ok: "account_ok db" and adm: "1 \<le> active_admins db"
  shows "1 \<le> active_admins (snd (repo_update_user True now i role d db))"
proof (cases "List.find (\<lambda>r. ur_id r = i) (db_users db)")
  case None
  then show ?thesis using adm by (simp add: repo_update_user_def)
next
  case (Some row)
  let ?f = "\<lambda>r. r\<lparr>ur_role := role_as_db role, ur_disabled := d, ur_updated_at := now\<rparr>"
  have dist: "distinct (map ur_id (db_users db))" using ok by (simp add: account_ok_def)
  from adm obtain r where r: "r \<in> set (db_users db)" "is_active_admin r"
    unfolding active_admins_pos by blast
  consider (guarded) "ur_role row = lit ''admin'' \<and> (role \<noteq> RoleAdmin \<or> d) \<and> active_admins db \<le> 1"
    | (stays) "role = RoleAdmin" "\<not> d"
    | (other) "ur_role row \<noteq> lit ''admin''"
    | (many) "1 < active_admins db"
    by linarith
  then show ?thesis
  proof cases
    case guarded
    then show ?thesis using adm Some by (simp add: repo_update_user_def)
  next
    case stays
    then have "1 \<le> active_admins (update_user_rows (\<lambda>r. ur_id r = i) ?f db)"
      by (intro admin_kept_rows [OF adm]) (simp add: is_active_admin_def)
    with adm Some show ?thesis by (simp add: repo_update_user_def Let_def)
  next
    case other
    then have "ur_id r \<noteq> i"
      using same_id [OF dist r(1) find_by_id(1) [OF Some]] find_by_id(2) [OF Some] r(2)
      by (auto simp: is_active_admin_def)
    with adm Some admin_kept_elsewhere(1) [OF r] show ?thesis
      by (simp add: repo_update_user_def Let_def)
  next
    case many
    then obtain r' where "r' \<in> set (db_users db)" "is_active_admin r'" "ur_id r' \<noteq> i"
      using another_admin [OF dist] by blast
    with adm Some admin_kept_elsewhere(1) [of r'] show ?thesis
      by (simp add: repo_update_user_def Let_def)
  qed
qed

lemma delete_user_keeps_admin:
  assumes ok: "account_ok db" and adm: "1 \<le> active_admins db"
  shows "1 \<le> active_admins (snd (repo_delete_user True i db))"
proof (cases "List.find (\<lambda>r. ur_id r = i) (db_users db)")
  case None
  then show ?thesis using adm by (simp add: repo_delete_user_def)
next
  case (Some row)
  have dist: "distinct (map ur_id (db_users db))" using ok by (simp add: account_ok_def)
  from adm obtain r where r: "r \<in> set (db_users db)" "is_active_admin r"
    unfolding active_admins_pos by blast
  show ?thesis
  proof (cases "ur_role row = lit ''admin'' \<and> active_admins db \<le> 1")
    case True
    then show ?thesis using adm Some by (simp add: repo_delete_user_def)
  next
    case False
    have "\<exists>r' \<in> set (db_users db). is_active_admin r' \<and> ur_id r' \<noteq> i"
    proof (cases "ur_role row = lit ''admin''")
      case True
      with False another_admin [OF dist] show ?thesis by simp
    next
      case False
      then have "ur_id r \<noteq> i"
        using same_id [OF dist r(1) find_by_id(1) [OF Some]] find_by_id(2) [OF Some] r(2)
        by (auto simp: is_active_admin_def)
      with r show ?thesis by blast
    qed
    with False Some admin_kept_elsewhere(2) show ?thesis by (auto simp: repo_delete_user_def)
  qed
qed

lemma account_step_admin:
  assumes ok: "account_ok db" and adm: "1 \<le> active_admins db"
  shows "1 \<le> active_admins (account_step up op db)"
proof (cases up)
  case False
  then show ?thesis using adm by (cases op) (simp_all add: account_op_defs)
next
  case up: True
  have pw: "1 \<le> active_admins (set_password t i h m db)" for t i h m
    unfolding set_password_def by (rule admin_kept_rows [OF adm]) (simp add: is_active_admin_def)
  show ?thesis
  proof (cases op)
    case (AcUpdateUser t i r d)
    then show ?thesis using update_user_keeps_admin [OF ok adm] up by simp
  next
    case (AcDeleteUser i)
    then show ?thesis using delete_user_keeps_admin [OF ok adm] up by simp
  next
    case (AcResetPassword t i h)
    then show ?thesis using pw up by (simp add: repo_reset_user_password_def Let_def)
  next
    case (AcChangePassword t i h c)
    then show ?thesis using pw up by (simp add: repo_change_password_def Let_def)
  next
    case (AcRevokeSession t th)
    then show ?thesis using adm up by (simp add: revoke_session_def)
  qed (use adm up in \<open>auto simp: account_op_defs insert_user_def active_admins_def Let_def
         split: sum.splits if_splits\<close>)
qed

section \<open>Sessions\<close>

text \<open>A token hash is dead when no unrevoked session row has it.\<close>

definition dead :: "str \<Rightarrow> account_db \<Rightarrow> bool" where
  "dead th db \<longleftrightarrow> (\<forall>s \<in> set (db_sessions db). se_token_hash s = th \<longrightarrow> se_revoked_at s \<noteq> None)"

lemma set_session_rows:
  "(s, u) \<in> set (session_rows now th db) \<longleftrightarrow> s \<in> set (db_sessions db) \<and> u \<in> set (db_users db)
     \<and> ur_id u = se_user_id s \<and> se_token_hash s = th \<and> se_revoked_at s = None
     \<and> now < se_expires_at s \<and> \<not> ur_disabled u"
  by (auto simp: session_rows_def)

lemma session_by_token_hash_dead:
  assumes "dead th db"
  shows "session_by_token_hash up now th db \<in> {Inr None, Inl RepDatabase}"
proof -
  have "x \<notin> set (session_rows now th db)" for x
    using assms by (cases x) (auto simp: set_session_rows dead_def)
  then have "session_rows now th db = []" by (metis list.set_intros(1) neq_Nil_conv)
  then show ?thesis by (simp add: session_by_token_hash_def db_read_def)
qed

lemma session_by_token_hashD:
  assumes "session_by_token_hash up now th db = Inr (Some p)"
  shows "\<exists>s u. s \<in> set (db_sessions db) \<and> u \<in> set (db_users db) \<and> ur_id u = se_user_id s
     \<and> se_token_hash s = th \<and> se_revoked_at s = None \<and> now < se_expires_at s \<and> \<not> ur_disabled u
     \<and> auth_user_try_from u = Inr (ps_user p) \<and> ps_expires_at p = se_expires_at s"
proof -
  obtain s u rest where r: "session_rows now th db = (s, u) # rest"
    and p: "auth_user_try_from u = Inr (ps_user p)" "ps_expires_at p = se_expires_at s"
    using assms by (auto simp: session_by_token_hash_def bindR_Inr_iff split: list.splits)
  have "(s, u) \<in> set (session_rows now th db)" unfolding r by simp
  with p show ?thesis unfolding set_session_rows by blast
qed

fun saves_token :: "str \<Rightarrow> account_op \<Rightarrow> bool" where
  "saves_token th (AcSaveSession f u th' e) \<longleftrightarrow> th' = th"
| "saves_token th _ \<longleftrightarrow> False"

lemma dead_sessions_sub:
  assumes "dead th db"
    and "\<And>s'. s' \<in> set (db_sessions db') \<Longrightarrow> \<exists>s \<in> set (db_sessions db).
       se_token_hash s' = se_token_hash s \<and> (se_revoked_at s \<noteq> None \<longrightarrow> se_revoked_at s' \<noteq> None)"
  shows "dead th db'"
  using assms unfolding dead_def by metis

lemma account_step_dead:
  assumes "dead th db" "\<not> saves_token th op"
  shows "dead th (account_step up op db)"
proof (cases "\<exists>f u th' e. op = AcSaveSession f u th' e")
  case True
  then show ?thesis using assms
    by (cases up) (auto simp: save_session_def dead_def split: if_splits)
next
  case False
  show ?thesis
  proof (rule dead_sessions_sub [OF assms(1)])
    fix s'
    assume "s' \<in> set (db_sessions (account_step up op db))"
    then show "\<exists>s \<in> set (db_sessions db). se_token_hash s' = se_token_hash s
        \<and> (se_revoked_at s \<noteq> None \<longrightarrow> se_revoked_at s' \<noteq> None)"
      using False
      by (cases up; cases op)
        (auto simp: account_op_defs account_table_defs Let_def
          split: sum.splits option.splits if_splits)
  qed
qed

lemma run_account_ops_dead:
  assumes "dead th db" "list_all (\<lambda>x. \<not> saves_token th (snd x)) ops"
  shows "dead th (run_account_ops ops db)"
  using assms
proof (induction ops arbitrary: db)
  case (Cons x ops)
  then show ?case by (cases x) (simp add: account_step_dead)
qed simp

lemma revoke_where_dead:
  assumes "\<And>s. s \<in> set (db_sessions db) \<Longrightarrow> se_token_hash s = th \<Longrightarrow> p s"
  shows "dead th (revoke_where now p db)"
  using assms by (auto simp: dead_def revoke_where_def)

lemma token_hash_owner:
  assumes "account_ok db" "s \<in> set (db_sessions db)" "s' \<in> set (db_sessions db)"
    "se_token_hash s = se_token_hash s'"
  shows "s = s'"
  using assms by (auto simp: account_ok_def distinct_map dest: inj_onD)

section \<open>Properties\<close>

text \<open>A database with one administrator, one user and a session of each.\<close>

definition row_example :: "uuid \<Rightarrow> str \<Rightarrow> str \<Rightarrow> auth_user_row" where
  "row_example i name role = \<lparr>ur_id = i, ur_username = name, ur_password_hash = lit ''h'',
     ur_role = role, ur_must_change_password = False, ur_disabled = False, ur_created_at = 0,
     ur_updated_at = 0\<rparr>"

definition session_example :: "uuid \<Rightarrow> str \<Rightarrow> auth_session_row" where
  "session_example u th = \<lparr>se_id = u + 10, se_user_id = u, se_token_hash = th, se_expires_at = 100,
     se_revoked_at = None\<rparr>"

definition account_example :: account_db where
  "account_example = \<lparr>
     db_users = [row_example 1 (lit ''admin'') (lit ''admin''), row_example 2 (lit ''eve'') (lit ''user'')],
     db_sessions = [session_example 1 (lit ''t1''), session_example 2 (lit ''t2'')], db_audit = []\<rparr>"

lemma account_example_ok: "account_ok account_example"
proof -
  have "lit ''user'' \<in> range role_as_db" by (metis range_eqI role_as_db.simps(2))
  then show ?thesis
    by (simp add: account_ok_def account_example_def row_example_def session_example_def user_ids_def)
qed

text \<open>
  C21. Under every sequence of repository calls, failed ones included, the table constraints hold
  and, once there is an active administrator, at least one stays: no call can demote, disable or
  delete the last one.
\<close>

theorem last_admin_stays:
  assumes "account_ok db" "1 \<le> active_admins db"
  shows "account_ok (run_account_ops ops db) \<and> 1 \<le> active_admins (run_account_ops ops db)"
  using assms
proof (induction ops arbitrary: db)
  case (Cons x ops)
  obtain up op where x: "x = (up, op)" by (cases x)
  show ?case
    using Cons.IH [OF account_step_ok [OF Cons.prems(1)] account_step_admin [OF Cons.prems]]
    by (simp add: x)
qed simp

theorem last_admin_stays_witness:
  "1 \<le> active_admins (run_account_ops [(True, AcUpdateUser 5 1 RoleUser False), (True, AcDeleteUser 1),
      (True, AcUpdateUser 6 2 RoleAdmin False), (True, AcDeleteUser 1)] account_example)
   \<and> fst (repo_update_user True 5 1 RoleUser False account_example) = Inl RepLastAdmin"
proof
  have "1 \<le> active_admins account_example" by code_simp
  from last_admin_stays [OF account_example_ok this] show
    "1 \<le> active_admins (run_account_ops [(True, AcUpdateUser 5 1 RoleUser False), (True, AcDeleteUser 1),
      (True, AcUpdateUser 6 2 RoleAdmin False), (True, AcDeleteUser 1)] account_example)" by blast
qed code_simp

text \<open>
  Sessions end for good: once a user was updated, got a new password or was deleted (or changed
  the password from another session), no session the user had is valid again, whatever calls
  follow, unless the same token is issued anew.
\<close>

theorem sessions_end_for_good:
  assumes ok: "account_ok db" and s: "s \<in> set (db_sessions db)"
    and ended:
      "fst (repo_update_user True now (se_user_id s) role d db) = Inr (Some u)
         \<and> db' = snd (repo_update_user True now (se_user_id s) role d db)
       \<or> fst (repo_reset_user_password True now (se_user_id s) h db) = Inr True
         \<and> db' = snd (repo_reset_user_password True now (se_user_id s) h db)
       \<or> fst (repo_change_password True now (se_user_id s) h cur db) = Inr True \<and> cur \<noteq> se_token_hash s
         \<and> db' = snd (repo_change_password True now (se_user_id s) h cur db)
       \<or> fst (repo_delete_user True (se_user_id s) db) = Inr True
         \<and> db' = snd (repo_delete_user True (se_user_id s) db)"
    and later: "list_all (\<lambda>x. \<not> saves_token (se_token_hash s) (snd x)) ops"
  shows "session_by_token_hash up t (se_token_hash s) (run_account_ops ops db')
     \<in> {Inr None, Inl RepDatabase}"
proof -
  have own: "s' = s" if "s' \<in> set (db_sessions db)" "se_token_hash s' = se_token_hash s" for s'
    using token_hash_owner [OF ok that(1) s that(2)] .
  have kill: "dead (se_token_hash s) (revoke_where now p (update_user_rows q f db))" if "p s" for p q f
    using own that by (intro revoke_where_dead) (auto simp: update_user_rows_def)
  have del: "dead (se_token_hash s) (delete_user_row (se_user_id s) db)"
    using own by (auto simp: dead_def delete_user_row_def)
  have "dead (se_token_hash s) db'"
    using ended kill del
    by (auto simp: repo_update_user_def repo_reset_user_password_def repo_change_password_def
        repo_delete_user_def set_password_def Let_def split: option.splits if_splits)
  then show ?thesis
    using session_by_token_hash_dead [OF run_account_ops_dead [OF _ later]] by blast
qed

theorem sessions_end_for_good_witness:
  "fst (repo_reset_user_password True 5 2 (lit ''n'') account_example) = Inr True
   \<and> is_ok (session_by_token_hash True 6 (lit ''t2'') account_example)
   \<and> session_by_token_hash True 6 (lit ''t2'') (run_account_ops [(True, AcUpdateUser 6 2 RoleUser False)]
        (snd (repo_reset_user_password True 5 2 (lit ''n'') account_example))) \<in> {Inr None, Inl RepDatabase}"
proof (intro conjI)
  let ?s = "session_example 2 (lit ''t2'')"
  have s: "?s \<in> set (db_sessions account_example)" by (simp add: account_example_def)
  have r: "fst (repo_reset_user_password True 5 (se_user_id ?s) (lit ''n'') account_example) = Inr True"
    by code_simp
  have "session_by_token_hash True 6 (se_token_hash ?s) (run_account_ops [(True, AcUpdateUser 6 2 RoleUser False)]
        (snd (repo_reset_user_password True 5 (se_user_id ?s) (lit ''n'') account_example)))
        \<in> {Inr None, Inl RepDatabase}"
    by (rule sessions_end_for_good [OF account_example_ok s, where now = 5 and h = "lit ''n''"])
      (use r in simp_all)
  then show "session_by_token_hash True 6 (lit ''t2'') (run_account_ops [(True, AcUpdateUser 6 2 RoleUser False)]
        (snd (repo_reset_user_password True 5 2 (lit ''n'') account_example))) \<in> {Inr None, Inl RepDatabase}"
    by (simp add: session_example_def)
qed code_simp+

text \<open>
  The guard counts active administrators but does not look whether the user in question is one: a
  disabled administrator can be neither demoted nor deleted while a single active one exists.
\<close>

lemma disabled_admin_is_protected:
  assumes "List.find (\<lambda>r. ur_id r = i) (db_users db) = Some row" "ur_role row = lit ''admin''"
    "ur_disabled row" "active_admins db = 1"
  shows "fst (repo_delete_user True i db) = Inl RepLastAdmin
    \<and> fst (repo_update_user True now i RoleUser True db) = Inl RepLastAdmin"
  using assms by (simp add: repo_delete_user_def repo_update_user_def)

end
