(* ===== verification/UserAuth.thy ===== *)
theory UserAuth
  imports AccountLaws
begin

text \<open>
  \<open>lxcup-server/src/user_auth.rs\<close> and \<open>user_admin.rs\<close>: password hashes, session cookies, login,
  password change and the administration of accounts, over the account tables. PBKDF2, SHA-256 and
  the text and byte forms of UUIDs come from external crates and are the functions of \<open>auth_env\<close>.
  Which database calls and blocking tasks succeed is the argument \<open>up\<close>.
\<close>

section \<open>Environment\<close>

record auth_env =
  en_sha256 :: "u8 list \<Rightarrow> u8 list"
  en_pbkdf2 :: "u8 list \<Rightarrow> u8 list \<Rightarrow> int \<Rightarrow> u8 list"
  en_uuid_bytes :: "uuid \<Rightarrow> u8 list"
  en_uuid_simple :: "uuid \<Rightarrow> str"
  en_uuid_parse :: "str \<Rightarrow> uuid option"

datatype db_call =
    CallUserByUsername | CallUserById | CallAppendAudit | CallUpdateAudit | CallSaveSession
  | CallRevokeSession | CallSessionByToken | CallChangePassword | CallCreateUser | CallUpdateUser
  | CallDeleteUser | CallResetPassword | CallInitialAdmin | CallBlockingTask

type_synonym calls = "db_call \<Rightarrow> bool"

record auth_state =
  as_account_auth_enabled :: bool
  as_secure_cookies :: bool
  as_repositories :: bool

section \<open>Hexadecimal text\<close>

definition hex_table :: str where
  "hex_table = lit ''0123456789abcdef''"

definition encode_hex :: "u8 list \<Rightarrow> str" where
  "encode_hex bytes =
     concat (map (\<lambda>b. [hex_table ! unat (drop_bit 4 b), hex_table ! unat (and b 15)]) bytes)"

definition hex_nibble :: "u8 \<Rightarrow> u8 option" where
  "hex_nibble v =
     (if 48 \<le> v \<and> v \<le> 57 then Some (v - 48)
      else if 97 \<le> v \<and> v \<le> 102 then Some (v - 97 + 10) else None)"

fun decode_pairs :: "u8 list \<Rightarrow> u8 list option" where
  "decode_pairs (a # b # rest) =
     (case (hex_nibble a, hex_nibble b) of
        (Some high, Some low) \<Rightarrow>
          map_option (\<lambda>bs. or (push_bit 4 high) low # bs) (decode_pairs rest)
      | _ \<Rightarrow> None)"
| "decode_pairs _ = Some []"

definition decode_hex :: "str \<Rightarrow> u8 list option" where
  "decode_hex value =
     (if str_len value mod 2 \<noteq> 0 then None else decode_pairs (as_bytes value))"

lemma nibble_roundtrip:
  assumes "n < 16"
  shows "hex_nibble (of_nat (hex_table ! n)) = Some (of_nat n) \<and> hex_table ! n < 128"
proof -
  have "list_all (\<lambda>n. hex_nibble (of_nat (hex_table ! n)) = Some (of_nat n) \<and> hex_table ! n < 128)
      [0..<16]"
    by code_simp
  then show ?thesis using assms by (simp add: list_all_iff)
qed

lemma nibble_bounds:
  fixes b :: u8
  shows "unat (drop_bit 4 b) < 16" "unat (and b 15) < 16"
proof -
  have "unat (drop_bit 4 b) = unat b div 16"
    by (simp add: drop_bit_eq_div unat_div_distrib)
  then show "unat (drop_bit 4 b) < 16" using unsigned_less [of b, where ?'a = nat] by simp
  have "and b 15 \<le> 15" by (rule word_and_le1)
  then show "unat (and b 15) < 16" by (simp add: word_le_nat_alt)
qed

lemma byte_of_nibbles:
  fixes b :: u8
  shows "or (push_bit 4 (drop_bit 4 b)) (and b 15) = b"
proof -
  have eq: "(15 :: u8) = mask 4" by (simp add: mask_eq_exp_minus_1)
  show ?thesis unfolding eq by (rule bit_eqI) (auto simp: bit_simps not_less)
qed

lemma encode_hex_ascii: "\<forall>c \<in> set (encode_hex bs). c < 128"
  using nibble_roundtrip nibble_bounds by (auto simp: encode_hex_def)

lemma as_bytes_ascii: "\<forall>c \<in> set s. c < 128 \<Longrightarrow> as_bytes s = map of_nat s"
  by (induction s) (auto simp: as_bytes_def encode_char_def)

lemma length_encode_hex: "length (encode_hex bs) = 2 * length bs"
  by (induction bs) (auto simp: encode_hex_def)

lemma decode_pairs_encode: "decode_pairs (map of_nat (encode_hex bs)) = Some bs"
proof (induction bs)
  case (Cons b bs)
  have "hex_nibble (of_nat (hex_table ! unat (drop_bit 4 b))) = Some (drop_bit 4 b)"
    "hex_nibble (of_nat (hex_table ! unat (and b 15))) = Some (and b 15)"
    using nibble_roundtrip [OF nibble_bounds(1)] nibble_roundtrip [OF nibble_bounds(2)] by simp_all
  with Cons show ?case by (simp add: encode_hex_def byte_of_nibbles)
qed (simp add: encode_hex_def)

lemma decode_encode_hex: "decode_hex (encode_hex bs) = Some bs"
  by (simp add: decode_hex_def str_len_ascii encode_hex_ascii length_encode_hex as_bytes_ascii
      decode_pairs_encode)

section \<open>Password hashes\<close>

definition hash_password :: "auth_env \<Rightarrow> uuid \<Rightarrow> str \<Rightarrow> str" where
  "hash_password env fresh password =
     (let salt = en_uuid_bytes env fresh;
          derived = en_pbkdf2 env (as_bytes password) salt 600000
      in lit ''pbkdf2-sha256$600000$'' @ encode_hex salt @ lit ''$'' @ encode_hex derived)"

definition hash_session_token :: "auth_env \<Rightarrow> str \<Rightarrow> str" where
  "hash_session_token env token = encode_hex (en_sha256 env (as_bytes token))"

definition verify_password :: "auth_env \<Rightarrow> str \<Rightarrow> str \<Rightarrow> bool" where
  "verify_password env password encoded =
     (case split_char (ch CHR ''$'') encoded of
        [scheme, rounds_text, salt_text, expected_text] \<Rightarrow>
          if scheme \<noteq> lit ''pbkdf2-sha256'' then False
          else (case parse_u32 rounds_text of
                  None \<Rightarrow> False
                | Some rounds \<Rightarrow>
                    if \<not> (100000 \<le> rounds \<and> rounds \<le> 2000000) then False
                    else (case (decode_hex salt_text, decode_hex expected_text) of
                            (Some salt, Some expected) \<Rightarrow>
                              if length salt \<noteq> 16 \<or> length expected \<noteq> 32 then False
                              else en_pbkdf2 env (as_bytes password) salt rounds = expected
                          | _ \<Rightarrow> False))
      | _ \<Rightarrow> False)"

definition DUMMY_PASSWORD_HASH :: str where
  "DUMMY_PASSWORD_HASH = lit ''pbkdf2-sha256$600000$'' @ replicate 32 48 @ lit ''$'' @ replicate 64 48"

definition validate_password :: "str \<Rightarrow> unit api_result" where
  "validate_password password =
     (if length password < 12 then
        Inl (bad_request (lit ''weak_password'')
          (lit ''the new password must contain at least 12 characters''))
      else if str_len password > 1024 \<or> trim password = [] then
        Inl (bad_request (lit ''invalid_password'') (lit ''the new password is invalid''))
      else Inr ())"

definition normalize_username :: "str \<Rightarrow> str option" where
  "normalize_username name =
     (let username = trim name in
      if username = [] \<or> str_len username > 64
         \<or> \<not> list_all (\<lambda>c. is_ascii_alphanumeric c
               \<or> c \<in> {ch CHR ''.'', ch CHR ''_'', ch CHR ''-''}) username
      then None else Some (to_ascii_lowercase username))"

lemma hex_no_dollar: "ch CHR ''$'' \<notin> set (encode_hex bs)"
proof -
  have "list_all (\<lambda>n. hex_table ! n \<noteq> ch CHR ''$'') [0..<16]" by code_simp
  then have "n < 16 \<Longrightarrow> hex_table ! n \<noteq> ch CHR ''$''" for n by (simp add: list_all_iff)
  then show ?thesis using nibble_bounds by (force simp: encode_hex_def)
qed

text \<open>Hash and verification agree: exactly the passwords with the same derived key are accepted.\<close>

lemma verify_hash_password:
  assumes "length (en_uuid_bytes env fresh) = 16"
    and "\<And>pw salt rounds. length (en_pbkdf2 env pw salt rounds) = 32"
  shows "verify_password env password (hash_password env fresh original) \<longleftrightarrow>
     en_pbkdf2 env (as_bytes password) (en_uuid_bytes env fresh) 600000 =
     en_pbkdf2 env (as_bytes original) (en_uuid_bytes env fresh) 600000"
proof -
  let ?d = "ch CHR ''$''"
  let ?salt = "encode_hex (en_uuid_bytes env fresh)"
  let ?key = "encode_hex (en_pbkdf2 env (as_bytes original) (en_uuid_bytes env fresh) 600000)"
  have h: "hash_password env fresh original =
      lit ''pbkdf2-sha256'' @ ?d # lit ''600000'' @ ?d # ?salt @ ?d # ?key"
    by (simp add: hash_password_def Let_def str_simps)
  have n: "?d \<notin> set (lit ''pbkdf2-sha256'')" "?d \<notin> set (lit ''600000'')"
    by code_simp+
  have "split_char ?d (hash_password env fresh original) =
      [lit ''pbkdf2-sha256'', lit ''600000'', ?salt, ?key]"
    unfolding h by (simp add: split_char_append_sep n hex_no_dollar split_char_no_sep)
  moreover have "parse_u32 (lit ''600000'') = Some 600000" by code_simp
  ultimately show ?thesis
    using assms by (auto simp: verify_password_def decode_encode_hex)
qed

section \<open>Cookies\<close>

definition header_from_str :: "str \<Rightarrow> str api_result" where
  "header_from_str v = (if list_all visible_ascii v then Inr v else Inl storage)"

definition session_cookie_headers :: "str \<Rightarrow> str \<Rightarrow> bool \<Rightarrow> str list api_result" where
  "session_cookie_headers session_token csrf_token secure =
     (let secure_attribute = (if secure then lit ''; Secure'' else []) in
      bindR (header_from_str (lit ''lxcup_session='' @ session_token
          @ lit ''; Path=/api/v1; Max-Age=28800; HttpOnly; SameSite=Strict'' @ secure_attribute)) (\<lambda>a.
      bindR (header_from_str (lit ''lxcup_csrf='' @ csrf_token
          @ lit ''; Path=/; Max-Age=28800; SameSite=Strict'' @ secure_attribute)) (\<lambda>b.
      Inr [a, b])))"

definition cleared_session_cookie_headers :: "bool \<Rightarrow> str list api_result" where
  "cleared_session_cookie_headers secure =
     (let secure_attribute = (if secure then lit ''; Secure'' else []) in
      bindR (header_from_str (lit ''lxcup_session=; Path=/api/v1; Max-Age=0; HttpOnly; SameSite=Strict''
          @ secure_attribute)) (\<lambda>a.
      bindR (header_from_str (lit ''lxcup_csrf=; Path=/; Max-Age=0; SameSite=Strict''
          @ secure_attribute)) (\<lambda>b.
      Inr [a, b])))"

section \<open>Login\<close>

record auth_user_response =
  ar_id :: uuid
  ar_username :: str
  ar_role :: str
  ar_must_change_password :: bool

definition auth_user_response_from :: "auth_user \<Rightarrow> auth_user_response" where
  "auth_user_response_from u = \<lparr>ar_id = au_id u, ar_username = au_username u,
     ar_role = role_as_db (au_role u), ar_must_change_password = au_must_change_password u\<rparr>"

record auth_login_response =
  lr_cookies :: "str list"
  lr_user :: auth_user_response
  lr_expires_in_seconds :: nat

record login_fresh =
  lf_access1 :: uuid
  lf_access2 :: uuid
  lf_csrf1 :: uuid
  lf_csrf2 :: uuid
  lf_audit :: uuid
  lf_session :: uuid

definition SESSION_LIFETIME :: duration where
  "SESSION_LIFETIME = 8 * 3600 * 1000000000"

definition access_token :: "auth_env \<Rightarrow> login_fresh \<Rightarrow> str" where
  "access_token env f = en_uuid_simple env (lf_access1 f) @ en_uuid_simple env (lf_access2 f)"

definition csrf_token :: "auth_env \<Rightarrow> login_fresh \<Rightarrow> str" where
  "csrf_token env f = en_uuid_simple env (lf_csrf1 f) @ en_uuid_simple env (lf_csrf2 f)"

definition failed_login_event :: "uuid \<Rightarrow> timestamp \<Rightarrow> str option \<Rightarrow> uuid \<Rightarrow> auth_audit_event" where
  "failed_login_event fresh now username request_id =
     \<lparr>aa_id = fresh, aa_actor_user_id = None,
      aa_actor_username = (case username of None \<Rightarrow> lit ''unknown'' | Some u \<Rightarrow> u),
      aa_actor_role = RoleUser, aa_action = lit ''auth.login_failed'',
      aa_resource_type = lit ''session'', aa_resource_id = None, aa_request_id = Some request_id,
      aa_status_code = 401, aa_details = JObject [], aa_created_at = now\<rparr>"

definition record_failed_login ::
  "calls \<Rightarrow> uuid \<Rightarrow> timestamp \<Rightarrow> str option \<Rightarrow> uuid \<Rightarrow> account_db \<Rightarrow> unit api_result \<times> account_db" where
  "record_failed_login up fresh now username request_id db =
     (case append_audit_event (up CallAppendAudit)
             (failed_login_event fresh now username request_id) db of
        (r, db') \<Rightarrow> (map_err (\<lambda>_. storage) r, db'))"

definition refuse_login ::
  "calls \<Rightarrow> uuid \<Rightarrow> timestamp \<Rightarrow> str option \<Rightarrow> uuid \<Rightarrow> account_db
     \<Rightarrow> auth_login_response api_result \<times> account_db" where
  "refuse_login up fresh now username request_id db =
     (case record_failed_login up fresh now username request_id db of
        (Inl e, db') \<Rightarrow> (Inl e, db')
      | (Inr _, db') \<Rightarrow> (Inl unauthorized, db'))"

definition login_event :: "login_fresh \<Rightarrow> timestamp \<Rightarrow> uuid \<Rightarrow> auth_user \<Rightarrow> auth_audit_event" where
  "login_event f now request_id user =
     \<lparr>aa_id = lf_audit f, aa_actor_user_id = Some (au_id user), aa_actor_username = au_username user,
      aa_actor_role = au_role user, aa_action = lit ''auth.login'', aa_resource_type = lit ''session'',
      aa_resource_id = None, aa_request_id = Some request_id, aa_status_code = 102,
      aa_details = JObject [(lit ''state'', JString (lit ''pending''))], aa_created_at = now\<rparr>"

text \<open>The part of \<open>auth_login\<close> after the password was verified.\<close>

definition open_session ::
  "auth_env \<Rightarrow> calls \<Rightarrow> auth_state \<Rightarrow> login_fresh \<Rightarrow> timestamp \<Rightarrow> uuid \<Rightarrow> auth_user \<Rightarrow> account_db
     \<Rightarrow> auth_login_response api_result \<times> account_db" where
  "open_session env up st f now request_id user db =
     (let token_hash = hash_session_token env (access_token env f) in
      case session_cookie_headers (access_token env f) (csrf_token env f) (as_secure_cookies st) of
        Inl e \<Rightarrow> (Inl e, db)
      | Inr cookies \<Rightarrow>
        (case append_audit_event (up CallAppendAudit) (login_event f now request_id user) db of
           (Inl _, db1) \<Rightarrow> (Inl storage, db1)
         | (Inr _, db1) \<Rightarrow>
           (case save_session (up CallSaveSession) (lf_session f) (au_id user) token_hash
                   (now + SESSION_LIFETIME) db1 of
              (Inl _, db2) \<Rightarrow>
                (Inl storage, snd (update_audit_event_status (up CallUpdateAudit) (lf_audit f) 500
                   (lit ''failed'') db2))
            | (Inr _, db2) \<Rightarrow>
              (case update_audit_event_status (up CallUpdateAudit) (lf_audit f) 200
                      (lit ''completed'') db2 of
                 (Inr True, db3) \<Rightarrow>
                   (Inr \<lparr>lr_cookies = cookies, lr_user = auth_user_response_from user,
                         lr_expires_in_seconds = 28800\<rparr>, db3)
               | (_, db3) \<Rightarrow>
                   (Inl storage, snd (revoke_session (up CallRevokeSession) now token_hash db3))))))"

definition auth_login ::
  "auth_env \<Rightarrow> calls \<Rightarrow> auth_state \<Rightarrow> login_fresh \<Rightarrow> timestamp \<Rightarrow> uuid \<Rightarrow> str \<Rightarrow> str \<Rightarrow> account_db
     \<Rightarrow> auth_login_response api_result \<times> account_db" where
  "auth_login env up st f now request_id username0 password db =
     (if \<not> as_account_auth_enabled st then
        (Inl (not_found (lit ''account authentication is disabled'')), db)
      else if str_len password > 1024 then (Inl unauthorized, db)
      else if \<not> as_repositories st then (Inl storage, db)
      else case normalize_username username0 of
        None \<Rightarrow> refuse_login up (lf_audit f) now None request_id db
      | Some username \<Rightarrow>
        (case user_by_username (up CallUserByUsername) username db of
           Inl _ \<Rightarrow> (Inl storage, db)
         | Inr found \<Rightarrow>
           (case (case found of None \<Rightarrow> None | Some u \<Rightarrow> if au_disabled u then None else Some u) of
              None \<Rightarrow> refuse_login up (lf_audit f) now (Some username) request_id db
            | Some user \<Rightarrow>
                if \<not> up CallBlockingTask then (Inl storage, db)
                else if \<not> verify_password env password (au_password_hash user) then
                  refuse_login up (lf_audit f) now (Some username) request_id db
                else open_session env up st f now request_id user db)))"

section \<open>Changing the password\<close>

record authenticated_user =
  at_id :: uuid
  at_username :: str
  at_role :: auth_user_role
  at_must_change_password :: bool
  at_token_hash :: str
  at_expires_at :: timestamp

definition check_current_password ::
  "auth_env \<Rightarrow> calls \<Rightarrow> authenticated_user \<Rightarrow> str option \<Rightarrow> account_db \<Rightarrow> unit api_result" where
  "check_current_password env up actor current db =
     (if at_must_change_password actor then Inr ()
      else bindR (ok_or (bad_request (lit ''current_password_required'')
               (lit ''the current password is required'')) current) (\<lambda>cur.
        if str_len cur > 1024 then
          Inl (bad_request (lit ''invalid_current_password'') (lit ''the current password is invalid''))
        else bindR (map_err (\<lambda>_. storage) (user_by_id (up CallUserById) (at_id actor) db)) (\<lambda>found.
          bindR (ok_or unauthorized found) (\<lambda>user.
            if \<not> up CallBlockingTask then Inl storage
            else if \<not> verify_password env cur (au_password_hash user) then
              Inl (bad_request (lit ''invalid_current_password'')
                (lit ''the current password is incorrect''))
            else Inr ()))))"

definition change_password ::
  "auth_env \<Rightarrow> calls \<Rightarrow> auth_state \<Rightarrow> uuid \<Rightarrow> timestamp \<Rightarrow> authenticated_user \<Rightarrow> str option \<Rightarrow> str
     \<Rightarrow> account_db \<Rightarrow> nat api_result \<times> account_db" where
  "change_password env up st fresh now actor current new_password db =
     (case bindR (validate_password new_password) (\<lambda>_.
             if \<not> as_repositories st then Inl storage
             else bindR (check_current_password env up actor current db) (\<lambda>_.
               if \<not> up CallBlockingTask then Inl storage
               else Inr (hash_password env fresh new_password))) of
        Inl e \<Rightarrow> (Inl e, db)
      | Inr password_hash \<Rightarrow>
        (case repo_change_password (up CallChangePassword) now (at_id actor) password_hash
                (at_token_hash actor) db of
           (Inl _, db') \<Rightarrow> (Inl storage, db')
         | (Inr updated, db') \<Rightarrow> (if updated then Inr 204 else Inl unauthorized, db')))"

section \<open>Account administration (user\_admin.rs)\<close>

definition parse_user_id :: "auth_env \<Rightarrow> str \<Rightarrow> uuid api_result" where
  "parse_user_id env value =
     ok_or (bad_request (lit ''invalid_user_id'') (lit ''user id is invalid'')) (en_uuid_parse env value)"

definition parse_role :: "str \<Rightarrow> auth_user_role api_result" where
  "parse_role role =
     (if role = lit ''admin'' then Inr RoleAdmin
      else if role = lit ''user'' then Inr RoleUser
      else Inl (bad_request (lit ''invalid_role'') (lit ''role must be admin or user'')))"

definition admin_validate_password :: "str \<Rightarrow> unit api_result" where
  "admin_validate_password password =
     (if length password < 12 \<or> str_len password > 1024 \<or> trim password = [] then
        Inl (bad_request (lit ''weak_password'') (lit ''password must contain at least 12 characters''))
      else Inr ())"

fun map_user_repository_error :: "repository_error \<Rightarrow> api_error" where
  "map_user_repository_error RepLastAdmin = conflict (lit ''last_admin_required'')
     (lit ''the last active administrator cannot be removed, disabled, or demoted'')"
| "map_user_repository_error _ = storage"

fun map_create_user_error :: "repository_error \<Rightarrow> api_error" where
  "map_create_user_error RepUsernameExists =
     conflict (lit ''username_exists'') (lit ''that username is already in use'')"
| "map_create_user_error _ = storage"

definition create_user ::
  "auth_env \<Rightarrow> calls \<Rightarrow> auth_state \<Rightarrow> uuid \<Rightarrow> uuid \<Rightarrow> timestamp \<Rightarrow> str \<Rightarrow> str \<Rightarrow> str \<Rightarrow> account_db
     \<Rightarrow> auth_user api_result \<times> account_db" where
  "create_user env up st salt fresh now username0 role0 password db =
     (case bindR (ok_or (bad_request (lit ''invalid_username'') (lit ''the username format is invalid''))
               (normalize_username username0)) (\<lambda>username.
             bindR (parse_role role0) (\<lambda>role.
             bindR (admin_validate_password password) (\<lambda>_.
             if \<not> as_repositories st then Inl storage
             else bindR (map_err (\<lambda>_. storage) (user_by_username (up CallUserByUsername) username db)) (\<lambda>found.
               if found \<noteq> None then
                 Inl (conflict (lit ''username_exists'') (lit ''that username is already in use''))
               else if \<not> up CallBlockingTask then Inl storage
               else Inr (username, role, hash_password env salt password))))) of
        Inl e \<Rightarrow> (Inl e, db)
      | Inr (username, role, password_hash) \<Rightarrow>
        (case repo_create_user (up CallCreateUser) fresh now username password_hash role True db of
           (r, db') \<Rightarrow> (map_err map_create_user_error r, db')))"

definition update_user ::
  "auth_env \<Rightarrow> calls \<Rightarrow> auth_state \<Rightarrow> timestamp \<Rightarrow> str \<Rightarrow> str \<Rightarrow> bool \<Rightarrow> account_db
     \<Rightarrow> auth_user api_result \<times> account_db" where
  "update_user env up st now user_id role0 disabled db =
     (case bindR (parse_user_id env user_id) (\<lambda>i. bindR (parse_role role0) (\<lambda>role.
             if \<not> as_repositories st then Inl storage else Inr (i, role))) of
        Inl e \<Rightarrow> (Inl e, db)
      | Inr (i, role) \<Rightarrow>
        (case repo_update_user (up CallUpdateUser) now i role disabled db of
           (r, db') \<Rightarrow> (bindR (map_err map_user_repository_error r)
                         (ok_or (not_found (lit ''user not found''))), db')))"

definition delete_user ::
  "auth_env \<Rightarrow> calls \<Rightarrow> auth_state \<Rightarrow> authenticated_user \<Rightarrow> bool \<Rightarrow> str \<Rightarrow> account_db
     \<Rightarrow> nat api_result \<times> account_db" where
  "delete_user env up st actor confirmed user_id db =
     (case (if \<not> confirmed then
              Inl (bad_request (lit ''confirmation_required'') (lit ''explicit confirmation is required''))
            else bindR (parse_user_id env user_id) (\<lambda>i.
              if i = at_id actor then
                Inl (conflict (lit ''cannot_delete_current_user'')
                  (lit ''sign in with a different administrator before deleting this account''))
              else if \<not> as_repositories st then Inl storage else Inr i)) of
        Inl e \<Rightarrow> (Inl e, db)
      | Inr i \<Rightarrow>
        (case repo_delete_user (up CallDeleteUser) i db of
           (r, db') \<Rightarrow> (bindR (map_err map_user_repository_error r) (\<lambda>deleted.
               if deleted then Inr 204 else Inl (not_found (lit ''user not found''))), db')))"

definition reset_user_password ::
  "auth_env \<Rightarrow> calls \<Rightarrow> auth_state \<Rightarrow> uuid \<Rightarrow> timestamp \<Rightarrow> str \<Rightarrow> str \<Rightarrow> account_db
     \<Rightarrow> nat api_result \<times> account_db" where
  "reset_user_password env up st salt now user_id password db =
     (case bindR (admin_validate_password password) (\<lambda>_. bindR (parse_user_id env user_id) (\<lambda>i.
             if \<not> up CallBlockingTask then Inl storage
             else if \<not> as_repositories st then Inl storage
             else Inr i)) of
        Inl e \<Rightarrow> (Inl e, db)
      | Inr i \<Rightarrow>
        (case repo_reset_user_password (up CallResetPassword) now i
                (hash_password env salt password) db of
           (Inl _, db') \<Rightarrow> (Inl storage, db')
         | (Inr updated, db') \<Rightarrow>
             (if updated then Inr 204 else Inl (not_found (lit ''active user not found'')), db')))"

text \<open>The first start: \<open>initialize_bootstrap_admin\<close> in \<open>lib.rs\<close>, with the password \<open>admin\<close>.\<close>

definition initialize_bootstrap_admin ::
  "auth_env \<Rightarrow> calls \<Rightarrow> auth_state \<Rightarrow> uuid \<Rightarrow> uuid \<Rightarrow> timestamp \<Rightarrow> account_db
     \<Rightarrow> bool api_result \<times> account_db" where
  "initialize_bootstrap_admin env up st salt fresh now db =
     (if \<not> as_repositories st then (Inl storage, db)
      else if \<not> up CallBlockingTask then (Inl storage, db)
      else case create_initial_admin (up CallInitialAdmin) fresh now
                  (hash_password env salt (lit ''admin'')) db of
        (r, db') \<Rightarrow> (map_err (\<lambda>_. storage) r, db'))"

end
