(* ===== verification/RequestAuth.thy ===== *)
theory RequestAuth
  imports UserAuth
begin

text \<open>
  \<open>lxcup-server/src/inventory/auth.rs\<close>: role tokens, session cookies, the CSRF check, the
  authorization of a request, the audit record of a mutating request and the middleware that
  composes them around a handler. The handler is an argument. The lock that backups take
  (\<open>backup_gate\<close>) orders requests in time and does not appear here.
\<close>

section \<open>Role tokens\<close>

record auth_config =
  ac_viewer_token :: "str option"
  ac_operator_token :: "str option"
  ac_admin_token :: "str option"
  ac_required :: bool
  ac_token_expires_at :: "timestamp option"

definition auth_config_disabled :: auth_config where
  "auth_config_disabled = \<lparr>ac_viewer_token = None, ac_operator_token = None, ac_admin_token = None,
     ac_required = False, ac_token_expires_at = None\<rparr>"

text \<open>The environment variables are a partial function from names to values.\<close>

definition nonblank :: "str option \<Rightarrow> str option" where
  "nonblank v = (case v of Some s \<Rightarrow> if trim s \<noteq> [] then Some s else None | None \<Rightarrow> None)"

definition auth_config_from_env :: "(str \<Rightarrow> str option) \<Rightarrow> timestamp \<Rightarrow> auth_config" where
  "auth_config_from_env var now =
     (let viewer = nonblank (var (lit ''LXCUP_AUTH_VIEWER_TOKEN''));
          operator = nonblank (or_else (var (lit ''LXCUP_AUTH_OPERATOR_TOKEN'')) (var (lit ''LXCUP_AUTH_TOKEN'')));
          admin = nonblank (or_else (var (lit ''LXCUP_AUTH_ADMIN_TOKEN'')) (var (lit ''LXCUP_AUTH_TOKEN'')));
          required = (case var (lit ''LXCUP_AUTH_REQUIRED'') of
              Some v \<Rightarrow> eq_ignore_ascii_case v (lit ''true'')
            | None \<Rightarrow> operator \<noteq> None \<or> viewer \<noteq> None);
          ttl = (case Option.bind (var (lit ''LXCUP_AUTH_TOKEN_TTL_SECONDS'')) parse_u64 of
              Some s \<Rightarrow> if s > 0 then s else 28800
            | None \<Rightarrow> 28800)
      in \<lparr>ac_viewer_token = viewer, ac_operator_token = operator, ac_admin_token = admin,
          ac_required = required, ac_token_expires_at = Some (now + ttl * 1000000000)\<rparr>)"

definition is_production_ready :: "auth_config \<Rightarrow> bool" where
  "is_production_ready c =
     (case (ac_viewer_token c, ac_operator_token c, ac_admin_token c) of
        (Some viewer, Some operator, Some admin) \<Rightarrow>
          ac_required c \<and> 16 \<le> str_len viewer \<and> 16 \<le> str_len operator \<and> 16 \<le> str_len admin
          \<and> viewer \<noteq> operator \<and> viewer \<noteq> admin \<and> operator \<noteq> admin
      | _ \<Rightarrow> False)"

definition path_allows :: "str \<Rightarrow> http_method \<Rightarrow> actor_role \<Rightarrow> bool" where
  "path_allows path method role =
     (if path = lit ''/api/v1/auth/logout'' then True
      else if method = MGet \<or> method = MHead then grants role Read
      else if (path = lit ''/api/v1/ansible/jobs'' \<or> ends_with path (lit ''/scans'')
               \<or> starts_with path (lit ''/api/v1/scans/'')) \<and> method = MPost then True
      else grants role
        (if method = MDelete \<or> ends_with path (lit ''/revoke'') \<or> ends_with path (lit ''/disable'')
            \<or> ends_with path (lit ''/abort'')
            \<or> (starts_with path (lit ''/api/v1/secrets'') \<and> method \<noteq> MGet)
         then Destructive else Configure))"

definition token_role :: "auth_config \<Rightarrow> timestamp \<Rightarrow> headers \<Rightarrow> actor_role option" where
  "token_role c now hs =
     (if \<not> ac_required c then Some Admin
      else if (case ac_token_expires_at c of None \<Rightarrow> False | Some t \<Rightarrow> t \<le> now) then None
      else case bearer_token hs of
        None \<Rightarrow> None
      | Some token \<Rightarrow>
          if ac_admin_token c = Some token then Some Admin
          else if ac_operator_token c = Some token then Some Operator
          else if ac_viewer_token c = Some token then Some Viewer
          else None)"

section \<open>Sessions and the CSRF token\<close>

text \<open>
  One \<open>Cookie\<close> header: the values of the cookie with the given name. \<open>cookie_value\<close> answers nothing
  when a header is not text or the cookie occurs twice.
\<close>

definition cookie_matches :: "str \<Rightarrow> str \<Rightarrow> str list" where
  "cookie_matches name cookies =
     concat (map (\<lambda>cookie. case split_once (ch CHR ''='') (trim cookie) of
           Some (n, v) \<Rightarrow> if n = name then [trim v] else []
         | None \<Rightarrow> [])
       (split_char (ch CHR '';'') cookies))"

fun cookie_loop :: "str \<Rightarrow> str option \<Rightarrow> nat list list \<Rightarrow> str option" where
  "cookie_loop name found [] = found"
| "cookie_loop name found (h # hs) =
     (case header_to_str h of
        None \<Rightarrow> None
      | Some cookies \<Rightarrow>
          (case (found, cookie_matches name cookies) of
             (_, []) \<Rightarrow> cookie_loop name found hs
           | (None, [v]) \<Rightarrow> cookie_loop name (Some v) hs
           | _ \<Rightarrow> None))"

definition cookie_value :: "headers \<Rightarrow> str \<Rightarrow> str option" where
  "cookie_value hs name = cookie_loop name None (header_get_all hs (lit ''cookie''))"

definition session_credential :: "headers \<Rightarrow> (str \<times> bool) option" where
  "session_credential hs =
     (case header_get hs (lit ''authorization'') of
        Some v \<Rightarrow> map_option (\<lambda>t. (t, False))
          (Option.bind (header_to_str v) (\<lambda>s. strip_prefix s (lit ''Bearer '')))
      | None \<Rightarrow> map_option (\<lambda>t. (t, True)) (cookie_value hs (lit ''lxcup_session'')))"

definition is_unsafe_method :: "http_method \<Rightarrow> bool" where
  "is_unsafe_method m \<longleftrightarrow> m \<notin> {MGet, MHead, MOptions}"

definition is_write_method :: "http_method \<Rightarrow> bool" where
  "is_write_method m \<longleftrightarrow> m \<in> {MPost, MPut, MPatch, MDelete}"

definition valid_csrf_request :: "headers \<Rightarrow> bool" where
  "valid_csrf_request hs =
     (case (cookie_value hs (lit ''lxcup_csrf''),
            Option.bind (header_get hs (lit ''x-csrf-token'')) header_to_str) of
        (Some cookie_token, Some header_token) \<Rightarrow>
          str_len cookie_token = str_len header_token \<and> as_bytes cookie_token = as_bytes header_token
      | _ \<Rightarrow> False)"

section \<open>Routes\<close>

definition is_public_request :: "auth_state \<Rightarrow> str \<Rightarrow> bool" where
  "is_public_request st path \<longleftrightarrow>
     path \<in> {lit ''/health/live'', lit ''/health/ready'', lit ''/metrics'',
       lit ''/api/v1/agents/heartbeat'', lit ''/api/v1/agents/workflows/claim''}
     \<or> (as_account_auth_enabled st
        \<and> path \<in> {lit ''/api/v1/auth/status'', lit ''/api/v1/auth/login''})
     \<or> (starts_with path (lit ''/api/v1/agents/workflows/'') \<and> ends_with path (lit ''/result''))"

definition is_password_change_allowed_path :: "str \<Rightarrow> bool" where
  "is_password_change_allowed_path path \<longleftrightarrow>
     path \<in> {lit ''/api/v1/auth/session'', lit ''/api/v1/auth/logout'', lit ''/api/v1/auth/password''}"

definition is_admin_only_route :: "str \<Rightarrow> bool" where
  "is_admin_only_route path \<longleftrightarrow>
     starts_with path (lit ''/api/v1/users'') \<or> starts_with path (lit ''/api/v1/secrets'')
     \<or> path = lit ''/api/v1/auth/audit'' \<or> starts_with path (lit ''/api/v1/admin/'')"

fun actor_role_of :: "auth_user_role \<Rightarrow> actor_role" where
  "actor_role_of RoleAdmin = Admin"
| "actor_role_of RoleUser = Operator"

section \<open>The audit record of a request\<close>

definition path_segments :: "str \<Rightarrow> str list" where
  "path_segments path = filter (\<lambda>s. s \<noteq> []) (split_char (ch CHR ''/'') path)"

definition is_action_segment :: "str \<Rightarrow> bool" where
  "is_action_segment s \<longleftrightarrow> s \<in> set (map lit
     [''password'', ''password-reset'', ''revoke'', ''rotate'', ''disable'', ''abort'', ''retry'',
      ''reconcile'', ''action'', ''image-update-check'', ''image-update-apply'', ''discovery'',
      ''discover'', ''events'', ''audit'', ''confirm'', ''run''])"

text \<open>
  The table of \<open>audit_action\<close>: a method, a path pattern (\<open>None\<close> stands for any segment) and the
  name of the action; the first matching row counts.
\<close>

definition audit_patterns :: "(string \<times> string option list \<times> string) list" where
  "audit_patterns =
    (let p = (\<lambda>xs. Some ''api'' # Some ''v1'' # xs) in
    [(''POST'', p [Some ''auth'', Some ''logout''], ''auth.logout''),
     (''POST'', p [Some ''auth'', Some ''password''], ''auth.password_changed''),
     (''POST'', p [Some ''admin'', Some ''backups''], ''admin.backup_created''),
     (''POST'', p [Some ''targets''], ''target.created''),
     (''DELETE'', p [Some ''targets'', None], ''target.deleted''),
     (''POST'', p [Some ''targets'', None, Some ''docker'', Some ''discovery''], ''docker.discovery_requested''),
     (''POST'', p [Some ''targets'', None, Some ''docker'', Some ''containers'', None, Some ''action''],
        ''docker.lifecycle_action''),
     (''POST'', p [Some ''targets'', None, Some ''docker'', Some ''containers'', None, Some ''image-update-check''],
        ''docker.image_update_checked''),
     (''POST'', p [Some ''targets'', None, Some ''docker'', Some ''containers'', None, Some ''image-update-apply''],
        ''docker.image_update_applied''),
     (''POST'', p [Some ''secrets''], ''secret.created''),
     (''DELETE'', p [Some ''secrets'', None], ''secret.deleted''),
     (''POST'', p [Some ''secrets'', None, Some ''rotate''], ''secret.rotated''),
     (''POST'', p [Some ''secrets'', None, Some ''revoke''], ''secret.revoked''),
     (''POST'', p [Some ''ansible'', Some ''jobs''], ''workflow.queued''),
     (''POST'', p [Some ''ansible'', Some ''jobs'', None, Some ''retry''], ''workflow.retried''),
     (''POST'', p [Some ''ansible'', Some ''jobs'', None, Some ''reconcile''], ''workflow.reconciled''),
     (''POST'', p [Some ''schedules''], ''schedule.created''),
     (''PATCH'', p [Some ''schedules'', None], ''schedule.updated''),
     (''POST'', p [Some ''update-policies''], ''update_policy.created''),
     (''DELETE'', p [Some ''update-policies'', None], ''update_policy.deleted''),
     (''POST'', p [Some ''enrollments''], ''enrollment.created''),
     (''POST'', p [Some ''containers'', None, Some ''scans''], ''scan.started''),
     (''POST'', p [Some ''scans'', None, Some ''run''], ''scan.executed''),
     (''POST'', p [Some ''containers'', None, Some ''plans''], ''plan.created''),
     (''POST'', p [Some ''plans'', None, Some ''confirm''], ''plan.confirmed''),
     (''POST'', p [Some ''executions'', None, Some ''abort''], ''execution.aborted''),
     (''POST'', p [Some ''executions'', None, Some ''run''], ''execution.started''),
     (''POST'', p [Some ''executions'', None, Some ''reconcile''], ''execution.reconciled''),
     (''POST'', p [Some ''users''], ''user.created''),
     (''PATCH'', p [Some ''users'', None], ''user.updated''),
     (''DELETE'', p [Some ''users'', None], ''user.deleted''),
     (''POST'', p [Some ''users'', None, Some ''password-reset''], ''user.password_reset''),
     (''POST'', p [Some ''containers'', None, Some ''agent''], ''agent.registered''),
     (''POST'', p [Some ''containers'', None, Some ''agent'', Some ''revoke''], ''agent.revoked''),
     (''POST'', p [Some ''containers'', None, Some ''docker'', Some ''discover''], ''docker.discovery_requested''),
     (''POST'', p [Some ''containers'', None, Some ''docker'', Some ''containers'', None, Some ''adopt''],
        ''docker.container_adopted''),
     (''DELETE'', p [Some ''containers'', None, Some ''docker'', Some ''containers'', None],
        ''docker.container_removed'')])"

definition pattern_matches :: "string option list \<Rightarrow> str list \<Rightarrow> bool" where
  "pattern_matches pat parts \<longleftrightarrow>
     list_all2 (\<lambda>p s. case p of None \<Rightarrow> True | Some n \<Rightarrow> s = lit n) pat parts"

definition audit_action :: "http_method \<Rightarrow> str \<Rightarrow> str" where
  "audit_action method path =
     (case List.find (\<lambda>(m, pat, _). method_as_str method = lit m \<and> pattern_matches pat (path_segments path))
             audit_patterns of
        Some (_, _, action) \<Rightarrow> lit action
      | None \<Rightarrow> lit ''http.'' @ to_ascii_lowercase (method_as_str method))"

definition is_success :: "nat \<Rightarrow> bool" where
  "is_success status \<longleftrightarrow> 200 \<le> status \<and> status < 300"

definition request_audit_event ::
  "uuid \<Rightarrow> timestamp \<Rightarrow> authenticated_user \<Rightarrow> http_method \<Rightarrow> str \<Rightarrow> uuid \<Rightarrow> nat \<Rightarrow> auth_audit_event" where
  "request_audit_event fresh now actor method path request_id status =
     (let segments = drop 2 (path_segments path);
          resource_type = (case segments of s # _ \<Rightarrow> s | [] \<Rightarrow> lit ''api'');
          resource_id = (case segments of _ # i # _ \<Rightarrow> if is_action_segment i then None else Some i
                         | _ \<Rightarrow> None)
      in \<lparr>aa_id = fresh, aa_actor_user_id = Some (at_id actor), aa_actor_username = at_username actor,
          aa_actor_role = at_role actor, aa_action = audit_action method path,
          aa_resource_type = resource_type, aa_resource_id = resource_id,
          aa_request_id = Some request_id, aa_status_code = int status,
          aa_details = JObject [(lit ''path'', JString path),
            (lit ''state'', JString (if status = 102 then lit ''pending''
               else if is_success status then lit ''completed'' else lit ''failed''))],
          aa_created_at = now\<rparr>)"

section \<open>Authorization\<close>

record http_request =
  hq_method :: http_method
  hq_path :: str
  hq_headers :: headers

definition append_request_audit ::
  "calls \<Rightarrow> auth_state \<Rightarrow> uuid \<Rightarrow> timestamp \<Rightarrow> authenticated_user \<Rightarrow> http_method \<Rightarrow> str \<Rightarrow> uuid \<Rightarrow> nat
     \<Rightarrow> account_db \<Rightarrow> account_db" where
  "append_request_audit up st fresh now actor method path request_id status db =
     (if \<not> as_repositories st then db
      else snd (append_audit_event (up CallAppendAudit)
             (request_audit_event fresh now actor method path request_id status) db))"

definition audited_forbidden_response ::
  "calls \<Rightarrow> auth_state \<Rightarrow> uuid \<Rightarrow> timestamp \<Rightarrow> authenticated_user \<Rightarrow> http_method \<Rightarrow> str \<Rightarrow> uuid \<Rightarrow> str \<Rightarrow> str
     \<Rightarrow> account_db \<Rightarrow> 'a api_result \<times> account_db" where
  "audited_forbidden_response up st fresh now actor method path request_id code message db =
     (Inl (forbidden code message),
      append_request_audit up st fresh now actor method path request_id 403 db)"

definition load_account_actor ::
  "auth_env \<Rightarrow> calls \<Rightarrow> auth_state \<Rightarrow> timestamp \<Rightarrow> headers \<Rightarrow> account_db
     \<Rightarrow> (authenticated_user \<times> bool) api_result" where
  "load_account_actor env up st now hs db =
     bindR (ok_or unauthorized (session_credential hs)) (\<lambda>(token, cookie_authenticated).
       if \<not> as_repositories st then Inl storage
       else
         (let token_hash = hash_session_token env token in
          bindR (map_err (\<lambda>_. storage)
                (session_by_token_hash (up CallSessionByToken) now token_hash db)) (\<lambda>found.
            bindR (ok_or unauthorized found) (\<lambda>p.
              let user = ps_user p in
              Inr (\<lparr>at_id = au_id user, at_username = au_username user, at_role = au_role user,
                    at_must_change_password = au_must_change_password user,
                    at_token_hash = token_hash, at_expires_at = ps_expires_at p\<rparr>,
                   cookie_authenticated)))))"

definition authorize_account_request ::
  "calls \<Rightarrow> auth_state \<Rightarrow> uuid \<Rightarrow> timestamp \<Rightarrow> authenticated_user \<Rightarrow> bool \<Rightarrow> http_request \<Rightarrow> uuid
     \<Rightarrow> account_db \<Rightarrow> actor_role api_result \<times> account_db" where
  "authorize_account_request up st fresh now actor cookie_authenticated req request_id db =
     (let method = hq_method req; path = hq_path req; role = actor_role_of (at_role actor);
          deny = audited_forbidden_response up st fresh now actor method path request_id
      in if cookie_authenticated \<and> is_unsafe_method method \<and> \<not> valid_csrf_request (hq_headers req) then
           deny (lit ''csrf_validation_failed'') (lit ''the request could not be verified'') db
         else if at_must_change_password actor \<and> \<not> is_password_change_allowed_path path then
           (Inl (forbidden (lit ''password_change_required'')
              (lit ''change the initial password before using the application'')), db)
         else if is_admin_only_route path \<and> at_role actor \<noteq> RoleAdmin then
           deny (lit ''permission_denied'') (lit ''the current role cannot perform this action'') db
         else if \<not> path_allows path method role then
           deny (lit ''permission_denied'') (lit ''the current role cannot perform this action'') db
         else (Inr role, db))"

definition authorize_legacy_role ::
  "actor_role option \<Rightarrow> bool \<Rightarrow> str \<Rightarrow> http_method \<Rightarrow> unit api_result" where
  "authorize_legacy_role role public path method =
     (if \<not> public \<and> role = None then Inl unauthorized
      else if (case role of None \<Rightarrow> False | Some r \<Rightarrow> \<not> public \<and> \<not> path_allows path method r) then
        Inl (forbidden (lit ''permission_denied'') (lit ''the current role cannot perform this action''))
      else Inr ())"

definition authenticate_request ::
  "auth_env \<Rightarrow> calls \<Rightarrow> auth_state \<Rightarrow> auth_config \<Rightarrow> uuid \<Rightarrow> timestamp \<Rightarrow> http_request \<Rightarrow> uuid
     \<Rightarrow> account_db \<Rightarrow> (authenticated_user option \<times> actor_role option) api_result \<times> account_db" where
  "authenticate_request env up st cfg fresh now req request_id db =
     (let public = is_public_request st (hq_path req) in
      if as_account_auth_enabled st \<and> \<not> public then
        (case load_account_actor env up st now (hq_headers req) db of
           Inl e \<Rightarrow> (Inl e, db)
         | Inr (actor, cookie_authenticated) \<Rightarrow>
           (case authorize_account_request up st fresh now actor cookie_authenticated req request_id db of
              (Inl e, db') \<Rightarrow> (Inl e, db')
            | (Inr role, db') \<Rightarrow> (Inr (Some actor, Some role), db')))
      else
        (let role = token_role cfg now (hq_headers req) in
         (bindR (authorize_legacy_role role public (hq_path req) (hq_method req))
            (\<lambda>_. Inr (None, role)), db)))"

section \<open>The middleware\<close>

record http_response =
  hp_status :: nat
  hp_cookies :: "str list"
  hp_request_id :: "uuid option"

definition error_response :: "api_error \<Rightarrow> http_response" where
  "error_response e = \<lparr>hp_status = ae_status e, hp_cookies = [], hp_request_id = None\<rparr>"

definition reserve_request_audit ::
  "calls \<Rightarrow> auth_state \<Rightarrow> uuid \<Rightarrow> timestamp \<Rightarrow> authenticated_user option \<Rightarrow> http_method \<Rightarrow> str \<Rightarrow> uuid
     \<Rightarrow> account_db \<Rightarrow> uuid option api_result \<times> account_db" where
  "reserve_request_audit up st fresh now actor method path request_id db =
     (case (if is_write_method method then actor else None) of
        None \<Rightarrow> (Inr None, db)
      | Some a \<Rightarrow>
          if \<not> as_repositories st then (Inl storage, db)
          else case append_audit_event (up CallAppendAudit)
                      (request_audit_event fresh now a method path request_id 102) db of
                 (Inl _, db') \<Rightarrow> (Inl storage, db')
               | (Inr _, db') \<Rightarrow> (Inr (Some fresh), db'))"

definition persist_request_audit_outcome ::
  "calls \<Rightarrow> auth_state \<Rightarrow> uuid option \<Rightarrow> nat \<Rightarrow> account_db \<Rightarrow> account_db" where
  "persist_request_audit_outcome up st audit_id status db =
     (case audit_id of
        None \<Rightarrow> db
      | Some i \<Rightarrow>
          if \<not> as_repositories st then db
          else snd (update_audit_event_status (up CallUpdateAudit) i (int status)
                 (if is_success status then lit ''completed'' else lit ''failed'') db))"

definition finalize_request_response ::
  "calls \<Rightarrow> auth_state \<Rightarrow> http_response \<Rightarrow> str \<Rightarrow> uuid \<Rightarrow> uuid option \<Rightarrow> account_db
     \<Rightarrow> http_response \<times> account_db" where
  "finalize_request_response up st response path request_id audit_id db =
     (let response1 = response\<lparr>hp_request_id := Some request_id\<rparr> in
      case (if path = lit ''/api/v1/auth/logout'' \<and> is_success (hp_status response1)
            then cleared_session_cookie_headers (as_secure_cookies st) else Inr []) of
        Inl _ \<Rightarrow> (error_response storage, db)
      | Inr cookies \<Rightarrow>
          (let response2 = response1\<lparr>hp_cookies := hp_cookies response1 @ cookies\<rparr>
           in (response2,
               persist_request_audit_outcome up st audit_id (hp_status response2) db)))"

type_synonym handler =
  "uuid \<Rightarrow> authenticated_user option \<Rightarrow> actor_role option \<Rightarrow> account_db \<Rightarrow> http_response \<times> account_db"

definition request_id_of :: "auth_env \<Rightarrow> uuid \<Rightarrow> headers \<Rightarrow> uuid" where
  "request_id_of env fresh hs =
     (case Option.bind (Option.bind (header_get hs (lit ''x-request-id'')) header_to_str)
             (en_uuid_parse env) of
        Some i \<Rightarrow> i | None \<Rightarrow> fresh)"

text \<open>\<open>fresh_request\<close>, \<open>fresh_denied\<close> and \<open>fresh_audit\<close> are the new ids of the request and of the two
  places that write an audit event.\<close>

definition request_middleware ::
  "auth_env \<Rightarrow> calls \<Rightarrow> auth_state \<Rightarrow> auth_config \<Rightarrow> uuid \<Rightarrow> uuid \<Rightarrow> uuid \<Rightarrow> timestamp \<Rightarrow> handler
     \<Rightarrow> http_request \<Rightarrow> account_db \<Rightarrow> http_response \<times> account_db" where
  "request_middleware env up st cfg fresh_request fresh_denied fresh_audit now handler req db =
     (let path = hq_path req; request_id = request_id_of env fresh_request (hq_headers req) in
      case authenticate_request env up st cfg fresh_denied now req request_id db of
        (Inl e, db1) \<Rightarrow> (error_response e, db1)
      | (Inr (actor, role), db1) \<Rightarrow>
        (case reserve_request_audit up st fresh_audit now actor (hq_method req) path request_id db1 of
           (Inl e, db2) \<Rightarrow> (error_response e, db2)
         | (Inr audit_id, db2) \<Rightarrow>
           (case handler request_id actor role db2 of
              (response, db3) \<Rightarrow>
                finalize_request_response up st response path request_id audit_id db3)))"

section \<open>The logout handler (inventory.rs)\<close>

definition logout ::
  "calls \<Rightarrow> auth_state \<Rightarrow> timestamp \<Rightarrow> handler" where
  "logout up st now request_id actor role db =
     (let ok = \<lparr>hp_status = 204, hp_cookies = [], hp_request_id = None\<rparr> in
      case (as_repositories st, actor) of
        (True, Some a) \<Rightarrow>
          (case revoke_session (up CallRevokeSession) now (at_token_hash a) db of
             (Inl _, db') \<Rightarrow> (ok\<lparr>hp_status := 500\<rparr>, db')
           | (Inr _, db') \<Rightarrow> (ok, db'))
      | _ \<Rightarrow> (ok, db))"

end
