(* ===== verification/AuthLaws.thy ===== *)
theory AuthLaws
  imports RequestAuth
begin

text \<open>
  What the account and request authentication guarantee: password hashes round trip, a login opens
  exactly one session of an enabled user with the right password, the session authenticates
  requests until it expires or is revoked, and a request reaches its handler only when it is
  authorized and, if it mutates, audited.
\<close>

section \<open>Sessions after a login\<close>

lemma session_by_token_hash_intro:
  assumes ok: "account_ok db" and s: "s \<in> set (db_sessions db)" and u: "u \<in> set (db_users db)"
    and c: "ur_id u = se_user_id s" "se_revoked_at s = None" "now < se_expires_at s" "\<not> ur_disabled u"
    and user: "auth_user_try_from u = Inr user"
  shows "session_by_token_hash True now (se_token_hash s) db =
     Inr (Some \<lparr>ps_id = se_id s, ps_user = user, ps_expires_at = se_expires_at s\<rparr>)"
proof -
  have "(s, u) \<in> set (session_rows now (se_token_hash s) db)"
    using s u c by (simp add: set_session_rows)
  then obtain s' u' rest where r: "session_rows now (se_token_hash s) db = (s', u') # rest"
    by (cases "session_rows now (se_token_hash s) db") auto
  then have "(s', u') \<in> set (session_rows now (se_token_hash s) db)" by simp
  then have "s' \<in> set (db_sessions db)" "u' \<in> set (db_users db)" "se_token_hash s' = se_token_hash s"
    "ur_id u' = se_user_id s'"
    unfolding set_session_rows by blast+
  moreover from this have "s' = s" using token_hash_owner [OF ok] s by blast
  ultimately have "s' = s \<and> u' = u"
    using same_id [of "db_users db" u' u] ok u c(1) by (auto simp: account_ok_def)
  with r user show ?thesis by (simp add: session_by_token_hash_def db_read_def)
qed

lemma user_by_usernameD:
  assumes "user_by_username up name db = Inr (Some user)"
  shows "\<exists>u \<in> set (db_users db). ur_username u = name \<and> auth_user_try_from u = Inr user"
  using assms by (auto simp: user_by_username_def transpose_result_Inr_iff find_Some_iff)

lemma auth_user_try_fromD:
  assumes "auth_user_try_from u = Inr user"
  shows "au_id user = ur_id u" "au_username user = ur_username u"
    "au_password_hash user = ur_password_hash u" "au_disabled user = ur_disabled u"
    "au_must_change_password user = ur_must_change_password u" "ur_role u = role_as_db (au_role user)"
  using assms
  by (auto simp: auth_user_try_from_def bindR_Inr_iff role_from_db_def split: if_splits)

lemma refuse_login_Inl: "\<exists>e. fst (refuse_login up i now n r db) = Inl e"
  by (auto simp: refuse_login_def split: prod.splits sum.splits)

lemma open_sessionD:
  assumes "open_session env up st f now rid user db = (Inr r, db')" and ok: "account_ok db"
  shows "\<exists>s. db_users db' = db_users db \<and> db_sessions db' = db_sessions db @ [s]
    \<and> se_token_hash s = hash_session_token env (access_token env f) \<and> se_user_id s = au_id user
    \<and> se_expires_at s = now + SESSION_LIFETIME \<and> se_revoked_at s = None
    \<and> account_ok db' \<and> lr_user r = auth_user_response_from user
    \<and> (\<exists>e \<in> set (db_audit db'). aa_id e = lf_audit f \<and> aa_action e = lit ''auth.login''
         \<and> aa_actor_user_id e = Some (au_id user) \<and> aa_status_code e = 200
         \<and> json_get (lit ''state'') (aa_details e) = Some (JString (lit ''completed'')))"
proof -
  let ?e = "login_event f now rid user"
  let ?th = "hash_session_token env (access_token env f)"
  from assms(1) obtain db1 db2 where
    a: "append_audit_event (up CallAppendAudit) ?e db = (Inr (), db1)"
    and s: "save_session (up CallSaveSession) (lf_session f) (au_id user) ?th
        (now + SESSION_LIFETIME) db1 = (Inr (lf_session f), db2)"
    and u: "update_audit_event_status (up CallUpdateAudit) (lf_audit f) 200 (lit ''completed'') db2
        = (Inr True, db')"
    and r: "lr_user r = auth_user_response_from user"
    by (auto simp: open_session_def Let_def save_session_def db_write_def
        split: prod.splits sum.splits bool.splits if_splits)
  have ok': "account_ok db'"
    using account_step_ok [OF account_step_ok [OF account_step_ok [OF ok]],
        of "up CallUpdateAudit" "AcUpdateAudit (lf_audit f) 200 (lit ''completed'')" "up CallSaveSession"
        "AcSaveSession (lf_session f) (au_id user) ?th (now + SESSION_LIFETIME)"
        "up CallAppendAudit" "AcAppendAudit ?e"] a s u
    by simp
  have d1: "db1 = db\<lparr>db_audit := db_audit db @ [?e]\<rparr>"
    using a by (auto simp: append_audit_event_def db_write_def split: if_splits)
  obtain row where d2: "db2 = db1\<lparr>db_sessions := db_sessions db1 @ [row]\<rparr>"
    and row: "se_token_hash row = ?th" "se_user_id row = au_id user"
      "se_expires_at row = now + SESSION_LIFETIME" "se_revoked_at row = None"
    using s by (auto simp: save_session_def db_write_def split: if_splits)
  have d3: "db' = db2\<lparr>db_audit := map (\<lambda>e. if aa_id e = lf_audit f then e\<lparr>aa_status_code := 200,
      aa_details := json_set (lit ''state'') (JString (lit ''completed'')) (aa_details e)\<rparr> else e)
      (db_audit db2)\<rparr>"
    using u by (auto simp: update_audit_event_status_def db_write_def split: if_splits)
  show ?thesis
    using ok' row r unfolding d3 d2 d1
    by (intro exI [of _ row]) (simp add: login_event_def)
qed

lemma auth_loginD:
  assumes login: "auth_login env up st f now rid name password db = (Inr r, db')"
  shows "\<exists>u user. u \<in> set (db_users db) \<and> normalize_username name = Some (ur_username u)
    \<and> auth_user_try_from u = Inr user \<and> \<not> ur_disabled u \<and> verify_password env password (ur_password_hash u)
    \<and> open_session env up st f now rid user db = (Inr r, db')"
proof -
  from login obtain username user where n: "normalize_username name = Some username"
    and b: "user_by_username (up CallUserByUsername) username db = Inr (Some user)"
    and e: "\<not> au_disabled user" and v: "verify_password env password (au_password_hash user)"
    and o: "open_session env up st f now rid user db = (Inr r, db')"
    using refuse_login_Inl [of up "lf_audit f" now _ rid db]
    by (auto simp: auth_login_def split: if_splits option.splits sum.splits)
       (metis Inl_Inr_False fst_conv)+
  from user_by_usernameD [OF b] obtain u where u: "u \<in> set (db_users db)" "ur_username u = username"
    and f: "auth_user_try_from u = Inr user" by blast
  show ?thesis using n e v o u f auth_user_try_fromD [OF f] by auto
qed

lemma auth_login_session:
  assumes login: "auth_login env up st f now rid name password db = (Inr r, db')"
    and ok: "account_ok db"
  shows "\<exists>s u. s \<in> set (db_sessions db') \<and> se_token_hash s = hash_session_token env (access_token env f)
    \<and> se_user_id s = ur_id u \<and> se_expires_at s = now + SESSION_LIFETIME \<and> se_revoked_at s = None
    \<and> u \<in> set (db_users db') \<and> \<not> ur_disabled u \<and> ar_id (lr_user r) = ur_id u
    \<and> ar_role (lr_user r) = ur_role u \<and> ar_must_change_password (lr_user r) = ur_must_change_password u
    \<and> account_ok db'"
proof -
  from auth_loginD [OF login] obtain u user where u: "u \<in> set (db_users db)" "\<not> ur_disabled u"
    and f: "auth_user_try_from u = Inr user" and o: "open_session env up st f now rid user db = (Inr r, db')"
    by blast
  from open_sessionD [OF o ok] obtain s where "db_users db' = db_users db"
      "db_sessions db' = db_sessions db @ [s]" "account_ok db'"
      "se_token_hash s = hash_session_token env (access_token env f)" "se_user_id s = au_id user"
      "se_expires_at s = now + SESSION_LIFETIME" "se_revoked_at s = None"
      "lr_user r = auth_user_response_from user"
    by blast
  with u auth_user_try_fromD [OF f] show ?thesis
    by (intro exI [of _ s] exI [of _ u]) (simp add: auth_user_response_from_def)
qed

section \<open>Authorization of requests\<close>

text \<open>What a request on an account-protected route must satisfy, written over the tables.\<close>

definition request_allowed ::
  "auth_env \<Rightarrow> timestamp \<Rightarrow> http_request \<Rightarrow> auth_session_row \<Rightarrow> auth_user_row \<Rightarrow> account_db \<Rightarrow> bool" where
  "request_allowed env now req s u db \<longleftrightarrow>
     (case session_credential (hq_headers req) of
        None \<Rightarrow> False
      | Some (token, by_cookie) \<Rightarrow>
          s \<in> set (db_sessions db) \<and> u \<in> set (db_users db)
          \<and> se_token_hash s = hash_session_token env token \<and> se_user_id s = ur_id u
          \<and> se_revoked_at s = None \<and> now < se_expires_at s \<and> \<not> ur_disabled u
          \<and> (by_cookie \<and> is_unsafe_method (hq_method req) \<longrightarrow> valid_csrf_request (hq_headers req))
          \<and> (ur_must_change_password u \<longrightarrow> is_password_change_allowed_path (hq_path req))
          \<and> (is_admin_only_route (hq_path req) \<longrightarrow> ur_role u = lit ''admin'')
          \<and> path_allows (hq_path req) (hq_method req)
              (if ur_role u = lit ''admin'' then Admin else Operator))"

lemma load_account_actorD:
  assumes "load_account_actor env up st now hs db = Inr (a, by_cookie)"
  shows "\<exists>token s u. session_credential hs = Some (token, by_cookie) \<and> s \<in> set (db_sessions db)
    \<and> u \<in> set (db_users db) \<and> se_token_hash s = hash_session_token env token \<and> se_user_id s = ur_id u
    \<and> se_revoked_at s = None \<and> now < se_expires_at s \<and> \<not> ur_disabled u
    \<and> at_id a = ur_id u \<and> at_must_change_password a = ur_must_change_password u
    \<and> ur_role u = role_as_db (at_role a) \<and> at_token_hash a = se_token_hash s"
proof -
  from assms obtain token p where c: "session_credential hs = Some (token, by_cookie)"
    and q: "session_by_token_hash (up CallSessionByToken) now (hash_session_token env token) db
        = Inr (Some p)"
    and a: "at_id a = au_id (ps_user p)" "at_role a = au_role (ps_user p)"
      "at_must_change_password a = au_must_change_password (ps_user p)"
      "at_token_hash a = hash_session_token env token"
    by (auto simp: load_account_actor_def bindR_Inr_iff Let_def split: if_splits)
  from session_by_token_hashD [OF q] obtain s u where
    su: "s \<in> set (db_sessions db)" "u \<in> set (db_users db)" "ur_id u = se_user_id s"
      "se_token_hash s = hash_session_token env token" "se_revoked_at s = None" "now < se_expires_at s"
      "\<not> ur_disabled u"
    and t: "auth_user_try_from u = Inr (ps_user p)"
    by blast
  show ?thesis
    using c a su auth_user_try_fromD [OF t]
    by (intro exI [of _ token] exI [of _ s] exI [of _ u]) simp
qed

section \<open>A concrete environment\<close>

definition auth_env_example :: auth_env where
  "auth_env_example = \<lparr>en_sha256 = (\<lambda>b. b), en_pbkdf2 = (\<lambda>pw salt rounds. take 32 (pw @ replicate 32 0)),
     en_uuid_bytes = (\<lambda>u. replicate 16 (ucast u)), en_uuid_simple = (\<lambda>u. [unat u mod 26 + 97]),
     en_uuid_parse = (\<lambda>s. if s = lit ''2'' then Some 2 else None)\<rparr>"

definition auth_state_example :: auth_state where
  "auth_state_example = \<lparr>as_account_auth_enabled = True, as_secure_cookies = True, as_repositories = True\<rparr>"

definition login_fresh_example :: login_fresh where
  "login_fresh_example = \<lparr>lf_access1 = 1, lf_access2 = 2, lf_csrf1 = 3, lf_csrf2 = 4, lf_audit = 5,
     lf_session = 6\<rparr>"

definition login_db_example :: account_db where
  "login_db_example = account_example\<lparr>db_users :=
     map (\<lambda>r. r\<lparr>ur_password_hash := hash_password auth_env_example 7 (lit ''correct-horse'')\<rparr>)
       (db_users account_example)\<rparr>"

lemma login_db_example_ok: "account_ok login_db_example"
proof -
  have eq: "login_db_example = update_user_rows (\<lambda>_. True)
      (\<lambda>r. r\<lparr>ur_password_hash := hash_password auth_env_example 7 (lit ''correct-horse'')\<rparr>) account_example"
    by (simp add: login_db_example_def update_user_rows_def)
  show ?thesis unfolding eq
    by (rule update_user_rows_ok [OF account_example_ok]) simp_all
qed

definition login_example :: "auth_login_response api_result \<times> account_db" where
  "login_example = auth_login auth_env_example (\<lambda>_. True) auth_state_example login_fresh_example 10 9
     (lit '' Eve '') (lit ''correct-horse'') login_db_example"

lemma login_example_eval:
  "case fst login_example of Inl _ \<Rightarrow> False | Inr r \<Rightarrow> ar_id (lr_user r) = 2"
  "3 \<notin> set (map aa_id (db_audit (snd login_example)))"
proof -
  have "case login_example of (r, db) \<Rightarrow> (case r of Inl _ \<Rightarrow> False | Inr r \<Rightarrow> ar_id (lr_user r) = 2)
      \<and> 3 \<notin> set (map aa_id (db_audit db))"
    by code_simp
  then show "case fst login_example of Inl _ \<Rightarrow> False | Inr r \<Rightarrow> ar_id (lr_user r) = 2"
    "3 \<notin> set (map aa_id (db_audit (snd login_example)))"
    unfolding case_prod_unfold by blast+
qed

lemma login_example_ok: "is_ok (fst login_example)"
  using login_example_eval(1) by (cases "fst login_example") simp_all

section \<open>Properties\<close>

text \<open>
  A stored password hash verifies exactly the passwords that derive the same key: the text
  form is read back without loss, and with a key derivation that separates passwords no other
  password is accepted.
\<close>

theorem password_hash_roundtrip:
  assumes "length (en_uuid_bytes env fresh) = 16"
    and "\<And>pw salt rounds. length (en_pbkdf2 env pw salt rounds) = 32"
  shows "verify_password env password (hash_password env fresh password)
    \<and> (verify_password env other (hash_password env fresh password) \<longleftrightarrow>
         en_pbkdf2 env (as_bytes other) (en_uuid_bytes env fresh) 600000 =
         en_pbkdf2 env (as_bytes password) (en_uuid_bytes env fresh) 600000)"
  using verify_hash_password [OF assms] by simp

theorem password_hash_roundtrip_witness:
  "verify_password auth_env_example (lit ''correct-horse'')
      (hash_password auth_env_example 7 (lit ''correct-horse''))
   \<and> \<not> verify_password auth_env_example (lit ''wrong-horse'')
      (hash_password auth_env_example 7 (lit ''correct-horse''))"
proof
  have l: "length (en_uuid_bytes auth_env_example 7) = 16"
    "length (en_pbkdf2 auth_env_example pw salt rounds) = 32" for pw salt rounds
    by (simp_all add: auth_env_example_def)
  show "verify_password auth_env_example (lit ''correct-horse'')
      (hash_password auth_env_example 7 (lit ''correct-horse''))"
    using password_hash_roundtrip [OF l] by blast
  have "en_pbkdf2 auth_env_example (as_bytes (lit ''wrong-horse'')) (en_uuid_bytes auth_env_example 7) 600000 \<noteq>
      en_pbkdf2 auth_env_example (as_bytes (lit ''correct-horse'')) (en_uuid_bytes auth_env_example 7) 600000"
    by code_simp
  then show "\<not> verify_password auth_env_example (lit ''wrong-horse'')
      (hash_password auth_env_example 7 (lit ''correct-horse''))"
    using password_hash_roundtrip [OF l] by blast
qed

text \<open>
  A login succeeds only for an enabled user with the verified password. It opens one new session
  of that user, valid from now until eight hours later and found under the hash of the issued
  token, leaves a completed audit event, and changes no account and no other session.
\<close>

theorem login_opens_session:
  assumes login: "auth_login env up st f now rid name password db = (Inr r, db')"
    and ok: "account_ok db"
  shows "\<exists>u \<in> set (db_users db). normalize_username name = Some (ur_username u) \<and> \<not> ur_disabled u
    \<and> verify_password env password (ur_password_hash u) \<and> ar_id (lr_user r) = ur_id u
    \<and> db_users db' = db_users db \<and> (\<exists>s. db_sessions db' = db_sessions db @ [s])
    \<and> (\<forall>t < now + SESSION_LIFETIME. \<exists>p.
         session_by_token_hash True t (hash_session_token env (access_token env f)) db' = Inr (Some p)
         \<and> au_id (ps_user p) = ur_id u)
    \<and> (\<exists>e \<in> set (db_audit db'). aa_id e = lf_audit f \<and> aa_action e = lit ''auth.login''
         \<and> aa_status_code e = 200)"
proof -
  from auth_loginD [OF login] obtain u user where u: "u \<in> set (db_users db)"
      "normalize_username name = Some (ur_username u)" "\<not> ur_disabled u"
      "verify_password env password (ur_password_hash u)"
    and f: "auth_user_try_from u = Inr user" and o: "open_session env up st f now rid user db = (Inr r, db')"
    by blast
  note fd = auth_user_try_fromD [OF f]
  from open_sessionD [OF o ok] obtain s where d: "db_users db' = db_users db"
      "db_sessions db' = db_sessions db @ [s]" "account_ok db'"
    and s: "se_token_hash s = hash_session_token env (access_token env f)" "se_user_id s = au_id user"
      "se_expires_at s = now + SESSION_LIFETIME" "se_revoked_at s = None"
    and r: "lr_user r = auth_user_response_from user"
    and a: "\<exists>e \<in> set (db_audit db'). aa_id e = lf_audit f \<and> aa_action e = lit ''auth.login''
         \<and> aa_status_code e = 200"
    by blast
  have "\<exists>p. session_by_token_hash True t (se_token_hash s) db' = Inr (Some p)
      \<and> au_id (ps_user p) = ur_id u" if "t < now + SESSION_LIFETIME" for t
    using session_by_token_hash_intro [OF d(3), of s u t user] d u s fd f that by auto
  then show ?thesis
    using u a d r s(1) fd
    by (intro bexI [of _ u]) (auto simp: auth_user_response_from_def)
qed

theorem login_opens_session_witness:
  "\<exists>p. session_by_token_hash True 20 (hash_session_token auth_env_example (lit ''bc''))
      (snd login_example) = Inr (Some p)"
proof -
  obtain r where "login_example = (Inr r, snd login_example)"
    using login_example_ok unfolding is_ok_iff by (metis prod.collapse)
  then have "auth_login auth_env_example (\<lambda>_. True) auth_state_example login_fresh_example 10 9
      (lit '' Eve '') (lit ''correct-horse'') login_db_example = (Inr r, snd login_example)"
    by (simp add: login_example_def)
  from login_opens_session [OF this login_db_example_ok] obtain u :: auth_user_row where
    "\<forall>t < 10 + SESSION_LIFETIME. \<exists>p. session_by_token_hash True t (hash_session_token auth_env_example
       (access_token auth_env_example login_fresh_example)) (snd login_example) = Inr (Some p)
       \<and> au_id (ps_user p) = ur_id u"
    by blast
  from this [rule_format, of 20] have "\<exists>p. session_by_token_hash True 20 (hash_session_token auth_env_example
      (access_token auth_env_example login_fresh_example)) (snd login_example) = Inr (Some p)"
    by (auto simp: SESSION_LIFETIME_def)
  moreover have "access_token auth_env_example login_fresh_example = lit ''bc''" by code_simp
  ultimately show ?thesis by simp
qed

end
