(* ===== verification/RequestLaws.thy ===== *)
theory RequestLaws
  imports AuthLaws
begin

text \<open>
  The middleware of \<open>inventory/auth.rs\<close> against the account tables: which requests reach a handler,
  what a refused request leaves behind, the audit record around a mutating request, and the life of
  the session that a login opens.
\<close>

section \<open>Authentication of account requests\<close>

lemma authorize_account_request_Inr:
  "authorize_account_request up st fresh now a c req rid db = (Inr role, db') \<longleftrightarrow>
     (c \<and> is_unsafe_method (hq_method req) \<longrightarrow> valid_csrf_request (hq_headers req))
     \<and> (at_must_change_password a \<longrightarrow> is_password_change_allowed_path (hq_path req))
     \<and> (is_admin_only_route (hq_path req) \<longrightarrow> at_role a = RoleAdmin)
     \<and> path_allows (hq_path req) (hq_method req) role
     \<and> role = actor_role_of (at_role a) \<and> db' = db"
  by (auto simp: authorize_account_request_def audited_forbidden_response_def Let_def)

lemma authorize_account_request_Inl:
  assumes "authorize_account_request up st fresh now a c req rid db = (Inl e, db')"
  shows "ae_status e = 403 \<and> db_users db' = db_users db \<and> db_sessions db' = db_sessions db"
  using assms
  by (auto simp: authorize_account_request_def audited_forbidden_response_def append_request_audit_def
      append_audit_event_def db_write_def Let_def api_error_defs split: if_splits)

lemma load_account_actor_Inl:
  "load_account_actor env up st now hs db = Inl e \<Longrightarrow> e = unauthorized \<or> e = storage"
  by (auto simp: load_account_actor_def bindR_Inl_iff map_err_Inl_iff Let_def split: if_splits)

lemma role_as_db_admin: "role_as_db r = lit ''admin'' \<longleftrightarrow> r = RoleAdmin"
  by (cases r) simp_all

lemma actor_role_of_db:
  "actor_role_of r = (if role_as_db r = lit ''admin'' then Admin else Operator)"
  by (cases r) simp_all

lemma authenticate_requestD:
  assumes "as_account_auth_enabled st" "\<not> is_public_request st (hq_path req)"
    and "authenticate_request env up st cfg fresh now req rid db = (Inr (actor, role), db')"
  shows "\<exists>a s u. actor = Some a \<and> request_allowed env now req s u db \<and> at_id a = ur_id u
    \<and> at_token_hash a = se_token_hash s \<and> db' = db"
proof -
  from assms obtain a c r where l: "load_account_actor env up st now (hq_headers req) db = Inr (a, c)"
    and z: "authorize_account_request up st fresh now a c req rid db = (Inr r, db')"
    and actor: "actor = Some a" "role = Some r"
    by (auto simp: authenticate_request_def Let_def split: sum.splits prod.splits)
  from load_account_actorD [OF l] obtain token s u where
    "session_credential (hq_headers req) = Some (token, c)" "s \<in> set (db_sessions db)"
    "u \<in> set (db_users db)" "se_token_hash s = hash_session_token env token" "se_user_id s = ur_id u"
    "se_revoked_at s = None" "now < se_expires_at s" "\<not> ur_disabled u" "at_id a = ur_id u"
    "at_must_change_password a = ur_must_change_password u" "ur_role u = role_as_db (at_role a)"
    "at_token_hash a = se_token_hash s"
    by blast
  with z actor show ?thesis
    unfolding authorize_account_request_Inr
    by (intro exI [of _ a] exI [of _ s] exI [of _ u])
       (auto simp: request_allowed_def role_as_db_admin actor_role_of_db)
qed

lemma role_of_ok_row:
  assumes "account_ok db" "u \<in> set (db_users db)"
  shows "\<exists>user. auth_user_try_from u = Inr user"
proof -
  from assms obtain r where "ur_role u = role_as_db r" unfolding account_ok_def by blast
  then show ?thesis by (simp add: auth_user_try_from_def del: role_as_db.simps)
qed

lemma authenticate_request_allowed:
  assumes st: "as_account_auth_enabled st" "\<not> is_public_request st (hq_path req)" "as_repositories st"
      "up CallSessionByToken"
    and ok: "account_ok db" and allowed: "request_allowed env now req s u db"
  shows "\<exists>a role. authenticate_request env up st cfg fresh now req rid db = (Inr (Some a, Some role), db)
    \<and> at_id a = ur_id u \<and> at_token_hash a = se_token_hash s"
proof -
  from allowed obtain token c where cr: "session_credential (hq_headers req) = Some (token, c)"
    by (auto simp: request_allowed_def split: option.splits)
  note al = allowed [unfolded request_allowed_def, simplified cr, simplified]
  from role_of_ok_row [OF ok] al obtain user where user: "auth_user_try_from u = Inr user" by blast
  note d = auth_user_try_fromD [OF user]
  have q: "session_by_token_hash True now (hash_session_token env token) db =
      Inr (Some \<lparr>ps_id = se_id s, ps_user = user, ps_expires_at = se_expires_at s\<rparr>)"
    using session_by_token_hash_intro [OF ok, of s u now user] al user by auto
  define a where "a = \<lparr>at_id = au_id user, at_username = au_username user, at_role = au_role user,
      at_must_change_password = au_must_change_password user,
      at_token_hash = hash_session_token env token, at_expires_at = se_expires_at s\<rparr>"
  have l: "load_account_actor env up st now (hq_headers req) db = Inr (a, c)"
    using st cr q by (simp add: load_account_actor_def a_def)
  have "authorize_account_request up st fresh now a c req rid db = (Inr (actor_role_of (au_role user)), db)"
    unfolding authorize_account_request_Inr
    using al d by (simp add: a_def role_as_db_admin actor_role_of_db)
  with st l show ?thesis
    using al d by (simp add: authenticate_request_def a_def)
qed

section \<open>The middleware around a handler\<close>

lemma denied_middleware:
  assumes st: "as_account_auth_enabled st" "\<not> is_public_request st (hq_path req)"
    and none: "\<nexists>s u. request_allowed env now req s u db"
  shows "\<exists>e db1. ae_status e \<in> {401, 403, 500} \<and> db_users db1 = db_users db \<and> db_sessions db1 = db_sessions db
    \<and> (\<forall>h. request_middleware env up st cfg fr fd fa now h req db = (error_response e, db1))"
proof -
  let ?rid = "request_id_of env fr (hq_headers req)"
  obtain r db1 where au: "authenticate_request env up st cfg fd now req ?rid db = (r, db1)" by fastforce
  have "r \<noteq> Inr x" for x
    using none authenticate_requestD [OF st, of env up cfg fd now ?rid db "fst x" "snd x" db1] au by auto
  then obtain e where r: "r = Inl e" by (cases r) auto
  have "ae_status e \<in> {401, 403, 500} \<and> db_users db1 = db_users db \<and> db_sessions db1 = db_sessions db"
    using au st load_account_actor_Inl [of env up st now "hq_headers req" db e]
    unfolding r authenticate_request_def
    by (auto simp: Let_def api_error_defs split: sum.splits prod.splits
        dest: authorize_account_request_Inl)
  with au r show ?thesis by (auto simp: request_middleware_def Let_def)
qed

definition pending_audit ::
  "uuid \<Rightarrow> timestamp \<Rightarrow> authenticated_user \<Rightarrow> http_request \<Rightarrow> uuid \<Rightarrow> account_db \<Rightarrow> account_db" where
  "pending_audit fresh now a req rid db =
     db\<lparr>db_audit := db_audit db @ [request_audit_event fresh now a (hq_method req) (hq_path req) rid 102]\<rparr>"

lemma reserve_request_audit_Inr:
  assumes "reserve_request_audit up st fresh now (Some a) (hq_method req) (hq_path req) rid db = (Inr i, db')"
    and "is_write_method (hq_method req)"
  shows "i = Some fresh \<and> as_repositories st \<and> db' = pending_audit fresh now a req rid db"
  using assms
  by (auto simp: reserve_request_audit_def append_audit_event_def db_write_def pending_audit_def Let_def
      split: if_splits sum.splits prod.splits)

lemma cleared_cookies_Inr: "\<exists>c. cleared_session_cookie_headers secure = Inr c"
proof -
  have "is_ok (cleared_session_cookie_headers True)" "is_ok (cleared_session_cookie_headers False)"
    by code_simp+
  then show ?thesis by (cases secure) (auto simp: is_ok_iff)
qed

definition audit_outcome :: "uuid \<Rightarrow> nat \<Rightarrow> auth_audit_event \<Rightarrow> auth_audit_event" where
  "audit_outcome i status e = (if aa_id e = i then e\<lparr>aa_status_code := int status,
     aa_details := json_set (lit ''state'') (JString (if is_success status then lit ''completed''
       else lit ''failed'')) (aa_details e)\<rparr> else e)"

lemma finalize_request_responseD:
  assumes "as_repositories st" "up CallUpdateAudit"
  shows "\<exists>c. finalize_request_response up st response path rid (Some i) db =
    (response\<lparr>hp_request_id := Some rid, hp_cookies := hp_cookies response @ c\<rparr>,
     db\<lparr>db_audit := map (audit_outcome i (hp_status response)) (db_audit db)\<rparr>)"
proof -
  from cleared_cookies_Inr [of "as_secure_cookies st"] obtain c where
    c: "cleared_session_cookie_headers (as_secure_cookies st) = Inr c" ..
  let ?clear = "path = lit ''/api/v1/auth/logout'' \<and> is_success (hp_status response)"
  show ?thesis
    using assms c
    by (intro exI [of _ "if ?clear then c else []"])
       (auto simp: finalize_request_response_def persist_request_audit_outcome_def Let_def
         update_audit_event_status_def audit_outcome_def [abs_def] intro!: http_response.equality)
qed

section \<open>The cookies of a login\<close>

text \<open>The headers a browser sends with the two cookies of a login and the CSRF header.\<close>

definition browser_headers :: "str \<Rightarrow> str \<Rightarrow> headers" where
  "browser_headers token csrf =
     [(lit ''cookie'', lit ''lxcup_session='' @ token @ lit ''; lxcup_csrf='' @ csrf),
      (lit ''x-csrf-token'', csrf)]"

definition token_text :: "str \<Rightarrow> bool" where
  "token_text t \<longleftrightarrow> list_all is_ascii_alphanumeric t"

lemma token_text_char:
  assumes "token_text t" "c \<in> set t"
  shows "c \<noteq> ch CHR '';''" "c \<noteq> ch CHR ''=''" "\<not> is_whitespace c" "visible_ascii c" "c < 128"
  using assms
  by (auto simp: token_text_def list_all_iff char_class_defs is_ascii_alphanumeric_def
      is_whitespace_def visible_ascii_def ch_def)

lemma cookie_pair:
  assumes "token_text v" "list_all (\<lambda>c. c \<noteq> ch CHR ''='' \<and> \<not> is_whitespace c) n"
  shows "split_once (ch CHR ''='') (trim (n @ ch CHR ''='' # v)) = Some (n, v)" "trim v = v"
proof -
  have "\<not> is_whitespace (ch CHR ''='')" by code_simp
  then have "trim (n @ ch CHR ''='' # v) = n @ ch CHR ''='' # v"
    using assms token_text_char [OF assms(1)] by (intro trim_noop) (auto simp: list_all_iff)
  then show "split_once (ch CHR ''='') (trim (n @ ch CHR ''='' # v)) = Some (n, v)"
    using assms(2) by (auto simp: split_once_Some_iff list_all_iff)
  show "trim v = v" using token_text_char [OF assms(1)] by (intro trim_noop) blast
qed

lemma trim_space: "trim (ch CHR '' '' # s) = trim s"
proof -
  have "is_whitespace (ch CHR '' '')" by code_simp
  then show ?thesis by (simp add: trim_def trim_start_def)
qed

lemma browser_cookies:
  assumes "token_text token" "token_text csrf"
  shows "cookie_matches name (lit ''lxcup_session='' @ token @ lit ''; lxcup_csrf='' @ csrf) =
    (if name = lit ''lxcup_session'' then [token] else if name = lit ''lxcup_csrf'' then [csrf] else [])"
proof -
  let ?s = "ch CHR '';''"
  have l: "lit ''lxcup_session='' @ token @ lit ''; lxcup_csrf='' @ csrf =
      (lit ''lxcup_session'' @ ch CHR ''='' # token) @ ?s # (ch CHR '' '' # lit ''lxcup_csrf'' @ ch CHR ''='' # csrf)"
    by (simp add: str_simps)
  have n: "?s \<notin> set (lit ''lxcup_session'')" "?s \<notin> set (lit ''lxcup_csrf'')" "ch CHR ''='' \<noteq> ?s" "ch CHR '' '' \<noteq> ?s"
    "list_all (\<lambda>c. c \<noteq> ch CHR ''='' \<and> \<not> is_whitespace c) (lit ''lxcup_session'')"
    "list_all (\<lambda>c. c \<noteq> ch CHR ''='' \<and> \<not> is_whitespace c) (lit ''lxcup_csrf'')"
    by code_simp+
  have "?s \<notin> set token" "?s \<notin> set csrf" using token_text_char(1) assms by blast+
  with n have "split_char ?s (lit ''lxcup_session='' @ token @ lit ''; lxcup_csrf='' @ csrf) =
      [lit ''lxcup_session'' @ ch CHR ''='' # token, ch CHR '' '' # lit ''lxcup_csrf'' @ ch CHR ''='' # csrf]"
    unfolding l by (subst split_char_append_sep) (auto simp: split_char_no_sep)
  then show ?thesis
    using cookie_pair [OF assms(1) n(5)] cookie_pair [OF assms(2) n(6)]
    by (auto simp: cookie_matches_def trim_space)
qed

lemma browser_header_text:
  assumes "token_text token" "token_text csrf"
  shows "header_to_str (lit ''lxcup_session='' @ token @ lit ''; lxcup_csrf='' @ csrf) =
      Some (lit ''lxcup_session='' @ token @ lit ''; lxcup_csrf='' @ csrf)"
    "header_to_str csrf = Some csrf"
proof -
  have "list_all visible_ascii (lit ''lxcup_session='')" "list_all visible_ascii (lit ''; lxcup_csrf='')"
    by code_simp+
  moreover have "list_all visible_ascii token" "list_all visible_ascii csrf"
    using token_text_char(4) assms by (auto simp: list_all_iff)
  ultimately show "header_to_str (lit ''lxcup_session='' @ token @ lit ''; lxcup_csrf='' @ csrf) =
      Some (lit ''lxcup_session='' @ token @ lit ''; lxcup_csrf='' @ csrf)" "header_to_str csrf = Some csrf"
    by (simp_all add: header_to_str_def)
qed

lemma browser_session:
  assumes "token_text token" "token_text csrf"
  shows "session_credential (browser_headers token csrf) = Some (token, True)"
    "valid_csrf_request (browser_headers token csrf)"
  using browser_cookies [OF assms] browser_header_text [OF assms]
  by (simp_all add: session_credential_def valid_csrf_request_def cookie_value_def browser_headers_def
      header_get_def header_get_all_def)

section \<open>An allowed request is served\<close>

lemma reserve_request_audit_up:
  assumes "as_repositories st" "up CallAppendAudit" "fresh \<notin> set (map aa_id (db_audit db))"
    "at_id a \<in> set (map ur_id (db_users db))"
  shows "\<exists>i db'. reserve_request_audit up st fresh now (Some a) m path rid db = (Inr i, db')"
  using assms by (auto simp: reserve_request_audit_def append_audit_event_def request_audit_event_def Let_def)

lemma allowed_middleware:
  assumes st: "as_account_auth_enabled st" "\<not> is_public_request st (hq_path req)" "as_repositories st"
      "up CallSessionByToken" "up CallAppendAudit"
    and ok: "account_ok db" and allowed: "request_allowed env now req s u db"
    and fresh: "fa \<notin> set (map aa_id (db_audit db))"
  shows "\<exists>a role i db2. at_id a = ur_id u \<and> at_token_hash a = se_token_hash s \<and>
    (\<forall>h. request_middleware env up st cfg fr fd fa now h req db =
      (case h (request_id_of env fr (hq_headers req)) (Some a) (Some role) db2 of (response, db3) \<Rightarrow>
         finalize_request_response up st response (hq_path req) (request_id_of env fr (hq_headers req)) i db3))"
proof -
  let ?rid = "request_id_of env fr (hq_headers req)"
  from authenticate_request_allowed [where up = up, OF st(1-4) ok allowed] obtain a role where
    au: "authenticate_request env up st cfg fd now req ?rid db = (Inr (Some a, Some role), db)"
    and a: "at_id a = ur_id u" "at_token_hash a = se_token_hash s" by blast
  have "at_id a \<in> set (map ur_id (db_users db))"
    using allowed a by (auto simp: request_allowed_def split: option.splits)
  from reserve_request_audit_up [where up = up, OF st(3,5) fresh this] obtain i db2 where
    re: "reserve_request_audit up st fa now (Some a) (hq_method req) (hq_path req) ?rid db = (Inr i, db2)"
    by blast
  show ?thesis
    using a by (intro exI [of _ a] exI [of _ role] exI [of _ i] exI [of _ db2])
      (simp add: request_middleware_def Let_def au re)
qed

lemma login_served:
  assumes login: "auth_login env up st f now rid name password db = (Inr r, db')"
    and ok: "account_ok db"
    and simple: "\<And>i. token_text (en_uuid_simple env i)"
    and st: "\<not> is_public_request st path" "up CallSessionByToken" "up CallAppendAudit"
      "fa \<notin> set (map aa_id (db_audit db'))"
    and t: "t < now + SESSION_LIFETIME"
    and role: "ar_role (lr_user r) = lit ''admin'' \<or>
      \<not> is_admin_only_route path \<and> path_allows path method Operator"
    and change: "ar_must_change_password (lr_user r) \<Longrightarrow> is_password_change_allowed_path path"
    and req: "req = \<lparr>hq_method = method, hq_path = path,
      hq_headers = browser_headers (access_token env f) (csrf_token env f)\<rparr>"
  shows "\<exists>a role i db2. at_id a = ar_id (lr_user r) \<and>
    (\<forall>h. request_middleware env up st cfg fr fd fa t h req db' =
      (case h (request_id_of env fr (hq_headers req)) (Some a) (Some role) db2 of (response, db3) \<Rightarrow>
         finalize_request_response up st response path (request_id_of env fr (hq_headers req)) i db3))"
proof -
  have auth: "as_account_auth_enabled st" "as_repositories st"
    using login by (auto simp: auth_login_def split: if_splits)
  from auth_login_session [OF login ok] obtain s u where
    s: "s \<in> set (db_sessions db')" "se_token_hash s = hash_session_token env (access_token env f)"
      "se_user_id s = ur_id u" "se_expires_at s = now + SESSION_LIFETIME" "se_revoked_at s = None"
    and u: "u \<in> set (db_users db')" "\<not> ur_disabled u" "ar_id (lr_user r) = ur_id u"
      "ar_role (lr_user r) = ur_role u" "ar_must_change_password (lr_user r) = ur_must_change_password u"
    and ok': "account_ok db'"
    by blast
  have tt: "token_text (access_token env f)" "token_text (csrf_token env f)"
    using simple by (auto simp: access_token_def csrf_token_def token_text_def)
  have admin: "path_allows path method Admin"
    by (simp add: path_allows_def)
  have "request_allowed env t req s u db'"
    using s u t role change admin browser_session [OF tt]
    by (auto simp: request_allowed_def req)
  from allowed_middleware [where up = up, OF auth(1) _ auth(2) st(2,3) ok' this st(4)] st(1) u(3)
  show ?thesis by (simp add: req) blast
qed

lemma finalize_status:
  "hp_status (fst (finalize_request_response up st response path rid i db)) = hp_status response"
  using cleared_cookies_Inr [of "as_secure_cookies st"]
  by (auto simp: finalize_request_response_def Let_def)

section \<open>An example: a browser after its login\<close>

definition browser_post :: http_request where
  "browser_post = \<lparr>hq_method = MPost, hq_path = lit ''/api/v1/auth/password'',
     hq_headers = browser_headers (access_token auth_env_example login_fresh_example)
       (csrf_token auth_env_example login_fresh_example)\<rparr>"

lemma browser_post_facts:
  "\<not> is_public_request auth_state_example (lit ''/api/v1/auth/password'')"
  "\<not> is_admin_only_route (lit ''/api/v1/auth/password'')
     \<and> path_allows (lit ''/api/v1/auth/password'') MPost Operator"
  "is_password_change_allowed_path (lit ''/api/v1/auth/password'')"
  "request_id_of auth_env_example 1 (hq_headers browser_post) = 1"
  "is_write_method (hq_method browser_post)"
  by code_simp+

lemma browser_post_time: "(20 :: timestamp) < 10 + SESSION_LIFETIME"
  by (simp add: SESSION_LIFETIME_def)

lemma example_token_text: "token_text (en_uuid_simple auth_env_example i)"
proof -
  have "unat i mod 26 \<le> 25" using mod_less_divisor [of 26 "unat i"] by linarith
  then show ?thesis by (simp add: auth_env_example_def token_text_def is_ascii_alphanumeric_def)
qed

lemma login_example_result:
  "\<exists>r. auth_login auth_env_example (\<lambda>_. True) auth_state_example login_fresh_example 10 9
      (lit '' Eve '') (lit ''correct-horse'') login_db_example = (Inr r, snd login_example)
    \<and> ar_id (lr_user r) = 2"
  using login_example_eval(1) by (cases "fst login_example") (auto simp: login_example_def [symmetric] prod_eq_iff)

section \<open>Properties\<close>

text \<open>
  C19. Behind account authentication a handler runs only for an allowed request: a live session of an
  enabled user, a matching CSRF token when a cookie authenticates a write, the password changed
  when that is due, and a role that covers the route. Any other request gets the same refusal
  whatever the handler is and leaves the accounts and sessions as they were.
\<close>

theorem denied_request_is_inert:
  assumes "as_account_auth_enabled st" and "\<not> is_public_request st (hq_path req)"
    and "\<nexists>s u. request_allowed env now req s u db"
  shows "\<exists>resp db1. hp_status resp \<in> {401, 403, 500}
    \<and> db_users db1 = db_users db \<and> db_sessions db1 = db_sessions db
    \<and> (\<forall>h. request_middleware env up st cfg fr fd fa now h req db = (resp, db1))"
proof -
  from denied_middleware [OF assms] obtain e db1 where
    "ae_status e \<in> {401, 403, 500}" "db_users db1 = db_users db" "db_sessions db1 = db_sessions db"
    "\<forall>h. request_middleware env up st cfg fr fd fa now h req db = (error_response e, db1)"
    by blast
  then show ?thesis
    by (intro exI [of _ "error_response e"] exI [of _ db1]) (simp add: error_response_def)
qed

theorem denied_request_is_inert_witness:
  "\<exists>resp db1. hp_status resp \<in> {401, 403, 500} \<and> db_users db1 = db_users account_example
    \<and> (\<forall>h. request_middleware auth_env_example (\<lambda>_. True) auth_state_example auth_config_disabled 1 2 3 10 h
         \<lparr>hq_method = MDelete, hq_path = lit ''/api/v1/targets/7'', hq_headers = []\<rparr> account_example = (resp, db1))"
proof -
  let ?req = "\<lparr>hq_method = MDelete, hq_path = lit ''/api/v1/targets/7'', hq_headers = []\<rparr>"
  have p: "\<not> is_public_request auth_state_example (hq_path ?req)" by code_simp
  have "\<nexists>s u. request_allowed auth_env_example 10 ?req s u account_example"
    by (simp add: request_allowed_def session_credential_def header_get_def header_get_all_def cookie_value_def)
  from denied_request_is_inert [OF _ p this] show ?thesis
    by (simp add: auth_state_example_def) blast
qed

text \<open>
  C20. With account authentication enabled, and on a route that is not public, a mutating request that
  reaches its handler finds its own audit event recorded as pending, with the acting user, the
  route and the request id. When the handler returns and the database answers the update, the event
  carries the status of the response. When the event cannot be recorded, the handler does not run.
  Requests authenticated by the tokens of roles, and requests on public routes, have no such event.
\<close>

theorem mutation_audited:
  assumes st: "as_account_auth_enabled st" "\<not> is_public_request st (hq_path req)"
    and w: "is_write_method (hq_method req)" and up: "up CallUpdateAudit"
    and rid: "rid = request_id_of env fr (hq_headers req)"
  shows "(\<exists>resp db1. \<forall>h. request_middleware env up st cfg fr fd fa now h req db = (resp, db1))
    \<or> (\<exists>a role s u. request_allowed env now req s u db \<and> at_id a = ur_id u \<and>
        (\<forall>h. \<exists>c. let (response, db3) = h rid (Some a) role (pending_audit fa now a req rid db) in
           request_middleware env up st cfg fr fd fa now h req db =
             (response\<lparr>hp_request_id := Some rid, hp_cookies := hp_cookies response @ c\<rparr>,
              db3\<lparr>db_audit := map (audit_outcome fa (hp_status response)) (db_audit db3)\<rparr>)))"
proof -
  obtain r db1 where au: "authenticate_request env up st cfg fd now req rid db = (r, db1)" by fastforce
  show ?thesis
  proof (cases r)
    case (Inl e)
    with au rid show ?thesis by (auto simp: request_middleware_def Let_def)
  next
    case (Inr x)
    from authenticate_requestD [OF st, of env up cfg fd now rid db "fst x" "snd x" db1] au Inr
    obtain a s u where x: "fst x = Some a" and al: "request_allowed env now req s u db" "at_id a = ur_id u"
      and db1: "db1 = db" by auto
    obtain q db2 where re: "reserve_request_audit up st fa now (Some a) (hq_method req) (hq_path req) rid db = (q, db2)"
      by fastforce
    show ?thesis
    proof (cases q)
      case (Inl e)
      with au rid re Inr x db1 show ?thesis
        by (cases x) (auto simp: request_middleware_def Let_def)
    next
      case (Inr i)
      with reserve_request_audit_Inr [OF _ w] re
      have q: "i = Some fa" "as_repositories st" "db2 = pending_audit fa now a req rid db" by blast+
      have "request_middleware env up st cfg fr fd fa now h req db =
          (case h rid (Some a) (snd x) db2 of (response, db3) \<Rightarrow>
             finalize_request_response up st response (hq_path req) rid (Some fa) db3)" for h
        using au rid re \<open>r = Inr x\<close> Inr x db1 q(1)
        by (cases x) (simp add: request_middleware_def Let_def)
      then show ?thesis
        using al finalize_request_responseD [where up = up, OF q(2) up] q(3)
        by (intro disjI2 exI [of _ a] exI [of _ "snd x"] exI [of _ s] exI [of _ u])
           (auto split: prod.splits)
    qed
  qed
qed

theorem mutation_audited_witness:
  "\<exists>resp db1. request_middleware auth_env_example (\<lambda>_. True) auth_state_example auth_config_disabled 1 2 3 20
      (\<lambda>_ _ _ d. (\<lparr>hp_status = 204, hp_cookies = [], hp_request_id = None\<rparr>, d)) browser_post (snd login_example)
      = (resp, db1)
    \<and> hp_request_id resp = Some 1 \<and> (\<exists>e \<in> set (db_audit db1). aa_id e = 3 \<and> aa_status_code e = 204)"
proof -
  let ?h = "\<lambda>_ _ _ d. (\<lparr>hp_status = 204, hp_cookies = [], hp_request_id = None\<rparr>, d) :: http_response \<times> account_db"
  let ?m = "\<lambda>h. request_middleware auth_env_example (\<lambda>_. True) auth_state_example auth_config_disabled 1 2 3 20
      h browser_post (snd login_example)"
  from login_example_result obtain r where l: "auth_login auth_env_example (\<lambda>_. True) auth_state_example
      login_fresh_example 10 9 (lit '' Eve '') (lit ''correct-horse'') login_db_example = (Inr r, snd login_example)"
    by blast
  from login_served [OF l login_db_example_ok example_token_text browser_post_facts(1) TrueI TrueI login_example_eval(2)
      browser_post_time disjI2 [OF browser_post_facts(2)] browser_post_facts(3) browser_post_def,
      where cfg = auth_config_disabled and fr = 1 and fd = 2]
  have runs: "hp_status (fst (?m (\<lambda>_ _ _ d. (resp, d)))) = hp_status resp" for resp
    by (auto simp: finalize_status)
  have no: "\<not> (\<exists>resp db1. \<forall>h. ?m h = (resp, db1))"
  proof
    assume "\<exists>resp db1. \<forall>h. ?m h = (resp, db1)"
    then obtain resp db1 where "?m h = (resp, db1)" for h by blast
    from runs [unfolded this] have "hp_status resp = hp_status x" for x :: http_response by (simp only: fst_conv)
    from this [of "\<lparr>hp_status = Suc (hp_status resp), hp_cookies = [], hp_request_id = None\<rparr>"]
    show False by simp
  qed
  have st: "as_account_auth_enabled auth_state_example"
    "\<not> is_public_request auth_state_example (hq_path browser_post)" "(\<lambda>_. True) CallUpdateAudit"
    using browser_post_facts(1) by (simp_all add: auth_state_example_def browser_post_def)
  note audited = mutation_audited [OF st(1,2) browser_post_facts(5) st(3) browser_post_facts(4) [symmetric], where cfg = auth_config_disabled and fd = 2 and fa = 3
      and now = 20 and db = "snd login_example"]
  let ?good = "\<lambda>a role h. \<exists>c. let (response, db3) = h 1 (Some a) role (pending_audit 3 20 a browser_post 1 (snd login_example)) in
       ?m h = (response\<lparr>hp_request_id := Some 1, hp_cookies := hp_cookies response @ c\<rparr>,
          db3\<lparr>db_audit := map (audit_outcome 3 (hp_status response)) (db_audit db3)\<rparr>)"
  have "\<exists>a role. ?good a role ?h"
  proof (rule disjE [OF audited], goal_cases)
    case 1
    with no show ?case by (rule notE)
  next
    case 2
    then obtain a role where "\<forall>h. ?good a role h" by (elim exE conjE) (rule that)
    from spec [OF this, of ?h] show ?case by (intro exI [of _ a] exI [of _ role])
  qed
  then obtain a role c where "?m ?h =
      (\<lparr>hp_status = 204, hp_cookies = c, hp_request_id = Some 1\<rparr>,
       (pending_audit 3 20 a browser_post 1 (snd login_example))\<lparr>db_audit := map (audit_outcome 3 204)
         (db_audit (pending_audit 3 20 a browser_post 1 (snd login_example)))\<rparr>)"
    by auto
  then show ?thesis
    by (auto simp: pending_audit_def audit_outcome_def request_audit_event_def Let_def)
qed

text \<open>
  The session that a login opens serves the browser: until eight hours have passed, a request with
  the issued cookies and the CSRF header, on a route that the user's role covers and not withheld
  by a due password change, is handed to its handler with that user as the actor.
\<close>

theorem login_session_serves:
  assumes login: "auth_login env up st f now rid name password db = (Inr r, db')"
    and ok: "account_ok db"
    and simple: "\<And>i. token_text (en_uuid_simple env i)"
    and st: "\<not> is_public_request st path" "up CallSessionByToken" "up CallAppendAudit"
      "fa \<notin> set (map aa_id (db_audit db'))"
    and t: "t < now + SESSION_LIFETIME"
    and role: "ar_role (lr_user r) = lit ''admin'' \<or>
      \<not> is_admin_only_route path \<and> path_allows path method Operator"
    and change: "ar_must_change_password (lr_user r) \<Longrightarrow> is_password_change_allowed_path path"
    and req: "req = \<lparr>hq_method = method, hq_path = path,
      hq_headers = browser_headers (access_token env f) (csrf_token env f)\<rparr>"
  shows "\<exists>a role i db2. at_id a = ar_id (lr_user r) \<and>
    (\<forall>h. request_middleware env up st cfg fr fd fa t h req db' =
      (case h (request_id_of env fr (hq_headers req)) (Some a) (Some role) db2 of (response, db3) \<Rightarrow>
         finalize_request_response up st response path (request_id_of env fr (hq_headers req)) i db3))"
  using login_served [OF assms] .

theorem login_session_serves_witness:
  "\<exists>a role i db2. at_id a = 2 \<and>
    (\<forall>h. request_middleware auth_env_example (\<lambda>_. True) auth_state_example auth_config_disabled 1 2 3 20 h
        browser_post (snd login_example) =
      (case h 1 (Some a) (Some role) db2 of (response, db3) \<Rightarrow>
         finalize_request_response (\<lambda>_. True) auth_state_example response (hq_path browser_post) 1 i db3))"
proof -
  from login_example_result obtain r where l: "auth_login auth_env_example (\<lambda>_. True) auth_state_example
      login_fresh_example 10 9 (lit '' Eve '') (lit ''correct-horse'') login_db_example = (Inr r, snd login_example)"
    and i: "ar_id (lr_user r) = 2"
    by blast
  have p: "hq_path browser_post = lit ''/api/v1/auth/password''" by (simp add: browser_post_def)
  show ?thesis
    using login_session_serves [OF l login_db_example_ok example_token_text browser_post_facts(1) TrueI TrueI
        login_example_eval(2) browser_post_time disjI2 [OF browser_post_facts(2)] browser_post_facts(3)
        browser_post_def, where cfg = auth_config_disabled and fr = 1 and fd = 2]
    unfolding i p browser_post_facts(4) .
qed

end
