(* ===== verification/JobStore.thy ===== *)
theory JobStore
  imports AnsibleInvariants ServerBase
begin

text \<open>
  \<open>lxcup-persistence/src/repositories/ansible_jobs.rs\<close>: the tables of jobs and job events with the
  constraints of migrations 6, 26 and 28 (primary keys, one job per target and idempotency key, one
  executing job per target, the reference to the targets table), and one definition per method of
  \<open>AnsibleJobRepository\<close>. \<open>Utc::now()\<close> is an argument. Serialization of a job to its payload column
  and back is taken as lossless.

  Several workers poll concurrently. A claim selects its candidate from the snapshot its query
  saw, skips the rows that other transactions have locked, sees the current version of the row it
  locks, and writes against the current table; so the snapshot and the locked rows are arguments,
  and nothing relates the snapshot to the table.
\<close>

section \<open>Tables\<close>

fun ansible_status_to_db :: "ansible_job_status \<Rightarrow> str" where
  "ansible_status_to_db JQueued = lit ''queued''"
| "ansible_status_to_db JChecking = lit ''checking''"
| "ansible_status_to_db JPlanned = lit ''planned''"
| "ansible_status_to_db JApplying = lit ''applying''"
| "ansible_status_to_db JReconcileRequired = lit ''reconcile_required''"
| "ansible_status_to_db JSucceeded = lit ''succeeded''"
| "ansible_status_to_db JFailed = lit ''failed''"
| "ansible_status_to_db JAborted = lit ''aborted''"

lemma ansible_status_to_db_inj [simp]: "ansible_status_to_db a = ansible_status_to_db b \<longleftrightarrow> a = b"
  by (cases a; cases b) simp_all

definition is_active_ansible_job_status :: "str \<Rightarrow> bool" where
  "is_active_ansible_job_status status \<longleftrightarrow>
     status \<in> {lit ''checking'', lit ''planned'', lit ''applying'', lit ''reconcile_required''}"

text \<open>The condition of the partial unique index: a job a worker is executing.\<close>

definition executing :: "str \<Rightarrow> bool" where
  "executing status \<longleftrightarrow> status \<in> {lit ''checking'', lit ''planned'', lit ''applying''}"

record job_row =
  jw_id :: uuid
  jw_target :: resource_target
  jw_target_id :: "uuid option"
  jw_idempotency_key :: str
  jw_status :: str
  jw_payload :: ansible_job
  jw_created_at :: timestamp
  jw_updated_at :: timestamp

text \<open>Of the targets table the queries read the id and the kind.\<close>

record job_db =
  jd_jobs :: "job_row list"
  jd_events :: "job_event list"
  jd_targets :: "(uuid \<times> target_kind) list"

definition job_db_empty :: job_db where
  "job_db_empty = \<lparr>jd_jobs = [], jd_events = [], jd_targets = []\<rparr>"

text \<open>The unique constraints of the two tables.\<close>

definition unique_ok :: "job_row list \<Rightarrow> bool" where
  "unique_ok rows \<longleftrightarrow> distinct (map jw_id rows)
     \<and> distinct (map (\<lambda>r. (jw_target r, jw_idempotency_key r)) rows)
     \<and> distinct (map jw_target (filter (\<lambda>r. executing (jw_status r)) rows))"

section \<open>Writing jobs\<close>

fun target_id_of :: "resource_target \<Rightarrow> uuid option" where
  "target_id_of (Target i) = Some i"
| "target_id_of (Node _) = None"
| "target_id_of (Container _) = None"

definition row_of_job :: "ansible_job \<Rightarrow> job_row" where
  "row_of_job j = \<lparr>jw_id = aj_id j, jw_target = aj_target j, jw_target_id = target_id_of (aj_target j),
     jw_idempotency_key = aj_idempotency_key j, jw_status = ansible_status_to_db (aj_status j),
     jw_payload = j, jw_created_at = aj_created_at j, jw_updated_at = aj_updated_at j\<rparr>"

definition save_job :: "bool \<Rightarrow> ansible_job \<Rightarrow> job_db \<Rightarrow> unit repo_result \<times> job_db" where
  "save_job up j db =
     db_write up db
       (let rows = jd_jobs db @ [row_of_job j] in
        if \<not> unique_ok rows
           \<or> (case target_id_of (aj_target j) of None \<Rightarrow> False
              | Some t \<Rightarrow> t \<notin> set (map fst (jd_targets db)))
        then (Inl RepDatabase, db)
        else (Inr (), db\<lparr>jd_jobs := rows\<rparr>))"

text \<open>\<open>UPDATE ansible_jobs SET status = ..., payload = ..., updated_at = ... WHERE id = ...\<close>\<close>

definition set_job :: "ansible_job \<Rightarrow> job_row \<Rightarrow> job_row" where
  "set_job j r = (if jw_id r = aj_id j then r\<lparr>jw_status := ansible_status_to_db (aj_status j),
     jw_payload := j, jw_updated_at := aj_updated_at j\<rparr> else r)"

definition write_job :: "ansible_job \<Rightarrow> job_db \<Rightarrow> job_db option" where
  "write_job j db =
     (let rows = map (set_job j) (jd_jobs db) in
      if unique_ok rows then Some (db\<lparr>jd_jobs := rows\<rparr>) else None)"

definition update_job :: "bool \<Rightarrow> ansible_job \<Rightarrow> job_db \<Rightarrow> unit repo_result \<times> job_db" where
  "update_job up j db =
     db_write up db
       (case write_job j db of None \<Rightarrow> (Inl RepDatabase, db) | Some db' \<Rightarrow> (Inr (), db'))"

section \<open>Events\<close>

definition append_job_event :: "bool \<Rightarrow> job_event \<Rightarrow> job_db \<Rightarrow> unit repo_result \<times> job_db" where
  "append_job_event up e db =
     (if \<not> je_sequence e < 2 ^ 63 then (Inl (RepInvalidValue (lit ''ansible event sequence'')), db)
      else db_write up db
        (if (je_job_id e, je_sequence e) \<in> set (map (\<lambda>x. (je_job_id x, je_sequence x)) (jd_events db))
            \<or> je_job_id e \<notin> set (map jw_id (jd_jobs db)) then (Inl RepDatabase, db)
         else (Inr (), db\<lparr>jd_events := jd_events db @ [e]\<rparr>)))"

definition job_events :: "bool \<Rightarrow> uuid \<Rightarrow> job_db \<Rightarrow> job_event list repo_result" where
  "job_events up i db =
     db_read up (Inr (sort_key je_sequence (filter (\<lambda>e. je_job_id e = i) (jd_events db))))"

definition events_since :: "bool \<Rightarrow> uuid \<Rightarrow> timestamp \<Rightarrow> nat \<Rightarrow> job_db \<Rightarrow> job_event list repo_result" where
  "events_since up i since limit db =
     db_read up
       (let es = sort_key je_sequence (filter (\<lambda>e. je_job_id e = i \<and> je_created_at e \<ge> since) (jd_events db));
            n = min 500 (max 1 limit)
        in Inr (drop (length es - n) es))"

text \<open>\<open>SELECT COALESCE(MAX(sequence), 0) + 1\<close> and the \<open>INSERT\<close> of the status event.\<close>

definition next_sequence :: "uuid \<Rightarrow> job_db \<Rightarrow> nat" where
  "next_sequence i db =
     fold max (map je_sequence (filter (\<lambda>e. je_job_id e = i) (jd_events db))) 0 + 1"

definition append_status_event :: "timestamp \<Rightarrow> uuid \<Rightarrow> ansible_job_status \<Rightarrow> job_db \<Rightarrow> job_db" where
  "append_status_event now i status db =
     db\<lparr>jd_events := jd_events db @ [\<lparr>je_sequence = next_sequence i db, je_job_id = i,
        je_event = EvStatusChanged status, je_created_at = now\<rparr>]\<rparr>"

section \<open>Reading jobs\<close>

definition find_job_by_id :: "bool \<Rightarrow> uuid \<Rightarrow> job_db \<Rightarrow> ansible_job option repo_result" where
  "find_job_by_id up i db =
     db_read up (Inr (map_option jw_payload (List.find (\<lambda>r. jw_id r = i) (jd_jobs db))))"

definition list_jobs :: "bool \<Rightarrow> job_db \<Rightarrow> ansible_job list repo_result" where
  "list_jobs up db =
     db_read up (Inr (map jw_payload (sort_key (\<lambda>r. - jw_created_at r) (jd_jobs db))))"

definition list_jobs_since :: "bool \<Rightarrow> timestamp \<Rightarrow> nat \<Rightarrow> job_db \<Rightarrow> ansible_job list repo_result" where
  "list_jobs_since up since limit db =
     db_read up (Inr (take (min 500 (max 1 limit))
       (map jw_payload (sort_key (\<lambda>r. - jw_created_at r)
          (filter (\<lambda>r. jw_created_at r \<ge> since) (jd_jobs db))))))"

definition find_by_idempotency_key ::
  "bool \<Rightarrow> resource_target \<Rightarrow> str \<Rightarrow> job_db \<Rightarrow> ansible_job option repo_result" where
  "find_by_idempotency_key up target key db =
     db_read up (Inr (map_option jw_payload
       (List.find (\<lambda>r. jw_target r = target \<and> jw_idempotency_key r = key) (jd_jobs db))))"

definition has_active_target :: "bool \<Rightarrow> resource_target \<Rightarrow> job_db \<Rightarrow> bool repo_result" where
  "has_active_target up target db =
     db_read up (Inr (list_ex (\<lambda>r. jw_target r = target \<and> is_active_ansible_job_status (jw_status r))
       (jd_jobs db)))"

definition has_other_active_target_job ::
  "bool \<Rightarrow> resource_target \<Rightarrow> uuid \<Rightarrow> job_db \<Rightarrow> bool repo_result" where
  "has_other_active_target_job up target excluded db =
     db_read up (Inr (list_ex (\<lambda>r. jw_target r = target \<and> jw_id r \<noteq> excluded
        \<and> is_active_ansible_job_status (jw_status r)) (jd_jobs db)))"

definition has_reconciliation_required_target ::
  "bool \<Rightarrow> resource_target \<Rightarrow> job_db \<Rightarrow> bool repo_result" where
  "has_reconciliation_required_target up target db =
     db_read up (Inr (list_ex (\<lambda>r. jw_target r = target \<and> jw_status r = lit ''reconcile_required'')
       (jd_jobs db)))"

record ansible_queue_metrics =
  qm_queued_jobs :: nat
  qm_failed_jobs :: nat
  qm_oldest_queued_at :: "timestamp option"

definition queue_metrics :: "bool \<Rightarrow> job_db \<Rightarrow> ansible_queue_metrics repo_result" where
  "queue_metrics up db =
     (let queued = filter (\<lambda>r. jw_status r = lit ''queued'') (jd_jobs db) in
      db_read up (Inr \<lparr>qm_queued_jobs = length queued,
        qm_failed_jobs = length (filter (\<lambda>r. jw_status r = lit ''failed'') (jd_jobs db)),
        qm_oldest_queued_at = (case map jw_created_at queued of [] \<Rightarrow> None
           | t # ts \<Rightarrow> Some (fold min ts t))\<rparr>))"

section \<open>Claiming and retrying\<close>

definition windows_target :: "job_db \<Rightarrow> uuid option \<Rightarrow> bool" where
  "windows_target db t \<longleftrightarrow>
     (case t of None \<Rightarrow> False | Some i \<Rightarrow> (i, WindowsServer) \<in> set (jd_targets db))"

text \<open>The \<open>WHERE\<close> clause of \<open>claim_next_queued\<close>.\<close>

definition claimable :: "ansible_env \<Rightarrow> job_db \<Rightarrow> job_row \<Rightarrow> bool" where
  "claimable env db c \<longleftrightarrow>
     jw_status c = lit ''queued'' \<and> \<not> windows_target db (jw_target_id c)
     \<and> \<not> list_ex (\<lambda>a. jw_target a = jw_target c \<and> executing (jw_status a)) (jd_jobs db)
     \<and> \<not> list_ex (\<lambda>u. jw_target u = jw_target c \<and> jw_status u = lit ''reconcile_required''
          \<and> \<not> (aj_mode (jw_payload c) = ModeReconcile
               \<and> jw_idempotency_key c = reconcile_idempotency_key env (jw_id u))) (jd_jobs db)"

text \<open>
  \<open>ORDER BY created_at FOR UPDATE SKIP LOCKED LIMIT 1\<close>: the oldest selected row that is not locked and
  whose current version is still queued.
\<close>

definition lock_candidate ::
  "(job_row \<Rightarrow> bool) \<Rightarrow> uuid list \<Rightarrow> job_db \<Rightarrow> job_db \<Rightarrow> job_row option" where
  "lock_candidate p locked seen db =
     (case List.find (\<lambda>c. jw_id c \<notin> set locked
             \<and> list_ex (\<lambda>r. jw_id r = jw_id c \<and> jw_status r = lit ''queued'') (jd_jobs db))
           (sort_key jw_created_at (filter p (jd_jobs seen))) of
        None \<Rightarrow> None
      | Some c \<Rightarrow> List.find (\<lambda>r. jw_id r = jw_id c) (jd_jobs db))"

definition claim_next_queued ::
  "ansible_env \<Rightarrow> bool \<Rightarrow> uuid list \<Rightarrow> job_db \<Rightarrow> timestamp \<Rightarrow> job_db
     \<Rightarrow> ansible_job option repo_result \<times> job_db" where
  "claim_next_queued env up locked seen now db =
     db_write up db
       (case lock_candidate (claimable env seen) locked seen db of
          None \<Rightarrow> (Inr None, db)
        | Some row \<Rightarrow>
            (case job_transition_to JChecking now (jw_payload row) of
               Inl _ \<Rightarrow> (Inl (RepInvalidValue (lit ''ansible job status'')), db)
             | Inr job \<Rightarrow>
                 (case write_job job db of
                    None \<Rightarrow> (Inr None, db)
                  | Some db1 \<Rightarrow> (Inr (Some job), append_status_event now (aj_id job) JChecking db1))))"

definition windows_claimable :: "uuid \<Rightarrow> job_db \<Rightarrow> job_row \<Rightarrow> bool" where
  "windows_claimable target_id db c \<longleftrightarrow>
     jw_target_id c = Some target_id \<and> windows_target db (Some target_id)
     \<and> jw_status c = lit ''queued''
     \<and> aj_operation (jw_payload c) \<in> {OpHealthCheck, OpCollectPackageInventory, OpUpdatePackages, OpUpdateAgent}
     \<and> \<not> list_ex (\<lambda>a. jw_target_id a = Some target_id \<and> executing (jw_status a)) (jd_jobs db)"

definition start_windows_job :: "timestamp \<Rightarrow> ansible_job \<Rightarrow> ansible_contract_error + (ansible_job \<times> ansible_job_status list)" where
  "start_windows_job now job0 =
     bindR (job_transition_to JChecking now job0) (\<lambda>job1.
       if aj_mode job1 = ModeApply then
         bindR (job_transition_to JPlanned now job1) (\<lambda>job2.
         bindR (job_transition_to JApplying now job2) (\<lambda>job3.
           Inr (job3, [JChecking, JPlanned, JApplying])))
       else Inr (job1, [JChecking]))"

definition claim_next_windows_agent_job ::
  "bool \<Rightarrow> uuid list \<Rightarrow> job_db \<Rightarrow> timestamp \<Rightarrow> uuid \<Rightarrow> job_db
     \<Rightarrow> ansible_job option repo_result \<times> job_db" where
  "claim_next_windows_agent_job up locked seen now target_id db =
     db_write up db
       (case lock_candidate (windows_claimable target_id seen) locked seen db of
          None \<Rightarrow> (Inr None, db)
        | Some row \<Rightarrow>
            (case start_windows_job now (jw_payload row) of
               Inl _ \<Rightarrow> (Inl (RepInvalidValue (lit ''ansible job status'')), db)
             | Inr (job, statuses) \<Rightarrow>
                 (case write_job job db of
                    None \<Rightarrow> (Inl RepDatabase, db)
                  | Some db1 \<Rightarrow> (Inr (Some job), fold (append_status_event now (aj_id job)) statuses db1))))"

definition retry_job ::
  "bool \<Rightarrow> timestamp \<Rightarrow> uuid \<Rightarrow> job_db \<Rightarrow> ansible_job repo_result \<times> job_db" where
  "retry_job up now i db =
     db_write up db
       (case List.find (\<lambda>r. jw_id r = i) (jd_jobs db) of
          None \<Rightarrow> (Inl (RepInvalidValue (lit ''ansible job'')), db)
        | Some row \<Rightarrow>
            (let job0 = jw_payload row in
             if aj_status job0 \<noteq> JFailed
                \<or> (aj_operation job0 = OpUpdatePackages \<and> aj_mode job0 = ModeApply) then
               (Inl (RepInvalidValue (lit ''retryable ansible job status'')), db)
             else
               (case job_transition_to JQueued now job0 of
                  Inl _ \<Rightarrow> (Inl (RepInvalidValue (lit ''retryable ansible job status'')), db)
                | Inr job \<Rightarrow>
                    (case write_job job db of
                       None \<Rightarrow> (Inl RepDatabase, db)
                     | Some db1 \<Rightarrow> (Inr job, append_status_event now i JQueued db1)))))"

section \<open>Deleting a target\<close>

text \<open>\<open>ON DELETE CASCADE\<close>: the jobs of a deleted target and their events go with it.\<close>

definition cascade_target :: "uuid \<Rightarrow> job_db \<Rightarrow> job_db" where
  "cascade_target t db =
     (let gone = map jw_id (filter (\<lambda>r. jw_target_id r = Some t) (jd_jobs db)) in
      db\<lparr>jd_targets := filter (\<lambda>x. fst x \<noteq> t) (jd_targets db),
         jd_jobs := filter (\<lambda>r. jw_target_id r \<noteq> Some t) (jd_jobs db),
         jd_events := filter (\<lambda>e. je_job_id e \<notin> set gone) (jd_events db)\<rparr>)"

end
