(* ===== verification/JobStoreLaws.thy ===== *)
theory JobStoreLaws
  imports JobStore
begin

text \<open>
  Laws of the job tables: the unique constraints and the agreement of the columns with the payload
  hold after any sequence of repository calls, whatever snapshots the claims worked on; so at most
  one job of a target is executing. A claim moves exactly one eligible queued job, and finds one
  when there is one.
\<close>

section \<open>The invariant\<close>

definition row_ok :: "job_row \<Rightarrow> bool" where
  "row_ok r \<longleftrightarrow> jw_id r = aj_id (jw_payload r) \<and> jw_target r = aj_target (jw_payload r)
     \<and> jw_target_id r = target_id_of (jw_target r)
     \<and> jw_idempotency_key r = aj_idempotency_key (jw_payload r)
     \<and> jw_status r = ansible_status_to_db (aj_status (jw_payload r))"

definition event_keys :: "job_db \<Rightarrow> (uuid \<times> nat) list" where
  "event_keys db = map (\<lambda>e. (je_job_id e, je_sequence e)) (jd_events db)"

definition job_db_ok :: "job_db \<Rightarrow> bool" where
  "job_db_ok db \<longleftrightarrow> unique_ok (jd_jobs db) \<and> list_all row_ok (jd_jobs db)
     \<and> (\<forall>r \<in> set (jd_jobs db). \<forall>t. jw_target_id r = Some t \<longrightarrow> t \<in> fst ` set (jd_targets db))
     \<and> distinct (event_keys db) \<and> je_job_id ` set (jd_events db) \<subseteq> jw_id ` set (jd_jobs db)"

lemma job_db_empty_ok: "job_db_ok job_db_empty"
  by (simp add: job_db_ok_def job_db_empty_def unique_ok_def event_keys_def)

lemma executing_to_db: "executing (ansible_status_to_db s) \<longleftrightarrow> s \<in> {JChecking, JPlanned, JApplying}"
  by (cases s) (simp_all add: executing_def)

lemma queued_to_db: "ansible_status_to_db s = lit ''queued'' \<longleftrightarrow> s = JQueued"
  by (cases s) simp_all

lemma to_db_active:
  "is_active_ansible_job_status (ansible_status_to_db s) \<longleftrightarrow>
     s \<in> {JChecking, JPlanned, JApplying, JReconcileRequired}"
  by (cases s) (simp_all add: is_active_ansible_job_status_def)

lemma set_job_simps [simp]:
  "jw_id (set_job j r) = jw_id r" "jw_target (set_job j r) = jw_target r"
  "jw_target_id (set_job j r) = jw_target_id r"
  "jw_idempotency_key (set_job j r) = jw_idempotency_key r"
  "jw_created_at (set_job j r) = jw_created_at r"
  by (simp_all add: set_job_def)

section \<open>Writing a job\<close>

text \<open>A job that differs from a stored one in its status and its update time only.\<close>

definition restatus :: "ansible_job_status \<Rightarrow> timestamp \<Rightarrow> ansible_job \<Rightarrow> ansible_job" where
  "restatus s t j = j\<lparr>aj_status := s, aj_updated_at := t\<rparr>"

lemma restatus_simps [simp]:
  "aj_id (restatus s t j) = aj_id j" "aj_target (restatus s t j) = aj_target j"
  "aj_idempotency_key (restatus s t j) = aj_idempotency_key j" "aj_status (restatus s t j) = s"
  "aj_operation (restatus s t j) = aj_operation j" "aj_mode (restatus s t j) = aj_mode j"
  "restatus s' t' (restatus s t j) = restatus s' t' j"
  by (simp_all add: restatus_def)

lemma row_unique:
  assumes "job_db_ok db" "r \<in> set (jd_jobs db)" "r' \<in> set (jd_jobs db)" "jw_id r = jw_id r'"
  shows "r = r'"
  using assms inj_on_eq_iff [of jw_id "set (jd_jobs db)" r r']
  by (simp add: job_db_ok_def unique_ok_def distinct_map)

lemma row_ok_set_job:
  assumes "job_db_ok db" "row \<in> set (jd_jobs db)" "r \<in> set (jd_jobs db)"
  shows "row_ok (set_job (restatus s t (jw_payload row)) r)"
proof (cases "jw_id r = jw_id row")
  case True
  with row_unique [OF assms(1,3,2)] have "r = row" by simp
  with assms show ?thesis
    by (auto simp: row_ok_def set_job_def job_db_ok_def list_all_iff)
next
  case False
  with assms show ?thesis
    by (auto simp: set_job_def job_db_ok_def list_all_iff row_ok_def)
qed

lemma write_job_ok:
  assumes ok: "job_db_ok db" and row: "row \<in> set (jd_jobs db)"
    and w: "write_job (restatus s t (jw_payload row)) db = Some db'"
  shows "job_db_ok db'" and "jd_events db' = jd_events db" and "jd_targets db' = jd_targets db"
    and "jd_jobs db' = map (set_job (restatus s t (jw_payload row))) (jd_jobs db)"
proof -
  show d: "jd_events db' = jd_events db" "jd_targets db' = jd_targets db"
      "jd_jobs db' = map (set_job (restatus s t (jw_payload row))) (jd_jobs db)"
    using w by (auto simp: write_job_def Let_def split: if_splits)
  have "unique_ok (jd_jobs db')" using w by (auto simp: write_job_def Let_def split: if_splits)
  moreover have "jw_id ` set (jd_jobs db') = jw_id ` set (jd_jobs db)" by (simp add: d image_image)
  ultimately show "job_db_ok db'"
    using ok row_ok_set_job [OF ok row]
    by (auto simp: job_db_ok_def list_all_iff event_keys_def d)
qed

lemma le_fold_max: "(m :: nat) \<in> insert a (set xs) \<Longrightarrow> m \<le> fold max xs a"
proof (induction xs arbitrary: a m)
  case (Cons x xs)
  have "max x a \<le> fold max xs (max x a)" by (rule Cons.IH) simp
  with Cons show ?case by auto
qed simp

lemma next_sequence_fresh: "(i, next_sequence i db) \<notin> set (event_keys db)"
proof
  assume "(i, next_sequence i db) \<in> set (event_keys db)"
  then have "next_sequence i db \<in> set (map je_sequence (filter (\<lambda>e. je_job_id e = i) (jd_events db)))"
    by (auto simp: event_keys_def)
  from le_fold_max [OF insertI2 [OF this], of 0] show False by (simp add: next_sequence_def)
qed

lemma append_status_event_ok:
  assumes "job_db_ok db" "i \<in> jw_id ` set (jd_jobs db)"
  shows "job_db_ok (append_status_event now i s db)"
  using assms next_sequence_fresh [of i db]
  by (auto simp: job_db_ok_def append_status_event_def event_keys_def)

lemma append_status_event_jobs [simp]:
  "jd_jobs (append_status_event now i s db) = jd_jobs db"
  "jd_targets (append_status_event now i s db) = jd_targets db"
  by (simp_all add: append_status_event_def)

lemma append_statuses_ok:
  "job_db_ok db \<Longrightarrow> i \<in> jw_id ` set (jd_jobs db) \<Longrightarrow> job_db_ok (fold (append_status_event now i) ss db)"
  by (induction ss arbitrary: db) (auto simp: append_status_event_ok)

section \<open>Claims\<close>

lemma find_SomeD: "List.find P xs = Some x \<Longrightarrow> x \<in> set xs \<and> P x"
  by (auto simp: find_Some_iff)

lemma lock_candidateD:
  assumes "lock_candidate p locked seen db = Some r" and "job_db_ok db"
  shows "r \<in> set (jd_jobs db) \<and> jw_status r = lit ''queued'' \<and> aj_status (jw_payload r) = JQueued
    \<and> jw_id r \<notin> set locked \<and> (\<exists>c \<in> set (jd_jobs seen). p c \<and> jw_id c = jw_id r)"
proof -
  from assms(1) obtain c where c: "c \<in> set (jd_jobs seen)" "p c" "jw_id c \<notin> set locked"
      and q: "\<exists>q \<in> set (jd_jobs db). jw_id q = jw_id c \<and> jw_status q = lit ''queued''"
      and r: "r \<in> set (jd_jobs db)" "jw_id r = jw_id c"
    by (fastforce simp: lock_candidate_def list_ex_iff split: option.splits dest!: find_SomeD)
  from q r have "jw_status r = lit ''queued''" using row_unique [OF assms(2)] by metis
  moreover from this r have "aj_status (jw_payload r) = JQueued"
    using assms(2) by (auto simp: job_db_ok_def list_all_iff row_ok_def queued_to_db)
  ultimately show ?thesis using c r by auto
qed

lemma job_transition_restatus:
  "job_transition_to s t j = Inr j' \<longleftrightarrow> job_can_transition_to (aj_status j) s \<and> j' = restatus s t j"
  by (auto simp: job_transition_to_def restatus_def)

lemma claim_next_queued_cases:
  assumes c: "claim_next_queued env up locked seen now db = (r, db')" and ok: "job_db_ok db"
  shows "db' = db \<and> (\<forall>j. r \<noteq> Inr (Some j)) \<or>
    (\<exists>row c db1. row \<in> set (jd_jobs db) \<and> aj_status (jw_payload row) = JQueued \<and> jw_id row \<notin> set locked
       \<and> c \<in> set (jd_jobs seen) \<and> claimable env seen c \<and> jw_id c = jw_id row
       \<and> r = Inr (Some (restatus JChecking now (jw_payload row)))
       \<and> write_job (restatus JChecking now (jw_payload row)) db = Some db1
       \<and> db' = append_status_event now (jw_id row) JChecking db1)"
proof (cases "lock_candidate (claimable env seen) locked seen db")
  case None
  with c show ?thesis by (cases up) (auto simp: claim_next_queued_def)
next
  case (Some row)
  note l = lock_candidateD [OF Some ok]
  have t: "job_transition_to JChecking now (jw_payload row) = Inr (restatus JChecking now (jw_payload row))"
    using l by (simp add: job_transition_restatus)
  have i: "aj_id (jw_payload row) = jw_id row"
    using l ok by (auto simp: job_db_ok_def list_all_iff row_ok_def)
  show ?thesis
    using c l Some t i
    by (cases up; cases "write_job (restatus JChecking now (jw_payload row)) db")
       (auto simp: claim_next_queued_def)
qed

lemma start_windows_job_Inr:
  assumes "start_windows_job now j = Inr (j', ss)"
  shows "j' = restatus (if aj_mode j = ModeApply then JApplying else JChecking) now j \<and> ss \<noteq> []
    \<and> aj_status j = JQueued"
  using assms
  by (auto simp: start_windows_job_def bindR_Inr_iff job_transition_restatus split: if_splits)
     (cases "aj_status j"; simp)+

lemma restatus_written_ok:
  assumes "job_db_ok db" "row \<in> set (jd_jobs db)" "write_job (restatus s t (jw_payload row)) db = Some db1"
  shows "job_db_ok (fold (append_status_event now (aj_id (jw_payload row))) ss db1)"
proof -
  have "aj_id (jw_payload row) \<in> jw_id ` set (jd_jobs db1)"
    using assms(1,2) write_job_ok(4) [OF assms]
    by (auto simp: job_db_ok_def list_all_iff row_ok_def image_image)
  with write_job_ok(1) [OF assms] show ?thesis by (rule append_statuses_ok)
qed

lemma claim_ok:
  assumes "job_db_ok db"
  shows "job_db_ok (snd (claim_next_queued env up locked seen now db))"
proof -
  obtain r db' where c: "claim_next_queued env up locked seen now db = (r, db')" by fastforce
  from claim_next_queued_cases [OF c assms] show ?thesis
  proof (elim disjE exE conjE)
    fix row c' db1
    assume "row \<in> set (jd_jobs db)" "write_job (restatus JChecking now (jw_payload row)) db = Some db1"
      and d: "db' = append_status_event now (jw_id row) JChecking db1"
    moreover from this have "aj_id (jw_payload row) = jw_id row"
      using assms by (auto simp: job_db_ok_def list_all_iff row_ok_def)
    ultimately show ?thesis
      using restatus_written_ok [OF assms, of row JChecking now db1 now "[JChecking]"] c by simp
  qed (use c assms in simp)
qed

lemma claim_windows_ok:
  assumes "job_db_ok db"
  shows "job_db_ok (snd (claim_next_windows_agent_job up locked seen now t db))"
proof (cases "up \<and> lock_candidate (windows_claimable t seen) locked seen db \<noteq> None")
  case False
  with assms show ?thesis by (cases up) (auto simp: claim_next_windows_agent_job_def)
next
  case True
  then obtain row where l: "lock_candidate (windows_claimable t seen) locked seen db = Some row" by auto
  note lc = lock_candidateD [OF l assms]
  show ?thesis
  proof (cases "start_windows_job now (jw_payload row)")
    case (Inl e)
    with True l assms show ?thesis by (simp add: claim_next_windows_agent_job_def)
  next
    case (Inr x)
    obtain j ss where x: "x = (j, ss)" by fastforce
    from start_windows_job_Inr Inr x obtain s where j: "j = restatus s now (jw_payload row)" by metis
    show ?thesis
      using True l Inr x j assms restatus_written_ok [OF assms, of row s now _ now ss] lc
      by (cases "write_job j db") (auto simp: claim_next_windows_agent_job_def)
  qed
qed

lemma retry_job_cases:
  assumes c: "retry_job up now i db = (r, db')" and ok: "job_db_ok db"
  shows "db' = db \<and> (\<exists>e. r = Inl e) \<or>
    (\<exists>row db1. row \<in> set (jd_jobs db) \<and> jw_id row = i \<and> aj_status (jw_payload row) = JFailed
       \<and> \<not> (aj_operation (jw_payload row) = OpUpdatePackages \<and> aj_mode (jw_payload row) = ModeApply)
       \<and> r = Inr (restatus JQueued now (jw_payload row))
       \<and> write_job (restatus JQueued now (jw_payload row)) db = Some db1
       \<and> db' = append_status_event now i JQueued db1)"
proof (cases "List.find (\<lambda>r. jw_id r = i) (jd_jobs db)")
  case None
  with c show ?thesis by (cases up) (auto simp: retry_job_def)
next
  case (Some row)
  note f = find_SomeD [OF Some]
  have t: "aj_status (jw_payload row) = JFailed \<Longrightarrow>
      job_transition_to JQueued now (jw_payload row) = Inr (restatus JQueued now (jw_payload row))"
    by (simp add: job_transition_restatus)
  show ?thesis
    using c Some f t
    by (cases up; cases "write_job (restatus JQueued now (jw_payload row)) db")
       (auto simp: retry_job_def Let_def split: if_splits)
qed

lemma retry_job_ok:
  assumes "job_db_ok db"
  shows "job_db_ok (snd (retry_job up now i db))"
proof -
  obtain r db' where c: "retry_job up now i db = (r, db')" by fastforce
  from retry_job_cases [OF c assms] show ?thesis
  proof (elim disjE exE conjE)
    fix row db1
    assume "row \<in> set (jd_jobs db)" "write_job (restatus JQueued now (jw_payload row)) db = Some db1"
      and d: "db' = append_status_event now i JQueued db1" "jw_id row = i"
    moreover from this have "aj_id (jw_payload row) = i"
      using assms by (auto simp: job_db_ok_def list_all_iff row_ok_def)
    ultimately show ?thesis
      using restatus_written_ok [OF assms, of row JQueued now db1 now "[JQueued]"] c by simp
  qed (use c assms in simp)
qed

section \<open>The other operations\<close>

lemma save_job_ok:
  assumes "job_db_ok db"
  shows "job_db_ok (snd (save_job up j db))"
  using assms
  by (cases up) (auto simp: save_job_def Let_def job_db_ok_def event_keys_def row_ok_def row_of_job_def
      split: option.splits)

lemma update_job_ok:
  assumes "job_db_ok db" "row \<in> set (jd_jobs db)"
  shows "job_db_ok (snd (update_job up (restatus s t (jw_payload row)) db))"
  using assms write_job_ok(1) [OF assms, of s t]
  by (cases up) (auto simp: update_job_def split: option.splits)

lemma append_job_event_ok:
  assumes "job_db_ok db"
  shows "job_db_ok (snd (append_job_event up e db))"
  using assms by (cases up) (auto simp: append_job_event_def job_db_ok_def event_keys_def)

lemma cascade_target_ok:
  assumes "job_db_ok db"
  shows "job_db_ok (cascade_target t db)"
proof -
  let ?p = "\<lambda>r. jw_target_id r \<noteq> Some t"
  have f: "filter (\<lambda>r. executing (jw_status r)) (filter ?p rows) = filter ?p (filter (\<lambda>r. executing (jw_status r)) rows)"
    for rows by (simp add: conj_commute)
  have "unique_ok (filter ?p (jd_jobs db))"
    using assms unfolding job_db_ok_def unique_ok_def f by (simp only: distinct_map_filter simp_thms)
  moreover have "distinct (event_keys (cascade_target t db))"
    using assms by (simp add: job_db_ok_def event_keys_def cascade_target_def Let_def distinct_map_filter)
  moreover have "je_job_id e \<in> jw_id ` set (filter ?p (jd_jobs db))"
    if "e \<in> set (jd_events (cascade_target t db))" for e
  proof -
    from that have e: "e \<in> set (jd_events db)"
        "je_job_id e \<notin> set (map jw_id (filter (\<lambda>r. jw_target_id r = Some t) (jd_jobs db)))"
      by (simp_all add: cascade_target_def Let_def)
    from assms e(1) obtain r where r: "r \<in> set (jd_jobs db)" "je_job_id e = jw_id r"
      unfolding job_db_ok_def by blast
    with e(2) have "?p r" by auto
    with r show ?thesis by auto
  qed
  moreover have "\<forall>r \<in> set (filter ?p (jd_jobs db)). \<forall>i. jw_target_id r = Some i \<longrightarrow>
      i \<in> fst ` set (filter (\<lambda>x. fst x \<noteq> t) (jd_targets db))"
  proof (intro ballI allI impI)
    fix r i assume r: "r \<in> set (filter ?p (jd_jobs db))" "jw_target_id r = Some i"
    with assms obtain x where "x \<in> set (jd_targets db)" "fst x = i" unfolding job_db_ok_def by force
    with r show "i \<in> fst ` set (filter (\<lambda>x. fst x \<noteq> t) (jd_targets db))" by auto
  qed
  ultimately show ?thesis
    using assms unfolding job_db_ok_def by (simp add: cascade_target_def Let_def list_all_iff subset_iff image_iff) blast
qed

section \<open>Sequences of repository calls\<close>

text \<open>
  One repository call. A stored job is rewritten only by its own status changes (every caller of
  \<open>update\<close> loads a job, moves its status and writes it back), targets are added and deleted by the
  target repository, and a claim may work on any snapshot \<open>seen\<close>.
\<close>

inductive job_store_step :: "ansible_env \<Rightarrow> job_db \<Rightarrow> job_db \<Rightarrow> bool" for env where
  store_save: "job_store_step env db (snd (save_job up j db))"
| store_update: "row \<in> set (jd_jobs db) \<Longrightarrow>
    job_store_step env db (snd (update_job up (restatus s t (jw_payload row)) db))"
| store_event: "job_store_step env db (snd (append_job_event up e db))"
| store_claim: "job_store_step env db (snd (claim_next_queued env up locked seen now db))"
| store_claim_windows: "job_store_step env db (snd (claim_next_windows_agent_job up locked seen now target db))"
| store_retry: "job_store_step env db (snd (retry_job up now i db))"
| store_target: "job_store_step env db (db\<lparr>jd_targets := jd_targets db @ [(target, kind)]\<rparr>)"
| store_delete: "job_store_step env db (cascade_target target db)"

inductive job_store_reachable :: "ansible_env \<Rightarrow> job_db \<Rightarrow> bool" for env where
  store_empty: "job_store_reachable env job_db_empty"
| store_step: "job_store_reachable env db \<Longrightarrow> job_store_step env db db' \<Longrightarrow> job_store_reachable env db'"

inductive_cases job_store_stepE: "job_store_step env db db'"

lemma job_store_step_ok: "job_store_step env db db' \<Longrightarrow> job_db_ok db \<Longrightarrow> job_db_ok db'"
proof (induction rule: job_store_step.induct)
  case (store_target db target kind)
  then show ?case by (fastforce simp: job_db_ok_def event_keys_def)
qed (simp_all add: save_job_ok update_job_ok append_job_event_ok claim_ok claim_windows_ok retry_job_ok
    cascade_target_ok)

lemma job_store_reachable_ok: "job_store_reachable env db \<Longrightarrow> job_db_ok db"
  by (induction rule: job_store_reachable.induct) (auto simp: job_db_empty_ok intro: job_store_step_ok)

lemma unique_executing:
  assumes "job_db_ok db" "r \<in> set (jd_jobs db)" "r' \<in> set (jd_jobs db)" "jw_target r = jw_target r'"
    "executing (jw_status r)" "executing (jw_status r')"
  shows "r = r'"
  using assms
    inj_on_eq_iff [of jw_target "{r \<in> set (jd_jobs db). executing (jw_status r)}" r r']
  by (simp add: job_db_ok_def unique_ok_def distinct_map)

lemma unique_key:
  assumes "job_db_ok db" "r \<in> set (jd_jobs db)" "r' \<in> set (jd_jobs db)" "jw_target r = jw_target r'"
    "jw_idempotency_key r = jw_idempotency_key r'"
  shows "r = r'"
  using assms
    inj_on_eq_iff [of "\<lambda>r. (jw_target r, jw_idempotency_key r)" "set (jd_jobs db)" r r']
  by (simp add: job_db_ok_def unique_ok_def distinct_map)

section \<open>Progress of a claim\<close>

lemma claimable_write:
  assumes ok: "job_db_ok db" and row: "row \<in> set (jd_jobs db)" and c: "claimable env db row"
  shows "\<exists>db1. write_job (restatus JChecking now (jw_payload row)) db = Some db1"
proof -
  let ?j = "restatus JChecking now (jw_payload row)"
  let ?rows = "map (set_job ?j) (jd_jobs db)"
  have i: "aj_id ?j = jw_id row" using ok row by (auto simp: job_db_ok_def list_all_iff row_ok_def)
  have ex: "executing (jw_status (set_job ?j r)) \<longleftrightarrow> r = row \<or> executing (jw_status r)"
    if "r \<in> set (jd_jobs db)" for r
    using row_unique [OF ok that row] i by (auto simp: set_job_def executing_def)
  have "distinct (jd_jobs db)" using ok by (auto simp: job_db_ok_def unique_ok_def distinct_map)
  moreover have "inj_on jw_target {r \<in> set (jd_jobs db). r = row \<or> executing (jw_status r)}"
    using unique_executing [OF ok] c by (auto simp: inj_on_def claimable_def list_ex_iff)
  moreover have "map jw_target (filter (\<lambda>r. executing (jw_status r)) ?rows)
      = map jw_target (filter (\<lambda>r. r = row \<or> executing (jw_status r)) (jd_jobs db))"
    using ex by (simp add: filter_map comp_def cong: filter_cong)
  ultimately have "distinct (map jw_target (filter (\<lambda>r. executing (jw_status r)) ?rows))"
    by (simp add: distinct_map)
  moreover have "map jw_id ?rows = map jw_id (jd_jobs db)"
    "map (\<lambda>r. (jw_target r, jw_idempotency_key r)) ?rows
       = map (\<lambda>r. (jw_target r, jw_idempotency_key r)) (jd_jobs db)"
    by (simp_all add: comp_def)
  ultimately have "unique_ok ?rows"
    using ok unfolding unique_ok_def job_db_ok_def by (simp only:)
  then show ?thesis by (simp add: write_job_def)
qed

lemma find_sorted_least:
  assumes "List.find P (sort_key f xs) = Some x" "y \<in> set xs" "P y"
  shows "f x \<le> f y"
proof -
  from assms(1) obtain i where i: "i < length (sort_key f xs)" "P (sort_key f xs ! i)"
      "x = sort_key f xs ! i" "\<forall>j < i. \<not> P (sort_key f xs ! j)"
    by (auto simp: find_Some_iff)
  from assms(2) obtain j where j: "j < length (sort_key f xs)" "y = sort_key f xs ! j"
    by (metis in_set_conv_nth set_sort)
  with i assms(3) have "i \<le> j" by (metis not_less)
  with j i sorted_sort_key [of f xs] show ?thesis
    by (simp add: sorted_iff_nth_mono)
qed

lemma lock_candidate_progress:
  assumes ok: "job_db_ok db" and c: "c \<in> set (jd_jobs db)" "p c" "jw_status c = lit ''queued''"
    "jw_id c \<notin> set locked" and queued: "\<And>r. p r \<Longrightarrow> jw_status r = lit ''queued''"
  shows "\<exists>r. lock_candidate p locked db db = Some r \<and> r \<in> set (jd_jobs db) \<and> p r
    \<and> jw_created_at r \<le> jw_created_at c"
proof -
  let ?P = "\<lambda>c. jw_id c \<notin> set locked \<and> list_ex (\<lambda>r. jw_id r = jw_id c \<and> jw_status r = lit ''queued'') (jd_jobs db)"
  let ?rows = "filter p (jd_jobs db)"
  have "?P c" using c by (auto simp: list_ex_iff)
  with c have "List.find ?P (sort_key jw_created_at ?rows) \<noteq> None"
    by (auto simp: find_None_iff)
  then obtain x where x: "List.find ?P (sort_key jw_created_at ?rows) = Some x" by auto
  from find_SomeD [OF x] have xr: "x \<in> set (jd_jobs db)" "p x" by auto
  then obtain r where r: "List.find (\<lambda>r. jw_id r = jw_id x) (jd_jobs db) = Some r"
    by (cases "List.find (\<lambda>r. jw_id r = jw_id x) (jd_jobs db)") (auto simp: find_None_iff)
  with find_SomeD [OF r] row_unique [OF ok _ xr(1)] have "r = x" by blast
  moreover have "jw_created_at x \<le> jw_created_at c"
    by (rule find_sorted_least [OF x]) (use c \<open>?P c\<close> in auto)
  ultimately show ?thesis using x r xr by (simp add: lock_candidate_def)
qed

section \<open>Claims that race\<close>

definition target_free :: "job_db \<Rightarrow> resource_target \<Rightarrow> bool" where
  "target_free db t \<longleftrightarrow> list_all (\<lambda>r. jw_target r = t \<longrightarrow> \<not> executing (jw_status r)) (jd_jobs db)"

text \<open>
  A claim that took a job: the job was queued and its target free, in the snapshot of the claim and in
  the tables it changes. Its row and its new status events are all that changed.
\<close>

definition exclusive_claim ::
  "uuid list \<Rightarrow> job_db \<Rightarrow> timestamp \<Rightarrow> job_db \<Rightarrow> ansible_job \<Rightarrow> job_db \<Rightarrow> bool" where
  "exclusive_claim locked seen now db j db' \<longleftrightarrow>
     (\<exists>row \<in> set (jd_jobs db). jw_id row \<notin> set locked \<and> aj_status (jw_payload row) = JQueued
        \<and> target_free db (jw_target row)
        \<and> (\<exists>c \<in> set (jd_jobs seen). jw_id c = jw_id row \<and> aj_status (jw_payload c) = JQueued
             \<and> target_free seen (jw_target c))
        \<and> aj_status j \<in> {JChecking, JApplying} \<and> j = restatus (aj_status j) now (jw_payload row)
        \<and> jd_jobs db' = map (set_job j) (jd_jobs db)
        \<and> (\<exists>es. jd_events db' = jd_events db @ es \<and> list_all (\<lambda>e. je_job_id e = jw_id row) es))"

lemma append_statuses_jobs: "jd_jobs (fold (append_status_event now i) ss db) = jd_jobs db"
  by (induction ss arbitrary: db) simp_all

lemma append_statuses_events:
  "\<exists>es. jd_events (fold (append_status_event now i) ss db) = jd_events db @ es \<and> list_all (\<lambda>e. je_job_id e = i) es"
proof (induction ss arbitrary: db)
  case (Cons s ss)
  from Cons [of "append_status_event now i s db"] show ?case
    by (auto simp: append_status_event_def)
qed simp

lemma claimed_target_free:
  assumes ok: "job_db_ok db" and row: "row \<in> set (jd_jobs db)" "aj_status (jw_payload row) = JQueued"
    and w: "write_job (restatus s now (jw_payload row)) db = Some db1" and s: "s \<in> {JChecking, JApplying}"
  shows "target_free db (jw_target row)"
proof -
  let ?j = "restatus s now (jw_payload row)"
  have i: "aj_id (jw_payload row) = jw_id row" and q: "jw_status row = lit ''queued''"
    using ok row by (auto simp: job_db_ok_def list_all_iff row_ok_def)
  have "\<not> executing (jw_status a)" if a: "a \<in> set (jd_jobs db)" "jw_target a = jw_target row" for a
  proof
    assume e: "executing (jw_status a)"
    then have "jw_id a \<noteq> jw_id row" using row_unique [OF ok a(1) row(1)] q by (auto simp: executing_def)
    moreover from this have "set_job ?j a = a" by (simp add: set_job_def i)
    moreover have "executing (jw_status (set_job ?j row))" using s by (auto simp: set_job_def i executing_to_db)
    ultimately show False
      using unique_executing [OF write_job_ok(1) [OF ok row(1) w], of "set_job ?j a" "set_job ?j row"]
        write_job_ok(4) [OF ok row(1) w] a row(1) e by (metis image_eqI list.set_map set_job_simps(1,2))
  qed
  then show ?thesis by (simp add: target_free_def list_all_iff)
qed

lemma claimed_exclusive:
  assumes ok: "job_db_ok db" and l: "lock_candidate p locked seen db = Some row"
    and p: "\<And>c. c \<in> set (jd_jobs seen) \<Longrightarrow> p c \<Longrightarrow> aj_status (jw_payload c) = JQueued \<and> target_free seen (jw_target c)"
    and w: "write_job (restatus s now (jw_payload row)) db = Some db1" and s: "s \<in> {JChecking, JApplying}"
  shows "exclusive_claim locked seen now db (restatus s now (jw_payload row))
    (fold (append_status_event now (aj_id (jw_payload row))) ss db1)"
proof -
  note lc = lock_candidateD [OF l ok]
  from lc ok have i: "aj_id (jw_payload row) = jw_id row" by (auto simp: job_db_ok_def list_all_iff row_ok_def)
  have "target_free db (jw_target row)" using lc by (intro claimed_target_free [OF ok _ _ w s]) auto
  moreover have "\<exists>c \<in> set (jd_jobs seen). jw_id c = jw_id row \<and> aj_status (jw_payload c) = JQueued
      \<and> target_free seen (jw_target c)" using lc p by blast
  moreover have "row \<in> set (jd_jobs db)" using lc by blast
  moreover note write_job_ok(2,4) [OF ok this w] append_statuses_events [of now "jw_id row" ss db1]
  ultimately show ?thesis
    unfolding exclusive_claim_def using lc s
    by (intro bexI [of _ row]) (simp_all add: append_statuses_jobs i)
qed

text \<open>The \<open>WHERE\<close> clauses of both claims select queued jobs of free targets.\<close>

lemma claimable_free:
  assumes "job_db_ok seen" "c \<in> set (jd_jobs seen)" "claimable env seen c"
  shows "aj_status (jw_payload c) = JQueued \<and> target_free seen (jw_target c)"
  using assms by (auto simp: claimable_def target_free_def list_all_iff list_ex_iff job_db_ok_def row_ok_def queued_to_db)

lemma windows_claimable_free:
  assumes ok: "job_db_ok seen" and c: "c \<in> set (jd_jobs seen)" "windows_claimable t seen c"
  shows "aj_status (jw_payload c) = JQueued \<and> target_free seen (jw_target c)"
proof -
  have "jw_target_id r = target_id_of (jw_target r)" if "r \<in> set (jd_jobs seen)" for r
    using ok that by (auto simp: job_db_ok_def list_all_iff row_ok_def)
  moreover have "jw_status c = ansible_status_to_db (aj_status (jw_payload c))"
    using ok c(1) by (auto simp: job_db_ok_def list_all_iff row_ok_def)
  ultimately show ?thesis
    using c by (auto simp: windows_claimable_def target_free_def list_all_iff list_ex_iff queued_to_db)
qed

section \<open>An example\<close>

definition store_env :: ansible_env where
  "store_env = \<lparr>ae_to_vec = (\<lambda>_. []), ae_sha256 = (\<lambda>b. b), ae_uuid_to_string = (\<lambda>u. [unat u]),
     ae_uuid_parse = (\<lambda>s. case s of [n] \<Rightarrow> Some (of_nat n) | _ \<Rightarrow> None)\<rparr>"

definition store_job :: "uuid \<Rightarrow> str \<Rightarrow> timestamp \<Rightarrow> ansible_job" where
  "store_job i key t = \<lparr>aj_id = i, aj_operation = OpHealthCheck, aj_playbook = lit ''target/health-check.yml'',
     aj_playbook_version = lit ''1'', aj_target = Node 1, aj_mode = ModeCheck,
     aj_parameters = ParamHealthCheck, aj_secret_refs = [], aj_idempotency_key = key,
     aj_parameter_hash = [], aj_status = JQueued, aj_created_at = t, aj_updated_at = t\<rparr>"

definition store_two :: job_db where
  "store_two = snd (save_job True (store_job 2 (lit ''b'') 20) (snd (save_job True (store_job 1 (lit ''a'') 10) job_db_empty)))"

definition store_claimed :: job_db where
  "store_claimed = snd (claim_next_queued store_env True [] store_two 30 store_two)"

text \<open>A second worker that still works on the first worker's snapshot.\<close>

definition store_raced :: "ansible_job option repo_result \<times> job_db" where
  "store_raced = claim_next_queued store_env True [1] store_two 31 store_claimed"

lemma store_two_reachable: "job_store_reachable store_env store_two"
  unfolding store_two_def by (rule store_step [OF store_step [OF store_empty store_save] store_save])

lemma store_claimed_reachable: "job_store_reachable store_env store_claimed"
  unfolding store_claimed_def by (rule store_step [OF store_two_reachable store_claim])

section \<open>Properties\<close>

text \<open>
  The unique indexes of the job table: whatever calls reach the job repository in whatever order, at
  most one job of a target is in an executing state, and an idempotency key names at most one job
  of a target.
\<close>

theorem one_executing_job_per_target:
  assumes "job_store_reachable env db"
    and "r \<in> set (jd_jobs db)" and "r' \<in> set (jd_jobs db)"
    and "aj_target (jw_payload r) = aj_target (jw_payload r')"
    and "aj_idempotency_key (jw_payload r) = aj_idempotency_key (jw_payload r') \<or>
      {aj_status (jw_payload r), aj_status (jw_payload r')} \<subseteq> {JChecking, JPlanned, JApplying}"
  shows "r = r'"
proof -
  note ok = job_store_reachable_ok [OF assms(1)]
  from ok assms(2,3) have "row_ok r" "row_ok r'" by (auto simp: job_db_ok_def list_all_iff)
  with assms(4,5) show ?thesis
    using unique_executing [OF ok assms(2,3)] unique_key [OF ok assms(2,3)]
    by (auto simp: row_ok_def executing_to_db)
qed

theorem one_executing_job_per_target_witness:
  "\<exists>r r'. jd_jobs (snd store_raced) = [r, r'] \<and> aj_status (jw_payload r) = JChecking
     \<and> aj_status (jw_payload r') \<notin> {JChecking, JPlanned, JApplying} \<and> fst store_raced = Inr None"
proof -
  have "job_store_reachable store_env (snd store_raced)"
    unfolding store_raced_def by (rule store_step [OF store_claimed_reachable store_claim])
  note one = one_executing_job_per_target [OF this]
  have "length (jd_jobs (snd store_raced)) = 2 \<and> map jw_id (jd_jobs (snd store_raced)) = [1, 2]
      \<and> aj_status (jw_payload (hd (jd_jobs (snd store_raced)))) = JChecking
      \<and> map (\<lambda>r. aj_target (jw_payload r)) (jd_jobs (snd store_raced)) = [Node 1, Node 1]
      \<and> fst store_raced = Inr None"
    by code_simp
  then obtain r r' where "jd_jobs (snd store_raced) = [r, r']" "jw_id r \<noteq> jw_id r'"
      "aj_status (jw_payload r) = JChecking" "aj_target (jw_payload r) = aj_target (jw_payload r')"
      "fst store_raced = Inr None"
    by (auto simp: length_Suc_conv numeral_2_eq_2)
  with one [of r r'] show ?thesis by auto
qed

text \<open>
  C22. Two claims never start two jobs of one target. A claim of a worker or of a Windows agent reads an
  earlier state of the tables, skips the rows other claims have locked, and changes the tables as
  they are by then. Either it takes no job and changes nothing, whatever it answers; or it takes a
  job that was queued and whose target had no executing job, in the state it read and in the state
  it changes. It then changes the status and the time of that job and appends events of that job, and
  nothing else.
\<close>

theorem claim_exclusive:
  assumes "job_store_reachable env db" and "job_store_reachable env seen"
  shows "(case claim_next_queued env up locked seen now db of
       (Inr (Some j), db') \<Rightarrow> exclusive_claim locked seen now db j db' | (_, db') \<Rightarrow> db' = db)
    \<and> (case claim_next_windows_agent_job up locked seen now t db of
       (Inr (Some j), db') \<Rightarrow> exclusive_claim locked seen now db j db' | (_, db') \<Rightarrow> db' = db)"
proof
  note ok = job_store_reachable_ok [OF assms(1)] and oks = job_store_reachable_ok [OF assms(2)]
  show "case claim_next_queued env up locked seen now db of
      (Inr (Some j), db') \<Rightarrow> exclusive_claim locked seen now db j db' | (_, db') \<Rightarrow> db' = db"
  proof (cases "up \<and> lock_candidate (claimable env seen) locked seen db \<noteq> None")
    case True
    then obtain row where l: "lock_candidate (claimable env seen) locked seen db = Some row" by auto
    have t: "job_transition_to JChecking now (jw_payload row) = Inr (restatus JChecking now (jw_payload row))"
      using lock_candidateD [OF l ok] by (simp add: job_transition_restatus)
    show ?thesis
      using claimed_exclusive [OF ok l claimable_free [OF oks], where s = JChecking and now = now and ss = "[JChecking]"] True l t
      by (cases "write_job (restatus JChecking now (jw_payload row)) db") (simp_all add: claim_next_queued_def)
  qed (cases up; simp add: claim_next_queued_def)
  show "case claim_next_windows_agent_job up locked seen now t db of
      (Inr (Some j), db') \<Rightarrow> exclusive_claim locked seen now db j db' | (_, db') \<Rightarrow> db' = db"
  proof (cases "up \<and> lock_candidate (windows_claimable t seen) locked seen db \<noteq> None")
    case True
    then obtain row where l: "lock_candidate (windows_claimable t seen) locked seen db = Some row" by auto
    show ?thesis
    proof (cases "start_windows_job now (jw_payload row)")
      case (Inr x)
      obtain j ss where x: "x = (j, ss)" by fastforce
      from start_windows_job_Inr [OF Inr [unfolded x]] obtain s where s: "s \<in> {JChecking, JApplying}"
          and j: "j = restatus s now (jw_payload row)"
        by (cases "aj_mode (jw_payload row) = ModeApply") auto
      show ?thesis
        using claimed_exclusive [OF ok l windows_claimable_free [OF oks] _ s, where ss = ss] True l Inr x j
        by (cases "write_job j db") (simp_all add: claim_next_windows_agent_job_def)
    qed (use True l in \<open>simp add: claim_next_windows_agent_job_def\<close>)
  qed (cases up; simp add: claim_next_windows_agent_job_def)
qed

theorem claim_exclusive_witness:
  "\<exists>j. fst (claim_next_queued store_env True [] store_two 30 store_two) = Inr (Some j)
     \<and> exclusive_claim [] store_two 30 store_two j store_claimed
     \<and> snd (claim_next_queued store_env True [1] store_two 31 store_claimed) = store_claimed"
proof -
  have "case fst (claim_next_queued store_env True [] store_two 30 store_two) of Inr (Some j) \<Rightarrow> True | _ \<Rightarrow> False"
    by code_simp
  then obtain j where "fst (claim_next_queued store_env True [] store_two 30 store_two) = Inr (Some j)"
    by (auto split: sum.splits option.splits)
  then have c: "claim_next_queued store_env True [] store_two 30 store_two = (Inr (Some j), store_claimed)"
    by (metis prod.collapse store_claimed_def)
  have "fst store_raced = Inr None" by code_simp
  then have r: "claim_next_queued store_env True [1] store_two 31 store_claimed = (Inr None, snd store_raced)"
    by (metis prod.collapse store_raced_def)
  show ?thesis
    using claim_exclusive [OF store_two_reachable store_two_reachable, where up = True and locked = "[]" and now = 30 and t = 0]
      claim_exclusive [OF store_claimed_reachable store_two_reachable, where up = True and locked = "[1]" and now = 31 and t = 0]
    by (simp add: c r)
qed

text \<open>
  C25. A claim without interference takes the oldest claimable job that no other worker has locked: it
  finds one exactly when there is one, moves it from queued to checking, appends that status with
  the next sequence number and leaves every other job as it was. Claimable jobs are queued, not on
  a Windows target, and their target has no executing job and no job in need of reconciliation
  that the claimed job does not itself reconcile.
\<close>

theorem claim_takes_oldest:
  assumes ok: "job_store_reachable env db"
  shows "case claim_next_queued env True locked db now db of
     (r, db') \<Rightarrow>
       (if \<exists>c \<in> set (jd_jobs db). claimable env db c \<and> jw_id c \<notin> set locked then
          \<exists>row \<in> set (jd_jobs db). claimable env db row \<and> jw_id row \<notin> set locked
            \<and> (\<forall>c \<in> set (jd_jobs db). claimable env db c \<and> jw_id c \<notin> set locked
                 \<longrightarrow> jw_created_at row \<le> jw_created_at c)
            \<and> aj_status (jw_payload row) = JQueued
            \<and> r = Inr (Some (restatus JChecking now (jw_payload row)))
            \<and> jd_jobs db' = map (set_job (restatus JChecking now (jw_payload row))) (jd_jobs db)
            \<and> jd_events db' = jd_events db @ [\<lparr>je_sequence = next_sequence (jw_id row) db,
                 je_job_id = jw_id row, je_event = EvStatusChanged JChecking, je_created_at = now\<rparr>]
        else r = Inr None \<and> db' = db)"
proof -
  note inv = job_store_reachable_ok [OF ok]
  obtain r db' where c: "claim_next_queued env True locked db now db = (r, db')" by fastforce
  have claimable_queued: "claimable env db q \<Longrightarrow> jw_status q = lit ''queued''" for q
    by (simp add: claimable_def)
  show ?thesis
  proof (cases "lock_candidate (claimable env db) locked db db")
    case None
    then have "\<nexists>c. c \<in> set (jd_jobs db) \<and> claimable env db c \<and> jw_id c \<notin> set locked"
      using lock_candidate_progress [OF inv, of _ "claimable env db" locked] claimable_queued by fastforce
    with None show ?thesis by (auto simp: claim_next_queued_def)
  next
    case (Some row)
    note l = lock_candidateD [OF Some inv]
    from l row_unique [OF inv] have cl: "claimable env db row" by metis
    have least: "jw_created_at row \<le> jw_created_at q"
      if "q \<in> set (jd_jobs db)" "claimable env db q" "jw_id q \<notin> set locked" for q
      using lock_candidate_progress [OF inv that(1) _ _ that(3), of "claimable env db"] that
        claimable_queued Some by auto
    have t: "job_transition_to JChecking now (jw_payload row) = Inr (restatus JChecking now (jw_payload row))"
      using l by (simp add: job_transition_restatus)
    have i: "aj_id (jw_payload row) = jw_id row"
      using l inv by (auto simp: job_db_ok_def list_all_iff row_ok_def)
    from claimable_write [OF inv _ cl] l obtain db1
      where w: "write_job (restatus JChecking now (jw_payload row)) db = Some db1" by blast
    note wd = write_job_ok [OF inv _ w]
    have "next_sequence (jw_id row) db1 = next_sequence (jw_id row) db"
      using wd(2) l by (simp add: next_sequence_def)
    moreover have "claim_next_queued env True locked db now db =
        (Inr (Some (restatus JChecking now (jw_payload row))), append_status_event now (jw_id row) JChecking db1)"
      using Some t w i by (simp add: claim_next_queued_def)
    ultimately show ?thesis
      using l cl least wd by (auto simp: append_status_event_def)
  qed
qed

theorem claim_takes_oldest_witness:
  "fst (claim_next_queued store_env True [1] store_two 30 store_two) =
     Inr (Some (restatus JChecking 30 (store_job 2 (lit ''b'') 20)))"
proof -
  have "\<exists>c \<in> set (jd_jobs store_two). claimable store_env store_two c \<and> jw_id c \<notin> set [1]" by code_simp
  moreover have "\<forall>c \<in> set (jd_jobs store_two). claimable store_env store_two c \<and> jw_id c \<notin> set [1] \<longrightarrow>
      jw_payload c = store_job 2 (lit ''b'') 20" by code_simp
  ultimately show ?thesis
    using claim_takes_oldest [OF store_two_reachable, of "[1]" 30]
    by (auto split: prod.splits)
qed

end
