(* ===== verification/ServerState.thy ===== *)
theory ServerState
  imports JobStore Schedule Connections AgentParsers
begin

text \<open>
  The state the workflow handlers of \<open>lxcup-server\<close> share (\<open>ApiState\<close> and \<open>ApiStore\<close> in \<open>lib.rs\<close>):
  the resources kept in memory, the in-process job coordinator, and the job tables when the server
  runs with a database. \<open>up\<close> says which repository calls the database answers.
\<close>

record api_state =
  ap_targets :: "target list"
  ap_containers :: "container list"
  ap_update_policies :: "update_policy list"
  ap_schedules :: "job_schedule list"
  ap_ansible :: job_coordinator
  ap_repositories :: "job_db option"

datatype job_call =
    CallFindJob | CallListJobs | CallFindKey | CallHasActive | CallHasReconcile | CallSaveJob
  | CallJobEvents | CallAppendJobEvent nat | CallUpdateJob | CallRetryJob | CallClaimWindows

type_synonym job_calls = "job_call \<Rightarrow> bool"

definition CARGO_PKG_VERSION :: str where
  "CARGO_PKG_VERSION = lit ''0.6.0''"

definition find_target :: "uuid \<Rightarrow> api_state \<Rightarrow> target option" where
  "find_target i st = List.find (\<lambda>t. tg_id t = i) (ap_targets st)"

text \<open>\<open>Iterator::max_by_key\<close>: the last of the elements with the greatest key.\<close>

fun max_by_key :: "('a \<Rightarrow> 'b::linorder) \<Rightarrow> 'a list \<Rightarrow> 'a option" where
  "max_by_key f [] = None"
| "max_by_key f (x # xs) =
     (case max_by_key f xs of
        None \<Rightarrow> Some x
      | Some y \<Rightarrow> Some (if f x > f y then x else y))"

lemma max_by_key_None [simp]: "max_by_key f xs = None \<longleftrightarrow> xs = []"
  by (cases xs) (auto split: option.splits)

lemma max_by_key_Some:
  "max_by_key f xs = Some x \<Longrightarrow> x \<in> set xs \<and> (\<forall>y \<in> set xs. f y \<le> f x)"
proof (induction xs arbitrary: x)
  case (Cons a xs)
  then show ?case by (cases "max_by_key f xs") (auto split: if_splits)
qed simp

text \<open>The jobs the handlers look at: the table with a database, the coordinator without one.\<close>

definition all_jobs :: "job_calls \<Rightarrow> api_state \<Rightarrow> ansible_job list api_result" where
  "all_jobs up st =
     (case ap_repositories st of
        Some db \<Rightarrow> map_err (\<lambda>_. storage) (list_jobs (up CallListJobs) db)
      | None \<Rightarrow> Inr (jc_jobs_list (ap_ansible st)))"

end
