(* ===== verification/PackagePolicy.thy ===== *)
theory PackagePolicy
  imports ServerState
begin

text \<open>
  \<open>lxcup-server/src/workflows/package_policy.rs\<close> and \<open>workflows/jobs.rs\<close>: the gate that package
  updates pass (policy, plan, approval), the resolution of targets and credentials, and the
  handlers that create, retry and reconcile jobs. The environment variable with the configured
  secret ids is an argument.
\<close>

section \<open>Requests\<close>

record create_ansible_job_request =
  cr_operation :: ansible_operation
  cr_target_id :: "uuid option"
  cr_container_id :: u64
  cr_mode :: execution_mode
  cr_parameters :: ansible_parameters
  cr_idempotency_key :: str
  cr_confirmed :: bool
  cr_policy_id :: "str option"
  cr_approved_plan_job_id :: "uuid option"

definition plan_key_prefix :: "str \<Rightarrow> str" where
  "plan_key_prefix policy_id = lit ''package-plan:'' @ policy_id @ lit '':''"

definition apply_key_prefix :: "ansible_env \<Rightarrow> uuid \<Rightarrow> str" where
  "apply_key_prefix env plan_id = lit ''package-apply:'' @ ae_uuid_to_string env plan_id @ lit '':''"

section \<open>Errors of the coordinator as API errors\<close>

fun map_contract_error :: "ansible_contract_error \<Rightarrow> api_error" where
  "map_contract_error ContractPermissionDenied =
     forbidden (lit ''ansible_permission_denied'') (lit ''the role cannot run this operation'')"
| "map_contract_error ContractConfirmationRequired =
     bad_request (lit ''ansible_confirmation_required'') (lit ''the operation requires explicit confirmation'')"
| "map_contract_error MissingSecretReference =
     dependency (lit ''secret_reference_missing'') (lit ''the operation has no configured credential reference'')"
| "map_contract_error UnsupportedTarget =
     bad_request (lit ''ansible_target_invalid'') (lit ''the operation is not supported for this target'')"
| "map_contract_error UnsupportedMode =
     bad_request (lit ''ansible_mode_invalid'') (lit ''the execution mode is not supported for this operation'')"
| "map_contract_error Invalid =
     bad_request (lit ''ansible_request_invalid'') (lit ''the Ansible request is invalid'')"
| "map_contract_error ContractInvalidTransition =
     bad_request (lit ''ansible_request_invalid'') (lit ''the Ansible request is invalid'')"

fun map_ansible_error :: "coordinator_error \<Rightarrow> api_error" where
  "map_ansible_error TargetBusy =
     conflict (lit ''ansible_target_busy'') (lit ''another job is active for this target'')"
| "map_ansible_error CoNotFound = not_found (lit ''ansible job not found'')"
| "map_ansible_error ReconcileNotAllowed =
     bad_request (lit ''ansible_reconcile_not_allowed'') (lit ''only an unresolved Apply job can be reconciled'')"
| "map_ansible_error RetryNotAllowed =
     bad_request (lit ''ansible_job_invalid'') (lit ''the Ansible job state is invalid'')"
| "map_ansible_error CoInvalidTransition =
     bad_request (lit ''ansible_job_invalid'') (lit ''the Ansible job state is invalid'')"
| "map_ansible_error Terminal =
     bad_request (lit ''ansible_job_invalid'') (lit ''the Ansible job state is invalid'')"
| "map_ansible_error (Contract e) = map_contract_error e"

section \<open>The package update gate (package_policy.rs)\<close>

definition load_update_policy :: "api_state \<Rightarrow> uuid \<Rightarrow> str \<Rightarrow> update_policy api_result" where
  "load_update_policy st target_id policy_id =
     (case find_target target_id st of
        None \<Rightarrow> Inl (not_found (lit ''target not found''))
      | Some _ \<Rightarrow>
          ok_or (bad_request (lit ''update_policy_unavailable'')
                  (lit ''the selected update policy is missing or disabled''))
            (List.find (\<lambda>p. po_id p = policy_id \<and> po_enabled p) (ap_update_policies st)))"

definition update_packages :: "create_ansible_job_request \<Rightarrow> str list api_result" where
  "update_packages r =
     (case cr_parameters r of
        ParamUpdatePackages packages \<Rightarrow> Inr packages
      | _ \<Rightarrow> Inl (bad_request (lit ''invalid_package_plan'') (lit ''package update parameters are invalid'')))"

definition validate_platform_package_ids :: "api_state \<Rightarrow> uuid \<Rightarrow> str list \<Rightarrow> unit api_result" where
  "validate_platform_package_ids st target_id packages =
     (case find_target target_id st of
        None \<Rightarrow> Inl (not_found (lit ''target not found''))
      | Some t \<Rightarrow>
          if tg_kind t = WindowsServer
             \<and> (list_ex (\<lambda>p. p = lit ''*'') packages \<or> list_ex (\<lambda>p. \<not> safe_winget_id p) packages)
          then Inl (bad_request (lit ''invalid_winget_package_id'')
                 (lit ''Windows updates require explicit exact winget package IDs''))
          else Inr ())"

definition validate_policy_allows_packages ::
  "update_policy \<Rightarrow> uuid \<Rightarrow> str list \<Rightarrow> unit api_result" where
  "validate_policy_allows_packages policy target_id packages =
     (let denied_target_or_risk =
            target_id \<notin> set (po_allowed_targets policy) \<or> po_maximum_risk policy < High;
          requests_all_packages = packages = [lit ''*''];
          denied_package = (requests_all_packages \<and> po_allowed_packages policy \<noteq> [])
            \<or> (po_allowed_packages policy \<noteq> []
               \<and> list_ex (\<lambda>p. p \<notin> set (po_allowed_packages policy)) packages)
      in if denied_target_or_risk \<or> denied_package then
           Inl (forbidden (lit ''update_policy_denied'')
             (lit ''target, package, risk, or maintenance window is not allowed by the selected policy''))
         else Inr ())"

definition validate_plan_key :: "create_ansible_job_request \<Rightarrow> str \<Rightarrow> unit api_result" where
  "validate_plan_key r policy_id =
     (if cr_approved_plan_job_id r = None \<and> starts_with (cr_idempotency_key r) (plan_key_prefix policy_id)
      then Inr ()
      else Inl (bad_request (lit ''package_plan_mode_required'')
        (lit ''package updates must first be planned; only a matching successful plan may be applied'')))"

definition validate_apply_key ::
  "ansible_env \<Rightarrow> create_ansible_job_request \<Rightarrow> uuid \<Rightarrow> unit api_result" where
  "validate_apply_key env r plan_id =
     (if starts_with (cr_idempotency_key r) (apply_key_prefix env plan_id) then Inr ()
      else Inl (bad_request (lit ''invalid_package_apply_key'')
        (lit ''the apply request must be tied to its approved plan'')))"

definition validate_apply_window ::
  "timestamp \<Rightarrow> update_policy \<Rightarrow> uuid \<Rightarrow> str list \<Rightarrow> unit api_result" where
  "validate_apply_window now policy target_id packages =
     (if list_ex (\<lambda>p. \<not> policy_allows policy target_id p High now) packages then
        Inl (forbidden (lit ''update_policy_window_closed'')
          (lit ''package apply is only allowed inside the policy maintenance window''))
      else Inr ())"

definition load_package_plan :: "job_calls \<Rightarrow> api_state \<Rightarrow> uuid \<Rightarrow> ansible_job api_result" where
  "load_package_plan up st plan_id =
     (case ap_repositories st of
        Some db \<Rightarrow> bindR (map_err (\<lambda>_. storage) (find_job_by_id (up CallFindJob) plan_id db))
          (ok_or (not_found (lit ''package plan not found'')))
      | None \<Rightarrow> map_err map_ansible_error (jc_job plan_id (ap_ansible st)))"

definition plan_matches_request ::
  "ansible_job \<Rightarrow> create_ansible_job_request \<Rightarrow> resource_target \<Rightarrow> str \<Rightarrow> bool" where
  "plan_matches_request plan r target policy_id \<longleftrightarrow>
     aj_operation plan = OpUpdatePackages \<and> aj_mode plan = ModePlan \<and> aj_status plan = JSucceeded
     \<and> aj_target plan = target \<and> aj_parameters plan = cr_parameters r
     \<and> starts_with (aj_idempotency_key plan) (plan_key_prefix policy_id)"

definition applies_plan :: "ansible_env \<Rightarrow> uuid \<Rightarrow> ansible_job \<Rightarrow> bool" where
  "applies_plan env plan_id j \<longleftrightarrow> aj_operation j = OpUpdatePackages \<and> aj_mode j = ModeApply
     \<and> starts_with (aj_idempotency_key j) (apply_key_prefix env plan_id)"

definition reject_reused_plan ::
  "ansible_env \<Rightarrow> job_calls \<Rightarrow> api_state \<Rightarrow> uuid \<Rightarrow> unit api_result" where
  "reject_reused_plan env up st plan_id =
     bindR (all_jobs up st) (\<lambda>jobs.
       if list_ex (applies_plan env plan_id) jobs then
         Inl (conflict (lit ''package_plan_already_used'')
           (lit ''this plan already has an apply attempt; create a fresh plan before resuming''))
       else Inr ())"

definition validate_package_apply ::
  "ansible_env \<Rightarrow> job_calls \<Rightarrow> timestamp \<Rightarrow> api_state \<Rightarrow> create_ansible_job_request \<Rightarrow> resource_target
     \<Rightarrow> uuid \<Rightarrow> str \<Rightarrow> update_policy \<Rightarrow> str list \<Rightarrow> unit api_result" where
  "validate_package_apply env up now st r target target_id policy_id policy packages =
     bindR (ok_or (bad_request (lit ''package_plan_required'') (lit ''apply requires a completed package plan''))
              (cr_approved_plan_job_id r)) (\<lambda>plan_id.
     bindR (validate_apply_key env r plan_id) (\<lambda>_.
     bindR (validate_apply_window now policy target_id packages) (\<lambda>_.
     if \<not> cr_confirmed r then
       Inl (bad_request (lit ''ansible_confirmation_required'')
         (lit ''applying a package plan requires explicit confirmation''))
     else bindR (load_package_plan up st plan_id) (\<lambda>plan.
       if \<not> plan_matches_request plan r target policy_id then
         Inl (conflict (lit ''package_plan_mismatch'')
           (lit ''the approved plan must be successful and match the exact target and package list''))
       else reject_reused_plan env up st plan_id))))"

definition validate_package_update ::
  "ansible_env \<Rightarrow> job_calls \<Rightarrow> timestamp \<Rightarrow> api_state \<Rightarrow> create_ansible_job_request \<Rightarrow> resource_target
     \<Rightarrow> unit api_result" where
  "validate_package_update env up now st r target =
     (if cr_operation r \<noteq> OpUpdatePackages then Inr ()
      else case target of
        Target target_id \<Rightarrow>
          bindR (ok_or (bad_request (lit ''update_policy_required'')
                   (lit ''package updates require an explicit update policy'')) (cr_policy_id r)) (\<lambda>policy_id.
          bindR (load_update_policy st target_id policy_id) (\<lambda>policy.
          bindR (update_packages r) (\<lambda>packages.
          bindR (validate_platform_package_ids st target_id packages) (\<lambda>_.
          bindR (validate_policy_allows_packages policy target_id packages) (\<lambda>_.
            case cr_mode r of
              ModePlan \<Rightarrow> validate_plan_key r policy_id
            | ModeApply \<Rightarrow>
                validate_package_apply env up now st r target target_id policy_id policy packages
            | _ \<Rightarrow> Inl (bad_request (lit ''package_plan_mode_required'')
                (lit ''package updates must first be planned; only a matching successful plan may be applied'')))))))
      | _ \<Rightarrow> Inl (bad_request (lit ''target_policy_required'')
               (lit ''package updates require a registered target and update policy'')))"

fun lifecycle_of_target :: "target_state \<Rightarrow> resource_lifecycle" where
  "lifecycle_of_target TargetPending = Pending"
| "lifecycle_of_target TargetManaged = Managed"
| "lifecycle_of_target TargetDisabled = Disabled"

fun lifecycle_of_container :: "container_management_state \<Rightarrow> resource_lifecycle" where
  "lifecycle_of_container CMDiscovered = Discovered"
| "lifecycle_of_container CMManaged = Managed"
| "lifecycle_of_container CMIgnored = Disabled"
| "lifecycle_of_container CMDisabled = Disabled"

definition resolve_ansible_target ::
  "api_state \<Rightarrow> create_ansible_job_request \<Rightarrow> (resource_target \<times> resource_lifecycle \<times> uuid option) api_result" where
  "resolve_ansible_target st r =
     (case cr_target_id r of
        Some target_id \<Rightarrow>
          bindR (ok_or (not_found (lit ''target not found'')) (find_target target_id st)) (\<lambda>t.
            Inr (Target target_id, lifecycle_of_target (tg_state t), workflow_auth_secret_ref t))
      | None \<Rightarrow>
          if cr_container_id r = 0 then
            Inl (bad_request (lit ''target_required'') (lit ''target id must be provided''))
          else
            bindR (ok_or (not_found (lit ''container not found''))
                (List.find (\<lambda>c. ct_id c = cr_container_id r) (ap_containers st))) (\<lambda>c.
              Inr (Container (cr_container_id r), lifecycle_of_container (ct_management_state c), None)))"

definition configured_ansible_secret_refs :: "ansible_env \<Rightarrow> str option \<Rightarrow> uuid list api_result" where
  "configured_ansible_secret_refs env raw =
     (let missing = dependency (lit ''secret_reference_missing'') (lit ''no Ansible credential is configured'') in
      bindR (ok_or missing raw) (\<lambda>v.
      bindR (map_result (\<lambda>s. ok_or (bad_request (lit ''invalid_secret_reference'') (lit ''secret reference is invalid''))
                 (ae_uuid_parse env s))
          (filter (\<lambda>s. s \<noteq> []) (map trim (split_char (ch CHR '','') v)))) (\<lambda>refs.
        if refs = [] then Inl missing else Inr refs)))"

definition resolve_job_secret_refs ::
  "ansible_env \<Rightarrow> str option \<Rightarrow> ansible_operation \<Rightarrow> uuid option \<Rightarrow> uuid list api_result" where
  "resolve_job_secret_refs env raw op target_secret_ref =
     (if op = OpHealthCheck then Inr []
      else case target_secret_ref of
        None \<Rightarrow> configured_ansible_secret_refs env raw
      | Some s \<Rightarrow> Inr [s])"

definition find_idempotent_job ::
  "job_calls \<Rightarrow> api_state \<Rightarrow> resource_target \<Rightarrow> str \<Rightarrow> ansible_job option api_result" where
  "find_idempotent_job up st target key =
     (case ap_repositories st of
        None \<Rightarrow> Inr None
      | Some db \<Rightarrow> map_err (\<lambda>_. storage) (find_by_idempotency_key (up CallFindKey) target key db))"

definition find_existing_job ::
  "job_calls \<Rightarrow> api_state \<Rightarrow> resource_target \<Rightarrow> str \<Rightarrow> ansible_job option api_result" where
  "find_existing_job up st target key =
     bindR (find_idempotent_job up st target key) (\<lambda>found.
       case found of
         Some j \<Rightarrow> Inr (Some j)
       | None \<Rightarrow>
           (case ap_repositories st of
              None \<Rightarrow> Inr None
            | Some db \<Rightarrow>
                bindR (map_err (\<lambda>_. storage) (has_active_target (up CallHasActive) target db)) (\<lambda>active.
                  if active then Inl (conflict (lit ''ansible_target_busy'')
                         (lit ''another job is active for this target''))
                  else Inr None)))"

section \<open>Creating a job (jobs.rs)\<close>

text \<open>\<open>(0..3).all(...)\<close> over the dot-separated components, which must then be used up.\<close>

definition release_ok :: "str \<Rightarrow> bool" where
  "release_ok release \<longleftrightarrow>
     (let parts = split_char (ch CHR ''.'') release in
      length parts = 3 \<and> list_all (\<lambda>p. p \<noteq> [] \<and> list_all is_ascii_digit p) parts)"

definition valid_windows_agent_version :: "str \<Rightarrow> bool" where
  "valid_windows_agent_version version \<longleftrightarrow>
     (case (case split_once (ch CHR ''-'') version of Some x \<Rightarrow> x | None \<Rightarrow> (version, [])) of
        (release, prerelease) \<Rightarrow>
          str_len version \<le> 50 \<and> release_ok release
          \<and> (prerelease = [] \<or> list_all (\<lambda>c. is_ascii_alphanumeric c \<or> c \<in> {ch CHR ''.'', ch CHR ''-''}) prerelease))"

definition is_windows_agent_operation :: "ansible_operation \<Rightarrow> bool" where
  "is_windows_agent_operation op \<longleftrightarrow>
     op \<in> {OpHealthCheck, OpCollectPackageInventory, OpUpdatePackages, OpUpdateAgent}"

definition validate_windows_agent_operation ::
  "api_state \<Rightarrow> resource_target \<Rightarrow> ansible_operation \<Rightarrow> ansible_parameters \<Rightarrow> unit api_result" where
  "validate_windows_agent_operation st target op parameters =
     (case target of
        Target target_id \<Rightarrow>
          (case find_target target_id st of
             None \<Rightarrow> Inl (not_found (lit ''target not found''))
           | Some t \<Rightarrow>
               if tg_kind t = WindowsServer then
                 if tg_transport t \<noteq> Agent \<or> \<not> is_windows_agent_operation op then
                   Inl (bad_request (lit ''windows_local_setup_required'') (lit
                     ''Windows agent installation and maintenance must use the local setup script or authenticated local-agent workflow; remote WinRM workflows are not supported''))
                 else if op = OpUpdateAgent
                   \<and> \<not> (case parameters of ParamUpdateAgent v \<Rightarrow>
                            v = CARGO_PKG_VERSION \<and> valid_windows_agent_version v | _ \<Rightarrow> False) then
                   Inl (bad_request (lit ''windows_agent_version_unsupported'')
                     (lit ''Windows agent workflows may update only to the controller's current version''))
                 else Inr ()
               else Inr ())
      | _ \<Rightarrow> Inr ())"

definition is_active_job_status :: "ansible_job_status \<Rightarrow> bool" where
  "is_active_job_status s \<longleftrightarrow> s \<in> {JChecking, JPlanned, JApplying, JReconcileRequired}"

definition find_active_target_job ::
  "job_calls \<Rightarrow> api_state \<Rightarrow> resource_target \<Rightarrow> uuid option \<Rightarrow> ansible_job option api_result" where
  "find_active_target_job up st target excluded =
     bindR (all_jobs up st) (\<lambda>jobs.
       Inr (max_by_key aj_updated_at
         (filter (\<lambda>j. aj_target j = target \<and> Some (aj_id j) \<noteq> excluded
             \<and> is_active_job_status (aj_status j)) jobs)))"

fun append_events ::
  "job_calls \<Rightarrow> job_event list \<Rightarrow> job_db \<Rightarrow> unit api_result \<times> job_db" where
  "append_events up [] db = (Inr (), db)"
| "append_events up (e # es) db =
     (case append_job_event (up (CallAppendJobEvent (je_sequence e))) e db of
        (Inl _, db') \<Rightarrow> (Inl storage, db')
      | (Inr _, db') \<Rightarrow> append_events up es db')"

definition persist_created_job ::
  "job_calls \<Rightarrow> ansible_job \<Rightarrow> api_state \<Rightarrow> unit api_result \<times> api_state" where
  "persist_created_job up j st =
     (case ap_repositories st of
        None \<Rightarrow> (Inr (), st)
      | Some db \<Rightarrow>
          (case save_job (up CallSaveJob) j db of
             (Inl _, db1) \<Rightarrow> (Inl storage, st\<lparr>ap_repositories := Some db1\<rparr>)
           | (Inr _, db1) \<Rightarrow>
               (case jc_job_events (aj_id j) (ap_ansible st) of
                  Inl e \<Rightarrow> (Inl (map_ansible_error e), st\<lparr>ap_repositories := Some db1\<rparr>)
                | Inr events \<Rightarrow>
                    (case append_events up events db1 of
                       (r, db2) \<Rightarrow> (r, st\<lparr>ap_repositories := Some db2\<rparr>)))))"

definition busy_with :: "str \<Rightarrow> ansible_job \<Rightarrow> api_error" where
  "busy_with message j =
     conflict_with_blocking_job (lit ''ansible_target_busy'') message (aj_id j) (ansible_status_to_db (aj_status j))"

text \<open>The checks of \<open>create_ansible_job\<close> between the idempotency lookup and the submission.\<close>

definition check_target_free ::
  "job_calls \<Rightarrow> api_state \<Rightarrow> resource_target \<Rightarrow> unit api_result" where
  "check_target_free up st target =
     bindR (case ap_repositories st of
              None \<Rightarrow> Inr False
            | Some db \<Rightarrow> map_err (\<lambda>_. storage)
                (has_reconciliation_required_target (up CallHasReconcile) target db)) (\<lambda>unresolved.
       let message = lit ''target requires reconciliation before another workflow can start'' in
       bindR (find_active_target_job up st target None) (\<lambda>blocking.
         if unresolved then
           (case blocking of
              Some j \<Rightarrow> Inl (busy_with message j)
            | None \<Rightarrow> Inl (conflict (lit ''ansible_target_busy'') message))
         else
           (case blocking of
              Some j \<Rightarrow> Inl (busy_with (lit ''another job is active for this target'') j)
            | None \<Rightarrow> Inr ())))"

definition job_request_of ::
  "create_ansible_job_request \<Rightarrow> actor_role \<Rightarrow> resource_target \<Rightarrow> resource_lifecycle \<Rightarrow> uuid list
     \<Rightarrow> ansible_job_request" where
  "job_request_of r role target lifecycle secret_refs =
     \<lparr>jr_operation = cr_operation r, jr_target = target, jr_lifecycle = lifecycle, jr_mode = cr_mode r,
      jr_parameters = cr_parameters r, jr_secret_refs = secret_refs,
      jr_idempotency_key = cr_idempotency_key r, jr_confirmed = cr_confirmed r, jr_actor_role = role\<rparr>"

definition validate_create ::
  "ansible_env \<Rightarrow> str option \<Rightarrow> job_calls \<Rightarrow> timestamp \<Rightarrow> actor_role \<Rightarrow> create_ansible_job_request
     \<Rightarrow> api_state \<Rightarrow> ansible_job_request api_result" where
  "validate_create env raw up now role r st =
     bindR (resolve_ansible_target st r) (\<lambda>(target, lifecycle, secret).
     bindR (validate_windows_agent_operation st target (cr_operation r) (cr_parameters r)) (\<lambda>_.
     bindR (validate_package_update env up now st r target) (\<lambda>_.
     bindR (resolve_job_secret_refs env raw (cr_operation r) secret) (\<lambda>refs.
       Inr (job_request_of r role target lifecycle refs)))))"

definition submit_and_persist ::
  "ansible_env \<Rightarrow> job_calls \<Rightarrow> uuid \<Rightarrow> timestamp \<Rightarrow> ansible_job_request \<Rightarrow> api_state
     \<Rightarrow> (nat \<times> ansible_job) api_result \<times> api_state" where
  "submit_and_persist env up fresh now jr st =
     (case submit env fresh now jr (ap_ansible st) of
        Inl e \<Rightarrow> (Inl (map_ansible_error e), st)
      | Inr (JobDuplicate j, co) \<Rightarrow> (Inr (200, j), st\<lparr>ap_ansible := co\<rparr>)
      | Inr (JobCreated j, co) \<Rightarrow>
          (case persist_created_job up j (st\<lparr>ap_ansible := co\<rparr>) of
             (Inl e, st') \<Rightarrow> (Inl e, st')
           | (Inr _, st') \<Rightarrow> (Inr (202, j), st')))"

text \<open>
  \<open>create_ansible_job\<close> has two parts. \<open>create_check\<close> reads the store, the database and the
  coordinator under locks it releases again, and finds an existing job or the request to submit;
  \<open>submit_and_persist\<close> takes the coordinator's lock and then writes to the database. No lock and no
  transaction spans both, so other requests may be served in between.
\<close>

definition create_check ::
  "ansible_env \<Rightarrow> str option \<Rightarrow> job_calls \<Rightarrow> timestamp \<Rightarrow> actor_role \<Rightarrow> create_ansible_job_request
     \<Rightarrow> api_state \<Rightarrow> (ansible_job + ansible_job_request) api_result" where
  "create_check env raw up now role r st =
     bindR (validate_create env raw up now role r st) (\<lambda>jr.
     bindR (find_existing_job up st (jr_target jr) (jr_idempotency_key jr)) (\<lambda>found.
       case found of
         Some existing \<Rightarrow> Inr (Inl existing)
       | None \<Rightarrow> bindR (check_target_free up st (jr_target jr)) (\<lambda>_. Inr (Inr jr))))"

definition create_ansible_job ::
  "ansible_env \<Rightarrow> str option \<Rightarrow> job_calls \<Rightarrow> uuid \<Rightarrow> timestamp \<Rightarrow> actor_role \<Rightarrow> create_ansible_job_request
     \<Rightarrow> api_state \<Rightarrow> (nat \<times> ansible_job) api_result \<times> api_state" where
  "create_ansible_job env raw up fresh now role r st =
     (case create_check env raw up now role r st of
        Inl e \<Rightarrow> (Inl e, st)
      | Inr (Inl existing) \<Rightarrow> (Inr (200, existing), st)
      | Inr (Inr jr) \<Rightarrow> submit_and_persist env up fresh now jr st)"

section \<open>The view of a job\<close>

record ansible_job_dto =
  jt_package_names :: "str list option"
  jt_update_policy_id :: "str option"
  jt_approved_plan_job_id :: "uuid option"
  jt_reconciles_job_id :: "uuid option"

definition ansible_job_dto_from :: "ansible_env \<Rightarrow> ansible_job \<Rightarrow> ansible_job_dto" where
  "ansible_job_dto_from env j =
     \<lparr>jt_package_names = (case aj_parameters j of ParamUpdatePackages ps \<Rightarrow> Some ps | _ \<Rightarrow> None),
      jt_update_policy_id = map_option fst (Option.bind (strip_prefix (aj_idempotency_key j) (lit ''package-plan:''))
         (rsplit_once (ch CHR '':''))),
      jt_approved_plan_job_id = Option.bind (Option.bind (strip_prefix (aj_idempotency_key j) (lit ''package-apply:''))
         (split_once (ch CHR '':''))) (\<lambda>(i, _). ae_uuid_parse env i),
      jt_reconciles_job_id = reconciliation_source_job_id env (aj_idempotency_key j)\<rparr>"

section \<open>Reading, retrying and reconciling a job\<close>

definition load_job ::
  "job_calls \<Rightarrow> str \<Rightarrow> api_state \<Rightarrow> uuid \<Rightarrow> ansible_job api_result" where
  "load_job up missing st i =
     (case ap_repositories st of
        Some db \<Rightarrow> bindR (map_err (\<lambda>_. storage) (find_job_by_id (up CallFindJob) i db)) (ok_or (not_found missing))
      | None \<Rightarrow> map_err map_ansible_error (jc_job i (ap_ansible st)))"

fun map_retry_error :: "repository_error \<Rightarrow> api_error" where
  "map_retry_error (RepInvalidValue _) =
     bad_request (lit ''ansible_retry_not_allowed'') (lit ''this job is not in a retryable state'')"
| "map_retry_error RepDatabase =
     conflict (lit ''ansible_target_busy'') (lit ''another job is executing for this target'')"
| "map_retry_error RepSerialization = storage"
| "map_retry_error RepTargetBusy =
     conflict (lit ''ansible_target_busy'') (lit ''another job is executing for this target'')"
| "map_retry_error RepLastAdmin = storage"
| "map_retry_error RepUsernameExists = storage"

definition retry_ansible_job ::
  "job_calls \<Rightarrow> timestamp \<Rightarrow> actor_role \<Rightarrow> bool \<Rightarrow> uuid \<Rightarrow> api_state
     \<Rightarrow> ansible_job api_result \<times> api_state" where
  "retry_ansible_job up now role confirmed i st =
     (case bindR (load_job up (lit ''ansible job not found'') st i) (\<lambda>existing.
             let permission = action_permission (ps_action (resolve (aj_operation existing))) in
             bindR (require_permission role permission) (\<lambda>_.
               if aj_mode existing = ModeApply \<and> permission \<noteq> Read \<and> \<not> confirmed then
                 Inl (bad_request (lit ''ansible_confirmation_required'')
                   (lit ''retrying a mutating operation requires explicit confirmation''))
               else Inr ())) of
        Inl e \<Rightarrow> (Inl e, st)
      | Inr _ \<Rightarrow>
          (case ap_repositories st of
             Some db \<Rightarrow>
               (case retry_job (up CallRetryJob) now i db of
                  (r, db') \<Rightarrow> (map_err map_retry_error r, st\<lparr>ap_repositories := Some db'\<rparr>))
           | None \<Rightarrow>
               (case retry now i (ap_ansible st) of
                  Inl e \<Rightarrow> (Inl (map_ansible_error e), st)
                | Inr (j, co) \<Rightarrow> (Inr j, st\<lparr>ap_ansible := co\<rparr>))))"

definition reconcile_ansible_job ::
  "ansible_env \<Rightarrow> job_calls \<Rightarrow> uuid \<Rightarrow> timestamp \<Rightarrow> actor_role \<Rightarrow> uuid \<Rightarrow> api_state
     \<Rightarrow> (nat \<times> ansible_job) api_result \<times> api_state" where
  "reconcile_ansible_job env up fresh now role source_id st =
     (let persistent = ap_repositories st \<noteq> None in
      case bindR (load_job up (lit ''ansible job not found'') st source_id) (\<lambda>src.
             bindR (require_permission role (action_permission (ps_action (resolve (aj_operation src))))) (\<lambda>_.
               if \<not> can_be_reconciled src then Inl (map_ansible_error ReconcileNotAllowed)
               else bindR (find_idempotent_job up st (aj_target src) (reconcile_idempotency_key env source_id)) (\<lambda>existing.
                 case existing of
                   Some j \<Rightarrow> Inr (src, Some j)
                 | None \<Rightarrow>
                     bindR (find_active_target_job up st (aj_target src) (Some (aj_id src))) (\<lambda>blocking.
                       case blocking of
                         Some b \<Rightarrow> Inl (busy_with (lit ''another job is executing for this target'') b)
                       | None \<Rightarrow> Inr (src, None))))) of
        Inl e \<Rightarrow> (Inl e, st)
      | Inr (_, Some existing) \<Rightarrow> (Inr (200, existing), st)
      | Inr (src, None) \<Rightarrow>
          (case submit_reconciliation_with_lock env fresh now src (\<not> persistent) (ap_ansible st) of
             Inl e \<Rightarrow> (Inl (map_ansible_error e), st)
           | Inr (submission, co) \<Rightarrow>
               (let st1 = st\<lparr>ap_ansible := co\<rparr> in
                case (case submission of JobCreated j \<Rightarrow> (202, j, True)
                      | JobDuplicate j \<Rightarrow> if persistent then (202, j, True) else (200, j, False)) of
                  (status, j, created) \<Rightarrow>
                    if created then
                      (case persist_created_job up j st1 of
                         (Inl e, st2) \<Rightarrow> (Inl e, st2)
                       | (Inr _, st2) \<Rightarrow> (Inr (status, j), st2))
                    else (Inr (status, j), st1))))"

text \<open>Reading the events of a failed job repairs a missing failure event.\<close>

definition get_ansible_job_events ::
  "job_calls \<Rightarrow> timestamp \<Rightarrow> uuid \<Rightarrow> api_state \<Rightarrow> job_event list api_result \<times> api_state" where
  "get_ansible_job_events up now i st =
     (case ap_repositories st of
        None \<Rightarrow> (map_err map_ansible_error (jc_job_events i (ap_ansible st)), st)
      | Some db \<Rightarrow>
          (case bindR (map_err (\<lambda>_. storage) (job_events (up CallJobEvents) i db)) (\<lambda>events.
                  bindR (load_job up (lit ''ansible job not found'') st i) (\<lambda>j. Inr (events, j))) of
             Inl e \<Rightarrow> (Inl e, st)
           | Inr (events, j) \<Rightarrow>
               if aj_status j = JFailed
                  \<and> \<not> list_ex (\<lambda>e. case je_event e of EvFailed _ \<Rightarrow> True | _ \<Rightarrow> False) events then
                 (let e = \<lparr>je_sequence = length events + 1, je_job_id = i,
                           je_event = EvFailed WorkerUnavailable, je_created_at = now\<rparr> in
                  case append_job_event (up (CallAppendJobEvent (je_sequence e))) e db of
                    (Inl _, db') \<Rightarrow> (Inl storage, st\<lparr>ap_repositories := Some db'\<rparr>)
                  | (Inr _, db') \<Rightarrow> (Inr (events @ [e]), st\<lparr>ap_repositories := Some db'\<rparr>))
               else (Inr events, st)))"

end
