(* ===== verification/PackageLaws.thy ===== *)
theory PackageLaws
  imports PackagePolicy JobStoreLaws
begin

text \<open>
  What the job handlers guarantee: a package update is applied only with a matching approved plan
  inside its policy, a plan is applied at most once, and what happens to a job whose
  persistence fails.
\<close>

section \<open>The stored jobs\<close>

definition stored_jobs :: "api_state \<Rightarrow> ansible_job list" where
  "stored_jobs st =
     (case ap_repositories st of
        Some db \<Rightarrow> map jw_payload (jd_jobs db)
      | None \<Rightarrow> hm_values (jc_jobs (ap_ansible st)))"

lemma all_jobs_set: "all_jobs up st = Inr js \<Longrightarrow> set js = set (stored_jobs st)"
  by (auto simp: all_jobs_def stored_jobs_def list_jobs_def jc_jobs_list_def split: option.splits)

lemma load_package_plan_stored:
  "load_package_plan up st i = Inr plan \<Longrightarrow> plan \<in> set (stored_jobs st)"
  by (auto simp: load_package_plan_def stored_jobs_def bindR_Inr_iff find_job_by_id_def jc_job_def
      intro: hm_values_get dest!: find_SomeD split: option.splits)

section \<open>The gate\<close>

lemma validate_package_applyD:
  assumes "validate_package_apply env up now st r target tid pid policy packages = Inr ()"
  shows "\<exists>plan_id plan. cr_approved_plan_job_id r = Some plan_id
    \<and> starts_with (cr_idempotency_key r) (apply_key_prefix env plan_id)
    \<and> (\<forall>p \<in> set packages. policy_allows policy tid p High now) \<and> cr_confirmed r
    \<and> load_package_plan up st plan_id = Inr plan
    \<and> plan \<in> set (stored_jobs st) \<and> plan_matches_request plan r target pid
    \<and> (\<forall>j \<in> set (stored_jobs st). \<not> applies_plan env plan_id j)"
proof -
  from assms obtain plan_id plan js where
    "cr_approved_plan_job_id r = Some plan_id" "starts_with (cr_idempotency_key r) (apply_key_prefix env plan_id)"
    "\<forall>p \<in> set packages. policy_allows policy tid p High now" "cr_confirmed r"
    "plan_matches_request plan r target pid"
    and l: "load_package_plan up st plan_id = Inr plan"
    and js: "all_jobs up st = Inr js" "\<forall>j \<in> set js. \<not> applies_plan env plan_id j"
    by (auto simp: validate_package_apply_def validate_apply_key_def validate_apply_window_def
        reject_reused_plan_def bindR_Inr_iff list_ex_iff split: if_splits)
  then show ?thesis
    using load_package_plan_stored [OF l] all_jobs_set [OF js(1)] by blast
qed

lemma validate_package_update_applyD:
  assumes "validate_package_update env up now st r target = Inr ()"
    and "cr_operation r = OpUpdatePackages" "cr_mode r = ModeApply"
  shows "\<exists>tid pid policy packages. target = Target tid \<and> cr_policy_id r = Some pid
    \<and> policy \<in> set (ap_update_policies st) \<and> po_id policy = pid \<and> po_enabled policy
    \<and> cr_parameters r = ParamUpdatePackages packages
    \<and> validate_platform_package_ids st tid packages = Inr ()
    \<and> validate_policy_allows_packages policy tid packages = Inr ()
    \<and> validate_package_apply env up now st r target tid pid policy packages = Inr ()"
  using assms
  by (auto simp: validate_package_update_def load_update_policy_def update_packages_def bindR_Inr_iff
      split: resource_target.splits option.splits ansible_parameters.splits dest!: find_SomeD)

lemma create_ansible_job_unfold:
  "create_ansible_job env raw up fresh now role r st =
     (case validate_create env raw up now role r st of
        Inl e \<Rightarrow> (Inl e, st)
      | Inr jr \<Rightarrow>
          (case find_existing_job up st (jr_target jr) (jr_idempotency_key jr) of
             Inl e \<Rightarrow> (Inl e, st)
           | Inr (Some existing) \<Rightarrow> (Inr (200, existing), st)
           | Inr None \<Rightarrow>
               (case check_target_free up st (jr_target jr) of
                  Inl e \<Rightarrow> (Inl e, st)
                | Inr _ \<Rightarrow> submit_and_persist env up fresh now jr st)))"
  by (simp add: create_ansible_job_def create_check_def split: sum.split option.split)

lemma create_check_submits:
  "create_check env raw up now role r st = Inr (Inr jr) \<longleftrightarrow>
     validate_create env raw up now role r st = Inr jr
     \<and> find_existing_job up st (jr_target jr) (jr_idempotency_key jr) = Inr None
     \<and> check_target_free up st (jr_target jr) = Inr ()"
  by (auto simp: create_check_def bindR_Inr_iff split: option.splits)

lemma create_ansible_job_created:
  assumes "create_ansible_job env raw up fresh now role r st = (Inr (202, j), st')"
  shows "\<exists>jr co. validate_create env raw up now role r st = Inr jr
    \<and> find_existing_job up st (jr_target jr) (jr_idempotency_key jr) = Inr None
    \<and> check_target_free up st (jr_target jr) = Inr ()
    \<and> submit env fresh now jr (ap_ansible st) = Inr (JobCreated j, co)
    \<and> persist_created_job up j (st\<lparr>ap_ansible := co\<rparr>) = (Inr (), st')"
  using assms
  by (auto simp: create_ansible_job_unfold submit_and_persist_def
      split: sum.splits option.splits prod.splits job_submission.splits)

lemma validate_createD:
  assumes "validate_create env raw up now role r st = Inr jr"
  shows "jr_operation jr = cr_operation r" "jr_mode jr = cr_mode r" "jr_parameters jr = cr_parameters r"
    "jr_idempotency_key jr = cr_idempotency_key r" "jr_confirmed jr = cr_confirmed r"
    "validate_package_update env up now st r (jr_target jr) = Inr ()"
    "jr_target jr = Target tid \<Longrightarrow> cr_target_id r = Some tid"
  using assms
  by (auto simp: validate_create_def job_request_of_def resolve_ansible_target_def bindR_Inr_iff
      split: option.splits if_splits)

lemma submit_created:
  assumes "submit env fresh now jr s = Inr (JobCreated j, co)"
  shows "from_request env fresh now jr = Inr j" "hm_get (jc_idempotency s) (jr_target jr, jr_idempotency_key jr) = None"
    "jc_jobs co = hm_insert fresh j (jc_jobs s)" "aj_id j = fresh"
    "jc_idempotency co = hm_insert (jr_target jr, jr_idempotency_key jr) fresh (jc_idempotency s)"
proof -
  have f: "from_request env fresh now jr = Inr j"
    using assms by (auto simp: submit_def bindR_Inr_iff Let_def split: option.splits)
  note i = from_request_Inr(1) [OF f]
  show "from_request env fresh now jr = Inr j" "hm_get (jc_idempotency s) (jr_target jr, jr_idempotency_key jr) = None"
    "jc_jobs co = hm_insert fresh j (jc_jobs s)" "aj_id j = fresh"
    "jc_idempotency co = hm_insert (jr_target jr, jr_idempotency_key jr) fresh (jc_idempotency s)"
    using assms f i by (auto simp: submit_def bindR_Inr_iff Let_def split: option.splits)
qed

section \<open>What the handlers store\<close>

lemma append_events_jobs: "jd_jobs (snd (append_events up es db)) = jd_jobs db"
  by (induction up es db rule: append_events.induct)
     (auto simp: append_job_event_def db_write_def split: prod.splits sum.splits)

lemma append_events_ok: "job_db_ok db \<Longrightarrow> job_db_ok (snd (append_events up es db))"
proof (induction up es db rule: append_events.induct)
  case (2 up e es db)
  then show ?case
    using append_job_event_ok [of db "up (CallAppendJobEvent (je_sequence e))" e]
    by (auto split: prod.splits sum.splits)
qed simp

definition repositories_ok :: "api_state \<Rightarrow> bool" where
  "repositories_ok st \<longleftrightarrow> (case ap_repositories st of None \<Rightarrow> True | Some db \<Rightarrow> job_db_ok db)"

text \<open>How often the stored jobs satisfy a condition.\<close>

definition job_count :: "(ansible_job \<Rightarrow> bool) \<Rightarrow> api_state \<Rightarrow> nat" where
  "job_count P st = length (filter P (stored_jobs st))"

lemma count_hm_insert:
  "length (filter P (hm_values (hm_insert k v m))) \<le> length (filter P (hm_values m)) + (if P v then 1 else 0)"
  by (induction m) (auto simp: hm_values_def hm_insert_def)

lemma persist_created_job_db:
  assumes p: "persist_created_job up j st = (r, st')" and db: "ap_repositories st = Some db"
  shows "\<exists>db'. st' = st\<lparr>ap_repositories := Some db'\<rparr> \<and> (job_db_ok db \<longrightarrow> job_db_ok db')
    \<and> (jd_jobs db' = jd_jobs db \<or> jd_jobs db' = jd_jobs db @ [row_of_job j])
    \<and> (r = Inr () \<longrightarrow> jd_jobs db' = jd_jobs db @ [row_of_job j])
    \<and> (\<not> up CallSaveJob \<longrightarrow> db' = db \<and> r = Inl storage)"
proof -
  obtain r1 db1 where s: "save_job (up CallSaveJob) j db = (r1, db1)" by fastforce
  have d: "jd_jobs db1 = (case r1 of Inl _ \<Rightarrow> jd_jobs db | Inr _ \<Rightarrow> jd_jobs db @ [row_of_job j])"
    using s by (auto simp: save_job_def db_write_def Let_def split: if_splits)
  have u: "\<not> up CallSaveJob \<Longrightarrow> db1 = db \<and> r1 = Inl RepDatabase" using s by (simp add: save_job_def)
  have ok: "job_db_ok db \<Longrightarrow> job_db_ok db1" using save_job_ok [of db "up CallSaveJob" j] s by simp
  show ?thesis
  proof (cases "\<exists>x events. r1 = Inr x \<and> jc_job_events (aj_id j) (ap_ansible st) = Inr events")
    case True
    then obtain x events where x: "r1 = Inr x" "jc_job_events (aj_id j) (ap_ansible st) = Inr events" by blast
    obtain r2 db2 where e: "append_events up events db1 = (r2, db2)" by fastforce
    have "jd_jobs db2 = jd_jobs db1" "job_db_ok db1 \<Longrightarrow> job_db_ok db2"
      using append_events_jobs [of up events db1] append_events_ok [of db1 up events] e by simp_all
    then show ?thesis
      using p db s x e d ok u by (auto simp: persist_created_job_def)
  next
    case False
    then show ?thesis
      using p db s d ok u by (auto simp: persist_created_job_def split: sum.splits prod.splits)
  qed
qed

lemma persist_created_job_count:
  assumes p: "persist_created_job up j st = (r, st')" and db: "ap_repositories st \<noteq> None"
  shows "job_count P st' \<le> job_count P st + (if P j then 1 else 0)"
proof -
  from db obtain d where d: "ap_repositories st = Some d" by auto
  from persist_created_job_db [OF p d] d show ?thesis
    by (auto simp: job_count_def stored_jobs_def row_of_job_def)
qed

lemma submit_and_persist_count:
  assumes "submit_and_persist env up fresh now jr st = (r, st')"
  shows "(\<forall>P. job_count P st' \<le> job_count P st) \<or>
    (\<exists>j. from_request env fresh now jr = Inr j
       \<and> (\<forall>P. job_count P st' \<le> job_count P st + (if P j then 1 else 0)))"
proof (cases "submit env fresh now jr (ap_ansible st)")
  case (Inl e)
  with assms show ?thesis by (simp add: submit_and_persist_def)
next
  case (Inr x)
  show ?thesis
  proof (cases x)
    case (Pair sub co)
    show ?thesis
    proof (cases sub)
      case (JobDuplicate j)
      then have "co = ap_ansible st"
        using Inr Pair by (auto simp: submit_def bindR_Inr_iff Let_def split: option.splits)
      with assms Inr Pair JobDuplicate show ?thesis by (auto simp: submit_and_persist_def)
    next
      case (JobCreated j)
      note sc = submit_created [OF Inr [unfolded Pair JobCreated]]
      have st': "st' = snd (persist_created_job up j (st\<lparr>ap_ansible := co\<rparr>))"
        using assms Inr Pair JobCreated
        by (auto simp: submit_and_persist_def split: prod.splits sum.splits)
      have "job_count P st' \<le> job_count P st + (if P j then 1 else 0)" for P
      proof (cases "ap_repositories st")
        case None
        then have "st' = st\<lparr>ap_ansible := co\<rparr>" unfolding st' by (simp add: persist_created_job_def)
        with None sc count_hm_insert [of P fresh j] show ?thesis
          by (simp add: job_count_def stored_jobs_def)
      next
        case (Some db)
        then have "job_count P (st\<lparr>ap_ansible := co\<rparr>) = job_count P st"
          by (simp add: job_count_def stored_jobs_def)
        moreover have "job_count P st' \<le> job_count P (st\<lparr>ap_ansible := co\<rparr>) + (if P j then 1 else 0)"
          using Some persist_created_job_count [of up j "st\<lparr>ap_ansible := co\<rparr>" _ st'] st'
          by (cases "persist_created_job up j (st\<lparr>ap_ansible := co\<rparr>)") simp
        ultimately show ?thesis by simp
      qed
      with sc show ?thesis by blast
    qed
  qed
qed

lemma create_count:
  assumes "create_ansible_job env raw up fresh now role r st = (res, st')"
  shows "(\<forall>P. job_count P st' \<le> job_count P st) \<or>
    (\<exists>jr j. validate_create env raw up now role r st = Inr jr \<and> from_request env fresh now jr = Inr j
       \<and> (\<forall>P. job_count P st' \<le> job_count P st + (if P j then 1 else 0)))"
proof (cases "st' = st")
  case False
  with assms obtain jr where "validate_create env raw up now role r st = Inr jr"
      "submit_and_persist env up fresh now jr st = (res, st')"
    by (auto simp: create_ansible_job_unfold split: sum.splits option.splits)
  with submit_and_persist_count show ?thesis by blast
qed simp

text \<open>A key is tied to one plan: the text of a UUID has no colon.\<close>

lemma apply_key_unique:
  assumes plain: "\<And>i. ch CHR '':'' \<notin> set (ae_uuid_to_string env i)" and inj: "inj (ae_uuid_to_string env)"
    and "starts_with key (apply_key_prefix env p)" "starts_with key (apply_key_prefix env q)"
  shows "p = q"
proof -
  have c: "lit '':'' = [ch CHR '':'']" by (simp add: str_simps)
  from assms(3,4) obtain a b where
    "ae_uuid_to_string env p @ ch CHR '':'' # a = ae_uuid_to_string env q @ ch CHR '':'' # b"
    by (auto simp: starts_with_iff apply_key_prefix_def c)
  then have "ae_uuid_to_string env p = ae_uuid_to_string env q"
    using plain split_once_Some_iff by (metis option.inject prod.inject)
  with inj show ?thesis by (simp add: inj_eq)
qed

definition plan_applied_once :: "ansible_env \<Rightarrow> api_state \<Rightarrow> bool" where
  "plan_applied_once env st \<longleftrightarrow> (\<forall>plan. job_count (applies_plan env plan) st \<le> 1)"

lemma job_count_zero: "\<forall>j \<in> set (stored_jobs st). \<not> P j \<Longrightarrow> job_count P st = 0"
  by (simp add: job_count_def)

lemma create_plan_applied_once:
  assumes plain: "\<And>i. ch CHR '':'' \<notin> set (ae_uuid_to_string env i)" and inj: "inj (ae_uuid_to_string env)"
    and once: "plan_applied_once env st"
    and c: "create_ansible_job env raw up fresh now role r st = (res, st')"
  shows "plan_applied_once env st'"
  using create_count [OF c]
proof (elim disjE exE conjE)
  assume "\<forall>P. job_count P st' \<le> job_count P st"
  with once show ?thesis unfolding plan_applied_once_def by (meson le_trans)
next
  fix jr j
  assume v: "validate_create env raw up now role r st = Inr jr" and f: "from_request env fresh now jr = Inr j"
    and n: "\<forall>P. job_count P st' \<le> job_count P st + (if P j then 1 else 0)"
  note vd = validate_createD [OF v] and fd = from_request_Inr [OF f]
  have "job_count (applies_plan env plan) st' \<le> 1" for plan
  proof (cases "applies_plan env plan j")
    case True
    then have "cr_operation r = OpUpdatePackages" "cr_mode r = ModeApply"
      using vd fd by (simp_all add: applies_plan_def)
    from validate_package_update_applyD [OF vd(6) this] obtain tid pid policy packages where
      "validate_package_apply env up now st r (jr_target jr) tid pid policy packages = Inr ()" by blast
    from validate_package_applyD [OF this] obtain plan_id where
      p: "starts_with (cr_idempotency_key r) (apply_key_prefix env plan_id)"
      "\<forall>j \<in> set (stored_jobs st). \<not> applies_plan env plan_id j" by blast
    from True have "starts_with (cr_idempotency_key r) (apply_key_prefix env plan)"
      using vd fd by (simp add: applies_plan_def)
    with apply_key_unique [OF plain inj p(1)] have "plan_id = plan" by blast
    then have "job_count (applies_plan env plan) st = 0" using job_count_zero p(2) by blast
    then show ?thesis using n [rule_format, of "applies_plan env plan"] True by simp
  next
    case False
    then show ?thesis
      using n [rule_format, of "applies_plan env plan"] once unfolding plan_applied_once_def
      by (simp add: order_trans)
  qed
  then show ?thesis by (simp add: plan_applied_once_def)
qed

section \<open>Steps of the server and its workers\<close>

lemma count_hm_update:
  "hm_get m k = Some v \<Longrightarrow> P v' = P v \<Longrightarrow>
     length (filter P (hm_values (hm_insert k v' m))) = length (filter P (hm_values m))"
  by (induction m) (auto simp: hm_values_def hm_insert_def hm_get_def split: if_splits)

lemma applies_plan_restatus [simp]: "applies_plan env p (restatus s t j) = applies_plan env p j"
  by (simp add: applies_plan_def)

definition row_count :: "(ansible_job \<Rightarrow> bool) \<Rightarrow> job_db \<Rightarrow> nat" where
  "row_count P db = length (filter P (map jw_payload (jd_jobs db)))"

lemma write_job_count:
  assumes ok: "job_db_ok db" and row: "row \<in> set (jd_jobs db)"
    and w: "write_job (restatus s t (jw_payload row)) db = Some db1"
  shows "row_count (applies_plan env p) db1 = row_count (applies_plan env p) db"
proof -
  let ?j = "restatus s t (jw_payload row)"
  have "aj_id (jw_payload row) = jw_id row" using ok row by (auto simp: job_db_ok_def list_all_iff row_ok_def)
  then have "applies_plan env p (jw_payload (set_job ?j r)) = applies_plan env p (jw_payload r)"
    if "r \<in> set (jd_jobs db)" for r
    using row_unique [OF ok that row] by (auto simp: set_job_def)
  then show ?thesis
    unfolding row_count_def write_job_ok(4) [OF assms]
    by (simp add: filter_map comp_def cong: filter_cong)
qed

text \<open>What workers and agents do to the tables: they claim, write statuses and append events.\<close>

inductive worker_step :: "ansible_env \<Rightarrow> job_db \<Rightarrow> job_db \<Rightarrow> bool" for env where
  worker_claim: "worker_step env db (snd (claim_next_queued env up locked seen now db))"
| worker_claim_windows:
    "worker_step env db (snd (claim_next_windows_agent_job up locked seen now target db))"
| worker_update: "row \<in> set (jd_jobs db) \<Longrightarrow>
    worker_step env db (snd (update_job up (restatus s t (jw_payload row)) db))"
| worker_event: "worker_step env db (snd (append_job_event up e db))"

inductive api_step :: "ansible_env \<Rightarrow> api_state \<Rightarrow> api_state \<Rightarrow> bool" for env where
  api_create: "api_step env st (snd (create_ansible_job env raw up fresh now role r st))"
| api_retry: "api_step env st (snd (retry_ansible_job up now role confirmed i st))"
| api_worker: "ap_repositories st = Some db \<Longrightarrow> worker_step env db db' \<Longrightarrow>
    api_step env st (st\<lparr>ap_repositories := Some db'\<rparr>)"
| api_transition: "transition now i next (ap_ansible st) = Inr (j, co) \<Longrightarrow>
    api_step env st (st\<lparr>ap_ansible := co\<rparr>)"

inductive api_reachable :: "ansible_env \<Rightarrow> api_state \<Rightarrow> bool" for env where
  api_start: "stored_jobs st = [] \<Longrightarrow> repositories_ok st \<Longrightarrow> api_reachable env st"
| api_next: "api_reachable env st \<Longrightarrow> api_step env st st' \<Longrightarrow> api_reachable env st'"

lemma claim_count:
  assumes "job_db_ok db"
  shows "row_count (applies_plan env' p) (snd (claim_next_queued env up locked seen now db))
    = row_count (applies_plan env' p) db"
proof -
  obtain r db' where c: "claim_next_queued env up locked seen now db = (r, db')" by fastforce
  from claim_next_queued_cases [OF c assms] c show ?thesis
    using write_job_count [OF assms] by (auto simp: row_count_def)
qed

lemma claim_windows_count:
  assumes "job_db_ok db"
  shows "row_count (applies_plan env p) (snd (claim_next_windows_agent_job up locked seen now t db))
    = row_count (applies_plan env p) db"
proof -
  have e: "jd_jobs (fold (append_status_event now i) ss d) = jd_jobs d" for i ss d
    by (induction ss arbitrary: d) simp_all
  show ?thesis
  proof (cases "lock_candidate (windows_claimable t seen) locked seen db")
    case (Some row)
    note l = lock_candidateD [OF Some assms]
    show ?thesis
    proof (cases "start_windows_job now (jw_payload row)")
      case (Inr x)
      obtain j ss where x: "x = (j, ss)" by fastforce
      from start_windows_job_Inr Inr x obtain s where j: "j = restatus s now (jw_payload row)" by metis
      show ?thesis
        using Some Inr x j write_job_count [OF assms, of row s now] l e
        by (cases up; cases "write_job j db") (auto simp: claim_next_windows_agent_job_def row_count_def)
    qed (use Some in \<open>simp add: claim_next_windows_agent_job_def db_write_def\<close>)
  qed (simp add: claim_next_windows_agent_job_def db_write_def)
qed

lemma worker_step_count:
  assumes "worker_step env db db'" "job_db_ok db"
  shows "row_count (applies_plan env' p) db' = row_count (applies_plan env' p) db \<and> job_db_ok db'"
  using assms
proof (induction rule: worker_step.induct)
  case (worker_update row db up s t)
  then show ?case
    using write_job_count [of db row s t] update_job_ok [of db row up s t]
    by (cases up) (auto simp: update_job_def split: option.splits)
next
  case (worker_event db up e)
  then show ?case
    using append_job_event_ok [of db up e]
    by (auto simp: append_job_event_def db_write_def row_count_def)
qed (simp_all add: claim_count claim_windows_count claim_ok claim_windows_ok)

lemma retry_job_count:
  assumes "job_db_ok db"
  shows "row_count (applies_plan env p) (snd (retry_job up now i db)) = row_count (applies_plan env p) db"
proof -
  obtain r db' where c: "retry_job up now i db = (r, db')" by fastforce
  from retry_job_cases [OF c assms] c show ?thesis
    using write_job_count [OF assms] by (auto simp: row_count_def)
qed

lemma job_count_db: "ap_repositories st = Some db \<Longrightarrow> job_count P st = row_count P db"
  by (simp add: job_count_def row_count_def stored_jobs_def)

lemma submit_and_persist_ok:
  assumes "submit_and_persist env up fresh now jr st = (r, st')" "repositories_ok st"
  shows "repositories_ok st'"
proof -
  have p: "repositories_ok (snd (persist_created_job up j (st\<lparr>ap_ansible := co\<rparr>)))" for j co
  proof (cases "ap_repositories st")
    case None
    then show ?thesis by (simp add: repositories_ok_def persist_created_job_def)
  next
    case (Some db)
    obtain r' st'' where e: "persist_created_job up j (st\<lparr>ap_ansible := co\<rparr>) = (r', st'')" by fastforce
    from persist_created_job_db [OF e, of db] Some assms(2) e show ?thesis
      by (auto simp: repositories_ok_def)
  qed
  show ?thesis
  proof (cases "submit env fresh now jr (ap_ansible st)")
    case (Inl e)
    with assms show ?thesis by (simp add: submit_and_persist_def)
  next
    case (Inr x)
    obtain sub co where x: "x = (sub, co)" by fastforce
    show ?thesis
    proof (cases sub)
      case (JobCreated j)
      with assms(1) Inr x have "st' = snd (persist_created_job up j (st\<lparr>ap_ansible := co\<rparr>))"
        by (auto simp: submit_and_persist_def split: prod.splits sum.splits)
      with p show ?thesis by simp
    next
      case (JobDuplicate j)
      with assms Inr x show ?thesis by (auto simp: submit_and_persist_def repositories_ok_def)
    qed
  qed
qed

lemma create_repositories_ok:
  assumes "repositories_ok st"
  shows "repositories_ok (snd (create_ansible_job env raw up fresh now role r st))"
  using assms submit_and_persist_ok
  by (auto simp: create_ansible_job_unfold split: sum.splits option.splits) (metis surjective_pairing)

lemma retry_handler_cases:
  obtains "snd (retry_ansible_job up now role confirmed i st) = st"
  | db where "ap_repositories st = Some db"
      "snd (retry_ansible_job up now role confirmed i st) =
         st\<lparr>ap_repositories := Some (snd (retry_job (up CallRetryJob) now i db))\<rparr>"
  | j co where "ap_repositories st = None" "retry now i (ap_ansible st) = Inr (j, co)"
      "snd (retry_ansible_job up now role confirmed i st) = st\<lparr>ap_ansible := co\<rparr>"
proof -
  let ?s = "snd (retry_ansible_job up now role confirmed i st)"
  have "?s = st \<or> (\<exists>db. ap_repositories st = Some db
        \<and> ?s = st\<lparr>ap_repositories := Some (snd (retry_job (up CallRetryJob) now i db))\<rparr>)
      \<or> (\<exists>j co. ap_repositories st = None \<and> retry now i (ap_ansible st) = Inr (j, co)
        \<and> ?s = st\<lparr>ap_ansible := co\<rparr>)"
    unfolding retry_ansible_job_def by (auto split: sum.splits option.splits prod.splits)
  with that show thesis by blast
qed

lemma coordinator_move_count:
  assumes "hm_get (jc_jobs co) i = Some j0" "jc_jobs co' = hm_insert i (restatus s t j0) (jc_jobs co)"
  shows "length (filter (applies_plan env p) (hm_values (jc_jobs co'))) =
    length (filter (applies_plan env p) (hm_values (jc_jobs co)))"
  unfolding assms(2) by (rule count_hm_update [OF assms(1)]) simp

lemma transition_count:
  assumes "transition now i n co = Inr (j, co')"
  shows "length (filter (applies_plan env p) (hm_values (jc_jobs co'))) =
    length (filter (applies_plan env p) (hm_values (jc_jobs co)))"
proof -
  from assms obtain j0 where "hm_get (jc_jobs co) i = Some j0" "jc_jobs co' = hm_insert i (restatus n now j0) (jc_jobs co)"
    unfolding transition_Inr_iff by (auto simp: transitioned_simps restatus_def)
  then show ?thesis by (rule coordinator_move_count)
qed

lemma retry_count:
  assumes "retry now i co = Inr (j, co')"
  shows "length (filter (applies_plan env p) (hm_values (jc_jobs co'))) =
    length (filter (applies_plan env p) (hm_values (jc_jobs co)))"
proof -
  from assms obtain j0 where "hm_get (jc_jobs co) i = Some j0" "jc_jobs co' = hm_insert i (restatus JQueued now j0) (jc_jobs co)"
    unfolding retry_Inr_iff by (auto simp: restatus_def)
  then show ?thesis by (rule coordinator_move_count)
qed

lemma api_step_inv:
  assumes plain: "\<And>i. ch CHR '':'' \<notin> set (ae_uuid_to_string env i)" and inj: "inj (ae_uuid_to_string env)"
    and step: "api_step env st st'" and inv: "repositories_ok st" "plan_applied_once env st"
  shows "repositories_ok st' \<and> plan_applied_once env st'"
  using step inv
proof (induction rule: api_step.induct)
  case (api_create st raw up fresh now role r)
  then show ?case
    using create_plan_applied_once [OF plain inj, of st raw up fresh now role r] create_repositories_ok
    by (metis surjective_pairing)
next
  case (api_retry st up now role confirmed i)
  show ?case
  proof (cases rule: retry_handler_cases [of up now role confirmed i st])
    case 1
    with api_retry show ?thesis by simp
  next
    case (2 db)
    then have ok: "job_db_ok db" using api_retry by (simp add: repositories_ok_def)
    have "job_count (applies_plan env p) (snd (retry_ansible_job up now role confirmed i st))
        = job_count (applies_plan env p) st" for p
      using retry_job_count [OF ok] 2 by (simp add: job_count_db)
    with api_retry 2 retry_job_ok [OF ok] show ?thesis
      by (simp add: plan_applied_once_def repositories_ok_def)
  next
    case (3 j co)
    then show ?thesis
      using retry_count [OF 3(2)] api_retry
      by (simp add: plan_applied_once_def repositories_ok_def job_count_def stored_jobs_def)
  qed
next
  case (api_worker st db db')
  then have "job_db_ok db" by (simp add: repositories_ok_def)
  with worker_step_count [OF api_worker(2)] api_worker show ?case
    by (simp add: plan_applied_once_def repositories_ok_def job_count_db)
next
  case (api_transition now i "next" st j co)
  then show ?case
    using transition_count [OF api_transition(1)]
    by (cases "ap_repositories st")
       (simp_all add: plan_applied_once_def repositories_ok_def job_count_def stored_jobs_def)
qed

lemma api_reachable_inv:
  assumes plain: "\<And>i. ch CHR '':'' \<notin> set (ae_uuid_to_string env i)" and inj: "inj (ae_uuid_to_string env)"
    and "api_reachable env st"
  shows "repositories_ok st \<and> plan_applied_once env st"
  using assms(3)
proof (induction rule: api_reachable.induct)
  case (api_start st)
  then show ?case by (simp add: plan_applied_once_def job_count_def)
next
  case (api_next st st')
  then show ?case using api_step_inv [OF plain inj] by blast
qed

section \<open>A job whose persistence fails\<close>

definition requested_target :: "create_ansible_job_request \<Rightarrow> resource_target" where
  "requested_target r = (case cr_target_id r of Some i \<Rightarrow> Target i | None \<Rightarrow> Container (cr_container_id r))"

lemma validate_create_target:
  "validate_create env raw up now role r st = Inr jr \<Longrightarrow> jr_target jr = requested_target r"
  by (auto simp: validate_create_def job_request_of_def resolve_ansible_target_def bindR_Inr_iff
      requested_target_def split: option.splits if_splits)

lemma reads_ignore_coordinator:
  "find_target i (st\<lparr>ap_ansible := co\<rparr>) = find_target i st"
  "resolve_ansible_target (st\<lparr>ap_ansible := co\<rparr>) r = resolve_ansible_target st r"
  "load_update_policy (st\<lparr>ap_ansible := co\<rparr>) t p = load_update_policy st t p"
  by (simp_all add: find_target_def resolve_ansible_target_def load_update_policy_def cong: option.case_cong)

lemma gate_ignores_coordinator:
  assumes "ap_repositories st = Some db"
  shows "all_jobs (up(CallSaveJob := b)) (st\<lparr>ap_ansible := co\<rparr>) = all_jobs up st"
    and "load_package_plan (up(CallSaveJob := b)) (st\<lparr>ap_ansible := co\<rparr>) p = load_package_plan up st p"
    and "find_idempotent_job (up(CallSaveJob := b)) (st\<lparr>ap_ansible := co\<rparr>) t k = find_idempotent_job up st t k"
  using assms by (simp_all add: all_jobs_def load_package_plan_def find_idempotent_job_def)

lemma checks_ignore_coordinator:
  assumes db: "ap_repositories st = Some db"
  shows "validate_create env raw (up(CallSaveJob := b)) now role r (st\<lparr>ap_ansible := co\<rparr>) =
      validate_create env raw up now role r st"
    and "find_existing_job (up(CallSaveJob := b)) (st\<lparr>ap_ansible := co\<rparr>) t k = find_existing_job up st t k"
    and "check_target_free (up(CallSaveJob := b)) (st\<lparr>ap_ansible := co\<rparr>) t = check_target_free up st t"
proof -
  show "validate_create env raw (up(CallSaveJob := b)) now role r (st\<lparr>ap_ansible := co\<rparr>) =
      validate_create env raw up now role r st"
    unfolding validate_create_def validate_windows_agent_operation_def validate_package_update_def
      validate_platform_package_ids_def validate_package_apply_def reject_reused_plan_def
      reads_ignore_coordinator gate_ignores_coordinator [OF db] ..
  show "find_existing_job (up(CallSaveJob := b)) (st\<lparr>ap_ansible := co\<rparr>) t k = find_existing_job up st t k"
    unfolding find_existing_job_def gate_ignores_coordinator [OF db] using db
    by (simp cong: option.case_cong)
  show "check_target_free (up(CallSaveJob := b)) (st\<lparr>ap_ansible := co\<rparr>) t = check_target_free up st t"
    unfolding check_target_free_def find_active_target_job_def gate_ignores_coordinator [OF db]
    using db by simp
qed

lemma submit_duplicate:
  assumes "submit env fresh now jr s = Inr (JobCreated j, co)"
    "jr_target jr' = jr_target jr" "jr_idempotency_key jr' = jr_idempotency_key jr"
  shows "submit env fresh' now' jr' co = Inr (JobDuplicate j, co)"
  using submit_created [OF assms(1)] assms(2,3) by (simp add: submit_def Let_def)

lemma unsaved_job:
  assumes first: "create_ansible_job env raw up fresh now role r st = (Inl e, st')" "st' \<noteq> st"
    and db: "ap_repositories st = Some db" and save: "\<not> up CallSaveJob"
  obtains jr j co where "validate_create env raw up now role r st = Inr jr"
    "find_existing_job up st (jr_target jr) (jr_idempotency_key jr) = Inr None"
    "check_target_free up st (jr_target jr) = Inr ()"
    "submit env fresh now jr (ap_ansible st) = Inr (JobCreated j, co)"
    "st' = st\<lparr>ap_ansible := co\<rparr>"
proof -
  from first obtain jr where v: "validate_create env raw up now role r st = Inr jr"
      "find_existing_job up st (jr_target jr) (jr_idempotency_key jr) = Inr None"
      "check_target_free up st (jr_target jr) = Inr ()"
    and s: "submit_and_persist env up fresh now jr st = (Inl e, st')"
    by (auto simp: create_ansible_job_unfold split: sum.splits option.splits)
  from s first(2) obtain j co where sub: "submit env fresh now jr (ap_ansible st) = Inr (JobCreated j, co)"
      and p: "st' = snd (persist_created_job up j (st\<lparr>ap_ansible := co\<rparr>))"
    by (auto simp: submit_and_persist_def split: sum.splits prod.splits job_submission.splits)
  have "st' = st\<lparr>ap_ansible := co\<rparr>"
    using persist_created_job_db [of up j "st\<lparr>ap_ansible := co\<rparr>" _ st' db] p db save
    by (cases "persist_created_job up j (st\<lparr>ap_ansible := co\<rparr>)") auto
  with v sub show thesis by (rule that)
qed

section \<open>Requests served at the same time\<close>

lemma submit_and_persist_created:
  assumes "submit_and_persist env up fresh now jr st = (Inr (202, j), st')"
  obtains co where "submit env fresh now jr (ap_ansible st) = Inr (JobCreated j, co)"
    "persist_created_job up j (st\<lparr>ap_ansible := co\<rparr>) = (Inr (), st')"
  using assms
  by (auto simp: submit_and_persist_def split: sum.splits prod.splits job_submission.splits)

definition stored_as :: "uuid \<Rightarrow> ansible_job \<Rightarrow> api_state \<Rightarrow> bool" where
  "stored_as i j st \<longleftrightarrow>
     (case ap_repositories st of
        Some db \<Rightarrow> j \<in> jw_payload ` set (jd_jobs db)
      | None \<Rightarrow> hm_get (jc_jobs (ap_ansible st)) i = Some j)"

lemma stored_as_stored: "stored_as i j st \<Longrightarrow> j \<in> set (stored_jobs st)"
  by (auto simp: stored_as_def stored_jobs_def intro: hm_values_get split: option.splits)

text \<open>A job that is persisted is among the stored ones, and so is every job with another id.\<close>

lemma persisted_job:
  assumes s: "submit env fresh now jr (ap_ansible st) = Inr (JobCreated j, co)"
    and p: "persist_created_job up j (st\<lparr>ap_ansible := co\<rparr>) = (Inr (), st')"
  shows "stored_as fresh j st'" "stored_as i j' st \<Longrightarrow> i \<noteq> fresh \<Longrightarrow> stored_as i j' st'"
proof -
  have "stored_as fresh j st' \<and> (stored_as i j' st \<longrightarrow> i \<noteq> fresh \<longrightarrow> stored_as i j' st')"
  proof (cases "ap_repositories st")
    case None
    with p submit_created(3) [OF s] show ?thesis by (auto simp: persist_created_job_def stored_as_def)
  next
    case (Some db)
    with persist_created_job_db [OF p] show ?thesis by (auto simp: stored_as_def row_of_job_def)
  qed
  then show "stored_as fresh j st'" "stored_as i j' st \<Longrightarrow> i \<noteq> fresh \<Longrightarrow> stored_as i j' st'" by blast+
qed

text \<open>A checked apply request names a plan that no stored job applies, and its job applies it.\<close>

lemma apply_request_unused:
  assumes v: "validate_create env raw up now role r st = Inr jr"
    and op: "cr_operation r = OpUpdatePackages" "cr_mode r = ModeApply" "cr_approved_plan_job_id r = Some plan"
  shows "starts_with (cr_idempotency_key r) (apply_key_prefix env plan)"
    "j \<in> set (stored_jobs st) \<Longrightarrow> \<not> applies_plan env plan j"
proof -
  from validate_package_update_applyD [OF validate_createD(6) [OF v] op(1,2)] obtain tid pid policy packages where
    "validate_package_apply env up now st r (jr_target jr) tid pid policy packages = Inr ()" by blast
  from validate_package_applyD [OF this] op(3)
  show "starts_with (cr_idempotency_key r) (apply_key_prefix env plan)"
    "j \<in> set (stored_jobs st) \<Longrightarrow> \<not> applies_plan env plan j" by auto
qed

lemma apply_request_applies:
  assumes v: "validate_create env raw up now role r st = Inr jr"
    and op: "cr_operation r = OpUpdatePackages" "cr_mode r = ModeApply" "cr_approved_plan_job_id r = Some plan"
    and f: "from_request env fresh t jr = Inr j"
  shows "applies_plan env plan j"
  using apply_request_unused(1) [OF v op] validate_createD [OF v] from_request_Inr [OF f] op
  by (simp add: applies_plan_def)

section \<open>An example\<close>

definition text_env :: ansible_env where
  "text_env = \<lparr>ae_to_vec = (\<lambda>_. []), ae_sha256 = (\<lambda>b. b), ae_uuid_to_string = (\<lambda>u. [unat u + 1000]),
     ae_uuid_parse = (\<lambda>s. case s of [n] \<Rightarrow> Some (of_nat (n - 1000)) | _ \<Rightarrow> None)\<rparr>"

definition policy_target :: target where
  "policy_target = \<lparr>tg_id = 5, tg_name = lit ''web'', tg_kind = LinuxServer, tg_address = lit ''192.0.2.1'',
     tg_transport = Ssh, tg_ssh_user = None, tg_credential_secret_ref = Some 9,
     tg_ssh_known_hosts_secret_ref = None, tg_agent_secret_ref = 10, tg_state = TargetManaged,
     tg_created_at = 0, tg_updated_at = 0\<rparr>"

definition security_policy :: update_policy where
  "security_policy = \<lparr>po_id = lit ''security'', po_allowed_targets = [5], po_allowed_packages = [lit ''curl''],
     po_maintenance_start_minute = 0, po_maintenance_end_minute = 1439, po_timezone = lit ''UTC'',
     po_maximum_risk = High, po_enabled = True\<rparr>"

definition plan_job :: ansible_job where
  "plan_job = \<lparr>aj_id = 1, aj_operation = OpUpdatePackages, aj_playbook = lit ''packages/update.yml'',
     aj_playbook_version = lit ''1'', aj_target = Target 5, aj_mode = ModePlan,
     aj_parameters = ParamUpdatePackages [lit ''curl''], aj_secret_refs = [9],
     aj_idempotency_key = lit ''package-plan:security:7'', aj_parameter_hash = [],
     aj_status = JSucceeded, aj_created_at = 1, aj_updated_at = 2\<rparr>"

definition policy_state :: api_state where
  "policy_state = \<lparr>ap_targets = [policy_target], ap_containers = [], ap_update_policies = [security_policy],
     ap_schedules = [], ap_ansible = job_coordinator_default\<lparr>jc_jobs := [(1, plan_job)]\<rparr>,
     ap_repositories = None\<rparr>"

definition apply_request :: create_ansible_job_request where
  "apply_request = \<lparr>cr_operation = OpUpdatePackages, cr_target_id = Some 5, cr_container_id = 0,
     cr_mode = ModeApply, cr_parameters = ParamUpdatePackages [lit ''curl''],
     cr_idempotency_key = lit ''package-apply:'' @ [1001] @ lit '':8'', cr_confirmed = True,
     cr_policy_id = Some (lit ''security''), cr_approved_plan_job_id = Some 1\<rparr>"

definition applied_state :: "(nat \<times> ansible_job) api_result \<times> api_state" where
  "applied_state = create_ansible_job text_env None (\<lambda>_. True) 2 10 Operator apply_request policy_state"

definition second_request :: create_ansible_job_request where
  "second_request = apply_request\<lparr>cr_idempotency_key := lit ''package-apply:'' @ [1001] @ lit '':9''\<rparr>"

definition health_state :: api_state where
  "health_state = policy_state\<lparr>ap_ansible := job_coordinator_default,
     ap_repositories := Some (job_db_empty\<lparr>jd_targets := [(5, LinuxServer)]\<rparr>)\<rparr>"

definition health_request :: create_ansible_job_request where
  "health_request = apply_request\<lparr>cr_operation := OpHealthCheck, cr_mode := ModeCheck,
     cr_parameters := ParamHealthCheck, cr_idempotency_key := lit ''health-1''\<rparr>"

definition unsaved_state :: "(nat \<times> ansible_job) api_result \<times> api_state" where
  "unsaved_state = create_ansible_job text_env None (\<lambda>c. c \<noteq> CallSaveJob) 3 10 Operator health_request health_state"

lemma text_env_plain: "ch CHR '':'' \<notin> set (ae_uuid_to_string text_env i)"
  by (simp add: text_env_def ch_def)

lemma text_env_inj: "inj (ae_uuid_to_string text_env)"
  by (auto simp: inj_on_def text_env_def word_unat_eq_iff)

lemma applied_eval: "case fst applied_state of Inl _ \<Rightarrow> False | Inr (status, j) \<Rightarrow> status = 202 \<and> aj_id j = 2"
  by code_simp

lemma second_checked:
  "case create_check text_env None (\<lambda>_. True) 10 Operator second_request policy_state of
     Inr (Inr jr) \<Rightarrow>
       (case submit_and_persist text_env (\<lambda>_. True) 3 10 jr (snd applied_state) of
          (Inr (status, j), _) \<Rightarrow> status = 202 | _ \<Rightarrow> False)
   | _ \<Rightarrow> False"
  by code_simp

lemma unsaved_eval:
  "case fst unsaved_state of Inl e \<Rightarrow> ae_code e = lit ''storage_error'' | Inr _ \<Rightarrow> False"
  "length (jc_jobs (ap_ansible (snd unsaved_state))) = 1"
  by code_simp+

section \<open>Properties\<close>



text \<open>
  When requests are handled one after the other, at most one stored job ever applies a given plan,
  whatever jobs are requested, retried, claimed and moved in whatever order.
\<close>

theorem plan_applied_at_most_once:
  assumes "\<And>i. ch CHR '':'' \<notin> set (ae_uuid_to_string env i)" and "inj (ae_uuid_to_string env)"
    and "api_reachable env st"
  shows "length (filter (applies_plan env plan) (stored_jobs st)) \<le> 1"
  using api_reachable_inv [OF assms] by (simp add: plan_applied_once_def job_count_def)

theorem plan_applied_at_most_once_witness:
  "length (filter (applies_plan text_env 1) (stored_jobs (snd unsaved_state))) \<le> 1"
proof -
  have "api_reachable text_env (snd unsaved_state)"
    unfolding unsaved_state_def
    by (intro api_next [OF api_start api_create])
       (simp_all add: health_state_def stored_jobs_def repositories_ok_def job_db_ok_def job_db_empty_def
         unique_ok_def event_keys_def)
  from plan_applied_at_most_once [OF text_env_plain text_env_inj this] show ?thesis .
qed

text \<open>
  C24. The check that a plan has not been applied is no protection against a request served at the
  same time. Let one request for an apply be accepted, and a second one for the same plan
  have passed its checks in the state in which the first was checked. When the second goes on after
  the first is stored and is accepted as well, two different stored jobs apply the plan; yet every
  check of the second request made after the first was stored would have refused it.
\<close>

theorem concurrent_applies_both_stored:
  assumes first: "create_ansible_job env raw up fresh now role r st = (Inr (202, j), st')"
    and op: "cr_operation r = OpUpdatePackages" "cr_mode r = ModeApply" "cr_approved_plan_job_id r = Some plan"
    and checked: "create_check env raw' up' now' role' r' st = Inr (Inr jr)"
    and op': "cr_operation r' = OpUpdatePackages" "cr_mode r' = ModeApply" "cr_approved_plan_job_id r' = Some plan"
    and second: "submit_and_persist env up' fresh' now' jr st' = (Inr (202, j'), st'')"
    and fresh: "fresh' \<noteq> fresh"
  shows "j \<noteq> j' \<and> {j, j'} \<subseteq> set (stored_jobs st'')
    \<and> applies_plan env plan j \<and> applies_plan env plan j'
    \<and> (\<forall>raw up now role. \<exists>e. create_check env raw up now role r' st' = Inl e)"
proof -
  from create_ansible_job_created [OF first] obtain jq co where
    v: "validate_create env raw up now role r st = Inr jq"
    and s: "submit env fresh now jq (ap_ansible st) = Inr (JobCreated j, co)"
    and p: "persist_created_job up j (st\<lparr>ap_ansible := co\<rparr>) = (Inr (), st')" by blast
  from second obtain co' where
    s': "submit env fresh' now' jr (ap_ansible st') = Inr (JobCreated j', co')"
    and p': "persist_created_job up' j' (st'\<lparr>ap_ansible := co'\<rparr>) = (Inr (), st'')"
    by (rule submit_and_persist_created)
  from checked have v': "validate_create env raw' up' now' role' r' st = Inr jr"
    by (simp add: create_check_submits)
  have a: "applies_plan env plan j" "applies_plan env plan j'"
    by (fact apply_request_applies [OF v op submit_created(1) [OF s]]
        apply_request_applies [OF v' op' submit_created(1) [OF s']])+
  have stored: "j \<in> set (stored_jobs st')" "{j, j'} \<subseteq> set (stored_jobs st'')"
    using persisted_job(1) [OF s p] persisted_job [OF s' p'] fresh stored_as_stored by blast+
  have "\<exists>e. create_check env raw up now role r' st' = Inl e" for raw up now role
  proof (cases "validate_create env raw up now role r' st'")
    case (Inr jq')
    from apply_request_unused(2) [OF this op'] stored(1) a(1) show ?thesis by blast
  qed (simp add: create_check_def)
  with a stored(2) submit_created(4) [OF s] submit_created(4) [OF s'] fresh show ?thesis by auto
qed

theorem concurrent_applies_both_stored_witness:
  "\<exists>st j j'. j \<noteq> j' \<and> {j, j'} \<subseteq> set (stored_jobs st)
    \<and> applies_plan text_env 1 j \<and> applies_plan text_env 1 j'"
proof -
  from applied_eval obtain j where "fst applied_state = Inr (202, j)"
    by (cases "fst applied_state") auto
  then have c: "create_ansible_job text_env None (\<lambda>_. True) 2 10 Operator apply_request policy_state =
      (Inr (202, j), snd applied_state)"
    by (metis applied_state_def prod.collapse)
  from second_checked obtain jr j' st'' where
    k: "create_check text_env None (\<lambda>_. True) 10 Operator second_request policy_state = Inr (Inr jr)"
    and s: "submit_and_persist text_env (\<lambda>_. True) 3 10 jr (snd applied_state) = (Inr (202, j'), st'')"
    by (auto split: sum.splits prod.splits)
  have "cr_operation apply_request = OpUpdatePackages" "cr_mode apply_request = ModeApply"
    "cr_approved_plan_job_id apply_request = Some 1" "cr_operation second_request = OpUpdatePackages"
    "cr_mode second_request = ModeApply" "cr_approved_plan_job_id second_request = Some 1"
    by (simp_all add: apply_request_def second_request_def)
  from concurrent_applies_both_stored [OF c this(1-3) k this(4-6) s] show ?thesis by fastforce
qed

text \<open>
  When the database refuses a new job, the request fails but the coordinator keeps the job. Every
  repetition of the request then leaves the server as it is and stores nothing; and once the
  database accepts jobs again, the repetition is answered with success and the job that no worker
  will ever find.
\<close>

theorem unsaved_job_is_reported_queued:
  assumes first: "create_ansible_job env raw up fresh now role r st = (Inl e, st')" "st' \<noteq> st"
    and db: "ap_repositories st = Some db" and save: "\<not> up CallSaveJob"
  shows "\<exists>j. ap_repositories st' = Some db
    \<and> create_ansible_job env raw (up(CallSaveJob := True)) fresh' now role r st' = (Inr (200, j), st')
    \<and> (\<forall>raw' up' i t role'. snd (create_ansible_job env raw' up' i t role' r st') = st')"
proof -
  from unsaved_job [OF assms] obtain jr j co where
    v: "validate_create env raw up now role r st = Inr jr"
      "find_existing_job up st (jr_target jr) (jr_idempotency_key jr) = Inr None"
      "check_target_free up st (jr_target jr) = Inr ()"
    and s: "submit env fresh now jr (ap_ansible st) = Inr (JobCreated j, co)"
    and st': "st' = st\<lparr>ap_ansible := co\<rparr>" .
  have dup: "submit env i t jr' co = Inr (JobDuplicate j, co)"
    if "validate_create env raw' up' t role' r st'' = Inr jr'" for raw' up' i t role' jr' st''
    using submit_duplicate [OF s] validate_create_target [OF that] validate_create_target [OF v(1)]
      validate_createD(4) [OF that] validate_createD(4) [OF v(1)] by simp
  have "create_ansible_job env raw (up(CallSaveJob := True)) fresh' now role r st' = (Inr (200, j), st')"
    using v dup [OF v(1), of fresh'] checks_ignore_coordinator [OF db]
    by (simp add: create_ansible_job_unfold submit_and_persist_def st')
  moreover have "snd (create_ansible_job env raw' up' i t role' r st') = st'" for raw' up' i t role'
    using dup
    by (auto simp: create_ansible_job_unfold submit_and_persist_def st' split: sum.splits option.splits)
  ultimately show ?thesis using db by (auto simp: st')
qed

theorem unsaved_job_is_reported_queued_witness:
  "\<exists>j. create_ansible_job text_env None (\<lambda>_. True) 4 10 Operator health_request (snd unsaved_state)
    = (Inr (200, j), snd unsaved_state)"
proof -
  from unsaved_eval(1) obtain e where e: "fst unsaved_state = Inl e"
    by (cases "fst unsaved_state") auto
  then have c: "create_ansible_job text_env None (\<lambda>c. c \<noteq> CallSaveJob) 3 10 Operator health_request health_state
      = (Inl e, snd unsaved_state)" by (metis unsaved_state_def prod.collapse)
  have n: "snd unsaved_state \<noteq> health_state"
    using unsaved_eval(2) by (auto simp: health_state_def job_coordinator_default_def)
  have r: "ap_repositories health_state = Some (job_db_empty\<lparr>jd_targets := [(5, LinuxServer)]\<rparr>)"
    by (simp add: health_state_def)
  have "(\<lambda>c. c \<noteq> CallSaveJob)(CallSaveJob := True) = (\<lambda>_. True)" by auto
  with unsaved_job_is_reported_queued [OF c n r, of 4] show ?thesis by auto
qed

end
