(* ===== verification/Heartbeat.thy ===== *)
theory Heartbeat
  imports Updates Schedule AgentParsers ServerBase
begin

text \<open>
  The telemetry of an agent, from the buffers in the agent (\<open>lxcup-agent/src/lib.rs\<close>) to what the
  server accepts of a heartbeat (\<open>lxcup-server/src/targets/heartbeat.rs\<close>): bounded windows, the
  samples the server rejects and why, and the package inventory of a Windows agent. Clock reads
  are arguments; log output is left out.
\<close>

section \<open>Samples and buffers (lxcup-agent)\<close>

record system_telemetry_sample =
  ss_collected_at :: timestamp
  ss_cpu_basis_points :: "u16 option"
  ss_memory_basis_points :: "u16 option"
  ss_storage_basis_points :: "u16 option"
  ss_load_1_milli :: "u32 option"
  ss_network_rx_bytes :: "u64 option"
  ss_network_tx_bytes :: "u64 option"
  ss_process_count :: "u32 option"

record system_telemetry_window =
  sw_samples :: "system_telemetry_sample list"
  sw_partial :: bool

record docker_telemetry_sample =
  ds_collected_at :: timestamp
  ds_container_id :: str
  ds_cpu_basis_points :: "u16 option"
  ds_memory_basis_points :: "u16 option"
  ds_memory_used_bytes :: "u64 option"
  ds_memory_limit_bytes :: "u64 option"

definition WINDOW_SECONDS :: int where
  "WINDOW_SECONDS = 60"

definition MAX_SAMPLES :: nat where
  "MAX_SAMPLES = 32"

definition MAX_DOCKER_SAMPLES :: nat where
  "MAX_DOCKER_SAMPLES = 8000"

text \<open>\<open>while len > max { pop_front() }\<close>\<close>

definition keep_last :: "nat \<Rightarrow> 'a list \<Rightarrow> 'a list" where
  "keep_last n xs = drop (length xs - n) xs"

definition telemetry_remove_expired ::
  "timestamp \<Rightarrow> system_telemetry_sample list \<Rightarrow> system_telemetry_sample list" where
  "telemetry_remove_expired now samples =
     dropWhile (\<lambda>s. ss_collected_at s < now - seconds WINDOW_SECONDS) samples"

definition telemetry_record ::
  "timestamp \<Rightarrow> system_telemetry_sample \<Rightarrow> system_telemetry_sample list \<Rightarrow> system_telemetry_sample list" where
  "telemetry_record now sample samples =
     telemetry_remove_expired now (keep_last MAX_SAMPLES (samples @ [sample]))"

definition telemetry_window ::
  "timestamp \<Rightarrow> system_telemetry_sample list \<Rightarrow> system_telemetry_window \<times> system_telemetry_sample list" where
  "telemetry_window now samples0 =
     (let samples = telemetry_remove_expired now samples0
      in (\<lparr>sw_samples = samples,
           sw_partial = list_ex (\<lambda>s. ss_cpu_basis_points s = None \<or> ss_memory_basis_points s = None
             \<or> ss_storage_basis_points s = None) samples\<rparr>, samples))"

definition docker_remove_expired ::
  "timestamp \<Rightarrow> docker_telemetry_sample list \<Rightarrow> docker_telemetry_sample list" where
  "docker_remove_expired now samples =
     filter (\<lambda>s. ds_collected_at s \<ge> now - seconds WINDOW_SECONDS) samples"

definition docker_record ::
  "timestamp \<Rightarrow> docker_telemetry_sample list \<Rightarrow> docker_telemetry_sample list \<Rightarrow> docker_telemetry_sample list" where
  "docker_record now new samples = docker_remove_expired now (keep_last MAX_DOCKER_SAMPLES (samples @ new))"

section \<open>Heartbeats\<close>

datatype agent_platform = PlatformLinux | PlatformWindows

record agent_info =
  ai_agent_id :: str
  ai_platform :: agent_platform
  ai_hostname :: str
  ai_version :: str
  ai_protocol_version :: str

record agent_package_inventory =
  ap_collected_at :: timestamp
  ap_packages :: "agent_installed_package list"

record agent_heartbeat =
  hb_target_id :: uuid
  hb_info :: agent_info
  hb_sent_at :: timestamp
  hb_telemetry :: system_telemetry_window
  hb_docker_telemetry :: "docker_telemetry_sample list"
  hb_package_inventory :: "agent_package_inventory option"

record telemetry_summary =
  su_received :: nat
  su_accepted :: nat
  su_stale :: nat
  su_future :: nat
  su_out_of_range :: nat
  su_missing_samples :: nat
  su_duplicates :: nat
  su_truncated :: nat

definition rejected :: "telemetry_summary \<Rightarrow> nat" where
  "rejected s = su_stale s + su_future s + su_out_of_range s + su_duplicates s + su_truncated s"

section \<open>The telemetry window\<close>

definition above_limit :: "u16 \<Rightarrow> u16 option \<Rightarrow> bool" where
  "above_limit limit v = (case v of None \<Rightarrow> False | Some x \<Rightarrow> limit < x)"

datatype sample_verdict = Stale | Future | OutOfRange | Accept system_telemetry_sample

text \<open>\<open>with_nanosecond(0)\<close> on an instant.\<close>

definition whole_second :: "timestamp \<Rightarrow> timestamp" where
  "whole_second t = t - t mod seconds 1"

text \<open>The closure of \<open>retain_mut\<close>.\<close>

definition judge_sample ::
  "timestamp \<Rightarrow> timestamp \<Rightarrow> system_telemetry_sample \<Rightarrow> sample_verdict" where
  "judge_sample received_at sent_at sample =
     (let sample_age = sent_at - ss_collected_at sample in
      if sample_age > seconds WINDOW_SECONDS then Stale
      else if sample_age < seconds (-5) then Future
      else if above_limit 10000 (ss_cpu_basis_points sample) \<or> above_limit 10000 (ss_memory_basis_points sample)
           \<or> above_limit 10000 (ss_storage_basis_points sample) then OutOfRange
      else Accept (sample\<lparr>ss_collected_at := whole_second (received_at - sample_age)\<rparr>))"

definition accepted_sample :: "sample_verdict \<Rightarrow> system_telemetry_sample list" where
  "accepted_sample v = (case v of Accept s \<Rightarrow> [s] | _ \<Rightarrow> [])"

text \<open>\<open>dedup_by\<close> keeps the first sample of every run with the same time.\<close>

fun dedup_samples :: "system_telemetry_sample list \<Rightarrow> system_telemetry_sample list" where
  "dedup_samples (a # b # rest) =
     (if ss_collected_at b = ss_collected_at a then dedup_samples (a # rest)
      else a # dedup_samples (b # rest))"
| "dedup_samples xs = xs"

fun missing_samples :: "system_telemetry_sample list \<Rightarrow> nat" where
  "missing_samples (a # b # rest) =
     (let gap_ms = (ss_collected_at b - ss_collected_at a) div 1000000
      in (if gap_ms > 7500 then nat ((gap_ms + 4999) div 5000 - 1) else 0) + missing_samples (b # rest))"
| "missing_samples xs = 0"

definition sanitize_telemetry_window ::
  "timestamp \<Rightarrow> agent_heartbeat \<Rightarrow> telemetry_summary \<times> agent_heartbeat" where
  "sanitize_telemetry_window received_at hb =
     (let samples0 = sw_samples (hb_telemetry hb);
          truncated = length samples0 - MAX_SAMPLES;
          samples1 = drop truncated samples0;
          verdicts = map (judge_sample received_at (hb_sent_at hb)) samples1;
          count = (\<lambda>v. length (filter (\<lambda>w. w = v) verdicts));
          stale = count Stale; future = count Future; out_of_range = count OutOfRange;
          samples2 = sort_key ss_collected_at (concat (map accepted_sample verdicts));
          samples3 = dedup_samples samples2;
          duplicates = length samples2 - length samples3;
          missing = missing_samples samples3;
          partial = sw_partial (hb_telemetry hb) \<or> truncated > 0 \<or> stale + future + out_of_range > 0
            \<or> duplicates > 0 \<or> missing > 0
      in (\<lparr>su_received = length samples0, su_accepted = length samples3, su_stale = stale,
           su_future = future, su_out_of_range = out_of_range, su_missing_samples = missing,
           su_duplicates = duplicates, su_truncated = truncated\<rparr>,
          hb\<lparr>hb_telemetry := \<lparr>sw_samples = samples3, sw_partial = partial\<rparr>\<rparr>))"

section \<open>Docker telemetry\<close>

text \<open>\<open>retain\<close> with a set of seen keys: the first valid sample of a container and time stays.\<close>

definition docker_sample_valid :: "timestamp \<Rightarrow> docker_telemetry_sample \<Rightarrow> bool" where
  "docker_sample_valid now s \<longleftrightarrow>
     12 \<le> str_len (ds_container_id s) \<and> str_len (ds_container_id s) \<le> 64
     \<and> list_all is_ascii_hexdigit (ds_container_id s)
     \<and> \<not> above_limit 10000 (ds_memory_basis_points s)
     \<and> ds_collected_at s \<le> now + seconds 5 \<and> ds_collected_at s \<ge> now - seconds WINDOW_SECONDS"

fun retain_docker ::
  "timestamp \<Rightarrow> (str \<times> timestamp) list \<Rightarrow> docker_telemetry_sample list \<Rightarrow> docker_telemetry_sample list" where
  "retain_docker now seen [] = []"
| "retain_docker now seen (s # rest) =
     (let key = (to_ascii_lowercase (ds_container_id s), ds_collected_at s) in
      if docker_sample_valid now s \<and> key \<notin> set seen then s # retain_docker now (key # seen) rest
      else retain_docker now seen rest)"

definition sanitize_docker_telemetry_window :: "timestamp \<Rightarrow> agent_heartbeat \<Rightarrow> agent_heartbeat" where
  "sanitize_docker_telemetry_window now hb =
     hb\<lparr>hb_docker_telemetry := keep_last MAX_DOCKER_SAMPLES
       (sort_key ds_collected_at (retain_docker now [] (hb_docker_telemetry hb)))\<rparr>"

section \<open>The package inventory of a Windows agent\<close>

definition safe_identifier :: "agent_installed_package \<Rightarrow> bool" where
  "safe_identifier p =
     (case aip_source p of
        None \<Rightarrow> False
      | Some s \<Rightarrow>
          if s = lit ''winget'' then safe_winget_id (aip_name p)
          else if s = lit ''msstore'' then safe_msstore_id (aip_name p)
          else if s \<in> {lit ''arp'', lit ''msix''} then safe_read_only_windows_package_id (aip_name p) s
          else False)"

text \<open>
  The result and the updated set of names. A package that fails a check before the insertion leaves
  the set alone; the constructors of the core types after it may still fail.
\<close>

definition sanitize_agent_package ::
  "agent_installed_package \<Rightarrow> str list \<Rightarrow> installed_package option \<times> str list" where
  "sanitize_agent_package p names =
     (let key = to_ascii_lowercase (aip_name p) in
      if \<not> safe_identifier p \<or> str_len (aip_name p) > 128
         \<or> trim (aip_installed_version p) = [] \<or> str_len (aip_installed_version p) > 128
         \<or> (case aip_candidate_version p of None \<Rightarrow> False | Some v \<Rightarrow> trim v = [] \<or> str_len v > 128)
      then (None, names)
      else if key \<in> set names then (None, names)
      else
        (case (package_name_new (aip_name p), package_version_new (aip_installed_version p),
               if aip_source p \<in> {Some (lit ''winget''), Some (lit ''msstore'')}
               then transpose_result package_version_new (aip_candidate_version p) else Inr None) of
           (Inr name, Inr version, Inr candidate) \<Rightarrow>
             (Some \<lparr>ip_name = name, ip_version = version, ip_candidate_version = candidate,
                ip_architecture = aip_architecture p, ip_source = aip_source p\<rparr>, key # names)
         | _ \<Rightarrow> (None, key # names)))"

fun sanitize_packages ::
  "agent_installed_package list \<Rightarrow> str list \<Rightarrow> installed_package list" where
  "sanitize_packages [] names = []"
| "sanitize_packages (p # ps) names =
     (case sanitize_agent_package p names of
        (None, names') \<Rightarrow> sanitize_packages ps names'
      | (Some q, names') \<Rightarrow> q # sanitize_packages ps names')"

definition sanitize_agent_package_inventory ::
  "timestamp \<Rightarrow> agent_heartbeat \<Rightarrow> target_kind \<Rightarrow> package_inventory_snapshot option api_result" where
  "sanitize_agent_package_inventory now hb kind =
     (case hb_package_inventory hb of
        None \<Rightarrow> Inr None
      | Some inventory \<Rightarrow>
          if kind \<noteq> WindowsServer \<or> ai_platform (hb_info hb) \<noteq> PlatformWindows then
            Inl (bad_request (lit ''agent_inventory_platform_mismatch'')
              (lit ''package inventory does not match the registered Windows target''))
          else if length (ap_packages inventory) > 50000
             \<or> ap_collected_at inventory > now + seconds 5
             \<or> ap_collected_at inventory < now - seconds 3600 then
            Inl (bad_request (lit ''agent_inventory_invalid'')
              (lit ''Windows package inventory is invalid or too old''))
          else
            (let packages = sanitize_packages (ap_packages inventory) [] in
             if packages = [] \<and> ap_packages inventory \<noteq> [] then Inr None
             else Inr (Some \<lparr>pis_target_id = hb_target_id hb, pis_collected_at = ap_collected_at inventory,
                             pis_packages = packages\<rparr>)))"

definition sanitize_reported_package_inventory ::
  "timestamp \<Rightarrow> agent_heartbeat \<Rightarrow> target_kind \<Rightarrow> package_inventory_snapshot option" where
  "sanitize_reported_package_inventory now hb kind =
     (case sanitize_agent_package_inventory now hb kind of Inl _ \<Rightarrow> None | Inr s \<Rightarrow> s)"

end
