(* ===== verification/HeartbeatLaws.thy ===== *)
theory HeartbeatLaws
  imports Heartbeat "HOL-Library.Sublist"
begin

text \<open>
  What the server keeps of a heartbeat: every received sample is accounted for once, the accepted
  window is bounded, in range, on whole seconds and strictly ordered in time, and the accepted
  packages are safe and distinct.
\<close>

section \<open>The window\<close>

lemma keep_last_length: "length (keep_last n xs) \<le> n"
  by (simp add: keep_last_def)

lemma set_keep_last: "set (keep_last n xs) \<subseteq> set xs"
  by (simp add: keep_last_def set_drop_subset)

lemma dedup_samples_length: "length (dedup_samples xs) \<le> length xs"
  by (induction xs rule: dedup_samples.induct) auto

lemma dedup_samples_subset: "set (dedup_samples xs) \<subseteq> set xs"
  by (induction xs rule: dedup_samples.induct) auto

lemma dedup_samples_Cons: "\<exists>ys. dedup_samples (a # xs) = a # ys"
  by (induction xs arbitrary: a) auto

lemma dedup_samples_strict:
  "sorted (map ss_collected_at xs) \<Longrightarrow> sorted_wrt (\<lambda>a b. ss_collected_at a < ss_collected_at b) (dedup_samples xs)"
proof (induction xs rule: dedup_samples.induct)
  case (1 a b rest)
  show ?case
  proof (cases "ss_collected_at b = ss_collected_at a")
    case True
    with 1 show ?thesis by simp
  next
    case False
    with 1(3) have lt: "ss_collected_at a < ss_collected_at b" by simp
    with 1(3) have "ss_collected_at a < ss_collected_at s" if "s \<in> set (b # rest)" for s
      using that by fastforce
    with False 1 dedup_samples_subset [of "b # rest"] show ?thesis by auto
  qed
qed simp_all

lemma dedup_samples_times:
  "ss_collected_at ` set (dedup_samples xs) = ss_collected_at ` set xs"
proof (induction xs rule: dedup_samples.induct)
  case (1 a b rest)
  then show ?case by (cases "ss_collected_at b = ss_collected_at a") auto
qed auto

text \<open>Every verdict is counted once.\<close>

lemma verdict_count:
  "length vs = length (filter (\<lambda>w. w = Stale) vs) + length (filter (\<lambda>w. w = Future) vs)
     + length (filter (\<lambda>w. w = OutOfRange) vs) + length (concat (map accepted_sample vs))"
  by (induction vs) (auto simp: accepted_sample_def split: sample_verdict.splits)

definition sample_ok :: "timestamp \<Rightarrow> system_telemetry_sample \<Rightarrow> bool" where
  "sample_ok received_at s \<longleftrightarrow>
     \<not> above_limit 10000 (ss_cpu_basis_points s) \<and> \<not> above_limit 10000 (ss_memory_basis_points s)
     \<and> \<not> above_limit 10000 (ss_storage_basis_points s) \<and> ss_collected_at s mod seconds 1 = 0
     \<and> received_at - seconds 61 < ss_collected_at s \<and> ss_collected_at s \<le> received_at + seconds 5"

lemma whole_second_bounds: "whole_second t \<le> t" "t - seconds 1 < whole_second t" "whole_second t mod seconds 1 = 0"
proof -
  have "0 \<le> t mod seconds 1" "t mod seconds 1 < seconds 1" by (simp_all add: seconds_def)
  then show "whole_second t \<le> t" "t - seconds 1 < whole_second t" by (simp_all add: whole_second_def)
  show "whole_second t mod seconds 1 = 0" by (simp add: whole_second_def mod_diff_left_eq [symmetric])
qed

lemma judge_sample_Accept:
  assumes "judge_sample received_at sent_at s = Accept s'"
  shows "sample_ok received_at s'"
proof -
  let ?age = "sent_at - ss_collected_at s"
  from assms have s': "s' = s\<lparr>ss_collected_at := whole_second (received_at - ?age)\<rparr>"
    and a: "?age \<le> seconds 60" "seconds (-5) \<le> ?age"
      "\<not> above_limit 10000 (ss_cpu_basis_points s)" "\<not> above_limit 10000 (ss_memory_basis_points s)"
      "\<not> above_limit 10000 (ss_storage_basis_points s)"
    by (auto simp: judge_sample_def Let_def WINDOW_SECONDS_def split: if_splits)
  then show ?thesis
    using whole_second_bounds [of "received_at - ?age"]
    unfolding sample_ok_def s' by (simp add: seconds_def)
qed

lemma accepted_samples_ok:
  "s \<in> set (concat (map accepted_sample (map (judge_sample r t) xs))) \<Longrightarrow> sample_ok r s"
  by (auto simp: accepted_sample_def split: sample_verdict.splits dest: judge_sample_Accept [OF sym])

section \<open>The inventory\<close>

lemma sanitize_agent_package_Some:
  assumes "sanitize_agent_package p names = (Some q, names')"
  shows "safe_identifier p \<and> package_name_as_str (ip_name q) = aip_name p
    \<and> to_ascii_lowercase (aip_name p) \<notin> set names \<and> names' = to_ascii_lowercase (aip_name p) # names
    \<and> ip_source q = aip_source p \<and> str_len (aip_name p) \<le> 128
    \<and> (ip_candidate_version q \<noteq> None \<longrightarrow> ip_source q \<in> {Some (lit ''winget''), Some (lit ''msstore'')})"
  using assms
  by (auto simp: sanitize_agent_package_def Let_def package_name_new_Inr_iff
      split: if_splits sum.splits option.splits)

lemma sanitize_agent_package_names:
  "sanitize_agent_package p names = (r, names') \<Longrightarrow> set names \<subseteq> set names'"
  by (auto simp: sanitize_agent_package_def Let_def split: if_splits sum.splits)

definition package_key :: "installed_package \<Rightarrow> str" where
  "package_key q = to_ascii_lowercase (package_name_as_str (ip_name q))"

lemma sanitize_packages_ok:
  "distinct (map package_key (sanitize_packages ps names))
   \<and> set (map package_key (sanitize_packages ps names)) \<inter> set names = {}
   \<and> length (sanitize_packages ps names) \<le> length ps
   \<and> (\<forall>q \<in> set (sanitize_packages ps names). \<exists>p \<in> set ps. safe_identifier p
        \<and> package_name_as_str (ip_name q) = aip_name p \<and> ip_source q = aip_source p
        \<and> (ip_candidate_version q \<noteq> None \<longrightarrow> ip_source q \<in> {Some (lit ''winget''), Some (lit ''msstore'')}))"
proof (induction ps names rule: sanitize_packages.induct)
  case (2 p ps names)
  obtain r names' where s: "sanitize_agent_package p names = (r, names')" by fastforce
  show ?case
  proof (cases r)
    case None
    with 2(1) s sanitize_agent_package_names [OF s] show ?thesis by fastforce
  next
    case (Some q)
    note d = sanitize_agent_package_Some [OF s [unfolded Some]]
    have "package_key q = to_ascii_lowercase (aip_name p)" using d by (simp add: package_key_def)
    with 2(2) s Some d show ?thesis by (auto simp: disjoint_iff)
  qed
qed simp

section \<open>The buffers of the agent\<close>

text \<open>
  What the two sample buffers of the agent share: a bound that recording keeps, and a report that
  holds only recorded samples and, when they were recorded in order of time, only recent ones.
\<close>

lemma subseq_set: "subseq xs ys \<Longrightarrow> set xs \<subseteq> set ys"
  by (induction rule: list_emb.induct) auto

lemma sorted_subseq: "subseq xs ys \<Longrightarrow> sorted ys \<Longrightarrow> sorted (xs :: 'a::linorder list)"
  by (induction rule: list_emb.induct) (auto dest: subseq_set)

locale sample_buffer =
  fixes store :: "timestamp \<Rightarrow> 'x \<Rightarrow> 's list \<Rightarrow> 's list"
    and report :: "timestamp \<Rightarrow> 's list \<Rightarrow> 's list"
    and new :: "'x \<Rightarrow> 's list"
    and time :: "'s \<Rightarrow> timestamp"
    and capacity :: nat
  assumes store_bounded: "length (store now x b) \<le> capacity"
    and store_subset: "set (store now x b) \<subseteq> set b \<union> set (new x)"
    and store_subseq: "subseq (store now x b) (b @ new x)"
    and report_subseq: "subseq (report now b) b"
    and report_recent: "sorted (map time b) \<Longrightarrow> s \<in> set (report now b) \<Longrightarrow> now - seconds WINDOW_SECONDS \<le> time s"
begin

definition run :: "(timestamp \<times> 'x) list \<Rightarrow> 's list" where
  "run xs = fold (\<lambda>(now, x) b. store now x b) xs []"

lemma run_bounded: "length (run xs) \<le> capacity"
proof (cases xs rule: rev_cases)
  case (snoc ys x)
  then show ?thesis by (cases x) (simp add: run_def store_bounded)
qed (simp add: run_def)

lemma run_subseq: "subseq (run xs) (concat (map (\<lambda>x. new (snd x)) xs))"
proof (induction xs rule: rev_induct)
  case (snoc x xs)
  obtain now y where x: "x = (now, y)" by fastforce
  have "subseq (run xs @ new y) (concat (map (\<lambda>x. new (snd x)) xs) @ new y)"
    using snoc by (simp add: subseq_append')
  from subseq_order.order_trans [OF store_subseq [of now y "run xs"] this] show ?case
    by (simp add: run_def x)
qed (simp add: run_def)

lemma report_bounded: "length (report now (run xs)) \<le> capacity"
  using run_bounded report_subseq by (meson le_trans list_emb_length)

lemma report_of_recorded:
  assumes "s \<in> set (report now (run xs))"
  shows "\<exists>x \<in> set xs. s \<in> set (new (snd x))"
  using assms subseq_set [OF report_subseq [of now "run xs"]] subseq_set [OF run_subseq [of xs]] by auto

lemma report_recent_in_order:
  assumes "sorted (map time (concat (map (\<lambda>x. new (snd x)) xs)))" "s \<in> set (report now (run xs))"
  shows "now - seconds WINDOW_SECONDS \<le> time s"
proof -
  have "subseq (map time (run xs)) (map time (concat (map (\<lambda>x. new (snd x)) xs)))"
    using run_subseq by (rule subseq_map)
  from sorted_subseq [OF this assms(1)] have "sorted (map time (run xs))" .
  with assms(2) show ?thesis by (rule report_recent [rotated])
qed

end

lemma dropWhile_sorted_recent:
  "sorted (map f xs) \<Longrightarrow> x \<in> set (dropWhile (\<lambda>s. f s < t) xs) \<Longrightarrow> (t :: 'a::linorder) \<le> f x"
  by (induction xs) (auto split: if_splits)

lemma subseq_keep_last: "subseq (keep_last n xs) xs"
  by (auto simp: keep_last_def intro: suffix_imp_subseq suffix_drop)

lemma subseq_dropWhile: "subseq (dropWhile p xs) xs"
  by (auto intro: suffix_imp_subseq suffix_dropWhile)

interpretation host_buffer: sample_buffer telemetry_record telemetry_remove_expired "\<lambda>s. [s]"
  ss_collected_at MAX_SAMPLES
proof
  fix now :: timestamp and x and b :: "system_telemetry_sample list"
  have k: "subseq (telemetry_record now x b) (keep_last MAX_SAMPLES (b @ [x]))"
    by (simp add: telemetry_record_def telemetry_remove_expired_def subseq_dropWhile)
  show "length (telemetry_record now x b) \<le> MAX_SAMPLES"
    using list_emb_length [OF k] keep_last_length [of MAX_SAMPLES "b @ [x]"] by linarith
  show s: "subseq (telemetry_record now x b) (b @ [x])"
    by (rule subseq_order.order_trans [OF k subseq_keep_last])
  show "set (telemetry_record now x b) \<subseteq> set b \<union> set [x]" using subseq_set [OF s] by simp
  show "subseq (telemetry_remove_expired now b) b"
    by (simp add: telemetry_remove_expired_def subseq_dropWhile)
  fix s
  show "sorted (map ss_collected_at b) \<Longrightarrow> s \<in> set (telemetry_remove_expired now b) \<Longrightarrow>
      now - seconds WINDOW_SECONDS \<le> ss_collected_at s"
    unfolding telemetry_remove_expired_def by (rule dropWhile_sorted_recent)
qed

interpretation docker_buffer: sample_buffer docker_record docker_remove_expired "\<lambda>xs. xs"
  ds_collected_at MAX_DOCKER_SAMPLES
proof
  fix now :: timestamp and x b :: "docker_telemetry_sample list"
  have k: "subseq (docker_record now x b) (keep_last MAX_DOCKER_SAMPLES (b @ x))"
    by (simp add: docker_record_def docker_remove_expired_def)
  show "length (docker_record now x b) \<le> MAX_DOCKER_SAMPLES"
    using list_emb_length [OF k] keep_last_length [of MAX_DOCKER_SAMPLES "b @ x"] by linarith
  show s: "subseq (docker_record now x b) (b @ x)"
    by (rule subseq_order.order_trans [OF k subseq_keep_last])
  show "set (docker_record now x b) \<subseteq> set b \<union> set x" using subseq_set [OF s] by simp
  show "subseq (docker_remove_expired now b) b" by (simp add: docker_remove_expired_def)
  fix s
  show "sorted (map ds_collected_at b) \<Longrightarrow> s \<in> set (docker_remove_expired now b) \<Longrightarrow>
      now - seconds WINDOW_SECONDS \<le> ds_collected_at s"
    by (simp add: docker_remove_expired_def)
qed

section \<open>Properties\<close>

text \<open>
  Of a heartbeat's telemetry the server keeps at most 32 samples, all in range, on whole seconds of
  the server's clock no more than 61 seconds old or 5 seconds ahead, strictly increasing in time.
  Every received sample is counted exactly once, as accepted or under its reason for rejection,
  and the window is marked partial exactly when the agent said so, a sample was rejected or
  samples are missing.
\<close>

theorem telemetry_window_accounting:
  "case sanitize_telemetry_window received_at hb of (summary, hb') \<Rightarrow>
     su_received summary = length (sw_samples (hb_telemetry hb))
   \<and> su_received summary = su_accepted summary + rejected summary
   \<and> su_accepted summary = length (sw_samples (hb_telemetry hb')) \<and> su_accepted summary \<le> 32
   \<and> list_all (sample_ok received_at) (sw_samples (hb_telemetry hb'))
   \<and> sorted_wrt (\<lambda>a b. ss_collected_at a < ss_collected_at b) (sw_samples (hb_telemetry hb'))
   \<and> (sw_partial (hb_telemetry hb') \<longleftrightarrow>
        sw_partial (hb_telemetry hb) \<or> rejected summary > 0 \<or> su_missing_samples summary > 0)
   \<and> hb'\<lparr>hb_telemetry := hb_telemetry hb\<rparr> = hb"
proof -
  define n where "n = length (sw_samples (hb_telemetry hb)) - MAX_SAMPLES"
  define vs where "vs = map (judge_sample received_at (hb_sent_at hb)) (drop n (sw_samples (hb_telemetry hb)))"
  define acc where "acc = sort_key ss_collected_at (concat (map accepted_sample vs))"
  have l: "length vs + n = length (sw_samples (hb_telemetry hb))" "length vs \<le> 32"
    by (simp_all add: vs_def n_def MAX_SAMPLES_def)
  note c = verdict_count [of vs]
  have a: "length acc = length (concat (map accepted_sample vs))" by (simp add: acc_def)
  have ok: "list_all (sample_ok received_at) (dedup_samples acc)"
    using dedup_samples_subset [of acc] accepted_samples_ok [of _ received_at "hb_sent_at hb"]
    by (auto simp: list_all_iff acc_def vs_def)
  have strict: "sorted_wrt (\<lambda>a b. ss_collected_at a < ss_collected_at b) (dedup_samples acc)"
    by (rule dedup_samples_strict) (simp add: acc_def)
  show ?thesis
    unfolding sanitize_telemetry_window_def Let_def n_def [symmetric] vs_def [symmetric] acc_def [symmetric]
    using c a l dedup_samples_length [of acc] ok strict
    by (auto simp: rejected_def)
qed

text \<open>
  The package inventory the server accepts from an agent comes from a Windows agent of a Windows
  target and is at most an hour old. Its packages are reported packages with a safe identifier for
  their source, no two names differ only in case, and only packages from winget and the store carry
  an update.
\<close>

theorem agent_inventory_safe:
  assumes "sanitize_reported_package_inventory now hb kind = Some snapshot"
  shows "\<exists>inventory. hb_package_inventory hb = Some inventory \<and> kind = WindowsServer
    \<and> ai_platform (hb_info hb) = PlatformWindows
    \<and> now - seconds 3600 \<le> pis_collected_at snapshot \<and> pis_collected_at snapshot \<le> now + seconds 5
    \<and> length (pis_packages snapshot) \<le> length (ap_packages inventory)
    \<and> distinct (map package_key (pis_packages snapshot))
    \<and> (\<forall>q \<in> set (pis_packages snapshot). \<exists>p \<in> set (ap_packages inventory). safe_identifier p
         \<and> package_name_as_str (ip_name q) = aip_name p \<and> ip_source q = aip_source p
         \<and> (ip_candidate_version q \<noteq> None \<longrightarrow> ip_source q \<in> {Some (lit ''winget''), Some (lit ''msstore'')}))"
proof -
  from assms obtain inventory where i: "hb_package_inventory hb = Some inventory" "kind = WindowsServer"
      "ai_platform (hb_info hb) = PlatformWindows" "ap_collected_at inventory \<le> now + seconds 5"
      "now - seconds 3600 \<le> ap_collected_at inventory"
    and s: "snapshot = \<lparr>pis_target_id = hb_target_id hb, pis_collected_at = ap_collected_at inventory,
      pis_packages = sanitize_packages (ap_packages inventory) []\<rparr>"
    by (auto simp: sanitize_reported_package_inventory_def sanitize_agent_package_inventory_def Let_def
        not_less split: option.splits if_splits sum.splits)
  show ?thesis
    using i sanitize_packages_ok [of "ap_packages inventory" "[]"]
    by (intro exI [of _ inventory]) (simp add: s)
qed

definition inventory_example :: agent_heartbeat where
  "inventory_example = \<lparr>hb_target_id = 5, hb_info = \<lparr>ai_agent_id = lit ''a'', ai_platform = PlatformWindows,
     ai_hostname = lit ''win'', ai_version = lit ''0.6.0'', ai_protocol_version = lit ''1''\<rparr>, hb_sent_at = 0,
     hb_telemetry = \<lparr>sw_samples = [], sw_partial = False\<rparr>, hb_docker_telemetry = [],
     hb_package_inventory = Some \<lparr>ap_collected_at = 0, ap_packages = map (\<lambda>n. \<lparr>aip_name = lit n,
       aip_installed_version = lit ''1'', aip_candidate_version = None, aip_architecture = None,
       aip_source = Some (lit ''winget'')\<rparr>) [''Git.Git'', ''git.git'', ''--all'']\<rparr>\<rparr>"

theorem agent_inventory_safe_witness:
  "\<exists>snapshot. sanitize_reported_package_inventory 0 inventory_example WindowsServer = Some snapshot
    \<and> length (pis_packages snapshot) = 1 \<and> distinct (map package_key (pis_packages snapshot))"
proof -
  have "case sanitize_reported_package_inventory 0 inventory_example WindowsServer of
      None \<Rightarrow> False | Some s \<Rightarrow> length (pis_packages s) = 1"
    by code_simp
  then obtain s where "sanitize_reported_package_inventory 0 inventory_example WindowsServer = Some s"
      "length (pis_packages s) = 1"
    by (cases "sanitize_reported_package_inventory 0 inventory_example WindowsServer") auto
  with agent_inventory_safe [OF this(1)] show ?thesis by blast
qed

end
