(* ===== verification/WindowsWorkflows.thy ===== *)
theory WindowsWorkflows
  imports PackagePolicy Secrets
begin

text \<open>
  \<open>lxcup-server/src/windows_agent_workflows.rs\<close>: how a Windows agent claims the jobs of its own
  target and reports their results. The secret store is the function \<open>read_secret\<close>; the JSON text of
  a package listing is decoded by the two functions of \<open>parse_windows_packages_json\<close>.
\<close>

section \<open>Secrets of agents (agent.rs)\<close>

fun map_secret_error :: "secret_store_error \<Rightarrow> api_error" where
  "map_secret_error SecMissing =
     dependency (lit ''agent_secret_missing'') (lit ''the configured agent secret is missing'')"
| "map_secret_error SecDenied =
     forbidden (lit ''agent_secret_denied'') (lit ''the configured agent secret is not usable'')"
| "map_secret_error SecInvalid =
     bad_request (lit ''agent_secret_invalid'') (lit ''the configured agent secret is invalid'')"
| "map_secret_error SecUnavailable =
     dependency (lit ''secret_store_unavailable'') (lit ''the secret store is unavailable'')"

type_synonym secret_reader = "uuid \<Rightarrow> secret_value secret_result"

definition authorize_windows_agent ::
  "secret_reader \<Rightarrow> headers \<Rightarrow> uuid \<Rightarrow> api_state \<Rightarrow> unit api_result" where
  "authorize_windows_agent read_secret hs target_id st =
     bindR (ok_or unauthorized (bearer_token hs)) (\<lambda>token.
     bindR (ok_or (not_found (lit ''target not found'')) (find_target target_id st)) (\<lambda>t.
       if tg_kind t \<noteq> WindowsServer \<or> tg_transport t \<noteq> Agent then
         Inl (bad_request (lit ''windows_agent_required'')
           (lit ''workflow must be claimed by a locally installed Windows agent''))
       else bindR (map_err map_secret_error (read_secret (tg_agent_secret_ref t))) (\<lambda>expected.
         if expose expected \<noteq> token then Inl unauthorized else Inr ())))"

section \<open>Commands\<close>

datatype agent_action = ActionScan | ActionApply | ActionHealth | ActionUpdateAgent

record agent_workflow_command =
  wc_job_id :: uuid
  wc_action :: agent_action
  wc_packages :: "str list"
  wc_agent_version :: "str option"

definition valid_agent_version :: "str \<Rightarrow> bool" where
  "valid_agent_version version \<longleftrightarrow> release_ok version \<and> str_len version \<le> 50"

fun workflow_action :: "ansible_operation \<Rightarrow> execution_mode \<Rightarrow> agent_action option" where
  "workflow_action OpHealthCheck _ = Some ActionHealth"
| "workflow_action OpCollectPackageInventory _ = Some ActionScan"
| "workflow_action OpUpdateAgent ModeApply = Some ActionUpdateAgent"
| "workflow_action OpUpdateAgent _ = Some ActionHealth"
| "workflow_action OpUpdatePackages ModeApply = Some ActionApply"
| "workflow_action OpUpdatePackages ModePlan = Some ActionScan"
| "workflow_action OpUpdatePackages ModeReconcile = Some ActionScan"
| "workflow_action _ _ = None"

definition workflow_agent_version :: "ansible_job \<Rightarrow> str option api_result" where
  "workflow_agent_version j =
     (case aj_parameters j of
        ParamUpdateAgent v \<Rightarrow>
          if aj_operation j \<noteq> OpUpdateAgent then Inr None
          else if valid_agent_version v then Inr (Some v)
          else Inl (bad_request (lit ''invalid_agent_version'') (lit ''agent update version is invalid''))
      | _ \<Rightarrow> Inr None)"

definition workflow_packages :: "ansible_job \<Rightarrow> str list api_result" where
  "workflow_packages j =
     (case aj_parameters j of
        ParamUpdatePackages packages \<Rightarrow>
          if packages = [] \<or> list_ex (\<lambda>p. \<not> safe_winget_id p) packages then
            Inl (bad_request (lit ''invalid_winget_package_id'')
              (lit ''Windows updates require exact winget package IDs''))
          else Inr packages
      | _ \<Rightarrow> Inr [])"

definition workflow_command :: "ansible_job \<Rightarrow> agent_workflow_command api_result" where
  "workflow_command j =
     bindR (ok_or (bad_request (lit ''windows_workflow_unsupported'')
              (lit ''this operation is not supported by the local Windows agent''))
              (workflow_action (aj_operation j) (aj_mode j))) (\<lambda>action.
     bindR (workflow_agent_version j) (\<lambda>version.
     bindR (workflow_packages j) (\<lambda>packages.
       Inr \<lparr>wc_job_id = aj_id j, wc_action = action, wc_packages = packages, wc_agent_version = version\<rparr>)))"

section \<open>Results\<close>

record agent_command_response =
  rs_success :: bool
  rs_exit_code :: int
  rs_stdout :: str
  rs_stderr :: str

text \<open>The decimal text of a signed number.\<close>

definition signed_digits :: "int \<Rightarrow> str" where
  "signed_digits n = (if n < 0 then ch CHR ''-'' # dec_digits (nat (- n)) else dec_digits (nat n))"

definition join_lines :: "str list \<Rightarrow> str" where
  "join_lines ls = (case ls of [] \<Rightarrow> [] | l # rest \<Rightarrow> l @ concat (map (\<lambda>x. 10 # x) rest))"

definition command_failure :: "agent_command_response \<Rightarrow> str" where
  "command_failure r = lit ''Windows agent reported a local command failure (exit code '' @
     signed_digits (rs_exit_code r) @ lit '').''"

fun inventory_failure_message :: "package_inventory_error \<Rightarrow> str" where
  "inventory_failure_message ManagerUnavailable = lit ''Windows package inventory failed: Microsoft.WinGet.Client is unavailable to the LocalSystem service. Check its all-users installation.''"
| "inventory_failure_message InvTimeout = lit ''Windows package inventory timed out after 30 seconds.''"
| "inventory_failure_message TooLarge = lit ''Windows package inventory exceeded the supported response limit.''"
| "inventory_failure_message InvalidOutput = lit ''Windows package inventory returned invalid or unsupported package data.''"

definition update_plan_lines :: "str list \<Rightarrow> agent_installed_package list \<Rightarrow> str list" where
  "update_plan_lines requested packages =
     concat (map (\<lambda>p. if list_ex (\<lambda>i. eq_ignore_ascii_case i (aip_name p)) requested then
         (case aip_candidate_version p of
            None \<Rightarrow> []
          | Some c \<Rightarrow> [aip_name p @ lit '': '' @ aip_installed_version p @ lit '' -> '' @ c])
        else []) packages)"

definition success_message :: "ansible_job \<Rightarrow> str" where
  "success_message j =
     (case (aj_operation j, aj_mode j) of
        (OpHealthCheck, _) \<Rightarrow> lit ''Windows agent health check completed successfully.''
      | (OpCollectPackageInventory, _) \<Rightarrow> lit ''Windows software inventory collected locally with winget.''
      | (OpUpdateAgent, ModePlan) \<Rightarrow> lit ''Windows agent reported its installed version for comparison with the selected target version.''
      | (OpUpdateAgent, ModeApply) \<Rightarrow> lit ''Windows agent binary was verified and updated from the artifact store.''
      | (OpUpdateAgent, _) \<Rightarrow> lit ''Windows agent version was checked locally.''
      | (OpUpdatePackages, ModeApply) \<Rightarrow> lit ''Selected updates were installed locally by winget.''
      | _ \<Rightarrow> lit ''Windows agent workflow completed successfully.'')"

definition result_summary ::
  "(str \<Rightarrow> 'v list option) \<Rightarrow> ('v \<Rightarrow> winget_package option) \<Rightarrow> ansible_job \<Rightarrow> agent_command_response
     \<Rightarrow> str \<times> bool" where
  "result_summary from_str from_value j r =
     (if \<not> rs_success r then
        if aj_operation j = OpCollectPackageInventory then
          (case inventory_error_from_code (rs_stderr r) of
             Some e \<Rightarrow> (inventory_failure_message e, False)
           | None \<Rightarrow> (command_failure r, False))
        else (command_failure r, False)
      else if aj_operation j = OpUpdatePackages \<and> aj_mode j = ModePlan then
        (case parse_windows_packages_json from_str from_value (rs_stdout r) of
           Inl _ \<Rightarrow> (lit ''winget update scan returned an invalid or unsupported listing.'', False)
         | Inr packages \<Rightarrow>
             (case aj_parameters j of
                ParamUpdatePackages requested \<Rightarrow>
                  (let ls = update_plan_lines requested packages in
                   if ls = [] then
                     (lit ''winget found no available updates for the selected package IDs.'', False)
                   else (lit ''winget update plan:'' @ 10 # join_lines ls, True))
              | _ \<Rightarrow> (lit ''package update parameters were invalid.'', False)))
      else (success_message j, True))"

definition final_status :: "ansible_job \<Rightarrow> bool \<Rightarrow> ansible_job_status" where
  "final_status j succeeded =
     (if aj_mode j = ModeApply then if succeeded then JSucceeded else JReconcileRequired
      else if succeeded then JSucceeded else JFailed)"

section \<open>Writing a result\<close>

definition result_statuses :: "ansible_job \<Rightarrow> ansible_job_status \<Rightarrow> ansible_job_status list" where
  "result_statuses j status =
     (if status = JSucceeded \<and> aj_mode j \<noteq> ModeApply then [JPlanned, JSucceeded] else [status])"

fun move_job :: "timestamp \<Rightarrow> ansible_job_status list \<Rightarrow> ansible_job \<Rightarrow> ansible_contract_error + ansible_job" where
  "move_job now [] j = Inr j"
| "move_job now (s # ss) j = bindR (job_transition_to s now j) (move_job now ss)"

definition result_events :: "ansible_job_status list \<Rightarrow> ansible_job_status \<Rightarrow> str \<Rightarrow> job_event_kind list" where
  "result_events statuses status message =
     map EvStatusChanged statuses
     @ (if status \<in> {JFailed, JReconcileRequired} then [EvFailed PlaybookFailed] else [])
     @ (if status = JReconcileRequired then [EvReconcileRequired] else [])
     @ [EvWorkerLog (lit ''windows_agent'') message]"

text \<open>The events of one result, numbered after the ones already stored.\<close>

definition numbered_from :: "nat \<Rightarrow> uuid \<Rightarrow> timestamp \<Rightarrow> job_event_kind list \<Rightarrow> job_event list" where
  "numbered_from n i now kinds =
     map (\<lambda>(k, e). \<lparr>je_sequence = n + k + 1, je_job_id = i, je_event = e, je_created_at = now\<rparr>)
       (enumerate 0 kinds)"

fun record_all :: "timestamp \<Rightarrow> uuid \<Rightarrow> job_event_kind list \<Rightarrow> job_coordinator \<Rightarrow> bool \<times> job_coordinator" where
  "record_all now i [] s = (True, s)"
| "record_all now i (e # es) s =
     (case record_event now i e s of Inl _ \<Rightarrow> (False, s) | Inr s' \<Rightarrow> record_all now i es s')"

fun transition_all :: "timestamp \<Rightarrow> uuid \<Rightarrow> ansible_job_status list \<Rightarrow> job_coordinator \<Rightarrow> bool \<times> job_coordinator" where
  "transition_all now i [] s = (True, s)"
| "transition_all now i (n # ns) s =
     (case transition now i n s of Inl _ \<Rightarrow> (False, s) | Inr (_, s') \<Rightarrow> transition_all now i ns s')"

definition persist_result ::
  "job_calls \<Rightarrow> timestamp \<Rightarrow> ansible_job \<Rightarrow> ansible_job_status \<Rightarrow> str \<Rightarrow> api_state
     \<Rightarrow> unit api_result \<times> api_state" where
  "persist_result up now j0 status message st =
     (let statuses = result_statuses j0 status;
          refused = conflict (lit ''invalid_workflow_state'') in
      case move_job now statuses j0 of
        Inl _ \<Rightarrow> (Inl (refused (lit ''workflow is not awaiting an agent result'')), st)
      | Inr j \<Rightarrow>
        (case ap_repositories st of
           Some db \<Rightarrow>
             (case job_events (up CallJobEvents) (aj_id j) db of
                Inl _ \<Rightarrow> (Inl storage, st)
              | Inr previous \<Rightarrow>
                (case update_job (up CallUpdateJob) j db of
                   (Inl _, db1) \<Rightarrow> (Inl storage, st\<lparr>ap_repositories := Some db1\<rparr>)
                 | (Inr _, db1) \<Rightarrow>
                   (case append_events up (numbered_from (length previous) (aj_id j) now
                           (result_events statuses status message)) db1 of
                      (r, db2) \<Rightarrow> (r, st\<lparr>ap_repositories := Some db2\<rparr>))))
         | None \<Rightarrow>
             (let kinds = (if status \<in> {JFailed, JReconcileRequired} then [EvFailed PlaybookFailed] else [])
                    @ [EvWorkerLog (lit ''windows_agent'') message] in
              case record_all now (aj_id j) kinds (ap_ansible st) of
                (False, co) \<Rightarrow> (Inl (refused (lit ''workflow cannot accept a result'')), st\<lparr>ap_ansible := co\<rparr>)
              | (True, co) \<Rightarrow>
                (case transition_all now (aj_id j) statuses co of
                   (False, co') \<Rightarrow> (Inl (refused (lit ''workflow cannot be completed'')), st\<lparr>ap_ansible := co'\<rparr>)
                 | (True, co') \<Rightarrow> (Inr (), st\<lparr>ap_ansible := co'\<rparr>)))))"

definition report_windows_agent_workflow ::
  "(str \<Rightarrow> 'v list option) \<Rightarrow> ('v \<Rightarrow> winget_package option) \<Rightarrow> secret_reader \<Rightarrow> job_calls \<Rightarrow> timestamp
     \<Rightarrow> headers \<Rightarrow> uuid \<Rightarrow> agent_command_response \<Rightarrow> api_state \<Rightarrow> nat api_result \<times> api_state" where
  "report_windows_agent_workflow from_str from_value read_secret up now hs job_id r st =
     (case load_job up (lit ''workflow not found'') st job_id of
        Inl e \<Rightarrow> (Inl e, st)
      | Inr j \<Rightarrow>
        (case aj_target j of
           Target target_id \<Rightarrow>
             (case authorize_windows_agent read_secret hs target_id st of
                Inl e \<Rightarrow> (Inl e, st)
              | Inr _ \<Rightarrow>
                if aj_status j \<in> {JSucceeded, JFailed, JAborted, JReconcileRequired} then (Inr 204, st)
                else if str_len (rs_stdout r) > 128 * 1024 \<or> str_len (rs_stderr r) > 16 * 1024 then
                  (Inl (bad_request (lit ''agent_result_too_large'')
                     (lit ''workflow result exceeds the allowed size'')), st)
                else
                  (case result_summary from_str from_value j r of
                     (message, usable) \<Rightarrow>
                       (case persist_result up now j (final_status j (rs_success r \<and> usable)) message st of
                          (Inl e, st') \<Rightarrow> (Inl e, st')
                        | (Inr _, st') \<Rightarrow> (Inr 204, st'))))
         | _ \<Rightarrow> (Inl (not_found (lit ''workflow not found'')), st)))"

section \<open>Claims\<close>

definition claim_in_memory_windows_job ::
  "timestamp \<Rightarrow> uuid \<Rightarrow> api_state \<Rightarrow> ansible_job option api_result \<times> api_state" where
  "claim_in_memory_windows_job now target_id st =
     (let busy = conflict (lit ''ansible_target_busy'') (lit ''target has an active workflow'') in
      case List.find (\<lambda>j. aj_target j = Target target_id \<and> aj_status j = JQueued
               \<and> is_windows_agent_operation (aj_operation j)) (jc_jobs_list (ap_ansible st)) of
        None \<Rightarrow> (Inr None, st)
      | Some candidate \<Rightarrow>
        (case transition now (aj_id candidate) JChecking (ap_ansible st) of
           Inl _ \<Rightarrow> (Inl busy, st)
         | Inr (claimed, co) \<Rightarrow>
           if aj_mode candidate \<noteq> ModeApply then (Inr (Some claimed), st\<lparr>ap_ansible := co\<rparr>)
           else
             (case transition now (aj_id candidate) JPlanned co of
                Inl _ \<Rightarrow> (Inl busy, st\<lparr>ap_ansible := co\<rparr>)
              | Inr (_, co1) \<Rightarrow>
                (case transition now (aj_id candidate) JApplying co1 of
                   Inl _ \<Rightarrow> (Inl busy, st\<lparr>ap_ansible := co1\<rparr>)
                 | Inr (claimed', co2) \<Rightarrow> (Inr (Some claimed'), st\<lparr>ap_ansible := co2\<rparr>)))))"

definition claim_next_windows_job ::
  "job_calls \<Rightarrow> uuid list \<Rightarrow> job_db \<Rightarrow> timestamp \<Rightarrow> uuid \<Rightarrow> api_state
     \<Rightarrow> ansible_job option api_result \<times> api_state" where
  "claim_next_windows_job up locked seen now target_id st =
     (case ap_repositories st of
        Some db \<Rightarrow>
          (case claim_next_windows_agent_job (up CallClaimWindows) locked seen now target_id db of
             (r, db') \<Rightarrow> (map_err (\<lambda>_. storage) r, st\<lparr>ap_repositories := Some db'\<rparr>))
      | None \<Rightarrow> claim_in_memory_windows_job now target_id st)"

definition claim_windows_agent_workflow ::
  "secret_reader \<Rightarrow> job_calls \<Rightarrow> uuid list \<Rightarrow> job_db \<Rightarrow> timestamp \<Rightarrow> headers \<Rightarrow> uuid \<Rightarrow> api_state
     \<Rightarrow> agent_workflow_command option api_result \<times> api_state" where
  "claim_windows_agent_workflow read_secret up locked seen now hs target_id st =
     (case authorize_windows_agent read_secret hs target_id st of
        Inl e \<Rightarrow> (Inl e, st)
      | Inr _ \<Rightarrow>
        (case claim_next_windows_job up locked seen now target_id st of
           (Inl e, st1) \<Rightarrow> (Inl e, st1)
         | (Inr None, st1) \<Rightarrow> (Inr None, st1)
         | (Inr (Some j), st1) \<Rightarrow>
           (case workflow_command j of
              Inr command \<Rightarrow> (Inr (Some command), st1)
            | Inl e \<Rightarrow>
                (case persist_result up now j JFailed (ae_message e) st1 of
                   (Inl e', st2) \<Rightarrow> (Inl e', st2)
                 | (Inr _, st2) \<Rightarrow> (Inr None, st2)))))"

end
