(* ===== verification/WindowsLaws.thy ===== *)
theory WindowsLaws
  imports WindowsWorkflows PackageLaws
begin

text \<open>
  What the workflow interface of Windows agents guarantees: only the agent that holds a target's secret
  claims and completes the target's jobs, the commands it gets name exact packages, and a result
  moves the job to the status the mode and the outcome call for, with its events numbered on.
\<close>

lemma authorize_windows_agentD:
  assumes "authorize_windows_agent read_secret hs i st = Inr u"
  shows "\<exists>t token. find_target i st = Some t \<and> bearer_token hs = Some token
    \<and> tg_kind t = WindowsServer \<and> tg_transport t = Agent
    \<and> read_secret (tg_agent_secret_ref t) = Inr (SecretValue token)"
proof -
  have "e = SecretValue (expose e)" for e by (cases e) simp
  with assms show ?thesis
    by (auto simp: authorize_windows_agent_def bindR_Inr_iff split: if_splits)
qed

lemma move_job_restatus:
  assumes "move_job now (result_statuses j s) j = Inr j'"
  shows "j' = restatus s now j"
  using assms
  by (auto simp: result_statuses_def bindR_Inr_iff job_transition_restatus split: if_splits)

lemma append_events_Inr:
  "append_events up es db = (Inr (), db') \<Longrightarrow> db' = db\<lparr>jd_events := jd_events db @ es\<rparr>"
proof (induction up es db rule: append_events.induct)
  case (2 up e es db)
  then obtain d where a: "append_job_event (up (CallAppendJobEvent (je_sequence e))) e db = (Inr (), d)"
    and r: "append_events up es d = (Inr (), db')"
    by (auto split: prod.splits sum.splits)
  from a have "d = db\<lparr>jd_events := jd_events db @ [e]\<rparr>"
    by (auto simp: append_job_event_def db_write_def split: if_splits)
  with 2(1) [OF a [symmetric] refl] r show ?case by simp
qed simp

lemma load_job_row:
  assumes "load_job up m st i = Inr j" "ap_repositories st = Some db"
  shows "\<exists>row \<in> set (jd_jobs db). jw_id row = i \<and> jw_payload row = j"
  using assms by (auto simp: load_job_def bindR_Inr_iff find_job_by_id_def dest!: find_SomeD)

lemma update_job_Inr:
  "update_job up j db = (Inr (), db') \<Longrightarrow> write_job j db = Some db'"
  by (auto simp: update_job_def db_write_def split: if_splits option.splits)

lemma persist_result_stored:
  assumes p: "persist_result up now j s message st = (Inr (), st')"
    and db: "ap_repositories st = Some db" and ok: "job_db_ok db"
    and row: "row \<in> set (jd_jobs db)" "jw_payload row = j"
  shows "\<exists>db'. st' = st\<lparr>ap_repositories := Some db'\<rparr>
    \<and> jd_jobs db' = map (set_job (restatus s now j)) (jd_jobs db)
    \<and> jd_events db' = jd_events db @ numbered_from
         (length (filter (\<lambda>e. je_job_id e = aj_id j) (jd_events db))) (aj_id j) now
         (result_events (result_statuses j s) s message)"
proof -
  from p obtain j' where m: "move_job now (result_statuses j s) j = Inr j'"
    by (auto simp: persist_result_def Let_def split: sum.splits)
  note j' = move_job_restatus [OF m]
  obtain r1 db1 where u: "update_job (up CallUpdateJob) j' db = (r1, db1)" by fastforce
  define previous where "previous = sort_key je_sequence (filter (\<lambda>e. je_job_id e = aj_id j') (jd_events db))"
  define es where "es = numbered_from (length previous) (aj_id j') now (result_events (result_statuses j s) s message)"
  obtain r2 db2 where a: "append_events up es db1 = (r2, db2)" by fastforce
  have up: "up CallJobEvents" and r1: "r1 = Inr ()" and r2: "r2 = Inr ()" "st' = st\<lparr>ap_repositories := Some db2\<rparr>"
    using p db m u a
    by (auto simp: persist_result_def Let_def job_events_def db_read_def previous_def es_def
        split: sum.splits prod.splits if_splits)
  from update_job_Inr u r1 have w: "write_job (restatus s now (jw_payload row)) db = Some db1"
    using j' row by simp
  note wd = write_job_ok [OF ok row(1) w]
  have "db2 = db1\<lparr>jd_events := jd_events db1 @ es\<rparr>" using append_events_Inr a r2(1) by blast
  then show ?thesis
    using wd row r2 j' by (intro exI [of _ db2]) (simp add: es_def previous_def)
qed

lemma claim_windows_row:
  assumes c: "claim_next_windows_agent_job up locked seen now t db = (Inr (Some j), db')" and ok: "job_db_ok db"
  shows "\<exists>row s. row \<in> set (jd_jobs db) \<and> jw_id row \<notin> set locked \<and> aj_status (jw_payload row) = JQueued
    \<and> (\<exists>c \<in> set (jd_jobs seen). windows_claimable t seen c \<and> jw_id c = jw_id row)
    \<and> j = restatus s now (jw_payload row) \<and> s \<in> {JChecking, JApplying}
    \<and> (s = JApplying \<longleftrightarrow> aj_mode j = ModeApply)"
proof -
  from c obtain row ss where l: "lock_candidate (windows_claimable t seen) locked seen db = Some row"
    and s: "start_windows_job now (jw_payload row) = Inr (j, ss)"
    by (cases up) (auto simp: claim_next_windows_agent_job_def split: option.splits sum.splits)
  show ?thesis
    using lock_candidateD [OF l ok] start_windows_job_Inr [OF s] by auto
qed

lemma workflow_commandD:
  assumes "workflow_command j = Inr c"
  shows "wc_job_id c = aj_id j" "list_all safe_winget_id (wc_packages c)"
    "wc_action c = ActionApply \<Longrightarrow> aj_operation j = OpUpdatePackages \<and> aj_mode j = ModeApply"
    "aj_parameters j = ParamUpdatePackages ps \<Longrightarrow> wc_packages c = ps \<and> ps \<noteq> []"
    "opt_all valid_agent_version (wc_agent_version c)"
proof -
  from assms obtain a v ps where w: "workflow_action (aj_operation j) (aj_mode j) = Some a"
      "workflow_agent_version j = Inr v" "workflow_packages j = Inr ps"
    and c: "c = \<lparr>wc_job_id = aj_id j, wc_action = a, wc_packages = ps, wc_agent_version = v\<rparr>"
    by (auto simp: workflow_command_def bindR_Inr_iff)
  show "wc_job_id c = aj_id j" "list_all safe_winget_id (wc_packages c)"
    "aj_parameters j = ParamUpdatePackages qs \<Longrightarrow> wc_packages c = qs \<and> qs \<noteq> []"
    "opt_all valid_agent_version (wc_agent_version c)" for qs
    using w c by (auto simp: workflow_packages_def workflow_agent_version_def list_all_iff list_ex_iff
        split: ansible_parameters.splits if_splits)
  show "wc_action c = ActionApply \<Longrightarrow> aj_operation j = OpUpdatePackages \<and> aj_mode j = ModeApply"
    using w(1) c by (cases "aj_operation j"; cases "aj_mode j") auto
qed

section \<open>An example\<close>

definition windows_target_example :: target where
  "windows_target_example = policy_target\<lparr>tg_kind := WindowsServer, tg_transport := Agent,
     tg_credential_secret_ref := None\<rparr>"

definition windows_job :: ansible_job where
  "windows_job = plan_job\<lparr>aj_mode := ModeApply, aj_parameters := ParamUpdatePackages [lit ''Git.Git''],
     aj_status := JApplying\<rparr>"

definition windows_db :: job_db where
  "windows_db = \<lparr>jd_jobs = [row_of_job windows_job], jd_events = [], jd_targets = [(5, WindowsServer)]\<rparr>"

definition windows_state :: api_state where
  "windows_state = policy_state\<lparr>ap_targets := [windows_target_example], ap_repositories := Some windows_db\<rparr>"

definition windows_secret :: secret_reader where
  "windows_secret i = (if i = 10 then Inr (SecretValue (lit ''token'')) else Inl SecMissing)"

definition windows_headers :: headers where
  "windows_headers = [(lit ''authorization'', lit ''Bearer token'')]"

definition failed_response :: agent_command_response where
  "failed_response = \<lparr>rs_success = False, rs_exit_code = -1, rs_stdout = [], rs_stderr = []\<rparr>"

definition windows_reported :: "nat api_result \<times> api_state" where
  "windows_reported = report_windows_agent_workflow (\<lambda>_. None :: nat list option) (\<lambda>_. None) windows_secret
     (\<lambda>_. True) 50 windows_headers 1 failed_response windows_state"

lemma windows_db_ok: "job_db_ok windows_db"
  by (simp add: job_db_ok_def windows_db_def unique_ok_def row_ok_def row_of_job_def windows_job_def plan_job_def
      event_keys_def)

lemma windows_authorized:
  "authorize_windows_agent windows_secret windows_headers 5 (windows_state\<lparr>ap_repositories := x\<rparr>) = Inr ()"
proof -
  have "bearer_token windows_headers = Some (lit ''token'')" by code_simp
  then show ?thesis
    by (simp add: authorize_windows_agent_def find_target_def windows_state_def windows_target_example_def
        policy_target_def windows_secret_def)
qed

lemma windows_reported_eval: "fst windows_reported = Inr 204"
  using windows_authorized [of "Some windows_db"]
  by (simp add: windows_reported_def report_windows_agent_workflow_def load_job_def find_job_by_id_def db_read_def
      windows_state_def windows_db_def row_of_job_def windows_job_def plan_job_def failed_response_def
      result_summary_def final_status_def persist_result_def result_statuses_def job_transition_to_def
      job_events_def update_job_def write_job_def set_job_def unique_ok_def result_events_def numbered_from_def
      append_job_event_def enumerate_eq_zip str_len_def)

definition windows_queue :: api_state where
  "windows_queue = windows_state\<lparr>ap_repositories :=
     Some (windows_db\<lparr>jd_jobs := [row_of_job (windows_job\<lparr>aj_status := JQueued\<rparr>)]\<rparr>)\<rparr>"

definition windows_claim :: "agent_workflow_command option api_result \<times> api_state" where
  "windows_claim = claim_windows_agent_workflow windows_secret (\<lambda>_. True) []
     (the (ap_repositories windows_queue)) 40 windows_headers 5 windows_queue"

lemma windows_claim_eval: "map_err (\<lambda>_. ()) (fst windows_claim) =
    Inr (Some \<lparr>wc_job_id = 1, wc_action = ActionApply, wc_packages = [lit ''Git.Git''], wc_agent_version = None\<rparr>)"
  by code_simp

section \<open>Properties\<close>

text \<open>
  A result is accepted only from the agent that holds the secret of the job's own Windows target. A
  job that has already ended keeps its state. Otherwise the job moves to its final status: a
  change that failed, or whose result is unusable, needs reconciliation and never counts as
  failed, while a check or plan succeeds or fails; the stored row and no other changes, and the
  status changes, the failure and the log entry continue the numbering of the job's events.
\<close>

theorem windows_result_recorded:
  assumes report: "report_windows_agent_workflow from_str from_value read_secret up now hs i r st = (Inr code, st')"
    and db: "ap_repositories st = Some db" and ok: "job_db_ok db"
  shows "\<exists>row t token. row \<in> set (jd_jobs db) \<and> jw_id row = i \<and> aj_target (jw_payload row) = Target (tg_id t)
    \<and> t \<in> set (ap_targets st) \<and> tg_kind t = WindowsServer \<and> bearer_token hs = Some token
    \<and> read_secret (tg_agent_secret_ref t) = Inr (SecretValue token)
    \<and> (let j = jw_payload row; (message, usable) = result_summary from_str from_value j r;
           ok = rs_success r \<and> usable;
           s = (if ok then JSucceeded else if aj_mode j = ModeApply then JReconcileRequired else JFailed) in
       if aj_status j \<in> {JSucceeded, JFailed, JAborted, JReconcileRequired} then st' = st
       else \<exists>db'. st' = st\<lparr>ap_repositories := Some db'\<rparr>
         \<and> jd_jobs db' = map (set_job (restatus s now j)) (jd_jobs db)
         \<and> jd_events db' = jd_events db @ numbered_from
              (length (filter (\<lambda>e. je_job_id e = i) (jd_events db))) i now
              (result_events (result_statuses j s) s message))"
proof -
  from report obtain j tid where l: "load_job up (lit ''workflow not found'') st i = Inr j"
    and t: "aj_target j = Target tid" and a: "authorize_windows_agent read_secret hs tid st = Inr ()"
    by (auto simp: report_windows_agent_workflow_def split: sum.splits resource_target.splits)
  from load_job_row [OF l db] obtain row where row: "row \<in> set (jd_jobs db)" "jw_id row = i" "jw_payload row = j"
    by blast
  from authorize_windows_agentD [OF a] obtain tg token where tg: "find_target tid st = Some tg"
      "bearer_token hs = Some token" "tg_kind tg = WindowsServer"
      "read_secret (tg_agent_secret_ref tg) = Inr (SecretValue token)" by blast
  have id: "aj_id j = i" using ok row by (auto simp: job_db_ok_def list_all_iff row_ok_def)
  have f: "tg \<in> set (ap_targets st)" "tg_id tg = tid"
    using tg(1) find_SomeD by (fastforce simp: find_target_def)+
  obtain message usable where m: "result_summary from_str from_value j r = (message, usable)" by fastforce
  let ?s = "if rs_success r \<and> usable then JSucceeded else if aj_mode j = ModeApply then JReconcileRequired else JFailed"
  have s: "final_status j (rs_success r \<and> usable) = ?s" by (auto simp: final_status_def)
  have "if aj_status j \<in> {JSucceeded, JFailed, JAborted, JReconcileRequired} then st' = st
      else persist_result up now j ?s message st = (Inr (), st')"
    using report l t a m s
    by (auto simp: report_windows_agent_workflow_def simp del: if_split split: sum.splits prod.splits if_splits)
  with persist_result_stored [OF _ db ok row(1,3), of up now ?s message st'] show ?thesis
    using row t tg f m id
    by (intro exI [of _ row] exI [of _ tg] exI [of _ token]) (auto simp: Let_def)
qed

text \<open>
  A claim hands out work only to the agent that holds the secret of the named Windows target: the
  command belongs to a job that was queued for this target and is not locked elsewhere, names only
  exact package identifiers, and lets the agent change packages only for an update in apply mode.
\<close>

theorem windows_claim_safe:
  assumes claim: "claim_windows_agent_workflow read_secret up locked seen now hs i st = (Inr (Some c), st')"
    and db: "ap_repositories st = Some db" and ok: "job_db_ok db"
  shows "\<exists>t token row cand. t \<in> set (ap_targets st) \<and> tg_id t = i \<and> tg_kind t = WindowsServer
    \<and> bearer_token hs = Some token \<and> read_secret (tg_agent_secret_ref t) = Inr (SecretValue token)
    \<and> row \<in> set (jd_jobs db) \<and> jw_id row = wc_job_id c \<and> jw_id row \<notin> set locked
    \<and> aj_status (jw_payload row) = JQueued
    \<and> cand \<in> set (jd_jobs seen) \<and> jw_id cand = jw_id row \<and> jw_target_id cand = Some i
    \<and> list_all safe_winget_id (wc_packages c)
    \<and> (wc_action c = ActionApply \<longrightarrow> aj_operation (jw_payload row) = OpUpdatePackages
         \<and> aj_mode (jw_payload row) = ModeApply)"
proof -
  from claim obtain j st1 where a: "authorize_windows_agent read_secret hs i st = Inr ()"
    and n: "claim_next_windows_job up locked seen now i st = (Inr (Some j), st1)"
    and w: "workflow_command j = Inr c"
    by (auto simp: claim_windows_agent_workflow_def split: sum.splits prod.splits option.splits)
  from n db obtain db' where cl: "claim_next_windows_agent_job (up CallClaimWindows) locked seen now i db = (Inr (Some j), db')"
    by (auto simp: claim_next_windows_job_def split: prod.splits)
  from claim_windows_row [OF cl ok] obtain row s cand where r: "row \<in> set (jd_jobs db)" "jw_id row \<notin> set locked"
      "aj_status (jw_payload row) = JQueued" "j = restatus s now (jw_payload row)"
    and cand: "cand \<in> set (jd_jobs seen)" "windows_claimable i seen cand" "jw_id cand = jw_id row" by blast
  from authorize_windows_agentD [OF a] obtain tg token where tg: "find_target i st = Some tg"
      "bearer_token hs = Some token" "tg_kind tg = WindowsServer"
      "read_secret (tg_agent_secret_ref tg) = Inr (SecretValue token)" by blast
  have f: "tg \<in> set (ap_targets st)" "tg_id tg = i"
    using tg(1) find_SomeD by (fastforce simp: find_target_def)+
  have id: "jw_id row = wc_job_id c"
    using ok r workflow_commandD(1) [OF w] by (auto simp: job_db_ok_def list_all_iff row_ok_def)
  show ?thesis
    using tg f r cand id workflow_commandD(2,3) [OF w]
    by (intro exI [of _ tg] exI [of _ token] exI [of _ row] exI [of _ cand]) (auto simp: windows_claimable_def)
qed

theorem windows_result_recorded_witness:
  "\<exists>db'. ap_repositories (snd windows_reported) = Some db'
    \<and> map (\<lambda>r. aj_status (jw_payload r)) (jd_jobs db') = [JReconcileRequired]"
proof -
  have r: "report_windows_agent_workflow (\<lambda>_. None :: nat list option) (\<lambda>_. None) windows_secret (\<lambda>_. True) 50
      windows_headers 1 failed_response windows_state = (Inr 204, snd windows_reported)"
    using windows_reported_eval by (metis windows_reported_def prod.collapse)
  have db: "ap_repositories windows_state = Some windows_db" by (simp add: windows_state_def)
  have row: "row = row_of_job windows_job" if "row \<in> set (jd_jobs windows_db)" for row
    using that by (simp add: windows_db_def)
  show ?thesis
    using windows_result_recorded [OF r db windows_db_ok]
    by (auto simp: row windows_db_def row_of_job_def windows_job_def Let_def failed_response_def set_job_def
        plan_job_def split: prod.splits)
qed

theorem windows_claim_safe_witness:
  "\<exists>c. fst windows_claim = Inr (Some c) \<and> list_all safe_winget_id (wc_packages c)"
proof -
  from windows_claim_eval obtain c where f: "fst windows_claim = Inr (Some c)"
    by (cases "fst windows_claim") auto
  then have c: "claim_windows_agent_workflow windows_secret (\<lambda>_. True) [] (the (ap_repositories windows_queue)) 40
      windows_headers 5 windows_queue = (Inr (Some c), snd windows_claim)"
    by (metis windows_claim_def prod.collapse)
  have ok: "job_db_ok (windows_db\<lparr>jd_jobs := [row_of_job (windows_job\<lparr>aj_status := JQueued\<rparr>)]\<rparr>)"
    by (simp add: job_db_ok_def windows_db_def unique_ok_def row_ok_def row_of_job_def windows_job_def
        plan_job_def event_keys_def)
  show ?thesis
    using windows_claim_safe [OF c _ ok] f by (auto simp: windows_queue_def)
qed

end
