(* ===== verification/ControllerStore.thy ===== *)
theory ControllerStore
  imports PackagePolicy Heartbeat
begin

text \<open>
  The rest of the server's state: \<open>ApiStore\<close> of \<open>lxcup-server/src/lib.rs\<close> beside the part of
  \<open>ServerState\<close>, and the tables of targets, schedules, update policies, telemetry samples, package
  inventories, worker heartbeats and audit events (\<open>lxcup-persistence/src/repositories\<close>) with their
  queries. The tables count only when the server runs with a database. The foreign keys of the
  target-scoped tables cascade.
\<close>

section \<open>State\<close>

record audit_event =
  av_event_type :: str
  av_details :: json
  av_created_at :: timestamp

record controller_db =
  cd_targets :: "target list"
  cd_schedules :: "job_schedule list"
  cd_policies :: "update_policy list"
  cd_samples :: "(uuid \<times> system_telemetry_sample) list"
  cd_docker_samples :: "(uuid \<times> str \<times> docker_telemetry_sample) list"
  cd_inventories :: "package_inventory_snapshot list"
  cd_worker_seen :: "(str \<times> timestamp) list"
  cd_audit :: "audit_event list"

definition controller_db_empty :: controller_db where
  "controller_db_empty = \<lparr>cd_targets = [], cd_schedules = [], cd_policies = [], cd_samples = [],
     cd_docker_samples = [], cd_inventories = [], cd_worker_seen = [], cd_audit = []\<rparr>"

record controller =
  ct_api :: api_state
  ct_agent_reports :: "(uuid, agent_heartbeat) hashmap"
  ct_package_inventories :: "(uuid, package_inventory_snapshot) hashmap"
  ct_enrollments :: "enrollment list"
  ct_enrollment_keys :: "(str, uuid) hashmap"
  ct_db :: controller_db

definition has_database :: "controller \<Rightarrow> bool" where
  "has_database c \<longleftrightarrow> ap_repositories (ct_api c) \<noteq> None"

text \<open>The repository calls of these handlers; \<open>up\<close> says which of them the database answers.\<close>

datatype store_call =
    CallSaveTarget | CallUpdateTarget nat | CallDeleteTarget
  | CallSaveSchedule nat | CallListSchedules
  | CallSavePolicy | CallInsertPolicy | CallListPolicies | CallDeletePolicy
  | CallAppendHeartbeat | CallFindInventory | CallReplaceInventory
  | CallWorkerSeen | CallAppendAudit

type_synonym store_calls = "store_call \<Rightarrow> bool"

section \<open>Targets\<close>

text \<open>The job tables see the ids and kinds of the targets table.\<close>

definition set_targets :: "target list \<Rightarrow> controller \<Rightarrow> controller" where
  "set_targets ts c = c\<lparr>ct_db := (ct_db c)\<lparr>cd_targets := ts\<rparr>,
     ct_api := (ct_api c)\<lparr>ap_repositories := map_option
       (\<lambda>db. db\<lparr>jd_targets := map (\<lambda>t. (tg_id t, tg_kind t)) ts\<rparr>) (ap_repositories (ct_api c))\<rparr>\<rparr>"

definition save_target :: "bool \<Rightarrow> target \<Rightarrow> controller \<Rightarrow> unit repo_result \<times> controller" where
  "save_target up t c =
     db_write up c
       (if tg_id t \<in> set (map tg_id (cd_targets (ct_db c))) then (Inl RepDatabase, c)
        else (Inr (), set_targets (cd_targets (ct_db c) @ [t]) c))"

definition update_target_row :: "bool \<Rightarrow> target \<Rightarrow> controller \<Rightarrow> unit repo_result \<times> controller" where
  "update_target_row up t c =
     db_write up c (Inr (), set_targets
       (map (\<lambda>r. if tg_id r = tg_id t then t else r)
         (cd_targets (ct_db c))) c)"

text \<open>Which policies a deletion empties: those that allow this target and nothing else.\<close>

definition only_target :: "uuid \<Rightarrow> update_policy \<Rightarrow> bool" where
  "only_target i p \<longleftrightarrow> po_allowed_targets p = [i]"

definition drop_target_from_policy :: "uuid \<Rightarrow> update_policy \<Rightarrow> update_policy" where
  "drop_target_from_policy i p =
     p\<lparr>po_allowed_targets := filter (\<lambda>t. t \<noteq> i) (po_allowed_targets p)\<rparr>"

definition drop_target_from_schedule :: "uuid \<Rightarrow> job_schedule \<Rightarrow> job_schedule" where
  "drop_target_from_schedule i s = s\<lparr>sd_target_ids := filter (\<lambda>t. t \<noteq> i) (sd_target_ids s)\<rparr>"

definition schedules_without :: "uuid \<Rightarrow> update_policy list \<Rightarrow> job_schedule list \<Rightarrow> job_schedule list" where
  "schedules_without i policies schedules =
     (let emptied = map po_id (filter (only_target i) policies);
          left = filter (\<lambda>s. sd_target_ids s \<noteq> []) (map (drop_target_from_schedule i) schedules)
      in filter (\<lambda>s. case sd_policy_id s of None \<Rightarrow> True | Some p \<Rightarrow> p \<notin> set emptied) left)"

definition policies_without :: "uuid \<Rightarrow> update_policy list \<Rightarrow> update_policy list" where
  "policies_without i policies =
     (let emptied = map po_id (filter (only_target i) policies)
      in filter (\<lambda>p. po_id p \<notin> set emptied) (map (drop_target_from_policy i) policies))"

definition target_deleted_event :: "ansible_env \<Rightarrow> timestamp \<Rightarrow> target \<Rightarrow> str \<Rightarrow> audit_event" where
  "target_deleted_event env now t role =
     \<lparr>av_event_type = lit ''target.deleted'',
      av_details = JObject [(lit ''target_id'', JString (ae_uuid_to_string env (tg_id t))),
        (lit ''target_name'', JString (tg_name t)), (lit ''role'', JString role)],
      av_created_at = now\<rparr>"

definition active_rows :: "uuid \<Rightarrow> job_db \<Rightarrow> job_row list" where
  "active_rows i db = filter (\<lambda>r. jw_target_id r = Some i \<and> jw_status r \<in>
     {lit ''checking'', lit ''planned'', lit ''applying'', lit ''reconcile_required''}) (jd_jobs db)"

definition delete_with_related_data ::
  "ansible_env \<Rightarrow> bool \<Rightarrow> timestamp \<Rightarrow> uuid \<Rightarrow> str \<Rightarrow> controller \<Rightarrow> bool repo_result \<times> controller" where
  "delete_with_related_data env up now i role c =
     db_write up c
       (let d = ct_db c in
        case List.find (\<lambda>t. tg_id t = i) (cd_targets d) of
          None \<Rightarrow> (Inr False, c)
        | Some t \<Rightarrow>
            if (case ap_repositories (ct_api c) of None \<Rightarrow> False | Some db \<Rightarrow> active_rows i db \<noteq> [])
            then (Inl RepTargetBusy, c)
            else
              (let c1 = set_targets (filter (\<lambda>r. tg_id r \<noteq> i) (cd_targets d)) c in
               (Inr True,
                c1\<lparr>ct_db := (ct_db c1)\<lparr>
                     cd_schedules := schedules_without i (cd_policies d) (cd_schedules d),
                     cd_policies := policies_without i (cd_policies d),
                     cd_samples := filter (\<lambda>x. fst x \<noteq> i) (cd_samples d),
                     cd_docker_samples := filter (\<lambda>x. fst x \<noteq> i) (cd_docker_samples d),
                     cd_inventories := filter (\<lambda>x. pis_target_id x \<noteq> i) (cd_inventories d),
                     cd_audit := cd_audit d @ [target_deleted_event env now t role]\<rparr>,
                   ct_api := (ct_api c1)\<lparr>ap_repositories :=
                     map_option (cascade_target i) (ap_repositories (ct_api c1))\<rparr>\<rparr>)))"

section \<open>Schedules and update policies\<close>

text \<open>\<open>INSERT ... ON CONFLICT (id) DO UPDATE\<close>\<close>

definition upsert :: "('a \<Rightarrow> 'k) \<Rightarrow> 'a \<Rightarrow> 'a list \<Rightarrow> 'a list" where
  "upsert key x rows =
     (if key x \<in> set (map key rows) then map (\<lambda>r. if key r = key x then x else r) rows else rows @ [x])"

lemma set_upsert:
  "set (upsert key x rows) = insert x {r \<in> set rows. key r \<noteq> key x}"
  by (force simp: upsert_def image_iff split: if_splits)

lemma map_key_replace: "map key (map (\<lambda>r. if key r = key x then x else r) rows) = map key rows"
  by simp

lemma distinct_upsert: "distinct (map key rows) \<Longrightarrow> distinct (map key (upsert key x rows))"
  unfolding upsert_def by (auto simp: map_key_replace simp del: map_map)

fun every_minutes :: "schedule_frequency \<Rightarrow> u32" where
  "every_minutes (EveryMinutes v) = v"

definition save_schedule :: "bool \<Rightarrow> job_schedule \<Rightarrow> controller \<Rightarrow> unit repo_result \<times> controller" where
  "save_schedule up s c =
     (let v = uint (every_minutes (sd_frequency s)) in
      if v > 2147483647 then (Inl (RepInvalidValue (lit ''schedule interval'')), c)
      else db_write up c
        (if v = 0 then (Inl RepDatabase, c)
         else (Inr (), c\<lparr>ct_db := (ct_db c)\<lparr>cd_schedules := upsert sd_id s (cd_schedules (ct_db c))\<rparr>\<rparr>)))"

text \<open>The listings are sorted by the database's collation, which the handlers below do not depend on.\<close>

definition list_schedule_rows :: "bool \<Rightarrow> controller \<Rightarrow> job_schedule list repo_result" where
  "list_schedule_rows up c = db_read up (Inr (cd_schedules (ct_db c)))"

definition save_policy :: "bool \<Rightarrow> update_policy \<Rightarrow> controller \<Rightarrow> unit repo_result \<times> controller" where
  "save_policy up p c =
     db_write up c (Inr (), c\<lparr>ct_db := (ct_db c)\<lparr>cd_policies := upsert po_id p (cd_policies (ct_db c))\<rparr>\<rparr>)"

definition save_policy_if_absent :: "bool \<Rightarrow> update_policy \<Rightarrow> controller \<Rightarrow> bool repo_result \<times> controller" where
  "save_policy_if_absent up p c =
     db_write up c
       (if po_id p \<in> set (map po_id (cd_policies (ct_db c))) then (Inr False, c)
        else (Inr True, c\<lparr>ct_db := (ct_db c)\<lparr>cd_policies := cd_policies (ct_db c) @ [p]\<rparr>\<rparr>))"

definition delete_policy_row :: "bool \<Rightarrow> str \<Rightarrow> controller \<Rightarrow> bool repo_result \<times> controller" where
  "delete_policy_row up i c =
     db_write up c
       (Inr (length (filter (\<lambda>p. po_id p = i) (cd_policies (ct_db c))) = 1),
        c\<lparr>ct_db := (ct_db c)\<lparr>cd_policies := filter (\<lambda>p. po_id p \<noteq> i) (cd_policies (ct_db c))\<rparr>\<rparr>)"

definition list_policy_rows :: "bool \<Rightarrow> controller \<Rightarrow> update_policy list repo_result" where
  "list_policy_rows up c = db_read up (Inr (cd_policies (ct_db c)))"

definition append_audit :: "bool \<Rightarrow> audit_event \<Rightarrow> controller \<Rightarrow> unit repo_result \<times> controller" where
  "append_audit up e c =
     db_write up c (Inr (), c\<lparr>ct_db := (ct_db c)\<lparr>cd_audit := cd_audit (ct_db c) @ [e]\<rparr>\<rparr>)"

section \<open>Telemetry, package inventories and workers\<close>

definition sample_in_window :: "timestamp \<Rightarrow> timestamp \<Rightarrow> bool" where
  "sample_in_window now t \<longleftrightarrow> t \<le> now + seconds 5 \<and> t \<ge> now - seconds WINDOW_SECONDS"

definition overlap_exists :: "uuid \<Rightarrow> timestamp \<Rightarrow> (uuid \<times> system_telemetry_sample) list \<Rightarrow> bool" where
  "overlap_exists i t rows \<longleftrightarrow>
     list_ex (\<lambda>(j, r). j = i \<and> t - seconds 1 \<le> ss_collected_at r \<and> ss_collected_at r \<le> t + seconds 1) rows"

fun insert_samples ::
  "timestamp \<Rightarrow> uuid \<Rightarrow> system_telemetry_sample list \<Rightarrow> (uuid \<times> system_telemetry_sample) list
     \<Rightarrow> (uuid \<times> system_telemetry_sample) list" where
  "insert_samples now i [] rows = rows"
| "insert_samples now i (s # rest) rows =
     insert_samples now i rest
       (if \<not> sample_in_window now (ss_collected_at s) \<or> overlap_exists i (ss_collected_at s) rows
        then rows else rows @ [(i, s)])"

fun insert_docker_samples ::
  "timestamp \<Rightarrow> uuid \<Rightarrow> docker_telemetry_sample list \<Rightarrow> (uuid \<times> str \<times> docker_telemetry_sample) list
     \<Rightarrow> (uuid \<times> str \<times> docker_telemetry_sample) list" where
  "insert_docker_samples now i [] rows = rows"
| "insert_docker_samples now i (s # rest) rows =
     insert_docker_samples now i rest
       (let key = to_ascii_lowercase (ds_container_id s) in
        if \<not> docker_sample_valid now s
           \<or> list_ex (\<lambda>(j, k, r). j = i \<and> k = key \<and> ds_collected_at r = ds_collected_at s) rows
        then rows else rows @ [(i, key, s)])"

text \<open>A sample of a target without a row breaks the foreign key and the transaction with it.\<close>

definition append_heartbeat ::
  "bool \<Rightarrow> timestamp \<Rightarrow> agent_heartbeat \<Rightarrow> controller \<Rightarrow> unit repo_result \<times> controller" where
  "append_heartbeat up now hb c =
     db_write up c
       (let d = ct_db c; i = hb_target_id hb;
            samples = insert_samples now i (sw_samples (hb_telemetry hb)) (cd_samples d);
            dockers = insert_docker_samples now i (take 8000 (hb_docker_telemetry hb)) (cd_docker_samples d)
        in if (samples \<noteq> cd_samples d \<or> dockers \<noteq> cd_docker_samples d)
              \<and> i \<notin> set (map tg_id (cd_targets d))
           then (Inl RepDatabase, c)
           else (Inr (), c\<lparr>ct_db := d\<lparr>cd_samples := samples, cd_docker_samples := dockers\<rparr>\<rparr>))"

definition find_latest_inventory :: "bool \<Rightarrow> uuid \<Rightarrow> controller \<Rightarrow> package_inventory_snapshot option repo_result" where
  "find_latest_inventory up i c =
     db_read up (Inr (List.find (\<lambda>x. pis_target_id x = i) (cd_inventories (ct_db c))))"

definition replace_inventory ::
  "bool \<Rightarrow> package_inventory_snapshot \<Rightarrow> controller \<Rightarrow> unit repo_result \<times> controller" where
  "replace_inventory up x c =
     db_write up c
       (if pis_target_id x \<notin> set (map tg_id (cd_targets (ct_db c))) then (Inl RepDatabase, c)
        else (Inr (), c\<lparr>ct_db := (ct_db c)\<lparr>cd_inventories :=
          upsert pis_target_id x (cd_inventories (ct_db c))\<rparr>\<rparr>))"

definition record_worker :: "bool \<Rightarrow> str \<Rightarrow> timestamp \<Rightarrow> controller \<Rightarrow> unit repo_result \<times> controller" where
  "record_worker up name now c =
     db_write up c (Inr (), c\<lparr>ct_db := (ct_db c)\<lparr>cd_worker_seen :=
       upsert fst (name, now) (cd_worker_seen (ct_db c))\<rparr>\<rparr>)"

definition latest_since :: "bool \<Rightarrow> timestamp \<Rightarrow> controller \<Rightarrow> timestamp option repo_result" where
  "latest_since up cutoff c =
     db_read up (Inr (case filter (\<lambda>t. t \<ge> cutoff) (map snd (cd_worker_seen (ct_db c))) of
       [] \<Rightarrow> None | t # ts \<Rightarrow> Some (foldl max t ts)))"

end
