(* ===== verification/ScheduleApi.thy ===== *)
theory ScheduleApi
  imports ControllerStore WindowsWorkflows
begin

text \<open>
  \<open>lxcup-server/src/schedules.rs\<close>, \<open>policies.rs\<close>, the reconciliation of the shared standard policy in
  \<open>lib.rs\<close>, and the passphrase check of \<open>backups.rs\<close>. The secret store is the pair of functions
  \<open>metadata_of\<close> and \<open>read_secret\<close>.
\<close>

section \<open>Backup passphrases (backups.rs)\<close>

definition validate_backup_passphrase :: "str \<Rightarrow> unit api_result" where
  "validate_backup_passphrase p =
     (if length p < 12 \<or> str_len p > 1024 then
        Inl (bad_request (lit ''backup_passphrase_invalid'')
          (lit ''backup passphrase must contain at least 12 characters and no more than 1024 bytes''))
      else Inr ())"

fun map_backup_secret_error :: "secret_store_error \<Rightarrow> api_error" where
  "map_backup_secret_error SecUnavailable =
     dependency (lit ''backup_secret_unavailable'') (lit ''the backup passphrase secret store is unavailable'')"
| "map_backup_secret_error _ =
     bad_request (lit ''invalid_backup_secret'')
       (lit ''the configured backup passphrase secret is unavailable or invalid'')"

type_synonym metadata_reader = "uuid \<Rightarrow> stored_secret_metadata secret_result"

definition read_backup_passphrase :: "metadata_reader \<Rightarrow> secret_reader \<Rightarrow> uuid \<Rightarrow> str api_result" where
  "read_backup_passphrase metadata_of read_secret i =
     bindR (map_err map_backup_secret_error (metadata_of i)) (\<lambda>m.
       if st_status m \<noteq> SecActive \<or> sm_kind (st_metadata m) \<noteq> BackupPassphrase
          \<or> sm_scope (st_metadata m) \<noteq> GlobalScope then
         Inl (bad_request (lit ''invalid_backup_secret'')
           (lit ''select an active global backup-passphrase secret''))
       else bindR (map_err map_backup_secret_error (read_secret i)) (\<lambda>v.
         bindR (validate_backup_passphrase (expose v)) (\<lambda>_. Inr (expose v))))"

section \<open>Schedules (schedules.rs)\<close>

record create_schedule_request =
  sq_id :: str
  sq_operation :: str
  sq_timezone :: str
  sq_target_ids :: "uuid list"
  sq_every_minutes :: u32
  sq_enabled :: bool
  sq_threshold :: "threshold_rule option"
  sq_policy_id :: "str option"
  sq_backup_secret_ref :: "uuid option"

definition validate_schedule_identity :: "create_schedule_request \<Rightarrow> unit api_result" where
  "validate_schedule_identity r =
     (if trim (sq_id r) = [] \<or> str_len (sq_id r) > 128 then
        Inl (bad_request (lit ''invalid_schedule'') (lit ''schedule id is required and bounded''))
      else if trim (sq_timezone r) = [] \<or> str_len (sq_timezone r) > 64 then
        Inl (bad_request (lit ''invalid_timezone'') (lit ''timezone is required and bounded''))
      else if sq_every_minutes r = 0 \<or> sq_every_minutes r > 7 * 24 * 60 then
        Inl (bad_request (lit ''invalid_interval'')
          (lit ''schedule interval must be between 1 minute and 7 days''))
      else Inr ())"

definition validate_schedule_operation :: "create_schedule_request \<Rightarrow> unit api_result" where
  "validate_schedule_operation r =
     (if sq_operation r \<notin> {lit ''health_check'', lit ''collect_package_inventory'', lit ''update_packages'',
          lit ''docker_discovery'', lit ''create_backup''} then
        Inl (bad_request (lit ''invalid_operation'') (lit ''operation is not registered for scheduling''))
      else if sq_operation r = lit ''update_packages'' \<and> sq_policy_id r = None then
        Inl (bad_request (lit ''update_policy_required'')
          (lit ''package updates require an explicit update policy''))
      else if sq_operation r = lit ''docker_discovery'' \<and> sq_threshold r \<noteq> None then
        Inl (bad_request (lit ''invalid_threshold'')
          (lit ''Docker discovery does not support telemetry thresholds''))
      else if sq_operation r \<noteq> lit ''create_backup'' \<and> sq_backup_secret_ref r \<noteq> None then
        Inl (bad_request (lit ''invalid_backup_secret'')
          (lit ''backup secrets are only valid for backup schedules''))
      else Inr ())"

definition validate_backup_schedule :: "create_schedule_request \<Rightarrow> unit api_result" where
  "validate_backup_schedule r =
     (if sq_operation r \<noteq> lit ''create_backup'' then Inr ()
      else if sq_backup_secret_ref r = None then
        Inl (bad_request (lit ''backup_secret_required'')
          (lit ''scheduled backups require a global backup-passphrase secret''))
      else if sq_target_ids r \<noteq> [] \<or> sq_threshold r \<noteq> None \<or> sq_policy_id r \<noteq> None then
        Inl (bad_request (lit ''invalid_backup_schedule'')
          (lit ''backup schedules do not use targets, thresholds, or update policies''))
      else if sq_timezone r \<noteq> lit ''UTC'' then
        Inl (bad_request (lit ''invalid_backup_schedule_timezone'') (lit ''backup schedules use UTC''))
      else if sq_every_minutes r < 60 then
        Inl (bad_request (lit ''backup_interval_too_short'')
          (lit ''scheduled backups must run at least 60 minutes apart''))
      else Inr ())"

definition validate_schedule_fields :: "create_schedule_request \<Rightarrow> unit api_result" where
  "validate_schedule_fields r =
     bindR (validate_schedule_identity r) (\<lambda>_.
     bindR (validate_schedule_operation r) (\<lambda>_. validate_backup_schedule r))"

definition validate_schedule_policy_targets :: "create_schedule_request \<Rightarrow> api_state \<Rightarrow> unit api_result" where
  "validate_schedule_policy_targets r st =
     (case sq_policy_id r of
        None \<Rightarrow> Inr ()
      | Some pid \<Rightarrow>
          bindR (ok_or (not_found (lit ''update policy not found or disabled''))
            (List.find (\<lambda>p. po_id p = pid \<and> po_enabled p) (ap_update_policies st))) (\<lambda>p.
            if list_ex (\<lambda>t. t \<notin> set (po_allowed_targets p)) (sq_target_ids r) then
              Inl (bad_request (lit ''update_policy_target_denied'')
                (lit ''update policy does not allow every schedule target''))
            else Inr ()))"

definition validate_schedule_resources :: "create_schedule_request \<Rightarrow> api_state \<Rightarrow> unit api_result" where
  "validate_schedule_resources r st =
     (if list_ex (\<lambda>s. sd_id s = sq_id r) (ap_schedules st) then
        Inl (conflict (lit ''schedule_exists'') (lit ''schedule id already exists''))
      else if sq_target_ids r = [] \<and> sq_operation r \<noteq> lit ''create_backup'' then
        Inl (bad_request (lit ''target_required'') (lit ''at least one target is required''))
      else if list_ex (\<lambda>i. \<not> list_ex (\<lambda>t. tg_id t = i) (ap_targets st)) (sq_target_ids r) then
        Inl (not_found (lit ''schedule target not found''))
      else if sq_operation r = lit ''docker_discovery''
           \<and> list_ex (\<lambda>i. \<not> list_ex (\<lambda>t. tg_id t = i \<and> tg_kind t = Lxc) (ap_targets st)) (sq_target_ids r) then
        Inl (bad_request (lit ''docker_discovery_requires_lxc'')
          (lit ''Docker discovery schedules require LXC targets''))
      else validate_schedule_policy_targets r st)"

definition schedule_of_request :: "timestamp \<Rightarrow> create_schedule_request \<Rightarrow> job_schedule" where
  "schedule_of_request now r =
     \<lparr>sd_id = sq_id r, sd_operation = sq_operation r, sd_timezone = sq_timezone r,
      sd_target_ids = sq_target_ids r, sd_frequency = EveryMinutes (sq_every_minutes r),
      sd_enabled = sq_enabled r, sd_threshold = sq_threshold r, sd_policy_id = sq_policy_id r,
      sd_backup_secret_ref = sq_backup_secret_ref r, sd_last_run_at = None,
      sd_next_run_at = now + schedule_interval (EveryMinutes (sq_every_minutes r)), sd_last_error = None\<rparr>"

definition set_schedules :: "job_schedule list \<Rightarrow> controller \<Rightarrow> controller" where
  "set_schedules xs c = c\<lparr>ct_api := (ct_api c)\<lparr>ap_schedules := xs\<rparr>\<rparr>"

definition set_policies :: "update_policy list \<Rightarrow> controller \<Rightarrow> controller" where
  "set_policies xs c = c\<lparr>ct_api := (ct_api c)\<lparr>ap_update_policies := xs\<rparr>\<rparr>"

text \<open>The checks before the schedule is pushed.\<close>

definition check_schedule ::
  "metadata_reader \<Rightarrow> secret_reader \<Rightarrow> actor_role \<Rightarrow> create_schedule_request \<Rightarrow> api_state \<Rightarrow> unit api_result" where
  "check_schedule metadata_of read_secret role r st =
     bindR (require_permission role Configure) (\<lambda>_.
       if sq_operation r = lit ''create_backup'' \<and> role \<noteq> Admin then
         Inl (forbidden (lit ''admin_required'')
           (lit ''administrator access is required to schedule backups''))
       else bindR (validate_schedule_fields r) (\<lambda>_.
         bindR (if sq_operation r = lit ''create_backup'' then
             bindR (ok_or (bad_request (lit ''backup_secret_required'') (lit ''select a backup-passphrase secret''))
               (sq_backup_secret_ref r)) (\<lambda>i.
             bindR (read_backup_passphrase metadata_of read_secret i) (\<lambda>_. Inr ()))
           else Inr ()) (\<lambda>_.
           validate_schedule_resources r st)))"

definition create_schedule ::
  "metadata_reader \<Rightarrow> secret_reader \<Rightarrow> store_calls \<Rightarrow> timestamp \<Rightarrow> actor_role \<Rightarrow> create_schedule_request
     \<Rightarrow> controller \<Rightarrow> job_schedule api_result \<times> controller" where
  "create_schedule metadata_of read_secret up now role r c =
     (case check_schedule metadata_of read_secret role r (ct_api c) of
        Inl e \<Rightarrow> (Inl e, c)
      | Inr _ \<Rightarrow>
          (let s = schedule_of_request now r;
               c1 = set_schedules (ap_schedules (ct_api c) @ [s]) c in
           if has_database c then
             (case save_schedule (up (CallSaveSchedule 0)) s c1 of
                (Inl _, c2) \<Rightarrow> (Inl storage, c2)
              | (Inr _, c2) \<Rightarrow> (Inr s, c2))
           else (Inr s, c1)))"

text \<open>\<open>iter_mut().find(...)\<close> and a change of the element found.\<close>

fun update_first :: "('a \<Rightarrow> bool) \<Rightarrow> ('a \<Rightarrow> 'a) \<Rightarrow> 'a list \<Rightarrow> 'a list" where
  "update_first p f [] = []"
| "update_first p f (x # xs) = (if p x then f x # xs else x # update_first p f xs)"

definition set_schedule_enabled ::
  "store_calls \<Rightarrow> actor_role \<Rightarrow> str \<Rightarrow> bool \<Rightarrow> controller \<Rightarrow> job_schedule api_result \<times> controller" where
  "set_schedule_enabled up role i enabled c =
     (case require_permission role Configure of
        Inl e \<Rightarrow> (Inl e, c)
      | Inr _ \<Rightarrow>
          (case List.find (\<lambda>s. sd_id s = i) (ap_schedules (ct_api c)) of
             None \<Rightarrow> (Inl (not_found (lit ''schedule not found'')), c)
           | Some s \<Rightarrow>
               (let updated = s\<lparr>sd_enabled := enabled\<rparr>;
                    c1 = set_schedules (update_first (\<lambda>s. sd_id s = i) (\<lambda>s. s\<lparr>sd_enabled := enabled\<rparr>)
                      (ap_schedules (ct_api c))) c in
                if has_database c then
                  (case save_schedule (up (CallSaveSchedule 0)) updated c1 of
                     (Inl _, c2) \<Rightarrow> (Inl storage, c2)
                   | (Inr _, c2) \<Rightarrow> (Inr updated, c2))
                else (Inr updated, c1))))"

section \<open>Update policies (policies.rs)\<close>

record create_update_policy_request =
  pq_id :: str
  pq_allowed_targets :: "uuid list"
  pq_allowed_packages :: "str list"
  pq_maintenance_start_minute :: u16
  pq_maintenance_end_minute :: u16
  pq_timezone :: str
  pq_maximum_risk :: update_risk
  pq_enabled :: bool

definition STANDARD_UPDATE_POLICY_ID :: str where
  "STANDARD_UPDATE_POLICY_ID = lit ''lxcup-standard-all-packages''"

text \<open>\<open>sort_by_key\<close> and \<open>dedup\<close>: neighbours that are equal collapse.\<close>

definition sort_dedup :: "uuid list \<Rightarrow> uuid list" where
  "sort_dedup ids = remdups_adj (sort ids)"

definition default_update_policy :: "uuid list \<Rightarrow> update_policy" where
  "default_update_policy ids =
     \<lparr>po_id = STANDARD_UPDATE_POLICY_ID, po_allowed_targets = sort_dedup ids, po_allowed_packages = [],
      po_maintenance_start_minute = 0, po_maintenance_end_minute = 23 * 60 + 59,
      po_timezone = lit ''UTC'', po_maximum_risk = High, po_enabled = True\<rparr>"

definition bad_package_name :: "str \<Rightarrow> bool" where
  "bad_package_name p \<longleftrightarrow> trim p = [] \<or> str_len p > 100 \<or> list_ex is_whitespace p
     \<or> list_ex (\<lambda>ch. \<not> (is_ascii_alphanumeric ch \<or> ch \<in> set (lit ''+._:-''))) p"

definition validate_update_policy_request :: "create_update_policy_request \<Rightarrow> unit api_result" where
  "validate_update_policy_request r =
     (if pq_id r = STANDARD_UPDATE_POLICY_ID then
        Inl (bad_request (lit ''reserved_policy_id'')
          (lit ''this policy id is reserved for the system default''))
      else if trim (pq_id r) = [] \<or> str_len (pq_id r) > 128 then
        Inl (bad_request (lit ''invalid_policy'') (lit ''policy id is required and bounded''))
      else if trim (pq_timezone r) = [] \<or> str_len (pq_timezone r) > 64 then
        Inl (bad_request (lit ''invalid_timezone'') (lit ''timezone is required and bounded''))
      else if pq_timezone r \<noteq> lit ''UTC'' then
        Inl (bad_request (lit ''unsupported_timezone'') (lit ''update policy windows currently use UTC''))
      else if pq_maintenance_start_minute r \<ge> 24 * 60 \<or> pq_maintenance_end_minute r \<ge> 24 * 60 then
        Inl (bad_request (lit ''invalid_window'') (lit ''maintenance minutes must be within a day''))
      else if pq_allowed_targets r = [] then
        Inl (bad_request (lit ''target_required'') (lit ''at least one target is required''))
      else if length (pq_allowed_packages r) > 500 \<or> list_ex bad_package_name (pq_allowed_packages r) then
        Inl (bad_request (lit ''invalid_package_group'')
          (lit ''allowed package names must be bounded safe package identifiers''))
      else Inr ())"

definition policy_of_request :: "create_update_policy_request \<Rightarrow> update_policy" where
  "policy_of_request r =
     \<lparr>po_id = pq_id r, po_allowed_targets = pq_allowed_targets r,
      po_allowed_packages = pq_allowed_packages r,
      po_maintenance_start_minute = pq_maintenance_start_minute r,
      po_maintenance_end_minute = pq_maintenance_end_minute r, po_timezone = pq_timezone r,
      po_maximum_risk = pq_maximum_risk r, po_enabled = pq_enabled r\<rparr>"

definition check_policy :: "actor_role \<Rightarrow> create_update_policy_request \<Rightarrow> api_state \<Rightarrow> unit api_result" where
  "check_policy role r st =
     bindR (require_permission role Configure) (\<lambda>_.
     bindR (validate_update_policy_request r) (\<lambda>_.
       if list_ex (\<lambda>p. po_id p = pq_id r) (ap_update_policies st) then
         Inl (conflict (lit ''policy_exists'') (lit ''policy id already exists''))
       else if list_ex (\<lambda>i. \<not> list_ex (\<lambda>t. tg_id t = i) (ap_targets st)) (pq_allowed_targets r) then
         Inl (not_found (lit ''policy target not found''))
       else Inr ()))"

definition create_update_policy ::
  "store_calls \<Rightarrow> actor_role \<Rightarrow> create_update_policy_request \<Rightarrow> controller
     \<Rightarrow> update_policy api_result \<times> controller" where
  "create_update_policy up role r c =
     (case check_policy role r (ct_api c) of
        Inl e \<Rightarrow> (Inl e, c)
      | Inr _ \<Rightarrow>
          (let p = policy_of_request r;
               c1 = set_policies (ap_update_policies (ct_api c) @ [p]) c in
           if has_database c then
             (case save_policy (up CallSavePolicy) p c1 of
                (Inl _, c2) \<Rightarrow> (Inl storage, c2)
              | (Inr _, c2) \<Rightarrow> (Inr p, c2))
           else (Inr p, c1)))"

fun role_label :: "actor_role \<Rightarrow> str" where
  "role_label Viewer = lit ''viewer''"
| "role_label Operator = lit ''operator''"
| "role_label Admin = lit ''admin''"

definition policy_deleted_event :: "timestamp \<Rightarrow> str \<Rightarrow> actor_role \<Rightarrow> audit_event" where
  "policy_deleted_event now i role =
     \<lparr>av_event_type = lit ''update_policy.deleted'',
      av_details = JObject [(lit ''policy_id'', JString i), (lit ''role'', JString (role_label role))],
      av_created_at = now\<rparr>"

text \<open>The schedules that may still use a policy.\<close>

definition known_schedules :: "store_calls \<Rightarrow> controller \<Rightarrow> job_schedule list api_result" where
  "known_schedules up c =
     (if has_database c then map_err (\<lambda>_. storage) (list_schedule_rows (up CallListSchedules) c)
      else Inr (ap_schedules (ct_api c)))"

definition check_policy_deletion ::
  "store_calls \<Rightarrow> actor_role \<Rightarrow> str \<Rightarrow> bool \<Rightarrow> controller \<Rightarrow> unit api_result" where
  "check_policy_deletion up role i confirmed c =
     bindR (require_permission role Destructive) (\<lambda>_.
       if \<not> confirmed then
         Inl (bad_request (lit ''confirmation_required'')
           (lit ''deleting an update policy requires explicit confirmation''))
       else if i = STANDARD_UPDATE_POLICY_ID then
         Inl (bad_request (lit ''system_policy_protected'')
           (lit ''the system-wide standard update policy cannot be deleted''))
       else bindR (known_schedules up c) (\<lambda>schedules.
         if list_ex (\<lambda>s. sd_enabled s \<and> sd_policy_id s = Some i) schedules then
           Inl (conflict (lit ''policy_in_use'')
             (lit ''disable recurring schedules that reference this policy before deleting it''))
         else Inr ()))"

definition delete_update_policy ::
  "store_calls \<Rightarrow> timestamp \<Rightarrow> actor_role \<Rightarrow> str \<Rightarrow> bool \<Rightarrow> controller \<Rightarrow> unit api_result \<times> controller" where
  "delete_update_policy up now role i confirmed c =
     (case check_policy_deletion up role i confirmed c of
        Inl e \<Rightarrow> (Inl e, c)
      | Inr _ \<Rightarrow>
          (let kept = filter (\<lambda>p. po_id p \<noteq> i) (ap_update_policies (ct_api c)) in
           if has_database c then
             (case delete_policy_row (up CallDeletePolicy) i c of
                (Inl _, c1) \<Rightarrow> (Inl storage, c1)
              | (Inr False, c1) \<Rightarrow> (Inl (not_found (lit ''update policy not found'')), c1)
              | (Inr True, c1) \<Rightarrow>
                  (case append_audit (up CallAppendAudit) (policy_deleted_event now i role) (set_policies kept c1) of
                     (Inl _, c2) \<Rightarrow> (Inl storage, c2)
                   | (Inr _, c2) \<Rightarrow> (Inr (), c2)))
           else if length kept = length (ap_update_policies (ct_api c)) then
             (Inl (not_found (lit ''update policy not found'')), c)
           else (Inr (), set_policies kept c)))"

section \<open>The standard policy (lib.rs)\<close>

definition registered_target_ids :: "controller \<Rightarrow> uuid list" where
  "registered_target_ids c = sort_dedup (map tg_id (ap_targets (ct_api c)))"

definition standard_policy :: "update_policy list \<Rightarrow> update_policy option" where
  "standard_policy ps = List.find (\<lambda>p. po_id p = STANDARD_UPDATE_POLICY_ID) ps"

definition extend_policy :: "uuid list \<Rightarrow> update_policy \<Rightarrow> update_policy" where
  "extend_policy ids p = p\<lparr>po_allowed_targets := sort_dedup (po_allowed_targets p @ ids)\<rparr>"

definition merge_concurrent_standard_policy ::
  "store_calls \<Rightarrow> update_policy \<Rightarrow> controller \<Rightarrow> (update_policy option) api_result \<times> controller" where
  "merge_concurrent_standard_policy up p c =
     (case list_policy_rows (up CallListPolicies) c of
        Inl _ \<Rightarrow> (Inl storage, c)
      | Inr rows \<Rightarrow>
          (case standard_policy rows of
             None \<Rightarrow> (Inr None, c)
           | Some current \<Rightarrow>
               (let merged = extend_policy (po_allowed_targets p) current in
                if length (po_allowed_targets merged) = length (po_allowed_targets current)
                then (Inr (Some merged), c)
                else (case save_policy (up CallSavePolicy) merged c of
                        (Inl _, c1) \<Rightarrow> (Inl storage, c1)
                      | (Inr _, c1) \<Rightarrow> (Inr (Some merged), c1)))))"

text \<open>The policy that is stored, \<open>None\<close> when a concurrent change removed it.\<close>

definition persist_standard_update_policy ::
  "store_calls \<Rightarrow> update_policy \<Rightarrow> bool \<Rightarrow> controller \<Rightarrow> (update_policy option) api_result \<times> controller" where
  "persist_standard_update_policy up p already_exists c =
     (if \<not> has_database c then (Inr (Some p), c)
      else if already_exists then
        (case save_policy (up CallSavePolicy) p c of
           (Inl _, c1) \<Rightarrow> (Inl storage, c1)
         | (Inr _, c1) \<Rightarrow> (Inr (Some p), c1))
      else
        (case save_policy_if_absent (up CallInsertPolicy) p c of
           (Inl _, c1) \<Rightarrow> (Inl storage, c1)
         | (Inr True, c1) \<Rightarrow> (Inr (Some p), c1)
         | (Inr False, c1) \<Rightarrow> merge_concurrent_standard_policy up p c1))"

definition store_standard_policy :: "update_policy \<Rightarrow> update_policy list \<Rightarrow> update_policy list" where
  "store_standard_policy p ps =
     (case standard_policy ps of
        None \<Rightarrow> ps @ [p]
      | Some _ \<Rightarrow> update_first (\<lambda>q. po_id q = STANDARD_UPDATE_POLICY_ID) (\<lambda>_. p) ps)"

definition ensure_default_update_policies ::
  "store_calls \<Rightarrow> controller \<Rightarrow> nat api_result \<times> controller" where
  "ensure_default_update_policies up c =
     (let ids = registered_target_ids c in
      if ids = [] then (Inr 0, c)
      else
        (let existing = standard_policy (ap_update_policies (ct_api c));
             base = (case existing of None \<Rightarrow> default_update_policy ids | Some p \<Rightarrow> p);
             p = extend_policy ids base in
         if existing \<noteq> None \<and> length (po_allowed_targets p) = length (po_allowed_targets base) then (Inr 0, c)
         else
           (case persist_standard_update_policy up p (existing \<noteq> None) c of
              (Inl e, c1) \<Rightarrow> (Inl e, c1)
            | (Inr None, c1) \<Rightarrow> (Inr 0, c1)
            | (Inr (Some q), c1) \<Rightarrow>
                (Inr 1, set_policies (store_standard_policy q (ap_update_policies (ct_api c1))) c1))))"

end
