(* ===== verification/TargetApi.thy ===== *)
theory TargetApi
  imports ScheduleApi
begin

text \<open>
  \<open>lxcup-server/src/targets.rs\<close> with \<open>targets/heartbeat.rs\<close>, and \<open>target_credentials.rs\<close>: creating and
  deleting targets, heartbeats of agents, and what a changed secret disables.
\<close>

section \<open>Creating a target\<close>

record create_target_request =
  tq_name :: str
  tq_kind :: target_kind
  tq_address :: str
  tq_transport :: target_transport
  tq_ssh_user :: "str option"
  tq_credential_secret_ref :: "uuid option"
  tq_ssh_known_hosts_secret_ref :: "uuid option"
  tq_agent_secret_ref :: uuid

definition invalid_target :: "str \<Rightarrow> api_error" where
  "invalid_target message = bad_request (lit ''invalid_target'') message"

definition invalid_fields :: "target domain_result \<Rightarrow> target api_result" where
  "invalid_fields r = map_err (\<lambda>_. invalid_target (lit ''target fields or transport are invalid'')) r"

definition target_of_request :: "uuid \<Rightarrow> timestamp \<Rightarrow> create_target_request \<Rightarrow> target api_result" where
  "target_of_request fresh now r =
     bindR
       (if tq_transport r = Agent then
          (if tq_credential_secret_ref r = None \<and> tq_kind r = WindowsServer then
             invalid_fields (new_agent_only fresh now (tq_name r) (tq_kind r) (tq_address r) (tq_agent_secret_ref r))
           else Inl (invalid_target
             (lit ''agent transport is only supported for Windows targets without deployment credentials'')))
        else
          (case tq_credential_secret_ref r of
             Some secret \<Rightarrow>
               invalid_fields (target_new fresh now (tq_name r) (tq_kind r) (tq_address r) (tq_transport r)
                 secret (tq_agent_secret_ref r))
           | None \<Rightarrow>
               Inl (invalid_target (lit ''deployment credential secret is required for this transport'')))) (\<lambda>t.
     Inr (t\<lparr>tg_ssh_user := (case tq_ssh_user r of Some u \<Rightarrow> if trim u \<noteq> [] then Some u else None | None \<Rightarrow> None),
            tg_ssh_known_hosts_secret_ref := tq_ssh_known_hosts_secret_ref r\<rparr>))"

definition push_target :: "target \<Rightarrow> controller \<Rightarrow> controller" where
  "push_target t c = c\<lparr>ct_api := (ct_api c)\<lparr>ap_targets := ap_targets (ct_api c) @ [t]\<rparr>\<rparr>"

definition create_target ::
  "store_calls \<Rightarrow> uuid \<Rightarrow> timestamp \<Rightarrow> actor_role \<Rightarrow> create_target_request \<Rightarrow> controller
     \<Rightarrow> target api_result \<times> controller" where
  "create_target up fresh now role r c =
     (case bindR (require_permission role Configure) (\<lambda>_. target_of_request fresh now r) of
        Inl e \<Rightarrow> (Inl e, c)
      | Inr t \<Rightarrow>
          (case (if has_database c then save_target (up CallSaveTarget) t c else (Inr (), c)) of
             (Inl _, c1) \<Rightarrow> (Inl storage, c1)
           | (Inr _, c1) \<Rightarrow>
               (case ensure_default_update_policies up (push_target t c1) of
                  (Inl e, c2) \<Rightarrow> (Inl e, c2)
                | (Inr _, c2) \<Rightarrow> (Inr t, c2))))"

section \<open>Deleting a target\<close>

definition target_busy :: "str \<Rightarrow> api_error" where
  "target_busy message = conflict (lit ''target_busy'') message"

definition busy_message :: str where
  "busy_message = lit ''wait for active workflows to finish before removing this target''"

definition forget_target :: "uuid \<Rightarrow> controller \<Rightarrow> controller" where
  "forget_target i c =
     (let st = ct_api c;
          enrollments = filter (\<lambda>e. en_target_id e \<noteq> Some i) (ct_enrollments c) in
      c\<lparr>ct_api := st\<lparr>ap_targets := filter (\<lambda>t. tg_id t \<noteq> i) (ap_targets st),
            ap_schedules := schedules_without i (ap_update_policies st) (ap_schedules st),
            ap_update_policies := policies_without i (ap_update_policies st)\<rparr>,
        ct_agent_reports := hm_remove i (ct_agent_reports c),
        ct_enrollments := enrollments,
        ct_enrollment_keys := hm_retain (\<lambda>_ e. e \<in> set (map en_id enrollments)) (ct_enrollment_keys c)\<rparr>)"

definition delete_rows ::
  "ansible_env \<Rightarrow> store_calls \<Rightarrow> timestamp \<Rightarrow> actor_role \<Rightarrow> uuid \<Rightarrow> controller \<Rightarrow> unit api_result \<times> controller" where
  "delete_rows env up now role i c =
     (if \<not> has_database c then (Inr (), c)
      else case delete_with_related_data env (up CallDeleteTarget) now i (role_label role) c of
        (Inr True, c1) \<Rightarrow> (Inr (), c1)
      | (Inr False, c1) \<Rightarrow> (Inl (not_found (lit ''target not found'')), c1)
      | (Inl RepTargetBusy, c1) \<Rightarrow> (Inl (target_busy busy_message), c1)
      | (Inl _, c1) \<Rightarrow> (Inl storage, c1))"

definition delete_target ::
  "ansible_env \<Rightarrow> store_calls \<Rightarrow> timestamp \<Rightarrow> actor_role \<Rightarrow> str \<Rightarrow> bool \<Rightarrow> controller
     \<Rightarrow> unit api_result \<times> controller" where
  "delete_target env up now role target_text confirmed c =
     (case bindR (require_permission role Destructive) (\<lambda>_.
             if \<not> confirmed then
               Inl (bad_request (lit ''confirmation_required'')
                 (lit ''removing a target requires explicit confirmation''))
             else ok_or (bad_request (lit ''invalid_id'') (lit ''target id'')) (ae_uuid_parse env target_text)) of
        Inl e \<Rightarrow> (Inl e, c)
      | Inr i \<Rightarrow>
          if target_has_active_jobs (ap_ansible (ct_api c)) i then (Inl (target_busy busy_message), c)
          else if find_target i (ct_api c) = None then (Inl (not_found (lit ''target not found'')), c)
          else
            (case delete_rows env up now role i c of
               (Inl e, c1) \<Rightarrow> (Inl e, c1)
             | (Inr _, c1) \<Rightarrow>
                 (case remove_target_jobs i (ap_ansible (ct_api c1)) of
                    Inl _ \<Rightarrow> (Inl (target_busy (lit ''the target has active workflows'')), c1)
                  | Inr a \<Rightarrow>
                      (Inr (), forget_target i (c1\<lparr>ct_api := (ct_api c1)\<lparr>ap_ansible := a\<rparr>\<rparr>)))))"

section \<open>Heartbeats\<close>

definition persist_agent_heartbeat ::
  "store_calls \<Rightarrow> timestamp \<Rightarrow> target \<Rightarrow> agent_heartbeat \<Rightarrow> package_inventory_snapshot option \<Rightarrow> controller
     \<Rightarrow> unit api_result \<times> controller" where
  "persist_agent_heartbeat up now t hb inventory c =
     (case update_target_row (up (CallUpdateTarget 0)) t c of
        (Inl _, c1) \<Rightarrow> (Inl storage, c1)
      | (Inr _, c1) \<Rightarrow>
          (case append_heartbeat (up CallAppendHeartbeat) now hb c1 of
             (Inl _, c2) \<Rightarrow> (Inl storage, c2)
           | (Inr _, c2) \<Rightarrow>
               (case inventory of
                  None \<Rightarrow> (Inr (), c2)
                | Some x \<Rightarrow>
                    (case find_latest_inventory (up CallFindInventory) (tg_id t) c2 of
                       Inl _ \<Rightarrow> (Inl storage, c2)
                     | Inr latest \<Rightarrow>
                         if (case latest of None \<Rightarrow> True | Some y \<Rightarrow> pis_collected_at y < pis_collected_at x)
                         then (case replace_inventory (up CallReplaceInventory) x c2 of
                                 (Inl _, c3) \<Rightarrow> (Inl storage, c3)
                               | (Inr _, c3) \<Rightarrow> (Inr (), c3))
                         else (Inr (), c2)))))"

definition heartbeat_target :: "secret_reader \<Rightarrow> headers \<Rightarrow> uuid \<Rightarrow> api_state \<Rightarrow> target api_result" where
  "heartbeat_target read_secret hs i st =
     bindR (ok_or unauthorized (bearer_token hs)) (\<lambda>token.
     bindR (ok_or (not_found (lit ''target not found'')) (find_target i st)) (\<lambda>t.
     bindR (map_err map_secret_error (read_secret (tg_agent_secret_ref t))) (\<lambda>expected.
       if expose expected \<noteq> token then Inl unauthorized else Inr t)))"

definition receive_agent_heartbeat ::
  "secret_reader \<Rightarrow> store_calls \<Rightarrow> timestamp \<Rightarrow> headers \<Rightarrow> agent_heartbeat \<Rightarrow> controller
     \<Rightarrow> unit api_result \<times> controller" where
  "receive_agent_heartbeat read_secret up now hs hb c =
     (case heartbeat_target read_secret hs (hb_target_id hb) (ct_api c) of
        Inl e \<Rightarrow> (Inl e, c)
      | Inr t \<Rightarrow>
          (let inventory = sanitize_reported_package_inventory now hb (tg_kind t);
               (summary, hb1) = sanitize_telemetry_window now hb;
               hb2 = (sanitize_docker_telemetry_window now hb1)\<lparr>hb_package_inventory := None\<rparr>;
               t1 = mark_managed now t;
               c1 = c\<lparr>ct_api := (ct_api c)\<lparr>ap_targets :=
                        update_first (\<lambda>x. tg_id x = hb_target_id hb) (\<lambda>_. t1) (ap_targets (ct_api c))\<rparr>,
                      ct_agent_reports := hm_insert (tg_id t1) hb2 (ct_agent_reports c),
                      ct_package_inventories := (case inventory of None \<Rightarrow> ct_package_inventories c
                        | Some x \<Rightarrow> hm_insert (tg_id t1) x (ct_package_inventories c))\<rparr>
           in if has_database c then persist_agent_heartbeat up now t1 hb2 inventory c1 else (Inr (), c1)))"

section \<open>Changed secrets (target_credentials.rs)\<close>

definition uses_secret :: "uuid \<Rightarrow> target \<Rightarrow> bool" where
  "uses_secret secret t \<longleftrightarrow> tg_credential_secret_ref t = Some secret \<or> tg_agent_secret_ref t = secret
     \<or> tg_ssh_known_hosts_secret_ref t = Some secret"

definition needs_reset :: "uuid \<Rightarrow> target \<Rightarrow> bool" where
  "needs_reset secret t \<longleftrightarrow> tg_agent_secret_ref t = secret \<and> tg_state t \<noteq> TargetDisabled"

definition reset_agent_target_if_needed :: "timestamp \<Rightarrow> uuid \<Rightarrow> target \<Rightarrow> target" where
  "reset_agent_target_if_needed now secret t =
     (if needs_reset secret t then t\<lparr>tg_state := TargetPending, tg_updated_at := now\<rparr> else t)"

text \<open>The affected ids, the changed targets, and the new list.\<close>

definition reset_targets_for_secret ::
  "timestamp \<Rightarrow> uuid \<Rightarrow> target list \<Rightarrow> uuid list \<times> target list \<times> target list" where
  "reset_targets_for_secret now secret ts =
     (map tg_id (filter (uses_secret secret) ts),
      map (reset_agent_target_if_needed now secret) (filter (needs_reset secret) ts),
      map (reset_agent_target_if_needed now secret) ts)"

definition disabled_error :: str where
  "disabled_error = lit ''disabled because a referenced secret was revoked or rotated''"

definition disable_schedule :: "uuid list \<Rightarrow> job_schedule \<Rightarrow> job_schedule" where
  "disable_schedule affected s =
     (if list_ex (\<lambda>i. i \<in> set affected) (sd_target_ids s) \<and> sd_enabled s
      then s\<lparr>sd_enabled := False, sd_last_error := Some disabled_error\<rparr> else s)"

text \<open>\<open>let _ = ...update(...).await\<close>: the rows are written one by one, failures are ignored.\<close>

fun write_rows :: "('a \<Rightarrow> bool \<Rightarrow> controller \<Rightarrow> unit repo_result \<times> controller) \<Rightarrow> (nat \<Rightarrow> bool) \<Rightarrow> nat \<Rightarrow> 'a list
     \<Rightarrow> controller \<Rightarrow> controller" where
  "write_rows f up n [] c = c"
| "write_rows f up n (x # xs) c = write_rows f up (Suc n) xs (snd (f x (up n) c))"

definition invalidate_targets_for_secret ::
  "store_calls \<Rightarrow> timestamp \<Rightarrow> uuid \<Rightarrow> controller \<Rightarrow> controller" where
  "invalidate_targets_for_secret up now secret c =
     (let (affected, changed, ts) = reset_targets_for_secret now secret (ap_targets (ct_api c));
          c1 = c\<lparr>ct_api := (ct_api c)\<lparr>ap_targets := ts\<rparr>\<rparr>;
          c2 = (if has_database c
                then write_rows (\<lambda>t up. update_target_row up t) (\<lambda>n. up (CallUpdateTarget n)) 0 changed c1 else c1);
          schedules = ap_schedules (ct_api c2);
          disabled = map (disable_schedule affected)
            (filter (\<lambda>s. list_ex (\<lambda>i. i \<in> set affected) (sd_target_ids s) \<and> sd_enabled s) schedules);
          c3 = set_schedules (map (disable_schedule affected) schedules) c2
      in if has_database c
         then write_rows (\<lambda>s up. save_schedule up s) (\<lambda>n. up (CallSaveSchedule n)) 0 disabled c3 else c3)"

end
