(* ===== verification/ScheduledJobs.thy ===== *)
theory ScheduledJobs
  imports TargetApi
begin

text \<open>
  \<open>lxcup-server/src/scheduled_jobs.rs\<close> and the scheduler of \<open>lib.rs\<close>: which schedules run, the job
  each of their targets gets, and how a schedule advances. Docker discovery and the creation of a
  backup are the functions \<open>discover\<close> and \<open>backup\<close>; their effects lie outside this state.
\<close>

section \<open>The job of a schedule\<close>

definition u16_to_u64 :: "u16 option \<Rightarrow> u64 option" where
  "u16_to_u64 = map_option ucast"

definition threshold_value :: "timestamp \<Rightarrow> threshold_rule \<Rightarrow> agent_heartbeat \<Rightarrow> u64 option" where
  "threshold_value now rule hb =
     (let samples = sw_samples (hb_telemetry hb);
          sample = (if samples = [] then None else Some (last samples)) in
      case tr_metric rule of
        CpuBasisPoints \<Rightarrow> Option.bind sample (\<lambda>s. u16_to_u64 (ss_cpu_basis_points s))
      | MemoryBasisPoints \<Rightarrow> Option.bind sample (\<lambda>s. u16_to_u64 (ss_memory_basis_points s))
      | StorageBasisPoints \<Rightarrow> Option.bind sample (\<lambda>s. u16_to_u64 (ss_storage_basis_points s))
      | HeartbeatAgeSeconds \<Rightarrow> Some (word_of_int (max 0 ((now - hb_sent_at hb) div seconds 1))))"

definition scheduled_target ::
  "ansible_env \<Rightarrow> job_calls \<Rightarrow> timestamp \<Rightarrow> job_schedule \<Rightarrow> uuid \<Rightarrow> controller \<Rightarrow> str + target" where
  "scheduled_target env jup now s i c =
     bindR (ok_or (lit ''target '' @ ae_uuid_to_string env i @ lit '' is not managed'')
       (List.find (\<lambda>t. tg_id t = i \<and> tg_state t = TargetManaged) (ap_targets (ct_api c)))) (\<lambda>t.
       if (case ap_repositories (ct_api c) of
             None \<Rightarrow> False
           | Some db \<Rightarrow> (case has_active_target (jup CallHasActive) (Target i) db of Inl _ \<Rightarrow> False | Inr b \<Rightarrow> b))
       then Inl (lit ''target '' @ ae_uuid_to_string env i @ lit '' already has an active job'')
       else (case sd_threshold s of
          None \<Rightarrow> Inr t
        | Some rule \<Rightarrow>
            if triggered rule (Option.bind (hm_get (ct_agent_reports c) i) (threshold_value now rule)) then Inr t
            else Inl (lit ''schedule '' @ sd_id s @ lit '' threshold not met for target '' @ ae_uuid_to_string env i)))"

definition scheduled_connection_secret :: "target \<Rightarrow> str + uuid" where
  "scheduled_connection_secret t =
     ok_or (lit ''target has no workflow authentication secret'') (workflow_auth_secret_ref t)"

definition scheduled_update_parameters ::
  "timestamp \<Rightarrow> job_schedule \<Rightarrow> target \<Rightarrow> uuid \<Rightarrow> controller \<Rightarrow> str + ansible_parameters" where
  "scheduled_update_parameters now s t i c =
     bindR (ok_or (lit ''scheduled package update has no valid policy'')
       (Option.bind (sd_policy_id s) (\<lambda>pid. List.find (\<lambda>p. po_id p = pid) (ap_update_policies (ct_api c))))) (\<lambda>p.
       let packages = po_allowed_packages p in
       if packages = [] then Inl (lit ''scheduled package updates require an explicit package allowlist'')
       else if tg_kind t = WindowsServer \<and> list_ex (\<lambda>x. \<not> safe_winget_id x) packages then
         Inl (lit ''Windows update schedules require an allowlist of exact winget package IDs'')
       else if \<not> po_enabled p \<or> i \<notin> set (po_allowed_targets p)
            \<or> list_ex (\<lambda>x. \<not> policy_allows p i x High now) packages then
         Inl (lit ''scheduled package update is outside its policy'')
       else Inr (ParamUpdatePackages packages))"

definition scheduled_operation ::
  "timestamp \<Rightarrow> job_schedule \<Rightarrow> target \<Rightarrow> uuid \<Rightarrow> controller
     \<Rightarrow> str + (ansible_operation \<times> ansible_parameters \<times> execution_mode \<times> uuid list)" where
  "scheduled_operation now s t i c =
     (if sd_operation s = lit ''health_check'' then Inr (OpHealthCheck, ParamHealthCheck, ModeCheck, [])
      else if sd_operation s = lit ''collect_package_inventory'' then
        bindR (scheduled_connection_secret t) (\<lambda>secret.
          Inr (OpCollectPackageInventory, ParamCollectPackageInventory, ModeCheck, [secret]))
      else if sd_operation s = lit ''update_packages'' then
        bindR (scheduled_update_parameters now s t i c) (\<lambda>params.
        bindR (scheduled_connection_secret t) (\<lambda>secret.
          Inr (OpUpdatePackages, params, ModePlan, [secret])))
      else Inl (lit ''schedule operation is no longer registered''))"

text \<open>\<open>DateTime::timestamp\<close>, printed.\<close>

definition schedule_key :: "ansible_env \<Rightarrow> job_schedule \<Rightarrow> uuid \<Rightarrow> str" where
  "schedule_key env s i = lit ''schedule-'' @ sd_id s @ lit ''-'' @ ae_uuid_to_string env i @ lit ''-''
     @ signed_digits (sd_next_run_at s div seconds 1)"

definition scheduled_job_request ::
  "ansible_env \<Rightarrow> timestamp \<Rightarrow> job_schedule \<Rightarrow> uuid \<Rightarrow> target \<Rightarrow> controller \<Rightarrow> str + ansible_job_request" where
  "scheduled_job_request env now s i t c =
     bindR (scheduled_operation now s t i c) (\<lambda>(op, params, mode, secrets).
       Inr \<lparr>jr_operation = op, jr_target = Target i, jr_lifecycle = Managed, jr_mode = mode,
            jr_parameters = params, jr_secret_refs = secrets,
            jr_idempotency_key = schedule_key env s i, jr_confirmed = True, jr_actor_role = Operator\<rparr>)"

section \<open>Dispatching\<close>

fun contract_error_text :: "ansible_contract_error \<Rightarrow> str" where
  "contract_error_text Invalid = lit ''ansible request is invalid''"
| "contract_error_text ContractPermissionDenied = lit ''ansible operation is not allowed''"
| "contract_error_text ContractConfirmationRequired = lit ''ansible operation requires confirmation''"
| "contract_error_text UnsupportedTarget = lit ''ansible target is not supported''"
| "contract_error_text UnsupportedMode = lit ''ansible execution mode is not supported for this operation''"
| "contract_error_text MissingSecretReference = lit ''ansible operation requires a secret reference''"
| "contract_error_text ContractInvalidTransition = lit ''ansible job state transition is invalid''"

fun coordinator_error_text :: "coordinator_error \<Rightarrow> str" where
  "coordinator_error_text TargetBusy = lit ''target already has an active ansible job''"
| "coordinator_error_text CoNotFound = lit ''ansible job was not found''"
| "coordinator_error_text RetryNotAllowed = lit ''ansible job cannot be retried safely''"
| "coordinator_error_text ReconcileNotAllowed = lit ''ansible job is not eligible for reconciliation''"
| "coordinator_error_text CoInvalidTransition = lit ''ansible job cannot transition to the requested state''"
| "coordinator_error_text Terminal = lit ''ansible job cannot accept another event''"
| "coordinator_error_text (Contract e) = contract_error_text e"

text \<open>
  What a dispatch of the \<open>n\<close>-th target of the \<open>m\<close>-th due schedule meets: the fresh job id and the
  database answers; and the two operations with effects elsewhere, which report an error code or a
  message.
\<close>

record dispatch_env =
  de_fresh :: "nat \<Rightarrow> nat \<Rightarrow> uuid"
  de_jobs_up :: "nat \<Rightarrow> nat \<Rightarrow> job_calls"
  de_store_up :: "nat \<Rightarrow> store_calls"
  de_discover :: "u64 \<Rightarrow> str option"
  de_backup :: "uuid \<Rightarrow> str option"

definition dispatch_scheduled_docker_discovery ::
  "dispatch_env \<Rightarrow> uuid \<Rightarrow> target \<Rightarrow> controller \<Rightarrow> str + bool" where
  "dispatch_scheduled_docker_discovery d i t c =
     (if tg_kind t \<noteq> Lxc then Inl (lit ''Docker discovery schedules require an LXC target'')
      else bindR (ok_or (lit ''LXC target has no connected Docker discovery host'')
        (List.find (\<lambda>e. en_target_id e = Some i \<and> en_state e = EnrollConnected) (rev (ct_enrollments c)))) (\<lambda>e.
        case de_discover d (en_container_id e) of
          None \<Rightarrow> Inr True
        | Some code \<Rightarrow> Inl (lit ''scheduled Docker discovery failed ('' @ code @ lit '')'')))"

definition dispatch_scheduled_target ::
  "ansible_env \<Rightarrow> dispatch_env \<Rightarrow> timestamp \<Rightarrow> job_schedule \<Rightarrow> nat \<Rightarrow> nat \<Rightarrow> uuid \<Rightarrow> controller
     \<Rightarrow> (str + bool) \<times> controller" where
  "dispatch_scheduled_target env d now s m n i c =
     (case scheduled_target env (de_jobs_up d m n) now s i c of
        Inl e \<Rightarrow> (Inl e, c)
      | Inr t \<Rightarrow>
          if sd_operation s = lit ''docker_discovery'' then (dispatch_scheduled_docker_discovery d i t c, c)
          else
            (case scheduled_job_request env now s i t c of
               Inl e \<Rightarrow> (Inl e, c)
             | Inr jr \<Rightarrow>
                 (case submit env (de_fresh d m n) now jr (ap_ansible (ct_api c)) of
                    Inl e \<Rightarrow> (Inl (coordinator_error_text e), c)
                  | Inr (JobDuplicate _, co) \<Rightarrow> (Inr False, c\<lparr>ct_api := (ct_api c)\<lparr>ap_ansible := co\<rparr>\<rparr>)
                  | Inr (JobCreated j, co) \<Rightarrow>
                      (case persist_created_job (de_jobs_up d m n) j ((ct_api c)\<lparr>ap_ansible := co\<rparr>) of
                         (Inl _, st) \<Rightarrow> (Inl (lit ''scheduled job persistence failed''), c\<lparr>ct_api := st\<rparr>)
                       | (Inr _, st) \<Rightarrow> (Inr True, c\<lparr>ct_api := st\<rparr>)))))"

text \<open>The loop over the targets: the number of jobs and the last failure.\<close>

fun dispatch_targets ::
  "ansible_env \<Rightarrow> dispatch_env \<Rightarrow> timestamp \<Rightarrow> job_schedule \<Rightarrow> nat \<Rightarrow> nat \<Rightarrow> uuid list \<Rightarrow> str option \<Rightarrow> controller
     \<Rightarrow> nat \<times> str option \<times> controller" where
  "dispatch_targets env d now s m n [] failure c = (0, failure, c)"
| "dispatch_targets env d now s m n (i # rest) failure c =
     (case dispatch_scheduled_target env d now s m n i c of
        (Inl e, c1) \<Rightarrow> dispatch_targets env d now s m (Suc n) rest (Some e) c1
      | (Inr b, c1) \<Rightarrow>
          (case dispatch_targets env d now s m (Suc n) rest failure c1 of
             (k, f, c2) \<Rightarrow> ((if b then 1 else 0) + k, f, c2)))"

definition execute_scheduled_backup :: "dispatch_env \<Rightarrow> job_schedule \<Rightarrow> nat \<times> str option" where
  "execute_scheduled_backup d s =
     (case sd_backup_secret_ref s of
        None \<Rightarrow> (0, Some (lit ''scheduled backup has no passphrase secret configured''))
      | Some i \<Rightarrow> (case de_backup d i of None \<Rightarrow> (1, None) | Some message \<Rightarrow> (0, Some message)))"

definition execute_due_schedule ::
  "ansible_env \<Rightarrow> dispatch_env \<Rightarrow> timestamp \<Rightarrow> nat \<Rightarrow> job_schedule \<Rightarrow> controller \<Rightarrow> nat \<times> str option \<times> controller" where
  "execute_due_schedule env d now m s c =
     (if sd_operation s = lit ''create_backup'' then
        (case execute_scheduled_backup d s of (k, f) \<Rightarrow> (k, f, c))
      else dispatch_targets env d now s m 0 (sd_target_ids s) None c)"

definition scheduled_worker_available :: "store_calls \<Rightarrow> timestamp \<Rightarrow> controller \<Rightarrow> bool" where
  "scheduled_worker_available up now c =
     (if \<not> has_database c then True
      else case latest_since (up CallWorkerSeen) (now - seconds 10) c of
        Inr (Some _) \<Rightarrow> True
      | _ \<Rightarrow> False)"

definition schedule_waits_for_worker :: "store_calls \<Rightarrow> timestamp \<Rightarrow> job_schedule \<Rightarrow> controller \<Rightarrow> bool" where
  "schedule_waits_for_worker up now s c \<longleftrightarrow>
     sd_operation s \<notin> {lit ''docker_discovery'', lit ''create_backup''}
     \<and> \<not> scheduled_worker_available up now c"

definition advance_schedule_after_run ::
  "timestamp \<Rightarrow> str option \<Rightarrow> job_schedule \<Rightarrow> controller \<Rightarrow> job_schedule option \<times> controller" where
  "advance_schedule_after_run now failure s c =
     (let xs = ap_schedules (ct_api c) in
      (map_option (advance_after_run now failure) (List.find (\<lambda>x. sd_id x = sd_id s) xs),
       set_schedules (update_first (\<lambda>x. sd_id x = sd_id s) (advance_after_run now failure) xs) c))"

text \<open>One due schedule; a failed write of the advanced row is ignored.\<close>

definition run_due_schedule ::
  "ansible_env \<Rightarrow> dispatch_env \<Rightarrow> timestamp \<Rightarrow> nat \<Rightarrow> job_schedule \<Rightarrow> controller \<Rightarrow> nat \<times> controller" where
  "run_due_schedule env d now m s c =
     (if schedule_waits_for_worker (de_store_up d m) now s c then (0, c)
      else case execute_due_schedule env d now m s c of
        (k, failure, c1) \<Rightarrow>
          (case advance_schedule_after_run now failure s c1 of
             (Some updated, c2) \<Rightarrow>
               (k, if has_database c2 then snd (save_schedule (de_store_up d m (CallSaveSchedule 0)) updated c2) else c2)
           | (None, c2) \<Rightarrow> (k, c2)))"

fun run_due_schedules ::
  "ansible_env \<Rightarrow> dispatch_env \<Rightarrow> timestamp \<Rightarrow> nat \<Rightarrow> job_schedule list \<Rightarrow> controller \<Rightarrow> nat \<times> controller" where
  "run_due_schedules env d now m [] c = (0, c)"
| "run_due_schedules env d now m (s # rest) c =
     (case run_due_schedule env d now m s c of
        (k, c1) \<Rightarrow> (case run_due_schedules env d now (Suc m) rest c1 of (k', c2) \<Rightarrow> (k + k', c2)))"

definition dispatch_due_schedules ::
  "ansible_env \<Rightarrow> dispatch_env \<Rightarrow> timestamp \<Rightarrow> controller \<Rightarrow> nat \<times> controller" where
  "dispatch_due_schedules env d now c =
     run_due_schedules env d now 0 (filter (\<lambda>s. is_due s now) (ap_schedules (ct_api c))) c"

end
