(* ===== verification/ControllerLaws.thy ===== *)
theory ControllerLaws
  imports ScheduledJobs AnsibleInvariants
begin

text \<open>
  The invariant of the server's inventory: ids are unique, schedules and policies refer to
  registered targets only, the standard policy has no duplicates, and the tables agree with memory on
  the targets. Every handler keeps it, whatever calls the database refuses.
\<close>

section \<open>Lists\<close>

lemma sort_dedup_set [simp]: "set (sort_dedup xs) = set xs"
  by (simp add: sort_dedup_def)

lemma sorted_dedup: "sorted xs \<Longrightarrow> distinct (remdups_adj xs)"
  by (induction xs rule: remdups_adj.induct) (auto simp: order.strict_iff_order dest: antisym)

lemma sort_dedup_distinct [simp]: "distinct (sort_dedup xs)"
  by (simp add: sort_dedup_def sorted_dedup)

lemma sort_dedup_length: "length (sort_dedup xs) = card (set xs)"
  by (metis distinct_card sort_dedup_distinct sort_dedup_set)

lemma sort_dedup_Nil [simp]: "sort_dedup xs = [] \<longleftrightarrow> xs = []"
  by (metis set_empty sort_dedup_set)

lemma update_first_map: "(\<And>x. key (f x) = key x) \<Longrightarrow> map key (update_first p f xs) = map key xs"
  by (induction xs) auto

lemma set_update_first: "x \<in> set (update_first p f xs) \<Longrightarrow> x \<in> set xs \<or> (\<exists>y \<in> set xs. p y \<and> x = f y)"
  by (induction xs) (auto split: if_splits)

lemma filter_update_first: "(\<And>x. p x \<Longrightarrow> \<not> q x \<and> \<not> q (f x)) \<Longrightarrow> filter q (update_first p f xs) = filter q xs"
  by (induction xs) auto

lemma find_update_first:
  "(\<And>x. p x \<Longrightarrow> p (f x)) \<Longrightarrow> List.find p (update_first p f xs) = map_option f (List.find p xs)"
  by (induction xs) auto

lemma find_Some_iff_mem: "List.find p xs \<noteq> None \<longleftrightarrow> (\<exists>x \<in> set xs. p x)"
  by (auto simp: find_None_iff)

lemma find_append:
  "List.find p (xs @ ys) = (case List.find p xs of None \<Rightarrow> List.find p ys | Some z \<Rightarrow> Some z)"
  by (induction xs) auto

lemma found_in_list: "List.find p xs = Some x \<Longrightarrow> x \<in> set xs \<and> p x"
  by (induction xs) (auto split: if_splits)

section \<open>Well-formed lists of schedules and policies\<close>

definition standard_ok :: "update_policy list \<Rightarrow> bool" where
  "standard_ok ps \<longleftrightarrow> (\<forall>p \<in> set ps. po_id p = STANDARD_UPDATE_POLICY_ID \<longrightarrow> distinct (po_allowed_targets p))"

definition lists_ok :: "uuid set \<Rightarrow> job_schedule list \<Rightarrow> update_policy list \<Rightarrow> bool" where
  "lists_ok ids ss ps \<longleftrightarrow>
     distinct (map sd_id ss) \<and> distinct (map po_id ps) \<and> standard_ok ps
     \<and> (\<forall>s \<in> set ss. (\<forall>i \<in> set (sd_target_ids s). i \<in> ids) \<and> every_minutes (sd_frequency s) \<noteq> 0)
     \<and> (\<forall>p \<in> set ps. \<forall>i \<in> set (po_allowed_targets p). i \<in> ids)"

definition target_ids :: "controller \<Rightarrow> uuid set" where
  "target_ids c = set (map tg_id (ap_targets (ct_api c)))"

definition tables_ok :: "controller \<Rightarrow> bool" where
  "tables_ok c \<longleftrightarrow>
     distinct (map tg_id (cd_targets (ct_db c)))
     \<and> set (map tg_id (cd_targets (ct_db c))) = target_ids c
     \<and> lists_ok (target_ids c) (cd_schedules (ct_db c)) (cd_policies (ct_db c))"

definition controller_ok :: "controller \<Rightarrow> bool" where
  "controller_ok c \<longleftrightarrow>
     distinct (map tg_id (ap_targets (ct_api c))) \<and> (\<forall>t \<in> set (ap_targets (ct_api c)). target_ok t)
     \<and> lists_ok (target_ids c) (ap_schedules (ct_api c)) (ap_update_policies (ct_api c))
     \<and> (has_database c \<longrightarrow> tables_ok c)"

lemma lists_ok_mono: "lists_ok ids ss ps \<Longrightarrow> ids \<subseteq> ids' \<Longrightarrow> lists_ok ids' ss ps"
  unfolding lists_ok_def by blast

lemma lists_ok_upsert_schedule:
  assumes "lists_ok ids ss ps" "set (sd_target_ids s) \<subseteq> ids" "every_minutes (sd_frequency s) \<noteq> 0"
  shows "lists_ok ids (upsert sd_id s ss) ps"
  using assms unfolding lists_ok_def by (auto simp: set_upsert distinct_upsert)

lemma lists_ok_upsert_policy:
  assumes "lists_ok ids ss ps" "set (po_allowed_targets p) \<subseteq> ids"
    and "po_id p = STANDARD_UPDATE_POLICY_ID \<Longrightarrow> distinct (po_allowed_targets p)"
  shows "lists_ok ids ss (upsert po_id p ps)"
  using assms unfolding lists_ok_def standard_ok_def by (auto simp: set_upsert distinct_upsert)

lemma lists_ok_append_schedule:
  assumes "lists_ok ids ss ps" "sd_id s \<notin> set (map sd_id ss)"
    and "set (sd_target_ids s) \<subseteq> ids" "every_minutes (sd_frequency s) \<noteq> 0"
  shows "lists_ok ids (ss @ [s]) ps"
  using assms unfolding lists_ok_def by auto

lemma lists_ok_append_policy:
  assumes "lists_ok ids ss ps" "po_id p \<notin> set (map po_id ps)" "set (po_allowed_targets p) \<subseteq> ids"
    and "po_id p = STANDARD_UPDATE_POLICY_ID \<Longrightarrow> distinct (po_allowed_targets p)"
  shows "lists_ok ids ss (ps @ [p])"
  using assms unfolding lists_ok_def standard_ok_def by auto

lemma lists_ok_filter_policies: "lists_ok ids ss ps \<Longrightarrow> lists_ok ids ss (filter q ps)"
  unfolding lists_ok_def standard_ok_def by (auto simp: distinct_map_filter)

lemma lists_ok_map_schedules:
  assumes "lists_ok ids ss ps"
    and "\<And>s. sd_id (f s) = sd_id s \<and> sd_target_ids (f s) = sd_target_ids s \<and> sd_frequency (f s) = sd_frequency s"
  shows "lists_ok ids (map f ss) ps" "lists_ok ids (update_first p f ss) ps"
proof -
  have "map sd_id (map f ss) = map sd_id ss" using assms(2) by simp
  then show "lists_ok ids (map f ss) ps"
    using assms unfolding lists_ok_def by (auto simp del: map_map)
  have "map sd_id (update_first p f ss) = map sd_id ss" by (rule update_first_map) (simp add: assms(2))
  then show "lists_ok ids (update_first p f ss) ps"
    using assms unfolding lists_ok_def by (auto dest!: set_update_first)
qed

text \<open>Deleting a target keeps the lists well-formed and frees them of the target.\<close>

lemma map_id_drop [simp]:
  "map sd_id (map (drop_target_from_schedule i) ss) = map sd_id ss"
  "map po_id (map (drop_target_from_policy i) ps) = map po_id ps"
  by (simp_all add: drop_target_from_schedule_def drop_target_from_policy_def)

lemma in_schedules_without:
  "s \<in> set (schedules_without i ps ss) \<longleftrightarrow>
     (\<exists>r \<in> set ss. s = drop_target_from_schedule i r \<and> sd_target_ids s \<noteq> []
        \<and> (\<forall>q \<in> set ps. only_target i q \<longrightarrow> sd_policy_id s \<noteq> Some (po_id q)))"
  by (auto simp: schedules_without_def Let_def split: option.splits)

lemma in_policies_without:
  "p \<in> set (policies_without i ps) \<longleftrightarrow>
     (\<exists>r \<in> set ps. p = drop_target_from_policy i r
        \<and> (\<forall>q \<in> set ps. only_target i q \<longrightarrow> po_id p \<noteq> po_id q))"
  by (auto simp: policies_without_def Let_def)

lemma distinct_map_filter2: "distinct (map f xs) \<Longrightarrow> distinct (map f (filter p xs))"
  by (rule distinct_map_filter)

lemma lists_ok_without:
  assumes "lists_ok ids ss ps"
  shows "lists_ok (ids - {i}) (schedules_without i ps ss) (policies_without i ps)"
proof -
  have "distinct (map sd_id (schedules_without i ps ss))" "distinct (map po_id (policies_without i ps))"
    using assms unfolding lists_ok_def schedules_without_def policies_without_def Let_def
    by (auto intro!: distinct_map_filter simp del: map_map)
  then show ?thesis
    using assms unfolding lists_ok_def standard_ok_def
    by (auto simp: in_schedules_without in_policies_without drop_target_from_schedule_def
        drop_target_from_policy_def)
qed

section \<open>Writes to the tables\<close>

lemma controller_ok_schedules:
  "controller_ok c \<Longrightarrow> lists_ok (target_ids c) ss (ap_update_policies (ct_api c))
     \<Longrightarrow> controller_ok (set_schedules ss c)"
  by (simp add: controller_ok_def set_schedules_def target_ids_def has_database_def tables_ok_def)

lemma controller_ok_policies:
  "controller_ok c \<Longrightarrow> lists_ok (target_ids c) (ap_schedules (ct_api c)) ps
     \<Longrightarrow> controller_ok (set_policies ps c)"
  by (simp add: controller_ok_def set_policies_def target_ids_def has_database_def tables_ok_def)

lemma controller_ok_row_schedule:
  "controller_ok c \<Longrightarrow> \<forall>i \<in> set (sd_target_ids s). i \<in> target_ids c \<Longrightarrow> every_minutes (sd_frequency s) \<noteq> 0
     \<Longrightarrow> controller_ok (snd (save_schedule up s c))"
  by (auto simp: controller_ok_def save_schedule_def Let_def db_write_def target_ids_def has_database_def
      tables_ok_def intro!: lists_ok_upsert_schedule)

lemma controller_ok_row_policy:
  "controller_ok c \<Longrightarrow> \<forall>i \<in> set (po_allowed_targets p). i \<in> target_ids c
     \<Longrightarrow> (po_id p = STANDARD_UPDATE_POLICY_ID \<Longrightarrow> distinct (po_allowed_targets p))
     \<Longrightarrow> controller_ok (snd (save_policy up p c))"
  by (auto simp: controller_ok_def save_policy_def db_write_def target_ids_def has_database_def
      tables_ok_def intro!: lists_ok_upsert_policy)

lemma controller_ok_insert_policy:
  "controller_ok c \<Longrightarrow> \<forall>i \<in> set (po_allowed_targets p). i \<in> target_ids c
     \<Longrightarrow> (po_id p = STANDARD_UPDATE_POLICY_ID \<Longrightarrow> distinct (po_allowed_targets p))
     \<Longrightarrow> controller_ok (snd (save_policy_if_absent up p c))"
  by (auto simp: controller_ok_def save_policy_if_absent_def db_write_def target_ids_def has_database_def
      tables_ok_def intro!: lists_ok_append_policy)

lemma controller_ok_delete_policy:
  "controller_ok c \<Longrightarrow> controller_ok (snd (delete_policy_row up i c))"
  by (auto simp: controller_ok_def delete_policy_row_def db_write_def target_ids_def has_database_def
      tables_ok_def intro!: lists_ok_filter_policies)

text \<open>Writes that leave targets, schedules and policies alone.\<close>

definition same_lists :: "controller \<Rightarrow> controller \<Rightarrow> bool" where
  "same_lists c c' \<longleftrightarrow>
     ap_targets (ct_api c') = ap_targets (ct_api c) \<and> ap_schedules (ct_api c') = ap_schedules (ct_api c)
     \<and> ap_update_policies (ct_api c') = ap_update_policies (ct_api c)
     \<and> cd_targets (ct_db c') = cd_targets (ct_db c) \<and> cd_schedules (ct_db c') = cd_schedules (ct_db c)
     \<and> cd_policies (ct_db c') = cd_policies (ct_db c) \<and> has_database c' = has_database c"

lemma same_lists_refl [simp]: "same_lists c c"
  by (simp add: same_lists_def)

lemma same_lists_trans: "same_lists c c' \<Longrightarrow> same_lists c' c'' \<Longrightarrow> same_lists c c''"
  by (simp add: same_lists_def)

lemma same_lists_target_ids: "same_lists c c' \<Longrightarrow> target_ids c' = target_ids c"
  by (simp add: same_lists_def target_ids_def)

lemma controller_ok_same: "same_lists c c' \<Longrightarrow> controller_ok c \<Longrightarrow> controller_ok c'"
  by (simp add: same_lists_def controller_ok_def target_ids_def tables_ok_def)

lemma append_audit_same: "same_lists c (snd (append_audit up e c))"
  by (simp add: append_audit_def db_write_def same_lists_def has_database_def)

lemma append_heartbeat_same: "same_lists c (snd (append_heartbeat up now hb c))"
  by (simp add: append_heartbeat_def db_write_def same_lists_def has_database_def Let_def)

lemma replace_inventory_same: "same_lists c (snd (replace_inventory up x c))"
  by (simp add: replace_inventory_def db_write_def same_lists_def has_database_def)

section \<open>Schedules and policies\<close>

lemma list_ex_missing: "\<not> list_ex (\<lambda>i. \<not> list_ex (\<lambda>t. tg_id t = i) ts) xs \<longleftrightarrow> (\<forall>i \<in> set xs. i \<in> tg_id ` set ts)"
  by (auto simp: list_ex_iff)

lemma check_scheduleD:
  assumes "check_schedule metadata_of read_secret role r st = Inr u"
  shows "grants role Configure" "sq_id r \<notin> set (map sd_id (ap_schedules st))"
    "\<forall>i \<in> set (sq_target_ids r). i \<in> set (map tg_id (ap_targets st))"
    "sq_every_minutes r \<noteq> 0" "sq_every_minutes r \<le> 10080"
    "sq_target_ids r = [] \<longleftrightarrow> sq_operation r = lit ''create_backup''"
  using assms
  by (auto simp: check_schedule_def validate_schedule_fields_def validate_schedule_identity_def
      validate_schedule_operation_def validate_backup_schedule_def validate_schedule_resources_def
      bindR_Inr_iff list_ex_missing list_ex_iff linorder_not_less image_iff split: if_splits)

lemma create_schedule_ok:
  assumes "controller_ok c"
  shows "controller_ok (snd (create_schedule metadata_of read_secret up now role r c))"
proof (cases "check_schedule metadata_of read_secret role r (ct_api c)")
  case (Inr u)
  let ?s = "schedule_of_request now r"
  let ?c = "set_schedules (ap_schedules (ct_api c) @ [?s]) c"
  note d = check_scheduleD[OF Inr]
  have s: "sd_id ?s = sq_id r" "sd_target_ids ?s = sq_target_ids r"
    "every_minutes (sd_frequency ?s) = sq_every_minutes r"
    by (simp_all add: schedule_of_request_def)
  have "lists_ok (target_ids c) (ap_schedules (ct_api c) @ [?s]) (ap_update_policies (ct_api c))"
    using assms d s by (intro lists_ok_append_schedule) (auto simp: controller_ok_def target_ids_def)
  then have ok: "controller_ok ?c" by (rule controller_ok_schedules[OF assms])
  have "controller_ok (snd (save_schedule u' ?s ?c))" for u'
    using d s by (intro controller_ok_row_schedule[OF ok]) (auto simp: target_ids_def set_schedules_def)
  with ok Inr show ?thesis
    by (simp add: create_schedule_def Let_def split: prod.splits sum.splits) (metis snd_conv)
qed (simp add: create_schedule_def assms)

lemma lists_ok_schedule:
  "lists_ok ids ss ps \<Longrightarrow> s \<in> set ss
     \<Longrightarrow> (\<forall>i \<in> set (sd_target_ids s). i \<in> ids) \<and> every_minutes (sd_frequency s) \<noteq> 0"
  by (simp add: lists_ok_def)

lemma set_schedule_enabled_ok:
  assumes "controller_ok c"
  shows "controller_ok (snd (set_schedule_enabled up role i enabled c))"
proof (cases "List.find (\<lambda>s. sd_id s = i) (ap_schedules (ct_api c))")
  case (Some s)
  let ?f = "\<lambda>s::job_schedule. s\<lparr>sd_enabled := enabled\<rparr>"
  let ?c = "set_schedules (update_first (\<lambda>s. sd_id s = i) ?f (ap_schedules (ct_api c))) c"
  have lists: "lists_ok (target_ids c) (ap_schedules (ct_api c)) (ap_update_policies (ct_api c))"
    using assms by (simp add: controller_ok_def)
  then have "lists_ok (target_ids c) (update_first (\<lambda>s. sd_id s = i) ?f (ap_schedules (ct_api c)))
      (ap_update_policies (ct_api c))"
    by (rule lists_ok_map_schedules) simp
  then have ok: "controller_ok ?c" by (rule controller_ok_schedules[OF assms])
  have "controller_ok (snd (save_schedule u (?f s) ?c))" for u
    using lists_ok_schedule[OF lists, of s] found_in_list[OF Some]
    by (intro controller_ok_row_schedule[OF ok]) (auto simp: target_ids_def set_schedules_def)
  with ok Some assms show ?thesis
    by (auto simp: set_schedule_enabled_def Let_def split: prod.splits sum.splits) (metis snd_conv)+
qed (auto simp: set_schedule_enabled_def assms split: sum.splits)

lemma check_policyD:
  assumes "check_policy role r st = Inr u"
  shows "pq_id r \<noteq> STANDARD_UPDATE_POLICY_ID" "pq_id r \<notin> set (map po_id (ap_update_policies st))"
    "\<forall>i \<in> set (pq_allowed_targets r). i \<in> set (map tg_id (ap_targets st))"
  using assms
  by (auto simp: check_policy_def validate_update_policy_request_def bindR_Inr_iff list_ex_missing
      list_ex_iff image_iff split: if_splits)

lemma create_update_policy_ok:
  assumes "controller_ok c"
  shows "controller_ok (snd (create_update_policy up role r c))"
proof (cases "check_policy role r (ct_api c)")
  case (Inr u)
  let ?p = "policy_of_request r"
  let ?c = "set_policies (ap_update_policies (ct_api c) @ [?p]) c"
  note d = check_policyD[OF Inr]
  have p: "po_id ?p = pq_id r" "po_allowed_targets ?p = pq_allowed_targets r"
    by (simp_all add: policy_of_request_def)
  have "lists_ok (target_ids c) (ap_schedules (ct_api c)) (ap_update_policies (ct_api c) @ [?p])"
    using assms d p by (intro lists_ok_append_policy) (auto simp: controller_ok_def target_ids_def)
  then have ok: "controller_ok ?c" by (rule controller_ok_policies[OF assms])
  have "controller_ok (snd (save_policy u' ?p ?c))" for u'
    using d p by (intro controller_ok_row_policy[OF ok]) (auto simp: target_ids_def set_policies_def)
  with ok Inr show ?thesis
    by (simp add: create_update_policy_def Let_def split: prod.splits sum.splits) (metis snd_conv)
qed (simp add: create_update_policy_def assms)

lemma delete_update_policy_ok:
  assumes "controller_ok c"
  shows "controller_ok (snd (delete_update_policy up now role i confirmed c))"
proof -
  let ?kept = "filter (\<lambda>p. po_id p \<noteq> i) (ap_update_policies (ct_api c))"
  have kept: "controller_ok (set_policies ?kept c)"
    using assms by (intro controller_ok_policies) (auto simp: controller_ok_def lists_ok_filter_policies)
  have row: "controller_ok c1 \<and> target_ids c1 = target_ids c \<and> ct_api c1 = ct_api c"
    if "delete_policy_row u i c = (x, c1)" for u x c1
    using controller_ok_delete_policy[OF assms, of u i] that
    by (auto simp: delete_policy_row_def db_write_def target_ids_def split: if_splits)
  have both: "controller_ok (set_policies ?kept c1)" if "delete_policy_row u i c = (x, c1)" for u x c1
    using row[OF that] assms
    by (intro controller_ok_policies) (auto simp: controller_ok_def lists_ok_filter_policies)
  have audit: "controller_ok (snd (append_audit u e c1))" if "controller_ok c1" for u e c1
    by (rule controller_ok_same[OF append_audit_same that])
  show ?thesis
    using assms kept row both audit
    by (auto simp: delete_update_policy_def Let_def split: prod.splits sum.splits bool.splits) (metis snd_conv)+
qed

section \<open>The standard policy\<close>

lemma standard_policyD:
  "standard_policy ps = Some p \<Longrightarrow> p \<in> set ps \<and> po_id p = STANDARD_UPDATE_POLICY_ID"
  unfolding standard_policy_def by (drule found_in_list) simp

lemma standard_policy_None: "standard_policy ps = None \<longleftrightarrow> STANDARD_UPDATE_POLICY_ID \<notin> set (map po_id ps)"
  by (force simp: standard_policy_def find_None_iff)

lemma extend_policy_simps [simp]:
  "po_id (extend_policy ids p) = po_id p"
  "set (po_allowed_targets (extend_policy ids p)) = set (po_allowed_targets p) \<union> set ids"
  "distinct (po_allowed_targets (extend_policy ids p))"
  by (simp_all add: extend_policy_def)

text \<open>The length test of the code decides whether the policy misses a target.\<close>

lemma extend_policy_length:
  assumes "distinct (po_allowed_targets p)"
  shows "length (po_allowed_targets (extend_policy ids p)) = length (po_allowed_targets p)
     \<longleftrightarrow> set ids \<subseteq> set (po_allowed_targets p)"
proof -
  let ?a = "set (po_allowed_targets p)" and ?b = "set ids"
  have "length (po_allowed_targets (extend_policy ids p)) = card (?a \<union> ?b)"
    by (simp add: extend_policy_def sort_dedup_length)
  moreover have "length (po_allowed_targets p) = card ?a"
    using assms by (simp add: distinct_card)
  ultimately show ?thesis
    by (metis Un_upper1 List.finite_set card_subset_eq finite_Un le_iff_sup sup.absorb_iff1 sup.orderI)
qed

definition good_standard :: "uuid set \<Rightarrow> update_policy \<Rightarrow> bool" where
  "good_standard ids p \<longleftrightarrow> po_id p = STANDARD_UPDATE_POLICY_ID \<and> distinct (po_allowed_targets p)
     \<and> set (po_allowed_targets p) \<subseteq> ids"

lemma controller_ok_standard:
  assumes "controller_ok c"
  shows "standard_policy (ap_update_policies (ct_api c)) = Some p \<Longrightarrow> good_standard (target_ids c) p"
    and "has_database c \<Longrightarrow> standard_policy (cd_policies (ct_db c)) = Some p \<Longrightarrow> good_standard (target_ids c) p"
  using assms
  by (auto simp: controller_ok_def tables_ok_def lists_ok_def standard_ok_def good_standard_def
      dest!: standard_policyD)

lemma good_standard_write:
  assumes "controller_ok c" "good_standard (target_ids c) p"
  shows "controller_ok (snd (save_policy up p c))" "controller_ok (snd (save_policy_if_absent up p c))"
  using assms
  by (auto simp: good_standard_def intro!: controller_ok_row_policy controller_ok_insert_policy)

lemma persist_standard_ok:
  assumes ok: "controller_ok c" and p: "good_standard (target_ids c) p"
    and run: "persist_standard_update_policy up p ex c = (r, c')"
  shows "controller_ok c' \<and> ct_api c' = ct_api c \<and> r \<noteq> Inr None
     \<and> (\<forall>q. r = Inr (Some q) \<longrightarrow> good_standard (target_ids c) q
          \<and> set (po_allowed_targets p) \<subseteq> set (po_allowed_targets q)
          \<and> (ex \<or> \<not> has_database c \<longrightarrow> q = p))"
proof -
  note W = good_standard_write[OF ok p]
  have w1: "controller_ok c1 \<and> ct_api c1 = ct_api c" if "save_policy u p c = (x, c1)" for u x c1
    using W(1)[of u] that by (auto simp: save_policy_def db_write_def split: if_splits)
  have w2: "controller_ok c1 \<and> ct_api c1 = ct_api c \<and> (x = Inr False \<longrightarrow> c1 = c
      \<and> standard_policy (cd_policies (ct_db c)) \<noteq> None)" if "save_policy_if_absent u p c = (x, c1)" for u x c1
    using W(2)[of u] that p
    by (auto simp: save_policy_if_absent_def db_write_def good_standard_def standard_policy_None split: if_splits)
  have merge: "controller_ok c1 \<and> ct_api c1 = ct_api c \<and> x \<noteq> Inr None
      \<and> (\<forall>q. x = Inr (Some q) \<longrightarrow> good_standard (target_ids c) q \<and> set (po_allowed_targets p) \<subseteq> set (po_allowed_targets q))"
    if db: "has_database c" and old: "standard_policy (cd_policies (ct_db c)) = Some q0"
      and m: "merge_concurrent_standard_policy up p c = (x, c1)" for x c1 q0
  proof -
    let ?q = "extend_policy (po_allowed_targets p) q0"
    have q: "good_standard (target_ids c) ?q"
      using controller_ok_standard(2)[OF ok db old] p by (auto simp: good_standard_def)
    have "controller_ok c2 \<and> ct_api c2 = ct_api c" if "save_policy u ?q c = (y, c2)" for u y c2
      using good_standard_write(1)[OF ok q, of u] that by (auto simp: save_policy_def db_write_def split: if_splits)
    with m old ok q show ?thesis
      by (auto simp: merge_concurrent_standard_policy_def list_policy_rows_def db_read_def Let_def
          split: if_splits prod.splits sum.splits)
  qed
  show ?thesis
  proof (cases "has_database c \<and> \<not> ex")
    case True
    then show ?thesis
      using run w2 merge p
      by (auto simp: persist_standard_update_policy_def split: prod.splits sum.splits bool.splits) blast+
  next
    case False
    then show ?thesis
      using run w1 p ok
      by (auto simp: persist_standard_update_policy_def split: prod.splits sum.splits if_splits)
  qed
qed

lemma store_standard_policy_simps:
  assumes "po_id p = STANDARD_UPDATE_POLICY_ID"
  shows "standard_policy (store_standard_policy p ps) = Some p"
    and "filter (\<lambda>q. po_id q \<noteq> STANDARD_UPDATE_POLICY_ID) (store_standard_policy p ps) =
         filter (\<lambda>q. po_id q \<noteq> STANDARD_UPDATE_POLICY_ID) ps"
proof -
  show "standard_policy (store_standard_policy p ps) = Some p"
  proof (cases "standard_policy ps")
    case None
    then show ?thesis using assms by (simp add: store_standard_policy_def) (simp add: standard_policy_def find_append)
  next
    case (Some q)
    then show ?thesis
      using assms by (simp add: store_standard_policy_def standard_policy_def find_update_first)
  qed
  show "filter (\<lambda>q. po_id q \<noteq> STANDARD_UPDATE_POLICY_ID) (store_standard_policy p ps) =
      filter (\<lambda>q. po_id q \<noteq> STANDARD_UPDATE_POLICY_ID) ps"
    using assms by (auto simp: store_standard_policy_def intro!: filter_update_first split: option.splits)
qed

lemma lists_ok_store_standard:
  assumes "lists_ok ids ss ps" "good_standard ids p"
  shows "lists_ok ids ss (store_standard_policy p ps)"
proof (cases "standard_policy ps")
  case None
  moreover from None have "STANDARD_UPDATE_POLICY_ID \<notin> set (map po_id ps)"
    by (simp add: standard_policy_None)
  ultimately show ?thesis
    using assms unfolding store_standard_policy_def good_standard_def
    by (auto intro!: lists_ok_append_policy)
next
  case (Some q)
  have "map po_id (update_first (\<lambda>q. po_id q = STANDARD_UPDATE_POLICY_ID) (\<lambda>_. p) xs) = map po_id xs" for xs
    using assms(2) by (induction xs) (auto simp: good_standard_def)
  then show ?thesis
    using Some assms by (auto simp: store_standard_policy_def lists_ok_def standard_ok_def good_standard_def
        dest!: set_update_first)
qed

definition standard_covers :: "controller \<Rightarrow> controller \<Rightarrow> bool" where
  "standard_covers c c' \<longleftrightarrow>
     (\<exists>p. standard_policy (ap_update_policies (ct_api c')) = Some p
        \<and> set (po_allowed_targets p) = target_ids c'
        \<and> (\<forall>q. standard_policy (ap_update_policies (ct_api c)) = Some q
             \<longrightarrow> p = q\<lparr>po_allowed_targets := po_allowed_targets p\<rparr>))
     \<and> filter (\<lambda>q. po_id q \<noteq> STANDARD_UPDATE_POLICY_ID) (ap_update_policies (ct_api c')) =
       filter (\<lambda>q. po_id q \<noteq> STANDARD_UPDATE_POLICY_ID) (ap_update_policies (ct_api c))"

lemma registered_target_ids_set [simp]: "set (registered_target_ids c) = target_ids c"
  by (simp add: registered_target_ids_def target_ids_def)

lemma ensure_default_spec:
  assumes ok: "controller_ok c" and run: "ensure_default_update_policies up c = (r, c')"
  shows "controller_ok c' \<and> ap_targets (ct_api c') = ap_targets (ct_api c)
     \<and> (is_ok r \<longrightarrow> target_ids c \<noteq> {} \<longrightarrow> standard_covers c c')"
proof (cases "registered_target_ids c = []")
  case True
  then have "target_ids c = {}" by (metis registered_target_ids_set set_empty)
  with True ok run show ?thesis by (simp add: ensure_default_update_policies_def)
next
  case False
  let ?ids = "registered_target_ids c"
  let ?old = "standard_policy (ap_update_policies (ct_api c))"
  let ?base = "case ?old of None \<Rightarrow> default_update_policy ?ids | Some p \<Rightarrow> p"
  let ?p = "extend_policy ?ids ?base"
  have base: "good_standard (target_ids c) ?base"
    using controller_ok_standard(1)[OF ok]
    by (auto simp: good_standard_def default_update_policy_def split: option.splits)
  then have p: "good_standard (target_ids c) ?p"
    and dist: "distinct (po_allowed_targets ?base)" and sub: "set (po_allowed_targets ?base) \<subseteq> target_ids c"
    by (auto simp: good_standard_def)
  show ?thesis
  proof (cases "?old \<noteq> None \<and> length (po_allowed_targets ?p) = length (po_allowed_targets ?base)")
    case True
    then have "standard_covers c c"
      using sub extend_policy_length[OF dist, of ?ids] by (auto simp: standard_covers_def)
    then show ?thesis
      using True False ok run by (simp add: ensure_default_update_policies_def Let_def)
  next
    case changed: False
    obtain x c1 where persist: "persist_standard_update_policy up ?p (?old \<noteq> None) c = (x, c1)"
      by (cases "persist_standard_update_policy up ?p (?old \<noteq> None) c")
    note spec = persist_standard_ok[OF ok p persist]
    have run': "(r, c') = (case (x, c1) of (Inl e, c1) \<Rightarrow> (Inl e, c1) | (Inr None, c1) \<Rightarrow> (Inr 0, c1)
        | (Inr (Some q), c1) \<Rightarrow>
            (Inr 1, set_policies (store_standard_policy q (ap_update_policies (ct_api c1))) c1))"
      using run False changed persist unfolding ensure_default_update_policies_def Let_def by auto
    show ?thesis
    proof (cases x)
      case (Inl e)
      with run' spec show ?thesis by simp
    next
      case (Inr y)
      with spec obtain q where y: "y = Some q" by (cases y) auto
      let ?c = "set_policies (store_standard_policy q (ap_update_policies (ct_api c1))) c1"
      have q: "good_standard (target_ids c) q" "set (po_allowed_targets ?p) \<subseteq> set (po_allowed_targets q)"
        "?old \<noteq> None \<longrightarrow> q = ?p" "ct_api c1 = ct_api c" "controller_ok c1"
        using spec Inr y by auto
      have ids: "target_ids c1 = target_ids c" using q(4) by (simp add: target_ids_def)
      have "controller_ok ?c"
        using q ids by (intro controller_ok_policies lists_ok_store_standard) (auto simp: controller_ok_def)
      moreover have "standard_covers c ?c"
      proof -
        have "set (po_allowed_targets q) = target_ids c"
          using q by (auto simp: good_standard_def)
        moreover have "q = q0\<lparr>po_allowed_targets := po_allowed_targets q\<rparr>" if "?old = Some q0" for q0
          using q(3) that by (simp add: extend_policy_def)
        ultimately show ?thesis
          using q by (auto simp: standard_covers_def set_policies_def target_ids_def store_standard_policy_simps
              good_standard_def)
      qed
      ultimately show ?thesis using run' Inr y q(4) by (simp add: set_policies_def)
    qed
  qed
qed

section \<open>Targets\<close>

lemma new_with_credentials_id:
  "new_with_credentials fresh now name kind address transport cred agent = Inr t \<Longrightarrow> tg_id t = fresh"
  by (auto simp: new_with_credentials_def Let_def split: if_splits)

lemma target_of_requestD:
  assumes "target_of_request fresh now r = Inr t"
  shows "tg_id t = fresh" "target_ok t"
  using assms new_with_credentials_ok
  by (auto simp: target_of_request_def invalid_fields_def bindR_Inr_iff new_agent_only_def target_new_def
      target_ok_def dest: new_with_credentials_id split: if_splits option.splits)

lemma push_target_ok:
  assumes ok: "controller_ok c" and t: "target_ok t" "tg_id t \<notin> target_ids c"
    and run: "(if has_database c then save_target up t c else (Inr (), c)) = (Inr u, c1)"
  shows "controller_ok (push_target t c1)" "ap_targets (ct_api (push_target t c1)) = ap_targets (ct_api c) @ [t]"
    and "target_ids (push_target t c1) = insert (tg_id t) (target_ids c)"
proof -
  have c1: "ap_targets (ct_api c1) = ap_targets (ct_api c)" "ap_schedules (ct_api c1) = ap_schedules (ct_api c)"
    "ap_update_policies (ct_api c1) = ap_update_policies (ct_api c)" "has_database c1 = has_database c"
    "has_database c \<Longrightarrow> ct_db c1 = (ct_db c)\<lparr>cd_targets := cd_targets (ct_db c) @ [t]\<rparr>
       \<and> tg_id t \<notin> set (map tg_id (cd_targets (ct_db c)))"
    using run by (auto simp: save_target_def db_write_def set_targets_def has_database_def split: if_splits)
  show ids: "target_ids (push_target t c1) = insert (tg_id t) (target_ids c)"
    using c1 by (auto simp: target_ids_def push_target_def)
  show "ap_targets (ct_api (push_target t c1)) = ap_targets (ct_api c) @ [t]"
    using c1 by (simp add: push_target_def)
  have lists: "lists_ok (insert (tg_id t) (target_ids c)) ss ps" if "lists_ok (target_ids c) ss ps" for ss ps
    by (rule lists_ok_mono[OF that]) auto
  have db: "has_database (push_target t c1) = has_database c" "ct_db (push_target t c1) = ct_db c1"
    "ap_schedules (ct_api (push_target t c1)) = ap_schedules (ct_api c)"
    "ap_update_policies (ct_api (push_target t c1)) = ap_update_policies (ct_api c)"
    "ap_targets (ct_api (push_target t c1)) = ap_targets (ct_api c) @ [t]"
    using c1 by (simp_all add: push_target_def has_database_def)
  show "controller_ok (push_target t c1)"
    using ok t c1(5) lists unfolding controller_ok_def tables_ok_def ids db
    by (auto simp: target_ids_def)
qed

lemma save_target_refused: "save_target up t c = (Inl e, c1) \<Longrightarrow> c1 = c"
  by (auto simp: save_target_def db_write_def split: if_splits)

lemma create_target_spec:
  assumes ok: "controller_ok c" and fresh: "fresh \<notin> target_ids c"
    and run: "create_target up fresh now role r c = (x, c')"
  shows "controller_ok c' \<and>
     (\<forall>t. x = Inr t \<longrightarrow> grants role Configure \<and> tg_id t = fresh \<and> target_ok t
        \<and> ap_targets (ct_api c') = ap_targets (ct_api c) @ [t] \<and> standard_covers c c')"
proof (cases "bindR (require_permission role Configure) (\<lambda>_. target_of_request fresh now r)")
  case (Inl e)
  with ok run show ?thesis by (auto simp: create_target_def)
next
  case (Inr t)
  then have perm: "grants role Configure" and t: "target_of_request fresh now r = Inr t"
    by (auto simp: bindR_Inr_iff)
  note td = target_of_requestD[OF t]
  obtain s c1 where save: "(if has_database c then save_target (up CallSaveTarget) t c else (Inr (), c)) = (s, c1)"
    by fastforce
  show ?thesis
  proof (cases s)
    case (Inl e)
    then have "c1 = c" using save save_target_refused by (auto split: if_splits)
    with Inl Inr save ok run show ?thesis by (auto simp: create_target_def)
  next
    case (Inr u)
    let ?c = "push_target t c1"
    note push = push_target_ok[OF ok td(2) _ save[unfolded Inr]]
    obtain y c2 where ens: "ensure_default_update_policies up ?c = (y, c2)"
      by fastforce
    have spec: "controller_ok c2 \<and> ap_targets (ct_api c2) = ap_targets (ct_api ?c)
        \<and> (is_ok y \<longrightarrow> target_ids ?c \<noteq> {} \<longrightarrow> standard_covers ?c c2)"
      using push td fresh by (intro ensure_default_spec[OF _ ens]) auto
    have pol: "ap_update_policies (ct_api ?c) = ap_update_policies (ct_api c)"
      using save Inr by (auto simp: push_target_def save_target_def db_write_def set_targets_def split: if_splits)
    have res: "(x, c') = (case y of Inl e \<Rightarrow> (Inl e, c2) | Inr _ \<Rightarrow> (Inr t, c2))"
      using run \<open>bindR _ _ = Inr t\<close> save Inr ens by (auto simp: create_target_def split: sum.splits)
    have "standard_covers ?c c2 \<Longrightarrow> standard_covers c c2"
      by (simp add: standard_covers_def pol)
    then show ?thesis
      using res spec push td fresh perm by (auto split: sum.splits simp: is_ok_iff)
  qed
qed

text \<open>The tables after a deletion.\<close>

definition tables_without :: "ansible_env \<Rightarrow> timestamp \<Rightarrow> str \<Rightarrow> target \<Rightarrow> controller_db \<Rightarrow> controller_db" where
  "tables_without env now role t d = d\<lparr>
     cd_targets := filter (\<lambda>r. tg_id r \<noteq> tg_id t) (cd_targets d),
     cd_schedules := schedules_without (tg_id t) (cd_policies d) (cd_schedules d),
     cd_policies := policies_without (tg_id t) (cd_policies d),
     cd_samples := filter (\<lambda>x. fst x \<noteq> tg_id t) (cd_samples d),
     cd_docker_samples := filter (\<lambda>x. fst x \<noteq> tg_id t) (cd_docker_samples d),
     cd_inventories := filter (\<lambda>x. pis_target_id x \<noteq> tg_id t) (cd_inventories d),
     cd_audit := cd_audit d @ [target_deleted_event env now t role]\<rparr>"

lemma delete_rows_refused: "delete_rows env up now role i c = (Inl e, c1) \<Longrightarrow> c1 = c"
  by (auto simp: delete_rows_def delete_with_related_data_def db_write_def Let_def
      split: if_splits option.splits sum.splits bool.splits prod.splits repository_error.splits)

lemma delete_rows_done:
  assumes "delete_rows env up now role i c = (Inr u, c1)"
  shows "(\<not> has_database c \<and> c1 = c) \<or>
     (\<exists>t db. ap_repositories (ct_api c) = Some db \<and> List.find (\<lambda>t. tg_id t = i) (cd_targets (ct_db c)) = Some t
        \<and> active_rows i db = []
        \<and> c1 = c\<lparr>ct_api := (ct_api c)\<lparr>ap_repositories := Some (cascade_target i (db\<lparr>jd_targets :=
              map (\<lambda>t. (tg_id t, tg_kind t)) (filter (\<lambda>r. tg_id r \<noteq> i) (cd_targets (ct_db c)))\<rparr>))\<rparr>,
            ct_db := tables_without env now (role_label role) t (ct_db c)\<rparr>)"
proof (cases "ap_repositories (ct_api c)")
  case None
  then show ?thesis using assms by (simp add: delete_rows_def has_database_def)
next
  case (Some db)
  show ?thesis
  proof (cases "List.find (\<lambda>t. tg_id t = i) (cd_targets (ct_db c))")
    case None
    then show ?thesis using assms Some
      by (auto simp: delete_rows_def has_database_def delete_with_related_data_def db_write_def Let_def split: if_splits)
  next
    case (Some t)
    then have "tg_id t = i" using found_in_list by fastforce
    with Some \<open>ap_repositories (ct_api c) = Some db\<close> assms show ?thesis
      by (auto simp: delete_rows_def has_database_def delete_with_related_data_def db_write_def Let_def
          set_targets_def tables_without_def split: if_splits)
  qed
qed

lemma delete_target_cases:
  assumes "delete_target env up now role target_text confirmed c = (x, c')"
  shows "(\<exists>e. x = Inl e \<and> c' = c) \<or>
     (\<exists>i a c1. x = Inr () \<and> grants role Destructive \<and> confirmed \<and> ae_uuid_parse env target_text = Some i
        \<and> find_target i (ct_api c) \<noteq> None
        \<and> remove_target_jobs i (ap_ansible (ct_api c)) = Inr a \<and> delete_rows env up now role i c = (Inr (), c1)
        \<and> c' = forget_target i (c1\<lparr>ct_api := (ct_api c1)\<lparr>ap_ansible := a\<rparr>\<rparr>))"
proof (cases "bindR (require_permission role Destructive) (\<lambda>_.
    if \<not> confirmed then Inl (bad_request (lit ''confirmation_required'')
      (lit ''removing a target requires explicit confirmation''))
    else ok_or (bad_request (lit ''invalid_id'') (lit ''target id'')) (ae_uuid_parse env target_text))")
  case (Inl e)
  then show ?thesis using assms unfolding delete_target_def by auto
next
  case (Inr i)
  then have guard: "grants role Destructive" "confirmed" "ae_uuid_parse env target_text = Some i"
    by (auto simp: bindR_Inr_iff ok_or_Inr_iff split: if_splits)
  obtain y c1 where rows: "delete_rows env up now role i c = (y, c1)" by fastforce
  have run: "(x, c') = (if target_has_active_jobs (ap_ansible (ct_api c)) i then (Inl (target_busy busy_message), c)
      else if find_target i (ct_api c) = None then (Inl (not_found (lit ''target not found'')), c)
      else case y of Inl e \<Rightarrow> (Inl e, c1) | Inr _ \<Rightarrow>
        (case remove_target_jobs i (ap_ansible (ct_api c1)) of
           Inl _ \<Rightarrow> (Inl (target_busy (lit ''the target has active workflows'')), c1)
         | Inr a \<Rightarrow> (Inr (), forget_target i (c1\<lparr>ct_api := (ct_api c1)\<lparr>ap_ansible := a\<rparr>\<rparr>))))"
    using assms Inr rows unfolding delete_target_def by (auto split: sum.splits)
  have co: "ap_ansible (ct_api c1) = ap_ansible (ct_api c)" if "y = Inr u" for u
    using delete_rows_done[of env up now role i c u c1] rows that by auto
  have "\<exists>a. remove_target_jobs i (ap_ansible (ct_api c)) = Inr a" if "\<not> target_has_active_jobs (ap_ansible (ct_api c)) i"
    using that by (simp add: remove_target_jobs_def Let_def)
  then show ?thesis
    using run guard co rows delete_rows_refused
    by (auto split: if_splits sum.splits)
qed

lemma map_id_filter: "set (map tg_id (filter (\<lambda>t. tg_id t \<noteq> i) ts)) = set (map tg_id ts) - {i}"
  by auto

lemma forget_target_ok:
  assumes ok: "controller_ok c"
    and rows: "delete_rows env up now role i c = (Inr u, c1)"
  shows "controller_ok (forget_target i (c1\<lparr>ct_api := (ct_api c1)\<lparr>ap_ansible := a\<rparr>\<rparr>))" (is "controller_ok ?c")
proof -
  have api: "ap_targets (ct_api ?c) = filter (\<lambda>t. tg_id t \<noteq> i) (ap_targets (ct_api c))"
    "ap_schedules (ct_api ?c) = schedules_without i (ap_update_policies (ct_api c)) (ap_schedules (ct_api c))"
    "ap_update_policies (ct_api ?c) = policies_without i (ap_update_policies (ct_api c))"
    "has_database ?c = has_database c"
    using delete_rows_done[OF rows] by (auto simp: forget_target_def Let_def has_database_def)
  have ids: "target_ids ?c = target_ids c - {i}"
    by (auto simp: target_ids_def api)
  have db: "cd_targets (ct_db ?c) = filter (\<lambda>t. tg_id t \<noteq> i) (cd_targets (ct_db c))"
    "cd_schedules (ct_db ?c) = schedules_without i (cd_policies (ct_db c)) (cd_schedules (ct_db c))"
    "cd_policies (ct_db ?c) = policies_without i (cd_policies (ct_db c))" if "has_database c"
    using delete_rows_done[OF rows] that
    by (auto simp: forget_target_def Let_def tables_without_def dest!: found_in_list)
  have lists: "lists_ok (target_ids c) ss ps \<Longrightarrow> lists_ok (target_ids c - {i}) (schedules_without i ps ss) (policies_without i ps)" for ss ps
    by (rule lists_ok_without)
  show ?thesis
    using ok unfolding controller_ok_def tables_ok_def ids api(4)
    using db lists by (auto simp: api distinct_map_filter map_id_filter)
qed

lemma delete_target_ok:
  "controller_ok c \<Longrightarrow> controller_ok (snd (delete_target env up now role target_text confirmed c))"
  using delete_target_cases[of env up now role target_text confirmed c] forget_target_ok[of c]
  by (cases "delete_target env up now role target_text confirmed c") fastforce

section \<open>Heartbeats and secrets\<close>

lemma set_targets_ok:
  assumes "controller_ok c" "map tg_id ts = map tg_id (cd_targets (ct_db c))"
  shows "controller_ok (set_targets ts c)"
  using assms by (simp add: controller_ok_def set_targets_def target_ids_def has_database_def tables_ok_def)

lemma update_target_row_ok: "controller_ok c \<Longrightarrow> controller_ok (snd (update_target_row up t c))"
  by (auto simp: update_target_row_def db_write_def intro!: set_targets_ok)

lemma replace_targets_ok:
  assumes "controller_ok c" "map tg_id ts = map tg_id (ap_targets (ct_api c))" "\<forall>t \<in> set ts. target_ok t"
  shows "controller_ok (c\<lparr>ct_api := (ct_api c)\<lparr>ap_targets := ts\<rparr>\<rparr>)"
proof -
  have "target_ids (c\<lparr>ct_api := (ct_api c)\<lparr>ap_targets := ts\<rparr>\<rparr>) = target_ids c"
    using assms(2) by (simp add: target_ids_def flip: set_map)
  then show ?thesis
    using assms by (simp add: controller_ok_def tables_ok_def has_database_def)
qed

lemma persist_agent_heartbeat_ok:
  assumes "controller_ok c"
  shows "controller_ok (snd (persist_agent_heartbeat up now t hb inventory c))"
proof -
  have 1: "controller_ok c1" if "update_target_row u t c = (x, c1)" for u x c1
    using update_target_row_ok[OF assms, of u t] that by simp
  have 2: "controller_ok c2" if "append_heartbeat u now hb c1 = (x, c2)" "controller_ok c1" for u x c1 c2
    using controller_ok_same[OF append_heartbeat_same that(2), of u now hb] that(1) by simp
  have 3: "controller_ok c2" if "replace_inventory u y c1 = (x, c2)" "controller_ok c1" for u x c1 c2 y
    using controller_ok_same[OF replace_inventory_same that(2), of u y] that(1) by simp
  show ?thesis
    using 1 2 3 by (auto simp: persist_agent_heartbeat_def split: prod.splits sum.splits option.splits)
qed

lemma receive_agent_heartbeat_ok:
  assumes ok: "controller_ok c"
  shows "controller_ok (snd (receive_agent_heartbeat read_secret up now hs hb c))"
proof (cases "heartbeat_target read_secret hs (hb_target_id hb) (ct_api c)")
  case (Inl e)
  with ok show ?thesis by (simp add: receive_agent_heartbeat_def)
next
  case (Inr t)
  then have t: "find_target (hb_target_id hb) (ct_api c) = Some t"
    by (auto simp: heartbeat_target_def bindR_Inr_iff ok_or_Inr_iff split: if_splits)
  let ?ts = "update_first (\<lambda>x. tg_id x = hb_target_id hb) (\<lambda>_. mark_managed now t) (ap_targets (ct_api c))"
  have t': "t \<in> set (ap_targets (ct_api c))" "tg_id t = hb_target_id hb"
    using found_in_list[OF t[unfolded find_target_def]] by auto
  have "map tg_id (update_first (\<lambda>x. tg_id x = hb_target_id hb) (\<lambda>_. mark_managed now t) xs) = map tg_id xs" for xs
    using t' by (induction xs) (auto simp: mark_managed_def)
  moreover have "\<forall>x \<in> set ?ts. target_ok x"
    using ok t' by (auto simp: controller_ok_def mark_managed_ok dest!: set_update_first)
  ultimately have ok1: "controller_ok (c\<lparr>ct_api := (ct_api c)\<lparr>ap_targets := ?ts\<rparr>\<rparr>)"
    by (intro replace_targets_ok[OF ok])
  have ok2: "controller_ok (c\<lparr>ct_api := (ct_api c)\<lparr>ap_targets := ?ts\<rparr>, ct_agent_reports := x, ct_package_inventories := y\<rparr>)" for x y
    by (rule controller_ok_same[OF _ ok1]) (simp add: same_lists_def has_database_def)
  show ?thesis
    using Inr ok2 persist_agent_heartbeat_ok[OF ok2]
    by (auto simp: receive_agent_heartbeat_def Let_def split: prod.splits)
qed

end
