(* ===== verification/ScheduleLaws.thy ===== *)
theory ScheduleLaws
  imports ControllerLaws
begin

text \<open>
  The scheduler: a pass changes schedules only by advancing the due ones, creates only jobs that plan
  or check, and keeps the invariant of the inventory; a changed secret disables what depends on it.
\<close>

section \<open>What a dispatch changes\<close>

definition same_inventory :: "controller \<Rightarrow> controller \<Rightarrow> bool" where
  "same_inventory c c' \<longleftrightarrow>
     ct_agent_reports c' = ct_agent_reports c \<and> ct_enrollments c' = ct_enrollments c \<and> ct_db c' = ct_db c
     \<and> ap_targets (ct_api c') = ap_targets (ct_api c)
     \<and> ap_update_policies (ct_api c') = ap_update_policies (ct_api c)
     \<and> ap_schedules (ct_api c') = ap_schedules (ct_api c) \<and> has_database c' = has_database c"

lemma same_inventory_simps:
  assumes "same_inventory c c'"
  shows "ct_agent_reports c' = ct_agent_reports c" "ct_enrollments c' = ct_enrollments c" "ct_db c' = ct_db c"
    "ap_targets (ct_api c') = ap_targets (ct_api c)"
    "ap_update_policies (ct_api c') = ap_update_policies (ct_api c)"
    "ap_schedules (ct_api c') = ap_schedules (ct_api c)" "has_database c' = has_database c"
  using assms by (auto simp: same_inventory_def)

lemma same_inventory_refl [simp]: "same_inventory c c"
  by (simp add: same_inventory_def)

lemma same_inventory_trans: "same_inventory c c' \<Longrightarrow> same_inventory c' c'' \<Longrightarrow> same_inventory c c''"
  by (simp add: same_inventory_def)

lemma same_inventory_lists: "same_inventory c c' \<Longrightarrow> same_lists c c'"
  by (auto simp: same_lists_def dest: same_inventory_simps)

lemma persist_created_job_frame:
  assumes "persist_created_job up j st = (r, st')"
  shows "\<exists>db. st' = st\<lparr>ap_repositories := db\<rparr> \<and> (db = None \<longleftrightarrow> ap_repositories st = None)"
  using assms
  by (auto simp: persist_created_job_def split: option.splits prod.splits sum.splits)

definition new_job :: "controller \<Rightarrow> controller \<Rightarrow> ansible_job \<Rightarrow> bool" where
  "new_job c c' j \<longleftrightarrow> (\<exists>i. hm_get (jc_jobs (ap_ansible (ct_api c'))) i = Some j
     \<and> hm_get (jc_jobs (ap_ansible (ct_api c))) i \<noteq> Some j)"

lemma new_job_refl [simp]: "\<not> new_job c c j"
  by (simp add: new_job_def)

lemma new_job_trans: "new_job c c'' j \<Longrightarrow> new_job c c' j \<or> new_job c' c'' j"
  by (auto simp: new_job_def)

text \<open>A job a schedule may create: it checks or plans, on a managed target of the schedule.\<close>

definition scheduled_job :: "timestamp \<Rightarrow> job_schedule \<Rightarrow> controller \<Rightarrow> ansible_job \<Rightarrow> bool" where
  "scheduled_job now s c j \<longleftrightarrow>
     (\<exists>t \<in> set (ap_targets (ct_api c)).
        tg_id t \<in> set (sd_target_ids s) \<and> tg_state t = TargetManaged
        \<and> aj_target j = Target (tg_id t) \<and> aj_status j = JQueued
        \<and> (aj_operation j \<in> {OpHealthCheck, OpCollectPackageInventory} \<and> aj_mode j = ModeCheck
           \<or> aj_operation j = OpUpdatePackages \<and> aj_mode j = ModePlan
             \<and> (\<exists>p \<in> set (ap_update_policies (ct_api c)). sd_policy_id s = Some (po_id p)
                  \<and> aj_parameters j = ParamUpdatePackages (po_allowed_packages p)
                  \<and> (\<forall>x \<in> set (po_allowed_packages p). policy_allows p (tg_id t) x High now))))"

lemma scheduled_job_cong: "same_inventory c c' \<Longrightarrow> scheduled_job now s c' j = scheduled_job now s c j"
  by (simp add: scheduled_job_def same_inventory_simps)

lemma scheduled_targetD:
  assumes "scheduled_target env jup now s i c = Inr t"
  shows "t \<in> set (ap_targets (ct_api c))" "tg_id t = i" "tg_state t = TargetManaged"
    "\<And>rule. sd_threshold s = Some rule
       \<Longrightarrow> triggered rule (Option.bind (hm_get (ct_agent_reports c) i) (threshold_value now rule))"
  using assms
  by (auto simp: scheduled_target_def bindR_Inr_iff ok_or_Inr_iff dest!: found_in_list split: if_splits option.splits)

lemma scheduled_job_requestD:
  assumes "scheduled_job_request env now s i t c = Inr jr" "from_request env fresh now' jr = Inr j"
    and "t \<in> set (ap_targets (ct_api c))" "tg_id t = i" "tg_state t = TargetManaged" "i \<in> set (sd_target_ids s)"
  shows "scheduled_job now s c j"
  using assms(3-) assms(1) from_request_Inr[OF assms(2)]
  by (fastforce simp: scheduled_job_request_def scheduled_operation_def scheduled_update_parameters_def
      scheduled_job_def bindR_Inr_iff ok_or_Inr_iff Let_def list_ex_iff bind_eq_Some_conv dest!: found_in_list
      split: if_splits)

lemma dispatch_scheduled_target_spec:
  assumes run: "dispatch_scheduled_target env d now s m n i c = (r, c')" and i: "i \<in> set (sd_target_ids s)"
  shows "same_inventory c c' \<and> (\<forall>j. new_job c c' j \<longrightarrow> scheduled_job now s c j)"
proof (cases "scheduled_target env (de_jobs_up d m n) now s i c")
  case (Inl e)
  with run show ?thesis by (simp add: dispatch_scheduled_target_def)
next
  case (Inr t)
  note t = scheduled_targetD[OF Inr]
  show ?thesis
  proof (cases "sd_operation s = lit ''docker_discovery''")
    case True
    with Inr run show ?thesis by (simp add: dispatch_scheduled_target_def)
  next
    case job: False
    show ?thesis
    proof (cases "scheduled_job_request env now s i t c")
      case (Inl e)
      with job Inr run \<open>scheduled_target _ _ _ _ _ _ = Inr t\<close> show ?thesis by (simp add: dispatch_scheduled_target_def)
    next
      case (Inr jr)
      note J = this
      show ?thesis
      proof (cases "submit env (de_fresh d m n) now jr (ap_ansible (ct_api c))")
        case (Inl e)
        with job J run \<open>scheduled_target _ _ _ _ _ _ = Inr t\<close> show ?thesis by (simp add: dispatch_scheduled_target_def)
      next
        case (Inr x)
        then obtain sub co where x: "x = (sub, co)" by (cases x)
        have S: "(\<exists>j. sub = JobDuplicate j) \<and> co = ap_ansible (ct_api c) \<or>
            (\<exists>j. sub = JobCreated j \<and> from_request env (de_fresh d m n) now jr = Inr j
               \<and> jc_jobs co = hm_insert (aj_id j) j (jc_jobs (ap_ansible (ct_api c))))"
          by (rule submit_Inr_cases[OF Inr[unfolded x]]) (auto simp: add_job_simps)
        show ?thesis
        proof (cases sub)
          case (JobDuplicate j)
          with S have "co = ap_ansible (ct_api c)" by auto
          with JobDuplicate Inr x job J run \<open>scheduled_target _ _ _ _ _ _ = Inr t\<close>
          show ?thesis by (simp add: dispatch_scheduled_target_def)
        next
          case (JobCreated j)
          obtain y st where P: "persist_created_job (de_jobs_up d m n) j ((ct_api c)\<lparr>ap_ansible := co\<rparr>) = (y, st)"
            by fastforce
          have c': "c' = c\<lparr>ct_api := st\<rparr>"
            using JobCreated Inr x job J run P \<open>scheduled_target _ _ _ _ _ _ = Inr t\<close>
            by (auto simp: dispatch_scheduled_target_def split: sum.splits)
          have inv: "same_inventory c c'"
            using persist_created_job_frame[OF P] by (auto simp: c' same_inventory_def has_database_def)
          have jobs: "ap_ansible (ct_api c') = co"
            using persist_created_job_frame[OF P] unfolding c' by auto
          have created: "from_request env (de_fresh d m n) now jr = Inr j"
            "jc_jobs co = hm_insert (aj_id j) j (jc_jobs (ap_ansible (ct_api c)))"
            using S JobCreated by auto
          have "scheduled_job now s c j"
            by (rule scheduled_job_requestD[OF J created(1) t(1,2,3) i])
          then show ?thesis
            using inv jobs created(2) by (auto simp: new_job_def split: if_splits)
        qed
      qed
    qed
  qed
qed

lemma dispatch_targets_spec:
  assumes "dispatch_targets env d now s m n is failure c = (k, f, c')" "set is \<subseteq> set (sd_target_ids s)"
  shows "same_inventory c c' \<and> (\<forall>j. new_job c c' j \<longrightarrow> scheduled_job now s c j)"
  using assms
proof (induction "is" arbitrary: n failure c k f)
  case (Cons i rest)
  obtain r c1 where step: "dispatch_scheduled_target env d now s m n i c = (r, c1)" by fastforce
  have first: "same_inventory c c1" "\<And>j. new_job c c1 j \<Longrightarrow> scheduled_job now s c j"
    using dispatch_scheduled_target_spec[OF step] Cons.prems(2) by auto
  obtain k' f' failure' where "dispatch_targets env d now s m (Suc n) rest failure' c1 = (k', f', c')"
    using Cons.prems(1) step by (auto split: sum.splits prod.splits)
  then have rest: "same_inventory c1 c'" "\<And>j. new_job c1 c' j \<Longrightarrow> scheduled_job now s c1 j"
    using Cons.IH Cons.prems(2) by auto
  show ?case
    using same_inventory_trans[OF first(1) rest(1)] new_job_trans[of c c' _ c1] first(2) rest(2)
      scheduled_job_cong[OF first(1)] by blast
qed simp

lemma execute_due_schedule_spec:
  assumes "execute_due_schedule env d now m s c = (k, f, c')"
  shows "same_inventory c c' \<and> (\<forall>j. new_job c c' j \<longrightarrow> scheduled_job now s c j)"
  using assms dispatch_targets_spec[of env d now s m 0 "sd_target_ids s" None c k f c']
  by (auto simp: execute_due_schedule_def split: if_splits prod.splits)

section \<open>How schedules advance\<close>

lemma advance_after_run_simps [simp]:
  "sd_id (advance_after_run now f s) = sd_id s" "sd_target_ids (advance_after_run now f s) = sd_target_ids s"
  "sd_frequency (advance_after_run now f s) = sd_frequency s"
  "sd_policy_id (advance_after_run now f s) = sd_policy_id s"
  "sd_operation (advance_after_run now f s) = sd_operation s"
  by (simp_all add: advance_after_run_def)

lemma advance_after_run_not_due: "\<not> is_due (advance_after_run now f s) now"
proof -
  obtain k where "now < advance_loop (sd_frequency s) now (sd_next_run_at s + schedule_interval (sd_frequency s))"
    using advance_loop_slot by blast
  then show ?thesis by (simp add: is_due_def advance_after_run_def)
qed

lemma update_first_distinct:
  "distinct (map key xs) \<Longrightarrow> s \<in> set xs \<Longrightarrow>
     update_first (\<lambda>x. key x = key s) f xs = map (\<lambda>x. if x = s then f x else x) xs"
proof (induction xs)
  case (Cons a xs)
  have "map (\<lambda>x. if x = s then f x else x) xs = xs" if "s \<notin> set xs"
    using that by (induction xs) auto
  moreover have "s \<notin> set xs" if "a = s" using Cons.prems(1) that by (auto simp: image_iff)
  ultimately show ?case using Cons by (cases "a = s") (auto simp: rev_image_eqI)
qed simp

definition same_workers :: "controller \<Rightarrow> controller \<Rightarrow> bool" where
  "same_workers c c' \<longleftrightarrow> has_database c' = has_database c
     \<and> cd_worker_seen (ct_db c') = cd_worker_seen (ct_db c)"

lemma waits_cong:
  "same_workers c c' \<Longrightarrow> schedule_waits_for_worker up now s c' = schedule_waits_for_worker up now s c"
  by (simp add: same_workers_def schedule_waits_for_worker_def scheduled_worker_available_def latest_since_def)

text \<open>The frame of one due schedule: targets and policies stay, and new jobs are its own.\<close>

definition pass_frame :: "controller \<Rightarrow> controller \<Rightarrow> bool" where
  "pass_frame c c' \<longleftrightarrow> same_workers c c' \<and> ap_targets (ct_api c') = ap_targets (ct_api c)
     \<and> ap_update_policies (ct_api c') = ap_update_policies (ct_api c)"

lemma pass_frame_trans: "pass_frame c c' \<Longrightarrow> pass_frame c' c'' \<Longrightarrow> pass_frame c c''"
  by (simp add: pass_frame_def same_workers_def)

lemma scheduled_job_pass: "pass_frame c c' \<Longrightarrow> scheduled_job now s c' j = scheduled_job now s c j"
  by (simp add: pass_frame_def scheduled_job_def)

lemma run_due_schedule_spec:
  assumes ok: "controller_ok c" and run: "run_due_schedule env d now m s c = (k, c')"
  shows "controller_ok c' \<and> pass_frame c c' \<and> (\<forall>j. new_job c c' j \<longrightarrow> scheduled_job now s c j)
     \<and> (c' = c \<and> schedule_waits_for_worker (de_store_up d m) now s c
        \<or> (\<exists>f. ap_schedules (ct_api c') =
             update_first (\<lambda>x. sd_id x = sd_id s) (advance_after_run now f) (ap_schedules (ct_api c))))"
proof (cases "schedule_waits_for_worker (de_store_up d m) now s c")
  case True
  with ok run show ?thesis by (simp add: run_due_schedule_def pass_frame_def same_workers_def)
next
  case False
  obtain k' f c1 where ex: "execute_due_schedule env d now m s c = (k', f, c1)" by (metis prod_cases3)
  note E = execute_due_schedule_spec[OF ex]
  let ?xs = "ap_schedules (ct_api c)"
  let ?c2 = "set_schedules (update_first (\<lambda>x. sd_id x = sd_id s) (advance_after_run now f) ?xs) c1"
  let ?u = "List.find (\<lambda>x. sd_id x = sd_id s) ?xs"
  have same: "same_inventory c c1" using E by simp
  have ok1: "controller_ok c1" by (rule controller_ok_same[OF same_inventory_lists[OF same] ok])
  have lists: "lists_ok (target_ids c1) ?xs (ap_update_policies (ct_api c1))"
    using ok1 same_inventory_simps[OF same] by (simp add: controller_ok_def)
  have ok2: "controller_ok ?c2"
    by (rule controller_ok_schedules[OF ok1]) (rule lists_ok_map_schedules[OF lists], simp)
  have row: "controller_ok (snd (save_schedule u (advance_after_run now f x) ?c2))" if "?u = Some x" for u x
    using lists_ok_schedule[OF lists, of x] found_in_list[OF that]
    by (intro controller_ok_row_schedule[OF ok2]) (auto simp: target_ids_def set_schedules_def)
  have c': "c' = ?c2 \<or> (\<exists>x u. ?u = Some x \<and> c' = snd (save_schedule u (advance_after_run now f x) ?c2))"
    using run False ex same_inventory_simps(6)[OF same]
    by (auto simp: run_due_schedule_def advance_schedule_after_run_def Let_def split: option.splits if_splits)
  have frame: "ct_api (snd (save_schedule u x c0)) = ct_api c0"
    "cd_worker_seen (ct_db (snd (save_schedule u x c0))) = cd_worker_seen (ct_db c0)" for u x c0
    by (simp_all add: save_schedule_def db_write_def Let_def)
  have db: "has_database c' = has_database c" "cd_worker_seen (ct_db c') = cd_worker_seen (ct_db c)"
    "ap_targets (ct_api c') = ap_targets (ct_api c)"
    "ap_update_policies (ct_api c') = ap_update_policies (ct_api c)"
    "ap_ansible (ct_api c') = ap_ansible (ct_api c1)"
    "ap_schedules (ct_api c') = update_first (\<lambda>x. sd_id x = sd_id s) (advance_after_run now f) ?xs"
    using c' frame same_inventory_simps[OF same]
    by (auto simp: set_schedules_def has_database_def)
  have "controller_ok c'" using c' ok2 row by auto
  moreover have "pass_frame c c'" using db by (simp add: pass_frame_def same_workers_def)
  moreover have "new_job c c' j \<Longrightarrow> scheduled_job now s c j" for j
    using E db(5) by (simp add: new_job_def)
  ultimately show ?thesis using db(6) by blast
qed

lemma run_due_schedules_spec:
  assumes "controller_ok c" "run_due_schedules env d now m due c = (k, c')"
    and "set due \<subseteq> set (ap_schedules (ct_api c))" "distinct (map sd_id due)"
  shows "controller_ok c' \<and> pass_frame c c'
     \<and> (\<forall>j. new_job c c' j \<longrightarrow> (\<exists>s \<in> set due. scheduled_job now s c j))
     \<and> (\<exists>F. ap_schedules (ct_api c') = map F (ap_schedules (ct_api c))
          \<and> (\<forall>x. x \<notin> set due \<longrightarrow> F x = x)
          \<and> (\<forall>x \<in> set due. F x = x \<and> (\<exists>m. schedule_waits_for_worker (de_store_up d m) now x c)
               \<or> (\<exists>f. F x = advance_after_run now f x)))"
  using assms
proof (induction due arbitrary: c m k)
  case Nil
  then show ?case
    by (auto simp: pass_frame_def same_workers_def intro!: exI[of _ "\<lambda>x. x"])
next
  case (Cons s rest)
  let ?xs = "ap_schedules (ct_api c)"
  obtain k1 c1 where one: "run_due_schedule env d now m s c = (k1, c1)" by fastforce
  note O = run_due_schedule_spec[OF Cons.prems(1) one]
  have dist: "distinct (map sd_id ?xs)" using Cons.prems(1) by (simp add: controller_ok_def lists_ok_def)
  obtain g where g: "ap_schedules (ct_api c1) = map (\<lambda>x. if x = s then g else x) ?xs" "sd_id g = sd_id s"
    "g = s \<and> (\<exists>m. schedule_waits_for_worker (de_store_up d m) now s c) \<or> (\<exists>f. g = advance_after_run now f s)"
  proof -
    have "\<exists>g. ap_schedules (ct_api c1) = map (\<lambda>x. if x = s then g else x) ?xs \<and> sd_id g = sd_id s \<and>
        (g = s \<and> (\<exists>m. schedule_waits_for_worker (de_store_up d m) now s c) \<or> (\<exists>f. g = advance_after_run now f s))"
      using O update_first_distinct[OF dist, of s] Cons.prems(3)
      by (elim conjE disjE exE) (rule exI[of _ s], force, rule exI, force)
    then show thesis using that by blast
  qed
  obtain k2 where two: "run_due_schedules env d now (Suc m) rest c1 = (k2, c')"
    using Cons.prems(2) one by (auto split: prod.splits)
  have rest: "set rest \<subseteq> set (ap_schedules (ct_api c1))" "s \<notin> set rest" "g \<notin> set rest"
    using Cons.prems(3,4) g by (auto simp: image_iff)
  obtain F where F: "ap_schedules (ct_api c') = map F (ap_schedules (ct_api c1))" "\<And>x. x \<notin> set rest \<Longrightarrow> F x = x"
    "\<And>x. x \<in> set rest \<Longrightarrow> F x = x \<and> (\<exists>m. schedule_waits_for_worker (de_store_up d m) now x c1)
       \<or> (\<exists>f. F x = advance_after_run now f x)"
    and R: "controller_ok c'" "pass_frame c1 c'" "\<And>j. new_job c1 c' j \<Longrightarrow> \<exists>s \<in> set rest. scheduled_job now s c1 j"
  proof -
    have "distinct (map sd_id rest)" using Cons.prems(4) by simp
    from Cons.IH[OF conjunct1[OF O] two rest(1) this] show thesis using that by blast
  qed
  have frame: "pass_frame c c1" using O by simp
  have waits: "schedule_waits_for_worker up now x c1 = schedule_waits_for_worker up now x c" for up x
    using frame by (intro waits_cong) (simp add: pass_frame_def)
  let ?F = "\<lambda>x. if x = s then g else F x"
  have "ap_schedules (ct_api c') = map ?F ?xs"
    using F(1,2) g(1) rest by auto
  moreover have "new_job c c' j \<Longrightarrow> \<exists>s \<in> set (s # rest). scheduled_job now s c j" for j
    using new_job_trans[of c c' j c1] O R(3) scheduled_job_pass[OF frame] by auto
  moreover have "\<forall>x. x \<notin> set (s # rest) \<longrightarrow> ?F x = x"
    "\<forall>x \<in> set (s # rest). ?F x = x \<and> (\<exists>m. schedule_waits_for_worker (de_store_up d m) now x c)
       \<or> (\<exists>f. ?F x = advance_after_run now f x)"
    using F(2,3) g(3) rest(2) waits by auto
  ultimately show ?case
    using R(1) pass_frame_trans[OF frame R(2)] by blast
qed

lemma dispatch_due_schedules_spec:
  assumes "controller_ok c" "dispatch_due_schedules env d now c = (k, c')"
  shows "controller_ok c' \<and> pass_frame c c'
     \<and> (\<forall>j. new_job c c' j \<longrightarrow> (\<exists>s \<in> set (ap_schedules (ct_api c)). is_due s now \<and> scheduled_job now s c j))
     \<and> (\<exists>F. ap_schedules (ct_api c') = map F (ap_schedules (ct_api c))
          \<and> (\<forall>x \<in> set (ap_schedules (ct_api c)). if is_due x now
               then F x = x \<and> (\<exists>m. schedule_waits_for_worker (de_store_up d m) now x c)
                    \<or> (\<exists>f. F x = advance_after_run now f x)
               else F x = x))"
proof -
  let ?due = "filter (\<lambda>s. is_due s now) (ap_schedules (ct_api c))"
  have "distinct (map sd_id ?due)"
    using assms(1) by (simp add: controller_ok_def lists_ok_def distinct_map_filter)
  note R = run_due_schedules_spec[OF assms(1) assms(2)[unfolded dispatch_due_schedules_def] _ this]
  obtain F where F: "ap_schedules (ct_api c') = map F (ap_schedules (ct_api c))"
    "\<And>x. x \<notin> set ?due \<Longrightarrow> F x = x"
    "\<And>x. x \<in> set ?due \<Longrightarrow> F x = x \<and> (\<exists>m. schedule_waits_for_worker (de_store_up d m) now x c)
       \<or> (\<exists>f. F x = advance_after_run now f x)"
    using R by auto
  have "\<forall>x \<in> set (ap_schedules (ct_api c)). if is_due x now
      then F x = x \<and> (\<exists>m. schedule_waits_for_worker (de_store_up d m) now x c)
        \<or> (\<exists>f. F x = advance_after_run now f x) else F x = x"
    using F(2,3) by simp
  then show ?thesis using R F(1) by auto
qed

section \<open>Changed secrets\<close>

definition same_memory :: "controller \<Rightarrow> controller \<Rightarrow> bool" where
  "same_memory c c' \<longleftrightarrow> ap_targets (ct_api c') = ap_targets (ct_api c)
     \<and> ap_schedules (ct_api c') = ap_schedules (ct_api c)
     \<and> ap_update_policies (ct_api c') = ap_update_policies (ct_api c)
     \<and> ap_ansible (ct_api c') = ap_ansible (ct_api c) \<and> has_database c' = has_database c"

lemma same_memory_trans: "same_memory c c' \<Longrightarrow> same_memory c' c'' \<Longrightarrow> same_memory c c''"
  by (simp add: same_memory_def)

lemma update_target_row_memory: "same_memory c (snd (update_target_row up t c))"
  by (simp add: update_target_row_def db_write_def set_targets_def same_memory_def has_database_def)

lemma save_schedule_memory: "same_memory c (snd (save_schedule up s c))"
  by (simp add: save_schedule_def db_write_def Let_def same_memory_def has_database_def)

lemma write_target_rows_ok:
  "controller_ok c \<Longrightarrow>
     controller_ok (write_rows (\<lambda>t up. update_target_row up t) up n ts c)
     \<and> same_memory c (write_rows (\<lambda>t up. update_target_row up t) up n ts c)"
proof (induction ts arbitrary: n c)
  case (Cons t ts)
  then show ?case
    using update_target_row_ok[OF Cons.prems] same_memory_trans[OF update_target_row_memory] by fastforce
qed (simp add: same_memory_def)

lemma write_schedule_rows_ok:
  "controller_ok c
   \<Longrightarrow> \<forall>s \<in> set ss. (\<forall>i \<in> set (sd_target_ids s). i \<in> target_ids c) \<and> every_minutes (sd_frequency s) \<noteq> 0
   \<Longrightarrow> controller_ok (write_rows (\<lambda>s up. save_schedule up s) up n ss c)
     \<and> same_memory c (write_rows (\<lambda>s up. save_schedule up s) up n ss c)"
proof (induction ss arbitrary: n c)
  case (Cons s ss)
  let ?c = "snd (save_schedule (up n) s c)"
  have mem: "same_memory c ?c" by (rule save_schedule_memory)
  then have ids: "target_ids ?c = target_ids c" by (simp add: target_ids_def same_memory_def)
  have "controller_ok ?c" using Cons.prems by (intro controller_ok_row_schedule) auto
  with Cons.IH[of ?c "Suc n"] Cons.prems ids mem show ?case by (auto intro: same_memory_trans)
qed (simp add: same_memory_def)

lemma disable_schedule_simps [simp]:
  "sd_id (disable_schedule a s) = sd_id s" "sd_target_ids (disable_schedule a s) = sd_target_ids s"
  "sd_frequency (disable_schedule a s) = sd_frequency s"
  by (simp_all add: disable_schedule_def)

lemma disable_schedule_enabled:
  "sd_enabled (disable_schedule a s) \<longleftrightarrow> sd_enabled s \<and> set (sd_target_ids s) \<inter> set a = {}"
  by (auto simp: disable_schedule_def list_ex_iff)

lemma reset_target_simps [simp]:
  "tg_id (reset_agent_target_if_needed now secret t) = tg_id t"
  "uses_secret secret' (reset_agent_target_if_needed now secret t) = uses_secret secret' t"
  "target_ok (reset_agent_target_if_needed now secret t) = target_ok t"
  by (simp_all add: reset_agent_target_if_needed_def uses_secret_def target_ok_def)

lemma invalidate_spec:
  fixes up :: store_calls and now :: timestamp and secret :: uuid and c :: controller
  assumes ok: "controller_ok c"
  defines "c' \<equiv> invalidate_targets_for_secret up now secret c"
  shows "controller_ok c'"
    and "ap_targets (ct_api c') = map (reset_agent_target_if_needed now secret) (ap_targets (ct_api c))"
    and "ap_schedules (ct_api c') =
      map (disable_schedule (map tg_id (filter (uses_secret secret) (ap_targets (ct_api c))))) (ap_schedules (ct_api c))"
    and "ap_ansible (ct_api c') = ap_ansible (ct_api c)"
proof -
  let ?ts = "map (reset_agent_target_if_needed now secret) (ap_targets (ct_api c))"
  let ?a = "map tg_id (filter (uses_secret secret) (ap_targets (ct_api c)))"
  let ?changed = "map (reset_agent_target_if_needed now secret) (filter (needs_reset secret) (ap_targets (ct_api c)))"
  let ?c1 = "c\<lparr>ct_api := (ct_api c)\<lparr>ap_targets := ?ts\<rparr>\<rparr>"
  have "map tg_id ?ts = map tg_id (ap_targets (ct_api c))" by simp
  then have ok1: "controller_ok ?c1"
    using ok by (intro replace_targets_ok) (auto simp: controller_ok_def)
  define c2 where "c2 = (if has_database c
    then write_rows (\<lambda>t up. update_target_row up t) (\<lambda>n. up (CallUpdateTarget n)) 0 ?changed ?c1 else ?c1)"
  have c2: "controller_ok c2" "same_memory ?c1 c2"
    using write_target_rows_ok[OF ok1] ok1 by (auto simp: c2_def same_memory_def)
  let ?ss = "map (disable_schedule ?a) (ap_schedules (ct_api c2))"
  let ?c3 = "set_schedules ?ss c2"
  have lists: "lists_ok (target_ids c2) (ap_schedules (ct_api c2)) (ap_update_policies (ct_api c2))"
    using c2(1) by (simp add: controller_ok_def)
  have ok3: "controller_ok ?c3"
    by (rule controller_ok_schedules[OF c2(1)]) (rule lists_ok_map_schedules(1)[OF lists], simp)
  have ids: "target_ids ?c3 = target_ids c2" by (simp add: target_ids_def set_schedules_def)
  define ds where "ds = map (disable_schedule ?a)
    (filter (\<lambda>s. list_ex (\<lambda>i. i \<in> set ?a) (sd_target_ids s) \<and> sd_enabled s) (ap_schedules (ct_api c2)))"
  have "\<forall>s \<in> set ds. (\<forall>i \<in> set (sd_target_ids s). i \<in> target_ids ?c3) \<and> every_minutes (sd_frequency s) \<noteq> 0"
    unfolding ids ds_def using lists_ok_schedule[OF lists] by auto
  note W = write_schedule_rows_ok[OF ok3 this]
  have c': "c' = (if has_database c
      then write_rows (\<lambda>s up. save_schedule up s) (\<lambda>n. up (CallSaveSchedule n)) 0 ds ?c3 else ?c3)"
    unfolding c'_def invalidate_targets_for_secret_def reset_targets_for_secret_def Let_def c2_def ds_def
    by simp
  have "controller_ok c' \<and> same_memory ?c3 c'"
    unfolding c' using W ok3 by (simp add: same_memory_def)
  with c2(2) show "controller_ok c'" "ap_targets (ct_api c') = ?ts" "ap_ansible (ct_api c') = ap_ansible (ct_api c)"
    "ap_schedules (ct_api c') = map (disable_schedule ?a) (ap_schedules (ct_api c))"
    by (simp_all add: same_memory_def set_schedules_def)
qed

section \<open>Reachable inventories\<close>

text \<open>
  A server that started with empty tables and handles its requests one after the other. A restart,
  which reads the tables back (\<open>restore_targets\<close>, \<open>restore_schedules\<close>, \<open>restore_update_policies\<close>),
  is not a step, and requests are not interleaved.
\<close>

definition controller_start :: "controller \<Rightarrow> bool" where
  "controller_start c \<longleftrightarrow> ap_targets (ct_api c) = [] \<and> ap_schedules (ct_api c) = []
     \<and> ap_update_policies (ct_api c) = [] \<and> cd_targets (ct_db c) = [] \<and> cd_schedules (ct_db c) = []
     \<and> cd_policies (ct_db c) = []"

inductive controller_reachable :: "controller \<Rightarrow> bool" where
  start: "controller_start c \<Longrightarrow> controller_reachable c"
| create_target: "controller_reachable c \<Longrightarrow> fresh \<notin> target_ids c
    \<Longrightarrow> controller_reachable (snd (create_target up fresh now role r c))"
| delete_target: "controller_reachable c
    \<Longrightarrow> controller_reachable (snd (delete_target env up now role text confirmed c))"
| heartbeat: "controller_reachable c
    \<Longrightarrow> controller_reachable (snd (receive_agent_heartbeat read_secret up now hs hb c))"
| create_schedule: "controller_reachable c
    \<Longrightarrow> controller_reachable (snd (create_schedule metadata_of read_secret up now role sq c))"
| set_enabled: "controller_reachable c
    \<Longrightarrow> controller_reachable (snd (set_schedule_enabled up role i enabled c))"
| create_policy: "controller_reachable c
    \<Longrightarrow> controller_reachable (snd (create_update_policy up role pq c))"
| delete_policy: "controller_reachable c
    \<Longrightarrow> controller_reachable (snd (delete_update_policy up now role i confirmed c))"
| ensure_default: "controller_reachable c
    \<Longrightarrow> controller_reachable (snd (ensure_default_update_policies up c))"
| changed_secret: "controller_reachable c
    \<Longrightarrow> controller_reachable (invalidate_targets_for_secret up now secret c)"
| dispatch: "controller_reachable c
    \<Longrightarrow> controller_reachable (snd (dispatch_due_schedules denv d now c))"

lemma controller_start_ok: "controller_start c \<Longrightarrow> controller_ok c"
  by (simp add: controller_start_def controller_ok_def tables_ok_def lists_ok_def standard_ok_def target_ids_def)

lemma controller_reachable_ok: "controller_reachable c \<Longrightarrow> controller_ok c"
proof (induction rule: controller_reachable.induct)
  case (create_target c fresh up now role r)
  then show ?case
    using create_target_spec[of c fresh up now role r] by (cases "create_target up fresh now role r c") auto
next
  case (ensure_default c up)
  then show ?case
    using ensure_default_spec[of c up] by (cases "ensure_default_update_policies up c") auto
next
  case (dispatch c denv d now)
  then show ?case
    using dispatch_due_schedules_spec[of c denv d now] by (cases "dispatch_due_schedules denv d now c") auto
qed (simp_all add: controller_start_ok delete_target_ok receive_agent_heartbeat_ok create_schedule_ok
    set_schedule_enabled_ok create_update_policy_ok delete_update_policy_ok invalidate_spec(1))

end
