(* ===== verification/InventoryLaws.thy ===== *)
theory InventoryLaws
  imports ScheduleLaws
begin

text \<open>
  The properties of the inventory: its invariant, the standard policy, complete deletion, what a
  changed secret stops, and what a pass of the scheduler does.
\<close>

section \<open>A concrete server\<close>

definition text_ids :: ansible_env where
  "text_ids = \<lparr>ae_to_vec = (\<lambda>_. []), ae_sha256 = (\<lambda>_. []), ae_uuid_to_string = (\<lambda>i. lit ''a''),
     ae_uuid_parse = (\<lambda>s. if s = lit ''a'' then Some 7 else None)\<rparr>"

definition empty_api :: "job_db option \<Rightarrow> api_state" where
  "empty_api db = \<lparr>ap_targets = [], ap_containers = [], ap_update_policies = [], ap_schedules = [],
     ap_ansible = job_coordinator_default, ap_repositories = db\<rparr>"

definition empty_controller :: "job_db option \<Rightarrow> controller" where
  "empty_controller db = \<lparr>ct_api = empty_api db, ct_agent_reports = [], ct_package_inventories = [],
     ct_enrollments = [], ct_enrollment_keys = [], ct_db = controller_db_empty\<rparr>"

definition host_request :: create_target_request where
  "host_request = \<lparr>tq_name = lit ''host'', tq_kind = LinuxServer, tq_address = lit ''192.0.2.1'',
     tq_transport = Ssh, tq_ssh_user = None, tq_credential_secret_ref = Some 3,
     tq_ssh_known_hosts_secret_ref = None, tq_agent_secret_ref = 4\<rparr>"

definition check_request :: create_schedule_request where
  "check_request = \<lparr>sq_id = lit ''check'', sq_operation = lit ''health_check'', sq_timezone = lit ''UTC'',
     sq_target_ids = [7], sq_every_minutes = 5, sq_enabled = True, sq_threshold = None,
     sq_policy_id = None, sq_backup_secret_ref = None\<rparr>"

definition backup_request :: create_schedule_request where
  "backup_request = \<lparr>sq_id = lit ''backup'', sq_operation = lit ''create_backup'', sq_timezone = lit ''UTC'',
     sq_target_ids = [], sq_every_minutes = 60, sq_enabled = True, sq_threshold = None,
     sq_policy_id = None, sq_backup_secret_ref = Some 9\<rparr>"

definition backup_secret :: stored_secret_metadata where
  "backup_secret = \<lparr>st_metadata = \<lparr>sm_id = 9, sm_name = lit ''backup'', sm_kind = BackupPassphrase,
     sm_scope = GlobalScope, sm_created_at = 0, sm_updated_at = 0\<rparr>, st_status = SecActive\<rparr>"

definition some_metadata :: metadata_reader where
  "some_metadata i = (if i = 9 then Inr backup_secret else Inl SecMissing)"

definition some_secrets :: secret_reader where
  "some_secrets i = (if i = 9 then Inr (SecretValue (lit ''correct horse battery'')) else Inl SecMissing)"

definition all_up :: store_calls where
  "all_up _ = True"

definition with_target :: "job_db option \<Rightarrow> controller" where
  "with_target db = snd (create_target all_up 7 0 Admin host_request (empty_controller db))"

definition with_schedules :: "job_db option \<Rightarrow> controller" where
  "with_schedules db =
     snd (create_schedule some_metadata some_secrets all_up 0 Admin backup_request
       (snd (create_schedule some_metadata some_secrets all_up 0 Admin check_request (with_target db))))"

lemma empty_controller_start: "controller_start (empty_controller db)"
  by (simp add: controller_start_def empty_controller_def empty_api_def controller_db_empty_def)

lemma with_target_reachable: "controller_reachable (with_target db)"
  unfolding with_target_def
  by (rule controller_reachable.create_target[OF controller_reachable.start[OF empty_controller_start]])
    (simp add: target_ids_def empty_controller_def empty_api_def)

lemma with_schedules_reachable: "controller_reachable (with_schedules db)"
  unfolding with_schedules_def
  by (intro controller_reachable.create_schedule with_target_reachable)

definition stored_target :: controller where
  "stored_target = with_target (Some job_db_empty)"

definition stored_schedules :: controller where
  "stored_schedules = with_schedules (Some job_db_empty)"

lemma stored_schedules_reachable: "controller_reachable stored_schedules"
  unfolding stored_schedules_def by (rule with_schedules_reachable)

text \<open>The two states in normal form, which the evaluations below start from.\<close>

definition host :: "uuid \<Rightarrow> uuid \<Rightarrow> uuid \<Rightarrow> target_state \<Rightarrow> target" where
  "host i credential agent st = \<lparr>tg_id = i, tg_name = lit ''host'', tg_kind = LinuxServer,
     tg_address = lit ''192.0.2.1'', tg_transport = Ssh, tg_ssh_user = None,
     tg_credential_secret_ref = Some credential, tg_ssh_known_hosts_secret_ref = None,
     tg_agent_secret_ref = agent, tg_state = st, tg_created_at = 0, tg_updated_at = 0\<rparr>"

definition stored_controller :: "job_schedule list \<Rightarrow> controller" where
  "stored_controller ss =
     \<lparr>ct_api = \<lparr>ap_targets = [host 7 3 4 TargetPending], ap_containers = [],
        ap_update_policies = [default_update_policy [7]], ap_schedules = ss,
        ap_ansible = job_coordinator_default,
        ap_repositories = Some (job_db_empty\<lparr>jd_targets := [(7, LinuxServer)]\<rparr>)\<rparr>,
      ct_agent_reports = [], ct_package_inventories = [], ct_enrollments = [], ct_enrollment_keys = [],
      ct_db = controller_db_empty\<lparr>cd_targets := [host 7 3 4 TargetPending], cd_schedules := ss,
        cd_policies := [default_update_policy [7]]\<rparr>\<rparr>"

lemma stored_target_code [code]: "stored_target = stored_controller []"
  unfolding stored_target_def by code_simp

lemma stored_schedules_code [code]:
  "stored_schedules = stored_controller [schedule_of_request 0 check_request, schedule_of_request 0 backup_request]"
  unfolding stored_schedules_def by code_simp

section \<open>Properties\<close>

text \<open>
  Whatever requests, heartbeats, secret changes and scheduler passes a server handles one after the
  other that started with empty tables, and whatever the database refuses, the inventory stays
  well-formed: targets have unique ids and the
  credentials their transport needs, schedules and policies have unique ids and name registered
  targets only, intervals are positive, the standard policy has no duplicates, and with a database
  the tables satisfy the same and hold the same targets.
\<close>

theorem inventory_invariant:
  assumes "controller_reachable c"
  shows "controller_ok c"
  using assms by (rule controller_reachable_ok)

theorem inventory_invariant_witness:
  "controller_ok stored_schedules \<and> target_ids (with_target None) = {7}"
  using inventory_invariant[OF stored_schedules_reachable]
  by (simp add: target_ids_def) code_simp

text \<open>
  A created target is covered by the standard policy: when the request succeeds, the role may
  configure, the target is well-formed and appended, and the standard policy allows exactly the
  registered targets. An existing standard policy keeps its other settings, and no other policy
  changes.
\<close>

theorem new_target_gets_standard_policy:
  assumes "controller_reachable c" "fresh \<notin> target_ids c"
    and "create_target up fresh now role r c = (Inr t, c')"
  shows "grants role Configure \<and> target_ok t \<and> ap_targets (ct_api c') = ap_targets (ct_api c) @ [t]
     \<and> (\<exists>p. standard_policy (ap_update_policies (ct_api c')) = Some p
          \<and> set (po_allowed_targets p) = set (map tg_id (ap_targets (ct_api c')))
          \<and> (\<forall>q. standard_policy (ap_update_policies (ct_api c)) = Some q
               \<longrightarrow> p = q\<lparr>po_allowed_targets := po_allowed_targets p\<rparr>))
     \<and> filter (\<lambda>q. po_id q \<noteq> STANDARD_UPDATE_POLICY_ID) (ap_update_policies (ct_api c')) =
       filter (\<lambda>q. po_id q \<noteq> STANDARD_UPDATE_POLICY_ID) (ap_update_policies (ct_api c))"
  using create_target_spec[OF controller_reachable_ok[OF assms(1)] assms(2,3)]
  unfolding standard_covers_def target_ids_def by blast

theorem new_target_gets_standard_policy_witness:
  "\<exists>p. standard_policy (ap_update_policies (ct_api stored_target)) = Some p
     \<and> set (po_allowed_targets p) = {7}"
proof -
  have run: "create_target all_up 7 0 Admin host_request (empty_controller (Some job_db_empty)) =
      (Inr (hd (ap_targets (ct_api stored_target))), stored_target)"
    unfolding stored_target_def with_target_def by code_simp
  have fresh: "7 \<notin> target_ids (empty_controller (Some job_db_empty))"
    by (simp add: target_ids_def empty_controller_def empty_api_def)
  have ids: "set (map tg_id (ap_targets (ct_api stored_target))) = {7}"
    by code_simp
  show ?thesis
    using new_target_gets_standard_policy[OF controller_reachable.start[OF empty_controller_start] fresh run]
    unfolding ids by blast
qed

text \<open>
  What no longer mentions a target, in memory and in the tables. The package inventories in memory
  (\<open>ct_package_inventories\<close>) are not part of it: no operation removes an inventory there.
\<close>

definition memory_free :: "uuid \<Rightarrow> controller \<Rightarrow> bool" where
  "memory_free i c \<longleftrightarrow> i \<notin> target_ids c
     \<and> (\<forall>s \<in> set (ap_schedules (ct_api c)). i \<notin> set (sd_target_ids s))
     \<and> (\<forall>p \<in> set (ap_update_policies (ct_api c)). i \<notin> set (po_allowed_targets p))
     \<and> hm_get (ct_agent_reports c) i = None
     \<and> (\<forall>e \<in> set (ct_enrollments c). en_target_id e \<noteq> Some i)
     \<and> (\<forall>k j. hm_get (jc_jobs (ap_ansible (ct_api c))) k = Some j \<longrightarrow> aj_target j \<noteq> Target i)"

definition tables_free :: "uuid \<Rightarrow> controller \<Rightarrow> bool" where
  "tables_free i c \<longleftrightarrow> i \<notin> set (map tg_id (cd_targets (ct_db c)))
     \<and> (\<forall>s \<in> set (cd_schedules (ct_db c)). i \<notin> set (sd_target_ids s))
     \<and> (\<forall>p \<in> set (cd_policies (ct_db c)). i \<notin> set (po_allowed_targets p))
     \<and> (\<forall>x \<in> set (cd_samples (ct_db c)). fst x \<noteq> i) \<and> (\<forall>x \<in> set (cd_docker_samples (ct_db c)). fst x \<noteq> i)
     \<and> (\<forall>x \<in> set (cd_inventories (ct_db c)). pis_target_id x \<noteq> i)
     \<and> (\<forall>db. ap_repositories (ct_api c) = Some db \<longrightarrow> (\<forall>r \<in> set (jd_jobs db). jw_target_id r \<noteq> Some i))"

lemma without_free:
  "s \<in> set (schedules_without i ps ss) \<Longrightarrow> i \<notin> set (sd_target_ids s)"
  "p \<in> set (policies_without i ps) \<Longrightarrow> i \<notin> set (po_allowed_targets p)"
  by (auto simp: in_schedules_without in_policies_without drop_target_from_schedule_def
      drop_target_from_policy_def)

text \<open>The same lists by the entries they had before.\<close>

lemma kept_schedule_iff:
  "s \<in> set (schedules_without i ps ss) \<longleftrightarrow>
     (\<exists>r \<in> set ss. s = drop_target_from_schedule i r \<and> \<not> set (sd_target_ids r) \<subseteq> {i}
        \<and> (\<forall>q \<in> set ps. po_allowed_targets q = [i] \<longrightarrow> sd_policy_id r \<noteq> Some (po_id q)))"
proof -
  have "sd_target_ids (drop_target_from_schedule i r) \<noteq> [] \<longleftrightarrow> \<not> set (sd_target_ids r) \<subseteq> {i}"
    and "sd_policy_id (drop_target_from_schedule i r) = sd_policy_id r" for r
    by (auto simp: drop_target_from_schedule_def filter_empty_conv)
  then show ?thesis by (simp add: in_schedules_without only_target_def cong: conj_cong)
qed

lemma kept_policy_iff:
  "p \<in> set (policies_without i ps) \<longleftrightarrow>
     (\<exists>r \<in> set ps. p = drop_target_from_policy i r
        \<and> (\<forall>q \<in> set ps. po_allowed_targets q = [i] \<longrightarrow> po_id q \<noteq> po_id r))"
  by (fastforce simp: in_policies_without only_target_def drop_target_from_policy_def)

lemma deleted_memory_free:
  assumes "job_coordinator_ok (ap_ansible (ct_api c))"
    and "remove_target_jobs i (ap_ansible (ct_api c)) = Inr a"
  shows "memory_free i (forget_target i (c1\<lparr>ct_api := (ct_api c1)\<lparr>ap_ansible := a\<rparr>\<rparr>))"
  using remove_target_jobs_Inr(1)[OF assms(2,1)]
  by (auto simp: memory_free_def forget_target_def Let_def target_ids_def dest: without_free
      split: option.splits if_splits)

lemma deleted_tables_free:
  assumes "delete_rows env up now role i c = (Inr u, c1)" "has_database c"
  shows "tables_free i (forget_target i (c1\<lparr>ct_api := (ct_api c1)\<lparr>ap_ansible := a\<rparr>\<rparr>))"
  using delete_rows_done[OF assms(1)] assms(2)
  by (auto simp: tables_free_def forget_target_def Let_def tables_without_def cascade_target_def
      has_database_def dest: without_free dest!: found_in_list)

text \<open>
  C26. Deleting a target, handled as one step, is all or nothing. A refused request changes nothing. A
  successful one was confirmed by a role that may destroy and named a registered target without
  active jobs. It removes this target and its jobs and leaves no schedule, policy, report,
  enrollment or stored row that mentions it; the other targets and their jobs stay. A policy that
  allowed only this target is removed; the other policies just lose the target. A schedule of a
  removed policy is removed, and so is every schedule that names no other target, even one that
  named none before; the other schedules just lose the target. The package inventories kept in
  memory, that of the target included, are not touched.
\<close>

theorem delete_target_complete:
  assumes "job_coordinator_ok (ap_ansible (ct_api c))"
    and "delete_target env up now role target_text confirmed c = (x, c')"
  shows "case x of
     Inl e \<Rightarrow> c' = c
   | Inr _ \<Rightarrow> \<exists>i. ae_uuid_parse env target_text = Some i \<and> confirmed \<and> grants role Destructive
       \<and> i \<in> target_ids c \<and> \<not> target_has_active_jobs (ap_ansible (ct_api c)) i
       \<and> ap_targets (ct_api c') = filter (\<lambda>t. tg_id t \<noteq> i) (ap_targets (ct_api c))
       \<and> memory_free i c' \<and> (has_database c \<longrightarrow> tables_free i c')
       \<and> (\<forall>p. p \<in> set (ap_update_policies (ct_api c')) \<longleftrightarrow>
            (\<exists>r \<in> set (ap_update_policies (ct_api c)). p = drop_target_from_policy i r
               \<and> (\<forall>q \<in> set (ap_update_policies (ct_api c)). po_allowed_targets q = [i] \<longrightarrow> po_id q \<noteq> po_id r)))
       \<and> (\<forall>s. s \<in> set (ap_schedules (ct_api c')) \<longleftrightarrow>
            (\<exists>r \<in> set (ap_schedules (ct_api c)). s = drop_target_from_schedule i r \<and> \<not> set (sd_target_ids r) \<subseteq> {i}
               \<and> (\<forall>q \<in> set (ap_update_policies (ct_api c)).
                    po_allowed_targets q = [i] \<longrightarrow> sd_policy_id r \<noteq> Some (po_id q))))
       \<and> ct_package_inventories c' = ct_package_inventories c
       \<and> (\<forall>k j. hm_get (jc_jobs (ap_ansible (ct_api c))) k = Some j \<and> aj_target j \<noteq> Target i
            \<longrightarrow> hm_get (jc_jobs (ap_ansible (ct_api c'))) k = Some j)"
  using delete_target_cases[OF assms(2)]
proof (elim disjE exE conjE)
  fix i a c1
  let ?c = "forget_target i (c1\<lparr>ct_api := (ct_api c1)\<lparr>ap_ansible := a\<rparr>\<rparr>)"
  assume x: "x = Inr ()" and g: "grants role Destructive" "confirmed" "ae_uuid_parse env target_text = Some i"
    and t: "find_target i (ct_api c) \<noteq> None" and a: "remove_target_jobs i (ap_ansible (ct_api c)) = Inr a"
    and rows: "delete_rows env up now role i c = (Inr (), c1)" and c': "c' = ?c"
  note R = remove_target_jobs_Inr[OF a assms(1)]
  have ids: "i \<in> target_ids c"
    using t by (auto simp: find_target_def target_ids_def find_None_iff)
  have targets: "ap_targets (ct_api ?c) = filter (\<lambda>t. tg_id t \<noteq> i) (ap_targets (ct_api c))"
    and jobs: "ap_ansible (ct_api ?c) = a"
    and lists: "ap_schedules (ct_api ?c) = schedules_without i (ap_update_policies (ct_api c)) (ap_schedules (ct_api c))"
      "ap_update_policies (ct_api ?c) = policies_without i (ap_update_policies (ct_api c))"
    and inventories: "ct_package_inventories ?c = ct_package_inventories c"
    using delete_rows_done[OF rows] by (auto simp: forget_target_def Let_def)
  have keep: "\<forall>k j. hm_get (jc_jobs (ap_ansible (ct_api c))) k = Some j \<and> aj_target j \<noteq> Target i
      \<longrightarrow> hm_get (jc_jobs a) k = Some j"
    using R(1) by simp
  show ?thesis
    unfolding x c' sum.case
    using g ids R(4) targets deleted_memory_free[OF assms(1) a] deleted_tables_free[OF rows] keep jobs inventories
    by (auto simp: lists kept_schedule_iff kept_policy_iff)
qed simp

theorem delete_target_complete_witness:
  "memory_free 7 (snd (delete_target text_ids all_up 0 Admin (lit ''a'') True stored_schedules))
   \<and> tables_free 7 (snd (delete_target text_ids all_up 0 Admin (lit ''a'') True stored_schedules))"
proof -
  let ?c = "stored_schedules"
  have co: "ap_ansible (ct_api ?c) = job_coordinator_default" by code_simp
  have ok: "job_coordinator_ok (ap_ansible (ct_api ?c))"
    unfolding co by (rule job_coordinator_default_ok)
  have run: "delete_target text_ids all_up 0 Admin (lit ''a'') True ?c =
      (Inr (), snd (delete_target text_ids all_up 0 Admin (lit ''a'') True ?c))"
    by code_simp
  have id: "ae_uuid_parse text_ids (lit ''a'') = Some 7" by code_simp
  have db: "has_database ?c" by code_simp
  show ?thesis using delete_target_complete[OF ok run] id db by simp
qed

text \<open>
  Deleting any target also deletes every schedule without targets, in memory and in the
  database. Schedules of backups are exactly these, so removing one host silently ends all scheduled
  backups, although the schedules never referred to the host.
\<close>

theorem deletion_ends_scheduled_backups:
  assumes "delete_target env up now role target_text confirmed c = (Inr u, c')"
  shows "(\<forall>s \<in> set (ap_schedules (ct_api c')). sd_target_ids s \<noteq> [])
     \<and> (has_database c \<longrightarrow> (\<forall>s \<in> set (cd_schedules (ct_db c')). sd_target_ids s \<noteq> []))"
  using delete_target_cases[OF assms]
proof (elim disjE exE conjE)
  fix i a c1
  assume rows: "delete_rows env up now role i c = (Inr (), c1)"
    and c': "c' = forget_target i (c1\<lparr>ct_api := (ct_api c1)\<lparr>ap_ansible := a\<rparr>\<rparr>)"
  show ?thesis
    using delete_rows_done[OF rows]
    by (auto simp: c' forget_target_def Let_def tables_without_def in_schedules_without has_database_def
        dest!: found_in_list)
qed simp

theorem deletion_ends_scheduled_backups_witness:
  "map sd_id (ap_schedules (ct_api stored_schedules)) = [lit ''check'', lit ''backup'']
   \<and> ap_schedules (ct_api (snd (delete_target text_ids all_up 0 Admin (lit ''a'') True
       stored_schedules))) = []"
proof -
  let ?c = "stored_schedules"
  let ?d = "delete_target text_ids all_up 0 Admin (lit ''a'') True ?c"
  have run: "?d = (Inr (), snd ?d)" by code_simp
  have ids: "\<forall>s \<in> set (ap_schedules (ct_api (snd ?d))). sd_target_ids s = []" by code_simp
  have "map sd_id (ap_schedules (ct_api ?c)) = [lit ''check'', lit ''backup'']" by code_simp
  moreover have "set (ap_schedules (ct_api (snd ?d))) = {}"
    using deletion_ends_scheduled_backups[OF run] ids by auto
  ultimately show ?thesis by simp
qed

text \<open>
  When the database refuses a new schedule, the request fails, but the schedule stays in memory:
  the scheduler treats it like every other schedule, the table has no row of it, and repeating the
  request is refused because the id exists. After a restart the schedule is gone.
\<close>

theorem unsaved_schedule_is_active:
  assumes "check_schedule metadata_of read_secret role r (ct_api c) = Inr u"
    and "has_database c" "\<not> up (CallSaveSchedule 0)"
  shows "\<exists>c'. create_schedule metadata_of read_secret up now role r c = (Inl storage, c')
     \<and> ct_db c' = ct_db c \<and> schedule_of_request now r \<in> set (ap_schedules (ct_api c'))
     \<and> (sq_enabled r \<longrightarrow> is_due (schedule_of_request now r) (now + schedule_interval (EveryMinutes (sq_every_minutes r))))
     \<and> fst (create_schedule metadata_of read_secret up' now' role r c') =
         Inl (conflict (lit ''schedule_exists'') (lit ''schedule id already exists''))"
proof -
  let ?s = "schedule_of_request now r"
  let ?c = "set_schedules (ap_schedules (ct_api c) @ [?s]) c"
  have minutes: "sq_every_minutes r \<le> 10080" using check_scheduleD[OF assms(1)] by simp
  have "uint (sq_every_minutes r) \<le> uint (10080 :: u32)"
    using minutes by (simp add: word_le_def)
  then have "create_schedule metadata_of read_secret up now role r c = (Inl storage, ?c)"
    using assms by (simp add: create_schedule_def save_schedule_def Let_def db_write_def schedule_of_request_def)
  moreover have "check_schedule metadata_of read_secret role r (ct_api ?c) =
      Inl (conflict (lit ''schedule_exists'') (lit ''schedule id already exists''))"
    using assms(1)
    by (auto simp: check_schedule_def bindR_Inr_iff validate_schedule_resources_def set_schedules_def
        schedule_of_request_def require_permission_def split: if_splits)
  ultimately show ?thesis
    by (auto simp: set_schedules_def is_due_def schedule_of_request_def create_schedule_def)
qed

theorem unsaved_schedule_is_active_witness:
  "\<exists>c'. create_schedule some_metadata some_secrets (\<lambda>_. False) 0 Admin check_request
       stored_target = (Inl storage, c')
     \<and> cd_schedules (ct_db c') = [] \<and> schedule_of_request 0 check_request \<in> set (ap_schedules (ct_api c'))"
proof -
  let ?c = "stored_target"
  have check: "check_schedule some_metadata some_secrets Admin check_request (ct_api ?c) = Inr ()" by code_simp
  have db: "has_database ?c" by code_simp
  have rows: "cd_schedules (ct_db ?c) = []" by code_simp
  show ?thesis
    using unsaved_schedule_is_active[OF check db, of "\<lambda>_. False" 0 all_up 0] rows by (metis (full_types))
qed

text \<open>
  After a secret was rotated or revoked, no target that used it gets scheduled work: its
  schedules are disabled, targets whose agent used it are no longer managed, and no later pass of the
  scheduler creates a job for such a target, at any time.
\<close>

theorem changed_secret_stops_schedules:
  assumes "controller_reachable c" "t \<in> set (ap_targets (ct_api c))" "uses_secret secret t"
    and "dispatch_due_schedules env d later (invalidate_targets_for_secret up now secret c) = (k, c')"
  shows "(\<forall>s \<in> set (ap_schedules (ct_api (invalidate_targets_for_secret up now secret c))).
            tg_id t \<in> set (sd_target_ids s) \<longrightarrow> \<not> sd_enabled s)
     \<and> (\<forall>x \<in> set (ap_targets (ct_api (invalidate_targets_for_secret up now secret c))).
            tg_agent_secret_ref x = secret \<longrightarrow> tg_state x \<noteq> TargetManaged)
     \<and> (\<forall>j. new_job (invalidate_targets_for_secret up now secret c) c' j \<longrightarrow> aj_target j \<noteq> Target (tg_id t))"
proof -
  let ?c = "invalidate_targets_for_secret up now secret c"
  note I = invalidate_spec[OF controller_reachable_ok[OF assms(1)], of up now secret]
  have off: "\<forall>s \<in> set (ap_schedules (ct_api ?c)). tg_id t \<in> set (sd_target_ids s) \<longrightarrow> \<not> sd_enabled s"
    using assms(2,3) by (auto simp: I(3) disable_schedule_enabled)
  have "tg_id t \<in> set (sd_target_ids s)"
    if "scheduled_job later s ?c j" "aj_target j = Target (tg_id t)" for s j
    using that by (auto simp: scheduled_job_def)
  moreover have "\<exists>s \<in> set (ap_schedules (ct_api ?c)). sd_enabled s \<and> scheduled_job later s ?c j"
    if "new_job ?c c' j" for j
    using dispatch_due_schedules_spec[OF I(1) assms(4)] that unfolding is_due_def by blast
  ultimately have "aj_target j \<noteq> Target (tg_id t)" if "new_job ?c c' j" for j
    using that off by metis
  moreover have "tg_state x \<noteq> TargetManaged"
    if x: "x \<in> set (ap_targets (ct_api ?c))" "tg_agent_secret_ref x = secret" for x
  proof -
    obtain y where "x = reset_agent_target_if_needed now secret y" using x(1) I(2) by auto
    then show ?thesis
      using x(2) by (simp add: reset_agent_target_if_needed_def needs_reset_def split: if_splits)
  qed
  ultimately show ?thesis using off by blast
qed

text \<open>Two managed hosts with one schedule each; the scheduler runs without a database.\<close>

definition agent_secrets :: secret_reader where
  "agent_secrets i = Inr (SecretValue (if i = 4 then lit ''one'' else lit ''two''))"

definition agent_headers :: "str \<Rightarrow> headers" where
  "agent_headers token = [(lit ''authorization'', lit ''Bearer '' @ token)]"

definition quiet_heartbeat :: "uuid \<Rightarrow> agent_heartbeat" where
  "quiet_heartbeat i = \<lparr>hb_target_id = i,
     hb_info = \<lparr>ai_agent_id = [], ai_platform = PlatformLinux, ai_hostname = [], ai_version = [], ai_protocol_version = []\<rparr>,
     hb_sent_at = 0, hb_telemetry = \<lparr>sw_samples = [], sw_partial = False\<rparr>, hb_docker_telemetry = [],
     hb_package_inventory = None\<rparr>"

definition second_request :: create_target_request where
  "second_request = host_request\<lparr>tq_credential_secret_ref := Some 5, tq_agent_secret_ref := 6\<rparr>"

definition two_hosts :: controller where
  "two_hosts =
     (let c1 = snd (create_target all_up 8 0 Admin second_request (with_target None));
          c2 = snd (receive_agent_heartbeat agent_secrets all_up 0 (agent_headers (lit ''one'')) (quiet_heartbeat 7) c1);
          c3 = snd (receive_agent_heartbeat agent_secrets all_up 0 (agent_headers (lit ''two'')) (quiet_heartbeat 8) c2);
          c4 = snd (create_schedule some_metadata some_secrets all_up 0 Admin check_request c3)
      in snd (create_schedule some_metadata some_secrets all_up 0 Admin
           (check_request\<lparr>sq_id := lit ''second'', sq_target_ids := [8]\<rparr>) c4))"

definition plain_dispatch :: dispatch_env where
  "plain_dispatch = \<lparr>de_fresh = (\<lambda>m _. if m = 0 then 100 else 101), de_jobs_up = (\<lambda>_ _ _. True),
     de_store_up = (\<lambda>_ _. True), de_discover = (\<lambda>_. None), de_backup = (\<lambda>_. None)\<rparr>"

lemma two_hosts_reachable: "controller_reachable two_hosts"
  unfolding two_hosts_def Let_def
  by (intro controller_reachable.create_schedule controller_reachable.heartbeat controller_reachable.create_target
      with_target_reachable) code_simp

lemma two_hosts_code [code]:
  "two_hosts =
     \<lparr>ct_api = \<lparr>ap_targets = [host 7 3 4 TargetManaged, host 8 5 6 TargetManaged], ap_containers = [],
        ap_update_policies = [default_update_policy [7, 8]],
        ap_schedules = [schedule_of_request 0 check_request,
          schedule_of_request 0 (check_request\<lparr>sq_id := lit ''second'', sq_target_ids := [8]\<rparr>)],
        ap_ansible = job_coordinator_default, ap_repositories = None\<rparr>,
      ct_agent_reports = [(7, quiet_heartbeat 7), (8, quiet_heartbeat 8)], ct_package_inventories = [],
      ct_enrollments = [], ct_enrollment_keys = [], ct_db = controller_db_empty\<rparr>"
  by code_simp

lemma two_hosts_dispatch:
  "map (\<lambda>j. aj_target j) (jc_jobs_list (ap_ansible (ct_api (snd (dispatch_due_schedules text_ids plain_dispatch
     (minutes 5) (invalidate_targets_for_secret all_up 1 4 two_hosts)))))) = [Target 8]"
  by code_simp

theorem changed_secret_stops_schedules_witness:
  "\<not> (\<exists>j. new_job (invalidate_targets_for_secret all_up 1 4 two_hosts)
      (snd (dispatch_due_schedules text_ids plain_dispatch (minutes 5)
         (invalidate_targets_for_secret all_up 1 4 two_hosts))) j \<and> aj_target j = Target 7)"
proof -
  let ?t = "hd (ap_targets (ct_api two_hosts))"
  let ?d = "dispatch_due_schedules text_ids plain_dispatch (minutes 5) (invalidate_targets_for_secret all_up 1 4 two_hosts)"
  have t: "?t \<in> set (ap_targets (ct_api two_hosts))" by code_simp
  have uses: "uses_secret 4 ?t" and i: "tg_id ?t = 7" by code_simp+
  have run: "?d = (fst ?d, snd ?d)" by simp
  show ?thesis using changed_secret_stops_schedules[OF two_hosts_reachable t uses run] unfolding i by blast
qed

text \<open>
  C27. The scheduler never applies an update. Every job that a pass adds belongs to a due schedule and
  to one of its managed targets, waits in the queue, and either checks (health, inventory) or plans an
  update of exactly the packages its policy lists, each of which the policy allows at this moment.
\<close>

theorem scheduler_only_checks_and_plans:
  assumes "controller_reachable c" "dispatch_due_schedules env d now c = (k, c')" "new_job c c' j"
  shows "\<exists>s \<in> set (ap_schedules (ct_api c)). \<exists>t \<in> set (ap_targets (ct_api c)).
     is_due s now \<and> tg_id t \<in> set (sd_target_ids s) \<and> tg_state t = TargetManaged
     \<and> aj_target j = Target (tg_id t) \<and> aj_status j = JQueued
     \<and> (aj_operation j \<in> {OpHealthCheck, OpCollectPackageInventory} \<and> aj_mode j = ModeCheck
        \<or> aj_operation j = OpUpdatePackages \<and> aj_mode j = ModePlan
          \<and> (\<exists>p \<in> set (ap_update_policies (ct_api c)). sd_policy_id s = Some (po_id p)
               \<and> aj_parameters j = ParamUpdatePackages (po_allowed_packages p)
               \<and> (\<forall>x \<in> set (po_allowed_packages p). policy_allows p (tg_id t) x High now)))"
proof -
  obtain s where s: "s \<in> set (ap_schedules (ct_api c))" "is_due s now" "scheduled_job now s c j"
    using dispatch_due_schedules_spec[OF controller_reachable_ok[OF assms(1)] assms(2)] assms(3) by blast
  from s(3) obtain t where t: "t \<in> set (ap_targets (ct_api c))" "tg_id t \<in> set (sd_target_ids s)"
    "tg_state t = TargetManaged" "aj_target j = Target (tg_id t)" "aj_status j = JQueued"
    and kind: "aj_operation j \<in> {OpHealthCheck, OpCollectPackageInventory} \<and> aj_mode j = ModeCheck
      \<or> aj_operation j = OpUpdatePackages \<and> aj_mode j = ModePlan
        \<and> (\<exists>p \<in> set (ap_update_policies (ct_api c)). sd_policy_id s = Some (po_id p)
             \<and> aj_parameters j = ParamUpdatePackages (po_allowed_packages p)
             \<and> (\<forall>x \<in> set (po_allowed_packages p). policy_allows p (tg_id t) x High now))"
    unfolding scheduled_job_def by (elim bexE conjE) (rule that)
  show ?thesis
    by (rule bexI[OF _ s(1)], rule bexI[OF _ t(1)]) (intro conjI s(2) t(2-5) kind)
qed

lemma two_hosts_jobs:
  "hm_get (jc_jobs (ap_ansible (ct_api two_hosts))) 100 = None"
  "map_option aj_target (hm_get (jc_jobs (ap_ansible (ct_api (snd (dispatch_due_schedules text_ids plain_dispatch
     (minutes 5) two_hosts))))) 100) = Some (Target 7)"
  by code_simp+

theorem scheduler_only_checks_and_plans_witness:
  "\<exists>j. new_job two_hosts (snd (dispatch_due_schedules text_ids plain_dispatch (minutes 5) two_hosts)) j
     \<and> aj_target j = Target 7 \<and> aj_mode j \<in> {ModeCheck, ModePlan} \<and> aj_status j = JQueued"
proof -
  let ?d = "dispatch_due_schedules text_ids plain_dispatch (minutes 5) two_hosts"
  obtain j where j: "hm_get (jc_jobs (ap_ansible (ct_api (snd ?d)))) 100 = Some j" "aj_target j = Target 7"
    using two_hosts_jobs(2) by (auto simp: map_option_eq_Some)
  then have new: "new_job two_hosts (snd ?d) j" unfolding new_job_def using two_hosts_jobs(1) by auto
  have run: "?d = (fst ?d, snd ?d)" by simp
  show ?thesis
    using scheduler_only_checks_and_plans[OF two_hosts_reachable run new] new j(2) by blast
qed

text \<open>
  A pass of the scheduler settles what was due: afterwards a schedule is due only if it needs a
  worker and none was seen in the last ten seconds. Every due schedule that did not wait has moved to
  its next slot, the others are unchanged, and if none waited a second pass at the same time does
  nothing.
\<close>

theorem due_schedules_advance:
  assumes "controller_reachable c" "dispatch_due_schedules env d now c = (k, c')"
  shows "map sd_id (ap_schedules (ct_api c')) = map sd_id (ap_schedules (ct_api c))
     \<and> (\<forall>x \<in> set (ap_schedules (ct_api c')). is_due x now
          \<longrightarrow> x \<in> set (ap_schedules (ct_api c)) \<and> (\<exists>m. schedule_waits_for_worker (de_store_up d m) now x c))
     \<and> (\<forall>x \<in> set (ap_schedules (ct_api c)). if is_due x now
          then (\<exists>m. schedule_waits_for_worker (de_store_up d m) now x c)
               \<or> (\<exists>f. advance_after_run now f x \<in> set (ap_schedules (ct_api c')))
          else x \<in> set (ap_schedules (ct_api c')))
     \<and> ((\<forall>m. \<forall>x \<in> set (ap_schedules (ct_api c)). \<not> schedule_waits_for_worker (de_store_up d m) now x c)
          \<longrightarrow> dispatch_due_schedules env d' now c' = (0, c'))"
proof -
  obtain F where F: "ap_schedules (ct_api c') = map F (ap_schedules (ct_api c))"
    "\<And>x. x \<in> set (ap_schedules (ct_api c)) \<Longrightarrow> if is_due x now
       then F x = x \<and> (\<exists>m. schedule_waits_for_worker (de_store_up d m) now x c) \<or> (\<exists>f. F x = advance_after_run now f x)
       else F x = x"
    using dispatch_due_schedules_spec[OF controller_reachable_ok[OF assms(1)] assms(2)] by blast
  have ids: "sd_id (F x) = sd_id x" if "x \<in> set (ap_schedules (ct_api c))" for x
    using F(2)[OF that] by (auto split: if_splits)
  have due: "x = F x \<and> (\<exists>m. schedule_waits_for_worker (de_store_up d m) now x c)"
    if "x \<in> set (ap_schedules (ct_api c))" "is_due (F x) now" for x
    using F(2)[OF that(1)] that(2) advance_after_run_not_due by (auto split: if_splits)
  have left: "x \<in> set (ap_schedules (ct_api c)) \<and> (\<exists>m. schedule_waits_for_worker (de_store_up d m) now x c)"
    if "x \<in> set (ap_schedules (ct_api c'))" "is_due x now" for x
    using that due unfolding F(1) by fastforce
  have moved: "if is_due x now then (\<exists>m. schedule_waits_for_worker (de_store_up d m) now x c)
      \<or> (\<exists>f. advance_after_run now f x \<in> set (ap_schedules (ct_api c'))) else x \<in> set (ap_schedules (ct_api c'))"
    if "x \<in> set (ap_schedules (ct_api c))" for x
  proof -
    have "F x \<in> set (ap_schedules (ct_api c'))" using that F(1) by simp
    then show ?thesis using F(2)[OF that] by (metis (full_types))
  qed
  have "dispatch_due_schedules env d' now c' = (0, c')"
    if "\<forall>m. \<forall>x \<in> set (ap_schedules (ct_api c)). \<not> schedule_waits_for_worker (de_store_up d m) now x c"
  proof -
    have "filter (\<lambda>s. is_due s now) (ap_schedules (ct_api c')) = []"
      using left that by (simp add: filter_empty_conv) blast
    then show ?thesis by (simp add: dispatch_due_schedules_def)
  qed
  moreover have "map sd_id (ap_schedules (ct_api c')) = map sd_id (ap_schedules (ct_api c))"
    using ids by (simp add: F(1))
  ultimately show ?thesis using left moved by blast
qed

theorem due_schedules_advance_witness:
  "fst (dispatch_due_schedules text_ids plain_dispatch (minutes 5) two_hosts) = 2
   \<and> dispatch_due_schedules text_ids plain_dispatch (minutes 5)
       (snd (dispatch_due_schedules text_ids plain_dispatch (minutes 5) two_hosts)) =
     (0, snd (dispatch_due_schedules text_ids plain_dispatch (minutes 5) two_hosts))"
proof -
  let ?d = "dispatch_due_schedules text_ids plain_dispatch (minutes 5) two_hosts"
  have two: "fst ?d = 2" by code_simp
  have run: "?d = (fst ?d, snd ?d)" by simp
  have "\<not> has_database two_hosts" by code_simp
  then have "\<not> schedule_waits_for_worker up (minutes 5) x two_hosts" for up x
    by (simp add: schedule_waits_for_worker_def scheduled_worker_available_def)
  then show ?thesis
    using due_schedules_advance[OF two_hosts_reachable run, of plain_dispatch] two by blast
qed

end
