(* ===== verification/WorkerOutput.thy ===== *)
theory WorkerOutput
  imports JobStore
begin

text \<open>
  The part of \<open>lxcup-ansible-worker\<close> that computes and keeps no state: \<open>output.rs\<close> (what the worker
  reads out of the text \<open>ansible-playbook\<close> prints), the redaction, argument, playbook and package
  inventory functions of \<open>main.rs\<close>, the binary checks of \<open>agent_artifacts.rs\<close> and the manifest check
  of \<open>artifact_store.rs\<close>. Sums of \<open>u32\<close> counters wrap, as they do in the release profile.
\<close>

section \<open>Lossy decoding (String::from\_utf8\_lossy)\<close>

text \<open>
  The library replaces every maximal prefix of a well-formed sequence that does not continue by one
  replacement character.
\<close>

definition second_ok :: "nat \<Rightarrow> nat \<Rightarrow> bool" where
  "second_ok a b \<longleftrightarrow>
     (if a = 224 then 160 \<le> b \<and> b < 192 else if a = 237 then 128 \<le> b \<and> b < 160
      else if a = 240 then 144 \<le> b \<and> b < 192 else if a = 244 then 128 \<le> b \<and> b < 144
      else continuation b)"

definition invalid_len :: "nat list \<Rightarrow> nat" where
  "invalid_len bs =
     (case bs of
        a # b # rest \<Rightarrow>
          if 224 \<le> a \<and> a < 245 \<and> second_ok a b
          then (case rest of c # _ \<Rightarrow> if 240 \<le> a \<and> continuation c then 3 else 2 | [] \<Rightarrow> 2)
          else 1
      | _ \<Rightarrow> 1)"

lemma invalid_len_pos: "0 < invalid_len bs"
  by (auto simp: invalid_len_def split: list.splits)

function lossy_bytes :: "nat list \<Rightarrow> str" where
  "lossy_bytes bs =
     (if bs = [] then []
      else (case decode_char bs of
          None \<Rightarrow> 65533 # lossy_bytes (drop (invalid_len bs) bs)
        | Some (c, rest) \<Rightarrow> c # lossy_bytes rest))"
  by pat_completeness auto

termination
  by (relation "measure length") (auto dest: decode_char_shorter simp: invalid_len_pos)

declare lossy_bytes.simps [simp del]

definition from_utf8_lossy :: "u8 list \<Rightarrow> str" where
  "from_utf8_lossy bs = lossy_bytes (map unat bs)"

lemma lossy_bytes_valid: "decode_bytes bs = Some s \<Longrightarrow> lossy_bytes bs = s"
proof (induction bs arbitrary: s rule: decode_bytes.induct)
  case (1 bs)
  then show ?case
    by (auto simp: decode_bytes.simps [of bs] lossy_bytes.simps [of bs] split: if_splits option.splits prod.splits)
qed

lemma from_utf8_lossy_valid: "from_utf8 bs = Some s \<Longrightarrow> from_utf8_lossy bs = s"
  by (simp add: from_utf8_def from_utf8_lossy_def lossy_bytes_valid)

section \<open>The recap of a playbook run (output.rs)\<close>

definition play_recap :: str where
  "play_recap = lit ''PLAY RECAP''"

definition from_recap :: "str \<Rightarrow> str list" where
  "from_recap stdout = dropWhile (\<lambda>l. \<not> contains_str l play_recap) (lines stdout)"

text \<open>\<open>...skip(1)\<close>: the lines below the recap's heading.\<close>

definition recap_lines :: "str \<Rightarrow> str list" where
  "recap_lines stdout = drop 1 (from_recap stdout)"

definition skips_a_step :: "str \<Rightarrow> bool" where
  "skips_a_step stdout \<longleftrightarrow> list_ex (\<lambda>l. starts_with (trim_start l) (lit ''skipping:'')) (lines stdout)"

definition recap_has_failures :: "str \<Rightarrow> bool" where
  "recap_has_failures stdout \<longleftrightarrow>
     list_ex (\<lambda>l. list_ex (\<lambda>field. list_ex (\<lambda>prefix.
       (case strip_prefix field prefix of None \<Rightarrow> False | Some v \<Rightarrow> v \<noteq> lit ''0''))
         [lit ''failed='', lit ''unreachable='']) (split_whitespace l)) (recap_lines stdout)"

definition recap_has_skipped_tasks :: "str \<Rightarrow> bool" where
  "recap_has_skipped_tasks stdout \<longleftrightarrow>
     list_ex (\<lambda>l. list_ex (\<lambda>field.
       (case Option.bind (strip_prefix field (lit ''skipped='')) parse_u32 of
          None \<Rightarrow> False | Some n \<Rightarrow> n > 0)) (split_whitespace l)) (recap_lines stdout)"

definition changed_field :: "str \<Rightarrow> u32 option" where
  "changed_field field =
     map_option word_of_int (Option.bind (strip_prefix field (lit ''changed='')) parse_u32)"

definition recap_change_count :: "str \<Rightarrow> u32 option" where
  "recap_change_count stdout =
     (let counts = List.map_filter changed_field (concat (map split_whitespace (from_recap stdout)))
      in if counts = [] then None else Some (sum_list counts))"

definition playbook_changed :: "str \<Rightarrow> bool" where
  "playbook_changed stdout =
     (case recap_change_count stdout of
        Some changes \<Rightarrow> changes > 0
      | None \<Rightarrow> list_ex (\<lambda>l. starts_with (trim_start l) (lit ''changed: ['')) (lines stdout))"

text \<open>Umlauts of the German messages.\<close>

abbreviation "ae_uml \<equiv> [228 :: rchar]"
abbreviation "oe_uml \<equiv> [246 :: rchar]"
abbreviation "ue_uml \<equiv> [252 :: rchar]"
abbreviation "Ae_uml \<equiv> [196 :: rchar]"

definition check_mode_summary :: "str \<Rightarrow> str" where
  "check_mode_summary stdout =
     (if \<not> contains_str stdout play_recap then
        lit ''Pr'' @ ue_uml @ lit ''fung lieferte keine vollst'' @ ae_uml @ lit ''ndige Ansible-Zusammenfassung; Ergebnis bitte manuell pr'' @ ue_uml @ lit ''fen.''
      else if recap_has_failures stdout then
        lit ''Pr'' @ ue_uml @ lit ''fung fehlgeschlagen: Ansible meldet mindestens einen fehlgeschlagenen oder nicht erreichbaren Host. Details stehen in der Worker-Ausgabe.''
      else if skips_a_step stdout then
        lit ''Pr'' @ ue_uml @ lit ''fung abgeschlossen, aber mindestens ein Ansible-Schritt wurde '' @ ue_uml @ lit ''bersprungen und ist nicht pr'' @ ue_uml @ lit ''fbar. Details stehen in der Worker-Ausgabe.''
      else if playbook_changed stdout then
        lit ''Pr'' @ ue_uml @ lit ''fung erfolgreich: Ansible hat m'' @ oe_uml @ lit ''gliche '' @ Ae_uml @ lit ''nderungen erkannt, aber im Check-Modus nichts angewendet.''
      else
        lit ''Pr'' @ ue_uml @ lit ''fung erfolgreich: Ansible hat keine '' @ Ae_uml @ lit ''nderungen erkannt und nichts angewendet.'')"

definition plan_changes :: "str \<Rightarrow> u32" where
  "plan_changes stdout =
     sum_list (List.map_filter (\<lambda>l. case List.map_filter changed_field (split_whitespace l) of
        [] \<Rightarrow> None | n # _ \<Rightarrow> Some n) (recap_lines stdout))"

definition plan_summary :: "str \<Rightarrow> str" where
  "plan_summary stdout =
     (if \<not> contains_str stdout play_recap then
        lit ''Vorschau unvollst'' @ ae_uml @ lit ''ndig: Ansible hat keine vollst'' @ ae_uml @ lit ''ndige Zusammenfassung geliefert. Details stehen in der technischen Ausgabe.''
      else if recap_has_failures stdout then
        lit ''Vorschau fehlgeschlagen: Ansible meldet mindestens einen fehlgeschlagenen oder nicht erreichbaren Host. Es wurde nichts angewendet; Details stehen in der technischen Ausgabe.''
      else if skips_a_step stdout then
        lit ''Vorschau teilweise nicht pr'' @ ue_uml @ lit ''fbar: Mindestens ein Ansible-Schritt wurde '' @ ue_uml @ lit ''bersprungen. Es wurden keine '' @ Ae_uml @ lit ''nderungen angewendet; Details stehen in der Diff-Ausgabe.''
      else if plan_changes stdout = 0 then
        lit ''Dry-Run erfolgreich: Es werden keine '' @ Ae_uml @ lit ''nderungen erwartet. Es wurde nichts angewendet.''
      else
        lit ''Dry-Run erfolgreich: Ansible erwartet '' @ dec_digits (unat (plan_changes stdout)) @ lit '' '' @ Ae_uml @ lit ''nderung(en). Es wurde nichts angewendet; die sichere Diff-Vorschau steht unten.'')"

section \<open>Reconciliation decisions\<close>

datatype reconciliation_decision = RecCompleted | RecChangesRemain | RecManualReview

definition reconciliation_decision :: "str \<Rightarrow> reconciliation_decision" where
  "reconciliation_decision stdout =
     (if \<not> contains_str stdout play_recap \<or> recap_has_failures stdout
         \<or> recap_has_skipped_tasks stdout \<or> skips_a_step stdout then RecManualReview
      else (case recap_change_count stdout of
          None \<Rightarrow> RecManualReview
        | Some n \<Rightarrow> if n = 0 then RecCompleted else RecChangesRemain))"

fun reconciliation_summary :: "reconciliation_decision \<Rightarrow> str" where
  "reconciliation_summary RecCompleted = lit ''Ist-Zustand gepr'' @ ue_uml @ lit ''ft: Es sind keine '' @ Ae_uml @ lit ''nderungen mehr offen. Der urspr'' @ ue_uml @ lit ''ngliche Apply-Lauf wird als abgeschlossen markiert; Reconcile hat selbst nichts ge'' @ ae_uml @ lit ''ndert.''"
| "reconciliation_summary RecChangesRemain = lit ''Ist-Zustand gepr'' @ ue_uml @ lit ''ft: Es bleiben '' @ Ae_uml @ lit ''nderungen offen. Der urspr'' @ ue_uml @ lit ''ngliche Lauf wird als fehlgeschlagen markiert. Erstelle einen neuen Plan und best'' @ ae_uml @ lit ''tige einen neuen Apply ausdr'' @ ue_uml @ lit ''cklich; Reconcile hat selbst nichts ge'' @ ae_uml @ lit ''ndert.''"
| "reconciliation_summary RecManualReview = lit ''Ist-Zustand konnte nicht vollst'' @ ae_uml @ lit ''ndig bewertet werden. Der urspr'' @ ue_uml @ lit ''ngliche Lauf wird zur manuellen Pr'' @ ue_uml @ lit ''fung als fehlgeschlagen markiert; Reconcile hat selbst nichts ge'' @ ae_uml @ lit ''ndert.''"

definition classify_playbook_failure :: "str \<Rightarrow> job_failure_code" where
  "classify_playbook_failure out =
     (if contains_str out (lit ''REMOTE HOST IDENTIFICATION HAS CHANGED'')
         \<or> contains_str out (lit ''Host key verification failed'') \<or> contains_str out (lit ''host key for'')
      then HostKeyChanged
      else if contains_str out (lit ''Invalid/incorrect password'')
         \<or> contains_str out (lit ''Permission denied, please try again'')
      then InvalidCredentials
      else if contains_str out (lit ''UNREACHABLE!'') \<or> contains_str out (lit ''unreachable: true'')
      then Unreachable
      else PlaybookFailed)"

section \<open>Finished tasks\<close>

definition is_finished_outcome :: "str \<Rightarrow> bool" where
  "is_finished_outcome outcome \<longleftrightarrow>
     list_ex (starts_with outcome) [lit ''ok: ['', lit ''fatal: ['', lit ''unreachable: ['']"

definition task_header_name :: "str \<Rightarrow> str option" where
  "task_header_name l =
     (let line = trim_start l in
      case (case strip_prefix line (lit ''TASK ['') of
              Some h \<Rightarrow> Some h | None \<Rightarrow> strip_prefix line (lit ''RUNNING HANDLER ['')) of
        None \<Rightarrow> None
      | Some header \<Rightarrow> map_option fst (split_once (ch CHR '']'') header))"

type_synonym open_task = "(str \<times> bool \<times> bool) option"

definition push_finished_task :: "open_task \<Rightarrow> (str \<times> bool) list \<Rightarrow> (str \<times> bool) list" where
  "push_finished_task current results =
     (case current of Some (name, changed, True) \<Rightarrow> results @ [(name, changed)] | _ \<Rightarrow> results)"

definition update_task_result :: "open_task \<Rightarrow> str \<Rightarrow> open_task" where
  "update_task_result current l =
     (case current of
        None \<Rightarrow> None
      | Some (name, changed, finished) \<Rightarrow>
          if starts_with (trim_start l) (lit ''changed: ['') then Some (name, True, True)
          else if is_finished_outcome (trim_start l) then Some (name, changed, True)
          else Some (name, changed, finished))"

fun scan_tasks :: "str list \<Rightarrow> open_task \<Rightarrow> (str \<times> bool) list \<Rightarrow> (str \<times> bool) list" where
  "scan_tasks [] current results = push_finished_task current results"
| "scan_tasks (l # ls) current results =
     (case task_header_name l of
        Some task \<Rightarrow> scan_tasks ls (Some (task, False, False)) (push_finished_task current results)
      | None \<Rightarrow> scan_tasks ls (update_task_result current l) results)"

definition finished_task_results :: "str \<Rightarrow> (str \<times> bool) list" where
  "finished_task_results stdout = scan_tasks (lines stdout) None []"

definition apply_summary :: "str \<Rightarrow> bool \<Rightarrow> str" where
  "apply_summary stdout process_succeeded =
     (let changed_tasks = length (filter snd (finished_task_results stdout)) in
      if \<not> process_succeeded then
        lit ''Apply fehlgeschlagen. Bis zum Fehler haben '' @ dec_digits changed_tasks @ lit '' Task(s) '' @ Ae_uml @ lit ''nderungen gemeldet; Details und Status je Task stehen im Protokoll.''
      else if changed_tasks > 0 then
        lit ''Apply erfolgreich ausgef'' @ ue_uml @ lit ''hrt: '' @ dec_digits changed_tasks @ lit '' Task(s) haben '' @ Ae_uml @ lit ''nderungen vorgenommen. Die tats'' @ ae_uml @ lit ''chlichen Schritte stehen im Protokoll.''
      else if playbook_changed stdout then
        lit ''Apply erfolgreich ausgef'' @ ue_uml @ lit ''hrt: Ansible meldet '' @ dec_digits (unat (unwrap_or 0 (recap_change_count stdout))) @ lit '' '' @ Ae_uml @ lit ''nderung(en); einzelne Task-Ausgaben stehen im technischen Protokoll.''
      else
        lit ''Apply erfolgreich ausgef'' @ ue_uml @ lit ''hrt: Ansible meldet keine '' @ Ae_uml @ lit ''nderungen am Zielsystem.'')"

section \<open>Arguments, playbooks and redaction (main.rs)\<close>

definition ansible_mode_args :: "ansible_operation \<Rightarrow> execution_mode \<Rightarrow> job_failure_code + str list" where
  "ansible_mode_args op mode =
     (if \<not> supports_mode op mode \<and> \<not> (mode = ModeReconcile \<and> can_reconcile_apply op) then Inl PlaybookFailed
      else
        (let preview =
           (if op \<in> {OpDeployAgent, OpUpdateAgent, OpRepairAgent} then Inr [lit ''--check'', lit ''--diff'']
            else if op = OpUpdatePackages then Inr [lit ''--diff''] else Inl PlaybookFailed)
         in case mode of
              ModeCheck \<Rightarrow> Inr (if op \<in> {OpHealthCheck, OpCollectPackageInventory} then [] else [lit ''--check''])
            | ModePlan \<Rightarrow> preview
            | ModeApply \<Rightarrow> Inr []
            | ModeReconcile \<Rightarrow> preview))"

definition playbook :: "ansible_operation \<Rightarrow> target_kind \<Rightarrow> str option" where
  "playbook op kind =
     (if op \<in> {OpDeployAgent, OpUpdateAgent} then
        Some (if kind = WindowsServer then lit ''playbooks/agent-windows.yml'' else lit ''playbooks/agent-linux.yml'')
      else if op = OpRepairAgent then Some (lit ''playbooks/agent-linux-repair.yml'')
      else if op = OpUpdatePackages then
        (if kind = WindowsServer then None else Some (lit ''playbooks/packages-linux.yml''))
      else if op = OpHealthCheck then
        Some (if kind = WindowsServer then lit ''playbooks/health-check-windows.yml''
              else lit ''playbooks/health-check-linux.yml'')
      else if op = OpCollectPackageInventory then
        (if kind = WindowsServer then None else Some (lit ''playbooks/package-inventory-linux.yml''))
      else None)"

definition redacted :: str where
  "redacted = lit ''[REDACTED]''"

definition redact_output :: "str \<Rightarrow> str option list \<Rightarrow> str" where
  "redact_output out secrets =
     fold (\<lambda>secret v. if secret = [] then v else replace_str secret redacted v)
       (List.map_filter id secrets) out"

section \<open>Package inventories of Linux targets (main.rs)\<close>

definition parse_apt_upgrade :: "str \<Rightarrow> (str \<times> str) option" where
  "parse_apt_upgrade l =
     (let line = trim l in
      if line = [] \<or> starts_with line (lit ''Listing'') \<or> starts_with line (lit ''WARNING'') then None
      else (case split_whitespace line of
          first # candidate # _ \<Rightarrow>
            (let package = hd (split_char (ch CHR '':'') (hd (split_char (ch CHR ''/'') first))) in
             if package = [] \<or> candidate = [] \<or> \<not> contains_str line (lit ''[upgradable from:'') then None
             else Some (package, candidate))
        | _ \<Rightarrow> None))"

text \<open>\<open>collect::<HashMap<_, _>>()\<close>: a later pair replaces an earlier one.\<close>

definition candidate_versions :: "str list \<Rightarrow> (str, str) hashmap" where
  "candidate_versions upgradable =
     fold (\<lambda>(k, v). hm_insert k v) (List.map_filter parse_apt_upgrade upgradable) []"

definition json_text_field :: "str \<Rightarrow> str \<Rightarrow> json \<Rightarrow> str option" where
  "json_text_field a b entry = Option.bind (or_else (json_get a entry) (json_get b entry)) json_as_str"

definition collected_package ::
  "(str, str) hashmap \<Rightarrow> str \<Rightarrow> json \<Rightarrow> job_failure_code + installed_package" where
  "collected_package candidates name entry =
     bindR (ok_or PlaybookFailed (Option.bind (json_get (lit ''version'') entry) json_as_str)) (\<lambda>version.
     bindR (map_err (\<lambda>_. PlaybookFailed) (package_version_new version)) (\<lambda>installed.
     bindR (map_err (\<lambda>_. PlaybookFailed) (transpose_result package_version_new
         (or_else (hm_get candidates name) (hm_get candidates (hd (split_char (ch CHR '':'') name)))))) (\<lambda>candidate.
     bindR (map_err (\<lambda>_. PlaybookFailed) (package_name_new name)) (\<lambda>n.
       Inr \<lparr>ip_name = n, ip_version = installed,
            ip_candidate_version = Some (unwrap_or installed candidate),
            ip_architecture = json_text_field (lit ''arch'') (lit ''architecture'') entry,
            ip_source = json_text_field (lit ''source'') (lit ''provider'') entry\<rparr>))))"

definition collected_packages ::
  "(str, str) hashmap \<Rightarrow> str \<times> json \<Rightarrow> job_failure_code + installed_package list" where
  "collected_packages candidates member =
     bindR (ok_or PlaybookFailed (json_as_array (snd member)))
       (map_result (collected_package candidates (fst member)))"

definition normalize_package_inventory ::
  "json \<Rightarrow> str list \<Rightarrow> job_failure_code + installed_package list" where
  "normalize_package_inventory v upgradable =
     (case v of
        JObject by_name \<Rightarrow>
          bindR (map_result (collected_packages (candidate_versions upgradable)) by_name) (\<lambda>found.
            (let packages = concat found in
             if length packages > 50000 then Inl PlaybookFailed
             else Inr (sort_key (\<lambda>p. (package_name_as_str (ip_name p), package_version_as_str (ip_version p)))
                         packages)))
      | _ \<Rightarrow> Inl PlaybookFailed)"

section \<open>Agent binaries (agent\_artifacts.rs, artifact\_store.rs)\<close>

text \<open>\<open>binary.get(a..b)\<close>: nothing when the range leaves the slice.\<close>

definition slice_get :: "nat \<Rightarrow> nat \<Rightarrow> u8 list \<Rightarrow> u8 list option" where
  "slice_get a b bs = (if a \<le> b \<and> b \<le> length bs then Some (take (b - a) (drop a bs)) else None)"

definition u32_from_le_bytes :: "u8 list \<Rightarrow> nat" where
  "u32_from_le_bytes bs = foldr (\<lambda>b n. unat b + 256 * n) bs 0"

definition windows_pe_is_amd64 :: "u8 list \<Rightarrow> bool" where
  "windows_pe_is_amd64 binary \<longleftrightarrow>
     slice_get 0 2 binary = Some [77, 90] \<and> length binary \<ge> 64
     \<and> (case map_option u32_from_le_bytes (slice_get 60 64 binary) of
          None \<Rightarrow> False
        | Some pe_offset \<Rightarrow>
            (case slice_get pe_offset (pe_offset + 26) binary of
               None \<Rightarrow> False
             | Some header \<Rightarrow>
                 slice_get 0 4 header = Some [80, 69, 0, 0] \<and> slice_get 4 6 header = Some [100, 134]
                 \<and> slice_get 24 26 header = Some [11, 2]))"

definition agent_binary_matches_platform :: "u8 list \<Rightarrow> str \<Rightarrow> bool" where
  "agent_binary_matches_platform binary platform \<longleftrightarrow>
     (if platform = lit ''windows-amd64'' then windows_pe_is_amd64 binary
      else if length binary < 20 \<or> slice_get 0 4 binary \<noteq> Some [127, 69, 76, 70]
              \<or> binary ! 4 \<noteq> 2 \<or> binary ! 5 \<noteq> 1 then False
      else (let machine = u32_from_le_bytes [binary ! 18, binary ! 19] in
            (platform = lit ''linux-amd64'' \<and> machine = 62) \<or> (platform = lit ''linux-arm64'' \<and> machine = 183)))"

record artifact =
  af_platform :: str
  af_file :: str
  af_sha256 :: str

record manifest =
  mf_version :: str
  mf_artifacts :: "artifact list"

definition artifact_file_ok :: "str \<Rightarrow> bool" where
  "artifact_file_ok f \<longleftrightarrow> f \<noteq> [] \<and> list_all (\<lambda>c. is_ascii_alphanumeric c \<or> c \<in> set (lit ''.-_'')) f"

definition supports_manifest :: "str \<Rightarrow> json \<Rightarrow> bool" where
  "supports_manifest version m \<longleftrightarrow>
     Option.bind (json_get (lit ''version'') m) json_as_str = Some version
     \<and> (case Option.bind (json_get (lit ''artifacts'') m) json_as_array of
          None \<Rightarrow> False
        | Some artifacts \<Rightarrow>
            list_all (\<lambda>platform. list_ex (\<lambda>a.
                Option.bind (json_get (lit ''platform'') a) json_as_str = Some platform
                \<and> Option.bind (json_get (lit ''file'') a) json_as_str \<noteq> None
                \<and> Option.bind (json_get (lit ''sha256'') a) json_as_str \<noteq> None) artifacts)
              [lit ''linux-amd64'', lit ''linux-arm64'', lit ''windows-amd64''])"

end
