(* ===== verification/Worker.thy ===== *)
theory Worker
  imports WorkerOutput ScheduleApi
begin

text \<open>
  The stateful part of \<open>lxcup-ansible-worker\<close>: \<open>main.rs\<close> (recovery, the claim loop, one run of a job),
  \<open>execution_support.rs\<close>, the database calls of \<open>output.rs\<close>, the downloads of \<open>agent_artifacts.rs\<close> and
  the availability reports of \<open>artifact_store.rs\<close>.

  The state is what the worker reads and writes: the tables, the files of its temporary directories
  and the commands it has started, each with the tables at that moment. A method that can fail is a
  function from the state to a result and a new state, and the \<open>?\<close> operator is \<open>wbind\<close>. Outside the
  repository are the database server, the clock, the file system, HTTP, the JSON texts and
  \<open>ansible-playbook\<close>: the fields of \<open>worker_env\<close>. They answer by the number of the call, so every
  sequence of failures is covered. A failed write leaves no file behind. The temporary directory has
  a UTF-8 name.
\<close>

section \<open>State and environment\<close>

record worker_row =
  wr_worker_version :: str
  wr_last_seen_at :: timestamp
  wr_artifact_store_available :: bool
  wr_artifact_store_checked_at :: timestamp

record worker_db =
  wd_jobs :: job_db
  wd_targets :: "target list"
  wd_inventories :: "package_inventory_snapshot list"
  wd_heartbeats :: "(str \<times> worker_row) list"

datatype file_content = FileText str | FileBytes "u8 list"

type_synonym files = "(str, file_content) hashmap"

text \<open>One start of \<open>ansible-playbook\<close>; the command sees the files.\<close>

record invocation =
  iv_inventory :: str
  iv_playbook :: str
  iv_vars_file :: str
  iv_mode_args :: "str list"
  iv_vars :: json
  iv_files :: files

text \<open>
  \<open>std::process::Output\<close>, and the inventory file a playbook run may leave in the directory of the
  run.
\<close>

record playbook_output =
  out_success :: bool
  out_stdout :: "u8 list"
  out_stderr :: "u8 list"
  out_inventory_file :: "u8 list option"

datatype playbook_run = RunTimedOut | RunNotStarted | RunFinished playbook_output

text \<open>An HTTP answer: the status code, and the body unless reading it fails.\<close>

type_synonym http_answer = "(nat \<times> u8 list option) option"

record worker_env =
  we_up :: "nat \<Rightarrow> bool"
  we_now :: "nat \<Rightarrow> timestamp"
  we_io :: "nat \<Rightarrow> bool"
  we_fresh :: "nat \<Rightarrow> uuid"
  we_locked :: "nat \<Rightarrow> uuid list"
  we_seen :: "nat \<Rightarrow> job_db"
  we_run :: "nat \<Rightarrow> invocation \<Rightarrow> playbook_run"
  we_http :: "nat \<Rightarrow> str \<Rightarrow> http_answer"
  we_manifest :: "u8 list \<Rightarrow> manifest option"
  we_json :: "u8 list \<Rightarrow> json option"
  we_collected :: "str \<Rightarrow> (json \<times> str list) option"
  we_json_text :: "json \<Rightarrow> str"
  we_temp_dir :: str
  we_ansible :: ansible_env

record worker =
  wk_db :: worker_db
  wk_files :: files
  wk_started :: "(invocation \<times> worker_db) list"
  wk_job :: ansible_job
  wk_tick :: nat

text \<open>\<open>Runtime\<close>: the secret store is the pair of its two reading methods.\<close>

record runtime =
  rt_read :: secret_reader
  rt_metadata :: metadata_reader
  rt_artifacts :: str
  rt_user :: str
  rt_controller_url :: "str option"

definition runtime_from_values ::
  "secret_env \<Rightarrow> io_faults \<Rightarrow> disk \<Rightarrow> str option \<Rightarrow> master_key option \<Rightarrow> str option \<Rightarrow> str option \<Rightarrow> str option
     \<Rightarrow> str + runtime" where
  "runtime_from_values senv ft d root key artifacts user controller_url =
     bindR (ok_or (lit ''LXCUP_SECRET_STORE_DIR is missing'') root) (\<lambda>dir.
     bindR (ok_or (lit ''LXCUP_SECRET_MASTER_KEY must be 64 hex characters'') key) (\<lambda>k.
     bindR (map_err (\<lambda>_. lit ''secret store directory is unavailable'') (encrypted_new ft dir k [])) (\<lambda>store.
     bindR (ok_or (lit ''LXCUP_ARTIFACT_BASE_URL is missing'') artifacts) (\<lambda>base.
       Inr \<lparr>rt_read = (\<lambda>i. enc_read senv ft store i d),
            rt_metadata = (\<lambda>i. store_metadata senv ft (es_root store) i d),
            rt_artifacts = trim_end_matches (ch CHR ''/'') base,
            rt_user = unwrap_or (lit ''lxcup'') user,
            rt_controller_url =
              (case map_option (trim_end_matches (ch CHR ''/'')) controller_url of
                 Some v \<Rightarrow> if v = [] then None else Some v | None \<Rightarrow> None)\<rparr>))))"

section \<open>Fallible steps\<close>

type_synonym ('e, 'a) step = "worker \<Rightarrow> ('e + 'a) \<times> worker"

definition wret :: "'a \<Rightarrow> ('e, 'a) step" where
  "wret x w = (Inr x, w)"

definition wfail :: "'e \<Rightarrow> ('e, 'a) step" where
  "wfail e w = (Inl e, w)"

definition wbind :: "('e, 'a) step \<Rightarrow> ('a \<Rightarrow> ('e, 'b) step) \<Rightarrow> ('e, 'b) step" where
  "wbind m f w = (case m w of (Inl e, w1) \<Rightarrow> (Inl e, w1) | (Inr x, w1) \<Rightarrow> f x w1)"

definition wlift :: "'e + 'a \<Rightarrow> ('e, 'a) step" where
  "wlift r w = (r, w)"

definition wmap_err :: "('e \<Rightarrow> 'f) \<Rightarrow> ('e, 'a) step \<Rightarrow> ('f, 'a) step" where
  "wmap_err g m w = (case m w of (r, w1) \<Rightarrow> (map_err g r, w1))"

fun wfor :: "('a \<Rightarrow> ('e, unit) step) \<Rightarrow> 'a list \<Rightarrow> ('e, unit) step" where
  "wfor f [] = wret ()"
| "wfor f (x # xs) = wbind (f x) (\<lambda>_. wfor f xs)"

text \<open>A repository call, and its form under \<open>map_err(|_| JobFailureCode::WorkerUnavailable)\<close>.\<close>

definition call ::
  "worker_env \<Rightarrow> (bool \<Rightarrow> worker_db \<Rightarrow> 'a repo_result \<times> worker_db) \<Rightarrow> (repository_error, 'a) step" where
  "call env f w =
     (case f (we_up env (wk_tick w)) (wk_db w) of
        (r, db) \<Rightarrow> (r, w\<lparr>wk_db := db, wk_tick := Suc (wk_tick w)\<rparr>))"

definition on_jobs :: "(job_db \<Rightarrow> 'a repo_result \<times> job_db) \<Rightarrow> worker_db \<Rightarrow> 'a repo_result \<times> worker_db" where
  "on_jobs f db = (case f (wd_jobs db) of (r, jobs) \<Rightarrow> (r, db\<lparr>wd_jobs := jobs\<rparr>))"

definition unavailable :: "(repository_error, 'a) step \<Rightarrow> (job_failure_code, 'a) step" where
  "unavailable m = wmap_err (\<lambda>_. WorkerUnavailable) m"

definition event :: "worker_env \<Rightarrow> uuid \<Rightarrow> job_event_kind \<Rightarrow> (repository_error, unit) step" where
  "event env i e =
     wbind (call env (\<lambda>up db. (job_events up i (wd_jobs db), db))) (\<lambda>es w.
       call env (\<lambda>up. on_jobs (append_job_event up
         \<lparr>je_sequence = length es + 1, je_job_id = i, je_event = e, je_created_at = we_now env (wk_tick w)\<rparr>)) w)"

definition update_row :: "worker_env \<Rightarrow> ansible_job \<Rightarrow> (repository_error, unit) step" where
  "update_row env j = call env (\<lambda>up. on_jobs (update_job up j))"

text \<open>\<open>private\<close> and \<open>fs::write\<close>; both overwrite.\<close>

definition write_file :: "worker_env \<Rightarrow> str \<Rightarrow> file_content \<Rightarrow> (job_failure_code, unit) step" where
  "write_file env path content w =
     (let w1 = w\<lparr>wk_tick := Suc (wk_tick w)\<rparr> in
      if we_io env (wk_tick w) then (Inr (), w1\<lparr>wk_files := hm_insert path content (wk_files w)\<rparr>)
      else (Inl WorkerUnavailable, w1))"

definition join_path :: "str \<Rightarrow> str \<Rightarrow> str" where
  "join_path dir name = dir @ ch CHR ''/'' # name"

definition create_dir_all :: "worker_env \<Rightarrow> (job_failure_code, unit) step" where
  "create_dir_all env w =
     (if we_io env (wk_tick w) then Inr () else Inl WorkerUnavailable, w\<lparr>wk_tick := Suc (wk_tick w)\<rparr>)"

text \<open>\<open>let _ = fs::remove_dir_all(dir)\<close>: a failure is ignored and leaves the files.\<close>

definition remove_dir_all :: "worker_env \<Rightarrow> str \<Rightarrow> worker \<Rightarrow> worker" where
  "remove_dir_all env dir w =
     (let w1 = w\<lparr>wk_tick := Suc (wk_tick w)\<rparr> in
      if we_io env (wk_tick w)
      then w1\<lparr>wk_files := hm_retain (\<lambda>p _. \<not> starts_with p (dir @ [ch CHR ''/''])) (wk_files w)\<rparr> else w1)"

section \<open>Recovery (main.rs)\<close>

text \<open>\<open>expect\<close> on a refused transition ends the process: \<open>WorkerPanic\<close>.\<close>

datatype worker_error = WorkerPanic | WorkerRepository repository_error

definition repo :: "(repository_error, 'a) step \<Rightarrow> (worker_error, 'a) step" where
  "repo m = wmap_err WorkerRepository m"

definition expect_transition ::
  "worker_env \<Rightarrow> ansible_job_status \<Rightarrow> ansible_job \<Rightarrow> (worker_error, ansible_job) step" where
  "expect_transition env s j w =
     (map_err (\<lambda>_. WorkerPanic) (job_transition_to s (we_now env (wk_tick w)) j), w)"

definition recover_job :: "worker_env \<Rightarrow> ansible_job \<Rightarrow> (worker_error, unit) step" where
  "recover_job env j =
     (if aj_status j \<notin> {JChecking, JPlanned, JApplying} then wret ()
      else if aj_status j = JApplying then
        wbind (expect_transition env JReconcileRequired j) (\<lambda>j1.
        wbind (repo (update_row env j1)) (\<lambda>_.
        wbind (repo (event env (aj_id j1) EvReconcileRequired)) (\<lambda>_.
          repo (event env (aj_id j1) (EvStatusChanged JReconcileRequired)))))
      else
        wbind (expect_transition env JFailed j) (\<lambda>j1.
        wbind (repo (update_row env j1)) (\<lambda>_.
        wbind (repo (event env (aj_id j1) (EvFailed WorkerRestarted))) (\<lambda>_.
          repo (event env (aj_id j1) (EvStatusChanged JFailed))))))"

definition recover_interrupted_jobs :: "worker_env \<Rightarrow> (worker_error, unit) step" where
  "recover_interrupted_jobs env =
     wbind (repo (call env (\<lambda>up db. (list_jobs up (wd_jobs db), db)))) (\<lambda>js. wfor (recover_job env) js)"

section \<open>Artifacts (agent\_artifacts.rs)\<close>

record agent_artifact_paths =
  ap_linux_amd64 :: "str option"
  ap_linux_arm64 :: "str option"
  ap_windows_amd64 :: "str option"

text \<open>\<open>reqwest::get\<close>: an answer with its status, or an error of the connection.\<close>

definition http_get :: "worker_env \<Rightarrow> str \<Rightarrow> (job_failure_code, nat \<times> u8 list option) step" where
  "http_get env url w =
     (ok_or WorkerUnavailable (we_http env (wk_tick w) url), w\<lparr>wk_tick := Suc (wk_tick w)\<rparr>)"

definition digest_text :: "worker_env \<Rightarrow> u8 list \<Rightarrow> str" where
  "digest_text env bytes = concat (map hex_byte (ae_sha256 (we_ansible env) bytes))"

definition binary_accepted :: "worker_env \<Rightarrow> artifact \<Rightarrow> u8 list \<Rightarrow> bool" where
  "binary_accepted env a binary \<longleftrightarrow>
     digest_text env binary = af_sha256 a
     \<and> af_platform a \<in> {lit ''linux-amd64'', lit ''linux-arm64'', lit ''windows-amd64''}
     \<and> agent_binary_matches_platform binary (af_platform a)"

definition download :: "worker_env \<Rightarrow> str \<Rightarrow> artifact \<Rightarrow> str \<Rightarrow> (job_failure_code, str) step" where
  "download env base a destination =
     (if \<not> artifact_file_ok (af_file a) then wfail PlaybookFailed
      else
        wbind (http_get env (join_path base (af_file a))) (\<lambda>answer.
        wbind (wlift (ok_or WorkerUnavailable (snd answer))) (\<lambda>binary.
          if \<not> binary_accepted env a binary then wfail PlaybookFailed
          else wbind (write_file env destination (FileBytes binary)) (\<lambda>_. wret destination))))"

definition artifact_for :: "str \<Rightarrow> manifest \<Rightarrow> artifact option" where
  "artifact_for platform m = List.find (\<lambda>a. af_platform a = platform) (mf_artifacts m)"

definition resolve_artifacts ::
  "worker_env \<Rightarrow> str \<Rightarrow> str \<Rightarrow> target_kind \<Rightarrow> str \<Rightarrow> (job_failure_code, agent_artifact_paths) step" where
  "resolve_artifacts env artifacts_url version kind dir =
     (let base = artifacts_url @ lit ''/agent/'' @ version in
      wbind (http_get env (base @ lit ''/manifest.json'')) (\<lambda>(status, body).
      if 400 \<le> status \<and> status < 600 then wfail WorkerUnavailable
      else wbind (wlift (ok_or PlaybookFailed (Option.bind body (we_manifest env)))) (\<lambda>m.
      if mf_version m \<noteq> version then wfail PlaybookFailed
      else if kind = WindowsServer then
        wbind (wlift (ok_or PlaybookFailed (artifact_for (lit ''windows-amd64'') m))) (\<lambda>windows.
        wbind (download env base windows (join_path dir (lit ''agent-windows-amd64.exe''))) (\<lambda>p.
          wret \<lparr>ap_linux_amd64 = None, ap_linux_arm64 = None, ap_windows_amd64 = Some p\<rparr>))
      else
        wbind (wlift (ok_or PlaybookFailed (artifact_for (lit ''linux-amd64'') m))) (\<lambda>amd64.
        wbind (download env base amd64 (join_path dir (lit ''agent-linux-amd64''))) (\<lambda>p.
        wbind (case artifact_for (lit ''linux-arm64'') m of
                 None \<Rightarrow> wret None
               | Some arm64 \<Rightarrow> wbind (download env base arm64 (join_path dir (lit ''agent-linux-arm64'')))
                   (\<lambda>q. wret (Some q))) (\<lambda>q.
          wret \<lparr>ap_linux_amd64 = Some p, ap_linux_arm64 = q, ap_windows_amd64 = None\<rparr>))))))"

section \<open>Preparing an invocation (main.rs)\<close>

definition invalid_credentials :: "'a secret_result \<Rightarrow> job_failure_code + 'a" where
  "invalid_credentials r = map_err (\<lambda>_. InvalidCredentials) r"

definition prepare_known_hosts ::
  "worker_env \<Rightarrow> runtime \<Rightarrow> target \<Rightarrow> str \<Rightarrow> (job_failure_code, str option) step" where
  "prepare_known_hosts env rt t dir =
     (if tg_transport t \<noteq> Ssh then wret None
      else
        wbind (wlift (ok_or InvalidCredentials (tg_ssh_known_hosts_secret_ref t))) (\<lambda>secret_ref.
        wbind (wlift (invalid_credentials (rt_read rt secret_ref))) (\<lambda>v.
        wbind (wlift (invalid_credentials (rt_metadata rt secret_ref))) (\<lambda>m.
          if sm_kind (st_metadata m) \<noteq> SshKnownHosts then wfail InvalidCredentials
          else
            (let path = join_path dir (lit ''known_hosts'') in
             wbind (write_file env path (FileText (expose v))) (\<lambda>_. wret (Some path)))))))"

definition ssh_user_of :: "runtime \<Rightarrow> target \<Rightarrow> str" where
  "ssh_user_of rt t = unwrap_or (rt_user rt) (tg_ssh_user t)"

definition set_fields :: "(str \<times> json) list \<Rightarrow> json \<Rightarrow> json" where
  "set_fields fs v = fold (\<lambda>(k, x). json_set k x) fs v"

definition prepare_target_host ::
  "worker_env \<Rightarrow> runtime \<Rightarrow> target \<Rightarrow> str \<Rightarrow> (job_failure_code, json \<times> secret_value) step" where
  "prepare_target_host env rt t dir =
     wbind (wlift (ok_or InvalidCredentials (tg_credential_secret_ref t))) (\<lambda>secret_ref.
     wbind (wlift (invalid_credentials (rt_read rt secret_ref))) (\<lambda>credential.
     wbind (wlift (invalid_credentials (rt_metadata rt secret_ref))) (\<lambda>m.
     (let kind = sm_kind (st_metadata m);
          host0 = JObject [(lit ''ansible_host'', JString (tg_address t))];
          key = join_path dir (lit ''credential'');
          ssh_fields = [(lit ''ansible_user'', JString (ssh_user_of rt t)),
                        (lit ''ansible_remote_tmp'', JString (lit ''/tmp/.ansible/tmp''))]
      in
      wbind (prepare_known_hosts env rt t dir) (\<lambda>known_hosts.
      wbind
        (if tg_transport t = Ssh \<and> kind = SshPrivateKey then
           wbind (write_file env key (FileText (expose credential))) (\<lambda>_.
             wret (set_fields (ssh_fields @ [(lit ''ansible_ssh_private_key_file'', JString key)]) host0))
         else if tg_transport t = Ssh \<and> kind = SshPassword then
           wret (set_fields (ssh_fields @ [(lit ''ansible_password'', JString (expose credential)),
             (lit ''ansible_become_password'', JString (expose credential))]) host0)
         else if tg_transport t = Winrm \<and> kind = WinrmPassword then
           (case tg_ssh_user t of
              Some username \<Rightarrow>
                if trim username = [] then wfail InvalidCredentials
                else wret (set_fields [(lit ''ansible_user'', JString username),
                  (lit ''ansible_password'', JString (expose credential)),
                  (lit ''ansible_connection'', JString (lit ''winrm'')), (lit ''ansible_port'', JNumber 5986),
                  (lit ''ansible_winrm_scheme'', JString (lit ''https'')),
                  (lit ''ansible_winrm_transport'', JString (lit ''ntlm'')),
                  (lit ''ansible_winrm_server_cert_validation'', JString (lit ''validate''))] host0)
            | None \<Rightarrow> wfail InvalidCredentials)
         else wfail InvalidCredentials) (\<lambda>host.
        wret ((case known_hosts of
                 None \<Rightarrow> host
               | Some path \<Rightarrow> json_set (lit ''ansible_ssh_common_args'')
                   (JString (lit ''-o UserKnownHostsFile='' @ path)) host), credential)))))))"

definition prepare_agent_vars ::
  "worker_env \<Rightarrow> runtime \<Rightarrow> ansible_job \<Rightarrow> target \<Rightarrow> json \<Rightarrow> job_failure_code + (secret_value option \<times> json)" where
  "prepare_agent_vars env rt j t vars =
     (if aj_operation j \<in> {OpHealthCheck, OpConfigureTarget} then Inr (None, vars)
      else bindR (invalid_credentials (rt_read rt (tg_agent_secret_ref t))) (\<lambda>token.
        Inr (Some token, set_fields [(lit ''lxcup_agent_token'', JString (expose token)),
          (lit ''lxcup_agent_id'', JString (ae_uuid_to_string (we_ansible env) (tg_id t)))] vars)))"

fun execution_mode_text :: "execution_mode \<Rightarrow> str" where
  "execution_mode_text ModeReconcile = lit ''plan''"
| "execution_mode_text ModeCheck = lit ''check''"
| "execution_mode_text ModePlan = lit ''plan''"
| "execution_mode_text ModeApply = lit ''apply''"

fun deployed_version :: "ansible_parameters \<Rightarrow> str option" where
  "deployed_version (ParamDeployAgent v) = Some v"
| "deployed_version (ParamUpdateAgent v) = Some v"
| "deployed_version _ = None"

definition binary_vars :: "target_kind \<Rightarrow> agent_artifact_paths \<Rightarrow> job_failure_code + (str \<times> json) list" where
  "binary_vars kind p =
     (if kind = WindowsServer then
        bindR (ok_or PlaybookFailed (ap_windows_amd64 p)) (\<lambda>b.
          Inr [(lit ''lxcup_agent_binary_src'', JString b)])
      else bindR (ok_or PlaybookFailed (ap_linux_amd64 p)) (\<lambda>b.
          Inr ((lit ''lxcup_agent_binary_src'', JString b) #
            (case ap_linux_arm64 p of None \<Rightarrow> []
             | Some q \<Rightarrow> [(lit ''lxcup_agent_binary_src_arm64'', JString q)]))))"

definition package_vars :: "ansible_job \<Rightarrow> (str \<times> json) list" where
  "package_vars j =
     (case aj_parameters j of
        ParamUpdatePackages packages \<Rightarrow>
          [(lit ''lxcup_update_packages'', JArray (map JString packages)),
           (lit ''lxcup_update_request_hash'', JString (aj_parameter_hash j)),
           (lit ''lxcup_plan_confirmed'', JBool (aj_mode j = ModeApply)),
           (lit ''lxcup_distribution_upgrade'', JBool False)]
      | _ \<Rightarrow> [])"

definition inventory_vars :: "ansible_job \<Rightarrow> target \<Rightarrow> str \<Rightarrow> (str \<times> json) list" where
  "inventory_vars j t dir =
     (if aj_operation j = OpCollectPackageInventory then
        [(lit ''lxcup_package_inventory_output'', JString (join_path dir (lit ''package-inventory.json''))),
         (lit ''lxcup_package_inventory_remote_file'', JString
            (if tg_kind t = WindowsServer then lit ''C:'' @ [92] @ lit ''Windows'' @ [92] @ lit ''Temp'' @ [92] @ lit ''lxcup-package-inventory.json''
             else lit ''/tmp/lxcup-package-inventory.json''))]
      else [])"

definition prepare_workflow_vars ::
  "worker_env \<Rightarrow> runtime \<Rightarrow> ansible_job \<Rightarrow> target \<Rightarrow> str \<Rightarrow> (job_failure_code, json \<times> secret_value option) step" where
  "prepare_workflow_vars env rt j t dir =
     (let vars0 = JObject [(lit ''lxcup_execution_mode'', JString (execution_mode_text (aj_mode j)))] in
      wbind (wlift (prepare_agent_vars env rt j t vars0)) (\<lambda>(token, vars1).
      (let vars2 = (case rt_controller_url rt of None \<Rightarrow> vars1
                    | Some url \<Rightarrow> json_set (lit ''lxcup_controller_url'') (JString url) vars1) in
       wbind
         (case deployed_version (aj_parameters j) of
            None \<Rightarrow> wret vars2
          | Some version \<Rightarrow>
              wbind (resolve_artifacts env (rt_artifacts rt) version (tg_kind t) dir) (\<lambda>binaries.
              wbind (wlift (binary_vars (tg_kind t) binaries)) (\<lambda>fs.
                wret (set_fields ((lit ''lxcup_agent_version'', JString version) # fs) vars2)))) (\<lambda>vars3.
         wret (set_fields (package_vars j @ inventory_vars j t dir) vars3, token)))))"

record invocation_context =
  ic_inventory :: str
  ic_vars_file :: str
  ic_vars :: json
  ic_credential :: secret_value
  ic_agent_token :: "secret_value option"

definition prepare_invocation ::
  "worker_env \<Rightarrow> runtime \<Rightarrow> ansible_job \<Rightarrow> target \<Rightarrow> str \<Rightarrow> (job_failure_code, invocation_context) step" where
  "prepare_invocation env rt j t dir =
     wbind (prepare_target_host env rt t dir) (\<lambda>(host, credential).
     (let group = (if tg_kind t = WindowsServer then lit ''lxcup_windows_targets'' else lit ''lxcup_targets'');
          inventory = join_path dir (lit ''inventory.json'');
          vars_file = join_path dir (lit ''vars.json'')
      in
      wbind (write_file env inventory (FileText (we_json_text env (JObject [(group, JObject
        [(lit ''hosts'', JObject [(lit ''target'', host)])])])))) (\<lambda>_.
      wbind (prepare_workflow_vars env rt j t dir) (\<lambda>(vars, token).
      wbind (write_file env vars_file (FileText (we_json_text env vars))) (\<lambda>_.
        wret \<lparr>ic_inventory = inventory, ic_vars_file = vars_file, ic_vars = vars,
              ic_credential = credential, ic_agent_token = token\<rparr>)))))"

section \<open>Events of a run (execution\_support.rs)\<close>

text \<open>The job is mutable in these functions: it is \<open>wk_job\<close>.\<close>

definition set_job_status :: "worker_env \<Rightarrow> ansible_job_status \<Rightarrow> (job_failure_code, unit) step" where
  "set_job_status env s w =
     (case job_transition_to s (we_now env (wk_tick w)) (wk_job w) of
        Inl _ \<Rightarrow> (Inl PlaybookFailed, w)
      | Inr j \<Rightarrow> (Inr (), w\<lparr>wk_job := j\<rparr>))"

definition store_job_status :: "worker_env \<Rightarrow> ansible_job_status \<Rightarrow> (job_failure_code, unit) step" where
  "store_job_status env s =
     wbind (set_job_status env s) (\<lambda>_ w.
       wbind (unavailable (update_row env (wk_job w))) (\<lambda>_.
         unavailable (event env (aj_id (wk_job w)) (EvStatusChanged s))) w)"

definition mark_job_applying :: "worker_env \<Rightarrow> (job_failure_code, unit) step" where
  "mark_job_applying env = store_job_status env JApplying"

definition emit_log :: "worker_env \<Rightarrow> uuid \<Rightarrow> str \<Rightarrow> str \<Rightarrow> (job_failure_code, unit) step" where
  "emit_log env i src message = unavailable (event env i (EvWorkerLog src message))"

definition emit_stream ::
  "worker_env \<Rightarrow> uuid \<Rightarrow> str option list \<Rightarrow> str \<times> u8 list \<Rightarrow> (job_failure_code, unit) step" where
  "emit_stream env i redactions stream =
     (let message = redact_output (from_utf8_lossy (snd stream)) redactions in
      if trim message = [] then wret () else emit_log env i (fst stream) message)"

definition emit_worker_streams ::
  "worker_env \<Rightarrow> uuid \<Rightarrow> playbook_output \<Rightarrow> invocation_context \<Rightarrow> (job_failure_code, unit) step" where
  "emit_worker_streams env i out context =
     wfor (emit_stream env i [Some (expose (ic_credential context)),
         map_option expose (ic_agent_token context)])
       [(lit ''stdout'', out_stdout out), (lit ''stderr'', out_stderr out)]"

definition emit_finished_tasks :: "worker_env \<Rightarrow> uuid \<Rightarrow> str \<Rightarrow> (job_failure_code, unit) step" where
  "emit_finished_tasks env i stdout =
     wfor (\<lambda>(task, changed). unavailable (event env i (EvTaskFinished task changed)))
       (finished_task_results stdout)"

definition emit_mode_summary ::
  "worker_env \<Rightarrow> ansible_job \<Rightarrow> playbook_output \<Rightarrow> (job_failure_code, unit) step" where
  "emit_mode_summary env j out =
     (let stdout = from_utf8_lossy (out_stdout out) in
      case aj_mode j of
        ModeApply \<Rightarrow>
          wbind (emit_finished_tasks env (aj_id j) stdout) (\<lambda>_.
            emit_log env (aj_id j) (lit ''apply'') (apply_summary stdout (out_success out)))
      | ModeCheck \<Rightarrow> emit_log env (aj_id j) (lit ''check'') (check_mode_summary stdout)
      | ModePlan \<Rightarrow> emit_log env (aj_id j) (lit ''plan'') (plan_summary stdout)
      | ModeReconcile \<Rightarrow> wret ())"

section \<open>Reconciling the source of a job (output.rs, execution\_support.rs)\<close>

definition source_matches :: "ansible_job \<Rightarrow> ansible_job \<Rightarrow> bool" where
  "source_matches src j \<longleftrightarrow>
     aj_status src = JReconcileRequired \<and> aj_mode src = ModeApply
     \<and> can_reconcile_apply (aj_operation src) \<and> aj_target src = aj_target j
     \<and> aj_operation src = aj_operation j \<and> aj_parameters src = aj_parameters j
     \<and> aj_secret_refs src = aj_secret_refs j"

definition load_reconciliation_source ::
  "worker_env \<Rightarrow> ansible_job \<Rightarrow> (job_failure_code, ansible_job) step" where
  "load_reconciliation_source env j =
     wbind (wlift (ok_or PlaybookFailed
       (reconciliation_source_job_id (we_ansible env) (aj_idempotency_key j)))) (\<lambda>source_id.
     wbind (unavailable (call env (\<lambda>up db. (find_job_by_id up source_id (wd_jobs db), db)))) (\<lambda>found.
     wbind (wlift (ok_or PlaybookFailed found)) (\<lambda>src.
       if \<not> source_matches src j then wfail PlaybookFailed else wret src)))"

definition finalize_reconciliation_source ::
  "worker_env \<Rightarrow> ansible_job \<Rightarrow> reconciliation_decision \<Rightarrow> str \<Rightarrow> (job_failure_code, unit) step" where
  "finalize_reconciliation_source env src decision message =
     (let status = (if decision = RecCompleted then JSucceeded else JFailed) in
      wbind (\<lambda>w. (map_err (\<lambda>_. PlaybookFailed)
               (job_transition_to status (we_now env (wk_tick w)) src), w)) (\<lambda>moved.
      wbind (unavailable (update_row env moved)) (\<lambda>_.
      wbind (emit_log env (aj_id moved) (lit ''reconcile'') message) (\<lambda>_.
        unavailable (event env (aj_id moved) (EvStatusChanged status))))))"

definition unreliable_message :: str where
  "unreliable_message = lit ''Ist-Zustand konnte nicht zuverl'' @ ae_uml @ lit ''ssig ermittelt werden. Der Ursprungsjob bleibt abgleichspflichtig; dieser Reconcile-Lauf kann nach Behebung der Verbindungsursache erneut versucht werden.''"

definition reconcile_job ::
  "worker_env \<Rightarrow> uuid \<Rightarrow> ansible_job \<Rightarrow> playbook_output \<Rightarrow> (job_failure_code, unit) step" where
  "reconcile_job env i src out =
     (if \<not> out_success out then emit_log env i (lit ''reconcile'') unreliable_message
      else
        (let decision = reconciliation_decision (from_utf8_lossy (out_stdout out));
             message = reconciliation_summary decision
         in wbind (emit_log env i (lit ''reconcile'') message) (\<lambda>_.
              finalize_reconciliation_source env src decision message)))"

section \<open>Storing a collected inventory\<close>

definition read_package_inventory ::
  "worker_env \<Rightarrow> str \<Rightarrow> uuid \<Rightarrow> (job_failure_code, package_inventory_snapshot) step" where
  "read_package_inventory env dir target_id w =
     (bindR (ok_or PlaybookFailed
        (case hm_get (wk_files w) (join_path dir (lit ''package-inventory.json'')) of
           Some (FileBytes bytes) \<Rightarrow> if we_io env (wk_tick w) then from_utf8 bytes else None
         | Some (FileText s) \<Rightarrow> if we_io env (wk_tick w) then Some s else None
         | None \<Rightarrow> None)) (\<lambda>contents.
      bindR (ok_or PlaybookFailed (we_collected env contents)) (\<lambda>(packages, upgradable).
      bindR (normalize_package_inventory packages upgradable) (\<lambda>ps.
        Inr \<lparr>pis_target_id = target_id, pis_collected_at = we_now env (wk_tick w), pis_packages = ps\<rparr>))),
      w\<lparr>wk_tick := Suc (wk_tick w)\<rparr>)"

definition replace_inventory_row ::
  "bool \<Rightarrow> package_inventory_snapshot \<Rightarrow> worker_db \<Rightarrow> unit repo_result \<times> worker_db" where
  "replace_inventory_row up x db =
     db_write up db
       (if pis_target_id x \<notin> set (map tg_id (wd_targets db)) then (Inl RepDatabase, db)
        else (Inr (), db\<lparr>wd_inventories := upsert pis_target_id x (wd_inventories db)\<rparr>))"

definition persist_package_inventory ::
  "worker_env \<Rightarrow> uuid \<Rightarrow> str \<Rightarrow> uuid \<Rightarrow> (job_failure_code, unit) step" where
  "persist_package_inventory env i dir target_id =
     wbind (read_package_inventory env dir target_id) (\<lambda>snapshot.
     wbind (unavailable (call env (\<lambda>up. replace_inventory_row up snapshot))) (\<lambda>_.
       unavailable (event env i (EvTaskFinished
         (lit ''package inventory: '' @ dec_digits (length (pis_packages snapshot)) @ lit '' packages'') False))))"

section \<open>One run of a job (main.rs)\<close>

text \<open>Starting \<open>ansible-playbook\<close>: the start is recorded, and a finished run may leave its inventory.\<close>

definition run_playbook ::
  "worker_env \<Rightarrow> str \<Rightarrow> str \<Rightarrow> str list \<Rightarrow> invocation_context \<Rightarrow> (job_failure_code, playbook_output) step" where
  "run_playbook env dir book args context w =
     (let inv = \<lparr>iv_inventory = ic_inventory context, iv_playbook = book, iv_vars_file = ic_vars_file context,
            iv_mode_args = args, iv_vars = ic_vars context, iv_files = wk_files w\<rparr>;
          w1 = w\<lparr>wk_started := wk_started w @ [(inv, wk_db w)], wk_tick := Suc (wk_tick w)\<rparr>
      in case we_run env (wk_tick w) inv of
           RunTimedOut \<Rightarrow> (Inl JobTimeout, w1)
         | RunNotStarted \<Rightarrow> (Inl WorkerUnavailable, w1)
         | RunFinished out \<Rightarrow>
             (Inr out, w1\<lparr>wk_files := (case out_inventory_file out of None \<Rightarrow> wk_files w
                | Some bytes \<Rightarrow> hm_insert (join_path dir (lit ''package-inventory.json'')) (FileBytes bytes) (wk_files w))\<rparr>))"

definition conclude_run ::
  "worker_env \<Rightarrow> ansible_job \<Rightarrow> target \<Rightarrow> str \<Rightarrow> playbook_output \<Rightarrow> (job_failure_code, bool) step" where
  "conclude_run env j t dir out =
     (if \<not> out_success out then
        wfail (classify_playbook_failure
          (from_utf8_lossy (out_stdout out) @ 10 # from_utf8_lossy (out_stderr out)))
      else
        wbind (if aj_operation j = OpCollectPackageInventory
               then persist_package_inventory env (aj_id j) dir (tg_id t) else wret ()) (\<lambda>_.
          wret (aj_mode j = ModeApply \<and> playbook_changed (from_utf8_lossy (out_stdout out)))))"

definition invoke_job ::
  "worker_env \<Rightarrow> runtime \<Rightarrow> ansible_job \<Rightarrow> target \<Rightarrow> str \<Rightarrow> (job_failure_code, bool) step" where
  "invoke_job env rt j t dir =
     wbind (wlift (ansible_mode_args (aj_operation j) (aj_mode j))) (\<lambda>args.
     wbind (if aj_mode j = ModeReconcile
            then wbind (load_reconciliation_source env j) (\<lambda>s. wret (Some s)) else wret None) (\<lambda>src.
     wbind (prepare_invocation env rt j t dir) (\<lambda>context.
     wbind (if aj_mode j = ModeApply then mark_job_applying env else wret ()) (\<lambda>_.
     wbind (wlift (ok_or PlaybookFailed (playbook (aj_operation j) (tg_kind t)))) (\<lambda>book.
     wbind (run_playbook env dir book args context) (\<lambda>out.
     wbind (emit_worker_streams env (aj_id j) out context) (\<lambda>_.
     wbind (emit_mode_summary env j out) (\<lambda>_.
     wbind (case src of None \<Rightarrow> wret () | Some s \<Rightarrow> reconcile_job env (aj_id j) s out) (\<lambda>_.
       conclude_run env j t dir out)))))))))"

definition invoke ::
  "worker_env \<Rightarrow> runtime \<Rightarrow> target \<Rightarrow> str \<Rightarrow> (job_failure_code, bool) step" where
  "invoke env rt t dir w = invoke_job env rt (wk_job w) t dir w"

definition run_dir :: "worker_env \<Rightarrow> worker \<Rightarrow> str" where
  "run_dir env w = join_path (we_temp_dir env)
     (lit ''lxcup-'' @ ae_uuid_to_string (we_ansible env) (aj_id (wk_job w)) @ lit ''-''
        @ ae_uuid_to_string (we_ansible env) (we_fresh env (wk_tick w)))"

definition run_in_dir :: "worker_env \<Rightarrow> runtime \<Rightarrow> target \<Rightarrow> (job_failure_code, bool) step" where
  "run_in_dir env rt t w =
     (let dir = run_dir env w in
      wbind (create_dir_all env) (\<lambda>_ w1.
        (case invoke env rt t dir w1 of (r, w2) \<Rightarrow> (r, remove_dir_all env dir w2))) w)"

definition find_target_row :: "bool \<Rightarrow> uuid \<Rightarrow> worker_db \<Rightarrow> target option repo_result" where
  "find_target_row up i db = db_read up (Inr (List.find (\<lambda>t. tg_id t = i) (wd_targets db)))"

definition foreign_secret :: "target \<Rightarrow> ansible_job \<Rightarrow> bool" where
  "foreign_secret t j \<longleftrightarrow>
     list_ex (\<lambda>s. Some s \<noteq> tg_credential_secret_ref t \<and> s \<noteq> tg_agent_secret_ref t) (aj_secret_refs j)"

definition run_on :: "worker_env \<Rightarrow> runtime \<Rightarrow> ansible_job \<Rightarrow> uuid \<Rightarrow> (job_failure_code, bool) step" where
  "run_on env rt j i =
     wbind (unavailable (call env (\<lambda>up db. (find_target_row up i db, db)))) (\<lambda>found.
     wbind (wlift (ok_or Unreachable found)) (\<lambda>t.
       if tg_transport t = Agent then wfail PlaybookFailed
       else if foreign_secret t j then wfail InvalidCredentials
       else wbind (store_job_status env JPlanned) (\<lambda>_. run_in_dir env rt t)))"

definition worker_run :: "worker_env \<Rightarrow> runtime \<Rightarrow> (job_failure_code, bool) step" where
  "worker_run env rt w =
     (case aj_target (wk_job w) of
        Target i \<Rightarrow> run_on env rt (wk_job w) i w
      | _ \<Rightarrow> (Inl PlaybookFailed, w))"

section \<open>The claim loop (main.rs)\<close>

definition run_outcome :: "ansible_job \<Rightarrow> job_failure_code + bool \<Rightarrow> ansible_job_status \<times> job_event_kind" where
  "run_outcome j result =
     (case result of
        Inr changed \<Rightarrow>
          (JSucceeded, EvTaskFinished (if aj_mode j = ModeApply
             then lit ''Apply-Ausf'' @ ue_uml @ lit ''hrung'' else aj_playbook j) changed)
      | Inl code \<Rightarrow>
          (if aj_mode j = ModeApply \<and> aj_status j = JApplying then JReconcileRequired else JFailed,
           EvFailed code))"

definition settle_job ::
  "worker_env \<Rightarrow> ansible_job_status \<times> job_event_kind \<Rightarrow> ansible_job \<Rightarrow> (worker_error, unit) step" where
  "settle_job env outcome j =
     wbind (expect_transition env (fst outcome) j) (\<lambda>j1.
     wbind (repo (update_row env j1)) (\<lambda>_.
     wbind (repo (event env (aj_id j1) (snd outcome))) (\<lambda>_.
     wbind (if fst outcome = JReconcileRequired then repo (event env (aj_id j1) EvReconcileRequired)
            else wret ()) (\<lambda>_.
       repo (event env (aj_id j1) (EvStatusChanged (fst outcome)))))))"

definition process_job :: "worker_env \<Rightarrow> runtime \<Rightarrow> (worker_error, unit) step" where
  "process_job env rt w =
     (case worker_run env rt w of
        (result, w1) \<Rightarrow> settle_job env (run_outcome (wk_job w1) result) (wk_job w1) w1)"

definition claim :: "worker_env \<Rightarrow> (worker_error, ansible_job option) step" where
  "claim env w =
     repo (call env (\<lambda>up. on_jobs (claim_next_queued (we_ansible env) up
       (we_locked env (wk_tick w)) (we_seen env (wk_tick w)) (we_now env (wk_tick w))))) w"

text \<open>
  The loop ends when a claim finds nothing. The server, its scheduler and other workers write to the
  same job tables while it runs; what they do before the \<open>k\<close>-th claim is the argument \<open>others k\<close>.
\<close>

definition interfere :: "(job_db \<Rightarrow> job_db) \<Rightarrow> worker \<Rightarrow> worker" where
  "interfere f w = w\<lparr>wk_db := (wk_db w)\<lparr>wd_jobs := f (wd_jobs (wk_db w))\<rparr>\<rparr>"

lemma interfere_jobs [simp]: "wd_jobs (wk_db (interfere f w)) = f (wd_jobs (wk_db w))"
  by (simp add: interfere_def)

partial_function (option) process ::
  "worker_env \<Rightarrow> runtime \<Rightarrow> (nat \<Rightarrow> job_db \<Rightarrow> job_db) \<Rightarrow> nat \<Rightarrow> worker
     \<Rightarrow> ((worker_error + unit) \<times> worker) option" where
  "process env rt others k w =
     (case claim env (interfere (others k) w) of
        (Inl e, w1) \<Rightarrow> Some (Inl e, w1)
      | (Inr None, w1) \<Rightarrow> Some (Inr (), w1)
      | (Inr (Some j), w1) \<Rightarrow>
          (case process_job env rt (w1\<lparr>wk_job := j\<rparr>) of
             (Inl e, w2) \<Rightarrow> Some (Inl e, w2)
           | (Inr _, w2) \<Rightarrow> process env rt others (Suc k) w2))"

section \<open>Availability of the artifact store (artifact\_store.rs)\<close>

definition is_available :: "worker_env \<Rightarrow> str \<Rightarrow> str \<Rightarrow> worker \<Rightarrow> bool \<times> worker" where
  "is_available env version base_url w =
     ((case we_http env (wk_tick w) (trim_end_matches (ch CHR ''/'') base_url @ lit ''/agent/'' @ version
             @ lit ''/manifest.json'') of
         None \<Rightarrow> False
       | Some (status, body) \<Rightarrow>
           200 \<le> status \<and> status < 300
           \<and> (case Option.bind body (we_json env) of None \<Rightarrow> False | Some m \<Rightarrow> supports_manifest version m)),
      w\<lparr>wk_tick := Suc (wk_tick w)\<rparr>)"

definition record_heartbeat ::
  "worker_env \<Rightarrow> str \<Rightarrow> str \<Rightarrow> bool \<Rightarrow> timestamp \<Rightarrow> (repository_error, unit) step" where
  "record_heartbeat env name version available checked_at w =
     call env (\<lambda>up db. db_write up db (Inr (), db\<lparr>wd_heartbeats := upsert fst
       (name, \<lparr>wr_worker_version = version, wr_last_seen_at = we_now env (wk_tick w),
          wr_artifact_store_available = available, wr_artifact_store_checked_at = checked_at\<rparr>)
       (wd_heartbeats db)\<rparr>)) w"

definition probe_and_persist ::
  "worker_env \<Rightarrow> str \<Rightarrow> str \<Rightarrow> str \<Rightarrow> (repository_error, bool \<times> timestamp) step" where
  "probe_and_persist env name version base_url w =
     (case is_available env version base_url w of
        (available, w1) \<Rightarrow>
          (let checked_at = we_now env (wk_tick w1) in
           wbind (record_heartbeat env name version available checked_at) (\<lambda>_.
             wret (available, checked_at)) w1))"

text \<open>The variables of \<open>report_availability\<close> and one turn of its loop; \<open>Instant\<close>s are timestamps.\<close>

record availability =
  av_available :: bool
  av_checked_at :: timestamp
  av_next_probe :: timestamp
  av_previous_status :: "bool option"

definition report_turn ::
  "worker_env \<Rightarrow> str \<Rightarrow> str \<Rightarrow> str \<Rightarrow> availability \<Rightarrow> worker \<Rightarrow> availability \<times> worker" where
  "report_turn env name version base_url a w =
     (if we_now env (wk_tick w) \<ge> av_next_probe a then
        (case probe_and_persist env name version base_url w of
           (r, w1) \<Rightarrow>
             ((case r of
                 Inr (status, checked_at) \<Rightarrow> a\<lparr>av_available := status, av_checked_at := checked_at,
                   av_previous_status := Some status\<rparr>
               | Inl _ \<Rightarrow> a)\<lparr>av_next_probe := we_now env (wk_tick w1) + seconds 15\<rparr>, w1))
      else (a, snd (record_heartbeat env name version (av_available a) (av_checked_at a) w)))"

end
