(* ===== verification/WorkerSteps.thy ===== *)
theory WorkerSteps
  imports Worker JobStoreLaws
begin

text \<open>
  The calculus for the worker's fallible steps. The locale \<open>step_relation\<close> carries a preorder on
  states through the sequencing operators; its interpretations show which parts of the state a
  step leaves alone. The locale \<open>worker_inv\<close> is the contract of a state predicate that the database
  calls of the worker preserve; inside it, every function of the worker preserves the predicate.
\<close>

section \<open>Relations kept by steps\<close>

definition keeps :: "(worker \<Rightarrow> worker \<Rightarrow> bool) \<Rightarrow> ('e, 'a) step \<Rightarrow> bool" where
  "keeps R m \<longleftrightarrow> (\<forall>w. R w (snd (m w)))"

named_theorems step_intros
named_theorems quiet_steps
named_theorems row_steps

locale step_relation =
  fixes R :: "worker \<Rightarrow> worker \<Rightarrow> bool"
  assumes refl: "R w w"
    and trans: "R a b \<Longrightarrow> R b c \<Longrightarrow> R a c"
begin

lemma ret: "keeps R (wret x)"
  by (simp add: keeps_def wret_def refl)

lemma fail: "keeps R (wfail e)"
  by (simp add: keeps_def wfail_def refl)

lemma lift: "keeps R (wlift r)"
  by (simp add: keeps_def wlift_def refl)

lemma bind: "keeps R m \<Longrightarrow> (\<And>x. keeps R (f x)) \<Longrightarrow> keeps R (wbind m f)"
  by (auto simp: keeps_def wbind_def split: prod.splits sum.splits) (metis snd_conv trans)+

lemma loop: "(\<And>x. keeps R (f x)) \<Longrightarrow> keeps R (wfor f xs)"
  by (induction xs) (simp_all add: ret bind)

lemmas rules = ret fail lift bind loop

end

lemma keeps_map_err [step_intros]: "keeps R m \<Longrightarrow> keeps R (wmap_err g m)"
  by (auto simp: keeps_def wmap_err_def split: prod.splits) (metis snd_conv)

lemma keeps_unavailable [step_intros]: "keeps R m \<Longrightarrow> keeps R (unavailable m)"
  unfolding unavailable_def by (rule keeps_map_err)

lemma keeps_repo [step_intros]: "keeps R m \<Longrightarrow> keeps R (repo m)"
  unfolding repo_def by (rule keeps_map_err)

lemma keeps_if [step_intros]: "keeps R a \<Longrightarrow> keeps R b \<Longrightarrow> keeps R (if c then a else b)"
  by simp

lemma keeps_option [step_intros]:
  "keeps R a \<Longrightarrow> (\<And>y. keeps R (f y)) \<Longrightarrow> keeps R (case x of None \<Rightarrow> a | Some y \<Rightarrow> f y)"
  by (cases x) simp_all

lemma keeps_prod [step_intros]: "(\<And>a b. keeps R (f a b)) \<Longrightarrow> keeps R (case p of (a, b) \<Rightarrow> f a b)"
  by (cases p) simp

lemma keeps_mode [step_intros]:
  "keeps R a \<Longrightarrow> keeps R b \<Longrightarrow> keeps R c \<Longrightarrow> keeps R d \<Longrightarrow>
   keeps R (case m of ModeCheck \<Rightarrow> a | ModePlan \<Rightarrow> b | ModeApply \<Rightarrow> c | ModeReconcile \<Rightarrow> d)"
  by (cases m) simp_all

section \<open>Steps that leave the job and the started commands alone\<close>

definition quiet :: "worker \<Rightarrow> worker \<Rightarrow> bool" where
  "quiet w w' \<longleftrightarrow> wk_job w' = wk_job w \<and> wk_started w' = wk_started w"

interpretation quiet: step_relation quiet
  by unfold_locales (auto simp: quiet_def)

lemma call_quiet [quiet_steps]: "keeps quiet (call env f)"
  by (auto simp: keeps_def quiet_def call_def split: prod.splits)

lemma event_quiet [quiet_steps]: "keeps quiet (event env i e)"
  unfolding event_def
  by (rule quiet.bind [OF call_quiet])
     (use call_quiet [of env "\<lambda>up. on_jobs (append_job_event up x)" for x] in \<open>auto simp: keeps_def\<close>)

lemma file_steps_quiet [quiet_steps]:
  "keeps quiet (update_row env j)" "keeps quiet (write_file env path c)" "keeps quiet (create_dir_all env)"
  "keeps quiet (http_get env url)" "keeps quiet (read_package_inventory env dir i)"
  "keeps quiet (expect_transition env s j)"
  unfolding update_row_def
  by (simp_all add: call_quiet)
     (simp_all add: keeps_def quiet_def write_file_def create_dir_all_def http_get_def Let_def
        read_package_inventory_def expect_transition_def)

lemma transition_quiet [quiet_steps]: "keeps quiet (\<lambda>w. (r w, w))"
  by (simp add: keeps_def quiet_def)

lemmas quiet_rules = quiet.rules step_intros quiet_steps

lemma resolve_artifacts_quiet [quiet_steps]: "keeps quiet (resolve_artifacts env url v k dir)"
  unfolding resolve_artifacts_def download_def Let_def by (intro quiet_rules)

lemma prepare_target_host_quiet [quiet_steps]: "keeps quiet (prepare_target_host env rt t dir)"
  unfolding prepare_target_host_def prepare_known_hosts_def Let_def by (intro quiet_rules)

lemma prepare_workflow_vars_quiet [quiet_steps]: "keeps quiet (prepare_workflow_vars env rt j t dir)"
  unfolding prepare_workflow_vars_def Let_def by (intro quiet_rules resolve_artifacts_quiet)

lemma prepare_invocation_quiet [quiet_steps]: "keeps quiet (prepare_invocation env rt j t dir)"
  unfolding prepare_invocation_def Let_def
  by (intro quiet_rules prepare_target_host_quiet prepare_workflow_vars_quiet)

lemma emit_quiet [quiet_steps]:
  "keeps quiet (emit_log env i s m)" "keeps quiet (emit_worker_streams env i out context)"
  "keeps quiet (emit_mode_summary env j out)"
  unfolding emit_worker_streams_def emit_stream_def emit_mode_summary_def emit_finished_tasks_def
    emit_log_def Let_def
  by (intro quiet_rules)+

lemma load_source_quiet [quiet_steps]: "keeps quiet (load_reconciliation_source env j)"
  unfolding load_reconciliation_source_def by (intro quiet_rules)

lemma reconcile_job_quiet [quiet_steps]: "keeps quiet (reconcile_job env i src out)"
  unfolding reconcile_job_def finalize_reconciliation_source_def Let_def
  by (intro quiet_rules emit_quiet)

lemma conclude_run_quiet [quiet_steps]: "keeps quiet (conclude_run env j t dir out)"
  unfolding conclude_run_def persist_package_inventory_def by (intro quiet_rules)

lemma remove_dir_quiet: "quiet w (remove_dir_all env dir w)"
  by (simp add: quiet_def remove_dir_all_def Let_def)

section \<open>Steps that leave the rows of the job table alone\<close>

abbreviation rows :: "worker \<Rightarrow> job_row list" where
  "rows w \<equiv> jd_jobs (wd_jobs (wk_db w))"

definition same_rows :: "worker \<Rightarrow> worker \<Rightarrow> bool" where
  "same_rows w w' \<longleftrightarrow> rows w' = rows w \<and> wd_targets (wk_db w') = wd_targets (wk_db w)"

interpretation same_rows: step_relation same_rows
  by unfold_locales (auto simp: same_rows_def)

lemma append_job_event_cases:
  "append_job_event up e db = (r, db') \<Longrightarrow> (\<exists>x. r = Inl x) \<and> db' = db \<or>
     r = Inr () \<and> up \<and> je_job_id e \<in> jw_id ` set (jd_jobs db)
     \<and> (je_job_id e, je_sequence e) \<notin> set (event_keys db) \<and> db' = db\<lparr>jd_events := jd_events db @ [e]\<rparr>"
  by (cases up) (auto simp: append_job_event_def event_keys_def split: if_splits)

lemma event_cases:
  assumes e: "event env i e w = (r, w')"
  shows "(\<exists>x. r = Inl x) \<and> wk_db w' = wk_db w
    \<or> r = Inr () \<and> (\<exists>ev db. je_event ev = e \<and> je_job_id ev = i
        \<and> append_job_event True ev (wd_jobs (wk_db w)) = (Inr (), db)
        \<and> wk_db w' = (wk_db w)\<lparr>wd_jobs := db\<rparr>)"
proof (cases "we_up env (wk_tick w) \<and> we_up env (Suc (wk_tick w))")
  case False
  with e show ?thesis
    by (auto simp: event_def wbind_def call_def on_jobs_def job_events_def append_job_event_def db_read_def db_write_def
        split: if_splits)
next
  case True
  define ev where "ev = \<lparr>je_sequence = length (filter (\<lambda>e. je_job_id e = i) (jd_events (wd_jobs (wk_db w)))) + 1,
     je_job_id = i, je_event = e, je_created_at = we_now env (Suc (wk_tick w))\<rparr>"
  obtain x db where x: "append_job_event True ev (wd_jobs (wk_db w)) = (x, db)" by fastforce
  with e True have "r = x" "wk_db w' = (wk_db w)\<lparr>wd_jobs := db\<rparr>"
    by (auto simp: event_def wbind_def call_def on_jobs_def job_events_def db_read_def ev_def)
  moreover have "je_event ev = e" "je_job_id ev = i" by (simp_all add: ev_def)
  ultimately show ?thesis using append_job_event_cases [OF x] x
  proof (elim disjE conjE exE)
    fix y assume "x = Inl y" "db = wd_jobs (wk_db w)"
    with \<open>r = x\<close> \<open>wk_db w' = (wk_db w)\<lparr>wd_jobs := db\<rparr>\<close> show ?thesis by simp
  next
    assume "x = Inr ()"
    with x \<open>r = x\<close> \<open>wk_db w' = (wk_db w)\<lparr>wd_jobs := db\<rparr>\<close> \<open>je_event ev = e\<close> \<open>je_job_id ev = i\<close>
    show ?thesis by blast
  qed
qed

lemma event_rows [row_steps]: "keeps same_rows (event env i e)"
  by (auto simp: keeps_def event_def wbind_def call_def on_jobs_def same_rows_def
      split: prod.splits sum.splits dest!: append_job_event_cases)

lemma file_steps_rows [row_steps]:
  "keeps same_rows (write_file env path c)" "keeps same_rows (create_dir_all env)"
  "keeps same_rows (http_get env url)" "keeps same_rows (read_package_inventory env dir i)"
  "keeps same_rows (expect_transition env s j)" "keeps same_rows (\<lambda>w. (r w, w))"
  "keeps same_rows (call env (\<lambda>up db. (f up db, db)))"
  "keeps same_rows (call env (\<lambda>up. replace_inventory_row up x))"
  "keeps same_rows (run_playbook env dir book args context)"
  by (auto simp: keeps_def same_rows_def write_file_def create_dir_all_def http_get_def Let_def call_def
      read_package_inventory_def expect_transition_def replace_inventory_row_def db_write_def run_playbook_def
      split: playbook_run.splits option.splits)

lemmas row_rules = same_rows.rules step_intros row_steps

lemma resolve_artifacts_rows [row_steps]: "keeps same_rows (resolve_artifacts env url v k dir)"
  unfolding resolve_artifacts_def download_def Let_def by (intro row_rules)

lemma prepare_target_host_rows [row_steps]: "keeps same_rows (prepare_target_host env rt t dir)"
  unfolding prepare_target_host_def prepare_known_hosts_def Let_def by (intro row_rules)

lemma prepare_workflow_vars_rows [row_steps]: "keeps same_rows (prepare_workflow_vars env rt j t dir)"
  unfolding prepare_workflow_vars_def Let_def by (intro row_rules resolve_artifacts_rows)

lemma prepare_invocation_rows [row_steps]: "keeps same_rows (prepare_invocation env rt j t dir)"
  unfolding prepare_invocation_def Let_def
  by (intro row_rules prepare_target_host_rows prepare_workflow_vars_rows)

lemma emit_rows [row_steps]:
  "keeps same_rows (emit_log env i s m)" "keeps same_rows (emit_worker_streams env i out context)"
  "keeps same_rows (emit_mode_summary env j out)"
  unfolding emit_worker_streams_def emit_stream_def emit_mode_summary_def emit_finished_tasks_def
    emit_log_def Let_def
  by (intro row_rules)+

lemma load_source_rows [row_steps]: "keeps same_rows (load_reconciliation_source env j)"
  unfolding load_reconciliation_source_def by (intro row_rules)

lemma conclude_run_rows [row_steps]: "keeps same_rows (conclude_run env j t dir out)"
  unfolding conclude_run_def persist_package_inventory_def by (intro row_rules)

lemma remove_dir_rows: "same_rows w (remove_dir_all env dir w)"
  by (simp add: same_rows_def remove_dir_all_def Let_def)

lemma update_row_cases:
  assumes "update_row env j w = (r, w')"
  shows "(\<exists>e. r = Inl e) \<and> wk_db w' = wk_db w
    \<or> r = Inr () \<and> (\<exists>db. write_job j (wd_jobs (wk_db w)) = Some db \<and> wk_db w' = (wk_db w)\<lparr>wd_jobs := db\<rparr>)"
  using assms by (cases "we_up env (wk_tick w)")
    (auto simp: update_row_def call_def on_jobs_def update_job_def split: option.splits)

section \<open>A logic of steps\<close>

text \<open>From a state with \<open>P\<close>, a success ends in \<open>Q\<close> of its value and an error in \<open>E\<close>.\<close>

definition hoare ::
  "(worker \<Rightarrow> bool) \<Rightarrow> ('e, 'a) step \<Rightarrow> ('a \<Rightarrow> worker \<Rightarrow> bool) \<Rightarrow> (worker \<Rightarrow> bool) \<Rightarrow> bool" where
  "hoare P m Q E \<longleftrightarrow> (\<forall>w. P w \<longrightarrow> (case m w of (Inl e, w') \<Rightarrow> E w' | (Inr x, w') \<Rightarrow> Q x w'))"

lemma hoareD:
  "hoare P m Q E \<Longrightarrow> P w \<Longrightarrow> m w = (r, w') \<Longrightarrow> (case r of Inl e \<Rightarrow> E w' | Inr x \<Rightarrow> Q x w')"
  by (auto simp: hoare_def split: sum.splits)

lemma hoare_bind:
  "hoare P m Q1 E \<Longrightarrow> (\<And>x. hoare (Q1 x) (f x) Q E) \<Longrightarrow> hoare P (wbind m f) Q E"
  by (fastforce simp: hoare_def wbind_def split: prod.splits sum.splits)

lemma hoare_pre: "(\<And>w. P w \<Longrightarrow> P' w) \<Longrightarrow> hoare P' m Q E \<Longrightarrow> hoare P m Q E"
  by (simp add: hoare_def)

lemma hoare_ret: "(\<And>w. P w \<Longrightarrow> Q x w) \<Longrightarrow> hoare P (wret x) Q E"
  by (simp add: hoare_def wret_def)

lemma hoare_fail: "(\<And>w. P w \<Longrightarrow> E w) \<Longrightarrow> hoare P (wfail e) Q E"
  by (simp add: hoare_def wfail_def)

lemma hoare_lift: "(\<And>w. P w \<Longrightarrow> E w) \<Longrightarrow> (\<And>w x. r = Inr x \<Longrightarrow> P w \<Longrightarrow> Q x w) \<Longrightarrow> hoare P (wlift r) Q E"
  by (auto simp: hoare_def wlift_def split: sum.splits)

lemma hoare_lift_same: "(\<And>w. P w \<Longrightarrow> E w) \<Longrightarrow> hoare P (wlift r) (\<lambda>_. P) E"
  by (rule hoare_lift)

lemma hoare_if: "(c \<Longrightarrow> hoare P a Q E) \<Longrightarrow> (\<not> c \<Longrightarrow> hoare P b Q E) \<Longrightarrow> hoare P (if c then a else b) Q E"
  by simp

lemma hoare_map_err: "hoare P m Q E \<Longrightarrow> hoare P (wmap_err g m) Q E"
proof (unfold hoare_def, intro allI impI)
  fix w assume h: "\<forall>w. P w \<longrightarrow> (case m w of (Inl e, w') \<Rightarrow> E w' | (Inr x, w') \<Rightarrow> Q x w')" and "P w"
  obtain r w' where r: "m w = (r, w')" by fastforce
  from h \<open>P w\<close> r show "case wmap_err g m w of (Inl e, w') \<Rightarrow> E w' | (Inr x, w') \<Rightarrow> Q x w'"
    by (cases r) (force simp: wmap_err_def)+
qed

lemma hoare_keeps: "keeps (\<lambda>w w'. P w \<longrightarrow> P w') m \<Longrightarrow> hoare P m (\<lambda>_. P) P"
  by (auto simp: keeps_def hoare_def split: prod.splits sum.splits)

lemma hoare_snd: "hoare P m (\<lambda>_. Q) Q \<Longrightarrow> P w \<Longrightarrow> Q (snd (m w))"
  unfolding hoare_def by (cases "m w"; cases "fst (m w)") force+

lemma hoare_weaken:
  "hoare P m Q E \<Longrightarrow> (\<And>x w. Q x w \<Longrightarrow> Q' x w) \<Longrightarrow> (\<And>w. E w \<Longrightarrow> E' w) \<Longrightarrow> hoare P m Q' E'"
  unfolding hoare_def by (fastforce split: prod.splits sum.splits)

section \<open>Invariants of the job tables\<close>

text \<open>A job that is some stored job with another status and update time.\<close>

definition stored :: "job_db \<Rightarrow> ansible_job \<Rightarrow> bool" where
  "stored db j \<longleftrightarrow> (\<exists>row \<in> set (jd_jobs db). \<exists>s t. j = restatus s t (jw_payload row))"

lemma stored_restatus: "stored db j \<Longrightarrow> stored db (restatus s t j)"
  by (fastforce simp: stored_def)

lemma restatus_self: "restatus (aj_status j) (aj_updated_at j) j = j"
  by (simp add: restatus_def)

lemma stored_payload: "row \<in> set (jd_jobs db) \<Longrightarrow> stored db (jw_payload row)"
  unfolding stored_def by (metis restatus_self)

lemma stored_rows: "jd_jobs db' = jd_jobs db \<Longrightarrow> stored db' j = stored db j"
  by (simp add: stored_def)

lemma write_stored_ok:
  assumes "job_db_ok db" "stored db k" "write_job k db = Some db'"
  shows "job_db_ok db'" and "jd_jobs db' = map (set_job k) (jd_jobs db)"
    and "jd_events db' = jd_events db" and "jd_targets db' = jd_targets db"
  using assms write_job_ok unfolding stored_def by metis+

lemma stored_write:
  assumes ok: "job_db_ok db" and k: "stored db k" and w: "write_job k db = Some db'" and j: "stored db j"
  shows "stored db' j"
proof -
  from j obtain row s t where row: "row \<in> set (jd_jobs db)" "j = restatus s t (jw_payload row)"
    by (auto simp: stored_def)
  from k obtain krow ks kt where krow: "krow \<in> set (jd_jobs db)" "k = restatus ks kt (jw_payload krow)"
    by (auto simp: stored_def)
  have "aj_id k = jw_id krow" using ok krow by (simp add: job_db_ok_def list_all_iff row_ok_def)
  then have "jw_payload (set_job k row) = jw_payload row
      \<or> jw_payload (set_job k row) = restatus ks kt (jw_payload row)"
    using row_unique [OF ok row(1) krow(1)] krow(2) by (auto simp: set_job_def)
  then have "j = restatus s t (jw_payload (set_job k row))" using row(2) by auto
  with row(1) show ?thesis
    unfolding stored_def write_stored_ok(2) [OF ok k w] by auto
qed

definition holds :: "(job_db \<Rightarrow> ansible_job \<Rightarrow> bool) \<Rightarrow> worker \<Rightarrow> bool" where
  "holds I w \<longleftrightarrow> I (wd_jobs (wk_db w)) (wk_job w)"

locale worker_inv =
  fixes I :: "job_db \<Rightarrow> ansible_job \<Rightarrow> bool"
  assumes ok: "I db j \<Longrightarrow> job_db_ok db \<and> stored db j"
    and event_kept: "I db j \<Longrightarrow> append_job_event True e db = (Inr (), db') \<Longrightarrow> I db' j"
    and write_kept: "I db j \<Longrightarrow> stored db k \<Longrightarrow> aj_status k \<noteq> JQueued \<Longrightarrow> write_job k db = Some db' \<Longrightarrow> I db' j"
    and move_kept: "I db j \<Longrightarrow> s \<noteq> JQueued \<Longrightarrow> I db (restatus s t j)"

begin

abbreviation kept :: "worker \<Rightarrow> worker \<Rightarrow> bool" where
  "kept w w' \<equiv> holds I w \<longrightarrow> holds I w'"

lemma kept_same: "wd_jobs (wk_db w') = wd_jobs (wk_db w) \<Longrightarrow> wk_job w' = wk_job w \<Longrightarrow> kept w w'"
  by (simp add: holds_def)

lemma event_keeps: "keeps kept (event env i e)"
proof (unfold keeps_def, intro allI impI)
  fix w assume h: "holds I w"
  obtain r w' where r: "event env i e w = (r, w')" by fastforce
  have j: "wk_job w' = wk_job w" using event_quiet [of env i e] r by (auto simp: keeps_def quiet_def dest: spec [of _ w])
  from event_cases [OF r] have "wd_jobs (wk_db w') = wd_jobs (wk_db w)
      \<or> (\<exists>x. append_job_event True x (wd_jobs (wk_db w)) = (Inr (), wd_jobs (wk_db w')))"
    by auto
  with h j show "holds I (snd (event env i e w))"
    unfolding r snd_conv holds_def using event_kept by metis
qed

lemma quiet_keeps:
  "keeps kept (write_file env path c)" "keeps kept (create_dir_all env)" "keeps kept (http_get env url)"
  "keeps kept (read_package_inventory env dir i)" "keeps kept (expect_transition env s j)"
  "keeps kept (\<lambda>w. (r w, w))" "keeps kept (call env (\<lambda>up db. (f up db, db)))"
  "keeps kept (call env (\<lambda>up. replace_inventory_row up x))" "keeps kept (run_playbook env dir book args context)"
  by (auto simp: keeps_def holds_def write_file_def create_dir_all_def http_get_def Let_def call_def
      read_package_inventory_def expect_transition_def replace_inventory_row_def db_write_def run_playbook_def
      split: playbook_run.splits option.splits)

lemma update_row_kept:
  assumes "holds I w" "stored (wd_jobs (wk_db w)) k" "aj_status k \<noteq> JQueued" "update_row env k w = (r, w')"
  shows "holds I w'"
proof -
  have "wk_job w' = wk_job w" using file_steps_quiet(1) [of env k] assms(4)
    by (auto simp: keeps_def quiet_def dest: spec [of _ w])
  then show ?thesis
    using assms(1-3) update_row_cases [OF assms(4)] write_kept by (auto simp: holds_def)
qed

lemma remove_dir_kept: "holds I w \<Longrightarrow> holds I (remove_dir_all env dir w)"
  by (simp add: holds_def remove_dir_all_def Let_def)

end

sublocale worker_inv \<subseteq> kept: step_relation kept
  by unfold_locales auto

context worker_inv
begin

lemmas kept_rules = kept.rules step_intros event_keeps quiet_keeps

lemma prepare_invocation_keeps: "keeps kept (prepare_invocation env rt j t dir)"
  unfolding prepare_invocation_def prepare_target_host_def prepare_known_hosts_def prepare_workflow_vars_def
    resolve_artifacts_def download_def Let_def
  by (intro kept_rules)

lemma emit_keeps:
  "keeps kept (emit_log env i s m)" "keeps kept (emit_worker_streams env i out context)"
  "keeps kept (emit_mode_summary env j out)"
  unfolding emit_worker_streams_def emit_stream_def emit_mode_summary_def emit_finished_tasks_def
    emit_log_def Let_def
  by (intro kept_rules)+

lemma load_source_keeps: "keeps kept (load_reconciliation_source env j)"
  unfolding load_reconciliation_source_def by (intro kept_rules)

lemma conclude_run_keeps: "keeps kept (conclude_run env j t dir out)"
  unfolding conclude_run_def persist_package_inventory_def by (intro kept_rules)

end

text \<open>A predicate stays one with any stored job named beside it.\<close>

lemma worker_inv_with_source:
  assumes "worker_inv I"
  shows "worker_inv (\<lambda>db j. I db j \<and> stored db src)"
proof -
  show ?thesis
  proof
    fix db j e db' assume a: "I db j \<and> stored db src" "append_job_event True e db = (Inr (), db')"
    then have "jd_jobs db' = jd_jobs db" using append_job_event_cases [OF a(2)] by auto
    with a show "I db' j \<and> stored db' src"
      using worker_inv.event_kept [OF assms, of db j e db'] stored_rows [of db' db src] by simp
  next
    fix db j k db'
    assume "I db j \<and> stored db src" "stored db k" "aj_status k \<noteq> JQueued" "write_job k db = Some db'"
    then show "I db' j \<and> stored db' src"
      using worker_inv.write_kept [OF assms, of db j k db'] worker_inv.ok [OF assms, of db j]
        stored_write [of db k db' src] by simp
  next
    fix db j assume "I db j \<and> stored db src"
    then show "job_db_ok db \<and> stored db j" using worker_inv.ok [OF assms, of db j] by simp
  next
    fix db j and s :: ansible_job_status and t assume "I db j \<and> stored db src" "s \<noteq> JQueued"
    then show "I db (restatus s t j) \<and> stored db src" using worker_inv.move_kept [OF assms, of db j s t] by simp
  qed
qed

section \<open>The run of a job keeps the invariant\<close>

lemma job_can_leave: "job_can_transition_to a b \<Longrightarrow> a \<noteq> JFailed \<Longrightarrow> b \<noteq> JQueued"
  by (cases a) auto

context worker_inv
begin

lemma update_row_hoare:
  assumes "aj_status k \<noteq> JQueued"
  shows "hoare (\<lambda>w. holds I w \<and> stored (wd_jobs (wk_db w)) k) (update_row env k) (\<lambda>_. holds I) (holds I)"
  unfolding hoare_def using assms update_row_kept by (auto split: prod.splits sum.splits)

lemma set_job_status_kept:
  assumes "holds I w" "s \<noteq> JQueued" "set_job_status env s w = (r, w')"
  shows "holds I w' \<and> (\<forall>u. r = Inr u \<longrightarrow> aj_status (wk_job w') = s)"
  using assms move_kept
  by (auto simp: set_job_status_def holds_def job_transition_restatus split: sum.splits)

lemma store_job_status_keeps:
  assumes "s \<noteq> JQueued"
  shows "keeps kept (store_job_status env s)"
proof (unfold keeps_def, intro allI impI)
  fix w assume h: "holds I w"
  obtain r w1 where r: "set_job_status env s w = (r, w1)" by fastforce
  note k = set_job_status_kept [OF h assms r]
  show "holds I (snd (store_job_status env s w))"
  proof (cases r)
    case (Inl e)
    with r k show ?thesis by (simp add: store_job_status_def wbind_def)
  next
    case (Inr u)
    let ?m = "wbind (unavailable (update_row env (wk_job w1))) (\<lambda>_. unavailable (event env (aj_id (wk_job w1)) (EvStatusChanged s)))"
    have "aj_status (wk_job w1) \<noteq> JQueued" using k Inr assms by simp
    then have "hoare (\<lambda>w. holds I w \<and> stored (wd_jobs (wk_db w)) (wk_job w1)) ?m (\<lambda>_. holds I) (holds I)"
      unfolding unavailable_def
      by (rule hoare_bind [OF hoare_map_err [OF update_row_hoare] hoare_map_err [OF hoare_keeps [OF event_keeps]]])
    moreover have "stored (wd_jobs (wk_db w1)) (wk_job w1)" using k ok by (simp add: holds_def)
    moreover have "store_job_status env s w = ?m w1" using r Inr by (simp add: store_job_status_def wbind_def)
    ultimately show ?thesis using k hoare_snd [of _ ?m "holds I" w1] by simp
  qed
qed

lemma finalize_source_hoare:
  "hoare (\<lambda>w. holds I w \<and> stored (wd_jobs (wk_db w)) src) (finalize_reconciliation_source env src d m)
     (\<lambda>_. holds I) (holds I)"
proof -
  let ?s = "if d = RecCompleted then JSucceeded else JFailed"
  have "hoare (\<lambda>w. holds I w \<and> stored (wd_jobs (wk_db w)) src)
      (\<lambda>w. (map_err (\<lambda>_. PlaybookFailed) (job_transition_to ?s (we_now env (wk_tick w)) src), w))
      (\<lambda>moved w. aj_status moved = ?s \<and> holds I w \<and> stored (wd_jobs (wk_db w)) moved) (holds I)"
    by (auto simp: hoare_def job_transition_to_def stored_restatus [unfolded restatus_def])
  moreover have "hoare (\<lambda>w. aj_status moved = ?s \<and> holds I w \<and> stored (wd_jobs (wk_db w)) moved)
      (unavailable (update_row env moved)) (\<lambda>_. holds I) (holds I)" for moved
    unfolding unavailable_def
    by (rule hoare_map_err) (cases "aj_status moved = ?s", auto simp: hoare_def intro: update_row_kept split: prod.splits sum.splits if_splits)
  ultimately show ?thesis
    unfolding finalize_reconciliation_source_def Let_def
    by (intro hoare_bind [OF _ hoare_bind [OF _ hoare_bind [OF hoare_keeps hoare_keeps]]] keeps_unavailable
        event_keeps emit_keeps)
qed

lemma reconcile_job_hoare:
  "hoare (\<lambda>w. holds I w \<and> stored (wd_jobs (wk_db w)) src) (reconcile_job env i src out) (\<lambda>_. holds I) (holds I)"
proof -
  have log: "hoare (\<lambda>w. holds I w \<and> stored (wd_jobs (wk_db w)) src) (emit_log env i s m)
      (\<lambda>_ w. holds I w \<and> stored (wd_jobs (wk_db w)) src) (holds I)" for s m
    using hoare_weaken [OF hoare_keeps [OF worker_inv.emit_keeps(1) [OF worker_inv_with_source [OF worker_inv_axioms]]],
        of src "\<lambda>_ w. holds I w \<and> stored (wd_jobs (wk_db w)) src" "holds I" env i s m]
    by (simp add: holds_def)
  show ?thesis
    unfolding reconcile_job_def Let_def
    by (rule hoare_if; rule hoare_weaken [OF log] hoare_bind [OF log finalize_source_hoare]) simp_all
qed

lemma load_source_hoare:
  "hoare (holds I) (load_reconciliation_source env j)
     (\<lambda>src w. holds I w \<and> stored (wd_jobs (wk_db w)) src) (holds I)"
proof (unfold hoare_def, intro allI impI)
  fix w assume h: "holds I w"
  obtain r w' where r: "load_reconciliation_source env j w = (r, w')" by fastforce
  from h r load_source_keeps [of env j] have "holds I w'" by (auto simp: keeps_def dest!: spec [of _ w])
  moreover have "stored (wd_jobs (wk_db w')) src" if "r = Inr src" for src
    using r that
    by (auto simp: load_reconciliation_source_def wbind_def wlift_def wret_def wfail_def unavailable_def wmap_err_def
        call_def find_job_by_id_def db_read_def split: prod.splits sum.splits if_splits option.splits
        dest!: find_SomeD intro: stored_payload)
  ultimately show "case load_reconciliation_source env j w of (Inl e, w') \<Rightarrow> holds I w'
      | (Inr src, w') \<Rightarrow> holds I w' \<and> stored (wd_jobs (wk_db w')) src"
    unfolding r by (cases r) auto
qed

end

definition with_sources :: "ansible_job option \<Rightarrow> (job_db \<Rightarrow> ansible_job \<Rightarrow> bool) \<Rightarrow> job_db \<Rightarrow> ansible_job \<Rightarrow> bool" where
  "with_sources src I db j \<longleftrightarrow> I db j \<and> (case src of None \<Rightarrow> True | Some s \<Rightarrow> stored db s)"

lemma worker_inv_with_sources:
  assumes "worker_inv I"
  shows "worker_inv (with_sources src I)"
proof (cases src)
  case None
  then have "with_sources src I = I" by (simp add: with_sources_def fun_eq_iff)
  with assms show ?thesis by simp
next
  case (Some s)
  then have "with_sources src I = (\<lambda>db j. I db j \<and> stored db s)" by (simp add: with_sources_def fun_eq_iff)
  with worker_inv_with_source [OF assms] show ?thesis by simp
qed

context worker_inv
begin

lemma source_choice_hoare:
  "hoare (holds I)
     (if c then wbind (load_reconciliation_source env j) (\<lambda>s. wret (Some s)) else wret None)
     (\<lambda>src. holds (with_sources src I)) (holds I)"
  by (rule hoare_if) (auto intro!: hoare_bind [OF load_source_hoare] hoare_ret simp: holds_def with_sources_def)

lemma sources_hoare:
  assumes "keeps (\<lambda>w w'. holds (with_sources src I) w \<longrightarrow> holds (with_sources src I) w') m"
  shows "hoare (holds (with_sources src I)) m (\<lambda>_. holds (with_sources src I)) (holds I)"
  by (rule hoare_weaken [OF hoare_keeps [OF assms]]) (simp_all add: holds_def with_sources_def)

lemma reconcile_choice_hoare:
  "hoare (holds (with_sources src I)) (case src of None \<Rightarrow> wret () | Some s \<Rightarrow> reconcile_job env i s out)
     (\<lambda>_. holds I) (holds I)"
  using reconcile_job_hoare by (cases src) (simp_all add: hoare_def wret_def with_sources_def holds_def)

lemma apply_choice_keeps: "keeps kept (if b then mark_job_applying env else wret ())"
  unfolding mark_job_applying_def by (intro keeps_if store_job_status_keeps kept.ret) simp

lemma invoke_job_keeps: "keeps kept (invoke_job env rt j t dir)"
proof -
  note inv = worker_inv_with_sources [OF worker_inv_axioms]
  have "hoare (holds I) (invoke_job env rt j t dir) (\<lambda>_. holds I) (holds I)"
    unfolding invoke_job_def
    by (intro hoare_bind [OF hoare_lift_same] hoare_bind [OF source_choice_hoare]
        hoare_bind [OF sources_hoare [OF worker_inv.prepare_invocation_keeps [OF inv]]]
        hoare_bind [OF sources_hoare [OF worker_inv.apply_choice_keeps [OF inv]]]
        hoare_bind [OF sources_hoare [OF worker_inv.quiet_keeps(9) [OF inv]]]
        hoare_bind [OF sources_hoare [OF worker_inv.emit_keeps(2) [OF inv]]]
        hoare_bind [OF sources_hoare [OF worker_inv.emit_keeps(3) [OF inv]]]
        hoare_bind [OF reconcile_choice_hoare] hoare_keeps [OF conclude_run_keeps])
       (auto simp: holds_def with_sources_def)
  then show ?thesis by (auto simp: keeps_def intro: hoare_snd)
qed

lemma run_in_dir_keeps: "keeps kept (run_in_dir env rt t)"
proof (unfold keeps_def, intro allI impI)
  fix w assume h: "holds I w"
  obtain r w1 where r: "create_dir_all env w = (r, w1)" by fastforce
  have h1: "holds I w1" using h quiet_keeps(2) [of env] r by (auto simp: keeps_def dest!: spec [of _ w])
  show "holds I (snd (run_in_dir env rt t w))"
    using h1 r invoke_job_keeps [of env rt "wk_job w1" t "run_dir env w"] remove_dir_kept
    by (cases r) (auto simp: run_in_dir_def wbind_def Let_def invoke_def keeps_def split: prod.splits dest!: spec [of _ w1])
qed

lemma run_keeps: "keeps kept (worker_run env rt)"
proof -
  have "keeps kept (run_on env rt j i)" for j i
    unfolding run_on_def
    by (intro kept_rules store_job_status_keeps run_in_dir_keeps) simp
  then show ?thesis by (auto simp: worker_run_def keeps_def split: resource_target.splits)
qed

lemma settle_job_hoare:
  assumes "job_can_transition_to (aj_status j) (fst outcome)" "aj_status j \<noteq> JFailed"
  shows "hoare (\<lambda>w. holds I w \<and> stored (wd_jobs (wk_db w)) j) (settle_job env outcome j) (\<lambda>_. holds I) (holds I)"
proof -
  have s: "fst outcome \<noteq> JQueued" using assms job_can_leave by blast
  have "hoare (\<lambda>w. holds I w \<and> stored (wd_jobs (wk_db w)) j) (expect_transition env (fst outcome) j)
      (\<lambda>k w. aj_status k \<noteq> JQueued \<and> holds I w \<and> stored (wd_jobs (wk_db w)) k) (holds I)"
    using s by (auto simp: hoare_def expect_transition_def job_transition_to_def stored_restatus [unfolded restatus_def])
  moreover have "hoare (\<lambda>w. aj_status k \<noteq> JQueued \<and> holds I w \<and> stored (wd_jobs (wk_db w)) k)
      (repo (update_row env k)) (\<lambda>_. holds I) (holds I)" for k
    unfolding repo_def using update_row_kept
    by (intro hoare_map_err) (auto simp: hoare_def split: prod.splits sum.splits)
  ultimately show ?thesis
    unfolding settle_job_def
    by (intro hoare_bind [OF _ hoare_bind [OF _ hoare_keeps]] kept_rules)
qed

end

end
