(* ===== verification/WorkerTrace.thy ===== *)
theory WorkerTrace
  imports WorkerSteps
begin

text \<open>
  What one run of a job does: which command it starts, with which variables, in which state of the
  job table, and how the job's status moves.
\<close>

section \<open>Running from a fixed state\<close>

context step_relation
begin

lemma hoare_from: "keeps R m \<Longrightarrow> hoare (R w0) m (\<lambda>_. R w0) (R w0)"
  by (rule hoare_keeps) (auto simp: keeps_def intro: trans)

end

lemma hoare_conj:
  "hoare P m Q E \<Longrightarrow> hoare P' m Q' E' \<Longrightarrow> hoare (\<lambda>w. P w \<and> P' w) m (\<lambda>x w. Q x w \<and> Q' x w) (\<lambda>w. E w \<and> E' w)"
  by (fastforce simp: hoare_def split: prod.splits sum.splits)

lemma hoare_closed:
  assumes "keeps R m" "\<And>w w'. S w \<Longrightarrow> R w w' \<Longrightarrow> S w'"
  shows "hoare S m (\<lambda>_. S) S"
  by (rule hoare_keeps) (use assms in \<open>auto simp: keeps_def\<close>)

section \<open>The variables of a command\<close>

lemma set_fields_object: "\<exists>ob'. set_fields fs (JObject ob) = JObject ob'"
  by (induction fs arbitrary: ob) (auto simp: set_fields_def)

lemma set_fields_Nil [simp]: "set_fields [] v = v"
  by (simp add: set_fields_def)

lemma set_fields_Cons: "set_fields ((k, x) # fs) v = set_fields fs (json_set k x v)"
  by (simp add: set_fields_def)

lemma json_get_set_fields:
  "json_get k (set_fields fs (JObject ob)) =
     (case map_of (rev fs) k of Some x \<Rightarrow> Some x | None \<Rightarrow> json_get k (JObject ob))"
proof (induction fs arbitrary: ob)
  case (Cons f fs)
  obtain a x where f: "f = (a, x)" by fastforce
  have "json_get k (set_fields (f # fs) (JObject ob)) = json_get k (set_fields fs (JObject (AList.update a x ob)))"
    by (simp add: f set_fields_Cons)
  also have "\<dots> = (case map_of (rev (f # fs)) k of Some x \<Rightarrow> Some x | None \<Rightarrow> json_get k (JObject ob))"
    unfolding Cons.IH by (auto simp: f update_conv map_add_def split: option.splits)
  finally show ?case .
qed simp

lemma json_get_set_fields_other:
  "k \<notin> fst ` set fs \<Longrightarrow> json_get k (set_fields fs (JObject ob)) = json_get k (JObject ob)"
  unfolding json_get_set_fields by (simp add: map_of_eq_None_iff [THEN iffD2])

definition object_with :: "str \<Rightarrow> json \<Rightarrow> json \<Rightarrow> bool" where
  "object_with k x v \<longleftrightarrow> (\<exists>ob. v = JObject ob) \<and> json_get k v = Some x"

lemma object_with_fields:
  assumes "object_with k x v" "k \<notin> fst ` set fs"
  shows "object_with k x (set_fields fs v)"
  using assms json_get_set_fields_other set_fields_object unfolding object_with_def by metis

lemma object_with_set: "object_with k x v \<Longrightarrow> k \<noteq> a \<Longrightarrow> object_with k x (json_set a y v)"
  using object_with_fields [of k x v "[(a, y)]"] by (simp add: set_fields_Cons)

abbreviation "mode_key \<equiv> lit ''lxcup_execution_mode''"
abbreviation "confirmed_key \<equiv> lit ''lxcup_plan_confirmed''"

lemma binary_vars_keys: "binary_vars kind p = Inr fs \<Longrightarrow> mode_key \<notin> fst ` set fs"
  by (auto simp: binary_vars_def bindR_Inr_iff split: if_splits option.splits)

lemma prepare_agent_vars_object:
  "prepare_agent_vars env rt j t v = Inr (token, v') \<Longrightarrow> object_with mode_key x v \<Longrightarrow> object_with mode_key x v'"
  by (auto simp: prepare_agent_vars_def bindR_Inr_iff intro!: object_with_fields split: if_splits)

lemma final_vars:
  assumes "object_with mode_key x v"
  shows "object_with mode_key x (set_fields (package_vars j @ inventory_vars j t dir) v)"
    and "aj_parameters j = ParamUpdatePackages ps \<Longrightarrow>
      json_get confirmed_key (set_fields (package_vars j @ inventory_vars j t dir) v) = Some (JBool (aj_mode j = ModeApply))"
proof -
  show "object_with mode_key x (set_fields (package_vars j @ inventory_vars j t dir) v)"
    by (rule object_with_fields [OF assms])
       (auto simp: package_vars_def inventory_vars_def split: ansible_parameters.splits if_splits)
next
  assume p: "aj_parameters j = ParamUpdatePackages ps"
  from assms obtain obj where "v = JObject obj" by (auto simp: object_with_def)
  then show "json_get confirmed_key (set_fields (package_vars j @ inventory_vars j t dir) v) = Some (JBool (aj_mode j = ModeApply))"
    by (simp add: json_get_set_fields package_vars_def inventory_vars_def p)
qed

definition vars_ok :: "ansible_job \<Rightarrow> json \<Rightarrow> bool" where
  "vars_ok j v \<longleftrightarrow> json_get mode_key v = Some (JString (execution_mode_text (aj_mode j)))
     \<and> (\<forall>ps. aj_parameters j = ParamUpdatePackages ps \<longrightarrow>
          json_get confirmed_key v = Some (JBool (aj_mode j = ModeApply)))"

lemma prepare_workflow_vars_ok:
  "hoare (\<lambda>_. True) (prepare_workflow_vars env rt j t dir) (\<lambda>p _. vars_ok j (fst p)) (\<lambda>_. True)"
proof -
  let ?x = "JString (execution_mode_text (aj_mode j))"
  have init: "object_with mode_key ?x (JObject [(mode_key, ?x)])" by (simp add: object_with_def)
  have start: "hoare (\<lambda>_. True) (wlift (prepare_agent_vars env rt j t (JObject [(mode_key, ?x)])))
      (\<lambda>(token, v) _. object_with mode_key ?x v) (\<lambda>_. True)"
    by (rule hoare_lift) (auto intro!: prepare_agent_vars_object [OF _ init])
  have url: "object_with mode_key ?x v \<Longrightarrow> object_with mode_key ?x (case rt_controller_url rt of None \<Rightarrow> v
      | Some url \<Rightarrow> json_set (lit ''lxcup_controller_url'') (JString url) v)" for v
    by (auto intro: object_with_set split: option.splits)
  have any: "hoare (\<lambda>_. P) m (\<lambda>_ _. P) (\<lambda>_. True)" for P :: bool and m :: "(job_failure_code, 'b) step"
    by (auto simp: hoare_def split: prod.splits sum.splits)
  have binaries: "hoare (\<lambda>_. object_with mode_key ?x v)
      (case deployed_version (aj_parameters j) of None \<Rightarrow> wret v
       | Some version \<Rightarrow> wbind (resolve_artifacts env (rt_artifacts rt) version (tg_kind t) dir) (\<lambda>binaries.
           wbind (wlift (binary_vars (tg_kind t) binaries)) (\<lambda>fs.
             wret (set_fields ((lit ''lxcup_agent_version'', JString version) # fs) v))))
      (\<lambda>v _. object_with mode_key ?x v) (\<lambda>_. True)" for v
  proof (cases "deployed_version (aj_parameters j)")
    case (Some version)
    have "hoare (\<lambda>_. object_with mode_key ?x v) (wlift (binary_vars (tg_kind t) p))
        (\<lambda>fs _. object_with mode_key ?x v \<and> mode_key \<notin> fst ` set fs) (\<lambda>_. True)" for p
      by (rule hoare_lift) (use binary_vars_keys in blast)+
    then show ?thesis
      unfolding Some option.case
      by (rule hoare_bind [OF any hoare_bind]) (auto intro!: hoare_ret object_with_fields simp: rev_image_eqI)
  qed (auto intro!: hoare_ret)
  show ?thesis
    unfolding prepare_workflow_vars_def Let_def
    by (rule hoare_bind [OF start])
       (auto intro!: hoare_bind [OF hoare_pre [OF _ binaries]] hoare_ret url
          simp: vars_ok_def final_vars dest: final_vars(1) split: prod.splits simp: object_with_def)
qed

lemma prepare_invocation_vars:
  "hoare (\<lambda>_. True) (prepare_invocation env rt j t dir) (\<lambda>context _. vars_ok j (ic_vars context)) (\<lambda>_. True)"
proof -
  have any: "hoare (\<lambda>_. True) m (\<lambda>_ _. True) (\<lambda>_. True)" for m :: "(job_failure_code, 'b) step"
    by (auto simp: hoare_def split: prod.splits sum.splits)
  have put: "hoare (\<lambda>_. P) (write_file env path c) (\<lambda>_ _. P) (\<lambda>_. True)" for P :: bool and path c
    by (auto simp: hoare_def split: prod.splits sum.splits)
  show ?thesis
    unfolding prepare_invocation_def Let_def split_beta
    by (rule hoare_bind [OF any], rule hoare_bind [OF put], rule hoare_bind [OF prepare_workflow_vars_ok],
        rule hoare_bind [OF put], rule hoare_ret)
       simp
qed

section \<open>The command of a run\<close>

definition applying_row :: "job_db \<Rightarrow> uuid \<Rightarrow> bool" where
  "applying_row db i \<longleftrightarrow> (\<exists>r \<in> set (jd_jobs db). jw_id r = i \<and> jw_status r = lit ''applying'')"

definition job_in_run :: "ansible_job \<Rightarrow> ansible_job \<Rightarrow> bool" where
  "job_in_run j j' \<longleftrightarrow> (if aj_mode j = ModeApply then \<exists>t. j' = restatus JApplying t j else j' = j)"

definition command_ok :: "ansible_job \<Rightarrow> target \<Rightarrow> invocation \<times> worker_db \<Rightarrow> bool" where
  "command_ok j t c \<longleftrightarrow> ansible_mode_args (aj_operation j) (aj_mode j) = Inr (iv_mode_args (fst c))
     \<and> playbook (aj_operation j) (tg_kind t) = Some (iv_playbook (fst c))
     \<and> vars_ok j (iv_vars (fst c))
     \<and> (aj_mode j = ModeApply \<longrightarrow> applying_row (wd_jobs (snd c)) (aj_id j))"

text \<open>The states a run of \<open>j\<close> passes through after the state \<open>w0\<close>.\<close>

definition started :: "ansible_job \<Rightarrow> target \<Rightarrow> worker \<Rightarrow> worker \<Rightarrow> bool" where
  "started j t w0 w \<longleftrightarrow> job_in_run j (wk_job w) \<and> (\<exists>c. command_ok j t c \<and> wk_started w = wk_started w0 @ [c])"

definition marked :: "ansible_job \<Rightarrow> worker \<Rightarrow> worker \<Rightarrow> bool" where
  "marked j w0 w \<longleftrightarrow> job_in_run j (wk_job w) \<and> wk_started w = wk_started w0"

definition run_trace :: "ansible_job \<Rightarrow> target \<Rightarrow> worker \<Rightarrow> worker \<Rightarrow> bool" where
  "run_trace j t w0 w \<longleftrightarrow> quiet w0 w \<or> marked j w0 w \<or> started j t w0 w"

lemma write_applying_row:
  assumes "job_db_ok db" "stored db j" "aj_status j = JApplying" "write_job j db = Some db'"
  shows "applying_row db' (aj_id j)"
proof -
  from assms(1,2) obtain row where "row \<in> set (jd_jobs db)" "jw_id row = aj_id j"
    by (auto simp: stored_def job_db_ok_def list_all_iff row_ok_def)
  then have "set_job j row \<in> set (jd_jobs db')" "jw_id (set_job j row) = aj_id j"
      "jw_status (set_job j row) = lit ''applying''"
    using write_stored_ok(2) [OF assms(1,2,4)] assms(3) by (auto simp: set_job_def)
  then show ?thesis unfolding applying_row_def by blast
qed

definition base :: "job_db \<Rightarrow> ansible_job \<Rightarrow> bool" where
  "base db j \<longleftrightarrow> job_db_ok db \<and> stored db j"

lemma append_event_kept:
  "append_job_event True e db = (Inr (), db') \<Longrightarrow> job_db_ok db \<Longrightarrow> job_db_ok db' \<and> jd_jobs db' = jd_jobs db"
  using append_job_event_ok [of db True e] append_job_event_cases [of True e db "Inr ()" db'] by auto

interpretation base: worker_inv base
proof
  fix db j e db' assume b: "base db j" and a: "append_job_event True e db = (Inr (), db')"
  from append_event_kept [OF a] b show "base db' j" by (auto simp: base_def stored_rows [of db' db])
next
  fix db j k db' assume b: "base db j" and k: "stored db k" and w: "write_job k db = Some db'"
  then have o: "job_db_ok db" "stored db j" by (simp_all add: base_def)
  show "base db' j" unfolding base_def
    using write_stored_ok(1) [OF o(1) k w] stored_write [OF o(1) k w o(2)] by (rule conjI)
qed (simp_all add: base_def stored_restatus)

lemma store_status_effect:
  assumes "store_job_status env s w = (r, w')"
  shows "wk_started w' = wk_started w
    \<and> (wk_job w' = wk_job w \<and> (\<exists>e. r = Inl e)
       \<or> job_can_transition_to (aj_status (wk_job w)) s \<and> (\<exists>t. wk_job w' = restatus s t (wk_job w)))"
proof (cases "job_can_transition_to (aj_status (wk_job w)) s")
  case True
  define w1 where "w1 = w\<lparr>wk_job := restatus s (we_now env (wk_tick w)) (wk_job w)\<rparr>"
  have s: "set_job_status env s w = (Inr (), w1)"
    using True by (simp add: set_job_status_def job_transition_to_def restatus_def w1_def)
  have "keeps quiet (wbind (unavailable (update_row env (wk_job w1)))
      (\<lambda>_. unavailable (event env (aj_id (wk_job w1)) (EvStatusChanged s))))"
    by (intro quiet_rules)
  then have "quiet w1 w'"
    using assms s by (auto simp: keeps_def store_job_status_def wbind_def dest!: spec [of _ w1])
  then show ?thesis using True by (auto simp: quiet_def w1_def)
qed (use assms in \<open>auto simp: store_job_status_def wbind_def set_job_status_def job_transition_to_def\<close>)

lemma store_status_row:
  assumes "store_job_status env JApplying w = (Inr (), w')" "holds base w"
  shows "applying_row (wd_jobs (wk_db w')) (aj_id (wk_job w))"
proof -
  from assms(1) obtain w1 where w1: "set_job_status env JApplying w = (Inr (), w1)"
    by (auto simp: store_job_status_def wbind_def split: prod.splits sum.splits)
  have h1: "holds base w1" and st: "aj_status (wk_job w1) = JApplying"
    using base.set_job_status_kept [OF assms(2) _ w1] by auto
  have i: "aj_id (wk_job w1) = aj_id (wk_job w)"
    using w1 by (auto simp: set_job_status_def job_transition_restatus split: sum.splits)
  from assms(1) w1 obtain w2 where u: "update_row env (wk_job w1) w1 = (Inr (), w2)"
      and e: "event env (aj_id (wk_job w1)) (EvStatusChanged JApplying) w2 = (Inr (), w')"
    by (auto simp: store_job_status_def wbind_def unavailable_def wmap_err_def split: prod.splits sum.splits)
  from update_row_cases [OF u] obtain db where "write_job (wk_job w1) (wd_jobs (wk_db w1)) = Some db"
      "wk_db w2 = (wk_db w1)\<lparr>wd_jobs := db\<rparr>"
    by auto
  with h1 st have "applying_row (wd_jobs (wk_db w2)) (aj_id (wk_job w1))"
    using write_applying_row by (auto simp: holds_def base_def)
  moreover have "rows w' = rows w2"
    using e event_rows [of env "aj_id (wk_job w1)" "EvStatusChanged JApplying"]
    by (auto simp: keeps_def same_rows_def dest!: spec [of _ w2])
  ultimately show ?thesis by (simp add: applying_row_def i)
qed

definition before_run :: "worker \<Rightarrow> worker \<Rightarrow> bool" where
  "before_run w0 w \<longleftrightarrow> quiet w0 w \<and> holds base w"

definition ready :: "ansible_job \<Rightarrow> worker \<Rightarrow> worker \<Rightarrow> bool" where
  "ready j w0 w \<longleftrightarrow> marked j w0 w \<and> (aj_mode j = ModeApply \<longrightarrow> applying_row (wd_jobs (wk_db w)) (aj_id j))"

lemma wbind_lift_Inr: "wbind (wlift (Inr x)) f = f x"
  by (simp add: fun_eq_iff wbind_def wlift_def)

lemma before_run_hoare:
  assumes "keeps quiet m" "keeps base.kept m"
  shows "hoare (before_run w0) m (\<lambda>_. before_run w0) (run_trace j t w0)"
  unfolding before_run_def
  by (rule hoare_weaken [OF hoare_conj [OF quiet.hoare_from [OF assms(1)] hoare_keeps [OF assms(2)]]])
     (simp_all add: run_trace_def)

lemma quiet_wk: "quiet w w' \<Longrightarrow> wk_job w' = wk_job w \<and> wk_started w' = wk_started w"
  by (simp add: quiet_def)

lemma mark_hoare:
  assumes "wk_job w0 = j" "aj_status j = JPlanned"
  shows "hoare (before_run w0) (if aj_mode j = ModeApply then mark_job_applying env else wret ())
     (\<lambda>_. ready j w0) (run_trace j t w0)"
proof (rule hoare_if)
  assume a: "aj_mode j = ModeApply"
  show "hoare (before_run w0) (mark_job_applying env) (\<lambda>_. ready j w0) (run_trace j t w0)"
  proof (unfold hoare_def, intro allI impI)
    fix w assume b: "before_run w0 w"
    obtain r w' where r: "mark_job_applying env w = (r, w')" by fastforce
    note e = store_status_effect [OF r [unfolded mark_job_applying_def]]
    have w: "wk_job w = j" "wk_started w = wk_started w0" "holds base w"
      using b assms by (auto simp: before_run_def quiet_def)
    have "quiet w0 w' \<or> marked j w0 w'"
      using e w assms a by (auto simp: quiet_def marked_def job_in_run_def)
    moreover have "ready j w0 w'" if "r = Inr u" for u
      using e w a that store_status_row [of env w w'] r
      by (auto simp: ready_def marked_def job_in_run_def mark_job_applying_def)
    ultimately show "case mark_job_applying env w of (Inl e, w') \<Rightarrow> run_trace j t w0 w' | (Inr x, w') \<Rightarrow> ready j w0 w'"
      unfolding r by (cases r) (auto simp: run_trace_def)
  qed
next
  assume "aj_mode j \<noteq> ModeApply"
  with assms show "hoare (before_run w0) (wret ()) (\<lambda>_. ready j w0) (run_trace j t w0)"
    by (auto intro!: hoare_ret simp: before_run_def ready_def marked_def job_in_run_def quiet_def)
qed

lemma run_playbook_hoare:
  assumes "ansible_mode_args (aj_operation j) (aj_mode j) = Inr args"
    "playbook (aj_operation j) (tg_kind t) = Some book" "vars_ok j (ic_vars cx)"
  shows "hoare (ready j w0) (run_playbook env dir book args cx) (\<lambda>_. started j t w0) (run_trace j t w0)"
  using assms
  by (auto simp: hoare_def run_playbook_def Let_def run_trace_def started_def ready_def marked_def command_ok_def
      split: playbook_run.splits)

lemma started_hoare:
  assumes "keeps quiet m"
  shows "hoare (started j t w0) m (\<lambda>_. started j t w0) (run_trace j t w0)"
  by (rule hoare_weaken [OF hoare_closed [OF assms, of "started j t w0"]])
     (auto simp: started_def run_trace_def dest: quiet_wk)

lemma invoke_job_hoare:
  assumes "wk_job w0 = j" "aj_status j = JPlanned"
  shows "hoare (before_run w0) (invoke_job env rt j t dir) (\<lambda>_. started j t w0) (run_trace j t w0)"
proof -
  have choice_quiet: "keeps quiet (if c then wbind (load_reconciliation_source env j) (\<lambda>s. wret (Some s)) else wret None)" for c
    by (intro quiet_rules load_source_quiet)
  have choice_kept: "keeps base.kept (if c then wbind (load_reconciliation_source env j) (\<lambda>s. wret (Some s)) else wret None)" for c
    by (intro base.kept_rules base.load_source_keeps)
  have prepare: "hoare (before_run w0) (prepare_invocation env rt j t dir)
      (\<lambda>cx w. before_run w0 w \<and> vars_ok j (ic_vars cx)) (run_trace j t w0)"
    using hoare_conj [OF before_run_hoare [OF prepare_invocation_quiet base.prepare_invocation_keeps] prepare_invocation_vars]
    by simp
  have book: "hoare (ready j w0) (wlift (ok_or PlaybookFailed (playbook (aj_operation j) (tg_kind t))))
      (\<lambda>b w. ready j w0 w \<and> playbook (aj_operation j) (tg_kind t) = Some b) (run_trace j t w0)"
    by (rule hoare_lift) (auto simp: ready_def run_trace_def ok_or_Inr_iff)
  have tail: "hoare (started j t w0)
      (wbind (emit_worker_streams env (aj_id j) out cx) (\<lambda>_. wbind (emit_mode_summary env j out) (\<lambda>_.
        wbind (case src of None \<Rightarrow> wret () | Some s \<Rightarrow> reconcile_job env (aj_id j) s out) (\<lambda>_. conclude_run env j t dir out))))
      (\<lambda>_. started j t w0) (run_trace j t w0)" for out cx src
    by (intro started_hoare quiet_rules emit_quiet reconcile_job_quiet conclude_run_quiet)
  have body: "hoare (\<lambda>w. before_run w0 w \<and> vars_ok j (ic_vars cx))
      (wbind (if aj_mode j = ModeApply then mark_job_applying env else wret ()) (\<lambda>_.
       wbind (wlift (ok_or PlaybookFailed (playbook (aj_operation j) (tg_kind t)))) (\<lambda>book.
       wbind (run_playbook env dir book args cx) (f cx))))
      (\<lambda>_. started j t w0) (run_trace j t w0)"
    if args: "ansible_mode_args (aj_operation j) (aj_mode j) = Inr args"
      and f: "\<And>out. hoare (started j t w0) (f cx out) (\<lambda>_. started j t w0) (run_trace j t w0)" for cx args f
  proof (cases "vars_ok j (ic_vars cx)")
    case True
    have "hoare (\<lambda>w. ready j w0 w \<and> playbook (aj_operation j) (tg_kind t) = Some b)
        (wbind (run_playbook env dir b args cx) (f cx)) (\<lambda>_. started j t w0) (run_trace j t w0)" for b
      using hoare_bind [OF run_playbook_hoare [OF args _ True] f] by (auto simp: hoare_def)
    then show ?thesis
      using True by (simp add: hoare_bind [OF mark_hoare [OF assms] hoare_bind [OF book]])
  qed (simp add: hoare_def)
  show ?thesis
  proof (cases "ansible_mode_args (aj_operation j) (aj_mode j)")
    case (Inl e)
    then show ?thesis by (auto simp: invoke_job_def wbind_def wlift_def hoare_def before_run_def run_trace_def)
  next
    case (Inr args)
    show ?thesis
      unfolding invoke_job_def Inr wbind_lift_Inr
      by (rule hoare_bind [OF before_run_hoare [OF choice_quiet choice_kept] hoare_bind [OF prepare body [OF Inr tail]]])
  qed
qed

section \<open>A run from the claim on\<close>

lemma started_quiet: "quiet w0 w1 \<Longrightarrow> started j t w1 w \<Longrightarrow> started j t w0 w"
  by (auto simp: started_def quiet_def)

lemma run_trace_quiet: "quiet w0 w1 \<Longrightarrow> run_trace j t w1 w \<Longrightarrow> run_trace j t w0 w"
  by (auto simp: run_trace_def started_def marked_def quiet_def)

lemma trace_then_quiet:
  "run_trace j t w0 w \<Longrightarrow> quiet w w' \<Longrightarrow> run_trace j t w0 w'"
  "started j t w0 w \<Longrightarrow> quiet w w' \<Longrightarrow> started j t w0 w'"
  by (auto simp: run_trace_def started_def marked_def quiet_def)

lemma run_in_dir_trace:
  assumes r: "run_in_dir env rt t w = (r, w')" and h: "holds base w" and s: "aj_status (wk_job w) = JPlanned"
  shows "run_trace (wk_job w) t w w' \<and> (\<forall>x. r = Inr x \<longrightarrow> started (wk_job w) t w w')"
proof -
  obtain r1 w1 where c: "create_dir_all env w = (r1, w1)" by fastforce
  have q: "quiet w w1" using c by (auto simp: create_dir_all_def quiet_def)
  show ?thesis
  proof (cases r1)
    case (Inl e)
    with c r q show ?thesis by (auto simp: run_in_dir_def wbind_def Let_def run_trace_def)
  next
    case (Inr u)
    obtain r2 w2 where i: "invoke_job env rt (wk_job w1) t (run_dir env w) w1 = (r2, w2)" by fastforce
    have w': "r = r2" "w' = remove_dir_all env (run_dir env w) w2"
      using r c Inr i by (simp_all add: run_in_dir_def wbind_def Let_def invoke_def)
    have j: "wk_job w1 = wk_job w" using q by (simp add: quiet_def)
    have "before_run w1 w1" using h c by (auto simp: before_run_def quiet_def holds_def create_dir_all_def)
    from hoareD [OF invoke_job_hoare [OF refl] this i] s j
    have "run_trace (wk_job w) t w1 w2" "r = Inr x \<Longrightarrow> started (wk_job w) t w1 w2" for x
      unfolding w'(1) by (cases r2; simp add: run_trace_def)+
    then have "run_trace (wk_job w) t w w2" "r = Inr x \<Longrightarrow> started (wk_job w) t w w2" for x
      using run_trace_quiet [OF q] started_quiet [OF q] by simp_all
    then show ?thesis
      unfolding w'(2) using trace_then_quiet [OF _ remove_dir_quiet [of w2 env "run_dir env w"]] by simp
  qed
qed

definition planned_trace ::
  "ansible_job \<Rightarrow> worker \<Rightarrow> job_failure_code + bool \<Rightarrow> worker \<Rightarrow> bool" where
  "planned_trace jp w r w' \<longleftrightarrow>
     (\<exists>e. r = Inl e) \<and> wk_started w' = wk_started w \<and> (wk_job w' = jp \<or> job_in_run jp (wk_job w'))
     \<or> job_in_run jp (wk_job w') \<and> (\<exists>t c. command_ok jp t c \<and> wk_started w' = wk_started w @ [c])"

lemma run_on_trace:
  assumes r: "run_on env rt (wk_job w) i w = (r, w')" and h: "holds base w"
  shows "(\<exists>e. r = Inl e) \<and> quiet w w' \<or> (\<exists>tm. planned_trace (restatus JPlanned tm (wk_job w)) w r w')"
proof -
  obtain f w1 where c: "unavailable (call env (\<lambda>up db. (find_target_row up i db, db))) w = (f, w1)" by fastforce
  have q: "quiet w w1" and h1: "holds base w1"
    using c h by (auto simp: unavailable_def wmap_err_def call_def quiet_def holds_def)
  show ?thesis
  proof (cases "\<exists>t. f = Inr (Some t) \<and> tg_transport t \<noteq> Agent \<and> \<not> foreign_secret t (wk_job w)")
    case False
    then show ?thesis
      using r c q
      by (cases f; cases "f = Inr None")
         (auto simp: run_on_def wbind_def wlift_def wfail_def split: if_splits)
  next
    case True
    then obtain t where t: "f = Inr (Some t)" "tg_transport t \<noteq> Agent" "\<not> foreign_secret t (wk_job w)" by blast
    obtain s w2 where s: "store_job_status env JPlanned w1 = (s, w2)" by fastforce
    have r2: "(case s of Inl e \<Rightarrow> (Inl e, w2) | Inr _ \<Rightarrow> run_in_dir env rt t w2) = (r, w')"
      using r c t s by (simp add: run_on_def wbind_def wlift_def split: sum.splits)
    have h2: "holds base w2"
      using h1 s base.store_job_status_keeps [of JPlanned env] by (auto simp: keeps_def dest!: spec [of _ w1])
    from store_status_effect [OF s] q have st: "wk_started w2 = wk_started w" and
      cases: "wk_job w2 = wk_job w \<and> (\<exists>e. s = Inl e) \<or> (\<exists>tm. wk_job w2 = restatus JPlanned tm (wk_job w))"
      by (auto simp: quiet_def)
    from cases show ?thesis
    proof
      assume "wk_job w2 = wk_job w \<and> (\<exists>e. s = Inl e)"
      with r2 st show ?thesis by (auto simp: quiet_def)
    next
      assume "\<exists>tm. wk_job w2 = restatus JPlanned tm (wk_job w)"
      then obtain tm where tm: "wk_job w2 = restatus JPlanned tm (wk_job w)" ..
      have "planned_trace (wk_job w2) w r w'"
      proof (cases s)
        case (Inl e)
        with r2 st show ?thesis by (auto simp: planned_trace_def)
      next
        case (Inr u)
        with r2 have d: "run_in_dir env rt t w2 = (r, w')" by simp
        from run_in_dir_trace [OF d h2] tm
        have "run_trace (wk_job w2) t w2 w'" "\<forall>x. r = Inr x \<longrightarrow> started (wk_job w2) t w2 w'" by simp_all
        then show ?thesis
          using st unfolding planned_trace_def run_trace_def started_def marked_def quiet_def
          by (cases r) auto
      qed
      with tm show ?thesis by auto
    qed
  qed
qed

lemma run_effect:
  assumes "worker_run env rt w = (r, w')" "holds base w"
  shows "(\<exists>e. r = Inl e) \<and> quiet w w' \<or> (\<exists>tm. planned_trace (restatus JPlanned tm (wk_job w)) w r w')"
  using assms run_on_trace
  by (auto simp: worker_run_def quiet.refl split: resource_target.splits)

lemma restatus_more [simp]:
  "aj_parameters (restatus s t j) = aj_parameters j" "aj_secret_refs (restatus s t j) = aj_secret_refs j"
  "aj_playbook (restatus s t j) = aj_playbook j"
  by (simp_all add: restatus_def)

lemma command_ok_restatus [simp]: "command_ok (restatus s tm j) t c = command_ok j t c"
  by (simp add: command_ok_def vars_ok_def)

lemma run_status:
  assumes "worker_run env rt w = (r, w')" "holds base w" "aj_status (wk_job w) = JChecking"
  obtains s tm where "wk_job w' = wk_job w \<and> s = JChecking \<or> wk_job w' = restatus s tm (wk_job w)"
    "s \<in> {JChecking, JPlanned, JApplying}" "s = JApplying \<Longrightarrow> aj_mode (wk_job w) = ModeApply"
    "wk_started w' \<noteq> wk_started w \<Longrightarrow> aj_mode (wk_job w) = ModeApply \<Longrightarrow> s = JApplying"
    "r = Inr x \<Longrightarrow> s \<noteq> JChecking"
    "aj_status (wk_job w') = s"
  using run_effect [OF assms(1,2)] assms(3)
  by (elim disjE exE conjE) (auto simp: planned_trace_def job_in_run_def quiet_def split: if_splits)

end
