(* ===== verification/WorkerExamples.thy ===== *)
theory WorkerExamples
  imports WorkerTrace
begin

text \<open>A target with a password, a worker with a claimed job of it, and a playbook that prints nothing.\<close>

definition lab_target :: target where
  "lab_target = \<lparr>tg_id = 1, tg_name = lit ''lab'', tg_kind = LinuxServer, tg_address = lit ''lab'', tg_transport = Ssh,
     tg_ssh_user = None, tg_credential_secret_ref = Some 2, tg_ssh_known_hosts_secret_ref = Some 3,
     tg_agent_secret_ref = 4, tg_state = TargetManaged, tg_created_at = 0, tg_updated_at = 0\<rparr>"

definition lab_job :: "ansible_parameters \<Rightarrow> execution_mode \<Rightarrow> ansible_job_status \<Rightarrow> ansible_job" where
  "lab_job params mode status = \<lparr>aj_id = 7, aj_operation = parameters_operation params, aj_playbook = lit ''p'',
     aj_playbook_version = lit ''1'', aj_target = Target 1, aj_mode = mode, aj_parameters = params,
     aj_secret_refs = [2], aj_idempotency_key = lit ''k'', aj_parameter_hash = lit ''h'', aj_status = status,
     aj_created_at = 0, aj_updated_at = 0\<rparr>"

definition lab_metadata :: metadata_reader where
  "lab_metadata i = Inr \<lparr>st_metadata = \<lparr>sm_id = i, sm_name = lit ''n'',
     sm_kind = (if i = 2 then SshPassword else SshKnownHosts), sm_scope = GlobalScope, sm_created_at = 0, sm_updated_at = 0\<rparr>, st_status = SecActive\<rparr>"

definition lab_runtime :: runtime where
  "lab_runtime = \<lparr>rt_read = (\<lambda>_. Inr (SecretValue (lit ''s3c''))), rt_metadata = lab_metadata,
     rt_artifacts = lit ''http://a'', rt_user = lit ''lxcup'', rt_controller_url = None\<rparr>"

definition lab_env :: worker_env where
  "lab_env = \<lparr>we_up = (\<lambda>_. True), we_now = (\<lambda>_. 5), we_io = (\<lambda>_. True), we_fresh = (\<lambda>_. 9), we_locked = (\<lambda>_. []),
     we_seen = (\<lambda>_. job_db_empty),
     we_run = (\<lambda>_ _. RunFinished \<lparr>out_success = True, out_stdout = [], out_stderr = [], out_inventory_file = None\<rparr>),
     we_http = (\<lambda>_ _. None), we_manifest = (\<lambda>_. None), we_json = (\<lambda>_. None), we_collected = (\<lambda>_. None),
     we_json_text = (\<lambda>_. []), we_temp_dir = lit ''/t'', we_ansible = store_env\<rparr>"

definition lab_world :: "ansible_parameters \<Rightarrow> execution_mode \<Rightarrow> ansible_job_status \<Rightarrow> worker" where
  "lab_world params mode status = \<lparr>wk_db = \<lparr>wd_jobs = \<lparr>jd_jobs = [row_of_job (lab_job params mode status)],
       jd_events = [], jd_targets = [(1, LinuxServer)]\<rparr>, wd_targets = [lab_target], wd_inventories = [], wd_heartbeats = []\<rparr>,
     wk_files = [], wk_started = [], wk_job = lab_job params mode status, wk_tick = 0\<rparr>"

lemma lab_world_ok: "job_db_ok (wd_jobs (wk_db (lab_world params mode status)))"
  by (simp add: lab_world_def job_db_ok_def unique_ok_def row_ok_def row_of_job_def lab_job_def event_keys_def)

lemma lab_world_stored: "stored (wd_jobs (wk_db (lab_world params mode status))) (wk_job (lab_world params mode status))"
  using stored_payload [of "row_of_job (lab_job params mode status)"]
  by (simp add: lab_world_def row_of_job_def)

lemmas worker_eval =
  process_job_def worker_run_def run_on_def settle_job_def run_outcome_def wbind_def wlift_def wret_def wfail_def
  unavailable_def wmap_err_def repo_def call_def on_jobs_def find_target_row_def db_read_def db_write_def
  foreign_secret_def store_job_status_def set_job_status_def update_row_def event_def job_events_def
  append_job_event_def update_job_def write_job_def set_job_def unique_ok_def row_of_job_def
  run_in_dir_def create_dir_all_def remove_dir_all_def invoke_def invoke_job_def ansible_mode_args_def
  supports_mode_def can_reconcile_apply_def prepare_invocation_def prepare_target_host_def prepare_known_hosts_def invalid_credentials_def
  write_file_def prepare_workflow_vars_def prepare_agent_vars_def mark_job_applying_def playbook_def
  expect_transition_def job_transition_to_def

lemmas lab_defs = lab_world_def lab_env_def lab_runtime_def lab_metadata_def lab_target_def lab_job_def

abbreviation "lab_configure \<equiv> lab_world (ParamConfigureTarget None) ModeApply JChecking"
abbreviation "lab_plan \<equiv> lab_world (ParamUpdatePackages [lit ''a'']) ModePlan JChecking"
abbreviation "lab_interrupted \<equiv> lab_world (ParamUpdatePackages [lit ''a'']) ModeApply JApplying"
abbreviation "lab_unsettled \<equiv> lab_world (ParamUpdatePackages [lit ''a'']) ModeApply JReconcileRequired"

abbreviation "lab_queued \<equiv> lab_world (ParamUpdatePackages [lit ''a'']) ModePlan JQueued"

text \<open>What the server does between the jobs of the worker: it saves a further job after the first.\<close>

definition lab_server :: "nat \<Rightarrow> job_db \<Rightarrow> job_db" where
  "lab_server k db =
     (if k = 1 then snd (save_job True ((lab_job (ParamUpdatePackages [lit ''b'']) ModePlan JQueued)
        \<lparr>aj_id := 8, aj_idempotency_key := lit ''k2''\<rparr>) db) else db)"

lemma lab_configure_run:
  "fst (process_job lab_env lab_runtime lab_configure) = Inr () \<and>
   map (\<lambda>r. (jw_id r, jw_status r)) (rows (snd (process_job lab_env lab_runtime lab_configure)))
     = [(7, lit ''reconcile_required'')]"
  by (simp add: worker_eval lab_defs Let_def del: json_set.simps json_get.simps)

lemma lab_recovery_run: "fst (recover_interrupted_jobs lab_env lab_interrupted) = Inr ()"
  by (simp add: worker_eval lab_defs Let_def recover_interrupted_jobs_def list_jobs_def recover_job_def)

lemma empty_redacted: "redact_output (from_utf8_lossy []) secrets = []"
proof -
  have "fold (\<lambda>secret v. if secret = [] then v else replace_str secret redacted v) ss [] = []" for ss
    by (induction ss) auto
  then show ?thesis by (simp add: redact_output_def from_utf8_lossy_def lossy_bytes.simps)
qed

lemma lab_plan_run: "length (wk_started (snd (process_job lab_env lab_runtime lab_plan))) = 1"
  by (simp add: worker_eval lab_defs Let_def run_playbook_def emit_worker_streams_def emit_stream_def empty_redacted
      trim_def trim_end_def trim_start_def emit_mode_summary_def emit_log_def conclude_run_def package_vars_def
      inventory_vars_def del: json_set.simps json_get.simps)


definition silent_output :: playbook_output where
  "silent_output = \<lparr>out_success = True, out_stdout = [], out_stderr = [], out_inventory_file = None\<rparr>"

definition lab_source :: ansible_job where
  "lab_source = lab_job (ParamUpdatePackages [lit ''a'']) ModeApply JReconcileRequired"

definition lab_reconciler :: ansible_job where
  "lab_reconciler = (lab_job (ParamUpdatePackages [lit ''a'']) ModeReconcile JPlanned)\<lparr>aj_id := 8, aj_idempotency_key := lit ''r''\<rparr>"

definition lab_pair :: worker where
  "lab_pair = lab_unsettled\<lparr>wk_db := (wk_db lab_unsettled)\<lparr>wd_jobs := (wd_jobs (wk_db lab_unsettled))\<lparr>jd_jobs :=
     [row_of_job lab_source, row_of_job lab_reconciler]\<rparr>\<rparr>\<rparr>"

lemma lab_pair_ok: "job_db_ok (wd_jobs (wk_db lab_pair))"
  by (simp add: lab_pair_def lab_source_def lab_reconciler_def lab_world_def job_db_ok_def unique_ok_def row_ok_def
      row_of_job_def lab_job_def event_keys_def executing_def)

lemma lab_reconcile_run: "fst (reconcile_job lab_env 8 lab_source silent_output lab_pair) = Inr ()"
  by (simp add: worker_eval lab_defs lab_pair_def lab_source_def lab_reconciler_def Let_def executing_def reconcile_job_def
      silent_output_def from_utf8_lossy_def lossy_bytes.simps reconciliation_decision_def play_recap_def emit_log_def
      finalize_reconciliation_source_def del: reconciliation_summary.simps)

end
