(* ===== verification/WorkerLaws.thy ===== *)
theory WorkerLaws
  imports WorkerExamples
begin

text \<open>
  Properties of the worker: the commands it starts, the statuses it leaves, recovery after a
  restart, the end of the claim loop, redaction of its logs, the binaries it deploys and the files
  it leaves behind.
\<close>

section \<open>Settling a job\<close>

lemma keeps_snd: "keeps R m \<Longrightarrow> m w = (r, w') \<Longrightarrow> R w w'"
  by (metis keeps_def snd_conv)

lemma wbind_Inr: "m w = (Inr x, w1) \<Longrightarrow> wbind m f w = f x w1"
  by (simp add: wbind_def)

lemma repo_no_panic: "repo m w = (Inl e, w') \<Longrightarrow> e \<noteq> WorkerPanic"
  by (auto simp: repo_def wmap_err_def split: prod.splits) (metis map_err.simps sum.exhaust sum.inject(1) sum.distinct(1) worker_error.distinct(1))

definition no_panic :: "(worker_error, 'a) step \<Rightarrow> bool" where
  "no_panic m \<longleftrightarrow> (\<forall>w. fst (m w) \<noteq> Inl WorkerPanic)"

lemma no_panic_repo: "no_panic (repo m)"
  unfolding no_panic_def using repo_no_panic by (metis prod.collapse)

lemma no_panic_ret: "no_panic (wret x)"
  by (simp add: no_panic_def wret_def)

lemma no_panic_bind: "no_panic m \<Longrightarrow> (\<And>x. no_panic (f x)) \<Longrightarrow> no_panic (wbind m f)"
  by (auto simp: no_panic_def wbind_def split: prod.splits sum.splits) (metis fst_conv)

lemmas no_panic_rules = no_panic_repo no_panic_ret no_panic_bind

definition written :: "ansible_job \<Rightarrow> worker \<Rightarrow> worker \<Rightarrow> bool" where
  "written j w w' \<longleftrightarrow> (\<exists>db. write_job j (wd_jobs (wk_db w)) = Some db \<and> rows w' = jd_jobs db)"

text \<open>An update followed by steps that leave the rows alone.\<close>

lemma update_then_gen:
  assumes m: "wbind (wmap_err g (update_row env j)) f w = (r, w')" and f: "\<And>x. keeps same_rows (f x)"
  shows "rows w' = rows w \<and> (\<exists>e. r = Inl e) \<or> written j w w'"
proof -
  obtain u w1 where u: "update_row env j w = (u, w1)" by fastforce
  show ?thesis
  proof (cases u)
    case (Inl e)
    with u m update_row_cases [OF u] show ?thesis by (auto simp: wbind_def wmap_err_def)
  next
    case (Inr x)
    with u m have "f x w1 = (r, w')" by (simp add: wbind_def wmap_err_def)
    from keeps_snd [OF f this] update_row_cases [OF u] Inr show ?thesis
      by (auto simp: written_def same_rows_def)
  qed
qed

lemmas update_then = update_then_gen [of WorkerRepository, folded repo_def]

lemma settle_effect:
  assumes "job_can_transition_to (aj_status j) (fst outcome)" and s: "settle_job env outcome j w = (r, w')"
  shows "r \<noteq> Inl WorkerPanic \<and> quiet w w' \<and>
    (rows w' = rows w \<and> (\<exists>e. r = Inl e) \<or> (\<exists>t. written (restatus (fst outcome) t j) w w'))"
proof -
  let ?j = "restatus (fst outcome) (we_now env (wk_tick w)) j"
  let ?f = "\<lambda>_ :: unit. wbind (repo (event env (aj_id ?j) (snd outcome))) (\<lambda>_.
     wbind (if fst outcome = JReconcileRequired then repo (event env (aj_id ?j) EvReconcileRequired) else wret ()) (\<lambda>_.
       repo (event env (aj_id ?j) (EvStatusChanged (fst outcome)))))"
  have m: "wbind (repo (update_row env ?j)) ?f w = (r, w')"
    using s unfolding settle_job_def
    by (subst (asm) wbind_Inr [of "expect_transition env (fst outcome) j" w ?j w])
       (use assms(1) in \<open>simp_all add: expect_transition_def job_transition_to_def restatus_def\<close>)
  have "no_panic (wbind (repo (update_row env ?j)) ?f)"
    by (auto intro!: no_panic_rules)
  then have "r \<noteq> Inl WorkerPanic" using m by (auto simp: no_panic_def dest: spec [of _ w])
  moreover have "keeps quiet (wbind (repo (update_row env ?j)) ?f)" by (intro quiet_rules)
  moreover have "keeps same_rows (?f u)" for u by (intro row_rules)
  ultimately show ?thesis using keeps_snd m update_then [OF m] by blast
qed

lemma run_can_settle:
  assumes "worker_run env rt w = (r, w1)" "holds base w" "aj_status (wk_job w) = JChecking"
  shows "job_can_transition_to (aj_status (wk_job w1)) (fst (run_outcome (wk_job w1) r))"
proof -
  from run_status [OF assms, of "projr r"] obtain s tm where
    s: "wk_job w1 = wk_job w \<and> s = JChecking \<or> wk_job w1 = restatus s tm (wk_job w)"
      "s \<in> {JChecking, JPlanned, JApplying}" "s = JApplying \<Longrightarrow> aj_mode (wk_job w) = ModeApply"
      "r = Inr (projr r) \<Longrightarrow> s \<noteq> JChecking" "aj_status (wk_job w1) = s"
    by metis
  moreover have "aj_mode (wk_job w1) = aj_mode (wk_job w)" using s(1) by auto
  ultimately show ?thesis by (cases r) (auto simp: run_outcome_def)
qed

lemma process_job_unfold:
  assumes "worker_run env rt w = (r, w1)" "process_job env rt w = (x, w')"
  shows "settle_job env (run_outcome (wk_job w1) r) (wk_job w1) w1 = (x, w')"
  using assms by (simp add: process_job_def)

lemma run_base:
  assumes "worker_run env rt w = (r, w1)" "holds base w"
  shows "holds base w1"
  using assms keeps_snd [OF base.run_keeps] by blast

section \<open>The commands a job starts\<close>

definition preview_only :: "ansible_job \<Rightarrow> invocation \<Rightarrow> bool" where
  "preview_only j cmd \<longleftrightarrow> lit ''--check'' \<in> set (iv_mode_args cmd)
     \<or> aj_operation j \<in> {OpHealthCheck, OpCollectPackageInventory}
     \<or> aj_operation j = OpUpdatePackages \<and> json_get mode_key (iv_vars cmd) = Some (JString (lit ''plan''))
        \<and> json_get confirmed_key (iv_vars cmd) = Some (JBool False)"

lemma command_preview:
  assumes "command_ok j t c" "aj_mode j \<noteq> ModeApply" "parameters_operation (aj_parameters j) = aj_operation j"
  shows "preview_only j (fst c)"
proof -
  have a: "ansible_mode_args (aj_operation j) (aj_mode j) = Inr (iv_mode_args (fst c))" and v: "vars_ok j (iv_vars (fst c))"
    using assms(1) by (simp_all add: command_ok_def)
  show ?thesis
  proof (cases "aj_operation j = OpUpdatePackages")
    case True
    with assms(3) obtain ps where "aj_parameters j = ParamUpdatePackages ps" by (cases "aj_parameters j") auto
    moreover have "aj_mode j \<noteq> ModeCheck"
      using a True by (auto simp: ansible_mode_args_def supports_mode_def)
    ultimately show ?thesis
      using True v assms(2) by (cases "aj_mode j") (auto simp: preview_only_def vars_ok_def)
  next
    case False
    with a assms(2) show ?thesis
      by (cases "aj_mode j"; cases "aj_operation j")
         (auto simp: preview_only_def ansible_mode_args_def supports_mode_def can_reconcile_apply_def Let_def split: if_splits dest!: sym [of "_ # _"])
  qed
qed

text \<open>
  C12. A job of the worker starts at most one \<open>ansible-playbook\<close>. When an apply job starts it, the
  job's row already says \<open>applying\<close>, so a crash during the run is found by the recovery; the
  command of every other job only previews: it has \<open>--check\<close>, or it is a health check or an
  inventory collection, or it is a package playbook with the mode variable \<open>plan\<close> and no
  confirmation.
\<close>

theorem commands_match_mode:
  assumes "job_db_ok (wd_jobs (wk_db w))" "stored (wd_jobs (wk_db w)) (wk_job w)"
    "parameters_operation (aj_parameters (wk_job w)) = aj_operation (wk_job w)"
    "aj_status (wk_job w) = JChecking"
  shows "wk_started (snd (process_job env rt w)) = wk_started w
    \<or> (\<exists>cmd db. wk_started (snd (process_job env rt w)) = wk_started w @ [(cmd, db)]
        \<and> (if aj_mode (wk_job w) = ModeApply then applying_row (wd_jobs db) (aj_id (wk_job w))
           else preview_only (wk_job w) cmd))"
proof -
  have h: "holds base w" using assms by (simp add: holds_def base_def)
  obtain r w1 where r: "worker_run env rt w = (r, w1)" by fastforce
  obtain x w' where p: "process_job env rt w = (x, w')" by fastforce
  have "wk_started w' = wk_started w1"
    using settle_effect [OF run_can_settle [OF r h assms(4)] process_job_unfold [OF r p]] by (simp add: quiet_def)
  moreover have "wk_started w1 = wk_started w
      \<or> (\<exists>t c. command_ok (wk_job w) t c \<and> wk_started w1 = wk_started w @ [c])"
    using run_effect [OF r h] by (auto simp: planned_trace_def quiet_def)
  moreover have "if aj_mode (wk_job w) = ModeApply then applying_row (wd_jobs (snd c)) (aj_id (wk_job w))
      else preview_only (wk_job w) (fst c)" if "command_ok (wk_job w) t c" for t c
    using that command_preview [OF that _ assms(3)] by (simp add: command_ok_def)
  ultimately show ?thesis unfolding p by (metis prod.collapse snd_conv)
qed

theorem commands_match_mode_witness:
  "\<exists>cmd db. wk_started (snd (process_job lab_env lab_runtime lab_plan)) = [(cmd, db)]
     \<and> preview_only (wk_job lab_plan) cmd"
proof -
  have h: "parameters_operation (aj_parameters (wk_job lab_plan)) = aj_operation (wk_job lab_plan)"
      "aj_status (wk_job lab_plan) = JChecking" "aj_mode (wk_job lab_plan) = ModePlan" "wk_started lab_plan = []"
    by (simp_all add: lab_world_def lab_job_def)
  from commands_match_mode [OF lab_world_ok lab_world_stored h(1,2), of lab_env lab_runtime] h lab_plan_run
  show ?thesis by auto
qed

section \<open>The status a job ends with\<close>

definition row_status :: "worker \<Rightarrow> uuid \<Rightarrow> ansible_job_status \<Rightarrow> bool" where
  "row_status w i s \<longleftrightarrow> (\<exists>r \<in> set (rows w). jw_id r = i \<and> jw_status r = ansible_status_to_db s
     \<and> aj_status (jw_payload r) = s)"

lemma written_status:
  assumes "written j w w'" "job_db_ok (wd_jobs (wk_db w))" "stored (wd_jobs (wk_db w)) j"
  shows "row_status w' (aj_id j) (aj_status j)"
proof -
  from assms(1) obtain db where db: "write_job j (wd_jobs (wk_db w)) = Some db" "rows w' = jd_jobs db"
    by (auto simp: written_def)
  from assms(2,3) obtain row where row: "row \<in> set (rows w)" "jw_id row = aj_id j"
    by (auto simp: stored_def job_db_ok_def list_all_iff row_ok_def)
  have "set_job j row \<in> set (rows w')"
    using row(1) write_stored_ok(2) [OF assms(2,3) db(1)] by (simp add: db(2))
  moreover have "jw_id (set_job j row) = aj_id j" "jw_status (set_job j row) = ansible_status_to_db (aj_status j)"
      "jw_payload (set_job j row) = j"
    using row(2) by (simp_all add: set_job_def)
  ultimately show ?thesis unfolding row_status_def by metis
qed

lemma process_job_safe:
  assumes "job_db_ok (wd_jobs (wk_db w))" "stored (wd_jobs (wk_db w)) (wk_job w)"
    "aj_status (wk_job w) = JChecking" "process_job env rt w = (x, w')"
  shows "x \<noteq> Inl WorkerPanic \<and> job_db_ok (wd_jobs (wk_db w'))"
proof -
  have h: "holds base w" using assms by (simp add: holds_def base_def)
  obtain r w1 where r: "worker_run env rt w = (r, w1)" by fastforce
  note h1 = run_base [OF r h]
  note can = run_can_settle [OF r h assms(3)]
  note settle = process_job_unfold [OF r assms(4)]
  have "aj_status (wk_job w1) \<noteq> JFailed"
    using run_status [OF r h assms(3), of "projr r"] by (metis empty_iff insert_iff ansible_job_status.distinct)
  from hoare_snd [OF base.settle_job_hoare [OF can this], of w1 env] h1 settle
  have "job_db_ok (wd_jobs (wk_db w'))" by (simp add: holds_def base_def)
  with settle_effect [OF can settle] show ?thesis by simp
qed

text \<open>
  C13. Processing a claimed job never ends the worker by a refused transition. If the database
  answers to the end, the job's row is final: succeeded exactly when the run returned a result,
  and otherwise failed or, for an apply job that was already marked, reconcile-required. An apply
  job whose playbook was started therefore never ends as failed, a state from which it could be
  retried. The tables stay consistent in every case.
\<close>

theorem job_settles:
  assumes "job_db_ok (wd_jobs (wk_db w))" "stored (wd_jobs (wk_db w)) (wk_job w)"
    "aj_status (wk_job w) = JChecking" "process_job env rt w = (x, w')"
  shows "x \<noteq> Inl WorkerPanic \<and> job_db_ok (wd_jobs (wk_db w'))
    \<and> (x = Inr () \<longrightarrow> (\<exists>s. row_status w' (aj_id (wk_job w)) s
        \<and> (s = JSucceeded \<longleftrightarrow> is_ok (fst (worker_run env rt w)))
        \<and> s \<in> {JSucceeded, JFailed, JReconcileRequired}
        \<and> (s = JReconcileRequired \<longrightarrow> aj_mode (wk_job w) = ModeApply)
        \<and> (aj_mode (wk_job w) = ModeApply \<and> wk_started w' \<noteq> wk_started w \<longrightarrow> s \<noteq> JFailed)))"
proof -
  have h: "holds base w" using assms by (simp add: holds_def base_def)
  obtain r w1 where r: "worker_run env rt w = (r, w1)" by fastforce
  note h1 = run_base [OF r h]
  note can = run_can_settle [OF r h assms(3)]
  note settle = process_job_unfold [OF r assms(4)]
  note e = settle_effect [OF can settle]
  let ?s = "fst (run_outcome (wk_job w1) r)"
  have db1: "job_db_ok (wd_jobs (wk_db w1))" "stored (wd_jobs (wk_db w1)) (wk_job w1)"
    using h1 by (simp_all add: holds_def base_def)
  from run_status [OF r h assms(3), of "projr r"] obtain s tm where
    s: "wk_job w1 = wk_job w \<and> s = JChecking \<or> wk_job w1 = restatus s tm (wk_job w)"
      "s \<in> {JChecking, JPlanned, JApplying}" "s = JApplying \<Longrightarrow> aj_mode (wk_job w) = ModeApply"
      "wk_started w1 \<noteq> wk_started w \<Longrightarrow> aj_mode (wk_job w) = ModeApply \<Longrightarrow> s = JApplying"
      "aj_status (wk_job w1) = s"
    by metis
  have same: "aj_id (wk_job w1) = aj_id (wk_job w)" "aj_mode (wk_job w1) = aj_mode (wk_job w)" using s(1) by auto
  note process_job_safe [OF assms]
  moreover have "row_status w' (aj_id (wk_job w)) ?s" if "x = Inr ()"
    using e that written_status [OF _ db1(1) stored_restatus [OF db1(2)]] same(1) by auto
  moreover have "wk_started w' = wk_started w1" using e by (simp add: quiet_def)
  moreover have "?s = JSucceeded \<longleftrightarrow> is_ok r" "?s \<in> {JSucceeded, JFailed, JReconcileRequired}"
      "?s = JReconcileRequired \<longrightarrow> aj_mode (wk_job w) = ModeApply"
      "aj_mode (wk_job w) = ModeApply \<and> wk_started w1 \<noteq> wk_started w \<longrightarrow> ?s \<noteq> JFailed"
    using s(4,5) same(2) by (cases r; auto simp: run_outcome_def)+
  ultimately show ?thesis using e r by auto
qed

theorem job_settles_witness:
  "row_status (snd (process_job lab_env lab_runtime lab_configure)) 7 JReconcileRequired
     \<or> row_status (snd (process_job lab_env lab_runtime lab_configure)) 7 JSucceeded
     \<or> row_status (snd (process_job lab_env lab_runtime lab_configure)) 7 JFailed"
proof -
  have h: "aj_status (wk_job lab_configure) = JChecking" "aj_id (wk_job lab_configure) = 7"
    by (simp_all add: lab_world_def lab_job_def)
  have p: "process_job lab_env lab_runtime lab_configure = (Inr (), snd (process_job lab_env lab_runtime lab_configure))"
    using lab_configure_run by (metis prod.collapse)
  from job_settles [OF lab_world_ok lab_world_stored h(1) p] h(2) show ?thesis by auto
qed

section \<open>The claim loop ends\<close>

definition queued_count :: "job_db \<Rightarrow> nat" where
  "queued_count db = length (filter (\<lambda>r. jw_status r = lit ''queued'') (jd_jobs db))"

definition bounded :: "nat \<Rightarrow> job_db \<Rightarrow> ansible_job \<Rightarrow> bool" where
  "bounded n db j \<longleftrightarrow> base db j \<and> queued_count db \<le> n"

lemma length_filter_map_le:
  "(\<And>x. x \<in> set xs \<Longrightarrow> P (f x) \<Longrightarrow> P x) \<Longrightarrow> length (filter P (map f xs)) \<le> length (filter P xs)"
proof (induction xs)
  case (Cons x xs)
  then have "length (filter P (map f xs)) \<le> length (filter P xs)" by simp
  with Cons.prems [of x] show ?case by auto
qed simp

lemma length_filter_map_less:
  assumes "\<And>x. x \<in> set xs \<Longrightarrow> P (f x) \<Longrightarrow> P x" "y \<in> set xs" "P y" "\<not> P (f y)"
  shows "length (filter P (map f xs)) < length (filter P xs)"
proof -
  from assms(2) obtain as bs where xs: "xs = as @ y # bs" by (meson split_list)
  have "length (filter P (map f ys)) \<le> length (filter P ys)" if "set ys \<subseteq> set xs" for ys
    by (rule length_filter_map_le) (use assms(1) that in auto)
  from this [of as] this [of bs]
  have "length (filter P (map f as)) \<le> length (filter P as)" "length (filter P (map f bs)) \<le> length (filter P bs)"
    by (auto simp: xs)
  with assms(3,4) show ?thesis by (simp add: xs)
qed

lemma queued_set_job:
  "aj_status j \<noteq> JQueued \<Longrightarrow> jw_status (set_job j r) = lit ''queued'' \<Longrightarrow> jw_status r = lit ''queued''"
  by (auto simp: set_job_def queued_to_db split: if_splits)

interpretation queue: worker_inv "bounded n" for n
proof
  fix db j e db' assume "bounded n db j" "append_job_event True e db = (Inr (), db')"
  then show "bounded n db' j"
    using append_event_kept [of e db db'] base.event_kept [of db j e db']
    by (auto simp: bounded_def base_def queued_count_def)
next
  fix db j k db' assume b: "bounded n db j" and k: "stored db k" "aj_status k \<noteq> JQueued" and w: "write_job k db = Some db'"
  have "job_db_ok db" using b by (simp add: bounded_def base_def)
  then have jobs: "jd_jobs db' = map (set_job k) (jd_jobs db)" using write_stored_ok(2) [OF _ k(1) w] by simp
  have "queued_count db' \<le> queued_count db"
    unfolding queued_count_def jobs by (rule length_filter_map_le) (rule queued_set_job [OF k(2)])
  with b base.write_kept [OF _ k w, of j] show "bounded n db' j" by (simp add: bounded_def)
qed (auto simp: bounded_def base_def stored_restatus)

lemma claim_cases:
  assumes c: "claim env w = (r, w1)" and ok: "job_db_ok (wd_jobs (wk_db w))"
  shows "r \<noteq> Inl WorkerPanic \<and> job_db_ok (wd_jobs (wk_db w1)) \<and> wk_started w1 = wk_started w \<and>
    (\<forall>j. r = Inr (Some j) \<longrightarrow> aj_status j = JChecking \<and> stored (wd_jobs (wk_db w1)) j
       \<and> queued_count (wd_jobs (wk_db w1)) < queued_count (wd_jobs (wk_db w)))"
proof -
  let ?db = "wd_jobs (wk_db w)"
  let ?now = "we_now env (wk_tick w)"
  obtain x db' where x: "claim_next_queued (we_ansible env) (we_up env (wk_tick w)) (we_locked env (wk_tick w))
      (we_seen env (wk_tick w)) ?now ?db = (x, db')"
    by fastforce
  have r: "r = map_err WorkerRepository x" and w1: "wk_db w1 = (wk_db w)\<lparr>wd_jobs := db'\<rparr>" "wk_started w1 = wk_started w"
    using c x by (auto simp: claim_def repo_def wmap_err_def call_def on_jobs_def)
  have ok1: "job_db_ok db'" using claim_ok [OF ok] x by (metis snd_conv)
  have "aj_status j = JChecking \<and> stored db' j \<and> queued_count db' < queued_count ?db" if "r = Inr (Some j)" for j
  proof -
    from that r have xj: "x = Inr (Some j)" by (cases x) auto
    from claim_next_queued_cases [OF x ok] xj obtain row db1 where row: "row \<in> set (jd_jobs ?db)"
        "aj_status (jw_payload row) = JQueued" "j = restatus JChecking ?now (jw_payload row)"
        "write_job j ?db = Some db1" "db' = append_status_event ?now (jw_id row) JChecking db1"
      by auto
    have st: "stored ?db j" unfolding stored_def using row(1,3) by blast
    have jobs: "jd_jobs db' = map (set_job j) (jd_jobs ?db)"
      using write_stored_ok(2) [OF ok st row(4)] row(5) by simp
    have "jw_id row = aj_id j" "jw_status row = lit ''queued''"
      using ok row(1-3) by (auto simp: job_db_ok_def list_all_iff row_ok_def)
    then have "\<not> jw_status (set_job j row) = lit ''queued''" using row(3) by (simp add: set_job_def)
    with row(1,3) \<open>jw_status row = lit ''queued''\<close> have "queued_count db' < queued_count ?db"
      unfolding queued_count_def jobs by (intro length_filter_map_less) (auto dest!: queued_set_job [rotated])
    moreover have "stored db' j"
      using stored_write [OF ok st row(4) st] row(5) by (simp add: stored_def)
    ultimately show ?thesis using row(3) by simp
  qed
  then show ?thesis using r ok1 w1 by (cases x) auto
qed

text \<open>Whether the loop, started for the \<open>k\<close>-th time, returns without a panic and with consistent tables.\<close>

definition loop_safe :: "worker_env \<Rightarrow> runtime \<Rightarrow> (nat \<Rightarrow> job_db \<Rightarrow> job_db) \<Rightarrow> nat \<Rightarrow> worker \<Rightarrow> bool" where
  "loop_safe env rt others k w \<longleftrightarrow>
     (\<exists>x w'. process env rt others k w = Some (x, w') \<and> x \<noteq> Inl WorkerPanic \<and> job_db_ok (wd_jobs (wk_db w')))"

lemma process_job_queued:
  assumes "job_db_ok (wd_jobs (wk_db w))" "stored (wd_jobs (wk_db w)) (wk_job w)" "aj_status (wk_job w) = JChecking"
    and p: "process_job env rt w = (x, w')"
  shows "queued_count (wd_jobs (wk_db w')) \<le> queued_count (wd_jobs (wk_db w))"
proof -
  let ?n = "queued_count (wd_jobs (wk_db w))"
  obtain r w3 where r: "worker_run env rt w = (r, w3)" by fastforce
  have b: "holds base w" using assms by (simp add: holds_def base_def)
  then have "holds (bounded ?n) w" by (simp add: holds_def bounded_def)
  then have h3: "holds (bounded ?n) w3" using keeps_snd [OF queue.run_keeps r] by simp
  then have s3: "stored (wd_jobs (wk_db w3)) (wk_job w3)" by (simp add: holds_def bounded_def base_def)
  have "aj_status (wk_job w3) \<noteq> JFailed"
    using run_status [OF r b assms(3), of "projr r"] by (metis empty_iff insert_iff ansible_job_status.distinct)
  from hoare_snd [OF queue.settle_job_hoare [OF run_can_settle [OF r b assms(3)] this, where env = env and n = ?n], of w3]
    h3 s3 process_job_unfold [OF r p]
  show ?thesis by (simp add: holds_def bounded_def)
qed

text \<open>One round: the loop is safe if it is safe after every round that leaves fewer queued jobs.\<close>

lemma loop_round:
  assumes ok: "job_db_ok (wd_jobs (wk_db (interfere (others k) w)))"
    and rest: "\<And>w2. job_db_ok (wd_jobs (wk_db w2)) \<Longrightarrow>
      queued_count (wd_jobs (wk_db w2)) < queued_count (wd_jobs (wk_db (interfere (others k) w))) \<Longrightarrow> loop_safe env rt others (Suc k) w2"
  shows "loop_safe env rt others k w"
proof -
  obtain c w1 where c: "claim env (interfere (others k) w) = (c, w1)" by fastforce
  note cc = claim_cases [OF c ok]
  show ?thesis
  proof (cases "\<exists>j. c = Inr (Some j)")
    case False
    with c cc show ?thesis unfolding loop_safe_def by (subst process.simps) (auto split: sum.splits option.splits)
  next
    case True
    then obtain j where j: "c = Inr (Some j)" ..
    let ?w = "w1\<lparr>wk_job := j\<rparr>"
    obtain x w2 where p: "process_job env rt ?w = (x, w2)" by fastforce
    have st: "job_db_ok (wd_jobs (wk_db ?w))" "stored (wd_jobs (wk_db ?w)) (wk_job ?w)" "aj_status (wk_job ?w) = JChecking"
      using cc j by auto
    note settled = process_job_safe [OF st p]
    have "queued_count (wd_jobs (wk_db w2)) < queued_count (wd_jobs (wk_db (interfere (others k) w)))"
      using process_job_queued [OF st p] cc j by simp
    then have "x = Inr () \<Longrightarrow> ?thesis"
      using rest [of w2] settled c j p unfolding loop_safe_def by (subst process.simps) simp
    moreover have "x = Inl e \<Longrightarrow> ?thesis" for e
      using settled c j p unfolding loop_safe_def by (subst process.simps) simp
    ultimately show ?thesis by (cases x) auto
  qed
qed

text \<open>
  C14. The server, the scheduler and other workers write to the job tables between two jobs of the
  worker: they queue, retry, claim and settle jobs. If they keep the tables consistent and, from
  some round on, do not queue more jobs, the worker's claim loop returns whatever the database, the
  file system, the network and the playbooks answer; it has not panicked, and the tables are
  consistent.
\<close>

theorem claim_loop_ends:
  assumes "job_db_ok (wd_jobs (wk_db w))"
    and others: "\<And>k db. job_db_ok db \<Longrightarrow> job_db_ok (others k db)"
    and quiet: "\<And>k db. k \<ge> n \<Longrightarrow> queued_count (others k db) \<le> queued_count db"
  shows "\<exists>x w'. process env rt others k w = Some (x, w') \<and> x \<noteq> Inl WorkerPanic \<and> job_db_ok (wd_jobs (wk_db w'))"
proof -
  have "job_db_ok (wd_jobs (wk_db w)) \<longrightarrow> loop_safe env rt others k w"
  proof (induction "(k, w)" arbitrary: k w
      rule: wf_induct_rule [OF wf_measures [of "[\<lambda>(k, w). n - k, \<lambda>(k, w). queued_count (wd_jobs (wk_db w))]"]])
    case (1 k w)
    show ?case
    proof (rule impI, rule loop_round)
      assume "job_db_ok (wd_jobs (wk_db w))"
      then show "job_db_ok (wd_jobs (wk_db (interfere (others k) w)))" using others by simp
      fix w2 :: worker assume "job_db_ok (wd_jobs (wk_db w2))"
        and "queued_count (wd_jobs (wk_db w2)) < queued_count (wd_jobs (wk_db (interfere (others k) w)))"
      moreover from this have "n - Suc k < n - k \<or>
          n - Suc k = n - k \<and> queued_count (wd_jobs (wk_db w2)) < queued_count (wd_jobs (wk_db w))"
        using quiet [of k "wd_jobs (wk_db w)"] by (cases "n \<le> k") (simp, linarith)
      ultimately show "loop_safe env rt others (Suc k) w2" using 1 [of "Suc k" w2] by simp
    qed
  qed
  with assms(1) show ?thesis by (simp add: loop_safe_def)
qed

text \<open>The server queues a second job for the target while the first one runs.\<close>

theorem claim_loop_ends_witness:
  "\<exists>x w'. process lab_env lab_runtime lab_server 0 lab_queued = Some (x, w') \<and> x \<noteq> Inl WorkerPanic"
proof -
  have "job_db_ok (lab_server k db)" if "job_db_ok db" for k db
    using that save_job_ok by (simp add: lab_server_def)
  moreover have "queued_count (lab_server k db) \<le> queued_count db" if "k \<ge> 2" for k db
    using that by (simp add: lab_server_def)
  ultimately show ?thesis using claim_loop_ends [OF lab_world_ok] by blast
qed

section \<open>Recovery\<close>

fun recovered :: "ansible_job_status \<Rightarrow> ansible_job_status" where
  "recovered JApplying = JReconcileRequired"
| "recovered JChecking = JFailed"
| "recovered JPlanned = JFailed"
| "recovered s = s"

text \<open>
  The rows after some of the jobs have been recovered. A job that was executing has its new status,
  in the row and in the payload, and the time of the recovery; nothing else of its row and nothing
  of any other row is changed.
\<close>

definition recovered_row :: "job_row \<Rightarrow> job_row \<Rightarrow> bool" where
  "recovered_row r r' \<longleftrightarrow>
     r' = (let j = jw_payload r in
           if aj_status j \<in> {JChecking, JPlanned, JApplying}
           then set_job (restatus (recovered (aj_status j)) (jw_updated_at r') j) r else r)"

definition recovery :: "uuid set \<Rightarrow> job_row list \<Rightarrow> job_row list \<Rightarrow> bool" where
  "recovery ids old new \<longleftrightarrow> list_all2 (\<lambda>r r'. jw_id r' = jw_id r \<and>
     (if jw_id r \<in> ids then recovered_row r r' else r' = r)) old new"

lemma recovery_refl: "recovery {} rs rs"
  by (simp add: recovery_def list_all2_same)

lemma recovered_row_unmoved:
  "aj_status (jw_payload r) \<notin> {JChecking, JPlanned, JApplying} \<Longrightarrow> recovered_row r r"
  by (auto simp: recovered_row_def Let_def)

lemma recovered_row_moved:
  "aj_status (jw_payload r) \<in> {JChecking, JPlanned, JApplying} \<Longrightarrow> aj_id (jw_payload r) = jw_id r
    \<Longrightarrow> recovered_row r (set_job (restatus (recovered (aj_status (jw_payload r))) t (jw_payload r)) r)"
  by (simp add: recovered_row_def set_job_def restatus_def Let_def)

lemma recovered_row_status:
  "recovered_row r r' \<Longrightarrow> aj_id (jw_payload r) = jw_id r
    \<Longrightarrow> aj_status (jw_payload r') = recovered (aj_status (jw_payload r))"
  unfolding recovered_row_def Let_def
  by (cases "aj_status (jw_payload r)") (auto simp: set_job_def restatus_def dest: arg_cong [where f = jw_payload])

lemma recovery_insert:
  assumes rec: "recovery ids old new" and row: "row \<in> set new" "jw_id row \<notin> ids" and d: "distinct (map jw_id new)"
    and row': "recovered_row row (f row)" "\<And>r. jw_id (f r) = jw_id r" "\<And>r. jw_id r \<noteq> jw_id row \<Longrightarrow> f r = r"
  shows "recovery (insert (jw_id row) ids) old (map f new)"
  unfolding recovery_def list.rel_map
proof (rule list.rel_mono_strong [OF rec [unfolded recovery_def]])
  fix r r' assume "r' \<in> set new" and r: "jw_id r' = jw_id r \<and> (if jw_id r \<in> ids then recovered_row r r' else r' = r)"
  then have u: "jw_id r' = jw_id row \<Longrightarrow> r' = row" using row(1) d by (auto simp: distinct_map dest: inj_onD)
  then show "jw_id (f r') = jw_id r \<and> (if jw_id r \<in> insert (jw_id row) ids then recovered_row r (f r') else f r' = r)"
    using r row(2) row' by (cases "jw_id r' = jw_id row") (auto split: if_splits)
qed

definition tables_kept :: "worker \<Rightarrow> worker \<Rightarrow> bool" where
  "tables_kept w w' \<longleftrightarrow> (job_db_ok (wd_jobs (wk_db w)) \<longrightarrow> job_db_ok (wd_jobs (wk_db w')))"

interpretation tables: step_relation tables_kept
  by unfold_locales (auto simp: tables_kept_def)

lemma event_tables: "keeps tables_kept (event env i e)"
proof (unfold keeps_def tables_kept_def, intro allI impI)
  fix w :: worker assume ok: "job_db_ok (wd_jobs (wk_db w))"
  obtain r w' where r: "event env i e w = (r, w')" by fastforce
  from event_cases [OF r] ok append_event_kept show "job_db_ok (wd_jobs (wk_db (snd (event env i e w))))"
    unfolding r by auto
qed

lemma update_tables:
  assumes "wbind (repo (update_row env k)) f w = (r, w')" "\<And>x. keeps tables_kept (f x)"
    "stored (wd_jobs (wk_db w)) k" "job_db_ok (wd_jobs (wk_db w))"
  shows "job_db_ok (wd_jobs (wk_db w'))"
proof -
  obtain u w1 where u: "update_row env k w = (u, w1)" by fastforce
  have "job_db_ok (wd_jobs (wk_db w1))"
    using update_row_cases [OF u] assms(3,4) write_stored_ok(1) by auto
  with assms(1) u keeps_snd [OF assms(2)] show ?thesis
    by (cases u) (auto simp: wbind_def repo_def wmap_err_def tables_kept_def)
qed

lemma recover_job_effect:
  assumes r: "recover_job env (jw_payload row) w = (x, w')" and row: "row \<in> set (rows w)" "jw_id row \<notin> ids"
    and ok: "job_db_ok (wd_jobs (wk_db w))" and rec: "recovery ids old (rows w)"
  shows "x \<noteq> Inl WorkerPanic \<and> job_db_ok (wd_jobs (wk_db w'))
    \<and> (x = Inr () \<longrightarrow> recovery (insert (jw_id row) ids) old (rows w'))"
proof -
  let ?j = "jw_payload row"
  have d: "distinct (map jw_id (rows w))" and i: "aj_id ?j = jw_id row"
    using ok row by (auto simp: job_db_ok_def unique_ok_def list_all_iff row_ok_def)
  show ?thesis
  proof (cases "aj_status ?j \<in> {JChecking, JPlanned, JApplying}")
    case False
    then have "recovery (insert (jw_id row) ids) old (rows w)"
      using recovery_insert [OF rec row d, of "\<lambda>r. r"] recovered_row_unmoved by simp
    with r ok False show ?thesis by (auto simp: recover_job_def wret_def)
  next
    case True
    let ?s = "recovered (aj_status ?j)"
    let ?k = "restatus ?s (we_now env (wk_tick w)) ?j"
    obtain e where m: "wbind (repo (update_row env ?k)) (\<lambda>_. wbind (repo (event env (aj_id ?k) e))
        (\<lambda>_. repo (event env (aj_id ?k) (EvStatusChanged ?s)))) w = (x, w')"
      using r True by (auto simp: recover_job_def wbind_Inr expect_transition_def job_transition_to_def restatus_def
          wbind_def [of "expect_transition env s ?j" for s])
    have st: "stored (wd_jobs (wk_db w)) ?k" using row(1) by (auto simp: stored_def)
    have np: "x \<noteq> Inl WorkerPanic"
      using m no_panic_bind [OF no_panic_repo no_panic_bind [OF no_panic_repo no_panic_repo],
          of "update_row env ?k" "\<lambda>_. event env (aj_id ?k) e" "\<lambda>_ _. event env (aj_id ?k) (EvStatusChanged ?s)"]
      by (auto simp: no_panic_def dest: spec [of _ w])
    have rows_kept: "keeps same_rows (wbind (repo (event env (aj_id ?k) e))
        (\<lambda>_. repo (event env (aj_id ?k) (EvStatusChanged ?s))))"
      by (intro row_rules)
    have "job_db_ok (wd_jobs (wk_db w'))"
      by (rule update_tables [OF m _ st ok]) (intro tables.bind keeps_repo event_tables)
    moreover have "recovery (insert (jw_id row) ids) old (rows w')" if "x = Inr ()"
    proof -
      from update_then [OF m rows_kept] that obtain db where
        db: "write_job ?k (wd_jobs (wk_db w)) = Some db" "rows w' = jd_jobs db" by (auto simp: written_def)
      have "recovery (insert (jw_id row) ids) old (map (set_job ?k) (rows w))"
        by (rule recovery_insert [OF rec row d]) (use recovered_row_moved [OF True i] in \<open>simp_all add: set_job_def i\<close>)
      then show ?thesis by (simp add: db(2) write_stored_ok(2) [OF ok st db(1)])
    qed
    ultimately show ?thesis using np by blast
  qed
qed

lemma recover_all:
  assumes "wfor (recover_job env) (map jw_payload todo) w = (x, w')" "set todo \<subseteq> set old" "distinct (map jw_id todo)"
    "jw_id ` set todo \<inter> ids = {}" "job_db_ok (wd_jobs (wk_db w))" "recovery ids old (rows w)"
  shows "x \<noteq> Inl WorkerPanic \<and> job_db_ok (wd_jobs (wk_db w'))
    \<and> (x = Inr () \<longrightarrow> recovery (ids \<union> jw_id ` set todo) old (rows w'))"
  using assms
proof (induction todo arbitrary: w ids)
  case (Cons row todo)
  have "row \<in> set (rows w)"
  proof -
    from Cons.prems(2) obtain n where n: "n < length old" "old ! n = row" by (auto simp: in_set_conv_nth)
    with Cons.prems(4,6) have "rows w ! n = row" "n < length (rows w)"
      by (auto simp: recovery_def list_all2_conv_all_nth)
    then show ?thesis by (metis nth_mem)
  qed
  moreover obtain x1 w1 where r: "recover_job env (jw_payload row) w = (x1, w1)" by fastforce
  ultimately have e: "x1 \<noteq> Inl WorkerPanic \<and> job_db_ok (wd_jobs (wk_db w1))
      \<and> (x1 = Inr () \<longrightarrow> recovery (insert (jw_id row) ids) old (rows w1))"
    using Cons.prems(4-6) by (intro recover_job_effect [OF r]) auto
  show ?case
  proof (cases x1)
    case (Inl err)
    with Cons.prems(1) r e show ?thesis by (auto simp: wbind_def)
  next
    case (Inr u)
    with Cons.prems(1) r have "wfor (recover_job env) (map jw_payload todo) w1 = (x, w')" by (simp add: wbind_def)
    from Cons.IH [OF this, of "insert (jw_id row) ids"] Cons.prems(2-4) e Inr show ?thesis by auto
  qed
qed (auto simp: wret_def)

text \<open>
  C15. Recovery at the start of a worker: if the database answers, no job is left executing. An
  interrupted apply job, whose target may have been changed, waits for reconciliation; a job
  interrupted before that failed. Only the status and the time of these rows are changed, and
  every other row is unchanged. The transitions are always allowed, and the tables stay consistent even when the database stops answering halfway.
\<close>

theorem recovery_complete:
  assumes "job_db_ok (wd_jobs (wk_db w))" "recover_interrupted_jobs env w = (x, w')"
  shows "x \<noteq> Inl WorkerPanic \<and> job_db_ok (wd_jobs (wk_db w'))
    \<and> (x = Inr () \<longrightarrow> recovery (jw_id ` set (rows w)) (rows w) (rows w')
        \<and> list_all (\<lambda>r. \<not> executing (jw_status r)) (rows w'))"
proof -
  let ?rows = "sort_key (\<lambda>r. - jw_created_at r) (rows w)"
  have d: "distinct (map jw_id ?rows)"
    using assms(1) by (simp add: job_db_ok_def unique_ok_def distinct_map)
  show ?thesis
  proof (cases "we_up env (wk_tick w)")
    case False
    with assms show ?thesis
      by (auto simp: recover_interrupted_jobs_def wbind_def repo_def wmap_err_def call_def list_jobs_def db_read_def)
  next
    case True
    let ?w = "w\<lparr>wk_tick := Suc (wk_tick w)\<rparr>"
    have "wfor (recover_job env) (map jw_payload ?rows) ?w = (x, w')"
      using assms(2) True
      by (simp add: recover_interrupted_jobs_def wbind_def repo_def wmap_err_def call_def list_jobs_def db_read_def)
    from recover_all [OF this, of "rows w" "{}"] d assms(1) recovery_refl
    have e: "x \<noteq> Inl WorkerPanic" "job_db_ok (wd_jobs (wk_db w'))"
        "x = Inr () \<longrightarrow> recovery (jw_id ` set (rows w)) (rows w) (rows w')"
      by simp_all
    have "\<not> executing (jw_status r')"
      if rec: "recovery (jw_id ` set (rows w)) (rows w) (rows w')" and r': "r' \<in> set (rows w')" for r'
    proof -
      from r' obtain n where n: "n < length (rows w')" "rows w' ! n = r'" by (auto simp: in_set_conv_nth)
      with rec have "recovered_row (rows w ! n) r'" "n < length (rows w)"
        by (auto simp: recovery_def list_all2_conv_all_nth)
      moreover from this have "aj_id (jw_payload (rows w ! n)) = jw_id (rows w ! n)"
        using assms(1) by (auto simp: job_db_ok_def list_all_iff row_ok_def)
      ultimately have "aj_status (jw_payload r') = recovered (aj_status (jw_payload (rows w ! n)))"
        by (blast intro: recovered_row_status)
      moreover have "jw_status r' = ansible_status_to_db (aj_status (jw_payload r'))"
        using e(2) r' by (auto simp: job_db_ok_def list_all_iff row_ok_def)
      ultimately show ?thesis
        by (cases "aj_status (jw_payload (rows w ! n))") (auto simp: executing_def)
    qed
    with e show ?thesis by (auto simp: list_all_iff)
  qed
qed

theorem recovery_complete_witness:
  "list_all (\<lambda>r. \<not> executing (jw_status r)) (rows (snd (recover_interrupted_jobs lab_env lab_interrupted)))
   \<and> map jw_status (rows lab_interrupted) = [lit ''applying'']"
proof -
  have "recover_interrupted_jobs lab_env lab_interrupted = (Inr (), snd (recover_interrupted_jobs lab_env lab_interrupted))"
    using lab_recovery_run by (metis prod.collapse)
  from recovery_complete [OF lab_world_ok this] show ?thesis by (simp add: lab_world_def lab_job_def row_of_job_def)
qed

section \<open>Jobs without a playbook\<close>

lemma no_configure_playbook: "playbook OpConfigureTarget kind = None"
  by (simp add: playbook_def)

lemma row_of_status:
  assumes "row_status w i s" "row \<in> set (rows w)" "jw_id row = i" "job_db_ok (wd_jobs (wk_db w))"
  shows "aj_status (jw_payload row) = s"
  using assms row_unique [OF assms(4)] unfolding row_status_def by metis

text \<open>
  C17. The operation that configures a target accepts apply jobs, but the worker has no playbook for
  it and finds that out only after marking the job as applying. Such a job starts nothing and never
  succeeds. It fails, or it ends as reconcile-required; then it cannot be reconciled, because the
  operation has no reconciliation, and no further job of its target is claimed, except
  reconciliation jobs, while the row is there.
\<close>

theorem configure_target_blocks:
  assumes ok: "job_db_ok (wd_jobs (wk_db w))" "stored (wd_jobs (wk_db w)) (wk_job w)"
    and st: "aj_status (wk_job w) = JChecking" "aj_operation (wk_job w) = OpConfigureTarget"
    and p: "process_job env rt w = (Inr (), w')"
  shows "wk_started w' = wk_started w \<and> \<not> row_status w' (aj_id (wk_job w)) JSucceeded
    \<and> (row_status w' (aj_id (wk_job w)) JFailed \<or>
       row_status w' (aj_id (wk_job w)) JReconcileRequired
       \<and> list_all (\<lambda>r. jw_id r = aj_id (wk_job w) \<longrightarrow> \<not> can_be_reconciled (jw_payload r)) (rows w')
       \<and> list_all (\<lambda>c. jw_target c = aj_target (wk_job w) \<longrightarrow> aj_mode (jw_payload c) \<noteq> ModeReconcile
           \<longrightarrow> \<not> claimable (we_ansible env) (wd_jobs (wk_db w')) c) (rows w'))"
proof -
  have h: "holds base w" using ok by (simp add: holds_def base_def)
  obtain r w1 where r: "worker_run env rt w = (r, w1)" by fastforce
  note can = run_can_settle [OF r h st(1)]
  note e = settle_effect [OF can process_job_unfold [OF r p]]
  have nostart: "\<not> command_ok (wk_job w) t c" for t c by (simp add: command_ok_def st(2) no_configure_playbook)
  have fin: "wk_started w1 = wk_started w" "\<exists>x. r = Inl x"
    using run_effect [OF r h] nostart by (auto simp: planned_trace_def quiet_def)
  have j1: "aj_id (wk_job w1) = aj_id (wk_job w)" "aj_operation (wk_job w1) = OpConfigureTarget"
      "aj_target (wk_job w1) = aj_target (wk_job w)"
    using run_status [OF r h st(1), of "projr r"] st(2) by (metis restatus_simps(1,2,5))+
  have db1: "job_db_ok (wd_jobs (wk_db w1))" "stored (wd_jobs (wk_db w1)) (wk_job w1)"
    using run_base [OF r h] by (simp_all add: holds_def base_def)
  let ?s = "fst (run_outcome (wk_job w1) r)"
  have s: "?s \<in> {JFailed, JReconcileRequired}" using fin(2) by (auto simp: run_outcome_def)
  from e obtain t where wr: "written (restatus ?s t (wk_job w1)) w1 w'" by auto
  from written_status [OF wr db1(1) stored_restatus [OF db1(2)]]
  have row: "row_status w' (aj_id (wk_job w)) ?s" by (simp add: j1)
  have ok': "job_db_ok (wd_jobs (wk_db w'))" using process_job_safe [OF ok st(1) p] by simp
  have "\<not> row_status w' (aj_id (wk_job w)) JSucceeded"
    using row row_of_status [OF row _ _ ok'] s unfolding row_status_def by auto
  moreover have "jw_payload q = restatus ?s t (wk_job w1)" if q: "q \<in> set (rows w')" "jw_id q = aj_id (wk_job w)" for q
  proof -
    from wr obtain db where db: "write_job (restatus ?s t (wk_job w1)) (wd_jobs (wk_db w1)) = Some db" "rows w' = jd_jobs db"
      by (auto simp: written_def)
    with q write_stored_ok(2) [OF db1(1) stored_restatus [OF db1(2)] db(1)] show ?thesis
      by (auto simp: set_job_def j1)
  qed
  then have payload: "\<not> can_be_reconciled (jw_payload q)" "jw_target q = aj_target (wk_job w)"
    if "q \<in> set (rows w')" "jw_id q = aj_id (wk_job w)" for q
  proof -
    note pl = \<open>\<And>q. q \<in> set (rows w') \<Longrightarrow> jw_id q = aj_id (wk_job w) \<Longrightarrow> jw_payload q = restatus ?s t (wk_job w1)\<close> [OF that]
    show "\<not> can_be_reconciled (jw_payload q)" by (simp add: can_be_reconciled_def can_reconcile_apply_def pl j1)
    have "jw_target q = aj_target (jw_payload q)" using ok' that(1) by (auto simp: job_db_ok_def list_all_iff row_ok_def)
    then show "jw_target q = aj_target (wk_job w)" by (simp add: pl j1)
  qed
  moreover have "\<not> claimable (we_ansible env) (wd_jobs (wk_db w')) c"
    if "?s = JReconcileRequired" "jw_target c = aj_target (wk_job w)" "aj_mode (jw_payload c) \<noteq> ModeReconcile" for c
  proof -
    from row that(1) obtain q where "q \<in> set (rows w')" "jw_id q = aj_id (wk_job w)" "jw_status q = lit ''reconcile_required''"
      by (auto simp: row_status_def)
    with payload(2) that(2,3) show ?thesis by (auto simp: claimable_def list_ex_iff)
  qed
  ultimately show ?thesis
    using s row fin(1) e by (auto simp: quiet_def list_all_iff)
qed

theorem configure_target_blocks_witness:
  "row_status (snd (process_job lab_env lab_runtime lab_configure)) 7 JReconcileRequired
   \<and> wk_started (snd (process_job lab_env lab_runtime lab_configure)) = []
   \<and> list_all (\<lambda>r. \<not> (jw_id r = 7 \<and> can_be_reconciled (jw_payload r)))
       (rows (snd (process_job lab_env lab_runtime lab_configure)))"
proof -
  let ?w = "snd (process_job lab_env lab_runtime lab_configure)"
  have h: "aj_status (wk_job lab_configure) = JChecking" "aj_operation (wk_job lab_configure) = OpConfigureTarget"
      "aj_id (wk_job lab_configure) = 7" "wk_started lab_configure = []"
    by (simp_all add: lab_world_def lab_job_def)
  have p: "process_job lab_env lab_runtime lab_configure = (Inr (), ?w)"
    using lab_configure_run by (metis prod.collapse)
  have "\<not> row_status ?w 7 JFailed"
    using lab_configure_run by (auto simp: row_status_def)
  with configure_target_blocks [OF lab_world_ok lab_world_stored h(1,2) p] h(3,4) show ?thesis
    by (auto simp: list_all_iff)
qed

section \<open>Closing the source of a reconciliation\<close>

definition only_unavailable :: "(job_failure_code, 'a) step \<Rightarrow> bool" where
  "only_unavailable m \<longleftrightarrow> (\<forall>w e. fst (m w) = Inl e \<longrightarrow> e = WorkerUnavailable)"

lemma only_unavailable_call: "only_unavailable (unavailable m)"
proof (unfold only_unavailable_def, intro allI impI)
  fix w e assume "fst (unavailable m w) = Inl e"
  then show "e = WorkerUnavailable" by (cases "m w"; cases "fst (m w)") (auto simp: unavailable_def wmap_err_def)
qed

lemma only_unavailable_bind: "only_unavailable m \<Longrightarrow> (\<And>x. only_unavailable (f x)) \<Longrightarrow> only_unavailable (wbind m f)"
proof (unfold only_unavailable_def, intro allI impI)
  fix w e assume m: "\<forall>w e. fst (m w) = Inl e \<longrightarrow> e = WorkerUnavailable"
    and f: "\<And>x. \<forall>w e. fst (f x w) = Inl e \<longrightarrow> e = WorkerUnavailable" and e: "fst (wbind m f w) = Inl e"
  show "e = WorkerUnavailable"
    using m [rule_format, of w] f e by (cases "m w"; cases "fst (m w)") (auto simp: wbind_def)
qed

lemma emit_log_error: "emit_log env i a b w = (Inl e, w') \<Longrightarrow> e = WorkerUnavailable"
  using only_unavailable_call unfolding emit_log_def only_unavailable_def by (metis fst_conv)

lemma written_others:
  assumes "written j w w'" "job_db_ok (wd_jobs (wk_db w))" "stored (wd_jobs (wk_db w)) j"
  shows "filter (\<lambda>r. jw_id r \<noteq> aj_id j) (rows w') = filter (\<lambda>r. jw_id r \<noteq> aj_id j) (rows w)"
proof -
  have "filter (\<lambda>r. jw_id r \<noteq> aj_id j) (map (set_job j) rs) = filter (\<lambda>r. jw_id r \<noteq> aj_id j) rs" for rs
    by (induction rs) (auto simp: set_job_def)
  moreover from assms(1) obtain db where db: "write_job j (wd_jobs (wk_db w)) = Some db" "rows w' = jd_jobs db"
    by (auto simp: written_def)
  ultimately show ?thesis by (simp add: write_stored_ok(2) [OF assms(2,3) db(1)])
qed

lemma finalize_effect:
  assumes ok: "job_db_ok (wd_jobs (wk_db w))" and row: "row \<in> set (rows w)"
    and s: "aj_status (jw_payload row) = JReconcileRequired"
    and f: "finalize_reconciliation_source env (jw_payload row) d m w = (x, w')"
  shows "filter (\<lambda>r. jw_id r \<noteq> jw_id row) (rows w') = filter (\<lambda>r. jw_id r \<noteq> jw_id row) (rows w)
    \<and> x \<noteq> Inl PlaybookFailed
    \<and> (x = Inr () \<longrightarrow> row_status w' (jw_id row) (if d = RecCompleted then JSucceeded else JFailed))"
proof -
  define s' where "s' = (if d = RecCompleted then JSucceeded else JFailed)"
  let ?k = "restatus s' (we_now env (wk_tick w)) (jw_payload row)"
  let ?f = "\<lambda>_ :: unit. wbind (emit_log env (aj_id ?k) (lit ''reconcile'') m) (\<lambda>_. unavailable (event env (aj_id ?k) (EvStatusChanged s')))"
  have "job_can_transition_to JReconcileRequired s'" by (simp add: s'_def)
  then have u: "wbind (unavailable (update_row env ?k)) ?f w = (x, w')"
    using f s unfolding finalize_reconciliation_source_def Let_def s'_def [symmetric]
    by (subst (asm) wbind_Inr [of _ w ?k w]) (simp_all add: job_transition_to_def restatus_def)
  have i: "aj_id (jw_payload row) = jw_id row" using ok row by (auto simp: job_db_ok_def list_all_iff row_ok_def)
  have st: "stored (wd_jobs (wk_db w)) ?k" using row by (auto simp: stored_def)
  have "only_unavailable (wbind (unavailable (update_row env ?k)) ?f)"
    unfolding emit_log_def by (intro only_unavailable_bind only_unavailable_call)
  then have "x \<noteq> Inl PlaybookFailed" using u by (auto simp: only_unavailable_def dest!: spec [of _ w])
  moreover have "keeps same_rows (?f v)" for v by (intro row_rules emit_rows)
  from update_then_gen [OF u [unfolded unavailable_def [of "update_row env ?k"]] this]
  have "rows w' = rows w \<and> (\<exists>e. x = Inl e) \<or> written ?k w w'" .
  ultimately show ?thesis
    using written_others [OF _ ok st] written_status [OF _ ok st] i unfolding s'_def [symmetric] by auto
qed

text \<open>
  C16. A reconciliation changes nothing in the job table when its check run failed: the source job
  stays reconcile-required. After a successful check run the source job has succeeded if the
  output is a complete recap without failures, skipped steps and changes, and has failed
  otherwise; no other job is touched, and its status change is always allowed.
\<close>

theorem reconcile_closes_source:
  assumes ok: "job_db_ok (wd_jobs (wk_db w))" and row: "row \<in> set (rows w)"
    and m: "source_matches (jw_payload row) j" and r: "reconcile_job env i (jw_payload row) out w = (x, w')"
  shows "(\<not> out_success out \<longrightarrow> rows w' = rows w)
    \<and> filter (\<lambda>r. jw_id r \<noteq> jw_id row) (rows w') = filter (\<lambda>r. jw_id r \<noteq> jw_id row) (rows w)
    \<and> x \<noteq> Inl PlaybookFailed
    \<and> (out_success out \<and> x = Inr () \<longrightarrow> row_status w' (jw_id row)
        (if reconciliation_decision (from_utf8_lossy (out_stdout out)) = RecCompleted then JSucceeded else JFailed))"
proof (cases "out_success out")
  case False
  with r have "emit_log env i (lit ''reconcile'') unreliable_message w = (x, w')" by (simp add: reconcile_job_def)
  with keeps_snd [OF emit_rows(1) this] show ?thesis
    using False by (auto simp: same_rows_def dest: emit_log_error)
next
  case True
  let ?d = "reconciliation_decision (from_utf8_lossy (out_stdout out))"
  obtain x1 w1 where l: "emit_log env i (lit ''reconcile'') (reconciliation_summary ?d) w = (x1, w1)" by fastforce
  have rows1: "rows w1 = rows w" using keeps_snd [OF emit_rows(1) l] by (simp add: same_rows_def)
  show ?thesis
  proof (cases x1)
    case (Inl err)
    have "err \<noteq> PlaybookFailed" using l Inl emit_log_error by fastforce
    with Inl r True l rows1 show ?thesis by (auto simp: reconcile_job_def wbind_def Let_def)
  next
    case (Inr u)
    have f: "finalize_reconciliation_source env (jw_payload row) ?d (reconciliation_summary ?d) w1 = (x, w')"
      using r True l Inr by (simp add: reconcile_job_def Let_def wbind_Inr)
    have "keeps tables_kept (emit_log env i (lit ''reconcile'') (reconciliation_summary ?d))"
      unfolding emit_log_def by (intro keeps_unavailable event_tables)
    from keeps_snd [OF this l] ok have "job_db_ok (wd_jobs (wk_db w1))" by (simp add: tables_kept_def)
    from finalize_effect [OF this _ _ f] row m rows1 True show ?thesis by (auto simp: source_matches_def)
  qed
qed

theorem reconcile_closes_source_witness:
  "row_status (snd (reconcile_job lab_env 8 lab_source silent_output lab_pair)) 7 JFailed
   \<and> reconciliation_decision (from_utf8_lossy (out_stdout silent_output)) = RecManualReview"
proof -
  let ?row = "row_of_job lab_source"
  have row: "?row \<in> set (rows lab_pair)" and p: "jw_payload ?row = lab_source" "jw_id ?row = 7"
    by (simp_all add: lab_pair_def row_of_job_def lab_source_def lab_job_def)
  have m: "source_matches (jw_payload ?row) lab_reconciler"
    by (simp add: source_matches_def row_of_job_def lab_source_def lab_reconciler_def lab_job_def can_reconcile_apply_def)
  have d: "reconciliation_decision (from_utf8_lossy (out_stdout silent_output)) = RecManualReview"
    by (simp add: silent_output_def from_utf8_lossy_def lossy_bytes.simps reconciliation_decision_def play_recap_def)
  have r: "reconcile_job lab_env 8 (jw_payload ?row) silent_output lab_pair
      = (Inr (), snd (reconcile_job lab_env 8 lab_source silent_output lab_pair))"
    unfolding p using lab_reconcile_run by (metis prod.collapse)
  from reconcile_closes_source [OF lab_pair_ok row m r] p(2) d show ?thesis
    by (simp add: silent_output_def)
qed

end
