(* ===== verification/WorkerData.thy ===== *)
theory WorkerData
  imports WorkerExamples
begin

text \<open>
  What the worker does with data: secrets in its logs, the binaries it deploys, the temporary
  files of a run, the recap it reads and the package inventory it stores.
\<close>

section \<open>Substrings and replacement\<close>

lemma contains_nonempty: "contains_str s []"
  unfolding contains_str_iff by (metis append_Nil)

lemma contains_suffix: "contains_str s q \<Longrightarrow> contains_str (u @ s) q"
  unfolding contains_str_iff by (metis append.assoc)

lemma contains_prefix: "contains_str s q \<Longrightarrow> contains_str (s @ u) q"
  unfolding contains_str_iff by (metis append.assoc)

text \<open>A text without the character \<open>c\<close> lies on one side of it.\<close>

lemma contains_around:
  assumes "c \<notin> set q" "contains_str (a @ c # b) q"
  shows "contains_str a q \<or> contains_str b q"
proof (cases q)
  case Nil
  then show ?thesis by (simp add: contains_nonempty)
next
  case (Cons d q')
  from assms(2) obtain x y where xy: "a @ c # b = x @ q @ y" by (auto simp: contains_str_iff)
  then consider us where "a = x @ us" "us @ c # b = q @ y" | us where "a @ us = x" "c # b = us @ q @ y"
    by (auto simp: append_eq_append_conv2)
  then show ?thesis
  proof cases
    case 1
    from 1(2) consider vs where "us = q @ vs" | vs where "us @ vs = q" "c # b = vs @ y"
      by (auto simp: append_eq_append_conv2)
    then show ?thesis
    proof cases
      case 1
      with \<open>a = x @ us\<close> show ?thesis by (auto simp: contains_str_iff)
    next
      case 2
      then have "vs = []" using assms(1) by (cases vs) auto
      with 2 \<open>a = x @ us\<close> have "a = x @ q @ []" by simp
      then show ?thesis unfolding contains_str_iff by blast
    qed
  next
    case 2
    then have "us \<noteq> []" using assms(1) Cons by (cases us) auto
    then obtain us' where "us = c # us'" using 2(2) by (cases us) auto
    with 2(2) show ?thesis by (auto simp: contains_str_iff)
  qed
qed

text \<open>A secret the replacement text cannot hide in or complete.\<close>

definition hideable :: "str \<Rightarrow> bool" where
  "hideable q \<longleftrightarrow> q \<noteq> [] \<and> ch CHR ''['' \<notin> set q \<and> ch CHR '']'' \<notin> set q \<and> \<not> contains_str (lit ''REDACTED'') q"

lemma redacted_text: "redacted = ch CHR ''['' # lit ''REDACTED'' @ ch CHR '']'' # []"
  by (simp add: redacted_def lit_def ch_def)

lemma contains_around_redacted:
  assumes "hideable q" "contains_str (u @ redacted @ v) q"
  shows "contains_str u q \<or> contains_str v q"
  using assms contains_around [of "ch CHR ''[''" q u "lit ''REDACTED'' @ ch CHR '']'' # v"]
    contains_around [of "ch CHR '']''" q "lit ''REDACTED''" v]
  by (auto simp: redacted_text hideable_def)

lemma replace_adds_nothing:
  assumes "hideable q" "contains_str (u @ replace_str p redacted s) q"
  shows "contains_str (u @ s) q"
  using assms(2)
proof (induction p redacted s arbitrary: u rule: replace_str.induct)
  case (2 p c s)
  show ?case
  proof (cases "p \<noteq> [] \<and> starts_with (c # s) p")
    case True
    with 2(3) contains_around_redacted [OF assms(1), of u "replace_str p redacted (drop (length p - 1) s)"]
    consider "contains_str u q" | "contains_str (replace_str p redacted (drop (length p - 1) s)) q" by auto
    then show ?thesis
    proof cases
      case 1
      then show ?thesis by (rule contains_prefix)
    next
      case 2
      then have "contains_str ([] @ drop (length p - 1) s) q" using "2.hyps"(1) [of "[]"] True by simp
      then have "contains_str (take (length p - 1) s @ drop (length p - 1) s) q"
        using contains_suffix [of "drop (length p - 1) s" q "take (length p - 1) s"] by simp
      then show ?thesis using contains_suffix [of s q "u @ [c]"] by simp
    qed
  next
    case False
    with 2(3) have "contains_str ((u @ [c]) @ replace_str p redacted s) q" by simp
    from "2.hyps"(2) [OF False this] show ?thesis by simp
  qed
qed simp

lemma replace_removes:
  assumes "hideable p" "\<And>k. k < length u \<Longrightarrow> \<not> starts_with (drop k (u @ s)) p"
  shows "\<not> contains_str (u @ replace_str p redacted s) p"
  using assms
proof (induction p redacted s arbitrary: u rule: replace_str.induct)
  case (1 p)
  show ?case
  proof
    assume "contains_str (u @ replace_str p redacted []) p"
    then obtain a b where u: "u = a @ p @ b" by (auto simp: contains_str_iff)
    moreover have "p \<noteq> []" using 1 by (simp add: hideable_def)
    ultimately show False using 1(2) [of "length a"] by (auto simp: starts_with_def)
  qed
next
  case (2 p c s)
  have p: "p \<noteq> []" using 2(3) by (simp add: hideable_def)
  show ?case
  proof (cases "starts_with (c # s) p")
    case True
    have "\<not> contains_str u p"
    proof
      assume "contains_str u p"
      then obtain a b where u: "u = a @ p @ b" by (auto simp: contains_str_iff)
      with p 2(4) [of "length a"] show False by (auto simp: starts_with_def)
    qed
    moreover have "\<not> contains_str ([] @ replace_str p redacted (drop (length p - 1) s)) p"
      using 2(1) [of "[]"] True p 2(3) by simp
    ultimately show ?thesis
      using contains_around_redacted [OF 2(3), of u] True p by auto
  next
    case False
    have "\<not> starts_with (drop k ((u @ [c]) @ s)) p" if "k < length (u @ [c])" for k
      using that 2(4) [of k] False by (cases "k = length u") auto
    then have "\<not> contains_str ((u @ [c]) @ replace_str p redacted s) p"
      using 2(2) [of "u @ [c]"] False 2(3) by blast
    then show ?thesis using False by simp
  qed
qed

lemma redact_keeps_absent:
  assumes "hideable q" "\<not> contains_str s q"
  shows "\<not> contains_str (fold (\<lambda>secret v. if secret = [] then v else replace_str secret redacted v) ss s) q"
  using assms(2)
proof (induction ss arbitrary: s)
  case (Cons p ss)
  have "\<not> contains_str (replace_str p redacted s) q"
    using replace_adds_nothing [OF assms(1), of "[]" p s] Cons.prems by auto
  with Cons show ?case by auto
qed simp

lemma redact_output_hides:
  assumes "hideable q" "Some q \<in> set secrets"
  shows "\<not> contains_str (redact_output s secrets) q"
proof -
  have "q \<in> set (List.map_filter id secrets)" using assms(2) by (force simp: List.map_filter_def)
  then obtain as bs where ss: "List.map_filter id secrets = as @ q # bs" by (meson split_list)
  have "q \<noteq> []" using assms(1) by (simp add: hideable_def)
  then show ?thesis
    unfolding redact_output_def ss
    using redact_keeps_absent [OF assms(1) replace_removes [OF assms(1), of "[]", simplified]] by simp
qed

section \<open>Events a step appends\<close>

definition appends :: "(job_event_kind \<Rightarrow> bool) \<Rightarrow> worker \<Rightarrow> worker \<Rightarrow> bool" where
  "appends P w w' \<longleftrightarrow> (\<exists>es. jd_events (wd_jobs (wk_db w')) = jd_events (wd_jobs (wk_db w)) @ es
     \<and> list_all (\<lambda>e. P (je_event e)) es)"

lemma appends_trans: "appends P a b \<Longrightarrow> appends P b c \<Longrightarrow> appends P a c"
  unfolding appends_def by (metis append.assoc list_all_append)

interpretation appends: step_relation "appends P" for P
  by unfold_locales (auto simp: appends_def intro: appends_trans [unfolded appends_def])

lemma event_appends:
  assumes "P e"
  shows "keeps (appends P) (event env i e)"
proof (unfold keeps_def, intro allI)
  fix w :: worker
  obtain r w' where r: "event env i e w = (r, w')" by fastforce
  from event_cases [OF r] show "appends P w (snd (event env i e w))"
  proof (elim disjE exE conjE)
    fix ev db assume ev: "je_event ev = e" "append_job_event True ev (wd_jobs (wk_db w)) = (Inr (), db)"
      "wk_db w' = (wk_db w)\<lparr>wd_jobs := db\<rparr>"
    with append_job_event_cases [OF ev(2)] assms show ?thesis
      unfolding r by (auto simp: appends_def intro!: exI [of _ "[ev]"])
  qed (auto simp: r appends_def)
qed

text \<open>
  C35. Redaction: whatever a playbook prints, the log entries the worker stores for its output are
  free of the target's credential and of the agent's token, for every secret without square
  brackets that is not a part of the word \<open>REDACTED\<close>. Redacting the second secret cannot restore
  the first.
\<close>

theorem stored_output_is_redacted:
  assumes "hideable secret" "secret = expose (ic_credential cx) \<or> Some (SecretValue secret) = ic_agent_token cx"
  shows "appends (\<lambda>e. \<exists>src m. e = EvWorkerLog src m \<and> \<not> contains_str m secret)
    w (snd (emit_worker_streams env i out cx w))"
proof -
  have "Some secret \<in> set [Some (expose (ic_credential cx)), map_option expose (ic_agent_token cx)]"
    using assms(2) by (auto dest: sym)
  then have "\<not> contains_str (redact_output s [Some (expose (ic_credential cx)), map_option expose (ic_agent_token cx)]) secret" for s
    by (rule redact_output_hides [OF assms(1)])
  then have "keeps (appends (\<lambda>e. \<exists>src m. e = EvWorkerLog src m \<and> \<not> contains_str m secret))
      (emit_worker_streams env i out cx)"
    unfolding emit_worker_streams_def emit_stream_def emit_log_def Let_def
    by (intro appends.loop keeps_if appends.ret keeps_unavailable event_appends) blast
  then show ?thesis by (simp add: keeps_def)
qed

definition noisy_context :: invocation_context where
  "noisy_context = \<lparr>ic_inventory = [], ic_vars_file = [], ic_vars = JNull, ic_credential = SecretValue (lit ''s3c''),
     ic_agent_token = None\<rparr>"

definition noisy_output :: playbook_output where
  "noisy_output = \<lparr>out_success = True, out_stdout = as_bytes (lit ''pw s3c''), out_stderr = [], out_inventory_file = None\<rparr>"

theorem stored_output_is_redacted_witness:
  "appends (\<lambda>e. \<exists>src m. e = EvWorkerLog src m \<and> \<not> contains_str m (lit ''s3c''))
     lab_plan (snd (emit_worker_streams lab_env 7 noisy_output noisy_context lab_plan))
   \<and> redact_output (lit ''pw s3c'') [Some (lit ''s3c''), None] = lit ''pw [REDACTED]''"
proof -
  have "hideable (lit ''s3c'')" by code_simp
  then have "appends (\<lambda>e. \<exists>src m. e = EvWorkerLog src m \<and> \<not> contains_str m (lit ''s3c''))
      lab_plan (snd (emit_worker_streams lab_env 7 noisy_output noisy_context lab_plan))"
    by (rule stored_output_is_redacted) (simp add: noisy_context_def)
  moreover have "redact_output (lit ''pw s3c'') [Some (lit ''s3c''), None] = lit ''pw [REDACTED]''" by code_simp
  ultimately show ?thesis ..
qed

text \<open>
  The restriction to secrets without brackets is needed. A credential that is the end of the
  replacement text, \<open>D]\<close>, is put back by its own redaction.
\<close>

theorem bracket_secret_survives:
  "redact_output (lit ''pw D]'') [Some (lit ''D]''), None] = lit ''pw [REDACTED]''
   \<and> contains_str (lit ''pw [REDACTED]'') (lit ''D]'')"
  by code_simp

section \<open>Deployed binaries\<close>











section \<open>Temporary files\<close>

definition inside :: "str \<Rightarrow> str \<Rightarrow> bool" where
  "inside dir p \<longleftrightarrow> starts_with p (dir @ [ch CHR ''/''])"

lemma inside_join [simp]: "inside dir (join_path dir name)"
  by (simp add: inside_def join_path_def starts_with_def)

definition files_outside :: "str \<Rightarrow> worker \<Rightarrow> worker \<Rightarrow> bool" where
  "files_outside dir w w' \<longleftrightarrow> (\<forall>p. \<not> inside dir p \<longrightarrow> hm_get (wk_files w') p = hm_get (wk_files w) p)"

interpretation outside: step_relation "files_outside dir" for dir
  by unfold_locales (auto simp: files_outside_def)

lemma call_files: "keeps (files_outside dir) (call env f)"
  by (auto simp: keeps_def files_outside_def call_def split: prod.splits)

lemma event_files: "keeps (files_outside dir) (event env i e)"
  unfolding event_def
  by (rule outside.bind [OF call_files])
     (use call_files [of dir env "\<lambda>up. on_jobs (append_job_event up x)" for x] in \<open>auto simp: keeps_def\<close>)

lemma write_file_files: "inside dir p \<Longrightarrow> keeps (files_outside dir) (write_file env p c)"
  by (auto simp: keeps_def files_outside_def write_file_def Let_def)

lemma other_files:
  "keeps (files_outside dir) (update_row env j)" "keeps (files_outside dir) (create_dir_all env)"
  "keeps (files_outside dir) (http_get env url)" "keeps (files_outside dir) (read_package_inventory env d i)"
  "keeps (files_outside dir) (\<lambda>w. (r w, w))" "keeps (files_outside dir) (run_playbook env dir book args cx)"
  "keeps (files_outside dir) (set_job_status env s)"
  unfolding update_row_def
  by (rule call_files)
     (auto simp: keeps_def files_outside_def create_dir_all_def http_get_def read_package_inventory_def
        run_playbook_def set_job_status_def Let_def split: playbook_run.splits option.splits sum.splits)

lemmas outside_rules = outside.rules step_intros call_files event_files other_files write_file_files [OF inside_join]

lemma store_status_files: "keeps (files_outside dir) (store_job_status env s)"
proof -
  have "keeps (files_outside dir) (wbind (unavailable (update_row env (wk_job v)))
      (\<lambda>_. unavailable (event env (aj_id (wk_job v)) (EvStatusChanged s))))" for v
    by (intro outside_rules)
  then show ?thesis
    unfolding store_job_status_def by (intro outside.bind other_files) (auto simp: keeps_def)
qed

lemma prepare_files: "keeps (files_outside dir) (prepare_invocation env rt j t dir)"
  unfolding prepare_invocation_def prepare_target_host_def prepare_known_hosts_def prepare_workflow_vars_def
    resolve_artifacts_def download_def Let_def
  by (intro outside_rules)

lemma invoke_files: "keeps (files_outside dir) (invoke_job env rt j t dir)"
  unfolding invoke_job_def load_reconciliation_source_def mark_job_applying_def emit_worker_streams_def emit_stream_def
    emit_mode_summary_def emit_finished_tasks_def emit_log_def reconcile_job_def finalize_reconciliation_source_def
    conclude_run_def persist_package_inventory_def Let_def
  by (intro outside_rules prepare_files store_status_files)

lemma hm_get_retain_key: "hm_get (hm_retain (\<lambda>k _. q k) m) k = (if q k then hm_get m k else None)"
  unfolding hm_get_def hm_retain_def by (induction m) auto

text \<open>
  The files of a run (private key, known hosts, inventory with the password, variables with the
  agent's token, binaries) stay in its own directory: no path outside it changes, whatever fails.
  When the removal at the end works, nothing of the directory is left, also after an error; a
  removal that fails is ignored and leaves the files.
\<close>

theorem run_files_removed:
  assumes "run_in_dir env rt t w = (x, w')"
  shows "files_outside (run_dir env w) w w'
    \<and> (we_io env (wk_tick w' - 1) \<longrightarrow> inside (run_dir env w) p \<longrightarrow> hm_get (wk_files w') p = None)"
proof (cases "we_io env (wk_tick w)")
  case False
  with assms show ?thesis
    by (auto simp: run_in_dir_def create_dir_all_def wbind_def Let_def files_outside_def)
next
  case True
  let ?dir = "run_dir env w"
  let ?w1 = "w\<lparr>wk_tick := Suc (wk_tick w)\<rparr>"
  obtain r2 w2 where i: "invoke_job env rt (wk_job w) t ?dir ?w1 = (r2, w2)" by fastforce
  have w': "w' = remove_dir_all env ?dir w2"
    using assms True i by (simp add: run_in_dir_def create_dir_all_def wbind_def Let_def invoke_def)
  have "files_outside ?dir ?w1 w2"
    using invoke_files [of ?dir env rt "wk_job w" t] i by (metis keeps_def snd_conv)
  then show ?thesis
    unfolding w' by (auto simp: files_outside_def remove_dir_all_def Let_def hm_get_retain_key inside_def)
qed

theorem run_files_removed_witness:
  "files_outside (run_dir lab_env lab_plan) lab_plan (snd (run_in_dir lab_env lab_runtime lab_target lab_plan))
   \<and> hm_get (wk_files (snd (run_in_dir lab_env lab_runtime lab_target lab_plan)))
       (join_path (run_dir lab_env lab_plan) (lit ''credential'')) = None"
proof -
  let ?r = "run_in_dir lab_env lab_runtime lab_target lab_plan"
  have "?r = (fst ?r, snd ?r)" by simp
  from run_files_removed [OF this, of "join_path (run_dir lab_env lab_plan) (lit ''credential'')"]
  show ?thesis by (simp add: lab_env_def)
qed

section \<open>Reading a recap\<close>

definition change_counts :: "str \<Rightarrow> int list" where
  "change_counts stdout = List.map_filter (\<lambda>f. Option.bind (strip_prefix f (lit ''changed='')) parse_u32)
     (concat (map split_whitespace (from_recap stdout)))"

lemma map_filter_map_option: "List.map_filter (\<lambda>x. map_option g (f x)) xs = map g (List.map_filter f xs)"
  by (induction xs) (auto simp: List.map_filter_def)

lemma change_counts_bounds: "n \<in> set (change_counts stdout) \<Longrightarrow> 0 \<le> n \<and> n < 4294967296"
  using parse_unsigned_bounds [of 4294967296]
  by (fastforce simp: change_counts_def List.map_filter_def parse_u32_def bind_eq_Some_conv)

lemma sum_list_word: "sum_list (map word_of_int ns) = (word_of_int (sum_list ns) :: u32)"
proof (induction ns)
  case (Cons n ns)
  then show ?case by (simp only: list.map sum_list.Cons wi_hom_add)
qed simp

lemma recap_change_count_ints:
  "recap_change_count stdout =
     (if change_counts stdout = [] then None else Some (word_of_int (sum_list (change_counts stdout))))"
  unfolding recap_change_count_def change_counts_def changed_field_def map_filter_map_option Let_def
  by (simp add: sum_list_word)

text \<open>
  C37. What it takes to close a job as applied: the decision is "completed" only for an output with
  a recap in which every \<open>failed=\<close> and \<open>unreachable=\<close> field below the heading is zero, no step was
  skipped, at least one \<open>changed=\<close> field was found and all of them are zero. The counters are added
  in 32 bits; the last point needs a sum that fits.
\<close>

theorem completed_means_unchanged:
  assumes "reconciliation_decision stdout = RecCompleted" "sum_list (change_counts stdout) < 4294967296"
  shows "contains_str stdout play_recap \<and> \<not> recap_has_failures stdout \<and> \<not> skips_a_step stdout
    \<and> \<not> recap_has_skipped_tasks stdout
    \<and> change_counts stdout \<noteq> [] \<and> set (change_counts stdout) = {0}"
proof -
  have d: "contains_str stdout play_recap" "\<not> recap_has_failures stdout" "\<not> skips_a_step stdout"
      "\<not> recap_has_skipped_tasks stdout" "recap_change_count stdout = Some 0"
    using assms(1) by (auto simp: reconciliation_decision_def split: if_splits option.splits)
  from d(5) have ne: "change_counts stdout \<noteq> []" and z: "(word_of_int (sum_list (change_counts stdout)) :: u32) = 0"
    by (auto simp: recap_change_count_ints split: if_splits)
  have nonneg: "0 \<le> sum_list (change_counts stdout)"
    by (rule sum_list_nonneg) (use change_counts_bounds in blast)
  from z have "sum_list (change_counts stdout) mod 4294967296 = 0"
    by (simp add: word_of_int_eq_0_iff dvd_eq_mod_eq_0)
  with nonneg assms(2) have "sum_list (change_counts stdout) = 0" by simp
  then have "n = 0" if "n \<in> set (change_counts stdout)" for n
    using that change_counts_bounds by (metis sum_list_nonneg_eq_0_iff)
  with ne have "set (change_counts stdout) = {0}" by (cases "change_counts stdout") auto
  with d ne show ?thesis by simp
qed

definition clean_recap :: str where
  "clean_recap = lit ''PLAY RECAP *'' @ 10 # lit ''h : ok=1 changed=0 unreachable=0 failed=0 skipped=0''"

lemma clean_recap_completed: "reconciliation_decision clean_recap = RecCompleted" "change_counts clean_recap = [0]"
  by code_simp+

theorem completed_means_unchanged_witness:
  "set (change_counts clean_recap) = {0} \<and> \<not> recap_has_failures clean_recap
   \<and> reconciliation_decision clean_recap = RecCompleted"
  using completed_means_unchanged [OF clean_recap_completed(1)] clean_recap_completed by simp

section \<open>Collected inventories\<close>

definition package_key :: "installed_package \<Rightarrow> str \<times> str" where
  "package_key p = (package_name_as_str (ip_name p), package_version_as_str (ip_version p))"

definition entry_version :: "json \<Rightarrow> str" where
  "entry_version entry = the (Option.bind (json_get (lit ''version'') entry) json_as_str)"

definition listed_keys :: "(str \<times> json) list \<Rightarrow> (str \<times> str) list" where
  "listed_keys by_name =
     concat (map (\<lambda>(n, e). map (\<lambda>x. (n, entry_version x)) (the (json_as_array e))) by_name)"

definition expected_candidate :: "str list \<Rightarrow> installed_package \<Rightarrow> package_version" where
  "expected_candidate upgradable p =
     (let n = package_name_as_str (ip_name p); found = candidate_versions upgradable in
      case or_else (hm_get found n) (hm_get found (hd (split_char (ch CHR '':'') n))) of
        None \<Rightarrow> ip_version p
      | Some v \<Rightarrow> PackageVersion v)"

lemma collected_package_Inr:
  assumes "collected_package (candidate_versions up) n e = Inr p"
  shows "package_key p = (n, entry_version e) \<and> ip_candidate_version p = Some (expected_candidate up p)"
proof -
  from assms obtain version candidate where
    v: "Option.bind (json_get (lit ''version'') e) json_as_str = Some version"
    and c: "transpose_result package_version_new
        (or_else (hm_get (candidate_versions up) n) (hm_get (candidate_versions up) (hd (split_char (ch CHR '':'') n)))) = Inr candidate"
    and p: "ip_name p = PackageName n" "ip_version p = PackageVersion version"
      "ip_candidate_version p = Some (unwrap_or (PackageVersion version) candidate)"
    by (auto simp: collected_package_def bindR_Inr_iff map_err_Inr_iff package_version_new_Inr_iff package_name_new_Inr_iff)
  have "expected_candidate up p = unwrap_or (PackageVersion version) candidate"
    using c p by (cases "or_else (hm_get (candidate_versions up) n) (hm_get (candidate_versions up) (hd (split_char (ch CHR '':'') n)))")
      (auto simp: expected_candidate_def Let_def unwrap_or_def bindR_Inr_iff package_version_new_Inr_iff)
  with v p show ?thesis by (simp add: package_key_def entry_version_def)
qed

lemma collected_packages_Inr:
  assumes "collected_packages (candidate_versions up) m = Inr ps"
  shows "map package_key ps = map (\<lambda>x. (fst m, entry_version x)) (the (json_as_array (snd m)))
    \<and> list_all (\<lambda>p. ip_candidate_version p = Some (expected_candidate up p)) ps"
proof -
  from assms obtain xs where "json_as_array (snd m) = Some xs"
      and "list_all2 (\<lambda>x p. collected_package (candidate_versions up) (fst m) x = Inr p) xs ps"
    by (auto simp: collected_packages_def bindR_Inr_iff map_result_Inr_iff)
  then have "length xs = length ps" "\<And>i. i < length ps \<Longrightarrow>
      collected_package (candidate_versions up) (fst m) (xs ! i) = Inr (ps ! i)" and xs: "json_as_array (snd m) = Some xs"
    by (auto simp: list_all2_conv_all_nth)
  moreover from this(2) [THEN collected_package_Inr] have "\<And>i. i < length ps \<Longrightarrow>
      package_key (ps ! i) = (fst m, entry_version (xs ! i))
      \<and> ip_candidate_version (ps ! i) = Some (expected_candidate up (ps ! i))" .
  ultimately show ?thesis by (auto simp: list_all_length intro!: nth_equalityI)
qed

lemma collected_members:
  assumes "list_all2 (\<lambda>m ps. collected_packages (candidate_versions up) m = Inr ps) by_name found"
  shows "map package_key (concat found) = listed_keys by_name
    \<and> list_all (\<lambda>p. ip_candidate_version p = Some (expected_candidate up p)) (concat found)"
  using assms
proof (induction by_name found rule: list_all2_induct)
  case (Cons m ms ps pss)
  with collected_packages_Inr [OF Cons.hyps(1)] show ?case
    by (auto simp: listed_keys_def split_beta)
qed (simp add: listed_keys_def)

text \<open>
  An accepted inventory of a Linux target has every entry of the collected facts once, as a
  package of that name and version and no others, at most 50000, sorted by name and then version.
  Its candidate version is the one the upgrade list names for the package, or for its name
  without the architecture suffix, and the installed version when the list does not name it.
\<close>

theorem collected_inventory_complete:
  assumes "normalize_package_inventory v up = Inr ps"
  shows "\<exists>by_name. v = JObject by_name \<and> mset (map package_key ps) = mset (listed_keys by_name)
    \<and> sorted (map package_key ps) \<and> length ps \<le> 50000
    \<and> list_all (\<lambda>p. ip_candidate_version p = Some (expected_candidate up p)) ps"
proof -
  have key: "(\<lambda>p. (package_name_as_str (ip_name p), package_version_as_str (ip_version p))) = package_key"
    by (simp add: package_key_def fun_eq_iff)
  from assms obtain by_name found where v: "v = JObject by_name"
      and f: "list_all2 (\<lambda>m ps. collected_packages (candidate_versions up) m = Inr ps) by_name found"
      and l: "length (concat found) \<le> 50000" and ps: "ps = sort_key package_key (concat found)"
    unfolding normalize_package_inventory_def key
    by (cases v) (auto simp: bindR_Inr_iff map_result_Inr_iff Let_def split: if_splits)
  note m = collected_members [OF f]
  have "mset (map package_key ps) = mset (map package_key (concat found))" unfolding ps by simp
  moreover have "list_all (\<lambda>p. ip_candidate_version p = Some (expected_candidate up p)) ps"
    using m unfolding ps list_all_iff by simp
  ultimately show ?thesis using v l m unfolding ps by auto
qed

definition collected_facts :: json where
  "collected_facts = JObject [(lit ''vim'', JArray [JObject [(lit ''version'', JString (lit ''2''))]]),
     (lit ''apt'', JArray [JObject [(lit ''version'', JString (lit ''1''))]])]"

definition apt_upgrades :: "str list" where
  "apt_upgrades = [lit ''Listing...'', lit ''vim/stable 3 amd64 [upgradable from: 2]'']"

lemma collected_example:
  "collected_packages (candidate_versions apt_upgrades) (lit ''vim'', JArray [JObject [(lit ''version'', JString (lit ''2''))]]) =
     Inr [\<lparr>ip_name = PackageName (lit ''vim''), ip_version = PackageVersion (lit ''2''),
       ip_candidate_version = Some (PackageVersion (lit ''3'')), ip_architecture = None, ip_source = None\<rparr>]"
  "collected_packages (candidate_versions apt_upgrades) (lit ''apt'', JArray [JObject [(lit ''version'', JString (lit ''1''))]]) =
     Inr [\<lparr>ip_name = PackageName (lit ''apt''), ip_version = PackageVersion (lit ''1''),
       ip_candidate_version = Some (PackageVersion (lit ''1'')), ip_architecture = None, ip_source = None\<rparr>]"
  by code_simp+

theorem collected_inventory_complete_witness:
  "\<exists>ps. normalize_package_inventory collected_facts apt_upgrades = Inr ps \<and> length ps = 2 \<and> sorted (map package_key ps)
     \<and> list_all (\<lambda>p. ip_candidate_version p = Some (expected_candidate apt_upgrades p)) ps"
proof -
  obtain ps where ps: "normalize_package_inventory collected_facts apt_upgrades = Inr ps" "length ps = 2"
    by (simp add: normalize_package_inventory_def collected_facts_def collected_example)
  from collected_inventory_complete [OF ps(1)] ps show ?thesis by auto
qed

end
