(* ===== verification/ExecutionApi.thy ===== *)
theory ExecutionApi
  imports ScheduleApi WindowsWorkflows Coordinator
begin

text \<open>
  \<open>lxcup-server/src/inventory/execution.rs\<close>: the handlers that create and confirm update plans and
  run, abort and reconcile their executions. They connect the planner, the execution coordinator,
  the agents and the tables of \<open>plans.rs\<close> and \<open>executions.rs\<close>.

  A handler is one step; that another handler can run between two of its short critical sections is
  not modelled, except that \<open>run_execution\<close> holds no lock while it waits for the agent: it is
  \<open>run_begin\<close> up to the command and \<open>run_finish\<close> from the answer on. The answer of an agent is an
  argument. The commands sent and those without an answer yet are kept in
  the state as a record of what happened; no handler reads them.
\<close>

section \<open>Tables (plans.rs, executions.rs)\<close>

record exec_db =
  xd_containers :: "u64 list"
  xd_plans :: "update_plan list"
  xd_executions :: "execution list"
  xd_results :: "(uuid \<times> execution_result \<times> timestamp) list"

definition save_plan :: "bool \<Rightarrow> update_plan \<Rightarrow> exec_db \<Rightarrow> unit repo_result \<times> exec_db" where
  "save_plan up p db =
     db_write up db
       (if up_id p \<in> set (map up_id (xd_plans db)) \<or> up_container_id p \<notin> set (xd_containers db)
           \<or> \<not> distinct (up_requested_packages p)
           \<or> \<not> distinct (map (\<lambda>c. (rc_package c, rc_kind c)) (up_resolved_changes p))
        then (Inl RepDatabase, db)
        else (Inr (), db\<lparr>xd_plans := xd_plans db @ [p]\<rparr>))"

definition save_execution :: "bool \<Rightarrow> execution \<Rightarrow> exec_db \<Rightarrow> unit repo_result \<times> exec_db" where
  "save_execution up e db =
     db_write up db
       (if ex_id e \<in> set (map ex_id (xd_executions db)) \<or> ex_plan_id e \<notin> set (map up_id (xd_plans db))
        then (Inl RepDatabase, db)
        else (Inr (), db\<lparr>xd_executions := xd_executions db @ [e]\<rparr>))"

definition update_execution_row :: "bool \<Rightarrow> execution \<Rightarrow> exec_db \<Rightarrow> unit repo_result \<times> exec_db" where
  "update_execution_row up e db =
     db_write up db
       (if ex_id e \<in> set (map ex_id (xd_executions db)) \<and> ex_plan_id e \<notin> set (map up_id (xd_plans db))
        then (Inl RepDatabase, db)
        else (Inr (), db\<lparr>xd_executions := map (\<lambda>r. if ex_id r = ex_id e then e else r) (xd_executions db)\<rparr>))"

definition save_result ::
  "bool \<Rightarrow> uuid \<Rightarrow> execution_result \<Rightarrow> timestamp \<Rightarrow> exec_db \<Rightarrow> unit repo_result \<times> exec_db" where
  "save_result up i r now db =
     db_write up db
       (if i \<notin> set (map ex_id (xd_executions db)) then (Inl RepDatabase, db)
        else (Inr (), db\<lparr>xd_results := upsert fst (i, r, now) (xd_results db)\<rparr>))"

section \<open>State\<close>

record agent_command_request =
  cq_action :: agent_action
  cq_packages :: "str list"
  cq_idempotency_key :: str

text \<open>What the server reads of an \<open>AgentCommandResponse\<close> is an \<open>execution_result\<close>.\<close>

type_synonym agent_answer = "str + execution_result"

text \<open>
  \<open>abort_execution\<close>, \<open>run_execution\<close> and \<open>reconcile_execution\<close> change the coordinator under its lock,
  release it and write the record they got into the store later; the writes that are still to come are
  kept in \<open>xs_writes\<close>.
\<close>

datatype store_write =
    WriteAborted uuid execution
  | WriteFinished uuid execution execution_result
  | WriteReconciled uuid execution

record exec_state =
  xs_plans :: "update_plan list"
  xs_executions :: "execution list"
  xs_results :: "(uuid, execution_result) hashmap"
  xs_coordinator :: coordinator
  xs_agents :: "u64 list"
  xs_db :: "exec_db option"
  xs_sent :: "(uuid \<times> agent_command_request) list"
  xs_waiting :: "uuid list"
  xs_writes :: "store_write list"

definition exec_state_initial :: "exec_db option \<Rightarrow> exec_state" where
  "exec_state_initial db = \<lparr>xs_plans = [], xs_executions = [], xs_results = [],
     xs_coordinator = coordinator_default, xs_agents = [], xs_db = db, xs_sent = [], xs_waiting = [],
     xs_writes = []\<rparr>"

datatype exec_call = CallSavePlan | CallSaveExecution | CallUpdateExecution | CallSaveResult

type_synonym exec_calls = "exec_call \<Rightarrow> bool"

text \<open>\<open>if let Some(repositories) = ...\<close> around one call, a failure being \<open>ApiError::storage()\<close>.\<close>

definition with_db ::
  "(exec_db \<Rightarrow> unit repo_result \<times> exec_db) \<Rightarrow> exec_state \<Rightarrow> unit api_result \<times> exec_state" where
  "with_db f st =
     (case xs_db st of
        None \<Rightarrow> (Inr (), st)
      | Some db \<Rightarrow> (case f db of (r, db1) \<Rightarrow> (map_err (\<lambda>_. storage) r, st\<lparr>xs_db := Some db1\<rparr>)))"

section \<open>Parsing and texts (lib.rs, api\_types.rs)\<close>

definition parse_uuid :: "ansible_env \<Rightarrow> str \<Rightarrow> str \<Rightarrow> uuid api_result" where
  "parse_uuid env text label = ok_or (bad_request (lit ''invalid_id'') label) (ae_uuid_parse env text)"

definition parse_container_id :: "str \<Rightarrow> u64 api_result" where
  "parse_container_id text =
     (case parse_u64 text of
        Some n \<Rightarrow> if n > 0 then Inr (word_of_int n)
                  else Inl (bad_request (lit ''invalid_id'') (lit ''container id''))
      | None \<Rightarrow> Inl (bad_request (lit ''invalid_id'') (lit ''container id'')))"

definition truncate_text :: "str \<Rightarrow> str" where
  "truncate_text s = take 4000 (map (\<lambda>c. if c = 13 \<or> c = 10 then 32 else c) s)"

definition execution_result_dto :: "execution_result \<Rightarrow> execution_result" where
  "execution_result_dto r = r\<lparr>er_stdout := truncate_text (er_stdout r), er_stderr := truncate_text (er_stderr r)\<rparr>"

section \<open>Plans\<close>

record create_plan_request =
  cp_packages :: "str list"
  cp_dry_run_changes :: "dry_run_change list"
  cp_distribution_upgrade :: bool

definition list_container_plans :: "str \<Rightarrow> exec_state \<Rightarrow> update_plan list api_result" where
  "list_container_plans text st =
     bindR (parse_container_id text) (\<lambda>c. Inr (filter (\<lambda>p. up_container_id p = c) (xs_plans st)))"

definition create_plan ::
  "hash_env \<Rightarrow> exec_calls \<Rightarrow> uuid \<Rightarrow> timestamp \<Rightarrow> str \<Rightarrow> create_plan_request \<Rightarrow> exec_state
     \<Rightarrow> (nat \<times> update_plan) api_result \<times> exec_state" where
  "create_plan h up fresh now text r st =
     (case bindR (parse_container_id text) (\<lambda>c.
             map_err (\<lambda>_. bad_request (lit ''invalid_plan'') (lit ''plan input is not valid''))
               (build h fresh now \<lparr>pi_container_id = c, pi_requested_packages = cp_packages r,
                  pi_dry_run_changes = cp_dry_run_changes r,
                  pi_distribution_upgrade = cp_distribution_upgrade r\<rparr>)) of
        Inl e \<Rightarrow> (Inl e, st)
      | Inr p \<Rightarrow>
          (case with_db (save_plan (up CallSavePlan) p) (st\<lparr>xs_plans := xs_plans st @ [p]\<rparr>) of
             (Inl e, st1) \<Rightarrow> (Inl e, st1)
           | (Inr _, st1) \<Rightarrow> (Inr (201, p), st1)))"

definition get_plan :: "ansible_env \<Rightarrow> str \<Rightarrow> exec_state \<Rightarrow> update_plan api_result" where
  "get_plan env text st =
     bindR (parse_uuid env text (lit ''plan id'')) (\<lambda>i.
       ok_or (not_found (lit ''plan not found'')) (List.find (\<lambda>p. up_id p = i) (xs_plans st)))"

text \<open>The input of the revalidation is made from the plan itself.\<close>

definition planner_input_of :: "update_plan \<Rightarrow> planner_input" where
  "planner_input_of p =
     \<lparr>pi_container_id = up_container_id p,
      pi_requested_packages = map package_name_as_str (up_requested_packages p),
      pi_dry_run_changes = map (\<lambda>c. \<lparr>dr_package = package_name_as_str (rc_package c),
         dr_from_version = map_option package_version_as_str (rc_from_version c),
         dr_to_version = map_option package_version_as_str (rc_to_version c),
         dr_kind = rc_kind c, dr_held = False, dr_authenticated = True\<rparr>) (up_resolved_changes p),
      pi_distribution_upgrade = False\<rparr>"

definition header_text :: "headers \<Rightarrow> str \<Rightarrow> str \<Rightarrow> str" where
  "header_text hs name default_text =
     (case Option.bind (header_get hs name) header_to_str of None \<Rightarrow> default_text | Some v \<Rightarrow> v)"

definition confirm_request :: "ansible_env \<Rightarrow> headers \<Rightarrow> update_plan \<Rightarrow> execution_request" where
  "confirm_request env hs p =
     \<lparr>rq_plan = p, rq_current_plan_input = planner_input_of p,
      rq_actor = header_text hs (lit ''x-actor'') (lit ''api''),
      rq_idempotency_key = header_text hs (lit ''idempotency-key'') (ae_uuid_to_string env (up_id p))\<rparr>"

definition confirm_plan ::
  "ansible_env \<Rightarrow> hash_env \<Rightarrow> exec_calls \<Rightarrow> uuid \<Rightarrow> uuid \<Rightarrow> timestamp \<Rightarrow> str \<Rightarrow> headers \<Rightarrow> exec_state
     \<Rightarrow> (nat \<times> execution) api_result \<times> exec_state" where
  "confirm_plan env h up fresh_plan fresh now text hs st =
     (case bindR (get_plan env text st) (\<lambda>p.
             map_err (\<lambda>_. bad_request (lit ''plan_not_ready'') (lit ''plan is not ready for confirmation''))
               (plan_transition_to Confirmed p)) of
        Inl e \<Rightarrow> (Inl e, st)
      | Inr p \<Rightarrow>
          (let st1 = st\<lparr>xs_plans := update_first (\<lambda>q. up_id q = up_id p) (\<lambda>_. p) (xs_plans st)\<rparr> in
           case start h fresh_plan fresh now (confirm_request env hs p) (xs_coordinator st) of
             (Inl _, co) \<Rightarrow>
               (Inl (bad_request (lit ''execution_rejected'') (lit ''execution was rejected'')),
                st1\<lparr>xs_coordinator := co\<rparr>)
           | (Inr (Created e), co) \<Rightarrow>
               (case with_db (save_execution (up CallSaveExecution) e)
                       (st1\<lparr>xs_coordinator := co, xs_executions := xs_executions st @ [e]\<rparr>) of
                  (Inl err, st2) \<Rightarrow> (Inl err, st2)
                | (Inr _, st2) \<Rightarrow> (Inr (202, e), st2))
           | (Inr (Duplicate i), co) \<Rightarrow>
               (map_err (\<lambda>_. not_found (lit ''execution not found''))
                  (bindR (ok_or () (List.find (\<lambda>e. ex_id e = i) (xs_executions st))) (\<lambda>e. Inr (202, e))),
                st1\<lparr>xs_coordinator := co\<rparr>)))"

section \<open>Executions\<close>

definition abort_begin ::
  "ansible_env \<Rightarrow> timestamp \<Rightarrow> str \<Rightarrow> exec_state \<Rightarrow> store_write api_result \<times> exec_state" where
  "abort_begin env now text st =
     (case parse_uuid env text (lit ''execution id'') of
        Inl e \<Rightarrow> (Inl e, st)
      | Inr i \<Rightarrow>
          (case abort now i (xs_coordinator st) of
             (Inl _, co) \<Rightarrow>
               (Inl (bad_request (lit ''execution_not_abortable'') (lit ''execution cannot be aborted'')),
                st\<lparr>xs_coordinator := co\<rparr>)
           | (Inr e, co) \<Rightarrow>
               (Inr (WriteAborted i e),
                st\<lparr>xs_coordinator := co, xs_writes := xs_writes st @ [WriteAborted i e]\<rparr>)))"

definition command_of :: "ansible_env \<Rightarrow> uuid \<Rightarrow> update_plan \<Rightarrow> agent_command_request" where
  "command_of env i p =
     \<lparr>cq_action = ActionApply, cq_packages = map package_name_as_str (up_requested_packages p),
      cq_idempotency_key = ae_uuid_to_string env i\<rparr>"

definition run_begin ::
  "ansible_env \<Rightarrow> timestamp \<Rightarrow> str \<Rightarrow> exec_state
     \<Rightarrow> (uuid \<times> agent_command_request) api_result \<times> exec_state" where
  "run_begin env now text st =
     (case bindR (parse_uuid env text (lit ''execution id'')) (\<lambda>i.
           bindR (ok_or (not_found (lit ''execution not found'')) (co_plan (xs_coordinator st) i)) (\<lambda>p.
             if up_container_id p \<in> set (xs_agents st) then Inr (i, p)
             else Inl (dependency (lit ''agent_unavailable'')
               (lit ''no agent is registered for this container'')))) of
        Inl e \<Rightarrow> (Inl e, st)
      | Inr (i, p) \<Rightarrow>
          (case begin_execution now i (xs_coordinator st) of
             (Inl _, co) \<Rightarrow>
               (Inl (bad_request (lit ''execution_not_runnable'') (lit ''execution cannot be started'')),
                st\<lparr>xs_coordinator := co\<rparr>)
           | (Inr _, co) \<Rightarrow>
               (Inr (i, command_of env i p),
                st\<lparr>xs_coordinator := co, xs_sent := xs_sent st @ [(i, command_of env i p)],
                   xs_waiting := xs_waiting st @ [i]\<rparr>)))"

definition result_of_answer :: "agent_answer \<Rightarrow> execution_result" where
  "result_of_answer answer =
     (case answer of
        Inr r \<Rightarrow> r
      | Inl message \<Rightarrow> \<lparr>er_exit_code = 1, er_stdout = [], er_stderr = message\<rparr>)"

definition finish_begin ::
  "timestamp \<Rightarrow> uuid \<Rightarrow> agent_answer \<Rightarrow> exec_state \<Rightarrow> store_write api_result \<times> exec_state" where
  "finish_begin now i answer st0 =
     (let st = st0\<lparr>xs_waiting := remove1 i (xs_waiting st0)\<rparr>;
          result = result_of_answer answer
      in case finish now i result (xs_coordinator st) of
           (Inl _, co) \<Rightarrow>
             (Inl (bad_request (lit ''execution_failed'') (lit ''execution could not be finalized'')),
              st\<lparr>xs_coordinator := co\<rparr>)
         | (Inr e, co) \<Rightarrow>
             (Inr (WriteFinished i e result),
              st\<lparr>xs_coordinator := co, xs_writes := xs_writes st @ [WriteFinished i e result]\<rparr>))"

definition reconcile_begin ::
  "ansible_env \<Rightarrow> timestamp \<Rightarrow> str \<Rightarrow> observed_execution_state \<Rightarrow> exec_state
     \<Rightarrow> store_write api_result \<times> exec_state" where
  "reconcile_begin env now text observed st =
     (case parse_uuid env text (lit ''execution id'') of
        Inl e \<Rightarrow> (Inl e, st)
      | Inr i \<Rightarrow>
          (case reconcile now i observed (xs_coordinator st) of
             (Inl _, co) \<Rightarrow>
               (Inl (bad_request (lit ''reconciliation_failed'') (lit ''execution state cannot be reconciled'')),
                st\<lparr>xs_coordinator := co\<rparr>)
           | (Inr (e, _), co) \<Rightarrow>
               (Inr (WriteReconciled i e),
                st\<lparr>xs_coordinator := co, xs_writes := xs_writes st @ [WriteReconciled i e]\<rparr>)))"

text \<open>The second part of the three handlers; only a finished run is written to the database.\<close>

definition store_execution ::
  "exec_calls \<Rightarrow> timestamp \<Rightarrow> store_write \<Rightarrow> exec_state \<Rightarrow> execution api_result \<times> exec_state" where
  "store_execution up now w st0 =
     (let st = st0\<lparr>xs_writes := remove1 w (xs_writes st0)\<rparr> in
      case w of
        WriteAborted i e \<Rightarrow>
          (Inr e, st\<lparr>xs_executions := update_first (\<lambda>x. ex_id x = i) (\<lambda>_. e) (xs_executions st)\<rparr>)
      | WriteReconciled i e \<Rightarrow>
          (Inr e, st\<lparr>xs_executions := filter (\<lambda>x. ex_id x \<noteq> i) (xs_executions st) @ [e]\<rparr>)
      | WriteFinished i e result \<Rightarrow>
          (let dto = execution_result_dto result;
               st1 = st\<lparr>xs_executions := filter (\<lambda>x. ex_id x \<noteq> i) (xs_executions st) @ [e],
                 xs_results := hm_insert i dto (xs_results st)\<rparr>
           in case with_db (update_execution_row (up CallUpdateExecution) e) st1 of
                (Inl err, st2) \<Rightarrow> (Inl err, st2)
              | (Inr _, st2) \<Rightarrow>
                  (case with_db (save_result (up CallSaveResult) i dto now) st2 of
                     (Inl err, st3) \<Rightarrow> (Inl err, st3)
                   | (Inr _, st3) \<Rightarrow> (Inr e, st3))))"

definition then_store ::
  "exec_calls \<Rightarrow> timestamp \<Rightarrow> store_write api_result \<times> exec_state \<Rightarrow> execution api_result \<times> exec_state" where
  "then_store up now begun =
     (case begun of
        (Inl e, st) \<Rightarrow> (Inl e, st)
      | (Inr w, st) \<Rightarrow> store_execution up now w st)"

text \<open>The handlers when no other request comes between their parts.\<close>

definition abort_execution ::
  "ansible_env \<Rightarrow> timestamp \<Rightarrow> str \<Rightarrow> exec_state \<Rightarrow> execution api_result \<times> exec_state" where
  "abort_execution env now text st = then_store (\<lambda>_. True) now (abort_begin env now text st)"

definition run_finish ::
  "exec_calls \<Rightarrow> timestamp \<Rightarrow> uuid \<Rightarrow> agent_answer \<Rightarrow> exec_state \<Rightarrow> execution api_result \<times> exec_state" where
  "run_finish up now i answer st = then_store up now (finish_begin now i answer st)"

definition reconcile_execution ::
  "ansible_env \<Rightarrow> timestamp \<Rightarrow> str \<Rightarrow> observed_execution_state \<Rightarrow> exec_state
     \<Rightarrow> execution api_result \<times> exec_state" where
  "reconcile_execution env now text observed st =
     then_store (\<lambda>_. True) now (reconcile_begin env now text observed st)"

definition run_execution ::
  "ansible_env \<Rightarrow> (agent_command_request \<Rightarrow> agent_answer) \<Rightarrow> exec_calls \<Rightarrow> timestamp \<Rightarrow> timestamp \<Rightarrow> str
     \<Rightarrow> exec_state \<Rightarrow> execution api_result \<times> exec_state" where
  "run_execution env agent up begun finished text st =
     (case run_begin env begun text st of
        (Inl e, st1) \<Rightarrow> (Inl e, st1)
      | (Inr (i, command), st1) \<Rightarrow> run_finish up finished i (agent command) st1)"

definition get_execution :: "ansible_env \<Rightarrow> str \<Rightarrow> exec_state \<Rightarrow> execution api_result" where
  "get_execution env text st =
     bindR (parse_uuid env text (lit ''execution id'')) (\<lambda>i.
       ok_or (not_found (lit ''execution not found'')) (List.find (\<lambda>e. ex_id e = i) (xs_executions st)))"

definition get_execution_result :: "ansible_env \<Rightarrow> str \<Rightarrow> exec_state \<Rightarrow> execution_result api_result" where
  "get_execution_result env text st =
     bindR (parse_uuid env text (lit ''execution id'')) (\<lambda>i.
       ok_or (not_found (lit ''execution result not found'')) (hm_get (xs_results st) i))"

end
