(* ===== verification/ExecutionLaws.thy ===== *)
theory ExecutionLaws
  imports ExecutionApi
begin

text \<open>
  What the handlers of \<open>inventory/execution.rs\<close> guarantee together with the planner and the
  coordinator, for every interleaving of requests, including requests served while another one
  waits for its agent.
\<close>

section \<open>Reachable states\<close>

text \<open>
  One step is a handler, or the part of a handler between two points where it holds no lock: up to the
  agent call, up to the change of the coordinator, and the write into the store. The registered agents
  change in other handlers. Fresh ids are not in use.
\<close>

inductive exec_step :: "ansible_env \<Rightarrow> hash_env \<Rightarrow> exec_state \<Rightarrow> exec_state \<Rightarrow> bool" for env h where
  xs_create: "fresh \<notin> set (map up_id (xs_plans st)) \<Longrightarrow>
     exec_step env h st (snd (create_plan h up fresh now text r st))"
| xs_confirm: "co_find (xs_coordinator st) fresh = None \<Longrightarrow>
     exec_step env h st (snd (confirm_plan env h up fp fresh now text hs st))"
| xs_abort: "exec_step env h st (snd (abort_begin env now text st))"
| xs_begin: "exec_step env h st (snd (run_begin env now text st))"
| xs_finish: "i \<in> set (xs_waiting st) \<Longrightarrow> exec_step env h st (snd (finish_begin now i answer st))"
| xs_reconcile: "exec_step env h st (snd (reconcile_begin env now text obs st))"
| xs_store: "w \<in> set (xs_writes st) \<Longrightarrow> exec_step env h st (snd (store_execution up now w st))"
| xs_agent: "exec_step env h st (st\<lparr>xs_agents := agents\<rparr>)"

inductive exec_reachable :: "ansible_env \<Rightarrow> hash_env \<Rightarrow> exec_state \<Rightarrow> bool" for env h where
  xr_init: "exec_reachable env h (exec_state_initial db)"
| xr_step: "exec_reachable env h st \<Longrightarrow> exec_step env h st st' \<Longrightarrow> exec_reachable env h st'"

section \<open>Finding and replacing in the lists of the store\<close>

lemma with_db_frame:
  "with_db f st = (r, st') \<Longrightarrow>
     xs_plans st' = xs_plans st \<and> xs_executions st' = xs_executions st \<and> xs_results st' = xs_results st
     \<and> xs_coordinator st' = xs_coordinator st \<and> xs_agents st' = xs_agents st \<and> xs_sent st' = xs_sent st
     \<and> xs_waiting st' = xs_waiting st \<and> xs_writes st' = xs_writes st"
  by (auto simp: with_db_def split: option.splits prod.splits)

lemma update_first_unique:
  "distinct (map f xs) \<Longrightarrow>
     update_first (\<lambda>x. f x = k) (\<lambda>_. y) xs = map (\<lambda>x. if f x = k then y else x) xs"
proof (induction xs)
  case (Cons x xs)
  show ?case
  proof (cases "f x = k")
    case True
    with Cons.prems have "k \<notin> f ` set xs" by auto
    then have "map (\<lambda>x. if f x = k then y else x) xs = xs" by (intro map_idI) auto
    with True show ?thesis by simp
  qed (use Cons in simp)
qed simp

lemma map_replaced: "f y = k \<Longrightarrow> map f (map (\<lambda>x. if f x = k then y else x) xs) = map f xs"
  by (induction xs) auto

lemma set_replaced:
  "k \<in> f ` set xs \<Longrightarrow> set (map (\<lambda>x. if f x = k then y else x) xs) = {x \<in> set xs. f x \<noteq> k} \<union> {y}"
  by auto

lemma distinct_moved: "distinct (map f xs) \<Longrightarrow> f y = k \<Longrightarrow> distinct (map f (filter (\<lambda>x. f x \<noteq> k) xs @ [y]))"
  by (auto simp: distinct_map_filter)

section \<open>What a handler does to the coordinator\<close>

text \<open>
  One execution changes its record, or stays as it is: the plans stay, an execution never enters
  the queue or leaves a final status, and only one that was started gets a result.
\<close>

definition changes_to :: "coordinator \<Rightarrow> uuid \<Rightarrow> execution \<Rightarrow> coordinator \<Rightarrow> bool" where
  "changes_to s i e s' \<longleftrightarrow>
     co_find s' = (co_find s)(i \<mapsto> e) \<and> co_plan s' = co_plan s
     \<and> (\<exists>e0. co_find s i = Some e0 \<and> ex_id e = ex_id e0 \<and> ex_plan_id e = ex_plan_id e0
          \<and> (e = e0 \<or> execution_can_transition_to (ex_status e0) (ex_status e)))"

lemma transition_changes:
  assumes "transition_execution i n t s = Inr (e, s1)"
  shows "changes_to s i e (append_event t' i ty m s1) \<and> ex_status e = n"
proof -
  obtain e0 where e0: "hm_get (co_executions s) i = Some e0" "execution_transition_to n t e0 = Inr e"
    "s1 = s\<lparr>co_executions := hm_insert i e (co_executions s)\<rparr>"
    using assms by (auto simp: transition_execution_Inr_iff)
  have "execution_can_transition_to (ex_status e0) (ex_status e)" "ex_status e = n"
    using execution_lc.transition_InrD [OF e0(2)] by simp_all
  then show ?thesis
    using e0 execution_transition_ids [OF e0(2)]
    by (auto simp: changes_to_def co_find_def co_plan_def fun_eq_iff)
qed

lemma abort_result:
  "abort t i s = (Inr e, s') \<Longrightarrow> changes_to s i e s' \<and> ex_status e = Aborted"
  "abort t i s = (Inl err, s') \<Longrightarrow> s' = s"
  by (auto simp: abort_def split: sum.splits dest: transition_changes)

lemma finish_result:
  "finish t i r s = (Inr e, s') \<Longrightarrow>
     changes_to s i e s' \<and> ex_status e = (if er_exit_code r = 0 then Succeeded else ExFailed)"
  "finish t i r s = (Inl err, s') \<Longrightarrow> s' = s"
  by (auto simp: finish_def Let_def split: sum.splits if_splits dest: transition_changes)

lemma begin_result:
  "begin_execution t i s = (Inr p, s') \<Longrightarrow>
     co_plan s i = Some p \<and> (\<exists>e. changes_to s i e s' \<and> ex_status e = Running)"
  "begin_execution t i s = (Inl err, s') \<Longrightarrow> s' = s"
  by (auto simp: begin_execution_def split: sum.splits option.splits dest: transition_changes)

lemma changes_same: "co_find s i = Some e \<Longrightarrow> changes_to s i e s"
  by (auto simp: changes_to_def fun_eq_iff)

lemma reconcile_result:
  assumes "reconcile t i obs s = (Inr (e, a), s')"
  shows "changes_to s i e s' \<and> (ex_status e = Unknown \<longrightarrow> co_find s i = Some e)"
proof -
  obtain e0 where e0: "co_find s i = Some e0"
    using assms by (auto simp: reconcile_def co_find_def split: option.splits)
  have fin: "changes_to s i e s' \<and> ex_status e \<noteq> Unknown" if "finish t i r s = (Inr e, s')" for r
    using finish_result(1) [OF that] by auto
  show ?thesis
    using assms e0 fin changes_same [OF e0]
    by (auto simp: reconcile_def co_find_def split: if_splits observed_execution_state.splits sum.splits prod.splits)
qed

lemma reconcile_error: "reconcile t i obs s = (Inl err, s') \<Longrightarrow> s' = s"
  by (auto simp: reconcile_def split: option.splits if_splits observed_execution_state.splits sum.splits
      prod.splits dest: finish_result(2))

section \<open>The invariant\<close>

text \<open>
  The executions the server shows are those of the coordinator. What it shows of one was the record of
  the coordinator once: it is the current one, or one that was not final and from which the current
  status was reached. \<open>run_execution\<close> stores a record only when the agent has answered, and a write may
  come after the write of a later record.
\<close>

definition shown :: "execution \<Rightarrow> execution \<Rightarrow> bool" where
  "shown x e \<longleftrightarrow> ex_id x = ex_id e \<and> ex_plan_id x = ex_plan_id e
     \<and> (x = e \<or> \<not> execution_terminal (ex_status x)
          \<and> execution_can_transition_to\<^sup>*\<^sup>* (ex_status x) (ex_status e))"

lemma shown_changes:
  assumes "changes_to s i e s'" "co_find s i = Some e0" "shown x e0"
  shows "shown x e"
proof -
  have e: "ex_id e = ex_id e0" "ex_plan_id e = ex_plan_id e0"
    "e = e0 \<or> execution_can_transition_to (ex_status e0) (ex_status e)"
    using assms(1,2) by (auto simp: changes_to_def)
  have "\<not> execution_terminal (ex_status e0)" if "execution_can_transition_to (ex_status e0) (ex_status e)"
    using that execution_can_terminal by blast
  then show ?thesis using assms(3) e
    by (auto simp: shown_def dest: rtranclp.rtrancl_into_rtrancl [of execution_can_transition_to])
qed

fun write_id :: "store_write \<Rightarrow> uuid" where
  "write_id (WriteAborted i _) = i"
| "write_id (WriteFinished i _ _) = i"
| "write_id (WriteReconciled i _) = i"

fun write_record :: "store_write \<Rightarrow> execution" where
  "write_record (WriteAborted _ e) = e"
| "write_record (WriteFinished _ e _) = e"
| "write_record (WriteReconciled _ e) = e"

fun write_fits :: "store_write \<Rightarrow> bool" where
  "write_fits (WriteFinished _ e r) \<longleftrightarrow> ex_status e = (if er_exit_code r = 0 then Succeeded else ExFailed)"
| "write_fits _ \<longleftrightarrow> True"

definition writes_ok :: "exec_state \<Rightarrow> bool" where
  "writes_ok st \<longleftrightarrow> (\<forall>w \<in> set (xs_writes st). write_fits w \<and> ex_id (write_record w) = write_id w
     \<and> (\<exists>e. co_find (xs_coordinator st) (write_id w) = Some e \<and> shown (write_record w) e))"

definition mirror_ok :: "exec_state \<Rightarrow> bool" where
  "mirror_ok st \<longleftrightarrow>
     distinct (map ex_id (xs_executions st))
     \<and> (\<forall>i. co_find (xs_coordinator st) i \<noteq> None \<longleftrightarrow> i \<in> ex_id ` set (xs_executions st))
     \<and> (\<forall>x \<in> set (xs_executions st). \<forall>e. co_find (xs_coordinator st) (ex_id x) = Some e \<longrightarrow> shown x e)"

text \<open>Every execution runs a plan of the store, and no two the same plan.\<close>

definition plans_ok :: "exec_state \<Rightarrow> bool" where
  "plans_ok st \<longleftrightarrow>
     distinct (map up_id (xs_plans st))
     \<and> (\<forall>i p. co_plan (xs_coordinator st) i = Some p \<longrightarrow> p \<in> set (xs_plans st))
     \<and> (\<forall>i j p q. co_plan (xs_coordinator st) i = Some p \<longrightarrow> co_plan (xs_coordinator st) j = Some q \<longrightarrow>
          up_id p = up_id q \<longrightarrow> i = j)"

text \<open>The commands sent are one for each execution that left the queue otherwise than by an abort.\<close>

definition commands_ok :: "ansible_env \<Rightarrow> exec_state \<Rightarrow> bool" where
  "commands_ok env st \<longleftrightarrow>
     distinct (map fst (xs_sent st)) \<and> set (xs_waiting st) \<subseteq> fst ` set (xs_sent st)
     \<and> (\<forall>i c. (i, c) \<in> set (xs_sent st) \<longrightarrow> (\<exists>e p. co_find (xs_coordinator st) i = Some e
          \<and> co_plan (xs_coordinator st) i = Some p \<and> ex_status e \<noteq> Queued \<and> c = command_of env i p))
     \<and> (\<forall>i e. co_find (xs_coordinator st) i = Some e \<longrightarrow> ex_status e \<notin> {Queued, Aborted} \<longrightarrow>
          i \<in> fst ` set (xs_sent st))"

text \<open>A stored result belongs to a finished execution and agrees with its status.\<close>

definition results_ok :: "exec_state \<Rightarrow> bool" where
  "results_ok st \<longleftrightarrow>
     (\<forall>i e. co_find (xs_coordinator st) i = Some e \<longrightarrow> ex_status e \<noteq> Unknown)
     \<and> (\<forall>i r. hm_get (xs_results st) i = Some r \<longrightarrow> (\<exists>e. co_find (xs_coordinator st) i = Some e
          \<and> ex_status e = (if er_exit_code r = 0 then Succeeded else ExFailed)))"

definition exec_ok :: "ansible_env \<Rightarrow> hash_env \<Rightarrow> exec_state \<Rightarrow> bool" where
  "exec_ok env h st \<longleftrightarrow> coord_reachable h (xs_coordinator st) \<and> mirror_ok st \<and> plans_ok st
     \<and> commands_ok env st \<and> results_ok st \<and> writes_ok st"

lemma exec_ok_initial: "exec_ok env h (exec_state_initial db)"
  by (simp add: exec_ok_def exec_state_initial_def cr_init mirror_ok_def plans_ok_def commands_ok_def
      results_ok_def writes_ok_def co_plan_def coordinator_default_def [THEN arg_cong, of co_plans])

lemma exec_ok_cong:
  assumes "exec_ok env h st" "xs_coordinator st' = xs_coordinator st" "xs_plans st' = xs_plans st"
    "xs_executions st' = xs_executions st" "xs_results st' = xs_results st" "xs_sent st' = xs_sent st"
    "set (xs_waiting st') \<subseteq> set (xs_waiting st)" "set (xs_writes st') \<subseteq> set (xs_writes st)"
  shows "exec_ok env h st'"
  using assms by (auto simp: exec_ok_def mirror_ok_def plans_ok_def commands_ok_def results_ok_def writes_ok_def subset_iff)

section \<open>Preservation\<close>

lemma changed_id:
  assumes "coord_reachable h s" "changes_to s i e s'"
  shows "ex_id e = i"
  using assms coord_reachable_ok [OF assms(1)] by (auto simp: changes_to_def coordinator_ok_def)

text \<open>A handler that changes one execution and is to store its new record.\<close>

lemma mirror_ok_changed:
  assumes "mirror_ok st" "changes_to (xs_coordinator st) i e (xs_coordinator st')"
    "xs_executions st' = xs_executions st"
  shows "mirror_ok st'"
proof -
  obtain e0 where e0: "co_find (xs_coordinator st) i = Some e0"
    and upd: "co_find (xs_coordinator st') = (co_find (xs_coordinator st))(i \<mapsto> e)"
    using assms(2) by (auto simp: changes_to_def)
  have "shown x y" if "x \<in> set (xs_executions st)" "co_find (xs_coordinator st') (ex_id x) = Some y" for x y
  proof (cases "ex_id x = i")
    case True
    then have "shown x e0" using assms(1) that(1) e0 by (auto simp: mirror_ok_def)
    then show ?thesis using shown_changes [OF assms(2) e0] that(2) True by (simp add: upd)
  next
    case False
    then show ?thesis using assms(1) that by (auto simp: mirror_ok_def upd)
  qed
  moreover have "co_find (xs_coordinator st') j \<noteq> None \<longleftrightarrow> j \<in> ex_id ` set (xs_executions st)" for j
    using assms(1) e0 unfolding mirror_ok_def upd by (cases "j = i") auto
  ultimately show ?thesis using assms(1,3) unfolding mirror_ok_def by simp
qed

lemma writes_ok_changed:
  assumes "writes_ok st" "changes_to (xs_coordinator st) i e (xs_coordinator st')" "ex_id e = i"
    "xs_writes st' = xs_writes st @ ws" "\<And>w. w \<in> set ws \<Longrightarrow> write_id w = i \<and> write_record w = e \<and> write_fits w"
  shows "writes_ok st'"
proof -
  obtain e0 where e0: "co_find (xs_coordinator st) i = Some e0"
    and upd: "co_find (xs_coordinator st') = (co_find (xs_coordinator st))(i \<mapsto> e)"
    using assms(2) by (auto simp: changes_to_def)
  have "\<exists>y. co_find (xs_coordinator st') (write_id w) = Some y \<and> shown (write_record w) y"
    if "w \<in> set (xs_writes st)" for w
    using assms(1) that shown_changes [OF assms(2) e0] e0 unfolding writes_ok_def
    by (cases "write_id w = i") (force simp: upd)+
  moreover have "\<exists>y. co_find (xs_coordinator st') (write_id w) = Some y \<and> shown (write_record w) y"
    if "w \<in> set ws" for w
    using assms(5) [OF that] by (simp add: upd shown_def)
  ultimately show ?thesis using assms unfolding writes_ok_def by (auto simp del: fun_upd_apply)
qed

lemma exec_ok_changed:
  assumes ok: "exec_ok env h st" and c: "changes_to (xs_coordinator st) i e (xs_coordinator st')"
    and r: "coord_reachable h (xs_coordinator st')" and n: "ex_status e \<noteq> Unknown"
    and started: "ex_status e = Running \<Longrightarrow> co_find (xs_coordinator st) i = Some e"
    and same: "xs_plans st' = xs_plans st" "xs_sent st' = xs_sent st" "xs_executions st' = xs_executions st"
      "xs_results st' = xs_results st" "set (xs_waiting st') \<subseteq> set (xs_waiting st)"
    and ws: "xs_writes st' = xs_writes st @ ws" "\<And>w. w \<in> set ws \<Longrightarrow> write_id w = i \<and> write_record w = e \<and> write_fits w"
  shows "exec_ok env h st'"
proof -
  obtain e0 where e0: "co_find (xs_coordinator st) i = Some e0"
    "e = e0 \<or> execution_can_transition_to (ex_status e0) (ex_status e)"
    and upd: "co_find (xs_coordinator st') = (co_find (xs_coordinator st))(i \<mapsto> e)"
      "co_plan (xs_coordinator st') = co_plan (xs_coordinator st)"
    using c by (auto simp: changes_to_def)
  have left: "ex_status e = Queued \<Longrightarrow> ex_status e0 = Queued"
    "ex_status e \<notin> {Queued, Aborted} \<Longrightarrow> ex_status e0 \<notin> {Queued, Aborted}"
    "ex_status e0 \<in> {Succeeded, ExFailed} \<Longrightarrow> e = e0"
    using e0 started by (cases "ex_status e0"; auto)+
  have "mirror_ok st'" using mirror_ok_changed [OF _ c same(3)] ok by (simp add: exec_ok_def)
  moreover have "writes_ok st'"
    using writes_ok_changed [OF _ c _ ws] ok changed_id [OF _ c] by (auto simp: exec_ok_def)
  moreover have "plans_ok st'" using ok same upd by (simp add: exec_ok_def plans_ok_def)
  moreover have "commands_ok env st'"
  proof -
    have cmd: "commands_ok env st" using ok by (simp add: exec_ok_def)
    have find: "co_find (xs_coordinator st') j = Some x \<longleftrightarrow>
        (if j = i then x = e else co_find (xs_coordinator st) j = Some x)" for j x
      by (auto simp: upd)
    have 1: "\<exists>x p. co_find (xs_coordinator st') j = Some x \<and> co_plan (xs_coordinator st') j = Some p
        \<and> ex_status x \<noteq> Queued \<and> k = command_of env j p" if jk: "(j, k) \<in> set (xs_sent st)" for j k
    proof -
      obtain x p where x: "co_find (xs_coordinator st) j = Some x" "co_plan (xs_coordinator st) j = Some p"
        "ex_status x \<noteq> Queued" "k = command_of env j p"
        using cmd jk unfolding commands_ok_def by blast
      then show ?thesis using left(1) e0(1) by (cases "j = i") (auto simp: upd)
    qed
    have 2: "j \<in> fst ` set (xs_sent st)"
      if "co_find (xs_coordinator st') j = Some x" "ex_status x \<notin> {Queued, Aborted}" for j x
    proof (cases "j = i")
      case True
      then have "ex_status e0 \<notin> {Queued, Aborted}" using that left(2) find by auto
      then show ?thesis using cmd e0(1) True unfolding commands_ok_def by blast
    next
      case False
      then show ?thesis using that find cmd unfolding commands_ok_def by metis
    qed
    show ?thesis using cmd 1 2 same unfolding commands_ok_def by auto
  qed
  moreover have "results_ok st'"
  proof -
    have old: "results_ok st" using ok by (simp add: exec_ok_def)
    have "\<exists>x. co_find (xs_coordinator st') j = Some x
        \<and> ex_status x = (if er_exit_code q = 0 then Succeeded else ExFailed)"
      if q: "hm_get (xs_results st') j = Some q" for j q
    proof -
      obtain x where x: "co_find (xs_coordinator st) j = Some x"
        "ex_status x = (if er_exit_code q = 0 then Succeeded else ExFailed)"
        using old q unfolding results_ok_def same(4) by blast
      then show ?thesis using left(3) e0(1) by (cases "j = i") (auto simp: upd split: if_splits)
    qed
    then show ?thesis using old n unfolding results_ok_def by (auto simp: upd)
  qed
  ultimately show ?thesis using r by (simp add: exec_ok_def)
qed

text \<open>The write of a record that waited for it.\<close>

lemma exec_ok_written:
  assumes ok: "exec_ok env h st" and w: "w \<in> set (xs_writes st)"
    and ex: "distinct (map ex_id (xs_executions st'))"
      "set (xs_executions st') = {x \<in> set (xs_executions st). ex_id x \<noteq> write_id w} \<union> {write_record w}"
    and same: "xs_coordinator st' = xs_coordinator st" "xs_plans st' = xs_plans st" "xs_sent st' = xs_sent st"
      "xs_waiting st' = xs_waiting st" "set (xs_writes st') \<subseteq> set (xs_writes st)"
    and res: "\<And>j q. hm_get (xs_results st') j = Some q \<Longrightarrow> hm_get (xs_results st) j = Some q
        \<or> j = write_id w \<and> ex_status (write_record w) = (if er_exit_code q = 0 then Succeeded else ExFailed)"
  shows "exec_ok env h st'"
proof -
  obtain e where e: "co_find (xs_coordinator st) (write_id w) = Some e" "shown (write_record w) e"
    and id: "ex_id (write_record w) = write_id w"
    using ok w unfolding exec_ok_def writes_ok_def by blast
  have m: "mirror_ok st" using ok by (simp add: exec_ok_def)
  have "co_find (xs_coordinator st) j \<noteq> None \<longleftrightarrow> j \<in> ex_id ` set (xs_executions st')" for j
    using m e(1) id unfolding mirror_ok_def ex(2) by (cases "j = write_id w") auto
  moreover have "shown x y" if "x \<in> set (xs_executions st')" "co_find (xs_coordinator st) (ex_id x) = Some y" for x y
    using that m e id unfolding ex(2) by (auto simp: mirror_ok_def)
  ultimately have "mirror_ok st'" using ex(1) same unfolding mirror_ok_def by simp
  moreover have "results_ok st'"
  proof -
    have old: "results_ok st" using ok by (simp add: exec_ok_def)
    have "\<exists>x. co_find (xs_coordinator st) j = Some x
        \<and> ex_status x = (if er_exit_code q = 0 then Succeeded else ExFailed)"
      if q: "hm_get (xs_results st') j = Some q" for j q
      using res [OF q]
    proof
      assume "hm_get (xs_results st) j = Some q"
      then show ?thesis using old unfolding results_ok_def by blast
    next
      assume j: "j = write_id w \<and> ex_status (write_record w) = (if er_exit_code q = 0 then Succeeded else ExFailed)"
      then have "write_record w = e" using e(2) by (auto simp: shown_def execution_terminal_def split: if_splits)
      then show ?thesis using j e(1) by auto
    qed
    then show ?thesis using old same unfolding results_ok_def by simp
  qed
  moreover have "plans_ok st'" "commands_ok env st'" "writes_ok st'"
    using ok same by (auto simp: exec_ok_def plans_ok_def commands_ok_def writes_ok_def subset_iff)
  ultimately show ?thesis using ok same by (simp add: exec_ok_def)
qed

lemma abort_keeps:
  assumes ok: "exec_ok env h st"
  shows "exec_ok env h (snd (abort_begin env now text st))"
proof (cases "parse_uuid env text (lit ''execution id'')")
  case (Inr i)
  obtain r co where a: "abort now i (xs_coordinator st) = (r, co)" by fastforce
  have reach: "coord_reachable h co"
    using cr_step [OF _ cs_abort, of h "xs_coordinator st" now i] ok a by (simp add: exec_ok_def)
  show ?thesis
  proof (cases r)
    case (Inl err)
    then have "co = xs_coordinator st" using abort_result(2) a by auto
    then show ?thesis using Inl a Inr by (intro exec_ok_cong [OF ok]) (simp_all add: abort_begin_def)
  next
    case e: (Inr e)
    have c: "changes_to (xs_coordinator st) i e co" "ex_status e = Aborted"
      using abort_result(1) a e by auto
    show ?thesis
      by (rule exec_ok_changed [OF ok, of i e _ "[WriteAborted i e]"])
        (use c reach in \<open>simp_all add: abort_begin_def Inr a e\<close>)
  qed
qed (use ok in \<open>simp add: abort_begin_def\<close>)

lemma finish_keeps:
  assumes ok: "exec_ok env h st"
  shows "exec_ok env h (snd (finish_begin now i answer st))"
proof -
  let ?r = "result_of_answer answer"
  obtain r co where f: "finish now i ?r (xs_coordinator st) = (r, co)" by fastforce
  have reach: "coord_reachable h co"
    using cr_step [OF _ cs_finish, of h "xs_coordinator st" now i ?r] ok f by (simp add: exec_ok_def)
  have wait: "set (remove1 i (xs_waiting st)) \<subseteq> set (xs_waiting st)" by (rule set_remove1_subset)
  show ?thesis
  proof (cases r)
    case (Inl err)
    then have "co = xs_coordinator st" using finish_result(2) f by auto
    then show ?thesis using Inl f wait
      by (intro exec_ok_cong [OF ok]) (simp_all add: finish_begin_def Let_def)
  next
    case e: (Inr e)
    have c: "changes_to (xs_coordinator st) i e co"
      "ex_status e = (if er_exit_code ?r = 0 then Succeeded else ExFailed)"
      using finish_result(1) f e by auto
    show ?thesis
      by (rule exec_ok_changed [OF ok, of i e _ "[WriteFinished i e ?r]"])
        (use c reach wait in \<open>simp_all add: finish_begin_def Let_def f e split: if_splits\<close>)
  qed
qed

lemma reconcile_keeps:
  assumes ok: "exec_ok env h st"
  shows "exec_ok env h (snd (reconcile_begin env now text obs st))"
proof (cases "parse_uuid env text (lit ''execution id'')")
  case (Inr i)
  obtain r co where a: "reconcile now i obs (xs_coordinator st) = (r, co)" by fastforce
  have reach: "coord_reachable h co"
    using cr_step [OF _ cs_reconcile, of h "xs_coordinator st" now i obs] ok a by (simp add: exec_ok_def)
  show ?thesis
  proof (cases r)
    case (Inl err)
    then have "co = xs_coordinator st" using reconcile_error a by auto
    then show ?thesis using Inl a Inr
      by (intro exec_ok_cong [OF ok]) (simp_all add: reconcile_begin_def)
  next
    case e': (Inr ea)
    obtain e act where e: "r = Inr (e, act)" using e' by (cases ea) auto
    have c: "changes_to (xs_coordinator st) i e co" "ex_status e = Unknown \<longrightarrow> co_find (xs_coordinator st) i = Some e"
      using reconcile_result a e by auto
    have n: "ex_status e \<noteq> Unknown" using c(2) ok by (auto simp: exec_ok_def results_ok_def)
    have run: "co_find (xs_coordinator st) i = Some e" if "ex_status e = Running"
      using a e that by (auto simp: reconcile_def co_find_def split: option.splits if_splits
          observed_execution_state.splits sum.splits prod.splits dest!: finish_result(1))
    show ?thesis
      by (rule exec_ok_changed [OF ok, of i e _ "[WriteReconciled i e]"])
        (use c n run reach in \<open>simp_all add: reconcile_begin_def Inr a e\<close>)
  qed
qed (use ok in \<open>simp add: reconcile_begin_def\<close>)

text \<open>What a write leaves in the list of executions.\<close>

lemma written_executions:
  assumes ok: "exec_ok env h st" and w: "w \<in> set (xs_writes st)"
  shows "distinct (map ex_id (filter (\<lambda>x. ex_id x \<noteq> write_id w) (xs_executions st) @ [write_record w]))"
    "distinct (map ex_id (update_first (\<lambda>x. ex_id x = write_id w) (\<lambda>_. write_record w) (xs_executions st)))"
    "set (update_first (\<lambda>x. ex_id x = write_id w) (\<lambda>_. write_record w) (xs_executions st)) =
       {x \<in> set (xs_executions st). ex_id x \<noteq> write_id w} \<union> {write_record w}"
proof -
  have d: "distinct (map ex_id (xs_executions st))" using ok by (simp add: exec_ok_def mirror_ok_def)
  have w': "ex_id (write_record w) = write_id w" "co_find (xs_coordinator st) (write_id w) \<noteq> None"
    using ok w unfolding exec_ok_def writes_ok_def by blast+
  then have i: "write_id w \<in> ex_id ` set (xs_executions st)" using ok unfolding exec_ok_def mirror_ok_def by blast
  show "distinct (map ex_id (filter (\<lambda>x. ex_id x \<noteq> write_id w) (xs_executions st) @ [write_record w]))"
    by (rule distinct_moved [OF d w'(1)])
  show "distinct (map ex_id (update_first (\<lambda>x. ex_id x = write_id w) (\<lambda>_. write_record w) (xs_executions st)))"
    "set (update_first (\<lambda>x. ex_id x = write_id w) (\<lambda>_. write_record w) (xs_executions st)) =
       {x \<in> set (xs_executions st). ex_id x \<noteq> write_id w} \<union> {write_record w}"
    unfolding update_first_unique [OF d, of "write_id w" "write_record w"]
      map_replaced [of ex_id "write_record w" "write_id w" "xs_executions st", OF w'(1)] set_replaced [OF i, of "write_record w"]
    by (rule d, rule refl)
qed

lemma store_keeps:
  assumes ok: "exec_ok env h st" and w: "w \<in> set (xs_writes st)"
  shows "exec_ok env h (snd (store_execution up now w st))"
proof -
  have sub: "set (remove1 w (xs_writes st)) \<subseteq> set (xs_writes st)" by (rule set_remove1_subset)
  note xs = written_executions [OF ok w]
  show ?thesis
  proof (cases w)
    case (WriteAborted i e)
    then show ?thesis using xs sub
      by (intro exec_ok_written [OF ok w]) (auto simp: store_execution_def Let_def)
  next
    case (WriteReconciled i e)
    then show ?thesis using xs sub
      by (intro exec_ok_written [OF ok w]) (auto simp: store_execution_def Let_def)
  next
    case (WriteFinished i e r)
    let ?st1 = "st\<lparr>xs_writes := remove1 w (xs_writes st),
        xs_executions := filter (\<lambda>x. ex_id x \<noteq> i) (xs_executions st) @ [e],
        xs_results := hm_insert i (execution_result_dto r) (xs_results st)\<rparr>"
    have "write_fits w" using ok w unfolding exec_ok_def writes_ok_def by blast
    then have "exec_ok env h ?st1" using xs sub WriteFinished
      by (intro exec_ok_written [OF ok w]) (auto simp: execution_result_dto_def split: if_splits)
    moreover obtain q st2 where 2: "with_db (update_execution_row (up CallUpdateExecution) e) ?st1 = (q, st2)"
      by fastforce
    moreover obtain q' st3 where 3: "with_db (save_result (up CallSaveResult) i (execution_result_dto r) now) st2 = (q', st3)"
      by fastforce
    ultimately have "exec_ok env h st2" "exec_ok env h st3"
      using with_db_frame [OF 2] with_db_frame [OF 3]
      by (auto intro!: exec_ok_cong [where st = ?st1 and st' = st2] exec_ok_cong [where st = ?st1 and st' = st3])
    then show ?thesis using 2 3 WriteFinished by (auto simp: store_execution_def Let_def split: sum.splits)
  qed
qed

lemma begin_queued:
  assumes "begin_execution t i s = (Inr p, s')"
  obtains e0 e where "co_find s i = Some e0" "ex_status e0 = Queued" "ex_status e = Running"
    "changes_to s i e s'"
proof -
  obtain e where e: "changes_to s i e s'" "ex_status e = Running" using begin_result(1) [OF assms] by blast
  then obtain e0 where e0: "co_find s i = Some e0"
    "e = e0 \<or> execution_can_transition_to (ex_status e0) (ex_status e)"
    by (auto simp: changes_to_def)
  have "ex_status e0 = Queued"
    using assms e0(1) unfolding begin_execution_def co_find_def
    by (cases "ex_status e0") (auto simp: transition_execution_def execution_transition_to_def split: option.splits if_splits)
  then show ?thesis using that e e0(1) by blast
qed

lemma begin_keeps:
  assumes ok: "exec_ok env h st"
  shows "exec_ok env h (snd (run_begin env now text st))"
proof (cases "snd (run_begin env now text st) = st")
  case False
  then obtain i p r co where p: "co_plan (xs_coordinator st) i = Some p"
    and b: "begin_execution now i (xs_coordinator st) = (r, co)"
    and st': "snd (run_begin env now text st) = (case r of Inl _ \<Rightarrow> st\<lparr>xs_coordinator := co\<rparr>
       | Inr _ \<Rightarrow> st\<lparr>xs_coordinator := co, xs_sent := xs_sent st @ [(i, command_of env i p)],
                   xs_waiting := xs_waiting st @ [i]\<rparr>)"
    by (auto simp: run_begin_def bindR_Inr_iff split: sum.splits prod.splits if_splits)
  have reach: "coord_reachable h co"
    using cr_step [OF _ cs_begin, of h "xs_coordinator st" now i] ok b by (simp add: exec_ok_def)
  show ?thesis
  proof (cases r)
    case (Inl err)
    then have "co = xs_coordinator st" using begin_result(2) b by auto
    then show ?thesis using Inl st' by (intro exec_ok_cong [OF ok]) simp_all
  next
    case (Inr q)
    obtain e0 e where e0: "co_find (xs_coordinator st) i = Some e0" "ex_status e0 = Queued"
      and e: "ex_status e = Running" and c: "changes_to (xs_coordinator st) i e co"
      using begin_queued b Inr by metis
    have upd: "co_find co = (co_find (xs_coordinator st))(i \<mapsto> e)" "co_plan co = co_plan (xs_coordinator st)"
      and same: "ex_id e = ex_id e0" "ex_plan_id e = ex_plan_id e0"
      using c e0(1) by (auto simp: changes_to_def)
    have new: "i \<notin> fst ` set (xs_sent st)"
      using ok e0 by (fastforce simp: exec_ok_def commands_ok_def)
    then have new': "(i, k) \<notin> set (xs_sent st)" for k by force
    have "ex_id e = i" using changed_id [OF _ c] ok by (auto simp: exec_ok_def)
    then have "mirror_ok (snd (run_begin env now text st))" "writes_ok (snd (run_begin env now text st))"
      using mirror_ok_changed [of st i e] writes_ok_changed [of st i e _ "[]"] ok c
      unfolding st' Inr by (simp_all add: exec_ok_def)
    moreover have "plans_ok (snd (run_begin env now text st))"
      using ok unfolding st' Inr by (simp add: exec_ok_def plans_ok_def upd)
    moreover have "commands_ok env (snd (run_begin env now text st))"
      using ok new new' p e unfolding st' Inr exec_ok_def commands_ok_def by (auto simp: upd)
    moreover have "results_ok (snd (run_begin env now text st))"
    proof -
      have old: "results_ok st" using ok by (simp add: exec_ok_def)
      have none: "hm_get (xs_results st) i = None"
        using old e0 unfolding results_ok_def by (cases "hm_get (xs_results st) i") (fastforce split: if_splits)+
      show ?thesis
        unfolding st' Inr results_ok_def
      proof (intro conjI allI impI, goal_cases)
        case (1 j x)
        then show ?case using old e by (cases "j = i") (auto simp: upd results_ok_def)
      next
        case (2 j q)
        then have "j \<noteq> i" using none by auto
        then show ?case using 2 old by (simp add: upd results_ok_def)
      qed
    qed
    ultimately show ?thesis using reach unfolding exec_ok_def st' Inr by simp
  qed
qed (use ok in simp)

text \<open>Creating and confirming a plan.\<close>

lemma built_id [simp]: "up_id (refresh_hash h (built_plan f t i)) = f"
  by (simp add: refresh_hash_def built_plan_def)

lemma create_keeps:
  assumes ok: "exec_ok env h st" and fresh: "fresh \<notin> set (map up_id (xs_plans st))"
  shows "exec_ok env h (snd (create_plan h up fresh now text r st))"
proof -
  let ?b = "bindR (parse_container_id text) (\<lambda>c.
      map_err (\<lambda>_. bad_request (lit ''invalid_plan'') (lit ''plan input is not valid''))
        (build h fresh now \<lparr>pi_container_id = c, pi_requested_packages = cp_packages r,
           pi_dry_run_changes = cp_dry_run_changes r, pi_distribution_upgrade = cp_distribution_upgrade r\<rparr>))"
  show ?thesis
  proof (cases ?b)
    case (Inl e)
    then show ?thesis using ok by (simp add: create_plan_def)
  next
    case (Inr p)
    then have p: "up_id p = fresh" by (auto simp: bindR_Inr_iff build_Inr_iff)
    obtain q st1 where w: "with_db (save_plan (up CallSavePlan) p) (st\<lparr>xs_plans := xs_plans st @ [p]\<rparr>) = (q, st1)"
      by fastforce
    have st': "snd (create_plan h up fresh now text r st) = st1"
      unfolding create_plan_def Inr by (simp add: w split: sum.split)
    have "exec_ok env h (st\<lparr>xs_plans := xs_plans st @ [p]\<rparr>)"
      using ok fresh p by (auto simp: exec_ok_def mirror_ok_def plans_ok_def commands_ok_def results_ok_def writes_ok_def)
    then show ?thesis unfolding st' using with_db_frame [OF w] by (elim exec_ok_cong) auto
  qed
qed

lemma get_plan_InrD:
  "get_plan env text st = Inr p \<Longrightarrow> p \<in> set (xs_plans st)"
  by (auto simp: get_plan_def bindR_Inr_iff find_Some_iff)

lemma started_plan_confirmed:
  assumes "coordinator_ok s" "co_plan s i = Some q"
  shows "up_status q = Confirmed" "co_find s i \<noteq> None"
proof -
  have "\<forall>i. co_plan s i \<noteq> None \<longrightarrow> co_find s i \<noteq> None"
    using assms(1) unfolding coordinator_ok_def by (elim conjE)
  then show f: "co_find s i \<noteq> None" using assms(2) by simp
  then obtain e where "co_find s i = Some e" by blast
  with assms(1) have "ex_id e = i \<and> execution_ok e \<and> co_events_of s i \<noteq> []
      \<and> (\<exists>p. co_plan s i = Some p \<and> up_status p = Confirmed \<and> up_id p = ex_plan_id e)"
    unfolding coordinator_ok_def by (elim conjE allE [of _ i] allE [of _ e]) simp
  then show "up_status q = Confirmed" using assms(2) by simp
qed

text \<open>A plan that is not confirmed has no execution.\<close>

lemma unconfirmed_not_started:
  assumes ok: "exec_ok env h st" and p: "p \<in> set (xs_plans st)" "up_status p \<noteq> Confirmed"
    and q: "co_plan (xs_coordinator st) i = Some q"
  shows "up_id q \<noteq> up_id p"
proof
  assume "up_id q = up_id p"
  moreover have "q \<in> set (xs_plans st)" "distinct (map up_id (xs_plans st))"
    using ok q by (auto simp: exec_ok_def plans_ok_def)
  ultimately have "q = p" using p(1) by (metis distinct_map inj_onD)
  moreover have "up_status q = Confirmed"
    using started_plan_confirmed(1) [OF coord_reachable_ok q] ok by (auto simp: exec_ok_def)
  ultimately show False using p(2) by simp
qed

lemma exec_ok_confirmed:
  assumes ok: "exec_ok env h st" and p: "p \<in> set (xs_plans st)" "up_status p \<noteq> Confirmed"
    and p': "up_id p' = up_id p"
  shows "exec_ok env h (st\<lparr>xs_plans := update_first (\<lambda>q. up_id q = up_id p) (\<lambda>_. p') (xs_plans st)\<rparr>)"
proof -
  have d: "distinct (map up_id (xs_plans st))" using ok by (simp add: exec_ok_def plans_ok_def)
  have i: "up_id p \<in> up_id ` set (xs_plans st)" using p(1) by simp
  note eq = update_first_unique [OF d, of "up_id p" p']
  have "map up_id (update_first (\<lambda>q. up_id q = up_id p) (\<lambda>_. p') (xs_plans st)) = map up_id (xs_plans st)"
    unfolding eq by (rule map_replaced [of up_id p' "up_id p", OF p'])
  moreover have "q \<in> set (update_first (\<lambda>q. up_id q = up_id p) (\<lambda>_. p') (xs_plans st))"
    if "co_plan (xs_coordinator st) j = Some q" for j q
    using unconfirmed_not_started [OF ok p that] ok that
    unfolding eq set_replaced [OF i] by (auto simp: exec_ok_def plans_ok_def)
  ultimately show ?thesis
    using ok d by (auto simp: exec_ok_def mirror_ok_def plans_ok_def commands_ok_def results_ok_def writes_ok_def)
qed

lemma exec_ok_started:
  assumes ok: "exec_ok env h st" and p: "rq_plan rq \<in> set (xs_plans st)"
    and new: "\<And>i q. co_plan (xs_coordinator st) i = Some q \<Longrightarrow> up_id q \<noteq> up_id (rq_plan rq)"
    and s: "start h fp fresh now rq (xs_coordinator st) = (Inr (Created e), co)"
    and fresh: "co_find (xs_coordinator st) fresh = None"
  shows "exec_ok env h (st\<lparr>xs_coordinator := co, xs_executions := xs_executions st @ [e]\<rparr>)"
proof -
  have reach: "coord_reachable h co"
    using cr_step [OF _ cs_start [OF fresh, of h fp now rq]] ok s by (simp add: exec_ok_def)
  have e: "e = execution_new fresh (up_id (rq_plan rq))"
    and upd: "co_find co = (co_find (xs_coordinator st))(fresh \<mapsto> e)"
      "co_plan co = (co_plan (xs_coordinator st))(fresh \<mapsto> rq_plan rq)"
    using s by (cases rule: start_cases [of h fp fresh now rq "xs_coordinator st"];
        force simp: co_find_def co_plan_def fun_eq_iff)+
  have id: "ex_id e = fresh" "ex_status e = Queued" by (simp_all add: e execution_new_def)
  have free: "fresh \<notin> ex_id ` set (xs_executions st)" "fresh \<notin> fst ` set (xs_sent st)"
    using ok fresh by (fastforce simp: exec_ok_def mirror_ok_def commands_ok_def)+
  have "mirror_ok (st\<lparr>xs_coordinator := co, xs_executions := xs_executions st @ [e]\<rparr>)"
  proof -
    have m: "mirror_ok st" using ok by (simp add: exec_ok_def)
    have "co_find co j \<noteq> None \<longleftrightarrow> j \<in> ex_id ` set (xs_executions st @ [e])" for j
      using m id unfolding mirror_ok_def upd by (cases "j = fresh") auto
    moreover have "shown x y" if "x \<in> set (xs_executions st @ [e])" "co_find co (ex_id x) = Some y" for x y
    proof (cases "x = e")
      case False
      then have "x \<in> set (xs_executions st)" using that(1) by simp
      moreover from this have "ex_id x \<noteq> fresh" using free(1) by auto
      ultimately show ?thesis using m that(2) by (auto simp: mirror_ok_def upd)
    qed (use that id in \<open>simp add: upd shown_def\<close>)
    ultimately show ?thesis using m free(1) id unfolding mirror_ok_def by simp
  qed
  moreover have "plans_ok (st\<lparr>xs_coordinator := co, xs_executions := xs_executions st @ [e]\<rparr>)"
  proof -
    have q: "plans_ok st" using ok by (simp add: exec_ok_def)
    have "i = j" if "co_plan co i = Some a" "co_plan co j = Some b" "up_id a = up_id b" for i j a b
      using that new [of i a] new [of j b] q unfolding plans_ok_def
      by (cases "i = fresh"; cases "j = fresh") (auto simp: upd)
    moreover have "a \<in> set (xs_plans st)" if "co_plan co i = Some a" for i a
      using that q p unfolding plans_ok_def by (cases "i = fresh") (auto simp: upd)
    moreover have "distinct (map up_id (xs_plans st))" using q by (simp add: plans_ok_def)
    ultimately show ?thesis unfolding plans_ok_def by simp
  qed
  moreover have "commands_ok env (st\<lparr>xs_coordinator := co, xs_executions := xs_executions st @ [e]\<rparr>)"
  proof -
    have c: "commands_ok env st" using ok by (simp add: exec_ok_def)
    have "(j, k) \<in> set (xs_sent st) \<Longrightarrow> j \<noteq> fresh" for j k using free(2) by force
    then show ?thesis using c id unfolding commands_ok_def by (auto simp: upd)
  qed
  moreover have "results_ok (st\<lparr>xs_coordinator := co, xs_executions := xs_executions st @ [e]\<rparr>)"
  proof -
    have r: "results_ok st" using ok by (simp add: exec_ok_def)
    have "j \<noteq> fresh" if "hm_get (xs_results st) j = Some q" for j q
      using r that fresh unfolding results_ok_def by fastforce
    then show ?thesis using r id unfolding results_ok_def by (auto simp: upd)
  qed
  moreover have "writes_ok (st\<lparr>xs_coordinator := co, xs_executions := xs_executions st @ [e]\<rparr>)"
    using ok fresh unfolding exec_ok_def writes_ok_def by (fastforce simp: upd)
  ultimately show ?thesis using reach by (simp add: exec_ok_def)
qed

text \<open>What a confirmation does, by the outcome of the coordinator's \<open>start\<close>.\<close>

definition confirmed :: "update_plan \<Rightarrow> exec_state \<Rightarrow> exec_state" where
  "confirmed p st = st\<lparr>xs_plans := update_first (\<lambda>q. up_id q = up_id p) (\<lambda>_. p\<lparr>up_status := Confirmed\<rparr>) (xs_plans st)\<rparr>"

lemma plan_confirm_iff:
  "plan_transition_to Confirmed p = Inr q \<longleftrightarrow> up_status p = Ready \<and> q = p\<lparr>up_status := Confirmed\<rparr>"
  by (cases "up_status p") (auto simp: plan_transition_to_def)

lemma confirm_plan_cases:
  obtains (refused) err where "confirm_plan env h up fp fresh now text hs st = (Inl err, st)"
      "\<And>p. get_plan env text st = Inr p \<Longrightarrow> up_status p \<noteq> Ready"
  | (rejected) p err where "get_plan env text st = Inr p" "up_status p = Ready"
      "start h fp fresh now (confirm_request env hs (p\<lparr>up_status := Confirmed\<rparr>)) (xs_coordinator st) =
        (Inl err, xs_coordinator st)"
      "confirm_plan env h up fp fresh now text hs st =
        (Inl (bad_request (lit ''execution_rejected'') (lit ''execution was rejected'')), confirmed p st)"
  | (created) p e co q st' where "get_plan env text st = Inr p" "up_status p = Ready"
      "start h fp fresh now (confirm_request env hs (p\<lparr>up_status := Confirmed\<rparr>)) (xs_coordinator st) =
        (Inr (Created e), co)"
      "with_db (save_execution (up CallSaveExecution) e)
        ((confirmed p st)\<lparr>xs_coordinator := co, xs_executions := xs_executions st @ [e]\<rparr>) = (q, st')"
      "confirm_plan env h up fp fresh now text hs st = (bindR q (\<lambda>_. Inr (202, e)), st')"
  | (duplicate) p i where "get_plan env text st = Inr p" "up_status p = Ready"
      "start h fp fresh now (confirm_request env hs (p\<lparr>up_status := Confirmed\<rparr>)) (xs_coordinator st) =
        (Inr (Duplicate i), xs_coordinator st)"
      "confirm_plan env h up fp fresh now text hs st =
        (map_err (\<lambda>_. not_found (lit ''execution not found''))
           (bindR (ok_or () (List.find (\<lambda>e. ex_id e = i) (xs_executions st))) (\<lambda>e. Inr (202, e))), confirmed p st)"
proof (cases "\<exists>p. get_plan env text st = Inr p \<and> up_status p = Ready")
  case False
  let ?b = "bindR (get_plan env text st) (\<lambda>p. map_err
      (\<lambda>_. bad_request (lit ''plan_not_ready'') (lit ''plan is not ready for confirmation''))
      (plan_transition_to Confirmed p))"
  have "\<nexists>q. ?b = Inr q" using False by (auto simp: bindR_Inr_iff plan_confirm_iff)
  then obtain err where "?b = Inl err" by (cases ?b) auto
  then show ?thesis using False by (intro refused) (auto simp: confirm_plan_def)
next
  case True
  then obtain p where p: "get_plan env text st = Inr p" "up_status p = Ready" by blast
  let ?p = "p\<lparr>up_status := Confirmed\<rparr>"
  have t: "plan_transition_to Confirmed p = Inr ?p" using p(2) by (simp add: plan_confirm_iff)
  have plans: "st\<lparr>xs_plans := update_first (\<lambda>q. up_id q = up_id ?p) (\<lambda>_. ?p) (xs_plans st)\<rparr> = confirmed p st"
    by (simp add: confirmed_def)
  have same: "(confirmed p st)\<lparr>xs_coordinator := xs_coordinator st\<rparr> = confirmed p st"
    by (simp add: confirmed_def)
  note body = confirm_plan_def [of env h up fp fresh now "text" hs st, unfolded p(1) bindR.simps t map_err.simps
      sum.case Let_def plans]
  show ?thesis
  proof (cases rule: start_cases [of h fp fresh now "confirm_request env hs ?p" "xs_coordinator st"])
    case (failed err)
    then show ?thesis using p same by (intro rejected [of p err]) (simp_all add: body)
  next
    case (duplicate i)
    then show ?thesis using p same by (intro that(4) [of p i]) (simp_all add: body)
  next
    case (created s3)
    obtain q st' where w: "with_db (save_execution (up CallSaveExecution) (execution_new fresh (up_id p)))
        ((confirmed p st)\<lparr>xs_coordinator := s3, xs_executions := xs_executions st @ [execution_new fresh (up_id p)]\<rparr>) = (q, st')"
      by fastforce
    have s: "start h fp fresh now (confirm_request env hs ?p) (xs_coordinator st) =
        (Inr (Created (execution_new fresh (up_id p))), s3)"
      using created(1) by (simp add: confirm_request_def)
    show ?thesis using p s w
      by (intro that(3) [of p "execution_new fresh (up_id p)" s3 q st']) (simp_all add: body split: sum.split)
  qed
qed

lemma confirm_keeps:
  assumes ok: "exec_ok env h st" and fresh: "co_find (xs_coordinator st) fresh = None"
  shows "exec_ok env h (snd (confirm_plan env h up fp fresh now text hs st))"
proof -
  have conf: "exec_ok env h (confirmed p st)" if "get_plan env text st = Inr p" "up_status p = Ready" for p
    unfolding confirmed_def
    by (rule exec_ok_confirmed [OF ok get_plan_InrD [OF that(1)]]) (use that in auto)
  show ?thesis
  proof (cases rule: confirm_plan_cases [of env h up fp fresh now "text" hs st])
    case (created p e co q st')
    let ?p = "p\<lparr>up_status := Confirmed\<rparr>"
    have mem: "p \<in> set (xs_plans st)" by (rule get_plan_InrD [OF created(1)])
    have d: "distinct (map up_id (xs_plans st))" using ok by (simp add: exec_ok_def plans_ok_def)
    have "?p \<in> set (xs_plans (confirmed p st))"
      using mem by (simp add: confirmed_def update_first_unique [OF d])
    moreover have "up_id r \<noteq> up_id ?p" if "co_plan (xs_coordinator (confirmed p st)) i = Some r" for i r
      using unconfirmed_not_started [OF ok mem] created(2) that by (auto simp: confirmed_def)
    ultimately have "exec_ok env h ((confirmed p st)\<lparr>xs_coordinator := co,
        xs_executions := xs_executions (confirmed p st) @ [e]\<rparr>)"
      using created(3) fresh
      by (intro exec_ok_started [OF conf [OF created(1,2)], where rq = "confirm_request env hs ?p" and fp = fp and fresh = fresh and now = now])
        (auto simp: confirm_request_def confirmed_def)
    then show ?thesis
      using with_db_frame [OF created(4)] created(5)
      by (elim exec_ok_cong) (auto simp: confirmed_def)
  qed (use ok conf in simp_all)
qed

section \<open>Properties\<close>

lemma exec_step_ok: "exec_step env h st st' \<Longrightarrow> exec_ok env h st \<Longrightarrow> exec_ok env h st'"
proof (induction rule: exec_step.induct)
  case (xs_agent st agents)
  then show ?case by (elim exec_ok_cong) simp_all
qed (simp_all add: create_keeps confirm_keeps abort_keeps begin_keeps finish_keeps reconcile_keeps store_keeps)

lemma exec_reachable_ok: "exec_reachable env h st \<Longrightarrow> exec_ok env h st"
  by (induction rule: exec_reachable.induct) (use exec_ok_initial exec_step_ok in blast)+

lemma with_db_plans: "xs_plans (snd (with_db f st)) = xs_plans st" "xs_coordinator (snd (with_db f st)) = xs_coordinator st"
  by (simp_all add: with_db_def split: option.split prod.split)

lemma handlers_keep_plans [simp]:
  "xs_plans (snd (abort_begin env now t st)) = xs_plans st"
  "xs_plans (snd (run_begin env now t st)) = xs_plans st"
  "xs_plans (snd (finish_begin now i answer st)) = xs_plans st"
  "xs_plans (snd (reconcile_begin env now t obs st)) = xs_plans st"
  by (auto simp: abort_begin_def run_begin_def finish_begin_def reconcile_begin_def Let_def
      split: sum.split prod.split)

lemma store_keeps_plans [simp]:
  "xs_plans (snd (store_execution up now w st)) = xs_plans st"
  "xs_coordinator (snd (store_execution up now w st)) = xs_coordinator st"
proof -
  have w: "with_db f s = (r, s') \<Longrightarrow> xs_plans s' = xs_plans s \<and> xs_coordinator s' = xs_coordinator s" for f s r s'
    using with_db_frame by blast
  show "xs_plans (snd (store_execution up now w st)) = xs_plans st"
    "xs_coordinator (snd (store_execution up now w st)) = xs_coordinator st"
    by (auto simp: store_execution_def Let_def split: sum.split prod.split store_write.split dest!: w)
qed

text \<open>What a step does to the plans of the store.\<close>

lemma step_plans:
  assumes "exec_step env h st st'"
  obtains (same) "xs_plans st' = xs_plans st"
  | (added) f now i where "xs_plans st' = xs_plans st @ [refresh_hash h (built_plan f now i)]"
      "input_acceptable i" "f \<notin> set (map up_id (xs_plans st))"
  | (confirmed) p where "p \<in> set (xs_plans st)" "up_status p = Ready"
      "xs_plans st' = update_first (\<lambda>q. up_id q = up_id p) (\<lambda>_. p\<lparr>up_status := Confirmed\<rparr>) (xs_plans st)"
  using assms
proof cases
  case (xs_create fresh up now t r)
  let ?b = "bindR (parse_container_id t) (\<lambda>c.
      map_err (\<lambda>_. bad_request (lit ''invalid_plan'') (lit ''plan input is not valid''))
        (build h fresh now \<lparr>pi_container_id = c, pi_requested_packages = cp_packages r,
           pi_dry_run_changes = cp_dry_run_changes r, pi_distribution_upgrade = cp_distribution_upgrade r\<rparr>))"
  show ?thesis
  proof (cases ?b)
    case (Inl e)
    then show ?thesis using xs_create by (intro same) (simp add: create_plan_def)
  next
    case (Inr p)
    then obtain i where i: "p = refresh_hash h (built_plan fresh now i)" "input_acceptable i"
      by (auto simp: bindR_Inr_iff build_Inr_iff)
    have "xs_plans st' = xs_plans st @ [p]"
      using xs_create(1) with_db_plans(1) [of "save_plan (up CallSavePlan) p" "st\<lparr>xs_plans := xs_plans st @ [p]\<rparr>"]
      unfolding create_plan_def Inr by (auto split: sum.splits prod.splits)
    then show ?thesis using i xs_create(2) by (intro added) auto
  qed
next
  case (xs_confirm fresh up fp now t hs)
  show ?thesis
  proof (cases rule: confirm_plan_cases [of env h up fp fresh now t hs st])
    case refused
    then show ?thesis using xs_confirm by (intro same) simp
  next
    case (rejected p err)
    then show ?thesis using xs_confirm get_plan_InrD [of env t st p]
      by (intro confirmed [of p]) (simp_all add: confirmed_def)
  next
    case (created p e co q st1)
    then show ?thesis using xs_confirm get_plan_InrD [of env t st p] with_db_frame [OF created(4)]
      by (intro confirmed [of p]) (simp_all add: confirmed_def)
  next
    case (duplicate p i)
    then show ?thesis using xs_confirm get_plan_InrD [of env t st p]
      by (intro confirmed [of p]) (simp_all add: confirmed_def)
  qed
qed (use same in simp_all)

lemma input_of_status [simp]: "planner_input_of (p\<lparr>up_status := s\<rparr>) = planner_input_of p"
  by (simp add: planner_input_of_def)

lemma in_update_first: "q \<in> set (update_first P (\<lambda>_. y) xs) \<Longrightarrow> q \<in> set xs \<or> q = y"
  by (induction xs) (auto split: if_splits)

lemma name_of_PackageName [simp]: "package_name_as_str (PackageName n) = n"
  "package_version_as_str (PackageVersion v) = v"
  by (simp_all add: package_name_as_str_def package_version_as_str_def)

text \<open>The plans of the store came from the planner, so their own content is acceptable to it.\<close>

lemma own_input_acceptable:
  assumes "input_acceptable i"
  shows "input_acceptable (planner_input_of (refresh_hash h (built_plan f now i)))"
  using assms
  by (auto simp: input_acceptable_def planner_input_of_def refresh_hash_def built_plan_def list_all_iff
      change_acceptable_def change_of_def option.map_comp comp_def option.map_ident)

lemma stored_plans_acceptable:
  assumes "exec_reachable env h st" "p \<in> set (xs_plans st)"
  shows "input_acceptable (planner_input_of p)"
  using assms
proof (induction arbitrary: p rule: exec_reachable.induct)
  case (xr_init db)
  then show ?case by (simp add: exec_state_initial_def)
next
  case (xr_step st st')
  from xr_step.hyps(2) show ?case
  proof (cases rule: step_plans)
    case same
    then show ?thesis using xr_step by simp
  next
    case (added f now i)
    then show ?thesis using xr_step own_input_acceptable by auto
  next
    case (confirmed q)
    then show ?thesis using xr_step.IH xr_step.prems in_update_first [of p] by fastforce
  qed
qed

end
