(* ===== verification/ExecutionSafety.thy ===== *)
theory ExecutionSafety
  imports ExecutionLaws
begin

text \<open>
  The theorems on plans, executions and agent commands of the server, with a small server as
  their example.
\<close>

section \<open>An example\<close>

definition exec_ids :: ansible_env where
  "exec_ids = \<lparr>ae_to_vec = (\<lambda>_. []), ae_sha256 = (\<lambda>_. []), ae_uuid_to_string = (\<lambda>_. lit ''key''),
     ae_uuid_parse = (\<lambda>s. if s = lit ''p'' then Some 1 else if s = lit ''x'' then Some 7 else None)\<rparr>"

definition plan_request_example :: create_plan_request where
  "plan_request_example = \<lparr>cp_packages = [lit ''openssl''], cp_dry_run_changes = [change_example],
     cp_distribution_upgrade = False\<rparr>"

definition lab_planned :: exec_state where
  "lab_planned = snd (create_plan hash_example (\<lambda>_. True) 1 0 (lit ''101'') plan_request_example
     ((exec_state_initial None)\<lparr>xs_agents := [101]\<rparr>))"

definition lab_confirmed :: exec_state where
  "lab_confirmed = snd (confirm_plan exec_ids hash_example (\<lambda>_. True) 2 7 5 (lit ''p'') [] lab_planned)"

definition lab_running :: exec_state where
  "lab_running = snd (run_begin exec_ids 6 (lit ''x'') lab_confirmed)"

definition lab_plan :: update_plan where
  "lab_plan = refresh_hash hash_example (built_plan 1 0 input_example)"

definition lab_started :: update_plan where
  "lab_started = lab_plan\<lparr>up_status := Confirmed\<rparr>"

lemma lab_parse: "parse_container_id (lit ''101'') = Inr 101"
  by code_simp

lemma lab_planned_eq:
  "lab_planned = (exec_state_initial None)\<lparr>xs_agents := [101], xs_plans := [lab_plan]\<rparr>"
proof -
  have "build hash_example 1 0 input_example = Inr lab_plan"
    by (simp add: build_Inr_iff lab_plan_def) code_simp
  then show ?thesis
    by (simp add: lab_planned_def create_plan_def lab_parse plan_request_example_def input_example_def
        with_db_def exec_state_initial_def)
qed

lemma lab_plan_fields [simp]:
  "up_id lab_plan = 1" "up_status lab_plan = Ready" "up_container_id lab_plan = 101"
  "up_id lab_started = 1" "up_container_id lab_started = 101"
  by code_simp+

lemma lab_reachable:
  "exec_reachable exec_ids hash_example lab_planned" "exec_reachable exec_ids hash_example lab_confirmed"
  "exec_reachable exec_ids hash_example lab_running"
proof -
  have 0: "exec_reachable exec_ids hash_example ((exec_state_initial None)\<lparr>xs_agents := [101]\<rparr>)"
    by (rule xr_step [OF xr_init xs_agent])
  show 1: "exec_reachable exec_ids hash_example lab_planned"
    unfolding lab_planned_def by (rule xr_step [OF 0 xs_create]) (simp add: exec_state_initial_def)
  show 2: "exec_reachable exec_ids hash_example lab_confirmed"
    unfolding lab_confirmed_def
    by (rule xr_step [OF 1 xs_confirm]) (simp add: lab_planned_eq exec_state_initial_def)
  show "exec_reachable exec_ids hash_example lab_running"
    unfolding lab_running_def by (rule xr_step [OF 2 xs_begin])
qed

lemma lab_start:
  "start hash_example 2 7 5 (confirm_request exec_ids [] lab_started) coordinator_default =
     (Inr (Created (execution_new 7 1)), snd (start hash_example 2 7 5 (confirm_request exec_ids [] lab_started) coordinator_default))"
proof -
  have "fst (start hash_example 2 7 5 (confirm_request exec_ids [] lab_started) coordinator_default) =
      Inr (Created (execution_new 7 1))" by code_simp
  then show ?thesis by (simp add: prod_eq_iff)
qed

lemma lab_get [simp]: "get_plan exec_ids (lit ''p'') lab_planned = Inr lab_plan"
  by (simp add: get_plan_def parse_uuid_def exec_ids_def lab_planned_eq)

lemma lab_confirmed_eq:
  "confirm_plan exec_ids hash_example up 2 7 5 (lit ''p'') [] lab_planned =
     (Inr (202, execution_new 7 1), lab_confirmed)"
  "xs_executions lab_confirmed = [execution_new 7 1]"
  "xs_coordinator lab_confirmed = snd (start hash_example 2 7 5 (confirm_request exec_ids [] lab_started) coordinator_default)"
  "xs_agents lab_confirmed = [101]" "xs_sent lab_confirmed = []"
proof -
  have t: "plan_transition_to Confirmed lab_plan = Inr lab_started"
    by (simp add: plan_confirm_iff lab_started_def)
  have c: "xs_coordinator lab_planned = coordinator_default" "xs_db lab_planned = None"
    by (simp_all add: lab_planned_eq exec_state_initial_def)
  obtain co where co: "start hash_example 2 7 5 (confirm_request exec_ids [] lab_started) coordinator_default =
     (Inr (Created (execution_new 7 1)), co)" using lab_start by blast
  have full: "confirm_plan exec_ids hash_example u 2 7 5 (lit ''p'') [] lab_planned =
     (Inr (202, execution_new 7 1), lab_planned\<lparr>xs_plans := [lab_started], xs_coordinator := co,
        xs_executions := [execution_new 7 1]\<rparr>)" for u
    by (simp add: confirm_plan_def t c co with_db_def) (simp add: lab_planned_eq exec_state_initial_def)
  show "confirm_plan exec_ids hash_example up 2 7 5 (lit ''p'') [] lab_planned =
     (Inr (202, execution_new 7 1), lab_confirmed)"
    by (simp add: lab_confirmed_def full)
  show "xs_executions lab_confirmed = [execution_new 7 1]"
    "xs_coordinator lab_confirmed = snd (start hash_example 2 7 5 (confirm_request exec_ids [] lab_started) coordinator_default)"
    "xs_agents lab_confirmed = [101]" "xs_sent lab_confirmed = []"
    unfolding lab_confirmed_def full co by (simp_all add: lab_planned_eq exec_state_initial_def)
qed

lemma lab_running_eq:
  "run_begin exec_ids 6 (lit ''x'') lab_confirmed = (Inr (7, command_of exec_ids 7 lab_started), lab_running)"
  "xs_sent lab_running = [(7, command_of exec_ids 7 lab_started)]" "xs_waiting lab_running = [7]"
  "map_option ex_status (co_find (xs_coordinator lab_running) 7) = Some Running"
proof -
  have p: "co_plan (xs_coordinator lab_confirmed) 7 = Some lab_started"
    unfolding lab_confirmed_eq(3) by code_simp
  have b: "begin_execution 6 7 (xs_coordinator lab_confirmed) =
      (Inr lab_started, snd (begin_execution 6 7 (xs_coordinator lab_confirmed)))"
  proof -
    have "fst (begin_execution 6 7 (xs_coordinator lab_confirmed)) = Inr lab_started"
      unfolding lab_confirmed_eq(3) by code_simp
    then show ?thesis by (simp add: prod_eq_iff)
  qed
  obtain co where co: "begin_execution 6 7 (xs_coordinator lab_confirmed) = (Inr lab_started, co)" using b by blast
  have x: "parse_uuid exec_ids (lit ''x'') (lit ''execution id'') = Inr 7"
    by (simp add: parse_uuid_def exec_ids_def lit_eq_iff)
  have full: "run_begin exec_ids 6 (lit ''x'') lab_confirmed = (Inr (7, command_of exec_ids 7 lab_started),
      lab_confirmed\<lparr>xs_coordinator := co, xs_sent := [(7, command_of exec_ids 7 lab_started)],
        xs_waiting := xs_waiting lab_confirmed @ [7]\<rparr>)"
    by (simp add: run_begin_def x p lab_confirmed_eq(4,5) co)
  have w: "xs_waiting lab_confirmed = []"
    by (simp add: lab_confirmed_def confirm_plan_def plan_confirm_iff) code_simp
  show "run_begin exec_ids 6 (lit ''x'') lab_confirmed = (Inr (7, command_of exec_ids 7 lab_started), lab_running)"
    by (simp add: lab_running_def full)
  show "xs_sent lab_running = [(7, command_of exec_ids 7 lab_started)]" "xs_waiting lab_running = [7]"
    by (simp_all add: lab_running_def full w)
  have "map_option ex_status (co_find (snd (begin_execution 6 7 (xs_coordinator lab_confirmed))) 7) = Some Running"
    unfolding lab_confirmed_eq(3) by code_simp
  then show "map_option ex_status (co_find (xs_coordinator lab_running) 7) = Some Running"
    by (simp add: lab_running_def full co)
qed

section \<open>Commands of the agents\<close>

text \<open>
  C8. For every interleaving of requests, an execution sends at most one command to an agent, and
  the command asks for exactly the requested packages of a stored, confirmed plan. An execution
  that is running, succeeded or failed has sent its command; one that is queued has not.
\<close>

theorem agent_commanded_once:
  assumes "exec_reachable env h st"
  shows "distinct (map fst (xs_sent st))
    \<and> list_all (\<lambda>(i, c). \<exists>p. co_plan (xs_coordinator st) i = Some p \<and> p \<in> set (xs_plans st)
        \<and> up_status p = Confirmed \<and> c = command_of env i p) (xs_sent st)
    \<and> (co_find (xs_coordinator st) i = Some e \<longrightarrow>
        (ex_status e \<in> {Running, Succeeded, ExFailed} \<longrightarrow> i \<in> set (map fst (xs_sent st)))
        \<and> (ex_status e = Queued \<longrightarrow> i \<notin> set (map fst (xs_sent st))))"
proof -
  have ok: "exec_ok env h st" by (rule exec_reachable_ok [OF assms])
  then have co: "coordinator_ok (xs_coordinator st)" and c: "commands_ok env st" and p: "plans_ok st"
    using coord_reachable_ok by (auto simp: exec_ok_def)
  have "\<exists>p. co_plan (xs_coordinator st) i = Some p \<and> p \<in> set (xs_plans st)
        \<and> up_status p = Confirmed \<and> k = command_of env i p" if ik: "(i, k) \<in> set (xs_sent st)" for i k
  proof -
    obtain q where q: "co_plan (xs_coordinator st) i = Some q" "k = command_of env i q"
      using c ik unfolding commands_ok_def by blast
    then show ?thesis using started_plan_confirmed(1) [OF co q(1)] p by (auto simp: plans_ok_def)
  qed
  moreover have "i \<notin> fst ` set (xs_sent st)" if "co_find (xs_coordinator st) i = Some e" "ex_status e = Queued"
    using c that unfolding commands_ok_def by fastforce
  moreover have "i \<in> fst ` set (xs_sent st)"
    if "co_find (xs_coordinator st) i = Some e" "ex_status e \<in> {Running, Succeeded, ExFailed}"
  proof -
    have "ex_status e \<notin> {Queued, Aborted}" using that(2) by auto
    then show ?thesis using c that(1) unfolding commands_ok_def by blast
  qed
  ultimately show ?thesis using c by (auto simp: commands_ok_def list_all_iff)
qed

theorem agent_commanded_once_witness:
  "distinct (map fst (xs_sent lab_running)) \<and> cq_packages (snd (hd (xs_sent lab_running))) = [lit ''openssl'']
   \<and> fst (run_begin exec_ids 7 (lit ''x'') lab_running) =
       Inl (bad_request (lit ''execution_not_runnable'') (lit ''execution cannot be started''))"
proof (intro conjI)
  show "distinct (map fst (xs_sent lab_running))"
    using agent_commanded_once [OF lab_reachable(3)] by blast
  have "cq_packages (command_of exec_ids 7 lab_started) = [lit ''openssl'']" by code_simp
  then show "cq_packages (snd (hd (xs_sent lab_running))) = [lit ''openssl'']"
    by (simp add: lab_running_eq(2))
  have s: "exec_ok exec_ids hash_example lab_running" by (rule exec_reachable_ok [OF lab_reachable(3)])
  obtain e where e: "co_find (xs_coordinator lab_running) 7 = Some e" "ex_status e = Running"
    using lab_running_eq(4) by auto
  obtain p where p: "co_plan (xs_coordinator lab_running) 7 = Some p" "command_of exec_ids 7 lab_started = command_of exec_ids 7 p"
    using s unfolding exec_ok_def commands_ok_def lab_running_eq(2) by auto
  have "up_container_id p = 101"
  proof -
    have "p \<in> set (xs_plans lab_running)" using s p(1) by (auto simp: exec_ok_def plans_ok_def)
    moreover have "xs_plans lab_running = [lab_started]"
      by (simp add: lab_running_def lab_confirmed_def confirm_plan_def plan_confirm_iff) code_simp
    ultimately show ?thesis by simp
  qed
  moreover have "xs_agents lab_running = [101]"
    using lab_confirmed_eq(4) by (simp add: lab_running_def run_begin_def split: sum.split prod.split)
  moreover have "begin_execution 7 7 (xs_coordinator lab_running) = (Inl InvalidState, xs_coordinator lab_running)"
    using e p(1) by (simp add: begin_execution_def transition_execution_def execution_transition_to_def co_find_def)
  ultimately show "fst (run_begin exec_ids 7 (lit ''x'') lab_running) =
       Inl (bad_request (lit ''execution_not_runnable'') (lit ''execution cannot be started''))"
    using p(1) by (simp add: run_begin_def parse_uuid_def exec_ids_def lit_eq_iff)
qed

section \<open>The server refines the coordinator\<close>

lemma handler_steps:
  "exec_step env h st st' \<Longrightarrow> (coord_step h)\<^sup>*\<^sup>* (xs_coordinator st) (xs_coordinator st')"
proof (induction rule: exec_step.induct)
  case (xs_create fresh st up now t r)
  then show ?case using with_db_plans(2)
    by (auto simp: create_plan_def split: sum.split prod.split) (metis exec_state.select_convs(4) exec_state.update_convs(1) exec_state.surjective rtranclp.rtrancl_refl snd_conv)+
next
  case (xs_confirm st fresh up fp now t hs)
  note step = r_into_rtranclp [of "coord_step h", OF cs_start [OF xs_confirm]]
  show ?case
  proof (cases rule: confirm_plan_cases [of env h up fp fresh now t hs st])
    case (created p e co q st1)
    then have "xs_coordinator st1 = co" using with_db_frame [OF created(4)] by (simp add: confirmed_def)
    then show ?thesis using created(3,5) step [of fp now "confirm_request env hs (p\<lparr>up_status := Confirmed\<rparr>)"] by simp
  qed (simp_all add: confirmed_def)
next
  case (xs_abort st now t)
  show ?case
    using r_into_rtranclp [of "coord_step h", OF cs_abort [of h "xs_coordinator st" now]]
    by (auto simp: abort_begin_def split: sum.split prod.split) (metis snd_conv)+
next
  case (xs_begin st now t)
  show ?case
    using r_into_rtranclp [of "coord_step h", OF cs_begin [of h "xs_coordinator st" now]]
    by (auto simp: run_begin_def split: sum.split prod.split) (metis snd_conv)+
next
  case (xs_finish i st now answer)
  obtain r co where f: "finish now i (result_of_answer answer) (xs_coordinator st) = (r, co)" by fastforce
  have "(coord_step h)\<^sup>*\<^sup>* (xs_coordinator st) co"
    using r_into_rtranclp [of "coord_step h", OF cs_finish [of h "xs_coordinator st" now i "result_of_answer answer"]]
    by (simp add: f)
  moreover have "xs_coordinator (snd (finish_begin now i answer st)) = co"
    using f by (cases r) (simp_all add: finish_begin_def Let_def)
  ultimately show ?case by simp
next
  case (xs_reconcile st now t obs)
  show ?case
    using r_into_rtranclp [of "coord_step h", OF cs_reconcile [of h "xs_coordinator st" now]]
    by (auto simp: reconcile_begin_def split: sum.split prod.split) (metis snd_conv)+
qed simp_all

text \<open>
  C9. The handlers refine the coordinator: each of their steps is a sequence of coordinator calls,
  so its invariants and its history hold for the server, also when the steps of several handlers
  interleave. What the server shows follows the coordinator with a delay: it shows the same executions,
  each with its current record or with one that was not final and from which the current status was
  reached; a final status that is shown is the record of the coordinator. A stored result belongs to an
  execution that succeeded exactly when the exit code is 0.
\<close>

theorem server_refines_coordinator:
  assumes "exec_reachable env h st" "exec_step env h st st'"
  shows "(coord_step h)\<^sup>*\<^sup>* (xs_coordinator st) (xs_coordinator st')
    \<and> coord_reachable h (xs_coordinator st')
    \<and> map_option ex_id (co_find (xs_coordinator st') i) =
        map_option ex_id (List.find (\<lambda>x. ex_id x = i) (xs_executions st'))
    \<and> (List.find (\<lambda>x. ex_id x = i) (xs_executions st') = Some x \<longrightarrow>
        (\<exists>e. co_find (xs_coordinator st') i = Some e
           \<and> (x = e \<or> \<not> execution_terminal (ex_status x)
                \<and> execution_can_transition_to\<^sup>*\<^sup>* (ex_status x) (ex_status e))))
    \<and> (hm_get (xs_results st') i = Some r \<longrightarrow> (\<exists>e. co_find (xs_coordinator st') i = Some e
        \<and> ex_status e = (if er_exit_code r = 0 then Succeeded else ExFailed)))"
proof -
  have ok: "exec_ok env h st'" by (rule exec_reachable_ok [OF xr_step [OF assms]])
  have m: "mirror_ok st'" using ok by (simp add: exec_ok_def)
  have found: "\<exists>e. co_find (xs_coordinator st') i = Some e \<and> shown y e"
    if "List.find (\<lambda>x. ex_id x = i) (xs_executions st') = Some y" for y
  proof -
    have y: "y \<in> set (xs_executions st')" "ex_id y = i" using that by (auto simp: find_Some_iff)
    have "i \<in> ex_id ` set (xs_executions st')" using y by blast
    then obtain e where e: "co_find (xs_coordinator st') i = Some e" using m unfolding mirror_ok_def by blast
    then have "shown y e" using m y unfolding mirror_ok_def by blast
    then show ?thesis using e by blast
  qed
  have none: "co_find (xs_coordinator st') i = None"
    if "List.find (\<lambda>x. ex_id x = i) (xs_executions st') = None"
  proof -
    have "i \<notin> ex_id ` set (xs_executions st')" using that by (auto simp: find_None_iff)
    then show ?thesis using m unfolding mirror_ok_def by blast
  qed
  have "map_option ex_id (co_find (xs_coordinator st') i) =
        map_option ex_id (List.find (\<lambda>x. ex_id x = i) (xs_executions st'))"
    using found none by (cases "List.find (\<lambda>x. ex_id x = i) (xs_executions st')") (auto simp: shown_def)
  then show ?thesis
    using handler_steps [OF assms(2)] ok found by (auto simp: exec_ok_def results_ok_def shown_def)
qed

theorem server_refines_coordinator_witness:
  "coord_reachable hash_example (xs_coordinator lab_running)
   \<and> get_execution exec_ids (lit ''x'') lab_running = Inr (execution_new 7 1)
   \<and> map_option ex_status (co_find (xs_coordinator lab_running) 7) = Some Running"
proof -
  have step: "exec_step exec_ids hash_example lab_confirmed lab_running"
    unfolding lab_running_def by (rule xs_begin)
  have "xs_executions lab_running = [execution_new 7 1]"
    using lab_confirmed_eq(2) by (simp add: lab_running_def run_begin_def split: sum.split prod.split)
  then have "get_execution exec_ids (lit ''x'') lab_running = Inr (execution_new 7 1)"
    by (simp add: get_execution_def parse_uuid_def exec_ids_def lit_eq_iff execution_new_def)
  then show ?thesis
    using server_refines_coordinator [OF lab_reachable(2) step] lab_running_eq(4) by blast
qed

section \<open>Confirming a plan\<close>

lemma own_content:
  assumes "input_acceptable (planner_input_of p)"
  shows "has_same_content_as h p (built_plan f now (planner_input_of p))"
proof -
  have n: "PackageName (package_name_as_str x) = x" for x by (cases x) simp
  have v: "map_option PackageVersion (map_option package_version_as_str x) = x" for x
  proof (cases x)
    case (Some y)
    then show ?thesis by (cases y) simp
  qed simp
  have "map change_of (pi_dry_run_changes (planner_input_of p)) = up_resolved_changes p"
    by (auto simp: planner_input_of_def change_of_def n v comp_def intro!: map_idI)
  moreover have "map PackageName (pi_requested_packages (planner_input_of p)) = up_requested_packages p"
    by (auto simp: planner_input_of_def n comp_def intro!: map_idI)
  ultimately show ?thesis
    by (intro same_content_same_hash)
      (simp add: same_plan_content_def built_plan_def planner_input_of_def)
qed

lemma start_created:
  assumes "trim (rq_actor rq) \<noteq> []" "trim (rq_idempotency_key rq) \<noteq> []"
    "hm_get (co_idempotency s) (rq_idempotency_key rq) = None" "up_status (rq_plan rq) = Confirmed"
    "input_acceptable (rq_current_plan_input rq)"
    "has_same_content_as h (rq_plan rq) (built_plan f t (rq_current_plan_input rq))"
  shows "\<exists>s'. start h f fresh t rq s = (Inr (Created (execution_new fresh (up_id (rq_plan rq)))), s')"
proof -
  have "build h f t (rq_current_plan_input rq) = Inr (refresh_hash h (built_plan f t (rq_current_plan_input rq)))"
    using assms(5) by (simp add: build_Inr_iff)
  then have "revalidate h f t (rq_plan rq) (rq_current_plan_input rq) = Inr (Unchanged, rq_plan rq)"
    using assms(6) by (simp add: revalidate_def has_same_content_refresh)
  then show ?thesis using assms(1-4) by (simp add: start_def Let_def execution_new_def)
qed

text \<open>
  C11. Confirming a ready plan never notices a change of the system: the handler revalidates the
  plan against an input made from the plan itself, so with an actor and a new key an execution of
  the plan is always queued. With a key that was used before no execution is created, although
  the plan is now confirmed, whichever plan the key belonged to.
\<close>

theorem confirmation_never_detects_change:
  assumes r: "exec_reachable env h st" and p: "get_plan env t st = Inr p" "up_status p = Ready"
    and rq: "rq = confirm_request env hs (p\<lparr>up_status := Confirmed\<rparr>)"
    and ids: "trim (rq_actor rq) \<noteq> []" "trim (rq_idempotency_key rq) \<noteq> []"
  shows "let st' = snd (confirm_plan env h up fp fresh now t hs st) in
    p\<lparr>up_status := Confirmed\<rparr> \<in> set (xs_plans st')
    \<and> (if hm_get (co_idempotency (xs_coordinator st)) (rq_idempotency_key rq) = None
       then co_find (xs_coordinator st') fresh = Some (execution_new fresh (up_id p))
         \<and> xs_executions st' = xs_executions st @ [execution_new fresh (up_id p)]
       else xs_coordinator st' = xs_coordinator st \<and> xs_executions st' = xs_executions st)"
proof -
  let ?p = "p\<lparr>up_status := Confirmed\<rparr>"
  have mem: "p \<in> set (xs_plans st)" by (rule get_plan_InrD [OF p(1)])
  have acc: "input_acceptable (planner_input_of ?p)"
    using stored_plans_acceptable [OF r mem] by simp
  have d: "distinct (map up_id (xs_plans st))"
    using exec_reachable_ok [OF r] by (simp add: exec_ok_def plans_ok_def)
  have conf: "?p \<in> set (xs_plans (confirmed p st))"
    using mem by (simp add: confirmed_def update_first_unique [OF d])
  have rqf: "rq_plan rq = ?p" "rq_current_plan_input rq = planner_input_of ?p" by (simp_all add: rq confirm_request_def)
  show ?thesis
  proof (cases "hm_get (co_idempotency (xs_coordinator st)) (rq_idempotency_key rq)")
    case None
    obtain co where s: "start h fp fresh now rq (xs_coordinator st) = (Inr (Created (execution_new fresh (up_id p))), co)"
      using start_created [of rq "xs_coordinator st" h fp now fresh] ids None rqf acc own_content [OF acc, of h fp now]
      by auto
    then have co: "co_find co fresh = Some (execution_new fresh (up_id p))"
      by (cases rule: start_cases [of h fp fresh now rq "xs_coordinator st"]) (auto simp: co_find_def)
    show ?thesis
    proof (cases rule: confirm_plan_cases [of env h up fp fresh now t hs st])
      case (created q e co' x st')
      then show ?thesis using p s None co conf with_db_frame [OF created(4)] by (auto simp: rq confirmed_def)
    qed (use p s rq in auto)
  next
    case (Some i)
    then have s: "start h fp fresh now rq (xs_coordinator st) = (Inr (Duplicate i), xs_coordinator st)"
      using ids by (simp add: start_def)
    show ?thesis
    proof (cases rule: confirm_plan_cases [of env h up fp fresh now t hs st])
      case (duplicate q j)
      then show ?thesis using p s Some conf by (auto simp: rq confirmed_def)
    qed (use p s rq in auto)
  qed
qed

theorem confirmation_never_detects_change_witness:
  "co_find (xs_coordinator (snd (confirm_plan exec_ids hash_example (\<lambda>_. True) 2 7 5 (lit ''p'') [] lab_planned))) 7
     = Some (execution_new 7 1)"
proof -
  let ?rq = "confirm_request exec_ids [] (lab_plan\<lparr>up_status := Confirmed\<rparr>)"
  have "trim (rq_actor ?rq) \<noteq> []" "trim (rq_idempotency_key ?rq) \<noteq> []" by code_simp+
  from confirmation_never_detects_change [OF lab_reachable(1) lab_get lab_plan_fields(2) refl this,
      where up = "\<lambda>_. True" and fp = 2 and fresh = 7 and now = 5]
  show ?thesis by (simp add: lab_planned_eq exec_state_initial_def coordinator_default_def Let_def)
qed

text \<open>A confirmed plan of the store without an execution.\<close>

definition stranded :: "update_plan \<Rightarrow> exec_state \<Rightarrow> bool" where
  "stranded p st \<longleftrightarrow> p \<in> set (xs_plans st) \<and> up_status p = Confirmed
     \<and> (\<forall>i q. co_plan (xs_coordinator st) i = Some q \<longrightarrow> up_id q \<noteq> up_id p)"

lemma coordinator_plans:
  "co_plan (snd (start h fp fresh now rq s)) i = Some q \<Longrightarrow> co_plan s i = Some q \<or> q = rq_plan rq"
  by (cases rule: start_cases [of h fp fresh now rq s]) (auto simp: co_plan_def split: if_splits)

lemma status_step_plans: "status_step s s' \<Longrightarrow> co_plan s' = co_plan s"
  by (induction rule: status_step.induct)
    (auto simp: transition_execution_Inr_iff co_plan_def fun_eq_iff)

lemma status_steps_plans: "status_step\<^sup>*\<^sup>* s s' \<Longrightarrow> co_plan s' = co_plan s"
  by (induction rule: rtranclp_induct) (auto dest: status_step_plans)

lemma stranded_step:
  assumes ok: "exec_ok env h st" and step: "exec_step env h st st'" and s: "stranded p st"
  shows "stranded p st'"
proof -
  have d: "distinct (map up_id (xs_plans st))" using ok by (simp add: exec_ok_def plans_ok_def)
  have keeps: "p \<in> set (xs_plans st')"
    using step
  proof (cases rule: step_plans)
    case (confirmed q)
    have "up_id p \<noteq> up_id q"
    proof
      assume "up_id p = up_id q"
      then have "p = q" using d s confirmed(1) by (metis distinct_map inj_onD stranded_def)
      then show False using s confirmed(2) by (simp add: stranded_def)
    qed
    then show ?thesis using s confirmed(3) by (auto simp: stranded_def update_first_unique [OF d])
  qed (use s in \<open>auto simp: stranded_def\<close>)
  have "up_id q \<noteq> up_id p" if q: "co_plan (xs_coordinator st') i = Some q" for i q
    using step
  proof cases
    case (xs_confirm fresh up fp now t hs)
    show ?thesis
    proof (cases rule: confirm_plan_cases [of env h up fp fresh now t hs st])
      case (created r e co x st1)
      have mem: "r \<in> set (xs_plans st)" by (rule get_plan_InrD [OF created(1)])
      have "up_id r \<noteq> up_id p"
      proof
        assume "up_id r = up_id p"
        then have "r = p" using d s mem by (metis distinct_map inj_onD stranded_def)
        then show False using s created(2) by (simp add: stranded_def)
      qed
      moreover have "xs_coordinator st' = co"
        using xs_confirm(1) created(5) with_db_frame [OF created(4)] by simp
      moreover have "co_plan co i = Some q \<Longrightarrow> co_plan (xs_coordinator st) i = Some q \<or> q = r\<lparr>up_status := Confirmed\<rparr>"
        using coordinator_plans [of h fp fresh now "confirm_request env hs (r\<lparr>up_status := Confirmed\<rparr>)" "xs_coordinator st" i q]
        unfolding created(3) by (simp add: confirm_request_def)
      ultimately show ?thesis using q s by (auto simp: stranded_def)
    qed (use q s xs_confirm in \<open>auto simp: stranded_def confirmed_def\<close>)
  next
    case (xs_create fresh up now t r)
    have "xs_coordinator st' = xs_coordinator st"
      using xs_create(1) with_db_frame by (auto simp: create_plan_def split: sum.splits prod.splits)
    then show ?thesis using q s by (auto simp: stranded_def)
  next
    case (xs_finish i now answer)
    obtain r co where f: "finish now i (result_of_answer answer) (xs_coordinator st) = (r, co)" by fastforce
    have "xs_coordinator st' = co"
      using f xs_finish(1) by (cases r) (simp_all add: finish_begin_def Let_def)
    then show ?thesis using q s status_steps_plans [OF finish_steps [of "xs_coordinator st" now i "result_of_answer answer"]] f
      by (auto simp: stranded_def)
  next
    case (xs_abort now t)
    then show ?thesis using q s status_steps_plans [OF abort_steps [of "xs_coordinator st" now]]
      by (auto simp: abort_begin_def stranded_def split: sum.splits prod.splits) (metis snd_conv)+
  next
    case (xs_begin now t)
    then show ?thesis using q s status_steps_plans [OF begin_steps [of "xs_coordinator st" now]]
      by (auto simp: run_begin_def stranded_def split: sum.splits prod.splits) (metis snd_conv)+
  next
    case (xs_reconcile now t obs)
    then show ?thesis using q s status_steps_plans [OF reconcile_steps [of "xs_coordinator st" now]]
      by (auto simp: reconcile_begin_def stranded_def split: sum.splits prod.splits) (metis snd_conv)+
  next
    case (xs_store w up now)
    then show ?thesis using q s by (auto simp: stranded_def)
  next
    case (xs_agent agents)
    then show ?thesis using q s by (auto simp: stranded_def)
  qed
  then show ?thesis using keeps s by (simp add: stranded_def)
qed

lemma stranded_steps:
  "(exec_step env h)\<^sup>*\<^sup>* st st' \<Longrightarrow> exec_reachable env h st \<Longrightarrow> stranded p st \<Longrightarrow>
     exec_reachable env h st' \<and> stranded p st'"
proof (induction rule: rtranclp_induct)
  case (step y z)
  then show ?case using stranded_step [OF exec_reachable_ok [of env h y]] xr_step [of env h y z] by blast
qed simp

text \<open>
  C34. A confirmation that does not start an execution loses the plan: the plan was marked as
  confirmed before the coordinator was asked (a blank actor or key is refused, a used key is
  answered with its old execution). From then on every confirmation of the plan is refused, and
  no execution of it ever exists.
\<close>

theorem rejected_plan_is_lost:
  assumes r: "exec_reachable env h st" and f: "co_find (xs_coordinator st) fresh = None"
    and p: "get_plan env t st = Inr p" "up_status p = Ready"
    and c: "snd (confirm_plan env h up fp fresh now t hs st) = st1" "xs_coordinator st1 = xs_coordinator st"
    and s: "(exec_step env h)\<^sup>*\<^sup>* st1 st2"
  shows "fst (confirm_plan env h up' fp' fresh' now' t hs' st2) =
        Inl (bad_request (lit ''plan_not_ready'') (lit ''plan is not ready for confirmation''))
    \<and> (co_find (xs_coordinator st2) i = Some e \<longrightarrow> ex_plan_id e \<noteq> up_id p)"
proof -
  let ?p = "p\<lparr>up_status := Confirmed\<rparr>"
  have ok: "exec_ok env h st" by (rule exec_reachable_ok [OF r])
  have mem: "p \<in> set (xs_plans st)" by (rule get_plan_InrD [OF p(1)])
  have d: "distinct (map up_id (xs_plans st))" using ok by (simp add: exec_ok_def plans_ok_def)
  have conf: "?p \<in> set (xs_plans (confirmed p st))"
    using mem by (simp add: confirmed_def update_first_unique [OF d])
  have "?p \<in> set (xs_plans st1)"
  proof (cases rule: confirm_plan_cases [of env h up fp fresh now t hs st])
    case (created q e' co x st')
    then show ?thesis using c conf p with_db_frame [OF created(4)] by (simp add: confirmed_def)
  qed (use c conf p in auto)
  moreover have "up_id q \<noteq> up_id p" if "co_plan (xs_coordinator st1) j = Some q" for j q
    using unconfirmed_not_started [OF ok mem] p(2) that c(2) by auto
  ultimately have str: "stranded ?p st1" by (simp add: stranded_def)
  have r1: "exec_reachable env h st1" using xr_step [OF r xs_confirm [OF f, of env h up fp now t hs]] c(1) by simp
  have 2: "exec_reachable env h st2" "stranded ?p st2" using stranded_steps [OF s r1 str] by auto
  have ok2: "exec_ok env h st2" by (rule exec_reachable_ok [OF 2(1)])
  have d2: "distinct (map up_id (xs_plans st2))" using ok2 by (simp add: exec_ok_def plans_ok_def)
  have uid: "parse_uuid env t (lit ''plan id'') = Inr (up_id p)"
    using p(1) by (auto simp: get_plan_def bindR_Inr_iff find_Some_iff)
  have "List.find (\<lambda>q. up_id q = up_id p) (xs_plans st2) = Some ?p"
  proof -
    obtain q where q: "List.find (\<lambda>q. up_id q = up_id p) (xs_plans st2) = Some q"
      using 2(2) unfolding stranded_def by (cases "List.find (\<lambda>q. up_id q = up_id p) (xs_plans st2)") (auto simp: find_None_iff)
    then have "q \<in> set (xs_plans st2)" "up_id q = up_id ?p" by (auto simp: find_Some_iff)
    then have "q = ?p" using d2 2(2) unfolding stranded_def by (metis distinct_map inj_onD)
    then show ?thesis using q by simp
  qed
  then have "get_plan env t st2 = Inr ?p" using uid by (simp add: get_plan_def)
  moreover have "plan_transition_to Confirmed ?p = Inl (InvalidStateTransition (lit ''plan status''))
      \<or> (\<exists>x. plan_transition_to Confirmed ?p = Inl x)"
    by (auto simp: plan_transition_to_def)
  ultimately have "fst (confirm_plan env h up' fp' fresh' now' t hs' st2) =
      Inl (bad_request (lit ''plan_not_ready'') (lit ''plan is not ready for confirmation''))"
    by (auto simp: confirm_plan_def)
  moreover have "ex_plan_id e \<noteq> up_id p" if e: "co_find (xs_coordinator st2) i = Some e"
  proof -
    have co: "coordinator_ok (xs_coordinator st2)" using ok2 coord_reachable_ok by (auto simp: exec_ok_def)
    obtain q where "co_plan (xs_coordinator st2) i = Some q" "up_id q = ex_plan_id e"
      using co e unfolding coordinator_ok_def by (elim conjE allE [of _ i] allE [of _ e]) auto
    then show ?thesis using 2(2) by (auto simp: stranded_def)
  qed
  ultimately show ?thesis by blast
qed

theorem rejected_plan_is_lost_witness:
  "fst (confirm_plan exec_ids hash_example (\<lambda>_. True) 2 7 5 (lit ''p'') [(lit ''x-actor'', lit '' '')] lab_planned) =
     Inl (bad_request (lit ''execution_rejected'') (lit ''execution was rejected''))
   \<and> fst (confirm_plan exec_ids hash_example (\<lambda>_. True) 3 8 6 (lit ''p'') []
       (snd (confirm_plan exec_ids hash_example (\<lambda>_. True) 2 7 5 (lit ''p'') [(lit ''x-actor'', lit '' '')] lab_planned))) =
     Inl (bad_request (lit ''plan_not_ready'') (lit ''plan is not ready for confirmation''))"
proof
  let ?hs = "[(lit ''x-actor'', lit '' '')]"
  have "trim (rq_actor (confirm_request exec_ids ?hs lab_started)) = []" by code_simp
  then have s: "start hash_example 2 7 5 (confirm_request exec_ids ?hs lab_started) (xs_coordinator lab_planned) =
      (Inl MissingRequestIdentity, xs_coordinator lab_planned)" by (simp add: start_def)
  have t: "plan_transition_to Confirmed lab_plan = Inr lab_started"
    by (simp add: plan_confirm_iff lab_started_def)
  show "fst (confirm_plan exec_ids hash_example (\<lambda>_. True) 2 7 5 (lit ''p'') ?hs lab_planned) =
     Inl (bad_request (lit ''execution_rejected'') (lit ''execution was rejected''))"
    by (simp add: confirm_plan_def t s)
  have co: "xs_coordinator (snd (confirm_plan exec_ids hash_example (\<lambda>_. True) 2 7 5 (lit ''p'') ?hs lab_planned)) =
      xs_coordinator lab_planned"
    by (simp add: confirm_plan_def t s)
  have free: "co_find (xs_coordinator lab_planned) 7 = None" by (simp add: lab_planned_eq exec_state_initial_def)
  show "fst (confirm_plan exec_ids hash_example (\<lambda>_. True) 3 8 6 (lit ''p'') []
       (snd (confirm_plan exec_ids hash_example (\<lambda>_. True) 2 7 5 (lit ''p'') ?hs lab_planned))) =
     Inl (bad_request (lit ''plan_not_ready'') (lit ''plan is not ready for confirmation''))"
    using rejected_plan_is_lost [OF lab_reachable(1) free lab_get lab_plan_fields(2) refl co rtranclp.rtrancl_refl] by blast
qed

section \<open>An agent that does not answer\<close>

lemma store_finished:
  "xs_results (snd (store_execution up now (WriteFinished i e r) st)) =
     hm_insert i (execution_result_dto r) (xs_results st)"
proof -
  have w: "with_db f s = (q, s') \<Longrightarrow> xs_results s' = xs_results s" for f s q s' using with_db_frame by blast
  show ?thesis by (auto simp: store_execution_def Let_def split: sum.split prod.split dest!: w)
qed


text \<open>
  When the command fails without an answer of the agent, the execution is recorded as failed
  with exit code 1, although the agent may have applied the update. The coordinator's status for
  this case, unknown, is never used: no reachable state has it, and a reconciliation, whatever it
  observed, changes nothing any more.
\<close>

theorem lost_answer_is_failure:
  assumes r: "exec_reachable env h st" and w: "i \<in> set (xs_waiting st)"
    and c: "co_find (xs_coordinator st) i = Some e" "ex_status e = Running"
  shows "let st' = snd (run_finish up now i (Inl message) st) in
    (\<exists>e'. co_find (xs_coordinator st') i = Some e' \<and> ex_status e' = ExFailed
       \<and> (ae_uuid_parse env t = Some i \<longrightarrow> fst (reconcile_execution env later t obs st') = Inr e'
            \<and> xs_coordinator (snd (reconcile_execution env later t obs st')) = xs_coordinator st'))
    \<and> map_option er_exit_code (hm_get (xs_results st') i) = Some 1
    \<and> (co_find (xs_coordinator st') j = Some x \<longrightarrow> ex_status x \<noteq> Unknown)"
proof -
  let ?st = "snd (run_finish up now i (Inl message) st)"
  let ?r = "result_of_answer (Inl message)"
  have exit: "er_exit_code ?r = 1" by (simp add: result_of_answer_def)
  obtain e' where tr: "execution_transition_to ExFailed now e = Inr e'" "ex_status e' = ExFailed"
    using c(2) by (simp add: execution_transition_to_def)
  have f: "finish now i ?r (xs_coordinator st) =
      (Inr e', snd (finish now i ?r (xs_coordinator st)))"
    using c(1) tr(1) exit by (simp add: finish_def transition_execution_def co_find_def Let_def)
  obtain co where co: "finish now i ?r (xs_coordinator st) = (Inr e', co)" using f by blast
  have find: "co_find co i = Some e'" using finish_result(1) [OF co] by (simp add: changes_to_def)
  let ?w = "WriteFinished i e' ?r"
  obtain st1 where b: "finish_begin now i (Inl message) st = (Inr ?w, st1)" and w1: "?w \<in> set (xs_writes st1)"
    and st1: "xs_coordinator st1 = co" "xs_results st1 = xs_results st"
    using co by (simp add: finish_begin_def Let_def)
  have st: "?st = snd (store_execution up now ?w st1)" by (simp add: run_finish_def then_store_def b)
  have r1: "exec_reachable env h st1" using xr_step [OF r xs_finish [OF w, of env h now "Inl message"]] by (simp add: b)
  have st': "xs_coordinator ?st = co"
    "xs_results ?st = hm_insert i (execution_result_dto ?r) (xs_results st)"
    unfolding st store_keeps_plans(2) store_finished st1 by (rule refl)+
  have rec: "reconcile later i obs co = (Inr (e', RequireManualReview), co)"
    using find tr(2) by (simp add: reconcile_def co_find_def execution_terminal_def)
  have "exec_ok env h ?st"
    unfolding st by (rule exec_reachable_ok [OF xr_step [OF r1 xs_store [OF w1]]])
  moreover have "fst (reconcile_execution env later t obs ?st) = Inr e'
      \<and> xs_coordinator (snd (reconcile_execution env later t obs ?st)) = co" if "ae_uuid_parse env t = Some i"
    using that rec st'(1)
    by (simp add: reconcile_execution_def reconcile_begin_def then_store_def parse_uuid_def)
      (simp add: store_execution_def)
  ultimately show ?thesis
    using find tr(2) exit st' by (auto simp: Let_def execution_result_dto_def exec_ok_def results_ok_def)
qed

theorem lost_answer_is_failure_witness:
  "\<exists>e'. co_find (xs_coordinator (snd (run_finish (\<lambda>_. True) 8 7 (Inl (lit ''timeout'')) lab_running))) 7 = Some e'
     \<and> ex_status e' = ExFailed"
proof -
  obtain e where e: "co_find (xs_coordinator lab_running) 7 = Some e" "ex_status e = Running"
    using lab_running_eq(4) by auto
  have w: "7 \<in> set (xs_waiting lab_running)" by (simp add: lab_running_eq(3))
  show ?thesis
    using lost_answer_is_failure [OF lab_reachable(3) w e, where t = "lit ''x''" and later = 9 and obs = ObsSucceeded and j = 7 and x = e
        and up = "\<lambda>_. True" and now = 8 and message = "lit ''timeout''"]
    unfolding Let_def by blast
qed

section \<open>A late write\<close>

lemma store_writes: "xs_writes (snd (store_execution up now w st)) = remove1 w (xs_writes st)"
proof -
  have w: "with_db f s = (q, s') \<Longrightarrow> xs_writes s' = xs_writes s" for f s q s' using with_db_frame by blast
  show ?thesis by (auto simp: store_execution_def Let_def split: sum.split prod.split store_write.split dest!: w)
qed

lemma finish_running:
  assumes r: "exec_reachable env h st" and w: "i \<in> set (xs_waiting st)"
    and c: "co_find (xs_coordinator st) i = Some e" "ex_status e = Running"
  obtains e' st1 where "run_finish up now i answer st = then_store up now (Inr (WriteFinished i e' (result_of_answer answer)), st1)"
    "exec_reachable env h st1" "WriteFinished i e' (result_of_answer answer) \<in> set (xs_writes st1)"
    "set (xs_writes st) \<subseteq> set (remove1 (WriteFinished i e' (result_of_answer answer)) (xs_writes st1))"
    "co_find (xs_coordinator st1) i = Some e'" "ex_status e' \<in> {Succeeded, ExFailed}"
proof -
  let ?r = "result_of_answer answer"
  have "\<exists>e'. execution_transition_to (if er_exit_code ?r = 0 then Succeeded else ExFailed) now e = Inr e'"
    using c(2) by (simp add: execution_transition_to_def)
  then obtain e' co where co: "finish now i ?r (xs_coordinator st) = (Inr e', co)"
    using c(1) by (auto simp: finish_def transition_execution_def co_find_def Let_def)
  have e': "co_find co i = Some e'" "ex_status e' \<in> {Succeeded, ExFailed}"
    using finish_result(1) [OF co] by (auto simp: changes_to_def)
  let ?w = "WriteFinished i e' ?r"
  obtain st1 where b: "finish_begin now i answer st = (Inr ?w, st1)" and w1: "xs_writes st1 = xs_writes st @ [?w]"
    and st1: "xs_coordinator st1 = co"
    using co by (simp add: finish_begin_def Let_def)
  have "exec_reachable env h st1" using xr_step [OF r xs_finish [OF w, of env h now answer]] by (simp add: b)
  moreover have "set (xs_writes st) \<subseteq> set (remove1 ?w (xs_writes st1))"
    unfolding w1 by (auto simp: remove1_append) (metis in_set_remove1)
  ultimately show ?thesis using that b w1 st1 e' by (simp add: run_finish_def)
qed

text \<open>
  C10. A late write hides the end of an execution. A reconciliation that found the execution running
  takes its record from the coordinator and writes it later; when the run ends in between, the
  server shows the execution as running although it has ended, until someone reconciles it again.
\<close>

theorem late_write_hides_result:
  assumes r: "exec_reachable env h st" and w: "i \<in> set (xs_waiting st)" and t: "ae_uuid_parse env t = Some i"
    and c: "co_find (xs_coordinator st) i = Some e" "ex_status e = Running"
  shows "\<exists>st1 st2 st3. reconcile_begin env now t ObsRunning st = (Inr (WriteReconciled i e), st1)
    \<and> run_finish up now' i answer st1 = (fst (run_finish up now' i answer st1), st2)
    \<and> store_execution up' now'' (WriteReconciled i e) st2 = (Inr e, st3) \<and> exec_reachable env h st3
    \<and> get_execution env t st3 = Inr e
    \<and> (\<exists>e'. co_find (xs_coordinator st3) i = Some e' \<and> ex_status e' \<in> {Succeeded, ExFailed})"
proof -
  let ?w = "WriteReconciled i e"
  have id: "ex_id e = i" using coord_reachable_ok c(1) exec_reachable_ok [OF r] by (auto simp: exec_ok_def coordinator_ok_def)
  have rec: "reconcile now i ObsRunning (xs_coordinator st) = (Inr (e, KeepRunning), xs_coordinator st)"
    using c by (simp add: reconcile_def co_find_def execution_terminal_def)
  obtain st1 where b: "reconcile_begin env now t ObsRunning st = (Inr ?w, st1)"
    and st1: "xs_coordinator st1 = xs_coordinator st" "?w \<in> set (xs_writes st1)" "xs_waiting st1 = xs_waiting st"
    using rec t by (simp add: reconcile_begin_def parse_uuid_def)
  have r1: "exec_reachable env h st1" using xr_step [OF r xs_reconcile [of env h st now t ObsRunning]] by (simp add: b)
  obtain e' st1' where f: "run_finish up now' i answer st1 =
      then_store up now' (Inr (WriteFinished i e' (result_of_answer answer)), st1')"
    "exec_reachable env h st1'" "WriteFinished i e' (result_of_answer answer) \<in> set (xs_writes st1')"
    "set (xs_writes st1) \<subseteq> set (remove1 (WriteFinished i e' (result_of_answer answer)) (xs_writes st1'))"
    "co_find (xs_coordinator st1') i = Some e'" "ex_status e' \<in> {Succeeded, ExFailed}"
    using finish_running [OF r1, of i e up now' answer] w c st1 by auto
  obtain x st2 where s2: "store_execution up now' (WriteFinished i e' (result_of_answer answer)) st1' = (x, st2)" by fastforce
  have r2: "exec_reachable env h st2" using xr_step [OF f(2) xs_store [OF f(3), of env h up now']] by (simp add: s2)
  have w2: "?w \<in> set (xs_writes st2)" and co2: "xs_coordinator st2 = xs_coordinator st1'"
    using store_writes [of up now' "WriteFinished i e' (result_of_answer answer)" st1']
      store_keeps_plans(2) [of up now' "WriteFinished i e' (result_of_answer answer)" st1'] s2 f(4) st1(2) by auto
  obtain st3 where s3: "store_execution up' now'' ?w st2 = (Inr e, st3)" "xs_coordinator st3 = xs_coordinator st2"
    "xs_executions st3 = filter (\<lambda>x. ex_id x \<noteq> i) (xs_executions st2) @ [e]"
    by (simp add: store_execution_def)
  have "exec_reachable env h st3" using xr_step [OF r2 xs_store [OF w2, of env h up' now'']] by (simp add: s3(1))
  moreover have "List.find (\<lambda>x. ex_id x = i) (filter (\<lambda>x. ex_id x \<noteq> i) xs @ [e]) = Some e" for xs
    using id by (induction xs) auto
  then have "get_execution env t st3 = Inr e" using t by (simp add: get_execution_def parse_uuid_def s3(3))
  moreover have "run_finish up now' i answer st1 = (fst (run_finish up now' i answer st1), st2)"
    by (simp add: f(1) then_store_def s2)
  ultimately show ?thesis using b s3 co2 f(5,6) by auto
qed

theorem late_write_hides_result_witness:
  "\<exists>st3. exec_reachable exec_ids hash_example st3
     \<and> map_sum id ex_status (get_execution exec_ids (lit ''x'') st3) = Inr Running
     \<and> (\<exists>e'. co_find (xs_coordinator st3) 7 = Some e' \<and> ex_status e' \<in> {Succeeded, ExFailed})"
proof -
  obtain e where e: "co_find (xs_coordinator lab_running) 7 = Some e" "ex_status e = Running"
    using lab_running_eq(4) by auto
  have w: "7 \<in> set (xs_waiting lab_running)" by (simp add: lab_running_eq(3))
  have t: "ae_uuid_parse exec_ids (lit ''x'') = Some 7" by (simp add: exec_ids_def lit_eq_iff)
  show ?thesis
    using late_write_hides_result [OF lab_reachable(3) w t e, where now = 7 and up = "\<lambda>_. True" and now' = 8
        and answer = "Inl (lit ''timeout'')" and up' = "\<lambda>_. True" and now'' = 9] e(2)
    by fastforce
qed

end
