(* ===== verification/Onboarding.thy ===== *)
theory Onboarding
  imports ScheduledJobs
begin

text \<open>
  Onboarding of hosts: \<open>lxcup-server/src/workflows/enrollment.rs\<close>, the follow-up jobs of
  \<open>workflows/reconciliation.rs\<close> and \<open>queue_enrollment_job\<close> of \<open>workflows/jobs.rs\<close>. A handler whose
  \<open>expect\<close> fails has no answer: its result is \<open>None\<close>.
\<close>

section \<open>Follow-up jobs (reconciliation.rs)\<close>

definition health_job_request :: "uuid \<Rightarrow> str \<Rightarrow> ansible_job_request" where
  "health_job_request i key =
     \<lparr>jr_operation = OpHealthCheck, jr_target = Target i, jr_lifecycle = Managed, jr_mode = ModeCheck,
      jr_parameters = ParamHealthCheck, jr_secret_refs = [], jr_idempotency_key = key,
      jr_confirmed = True, jr_actor_role = Operator\<rparr>"

definition inventory_job_request :: "target \<Rightarrow> str \<Rightarrow> ansible_job_request" where
  "inventory_job_request t key =
     \<lparr>jr_operation = OpCollectPackageInventory, jr_target = Target (tg_id t), jr_lifecycle = Managed,
      jr_mode = ModeCheck, jr_parameters = ParamCollectPackageInventory,
      jr_secret_refs = (case workflow_auth_secret_ref t of None \<Rightarrow> [] | Some s \<Rightarrow> [s]),
      jr_idempotency_key = key, jr_confirmed = True, jr_actor_role = Operator\<rparr>"

definition deploy_job_request ::
  "resource_lifecycle \<Rightarrow> str \<Rightarrow> actor_role \<Rightarrow> target \<Rightarrow> str \<Rightarrow> ansible_job_request" where
  "deploy_job_request lifecycle version role t key =
     \<lparr>jr_operation = OpDeployAgent, jr_target = Target (tg_id t), jr_lifecycle = lifecycle,
      jr_mode = ModeApply, jr_parameters = ParamDeployAgent version,
      jr_secret_refs = deployment_secret_refs t, jr_idempotency_key = key, jr_confirmed = True,
      jr_actor_role = role\<rparr>"

definition managed_target :: "uuid \<Rightarrow> api_state \<Rightarrow> target option" where
  "managed_target i st = List.find (\<lambda>t. tg_id t = i \<and> tg_state t = TargetManaged) (ap_targets st)"

text \<open>Submitting a request and storing a created job: 1 if a job was created, 0 for a duplicate.\<close>

definition queue_job ::
  "ansible_env \<Rightarrow> job_calls \<Rightarrow> uuid \<Rightarrow> timestamp \<Rightarrow> ansible_job_request \<Rightarrow> api_state
     \<Rightarrow> nat api_result \<times> api_state" where
  "queue_job env up fresh now jr st =
     (case submit_and_persist env up fresh now jr st of
        (Inl e, st1) \<Rightarrow> (Inl e, st1)
      | (Inr (code, _), st1) \<Rightarrow> (Inr (if code = 202 then 1 else 0), st1))"

definition queue_package_inventory_followup ::
  "ansible_env \<Rightarrow> job_calls \<Rightarrow> uuid \<Rightarrow> timestamp \<Rightarrow> ansible_job \<Rightarrow> api_state \<Rightarrow> nat api_result \<times> api_state" where
  "queue_package_inventory_followup env up fresh now update st =
     (case aj_target update of
        Target i \<Rightarrow>
          (let key = lit ''package-update-inventory-'' @ ae_uuid_to_string env (aj_id update) in
           case find_existing_job up st (aj_target update) key of
             Inl e \<Rightarrow> (Inl e, st)
           | Inr (Some _) \<Rightarrow> (Inr 0, st)
           | Inr None \<Rightarrow>
               (case managed_target i st of
                  None \<Rightarrow> (Inr 0, st)
                | Some t \<Rightarrow> queue_job env up fresh now (inventory_job_request t key) st))
      | _ \<Rightarrow> (Inr 0, st))"

definition queue_agent_reconfiguration ::
  "ansible_env \<Rightarrow> job_calls \<Rightarrow> uuid \<Rightarrow> timestamp \<Rightarrow> target \<Rightarrow> str \<Rightarrow> api_state
     \<Rightarrow> ansible_job option api_result \<times> api_state" where
  "queue_agent_reconfiguration env up fresh now t key st =
     (if tg_state t = TargetDisabled then (Inr None, st)
      else case find_existing_job up st (Target (tg_id t)) key of
        Inl e \<Rightarrow> (Inl e, st)
      | Inr (Some existing) \<Rightarrow> (Inr (Some existing), st)
      | Inr None \<Rightarrow>
          (case submit_and_persist env up fresh now (deploy_job_request Pending CARGO_PKG_VERSION Admin t key) st of
             (Inl e, st1) \<Rightarrow> (Inl e, st1)
           | (Inr (_, j), st1) \<Rightarrow> (Inr (Some j), st1)))"

definition ensure_deployment_followups ::
  "ansible_env \<Rightarrow> job_calls \<Rightarrow> uuid \<Rightarrow> timestamp \<Rightarrow> ansible_job \<Rightarrow> str \<Rightarrow> str \<Rightarrow> api_state
     \<Rightarrow> nat api_result \<times> api_state" where
  "ensure_deployment_followups env up fresh now deployment health_key inventory_key st =
     (if aj_status deployment \<noteq> JSucceeded then (Inr 0, st)
      else case aj_target deployment of
        Target i \<Rightarrow>
          (case managed_target i st of
             None \<Rightarrow> (Inr 0, st)
           | Some t \<Rightarrow>
               (case all_jobs up st of
                  Inl e \<Rightarrow> (Inl e, st)
                | Inr jobs \<Rightarrow>
                    (case List.find (\<lambda>j. aj_idempotency_key j = health_key) jobs of
                       None \<Rightarrow> queue_job env up fresh now (health_job_request i health_key) st
                     | Some health \<Rightarrow>
                         if aj_status health \<noteq> JSucceeded then (Inr 0, st)
                         else if list_ex (\<lambda>j. aj_idempotency_key j = inventory_key) jobs then (Inr 0, st)
                         else queue_job env up fresh now (inventory_job_request t inventory_key) st)))
      | _ \<Rightarrow> (Inr 0, st))"

text \<open>The keys of the follow-ups belong to the key of the deployment.\<close>

definition followup_keys :: "str \<Rightarrow> (str \<times> str) option" where
  "followup_keys key =
     (case strip_prefix key (lit ''enrollment-'') of
        Some i \<Rightarrow> Some (lit ''enrollment-health-'' @ i, lit ''enrollment-packages-'' @ i)
      | None \<Rightarrow>
          (case strip_prefix key (lit ''onboarding-deploy-'') of
             Some i \<Rightarrow> Some (lit ''onboarding-health-'' @ i, lit ''onboarding-inventory-'' @ i)
           | None \<Rightarrow>
               (case strip_prefix key (lit ''agent-token-reconfiguration-'') of
                  Some i \<Rightarrow> Some (lit ''agent-token-health-'' @ i, lit ''agent-token-inventory-'' @ i)
                | None \<Rightarrow> None)))"

definition deployment_followup ::
  "ansible_env \<Rightarrow> job_calls \<Rightarrow> uuid \<Rightarrow> timestamp \<Rightarrow> ansible_job \<Rightarrow> api_state \<Rightarrow> nat api_result \<times> api_state" where
  "deployment_followup env up fresh now j st =
     (case followup_keys (aj_idempotency_key j) of
        None \<Rightarrow> (Inr 0, st)
      | Some (health_key, inventory_key) \<Rightarrow>
          ensure_deployment_followups env up fresh now j health_key inventory_key st)"

text \<open>The loops over the jobs; a failure is logged. The \<open>n\<close>-th follow-up meets these values.\<close>

record onboarding_env =
  oe_up :: "nat \<Rightarrow> job_calls"
  oe_fresh :: "nat \<Rightarrow> uuid"
  oe_now :: "nat \<Rightarrow> timestamp"

fun followups ::
  "(job_calls \<Rightarrow> uuid \<Rightarrow> timestamp \<Rightarrow> ansible_job \<Rightarrow> api_state \<Rightarrow> nat api_result \<times> api_state)
     \<Rightarrow> onboarding_env \<Rightarrow> nat \<Rightarrow> ansible_job list \<Rightarrow> api_state \<Rightarrow> nat \<times> api_state" where
  "followups f o_env n [] st = (0, st)"
| "followups f o_env n (j # js) st =
     (case f (oe_up o_env n) (oe_fresh o_env n) (oe_now o_env n) j st of
        (r, st1) \<Rightarrow>
          (case followups f o_env (Suc n) js st1 of
             (k, st2) \<Rightarrow> ((case r of Inr c \<Rightarrow> c | Inl _ \<Rightarrow> 0) + k, st2)))"

definition succeeded_deployment :: "ansible_job \<Rightarrow> bool" where
  "succeeded_deployment j \<longleftrightarrow> aj_operation j = OpDeployAgent \<and> aj_status j = JSucceeded"

definition succeeded_update :: "ansible_job \<Rightarrow> bool" where
  "succeeded_update j \<longleftrightarrow> aj_operation j = OpUpdatePackages \<and> aj_mode j = ModeApply \<and> aj_status j = JSucceeded"

definition reconcile_onboarding_jobs ::
  "ansible_env \<Rightarrow> onboarding_env \<Rightarrow> api_state \<Rightarrow> nat api_result \<times> api_state" where
  "reconcile_onboarding_jobs env o_env st =
     (case all_jobs (oe_up o_env 0) st of
        Inl e \<Rightarrow> (Inl e, st)
      | Inr jobs \<Rightarrow>
          (let deployments = filter succeeded_deployment jobs in
           case followups (deployment_followup env) o_env 1 deployments st of
             (k, st1) \<Rightarrow>
               (case followups (queue_package_inventory_followup env) o_env (Suc (length deployments))
                       (filter succeeded_update jobs) st1 of
                  (k', st2) \<Rightarrow> (Inr (k + k'), st2))))"

section \<open>Enrollments (enrollment.rs)\<close>

record create_enrollment_request =
  ce_container_id :: u64
  ce_target_id :: "uuid option"
  ce_idempotency_key :: str
  ce_start_onboarding :: bool

definition enrollment_key :: "ansible_env \<Rightarrow> uuid \<Rightarrow> str" where
  "enrollment_key env i = lit ''enrollment-'' @ ae_uuid_to_string env i"

definition check_enrollment_target :: "create_enrollment_request \<Rightarrow> controller \<Rightarrow> unit api_result" where
  "check_enrollment_target r c =
     (case ce_target_id r of
        None \<Rightarrow> Inr ()
      | Some i \<Rightarrow>
          (case find_target i (ct_api c) of
             None \<Rightarrow> Inl (not_found (lit ''target not found''))
           | Some t \<Rightarrow>
               if tg_kind t \<noteq> Lxc then
                 Inl (bad_request (lit ''invalid_enrollment_target'')
                   (lit ''an LXC enrollment can only be linked to an LXC target''))
               else if list_ex (\<lambda>e. en_container_id e \<noteq> ce_container_id r \<and> en_target_id e = Some i) (ct_enrollments c)
               then Inl (conflict (lit ''target_already_enrolled'')
                      (lit ''this target is already linked to another LXC container''))
               else Inr ()))"

definition check_enrollment :: "create_enrollment_request \<Rightarrow> controller \<Rightarrow> unit api_result" where
  "check_enrollment r c =
     (if ce_container_id r = 0 then
        Inl (bad_request (lit ''invalid_container_id'') (lit ''container id must be greater than zero''))
      else if \<not> list_ex (\<lambda>x. ct_id x = ce_container_id r) (ap_containers (ct_api c)) then
        Inl (not_found (lit ''container not found''))
      else check_enrollment_target r c)"

text \<open>The deployment job of an enrollment (jobs.rs); its row is saved without the queued event.\<close>

definition set_enrollments :: "enrollment list \<Rightarrow> controller \<Rightarrow> controller" where
  "set_enrollments es c = c\<lparr>ct_enrollments := es\<rparr>"

definition start_discovery :: "timestamp \<Rightarrow> uuid \<Rightarrow> controller \<Rightarrow> unit api_result \<times> controller" where
  "start_discovery now i c =
     (case List.find (\<lambda>e. en_id e = i) (ct_enrollments c) of
        None \<Rightarrow> (Inr (), c)
      | Some e \<Rightarrow>
          (case enrollment_transition_to Discovering now e of
             Inl _ \<Rightarrow> (Inl (conflict (lit ''enrollment_invalid_state'') (lit ''enrollment cannot start discovery'')), c)
           | Inr e1 \<Rightarrow> (Inr (), set_enrollments (update_first (\<lambda>x. en_id x = i) (\<lambda>_. e1) (ct_enrollments c)) c)))"

definition queue_enrollment_job ::
  "ansible_env \<Rightarrow> job_calls \<Rightarrow> uuid \<Rightarrow> timestamp \<Rightarrow> uuid option \<Rightarrow> uuid \<Rightarrow> controller
     \<Rightarrow> unit api_result \<times> controller" where
  "queue_enrollment_job env up fresh now target_id i c =
     (case target_id of
        None \<Rightarrow> (Inr (), c)
      | Some ti \<Rightarrow>
          (case find_target ti (ct_api c) of
             None \<Rightarrow> (Inl (not_found (lit ''target not found'')), c)
           | Some t \<Rightarrow>
               (case submit env fresh now (deploy_job_request (lifecycle_of_target (tg_state t)) (lit ''0.3.1'') Operator t
                       (enrollment_key env i)) (ap_ansible (ct_api c)) of
                  Inl _ \<Rightarrow> (Inl (conflict (lit ''enrollment_job_rejected'')
                               (lit ''agent deployment could not be queued'')), c)
                | Inr (JobDuplicate _, co) \<Rightarrow> (Inr (), c\<lparr>ct_api := (ct_api c)\<lparr>ap_ansible := co\<rparr>\<rparr>)
                | Inr (JobCreated j, co) \<Rightarrow>
                    (let st = (ct_api c)\<lparr>ap_ansible := co\<rparr> in
                     case ap_repositories st of
                       None \<Rightarrow> start_discovery now i (c\<lparr>ct_api := st\<rparr>)
                     | Some db \<Rightarrow>
                         (case save_job (up CallSaveJob) j db of
                            (Inl _, db1) \<Rightarrow> (Inl storage, c\<lparr>ct_api := st\<lparr>ap_repositories := Some db1\<rparr>\<rparr>)
                          | (Inr _, db1) \<Rightarrow> start_discovery now i (c\<lparr>ct_api := st\<lparr>ap_repositories := Some db1\<rparr>\<rparr>))))))"

definition create_enrollment ::
  "ansible_env \<Rightarrow> job_calls \<Rightarrow> uuid \<Rightarrow> uuid \<Rightarrow> timestamp \<Rightarrow> create_enrollment_request \<Rightarrow> controller
     \<Rightarrow> (nat \<times> enrollment) api_result option \<times> controller" where
  "create_enrollment env up fresh fresh_job now r c =
     (case check_enrollment r c of
        Inl e \<Rightarrow> (Some (Inl e), c)
      | Inr _ \<Rightarrow>
          (case hm_get (ct_enrollment_keys c) (ce_idempotency_key r) of
             Some i \<Rightarrow>
               (case List.find (\<lambda>e. en_id e = i) (ct_enrollments c) of
                  None \<Rightarrow> (None, c)
                | Some e \<Rightarrow>
                    (Some (if en_container_id e \<noteq> ce_container_id r \<or> en_target_id e \<noteq> ce_target_id r then
                       Inl (conflict (lit ''idempotency_key_reused'')
                         (lit ''idempotency key is already used for another container''))
                     else Inr (200, e)), c))
           | None \<Rightarrow>
               if list_ex (\<lambda>e. en_container_id e = ce_container_id r \<and> enrollment_is_active (en_state e)) (ct_enrollments c)
               then (Some (Inl (conflict (lit ''enrollment_in_progress'')
                      (lit ''an enrollment is already in progress for this container''))), c)
               else
                 (case enrollment_new fresh now (ce_container_id r) (ce_idempotency_key r) of
                    Inl _ \<Rightarrow> (Some (Inl (bad_request (lit ''invalid_idempotency_key'') (lit ''idempotency key is invalid''))), c)
                  | Inr e0 \<Rightarrow>
                      (let e = e0\<lparr>en_target_id := ce_target_id r\<rparr>;
                           c1 = c\<lparr>ct_enrollment_keys := hm_insert (ce_idempotency_key r) (en_id e) (ct_enrollment_keys c),
                                  ct_enrollments := ct_enrollments c @ [e]\<rparr>
                       in case (if ce_start_onboarding r
                                then queue_enrollment_job env up fresh_job now (ce_target_id r) (en_id e) c1
                                else (Inr (), c1)) of
                            (Inl err, c2) \<Rightarrow> (Some (Inl err), c2)
                          | (Inr _, c2) \<Rightarrow> (Some (Inr (202, e)), c2)))))"

definition try_transition :: "enrollment_state \<Rightarrow> timestamp \<Rightarrow> enrollment \<Rightarrow> enrollment" where
  "try_transition s now e = (case enrollment_transition_to s now e of Inl _ \<Rightarrow> e | Inr e1 \<Rightarrow> e1)"

definition advance_enrollment :: "timestamp \<Rightarrow> ansible_job_status \<Rightarrow> bool \<Rightarrow> enrollment \<Rightarrow> enrollment" where
  "advance_enrollment now status connected e =
     (if status = JFailed then
        enrollment_fail (lit ''Agent-Deployment fehlgeschlagen. Details stehen im Workflow-Protokoll.'') now e
      else if status \<in> {JApplying, JSucceeded} \<and> en_state e = Discovering then try_transition InstallingAgent now e
      else if status = JSucceeded \<and> connected then
        try_transition EnrollConnected now (try_transition RegisteringAgent now e)
      else e)"

definition ensure_enrollment_followups ::
  "ansible_env \<Rightarrow> job_calls \<Rightarrow> uuid \<Rightarrow> timestamp \<Rightarrow> uuid \<Rightarrow> ansible_job \<Rightarrow> api_state
     \<Rightarrow> unit api_result \<times> api_state" where
  "ensure_enrollment_followups env up fresh now i deployment st =
     (case ensure_deployment_followups env up fresh now deployment
             (lit ''enrollment-health-'' @ ae_uuid_to_string env i)
             (lit ''enrollment-packages-'' @ ae_uuid_to_string env i) st of
        (Inl e, st1) \<Rightarrow> (Inl e, st1)
      | (Inr _, st1) \<Rightarrow> (Inr (), st1))"

definition target_connected :: "ansible_job \<Rightarrow> api_state \<Rightarrow> bool" where
  "target_connected j st =
     (case aj_target j of
        Target i \<Rightarrow> list_ex (\<lambda>t. tg_id t = i \<and> tg_state t = TargetManaged) (ap_targets st)
      | _ \<Rightarrow> False)"

definition poll_enrollment ::
  "ansible_env \<Rightarrow> job_calls \<Rightarrow> uuid \<Rightarrow> timestamp \<Rightarrow> uuid \<Rightarrow> controller \<Rightarrow> unit api_result \<times> controller" where
  "poll_enrollment env up fresh now i c =
     (case all_jobs up (ct_api c) of
        Inl e \<Rightarrow> (Inl e, c)
      | Inr jobs \<Rightarrow>
          (case List.find (\<lambda>j. aj_idempotency_key j = enrollment_key env i) jobs of
             None \<Rightarrow> (Inr (), c)
           | Some j \<Rightarrow>
               (let c1 = set_enrollments (update_first (\<lambda>e. en_id e = i)
                          (advance_enrollment now (aj_status j) (target_connected j (ct_api c))) (ct_enrollments c)) c
                in case ensure_enrollment_followups env up fresh now i j (ct_api c1) of
                     (r, st) \<Rightarrow> (r, c1\<lparr>ct_api := st\<rparr>))))"

definition get_enrollment ::
  "ansible_env \<Rightarrow> job_calls \<Rightarrow> uuid \<Rightarrow> timestamp \<Rightarrow> str \<Rightarrow> controller \<Rightarrow> enrollment api_result \<times> controller" where
  "get_enrollment env up fresh now text c =
     (case ok_or (bad_request (lit ''invalid_id'') (lit ''enrollment id'')) (ae_uuid_parse env text) of
        Inl e \<Rightarrow> (Inl e, c)
      | Inr i \<Rightarrow>
          if \<not> list_ex (\<lambda>e. en_id e = i) (ct_enrollments c) then (Inl (not_found (lit ''enrollment not found'')), c)
          else
            (case poll_enrollment env up fresh now i c of
               (Inl e, c1) \<Rightarrow> (Inl e, c1)
             | (Inr _, c1) \<Rightarrow>
                 (ok_or (not_found (lit ''enrollment not found''))
                    (List.find (\<lambda>e. en_id e = i) (ct_enrollments c1)), c1)))"

end
