(* ===== verification/OnboardingLaws.thy ===== *)
theory OnboardingLaws
  imports Onboarding PackageLaws
begin

text \<open>
  The follow-up jobs of onboarding: what submitting one does, which of them a pass may queue, and when
  a follow-up has nothing left to do.
\<close>

section \<open>Queuing one job\<close>

lemma hm_values_new: "hm_get m k = None \<Longrightarrow> hm_values (hm_insert k v m) = hm_values m @ [v]"
  by (induction m) (auto simp: hm_get_def hm_values_def hm_insert_def split: if_splits)

text \<open>
  A submission changes nothing, or it adds one queued job to the coordinator and, with a database
  that takes it, to the job table.
\<close>

lemma submit_and_persist_cases:
  assumes "submit_and_persist env up fresh now jr st = (r, st')" "hm_get (jc_jobs (ap_ansible st)) fresh = None"
  obtains (same) "st' = st" "\<And>j. r \<noteq> Inr (202, j)"
  | (created) j co db where "from_request env fresh now jr = Inr j"
      "hm_get (jc_idempotency (ap_ansible st)) (jr_target jr, jr_idempotency_key jr) = None"
      "st' = st\<lparr>ap_ansible := co, ap_repositories := db\<rparr>" "jc_jobs co = hm_insert fresh j (jc_jobs (ap_ansible st))"
      "jc_idempotency co = hm_insert (jr_target jr, jr_idempotency_key jr) fresh (jc_idempotency (ap_ansible st))"
      "stored_jobs st' = stored_jobs st \<or> stored_jobs st' = stored_jobs st @ [j]"
      "r = Inr (202, j) \<or> (\<exists>e. r = Inl e)" "r = Inr (202, j) \<Longrightarrow> stored_jobs st' = stored_jobs st @ [j]"
      "ap_repositories st \<noteq> None \<Longrightarrow> \<not> up CallSaveJob \<Longrightarrow> db = ap_repositories st \<and> r = Inl storage"
      "db = None \<longleftrightarrow> ap_repositories st = None"
proof (cases "submit env fresh now jr (ap_ansible st)")
  case (Inl e)
  then show ?thesis using assms by (intro same) (auto simp: submit_and_persist_def)
next
  case (Inr x)
  obtain sub co where x: "x = (sub, co)" by (cases x) auto
  show ?thesis
  proof (cases sub)
    case (JobDuplicate j)
    then have "co = ap_ansible st"
      using Inr x by (auto simp: submit_def bindR_Inr_iff Let_def split: option.splits)
    then show ?thesis using assms Inr x JobDuplicate by (intro same) (auto simp: submit_and_persist_def)
  next
    case (JobCreated j)
    note sc = submit_created [OF Inr [unfolded x JobCreated]]
    obtain q st1 where p: "persist_created_job up j (st\<lparr>ap_ansible := co\<rparr>) = (q, st1)" by fastforce
    have r: "st' = st1" "r = (case q of Inl e \<Rightarrow> Inl e | Inr _ \<Rightarrow> Inr (202, j))"
      using assms(1) Inr x JobCreated p by (auto simp: submit_and_persist_def split: sum.splits)
    show ?thesis
    proof (cases "ap_repositories st")
      case None
      then have "q = Inr ()" "st1 = st\<lparr>ap_ansible := co\<rparr>" using p by (auto simp: persist_created_job_def)
      then show ?thesis
        using None sc r assms(2) by (intro created [where j = j and co = co and db = None]) (auto simp: stored_jobs_def hm_values_new)
    next
      case (Some db0)
      then obtain db where db: "st1 = st\<lparr>ap_ansible := co, ap_repositories := Some db\<rparr>"
        "jd_jobs db = jd_jobs db0 \<or> jd_jobs db = jd_jobs db0 @ [row_of_job j]"
        "q = Inr () \<longrightarrow> jd_jobs db = jd_jobs db0 @ [row_of_job j]"
        "\<not> up CallSaveJob \<longrightarrow> db = db0 \<and> q = Inl storage"
        using persist_created_job_db [OF p, of db0] by auto
      have rows: "jw_payload (row_of_job j) = j" by (simp add: row_of_job_def)
      show ?thesis
        using Some sc r db rows
        by (intro created [where j = j and co = co and db = "Some db"]) (auto simp: stored_jobs_def split: sum.splits)
    qed
  qed
qed

section \<open>A pass over the jobs\<close>

text \<open>
  The follow-ups that are due for the stored jobs: queued check jobs of a managed target. A health
  check follows a succeeded deployment of the target, an inventory follows its succeeded health
  check, or a succeeded package update.
\<close>

definition update_followup_key :: "ansible_env \<Rightarrow> ansible_job \<Rightarrow> str" where
  "update_followup_key env u = lit ''package-update-inventory-'' @ ae_uuid_to_string env (aj_id u)"

definition due_followup :: "ansible_env \<Rightarrow> api_state \<Rightarrow> ansible_job \<Rightarrow> bool" where
  "due_followup env st j \<longleftrightarrow>
     aj_mode j = ModeCheck \<and> aj_status j = JQueued
     \<and> (\<exists>t \<in> set (ap_targets st). tg_state t = TargetManaged \<and> aj_target j = Target (tg_id t))
     \<and> ((\<exists>d \<in> set (stored_jobs st). \<exists>hk ik. succeeded_deployment d
           \<and> followup_keys (aj_idempotency_key d) = Some (hk, ik) \<and> aj_target j = aj_target d
           \<and> (aj_operation j = OpHealthCheck \<and> aj_idempotency_key j = hk
              \<or> aj_operation j = OpCollectPackageInventory \<and> aj_idempotency_key j = ik
                \<and> (\<exists>x \<in> set (stored_jobs st). aj_idempotency_key x = hk \<and> aj_status x = JSucceeded)))
        \<or> (\<exists>u \<in> set (stored_jobs st). succeeded_update u \<and> aj_target j = aj_target u
           \<and> aj_operation j = OpCollectPackageInventory \<and> aj_idempotency_key j = update_followup_key env u))"

text \<open>How far a pass got: everything known stays, and what is new was due at the start.\<close>

definition onboarded :: "ansible_env \<Rightarrow> (nat \<Rightarrow> uuid) \<Rightarrow> nat \<Rightarrow> api_state \<Rightarrow> nat \<Rightarrow> api_state \<Rightarrow> bool" where
  "onboarded env fresh N st0 n st \<longleftrightarrow>
     ap_targets st = ap_targets st0
     \<and> (\<forall>i j. hm_get (jc_jobs (ap_ansible st0)) i = Some j \<longrightarrow> hm_get (jc_jobs (ap_ansible st)) i = Some j)
     \<and> (\<forall>i j. hm_get (jc_jobs (ap_ansible st)) i = Some j \<longrightarrow>
          hm_get (jc_jobs (ap_ansible st0)) i = Some j \<or> due_followup env st0 j)
     \<and> (\<exists>js. stored_jobs st = stored_jobs st0 @ js \<and> list_all (due_followup env st0) js)
     \<and> (\<forall>m. n \<le> m \<longrightarrow> m < N \<longrightarrow> hm_get (jc_jobs (ap_ansible st)) (fresh m) = None)"

lemma onboarded_later: "onboarded env fresh N st0 n st \<Longrightarrow> onboarded env fresh N st0 (Suc n) st"
  unfolding onboarded_def by (elim conjE, intro conjI) auto

lemma onboarded_queue:
  assumes on: "onboarded env fresh N st0 n st" and inj: "inj_on fresh {..<N}" "n < N"
    and q: "submit_and_persist env up (fresh n) now jr st = (r, st')"
    and due: "\<And>j. from_request env (fresh n) now jr = Inr j \<Longrightarrow> due_followup env st0 j"
  shows "onboarded env fresh N st0 (Suc n) st'"
proof -
  have free: "hm_get (jc_jobs (ap_ansible st)) (fresh n) = None" using on inj(2) by (simp add: onboarded_def)
  show ?thesis
  proof (rule submit_and_persist_cases [OF q free])
    assume "st' = st"
    then show ?thesis using onboarded_later [OF on] by simp
  next
    fix j co db
    assume j: "from_request env (fresh n) now jr = Inr j"
      and st': "st' = st\<lparr>ap_ansible := co, ap_repositories := db\<rparr>"
      and co: "jc_jobs co = hm_insert (fresh n) j (jc_jobs (ap_ansible st))"
      and s: "stored_jobs st' = stored_jobs st \<or> stored_jobs st' = stored_jobs st @ [j]"
    note d = due [OF j]
    obtain js where js: "stored_jobs st = stored_jobs st0 @ js" "list_all (due_followup env st0) js"
      using on unfolding onboarded_def by blast
    have "\<exists>js. stored_jobs st' = stored_jobs st0 @ js \<and> list_all (due_followup env st0) js"
      using s
    proof
      assume "stored_jobs st' = stored_jobs st"
      then show ?thesis using js by auto
    next
      assume "stored_jobs st' = stored_jobs st @ [j]"
      then show ?thesis using js d by (intro exI [of _ "js @ [j]"]) simp
    qed
    moreover have "hm_get (jc_jobs (ap_ansible st')) (fresh m) = None" if "Suc n \<le> m" "m < N" for m
    proof -
      have "fresh m \<noteq> fresh n" using that inj(2) inj_on_eq_iff [OF inj(1), of m n] by simp
      then show ?thesis using on that by (simp add: st' co onboarded_def)
    qed
    moreover have "hm_get (jc_jobs (ap_ansible st')) i = Some x" if "hm_get (jc_jobs (ap_ansible st0)) i = Some x" for i x
    proof -
      have x: "hm_get (jc_jobs (ap_ansible st)) i = Some x" using on that unfolding onboarded_def by blast
      then have "i \<noteq> fresh n" using free by auto
      then show ?thesis using x by (simp add: st' co)
    qed
    moreover have "hm_get (jc_jobs (ap_ansible st0)) i = Some x \<or> due_followup env st0 x"
      if x: "hm_get (jc_jobs (ap_ansible st')) i = Some x" for i x
    proof (cases "i = fresh n")
      case True
      then show ?thesis using x d by (simp add: st' co)
    next
      case False
      then have "hm_get (jc_jobs (ap_ansible st)) i = Some x" using x by (simp add: st' co)
      then show ?thesis using on unfolding onboarded_def by blast
    qed
    moreover have "ap_targets st' = ap_targets st0" using on by (simp add: st' onboarded_def)
    ultimately show ?thesis unfolding onboarded_def by blast
  qed
qed

lemma managed_targetD:
  "managed_target i st = Some t \<Longrightarrow> t \<in> set (ap_targets st) \<and> tg_id t = i \<and> tg_state t = TargetManaged"
  by (auto simp: managed_target_def find_Some_iff)

lemma queue_jobD: "queue_job env up f now jr st = (r, st') \<Longrightarrow> \<exists>r0. submit_and_persist env up f now jr st = (r0, st')"
  by (auto simp: queue_job_def split: prod.splits sum.splits)

lemma onboarded_stored:
  assumes "onboarded env fresh N st0 n st" "x \<in> set (stored_jobs st)" "aj_status x = JSucceeded"
  shows "x \<in> set (stored_jobs st0)"
  using assms by (auto simp: onboarded_def due_followup_def list_all_iff)

lemma deployment_step:
  assumes on: "onboarded env fresh N st0 n st" and inj: "inj_on fresh {..<N}" "n < N"
    and d: "d \<in> set (stored_jobs st0)" "succeeded_deployment d"
    and f: "deployment_followup env up (fresh n) now d st = (r, st')"
  shows "onboarded env fresh N st0 (Suc n) st'"
proof (cases "st' = st")
  case False
  then obtain hk ik i t jobs where k: "followup_keys (aj_idempotency_key d) = Some (hk, ik)"
    and i: "aj_target d = Target i" and t: "managed_target i st = Some t" and jobs: "all_jobs up st = Inr jobs"
    and q: "(case List.find (\<lambda>j. aj_idempotency_key j = hk) jobs of
               None \<Rightarrow> queue_job env up (fresh n) now (health_job_request i hk) st
             | Some health \<Rightarrow> if aj_status health \<noteq> JSucceeded then (Inr 0, st)
                 else if list_ex (\<lambda>j. aj_idempotency_key j = ik) jobs then (Inr 0, st)
                 else queue_job env up (fresh n) now (inventory_job_request t ik) st) = (r, st')"
    using f by (auto simp: deployment_followup_def ensure_deployment_followups_def
        split: option.splits resource_target.splits sum.splits if_splits)
  note mt = managed_targetD [OF t]
  have tm: "t \<in> set (ap_targets st0)" using mt on by (simp add: onboarded_def)
  show ?thesis
  proof (cases "List.find (\<lambda>j. aj_idempotency_key j = hk) jobs")
    case None
    then have "queue_job env up (fresh n) now (health_job_request i hk) st = (r, st')" using q by simp
    then obtain r0 where s: "submit_and_persist env up (fresh n) now (health_job_request i hk) st = (r0, st')"
      using queue_jobD by blast
    show ?thesis
    proof (rule onboarded_queue [OF on inj s])
      fix j assume "from_request env (fresh n) now (health_job_request i hk) = Inr j"
      from from_request_Inr [OF this] show "due_followup env st0 j"
        using tm mt d k i by (auto simp: due_followup_def health_job_request_def)
    qed
  next
    case (Some x)
    then have x: "aj_status x = JSucceeded" using q False by (simp split: if_splits)
    have xk: "aj_idempotency_key x = hk" "x \<in> set jobs" using Some by (auto simp: find_Some_iff)
    then have "x \<in> set (stored_jobs st)" using all_jobs_set [OF jobs] by simp
    then have x0: "x \<in> set (stored_jobs st0)" using onboarded_stored [OF on _ x] by simp
    have "queue_job env up (fresh n) now (inventory_job_request t ik) st = (r, st')"
      using q Some False by (auto split: if_splits)
    then obtain r0 where s: "submit_and_persist env up (fresh n) now (inventory_job_request t ik) st = (r0, st')"
      using queue_jobD by blast
    show ?thesis
    proof (rule onboarded_queue [OF on inj s])
      fix j assume "from_request env (fresh n) now (inventory_job_request t ik) = Inr j"
      from from_request_Inr [OF this] show "due_followup env st0 j"
        using tm mt d k i x xk x0 by (auto simp: due_followup_def inventory_job_request_def)
    qed
  qed
qed (use onboarded_later [OF on] in simp)

lemma update_step:
  assumes on: "onboarded env fresh N st0 n st" and inj: "inj_on fresh {..<N}" "n < N"
    and u: "u \<in> set (stored_jobs st0)" "succeeded_update u"
    and f: "queue_package_inventory_followup env up (fresh n) now u st = (r, st')"
  shows "onboarded env fresh N st0 (Suc n) st'"
proof (cases "st' = st")
  case False
  then obtain i t where i: "aj_target u = Target i" and t: "managed_target i st = Some t"
    and q: "queue_job env up (fresh n) now (inventory_job_request t (update_followup_key env u)) st = (r, st')"
    using f by (auto simp: queue_package_inventory_followup_def update_followup_key_def Let_def
        split: option.splits resource_target.splits sum.splits)
  note mt = managed_targetD [OF t]
  have tm: "t \<in> set (ap_targets st0)" using mt on by (simp add: onboarded_def)
  obtain r0 where s: "submit_and_persist env up (fresh n) now (inventory_job_request t (update_followup_key env u)) st = (r0, st')"
    using queue_jobD [OF q] by blast
  show ?thesis
  proof (rule onboarded_queue [OF on inj s])
    fix j assume "from_request env (fresh n) now (inventory_job_request t (update_followup_key env u)) = Inr j"
    from from_request_Inr [OF this] show "due_followup env st0 j"
      using tm mt u i by (auto simp: due_followup_def inventory_job_request_def)
  qed
qed (use onboarded_later [OF on] in simp)

lemma followups_onboarded:
  assumes step: "\<And>n up now j st r st'. n < N \<Longrightarrow> onboarded env fresh N st0 n st \<Longrightarrow> j \<in> set js0 \<Longrightarrow>
      f up (fresh n) now j st = (r, st') \<Longrightarrow> onboarded env fresh N st0 (Suc n) st'"
    and o_env: "oe_fresh o_env = fresh"
  shows "set js \<subseteq> set js0 \<Longrightarrow> n + length js \<le> N \<Longrightarrow> onboarded env fresh N st0 n st \<Longrightarrow> followups f o_env n js st = (k, st') \<Longrightarrow>
    onboarded env fresh N st0 (n + length js) st'"
proof (induction js arbitrary: n st k st')
  case (Cons j js)
  obtain r st1 where f: "f (oe_up o_env n) (fresh n) (oe_now o_env n) j st = (r, st1)" by fastforce
  obtain k2 st2 where g: "followups f o_env (Suc n) js st1 = (k2, st2)" by fastforce
  have "onboarded env fresh N st0 (Suc n) st1" using step [OF _ Cons.prems(3) _ f] Cons.prems(1,2) by simp
  from Cons.IH [OF _ _ this g] Cons.prems show ?case by (simp add: f g o_env)
qed simp

section \<open>Repeating a follow-up\<close>

text \<open>A submission repeated right away finds its key.\<close>

lemma resubmitted:
  assumes "hm_get (jc_idempotency (ap_ansible st)) (jr_target jr, jr_idempotency_key jr) = Some i"
  shows "snd (queue_job env up f now jr st) = st"
proof (cases "hm_get (jc_jobs (ap_ansible st)) i")
  case None
  then show ?thesis using assms by (simp add: queue_job_def submit_and_persist_def submit_def Let_def)
next
  case (Some j)
  then show ?thesis using assms by (simp add: queue_job_def submit_and_persist_def submit_def Let_def)
qed

lemma queue_job_again:
  assumes q: "queue_job env up f now jr st = (r, st')" and free: "hm_get (jc_jobs (ap_ansible st)) f = None"
    and stable: "\<And>f' now'. is_ok (from_request env f' now' jr) \<longleftrightarrow> is_ok (from_request env f now jr)"
  shows "snd (queue_job env up2 f2 now2 jr st') = st'"
proof -
  obtain r0 where s: "submit_and_persist env up f now jr st = (r0, st')" using queue_jobD [OF q] by blast
  show ?thesis
  proof (rule submit_and_persist_cases [OF s free])
    fix j co db
    assume st': "st' = st\<lparr>ap_ansible := co, ap_repositories := db\<rparr>"
      and co: "jc_idempotency co = hm_insert (jr_target jr, jr_idempotency_key jr) f (jc_idempotency (ap_ansible st))"
    show ?thesis by (rule resubmitted [of _ _ f]) (simp add: st' co)
  next
    assume same: "st' = st" and no: "\<And>j. r0 \<noteq> Inr (202, j)"
    show ?thesis
    proof (cases "hm_get (jc_idempotency (ap_ansible st)) (jr_target jr, jr_idempotency_key jr)")
      case (Some i)
      then show ?thesis using resubmitted same by blast
    next
      case None
      have "\<not> is_ok (from_request env f now jr)"
      proof
        assume "is_ok (from_request env f now jr)"
        then obtain j where "from_request env f now jr = Inr j" by (auto simp: is_ok_iff)
        then obtain co where "submit env f now jr (ap_ansible st) = Inr (JobCreated j, co)"
          using None by (auto simp: submit_def Let_def)
        note c = submit_created(3) [OF this] this
        then have "snd (persist_created_job up j (st\<lparr>ap_ansible := co\<rparr>)) = st'"
          using s by (auto simp: submit_and_persist_def split: prod.splits sum.splits)
        then have "jc_jobs (ap_ansible st') = jc_jobs co"
          by (auto simp: persist_created_job_def split: option.splits sum.splits prod.splits)
        then show False using same c(1) free by (metis hm_get_insert option.discI)
      qed
      then have "\<not> is_ok (from_request env f2 now2 jr)" using stable [of f2 now2] by simp
      then show ?thesis using None same
        by (cases "from_request env f2 now2 jr") (auto simp: queue_job_def submit_and_persist_def submit_def Let_def)
    qed
  qed
qed

lemma from_request_stable: "is_ok (from_request env f' now' jr) \<longleftrightarrow> is_ok (from_request env f now jr)"
  by (simp add: from_request_def Let_def is_ok_bindR_const)

lemma all_jobs_det: "all_jobs up st = Inr js \<Longrightarrow> all_jobs up' st = Inr js' \<Longrightarrow> js' = js"
  by (auto simp: all_jobs_def list_jobs_def db_read_def split: option.splits if_splits)

lemma followup_keys_differ: "followup_keys key = Some (hk, ik) \<Longrightarrow> hk \<noteq> ik"
  by (auto simp: followup_keys_def lit_Cons split: option.splits)

lemma queue_job_frame:
  assumes "queue_job env up f now jr st = (r, st')" "hm_get (jc_jobs (ap_ansible st)) f = None"
  obtains (same) "st' = st"
  | (created) j where "from_request env f now jr = Inr j" "ap_targets st' = ap_targets st"
      "stored_jobs st' = stored_jobs st \<or> stored_jobs st' = stored_jobs st @ [j]"
proof -
  obtain r0 where s: "submit_and_persist env up f now jr st = (r0, st')" using queue_jobD [OF assms(1)] by blast
  show ?thesis by (rule submit_and_persist_cases [OF s assms(2)]) (use same created in auto)
qed

text \<open>
  What a follow-up of a deployment does. When it has nothing to do this depends on the state only,
  not on the answers of the database.
\<close>

definition settled :: "ansible_env \<Rightarrow> ansible_job \<Rightarrow> api_state \<Rightarrow> bool" where
  "settled env d st \<longleftrightarrow> (\<forall>up f now. snd (deployment_followup env up f now d st) = st)"

lemma deployment_followup_cases:
  assumes "deployment_followup env up f now d st = (r, st')"
  obtains (idle) "st' = st" "settled env d st" "r = Inr 0"
  | (unanswered) e where "st' = st" "r = Inl e"
  | (health) hk ik i t jobs where "followup_keys (aj_idempotency_key d) = Some (hk, ik)" "aj_target d = Target i"
      "managed_target i st = Some t" "all_jobs up st = Inr jobs" "hk \<notin> aj_idempotency_key ` set jobs"
      "queue_job env up f now (health_job_request i hk) st = (r, st')"
  | (inventory) hk ik i t jobs x where "followup_keys (aj_idempotency_key d) = Some (hk, ik)" "aj_target d = Target i"
      "managed_target i st = Some t" "all_jobs up st = Inr jobs" "x \<in> set jobs" "aj_idempotency_key x = hk"
      "aj_status x = JSucceeded" "ik \<notin> aj_idempotency_key ` set jobs"
      "queue_job env up f now (inventory_job_request t ik) st = (r, st')"
proof (cases "followup_keys (aj_idempotency_key d)")
  case None
  then have "st' = st" "settled env d st" "r = Inr 0"
    using assms by (auto simp: settled_def deployment_followup_def)
  then show ?thesis by (rule idle)
next
  case (Some ks)
  obtain hk ik where ks: "ks = (hk, ik)" by (cases ks) auto
  have df: "deployment_followup env u g n d st = ensure_deployment_followups env u g n d hk ik st" for u g n
    using Some ks by (simp add: deployment_followup_def)
  note e = assms [unfolded df]
  show ?thesis
  proof (cases "\<exists>i t. aj_status d = JSucceeded \<and> aj_target d = Target i \<and> managed_target i st = Some t")
    case False
    then have no: "ensure_deployment_followups env u g n d hk ik st = (Inr 0, st)" for u g n
      by (auto simp: ensure_deployment_followups_def split: resource_target.splits option.splits)
    have "settled env d st" by (simp add: settled_def df no)
    then show ?thesis using e no idle by simp
  next
    case True
    then obtain i t where g: "aj_status d = JSucceeded" "aj_target d = Target i" "managed_target i st = Some t" by blast
    show ?thesis
    proof (cases "all_jobs up st")
      case (Inl err)
      then show ?thesis using e g by (intro unanswered [of err]) (auto simp: ensure_deployment_followups_def)
    next
      case jobs: (Inr jobs)
      show ?thesis
      proof (cases "List.find (\<lambda>j. aj_idempotency_key j = hk) jobs")
        case None
        then have "hk \<notin> aj_idempotency_key ` set jobs" by (auto simp: find_None_iff)
        moreover have "queue_job env up f now (health_job_request i hk) st = (r, st')"
          using None e g jobs by (simp add: ensure_deployment_followups_def)
        ultimately show ?thesis using health g jobs Some ks by blast
      next
        case x: (Some x)
        then have xk: "x \<in> set jobs" "aj_idempotency_key x = hk" by (auto simp: find_Some_iff)
        show ?thesis
        proof (cases "aj_status x = JSucceeded \<and> ik \<notin> aj_idempotency_key ` set jobs")
          case True
          then have "\<not> list_ex (\<lambda>j. aj_idempotency_key j = ik) jobs" by (auto simp: list_ex_iff)
          then show ?thesis using e g jobs Some ks x xk True
            by (intro inventory [of hk ik i t jobs x]) (simp_all add: ensure_deployment_followups_def)
        next
          case False
          then have no: "aj_status x \<noteq> JSucceeded \<or> list_ex (\<lambda>j. aj_idempotency_key j = ik) jobs"
            by (auto simp: list_ex_iff)
          have "snd (ensure_deployment_followups env u gg n d hk ik st) = st" for u gg n
          proof (cases "all_jobs u st")
            case (Inr js)
            then show ?thesis using all_jobs_det [OF jobs Inr] g x no by (auto simp: ensure_deployment_followups_def)
          qed (use g in \<open>simp add: ensure_deployment_followups_def\<close>)
          then have "settled env d st" by (simp add: settled_def df)
          moreover have "st' = st" "r = Inr 0"
            using e g x no jobs by (auto simp: ensure_deployment_followups_def split: if_splits)
          ultimately show ?thesis using idle by blast
        qed
      qed
    qed
  qed
qed

lemma managed_target_cong: "ap_targets st' = ap_targets st \<Longrightarrow> managed_target i st' = managed_target i st"
  by (simp add: managed_target_def)

lemma followup_again:
  assumes q: "deployment_followup env up f now d st = (r, st')" and free: "hm_get (jc_jobs (ap_ansible st)) f = None"
    and ok: "is_ok r \<or> st' \<noteq> st"
  shows "snd (deployment_followup env up2 f2 now2 d st') = st'"
proof -
  obtain r2 st2 where q2: "deployment_followup env up2 f2 now2 d st' = (r2, st2)" by fastforce
  have "st2 = st'"
    using q
  proof (cases rule: deployment_followup_cases)
    case idle
    then show ?thesis using q2 by (metis settled_def snd_conv)
  next
    case (unanswered e)
    then show ?thesis using ok by simp
  next
    case (health hk ik i t jobs)
    have again: "snd (queue_job env up2 f2 now2 (health_job_request i hk) st') = st'"
      by (rule queue_job_again [OF health(6) free from_request_stable])
    have x: "aj_status x \<noteq> JSucceeded" if x: "x \<in> set (stored_jobs st')" "aj_idempotency_key x = hk" for x
      using health(6) free
    proof (cases rule: queue_job_frame)
      case same
      then show ?thesis using x health(5) all_jobs_set [OF health(4)] by auto
    next
      case (created j)
      have "aj_status j = JQueued" using from_request_Inr(2) [OF created(1)] .
      then show ?thesis using x created(3) health(5) all_jobs_set [OF health(4)] by auto
    qed
    show ?thesis
      using q2
    proof (cases rule: deployment_followup_cases)
      case (health hk2 ik2 i2 t2 jobs2)
      then show ?thesis using again \<open>followup_keys (aj_idempotency_key d) = Some (hk, ik)\<close> \<open>aj_target d = Target i\<close>
        by auto
    next
      case (inventory hk2 ik2 i2 t2 jobs2 y)
      then have "y \<in> set (stored_jobs st')" "aj_idempotency_key y = hk"
        using all_jobs_set [OF inventory(4)] \<open>followup_keys (aj_idempotency_key d) = Some (hk, ik)\<close> by auto
      then show ?thesis using x inventory(7) by blast
    qed simp_all
  next
    case (inventory hk ik i t jobs x)
    have again: "snd (queue_job env up2 f2 now2 (inventory_job_request t ik) st') = st'"
      by (rule queue_job_again [OF inventory(9) free from_request_stable])
    have kept: "x \<in> set (stored_jobs st')" "ap_targets st' = ap_targets st"
      using inventory(9) free
      by (cases rule: queue_job_frame; use inventory(5) all_jobs_set [OF inventory(4)] in auto)+
    show ?thesis
      using q2
    proof (cases rule: deployment_followup_cases)
      case (health hk2 ik2 i2 t2 jobs2)
      then show ?thesis using kept(1) all_jobs_set [OF health(4)] inventory(1,6) by auto
    next
      case (inventory hk2 ik2 i2 t2 jobs2 y)
      then show ?thesis using again \<open>followup_keys (aj_idempotency_key d) = Some (hk, ik)\<close> \<open>aj_target d = Target i\<close>
          \<open>managed_target i st = Some t\<close> managed_target_cong [OF kept(2)]
        by auto
    qed simp_all
  qed
  then show ?thesis using q2 by simp
qed

end
