(* ===== verification/EnrollmentLaws.thy ===== *)
theory EnrollmentLaws
  imports OnboardingLaws ControllerLaws
begin

text \<open>
  The enrollments of the server: what creating, polling and the removal of a target do to the list
  of enrollments and to the index of their idempotency keys.
\<close>

section \<open>The registry\<close>

text \<open>
  Every enrollment has its own id and its key in the index, the index points to enrollments only, a
  container has at most one enrollment in progress and a target belongs to one container.
\<close>

definition indexed :: "enrollment list \<Rightarrow> (str, uuid) hashmap \<Rightarrow> bool" where
  "indexed es keys \<longleftrightarrow> hm_ok keys
     \<and> (\<forall>k i. hm_get keys k = Some i \<longleftrightarrow> (\<exists>e \<in> set es. en_id e = i \<and> en_idempotency_key e = k))"

definition one_active :: "enrollment list \<Rightarrow> bool" where
  "one_active es \<longleftrightarrow> (\<forall>a \<in> set es. \<forall>b \<in> set es. en_container_id a = en_container_id b
     \<longrightarrow> enrollment_is_active (en_state a) \<longrightarrow> enrollment_is_active (en_state b) \<longrightarrow> a = b)"

definition one_container :: "enrollment list \<Rightarrow> bool" where
  "one_container es \<longleftrightarrow> (\<forall>a \<in> set es. \<forall>b \<in> set es. \<forall>i. en_target_id a = Some i
     \<longrightarrow> en_target_id b = Some i \<longrightarrow> en_container_id a = en_container_id b)"

definition registry_ok :: "enrollment list \<Rightarrow> (str, uuid) hashmap \<Rightarrow> bool" where
  "registry_ok es keys \<longleftrightarrow> distinct (map en_id es) \<and> list_all enrollment_ok es
     \<and> indexed es keys \<and> one_active es \<and> one_container es"

lemma indexedD: "indexed es keys \<Longrightarrow>
    hm_get keys k = Some i \<longleftrightarrow> (\<exists>e \<in> set es. en_id e = i \<and> en_idempotency_key e = k)"
  unfolding indexed_def by blast

lemma one_activeD:
  "one_active es \<Longrightarrow> a \<in> set es \<Longrightarrow> b \<in> set es \<Longrightarrow> en_container_id a = en_container_id b \<Longrightarrow>
    enrollment_is_active (en_state a) \<Longrightarrow> enrollment_is_active (en_state b) \<Longrightarrow> a = b"
  unfolding one_active_def by blast

lemma one_containerD:
  "one_container es \<Longrightarrow> a \<in> set es \<Longrightarrow> b \<in> set es \<Longrightarrow> en_target_id a = Some i \<Longrightarrow> en_target_id b = Some i \<Longrightarrow>
    en_container_id a = en_container_id b"
  unfolding one_container_def by blast

lemma subset_registry:
  "set xs \<subseteq> set es \<Longrightarrow> one_active es \<Longrightarrow> one_active xs"
  "set xs \<subseteq> set es \<Longrightarrow> one_container es \<Longrightarrow> one_container xs"
  unfolding one_active_def one_container_def by blast+

lemma registry_add:
  assumes ok: "registry_ok es keys" and e: "enrollment_ok e" "en_id e \<notin> en_id ` set es"
    and key: "hm_get keys (en_idempotency_key e) = None"
    and active: "\<not> (\<exists>x \<in> set es. en_container_id x = en_container_id e \<and> enrollment_is_active (en_state x))"
    and target: "\<And>x i. x \<in> set es \<Longrightarrow> en_target_id x = Some i \<Longrightarrow> en_target_id e = Some i \<Longrightarrow>
        en_container_id x = en_container_id e"
  shows "registry_ok (es @ [e]) (hm_insert (en_idempotency_key e) (en_id e) keys)"
proof -
  have ix: "indexed es keys" and "one_active es" and "one_container es" using ok by (simp_all add: registry_ok_def)
  have other: "en_idempotency_key x \<noteq> en_idempotency_key e" if "x \<in> set es" for x
  proof
    assume "en_idempotency_key x = en_idempotency_key e"
    then have "hm_get keys (en_idempotency_key e) = Some (en_id x)" using indexedD [OF ix] that by blast
    then show False using key by simp
  qed
  have "indexed (es @ [e]) (hm_insert (en_idempotency_key e) (en_id e) keys)"
    unfolding indexed_def
  proof (intro conjI allI)
    fix k i
    show "hm_get (hm_insert (en_idempotency_key e) (en_id e) keys) k = Some i \<longleftrightarrow>
        (\<exists>x \<in> set (es @ [e]). en_id x = i \<and> en_idempotency_key x = k)"
      using other by (cases "k = en_idempotency_key e") (auto simp: indexedD [OF ix])
  qed (use ix in \<open>simp add: indexed_def\<close>)
  moreover have "one_active (es @ [e])"
    using \<open>one_active es\<close> active by (simp add: one_active_def)
  moreover have "one_container (es @ [e])"
    unfolding one_container_def
  proof (intro ballI allI impI)
    fix a b i
    assume "a \<in> set (es @ [e])" "b \<in> set (es @ [e])" and i: "en_target_id a = Some i" "en_target_id b = Some i"
    then consider "a \<in> set es" "b \<in> set es" | "a = e" "b \<in> set es" | "a \<in> set es" "b = e" | "a = e" "b = e" by auto
    then show "en_container_id a = en_container_id b"
    proof cases
      case 1
      then show ?thesis using one_containerD [OF \<open>one_container es\<close>] i by blast
    next
      case 2
      then show ?thesis using target [of b i] i by simp
    qed (use target [of a i] i in simp_all)
  qed
  ultimately show ?thesis using ok e by (simp add: registry_ok_def)
qed

text \<open>A change of states that activates no enrollment keeps the registry.\<close>

definition tame :: "(enrollment \<Rightarrow> enrollment) \<Rightarrow> bool" where
  "tame f \<longleftrightarrow> (\<forall>e. en_id (f e) = en_id e \<and> en_container_id (f e) = en_container_id e
     \<and> en_target_id (f e) = en_target_id e \<and> en_idempotency_key (f e) = en_idempotency_key e
     \<and> (enrollment_ok e \<longrightarrow> enrollment_ok (f e))
     \<and> (enrollment_is_active (en_state (f e)) \<longrightarrow> enrollment_is_active (en_state e)))"

lemma tameD:
  assumes "tame f"
  shows "en_id (f e) = en_id e" "en_container_id (f e) = en_container_id e" "en_target_id (f e) = en_target_id e"
    "en_idempotency_key (f e) = en_idempotency_key e" "enrollment_ok e \<Longrightarrow> enrollment_ok (f e)"
    "enrollment_is_active (en_state (f e)) \<Longrightarrow> enrollment_is_active (en_state e)"
  using assms unfolding tame_def by blast+

lemma update_first_as_map:
  "distinct (map key xs) \<Longrightarrow>
     update_first (\<lambda>x. key x = i) f xs = map (\<lambda>x. if key x = i then f x else x) xs"
proof (induction xs)
  case (Cons x xs)
  have "map (\<lambda>y. if key y = key x then f y else y) xs = xs" if "key x \<notin> key ` set xs"
    using that by (intro map_idI) (metis imageI)
  then show ?case using Cons by auto
qed simp

lemma registry_map:
  assumes ok: "registry_ok es keys" and f: "tame f"
  shows "registry_ok (map f es) keys"
proof -
  note [simp] = tameD(1-4) [OF f]
  have "distinct (map en_id (map f es))" using ok by (simp add: registry_ok_def comp_def)
  moreover have "list_all enrollment_ok (map f es)"
    using ok tameD(5) [OF f] by (simp add: registry_ok_def list_all_iff)
  moreover have "indexed (map f es) keys" using ok by (simp add: registry_ok_def indexed_def)
  moreover have "one_active (map f es)"
    unfolding one_active_def
  proof (intro ballI impI)
    fix x y
    assume "x \<in> set (map f es)" "y \<in> set (map f es)"
    then obtain a b where ab: "x = f a" "y = f b" "a \<in> set es" "b \<in> set es" by auto
    assume c: "en_container_id x = en_container_id y" "enrollment_is_active (en_state x)" "enrollment_is_active (en_state y)"
    have "a = b"
      by (rule one_activeD [OF _ ab(3,4)]) (use ok c ab tameD(6) [OF f] in \<open>simp_all add: registry_ok_def\<close>)
    then show "x = y" using ab by simp
  qed
  moreover have "one_container (map f es)"
    using ok by (auto simp: registry_ok_def one_container_def [of "map f es"] intro: one_containerD)
  ultimately show ?thesis unfolding registry_ok_def by simp
qed

lemma registry_update:
  assumes "registry_ok es keys" "tame f"
  shows "registry_ok (update_first (\<lambda>e. en_id e = i) f es) keys"
proof -
  have "tame (\<lambda>e. if en_id e = i then f e else e)" using tameD [OF assms(2)] by (simp add: tame_def)
  from registry_map [OF assms(1) this] show ?thesis
    using assms(1) by (simp add: update_first_as_map registry_ok_def)
qed

lemma registry_forget:
  assumes "registry_ok es keys"
  shows "registry_ok (filter p es) (hm_retain (\<lambda>_ i. i \<in> set (map en_id (filter p es))) keys)" (is "registry_ok _ ?keys")
proof -
  have d: "distinct (map en_id es)" and ix: "indexed es keys" using assms by (simp_all add: registry_ok_def)
  have h: "hm_ok keys" using ix by (simp add: indexed_def)
  have "indexed (filter p es) ?keys"
    unfolding indexed_def
  proof (intro conjI allI)
    fix k i
    have "hm_get ?keys k = Some i \<longleftrightarrow> hm_get keys k = Some i \<and> i \<in> en_id ` set (filter p es)"
      using h by (auto simp: hm_get_retain split: option.splits if_splits)
    also have "\<dots> \<longleftrightarrow> (\<exists>e \<in> set (filter p es). en_id e = i \<and> en_idempotency_key e = k)"
    proof
      assume "hm_get keys k = Some i \<and> i \<in> en_id ` set (filter p es)"
      then obtain a b where "a \<in> set es" "en_id a = i" "en_idempotency_key a = k" "b \<in> set (filter p es)" "en_id b = i"
        using indexedD [OF ix] by blast
      moreover from this have "a = b" using d by (auto simp: distinct_map dest: inj_onD)
      ultimately show "\<exists>e \<in> set (filter p es). en_id e = i \<and> en_idempotency_key e = k" by blast
    next
      assume "\<exists>e \<in> set (filter p es). en_id e = i \<and> en_idempotency_key e = k"
      then show "hm_get keys k = Some i \<and> i \<in> en_id ` set (filter p es)" by (auto simp: indexedD [OF ix])
    qed
    finally show "hm_get ?keys k = Some i \<longleftrightarrow> (\<exists>e \<in> set (filter p es). en_id e = i \<and> en_idempotency_key e = k)" .
  qed (use h in simp)
  moreover have "distinct (map en_id (filter p es))" using d by (rule distinct_map_filter)
  moreover have "one_active (filter p es)" "one_container (filter p es)"
    using assms by (auto simp: registry_ok_def intro: subset_registry [of _ es])
  moreover have "list_all enrollment_ok (filter p es)" using assms by (simp add: registry_ok_def list_all_iff)
  ultimately show ?thesis unfolding registry_ok_def by simp
qed

section \<open>Creating an enrollment\<close>

text \<open>Queuing the job of an enrollment starts its discovery, or it fails and leaves it as it is.\<close>

lemma queue_enrollment_job_cases:
  assumes q: "queue_enrollment_job env up fj now ti i c = (r, c')"
    and e: "ct_enrollments c = es @ [e]" "en_id e = i" "i \<notin> en_id ` set es" "en_state e = Requested"
  obtains (kept) "ct_enrollments c' = es @ [e]" "ct_enrollment_keys c' = ct_enrollment_keys c"
      "ap_targets (ct_api c') = ap_targets (ct_api c)" "ap_containers (ct_api c') = ap_containers (ct_api c)"
      "is_ok r \<or> ap_repositories (ct_api c') = ap_repositories (ct_api c)
         \<and> (ap_repositories (ct_api c) = None \<longrightarrow> ap_ansible (ct_api c') = ap_ansible (ct_api c))"
  | (started) e1 where "r = Inr ()" "enrollment_transition_to Discovering now e = Inr e1"
      "ct_enrollments c' = es @ [e1]" "ct_enrollment_keys c' = ct_enrollment_keys c"
      "ap_targets (ct_api c') = ap_targets (ct_api c)" "ap_containers (ct_api c') = ap_containers (ct_api c)"
proof -
  obtain e1 where e1: "enrollment_transition_to Discovering now e = Inr e1"
    using e(4) by (simp add: enrollment_transition_to_def)
  have sd: "start_discovery now i c2 = (Inr (), set_enrollments (es @ [e1]) c2)" if "ct_enrollments c2 = es @ [e]" for c2
  proof -
    have "List.find (\<lambda>x. en_id x = i) (es @ [e]) = Some e" "update_first (\<lambda>x. en_id x = i) (\<lambda>_. e1) (es @ [e]) = es @ [e1]"
      using e(2,3) by (induction es) auto
    then show ?thesis using that e1 by (simp add: start_discovery_def)
  qed
  show ?thesis
  proof (cases ti)
    case None
    then show ?thesis using q e kept by (auto simp: queue_enrollment_job_def)
  next
    case (Some t)
    show ?thesis
    proof (cases "find_target t (ct_api c)")
      case None
      then show ?thesis using q e kept Some by (auto simp: queue_enrollment_job_def)
    next
      case tg: (Some tg)
      let ?s = "submit env fj now (deploy_job_request (lifecycle_of_target (tg_state tg)) (lit ''0.3.1'') Operator tg
        (enrollment_key env i)) (ap_ansible (ct_api c))"
      show ?thesis
      proof (cases ?s)
        case (Inl err)
        then show ?thesis using q e kept Some tg by (auto simp: queue_enrollment_job_def)
      next
        case (Inr x)
        obtain sub co where x: "x = (sub, co)" by (cases x) auto
        show ?thesis
        proof (cases sub)
          case (JobDuplicate j)
          then show ?thesis using q e kept Some tg Inr x by (auto simp: queue_enrollment_job_def)
        next
          case (JobCreated j)
          show ?thesis
          proof (cases "ap_repositories (ct_api c)")
            case None
            then show ?thesis using q e started [OF _ e1] Some tg Inr x JobCreated
              by (auto simp: queue_enrollment_job_def Let_def sd set_enrollments_def)
          next
            case db: (Some db)
            obtain w db1 where w: "save_job (up CallSaveJob) j db = (w, db1)" by fastforce
            show ?thesis
            proof (cases w)
              case (Inl err)
              then have "db1 = db" using w by (auto simp: save_job_def db_write_def Let_def split: if_splits)
              then show ?thesis using q e kept Some tg x JobCreated db w Inl \<open>?s = Inr x\<close>
                by (auto simp: queue_enrollment_job_def Let_def)
            next
              case (Inr y)
              then show ?thesis using q e started [OF _ e1] Some tg x JobCreated db w \<open>?s = Inr x\<close>
                by (auto simp: queue_enrollment_job_def Let_def sd set_enrollments_def)
            qed
          qed
        qed
      qed
    qed
  qed
qed

text \<open>
  A request is answered from what is known, or it adds one enrollment whose key, container and target
  were free. With an error the added enrollment stays requested and no job is stored.
\<close>

lemma create_enrollment_cases:
  assumes q: "create_enrollment env up fresh fj now r c = (res, c')" and free: "fresh \<notin> en_id ` set (ct_enrollments c)"
  obtains (known) "c' = c" "res = None \<longrightarrow> (\<exists>i. hm_get (ct_enrollment_keys c) (ce_idempotency_key r) = Some i
        \<and> i \<notin> en_id ` set (ct_enrollments c))"
  | (added) e where "check_enrollment r c = Inr ()" "hm_get (ct_enrollment_keys c) (ce_idempotency_key r) = None"
      "\<not> (\<exists>x \<in> set (ct_enrollments c). en_container_id x = ce_container_id r \<and> enrollment_is_active (en_state x))"
      "ct_enrollments c' = ct_enrollments c @ [e]"
      "ct_enrollment_keys c' = hm_insert (ce_idempotency_key r) fresh (ct_enrollment_keys c)"
      "ap_targets (ct_api c') = ap_targets (ct_api c)" "ap_containers (ct_api c') = ap_containers (ct_api c)"
      "en_id e = fresh" "en_container_id e = ce_container_id r" "en_target_id e = ce_target_id r"
      "en_idempotency_key e = ce_idempotency_key r" "enrollment_ok e" "en_state e \<in> {Requested, Discovering}"
      "(\<exists>x. res = Some (Inr x)) \<or> (\<exists>err. res = Some (Inl err)) \<and> en_state e = Requested
         \<and> ap_repositories (ct_api c') = ap_repositories (ct_api c)
         \<and> (ap_repositories (ct_api c) = None \<longrightarrow> ap_ansible (ct_api c') = ap_ansible (ct_api c))"
proof (cases "check_enrollment r c")
  case (Inl err)
  then show ?thesis using q known by (auto simp: create_enrollment_def)
next
  case chk: (Inr u)
  show ?thesis
  proof (cases "hm_get (ct_enrollment_keys c) (ce_idempotency_key r)")
    case (Some i)
    show ?thesis
      by (rule known; use q chk Some in \<open>auto simp: create_enrollment_def find_None_iff split: option.splits if_splits\<close>)
  next
    case key: None
    show ?thesis
    proof (cases "list_ex (\<lambda>e. en_container_id e = ce_container_id r \<and> enrollment_is_active (en_state e)) (ct_enrollments c)
        \<or> \<not> is_ok (enrollment_new fresh now (ce_container_id r) (ce_idempotency_key r))")
      case True
      then show ?thesis using q chk key known
        by (auto simp: create_enrollment_def is_ok_iff split: sum.splits if_splits)
    next
      case False
      then obtain e0 where e0: "enrollment_new fresh now (ce_container_id r) (ce_idempotency_key r) = Inr e0"
        by (auto simp: is_ok_iff)
      let ?e = "e0\<lparr>en_target_id := ce_target_id r\<rparr>"
      have f: "en_id ?e = fresh" "en_container_id ?e = ce_container_id r" "en_target_id ?e = ce_target_id r"
        "en_idempotency_key ?e = ce_idempotency_key r" "en_state ?e = Requested" "enrollment_ok ?e"
        using e0 enrollment_ok_ops(1) [OF e0] by (auto simp: enrollment_new_def enrollment_ok_def split: if_splits)
      let ?c1 = "c\<lparr>ct_enrollment_keys := hm_insert (ce_idempotency_key r) fresh (ct_enrollment_keys c),
                    ct_enrollments := ct_enrollments c @ [?e]\<rparr>"
      obtain w c2 where w: "(if ce_start_onboarding r then queue_enrollment_job env up fj now (ce_target_id r) fresh ?c1
          else (Inr (), ?c1)) = (w, c2)" by fastforce
      have idle: "\<not> list_ex (\<lambda>e. en_container_id e = ce_container_id r \<and> enrollment_is_active (en_state e)) (ct_enrollments c)"
        using False by simp
      have "create_enrollment env up fresh fj now r c =
          (case (w, c2) of (Inl err, c2) \<Rightarrow> (Some (Inl err), c2) | (Inr _, c2) \<Rightarrow> (Some (Inr (202, ?e)), c2))"
        by (simp only: create_enrollment_def chk key e0 idle w Let_def f(1) sum.case option.case if_False)
      then have res: "c' = c2" "res = Some (case w of Inl err \<Rightarrow> Inl err | Inr _ \<Rightarrow> Inr (202, ?e))"
        using q by (auto split: sum.splits)
      have no: "\<not> (\<exists>x \<in> set (ct_enrollments c). en_container_id x = ce_container_id r \<and> enrollment_is_active (en_state x))"
        using False by (auto simp: list_ex_iff)
      have "check_enrollment r c = Inr ()" using chk by simp
      note add = added [OF this key no]
      show ?thesis
      proof (cases "ce_start_onboarding r")
        case False
        then show ?thesis using w res f by (intro add [of ?e]) auto
      next
        case True
        have es: "ct_enrollments ?c1 = ct_enrollments c @ [?e]" by simp
        have "queue_enrollment_job env up fj now (ce_target_id r) fresh ?c1 = (w, c2)" using w True by simp
        from this es f(1) free f(5) show ?thesis
        proof (cases rule: queue_enrollment_job_cases)
          case kept
          then show ?thesis using res f by (intro add [of ?e]) (auto split: sum.splits)
        next
          case (started e1)
          have "en_id e1 = fresh" "en_container_id e1 = ce_container_id r" "en_target_id e1 = ce_target_id r"
            "en_idempotency_key e1 = ce_idempotency_key r" "en_state e1 = Discovering"
            using started(2) f by (auto simp: enrollment_transition_to_def split: if_splits)
          then show ?thesis using started res enrollment_ok_ops(2) [OF f(6) started(2)] by (intro add [of e1]) auto
        qed
      qed
    qed
  qed
qed

lemma check_enrollmentD:
  assumes "check_enrollment r c = Inr u" "x \<in> set (ct_enrollments c)" "en_target_id x = Some i" "ce_target_id r = Some i"
  shows "en_container_id x = ce_container_id r"
  using assms
  by (auto simp: check_enrollment_def check_enrollment_target_def list_ex_iff split: if_splits option.splits)

lemma create_enrollment_registry:
  assumes "registry_ok (ct_enrollments c) (ct_enrollment_keys c)" "fresh \<notin> en_id ` set (ct_enrollments c)"
    "create_enrollment env up fresh fj now r c = (res, c')"
  shows "registry_ok (ct_enrollments c') (ct_enrollment_keys c')" "res \<noteq> None"
proof -
  have "registry_ok (ct_enrollments c') (ct_enrollment_keys c') \<and> res \<noteq> None"
    using assms(3,2)
  proof (cases rule: create_enrollment_cases)
    case known
    have "i \<in> en_id ` set (ct_enrollments c)" if "hm_get (ct_enrollment_keys c) k = Some i" for k i
      using assms(1) that indexedD by (auto simp: registry_ok_def)
    then show ?thesis using known assms(1) by auto
  next
    case (added e)
    have "registry_ok (ct_enrollments c @ [e]) (hm_insert (en_idempotency_key e) (en_id e) (ct_enrollment_keys c))"
    proof (rule registry_add [OF assms(1)])
      fix x i
      assume "x \<in> set (ct_enrollments c)" "en_target_id x = Some i" "en_target_id e = Some i"
      then show "en_container_id x = en_container_id e"
        using check_enrollmentD [OF added(1)] added(9,10) by simp
    qed (use assms(2) added in simp_all)
    then show ?thesis using added by auto
  qed
  then show "registry_ok (ct_enrollments c') (ct_enrollment_keys c')" "res \<noteq> None" by blast+
qed

section \<open>Polling an enrollment\<close>

lemma try_transition_fields [simp]:
  "en_id (try_transition s now e) = en_id e" "en_container_id (try_transition s now e) = en_container_id e"
  "en_target_id (try_transition s now e) = en_target_id e"
  "en_idempotency_key (try_transition s now e) = en_idempotency_key e"
  "en_state (try_transition s now e) = (if enrollment_can_transition_to (en_state e) s then s else en_state e)"
  by (auto simp: try_transition_def enrollment_transition_to_def)

lemma try_transition_ok: "enrollment_ok e \<Longrightarrow> enrollment_ok (try_transition s now e)"
  using enrollment_ok_ops(2) by (auto simp: try_transition_def split: sum.splits)

lemma advance_tame: "tame (advance_enrollment now s b)"
proof -
  have "enrollment_is_active (en_state (advance_enrollment now s b e)) \<longrightarrow> enrollment_is_active (en_state e)" for e
    by (cases "en_state e") (auto simp: advance_enrollment_def enrollment_fail_def enrollment_is_active_def)
  moreover have "enrollment_ok (advance_enrollment now s b e)" if "enrollment_ok e" for e
    using that enrollment_ok_ops(3) try_transition_ok by (simp add: advance_enrollment_def)
  moreover have "en_id (advance_enrollment now s b e) = en_id e"
    "en_container_id (advance_enrollment now s b e) = en_container_id e"
    "en_target_id (advance_enrollment now s b e) = en_target_id e"
    "en_idempotency_key (advance_enrollment now s b e) = en_idempotency_key e" for e
    by (simp_all add: advance_enrollment_def enrollment_fail_def)
  ultimately show ?thesis unfolding tame_def by blast
qed

text \<open>A poll advances the enrollment by the status of its deployment job, or does nothing.\<close>

lemma get_enrollment_cases:
  assumes "get_enrollment env up f now t c = (r, c')"
  obtains (same) "c' = c"
  | (polled) i jobs j where "ae_uuid_parse env t = Some i" "all_jobs up (ct_api c) = Inr jobs" "j \<in> set jobs"
      "aj_idempotency_key j = enrollment_key env i"
      "ct_enrollments c' = update_first (\<lambda>e. en_id e = i)
         (advance_enrollment now (aj_status j) (target_connected j (ct_api c))) (ct_enrollments c)"
      "ct_enrollment_keys c' = ct_enrollment_keys c"
proof -
  show ?thesis
  proof (cases "ae_uuid_parse env t")
    case None
    then show ?thesis using assms same by (simp add: get_enrollment_def)
  next
    case (Some i)
    show ?thesis
    proof (cases "all_jobs up (ct_api c)")
      case (Inl err)
      then show ?thesis using assms same Some by (auto simp: get_enrollment_def poll_enrollment_def split: if_splits)
    next
      case (Inr jobs)
      show ?thesis
      proof (cases "List.find (\<lambda>j. aj_idempotency_key j = enrollment_key env i) jobs")
        case None
        then show ?thesis using assms same Some Inr by (auto simp: get_enrollment_def poll_enrollment_def split: if_splits)
      next
        case j: (Some j)
        have "j \<in> set jobs" "aj_idempotency_key j = enrollment_key env i" using found_in_list [OF j] by simp_all
        note known = polled [OF Some Inr this]
        show ?thesis
        proof (cases "list_ex (\<lambda>e. en_id e = i) (ct_enrollments c)")
          case False
          then show ?thesis using assms same Some by (simp add: get_enrollment_def)
        next
          case True
          then show ?thesis using assms Some Inr j known
            by (auto simp: get_enrollment_def poll_enrollment_def set_enrollments_def Let_def split: prod.splits sum.splits)
        qed
      qed
    qed
  qed
qed

lemma get_enrollment_registry:
  assumes "registry_ok (ct_enrollments c) (ct_enrollment_keys c)" "get_enrollment env up f now t c = (r, c')"
  shows "registry_ok (ct_enrollments c') (ct_enrollment_keys c')"
  using assms(2)
proof (cases rule: get_enrollment_cases)
  case (polled i jobs j)
  then show ?thesis using registry_update [OF assms(1) advance_tame] by simp
qed (use assms(1) in simp)

end
