(* ===== verification/OnboardingSafety.thy ===== *)
theory OnboardingSafety
  imports EnrollmentLaws InventoryLaws
begin

text \<open>
  The theorems on onboarding: the follow-up jobs of a deployment and the enrollments of containers.
\<close>

section \<open>Steps on the enrollments\<close>

text \<open>Every other handler leaves the enrollments and their index alone.\<close>

inductive enrollment_step :: "controller \<Rightarrow> controller \<Rightarrow> bool" where
  es_create: "fresh \<notin> en_id ` set (ct_enrollments c) \<Longrightarrow>
     enrollment_step c (snd (create_enrollment env up fresh fresh_job now r c))"
| es_poll: "enrollment_step c (snd (get_enrollment env up fresh now text c))"
| es_delete: "enrollment_step c (snd (delete_target env calls now role text confirmed c))"
| es_other: "ct_enrollments c' = ct_enrollments c \<Longrightarrow> ct_enrollment_keys c' = ct_enrollment_keys c \<Longrightarrow>
     enrollment_step c c'"

inductive enrollments_reachable :: "controller \<Rightarrow> bool" where
  er_start: "ct_enrollments c = [] \<Longrightarrow> ct_enrollment_keys c = [] \<Longrightarrow> enrollments_reachable c"
| er_step: "enrollments_reachable c \<Longrightarrow> enrollment_step c c' \<Longrightarrow> enrollments_reachable c'"

lemma delete_target_registry:
  assumes "registry_ok (ct_enrollments c) (ct_enrollment_keys c)"
  shows "registry_ok (ct_enrollments (snd (delete_target env calls now role t confirmed c)))
    (ct_enrollment_keys (snd (delete_target env calls now role t confirmed c)))"
proof -
  obtain x c' where d: "delete_target env calls now role t confirmed c = (x, c')" by fastforce
  from delete_target_cases [OF d] show ?thesis
  proof (elim disjE exE conjE)
    fix i a c1
    assume rows: "delete_rows env calls now role i c = (Inr (), c1)"
      and c': "c' = forget_target i (c1\<lparr>ct_api := (ct_api c1)\<lparr>ap_ansible := a\<rparr>\<rparr>)"
    have same: "ct_enrollments c1 = ct_enrollments c" "ct_enrollment_keys c1 = ct_enrollment_keys c"
      using delete_rows_done [OF rows] by auto
    show ?thesis
      using registry_forget [OF assms, of "\<lambda>e. en_target_id e \<noteq> Some i"] by (simp add: d c' forget_target_def Let_def same)
  qed (use assms d in simp)
qed

lemma enrollments_reachable_ok:
  "enrollments_reachable c \<Longrightarrow> registry_ok (ct_enrollments c) (ct_enrollment_keys c)"
proof (induction rule: enrollments_reachable.induct)
  case (er_start c)
  then show ?case by (simp add: registry_ok_def indexed_def one_active_def one_container_def)
next
  case (er_step c c')
  from er_step.hyps(2) er_step.IH show ?case
  proof cases
    case (es_create fresh env up fj now r)
    then show ?thesis
      using create_enrollment_registry(1) [OF er_step.IH es_create(2), of env up fj now r]
      by (metis prod.collapse)
  next
    case (es_poll env up f now t)
    then show ?thesis using get_enrollment_registry [OF er_step.IH, of env up f now t] by (metis prod.collapse)
  qed (use delete_target_registry in auto)
qed

section \<open>An example\<close>

definition plain_uuid_env :: ansible_env where
  "plain_uuid_env = \<lparr>ae_to_vec = (\<lambda>_. []), ae_sha256 = (\<lambda>_. []), ae_uuid_to_string = (\<lambda>i. [unat i]),
     ae_uuid_parse = (\<lambda>s. if s = [9] then Some 9 else None)\<rparr>"

definition lxc_host :: "target_state \<Rightarrow> target" where
  "lxc_host s = (host 7 3 4 s)\<lparr>tg_kind := Lxc, tg_ssh_known_hosts_secret_ref := Some 5\<rparr>"

definition deployment_job :: "str \<Rightarrow> ansible_job_status \<Rightarrow> ansible_job" where
  "deployment_job key s =
     (case from_request plain_uuid_env 50 0 (deploy_job_request Pending CARGO_PKG_VERSION Admin (lxc_host TargetPending) key) of
        Inr j \<Rightarrow> j\<lparr>aj_status := s\<rparr>)"

definition deployed :: "str \<Rightarrow> ansible_job_status \<Rightarrow> api_state" where
  "deployed key s = (empty_api None)\<lparr>ap_targets := [lxc_host TargetManaged],
     ap_ansible := job_coordinator_default\<lparr>jc_jobs := [(50, deployment_job key s)],
       jc_idempotency := [((Target 7, key), 50)]\<rparr>\<rparr>"

definition onboarding_example :: onboarding_env where
  "onboarding_example = \<lparr>oe_up = (\<lambda>_ _. True), oe_fresh = (\<lambda>n. word_of_nat (100 + n)), oe_now = int\<rparr>"

lemma onboarding_example_run:
  "map aj_operation (stored_jobs (snd (reconcile_onboarding_jobs plain_uuid_env onboarding_example
     (deployed (lit ''onboarding-deploy-x'') JSucceeded)))) = [OpDeployAgent, OpHealthCheck]"
  by code_simp

section \<open>Follow-up jobs\<close>

lemma all_jobs_length: "all_jobs up st = Inr js \<Longrightarrow> length js = length (stored_jobs st)"
  by (auto simp: all_jobs_def stored_jobs_def list_jobs_def db_read_def jc_jobs_list_def hm_values_def
      split: option.splits if_splits)

lemma disjoint_filters: "(\<And>x. \<not> (p x \<and> q x)) \<Longrightarrow> length (filter p xs) + length (filter q xs) \<le> length xs"
  by (induction xs) (auto simp: le_Suc_eq)

text \<open>
  C28. A pass over the onboarding jobs changes no host. Whatever the database answers, no target and no
  known job changes, and every job that is new in the coordinator or in the job table is a queued check
  of a managed target that was due: the health check of a succeeded deployment, the package inventory
  of a deployment whose health check succeeded, or the inventory after a succeeded update.
\<close>

theorem onboarding_jobs_only_check:
  assumes "reconcile_onboarding_jobs env o_env st = (r, st')"
    and "inj_on (oe_fresh o_env) {..length (stored_jobs st)}"
    and "\<And>n. n \<le> length (stored_jobs st) \<Longrightarrow> hm_get (jc_jobs (ap_ansible st)) (oe_fresh o_env n) = None"
  shows "ap_targets st' = ap_targets st
    \<and> (\<forall>i j. hm_get (jc_jobs (ap_ansible st)) i = Some j \<longrightarrow> hm_get (jc_jobs (ap_ansible st')) i = Some j)
    \<and> (\<forall>i j. hm_get (jc_jobs (ap_ansible st')) i = Some j \<longrightarrow>
         hm_get (jc_jobs (ap_ansible st)) i = Some j \<or> due_followup env st j)
    \<and> (\<exists>js. stored_jobs st' = stored_jobs st @ js \<and> list_all (due_followup env st) js)"
proof -
  define N where "N = Suc (length (stored_jobs st))"
  let ?f = "oe_fresh o_env"
  have inj: "inj_on ?f {..<N}" using assms(2) by (simp add: N_def lessThan_Suc_atMost)
  have "onboarded env ?f N st n st" for n
    using assms(3) by (auto simp: onboarded_def N_def)
  then have start: "onboarded env ?f N st 1 st" by blast
  have "\<exists>n. onboarded env ?f N st n st'"
  proof (cases "all_jobs (oe_up o_env 0) st")
    case (Inl e)
    then show ?thesis using assms(1) start by (auto simp: reconcile_onboarding_jobs_def)
  next
    case (Inr jobs)
    let ?ds = "filter succeeded_deployment jobs" and ?us = "filter succeeded_update jobs"
    have "length ?ds + length ?us \<le> length jobs"
      by (rule disjoint_filters) (auto simp: succeeded_deployment_def succeeded_update_def)
    then have len: "1 + length ?ds \<le> N" "Suc (length ?ds) + length ?us \<le> N"
      using all_jobs_length [OF Inr] by (simp_all add: N_def)
    note stored = all_jobs_set [OF Inr]
    obtain k st1 where d: "followups (deployment_followup env) o_env 1 ?ds st = (k, st1)" by fastforce
    obtain k2 st2 where u: "followups (queue_package_inventory_followup env) o_env (Suc (length ?ds)) ?us st1 = (k2, st2)"
      by fastforce
    have "onboarded env ?f N st (1 + length ?ds) st1"
      by (rule followups_onboarded [where ?js0.0 = ?ds, OF deployment_step [OF _ inj] refl subset_refl len(1) start d])
        (use stored in auto)
    then have on: "onboarded env ?f N st (Suc (length ?ds)) st1" by simp
    have "onboarded env ?f N st (Suc (length ?ds) + length ?us) st2"
      by (rule followups_onboarded [where ?js0.0 = ?us, OF update_step [OF _ inj] refl subset_refl len(2) on u])
        (use stored in auto)
    then show ?thesis using assms(1) Inr d u by (auto simp: reconcile_onboarding_jobs_def Let_def)
  qed
  then obtain n where on: "onboarded env ?f N st n st'" by blast
  show ?thesis using on unfolding onboarded_def by blast
qed

lemma onboarding_example_fresh:
  "length (stored_jobs (deployed (lit ''onboarding-deploy-x'') JSucceeded)) = 1"
  "inj_on (oe_fresh onboarding_example) {..1}"
  "n \<le> 1 \<Longrightarrow> hm_get (jc_jobs (ap_ansible (deployed (lit ''onboarding-deploy-x'') JSucceeded))) (oe_fresh onboarding_example n) = None"
proof -
  show "length (stored_jobs (deployed (lit ''onboarding-deploy-x'') JSucceeded)) = 1" by code_simp
  have "{..1} = {0, 1 :: nat}" by auto
  then show "inj_on (oe_fresh onboarding_example) {..1}" by (simp add: onboarding_example_def)
  assume "n \<le> 1"
  then have "n = 0 \<or> n = 1" by auto
  then show "hm_get (jc_jobs (ap_ansible (deployed (lit ''onboarding-deploy-x'') JSucceeded))) (oe_fresh onboarding_example n) = None"
    by (auto simp: onboarding_example_def deployed_def hm_get_def)
qed

theorem onboarding_jobs_only_check_witness:
  "map aj_operation (stored_jobs (snd (reconcile_onboarding_jobs plain_uuid_env onboarding_example
      (deployed (lit ''onboarding-deploy-x'') JSucceeded)))) = [OpDeployAgent, OpHealthCheck]
   \<and> (\<exists>js. stored_jobs (snd (reconcile_onboarding_jobs plain_uuid_env onboarding_example
        (deployed (lit ''onboarding-deploy-x'') JSucceeded))) = stored_jobs (deployed (lit ''onboarding-deploy-x'') JSucceeded) @ js
      \<and> list_all (due_followup plain_uuid_env (deployed (lit ''onboarding-deploy-x'') JSucceeded)) js)"
proof
  let ?d = "deployed (lit ''onboarding-deploy-x'') JSucceeded"
  have run: "reconcile_onboarding_jobs plain_uuid_env onboarding_example ?d =
      (fst (reconcile_onboarding_jobs plain_uuid_env onboarding_example ?d),
       snd (reconcile_onboarding_jobs plain_uuid_env onboarding_example ?d))" by simp
  show "\<exists>js. stored_jobs (snd (reconcile_onboarding_jobs plain_uuid_env onboarding_example ?d)) = stored_jobs ?d @ js
      \<and> list_all (due_followup plain_uuid_env ?d) js"
    by (rule onboarding_jobs_only_check [OF run, THEN conjunct2, THEN conjunct2, THEN conjunct2])
      (use onboarding_example_fresh in auto)
qed (rule onboarding_example_run)

text \<open>
  A follow-up is queued once. After a follow-up of a deployment was answered, or has queued its
  job, repeating it changes nothing, whatever the database answers the second time.
\<close>

theorem followup_queued_once:
  assumes "deployment_followup env up fresh now d st = (r, st')" "hm_get (jc_jobs (ap_ansible st)) fresh = None"
    and "is_ok r \<or> st' \<noteq> st"
  shows "snd (deployment_followup env up2 fresh2 now2 d st') = st'"
  using assms by (rule followup_again)

lemma followup_example:
  "is_ok (fst (deployment_followup plain_uuid_env (\<lambda>_. True) 100 1 (deployment_job (lit ''onboarding-deploy-x'') JSucceeded)
     (deployed (lit ''onboarding-deploy-x'') JSucceeded)))"
  "map aj_operation (stored_jobs (snd (deployment_followup plain_uuid_env (\<lambda>_. True) 100 1
     (deployment_job (lit ''onboarding-deploy-x'') JSucceeded) (deployed (lit ''onboarding-deploy-x'') JSucceeded)))) =
     [OpDeployAgent, OpHealthCheck]"
  "hm_get (jc_jobs (ap_ansible (deployed (lit ''onboarding-deploy-x'') JSucceeded))) 100 = None"
  by code_simp+

theorem followup_queued_once_witness:
  "map aj_operation (stored_jobs (snd (deployment_followup plain_uuid_env (\<lambda>_. True) 101 2
     (deployment_job (lit ''onboarding-deploy-x'') JSucceeded)
     (snd (deployment_followup plain_uuid_env (\<lambda>_. True) 100 1
        (deployment_job (lit ''onboarding-deploy-x'') JSucceeded) (deployed (lit ''onboarding-deploy-x'') JSucceeded)))))) =
     [OpDeployAgent, OpHealthCheck]"
proof -
  let ?d = "deployment_job (lit ''onboarding-deploy-x'') JSucceeded" and ?st = "deployed (lit ''onboarding-deploy-x'') JSucceeded"
  let ?x = "deployment_followup plain_uuid_env (\<lambda>_. True) 100 1 ?d ?st"
  have "?x = (fst ?x, snd ?x)" by simp
  from followup_queued_once [OF this followup_example(3)] followup_example(1)
  have "snd (deployment_followup plain_uuid_env (\<lambda>_. True) 101 2 ?d (snd ?x)) = snd ?x" by blast
  then show ?thesis using followup_example(2) by simp
qed

lemma queue_job_unsaved:
  assumes q: "queue_job env up fresh now jr st = (r, st')" and st: "st' \<noteq> st" "hm_get (jc_jobs (ap_ansible st)) fresh = None"
    and db: "ap_repositories st = Some db" "\<not> up CallSaveJob"
  shows "r = Inl storage \<and> ap_repositories st' = Some db
    \<and> (\<exists>j. hm_get (jc_jobs (ap_ansible st')) fresh = Some j \<and> aj_status j = JQueued)"
proof -
  obtain r0 where s: "submit_and_persist env up fresh now jr st = (r0, st')" using queue_jobD [OF q] by blast
  have r: "r = (case r0 of Inl e \<Rightarrow> Inl e | Inr (code, _) \<Rightarrow> Inr (if code = 202 then 1 else 0))"
    using q s by (auto simp: queue_job_def split: sum.splits prod.splits)
  from s st(2) show ?thesis
  proof (cases rule: submit_and_persist_cases)
    case (created j co db')
    then show ?thesis using from_request_Inr(2) [OF created(1)] db r by auto
  qed (use st in simp)
qed

text \<open>
  A follow-up whose row cannot be saved is lost. When the database refuses the row, the answer is
  an error and no row is stored, but the coordinator keeps the queued job: every later pass takes the
  follow-up for a duplicate and changes nothing, also when the database works again, so the job never
  reaches the table the worker claims from.
\<close>

theorem unsaved_followup_is_lost:
  assumes "deployment_followup env up fresh now d st = (r, st')" "st' \<noteq> st"
    and "hm_get (jc_jobs (ap_ansible st)) fresh = None" "ap_repositories st = Some db" "\<not> up CallSaveJob"
  shows "r = Inl storage \<and> ap_repositories st' = Some db
    \<and> (\<exists>j. hm_get (jc_jobs (ap_ansible st')) fresh = Some j \<and> aj_status j = JQueued)
    \<and> snd (deployment_followup env up2 fresh2 now2 d st') = st'"
proof -
  have "r = Inl storage \<and> ap_repositories st' = Some db
      \<and> (\<exists>j. hm_get (jc_jobs (ap_ansible st')) fresh = Some j \<and> aj_status j = JQueued)"
    using assms(1)
  proof (cases rule: deployment_followup_cases)
    case (health hk ik i t jobs)
    show ?thesis by (rule queue_job_unsaved [OF health(6) assms(2-5)])
  next
    case (inventory hk ik i t jobs x)
    show ?thesis by (rule queue_job_unsaved [OF inventory(9) assms(2-5)])
  qed (use assms(2) in simp_all)
  moreover have "snd (deployment_followup env up2 fresh2 now2 d st') = st'"
    using followup_again [OF assms(1,3)] assms(2) by blast
  ultimately show ?thesis by blast
qed

definition deployed_rows :: job_db where
  "deployed_rows = job_db_empty\<lparr>jd_targets := [(7, Lxc)], jd_jobs := [row_of_job (deployment_job (lit ''onboarding-deploy-x'') JSucceeded)]\<rparr>"

definition unsaved :: api_state where
  "unsaved = snd (deployment_followup plain_uuid_env (\<lambda>call. call \<noteq> CallSaveJob) 100 1
     (deployment_job (lit ''onboarding-deploy-x'') JSucceeded)
     ((deployed (lit ''onboarding-deploy-x'') JSucceeded)\<lparr>ap_repositories := Some deployed_rows\<rparr>))"

lemma unsaved_jobs: "map aj_operation (hm_values (jc_jobs (ap_ansible unsaved))) = [OpDeployAgent, OpHealthCheck]"
  unfolding unsaved_def by code_simp

theorem unsaved_followup_is_lost_witness:
  "map aj_operation (stored_jobs (snd (deployment_followup plain_uuid_env (\<lambda>_. True) 101 2
     (deployment_job (lit ''onboarding-deploy-x'') JSucceeded) unsaved))) = [OpDeployAgent]"
proof -
  let ?d = "deployment_job (lit ''onboarding-deploy-x'') JSucceeded"
  let ?st = "(deployed (lit ''onboarding-deploy-x'') JSucceeded)\<lparr>ap_repositories := Some deployed_rows\<rparr>"
  let ?x = "deployment_followup plain_uuid_env (\<lambda>call. call \<noteq> CallSaveJob) 100 1 ?d ?st"
  have run: "?x = (fst ?x, unsaved)" by (simp add: unsaved_def)
  have one: "map aj_operation (hm_values (jc_jobs (ap_ansible ?st))) = [OpDeployAgent]" by code_simp
  have ne: "unsaved \<noteq> ?st"
  proof
    assume same: "unsaved = ?st"
    show False using unsaved_jobs one unfolding same by simp
  qed
  have free: "hm_get (jc_jobs (ap_ansible ?st)) 100 = None" using followup_example(3) by simp
  have db: "ap_repositories ?st = Some deployed_rows" by simp
  have lost: "ap_repositories unsaved = Some deployed_rows"
    "snd (deployment_followup plain_uuid_env (\<lambda>_. True) 101 2 ?d unsaved) = unsaved"
    using unsaved_followup_is_lost [OF run ne free db, of "\<lambda>_. True" 101 2] by blast+
  have "stored_jobs unsaved = map jw_payload (jd_jobs deployed_rows)" using lost(1) by (simp add: stored_jobs_def)
  moreover have "map (aj_operation \<circ> jw_payload) (jd_jobs deployed_rows) = [OpDeployAgent]" by code_simp
  ultimately show ?thesis using lost(2) by simp
qed

section \<open>Enrollments\<close>

text \<open>
  C29. The registry of enrollments stays consistent under every request, poll and removal of a target:
  ids are unique, the index of the idempotency keys names exactly the enrollments (so the lookup that
  \<open>create_enrollment\<close> expects to succeed never panics), a container has at most one enrollment in
  progress, and a target belongs to the enrollments of one container.
\<close>

theorem enrollment_registry:
  assumes "enrollments_reachable c" "fresh \<notin> en_id ` set (ct_enrollments c)"
  shows "registry_ok (ct_enrollments c) (ct_enrollment_keys c)
    \<and> fst (create_enrollment env up fresh fresh_job now r c) \<noteq> None"
proof
  show ok: "registry_ok (ct_enrollments c) (ct_enrollment_keys c)" by (rule enrollments_reachable_ok [OF assms(1)])
  obtain res c' where run: "create_enrollment env up fresh fresh_job now r c = (res, c')" by fastforce
  show "fst (create_enrollment env up fresh fresh_job now r c) \<noteq> None"
    using create_enrollment_registry(2) [OF ok assms(2) run] run by simp
qed

definition lab_container :: container where
  "lab_container = \<lparr>ct_id = 101, ct_node_id = 1, ct_name = lit ''web'', ct_operating_system = Debian,
     ct_status = ContainerRunning, ct_management_state = CMManaged, ct_discovered_at = 0\<rparr>"

definition lxc_controller :: "job_db option \<Rightarrow> controller" where
  "lxc_controller db = (empty_controller db)\<lparr>ct_api := (empty_api db)\<lparr>ap_targets := [lxc_host TargetPending],
     ap_containers := [lab_container]\<rparr>\<rparr>"

definition enroll :: "str \<Rightarrow> create_enrollment_request" where
  "enroll key = \<lparr>ce_container_id = 101, ce_target_id = Some 7, ce_idempotency_key = key, ce_start_onboarding = True\<rparr>"

definition enrolled_lab :: controller where
  "enrolled_lab = snd (create_enrollment plain_uuid_env (\<lambda>_. True) 9 50 1 (enroll (lit ''k'')) (lxc_controller None))"

lemma lxc_controller_reachable: "enrollments_reachable (lxc_controller db)"
  by (rule er_start) (simp_all add: lxc_controller_def empty_controller_def)

lemma enrolled_reachable: "enrollments_reachable enrolled_lab"
  unfolding enrolled_lab_def
  by (rule er_step [OF lxc_controller_reachable es_create]) (simp add: lxc_controller_def empty_controller_def)

lemma enrolled_state:
  "map (\<lambda>e. (en_id e, en_state e)) (ct_enrollments enrolled_lab) = [(9, Discovering)]" "8 \<notin> en_id ` set (ct_enrollments enrolled_lab)"
  unfolding enrolled_lab_def by code_simp+

theorem enrollment_registry_witness:
  "registry_ok (ct_enrollments enrolled_lab) (ct_enrollment_keys enrolled_lab)
   \<and> map (\<lambda>e. (en_id e, en_state e)) (ct_enrollments enrolled_lab) = [(9, Discovering)]"
  using enrollment_registry [OF enrolled_reachable enrolled_state(2)] enrolled_state(1) by blast

text \<open>
  C30. What a poll of an enrollment may report. An enrollment becomes connected only when its
  deployment job succeeded, its target sent a heartbeat and is managed, and the installation had been
  seen before; a failed enrollment stays failed, also when a repeated deployment succeeds.
\<close>

theorem enrollment_poll_sound:
  assumes "get_enrollment env up fresh now t c = (r, c')" "e \<in> set (ct_enrollments c)"
    and "distinct (map en_id (ct_enrollments c))"
  shows "\<exists>e' \<in> set (ct_enrollments c'). en_id e' = en_id e
    \<and> (en_state e = EnrollFailed \<longrightarrow> en_state e' = EnrollFailed)
    \<and> (en_state e' = EnrollConnected \<longrightarrow> en_state e = EnrollConnected \<or>
       en_state e \<in> {InstallingAgent, RegisteringAgent}
       \<and> (\<exists>j \<in> set (stored_jobs (ct_api c)). \<exists>tg \<in> set (ap_targets (ct_api c)).
            aj_idempotency_key j = enrollment_key env (en_id e) \<and> aj_status j = JSucceeded
            \<and> aj_target j = Target (tg_id tg) \<and> tg_state tg = TargetManaged))"
  using assms(1)
proof (cases rule: get_enrollment_cases)
  case same
  then show ?thesis using assms(2) by blast
next
  case (polled i jobs j)
  let ?f = "advance_enrollment now (aj_status j) (target_connected j (ct_api c))"
  have es: "ct_enrollments c' = map (\<lambda>e. if en_id e = i then ?f e else e) (ct_enrollments c)"
    using polled(5) update_first_as_map [OF assms(3)] by simp
  show ?thesis
  proof (cases "en_id e = i")
    case False
    then have "e \<in> set (ct_enrollments c')" using assms(2) by (auto simp: es)
    then show ?thesis by (rule bexI [rotated]) simp
  next
    case True
    have "?f e \<in> set (ct_enrollments c')" using assms(2) True by (auto simp: es)
    moreover have "en_id (?f e) = en_id e" using tameD(1) [OF advance_tame] .
    moreover have "en_state e = EnrollFailed \<longrightarrow> en_state (?f e) = EnrollFailed"
      by (auto simp: advance_enrollment_def enrollment_fail_def)
    moreover have "en_state e = EnrollConnected \<or> en_state e \<in> {InstallingAgent, RegisteringAgent}
        \<and> aj_status j = JSucceeded \<and> target_connected j (ct_api c)" if "en_state (?f e) = EnrollConnected"
      using that by (cases "en_state e") (auto simp: advance_enrollment_def enrollment_fail_def split: if_splits)
    moreover have "j \<in> set (stored_jobs (ct_api c))" using polled(2,3) all_jobs_set by blast
    moreover have "\<exists>tg \<in> set (ap_targets (ct_api c)). aj_target j = Target (tg_id tg) \<and> tg_state tg = TargetManaged"
      if "target_connected j (ct_api c)"
      using that by (auto simp: target_connected_def list_ex_iff split: resource_target.splits)
    ultimately show ?thesis using polled(4) True by blast
  qed
qed

definition installing :: controller where
  "installing = (lxc_controller None)\<lparr>
     ct_enrollments := [\<lparr>en_id = 9, en_container_id = 101, en_target_id = Some 7, en_state = InstallingAgent,
        en_idempotency_key = lit ''k'', en_failure_reason = None, en_created_at = 0, en_updated_at = 0\<rparr>],
     ct_api := deployed (lit ''enrollment-'' @ [9]) JSucceeded\<rparr>"

lemma installing_poll:
  "map en_state (ct_enrollments (snd (get_enrollment plain_uuid_env (\<lambda>_. True) 100 1 [9] installing))) = [EnrollConnected]"
  unfolding installing_def by code_simp

theorem enrollment_poll_sound_witness:
  "map en_state (ct_enrollments installing) = [InstallingAgent]
   \<and> map en_state (ct_enrollments (snd (get_enrollment plain_uuid_env (\<lambda>_. True) 100 1 [9] installing))) = [EnrollConnected]
   \<and> (\<exists>j \<in> set (stored_jobs (ct_api installing)). \<exists>tg \<in> set (ap_targets (ct_api installing)).
        aj_idempotency_key j = enrollment_key plain_uuid_env 9 \<and> aj_status j = JSucceeded
        \<and> aj_target j = Target (tg_id tg) \<and> tg_state tg = TargetManaged)"
proof -
  let ?x = "get_enrollment plain_uuid_env (\<lambda>_. True) 100 1 [9] installing"
  let ?e = "hd (ct_enrollments installing)"
  have run: "?x = (fst ?x, snd ?x)" by simp
  have e: "?e \<in> set (ct_enrollments installing)" "distinct (map en_id (ct_enrollments installing))"
    "en_id ?e = 9" "en_state ?e = InstallingAgent" "map en_state (ct_enrollments installing) = [InstallingAgent]"
    by (simp_all add: installing_def)
  obtain e' where e': "e' \<in> set (ct_enrollments (snd ?x))"
    "en_state e' = EnrollConnected \<longrightarrow> en_state ?e = EnrollConnected \<or> en_state ?e \<in> {InstallingAgent, RegisteringAgent}
       \<and> (\<exists>j \<in> set (stored_jobs (ct_api installing)). \<exists>tg \<in> set (ap_targets (ct_api installing)).
            aj_idempotency_key j = enrollment_key plain_uuid_env (en_id ?e) \<and> aj_status j = JSucceeded
            \<and> aj_target j = Target (tg_id tg) \<and> tg_state tg = TargetManaged)"
    using enrollment_poll_sound [OF run e(1,2)] by blast
  have "en_state e' \<in> set (map en_state (ct_enrollments (snd ?x)))" using e'(1) by simp
  then have "en_state e' = EnrollConnected" unfolding installing_poll by simp
  then show ?thesis using e'(2) installing_poll e(3-5) by simp
qed

lemma find_last: "i \<notin> key ` set xs \<Longrightarrow> key e = i \<Longrightarrow> List.find (\<lambda>x. key x = i) (xs @ [e]) = Some e"
  by (induction xs) auto

text \<open>
  An enrollment whose job could not be queued is stuck. When \<open>create_enrollment\<close> answers with an
  error after it has registered the enrollment, the enrollment stays requested without a job: the same
  request is then answered with status 200, a request with a new key is refused as in progress, and
  polling changes nothing.
\<close>

theorem enrollment_stuck:
  assumes "create_enrollment env up fresh fresh_job now r c = (Some (Inl err), c')"
    and "ct_enrollments c' \<noteq> ct_enrollments c" "registry_ok (ct_enrollments c) (ct_enrollment_keys c)"
    and "fresh \<notin> en_id ` set (ct_enrollments c)" "ae_uuid_parse env t = Some fresh"
    and "\<And>j. j \<in> set (stored_jobs (ct_api c)) \<Longrightarrow> aj_idempotency_key j \<noteq> enrollment_key env fresh"
    and "ce_container_id r2 = ce_container_id r" "check_enrollment r2 c' = Inr ()"
    and "hm_get (ct_enrollment_keys c') (ce_idempotency_key r2) = None"
  shows "(\<exists>e. ct_enrollments c' = ct_enrollments c @ [e] \<and> en_id e = fresh \<and> en_state e = Requested
      \<and> create_enrollment env up1 fresh1 fresh_job1 now1 r c' = (Some (Inr (200, e)), c'))
    \<and> create_enrollment env up1 fresh1 fresh_job1 now1 r2 c' =
      (Some (Inl (conflict (lit ''enrollment_in_progress'')
         (lit ''an enrollment is already in progress for this container''))), c')
    \<and> snd (get_enrollment env up1 fresh1 now1 t c') = c'"
proof -
  obtain e where e: "check_enrollment r c = Inr ()" "ct_enrollments c' = ct_enrollments c @ [e]"
    "ct_enrollment_keys c' = hm_insert (ce_idempotency_key r) fresh (ct_enrollment_keys c)"
    "ap_targets (ct_api c') = ap_targets (ct_api c)" "ap_containers (ct_api c') = ap_containers (ct_api c)"
    "en_id e = fresh" "en_container_id e = ce_container_id r" "en_target_id e = ce_target_id r" "en_state e = Requested"
    "ap_repositories (ct_api c') = ap_repositories (ct_api c)"
    "ap_repositories (ct_api c) = None \<longrightarrow> ap_ansible (ct_api c') = ap_ansible (ct_api c)"
    using assms(1,4) by (cases rule: create_enrollment_cases) (use assms(2) in auto)
  have chk: "check_enrollment r c' = Inr ()"
    using e(1) by (auto simp: check_enrollment_def check_enrollment_target_def find_target_def list_ex_iff e(2,4,5,7,8)
        split: option.splits if_splits)
  have found: "List.find (\<lambda>x. en_id x = fresh) (ct_enrollments c @ [e]) = Some e"
    by (rule find_last [OF assms(4) e(6)])
  have "create_enrollment env up1 fresh1 fresh_job1 now1 r c' = (Some (Inr (200, e)), c')"
    by (simp add: create_enrollment_def chk e(2,3,7,8) found)
  then have same_key: "\<exists>e. ct_enrollments c' = ct_enrollments c @ [e] \<and> en_id e = fresh \<and> en_state e = Requested
      \<and> create_enrollment env up1 fresh1 fresh_job1 now1 r c' = (Some (Inr (200, e)), c')"
    using e(2,6,9) by blast
  have "list_ex (\<lambda>x. en_container_id x = ce_container_id r2 \<and> enrollment_is_active (en_state x)) (ct_enrollments c')"
    by (simp add: e(2,7,9) assms(7) enrollment_is_active_def)
  then have other_key: "create_enrollment env up1 fresh1 fresh_job1 now1 r2 c' =
      (Some (Inl (conflict (lit ''enrollment_in_progress'')
         (lit ''an enrollment is already in progress for this container''))), c')"
    by (simp add: create_enrollment_def assms(8,9))
  have "stored_jobs (ct_api c') = stored_jobs (ct_api c)"
    using e(10,11) by (simp add: stored_jobs_def split: option.splits)
  then have no: "aj_idempotency_key j \<noteq> enrollment_key env fresh" if "all_jobs up1 (ct_api c') = Inr jobs" "j \<in> set jobs" for j jobs
    using all_jobs_set [OF that(1)] that(2) assms(6) by auto
  obtain x c2 where g: "get_enrollment env up1 fresh1 now1 t c' = (x, c2)" by fastforce
  then have "c2 = c'"
    by (cases rule: get_enrollment_cases) (use no assms(5) in auto)
  then have "snd (get_enrollment env up1 fresh1 now1 t c') = c'" using g by simp
  with same_key other_key show ?thesis by blast
qed

definition unsaved_enrollment :: controller where
  "unsaved_enrollment = snd (create_enrollment plain_uuid_env (\<lambda>call. call \<noteq> CallSaveJob) 9 50 1 (enroll (lit ''k''))
     (lxc_controller (Some (job_db_empty\<lparr>jd_targets := [(7, Lxc)]\<rparr>))))"

lemma unsaved_enrollment_facts:
  "fst (create_enrollment plain_uuid_env (\<lambda>call. call \<noteq> CallSaveJob) 9 50 1 (enroll (lit ''k''))
     (lxc_controller (Some (job_db_empty\<lparr>jd_targets := [(7, Lxc)]\<rparr>)))) = Some (Inl storage)"
  "length (ct_enrollments unsaved_enrollment) = 1" "check_enrollment (enroll (lit ''k2'')) unsaved_enrollment = Inr ()"
  "hm_get (ct_enrollment_keys unsaved_enrollment) (lit ''k2'') = None"
  unfolding unsaved_enrollment_def by code_simp+

theorem enrollment_stuck_witness:
  "snd (get_enrollment plain_uuid_env (\<lambda>_. True) 60 2 [9] unsaved_enrollment) = unsaved_enrollment
   \<and> length (ct_enrollments unsaved_enrollment) = 1"
proof -
  let ?c = "lxc_controller (Some (job_db_empty\<lparr>jd_targets := [(7, Lxc)]\<rparr>))"
  let ?x = "create_enrollment plain_uuid_env (\<lambda>call. call \<noteq> CallSaveJob) 9 50 1 (enroll (lit ''k'')) ?c"
  have run: "?x = (Some (Inl storage), unsaved_enrollment)"
    using unsaved_enrollment_facts(1) by (simp add: unsaved_enrollment_def prod_eq_iff)
  have none: "ct_enrollments ?c = []" by (simp add: lxc_controller_def empty_controller_def)
  have new: "ct_enrollments unsaved_enrollment \<noteq> ct_enrollments ?c" using unsaved_enrollment_facts(2) none by auto
  have jobs: "stored_jobs (ct_api ?c) = []"
    by (simp add: lxc_controller_def stored_jobs_def empty_controller_def empty_api_def job_db_empty_def)
  have "snd (get_enrollment plain_uuid_env (\<lambda>_. True) 60 2 [9] unsaved_enrollment) = unsaved_enrollment"
    by (rule enrollment_stuck [OF run new enrollments_reachable_ok [OF lxc_controller_reachable],
          where ?r2.0 = "enroll (lit ''k2'')", THEN conjunct2, THEN conjunct2])
      (use none jobs unsaved_enrollment_facts in \<open>simp_all add: enroll_def plain_uuid_env_def\<close>)
  then show ?thesis using unsaved_enrollment_facts(2) by blast
qed

end
