(* ===== verification/AgentService.thy ===== *)
theory AgentService
  imports AgentParsers Heartbeat ExecutionApi
begin

text \<open>
  The agent on a managed host: the HTTP handlers and commands of \<open>lxcup-agent/src/agent_routes.rs\<close>,
  the client of the server and the local state of \<open>lib.rs\<close>, the heartbeat of \<open>workflow_client.rs\<close>,
  and the configuration and Linux telemetry of \<open>main.rs\<close>.

  A process is the program with its arguments and, once it has ended, its outcome; the outcome is an
  argument, with the output already decoded (\<open>from_utf8_lossy\<close>). The programs that were started are
  kept in the state as a record of what happened. \<open>agent_command\<close> holds no lock while its process
  runs, so it is \<open>command_begin\<close> up to the start and \<open>command_finish\<close> from the outcome on;
  \<open>execute_workflow_command\<close> holds the lock of the results throughout and is one step. The request
  id and the duration in a response, which no code reads, are left out.
\<close>

section \<open>Processes (agent\_routes.rs)\<close>

text \<open>The two PowerShell scripts are constants; the package ids reach them as an environment variable.\<close>

datatype winget_script = ScanScript | ApplyScript

datatype agent_program = AptProgram "str list" | WingetProgram winget_script str

datatype process_outcome = Exited "i32 option" str str | NotStarted str | TimedOut

type_synonym command_output = "i32 \<times> str \<times> str"

definition refused :: "string \<Rightarrow> command_output" where
  "refused message = (2, [], lit message)"

definition windows_winget_invocation ::
  "(str list \<Rightarrow> str option) \<Rightarrow> agent_action \<Rightarrow> str list \<Rightarrow> string + agent_program" where
  "windows_winget_invocation to_json action packages =
     bindR (case action of
         ActionHealth \<Rightarrow> Inl ''health action does not use winget''
       | ActionUpdateAgent \<Rightarrow> Inl ''agent update does not use winget''
       | ActionScan \<Rightarrow> Inr ScanScript
       | ActionApply \<Rightarrow>
           if packages = [] then Inl ''apply requires at least one winget package ID''
           else if list_ex (\<lambda>p. \<not> safe_winget_id p) packages then
             Inl ''apply contains an invalid winget package ID''
           else Inr ApplyScript) (\<lambda>script.
     bindR (ok_or ''invalid package selection'' (to_json packages)) (\<lambda>ids.
       Inr (WingetProgram script ids)))"

text \<open>\<open>run_local_command\<close> up to the start of its process, and from its end on.\<close>

definition local_program ::
  "(str list \<Rightarrow> str option) \<Rightarrow> agent_platform \<Rightarrow> agent_action \<Rightarrow> str list \<Rightarrow> command_output + agent_program" where
  "local_program to_json platform action packages =
     (if platform = PlatformWindows then
        (if action = ActionHealth then Inl (0, lit ''healthy'', [])
         else if action = ActionUpdateAgent then Inl (refused ''agent update requires an approved workflow'')
         else map_err refused (windows_winget_invocation to_json action packages))
      else
        (case action of
           ActionHealth \<Rightarrow> Inr (AptProgram [lit ''--version''])
         | ActionScan \<Rightarrow> Inr (AptProgram [lit ''list'', lit ''--upgradable''])
         | ActionApply \<Rightarrow>
             if packages = [] then Inl (refused ''apply requires at least one package'')
             else Inr (AptProgram ([lit ''--yes'', lit ''--only-upgrade'', lit ''install''] @ packages))
         | ActionUpdateAgent \<Rightarrow> Inl (refused ''agent update requires an approved workflow'')))"

definition command_result :: "agent_platform \<Rightarrow> agent_action \<Rightarrow> process_outcome \<Rightarrow> command_output" where
  "command_result platform action outcome =
     (case outcome of
        Exited code stdout stderr \<Rightarrow>
          (case code of Some c \<Rightarrow> c | None \<Rightarrow> 1,
           if platform = PlatformLinux \<and> action = ActionScan then normalize_apt_list stdout else stdout,
           stderr)
      | NotStarted message \<Rightarrow> (1, [], message)
      | TimedOut \<Rightarrow> (124, [], lit ''agent command timed out''))"

section \<open>State (lib.rs)\<close>

record agent_metrics =
  am_collected_at :: timestamp
  am_commands_total :: u64
  am_commands_failed :: u64
  am_last_command_at :: "timestamp option"

text \<open>
  \<open>la_commands\<close> records the programs that \<open>run_local_command\<close> started for requests and workflow
  commands, with the key of each. The programs of telemetry, docker, the package inventory and
  the Windows service, which the agent starts by itself, are not recorded.
\<close>

record local_agent =
  la_info :: agent_info
  la_token :: str
  la_metrics :: agent_metrics
  la_telemetry :: "system_telemetry_sample list"
  la_docker_telemetry :: "docker_telemetry_sample list"
  la_inventory :: "agent_package_inventory option"
  la_results :: "(str, agent_command_response) hashmap"
  la_commands :: "(str \<times> agent_program) list"

definition local_agent_new :: "timestamp \<Rightarrow> agent_info \<Rightarrow> str \<Rightarrow> local_agent" where
  "local_agent_new now info token =
     \<lparr>la_info = info, la_token = token,
      la_metrics = \<lparr>am_collected_at = now, am_commands_total = 0, am_commands_failed = 0, am_last_command_at = None\<rparr>,
      la_telemetry = [], la_docker_telemetry = [], la_inventory = None, la_results = [], la_commands = []\<rparr>"

definition record_package_inventory :: "agent_package_inventory \<Rightarrow> local_agent \<Rightarrow> local_agent" where
  "record_package_inventory inventory st = st\<lparr>la_inventory := Some inventory\<rparr>"

definition acknowledge_package_inventory :: "timestamp \<Rightarrow> local_agent \<Rightarrow> local_agent" where
  "acknowledge_package_inventory collected_at st =
     (case la_inventory st of
        Some inventory \<Rightarrow> if ap_collected_at inventory = collected_at then st\<lparr>la_inventory := None\<rparr> else st
      | None \<Rightarrow> st)"

section \<open>Commands\<close>

definition authorized :: "local_agent \<Rightarrow> headers \<Rightarrow> bool" where
  "authorized st hs \<longleftrightarrow> bearer_token hs = Some (la_token st)"

text \<open>An error reply has its HTTP status and code.\<close>

datatype agent_reply = ErrorReply nat str | CommandReply agent_command_response

definition agent_command_check :: "headers \<Rightarrow> agent_command_request \<Rightarrow> local_agent \<Rightarrow> agent_reply option" where
  "agent_command_check hs r st =
     (if \<not> authorized st hs then Some (ErrorReply 401 (lit ''unauthorized''))
      else if ai_platform (la_info st) = PlatformWindows \<and> cq_action r = ActionApply then
        Some (ErrorReply 409 (lit ''windows_apply_requires_approved_workflow''))
      else if cq_action r = ActionUpdateAgent then
        Some (ErrorReply 409 (lit ''agent_update_requires_approved_workflow''))
      else if trim (cq_idempotency_key r) = [] \<or> list_ex (\<lambda>p. \<not> safe_package p) (cq_packages r) then
        Some (ErrorReply 400 (lit ''invalid_request''))
      else map_option CommandReply (hm_get (la_results st) (cq_idempotency_key r)))"

text \<open>Adding to a counter wraps in \<open>agent_command\<close> and saturates in \<open>execute_workflow_command\<close>.\<close>

definition saturating_inc :: "u64 \<Rightarrow> u64" where
  "saturating_inc n = (if n = - 1 then n else n + 1)"

definition count_command :: "(u64 \<Rightarrow> u64) \<Rightarrow> timestamp \<Rightarrow> bool \<Rightarrow> agent_metrics \<Rightarrow> agent_metrics" where
  "count_command inc now success m =
     m\<lparr>am_commands_total := inc (am_commands_total m),
       am_commands_failed := (if success then am_commands_failed m else inc (am_commands_failed m)),
       am_last_command_at := Some now, am_collected_at := now\<rparr>"

definition response_of :: "command_output \<Rightarrow> agent_command_response" where
  "response_of output =
     (case output of (code, stdout, stderr) \<Rightarrow>
        \<lparr>rs_success = (code = 0), rs_exit_code = code, rs_stdout = safe_detail stdout, rs_stderr = safe_detail stderr\<rparr>)"

definition remember :: "str \<Rightarrow> agent_command_response \<Rightarrow> (str, agent_command_response) hashmap
    \<Rightarrow> (str, agent_command_response) hashmap" where
  "remember key response results = hm_insert key response (if length results \<ge> 512 then [] else results)"

definition command_finish ::
  "(u64 \<Rightarrow> u64) \<Rightarrow> timestamp \<Rightarrow> str \<Rightarrow> command_output \<Rightarrow> local_agent \<Rightarrow> agent_command_response \<times> local_agent" where
  "command_finish inc now key output st =
     (let response = response_of output in
      (response, st\<lparr>la_metrics := count_command inc now (rs_success response) (la_metrics st),
         la_results := remember key response (la_results st)\<rparr>))"

text \<open>A command that is not answered at once has an output already or a program to start.\<close>

definition command_begin ::
  "(str list \<Rightarrow> str option) \<Rightarrow> headers \<Rightarrow> agent_command_request \<Rightarrow> local_agent
     \<Rightarrow> (agent_reply + command_output + agent_program) \<times> local_agent" where
  "command_begin to_json hs r st =
     (case agent_command_check hs r st of
        Some reply \<Rightarrow> (Inl reply, st)
      | None \<Rightarrow>
          (case local_program to_json (ai_platform (la_info st)) (cq_action r) (cq_packages r) of
             Inl output \<Rightarrow> (Inr (Inl output), st)
           | Inr program \<Rightarrow>
               (Inr (Inr program), st\<lparr>la_commands := la_commands st @ [(cq_idempotency_key r, program)]\<rparr>)))"

definition agent_command ::
  "(str list \<Rightarrow> str option) \<Rightarrow> (agent_program \<Rightarrow> process_outcome) \<Rightarrow> timestamp \<Rightarrow> headers \<Rightarrow> agent_command_request
     \<Rightarrow> local_agent \<Rightarrow> agent_reply \<times> local_agent" where
  "agent_command to_json execute now hs r st =
     (case command_begin to_json hs r st of
        (Inl reply, st1) \<Rightarrow> (reply, st1)
      | (Inr begun, st1) \<Rightarrow>
          (let output = (case begun of
               Inl output \<Rightarrow> output
             | Inr program \<Rightarrow> command_result (ai_platform (la_info st)) (cq_action r) (execute program))
           in case command_finish (\<lambda>n. n + 1) now (cq_idempotency_key r) output st1 of
                (response, st2) \<Rightarrow> (CommandReply response, st2)))"

section \<open>Workflow commands\<close>

definition safe_agent_version :: "str \<Rightarrow> bool" where
  "safe_agent_version version \<longleftrightarrow>
     (case (case split_once (ch CHR ''-'') version of Some x \<Rightarrow> x | None \<Rightarrow> (version, [])) of
        (release, prerelease) \<Rightarrow>
          release_ok release \<and> str_len version \<le> 50
          \<and> (prerelease = [] \<or> list_all (\<lambda>c. is_ascii_alphanumeric c \<or> c \<in> {ch CHR ''.'', ch CHR ''-''}) prerelease))"

text \<open>The output of a workflow command without a process, or the program that is started for it.\<close>

definition workflow_program ::
  "(str list \<Rightarrow> str option) \<Rightarrow> agent_platform \<Rightarrow> agent_workflow_command \<Rightarrow> command_output + agent_program" where
  "workflow_program to_json platform c =
     (if wc_action c = ActionUpdateAgent then
        Inl (refused ''agent update must run through the Windows service updater'')
      else if wc_agent_version c \<noteq> None \<and> wc_action c = ActionHealth then
        (let version = the (wc_agent_version c) in
         if \<not> safe_agent_version version then Inl (refused ''invalid agent update version'')
         else if version = CARGO_PKG_VERSION then
           Inl (0, lit ''Installed agent version '' @ version @ lit '' is confirmed.'', [])
         else Inl (1, lit ''Installed agent version is '' @ CARGO_PKG_VERSION @ lit ''; expected '' @ version @ lit ''.'', []))
      else if platform = PlatformWindows \<and> wc_action c = ActionScan \<and> wc_packages c = [] then
        Inl (0, lit ''Package inventory refresh is handled by the agent inventory collector.'', [])
      else if list_ex (\<lambda>p. \<not> safe_package p) (wc_packages c) then Inl (refused ''invalid package selection'')
      else local_program to_json platform (wc_action c) (wc_packages c))"

definition execute_workflow_command ::
  "ansible_env \<Rightarrow> (str list \<Rightarrow> str option) \<Rightarrow> (agent_program \<Rightarrow> process_outcome) \<Rightarrow> timestamp
     \<Rightarrow> agent_workflow_command \<Rightarrow> local_agent \<Rightarrow> agent_command_response \<times> local_agent" where
  "execute_workflow_command env to_json execute now c st =
     (let key = ae_uuid_to_string env (wc_job_id c) in
      case hm_get (la_results st) key of
        Some response \<Rightarrow> (response, st)
      | None \<Rightarrow>
          (case workflow_program to_json (ai_platform (la_info st)) c of
             Inl output \<Rightarrow> command_finish saturating_inc now key output st
           | Inr program \<Rightarrow>
               command_finish saturating_inc now key
                 (command_result (ai_platform (la_info st)) (wc_action c) (execute program))
                 (st\<lparr>la_commands := la_commands st @ [(key, program)]\<rparr>)))"

section \<open>The client of the server (lib.rs)\<close>

record agent_client_config =
  cc_base_url :: str
  cc_token :: str
  cc_max_retries :: u8

datatype agent_config_error = InsecureBaseUrl | EmptyToken

definition client_config_new :: "str \<Rightarrow> str \<Rightarrow> agent_config_error + agent_client_config" where
  "client_config_new base_url token =
     (if \<not> (starts_with base_url (lit ''https://'') \<or> starts_with base_url (lit ''http://127.0.0.1'')
            \<or> starts_with base_url (lit ''http://localhost'')) then Inl InsecureBaseUrl
      else if trim token = [] then Inl EmptyToken
      else Inr \<lparr>cc_base_url = trim_end_matches (ch CHR ''/'') base_url, cc_token = token, cc_max_retries = 2\<rparr>)"

datatype ip_addr = V4 "32 word" | V6 "128 word"

text \<open>\<open>is_private\<close>, \<open>is_loopback\<close> and \<open>is_link_local\<close> of \<open>std::net\<close>.\<close>

fun is_private_network_address :: "ip_addr \<Rightarrow> bool" where
  "is_private_network_address (V4 a) \<longleftrightarrow>
     unat (drop_bit 24 a) = 10 \<or> unat (drop_bit 20 a) = 0xac1 \<or> unat (drop_bit 16 a) = 0xc0a8
     \<or> unat (drop_bit 24 a) = 127 \<or> unat (drop_bit 16 a) = 0xa9fe"
| "is_private_network_address (V6 a) \<longleftrightarrow>
     a = 1 \<or> unat (drop_bit 121 a) = 0x7e \<or> unat (drop_bit 118 a) = 0x3fa"

datatype agent_error =
    ErrTransport | ErrUnauthorized | ErrInvalidRequest str | ErrApi nat str | ErrDecode | ErrClientBuild

fun agent_error_is_retryable :: "agent_error \<Rightarrow> bool" where
  "agent_error_is_retryable ErrTransport \<longleftrightarrow> True"
| "agent_error_is_retryable (ErrApi status _) \<longleftrightarrow> 500 \<le> status \<and> status < 600"
| "agent_error_is_retryable _ \<longleftrightarrow> False"

fun agent_error_code :: "agent_error \<Rightarrow> str" where
  "agent_error_code ErrUnauthorized = lit ''agent_unauthorized''"
| "agent_error_code (ErrInvalidRequest _) = lit ''agent_invalid_request''"
| "agent_error_code (ErrApi _ _) = lit ''agent_api_error''"
| "agent_error_code ErrTransport = lit ''agent_unreachable''"
| "agent_error_code ErrClientBuild = lit ''agent_client_error''"
| "agent_error_code ErrDecode = lit ''agent_invalid_response''"

text \<open>What the client sees of one attempt; a timeout is a transport error.\<close>

datatype http_outcome = HttpResponse nat str | HttpFailed

text \<open>
  The retry loop. \<open>send n\<close> is what the attempt with number \<open>n\<close> meets. The attempts stay below the
  maximum, so the \<open>u8\<close> counter never saturates. The result has the number of requests sent.
\<close>

function request_loop ::
  "(nat \<Rightarrow> http_outcome) \<Rightarrow> (str \<Rightarrow> 'a option) \<Rightarrow> nat \<Rightarrow> nat \<Rightarrow> (agent_error + 'a) \<times> nat" where
  "request_loop send decode max_retries attempt =
     (case send attempt of
        HttpResponse status body \<Rightarrow>
          if status = 401 \<or> status = 403 then (Inl ErrUnauthorized, Suc attempt)
          else if 200 \<le> status \<and> status < 300 then (ok_or ErrDecode (decode body), Suc attempt)
          else if \<not> (500 \<le> status \<and> status < 600) \<or> attempt \<ge> max_retries then
            (Inl (ErrApi status (safe_detail body)), Suc attempt)
          else request_loop send decode max_retries (Suc attempt)
      | HttpFailed \<Rightarrow>
          if attempt \<ge> max_retries then (Inl ErrTransport, Suc attempt)
          else request_loop send decode max_retries (Suc attempt))"
  by pat_completeness auto
termination
  by (relation "measure (\<lambda>(send, decode, m, attempt). m - attempt)") auto

declare request_loop.simps [simp del]

definition client_command ::
  "agent_client_config \<Rightarrow> (nat \<Rightarrow> http_outcome) \<Rightarrow> (str \<Rightarrow> 'a option) \<Rightarrow> agent_command_request
     \<Rightarrow> (agent_error + 'a) \<times> nat" where
  "client_command config send decode r =
     (if trim (cq_idempotency_key r) = [] then (Inl (ErrInvalidRequest (lit ''idempotency key is required'')), 0)
      else if list_ex (\<lambda>p. \<not> safe_package p) (cq_packages r) then
        (Inl (ErrInvalidRequest (lit ''package argument is not safe'')), 0)
      else request_loop send decode (unat (cc_max_retries config)) 0)"

end
