(* ===== verification/AgentHost.thy ===== *)
theory AgentHost
  imports AgentService
begin

text \<open>
  \<open>lxcup-agent/src/main.rs\<close>: the configuration of the agent and the telemetry it reads from \<open>/proc\<close>,
  and the heartbeat of \<open>workflow_client.rs\<close>. The load average is a floating-point number in the
  sources: reading it is the argument \<open>parse_load\<close>.
\<close>

section \<open>Telemetry\<close>

definition saturating_sub_u64 :: "u64 \<Rightarrow> u64 \<Rightarrow> u64" where
  "saturating_sub_u64 a b = (if b \<le> a then a - b else 0)"

definition saturating_add_u64 :: "u64 \<Rightarrow> u64 \<Rightarrow> u64" where
  "saturating_add_u64 a b = (if unat a + unat b < 2 ^ 64 then a + b else - 1)"

definition read_u64 :: "str \<Rightarrow> u64 option" where
  "read_u64 s = map_option word_of_int (parse_u64 s)"

fun first_some :: "'a option list \<Rightarrow> 'a option" where
  "first_some [] = None"
| "first_some (Some x # _) = Some x"
| "first_some (None # xs) = first_some xs"

definition meminfo_value :: "str \<Rightarrow> str \<Rightarrow> u64 option" where
  "meminfo_value meminfo key =
     first_some (map (\<lambda>line. Option.bind (strip_prefix line key) (\<lambda>rest.
       case split_whitespace rest of [] \<Rightarrow> None | w # _ \<Rightarrow> read_u64 w)) (lines meminfo))"

text \<open>A share of a total in basis points, as both computations of \<open>telemetry_from_proc\<close> form it.\<close>

definition basis_points :: "u64 \<Rightarrow> u64 \<Rightarrow> u16" where
  "basis_points part whole = ucast (min (saturating_mul_u64 part 10000 div whole) 10000)"

definition memory_basis_points :: "str \<Rightarrow> u16 option" where
  "memory_basis_points meminfo =
     (case (meminfo_value meminfo (lit ''MemTotal:''), meminfo_value meminfo (lit ''MemAvailable:'')) of
        (Some whole, Some available) \<Rightarrow> Some (basis_points (saturating_sub_u64 whole available) (max whole 1))
      | _ \<Rightarrow> None)"

definition cpu_snapshot :: "str \<Rightarrow> (u64 \<times> u64) option" where
  "cpu_snapshot stat =
     (case List.find (\<lambda>line. starts_with line (lit ''cpu '')) (lines stat) of
        None \<Rightarrow> None
      | Some line \<Rightarrow>
          (let values = List.map_filter read_u64 (drop 1 (split_whitespace line));
               nth_or_0 = (\<lambda>i. if i < length values then values ! i else 0)
           in if values = [] then None
              else Some (sum_list values, saturating_add_u64 (nth_or_0 3) (nth_or_0 4))))"

definition cpu_basis_points :: "(u64 \<times> u64) option \<Rightarrow> (u64 \<times> u64) option \<Rightarrow> u16 option" where
  "cpu_basis_points snapshot previous =
     (case (snapshot, previous) of
        (Some (whole, idle), Some (last_total, last_idle)) \<Rightarrow>
          (let total_delta = saturating_sub_u64 whole last_total; idle_delta = saturating_sub_u64 idle last_idle in
           if total_delta > 0 then Some (basis_points (saturating_sub_u64 total_delta idle_delta) total_delta) else None)
      | _ \<Rightarrow> None)"

definition network_line :: "str \<Rightarrow> (u64 \<times> u64) option" where
  "network_line line =
     Option.bind (split_once (ch CHR '':'') line) (\<lambda>(_, rest).
       (let values = split_whitespace rest in
        case values of
          [] \<Rightarrow> None
        | first # _ \<Rightarrow>
            Option.bind (read_u64 first) (\<lambda>rx.
              if 8 < length values then map_option (\<lambda>tx. (rx, tx)) (read_u64 (values ! 8)) else None)))"

definition parse_network_counters :: "str \<Rightarrow> u64 option \<times> u64 option" where
  "parse_network_counters network =
     (let counters = List.map_filter network_line (drop 2 (lines network));
          sums = fold (\<lambda>(next_rx, next_tx) (rx, tx). (saturating_add_u64 rx next_rx, saturating_add_u64 tx next_tx))
            counters (0, 0)
      in if counters = [] then (None, None) else (Some (fst sums), Some (snd sums)))"

record proc_input =
  pr_meminfo :: str
  pr_loadavg :: str
  pr_stat :: str
  pr_network :: str
  pr_storage_basis_points :: "u16 option"
  pr_process_count :: "u32 option"
  pr_previous_cpu :: "(u64 \<times> u64) option"
  pr_collected_at :: timestamp

definition telemetry_from_proc ::
  "(str \<Rightarrow> u32 option) \<Rightarrow> proc_input \<Rightarrow> system_telemetry_sample \<times> (u64 \<times> u64) option" where
  "telemetry_from_proc parse_load input =
     (let snapshot = cpu_snapshot (pr_stat input);
          counters = parse_network_counters (pr_network input)
      in (\<lparr>ss_collected_at = pr_collected_at input,
           ss_cpu_basis_points = cpu_basis_points snapshot (pr_previous_cpu input),
           ss_memory_basis_points = memory_basis_points (pr_meminfo input),
           ss_storage_basis_points = pr_storage_basis_points input,
           ss_load_1_milli =
             (case split_whitespace (pr_loadavg input) of [] \<Rightarrow> None | w # _ \<Rightarrow> parse_load w),
           ss_network_rx_bytes = fst counters, ss_network_tx_bytes = snd counters,
           ss_process_count = pr_process_count input\<rparr>, snapshot))"

section \<open>Configuration\<close>

definition allowed_variables :: "str list" where
  "allowed_variables = map lit [''LXCUP_AGENT_TOKEN'', ''LXCUP_AGENT_ID'', ''LXCUP_TARGET_ID'',
     ''LXCUP_AGENT_BIND_ADDRESS'', ''LXCUP_CONTROLLER_URL'', ''LXCUP_TARGET_ID'']"

definition environment_line :: "str \<Rightarrow> (str, str) hashmap \<Rightarrow> str + (str, str) hashmap" where
  "environment_line line values =
     bindR (ok_or (lit ''agent service configuration is invalid'') (split_once (ch CHR ''='') line)) (\<lambda>(key, value).
       if key \<notin> set allowed_variables \<or> trim value = [] \<or> hm_contains_key values key then
         Inl (lit ''agent service configuration is invalid'')
       else Inr (hm_insert key value values))"

definition parse_agent_environment :: "str \<Rightarrow> str + (str, str) hashmap" where
  "parse_agent_environment contents =
     fold_result environment_line (filter (\<lambda>line. line \<noteq> []) (map trim (lines contents))) []"

record startup_config =
  sc_token :: str
  sc_info :: agent_info
  sc_bind :: str
  sc_heartbeat :: "(str \<times> uuid) option"

definition startup_config_from_values ::
  "ansible_env \<Rightarrow> bool \<Rightarrow> str option \<Rightarrow> str option \<Rightarrow> str option \<Rightarrow> str option \<Rightarrow> str option \<Rightarrow> str option
     \<Rightarrow> str + startup_config" where
  "startup_config_from_values env windows token agent_id hostname bind_address controller_url target_id =
     (case token of
        None \<Rightarrow> Inl (lit ''LXCUP_AGENT_TOKEN must be configured'')
      | Some t \<Rightarrow>
          if trim t = [] then Inl (lit ''LXCUP_AGENT_TOKEN must be configured'')
          else
            (let or_default = (\<lambda>v d. case v of None \<Rightarrow> lit d | Some x \<Rightarrow> x) in
             Inr \<lparr>sc_token = t,
               sc_info = \<lparr>ai_agent_id = or_default agent_id ''local-agent'',
                 ai_platform = (if windows then PlatformWindows else PlatformLinux),
                 ai_hostname = or_default hostname ''unknown'', ai_version = CARGO_PKG_VERSION,
                 ai_protocol_version = lit ''v1''\<rparr>,
               sc_bind = or_default bind_address ''127.0.0.1:8090'',
               sc_heartbeat = (case (controller_url, target_id) of
                   (Some controller, Some target) \<Rightarrow> map_option (\<lambda>i. (controller, i)) (ae_uuid_parse env target)
                 | _ \<Rightarrow> None)\<rparr>))"

section \<open>Heartbeats (workflow\_client.rs)\<close>

text \<open>
  \<open>send_agent_heartbeat\<close> up to the request and from its answer on; the state is not locked between
  the two. Only an accepted heartbeat acknowledges the inventory it carried.
\<close>

definition agent_heartbeat_of :: "timestamp \<Rightarrow> uuid \<Rightarrow> local_agent \<Rightarrow> agent_heartbeat \<times> local_agent" where
  "agent_heartbeat_of now target_id st =
     (let samples = telemetry_remove_expired now (la_telemetry st);
          docker = docker_remove_expired now (la_docker_telemetry st);
          st1 = st\<lparr>la_telemetry := samples, la_docker_telemetry := docker\<rparr>
      in (\<lparr>hb_target_id = target_id, hb_info = la_info st, hb_sent_at = now,
           hb_telemetry = fst (telemetry_window now (la_telemetry st)), hb_docker_telemetry = docker,
           hb_package_inventory = la_inventory st\<rparr>, st1))"

definition heartbeat_answered :: "agent_heartbeat \<Rightarrow> bool \<Rightarrow> local_agent \<Rightarrow> local_agent" where
  "heartbeat_answered heartbeat accepted st =
     (case hb_package_inventory heartbeat of
        Some inventory \<Rightarrow>
          if accepted then acknowledge_package_inventory (ap_collected_at inventory) st else st
      | None \<Rightarrow> st)"

end
