(* ===== verification/ScanApi.thy ===== *)
theory ScanApi
  imports AgentService Apt
begin

text \<open>
  The scan handlers of \<open>lxcup-server/src/inventory.rs\<close>. As \<open>run_execution\<close> does, \<open>run_scan\<close> holds no
  lock while it waits for its agent: it is \<open>scan_begin\<close> up to the command and \<open>scan_finish\<close> from the
  answer on. The result of a scan is never written to the database.
\<close>

record scan_state =
  ns_containers :: "u64 list"
  ns_scans :: "scan list"
  ns_agents :: "u64 list"
  ns_db :: "scan list option"

definition save_scan :: "bool \<Rightarrow> scan \<Rightarrow> scan_state \<Rightarrow> unit api_result \<times> scan_state" where
  "save_scan up s st =
     (case ns_db st of
        None \<Rightarrow> (Inr (), st)
      | Some rows \<Rightarrow>
          (case db_write up rows (if sc_id s \<in> sc_id ` set rows then (Inl RepDatabase, rows) else (Inr (), rows @ [s])) of
             (r, rows1) \<Rightarrow> (map_err (\<lambda>_. storage) r, st\<lparr>ns_db := Some rows1\<rparr>)))"

definition list_scans :: "str \<Rightarrow> scan_state \<Rightarrow> scan list api_result" where
  "list_scans text st =
     bindR (parse_container_id text) (\<lambda>c. Inr (filter (\<lambda>s. sc_container_id s = c) (ns_scans st)))"

definition start_scan ::
  "bool \<Rightarrow> uuid \<Rightarrow> timestamp \<Rightarrow> str \<Rightarrow> scan_state \<Rightarrow> (nat \<times> scan) api_result \<times> scan_state" where
  "start_scan up fresh now text st =
     (case parse_container_id text of
        Inl e \<Rightarrow> (Inl e, st)
      | Inr c \<Rightarrow>
          if c \<notin> set (ns_containers st) then (Inl (not_found (lit ''container not found'')), st)
          else
            (let s = scan_new fresh now c in
             case save_scan up s (st\<lparr>ns_scans := ns_scans st @ [s]\<rparr>) of
               (Inl e, st1) \<Rightarrow> (Inl e, st1)
             | (Inr _, st1) \<Rightarrow> (Inr (202, s), st1)))"

definition scan_begin ::
  "ansible_env \<Rightarrow> timestamp \<Rightarrow> str \<Rightarrow> scan_state \<Rightarrow> (uuid \<times> u64 \<times> agent_command_request) api_result \<times> scan_state" where
  "scan_begin env now text st =
     (case bindR (parse_uuid env text (lit ''scan id'')) (\<lambda>i.
             ok_or (not_found (lit ''scan not found'')) (List.find (\<lambda>s. sc_id s = i) (ns_scans st))) of
        Inl e \<Rightarrow> (Inl e, st)
      | Inr s \<Rightarrow>
          (case scan_transition_to ScanRunning now s of
             Inl _ \<Rightarrow> (Inl (bad_request (lit ''scan_not_runnable'') (lit ''scan is not runnable'')), st)
           | Inr s1 \<Rightarrow>
               (let st1 = st\<lparr>ns_scans := update_first (\<lambda>x. sc_id x = sc_id s) (\<lambda>_. s1) (ns_scans st)\<rparr> in
                if sc_container_id s \<in> set (ns_agents st) then
                  (Inr (sc_id s, sc_container_id s,
                     \<lparr>cq_action = ActionScan, cq_packages = [], cq_idempotency_key = ae_uuid_to_string env (sc_id s)\<rparr>), st1)
                else (Inl (dependency (lit ''agent_unavailable'') (lit ''no agent is registered for this container'')), st1))))"

text \<open>A scan that fails after the answer; \<open>None\<close> is a panic of \<open>build_scan\<close>.\<close>

definition fail_scan :: "str \<Rightarrow> timestamp \<Rightarrow> scan \<Rightarrow> scan api_result" where
  "fail_scan message now s =
     map_err (\<lambda>_. bad_request (lit ''scan_failed'') message) (scan_transition_to ScanFailed now s)"

definition scan_result :: "uuid \<Rightarrow> timestamp \<Rightarrow> agent_command_response \<Rightarrow> u64 \<Rightarrow> scan \<Rightarrow> scan api_result option" where
  "scan_result fresh now response c s =
     (if rs_success response then
        (case build_scan fresh now now now c
            \<lparr>ax_stdout = rs_stdout response, ax_stderr = rs_stderr response, ax_exit_code = Some (rs_exit_code response)\<rparr> of
           None \<Rightarrow> None
         | Some (Inr result) \<Rightarrow> Some (Inr ((as_scan result)\<lparr>sc_id := sc_id s\<rparr>))
         | Some (Inl _) \<Rightarrow> Some (fail_scan (lit ''the agent returned invalid scan data'') now s))
      else Some (fail_scan (lit ''the agent scan failed'') now s))"

definition scan_finish ::
  "uuid \<Rightarrow> timestamp \<Rightarrow> uuid \<Rightarrow> u64 \<Rightarrow> agent_error + agent_command_response \<Rightarrow> scan_state
     \<Rightarrow> scan api_result option \<times> scan_state" where
  "scan_finish fresh now i c answer st =
     (case answer of
        Inl _ \<Rightarrow> (Some (Inl (dependency (lit ''agent_request_failed'') (lit ''the agent scan request failed''))), st)
      | Inr response \<Rightarrow>
          (case List.find (\<lambda>s. sc_id s = i) (ns_scans st) of
             None \<Rightarrow> (Some (Inl (not_found (lit ''scan not found''))), st)
           | Some s \<Rightarrow>
               (case scan_result fresh now response c s of
                  None \<Rightarrow> (None, st)
                | Some (Inl e) \<Rightarrow> (Some (Inl e), st)
                | Some (Inr s1) \<Rightarrow>
                    (Some (Inr s1), st\<lparr>ns_scans := update_first (\<lambda>x. sc_id x = i) (\<lambda>_. s1) (ns_scans st)\<rparr>))))"

definition run_scan ::
  "ansible_env \<Rightarrow> (agent_command_request \<Rightarrow> agent_error + agent_command_response) \<Rightarrow> uuid \<Rightarrow> timestamp \<Rightarrow> timestamp \<Rightarrow> str
     \<Rightarrow> scan_state \<Rightarrow> scan api_result option \<times> scan_state" where
  "run_scan env agent fresh begun finished text st =
     (case scan_begin env begun text st of
        (Inl e, st1) \<Rightarrow> (Some (Inl e), st1)
      | (Inr (i, c, command), st1) \<Rightarrow> scan_finish fresh finished i c (agent command) st1)"

end
