(* ===== verification/AgentLaws.thy ===== *)
theory AgentLaws
  imports AgentHost ScanApi
begin

text \<open>
  What the agent guarantees: which programs it starts for a command, how long it remembers a command, what happens
  to a command that outlives the client's timeout, and what the server learns from a scan.
\<close>

section \<open>Steps\<close>

text \<open>
  \<open>ag_other\<close> is whatever else the agent does: samples of telemetry and docker, inventories,
  heartbeats. It runs no command, which is what \<open>la_commands\<close> records; the programs it starts
  itself (\<open>df\<close>, \<open>docker\<close>, \<open>dpkg-query\<close>, the telemetry scripts, \<open>sc.exe\<close>) are not commands.
\<close>

inductive agent_step :: "(str list \<Rightarrow> str option) \<Rightarrow> local_agent \<Rightarrow> local_agent \<Rightarrow> bool" for to_json where
  ag_begin: "agent_step to_json st (snd (command_begin to_json hs r st))"
| ag_finish: "agent_step to_json st (snd (command_finish inc now key out st))"
| ag_workflow: "agent_step to_json st (snd (execute_workflow_command env to_json execute now c st))"
| ag_other: "la_info st' = la_info st \<Longrightarrow> la_results st' = la_results st \<Longrightarrow> la_commands st' = la_commands st \<Longrightarrow>
     agent_step to_json st st'"

inductive agent_reachable :: "(str list \<Rightarrow> str option) \<Rightarrow> local_agent \<Rightarrow> bool" for to_json where
  ar_new: "agent_reachable to_json (local_agent_new now info token)"
| ar_step: "agent_reachable to_json st \<Longrightarrow> agent_step to_json st st' \<Longrightarrow> agent_reachable to_json st'"

section \<open>Programs\<close>

text \<open>
  The programs of a command: on Linux \<open>apt\<close> with fixed arguments, followed for an update by package
  names that are no options; on Windows the two scripts, for an update with exact winget ids.
\<close>

definition allowed_program :: "(str list \<Rightarrow> str option) \<Rightarrow> agent_platform \<Rightarrow> agent_program \<Rightarrow> bool" where
  "allowed_program to_json platform program \<longleftrightarrow>
     (case program of
        AptProgram arguments \<Rightarrow> platform = PlatformLinux
          \<and> (arguments = [lit ''--version''] \<or> arguments = [lit ''list'', lit ''--upgradable'']
             \<or> (\<exists>packages. packages \<noteq> [] \<and> list_all safe_package packages
                  \<and> arguments = [lit ''--yes'', lit ''--only-upgrade'', lit ''install''] @ packages))
      | WingetProgram script ids \<Rightarrow> platform = PlatformWindows
          \<and> (\<exists>packages. to_json packages = Some ids \<and> list_all safe_package packages
               \<and> (script = ApplyScript \<longrightarrow> packages \<noteq> [] \<and> list_all safe_winget_id packages)))"

lemma local_program_allowed:
  assumes "local_program to_json platform action packages = Inr program" "list_all safe_package packages"
  shows "allowed_program to_json platform program"
proof (cases platform)
  case PlatformLinux
  then show ?thesis using assms
    by (cases action) (auto simp: local_program_def allowed_program_def split: if_splits)
next
  case PlatformWindows
  have id: "list_all safe_winget_id packages" if "\<not> list_ex (\<lambda>p. \<not> safe_winget_id p) packages"
    using that by (simp add: list_ex_iff list_all_iff)
  show ?thesis using assms PlatformWindows id
    by (cases action)
      (auto simp: local_program_def allowed_program_def windows_winget_invocation_def bindR_Inr_iff ok_or_Inr_iff
        map_err_Inr_iff split: if_splits)
qed

lemma safe_packages: "\<not> list_ex (\<lambda>p. \<not> safe_package p) ps \<Longrightarrow> list_all safe_package ps"
  by (simp add: list_ex_iff list_all_iff)

text \<open>Everything the agent remembers is one line of bounded length.\<close>

definition flat :: "agent_command_response \<Rightarrow> bool" where
  "flat response \<longleftrightarrow> length (rs_stdout response) \<le> 240 \<and> 10 \<notin> set (rs_stdout response) \<and> 13 \<notin> set (rs_stdout response)"

lemma response_flat: "flat (response_of out)"
  using set_take_subset [of 240] by (fastforce simp: flat_def response_of_def safe_detail_def replace_newlines_def
      split: prod.splits dest: in_set_takeD)

definition agent_ok :: "(str list \<Rightarrow> str option) \<Rightarrow> local_agent \<Rightarrow> bool" where
  "agent_ok to_json st \<longleftrightarrow>
     list_all (\<lambda>(_, p). allowed_program to_json (ai_platform (la_info st)) p) (la_commands st)
     \<and> hm_ok (la_results st) \<and> length (la_results st) \<le> 512 \<and> list_all (\<lambda>(_, r). flat r) (la_results st)"

lemma hm_insert_flat: "list_all (\<lambda>(_, r). flat r) m \<Longrightarrow> flat r \<Longrightarrow> list_all (\<lambda>(_, r). flat r) (hm_insert k r m)"
  by (induction m) (auto simp: hm_insert_def)

lemma hm_insert_length: "length (hm_insert k v m) \<le> Suc (length m)"
  by (induction m) (auto simp: hm_insert_def)

lemma command_finish_ok:
  assumes "agent_ok to_json st"
  shows "agent_ok to_json (snd (command_finish inc now key out st))"
proof -
  define m where "m = (if length (la_results st) \<ge> 512 then [] else la_results st)"
  have m: "hm_ok m" "length m < 512" "list_all (\<lambda>(_, r). flat r) m"
    using assms by (auto simp: agent_ok_def m_def)
  have "length (hm_insert key (response_of out) m) \<le> 512"
    using hm_insert_length [of key "response_of out" m] m(2) by linarith
  then have "hm_ok (remember key (response_of out) (la_results st))"
    "length (remember key (response_of out) (la_results st)) \<le> 512"
    "list_all (\<lambda>(_, r). flat r) (remember key (response_of out) (la_results st))"
    using m hm_insert_flat [OF m(3) response_flat] by (simp_all add: remember_def m_def)
  then show ?thesis using assms by (simp add: agent_ok_def command_finish_def Let_def)
qed

lemma command_begin_ok:
  assumes "agent_ok to_json st"
  shows "agent_ok to_json (snd (command_begin to_json hs r st))"
proof (cases "fst (command_begin to_json hs r st)")
  case (Inl reply)
  then have "snd (command_begin to_json hs r st) = st"
    by (auto simp: command_begin_def split: option.splits sum.splits)
  then show ?thesis using assms by simp
next
  case (Inr begun)
  then have "list_all safe_package (cq_packages r)"
    by (auto simp: command_begin_def agent_command_check_def intro!: safe_packages split: option.splits if_splits sum.splits)
  then show ?thesis using assms local_program_allowed
    by (auto simp: command_begin_def agent_ok_def split: option.splits sum.splits)
qed

lemma workflow_program_allowed:
  assumes "workflow_program to_json platform c = Inr program"
  shows "allowed_program to_json platform program"
  using assms safe_packages
  by (intro local_program_allowed [of _ _ "wc_action c" "wc_packages c"])
    (auto simp: workflow_program_def Let_def split: if_splits)

lemma execute_workflow_command_ok:
  assumes "agent_ok to_json st"
  shows "agent_ok to_json (snd (execute_workflow_command env to_json execute now c st))"
proof (cases "workflow_program to_json (ai_platform (la_info st)) c")
  case (Inl out)
  then show ?thesis using assms command_finish_ok
    by (simp add: execute_workflow_command_def Let_def split: option.splits)
next
  case (Inr program)
  have "agent_ok to_json (st\<lparr>la_commands := la_commands st @ [(k, program)]\<rparr>)" for k
    using assms workflow_program_allowed [OF Inr] by (simp add: agent_ok_def)
  then show ?thesis using assms command_finish_ok Inr
    by (simp add: execute_workflow_command_def Let_def split: option.splits)
qed

lemma agent_reachable_ok: "agent_reachable to_json st \<Longrightarrow> agent_ok to_json st"
proof (induction rule: agent_reachable.induct)
  case (ar_new now info token)
  then show ?case by (simp add: agent_ok_def local_agent_new_def)
next
  case (ar_step st st')
  from ar_step.hyps(2) show ?case
  proof cases
    case (ag_begin hs r)
    then show ?thesis using command_begin_ok [OF ar_step.IH] by simp
  next
    case (ag_finish inc now key out)
    then show ?thesis using command_finish_ok [OF ar_step.IH] by simp
  next
    case (ag_workflow env execute now c)
    then show ?thesis using execute_workflow_command_ok [OF ar_step.IH] by simp
  next
    case ag_other
    then show ?thesis using ar_step.IH by (simp add: agent_ok_def)
  qed
qed

section \<open>One line is no scan\<close>

lemma parse_line_one:
  "parse_line l fields_init = Inr f \<Longrightarrow> fl_package f = None \<or> fl_installed f = None"
  by (auto simp: parse_line_def fields_init_def bindR_Inr_iff Let_def split: if_splits)

lemma finish_block_missing: "fl_package f = None \<or> fl_installed f = None \<Longrightarrow> \<not> is_ok (finish_block f)"
  by (auto simp: finish_block_def nonempty_def is_ok_iff bindR_Inr_iff)

lemma lines_one: "10 \<notin> set t \<Longrightarrow> lines t = [] \<or> (\<exists>l. lines t = [l])"
  by (auto simp: lines_def split_char_no_sep)

lemma parse_block_flat:
  assumes "10 \<notin> set t"
  shows "\<not> is_ok (parse_block t)"
proof -
  have "fl_package f = None \<or> fl_installed f = None" if f: "fold_result parse_line (lines t) fields_init = Inr f" for f
    using lines_one [OF assms]
  proof
    assume "lines t = []"
    then show ?thesis using f by (auto simp: fields_init_def)
  next
    assume "\<exists>l. lines t = [l]"
    then obtain l where "parse_line l fields_init = Inr f" using f by (auto simp: bindR_Inr_iff)
    then show ?thesis by (rule parse_line_one)
  qed
  then show ?thesis using finish_block_missing by (auto simp: parse_block_def is_ok_iff bindR_Inr_iff)
qed

lemma parse_output_flat:
  assumes "10 \<notin> set t" "parse_output t = Inr rs"
  shows "rs = []"
proof -
  have "split2 10 10 t = [t]" using split2_solid successively_no_newline [OF assms(1)] by blast
  then show ?thesis using assms(2) parse_block_flat [OF assms(1)]
    by (auto simp: parse_output_def is_ok_iff bindR_Inr_iff split: if_splits)
qed

lemma agent_command_flat:
  assumes "agent_ok to_json st" "fst (agent_command to_json execute now hs r st) = CommandReply response"
  shows "flat response"
proof (cases "agent_command_check hs r st")
  case (Some reply)
  then have "hm_get (la_results st) (cq_idempotency_key r) = Some response"
    using assms(2) by (auto simp: agent_command_def command_begin_def agent_command_check_def split: if_splits)
  then have "(cq_idempotency_key r, response) \<in> set (la_results st)" by (auto simp: hm_get_def dest: map_of_SomeD)
  then show ?thesis using assms(1) by (auto simp: agent_ok_def list_all_iff)
next
  case None
  then show ?thesis
    using assms(2)
    by (auto simp: agent_command_def command_begin_def command_finish_def Let_def response_flat split: sum.splits)
qed

lemma scan_result_flat:
  assumes "scan_result fresh now response c s0 = Some (Inr s)" "10 \<notin> set (rs_stdout response)"
  shows "sc_status s = ScanFailed \<or> sc_status s = ScanSucceeded \<and> sc_updates s = []"
proof -
  have failed: "sc_status s = ScanFailed" if "fail_scan m now s0 = Inr s" for m
    using that by (auto simp: fail_scan_def map_err_Inr_iff scan_transition_to_def split: if_splits)
  show ?thesis
    using assms(1) failed parse_output_flat [OF assms(2)]
    by (auto simp: scan_result_def build_scan_def scan_transition_to_def scan_new_def map_err_Inr_iff bindR_Inr_iff
        split: if_splits option.splits sum.splits)
qed

end
