(* ===== verification/AgentCommandSafety.thy ===== *)
theory AgentCommandSafety
  imports AgentLaws
begin

text \<open>The theorems on the agent's commands, the scans that use them, and its telemetry and configuration.\<close>

section \<open>An example\<close>

definition linux_info :: agent_info where
  "linux_info = \<lparr>ai_agent_id = lit ''a'', ai_platform = PlatformLinux, ai_hostname = lit ''web'',
     ai_version = CARGO_PKG_VERSION, ai_protocol_version = lit ''v1''\<rparr>"

definition linux_agent :: local_agent where
  "linux_agent = local_agent_new 0 linux_info (lit ''token'')"

definition token_headers :: headers where
  "token_headers = [(lit ''authorization'', lit ''Bearer token'')]"

definition no_json :: "str list \<Rightarrow> str option" where
  "no_json ps = (if ps = [] then Some (lit ''[]'') else None)"

definition slow_request :: agent_command_request where
  "slow_request = \<lparr>cq_action = ActionApply, cq_packages = [lit ''openssl''], cq_idempotency_key = lit ''k''\<rparr>"

definition apply_program :: agent_program where
  "apply_program = AptProgram (map lit [''--yes'', ''--only-upgrade'', ''install'', ''openssl''])"

lemma apply_begins:
  "command_begin no_json token_headers slow_request linux_agent =
     (Inr (Inr apply_program), linux_agent\<lparr>la_commands := [(lit ''k'', apply_program)]\<rparr>)"
  by code_simp

lemma linux_agent_reachable: "agent_reachable to_json linux_agent"
  unfolding linux_agent_def by (rule ar_new)

section \<open>Programs\<close>

text \<open>
  C18. Whatever requests and workflow commands an agent gets, every program it ever started for one of
  them (\<open>run_local_command\<close>) is \<open>apt\<close> with fixed arguments, followed for an update by
  package names of which none is an option, or one of the two winget scripts, for an update with
  exact package ids; a program started by a request was authorized with the agent's token, and no
  request updates packages on Windows. The programs the agent starts by itself for telemetry,
  docker, inventories and its service are outside this statement.
\<close>

theorem command_programs_allowed:
  assumes "agent_reachable to_json st"
  shows "list_all (\<lambda>(_, p). allowed_program to_json (ai_platform (la_info st)) p) (la_commands st)
    \<and> (la_commands (snd (command_begin to_json hs r st)) \<noteq> la_commands st \<longrightarrow>
         authorized st hs \<and> (\<exists>p. la_commands (snd (command_begin to_json hs r st)) = la_commands st @ [(cq_idempotency_key r, p)]
           \<and> allowed_program to_json (ai_platform (la_info st)) p \<and> (\<forall>ids. p \<noteq> WingetProgram ApplyScript ids)))"
proof (intro conjI impI)
  show "list_all (\<lambda>(_, p). allowed_program to_json (ai_platform (la_info st)) p) (la_commands st)"
    using agent_reachable_ok [OF assms] by (simp add: agent_ok_def)
next
  assume new: "la_commands (snd (command_begin to_json hs r st)) \<noteq> la_commands st"
  then have check: "agent_command_check hs r st = None"
    by (auto simp: command_begin_def split: option.splits)
  then show "authorized st hs" by (auto simp: agent_command_check_def split: if_splits)
  have safe: "list_all safe_package (cq_packages r)" and
    windows: "\<not> (ai_platform (la_info st) = PlatformWindows \<and> cq_action r = ActionApply)"
    using check by (auto simp: agent_command_check_def intro!: safe_packages split: if_splits)
  obtain p where p: "local_program to_json (ai_platform (la_info st)) (cq_action r) (cq_packages r) = Inr p"
    using new check by (auto simp: command_begin_def split: sum.splits)
  have "p \<noteq> WingetProgram ApplyScript ids" for ids
    using p windows
    by (cases "cq_action r")
      (auto simp: local_program_def windows_winget_invocation_def bindR_Inr_iff map_err_Inr_iff split: if_splits)
  then show "\<exists>p. la_commands (snd (command_begin to_json hs r st)) = la_commands st @ [(cq_idempotency_key r, p)]
      \<and> allowed_program to_json (ai_platform (la_info st)) p \<and> (\<forall>ids. p \<noteq> WingetProgram ApplyScript ids)"
    using check p local_program_allowed [OF p safe] by (simp add: command_begin_def)
qed

theorem command_programs_allowed_witness:
  "la_commands (snd (command_begin no_json token_headers slow_request linux_agent)) = [(lit ''k'', apply_program)]
   \<and> allowed_program no_json PlatformLinux apply_program"
proof -
  have "la_commands linux_agent = []" "ai_platform (la_info linux_agent) = PlatformLinux"
    by (simp_all add: linux_agent_def local_agent_new_def linux_info_def)
  then show ?thesis
    using command_programs_allowed [OF linux_agent_reachable, where hs = token_headers and r = slow_request and to_json = no_json]
      apply_begins
    by auto
qed

section \<open>Repeated commands\<close>

text \<open>
  The answer of a command is remembered: as long as the agent remembers it, the same request is
  answered with the same response, starts nothing and changes nothing, whatever the process would do now.
\<close>

theorem agent_answer_repeats:
  assumes "agent_command to_json execute now hs r st = (CommandReply response, st')"
  shows "agent_command to_json execute2 now2 hs r st' = (CommandReply response, st')"
proof (cases "agent_command_check hs r st")
  case (Some reply)
  then have "st' = st" "reply = CommandReply response"
    using assms by (auto simp: agent_command_def command_begin_def)
  then show ?thesis using Some by (simp add: agent_command_def command_begin_def)
next
  case None
  have keep: "la_token st' = la_token st" "la_info st' = la_info st"
    "hm_get (la_results st') (cq_idempotency_key r) = Some response"
    using assms None
    by (auto simp: agent_command_def command_begin_def command_finish_def remember_def Let_def
        split: sum.splits prod.splits)
  then have "agent_command_check hs r st' = Some (CommandReply response)"
    using None by (simp add: agent_command_check_def authorized_def split: if_splits)
  then show ?thesis by (simp add: agent_command_def command_begin_def)
qed

theorem agent_answer_repeats_witness:
  "fst (agent_command no_json (\<lambda>_. TimedOut) 5 token_headers slow_request
     (snd (agent_command no_json (\<lambda>_. Exited (Some 0) (lit ''done'') []) 1 token_headers slow_request linux_agent)))
   = CommandReply \<lparr>rs_success = True, rs_exit_code = 0, rs_stdout = lit ''done'', rs_stderr = []\<rparr>"
proof -
  let ?x = "agent_command no_json (\<lambda>_. Exited (Some 0) (lit ''done'') []) 1 token_headers slow_request linux_agent"
  have "fst ?x = CommandReply \<lparr>rs_success = True, rs_exit_code = 0, rs_stdout = lit ''done'', rs_stderr = []\<rparr>" by code_simp
  then have "?x = (CommandReply \<lparr>rs_success = True, rs_exit_code = 0, rs_stdout = lit ''done'', rs_stderr = []\<rparr>, snd ?x)"
    by (simp add: prod_eq_iff)
  from agent_answer_repeats [OF this] show ?thesis by simp
qed

text \<open>
  C31. A command that outlives the client's timeout is started again. The answer is remembered only when
  the process has ended, and the client repeats a request that timed out with the same key: after \<open>n\<close>
  attempts the same program was started \<open>n\<close> times, and the client makes one attempt more than it has
  retries (with the default configuration three).
\<close>

theorem slow_command_starts_again:
  assumes "command_begin to_json hs r st = (Inr (Inr program), st1)"
  shows "la_commands (((\<lambda>s. snd (command_begin to_json hs r s)) ^^ n) st) =
      la_commands st @ replicate n (cq_idempotency_key r, program)
    \<and> client_command config (\<lambda>_. HttpFailed) decode r = (Inl ErrTransport, Suc (unat (cc_max_retries config)))"
proof
  have check: "agent_command_check hs r st = None"
    and p: "local_program to_json (ai_platform (la_info st)) (cq_action r) (cq_packages r) = Inr program"
    using assms by (auto simp: command_begin_def split: option.splits sum.splits)
  have same: "agent_command_check hs r (st\<lparr>la_commands := xs\<rparr>) = agent_command_check hs r st" for xs
    by (simp add: agent_command_check_def authorized_def)
  have "((\<lambda>s. snd (command_begin to_json hs r s)) ^^ n) st =
      st\<lparr>la_commands := la_commands st @ replicate n (cq_idempotency_key r, program)\<rparr>"
  proof (induction n)
    case (Suc n)
    then show ?case using check p same by (simp add: command_begin_def replicate_append_same)
  qed simp
  then show "la_commands (((\<lambda>s. snd (command_begin to_json hs r s)) ^^ n) st) =
      la_commands st @ replicate n (cq_idempotency_key r, program)" by simp
  have loop: "request_loop (\<lambda>_. HttpFailed) decode m a = (Inl ErrTransport, Suc m)" if "a \<le> m" for m a
    using that
  proof (induction "m - a" arbitrary: a)
    case (Suc k)
    then show ?case by (subst request_loop.simps) simp
  qed (subst request_loop.simps, simp)
  have "trim (cq_idempotency_key r) \<noteq> []" "\<not> list_ex (\<lambda>p. \<not> safe_package p) (cq_packages r)"
    using check by (auto simp: agent_command_check_def split: if_splits)
  then show "client_command config (\<lambda>_. HttpFailed) decode r = (Inl ErrTransport, Suc (unat (cc_max_retries config)))"
    using loop by (simp add: client_command_def)
qed

theorem slow_command_starts_again_witness:
  "la_commands (((\<lambda>s. snd (command_begin no_json token_headers slow_request s)) ^^ 3) linux_agent) =
     [(lit ''k'', apply_program), (lit ''k'', apply_program), (lit ''k'', apply_program)]"
proof -
  have none: "la_commands linux_agent = []" "cq_idempotency_key slow_request = lit ''k''"
    by (simp_all add: linux_agent_def local_agent_new_def slow_request_def)
  have three: "replicate 3 x = [x, x, x]" for x :: "str \<times> agent_program" by (simp add: numeral_3_eq_3)
  show ?thesis
    using slow_command_starts_again [OF apply_begins, of 3, THEN conjunct1] unfolding none three by simp
qed

section \<open>Scans\<close>

text \<open>
  C32. A scan through an agent never finds an update. The agent sends its listing as one line of at most
  240 characters, but the parser of the server needs a line per field; so a scan that the server runs
  through an agent fails, or it succeeds with no update at all.
\<close>

theorem agent_scan_finds_nothing:
  assumes "agent_reachable to_json agent"
    and "run_scan env (\<lambda>command. case fst (agent_command to_json execute at hs command agent) of
             CommandReply response \<Rightarrow> Inr response
           | ErrorReply status message \<Rightarrow> Inl (ErrApi status message)) fresh begun finished t st = (Some (Inr s), st')"
  shows "sc_status s = ScanFailed \<or> sc_status s = ScanSucceeded \<and> sc_updates s = []"
proof -
  obtain i c command st1 where b: "scan_begin env begun t st = (Inr (i, c, command), st1)"
    and f: "scan_finish fresh finished i c (case fst (agent_command to_json execute at hs command agent) of
             CommandReply response \<Rightarrow> Inr response
           | ErrorReply status message \<Rightarrow> Inl (ErrApi status message)) st1 = (Some (Inr s), st')"
    using assms(2) by (auto simp: run_scan_def split: prod.splits sum.splits)
  obtain response where a: "fst (agent_command to_json execute at hs command agent) = CommandReply response"
    using f by (cases "fst (agent_command to_json execute at hs command agent)") (auto simp: scan_finish_def)
  obtain s0 where r: "scan_result fresh finished response c s0 = Some (Inr s)"
    using f a by (auto simp: scan_finish_def split: option.splits sum.splits)
  have flat: "10 \<notin> set (rs_stdout response)"
    using agent_command_flat [OF agent_reachable_ok [OF assms(1)] a] by (simp add: flat_def)
  show ?thesis by (rule scan_result_flat [OF r flat])
qed

definition scan_ids :: ansible_env where
  "scan_ids = \<lparr>ae_to_vec = (\<lambda>_. []), ae_sha256 = (\<lambda>_. []), ae_uuid_to_string = (\<lambda>_. lit ''scan''),
     ae_uuid_parse = (\<lambda>s. if s = lit ''s'' then Some 9 else None)\<rparr>"

definition scan_lab :: "u64 list \<Rightarrow> scan_state" where
  "scan_lab agents = \<lparr>ns_containers = [101], ns_scans = [scan_new 9 0 101], ns_agents = agents, ns_db = None\<rparr>"

definition openssl_listing :: str where
  "openssl_listing = lit ''openssl/stable 3.1 amd64 [upgradable from: 3.0]''"

definition linux_answer :: "agent_command_request \<Rightarrow> agent_error + agent_command_response" where
  "linux_answer command =
     (case fst (agent_command no_json (\<lambda>_. Exited (Some 0) openssl_listing []) 1 token_headers command linux_agent) of
        CommandReply response \<Rightarrow> Inr response
      | ErrorReply status message \<Rightarrow> Inl (ErrApi status message))"

lemma linux_scan:
  "case fst (run_scan scan_ids linux_answer 8 1 2 (lit ''s'') (scan_lab [101])) of
     Some (Inr s) \<Rightarrow> sc_status s = ScanFailed | _ \<Rightarrow> False"
  "List.map_filter normalize_apt_line [openssl_listing] \<noteq> []"
  by code_simp+

theorem agent_scan_finds_nothing_witness:
  "\<exists>s st'. run_scan scan_ids linux_answer 8 1 2 (lit ''s'') (scan_lab [101]) = (Some (Inr s), st')
     \<and> (sc_status s = ScanFailed \<or> sc_status s = ScanSucceeded \<and> sc_updates s = [])"
proof -
  obtain s st' where run: "run_scan scan_ids linux_answer 8 1 2 (lit ''s'') (scan_lab [101]) = (Some (Inr s), st')"
    using linux_scan(1) by (cases "run_scan scan_ids linux_answer 8 1 2 (lit ''s'') (scan_lab [101])")
      (auto split: option.splits sum.splits)
  have "sc_status s = ScanFailed \<or> sc_status s = ScanSucceeded \<and> sc_updates s = []"
    by (rule agent_scan_finds_nothing [OF linux_agent_reachable run [unfolded linux_answer_def]])
  then show ?thesis using run by blast
qed

lemma find_update_self:
  assumes "List.find (\<lambda>x. sc_id x = i) xs = Some s" "sc_id s1 = i"
  shows "List.find (\<lambda>x. sc_id x = i) (update_first (\<lambda>x. sc_id x = i) (\<lambda>_. s1) xs) = Some s1"
  using assms by (induction xs) (auto split: if_splits)

text \<open>
  C33. A scan whose agent cannot be reached runs forever. The scan is marked as running before the agent
  is looked up and asked; when there is no agent or its answer fails, the scan stays running, and every
  later attempt to run it is refused.
\<close>

theorem unanswered_scan_runs_forever:
  assumes "run_scan env agent fresh begun finished t st = (Some (Inl e), st')" "st' \<noteq> st"
  shows "(\<exists>s \<in> set (ns_scans st'). ae_uuid_parse env t = Some (sc_id s) \<and> sc_status s = ScanRunning)
    \<and> run_scan env agent2 fresh2 begun2 finished2 t st' =
        (Some (Inl (bad_request (lit ''scan_not_runnable'') (lit ''scan is not runnable''))), st')"
proof -
  obtain i where i: "ae_uuid_parse env t = Some i"
    using assms by (cases "ae_uuid_parse env t") (auto simp: run_scan_def scan_begin_def parse_uuid_def)
  obtain s where s: "List.find (\<lambda>x. sc_id x = i) (ns_scans st) = Some s"
    using assms i by (cases "List.find (\<lambda>x. sc_id x = i) (ns_scans st)") (auto simp: run_scan_def scan_begin_def parse_uuid_def)
  have si: "sc_id s = i" using s by (auto simp: find_Some_iff)
  obtain s1 where s1: "scan_transition_to ScanRunning begun s = Inr s1"
    using assms i s by (cases "scan_transition_to ScanRunning begun s") (auto simp: run_scan_def scan_begin_def parse_uuid_def)
  have r: "sc_status s1 = ScanRunning" "sc_id s1 = i"
    using s1 si by (auto simp: scan_transition_to_def split: if_splits)
  let ?st1 = "st\<lparr>ns_scans := update_first (\<lambda>x. sc_id x = i) (\<lambda>_. s1) (ns_scans st)\<rparr>"
  have found: "List.find (\<lambda>x. sc_id x = i) (ns_scans ?st1) = Some s1" using find_update_self [OF s r(2)] by simp
  have failing: "fail_scan m now s1 \<noteq> Inl e" for m now
    using r(1) by (simp add: fail_scan_def scan_transition_to_def)
  have st': "st' = ?st1"
  proof (cases "sc_container_id s \<in> set (ns_agents st)")
    case False
    then show ?thesis using assms(1) i s s1 si by (auto simp: run_scan_def scan_begin_def parse_uuid_def Let_def)
  next
    case True
    have no: "scan_result fresh finished response c s1 \<noteq> Some (Inl e)" for response c
      using failing by (simp add: scan_result_def split: option.splits sum.splits)
    show ?thesis using assms(1) i s s1 si True found no
      by (auto simp: run_scan_def scan_begin_def parse_uuid_def Let_def scan_finish_def split: sum.splits option.splits)
  qed
  have "scan_transition_to ScanRunning now s1 \<noteq> Inr s2" for now s2 using r(1) by (auto simp: scan_transition_to_def split: if_splits)
  then have "scan_begin env begun2 t st' = (Inl (bad_request (lit ''scan_not_runnable'') (lit ''scan is not runnable'')), st')"
    using i found st' by (cases "scan_transition_to ScanRunning begun2 s1") (auto simp: scan_begin_def parse_uuid_def)
  moreover have "s1 \<in> set (ns_scans st')" using st' nth_mem by (metis found find_Some_iff)
  ultimately show ?thesis using i r by (auto simp: run_scan_def)
qed

lemma no_agent_scan:
  "fst (run_scan scan_ids linux_answer 8 1 2 (lit ''s'') (scan_lab [])) =
     Some (Inl (dependency (lit ''agent_unavailable'') (lit ''no agent is registered for this container'')))"
  "map sc_status (ns_scans (snd (run_scan scan_ids linux_answer 8 1 2 (lit ''s'') (scan_lab [])))) = [ScanRunning]"
  "map sc_status (ns_scans (scan_lab [])) = [ScanPending]"
  by code_simp+

theorem unanswered_scan_runs_forever_witness:
  "fst (run_scan scan_ids linux_answer 8 3 4 (lit ''s'')
     (snd (run_scan scan_ids linux_answer 8 1 2 (lit ''s'') (scan_lab [])))) =
     Some (Inl (bad_request (lit ''scan_not_runnable'') (lit ''scan is not runnable'')))"
proof -
  let ?x = "run_scan scan_ids linux_answer 8 1 2 (lit ''s'') (scan_lab [])"
  have run: "?x = (Some (Inl (dependency (lit ''agent_unavailable'') (lit ''no agent is registered for this container''))), snd ?x)"
    using no_agent_scan(1) by (simp add: prod_eq_iff)
  have "snd ?x \<noteq> scan_lab []"
  proof
    assume same: "snd ?x = scan_lab []"
    show False using no_agent_scan(2,3) unfolding same by simp
  qed
  from unanswered_scan_runs_forever [OF run this] show ?thesis by simp
qed

section \<open>Telemetry\<close>

lemma unat_basis_points:
  "unat (basis_points part whole) = min (min (unat part * 10000) (2 ^ 64 - 1) div unat whole) 10000"
proof -
  let ?q = "saturating_mul_u64 part 10000 div whole"
  have q: "unat ?q = min (unat part * 10000) (2 ^ 64 - 1) div unat whole"
    by (simp add: unat_div unat_saturating_mul_u64)
  have m: "unat (min ?q 10000) = min (unat ?q) 10000"
    by (simp add: min_def word_le_nat_alt)
  have "unat (ucast (min ?q 10000) :: u16) = unat (min ?q 10000)"
    using m by (simp add: unsigned_ucast_eq take_bit_nat_eq_self)
  then show ?thesis unfolding basis_points_def m q .
qed

text \<open>
  The controller never rejects the processor and memory shares of a Linux agent: whatever
  \<open>/proc\<close> holds, they are at most 10000 basis points, so a sample with an admissible storage share is
  not out of range; and the memory share is the used part of the memory, rounded down.
\<close>

theorem linux_sample_in_range:
  assumes "\<not> above_limit 10000 (pr_storage_basis_points input)"
  shows "judge_sample received_at sent_at (fst (telemetry_from_proc parse_load input)) \<noteq> OutOfRange
    \<and> (\<forall>whole available. meminfo_value (pr_meminfo input) (lit ''MemTotal:'') = Some whole \<longrightarrow>
         meminfo_value (pr_meminfo input) (lit ''MemAvailable:'') = Some available \<longrightarrow>
         available \<le> whole \<longrightarrow> 0 < whole \<longrightarrow> unat whole * 10000 < 2 ^ 64 \<longrightarrow>
         map_option unat (ss_memory_basis_points (fst (telemetry_from_proc parse_load input))) =
           Some ((unat whole - unat available) * 10000 div unat whole))"
proof (intro conjI allI impI)
  have small: "\<not> above_limit 10000 (Some (basis_points a b))" for a b
    by (simp add: above_limit_def word_less_nat_alt unat_basis_points)
  have "\<not> above_limit 10000 (cpu_basis_points x y)" "\<not> above_limit 10000 (memory_basis_points m)" for x y m
    using small by (auto simp: cpu_basis_points_def memory_basis_points_def Let_def above_limit_def split: option.splits)
  then show "judge_sample received_at sent_at (fst (telemetry_from_proc parse_load input)) \<noteq> OutOfRange"
    using assms by (simp add: judge_sample_def telemetry_from_proc_def Let_def)
next
  fix whole available
  assume "meminfo_value (pr_meminfo input) (lit ''MemTotal:'') = Some whole"
    "meminfo_value (pr_meminfo input) (lit ''MemAvailable:'') = Some available"
    and le: "available \<le> whole" and pos: "0 < whole" and fits: "unat whole * 10000 < 2 ^ 64"
  moreover have "max whole 1 = whole" using inc_le [OF pos] by (simp add: max_absorb1)
  moreover have "unat (whole - available) = unat whole - unat available" by (rule unat_sub [OF le])
  moreover have "(unat whole - unat available) * 10000 div unat whole \<le> 10000"
    by (rule div_le_mono [of "(unat whole - unat available) * 10000" "unat whole * 10000" "unat whole", THEN order_trans]) auto
  moreover have "(unat whole - unat available) * 10000 \<le> 2 ^ 64 - 1"
    using fits by (intro order_trans [OF mult_le_mono1 [of "unat whole - unat available" "unat whole" 10000]]) auto
  ultimately show "map_option unat (ss_memory_basis_points (fst (telemetry_from_proc parse_load input))) =
      Some ((unat whole - unat available) * 10000 div unat whole)"
    by (simp add: telemetry_from_proc_def Let_def memory_basis_points_def unat_basis_points saturating_sub_u64_def min_absorb1)
qed

definition proc_lab :: proc_input where
  "proc_lab = \<lparr>pr_meminfo = lit ''MemTotal: 4000 kB'' @ 10 # lit ''MemAvailable: 1000 kB'', pr_loadavg = [], pr_stat = [],
     pr_network = [], pr_storage_basis_points = Some 9000, pr_process_count = None, pr_previous_cpu = None,
     pr_collected_at = 0\<rparr>"

lemma proc_lab_memory:
  "meminfo_value (pr_meminfo proc_lab) (lit ''MemTotal:'') = Some 4000"
  "meminfo_value (pr_meminfo proc_lab) (lit ''MemAvailable:'') = Some 1000"
  "\<not> above_limit 10000 (pr_storage_basis_points proc_lab)"
  by code_simp+

theorem linux_sample_in_range_witness:
  "judge_sample 0 0 (fst (telemetry_from_proc (\<lambda>_. None) proc_lab)) \<noteq> OutOfRange
   \<and> map_option unat (ss_memory_basis_points (fst (telemetry_from_proc (\<lambda>_. None) proc_lab))) = Some 7500"
  using linux_sample_in_range [OF proc_lab_memory(3), of 0 0 "\<lambda>_. None"] proc_lab_memory(1,2)
  by (simp add: word_le_nat_alt word_less_nat_alt)

section \<open>Configuration\<close>

lemma allowed_variable_shape:
  "k \<in> set allowed_variables \<Longrightarrow> k \<noteq> [] \<and> \<not> is_whitespace (hd k) \<and> ch CHR ''='' \<notin> set k \<and> 10 \<notin> set k"
proof -
  have "list_all (\<lambda>k. k \<noteq> [] \<and> \<not> is_whitespace (hd k) \<and> ch CHR ''='' \<notin> set k \<and> 10 \<notin> set k) allowed_variables"
    by code_simp
  then show "k \<in> set allowed_variables \<Longrightarrow> ?thesis" by (simp add: list_all_iff)
qed

definition variable_line :: "str \<times> str \<Rightarrow> str" where
  "variable_line kv = fst kv @ ch CHR ''='' # snd kv"

definition variable_ok :: "str \<times> str \<Rightarrow> bool" where
  "variable_ok kv \<longleftrightarrow> fst kv \<in> set allowed_variables \<and> snd kv \<noteq> [] \<and> trim (snd kv) = snd kv \<and> 10 \<notin> set (snd kv)"

lemma variable_line_clean:
  assumes "variable_ok kv"
  shows "clean_line (variable_line kv)" "trim (variable_line kv) = variable_line kv"
proof -
  have ends: "\<not> is_whitespace (last (snd kv))" using assms trim_ends [of "snd kv"] by (simp add: variable_ok_def)
  have cr: "is_whitespace 13" and nl: "ch CHR ''='' \<noteq> 10" by code_simp+
  show "clean_line (variable_line kv)"
    using assms allowed_variable_shape [of "fst kv"] ends cr nl
    by (auto simp: clean_line_def variable_line_def variable_ok_def)
  show "trim (variable_line kv) = variable_line kv"
    using assms allowed_variable_shape [of "fst kv"] ends
    by (intro trim_fixed) (auto simp: variable_line_def variable_ok_def)
qed

lemma environment_lines:
  assumes "list_all variable_ok kvs" "distinct (map fst (m @ kvs))"
  shows "fold_result environment_line (map variable_line kvs) m = Inr (m @ kvs)"
  using assms
proof (induction kvs arbitrary: m)
  case (Cons kv kvs)
  have ok: "variable_ok kv" and new: "fst kv \<notin> fst ` set m" using Cons.prems by auto
  have split: "split_once (ch CHR ''='') (variable_line kv) = Some (fst kv, snd kv)"
    unfolding split_once_Some_iff using ok allowed_variable_shape [of "fst kv"] by (simp add: variable_line_def variable_ok_def)
  have get: "map_of m (fst kv) = None" using new by (simp add: map_of_eq_None_iff)
  have "AList.update (fst kv) (snd kv) m = m @ [kv]" using new by (induction m) auto
  then have "environment_line (variable_line kv) m = Inr (m @ [kv])"
    using ok get split by (cases kv) (simp add: environment_line_def variable_ok_def hm_contains_key_def hm_get_def hm_insert_def)
  then show ?case using Cons.IH [of "m @ [kv]"] Cons.prems by simp
qed simp

text \<open>
  The service configuration of an agent is read back as it was written: distinct allowed
  variables, each with a value on one line without surrounding blanks, written one per line, are the
  result of parsing that text.
\<close>

theorem agent_environment_roundtrip:
  assumes "list_all variable_ok kvs" "distinct (map fst kvs)"
  shows "parse_agent_environment (Apt.join_lines (map variable_line kvs)) = Inr kvs"
proof -
  have clean: "list_all clean_line (map variable_line kvs)" "map trim (map variable_line kvs) = map variable_line kvs"
    using assms(1) by (auto simp: list_all_iff variable_line_clean)
  have "lines (Apt.join_lines (map variable_line kvs)) = map variable_line kvs"
    using clean(1) by (cases "kvs = []") (simp_all add: lines_join_lines, simp add: lines_def)
  moreover have "filter (\<lambda>line. line \<noteq> []) (map variable_line kvs) = map variable_line kvs"
    by (simp add: filter_id_conv variable_line_def)
  ultimately show ?thesis
    using environment_lines [of kvs "[]"] assms clean(2) by (simp add: parse_agent_environment_def del: map_map)
qed

definition variables_lab :: "(str \<times> str) list" where
  "variables_lab = [(lit ''LXCUP_AGENT_TOKEN'', lit ''a=b''), (lit ''LXCUP_AGENT_ID'', lit ''web'')]"

lemma variables_lab_ok: "list_all variable_ok variables_lab" "distinct (map fst variables_lab)"
  by code_simp+

theorem agent_environment_roundtrip_witness:
  "parse_agent_environment (Apt.join_lines (map variable_line variables_lab)) = Inr variables_lab"
  by (rule agent_environment_roundtrip [OF variables_lab_ok])

end
