(* ===== verification/Spec2Isabelle.thy ===== *)
theory Spec2Isabelle
  imports
    Coordinator
    AnsibleSafety
    Schedule
    AgentSafety
    SecretLaws
    Safety
    CoreSafety
    AccountLaws
    RequestLaws
    JobStoreLaws
    PackageLaws
    HeartbeatLaws
    WindowsLaws
    InventoryLaws
    WorkerLaws
    WorkerData
    ExecutionSafety
    OnboardingSafety
    AgentCommandSafety
begin

text \<open>
  \<^bold>\<open>lxcup: a verification library\<close>

  lxcup manages package updates of Proxmox containers, Linux hosts and Windows hosts. The library
  models the decision logic of the Rust workspace under \<open>src/crates\<close> and proves what it
  guarantees. Every operation is a HOL function with the names of the source; the theorems are
  about these functions.

  \<^bold>\<open>The program.\<close> An agent on a managed host answers requests for package listings and container
  data and sends heartbeats with telemetry (\<open>lxcup-agent\<close>). The server (\<open>lxcup-server\<close>) keeps
  targets, containers, plans, schedules and policies in memory and in tables (\<open>lxcup-persistence\<close>),
  authenticates users and audits what they change. It parses listings into scans (\<open>lxcup-apt\<close>), makes
  a dry run into a plan (\<open>lxcup-planner\<close>), lets a user confirm it, and the execution coordinator
  (\<open>lxcup-execution\<close>) revalidates the plan and runs it at most once through the container's agent.
  Deployments, inventories and package updates of hosts are allowlisted Ansible jobs
  (\<open>lxcup-ansible\<close>): handlers, the scheduler, onboarding and enrollments queue them, a worker
  (\<open>lxcup-ansible-worker\<close>) or a Windows agent claims them from the job table and reports the
  outcome. Credentials lie in one of four secret stores (\<open>lxcup-secrets\<close>). Records, status machines,
  permissions, schedules, policies and alert rules are shared data of \<open>lxcup-core\<close>; pre-flight and
  post-flight checks are in \<open>lxcup-safety\<close>.

  \<^bold>\<open>Theories and sources.\<close> A component has a theory with its records and operations (one definition
  per function of the source) and one or more theories with its laws and theorems.

  \<^item> Shared: \<open>Prelude\<close> (strings as lists of Unicode scalar values, machine words, results \<open>'e + 'a\<close> with
    their bind, string functions of the standard library, hash maps with their lookup equations;
    collections \<open>str_simps\<close>, \<open>hm_simps\<close>), \<open>Strings\<close>, \<open>Utf8\<close>, \<open>Json\<close>; \<open>Lifecycle\<close>: the locale
    \<open>status_machine\<close>, the contract of every \<open>transition_to\<close>, interpreted for containers,
    environments, enrollments, scans, executions, plans and Ansible jobs; \<open>EventLog\<close>: the locale
    \<open>event_log\<close>, the contract of the append operation of both coordinators.
  \<^item> \<open>lxcup-core/src\<close>: \<open>CoreErrors\<close> (\<open>error.rs\<close>), \<open>Resources\<close> (\<open>resource.rs\<close>, \<open>target.rs\<close>,
    \<open>container.rs\<close>), \<open>Connections\<close> (\<open>node.rs\<close>, \<open>environment.rs\<close>, \<open>enrollment.rs\<close>, \<open>agent.rs\<close>,
    \<open>secret.rs\<close>), \<open>Updates\<close> (\<open>update.rs\<close>, \<open>package_inventory.rs\<close>, \<open>scan.rs\<close>, \<open>execution.rs\<close>,
    \<open>plan.rs\<close>), \<open>Schedule\<close> (\<open>schedule.rs\<close>, \<open>policy.rs\<close>, \<open>telemetry_alerts.rs\<close>); properties in
    \<open>CoreSafety\<close>.
  \<^item> Coordinators and parsers: \<open>Planner\<close>, \<open>Coordinator\<close> (\<open>lxcup-execution\<close>; \<open>coord_step\<close> and
    \<open>coord_reachable\<close> are the call sequences of a program), \<open>AnsibleJobs\<close>, \<open>AnsibleInvariants\<close>,
    \<open>AnsibleSafety\<close> (\<open>lxcup-ansible\<close>), \<open>Apt\<close>, \<open>Safety\<close>, \<open>AgentParsers\<close>, \<open>AgentSafety\<close> (\<open>parsers.rs\<close>,
    \<open>package_inventory.rs\<close> of the agent).
  \<^item> \<open>Secrets\<close>, \<open>SecretLaws\<close>: \<open>lxcup-secrets\<close> over an explicit file system in which every call may
    fail; the locale \<open>secret_store\<close> is the contract of the \<open>SecretStore\<close> trait.
  \<^item> Accounts: \<open>ServerBase\<close> (\<open>errors.rs\<close>, availability of the database), \<open>AccountStore\<close>,
    \<open>AccountLaws\<close> (\<open>repositories/auth.rs\<close>), \<open>UserAuth\<close>, \<open>AuthLaws\<close> (\<open>user_auth.rs\<close>, \<open>user_admin.rs\<close>),
    \<open>RequestAuth\<close>, \<open>RequestLaws\<close> (\<open>inventory/auth.rs\<close>, the middleware around an arbitrary handler).
  \<^item> Jobs: \<open>JobStore\<close>, \<open>JobStoreLaws\<close> (\<open>repositories/ansible_jobs.rs\<close>), \<open>ServerState\<close>, \<open>PackagePolicy\<close>,
    \<open>PackageLaws\<close> (\<open>workflows/package_policy.rs\<close>, \<open>workflows/jobs.rs\<close>), \<open>WindowsWorkflows\<close>,
    \<open>WindowsLaws\<close> (\<open>windows_agent_workflows.rs\<close>).
  \<^item> Telemetry: \<open>Heartbeat\<close>, \<open>HeartbeatLaws\<close> (the buffers of \<open>lxcup-agent/src/lib.rs\<close> under the locale
    \<open>sample_buffer\<close>, and \<open>targets/heartbeat.rs\<close>).
  \<^item> Inventory and scheduler: \<open>ControllerStore\<close> (the record \<open>controller\<close> of \<open>ApiStore\<close> with its
    tables), \<open>ScheduleApi\<close> (\<open>schedules.rs\<close>, \<open>policies.rs\<close>), \<open>TargetApi\<close> (\<open>targets.rs\<close>,
    \<open>target_credentials.rs\<close>), \<open>ScheduledJobs\<close> (\<open>scheduled_jobs.rs\<close> and the scheduler of \<open>lib.rs\<close>);
    \<open>ControllerLaws\<close>, \<open>ScheduleLaws\<close>, \<open>InventoryLaws\<close>.
  \<^item> Worker: \<open>WorkerOutput\<close> (what it reads out of the text of \<open>ansible-playbook\<close>), \<open>Worker\<close> (state,
    claim loop, one run of a job), \<open>WorkerSteps\<close> (the locales \<open>step_relation\<close> and \<open>worker_inv\<close>, which
    carry relations and invariants through the sequencing of its fallible steps), \<open>WorkerTrace\<close>,
    \<open>WorkerExamples\<close>, \<open>WorkerLaws\<close>, \<open>WorkerData\<close>.
  \<^item> Plans and executions of the server: \<open>ExecutionApi\<close> (\<open>inventory/execution.rs\<close> with the tables of
    \<open>plans.rs\<close> and \<open>executions.rs\<close>; the call of the coordinator and the later write to the list the
    API shows are two operations, \<open>..._begin\<close> and \<open>store_execution\<close>, because no lock spans them),
    \<open>ExecutionLaws\<close> (\<open>exec_step\<close>, \<open>exec_reachable\<close>, in which these operations interleave, and the
    invariant), \<open>ExecutionSafety\<close>.
  \<^item> Onboarding: \<open>Onboarding\<close> (\<open>workflows/reconciliation.rs\<close>, \<open>workflows/enrollment.rs\<close>,
    \<open>queue_enrollment_job\<close>), \<open>OnboardingLaws\<close>, \<open>EnrollmentLaws\<close>, \<open>OnboardingSafety\<close>.
  \<^item> Agent: \<open>AgentService\<close> (\<open>agent_routes.rs\<close> and the client and local state of \<open>lib.rs\<close>), \<open>AgentHost\<close>
    (\<open>main.rs\<close> and the heartbeat of \<open>workflow_client.rs\<close>), \<open>ScanApi\<close> (the scans of \<open>inventory.rs\<close> in the
    server), \<open>AgentLaws\<close> (\<open>agent_step\<close>, \<open>agent_reachable\<close> and the invariant), \<open>AgentCommandSafety\<close>.

  \<^bold>\<open>What the theorems show.\<close>

  \<^item> Update path: only a confirmed plan whose dry run has the same content hash starts an execution;
    the executor, which acts on a state of its own, is invoked once per run of a queued execution and
    never otherwise; final executions never change; the plan hash stands for the
    plan's content up to order; the command passed to apt has no injected option. The handlers of the
    server refine the coordinator, the executions they show follow it with a delay, and an execution
    sends at most one command to an agent under every interleaving; but a late write can show an ended
    execution as running, the server compares a plan only with itself, loses a plan whose
    confirmation is rejected, and records a lost answer as a failure.
  \<^item> Ansible jobs: the contract of a job and its immutability, consistency of the coordinator in every
    reachable state, mutual exclusion per target for calls that end a job only through the lock's
    owner, with the call sequence that breaks it otherwise. A claim takes only a queued job of a free
    target, whatever earlier snapshot it saw, and changes only this job; a package update is applied
    only under a matching, approved, unused plan inside its policy. A plan is applied at most once when
    requests are handled one after the other, but two requests served at the same time can both be
    stored.
  \<^item> Worker: a run starts at most one playbook, an apply only after its row says so, every other mode
    only with preview arguments; processing settles a job and never panics; recovery leaves nothing
    executing and changes no other row; the claim loop ends once the other writers of the job tables
    stop queueing jobs; logs hold no credential (without square brackets); only verified binaries are
    deployed.
  \<^item> Agent: commands start only allowed programs with safe arguments, and a remembered answer repeats
    without a new process; but a command that outlives the timeout of the client is started again,
    a scan through an agent never finds an update, and an unanswered scan stays running.
  \<^item> Access: with account authentication, a handler runs only for an authorized request and a mutation
    is audited before it runs; an enabled administrator always remains, revoked sessions never return.
  \<^item> Inventory: from empty tables, without a restart and with requests one after the other, ids and
    references of targets, schedules and policies stay consistent in memory and in
    the tables; a deletion removes a target with its references except its package inventory in
    memory; a pass of the scheduler only checks and plans, and advances what
    it served. Follow-up jobs of onboarding are checks that were due; enrollments keep a consistent
    registry and report a connection only after the deployment succeeded.
  \<^item> Secrets, parsers, core: without faults of the file system the stores refine one abstract map of
    secrets; print/parse round trips;
    permissions, retry delays at machine width, the advance loop of schedules, maintenance windows,
    alerts against a specification by runs.

  \<^bold>\<open>Parameters.\<close> Code outside the repository is an argument: SHA-256, \<open>serde_json\<close>, UUID text, PBKDF2
  and the cipher are the function fields of \<open>hash_env\<close>, \<open>ansible_env\<close>, \<open>auth_env\<close> and \<open>secret_env\<close>. Which
  database calls are answered is the argument \<open>up\<close>; a claim gets the snapshot and the locked rows it
  sees; secret readers, docker discovery and backups of the scheduler (\<open>dispatch_env\<close>), the answers
  of agents and the outcomes of their processes, network probes and file system faults are
  arguments of the calls; for the worker \<open>worker_env\<close> answers by the number of the call, so every
  sequence of answers is covered. The clock and fresh ids are arguments too. Hypotheses about
  parameters (an injective encoding, a cipher that decrypts what it encrypted, fresh ids that are
  new) are premises of the theorems that need them, and the witnesses instantiate them with
  concrete functions.

  \<^bold>\<open>Bounds.\<close> No definition uses fuel. Loops are structural or have a termination proof, except the
  worker's claim loop \<open>process\<close>, a partial function whose termination is a theorem; what other
  processes do to the job tables between its rounds is an argument. Retry delays,
  ports, ids, telemetry counters and the 32-bit sums of recap counters keep their machine
  width; exit codes are integers, on which the code does no arithmetic. Sequence numbers of events are the length of a vector plus one and are natural numbers.
  Timestamps are unbounded integers of nanoseconds; the range check of the \<open>chrono\<close> crate is not
  modelled. Handlers are atomic steps unless their theory says otherwise: the execution handlers, the
  agent's commands, the claims and the creation of a job are split where the code
  releases its locks. Lock poisoning is modelled
  where the code handles it as an error (the in-memory secret store).

  \<^bold>\<open>Not modelled.\<close> The agent's router, docker client, Windows workflow poller, Windows
  telemetry and service, and its floating-point docker statistics (process, HTTP and service calls);
  the terminal (\<open>terminal\<close>: SSH
  and WebSocket streams); the content of backups (archives, encryption, \<open>pg_dump\<close>); the router, the
  read-only listings, the registration of container agents and the secret handlers of the server;
  connection set-up, the restoring of the tables at a start, and the tables that only store and list records; \<open>lxcup-cli\<close>,
  \<open>lxcup-observability\<close> and \<open>lxcup-test-support\<close>. Log lines, metrics and published events, which no
  handler reads back, are left out everywhere.
\<close>

end
